(* ===== verification/Decimal.thy ===== *)
theory Decimal
  imports JsText
begin

text \<open>
  Exact fixed-scale decimals (\<open>src/modules/stock/decimal.ts\<close>). A JavaScript argument of type
  \<open>string | number\<close> is modelled by its text \<open>String(value)\<close>; a \<open>BigInt\<close> is an \<open>int\<close>. The
  regular expression of \<open>parseFixed\<close> is \<open>match_fixed\<close>: an optional sign, digits, and an optional
  point with at least one digit. The locale \<open>fixed_codec\<close> is the contract of a printer and reader
  of scaled integers, proved here for the two scales of the stock tables.
\<close>

datatype decimal_error =
    InvalidScale
  | InvalidDecimal
  | ExceedsPrecision

definition match_unsigned :: "string \<Rightarrow> (string \<times> string option) option" where
  "match_unsigned rest =
     (let whole = takeWhile is_digit rest; tl = dropWhile is_digit rest
      in if whole = [] then None
         else (case tl of
                 [] \<Rightarrow> Some (whole, None)
               | c # fr \<Rightarrow>
                   if c = CHR ''.'' \<and> fr \<noteq> [] \<and> list_all is_digit fr
                   then Some (whole, Some fr) else None))"

definition match_fixed :: "string \<Rightarrow> (bool \<times> string \<times> string option) option" where
  "match_fixed src =
     (case src of
        [] \<Rightarrow> None
      | c # cs \<Rightarrow>
          if c = CHR ''-'' then map_option (Pair True) (match_unsigned cs)
          else if c = CHR ''+'' then map_option (Pair False) (match_unsigned cs)
          else map_option (Pair False) (match_unsigned (c # cs)))"

definition parseFixed :: "string \<Rightarrow> nat \<Rightarrow> decimal_error + int" where
  "parseFixed value scale =
     (if scale > 12 then Inl InvalidScale
      else (case match_fixed (trim value) of
              None \<Rightarrow> Inl InvalidDecimal
            | Some (neg, whole, fr) \<Rightarrow>
                (let fraction = (case fr of Some f \<Rightarrow> f | None \<Rightarrow> []) in
                 if length fraction > scale \<and> \<not> list_all (\<lambda>c. c = CHR ''0'') (drop scale fraction)
                 then Inl ExceedsPrecision
                 else (let padded = pad_end scale (take scale fraction);
                           magnitude = int (digits_val whole) * 10 ^ scale + int (digits_val padded)
                       in Inr (if neg then - magnitude else magnitude)))))"

definition formatFixed :: "int \<Rightarrow> nat \<Rightarrow> string" where
  "formatFixed value scale =
     (let negative = value < 0;
          magnitude = nat (if negative then - value else value);
          divisor = 10 ^ scale;
          whole = magnitude div divisor;
          sgn = (if negative then ''-'' else [])
      in if scale = 0 then sgn @ nat_str whole
         else sgn @ nat_str whole @ ''.'' @ pad_start scale (nat_str (magnitude mod divisor)))"

definition normalizeFixed :: "string \<Rightarrow> nat \<Rightarrow> decimal_error + string" where
  "normalizeFixed value scale = bindE (parseFixed value scale) (\<lambda>v. Inr (formatFixed v scale))"

text \<open>
  \<open>BigInt\<close> remainder and division truncate; here the remainder is only compared with zero and the
  division is taken only where it is exact, so \<open>mod\<close> and \<open>div\<close> give the same results.
\<close>

definition multiplyFixedExact ::
  "string \<Rightarrow> nat \<Rightarrow> string \<Rightarrow> nat \<Rightarrow> nat \<Rightarrow> decimal_error + string" where
  "multiplyFixedExact left leftScale right rightScale outputScale =
     bindE (parseFixed left leftScale) (\<lambda>l.
     bindE (parseFixed right rightScale) (\<lambda>r.
       let product = l * r; productScale = leftScale + rightScale in
       if productScale < outputScale
       then Inr (formatFixed (product * 10 ^ (outputScale - productScale)) outputScale)
       else let divisor = 10 ^ (productScale - outputScale) in
            if product mod divisor \<noteq> 0 then Inl ExceedsPrecision
            else Inr (formatFixed (product div divisor) outputScale)))"

text \<open>The equations that evaluate text on concrete strings.\<close>

lemmas text_eval =
  trim_def is_space_def code_of_def to_lower_def lower_char_def is_digit_def digit_val_def digit_chars replicate_num
  digits_val_def pad_start_def pad_end_def match_unsigned_def match_fixed_def nat_str_digit nat_str_more

lemmas fixed_eval = parseFixed_def formatFixed_def normalizeFixed_def multiplyFixedExact_def text_eval

section \<open>Reading back what was printed\<close>

lemma dropWhile_digits: "list_all is_digit w \<Longrightarrow> dropWhile is_digit w = []"
  by (induction w) auto

lemma match_unsigned_whole: "w \<noteq> [] \<Longrightarrow> list_all is_digit w \<Longrightarrow> match_unsigned w = Some (w, None)"
  by (simp add: match_unsigned_def takeWhile_digits dropWhile_digits del: dropWhile_eq_Nil_conv)

lemma take_drop_digits:
  assumes "list_all is_digit w"
  shows "takeWhile is_digit (w @ CHR ''.'' # f) = w" "dropWhile is_digit (w @ CHR ''.'' # f) = CHR ''.'' # f"
proof -
  have "\<not> is_digit (CHR ''.'')" by (simp add: is_digit_def code_of_def)
  with assms show "takeWhile is_digit (w @ CHR ''.'' # f) = w"
    "dropWhile is_digit (w @ CHR ''.'' # f) = CHR ''.'' # f"
    by (induction w) auto
qed

lemma match_unsigned_point:
  assumes "w \<noteq> []" "list_all is_digit w" "f \<noteq> []" "list_all is_digit f"
  shows "match_unsigned (w @ CHR ''.'' # f) = Some (w, Some f)"
  using assms take_drop_digits [OF assms(2), of f] by (simp add: match_unsigned_def)

lemma match_fixed_unsigned:
  "s \<noteq> [] \<Longrightarrow> is_digit (hd s) \<Longrightarrow> match_fixed s = map_option (Pair False) (match_unsigned s)"
  by (cases s) (auto simp: match_fixed_def dest: digit_not_sign)

lemma match_fixed_minus: "match_fixed (CHR ''-'' # s) = map_option (Pair True) (match_unsigned s)"
  by (simp add: match_fixed_def)

lemma trim_cons_sign:
  "s \<noteq> [] \<Longrightarrow> trim s = s \<Longrightarrow> \<not> is_space (last s) \<Longrightarrow> trim (CHR ''-'' # s) = CHR ''-'' # s"
  by (rule trim_id) (auto simp: is_space_def code_of_def)

definition fixed_body :: "nat \<Rightarrow> nat \<Rightarrow> string" where
  "fixed_body m scale =
     nat_str (m div 10 ^ scale) @
     (if scale = 0 then [] else CHR ''.'' # pad_start scale (nat_str (m mod 10 ^ scale)))"

lemma formatFixed_body:
  "formatFixed v scale = (if v < 0 then CHR ''-'' # fixed_body (nat (- v)) scale else fixed_body (nat v) scale)"
  by (auto simp: formatFixed_def fixed_body_def Let_def)

lemma length_frac: "0 < scale \<Longrightarrow> length (pad_start scale (nat_str (m mod 10 ^ scale))) = scale"
  using length_nat_str [of "m mod 10 ^ scale" scale] by (simp add: length_pad_start max_def)

lemma frac_nonempty: "0 < scale \<Longrightarrow> pad_start scale (nat_str n) \<noteq> []"
  by (simp add: pad_start_def)

lemma match_fixed_body:
  "match_unsigned (fixed_body m scale) =
     Some (nat_str (m div 10 ^ scale),
           if scale = 0 then None else Some (pad_start scale (nat_str (m mod 10 ^ scale))))"
  by (cases "scale = 0") (simp_all add: fixed_body_def match_unsigned_whole match_unsigned_point frac_nonempty)

lemma fixed_body_nonempty [simp]: "fixed_body m scale \<noteq> []"
  by (simp add: fixed_body_def)

lemma fixed_body_ends: "is_digit (hd (fixed_body m scale))" "is_digit (last (fixed_body m scale))"
proof -
  have h: "list_all is_digit (nat_str (m div 10 ^ scale))" by simp
  have f: "list_all is_digit (pad_start scale (nat_str (m mod 10 ^ scale)))" by simp
  show "is_digit (hd (fixed_body m scale))"
    using h by (auto simp: fixed_body_def list_all_iff)
  show "is_digit (last (fixed_body m scale))"
    using h f frac_nonempty [of scale] by (auto simp: fixed_body_def list_all_iff)
qed

lemma trim_fixed_body: "trim (fixed_body m scale) = fixed_body m scale"
  using fixed_body_ends [of m scale] by (intro trim_id) (auto dest: digit_not_space)

lemma trim_formatFixed: "trim (formatFixed v scale) = formatFixed v scale"
  using fixed_body_ends [of "nat (- v)" scale]
  by (auto simp: formatFixed_body trim_fixed_body intro!: trim_cons_sign dest: digit_not_space)

lemma match_formatFixed:
  "match_fixed (formatFixed v scale) =
     Some (v < 0, nat_str (nat \<bar>v\<bar> div 10 ^ scale),
           if scale = 0 then None else Some (pad_start scale (nat_str (nat \<bar>v\<bar> mod 10 ^ scale))))"
  by (cases "v < 0")
     (simp_all add: formatFixed_body match_fixed_minus match_fixed_unsigned fixed_body_ends match_fixed_body)

lemma parse_format_fixed [simp]: "scale \<le> 12 \<Longrightarrow> parseFixed (formatFixed v scale) scale = Inr v"
proof -
  assume s: "scale \<le> 12"
  let ?m = "nat \<bar>v\<bar>"
  let ?f = "pad_start scale (nat_str (?m mod 10 ^ scale))"
  have pad: "0 < scale \<Longrightarrow> pad_end scale (take scale ?f) = ?f"
    by (simp add: length_frac pad_end_def)
  have mag: "int (?m div 10 ^ scale) * 10 ^ scale + int (?m mod 10 ^ scale) = \<bar>v\<bar>"
    using div_mult_mod_eq [of "\<bar>v\<bar>" "10 ^ scale"] by (simp add: zdiv_int zmod_int)
  show ?thesis
  proof (cases "scale = 0")
    case True
    with mag show ?thesis
      by (simp add: parseFixed_def trim_formatFixed match_formatFixed pad_end_def Let_def)
  next
    case False
    with s pad mag show ?thesis
      by (cases "v < 0")
         (simp_all add: parseFixed_def trim_formatFixed match_formatFixed length_frac Let_def)
  qed
qed

lemma normalizeFixed_Inr_iff [res_iff]:
  "normalizeFixed x scale = Inr y \<longleftrightarrow> (\<exists>v. parseFixed x scale = Inr v \<and> y = formatFixed v scale)"
  by (auto simp: normalizeFixed_def res_iff)

lemma parseFixed_scale: "parseFixed x scale = Inr v \<Longrightarrow> scale \<le> 12"
  by (auto simp: parseFixed_def split: if_splits)

section \<open>Exact products\<close>

text \<open>
  \<open>multiplyFixedExact\<close> either returns the product exactly or refuses: no rounding. The product
  \<open>a/10^ls * b/10^rs\<close> equals \<open>p/10^os\<close> as the cross-multiplied integers.
\<close>

lemma multiplyFixedExact_exact:
  assumes "multiplyFixedExact l ls r rs os = Inr s"
  obtains a b p where "parseFixed l ls = Inr a" "parseFixed r rs = Inr b" "s = formatFixed p os"
    "a * b * 10 ^ os = p * 10 ^ (ls + rs)"
proof -
  from assms obtain a b where ab: "parseFixed l ls = Inr a" "parseFixed r rs = Inr b"
    by (auto simp: multiplyFixedExact_def res_iff)
  show ?thesis
  proof (cases "ls + rs < os")
    case True
    with assms ab have "s = formatFixed (a * b * 10 ^ (os - (ls + rs))) os"
      by (simp add: multiplyFixedExact_def)
    moreover from True have "(10::int) ^ os = 10 ^ (os - (ls + rs)) * 10 ^ (ls + rs)"
      by (simp add: power_add [symmetric])
    ultimately show ?thesis using ab that by (simp add: algebra_simps)
  next
    case False
    let ?d = "(10::int) ^ (ls + rs - os)"
    from assms ab False have d: "?d dvd a * b" and s: "s = formatFixed (a * b div ?d) os"
      by (auto simp: multiplyFixedExact_def Let_def mod_eq_0_iff_dvd split: if_splits)
    from False have "(10::int) ^ (ls + rs) = ?d * 10 ^ os" by (simp add: power_add [symmetric])
    with d have "a * b * 10 ^ os = (a * b div ?d) * 10 ^ (ls + rs)" by (simp add: dvd_div_mult_self)
    with ab s that show ?thesis by blast
  qed
qed

lemma multiplyFixedExact_unit:
  "scale \<le> 12 \<Longrightarrow> parseFixed l 6 = Inr a \<Longrightarrow>
   multiplyFixedExact l 6 (formatFixed (10 ^ 8) 8) 8 6 = Inr (formatFixed a 6)"
  by (simp add: multiplyFixedExact_def Let_def)

section \<open>The codec contract\<close>

locale fixed_codec =
  fixes render :: "int \<Rightarrow> string"
    and read :: "string \<Rightarrow> 'e + int"
  assumes read_render: "read (render v) = Inr v"
begin

lemma render_inj: "render v = render w \<longleftrightarrow> v = w"
  by (metis read_render sum.inject(2))

lemma normalize_idem: "read x = Inr v \<Longrightarrow> bindE (read (render v)) (\<lambda>w. Inr (render w)) = Inr (render v)"
  by (simp add: read_render)

end

interpretation fixed6: fixed_codec "\<lambda>v. formatFixed v 6" "\<lambda>s. parseFixed s 6"
  by unfold_locales simp

interpretation fixed8: fixed_codec "\<lambda>v. formatFixed v 8" "\<lambda>s. parseFixed s 8"
  by unfold_locales simp

end
