(* ===== verification/Units.thy ===== *)
theory Units
  imports Decimal
begin

text \<open>
  Units of measure (\<open>src/modules/units/catalog.ts\<close> and the conversion functions of
  \<open>src/modules/units/service.ts\<close>): the catalogue, the aliases people type, exact decimals of any
  scale up to 30 places, the single half-up rounding, and the conversion of a typed quantity into
  the ingredient's stock unit. Quantities arrive as text (a JSON string); the \<open>number\<close> case goes
  through \<open>toLocaleString\<close> first and is then the same text case.
\<close>

definition QUANTITY_SCALE :: nat where
  "QUANTITY_SCALE = 6"

datatype dimension = Mass | Volume | Count

record standard_unit =
  su_code :: string
  su_label :: string
  su_dimension :: dimension
  su_base :: string

definition unit_row :: "string \<Rightarrow> string \<Rightarrow> dimension \<Rightarrow> string \<Rightarrow> standard_unit" where
  "unit_row c l d b = \<lparr>su_code = c, su_label = l, su_dimension = d, su_base = b\<rparr>"

definition STANDARD_UNITS :: "standard_unit list" where
  "STANDARD_UNITS =
    [unit_row ''kg'' ''kilogram'' Mass ''1000'',
     unit_row ''g'' ''gram'' Mass ''1'',
     unit_row ''mg'' ''milligram'' Mass ''0.001'',
     unit_row ''lb'' ''pound'' Mass ''453.59237'',
     unit_row ''oz'' ''ounce'' Mass ''28.349523125'',
     unit_row ''L'' ''litre'' Volume ''1000'',
     unit_row ''mL'' ''millilitre'' Volume ''1'',
     unit_row ''gal'' ''gallon (US)'' Volume ''3785.411784'',
     unit_row ''cup'' ''cup (US)'' Volume ''236.5882365'',
     unit_row ''tbsp'' ''tablespoon'' Volume ''14.78676478125'',
     unit_row ''tsp'' ''teaspoon'' Volume ''4.92892159375'',
     unit_row ''pc'' ''piece'' Count ''1'',
     unit_row ''dozen'' ''dozen'' Count ''12'']"

definition ALIASES :: "(string \<times> string) list" where
  "ALIASES =
    [(''kg'', ''kg''), (''kgs'', ''kg''), (''kilo'', ''kg''), (''kilos'', ''kg''),
     (''kilogram'', ''kg''), (''kilograms'', ''kg''),
     (''g'', ''g''), (''gm'', ''g''), (''gms'', ''g''), (''gr'', ''g''), (''gram'', ''g''), (''grams'', ''g''),
     (''mg'', ''mg''), (''milligram'', ''mg''), (''milligrams'', ''mg''),
     (''lb'', ''lb''), (''lbs'', ''lb''), (''pound'', ''lb''), (''pounds'', ''lb''),
     (''oz'', ''oz''), (''ounce'', ''oz''), (''ounces'', ''oz''),
     (''l'', ''L''), (''lt'', ''L''), (''ltr'', ''L''), (''ltrs'', ''L''), (''liter'', ''L''),
     (''liters'', ''L''), (''litre'', ''L''), (''litres'', ''L''),
     (''ml'', ''mL''), (''milliliter'', ''mL''), (''milliliters'', ''mL''),
     (''millilitre'', ''mL''), (''millilitres'', ''mL''),
     (''gal'', ''gal''), (''gallon'', ''gal''), (''gallons'', ''gal''),
     (''cup'', ''cup''), (''cups'', ''cup''),
     (''tbsp'', ''tbsp''), (''tbs'', ''tbsp''), (''tablespoon'', ''tbsp''), (''tablespoons'', ''tbsp''),
     (''tsp'', ''tsp''), (''teaspoon'', ''tsp''), (''teaspoons'', ''tsp''),
     (''pc'', ''pc''), (''pcs'', ''pc''), (''pce'', ''pc''), (''piece'', ''pc''), (''pieces'', ''pc''),
     (''ea'', ''pc''), (''each'', ''pc''),
     (''dozen'', ''dozen''), (''doz'', ''dozen''), (''dz'', ''dozen'')]"

text \<open>
  \<open>ALIASES\<close> is a plain object literal, so \<open>ALIASES[key]\<close> also finds the members every object
  inherits from \<open>Object.prototype\<close>. Of those only \<open>constructor\<close> and \<open>__proto__\<close> are spelled in
  lower case, hence reachable by a lower-cased key. The lookup's value is then that member, not
  \<open>undefined\<close>: the constructor \<open>Inherited\<close>.
\<close>

datatype alias_value = Catalogue string | Inherited string

definition standardUnitCode :: "string \<Rightarrow> alias_value option" where
  "standardUnitCode u =
     (let k = to_lower (trim u)
      in case map_of ALIASES k of
           Some c \<Rightarrow> Some (Catalogue c)
         | None \<Rightarrow> if k = ''constructor'' \<or> k = ''__proto__'' then Some (Inherited k) else None)"

definition standardUnit :: "alias_value \<Rightarrow> standard_unit option" where
  "standardUnit v =
     (case v of
        Catalogue code \<Rightarrow> List.find (\<lambda>u. su_code u = code) STANDARD_UNITS
      | Inherited _ \<Rightarrow> None)"

section \<open>Exact decimals of any scale\<close>

datatype quantity_error =
    NotANumber
  | TooManyDecimals
  | ZeroFactor
  | NotConvertible
  | InvalidUnitName

text \<open>A \<open>Decimal\<close> is \<open>digits / 10 ^ scale\<close>.\<close>

record decimal =
  dec_digits :: int
  dec_scale :: nat

text \<open>The two alternatives of \<open>DECIMAL_RE\<close>: \<open>12\<close>, \<open>12.5\<close>, or \<open>.5\<close>, each with an optional sign.\<close>

definition match_decimal_body :: "string \<Rightarrow> (string \<times> string) option" where
  "match_decimal_body rest =
     (case match_unsigned rest of
        Some (whole, fr) \<Rightarrow> Some (whole, case fr of Some f \<Rightarrow> f | None \<Rightarrow> [])
      | None \<Rightarrow>
          (case rest of
             [] \<Rightarrow> None
           | c # fr \<Rightarrow> if c = CHR ''.'' \<and> fr \<noteq> [] \<and> list_all is_digit fr then Some (''0'', fr) else None))"

definition match_decimal :: "string \<Rightarrow> (bool \<times> string \<times> string) option" where
  "match_decimal txt =
     (case txt of
        [] \<Rightarrow> None
      | c # cs \<Rightarrow>
          if c = CHR ''-'' then map_option (Pair True) (match_decimal_body cs)
          else if c = CHR ''+'' then map_option (Pair False) (match_decimal_body cs)
          else map_option (Pair False) (match_decimal_body (c # cs)))"

definition parseDecimal :: "string \<Rightarrow> quantity_error + decimal" where
  "parseDecimal value =
     (case match_decimal (trim value) of
        None \<Rightarrow> Inl NotANumber
      | Some (neg, whole, fraction) \<Rightarrow>
          if length fraction > 30 then Inl TooManyDecimals
          else (let digits = int (digits_val (whole @ fraction))
                in Inr \<lparr>dec_digits = (if neg then - digits else digits), dec_scale = length fraction\<rparr>))"

text \<open>\<open>round(numerator / denominator)\<close>, half away from zero.\<close>

definition divideRounded :: "int \<Rightarrow> int \<Rightarrow> int" where
  "divideRounded numerator denominator =
     (let negative = ((numerator < 0) \<noteq> (denominator < 0));
          n = (if numerator < 0 then - numerator else numerator);
          d = (if denominator < 0 then - denominator else denominator);
          q = (n * 2 + d) div (d * 2)
      in if negative then - q else q)"

definition formatScaled :: "int \<Rightarrow> nat \<Rightarrow> string" where
  "formatScaled digits scale =
     (let negative = digits < 0;
          magnitude = nat (if negative then - digits else digits);
          divisor = 10 ^ scale;
          whole = magnitude div divisor;
          fraction = (if scale = 0 then []
                      else ''.'' @ pad_start scale (nat_str (magnitude mod divisor)))
      in (if negative \<and> magnitude \<noteq> 0 then ''-'' else []) @ nat_str whole @ fraction)"

definition scaleQuantity :: "string \<Rightarrow> string \<Rightarrow> string \<Rightarrow> nat \<Rightarrow> quantity_error + string" where
  "scaleQuantity value multiplier divisor outScale =
     bindE (parseDecimal value) (\<lambda>v.
     bindE (parseDecimal multiplier) (\<lambda>m.
     bindE (parseDecimal divisor) (\<lambda>d.
       if dec_digits d = 0 then Inl ZeroFactor
       else (let numerator = dec_digits v * dec_digits m * 10 ^ (dec_scale d + outScale);
                 denominator = dec_digits d * 10 ^ (dec_scale v + dec_scale m)
             in Inr (formatScaled (divideRounded numerator denominator) outScale)))))"

definition normalizeQuantity :: "string \<Rightarrow> quantity_error + string" where
  "normalizeQuantity value = scaleQuantity value ''1'' ''1'' QUANTITY_SCALE"

section \<open>Conversion to the stock unit\<close>

record custom_unit =
  cu_name :: string
  cu_toStock :: string

record ingredient_units =
  iu_ingredientName :: string
  iu_stockUnit :: string
  iu_custom :: "custom_unit list"

record stock_quantity =
  sq_stockQuantity :: string
  sq_enteredQuantity :: string
  sq_enteredUnit :: string

datatype unit_kind = StockKind | StandardKind | CustomKind

record unit_choice =
  uc_code :: string
  uc_label :: string
  uc_kind :: unit_kind
  uc_toStock :: string

definition sameUnit :: "string \<Rightarrow> string \<Rightarrow> bool" where
  "sameUnit a b =
     (case (standardUnitCode a, standardUnitCode b) of
        (Some ca, Some cb) \<Rightarrow> ca = cb
      | _ \<Rightarrow> to_lower (trim a) = to_lower (trim b))"

definition unitOfText :: "string \<Rightarrow> standard_unit option" where
  "unitOfText u = (case standardUnitCode u of Some v \<Rightarrow> standardUnit v | None \<Rightarrow> standardUnit (Catalogue []))"

definition unitChoices :: "ingredient_units \<Rightarrow> quantity_error + unit_choice list" where
  "unitChoices us =
     (let stock = standardUnit (Catalogue (iu_stockUnit us));
          first = \<lparr>uc_code = iu_stockUnit us,
                   uc_label = (case stock of Some s \<Rightarrow> su_label s | None \<Rightarrow> iu_stockUnit us),
                   uc_kind = StockKind, uc_toStock = ''1''\<rparr>;
          custom = map (\<lambda>c. \<lparr>uc_code = cu_name c, uc_label = cu_name c, uc_kind = CustomKind,
                            uc_toStock = cu_toStock c\<rparr>) (iu_custom us)
      in bindE
           (case stock of
              None \<Rightarrow> Inr []
            | Some s \<Rightarrow>
                mapE (\<lambda>u. bindE (scaleQuantity ''1'' (su_base u) (su_base s) 12)
                        (\<lambda>f. Inr \<lparr>uc_code = su_code u, uc_label = su_label u,
                                 uc_kind = StandardKind, uc_toStock = f\<rparr>))
                  (filter (\<lambda>u. \<not> (su_dimension u \<noteq> su_dimension s \<or> su_code u = su_code s)) STANDARD_UNITS))
           (\<lambda>standard. Inr (first # standard @ custom)))"

definition toCustom :: "ingredient_units \<Rightarrow> string \<Rightarrow> string \<Rightarrow> string \<Rightarrow> quantity_error + stock_quantity" where
  "toCustom us quantity typedUnit enteredQuantity =
     (case List.find (\<lambda>c. to_lower (cu_name c) = to_lower typedUnit) (iu_custom us) of
        Some c \<Rightarrow>
          bindE (scaleQuantity quantity (cu_toStock c) ''1'' QUANTITY_SCALE)
            (\<lambda>q. Inr \<lparr>sq_stockQuantity = q, sq_enteredQuantity = enteredQuantity,
                     sq_enteredUnit = cu_name c\<rparr>)
      | None \<Rightarrow> Inl NotConvertible)"

definition toStockQuantity ::
  "ingredient_units \<Rightarrow> string \<Rightarrow> string option \<Rightarrow> quantity_error + stock_quantity" where
  "toStockQuantity us quantity u =
     (let typed = (case u of None \<Rightarrow> [] | Some t \<Rightarrow> trim t);
          typedUnit = (if typed = [] then iu_stockUnit us else typed)
      in bindE (normalizeQuantity quantity) (\<lambda>enteredQuantity.
           if sameUnit typedUnit (iu_stockUnit us)
           then Inr \<lparr>sq_stockQuantity = enteredQuantity, sq_enteredQuantity = enteredQuantity,
                     sq_enteredUnit = iu_stockUnit us\<rparr>
           else (case (unitOfText typedUnit, unitOfText (iu_stockUnit us)) of
                   (Some from, Some tu) \<Rightarrow>
                     if su_dimension from = su_dimension tu
                     then bindE (scaleQuantity quantity (su_base from) (su_base tu) QUANTITY_SCALE)
                            (\<lambda>q. Inr \<lparr>sq_stockQuantity = q, sq_enteredQuantity = enteredQuantity,
                                     sq_enteredUnit = su_code from\<rparr>)
                     else toCustom us quantity typedUnit enteredQuantity
                 | _ \<Rightarrow> toCustom us quantity typedUnit enteredQuantity)))"

text \<open>
  \<open>CUSTOM_UNIT_RE\<close>: a letter or number, then at most 23 letters, numbers, blanks or one of
  \<open>._/-\<close>. Letters and numbers are the Unicode classes \<open>L\<close> and \<open>N\<close> below code 256.
\<close>

definition is_letter_number :: "char \<Rightarrow> bool" where
  "is_letter_number c =
     (let n = code_of c in
      65 \<le> n \<and> n \<le> 90 \<or> 97 \<le> n \<and> n \<le> 122 \<or> 48 \<le> n \<and> n \<le> 57 \<or>
      n \<in> {170, 181, 186, 178, 179, 185, 188, 189, 190} \<or>
      192 \<le> n \<and> n \<le> 255 \<and> n \<noteq> 215 \<and> n \<noteq> 247)"

definition custom_unit_name :: "string \<Rightarrow> bool" where
  "custom_unit_name s =
     (case s of
        [] \<Rightarrow> False
      | c # cs \<Rightarrow> is_letter_number c \<and> length cs \<le> 23 \<and>
                  list_all (\<lambda>c. is_letter_number c \<or> c \<in> set '' ._/-'') cs)"

definition canonicalStockUnit :: "string \<Rightarrow> quantity_error + alias_value" where
  "canonicalStockUnit u =
     (case standardUnitCode u of
        Some code \<Rightarrow> Inr code
      | None \<Rightarrow> if custom_unit_name (trim u) then Inr (Catalogue (trim u)) else Inl InvalidUnitName)"

lemmas decimal_eval =
  parseDecimal_def match_decimal_def match_decimal_body_def scaleQuantity_def normalizeQuantity_def
  divideRounded_def formatScaled_def text_eval

section \<open>Rounding\<close>

lemma divideRounded_pos:
  assumes "0 < d"
  shows "divideRounded n d = (if n < 0 then - ((2 * - n + d) div (2 * d)) else (2 * n + d) div (2 * d))"
  using assms by (simp add: divideRounded_def Let_def mult.commute)

lemma divideRounded_neg_den: "0 < d \<Longrightarrow> divideRounded n (- d) = divideRounded (- n) d"
  by (cases "n < 0"; cases "n = 0") (auto simp: divideRounded_def Let_def)

lemma half_up_bounds:
  fixes n d :: int
  assumes "0 < d"
  shows "2 * n - d < 2 * d * ((2 * n + d) div (2 * d))" "2 * d * ((2 * n + d) div (2 * d)) \<le> 2 * n + d"
proof -
  let ?q = "(2 * n + d) div (2 * d)" and ?r = "(2 * n + d) mod (2 * d)"
  have "2 * d * ?q + ?r = 2 * n + d" by (rule mult_div_mod_eq)
  moreover have "0 \<le> ?r" "?r < 2 * d" using assms by simp_all
  ultimately show "2 * n - d < 2 * d * ?q" "2 * d * ?q \<le> 2 * n + d" by linarith+
qed

lemma divideRounded_nearest_pos:
  assumes "0 < d"
  shows "2 * \<bar>d * divideRounded n d - n\<bar> \<le> d"
    and "2 * \<bar>d * divideRounded n d - n\<bar> = d \<Longrightarrow> \<bar>n\<bar> \<le> \<bar>d * divideRounded n d\<bar>"
proof -
  let ?q = "\<lambda>m. (2 * m + d) div (2 * d)"
  have q0: "0 \<le> m \<Longrightarrow> 0 \<le> ?q m" for m using assms by (simp add: pos_imp_zdiv_nonneg_iff)
  have b: "2 * m - d < 2 * (d * ?q m)" "2 * (d * ?q m) \<le> 2 * m + d" for m
    using half_up_bounds [OF assms, of m] by (simp_all add: algebra_simps)
  have dq0: "0 \<le> m \<Longrightarrow> 0 \<le> d * ?q m" for m using q0 [of m] assms by simp
  show "2 * \<bar>d * divideRounded n d - n\<bar> \<le> d"
    using b [of n] b [of "- n"] by (auto simp: divideRounded_pos [OF assms] abs_if)
  show "2 * \<bar>d * divideRounded n d - n\<bar> = d \<Longrightarrow> \<bar>n\<bar> \<le> \<bar>d * divideRounded n d\<bar>"
    using b [of n] b [of "- n"] dq0 [of n] dq0 [of "- n"]
    by (auto simp: divideRounded_pos [OF assms] abs_if split: if_splits)
qed

lemma divideRounded_error_neg:
  assumes "0 < e"
  shows "\<bar>(- e) * divideRounded n (- e) - n\<bar> = \<bar>e * divideRounded (- n) e - (- n)\<bar>"
    and "\<bar>(- e) * divideRounded n (- e)\<bar> = \<bar>e * divideRounded (- n) e\<bar>"
proof -
  let ?q = "divideRounded (- n) e"
  have q: "divideRounded n (- e) = ?q" using assms by (rule divideRounded_neg_den)
  have "(- e) * ?q - n = - (e * ?q - (- n))" by simp
  then show "\<bar>(- e) * divideRounded n (- e) - n\<bar> = \<bar>e * ?q - (- n)\<bar>" unfolding q by (metis abs_minus_cancel)
  show "\<bar>(- e) * divideRounded n (- e)\<bar> = \<bar>e * ?q\<bar>" unfolding q by simp
qed

lemma divideRounded_nearest:
  assumes "d \<noteq> 0"
  shows "2 * \<bar>d * divideRounded n d - n\<bar> \<le> \<bar>d\<bar>"
    and "2 * \<bar>d * divideRounded n d - n\<bar> = \<bar>d\<bar> \<Longrightarrow> \<bar>n\<bar> \<le> \<bar>d * divideRounded n d\<bar>"
proof -
  consider "0 < d" | e where "d = - e" "0 < e"
    using assms by (metis neg_0_less_iff_less linorder_neqE minus_minus)
  then have "2 * \<bar>d * divideRounded n d - n\<bar> \<le> \<bar>d\<bar> \<and>
      (2 * \<bar>d * divideRounded n d - n\<bar> = \<bar>d\<bar> \<longrightarrow> \<bar>n\<bar> \<le> \<bar>d * divideRounded n d\<bar>)"
  proof cases
    case 1
    then have "\<bar>d\<bar> = d" by simp
    with divideRounded_nearest_pos [OF 1] show ?thesis by metis
  next
    case 2
    then have "\<bar>d\<bar> = e" by simp
    with divideRounded_nearest_pos [OF 2(2), of "- n"] show ?thesis
      unfolding 2(1) divideRounded_error_neg [OF 2(2)] by (metis abs_minus_cancel)
  qed
  then show "2 * \<bar>d * divideRounded n d - n\<bar> \<le> \<bar>d\<bar>"
    and "2 * \<bar>d * divideRounded n d - n\<bar> = \<bar>d\<bar> \<Longrightarrow> \<bar>n\<bar> \<le> \<bar>d * divideRounded n d\<bar>" by blast+
qed

lemma divideRounded_exact: "d \<noteq> 0 \<Longrightarrow> divideRounded (d * q) d = q"
proof -
  assume d: "d \<noteq> 0"
  let ?x = "divideRounded (d * q) d"
  have "\<bar>d * ?x - d * q\<bar> = \<bar>d\<bar> * \<bar>?x - q\<bar>" by (simp add: abs_mult [symmetric] right_diff_distrib)
  with divideRounded_nearest(1) [OF d, of "d * q"] have "2 * (\<bar>d\<bar> * \<bar>?x - q\<bar>) \<le> \<bar>d\<bar>" by metis
  then have "\<bar>d\<bar> * (2 * \<bar>?x - q\<bar>) \<le> \<bar>d\<bar> * 1" by (metis mult.left_commute mult_1_right)
  with d have "2 * \<bar>?x - q\<bar> \<le> 1" by (simp only: mult_le_cancel_left)
  moreover have "2 * \<bar>a - b\<bar> \<le> 1 \<Longrightarrow> a = b" for a b :: int by arith
  ultimately show ?thesis by blast
qed

section \<open>Text round trips\<close>

text \<open>\<open>formatScaled\<close> and the stock module's \<open>formatFixed\<close> print the same text.\<close>

lemma formatScaled_formatFixed: "formatScaled v scale = formatFixed v scale"
  by (auto simp: formatScaled_def formatFixed_def Let_def)

lemma match_decimal_unsigned:
  "s \<noteq> [] \<Longrightarrow> is_digit (hd s) \<Longrightarrow> match_decimal s = map_option (Pair False) (match_decimal_body s)"
  by (cases s) (auto simp: match_decimal_def dest: digit_not_sign)

lemma match_decimal_formatFixed:
  "match_decimal (formatFixed v scale) =
     Some (v < 0, nat_str (nat \<bar>v\<bar> div 10 ^ scale),
           if scale = 0 then [] else pad_start scale (nat_str (nat \<bar>v\<bar> mod 10 ^ scale)))"
proof -
  have body: "match_decimal_body (fixed_body m scale) =
     Some (nat_str (m div 10 ^ scale), if scale = 0 then [] else pad_start scale (nat_str (m mod 10 ^ scale)))" for m
    by (simp add: match_decimal_body_def match_fixed_body)
  show ?thesis
    by (cases "v < 0") (simp_all add: formatFixed_body match_decimal_unsigned fixed_body_ends body match_decimal_def [of "_ # _"])
qed

lemma parseDecimal_formatFixed:
  assumes "scale \<le> 30"
  shows "parseDecimal (formatFixed v scale) = Inr \<lparr>dec_digits = v, dec_scale = scale\<rparr>"
proof -
  let ?m = "nat \<bar>v\<bar>"
  have mag: "int (?m div 10 ^ scale) * 10 ^ scale + int (?m mod 10 ^ scale) = \<bar>v\<bar>"
    using div_mult_mod_eq [of "\<bar>v\<bar>" "10 ^ scale"] by (simp add: zdiv_int zmod_int)
  show ?thesis
  proof (cases "scale = 0")
    case True
    with mag show ?thesis by (simp add: parseDecimal_def trim_formatFixed match_decimal_formatFixed Let_def)
  next
    case False
    with assms mag show ?thesis
      by (cases "v < 0")
         (simp_all add: parseDecimal_def trim_formatFixed match_decimal_formatFixed length_frac
           digits_val_append Let_def)
  qed
qed

interpretation scaled6: fixed_codec "\<lambda>v. formatScaled v 6" "\<lambda>s. bindE (parseDecimal s) (\<lambda>d. Inr (dec_digits d))"
  by unfold_locales (simp add: formatScaled_formatFixed parseDecimal_formatFixed)

section \<open>Conversions\<close>

lemma scaleQuantity_Inr_iff [res_iff]:
  "scaleQuantity x mul dv sc = Inr y \<longleftrightarrow>
     (\<exists>v m d. parseDecimal x = Inr v \<and> parseDecimal mul = Inr m \<and> parseDecimal dv = Inr d \<and>
        dec_digits d \<noteq> 0 \<and>
        y = formatFixed (divideRounded (dec_digits v * dec_digits m * 10 ^ (dec_scale d + sc))
              (dec_digits d * 10 ^ (dec_scale v + dec_scale m))) sc)"
  by (auto simp: scaleQuantity_def res_iff Let_def formatScaled_formatFixed)

lemma parseDecimal_one [simp]: "parseDecimal ''1'' = Inr \<lparr>dec_digits = 1, dec_scale = 0\<rparr>"
  by (simp add: decimal_eval)

lemma normalizeQuantity_Inr_iff [res_iff]:
  "normalizeQuantity x = Inr y \<longleftrightarrow>
     (\<exists>v. parseDecimal x = Inr v \<and>
        y = formatFixed (divideRounded (dec_digits v * 10 ^ 6) (10 ^ dec_scale v)) 6)"
  by (auto simp: normalizeQuantity_def QUANTITY_SCALE_def res_iff)

lemma normalizeQuantity_fixed: "normalizeQuantity (formatFixed v 6) = Inr (formatFixed v 6)"
proof -
  have "divideRounded (v * 10 ^ 6) (10 ^ 6) = v"
    using divideRounded_exact [of "10 ^ 6" v] by (simp add: mult.commute)
  then show ?thesis
    by (simp only: normalizeQuantity_Inr_iff) (simp add: parseDecimal_formatFixed)
qed

lemma sameUnit_key:
  "sameUnit a b \<longleftrightarrow>
     standardUnitCode a = standardUnitCode b \<and>
     (standardUnitCode a = None \<longrightarrow> to_lower (trim a) = to_lower (trim b))"
  by (auto simp: sameUnit_def standardUnitCode_def Let_def split: option.splits if_splits)

lemma catalogue_base_ok:
  "u \<in> set STANDARD_UNITS \<Longrightarrow> \<exists>d. parseDecimal (su_base u) = Inr d \<and> 0 < dec_digits d"
proof -
  have "list_all (\<lambda>u. case parseDecimal (su_base u) of Inl _ \<Rightarrow> False | Inr d \<Rightarrow> 0 < dec_digits d) STANDARD_UNITS"
    by (simp add: STANDARD_UNITS_def unit_row_def decimal_eval)
  then show "u \<in> set STANDARD_UNITS \<Longrightarrow> ?thesis"
    by (cases "parseDecimal (su_base u)") (force simp: list_all_iff)+
qed

lemma unitOfText_mem: "unitOfText t = Some u \<Longrightarrow> u \<in> set STANDARD_UNITS"
  by (auto simp: unitOfText_def standardUnit_def split: option.splits alias_value.splits dest: find_Some_mem)

lemma scaleQuantity_catalogue:
  assumes "f \<in> set STANDARD_UNITS" "t \<in> set STANDARD_UNITS" "parseDecimal x = Inr v"
  shows "\<exists>q. scaleQuantity x (su_base f) (su_base t) sc = Inr q"
proof -
  obtain m d where "parseDecimal (su_base f) = Inr m" "parseDecimal (su_base t) = Inr d" "0 < dec_digits d"
    using assms(1,2) catalogue_base_ok by blast
  with assms(3) show ?thesis by (simp add: scaleQuantity_def Let_def)
qed

lemma alias_codes_catalogued:
  "map_of ALIASES k = Some c \<Longrightarrow> \<exists>u. standardUnit (Catalogue c) = Some u \<and> su_code u = c"
proof -
  have "list_all (\<lambda>c. List.find (\<lambda>u. su_code u = c) STANDARD_UNITS \<noteq> None) (map snd ALIASES)"
    by (simp add: ALIASES_def STANDARD_UNITS_def unit_row_def)
  then have "\<forall>c \<in> snd ` set ALIASES. List.find (\<lambda>u. su_code u = c) STANDARD_UNITS \<noteq> None"
    by (simp only: list_all_iff set_map)
  moreover assume "map_of ALIASES k = Some c"
  then have "c \<in> snd ` set ALIASES" by (metis map_of_SomeD image_eqI snd_conv)
  ultimately obtain u where "List.find (\<lambda>u. su_code u = c) STANDARD_UNITS = Some u" by blast
  with find_Some_mem [OF this] show ?thesis by (auto simp: standardUnit_def)
qed

end
