(* ===== verification/SessionCache.thy ===== *)
theory SessionCache
  imports Prelude
begin

text \<open>
  The in-process memory of valid sessions and Clerk identities
  (\<open>src/modules/auth/session-cache.ts\<close>): two \<open>Map\<close>s in insertion order with an expiry per entry and
  a bounded size. Both keep, per key, the owning user, a value (the session's workspace, the
  resolved identity) and the instant until which the entry is valid. The locale \<open>ttl_cache\<close> states
  what the authentication code relies on; both maps are instances.
\<close>

definition TTL_MS :: int where "TTL_MS = 15000"

definition MAX_ENTRIES :: nat where "MAX_ENTRIES = 5000"

record 'v entry =
  en_userId :: string
  en_value :: 'v
  en_validUntil :: int

type_synonym 'v cache = "(string \<times> 'v entry) list"

record 'v auth_caches =
  ac_sessions :: "string cache"
  ac_identities :: "'v cache"

text \<open>A read drops the entry when it has expired.\<close>

definition knownValidSessionWorkspace :: "string cache \<Rightarrow> string \<Rightarrow> int \<Rightarrow> string option \<times> string cache" where
  "knownValidSessionWorkspace cache sessionId now =
     (case map_of cache sessionId of
        None \<Rightarrow> (None, cache)
      | Some e \<Rightarrow>
          if en_validUntil e \<le> now then (None, AList.delete sessionId cache)
          else (Some (en_value e), cache))"

definition isSessionKnownValid :: "string cache \<Rightarrow> string \<Rightarrow> int \<Rightarrow> bool" where
  "isSessionKnownValid cache sessionId now = (fst (knownValidSessionWorkspace cache sessionId now) \<noteq> None)"

definition drop_oldest :: "string \<Rightarrow> 'v cache \<Rightarrow> 'v cache" where
  "drop_oldest k cache =
     (if length cache \<ge> MAX_ENTRIES \<and> map_of cache k = None
      then (case cache of [] \<Rightarrow> [] | (oldest, _) # _ \<Rightarrow> AList.delete oldest cache) else cache)"

definition rememberValidSession :: "string cache \<Rightarrow> string \<Rightarrow> string \<Rightarrow> string \<Rightarrow> int \<Rightarrow> string cache" where
  "rememberValidSession cache sessionId userId tenantId now =
     AList.update sessionId \<lparr>en_userId = userId, en_value = tenantId, en_validUntil = now + TTL_MS\<rparr>
       (drop_oldest sessionId cache)"

definition forgetSession :: "string cache \<Rightarrow> string \<Rightarrow> string cache" where
  "forgetSession cache sessionId = AList.delete sessionId cache"

definition cachedClerkIdentity :: "'v cache \<Rightarrow> string \<Rightarrow> int \<Rightarrow> 'v option \<times> 'v cache" where
  "cachedClerkIdentity identities clerkUserId now =
     (case map_of identities clerkUserId of
        None \<Rightarrow> (None, identities)
      | Some e \<Rightarrow>
          if en_validUntil e \<le> now then (None, AList.delete clerkUserId identities)
          else (Some (en_value e), identities))"

definition rememberClerkIdentity :: "'v cache \<Rightarrow> string \<Rightarrow> string \<Rightarrow> 'v \<Rightarrow> int \<Rightarrow> 'v cache" where
  "rememberClerkIdentity identities clerkUserId userId v now =
     AList.update clerkUserId \<lparr>en_userId = userId, en_value = v, en_validUntil = now + TTL_MS\<rparr>
       (drop_oldest clerkUserId identities)"

definition forgetUserSessions :: "'v auth_caches \<Rightarrow> string \<Rightarrow> 'v auth_caches" where
  "forgetUserSessions c userId =
     c\<lparr>ac_sessions := filter (\<lambda>(_, e). en_userId e \<noteq> userId) (ac_sessions c),
       ac_identities := filter (\<lambda>(_, e). en_userId e \<noteq> userId) (ac_identities c)\<rparr>"

definition clearSessionCache :: "'v auth_caches \<Rightarrow> 'v auth_caches" where
  "clearSessionCache c = c\<lparr>ac_sessions := [], ac_identities := []\<rparr>"

section \<open>The contract\<close>

definition cache_ok :: "'v cache \<Rightarrow> bool" where
  "cache_ok c \<longleftrightarrow> distinct (map fst c) \<and> length c \<le> MAX_ENTRIES"

locale ttl_cache =
  fixes get :: "'v cache \<Rightarrow> string \<Rightarrow> int \<Rightarrow> 'v option \<times> 'v cache"
    and put :: "'v cache \<Rightarrow> string \<Rightarrow> string \<Rightarrow> 'v \<Rightarrow> int \<Rightarrow> 'v cache"
  assumes get_value: "fst (get c k now) =
      (case map_of c k of Some e \<Rightarrow> if now < en_validUntil e then Some (en_value e) else None | None \<Rightarrow> None)"
    and get_cache: "map_of (snd (get c k now)) k' =
      (if k' = k \<and> fst (get c k now) = None then None else map_of c k')"
    and put_same: "map_of (put c k u v now) k =
      Some \<lparr>en_userId = u, en_value = v, en_validUntil = now + TTL_MS\<rparr>"
    and put_other: "k' \<noteq> k \<Longrightarrow> map_of (put c k u v now) k' = Some e \<Longrightarrow> map_of c k' = Some e"
    and get_ok: "cache_ok c \<Longrightarrow> cache_ok (snd (get c k now))"
    and put_ok: "cache_ok c \<Longrightarrow> cache_ok (put c k u v now)"
begin

lemma get_put_fresh: "now' < now + TTL_MS \<Longrightarrow> fst (get (put c k u v now) k now') = Some v"
  by (simp add: get_value put_same)

lemma get_put_expired: "now + TTL_MS \<le> now' \<Longrightarrow> fst (get (put c k u v now) k now') = None"
  by (simp add: get_value put_same)

lemma get_put_other:
  "k' \<noteq> k \<Longrightarrow> fst (get (put c k u v now) k' now') = Some w \<Longrightarrow> fst (get c k' now') = Some w"
  by (auto simp: get_value split: option.splits if_splits dest: put_other)

lemma puts_bounded: "cache_ok c \<Longrightarrow> cache_ok (foldl (\<lambda>c (k, u, v, now). put c k u v now) c xs)"
  by (induction xs arbitrary: c) (auto simp: put_ok)

end

lemma cache_ok_delete: "cache_ok c \<Longrightarrow> cache_ok (AList.delete k c)"
  unfolding cache_ok_def
  by (auto simp: distinct_delete intro: le_trans [OF length_delete_le])

lemma length_delete_present: "map_of c k \<noteq> None \<Longrightarrow> length (AList.delete k c) < length c"
  proof -
  assume "map_of c k \<noteq> None"
  then obtain e where "(k, e) \<in> set c" by (auto dest: map_of_SomeD)
  then show ?thesis unfolding AList.delete_eq by (rule length_filter_less) simp
qed

lemma length_update_le: "length (AList.update k v c) \<le> Suc (length c)"
  by (induction c) auto

lemma length_update_present: "map_of c k \<noteq> None \<Longrightarrow> length (AList.update k v c) = length c"
  by (induction c) auto

lemma drop_oldest_room:
  "length c \<le> MAX_ENTRIES \<Longrightarrow> map_of c k = None \<Longrightarrow> length (drop_oldest k c) < MAX_ENTRIES"
  using length_delete_present [of c "fst (hd c)"]
  by (cases c) (auto simp: drop_oldest_def MAX_ENTRIES_def)

lemma map_of_drop_oldest: "map_of (drop_oldest k c) k' = Some e \<Longrightarrow> map_of c k' = Some e"
  by (auto simp: drop_oldest_def delete_conv split: if_splits list.splits)

lemma cache_ok_put: "cache_ok c \<Longrightarrow> cache_ok (AList.update k e (drop_oldest k c))"
proof -
  assume c: "cache_ok c"
  then have d: "distinct (map fst (drop_oldest k c))"
    by (auto simp: cache_ok_def drop_oldest_def intro!: distinct_delete split: list.splits)
  have "length (AList.update k e (drop_oldest k c)) \<le> MAX_ENTRIES"
  proof (cases "map_of c k")
    case None
    with c have "length (drop_oldest k c) < MAX_ENTRIES" by (intro drop_oldest_room) (auto simp: cache_ok_def)
    with length_update_le [of k e "drop_oldest k c"] show ?thesis by linarith
  next
    case (Some x)
    then have "drop_oldest k c = c" by (simp add: drop_oldest_def)
    with c Some show ?thesis by (simp add: length_update_present cache_ok_def)
  qed
  with d show ?thesis by (simp add: cache_ok_def distinct_update)
qed

lemma map_of_put_other:
  "k' \<noteq> k \<Longrightarrow> map_of (AList.update k e (drop_oldest k c)) k' = Some e' \<Longrightarrow> map_of c k' = Some e'"
  by (auto simp: update_conv dest: map_of_drop_oldest)

interpretation sessions: ttl_cache knownValidSessionWorkspace rememberValidSession
  by unfold_locales
     (auto simp: knownValidSessionWorkspace_def rememberValidSession_def update_conv delete_conv
       cache_ok_delete cache_ok_put dest: map_of_put_other split: option.splits)

interpretation identities: ttl_cache cachedClerkIdentity rememberClerkIdentity
  by unfold_locales
     (auto simp: cachedClerkIdentity_def rememberClerkIdentity_def update_conv delete_conv
       cache_ok_delete cache_ok_put dest: map_of_put_other split: option.splits)

lemma forgetUserSessions_lookup:
  assumes "distinct (map fst (ac_sessions c))" "distinct (map fst (ac_identities c))"
  shows "map_of (ac_sessions (forgetUserSessions c u)) k = Some e \<longleftrightarrow>
           map_of (ac_sessions c) k = Some e \<and> en_userId e \<noteq> u"
    and "map_of (ac_identities (forgetUserSessions c u)) k = Some e' \<longleftrightarrow>
           map_of (ac_identities c) k = Some e' \<and> en_userId e' \<noteq> u"
  using assms by (auto simp: forgetUserSessions_def distinct_map_filter)

end
