(* ===== verification/Access.thy ===== *)
theory Access
  imports JsText
begin

text \<open>
  Roles and outlet scope: \<open>src/modules/auth/roles.ts\<close>, the role and outlet middleware of
  \<open>src/modules/auth/middleware.ts\<close> and \<open>src/modules/auth/outlet-scope.ts\<close>. An Express middleware
  either calls \<open>next()\<close> or answers with an HTTP status and error code: \<open>Inr\<close> or \<open>Inl\<close>.
\<close>

datatype role =
    OWNER | OUTLET_MANAGER | BRAND_MANAGER | KITCHEN_CREW | WAREHOUSE_MAIN
  | WAREHOUSE_OUTLET | PURCHASING | HR | ACCOUNTING

datatype outlet_scope = ScopeAll | ScopeAssigned

definition V2_ROLES :: "(string \<times> role) list" where
  "V2_ROLES =
    [(''OWNER'', OWNER), (''OUTLET_MANAGER'', OUTLET_MANAGER), (''BRAND_MANAGER'', BRAND_MANAGER),
     (''KITCHEN_CREW'', KITCHEN_CREW), (''WAREHOUSE_MAIN'', WAREHOUSE_MAIN),
     (''WAREHOUSE_OUTLET'', WAREHOUSE_OUTLET), (''PURCHASING'', PURCHASING), (''HR'', HR),
     (''ACCOUNTING'', ACCOUNTING)]"

definition ROLE_ALIASES :: "(string \<times> role) list" where
  "ROLE_ALIASES =
    [(''SUPER_ADMIN'', OWNER), (''KITCHEN_STAFF'', KITCHEN_CREW), (''WAREHOUSE'', WAREHOUSE_OUTLET),
     (''SUPPLIER_COORDINATOR'', PURCHASING), (''ACCOUNTANT'', ACCOUNTING)]"

text \<open>
  \<open>role in ROLE_ALIASES\<close> is also true of the members a plain object inherits; the value returned
  is then that member, which is none of the roles (\<open>InheritedMember\<close>).
\<close>

definition OBJECT_MEMBERS :: "string list" where
  "OBJECT_MEMBERS =
    [''constructor'', ''__defineGetter__'', ''__defineSetter__'', ''hasOwnProperty'',
     ''__lookupGetter__'', ''__lookupSetter__'', ''isPrototypeOf'', ''propertyIsEnumerable'',
     ''toString'', ''valueOf'', ''__proto__'', ''toLocaleString'']"

datatype role_value = KnownRole role | InheritedMember string

definition normalizeRole :: "string option \<Rightarrow> role_value option" where
  "normalizeRole r =
     (case r of
        None \<Rightarrow> None
      | Some s \<Rightarrow>
          if s = [] \<or> s = ''RIDER'' then None
          else (case map_of ROLE_ALIASES s of
                  Some v \<Rightarrow> Some (KnownRole v)
                | None \<Rightarrow>
                    if s \<in> set OBJECT_MEMBERS then Some (InheritedMember s)
                    else map_option KnownRole (map_of V2_ROLES s)))"

definition HQ_ALL_SCOPE_ROLES :: "role list" where
  "HQ_ALL_SCOPE_ROLES = [OWNER, HR, ACCOUNTING, WAREHOUSE_MAIN]"

definition outletScopeForRole :: "string option \<Rightarrow> outlet_scope" where
  "outletScopeForRole r =
     (case normalizeRole r of
        Some (KnownRole v) \<Rightarrow> if v \<in> set HQ_ALL_SCOPE_ROLES then ScopeAll else ScopeAssigned
      | _ \<Rightarrow> ScopeAssigned)"

definition role_name :: "role \<Rightarrow> string" where
  "role_name r = (case r of
      OWNER \<Rightarrow> ''OWNER'' | OUTLET_MANAGER \<Rightarrow> ''OUTLET_MANAGER'' | BRAND_MANAGER \<Rightarrow> ''BRAND_MANAGER''
    | KITCHEN_CREW \<Rightarrow> ''KITCHEN_CREW'' | WAREHOUSE_MAIN \<Rightarrow> ''WAREHOUSE_MAIN''
    | WAREHOUSE_OUTLET \<Rightarrow> ''WAREHOUSE_OUTLET'' | PURCHASING \<Rightarrow> ''PURCHASING'' | HR \<Rightarrow> ''HR''
    | ACCOUNTING \<Rightarrow> ''ACCOUNTING'')"

datatype http_code = AUTH_REQUIRED | FORBIDDEN | VALIDATION_ERROR | NOT_FOUND

datatype http_error = HttpError nat http_code

record auth_user =
  au_role :: string
  au_outletScope :: outlet_scope
  au_outletIds :: "string list"

record outlet_context =
  oc_scope :: outlet_scope
  oc_outletIds :: "string list"
  oc_selected :: "string option"

definition requireRole :: "string list \<Rightarrow> auth_user option \<Rightarrow> http_error + unit" where
  "requireRole roles user =
     (let allowed = List.map_filter (\<lambda>r. normalizeRole (Some r)) roles
      in case user of
           None \<Rightarrow> Inl (HttpError 401 AUTH_REQUIRED)
         | Some u \<Rightarrow>
             (case normalizeRole (Some (au_role u)) of
                None \<Rightarrow> Inl (HttpError 403 FORBIDDEN)
              | Some v \<Rightarrow> if v \<in> set allowed then Inr () else Inl (HttpError 403 FORBIDDEN)))"

text \<open>\<open>UUID_RE\<close>: five groups of hexadecimal digits of lengths 8, 4, 4, 4 and 12.\<close>

definition is_hex :: "char \<Rightarrow> bool" where
  "is_hex c = (is_digit c \<or> code_of (lower_char c) \<in> {97..102})"

definition is_uuid :: "string \<Rightarrow> bool" where
  "is_uuid s =
     (length s = 36 \<and>
      (\<forall>(i, c) \<in> set (zip [0..<36] s). if i \<in> {8, 13, 18, 23} then c = CHR ''-'' else is_hex c))"

definition resolveOutletContext ::
  "auth_user option \<Rightarrow> string option \<Rightarrow> http_error + outlet_context" where
  "resolveOutletContext user header =
     (case user of
        None \<Rightarrow> Inl (HttpError 401 AUTH_REQUIRED)
      | Some u \<Rightarrow>
          (let selected = (case header of
                             None \<Rightarrow> None
                           | Some raw \<Rightarrow> if trim raw = [] then None else Some (trim raw))
           in case selected of
                None \<Rightarrow> Inr \<lparr>oc_scope = au_outletScope u, oc_outletIds = au_outletIds u, oc_selected = None\<rparr>
              | Some l \<Rightarrow>
                  if \<not> is_uuid l then Inl (HttpError 400 VALIDATION_ERROR)
                  else if au_outletScope u \<noteq> ScopeAll \<and> l \<notin> set (au_outletIds u)
                  then Inl (HttpError 403 FORBIDDEN)
                  else Inr \<lparr>oc_scope = au_outletScope u, oc_outletIds = au_outletIds u,
                            oc_selected = Some l\<rparr>))"

definition isOutletInScope :: "outlet_context option \<Rightarrow> string option \<Rightarrow> bool" where
  "isOutletInScope ctx locationId =
     (case (ctx, locationId) of
        (Some c, Some l) \<Rightarrow> if l = [] then False else if oc_scope c = ScopeAll then True else l \<in> set (oc_outletIds c)
      | _ \<Rightarrow> False)"

definition listScopeLocationIds :: "outlet_context option \<Rightarrow> string list option" where
  "listScopeLocationIds ctx =
     (case ctx of
        None \<Rightarrow> Some []
      | Some c \<Rightarrow>
          if oc_scope c = ScopeAll
          then (case oc_selected c of Some l \<Rightarrow> Some [l] | None \<Rightarrow> None)
          else (case oc_selected c of Some l \<Rightarrow> Some [l] | None \<Rightarrow> Some (oc_outletIds c)))"

text \<open>
  \<open>parseLocationIdParam\<close>: not supplied, malformed, or a valid id. The body value is a JSON value:
  absent/null, a string, or something else. The UUID check is zod's (a parameter).
\<close>

datatype body_value = Absent | TextValue string | OtherValue

datatype location_param = NotSupplied | Malformed | LocationParam string

definition parseLocationIdParam :: "(string \<Rightarrow> bool) \<Rightarrow> body_value \<Rightarrow> location_param" where
  "parseLocationIdParam zod_uuid raw =
     (case raw of
        Absent \<Rightarrow> NotSupplied
      | OtherValue \<Rightarrow> Malformed
      | TextValue s \<Rightarrow> if zod_uuid s then LocationParam s else Malformed)"

definition resolveExisting ::
  "string list \<Rightarrow> outlet_context option \<Rightarrow> string \<Rightarrow> http_error + string" where
  "resolveExisting locations ctx requested =
     (if (case ctx of Some c \<Rightarrow> oc_scope c \<noteq> ScopeAll \<and> requested \<notin> set (oc_outletIds c) | None \<Rightarrow> False)
      then Inl (HttpError 403 FORBIDDEN)
      else if requested \<in> set locations then Inr requested else Inl (HttpError 404 NOT_FOUND))"

text \<open>\<open>locations\<close> are the ids of the \<open>location\<close> table in the order the driver returns them.\<close>

definition resolveRequestLocationId ::
  "(string \<Rightarrow> bool) \<Rightarrow> string list \<Rightarrow> outlet_context option \<Rightarrow> body_value \<Rightarrow> http_error + string" where
  "resolveRequestLocationId zod_uuid locations ctx raw =
     (let default = (case locations of [] \<Rightarrow> Inl (HttpError 500 NOT_FOUND) | l # _ \<Rightarrow> Inr l);
          selected = (case ctx of Some c \<Rightarrow> oc_selected c | None \<Rightarrow> None)
      in case parseLocationIdParam zod_uuid raw of
           Malformed \<Rightarrow> Inl (HttpError 400 VALIDATION_ERROR)
         | LocationParam l \<Rightarrow> resolveExisting locations ctx l
         | NotSupplied \<Rightarrow>
             (case selected of
                Some l \<Rightarrow> resolveExisting locations ctx l
              | None \<Rightarrow>
                  (case ctx of
                     None \<Rightarrow> default
                   | Some c \<Rightarrow>
                       if oc_scope c = ScopeAll then default
                       else (case oc_outletIds c of
                               [l] \<Rightarrow> resolveExisting locations ctx l
                             | [] \<Rightarrow> Inl (HttpError 403 FORBIDDEN)
                             | _ \<Rightarrow> Inl (HttpError 400 VALIDATION_ERROR)))))"

section \<open>Lemmas\<close>

lemma normalizeRole_v2: "map_of V2_ROLES s = Some v \<Longrightarrow> normalizeRole (Some s) = Some (KnownRole v)"
  by (auto simp: normalizeRole_def V2_ROLES_def ROLE_ALIASES_def OBJECT_MEMBERS_def split: if_splits)

lemma normalizeRole_alias: "map_of ROLE_ALIASES s = Some v \<Longrightarrow> normalizeRole (Some s) = Some (KnownRole v)"
  by (auto simp: normalizeRole_def ROLE_ALIASES_def split: if_splits)

lemma normalizeRole_role_name [simp]: "normalizeRole (Some (role_name r)) = Some (KnownRole r)"
  by (cases r) (simp_all add: role_name_def normalizeRole_def ROLE_ALIASES_def V2_ROLES_def OBJECT_MEMBERS_def)

lemma normalizeRole_KnownRole:
  "normalizeRole (Some s) = Some (KnownRole v) \<Longrightarrow> (s, v) \<in> set ROLE_ALIASES \<union> set V2_ROLES"
  by (auto simp: normalizeRole_def split: if_splits option.splits dest: map_of_SomeD)

lemma resolveOutletContext_member:
  "resolveOutletContext u h = Inr c \<Longrightarrow> oc_scope c \<noteq> ScopeAll \<Longrightarrow> oc_selected c = Some l \<Longrightarrow>
   l \<in> set (oc_outletIds c)"
  by (auto simp: resolveOutletContext_def Let_def split: option.splits if_splits)

lemma resolveExisting_sound:
  "resolveExisting locations ctx l = Inr r \<Longrightarrow>
   r = l \<and> l \<in> set locations \<and> (\<forall>c. ctx = Some c \<longrightarrow> oc_scope c = ScopeAll \<or> l \<in> set (oc_outletIds c))"
  by (auto simp: resolveExisting_def split: option.splits if_splits)

lemma resolveRequestLocationId_sound:
  "resolveRequestLocationId z locations ctx raw = Inr r \<Longrightarrow>
   r \<in> set locations \<and> (\<forall>c. ctx = Some c \<longrightarrow> oc_scope c = ScopeAll \<or> r \<in> set (oc_outletIds c))"
  by (auto simp: resolveRequestLocationId_def Let_def dest!: resolveExisting_sound
      split: location_param.splits option.splits list.splits if_splits)

end
