(* ===== verification/StockTypes.thy ===== *)
theory StockTypes
  imports Decimal Access
begin

text \<open>
  The data of the stock modules: the rows of the tables the posting transaction reads and writes
  (\<open>src/db/enterprise-schema.ts\<close>, \<open>src/db/schema.ts\<close>), the posting input and result
  (\<open>src/modules/stock/types.ts\<close>) and the errors (\<open>src/modules/stock/errors.ts\<close>).

  A \<open>numeric(20,6)\<close> column is the number of millionths, a \<open>numeric(20,8)\<close> column the number of
  \<open>10^-8\<close>: the driver renders such a column with \<open>formatFixed\<close>, and \<open>parseFixed\<close> reads the same
  integer back (\<open>parse_format_fixed\<close>), so the model keeps the integer. Error messages are left
  out; codes and HTTP statuses are kept.
\<close>

datatype stock_code =
    FEATURE_DISABLED | UNAUTHORIZED | DOCUMENT_NOT_FOUND | INVALID_TRANSITION
  | IDEMPOTENCY_KEY_REUSED | POSTING_IN_PROGRESS | INVALID_MOVEMENT | LOT_NOT_FOUND
  | LOT_ITEM_MISMATCH | LOT_NOT_ELIGIBLE | UOM_MISMATCH | FORBIDDEN_ROUTE
  | INSUFFICIENT_STOCK | CONCURRENT_MODIFICATION | LEDGER_MISMATCH

text \<open>
  Besides \<open>StockPostingError\<close>, a posting can end in a \<open>DecimalValidationError\<close>, in an error of the
  database (a violated check or unique constraint, a numeric field overflow, a transaction the server
  aborted with some SQLSTATE, such as a deadlock), in a JavaScript
  \<open>TypeError\<close>, or in an error the test-only fault injector throws.
\<close>

datatype stock_error =
    StockErr stock_code nat
  | DecimalErr decimal_error
  | DbCheckViolation
  | DbUniqueViolation
  | DbNumericOverflow
  | DbAborted string
  | JsTypeError
  | InjectedFault

datatype purpose = HQ_MAIN | OUTLET_STORAGE | KITCHEN | PRODUCTION | QUARANTINE

datatype warehouse_type = TypeMain | TypeKitchen

datatype item_type = RAW | PACKAGING | CONSUMABLE | WIP | FINISHED_GOOD | SERVICE

datatype lot_status =
  AVAILABLE | QUARANTINED | EXPIRED | RECALLED | SPOILED | DISPOSED | EXHAUSTED

datatype direction = IN | OUT

datatype source_policy =
  ALLOCATABLE | CUSTODY_MOVE | DISPOSITION | QUARANTINE_RELEASE | QUARANTINE_HOLD

datatype route_class =
    RC_RECEIVE | RC_ORDER_DEDUCTION | RC_ADJUSTMENT | RC_INTERNAL_TRANSFER | RC_HQ_TRANSFER
  | RC_OUTLET_RETURN_DISPATCH | RC_RETURN_DISPOSITION | RC_QA_RELEASE | RC_PRODUCTION
  | RC_OPENING_BALANCE

datatype json =
    JNull
  | JBool bool
  | JNum string
  | JStr string
  | JArr "json list"
  | JObj "(string \<times> json) list"

record warehouse =
  w_id :: string
  w_locationId :: string
  w_type :: warehouse_type
  w_purpose :: "purpose option"
  w_isActive :: bool

record item =
  i_id :: string
  i_code :: string
  i_unit :: string
  i_itemType :: item_type
  i_isActive :: bool
  i_shelfLifeDays :: "int option"

record uom_conversion =
  c_itemId :: string
  c_fromUom :: string
  c_toBaseFactor :: int
  c_isActive :: bool

record lot =
  l_id :: string
  l_itemId :: string
  l_lotCode :: string
  l_status :: lot_status
  l_expiresAt :: "string option"
  l_unitCost :: int

record balance =
  b_id :: string
  b_warehouseId :: string
  b_lotId :: string
  b_onHand :: int
  b_reserved :: int
  b_version :: nat

record user_row =
  u_id :: string
  u_name :: string
  u_role :: string
  u_active :: bool

record session_row =
  s_id :: string
  s_userId :: string
  s_loggedOut :: bool

record access_row =
  ua_userId :: string
  ua_locationId :: string

record flag_row =
  f_key :: string
  f_enabled :: bool
  f_version :: nat

record document =
  d_id :: string
  d_module :: string
  d_documentNo :: string
  d_locationId :: string
  d_status :: string
  d_version :: nat
  d_stockPostingId :: "string option"

record movement =
  m_warehouseId :: string
  m_itemId :: string
  m_lotId :: string
  m_movementType :: direction
  m_quantity :: string
  m_enteredQuantity :: "string option"
  m_enteredUom :: string
  m_conversionFactor :: "string option"
  m_unitCost :: "string option"
  m_reasonCode :: "string option"
  m_sourcePolicy :: "source_policy option"
  m_metadata :: "json option"

record posting_input =
  pi_idempotencyKey :: string
  pi_sourceModule :: string
  pi_sourceDocumentNo :: string
  pi_locationId :: string
  pi_actorUserId :: string
  pi_sessionId :: "string option"
  pi_correlationId :: string
  pi_movements :: "movement list"

record document_policy =
  dp_featureFlag :: "string option"
  dp_routeClass :: route_class
  dp_allowedRoles :: "role list"
  dp_fromStatuses :: "string list"
  dp_nextStatus :: string

record line_result =
  lr_lineNo :: nat
  lr_warehouseId :: string
  lr_itemId :: string
  lr_lotId :: string
  lr_movementType :: direction
  lr_quantity :: string
  lr_balanceBefore :: string
  lr_balanceAfter :: string

record posting_result =
  pr_postingId :: string
  pr_replayed :: bool
  pr_idempotencyKey :: string
  pr_requestHash :: string
  pr_sourceModule :: string
  pr_sourceDocumentNo :: string
  pr_lines :: "line_result list"

datatype posting_status = PROCESSING | COMPLETED

record posting_row =
  p_id :: string
  p_idempotencyKey :: string
  p_requestHash :: string
  p_hashVersion :: nat
  p_status :: posting_status
  p_sourceModule :: string
  p_sourceDocumentNo :: string
  p_locationId :: string
  p_actorUserId :: string
  p_correlationId :: string
  p_result :: "posting_result option"

text \<open>A planned ledger line, and the row written for it.\<close>

record ledger_line =
  ll_lineNo :: nat
  ll_warehouseId :: string
  ll_itemId :: string
  ll_lotId :: string
  ll_movementType :: direction
  ll_quantity :: string
  ll_enteredQuantity :: string
  ll_enteredUom :: string
  ll_conversionFactor :: string
  ll_unitCost :: string
  ll_reasonCode :: "string option"
  ll_balanceBefore :: string
  ll_balanceAfter :: string
  ll_metadata :: "json option"
  ll_lineHash :: string

record ledger_row =
  lg_id :: string
  lg_postingId :: string
  lg_line :: ledger_line

record audit_row =
  a_actorUserId :: "string option"
  a_locationId :: "string option"
  a_action :: string
  a_entityType :: string
  a_entityId :: string

record outbox_row =
  ob_eventType :: string
  ob_aggregateId :: string
  ob_correlationId :: string
  ob_payload :: json

text \<open>
  The database as the stock modules see it; other modules extend the record with their own tables.
  \<open>db_ids\<close> counts the identifiers handed out, the parameter \<open>env_uuid\<close> gives the \<open>n\<close>-th.
\<close>

record stock_db =
  db_warehouses :: "warehouse list"
  db_items :: "item list"
  db_conversions :: "uom_conversion list"
  db_lots :: "lot list"
  db_balances :: "balance list"
  db_users :: "user_row list"
  db_sessions :: "session_row list"
  db_access :: "access_row list"
  db_flags :: "flag_row list"
  db_openTopologyExceptions :: nat
  db_documents :: "document list"
  db_postings :: "posting_row list"
  db_ledger :: "ledger_row list"
  db_audit :: "audit_row list"
  db_outbox :: "outbox_row list"
  db_ids :: nat

text \<open>
  What the process gets from outside: \<open>gen_random_uuid()\<close>, the current date in Manila, the
  collation behind \<open>localeCompare\<close> (\<open>a \<le> b\<close>), SHA-256 of the JSON text of a value, and the
  environment variable \<open>STOCK_POSTING_DISABLED\<close>.
\<close>

record env =
  env_uuid :: "nat \<Rightarrow> string"
  env_today :: string
  env_collate :: "string \<Rightarrow> string \<Rightarrow> bool"
  env_sha256 :: "json \<Rightarrow> string"
  env_stockPostingDisabled :: "string option"

definition lookup_policy :: "(string \<times> document_policy) list \<Rightarrow> string \<Rightarrow> document_policy option" where
  "lookup_policy ps m = map_of ps m"

text \<open>A transaction: an error rolls every write back.\<close>

definition run_tx :: "('db \<Rightarrow> 'e + 'db \<times> 'a) \<Rightarrow> 'db \<Rightarrow> 'db \<times> ('e + 'a)" where
  "run_tx body db = (case body db of Inl e \<Rightarrow> (db, Inl e) | Inr (db', a) \<Rightarrow> (db', Inr a))"

lemma run_tx_error: "run_tx body db = (db', Inl e) \<Longrightarrow> db' = db"
  by (auto simp: run_tx_def split: sum.splits)

lemma run_tx_ok: "run_tx body db = (db', Inr a) \<longleftrightarrow> body db = Inr (db', a)"
  by (auto simp: run_tx_def split: sum.splits)

text \<open>\<open>findSqlState\<close>: the first five-character code in the first eight links of the cause chain.\<close>

definition is_sql_state :: "string \<Rightarrow> bool" where
  "is_sql_state s = (length s = 5 \<and> list_all (\<lambda>c. is_digit c \<or> (65 \<le> code_of c \<and> code_of c \<le> 90)) s)"

definition findSqlState :: "string option list \<Rightarrow> string option" where
  "findSqlState causes =
     (case List.find (\<lambda>c. case c of Some s \<Rightarrow> is_sql_state s | None \<Rightarrow> False) (take 8 causes) of
        Some c \<Rightarrow> c | None \<Rightarrow> None)"

definition stock_code_name :: "stock_code \<Rightarrow> string" where
  "stock_code_name c = (case c of
      FEATURE_DISABLED \<Rightarrow> ''FEATURE_DISABLED'' | UNAUTHORIZED \<Rightarrow> ''UNAUTHORIZED''
    | DOCUMENT_NOT_FOUND \<Rightarrow> ''DOCUMENT_NOT_FOUND'' | INVALID_TRANSITION \<Rightarrow> ''INVALID_TRANSITION''
    | IDEMPOTENCY_KEY_REUSED \<Rightarrow> ''IDEMPOTENCY_KEY_REUSED''
    | POSTING_IN_PROGRESS \<Rightarrow> ''POSTING_IN_PROGRESS'' | INVALID_MOVEMENT \<Rightarrow> ''INVALID_MOVEMENT''
    | LOT_NOT_FOUND \<Rightarrow> ''LOT_NOT_FOUND'' | LOT_ITEM_MISMATCH \<Rightarrow> ''LOT_ITEM_MISMATCH''
    | LOT_NOT_ELIGIBLE \<Rightarrow> ''LOT_NOT_ELIGIBLE'' | UOM_MISMATCH \<Rightarrow> ''UOM_MISMATCH''
    | FORBIDDEN_ROUTE \<Rightarrow> ''FORBIDDEN_ROUTE'' | INSUFFICIENT_STOCK \<Rightarrow> ''INSUFFICIENT_STOCK''
    | CONCURRENT_MODIFICATION \<Rightarrow> ''CONCURRENT_MODIFICATION''
    | LEDGER_MISMATCH \<Rightarrow> ''LEDGER_MISMATCH'')"

text \<open>
  The \<open>code\<close> properties along the cause chain of an error. The query builder wraps an error of
  the driver, which carries the SQLSTATE, as the cause of an error without code.
\<close>

definition error_causes :: "stock_error \<Rightarrow> string option list" where
  "error_causes err = (case err of
      StockErr c _ \<Rightarrow> [Some (stock_code_name c)]
    | DbCheckViolation \<Rightarrow> [None, Some ''23514'']
    | DbUniqueViolation \<Rightarrow> [None, Some ''23505'']
    | DbNumericOverflow \<Rightarrow> [None, Some ''22003'']
    | DbAborted s \<Rightarrow> [None, Some s]
    | DecimalErr _ \<Rightarrow> [None]
    | JsTypeError \<Rightarrow> [None]
    | InjectedFault \<Rightarrow> [None])"

definition retryable :: "stock_error \<Rightarrow> bool" where
  "retryable err = (case findSqlState (error_causes err) of
      Some s \<Rightarrow> s \<in> {''40001'', ''40P01''} | None \<Rightarrow> False)"

section \<open>Warehouse resolution\<close>

text \<open>
  \<open>src/modules/stock/warehouse-resolver.ts\<close>. An empty \<open>locationId\<close> is falsy and means no filter.
\<close>

definition truthy :: "string option \<Rightarrow> string option" where
  "truthy x = (case x of Some s \<Rightarrow> if s = [] then None else Some s | None \<Rightarrow> None)"

definition resolveWarehouseForPurpose ::
  "'z stock_db_scheme \<Rightarrow> purpose \<Rightarrow> string option \<Rightarrow> bool \<Rightarrow> stock_error + warehouse" where
  "resolveWarehouseForPurpose db p locationId allowLegacyFallback =
     (let loc = truthy locationId;
          purposeRows = filter (\<lambda>w. w_purpose w = Some p \<and> w_isActive w \<and>
                          (case loc of Some l \<Rightarrow> w_locationId w = l | None \<Rightarrow> True)) (db_warehouses db)
      in case purposeRows of
           [w] \<Rightarrow> Inr w
         | _ # _ \<Rightarrow> Inl (StockErr FORBIDDEN_ROUTE 409)
         | [] \<Rightarrow>
             (case loc of
                Some l \<Rightarrow>
                  if allowLegacyFallback \<and> p \<in> {OUTLET_STORAGE, KITCHEN}
                  then (let legacyType = (if p = KITCHEN then TypeKitchen else TypeMain)
                        in case filter (\<lambda>w. w_locationId w = l \<and> w_type w = legacyType \<and> w_isActive w)
                                  (db_warehouses db) of
                             [w] \<Rightarrow> Inr w
                           | _ \<Rightarrow> Inl (StockErr FORBIDDEN_ROUTE 409))
                  else Inl (StockErr FORBIDDEN_ROUTE 409)
              | None \<Rightarrow> Inl (StockErr FORBIDDEN_ROUTE 409)))"

definition assertTopologyReady :: "'z stock_db_scheme \<Rightarrow> stock_error + unit" where
  "assertTopologyReady db =
     ensure (length (filter (\<lambda>w. w_purpose w = Some HQ_MAIN \<and> w_isActive w) (db_warehouses db)) = 1 \<and>
             db_openTopologyExceptions db = 0)
       (StockErr FEATURE_DISABLED 503)"

lemma resolveWarehouseForPurpose_sound:
  assumes "resolveWarehouseForPurpose db p loc fb = Inr w"
  shows "w \<in> set (db_warehouses db)" "w_isActive w"
    "\<And>l. loc = Some l \<Longrightarrow> l \<noteq> [] \<Longrightarrow> w_locationId w = l"
    "\<not> fb \<Longrightarrow> w_purpose w = Some p"
  using assms
  by (auto simp: resolveWarehouseForPurpose_def truthy_def Let_def filter_eq_Cons_iff
      split: list.splits option.splits if_splits)

end
