(* ===== verification/Canonical.thy ===== *)
theory Canonical
  imports StockTypes
begin

text \<open>
  Canonical form of a posting (\<open>src/modules/stock/canonical.ts\<close>): movements with the same
  identity are added up, the rest is sorted, and the request hash is taken of a JSON value whose
  keys are sorted. The JSON text used as a \<open>Map\<close> key or hashed is a function of the JSON value, so
  the value itself is the key and \<open>env_sha256\<close> hashes the value.
\<close>

definition STOCK_POSTING_HASH_VERSION :: nat where "STOCK_POSTING_HASH_VERSION = 1"

fun canonicalValue :: "(string \<Rightarrow> string \<Rightarrow> bool) \<Rightarrow> json \<Rightarrow> json" where
  "canonicalValue le (JArr vs) = JArr (map (canonicalValue le) vs)"
| "canonicalValue le (JObj kvs) =
     JObj (sort_by (\<lambda>a b. le (fst a) (fst b)) (map (\<lambda>kv. (fst kv, canonicalValue le (snd kv))) kvs))"
| "canonicalValue le JNull = JNull"
| "canonicalValue le (JBool b) = JBool b"
| "canonicalValue le (JNum n) = JNum n"
| "canonicalValue le (JStr s) = JStr s"

definition join_colon :: "string list \<Rightarrow> string" where
  "join_colon xs = (case xs of [] \<Rightarrow> [] | x # ys \<Rightarrow> foldl (\<lambda>acc y. acc @ '':'' @ y) x ys)"

definition movementSortKey :: "movement \<Rightarrow> string" where
  "movementSortKey m =
     join_colon [m_warehouseId m, m_itemId m, m_lotId m,
                 if m_movementType m = IN then ''0'' else ''1'']"

definition direction_name :: "direction \<Rightarrow> string" where
  "direction_name d = (case d of IN \<Rightarrow> ''IN'' | OUT \<Rightarrow> ''OUT'')"

definition policy_name :: "source_policy \<Rightarrow> string" where
  "policy_name p = (case p of ALLOCATABLE \<Rightarrow> ''ALLOCATABLE'' | CUSTODY_MOVE \<Rightarrow> ''CUSTODY_MOVE''
     | DISPOSITION \<Rightarrow> ''DISPOSITION'' | QUARANTINE_RELEASE \<Rightarrow> ''QUARANTINE_RELEASE''
     | QUARANTINE_HOLD \<Rightarrow> ''QUARANTINE_HOLD'')"

text \<open>An object literal: a key whose value is \<open>undefined\<close> is dropped.\<close>

definition json_object :: "(string \<times> json option) list \<Rightarrow> json" where
  "json_object kvs = JObj (List.map_filter (\<lambda>(k, v). map_option (Pair k) v) kvs)"

definition normalizeMovement :: "env \<Rightarrow> movement \<Rightarrow> decimal_error + movement" where
  "normalizeMovement e m =
     bindE (normalizeFixed (m_quantity m) 6) (\<lambda>q.
     bindE (normalizeFixed (case m_enteredQuantity m of Some x \<Rightarrow> x | None \<Rightarrow> m_quantity m) 6) (\<lambda>eq.
     bindE (normalizeFixed (case m_conversionFactor m of Some x \<Rightarrow> x | None \<Rightarrow> ''1'') 8) (\<lambda>cf.
     bindE (normalizeFixed (case m_unitCost m of Some x \<Rightarrow> x | None \<Rightarrow> ''0'') 6) (\<lambda>uc.
       Inr (m\<lparr>m_quantity := q, m_enteredQuantity := Some eq, m_conversionFactor := Some cf,
             m_unitCost := Some uc,
             m_metadata := map_option (canonicalValue (env_collate e)) (m_metadata m)\<rparr>)))))"

definition aggregationKey :: "env \<Rightarrow> movement \<Rightarrow> json" where
  "aggregationKey e m =
     canonicalValue (env_collate e) (json_object
       [(''warehouseId'', Some (JStr (m_warehouseId m))),
        (''itemId'', Some (JStr (m_itemId m))),
        (''lotId'', Some (JStr (m_lotId m))),
        (''movementType'', Some (JStr (direction_name (m_movementType m)))),
        (''enteredUom'', Some (JStr (m_enteredUom m))),
        (''conversionFactor'', map_option JStr (m_conversionFactor m)),
        (''unitCost'', map_option JStr (m_unitCost m)),
        (''reasonCode'', map_option JStr (m_reasonCode m)),
        (''sourcePolicy'', map_option (\<lambda>p. JStr (policy_name p)) (m_sourcePolicy m)),
        (''metadata'', m_metadata m)])"

definition addFixed :: "string \<Rightarrow> string \<Rightarrow> decimal_error + string" where
  "addFixed a b =
     bindE (parseFixed a 6) (\<lambda>x. bindE (parseFixed b 6) (\<lambda>y. Inr (formatFixed (x + y) 6)))"

definition entered_of :: "movement \<Rightarrow> string" where
  "entered_of m = (case m_enteredQuantity m of Some x \<Rightarrow> x | None \<Rightarrow> m_quantity m)"

text \<open>One turn of the grouping loop; the \<open>Map\<close> keeps the insertion order.\<close>

definition groupMovement ::
  "env \<Rightarrow> movement \<Rightarrow> (json \<times> movement) list \<Rightarrow> decimal_error + (json \<times> movement) list" where
  "groupMovement e m grouped =
     bindE (normalizeMovement e m) (\<lambda>candidate.
       let key = aggregationKey e candidate in
       case map_of grouped key of
         None \<Rightarrow> Inr (AList.update key candidate grouped)
       | Some existing \<Rightarrow>
           bindE (addFixed (m_quantity existing) (m_quantity candidate)) (\<lambda>q.
           bindE (addFixed (entered_of existing) (entered_of candidate)) (\<lambda>eq.
             Inr (AList.update key (existing\<lparr>m_quantity := q, m_enteredQuantity := Some eq\<rparr>) grouped))))"

definition movement_json :: "movement \<Rightarrow> json" where
  "movement_json m = json_object
     [(''warehouseId'', Some (JStr (m_warehouseId m))),
      (''itemId'', Some (JStr (m_itemId m))),
      (''lotId'', Some (JStr (m_lotId m))),
      (''movementType'', Some (JStr (direction_name (m_movementType m)))),
      (''quantity'', Some (JStr (m_quantity m))),
      (''enteredQuantity'', map_option JStr (m_enteredQuantity m)),
      (''enteredUom'', Some (JStr (m_enteredUom m))),
      (''conversionFactor'', map_option JStr (m_conversionFactor m)),
      (''unitCost'', map_option JStr (m_unitCost m)),
      (''reasonCode'', map_option JStr (m_reasonCode m)),
      (''sourcePolicy'', map_option (\<lambda>p. JStr (policy_name p)) (m_sourcePolicy m)),
      (''metadata'', m_metadata m)]"

definition request_json :: "env \<Rightarrow> posting_input \<Rightarrow> json" where
  "request_json e inp = canonicalValue (env_collate e) (json_object
     [(''hashVersion'', Some (JNum (nat_str STOCK_POSTING_HASH_VERSION))),
      (''sourceModule'', Some (JStr (pi_sourceModule inp))),
      (''sourceDocumentNo'', Some (JStr (pi_sourceDocumentNo inp))),
      (''locationId'', Some (JStr (pi_locationId inp))),
      (''movements'', Some (JArr (map movement_json (pi_movements inp))))])"

definition canonicalizePosting :: "env \<Rightarrow> posting_input \<Rightarrow> decimal_error + (string \<times> posting_input)" where
  "canonicalizePosting e inp =
     bindE (foldE (groupMovement e) (pi_movements inp) []) (\<lambda>grouped.
       let normalized = inp\<lparr>pi_movements :=
             sort_by (\<lambda>a b. env_collate e (movementSortKey a) (movementSortKey b)) (map snd grouped)\<rparr>
       in Inr (env_sha256 e (request_json e normalized), normalized))"

section \<open>What canonicalization keeps\<close>

text \<open>The signed quantity of a movement in millionths; \<open>0\<close> for text that does not parse.\<close>

definition qty_of :: "movement \<Rightarrow> int" where
  "qty_of m = (case parseFixed (m_quantity m) 6 of Inr v \<Rightarrow> v | Inl _ \<Rightarrow> 0)"

definition signed_qty :: "movement \<Rightarrow> int" where
  "signed_qty m = (if m_movementType m = IN then qty_of m else - qty_of m)"

text \<open>Net effect of a list of movements on one lot in one warehouse.\<close>

definition net_of :: "string \<Rightarrow> string \<Rightarrow> movement list \<Rightarrow> int" where
  "net_of wid lid ms =
     sum_list (map (\<lambda>m. if m_warehouseId m = wid \<and> m_lotId m = lid then signed_qty m else 0) ms)"

lemma set_canonical_pairs:
  "set (sort_by f (map (\<lambda>kv. (fst kv, g (snd kv))) (List.map_filter (\<lambda>(k, v). map_option (Pair k) v) kvs))) =
     {(k, g v) | k v. (k, Some v) \<in> set kvs}"
proof -
  have "set (List.map_filter (\<lambda>(k, v). map_option (Pair k) v) kvs) = {(k, v). (k, Some v) \<in> set kvs}"
    by (force simp: List.map_filter_def)
  then show ?thesis unfolding set_sort_by set_map by force
qed

lemma canonical_object_mem:
  assumes "canonicalValue le (json_object kvs) = JObj L"
  shows "(k, v) \<in> set L \<longleftrightarrow> (\<exists>v0. (k, Some v0) \<in> set kvs \<and> v = canonicalValue le v0)"
proof -
  have "L = sort_by (\<lambda>a b. le (fst a) (fst b)) (map (\<lambda>kv. (fst kv, canonicalValue le (snd kv)))
      (List.map_filter (\<lambda>(k, v). map_option (Pair k) v) kvs))"
    using assms unfolding json_object_def canonicalValue.simps json.inject by (rule sym)
  then have "set L = {(k, canonicalValue le v) | k v. (k, Some v) \<in> set kvs}"
    by (simp only: set_canonical_pairs)
  then show ?thesis by blast
qed

lemma canonical_object_is_object: "\<exists>L. canonicalValue le (json_object kvs) = JObj L"
  by (simp add: json_object_def)

lemma canonical_objects_eq:
  assumes eq: "canonicalValue le (json_object xs) = canonicalValue le (json_object ys)"
    and d: "distinct (map fst ys)" and x: "(k, Some v) \<in> set xs" and y: "(k, v') \<in> set ys"
  shows "\<exists>w. v' = Some w \<and> canonicalValue le w = canonicalValue le v"
proof -
  obtain L where L: "canonicalValue le (json_object xs) = JObj L" using canonical_object_is_object by blast
  from canonical_object_mem [OF L] x have "(k, canonicalValue le v) \<in> set L" by blast
  with L eq obtain w where w: "(k, Some w) \<in> set ys" "canonicalValue le v = canonicalValue le w"
    using canonical_object_mem [of le ys L] by auto
  with d y have "v' = Some w" by (metis eq_key_imp_eq_value)
  with w(2) show ?thesis by simp
qed

lemma aggregationKey_identity:
  assumes "aggregationKey e a = aggregationKey e b"
  shows "m_warehouseId a = m_warehouseId b" "m_itemId a = m_itemId b" "m_lotId a = m_lotId b"
    "m_movementType a = m_movementType b" "m_enteredUom a = m_enteredUom b"
proof -
  note eq = assms [unfolded aggregationKey_def]
  note field = canonical_objects_eq [OF eq]
  have "canonicalValue (env_collate e) (JStr (m_warehouseId b)) = canonicalValue (env_collate e) (JStr (m_warehouseId a))"
    using field [of "''warehouseId''" "JStr (m_warehouseId a)" "Some (JStr (m_warehouseId b))"] by simp
  then show "m_warehouseId a = m_warehouseId b" by simp
  have "canonicalValue (env_collate e) (JStr (m_itemId b)) = canonicalValue (env_collate e) (JStr (m_itemId a))"
    using field [of "''itemId''" "JStr (m_itemId a)" "Some (JStr (m_itemId b))"] by simp
  then show "m_itemId a = m_itemId b" by simp
  have "canonicalValue (env_collate e) (JStr (m_lotId b)) = canonicalValue (env_collate e) (JStr (m_lotId a))"
    using field [of "''lotId''" "JStr (m_lotId a)" "Some (JStr (m_lotId b))"] by simp
  then show "m_lotId a = m_lotId b" by simp
  have "canonicalValue (env_collate e) (JStr (m_enteredUom b)) = canonicalValue (env_collate e) (JStr (m_enteredUom a))"
    using field [of "''enteredUom''" "JStr (m_enteredUom a)" "Some (JStr (m_enteredUom b))"] by simp
  then show "m_enteredUom a = m_enteredUom b" by simp
  have "canonicalValue (env_collate e) (JStr (direction_name (m_movementType b))) =
      canonicalValue (env_collate e) (JStr (direction_name (m_movementType a)))"
    using field [of "''movementType''" "JStr (direction_name (m_movementType a))"
        "Some (JStr (direction_name (m_movementType b)))"] by simp
  then show "m_movementType a = m_movementType b"
    by (cases "m_movementType a"; cases "m_movementType b") (simp_all add: direction_name_def)
qed

lemma normalizeMovement_keeps:
  assumes "normalizeMovement e m = Inr c"
  shows "m_warehouseId c = m_warehouseId m" "m_itemId c = m_itemId m" "m_lotId c = m_lotId m"
    "m_movementType c = m_movementType m" "m_sourcePolicy c = m_sourcePolicy m"
    "m_enteredUom c = m_enteredUom m" "qty_of c = qty_of m"
    "\<exists>v. parseFixed (m_quantity m) 6 = Inr v \<and> m_quantity c = formatFixed v 6"
    "\<exists>v. m_enteredQuantity c = Some (formatFixed v 6)"
    "\<exists>v. m_conversionFactor c = Some (formatFixed v 8)"
    "\<exists>v. m_unitCost c = Some (formatFixed v 6)"
  using assms by (auto simp: normalizeMovement_def res_iff qty_of_def)

lemma aggregationKey_quantity [simp]:
  "aggregationKey e (m\<lparr>m_quantity := q, m_enteredQuantity := eq\<rparr>) = aggregationKey e m"
  by (simp add: aggregationKey_def)

lemma addFixed_Inr_iff [res_iff]:
  "addFixed a b = Inr c \<longleftrightarrow>
     (\<exists>x y. parseFixed a 6 = Inr x \<and> parseFixed b 6 = Inr y \<and> c = formatFixed (x + y) 6)"
  by (auto simp: addFixed_def res_iff)

lemma sum_AList_update:
  "sum_list (map (\<lambda>kv. g (snd kv)) (AList.update k v al)) =
     sum_list (map (\<lambda>kv. g (snd kv)) al) + g v - (case map_of al k of Some w \<Rightarrow> g w | None \<Rightarrow> 0)"
  for g :: "'b \<Rightarrow> int"
  by (induction al) (auto split: option.splits)

definition normal_movement :: "movement \<Rightarrow> bool" where
  "normal_movement m \<longleftrightarrow> 0 < qty_of m \<and> m_quantity m = formatFixed (qty_of m) 6 \<and>
     (\<exists>v. m_enteredQuantity m = Some (formatFixed v 6)) \<and>
     (\<exists>v. m_conversionFactor m = Some (formatFixed v 8)) \<and>
     (\<exists>v. m_unitCost m = Some (formatFixed v 6))"

definition grouped_ok :: "env \<Rightarrow> (json \<times> movement) list \<Rightarrow> bool" where
  "grouped_ok e grouped \<longleftrightarrow>
     (\<forall>k m. (k, m) \<in> set grouped \<longrightarrow> aggregationKey e m = k \<and> normal_movement m)"

lemma grouped_ok_update:
  assumes "grouped_ok e grouped" "aggregationKey e m = k" "normal_movement m"
  shows "grouped_ok e (AList.update k m grouped)"
proof -
  have "set (AList.update k m grouped) \<subseteq> insert (k, m) (set grouped)" by (induction grouped) auto
  with assms show ?thesis unfolding grouped_ok_def by blast
qed

definition by_identity :: "(movement \<Rightarrow> int) \<Rightarrow> bool" where
  "by_identity w \<longleftrightarrow> (\<forall>a b. m_warehouseId a = m_warehouseId b \<longrightarrow> m_itemId a = m_itemId b \<longrightarrow>
     m_lotId a = m_lotId b \<longrightarrow> m_movementType a = m_movementType b \<longrightarrow> w a = w b)"

lemma by_identityD:
  "by_identity w \<Longrightarrow> m_warehouseId a = m_warehouseId b \<Longrightarrow> m_itemId a = m_itemId b \<Longrightarrow>
   m_lotId a = m_lotId b \<Longrightarrow> m_movementType a = m_movementType b \<Longrightarrow> w a = w b"
  unfolding by_identity_def by blast

lemma groupMovement_step:
  assumes step: "groupMovement e m grouped = Inr grouped'"
    and ok: "grouped_ok e grouped" and pos: "0 < qty_of m"
    and g: "by_identity w"
  shows "grouped_ok e grouped'"
    and "sum_list (map (\<lambda>kv. w (snd kv) * qty_of (snd kv)) grouped') =
         sum_list (map (\<lambda>kv. w (snd kv) * qty_of (snd kv)) grouped) + w m * qty_of m"
proof -
  from step obtain c where c: "normalizeMovement e m = Inr c" by (auto simp: groupMovement_def res_iff)
  note keep = normalizeMovement_keeps [OF c]
  have wc: "w c = w m" by (rule by_identityD [OF g]) (simp_all add: keep)
  let ?k = "aggregationKey e c"
  have "grouped_ok e grouped' \<and>
      sum_list (map (\<lambda>kv. w (snd kv) * qty_of (snd kv)) grouped') =
      sum_list (map (\<lambda>kv. w (snd kv) * qty_of (snd kv)) grouped) + w m * qty_of m"
  proof (cases "map_of grouped ?k")
    case None
    with step c have g': "grouped' = AList.update ?k c grouped" by (simp add: groupMovement_def Let_def)
    have "m_quantity c = formatFixed (qty_of c) 6"
      using keep(8) by (auto simp: keep(7) qty_of_def)
    with keep pos have "normal_movement c" by (simp add: normal_movement_def)
    with ok have "grouped_ok e grouped'" unfolding g' by (simp add: grouped_ok_update)
    with None show ?thesis
      unfolding g' sum_AList_update [where g = "\<lambda>x. w x * qty_of x"] by (simp add: wc keep(7))
  next
    case (Some x)
    then have xk: "aggregationKey e x = ?k" and xn: "normal_movement x"
      using ok unfolding grouped_ok_def by (blast dest: map_of_SomeD)+
    from step c Some obtain q eq where q: "addFixed (m_quantity x) (m_quantity c) = Inr q"
      and eq: "addFixed (entered_of x) (entered_of c) = Inr eq"
      and g': "grouped' = AList.update ?k (x\<lparr>m_quantity := q, m_enteredQuantity := Some eq\<rparr>) grouped"
      by (auto simp: groupMovement_def Let_def res_iff)
    let ?x' = "x\<lparr>m_quantity := q, m_enteredQuantity := Some eq\<rparr>"
    from q have qx: "q = formatFixed (qty_of x + qty_of c) 6" by (auto simp: res_iff qty_of_def)
    then have qty': "qty_of ?x' = qty_of x + qty_of c" by (simp add: qty_of_def)
    have wx: "w ?x' = w x" by (rule by_identityD [OF g]) simp_all
    have wxc: "w x = w c" by (rule by_identityD [OF g]) (simp_all add: aggregationKey_identity [OF xk])
    have "\<exists>v. eq = formatFixed v 6" using eq by (auto simp: res_iff)
    with xn qx qty' keep(7) pos have "normal_movement ?x'" by (simp add: normal_movement_def)
    with ok xk have "grouped_ok e grouped'" unfolding g' by (simp add: grouped_ok_update)
    with Some show ?thesis
      unfolding g' sum_AList_update [where g = "\<lambda>x. w x * qty_of x"]
      by (simp only: option.case qty' wx) (simp add: wxc wc keep(7) algebra_simps)
  qed
  then show "grouped_ok e grouped'"
    and "sum_list (map (\<lambda>kv. w (snd kv) * qty_of (snd kv)) grouped') =
         sum_list (map (\<lambda>kv. w (snd kv) * qty_of (snd kv)) grouped) + w m * qty_of m" by blast+
qed

lemma groupMovements_sum:
  assumes "foldE (groupMovement e) ms grouped = Inr grouped'" and "grouped_ok e grouped"
    and "\<And>m. m \<in> set ms \<Longrightarrow> 0 < qty_of m"
    and "by_identity w"
  shows "grouped_ok e grouped' \<and>
     sum_list (map (\<lambda>kv. w (snd kv) * qty_of (snd kv)) grouped') =
     sum_list (map (\<lambda>kv. w (snd kv) * qty_of (snd kv)) grouped) + sum_list (map (\<lambda>m. w m * qty_of m) ms)"
  using assms(1-3)
proof (induction ms arbitrary: grouped)
  case Nil
  then show ?case by simp
next
  case (Cons m ms)
  from Cons.prems(1) obtain g1 where g1: "groupMovement e m grouped = Inr g1"
    "foldE (groupMovement e) ms g1 = Inr grouped'" by (auto simp: res_iff)
  note st = groupMovement_step [OF g1(1) Cons.prems(2), of w]
  have "grouped_ok e g1" using st(1) Cons.prems(3) assms(4) by simp
  with Cons.IH [OF g1(2)] Cons.prems(3) st(2) assms(4) show ?case by simp
qed

definition movement_weight :: "string \<Rightarrow> string \<Rightarrow> movement \<Rightarrow> int" where
  "movement_weight wid lid m =
     (if m_warehouseId m = wid \<and> m_lotId m = lid then (if m_movementType m = IN then 1 else - 1) else 0)"

lemma by_identity_weight: "by_identity (movement_weight wid lid)"
  by (simp add: by_identity_def movement_weight_def)

lemma net_of_weight: "net_of wid lid ms = sum_list (map (\<lambda>m. movement_weight wid lid m * qty_of m) ms)"
  unfolding net_of_def by (rule arg_cong [where f = sum_list]) (auto simp: movement_weight_def signed_qty_def)

lemma canonicalizePosting_Inr:
  assumes "canonicalizePosting e inp = Inr (h, n)"
  obtains grouped where "foldE (groupMovement e) (pi_movements inp) [] = Inr grouped"
    "n = inp\<lparr>pi_movements :=
       sort_by (\<lambda>a b. env_collate e (movementSortKey a) (movementSortKey b)) (map snd grouped)\<rparr>"
    "h = env_sha256 e (request_json e n)"
  using assms by (auto simp: canonicalizePosting_def res_iff Let_def)

lemma canonicalizePosting_net:
  assumes "canonicalizePosting e inp = Inr (h, n)" and "\<And>m. m \<in> set (pi_movements inp) \<Longrightarrow> 0 < qty_of m"
  shows "net_of wid lid (pi_movements n) = net_of wid lid (pi_movements inp)"
    and "m \<in> set (pi_movements n) \<Longrightarrow> normal_movement m"
proof -
  from assms(1) obtain grouped where
    g: "foldE (groupMovement e) (pi_movements inp) [] = Inr grouped"
    and n: "n = inp\<lparr>pi_movements :=
       sort_by (\<lambda>a b. env_collate e (movementSortKey a) (movementSortKey b)) (map snd grouped)\<rparr>"
    by (rule canonicalizePosting_Inr)
  have ok0: "grouped_ok e []" by (simp add: grouped_ok_def)
  have both: "grouped_ok e grouped \<and>
     sum_list (map (\<lambda>kv. movement_weight wid lid (snd kv) * qty_of (snd kv)) grouped) =
     sum_list (map (\<lambda>m. movement_weight wid lid m * qty_of m) (pi_movements inp))"
    using groupMovements_sum [OF g ok0 _ by_identity_weight, of wid lid] assms(2) by simp
  show "net_of wid lid (pi_movements n) = net_of wid lid (pi_movements inp)"
    and "m \<in> set (pi_movements n) \<Longrightarrow> normal_movement m"
    using both unfolding n net_of_weight grouped_ok_def by (auto simp: sum_list_sort_by o_def)
qed

end
