(* ===== verification/PostingService.thy ===== *)
theory PostingService
  imports Canonical
begin

text \<open>
  The stock posting transaction, \<open>src/modules/stock/posting-service.ts\<close>: the definitions, in the
  order of the file. One posting runs in one database transaction whose rows are locked
  (\<open>FOR UPDATE\<close>), so it is a function from the database to an error or the new database and the
  result; \<open>run_tx\<close> rolls the writes of a failed one back. Timestamps are left out.
\<close>

datatype fault_stage = AfterClaim | AfterLedger | AfterBalance | AfterDocument | AfterAudit | AfterOutbox

text \<open>
  The dependencies of the service: the test-only fault injector (the error it throws at a stage, if
  any), the configured number of retries and the document policies.
\<close>

record posting_deps =
  dep_fault :: "fault_stage \<Rightarrow> stock_error option"
  dep_maxRetries :: "int option"
  dep_policies :: "(string \<times> document_policy) list"

record locked_key_state =
  ks_key :: string
  ks_lot :: lot
  ks_balance :: balance
  ks_warehouse :: warehouse
  ks_initial :: int
  ks_current :: int
  ks_reserved :: int

record actor =
  ac_id :: string
  ac_name :: string
  ac_role :: role
  ac_allowed :: "string list option"

definition keyOf :: "movement \<Rightarrow> string" where
  "keyOf m = join_colon [m_warehouseId m, m_itemId m, m_lotId m]"

definition source_policy_of :: "movement \<Rightarrow> source_policy" where
  "source_policy_of m = (case m_sourcePolicy m of Some p \<Rightarrow> p | None \<Rightarrow> ALLOCATABLE)"

definition isOutEligible :: "lot \<Rightarrow> source_policy \<Rightarrow> string \<Rightarrow> bool" where
  "isOutEligible l policy today =
     (if policy = ALLOCATABLE then
        l_status l = AVAILABLE \<and> (case truthy (l_expiresAt l) of Some d \<Rightarrow> today \<le> d | None \<Rightarrow> True)
      else if policy = CUSTODY_MOVE then l_status l \<noteq> DISPOSED \<and> l_status l \<noteq> EXHAUSTED
      else l_status l \<in> {QUARANTINED, EXPIRED, SPOILED, RECALLED})"

section \<open>Checks before the transaction\<close>

definition validateMovement :: "movement \<Rightarrow> stock_error + unit" where
  "validateMovement m =
     (if m_warehouseId m = [] \<or> m_itemId m = [] \<or> m_lotId m = [] \<or> trim (m_enteredUom m) = []
      then Inl (StockErr INVALID_MOVEMENT 400)
      else bindE (mapErr DecimalErr (parseFixed (m_quantity m) 6)) (\<lambda>q.
             ensure (0 < q) (StockErr INVALID_MOVEMENT 400)))"

definition validateInput :: "posting_input \<Rightarrow> stock_error + unit" where
  "validateInput inp =
     (if pi_actorUserId inp = [] then Inl (StockErr UNAUTHORIZED 401)
      else if trim (pi_idempotencyKey inp) = [] \<or> 200 < length (pi_idempotencyKey inp)
      then Inl (StockErr INVALID_MOVEMENT 400)
      else if trim (pi_correlationId inp) = [] \<or> 200 < length (pi_correlationId inp)
      then Inl (StockErr INVALID_MOVEMENT 400)
      else if trim (pi_sourceModule inp) = [] \<or> trim (pi_sourceDocumentNo inp) = []
      then Inl (StockErr INVALID_MOVEMENT 400)
      else if pi_movements inp = [] \<or> 500 < length (pi_movements inp)
      then Inl (StockErr INVALID_MOVEMENT 400)
      else foldE (\<lambda>m _. validateMovement m) (pi_movements inp) ())"

definition postingDisabled :: "env \<Rightarrow> bool" where
  "postingDisabled e =
     (to_lower (case env_stockPostingDisabled e of Some s \<Rightarrow> s | None \<Rightarrow> [])
        \<in> {''1'', ''true'', ''yes''})"

section \<open>Guards of the transaction\<close>

definition assertFeatureFlags :: "'z stock_db_scheme \<Rightarrow> string list \<Rightarrow> stock_error + unit" where
  "assertFeatureFlags db keys =
     foldE (\<lambda>key _.
         case List.find (\<lambda>f. f_key f = key) (db_flags db) of
           Some f \<Rightarrow> ensure (f_enabled f) (StockErr FEATURE_DISABLED 503)
         | None \<Rightarrow> Inl (StockErr FEATURE_DISABLED 503))
       (js_sorted_set keys) ()"

definition requiredFlags :: "document_policy \<Rightarrow> string list" where
  "requiredFlags policy =
     ''stock.lot_writes'' # (case truthy (dp_featureFlag policy) of Some f \<Rightarrow> [f] | None \<Rightarrow> [])"

definition authorizeActor ::
  "'z stock_db_scheme \<Rightarrow> posting_input \<Rightarrow> document_policy \<Rightarrow> stock_error + actor" where
  "authorizeActor db inp policy =
     (case List.find (\<lambda>u. u_id u = pi_actorUserId inp) (db_users db) of
        None \<Rightarrow> Inl (StockErr UNAUTHORIZED 403)
      | Some u \<Rightarrow>
          (case normalizeRole (Some (u_role u)) of
             Some (KnownRole role) \<Rightarrow>
               if \<not> u_active u \<or> role \<notin> set (dp_allowedRoles policy)
               then Inl (StockErr UNAUTHORIZED 403)
               else
                 bindE (case truthy (pi_sessionId inp) of
                          None \<Rightarrow> Inr ()
                        | Some sid \<Rightarrow>
                            ensure (\<exists>s \<in> set (db_sessions db).
                                      s_id s = sid \<and> s_userId s = u_id u \<and> \<not> s_loggedOut s)
                              (StockErr UNAUTHORIZED 401)) (\<lambda>_.
                 if outletScopeForRole (Some (role_name role)) \<noteq> ScopeAll
                 then (let allowed = map ua_locationId
                             (filter (\<lambda>a. ua_userId a = u_id u) (db_access db))
                       in if pi_locationId inp \<notin> set allowed then Inl (StockErr UNAUTHORIZED 403)
                          else Inr \<lparr>ac_id = u_id u, ac_name = u_name u, ac_role = role,
                                    ac_allowed = Some allowed\<rparr>)
                 else Inr \<lparr>ac_id = u_id u, ac_name = u_name u, ac_role = role, ac_allowed = None\<rparr>)
           | _ \<Rightarrow> Inl (StockErr UNAUTHORIZED 403)))"

definition lockOperationalDocument ::
  "'z stock_db_scheme \<Rightarrow> posting_input \<Rightarrow> stock_error + document" where
  "lockOperationalDocument db inp =
     (case List.find (\<lambda>d. d_module d = pi_sourceModule inp \<and> d_documentNo d = pi_sourceDocumentNo inp)
             (db_documents db) of
        None \<Rightarrow> Inl (StockErr DOCUMENT_NOT_FOUND 404)
      | Some d \<Rightarrow>
          if d_locationId d \<noteq> pi_locationId inp then Inl (StockErr UNAUTHORIZED 403) else Inr d)"

section \<open>The route\<close>

definition forbidden :: stock_error where
  "forbidden = StockErr FORBIDDEN_ROUTE 409"

definition route_matches ::
  "(string \<Rightarrow> warehouse) \<Rightarrow> movement \<Rightarrow> direction list \<Rightarrow> purpose list \<Rightarrow> bool" where
  "route_matches wh m dirs purposes =
     (m_movementType m \<in> set dirs \<and>
      (case w_purpose (wh (m_warehouseId m)) of Some p \<Rightarrow> p \<in> set purposes | None \<Rightarrow> False))"

definition singleOutletRouteClasses :: "route_class list" where
  "singleOutletRouteClasses =
     [RC_RECEIVE, RC_ORDER_DEDUCTION, RC_ADJUSTMENT, RC_INTERNAL_TRANSFER, RC_OUTLET_RETURN_DISPATCH,
      RC_QA_RELEASE]"

definition checkSingleOutlet ::
  "document_policy \<Rightarrow> posting_input \<Rightarrow> (string \<Rightarrow> warehouse) \<Rightarrow> stock_error + unit" where
  "checkSingleOutlet policy inp wh =
     (if dp_routeClass policy \<in> set singleOutletRouteClasses
      then (let locationIds = js_distinct (map (\<lambda>m. w_locationId (wh (m_warehouseId m))) (pi_movements inp))
            in if 1 < length locationIds then Inl forbidden
               else if dp_routeClass policy = RC_INTERNAL_TRANSFER \<and>
                       (case locationIds of [] \<Rightarrow> True | l # _ \<Rightarrow> l \<noteq> pi_locationId inp)
               then Inl forbidden
               else Inr ())
      else Inr ())"

text \<open>One turn of the net-zero loop of a return disposition; the key of the map is a string.\<close>

definition dispositionStep ::
  "movement \<Rightarrow> (string \<times> int) list \<Rightarrow> stock_error + (string \<times> int) list" where
  "dispositionStep m net =
     (if m_movementType m = OUT \<and> m_sourcePolicy m \<noteq> Some DISPOSITION then Inl forbidden
      else if m_movementType m = IN \<and> m_sourcePolicy m = Some QUARANTINE_HOLD then Inr net
      else bindE (mapErr DecimalErr (parseFixed (m_quantity m) 6)) (\<lambda>q.
             let key = m_itemId m @ '':'' @ m_lotId m;
                 signed = (if m_movementType m = IN then q else - q);
                 old = (case map_of net key of Some n \<Rightarrow> n | None \<Rightarrow> 0)
             in Inr (AList.update key (old + signed) net)))"

definition validateRouteClass ::
  "document_policy \<Rightarrow> posting_input \<Rightarrow> (string \<Rightarrow> warehouse) \<Rightarrow> stock_error + unit" where
  "validateRouteClass policy inp wh =
     (let ms = pi_movements inp;
          every = (\<lambda>p. list_all p ms);
          purpose = (\<lambda>m. w_purpose (wh (m_warehouseId m)))
      in case dp_routeClass policy of
           RC_RECEIVE \<Rightarrow> ensure (every (\<lambda>m. route_matches wh m [IN] [HQ_MAIN])) forbidden
         | RC_ORDER_DEDUCTION \<Rightarrow>
             bindE (ensure (every (\<lambda>m. route_matches wh m [OUT] [KITCHEN, OUTLET_STORAGE])) forbidden) (\<lambda>_.
               ensure (every (\<lambda>m. source_policy_of m = ALLOCATABLE)) forbidden)
         | RC_OUTLET_RETURN_DISPATCH \<Rightarrow>
             bindE (ensure (every (\<lambda>m. route_matches wh m [OUT] [OUTLET_STORAGE, KITCHEN])) forbidden) (\<lambda>_.
               ensure (every (\<lambda>m. m_sourcePolicy m = Some CUSTODY_MOVE)) forbidden)
         | RC_RETURN_DISPOSITION \<Rightarrow>
             bindE (ensure (every (\<lambda>m. route_matches wh m [IN, OUT] [QUARANTINE])) forbidden) (\<lambda>_.
             bindE (foldE dispositionStep ms []) (\<lambda>net.
               ensure (list_all (\<lambda>kv. snd kv = 0) net) forbidden))
         | RC_QA_RELEASE \<Rightarrow>
             bindE (ensure (every (\<lambda>m. route_matches wh m [OUT] [QUARANTINE] \<or>
                                       route_matches wh m [IN] [HQ_MAIN])) forbidden) (\<lambda>_.
               ensure (every (\<lambda>m. m_movementType m \<noteq> OUT \<or> m_sourcePolicy m = Some QUARANTINE_RELEASE))
                 forbidden)
         | RC_INTERNAL_TRANSFER \<Rightarrow>
             ensure (every (\<lambda>m. route_matches wh m [OUT] [OUTLET_STORAGE] \<or>
                                route_matches wh m [IN] [KITCHEN])) forbidden
         | RC_HQ_TRANSFER \<Rightarrow>
             bindE (ensure (every (\<lambda>m. route_matches wh m [OUT] [HQ_MAIN, PRODUCTION] \<or>
                      route_matches wh m [IN] [OUTLET_STORAGE, PRODUCTION, HQ_MAIN])) forbidden) (\<lambda>_.
               ensure (length (js_distinct (map (\<lambda>m. w_locationId (wh (m_warehouseId m)))
                         (filter (\<lambda>m. purpose m \<notin> {Some HQ_MAIN, Some QUARANTINE}) ms))) \<le> 1) forbidden)
         | RC_PRODUCTION \<Rightarrow> ensure (every (\<lambda>m. purpose m \<in> {Some HQ_MAIN, Some PRODUCTION})) forbidden
         | RC_OPENING_BALANCE \<Rightarrow> ensure (every (\<lambda>m. m_movementType m = IN)) forbidden
         | RC_ADJUSTMENT \<Rightarrow> ensure (length (js_distinct (map m_warehouseId ms)) = 1) forbidden)"

definition validateRoute ::
  "document_policy \<Rightarrow> posting_input \<Rightarrow> (string \<Rightarrow> warehouse) \<Rightarrow> stock_error + unit" where
  "validateRoute policy inp wh =
     bindE (checkSingleOutlet policy inp wh) (\<lambda>_. validateRouteClass policy inp wh)"


section \<open>Locks\<close>

text \<open>Warehouses in sorted id order, each active, mapped to a purpose and in the actor's scope.\<close>

definition lockWarehouses ::
  "'z stock_db_scheme \<Rightarrow> string list option \<Rightarrow> movement list \<Rightarrow> stock_error + (string \<times> warehouse) list" where
  "lockWarehouses db allowed ms =
     mapE (\<lambda>wid.
         case List.find (\<lambda>w. w_id w = wid) (db_warehouses db) of
           None \<Rightarrow> Inl forbidden
         | Some w \<Rightarrow>
             if \<not> w_isActive w \<or> w_purpose w = None then Inl forbidden
             else if (case allowed of Some ls \<Rightarrow> w_locationId w \<notin> set ls | None \<Rightarrow> False)
             then Inl (StockErr UNAUTHORIZED 403)
             else Inr (wid, w))
       (js_sorted_set (map m_warehouseId ms))"

definition lockItems :: "'z stock_db_scheme \<Rightarrow> movement list \<Rightarrow> stock_error + (string \<times> item) list" where
  "lockItems db ms =
     mapE (\<lambda>iid.
         case List.find (\<lambda>i. i_id i = iid) (db_items db) of
           None \<Rightarrow> Inl (StockErr INVALID_MOVEMENT 409)
         | Some i \<Rightarrow>
             if \<not> i_isActive i \<or> i_itemType i = SERVICE then Inl (StockErr INVALID_MOVEMENT 409)
             else Inr (iid, i))
       (js_sorted_set (map m_itemId ms))"

definition conversionKey :: "movement \<Rightarrow> string" where
  "conversionKey m = m_itemId m @ '':'' @ to_lower (trim (m_enteredUom m))"

text \<open>
  The configured factor of a conversion key, which is taken apart at its first colon. SQL \<open>lower\<close>
  agrees with \<open>toLowerCase\<close> on the characters of the model.
\<close>

definition lockConversion ::
  "'z stock_db_scheme \<Rightarrow> (string \<times> item) list \<Rightarrow> string \<Rightarrow> stock_error + (string \<times> string)" where
  "lockConversion db items key =
     (let itemId = takeWhile (\<lambda>c. c \<noteq> CHR '':'') key;
          enteredUom = drop (Suc (length itemId)) key
      in case map_of items itemId of
           None \<Rightarrow> Inl JsTypeError
         | Some i \<Rightarrow>
             if to_lower (trim (i_unit i)) = enteredUom then Inr (key, ''1.00000000'')
             else (case List.find (\<lambda>c. c_itemId c = itemId \<and> to_lower (c_fromUom c) = enteredUom \<and>
                                       c_isActive c) (db_conversions db) of
                     None \<Rightarrow> Inl (StockErr UOM_MISMATCH 409)
                   | Some c \<Rightarrow>
                       bindE (mapErr DecimalErr (normalizeFixed (formatFixed (c_toBaseFactor c) 8) 8))
                         (\<lambda>f. Inr (key, f))))"

definition lockConversions ::
  "'z stock_db_scheme \<Rightarrow> (string \<times> item) list \<Rightarrow> movement list \<Rightarrow> stock_error + (string \<times> string) list" where
  "lockConversions db items ms = mapE (lockConversion db items) (js_sorted_set (map conversionKey ms))"

definition checkConversion :: "(string \<times> string) list \<Rightarrow> movement \<Rightarrow> stock_error + unit" where
  "checkConversion factors m =
     (case map_of factors (conversionKey m) of
        None \<Rightarrow> Inl (StockErr UOM_MISMATCH 409)
      | Some configured \<Rightarrow>
          bindE (mapErr DecimalErr
                  (normalizeFixed (case m_conversionFactor m of Some x \<Rightarrow> x | None \<Rightarrow> ''1'') 8)) (\<lambda>f.
          bindE (ensure (f = configured) (StockErr UOM_MISMATCH 409)) (\<lambda>_.
          bindE (mapErr DecimalErr (multiplyFixedExact (entered_of m) 6 configured 8 6)) (\<lambda>base.
          bindE (mapErr DecimalErr (normalizeFixed (m_quantity m) 6)) (\<lambda>q.
            ensure (base = q) (StockErr UOM_MISMATCH 409))))))"

definition lockLots :: "'z stock_db_scheme \<Rightarrow> movement list \<Rightarrow> stock_error + (string \<times> lot) list" where
  "lockLots db ms =
     mapE (\<lambda>lid.
         case List.find (\<lambda>l. l_id l = lid) (db_lots db) of
           None \<Rightarrow> Inl (StockErr LOT_NOT_FOUND 404)
         | Some l \<Rightarrow> Inr (lid, l))
       (js_sorted_set (map m_lotId ms))"

definition checkLot :: "string \<Rightarrow> (string \<times> lot) list \<Rightarrow> movement \<Rightarrow> stock_error + unit" where
  "checkLot today lots m =
     (case map_of lots (m_lotId m) of
        None \<Rightarrow> Inl JsTypeError
      | Some l \<Rightarrow>
          if l_itemId l \<noteq> m_itemId m then Inl (StockErr LOT_ITEM_MISMATCH 409)
          else if m_movementType m = OUT \<and> \<not> isOutEligible l (source_policy_of m) today
          then Inl (StockErr LOT_NOT_ELIGIBLE 409)
          else Inr ())"

definition group_of :: "movement list \<Rightarrow> string \<Rightarrow> movement list" where
  "group_of ms key = filter (\<lambda>m. keyOf m = key) ms"

text \<open>\<open>insert ... onConflictDoNothing\<close> of an empty balance row.\<close>

definition insertBalance :: "env \<Rightarrow> string \<Rightarrow> string \<Rightarrow> 'z stock_db_scheme \<Rightarrow> 'z stock_db_scheme" where
  "insertBalance e wid lid db =
     (let bid = env_uuid e (db_ids db)
      in if \<exists>b \<in> set (db_balances db). b_id b = bid \<or> (b_warehouseId b = wid \<and> b_lotId b = lid) then db
         else db\<lparr>db_balances := db_balances db @
                   [\<lparr>b_id = bid, b_warehouseId = wid, b_lotId = lid, b_onHand = 0, b_reserved = 0,
                     b_version = 1\<rparr>],
                 db_ids := Suc (db_ids db)\<rparr>)"

definition createMissingBalances :: "env \<Rightarrow> movement list \<Rightarrow> 'z stock_db_scheme \<Rightarrow> 'z stock_db_scheme" where
  "createMissingBalances e ms db =
     fold (\<lambda>key db.
         let g = group_of ms key
         in if \<exists>m \<in> set g. m_movementType m = IN
            then insertBalance e (m_warehouseId (hd g)) (m_lotId (hd g)) db else db)
       (js_sorted_set (map keyOf ms)) db"

definition lockBalance ::
  "'z stock_db_scheme \<Rightarrow> (string \<times> warehouse) list \<Rightarrow> (string \<times> lot) list \<Rightarrow> movement list \<Rightarrow>
   string \<Rightarrow> stock_error + (string \<times> locked_key_state)" where
  "lockBalance db whs lots ms key =
     (let first = hd (group_of ms key)
      in case List.find (\<lambda>b. b_warehouseId b = m_warehouseId first \<and> b_lotId b = m_lotId first)
                (db_balances db) of
           None \<Rightarrow> Inl (StockErr INSUFFICIENT_STOCK 409)
         | Some b \<Rightarrow>
             Inr (key, \<lparr>ks_key = key, ks_lot = the (map_of lots (m_lotId first)), ks_balance = b,
                        ks_warehouse = the (map_of whs (m_warehouseId first)),
                        ks_initial = b_onHand b, ks_current = b_onHand b, ks_reserved = b_reserved b\<rparr>))"

text \<open>
  \<open>lockMovementKeys\<close>. The non-null assertions on \<open>warehousesById\<close> are \<open>the\<close>: every warehouse of a
  movement has been locked before.
\<close>

definition lockMovementKeys ::
  "env \<Rightarrow> posting_input \<Rightarrow> document_policy \<Rightarrow> string list option \<Rightarrow> 'z stock_db_scheme \<Rightarrow>
   stock_error + 'z stock_db_scheme \<times> (string \<times> locked_key_state) list" where
  "lockMovementKeys e inp policy allowed db =
     (let ms = pi_movements inp in
      bindE (lockWarehouses db allowed ms) (\<lambda>whs.
      bindE (validateRoute policy inp (\<lambda>wid. the (map_of whs wid))) (\<lambda>_.
      bindE (lockItems db ms) (\<lambda>items.
      bindE (lockConversions db items ms) (\<lambda>factors.
      bindE (foldE (\<lambda>m _. checkConversion factors m) ms ()) (\<lambda>_.
      bindE (lockLots db ms) (\<lambda>lots.
      bindE (foldE (\<lambda>m _. checkLot (env_today e) lots m) ms ()) (\<lambda>_.
      let db1 = createMissingBalances e ms db in
      bindE (mapE (lockBalance db1 whs lots ms) (js_sorted_set (map keyOf ms))) (\<lambda>states.
        Inr (db1, states))))))))))"


section \<open>The plan\<close>

definition line_json :: "ledger_line \<Rightarrow> json" where
  "line_json l = json_object
     [(''lineNo'', Some (JNum (nat_str (ll_lineNo l)))),
      (''warehouseId'', Some (JStr (ll_warehouseId l))),
      (''itemId'', Some (JStr (ll_itemId l))),
      (''lotId'', Some (JStr (ll_lotId l))),
      (''movementType'', Some (JStr (direction_name (ll_movementType l)))),
      (''quantity'', Some (JStr (ll_quantity l))),
      (''enteredQuantity'', Some (JStr (ll_enteredQuantity l))),
      (''enteredUom'', Some (JStr (ll_enteredUom l))),
      (''conversionFactor'', Some (JStr (ll_conversionFactor l))),
      (''unitCost'', Some (JStr (ll_unitCost l))),
      (''reasonCode'', map_option JStr (ll_reasonCode l)),
      (''balanceBefore'', Some (JStr (ll_balanceBefore l))),
      (''balanceAfter'', Some (JStr (ll_balanceAfter l))),
      (''metadata'', ll_metadata l)]"

definition hashPostingLine :: "env \<Rightarrow> json \<Rightarrow> string" where
  "hashPostingLine e v = env_sha256 e (canonicalValue (env_collate e) v)"

definition lineBase :: "nat \<Rightarrow> movement \<Rightarrow> int \<Rightarrow> int \<Rightarrow> ledger_line" where
  "lineBase lineNo m before after =
     \<lparr>ll_lineNo = lineNo, ll_warehouseId = m_warehouseId m, ll_itemId = m_itemId m,
      ll_lotId = m_lotId m, ll_movementType = m_movementType m, ll_quantity = m_quantity m,
      ll_enteredQuantity = entered_of m, ll_enteredUom = m_enteredUom m,
      ll_conversionFactor = (case m_conversionFactor m of Some x \<Rightarrow> x | None \<Rightarrow> ''1''),
      ll_unitCost = (case m_unitCost m of Some x \<Rightarrow> x | None \<Rightarrow> ''0''),
      ll_reasonCode = m_reasonCode m, ll_balanceBefore = formatFixed before 6,
      ll_balanceAfter = formatFixed after 6, ll_metadata = m_metadata m, ll_lineHash = []\<rparr>"

text \<open>One turn of the planning loop, on the line number, the locked states and the planned lines.\<close>

definition planMovement ::
  "env \<Rightarrow> movement \<Rightarrow> nat \<times> (string \<times> locked_key_state) list \<times> ledger_line list \<Rightarrow>
   stock_error + nat \<times> (string \<times> locked_key_state) list \<times> ledger_line list" where
  "planMovement e m = (\<lambda>(index, states, planned).
     case map_of states (keyOf m) of
       None \<Rightarrow> Inl JsTypeError
     | Some st \<Rightarrow>
         bindE (mapErr DecimalErr (parseFixed (m_quantity m) 6)) (\<lambda>q.
           let before = ks_current st;
               after = (if m_movementType m = IN then before + q else before - q)
           in if after < ks_reserved st \<or> after < 0 then Inl (StockErr INSUFFICIENT_STOCK 409)
              else let base = lineBase (index + 1) m before after
                   in Inr (index + 1,
                           AList.update (keyOf m) (st\<lparr>ks_current := after\<rparr>) states,
                           planned @ [base\<lparr>ll_lineHash := hashPostingLine e (line_json base)\<rparr>])))"

definition planMovements ::
  "env \<Rightarrow> movement list \<Rightarrow> (string \<times> locked_key_state) list \<Rightarrow>
   stock_error + nat \<times> (string \<times> locked_key_state) list \<times> ledger_line list" where
  "planMovements e ms states = foldE (planMovement e) ms (0, states, [])"

section \<open>The writes\<close>

text \<open>
  A text stored in a \<open>numeric(20,scale)\<close> column: twenty digits in all. The texts stored here are
  normal forms of the column's scale, so none is rounded.
\<close>

definition db_numeric :: "nat \<Rightarrow> string \<Rightarrow> stock_error + int" where
  "db_numeric scale s =
     bindE (mapErr DecimalErr (parseFixed s scale)) (\<lambda>v.
       if \<bar>v\<bar> < 10 ^ 20 then Inr v else Inl DbNumericOverflow)"

text \<open>The insert of one ledger row: column types, then the check constraints, then the unique ones.\<close>

definition insertLedgerLine ::
  "env \<Rightarrow> string \<Rightarrow> ledger_line \<Rightarrow> 'z stock_db_scheme \<Rightarrow> stock_error + 'z stock_db_scheme" where
  "insertLedgerLine e postingId l db =
     bindE (db_numeric 6 (ll_quantity l)) (\<lambda>q.
     bindE (db_numeric 6 (ll_enteredQuantity l)) (\<lambda>entered.
     bindE (db_numeric 8 (ll_conversionFactor l)) (\<lambda>factor.
     bindE (db_numeric 6 (ll_unitCost l)) (\<lambda>cost.
     bindE (db_numeric 6 (ll_balanceBefore l)) (\<lambda>before.
     bindE (db_numeric 6 (ll_balanceAfter l)) (\<lambda>after.
     bindE (ensure (0 < ll_lineNo l \<and> 0 < q \<and> 0 < entered \<and> 0 < factor \<and> 0 \<le> cost \<and>
                    0 \<le> before \<and> 0 \<le> after) DbCheckViolation) (\<lambda>_.
     bindE (ensure (\<forall>r \<in> set (db_ledger db). lg_postingId r = postingId \<longrightarrow>
                      ll_lineNo (lg_line r) \<noteq> ll_lineNo l \<and> ll_lineHash (lg_line r) \<noteq> ll_lineHash l)
             DbUniqueViolation) (\<lambda>_.
       Inr (db\<lparr>db_ledger := db_ledger db @
                 [\<lparr>lg_id = env_uuid e (db_ids db), lg_postingId = postingId, lg_line = l\<rparr>],
              db_ids := Suc (db_ids db)\<rparr>)))))))))"

definition insertLedgerLines ::
  "env \<Rightarrow> string \<Rightarrow> ledger_line list \<Rightarrow> 'z stock_db_scheme \<Rightarrow>
   stock_error + 'z stock_db_scheme \<times> (nat \<times> string) list" where
  "insertLedgerLines e postingId ls db =
     bindE (foldE (insertLedgerLine e postingId) ls db) (\<lambda>db'.
       Inr (db', map (\<lambda>r. (ll_lineNo (lg_line r), ll_lineHash (lg_line r)))
                   (drop (length (db_ledger db)) (db_ledger db'))))"

definition checkLedger :: "ledger_line list \<Rightarrow> (nat \<times> string) list \<Rightarrow> stock_error + unit" where
  "checkLedger planned inserted =
     (let expected = map_of (rev (map (\<lambda>l. (ll_lineNo l, ll_lineHash l)) planned))
      in ensure (length inserted = length planned \<and>
                 (\<forall>(n, h) \<in> set inserted. expected n = Some h)) (StockErr LEDGER_MISMATCH 500))"

definition updateBalance ::
  "locked_key_state \<Rightarrow> 'z stock_db_scheme \<Rightarrow> stock_error + 'z stock_db_scheme" where
  "updateBalance st db =
     (let hit = (\<lambda>b. b_id b = b_id (ks_balance st) \<and> b_version b = b_version (ks_balance st) \<and>
                     b_onHand b = ks_initial st \<and> b_reserved b \<le> ks_current st)
      in if \<exists>b \<in> set (db_balances db). hit b
         then Inr (db\<lparr>db_balances :=
                     update_where hit (\<lambda>b. b\<lparr>b_onHand := ks_current st, b_version := b_version b + 1\<rparr>)
                       (db_balances db)\<rparr>)
         else Inl (StockErr CONCURRENT_MODIFICATION 409))"

definition advanceDocument ::
  "document \<Rightarrow> string \<Rightarrow> string \<Rightarrow> 'z stock_db_scheme \<Rightarrow> stock_error + 'z stock_db_scheme" where
  "advanceDocument d nextStatus postingId db =
     (let hit = (\<lambda>r. d_id r = d_id d \<and> d_status r = d_status d \<and> d_version r = d_version d \<and>
                     d_stockPostingId r = None)
      in if \<exists>r \<in> set (db_documents db). hit r
         then Inr (db\<lparr>db_documents :=
                     update_where hit (\<lambda>r. r\<lparr>d_status := nextStatus, d_version := d_version r + 1,
                                            d_stockPostingId := Some postingId\<rparr>) (db_documents db)\<rparr>)
         else Inl (StockErr CONCURRENT_MODIFICATION 409))"

definition writeAudit :: "audit_row \<Rightarrow> 'z stock_db_scheme \<Rightarrow> 'z stock_db_scheme" where
  "writeAudit a db = db\<lparr>db_audit := db_audit db @ [a]\<rparr>"

definition writeOutbox :: "outbox_row \<Rightarrow> 'z stock_db_scheme \<Rightarrow> stock_error + 'z stock_db_scheme" where
  "writeOutbox r db =
     (if \<exists>o' \<in> set (db_outbox db). ob_correlationId o' = ob_correlationId r \<and>
           ob_eventType o' = ob_eventType r \<and> ob_aggregateId o' = ob_aggregateId r
      then Inl DbUniqueViolation
      else Inr (db\<lparr>db_outbox := db_outbox db @ [r]\<rparr>))"

definition completePosting ::
  "string \<Rightarrow> posting_result \<Rightarrow> 'z stock_db_scheme \<Rightarrow> stock_error + 'z stock_db_scheme" where
  "completePosting postingId res db =
     (let hit = (\<lambda>p. p_id p = postingId \<and> p_status p = PROCESSING)
      in if \<exists>p \<in> set (db_postings db). hit p
         then Inr (db\<lparr>db_postings :=
                     update_where hit (\<lambda>p. p\<lparr>p_status := COMPLETED, p_result := Some res\<rparr>)
                       (db_postings db)\<rparr>)
         else Inl (StockErr CONCURRENT_MODIFICATION 409))"


section \<open>The transaction\<close>

definition fault :: "posting_deps \<Rightarrow> fault_stage \<Rightarrow> stock_error + unit" where
  "fault deps stage = (case dep_fault deps stage of Some err \<Rightarrow> Inl err | None \<Rightarrow> Inr ())"

definition claimPosting ::
  "env \<Rightarrow> posting_input \<Rightarrow> string \<Rightarrow> actor \<Rightarrow> 'z stock_db_scheme \<Rightarrow> 'z stock_db_scheme" where
  "claimPosting e inp hash a db = db\<lparr>db_postings := db_postings db @
       [\<lparr>p_id = env_uuid e (db_ids db), p_idempotencyKey = pi_idempotencyKey inp, p_requestHash = hash,
         p_hashVersion = STOCK_POSTING_HASH_VERSION, p_status = PROCESSING,
         p_sourceModule = pi_sourceModule inp, p_sourceDocumentNo = pi_sourceDocumentNo inp,
         p_locationId = pi_locationId inp, p_actorUserId = ac_id a,
         p_correlationId = pi_correlationId inp, p_result = None\<rparr>],
     db_ids := Suc (db_ids db)\<rparr>"

definition storedReplay :: "posting_row \<Rightarrow> stock_error + posting_result" where
  "storedReplay p =
     (if p_status p \<noteq> COMPLETED then Inl (StockErr POSTING_IN_PROGRESS 409)
      else case p_result p of
             None \<Rightarrow> Inl (StockErr POSTING_IN_PROGRESS 409)
           | Some r \<Rightarrow> Inr (r\<lparr>pr_replayed := True\<rparr>))"

definition replayPosting ::
  "posting_input \<Rightarrow> string \<Rightarrow> 'z stock_db_scheme \<Rightarrow> stock_error + posting_result" where
  "replayPosting inp hash db =
     (case List.find (\<lambda>p. p_idempotencyKey p = pi_idempotencyKey inp) (db_postings db) of
        None \<Rightarrow> Inl (StockErr CONCURRENT_MODIFICATION 409)
      | Some p \<Rightarrow>
          if p_requestHash p \<noteq> hash \<or> p_hashVersion p \<noteq> STOCK_POSTING_HASH_VERSION
          then Inl (StockErr IDEMPOTENCY_KEY_REUSED 409)
          else storedReplay p)"

definition line_result_of :: "ledger_line \<Rightarrow> line_result" where
  "line_result_of l =
     \<lparr>lr_lineNo = ll_lineNo l, lr_warehouseId = ll_warehouseId l, lr_itemId = ll_itemId l,
      lr_lotId = ll_lotId l, lr_movementType = ll_movementType l, lr_quantity = ll_quantity l,
      lr_balanceBefore = ll_balanceBefore l, lr_balanceAfter = ll_balanceAfter l\<rparr>"

definition postingResult :: "string \<Rightarrow> posting_input \<Rightarrow> string \<Rightarrow> ledger_line list \<Rightarrow> posting_result" where
  "postingResult pid inp hash planned =
     \<lparr>pr_postingId = pid, pr_replayed = False, pr_idempotencyKey = pi_idempotencyKey inp,
      pr_requestHash = hash, pr_sourceModule = pi_sourceModule inp,
      pr_sourceDocumentNo = pi_sourceDocumentNo inp, pr_lines = map line_result_of planned\<rparr>"

definition postingEvent ::
  "document_policy \<Rightarrow> string \<Rightarrow> posting_input \<Rightarrow> ledger_line list \<Rightarrow> outbox_row" where
  "postingEvent policy pid inp planned =
     \<lparr>ob_eventType = ''stock.posting.completed'', ob_aggregateId = pid,
      ob_correlationId = pi_correlationId inp,
      ob_payload = json_object
        [(''postingId'', Some (JStr pid)), (''sourceModule'', Some (JStr (pi_sourceModule inp))),
         (''sourceDocumentNo'', Some (JStr (pi_sourceDocumentNo inp))),
         (''lineCount'', Some (JNum (nat_str (length planned)))),
         (''documentStatus'', Some (JStr (dp_nextStatus policy)))]\<rparr>"

text \<open>What follows a successful claim.\<close>

definition applyPosting ::
  "env \<Rightarrow> posting_deps \<Rightarrow> document_policy \<Rightarrow> posting_input \<Rightarrow> string \<Rightarrow> actor \<Rightarrow> document \<Rightarrow> string \<Rightarrow>
   'z stock_db_scheme \<Rightarrow> stock_error + 'z stock_db_scheme \<times> posting_result" where
  "applyPosting e deps policy inp hash a d pid db =
     bindE (ensure (d_status d \<in> set (dp_fromStatuses policy)) (StockErr INVALID_TRANSITION 409)) (\<lambda>_.
     bindE (fault deps AfterClaim) (\<lambda>_.
     bindE (lockMovementKeys e inp policy (ac_allowed a) db) (\<lambda>(db1, states).
     bindE (planMovements e (pi_movements inp) states) (\<lambda>(_, states', planned).
     bindE (insertLedgerLines e pid planned db1) (\<lambda>(db2, inserted).
     bindE (checkLedger planned inserted) (\<lambda>_.
     bindE (fault deps AfterLedger) (\<lambda>_.
     bindE (foldE updateBalance
              (sort_by (\<lambda>x y. env_collate e (ks_key x) (ks_key y)) (map snd states')) db2) (\<lambda>db3.
     bindE (fault deps AfterBalance) (\<lambda>_.
     bindE (advanceDocument d (dp_nextStatus policy) pid db3) (\<lambda>db4.
     bindE (fault deps AfterDocument) (\<lambda>_.
     let db5 = writeAudit \<lparr>a_actorUserId = Some (ac_id a), a_locationId = Some (pi_locationId inp),
                           a_action = ''stock.posting.completed'', a_entityType = ''stock_posting'',
                           a_entityId = pid\<rparr> db4 in
     bindE (fault deps AfterAudit) (\<lambda>_.
     bindE (writeOutbox (postingEvent policy pid inp planned) db5) (\<lambda>db6.
     bindE (fault deps AfterOutbox) (\<lambda>_.
     let res = postingResult pid inp hash planned in
     bindE (completePosting pid res db6) (\<lambda>db7.
       Inr (db7, res))))))))))))))))"

definition postingTransaction ::
  "env \<Rightarrow> posting_deps \<Rightarrow> document_policy \<Rightarrow> posting_input \<Rightarrow> string \<Rightarrow>
   'z stock_db_scheme \<Rightarrow> stock_error + 'z stock_db_scheme \<times> posting_result" where
  "postingTransaction e deps policy inp hash db =
     bindE (authorizeActor db inp policy) (\<lambda>a.
     bindE (assertFeatureFlags db (requiredFlags policy)) (\<lambda>_.
     bindE (assertTopologyReady db) (\<lambda>_.
     bindE (lockOperationalDocument db inp) (\<lambda>d.
       let pid = env_uuid e (db_ids db) in
       if \<exists>p \<in> set (db_postings db). p_idempotencyKey p = pi_idempotencyKey inp \<or> p_id p = pid
       then bindE (replayPosting inp hash db) (\<lambda>r. Inr (db, r))
       else applyPosting e deps policy inp hash a d pid (claimPosting e inp hash a db)))))"

text \<open>The checks before the transaction: the policy, the request hash and the normalized input.\<close>

definition preparePosting ::
  "env \<Rightarrow> posting_deps \<Rightarrow> posting_input \<Rightarrow> stock_error + document_policy \<times> string \<times> posting_input" where
  "preparePosting e deps inp =
     bindE (validateInput inp) (\<lambda>_.
     bindE (ensure (\<not> postingDisabled e) (StockErr FEATURE_DISABLED 503)) (\<lambda>_.
     case lookup_policy (dep_policies deps) (pi_sourceModule inp) of
       None \<Rightarrow> Inl (StockErr INVALID_MOVEMENT 409)
     | Some policy \<Rightarrow>
         bindE (mapErr DecimalErr (canonicalizePosting e inp)) (\<lambda>(hash, n). Inr (policy, hash, n))))"

text \<open>
  \<open>executePosting\<close>. \<open>abort\<close> is the SQLSTATE with which the server aborts the transaction, if it does.
\<close>

definition executePosting ::
  "env \<Rightarrow> posting_deps \<Rightarrow> string option \<Rightarrow> posting_input \<Rightarrow> 'z stock_db_scheme \<Rightarrow>
   'z stock_db_scheme \<times> (stock_error + posting_result)" where
  "executePosting e deps abort inp db =
     (case preparePosting e deps inp of
        Inl err \<Rightarrow> (db, Inl err)
      | Inr (policy, hash, n) \<Rightarrow>
          run_tx (\<lambda>db. case abort of
                          Some s \<Rightarrow> Inl (DbAborted s)
                        | None \<Rightarrow> postingTransaction e deps policy n hash db) db)"

text \<open>
  The service's \<open>post\<close>: an attempt that ends in a serialization failure or a deadlock is repeated,
  \<open>maxRetries\<close> times at most. \<open>aborts\<close> gives the abort of the \<open>n\<close>-th attempt.
\<close>

definition maxRetries :: "posting_deps \<Rightarrow> nat" where
  "maxRetries deps = nat (max 0 (min (case dep_maxRetries deps of Some n \<Rightarrow> n | None \<Rightarrow> 3) 3))"

function postAttempt ::
  "env \<Rightarrow> posting_deps \<Rightarrow> (nat \<Rightarrow> string option) \<Rightarrow> nat \<Rightarrow> posting_input \<Rightarrow> 'z stock_db_scheme \<Rightarrow>
   'z stock_db_scheme \<times> (stock_error + posting_result)" where
  "postAttempt e deps aborts attempt inp db =
     (case executePosting e deps (aborts attempt) inp db of
        (db', Inr r) \<Rightarrow> (db', Inr r)
      | (db', Inl err) \<Rightarrow>
          if \<not> retryable err \<or> maxRetries deps \<le> attempt then (db', Inl err)
          else postAttempt e deps aborts (Suc attempt) inp db')"
  by pat_completeness auto

termination postAttempt
  by (relation "measure (\<lambda>(e, deps, aborts, attempt, inp, db). maxRetries deps - attempt)") auto

definition post ::
  "env \<Rightarrow> posting_deps \<Rightarrow> (nat \<Rightarrow> string option) \<Rightarrow> posting_input \<Rightarrow> 'z stock_db_scheme \<Rightarrow>
   'z stock_db_scheme \<times> (stock_error + posting_result)" where
  "post e deps aborts inp db = postAttempt e deps aborts 0 inp db"

declare postAttempt.simps [simp del]

end
