(* ===== verification/PostingFacts.thy ===== *)
theory PostingFacts
  imports PostingService
begin

text \<open>
  What the posting transaction does to stock: the invariant of the balance table, the stock on hand
  of a lot in a warehouse, its agreement with the ledger, and lemmas on each step of the transaction.
\<close>

section \<open>Stock on hand, ledger, invariant\<close>

definition on_hand :: "'z stock_db_scheme \<Rightarrow> string \<Rightarrow> string \<Rightarrow> int" where
  "on_hand db wid lid =
     sum_list (map (\<lambda>b. if b_warehouseId b = wid \<and> b_lotId b = lid then b_onHand b else 0) (db_balances db))"

definition reserved_of :: "'z stock_db_scheme \<Rightarrow> string \<Rightarrow> string \<Rightarrow> int" where
  "reserved_of db wid lid =
     sum_list (map (\<lambda>b. if b_warehouseId b = wid \<and> b_lotId b = lid then b_reserved b else 0) (db_balances db))"

definition line_qty :: "ledger_line \<Rightarrow> int" where
  "line_qty l = (case parseFixed (ll_quantity l) 6 of Inr v \<Rightarrow> v | Inl _ \<Rightarrow> 0)"

definition line_effect :: "string \<Rightarrow> string \<Rightarrow> ledger_line \<Rightarrow> int" where
  "line_effect wid lid l =
     (if ll_warehouseId l = wid \<and> ll_lotId l = lid
      then (if ll_movementType l = IN then line_qty l else - line_qty l) else 0)"

definition ledger_net :: "'z stock_db_scheme \<Rightarrow> string \<Rightarrow> string \<Rightarrow> int" where
  "ledger_net db wid lid = sum_list (map (\<lambda>r. line_effect wid lid (lg_line r)) (db_ledger db))"

text \<open>The constraints of the balance table.\<close>

definition balance_ok :: "balance \<Rightarrow> bool" where
  "balance_ok b \<longleftrightarrow> 0 \<le> b_reserved b \<and> b_reserved b \<le> b_onHand b"

definition balances_ok :: "balance list \<Rightarrow> bool" where
  "balances_ok bs \<longleftrightarrow> distinct (map b_id bs) \<and> distinct (map (\<lambda>b. (b_warehouseId b, b_lotId b)) bs) \<and>
     list_all balance_ok bs"

text \<open>Identifiers are UUIDs, so none contains a colon.\<close>

definition no_colon :: "string \<Rightarrow> bool" where
  "no_colon s \<longleftrightarrow> CHR '':'' \<notin> set s"

definition stock_inv :: "'z stock_db_scheme \<Rightarrow> bool" where
  "stock_inv db \<longleftrightarrow> balances_ok (db_balances db) \<and>
     list_all (\<lambda>w. no_colon (w_id w)) (db_warehouses db) \<and> list_all (\<lambda>i. no_colon (i_id i)) (db_items db)"

section \<open>General lemmas\<close>

lemma sum_AList_update_pair:
  "sum_list (map h (AList.update k v al)) =
     sum_list (map h al) + h (k, v) - (case map_of al k of Some w \<Rightarrow> h (k, w) | None \<Rightarrow> 0)"
  for h :: "'a \<times> 'b \<Rightarrow> int"
  by (induction al) (auto split: option.splits)

lemma keys_AList_update: "map_of al k \<noteq> None \<Longrightarrow> map fst (AList.update k v al) = map fst al"
  by (induction al) auto

lemma sum_update_where:
  fixes g :: "'a \<Rightarrow> int"
  assumes "distinct (map key rows)" and "r \<in> set rows" and "p r"
    and "\<And>r'. r' \<in> set rows \<Longrightarrow> p r' \<Longrightarrow> key r' = key r"
  shows "sum_list (map g (update_where p f rows)) = sum_list (map g rows) + g (f r) - g r"
proof -
  obtain xs ys where rows: "rows = xs @ r # ys" using assms(2) by (meson split_list)
  have no: "\<not> p r'" if "r' \<in> set xs \<union> set ys" for r'
    using assms(1) assms(4) [of r'] that unfolding rows by (force simp: rev_image_eqI)
  have "update_where p f xs = xs" "update_where p f ys = ys"
    using no by (auto intro!: update_where_none)
  then show ?thesis using assms(3) unfolding rows by (simp add: update_where_def)
qed

lemma join_colon3: "join_colon [a, b, c] = a @ '':'' @ b @ '':'' @ c"
  by (simp add: join_colon_def)

lemma append_colon_inj:
  "no_colon a \<Longrightarrow> no_colon a' \<Longrightarrow> a @ CHR '':'' # r = a' @ CHR '':'' # r' \<Longrightarrow> a = a' \<and> r = r'"
  by (auto simp: no_colon_def append_eq_append_conv2 append_eq_Cons_conv Cons_eq_append_conv)

lemma keyOf_inj:
  assumes "keyOf a = keyOf b" "no_colon (m_warehouseId a)" "no_colon (m_warehouseId b)"
    "no_colon (m_itemId a)" "no_colon (m_itemId b)"
  shows "m_warehouseId a = m_warehouseId b" "m_itemId a = m_itemId b" "m_lotId a = m_lotId b"
proof -
  have "m_warehouseId a @ CHR '':'' # (m_itemId a @ CHR '':'' # m_lotId a) =
      m_warehouseId b @ CHR '':'' # (m_itemId b @ CHR '':'' # m_lotId b)"
    using assms(1) by (simp add: keyOf_def join_colon3)
  from append_colon_inj [OF assms(2,3) this]
  have "m_warehouseId a = m_warehouseId b"
    and "m_itemId a @ CHR '':'' # m_lotId a = m_itemId b @ CHR '':'' # m_lotId b" by auto
  with append_colon_inj [OF assms(4,5)]
  show "m_warehouseId a = m_warehouseId b" "m_itemId a = m_itemId b" "m_lotId a = m_lotId b" by blast+
qed

section \<open>The locked rows\<close>

lemma mapE_assoc:
  assumes "mapE f ks = Inr kvs" and "\<And>k kv. f k = Inr kv \<Longrightarrow> fst kv = k"
  shows "map fst kvs = ks"
  using assms(1)
proof (induction ks arbitrary: kvs)
  case (Cons k ks)
  then show ?case using assms(2) by (auto simp: res_iff)
qed simp

lemma mapE_map_of:
  assumes "mapE f ks = Inr kvs" and "distinct ks" and "k \<in> set ks"
    and key: "\<And>k kv. f k = Inr kv \<Longrightarrow> fst kv = k"
  shows "\<exists>v. map_of kvs k = Some v \<and> f k = Inr (k, v)"
proof -
  from mapE_mem_source [OF assms(1,3)] obtain kv where kv: "kv \<in> set kvs" "f k = Inr kv" by blast
  with key have "kv = (k, snd kv)" by (metis prod.collapse)
  moreover have "distinct (map fst kvs)" using mapE_assoc [OF assms(1) key] assms(2) by simp
  ultimately show ?thesis using kv by (metis map_of_eq_Some_iff)
qed

lemma lockWarehouses_Inr:
  assumes "lockWarehouses db allowed ms = Inr whs" and "m \<in> set ms"
  obtains w where "map_of whs (m_warehouseId m) = Some w" "w \<in> set (db_warehouses db)"
    "w_id w = m_warehouseId m" "w_isActive w" "w_purpose w \<noteq> None"
    "\<And>ls. allowed = Some ls \<Longrightarrow> w_locationId w \<in> set ls"
proof -
  from assms have "\<exists>v. map_of whs (m_warehouseId m) = Some v \<and>
      (case List.find (\<lambda>w. w_id w = m_warehouseId m) (db_warehouses db) of
           None \<Rightarrow> Inl forbidden
         | Some w \<Rightarrow>
             if \<not> w_isActive w \<or> w_purpose w = None then Inl forbidden
             else if (case allowed of Some ls \<Rightarrow> w_locationId w \<notin> set ls | None \<Rightarrow> False)
             then Inl (StockErr UNAUTHORIZED 403)
             else Inr (m_warehouseId m, w)) = Inr (m_warehouseId m, v)"
    unfolding lockWarehouses_def
    by (intro mapE_map_of) (auto split: option.splits if_splits)
  then show thesis
    by (auto split: option.splits if_splits dest!: find_Some_mem intro: that)
qed

lemma lockItems_Inr:
  assumes "lockItems db ms = Inr items" and "m \<in> set ms"
  obtains i where "map_of items (m_itemId m) = Some i" "i \<in> set (db_items db)" "i_id i = m_itemId m"
    "i_isActive i" "i_itemType i \<noteq> SERVICE"
proof -
  from assms have "\<exists>v. map_of items (m_itemId m) = Some v \<and>
      (case List.find (\<lambda>i. i_id i = m_itemId m) (db_items db) of
           None \<Rightarrow> Inl (StockErr INVALID_MOVEMENT 409)
         | Some i \<Rightarrow>
             if \<not> i_isActive i \<or> i_itemType i = SERVICE then Inl (StockErr INVALID_MOVEMENT 409)
             else Inr (m_itemId m, i)) = Inr (m_itemId m, v)"
    unfolding lockItems_def by (intro mapE_map_of) (auto split: option.splits if_splits)
  then show thesis by (auto split: option.splits if_splits dest!: find_Some_mem intro: that)
qed

lemma lockLots_Inr:
  assumes "lockLots db ms = Inr lots" and "m \<in> set ms"
  obtains l where "map_of lots (m_lotId m) = Some l" "l \<in> set (db_lots db)" "l_id l = m_lotId m"
proof -
  from assms have "\<exists>v. map_of lots (m_lotId m) = Some v \<and>
      (case List.find (\<lambda>l. l_id l = m_lotId m) (db_lots db) of
           None \<Rightarrow> Inl (StockErr LOT_NOT_FOUND 404)
         | Some l \<Rightarrow> Inr (m_lotId m, l)) = Inr (m_lotId m, v)"
    unfolding lockLots_def by (intro mapE_map_of) (auto split: option.splits if_splits)
  then show thesis by (auto split: option.splits if_splits dest!: find_Some_mem intro: that)
qed


text \<open>Creating missing balances touches the balance table and the id counter only.\<close>

definition same_except_balances :: "'z stock_db_scheme \<Rightarrow> 'z stock_db_scheme \<Rightarrow> bool" where
  "same_except_balances db db' \<longleftrightarrow>
     db' = db\<lparr>db_balances := db_balances db', db_ids := db_ids db'\<rparr>"

definition balance_step :: "'z stock_db_scheme \<Rightarrow> 'z stock_db_scheme \<Rightarrow> bool" where
  "balance_step db db' \<longleftrightarrow> same_except_balances db db' \<and>
     (balances_ok (db_balances db) \<longrightarrow> balances_ok (db_balances db')) \<and>
     (\<forall>w l. on_hand db' w l = on_hand db w l) \<and> (\<forall>w l. reserved_of db' w l = reserved_of db w l)"

lemma balance_step_refl: "balance_step db db"
  by (simp add: balance_step_def same_except_balances_def)

lemma balance_step_trans: "balance_step db db1 \<Longrightarrow> balance_step db1 db2 \<Longrightarrow> balance_step db db2"
  unfolding balance_step_def same_except_balances_def
  by (metis (no_types, lifting) stock_db.surjective stock_db.update_convs(5,16))

lemma balance_step_insertBalance: "balance_step db (insertBalance e w l db)"
proof -
  have "balances_ok (bs @ [b])"
    if "balances_ok bs" "balance_ok b"
      "\<not> (\<exists>b' \<in> set bs. b_id b' = b_id b \<or> (b_warehouseId b' = b_warehouseId b \<and> b_lotId b' = b_lotId b))"
    for bs b
    using that by (fastforce simp: balances_ok_def)
  from this [of _ "\<lparr>b_id = env_uuid e (db_ids db), b_warehouseId = w, b_lotId = l, b_onHand = 0,
      b_reserved = 0, b_version = 1\<rparr>"]
  show ?thesis
    by (simp add: insertBalance_def Let_def balance_step_refl balance_ok_def)
       (simp add: balance_step_def same_except_balances_def on_hand_def reserved_of_def balance_ok_def)
qed

lemma balance_step_fold:
  "(\<And>k d. balance_step d (f k d)) \<Longrightarrow> balance_step db (fold f ks db)"
  by (induction ks arbitrary: db) (auto intro: balance_step_refl balance_step_trans)

lemma balance_step_create: "balance_step db (createMissingBalances e ms db)"
  unfolding createMissingBalances_def
  by (rule balance_step_fold) (simp add: Let_def balance_step_refl balance_step_insertBalance)

section \<open>The locked states\<close>

definition state_of :: "'z stock_db_scheme \<Rightarrow> movement list \<Rightarrow> string \<Rightarrow> locked_key_state \<Rightarrow> bool" where
  "state_of db ms key st \<longleftrightarrow> ks_key st = key \<and> ks_balance st \<in> set (db_balances db) \<and>
     b_warehouseId (ks_balance st) = m_warehouseId (hd (group_of ms key)) \<and>
     b_lotId (ks_balance st) = m_lotId (hd (group_of ms key)) \<and>
     ks_initial st = b_onHand (ks_balance st) \<and> ks_reserved st = b_reserved (ks_balance st)"

lemma lockBalance_Inr:
  "lockBalance db whs lots ms key = Inr (k, st) \<Longrightarrow>
   k = key \<and> state_of db ms key st \<and> ks_current st = ks_initial st"
  by (auto simp: lockBalance_def Let_def state_of_def split: option.splits dest: find_Some_mem)

lemma locked_states:
  assumes "mapE (lockBalance db whs lots ms) (js_sorted_set (map keyOf ms)) = Inr states"
  shows "map fst states = js_sorted_set (map keyOf ms)"
    and "(k, st) \<in> set states \<Longrightarrow> k \<in> keyOf ` set ms \<and> state_of db ms k st \<and> ks_current st = ks_initial st"
    and "m \<in> set ms \<Longrightarrow> \<exists>st. map_of states (keyOf m) = Some st"
proof -
  have key: "\<And>k kv. lockBalance db whs lots ms k = Inr kv \<Longrightarrow> fst kv = k"
    by (metis lockBalance_Inr prod.collapse)
  show "map fst states = js_sorted_set (map keyOf ms)" by (rule mapE_assoc [OF assms key])
  show "k \<in> keyOf ` set ms \<and> state_of db ms k st \<and> ks_current st = ks_initial st" if "(k, st) \<in> set states"
    using mapE_mem [OF assms that] lockBalance_Inr by fastforce
  show "\<exists>st. map_of states (keyOf m) = Some st" if "m \<in> set ms"
    using mapE_map_of [OF assms _ _ key, of "keyOf m"] that by auto
qed

definition colon_free :: "movement list \<Rightarrow> bool" where
  "colon_free ms \<longleftrightarrow> (\<forall>m \<in> set ms. no_colon (m_warehouseId m) \<and> no_colon (m_itemId m))"

lemma hd_group:
  assumes "colon_free ms" "m \<in> set ms"
  shows "m_warehouseId (hd (group_of ms (keyOf m))) = m_warehouseId m"
    "m_lotId (hd (group_of ms (keyOf m))) = m_lotId m"
    "m_itemId (hd (group_of ms (keyOf m))) = m_itemId m"
proof -
  have "group_of ms (keyOf m) \<noteq> []" using assms(2) by (auto simp: group_of_def filter_empty_conv)
  then have "hd (group_of ms (keyOf m)) \<in> set (group_of ms (keyOf m))" by (rule hd_in_set)
  then have h: "hd (group_of ms (keyOf m)) \<in> set ms" "keyOf (hd (group_of ms (keyOf m))) = keyOf m"
    by (auto simp: group_of_def)
  note inj = keyOf_inj [OF h(2)]
  show "m_warehouseId (hd (group_of ms (keyOf m))) = m_warehouseId m"
    "m_lotId (hd (group_of ms (keyOf m))) = m_lotId m"
    "m_itemId (hd (group_of ms (keyOf m))) = m_itemId m"
    using inj h(1) assms by (auto simp: colon_free_def)
qed

section \<open>The plan\<close>

definition key_weight :: "string \<Rightarrow> string \<Rightarrow> movement list \<Rightarrow> string \<Rightarrow> int" where
  "key_weight wid lid ms key =
     (if m_warehouseId (hd (group_of ms key)) = wid \<and> m_lotId (hd (group_of ms key)) = lid then 1 else 0)"

lemma key_weight_keyOf:
  "colon_free ms \<Longrightarrow> m \<in> set ms \<Longrightarrow>
   key_weight wid lid ms (keyOf m) = (if m_warehouseId m = wid \<and> m_lotId m = lid then 1 else 0)"
  by (simp add: key_weight_def hd_group)

text \<open>What the plan keeps of a locked state: everything but \<open>ks_current\<close>, which stays legal.\<close>

definition planned_state :: "'z stock_db_scheme \<Rightarrow> movement list \<Rightarrow> (string \<times> locked_key_state) \<Rightarrow> bool" where
  "planned_state db ms kv \<longleftrightarrow> state_of db ms (fst kv) (snd kv) \<and>
     ks_reserved (snd kv) \<le> ks_current (snd kv) \<and> 0 \<le> ks_current (snd kv)"

lemma state_of_current [simp]: "state_of db ms k (st\<lparr>ks_current := c\<rparr>) = state_of db ms k st"
  by (simp add: state_of_def)

definition line_for :: "env \<Rightarrow> movement \<Rightarrow> ledger_line \<Rightarrow> bool" where
  "line_for e m l \<longleftrightarrow> (\<exists>n before after q. parseFixed (m_quantity m) 6 = Inr q \<and>
     after = (if m_movementType m = IN then before + q else before - q) \<and> 0 \<le> after \<and>
     l = (lineBase n m before after)\<lparr>ll_lineHash := hashPostingLine e (line_json (lineBase n m before after))\<rparr>)"

lemma line_for_effect: "line_for e m l \<Longrightarrow> line_effect wid lid l = movement_weight wid lid m * qty_of m"
  by (auto simp: line_for_def line_effect_def line_qty_def lineBase_def movement_weight_def qty_of_def)

lemma planMovement_Inr:
  assumes "planMovement e m (n, states, planned) = Inr (n', states', planned')"
  obtains st q l after where "map_of states (keyOf m) = Some st" "parseFixed (m_quantity m) 6 = Inr q"
    "after = (if m_movementType m = IN then ks_current st + q else ks_current st - q)"
    "ks_reserved st \<le> after" "0 \<le> after" "n' = n + 1"
    "states' = AList.update (keyOf m) (st\<lparr>ks_current := after\<rparr>) states"
    "planned' = planned @ [l]" "line_for e m l" "ll_lineNo l = n + 1"
    "ll_balanceBefore l = formatFixed (ks_current st) 6" "ll_balanceAfter l = formatFixed after 6"
proof -
  from assms obtain st q where st: "map_of states (keyOf m) = Some st" and q: "parseFixed (m_quantity m) 6 = Inr q"
    by (auto simp: planMovement_def res_iff split: option.splits)
  define after where "after = (if m_movementType m = IN then ks_current st + q else ks_current st - q)"
  define b where "b = lineBase (n + 1) m (ks_current st) after"
  from assms st q have r: "ks_reserved st \<le> after" "0 \<le> after" "n' = n + 1"
    "states' = AList.update (keyOf m) (st\<lparr>ks_current := after\<rparr>) states"
    "planned' = planned @ [b\<lparr>ll_lineHash := hashPostingLine e (line_json b)\<rparr>]"
    by (auto simp: planMovement_def res_iff Let_def after_def b_def split: if_splits)
  have "line_for e m (b\<lparr>ll_lineHash := hashPostingLine e (line_json b)\<rparr>)"
    unfolding line_for_def b_def using q r(2) by (intro exI conjI) (auto simp: after_def)
  with st q after_def r show thesis by (rule that) (simp_all add: b_def lineBase_def)
qed

lemma planMovements_lines:
  assumes "foldE (planMovement e) ms (n, states, planned) = Inr (n', states', planned')"
  shows "\<exists>ls. planned' = planned @ ls \<and> list_all2 (line_for e) ms ls \<and> map ll_lineNo ls = [n + 1..<n + 1 + length ms]"
  using assms
proof (induction ms arbitrary: n states planned)
  case Nil
  then show ?case by simp
next
  case (Cons m ms)
  from Cons.prems obtain n1 s1 p1 where 1: "planMovement e m (n, states, planned) = Inr (n1, s1, p1)"
    and 2: "foldE (planMovement e) ms (n1, s1, p1) = Inr (n', states', planned')"
    by (auto simp: res_iff)
  from 1 obtain l where l: "n1 = n + 1" "p1 = planned @ [l]" "line_for e m l" "ll_lineNo l = n + 1"
    by (rule planMovement_Inr)
  from Cons.IH [OF 2] obtain ls where ls: "planned' = p1 @ ls" "list_all2 (line_for e) ms ls"
    "map ll_lineNo ls = [n1 + 1..<n1 + 1 + length ms]" by blast
  have "map ll_lineNo (l # ls) = [n + 1..<n + 1 + length (m # ms)]"
    using ls(3) l(1,4) by (simp add: upt_conv_Cons del: upt_Suc)
  with ls l show ?case by (intro exI [of _ "l # ls"]) simp
qed

lemma planMovements_step:
  assumes "foldE (planMovement e) ms' (n, states, planned) = Inr (n', states', planned')"
    and "set ms' \<subseteq> set ms" and "colon_free ms" and "list_all (planned_state db ms) states"
  shows "list_all (planned_state db ms) states' \<and> map fst states' = map fst states \<and>
     sum_list (map (\<lambda>kv. key_weight wid lid ms (fst kv) * (ks_current (snd kv) - ks_initial (snd kv))) states') =
     sum_list (map (\<lambda>kv. key_weight wid lid ms (fst kv) * (ks_current (snd kv) - ks_initial (snd kv))) states) +
     sum_list (map (\<lambda>m. movement_weight wid lid m * qty_of m) ms')"
  using assms(1,2,4)
proof (induction ms' arbitrary: n states planned)
  case Nil
  then show ?case by simp
next
  case (Cons m ms')
  from Cons.prems(1) obtain n1 s1 p1 where 1: "planMovement e m (n, states, planned) = Inr (n1, s1, p1)"
    and 2: "foldE (planMovement e) ms' (n1, s1, p1) = Inr (n', states', planned')"
    by (auto simp: res_iff)
  from 1 obtain st q l after where st: "map_of states (keyOf m) = Some st" and q: "parseFixed (m_quantity m) 6 = Inr q"
    and af: "after = (if m_movementType m = IN then ks_current st + q else ks_current st - q)"
    and ge: "ks_reserved st \<le> after" "0 \<le> after" and n1: "n1 = n + 1"
    and s1: "s1 = AList.update (keyOf m) (st\<lparr>ks_current := after\<rparr>) states"
    by (rule planMovement_Inr)
  have pst: "state_of db ms (keyOf m) st"
    using Cons.prems(3) map_of_SomeD [OF st] by (auto simp: list_all_iff planned_state_def)
  have keys: "map fst s1 = map fst states" unfolding s1 by (rule keys_AList_update) (simp add: st)
  have "set s1 \<subseteq> insert (keyOf m, st\<lparr>ks_current := after\<rparr>) (set states)"
    unfolding s1 by (induction states) auto
  with Cons.prems(3) pst ge have ok: "list_all (planned_state db ms) s1"
    by (auto simp: list_all_iff planned_state_def)
  have w: "key_weight wid lid ms (keyOf m) * (after - ks_current st) = movement_weight wid lid m * qty_of m"
    using key_weight_keyOf [OF assms(3), of m] Cons.prems(2) q
    by (simp add: af movement_weight_def qty_of_def)
  have sum: "sum_list (map (\<lambda>kv. key_weight wid lid ms (fst kv) * (ks_current (snd kv) - ks_initial (snd kv))) s1) =
      sum_list (map (\<lambda>kv. key_weight wid lid ms (fst kv) * (ks_current (snd kv) - ks_initial (snd kv))) states) +
      movement_weight wid lid m * qty_of m"
    unfolding s1 sum_AList_update_pair st using w by (simp add: algebra_simps)
  from Cons.IH [OF 2 _ ok] Cons.prems(2) keys sum show ?case by auto
qed


section \<open>The writes\<close>

lemma insertLedgerLine_Inr:
  assumes "insertLedgerLine e pid l db = Inr db'"
  shows "db' = db\<lparr>db_ledger := db_ledger db @ [\<lparr>lg_id = env_uuid e (db_ids db), lg_postingId = pid, lg_line = l\<rparr>],
                  db_ids := Suc (db_ids db)\<rparr>"
  using assms by (auto simp: insertLedgerLine_def res_iff)

lemma insertLedgerLines_fold:
  assumes "foldE (insertLedgerLine e pid) ls db = Inr db'"
  shows "\<exists>rows. map lg_line rows = ls \<and> list_all (\<lambda>r. lg_postingId r = pid) rows \<and>
     db' = db\<lparr>db_ledger := db_ledger db @ rows, db_ids := db_ids db + length ls\<rparr>"
  using assms
proof (induction ls arbitrary: db)
  case Nil
  then show ?case by simp
next
  case (Cons l ls)
  from Cons.prems obtain d where d: "insertLedgerLine e pid l db = Inr d"
    "foldE (insertLedgerLine e pid) ls d = Inr db'" by (auto simp: res_iff)
  let ?r = "\<lparr>lg_id = env_uuid e (db_ids db), lg_postingId = pid, lg_line = l\<rparr>"
  from Cons.IH [OF d(2)] obtain rows where rows: "map lg_line rows = ls"
    "list_all (\<lambda>r. lg_postingId r = pid) rows"
    "db' = d\<lparr>db_ledger := db_ledger d @ rows, db_ids := db_ids d + length ls\<rparr>" by blast
  show ?case
    by (rule exI [of _ "?r # rows"]) (simp add: rows insertLedgerLine_Inr [OF d(1)])
qed

lemma insertLedgerLines_Inr:
  assumes "insertLedgerLines e pid ls db = Inr (db', inserted)"
  obtains rows where "map lg_line rows = ls" "list_all (\<lambda>r. lg_postingId r = pid) rows"
    "db' = db\<lparr>db_ledger := db_ledger db @ rows, db_ids := db_ids db + length ls\<rparr>"
    "inserted = map (\<lambda>r. (ll_lineNo (lg_line r), ll_lineHash (lg_line r))) rows"
proof -
  from assms have f: "foldE (insertLedgerLine e pid) ls db = Inr db'"
    and i: "inserted = map (\<lambda>r. (ll_lineNo (lg_line r), ll_lineHash (lg_line r)))
                   (drop (length (db_ledger db)) (db_ledger db'))"
    by (auto simp: insertLedgerLines_def res_iff)
  from insertLedgerLines_fold [OF f] obtain rows where rows: "map lg_line rows = ls"
    "list_all (\<lambda>r. lg_postingId r = pid) rows"
    "db' = db\<lparr>db_ledger := db_ledger db @ rows, db_ids := db_ids db + length ls\<rparr>" by blast
  moreover have "inserted = map (\<lambda>r. (ll_lineNo (lg_line r), ll_lineHash (lg_line r))) rows"
    unfolding i rows(3) by simp
  ultimately show thesis by (rule that)
qed

text \<open>The identity of a balance row, which no update changes.\<close>

definition row_key :: "balance \<Rightarrow> string \<times> string \<times> string" where
  "row_key b = (b_id b, b_warehouseId b, b_lotId b)"

definition state_weight :: "string \<Rightarrow> string \<Rightarrow> locked_key_state \<Rightarrow> int" where
  "state_weight wid lid st =
     (if b_warehouseId (ks_balance st) = wid \<and> b_lotId (ks_balance st) = lid
      then ks_current st - ks_initial st else 0)"

lemma updateBalance_Inr:
  assumes up: "updateBalance st db = Inr db'" and ok: "balances_ok (db_balances db)"
    and mem: "row_key (ks_balance st) \<in> set (map row_key (db_balances db))"
  shows "db' = db\<lparr>db_balances := db_balances db'\<rparr>"
    and "balances_ok (db_balances db')"
    and "map row_key (db_balances db') = map row_key (db_balances db)"
    and "on_hand db' wid lid = on_hand db wid lid + state_weight wid lid st"
    and "reserved_of db' wid lid = reserved_of db wid lid"
proof -
  let ?hit = "\<lambda>b. b_id b = b_id (ks_balance st) \<and> b_version b = b_version (ks_balance st) \<and>
                  b_onHand b = ks_initial st \<and> b_reserved b \<le> ks_current st"
  let ?f = "\<lambda>b. b\<lparr>b_onHand := ks_current st, b_version := b_version b + 1\<rparr>"
  from up have ex: "\<exists>b \<in> set (db_balances db). ?hit b"
    and db': "db' = db\<lparr>db_balances := update_where ?hit ?f (db_balances db)\<rparr>"
    by (auto simp: updateBalance_def Let_def split: if_splits)
  from ex obtain b where b: "b \<in> set (db_balances db)" "?hit b" by blast
  have di: "distinct (map b_id (db_balances db))" using ok by (simp add: balances_ok_def)
  from mem obtain b0 where b0: "b0 \<in> set (db_balances db)" "row_key b0 = row_key (ks_balance st)" by auto
  then have "b0 = b" using b di by (auto simp: row_key_def distinct_map inj_on_def)
  with b0 have wl: "b_warehouseId b = b_warehouseId (ks_balance st)" "b_lotId b = b_lotId (ks_balance st)"
    by (auto simp: row_key_def)
  have bal: "db_balances db' = update_where ?hit ?f (db_balances db)" by (simp add: db')
  show "db' = db\<lparr>db_balances := db_balances db'\<rparr>" by (simp add: db')
  show keys: "map row_key (db_balances db') = map row_key (db_balances db)"
    by (simp add: db' map_update_where row_key_def)
  have "map b_id (db_balances db') = map b_id (db_balances db)"
    "map (\<lambda>b. (b_warehouseId b, b_lotId b)) (db_balances db') =
     map (\<lambda>b. (b_warehouseId b, b_lotId b)) (db_balances db)"
    by (simp_all add: db' map_update_where)
  moreover have "list_all balance_ok (db_balances db')"
    using ok by (auto simp: db' balances_ok_def list_all_iff update_where_def balance_ok_def)
  ultimately show "balances_ok (db_balances db')" using ok by (simp add: balances_ok_def)
  have "on_hand db' wid lid =
      on_hand db wid lid + (if b_warehouseId (?f b) = wid \<and> b_lotId (?f b) = lid then b_onHand (?f b) else 0)
      - (if b_warehouseId b = wid \<and> b_lotId b = lid then b_onHand b else 0)"
    unfolding on_hand_def bal by (rule sum_update_where [OF di b(1)]) (use b in auto)
  then show "on_hand db' wid lid = on_hand db wid lid + state_weight wid lid st"
    using b(2) wl by (auto simp: state_weight_def)
  have "map (\<lambda>b. if b_warehouseId b = wid \<and> b_lotId b = lid then b_reserved b else 0) (db_balances db') =
      map (\<lambda>b. if b_warehouseId b = wid \<and> b_lotId b = lid then b_reserved b else 0) (db_balances db)"
    by (simp add: db' map_update_where)
  then show "reserved_of db' wid lid = reserved_of db wid lid" by (simp only: reserved_of_def)
qed

lemma only_balances_trans:
  "d = db\<lparr>db_balances := x\<rparr> \<Longrightarrow> d' = d\<lparr>db_balances := y\<rparr> \<Longrightarrow> d' = db\<lparr>db_balances := y\<rparr>"
  by simp

lemma updateBalances:
  assumes "foldE updateBalance sts db = Inr db'" and "balances_ok (db_balances db)"
    and "\<And>st. st \<in> set sts \<Longrightarrow> row_key (ks_balance st) \<in> set (map row_key (db_balances db))"
  shows "db' = db\<lparr>db_balances := db_balances db'\<rparr> \<and> balances_ok (db_balances db') \<and>
     on_hand db' wid lid = on_hand db wid lid + sum_list (map (state_weight wid lid) sts) \<and>
     reserved_of db' wid lid = reserved_of db wid lid"
  using assms
proof (induction sts arbitrary: db)
  case Nil
  then show ?case by simp
next
  case (Cons st sts)
  from Cons.prems(1) obtain d where d: "updateBalance st db = Inr d" "foldE updateBalance sts d = Inr db'"
    by (auto simp: res_iff)
  note up = updateBalance_Inr [OF d(1) Cons.prems(2) Cons.prems(3) [OF list.set_intros(1)]]
  have "row_key (ks_balance s) \<in> set (map row_key (db_balances d))" if "s \<in> set sts" for s
    unfolding up(3) using Cons.prems(3) that by simp
  note ih = Cons.IH [OF d(2) up(2) this]
  from ih have "db' = d\<lparr>db_balances := db_balances db'\<rparr>" by blast
  from only_balances_trans [OF up(1) this] ih up(4) [of wid lid] up(5) [of wid lid]
  show ?case by (intro conjI) auto
qed


section \<open>The transaction as a whole\<close>

lemma lockMovementKeys_Inr:
  assumes "lockMovementKeys e inp policy allowed db = Inr (db1, states)"
  obtains whs items factors lots where
    "lockWarehouses db allowed (pi_movements inp) = Inr whs"
    "validateRoute policy inp (\<lambda>wid. the (map_of whs wid)) = Inr ()"
    "lockItems db (pi_movements inp) = Inr items"
    "lockConversions db items (pi_movements inp) = Inr factors"
    "\<forall>m \<in> set (pi_movements inp). checkConversion factors m = Inr ()"
    "lockLots db (pi_movements inp) = Inr lots"
    "\<forall>m \<in> set (pi_movements inp). checkLot (env_today e) lots m = Inr ()"
    "db1 = createMissingBalances e (pi_movements inp) db"
    "mapE (lockBalance db1 whs lots (pi_movements inp)) (js_sorted_set (map keyOf (pi_movements inp))) =
       Inr states"
  using assms by (auto simp: lockMovementKeys_def Let_def res_iff foldE_unit_iff)

lemma lockMovementKeys_colon_free:
  assumes "lockMovementKeys e inp policy allowed db = Inr (db1, states)" and "stock_inv db"
  shows "colon_free (pi_movements inp)"
proof -
  from assms(1) obtain whs items where w: "lockWarehouses db allowed (pi_movements inp) = Inr whs"
    and i: "lockItems db (pi_movements inp) = Inr items" by (rule lockMovementKeys_Inr)
  show ?thesis unfolding colon_free_def
  proof
    fix m assume m: "m \<in> set (pi_movements inp)"
    from lockWarehouses_Inr [OF w m] obtain wr where "wr \<in> set (db_warehouses db)" "w_id wr = m_warehouseId m" .
    moreover from lockItems_Inr [OF i m] obtain it where "it \<in> set (db_items db)" "i_id it = m_itemId m" .
    ultimately show "no_colon (m_warehouseId m) \<and> no_colon (m_itemId m)"
      using assms(2) by (metis (mono_tags, lifting) list_all_iff stock_inv_def)
  qed
qed

lemma applyPosting_Inr:
  assumes "applyPosting e deps policy inp hash a d pid db = Inr (db', res)"
  obtains db1 states n states' planned db2 inserted db3 db4 db6 where
    "d_status d \<in> set (dp_fromStatuses policy)"
    "lockMovementKeys e inp policy (ac_allowed a) db = Inr (db1, states)"
    "planMovements e (pi_movements inp) states = Inr (n, states', planned)"
    "insertLedgerLines e pid planned db1 = Inr (db2, inserted)"
    "foldE updateBalance (sort_by (\<lambda>x y. env_collate e (ks_key x) (ks_key y)) (map snd states')) db2 = Inr db3"
    "advanceDocument d (dp_nextStatus policy) pid db3 = Inr db4"
    "writeOutbox (postingEvent policy pid inp planned)
       (writeAudit \<lparr>a_actorUserId = Some (ac_id a), a_locationId = Some (pi_locationId inp),
          a_action = ''stock.posting.completed'', a_entityType = ''stock_posting'',
          a_entityId = pid\<rparr> db4) = Inr db6"
    "res = postingResult pid inp hash planned"
    "completePosting pid res db6 = Inr db'"
  using assms unfolding applyPosting_def by (auto simp: res_iff Let_def)

lemma advanceDocument_Inr:
  assumes "advanceDocument d nx pid db = Inr db'"
  shows "db' = db\<lparr>db_documents := update_where (\<lambda>r. d_id r = d_id d \<and> d_status r = d_status d \<and>
         d_version r = d_version d \<and> d_stockPostingId r = None)
       (\<lambda>r. r\<lparr>d_status := nx, d_version := d_version r + 1, d_stockPostingId := Some pid\<rparr>) (db_documents db)\<rparr>"
    and "\<exists>r \<in> set (db_documents db). d_id r = d_id d \<and> d_status r = d_status d \<and>
         d_version r = d_version d \<and> d_stockPostingId r = None"
  using assms by (auto simp: advanceDocument_def Let_def split: if_splits)

lemma completePosting_Inr:
  assumes "completePosting pid res db = Inr db'"
  shows "db' = db\<lparr>db_postings := update_where (\<lambda>p. p_id p = pid \<and> p_status p = PROCESSING)
       (\<lambda>p. p\<lparr>p_status := COMPLETED, p_result := Some res\<rparr>) (db_postings db)\<rparr>"
  using assms by (auto simp: completePosting_def Let_def split: if_splits)

lemma writeOutbox_Inr: "writeOutbox r db = Inr db' \<Longrightarrow> db' = db\<lparr>db_outbox := db_outbox db @ [r]\<rparr>"
  by (auto simp: writeOutbox_def split: if_splits)

text \<open>The tables a posting never writes, and the tables other modules add to the record.\<close>

definition stock_frame :: "'z stock_db_scheme \<Rightarrow> 'z stock_db_scheme \<Rightarrow> bool" where
  "stock_frame db db' \<longleftrightarrow>
     db_warehouses db' = db_warehouses db \<and> db_items db' = db_items db \<and>
     db_conversions db' = db_conversions db \<and> db_lots db' = db_lots db \<and>
     db_users db' = db_users db \<and> db_sessions db' = db_sessions db \<and> db_access db' = db_access db \<and>
     db_flags db' = db_flags db \<and> db_openTopologyExceptions db' = db_openTopologyExceptions db \<and>
     stock_db.more db' = stock_db.more db"

lemma sum_list_map_append: "sum_list (map f (xs @ ys)) = sum_list (map f xs) + sum_list (map f ys)"
  for f :: "'a \<Rightarrow> int"
  by simp

lemma sum_list_zero: "(\<And>x. x \<in> set xs \<Longrightarrow> f x = 0) \<Longrightarrow> sum_list (map f xs) = 0"
  for f :: "'a \<Rightarrow> int"
  by (induction xs) auto

lemma same_except_balances_frame:
  assumes "same_except_balances db db'"
  shows "stock_frame db db'" "db_ledger db' = db_ledger db" "db_documents db' = db_documents db"
    "db_postings db' = db_postings db" "db_audit db' = db_audit db" "db_outbox db' = db_outbox db"
proof -
  note eq = assms [unfolded same_except_balances_def]
  show "stock_frame db db'" unfolding stock_frame_def by (intro conjI) (subst eq, simp)+
  show "db_ledger db' = db_ledger db" "db_documents db' = db_documents db"
    "db_postings db' = db_postings db" "db_audit db' = db_audit db" "db_outbox db' = db_outbox db"
    by (subst eq, simp)+
qed

lemma list_all2_sum:
  "list_all2 R xs ys \<Longrightarrow> (\<And>x y. R x y \<Longrightarrow> g y = f x) \<Longrightarrow> sum_list (map g ys) = sum_list (map f xs)"
  for f :: "'a \<Rightarrow> int"
  by (induction rule: list_all2_induct) auto

lemma applyPosting_stock:
  assumes ap: "applyPosting e deps policy inp hash a d pid db = Inr (db', res)" and inv: "stock_inv db"
  shows "balances_ok (db_balances db')"
    and "on_hand db' wid lid = on_hand db wid lid + net_of wid lid (pi_movements inp)"
    and "reserved_of db' wid lid = reserved_of db wid lid"
    and "ledger_net db' wid lid = ledger_net db wid lid + net_of wid lid (pi_movements inp)"
    and "stock_frame db db'"
proof -
  let ?ms = "pi_movements inp"
  from ap obtain db1 states n states' planned db2 inserted db3 db4 db6 where
    lk: "lockMovementKeys e inp policy (ac_allowed a) db = Inr (db1, states)"
    and pl: "planMovements e ?ms states = Inr (n, states', planned)"
    and ins: "insertLedgerLines e pid planned db1 = Inr (db2, inserted)"
    and up: "foldE updateBalance (sort_by (\<lambda>x y. env_collate e (ks_key x) (ks_key y)) (map snd states')) db2 = Inr db3"
    and ad: "advanceDocument d (dp_nextStatus policy) pid db3 = Inr db4"
    and ob: "writeOutbox (postingEvent policy pid inp planned)
       (writeAudit \<lparr>a_actorUserId = Some (ac_id a), a_locationId = Some (pi_locationId inp),
          a_action = ''stock.posting.completed'', a_entityType = ''stock_posting'',
          a_entityId = pid\<rparr> db4) = Inr db6"
    and cp: "completePosting pid res db6 = Inr db'" by (rule applyPosting_Inr)
  have cf: "colon_free ?ms" by (rule lockMovementKeys_colon_free [OF lk inv])
  from lk obtain whs lots where db1: "db1 = createMissingBalances e ?ms db"
    and sts: "mapE (lockBalance db1 whs lots ?ms) (js_sorted_set (map keyOf ?ms)) = Inr states"
    by (rule lockMovementKeys_Inr)
  have st1: "balance_step db db1" unfolding db1 by (rule balance_step_create)
  have ok1: "balances_ok (db_balances db1)" using st1 inv by (simp add: balance_step_def stock_inv_def)
  from ins obtain rows where rows: "map lg_line rows = planned"
    and db2: "db2 = db1\<lparr>db_ledger := db_ledger db1 @ rows, db_ids := db_ids db1 + length planned\<rparr>"
    by (rule insertLedgerLines_Inr)
  have locked: "state_of db1 ?ms k st \<and> ks_current st = ks_initial st" if "(k, st) \<in> set states" for k st
    using locked_states(2) [OF sts that] by blast
  have pst: "list_all (planned_state db1 ?ms) states"
    using locked ok1
    by (fastforce simp: list_all_iff planned_state_def state_of_def balances_ok_def balance_ok_def)
  note plan = planMovements_step [OF pl [unfolded planMovements_def] order_refl cf pst, of wid lid]
  have sw: "state_weight wid lid (snd kv) = key_weight wid lid ?ms (fst kv) * (ks_current (snd kv) - ks_initial (snd kv))"
    if "planned_state db1 ?ms kv" for kv
    using that by (simp add: planned_state_def state_of_def state_weight_def key_weight_def)
  have zero: "sum_list (map (\<lambda>kv. key_weight wid lid ?ms (fst kv) * (ks_current (snd kv) - ks_initial (snd kv))) states) = 0"
    using locked by (intro sum_list_zero) (metis (no_types, lifting) diff_self mult_zero_right prod.collapse)
  let ?sorted = "sort_by (\<lambda>x y. env_collate e (ks_key x) (ks_key y)) (map snd states')"
  have mw: "map (state_weight wid lid) (map snd states') =
      map (\<lambda>kv. key_weight wid lid ?ms (fst kv) * (ks_current (snd kv) - ks_initial (snd kv))) states'"
    using plan sw by (simp add: list_all_iff)
  have net: "sum_list (map (state_weight wid lid) ?sorted) = net_of wid lid ?ms"
    unfolding sum_list_sort_by mw net_of_weight using plan zero by simp
  have "row_key (ks_balance st) \<in> set (map row_key (db_balances db2))" if "st \<in> set ?sorted" for st
    using that plan by (auto simp: db2 list_all_iff planned_state_def state_of_def)
  note upd = updateBalances [OF up _ this, of wid lid]
  note ad' = advanceDocument_Inr(1) [OF ad]
  note ob' = writeOutbox_Inr [OF ob, unfolded writeAudit_def]
  note cp' = completePosting_Inr [OF cp]
  have ok2: "balances_ok (db_balances db2)" using ok1 by (simp add: db2)
  have bal: "db_balances db' = db_balances db3" by (simp add: cp' ob' ad')
  show "balances_ok (db_balances db')" using upd [OF ok2] bal by simp
  show "on_hand db' wid lid = on_hand db wid lid + net_of wid lid ?ms"
    using upd [OF ok2] bal st1 net by (simp add: on_hand_def db2 balance_step_def)
  show "reserved_of db' wid lid = reserved_of db wid lid"
    using upd [OF ok2] bal st1 by (simp add: reserved_of_def db2 balance_step_def)
  have db3: "db3 = db2\<lparr>db_balances := db_balances db3\<rparr>" using upd [OF ok2] by blast
  have se: "same_except_balances db db1" using st1 by (simp add: balance_step_def)
  note led1 = same_except_balances_frame(2) [OF se]
  have led: "db_ledger db' = db_ledger db @ rows"
    unfolding cp' ob' ad' by (subst db3) (simp add: db2 led1)
  have "list_all2 (line_for e) ?ms planned"
    using planMovements_lines [OF pl [unfolded planMovements_def]] by simp
  from list_all2_sum [OF this line_for_effect]
  have "sum_list (map (line_effect wid lid) planned) = net_of wid lid ?ms" by (simp add: net_of_weight)
  then show "ledger_net db' wid lid = ledger_net db wid lid + net_of wid lid ?ms"
    using rows by (auto simp: ledger_net_def led comp_def)
  have "stock_frame db db1" by (rule same_except_balances_frame(1) [OF se])
  then show "stock_frame db db'"
    unfolding cp' ob' ad' by (subst db3) (simp add: db2 stock_frame_def)
qed

end
