(* ===== verification/PostingLaws.thy ===== *)
theory PostingLaws
  imports PostingFacts
begin

text \<open>
  Laws of \<open>post\<close> as a whole: what each outcome means for the database. \<open>post_cases\<close> reduces the
  retry loop to one attempt, \<open>executePosting_ok\<close> an accepted attempt to a replay or an applied
  posting, and \<open>applied_posting\<close> collects what the application of a posting did.
\<close>

section \<open>Attempts\<close>

lemma executePosting_prepare:
  "executePosting e deps abort inp db =
     (case preparePosting e deps inp of
        Inl err \<Rightarrow> (db, Inl err)
      | Inr (policy, hash, n) \<Rightarrow>
          (case abort of
             Some s \<Rightarrow> (db, Inl (DbAborted s))
           | None \<Rightarrow> run_tx (postingTransaction e deps policy n hash) db))"
  unfolding executePosting_def
  by (auto simp: run_tx_def split: sum.splits option.splits)

lemma preparePosting_Inr:
  "preparePosting e deps inp = Inr (policy, hash, n) \<longleftrightarrow>
     validateInput inp = Inr () \<and> \<not> postingDisabled e \<and>
     lookup_policy (dep_policies deps) (pi_sourceModule inp) = Some policy \<and>
     canonicalizePosting e inp = Inr (hash, n)"
  by (auto simp: preparePosting_def res_iff split: option.splits)

lemma executePosting_error: "executePosting e deps abort inp db = (db', Inl err) \<Longrightarrow> db' = db"
  by (auto simp: executePosting_prepare split: sum.splits option.splits dest: run_tx_error)

lemma postAttempt_cases:
  assumes "postAttempt e deps aborts k inp db = (db', res)"
  shows "\<exists>j \<ge> k. executePosting e deps (aborts j) inp db = (db', res)"
  using assms
proof (induction "maxRetries deps - k" arbitrary: k)
  case 0
  from "0.prems" have "executePosting e deps (aborts k) inp db = (db', res)"
    using "0.hyps" by (subst (asm) postAttempt.simps) (auto split: prod.splits sum.splits if_splits)
  then show ?case by blast
next
  case (Suc n)
  obtain d r where dr: "executePosting e deps (aborts k) inp db = (d, r)" by fastforce
  show ?case
  proof (cases "\<exists>err. r = Inl err \<and> retryable err \<and> \<not> maxRetries deps \<le> k")
    case True
    then obtain err where err: "r = Inl err" "retryable err" "\<not> maxRetries deps \<le> k" by blast
    with dr executePosting_error have "d = db" by blast
    with Suc.prems dr err have rec: "postAttempt e deps aborts (Suc k) inp db = (db', res)"
      by (subst (asm) postAttempt.simps) simp
    have "n = maxRetries deps - Suc k" using Suc.hyps(2) by simp
    from Suc.hyps(1) [OF this rec] obtain j
      where "Suc k \<le> j" "executePosting e deps (aborts j) inp db = (db', res)" by blast
    then have "k \<le> j \<and> executePosting e deps (aborts j) inp db = (db', res)" by simp
    then show ?thesis by blast
  next
    case False
    with Suc.prems dr have "(d, r) = (db', res)"
      by (subst (asm) postAttempt.simps) (auto split: sum.splits if_splits)
    with dr show ?thesis by blast
  qed
qed

lemma post_cases:
  assumes "post e deps aborts inp db = (db', res)"
  obtains j where "executePosting e deps (aborts j) inp db = (db', res)"
  using assms postAttempt_cases unfolding post_def by blast

lemma executePosting_not_retryable:
  "executePosting e deps abort inp db = (db', Inl err) \<Longrightarrow> \<not> retryable err \<Longrightarrow>
   aborts k = abort \<Longrightarrow> postAttempt e deps aborts k inp db = (db', Inl err)"
  by (subst postAttempt.simps) simp

lemma post_no_abort_ok:
  "executePosting e deps None inp db = (db', Inr r) \<Longrightarrow> aborts 0 = None \<Longrightarrow>
   post e deps aborts inp db = (db', Inr r)"
  unfolding post_def by (subst postAttempt.simps) simp

section \<open>Accepted attempts\<close>

definition applied_posting ::
  "env \<Rightarrow> posting_deps \<Rightarrow> document_policy \<Rightarrow> posting_input \<Rightarrow> string \<Rightarrow> actor \<Rightarrow> document \<Rightarrow>
   'z stock_db_scheme \<Rightarrow> 'z stock_db_scheme \<Rightarrow> posting_result \<Rightarrow> bool" where
  "applied_posting e deps policy n hash a d db db' r \<longleftrightarrow>
     (\<forall>p \<in> set (db_postings db). p_idempotencyKey p \<noteq> pi_idempotencyKey n \<and>
        p_id p \<noteq> env_uuid e (db_ids db)) \<and>
     applyPosting e deps policy n hash a d (env_uuid e (db_ids db)) (claimPosting e n hash a db) =
       Inr (db', r)"

lemma postingTransaction_Inr:
  assumes "postingTransaction e deps policy n hash db = Inr (db', r)"
  obtains a d where "authorizeActor db n policy = Inr a"
    "assertFeatureFlags db (requiredFlags policy) = Inr ()" "assertTopologyReady db = Inr ()"
    "lockOperationalDocument db n = Inr d"
    "(db' = db \<and> replayPosting n hash db = Inr r) \<or> applied_posting e deps policy n hash a d db db' r"
  using assms unfolding postingTransaction_def
  by (auto simp: res_iff Let_def applied_posting_def split: if_splits)

lemma executePosting_ok:
  assumes "executePosting e deps abort inp db = (db', Inr r)"
  obtains policy hash n where "preparePosting e deps inp = Inr (policy, hash, n)" "abort = None"
    "postingTransaction e deps policy n hash db = Inr (db', r)"
  using assms by (auto simp: executePosting_prepare run_tx_ok split: sum.splits option.splits)

lemma replayPosting_replayed: "replayPosting n hash db = Inr r \<Longrightarrow> pr_replayed r"
  by (auto simp: replayPosting_def storedReplay_def split: option.splits if_splits)

lemma applied_not_replayed: "applied_posting e deps policy n hash a d db db' r \<Longrightarrow> \<not> pr_replayed r"
  unfolding applied_posting_def by (auto elim!: applyPosting_Inr simp: postingResult_def)

text \<open>An accepted post is a replay that changes nothing or the application of the posting.\<close>

lemma post_ok:
  assumes "post e deps aborts inp db = (db', Inr r)"
  obtains policy hash n a d where "preparePosting e deps inp = Inr (policy, hash, n)"
    "authorizeActor db n policy = Inr a" "assertFeatureFlags db (requiredFlags policy) = Inr ()"
    "assertTopologyReady db = Inr ()" "lockOperationalDocument db n = Inr d"
    "(pr_replayed r \<and> db' = db \<and> replayPosting n hash db = Inr r) \<or>
     (\<not> pr_replayed r \<and> applied_posting e deps policy n hash a d db db' r)"
proof -
  from assms obtain j where "executePosting e deps (aborts j) inp db = (db', Inr r)" by (rule post_cases)
  then obtain policy hash n where p: "preparePosting e deps inp = Inr (policy, hash, n)"
    and t: "postingTransaction e deps policy n hash db = Inr (db', r)" by (rule executePosting_ok)
  from t obtain a d where "authorizeActor db n policy = Inr a"
    "assertFeatureFlags db (requiredFlags policy) = Inr ()" "assertTopologyReady db = Inr ()"
    "lockOperationalDocument db n = Inr d"
    and out: "(db' = db \<and> replayPosting n hash db = Inr r) \<or> applied_posting e deps policy n hash a d db db' r"
    by (rule postingTransaction_Inr)
  with p show thesis
    by (intro that) (use out replayPosting_replayed applied_not_replayed in blast)+
qed

section \<open>The canonical form of a valid input\<close>

lemma validateMovement_pos: "validateMovement m = Inr () \<Longrightarrow> 0 < qty_of m"
  by (auto simp: validateMovement_def qty_of_def res_iff split: if_splits)

lemma validateInput_pos: "validateInput inp = Inr () \<Longrightarrow> m \<in> set (pi_movements inp) \<Longrightarrow> 0 < qty_of m"
  by (auto simp: validateInput_def foldE_unit_iff validateMovement_pos split: if_splits)

lemma canonicalizePosting_same:
  "canonicalizePosting e inp = Inr (h, n) \<Longrightarrow> \<exists>ms. n = inp\<lparr>pi_movements := ms\<rparr>"
  by (auto elim!: canonicalizePosting_Inr)

lemma prepared_net:
  assumes "preparePosting e deps inp = Inr (policy, hash, n)"
  shows "net_of wid lid (pi_movements n) = net_of wid lid (pi_movements inp)"
  using assms canonicalizePosting_net(1) validateInput_pos unfolding preparePosting_Inr by blast

text \<open>Only a posting whose key was used before can be a replay.\<close>

lemma replay_needs_key:
  assumes "post e deps aborts inp db = (db', Inr r)"
    and "\<forall>q \<in> set (db_postings db). p_idempotencyKey q \<noteq> pi_idempotencyKey inp"
  shows "\<not> pr_replayed r"
proof
  assume "pr_replayed r"
  with post_ok [OF assms(1)] obtain policy hash n where prep: "preparePosting e deps inp = Inr (policy, hash, n)"
    and rep: "replayPosting n hash db = Inr r" by metis
  from prep have "pi_idempotencyKey n = pi_idempotencyKey inp"
    by (auto simp: preparePosting_Inr dest!: canonicalizePosting_same)
  with rep assms(2) show False
    by (auto simp: replayPosting_def split: option.splits dest!: find_Some_mem)
qed

lemma claimPosting_stock [simp]:
  "stock_inv (claimPosting e n hash a db) = stock_inv db"
  "on_hand (claimPosting e n hash a db) = on_hand db"
  "reserved_of (claimPosting e n hash a db) = reserved_of db"
  "ledger_net (claimPosting e n hash a db) = ledger_net db"
  by (simp_all add: claimPosting_def stock_inv_def on_hand_def reserved_of_def ledger_net_def fun_eq_iff)

lemma claimPosting_frame: "stock_frame db (claimPosting e n hash a db)"
  by (simp add: claimPosting_def stock_frame_def)

lemma stock_frame_trans: "stock_frame a b \<Longrightarrow> stock_frame b c \<Longrightarrow> stock_frame a c"
  by (simp add: stock_frame_def)

lemma applied_stock:
  assumes "applied_posting e deps policy n hash a d db db' r" and "stock_inv db"
  shows "stock_inv db'"
    and "on_hand db' wid lid = on_hand db wid lid + net_of wid lid (pi_movements n)"
    and "reserved_of db' wid lid = reserved_of db wid lid"
    and "ledger_net db' wid lid = ledger_net db wid lid + net_of wid lid (pi_movements n)"
    and "stock_frame db db'"
proof -
  have ap: "applyPosting e deps policy n hash a d (env_uuid e (db_ids db)) (claimPosting e n hash a db) = Inr (db', r)"
    using assms(1) by (simp add: applied_posting_def)
  have inv: "stock_inv (claimPosting e n hash a db)" using assms(2) by simp
  note st = applyPosting_stock [OF ap inv]
  show fr: "stock_frame db db'" using claimPosting_frame st(5) by (rule stock_frame_trans)
  show "stock_inv db'" using st(1) fr assms(2) by (simp add: stock_inv_def stock_frame_def)
  show "on_hand db' wid lid = on_hand db wid lid + net_of wid lid (pi_movements n)"
    "reserved_of db' wid lid = reserved_of db wid lid"
    "ledger_net db' wid lid = ledger_net db wid lid + net_of wid lid (pi_movements n)"
    using st(2-4) by simp_all
qed


section \<open>The rows an applied posting writes\<close>

definition completed_row :: "env \<Rightarrow> posting_input \<Rightarrow> string \<Rightarrow> actor \<Rightarrow> string \<Rightarrow> posting_result \<Rightarrow> posting_row" where
  "completed_row e n hash a pid r =
     \<lparr>p_id = pid, p_idempotencyKey = pi_idempotencyKey n, p_requestHash = hash,
      p_hashVersion = STOCK_POSTING_HASH_VERSION, p_status = COMPLETED,
      p_sourceModule = pi_sourceModule n, p_sourceDocumentNo = pi_sourceDocumentNo n,
      p_locationId = pi_locationId n, p_actorUserId = ac_id a,
      p_correlationId = pi_correlationId n, p_result = Some r\<rparr>"

definition document_hit :: "document \<Rightarrow> document \<Rightarrow> bool" where
  "document_hit d r \<longleftrightarrow> d_id r = d_id d \<and> d_status r = d_status d \<and> d_version r = d_version d \<and>
     d_stockPostingId r = None"

definition advanced :: "string \<Rightarrow> string \<Rightarrow> document \<Rightarrow> document" where
  "advanced nx pid r = r\<lparr>d_status := nx, d_version := d_version r + 1, d_stockPostingId := Some pid\<rparr>"

lemma applied_rows:
  assumes "applied_posting e deps policy n hash a d db db' r"
  defines "pid \<equiv> env_uuid e (db_ids db)"
  obtains rows where
    "db_postings db' = db_postings db @ [completed_row e n hash a pid r]"
    "db_documents db' = update_where (document_hit d) (advanced (dp_nextStatus policy) pid) (db_documents db)"
    "\<exists>x \<in> set (db_documents db). document_hit d x"
    "db_ledger db' = db_ledger db @ rows"
    "list_all (\<lambda>x. lg_postingId x = pid) rows"
    "list_all2 (line_for e) (pi_movements n) (map lg_line rows)"
    "r = postingResult pid n hash (map lg_line rows)"
    "d_status d \<in> set (dp_fromStatuses policy)"
    "length (db_audit db') = Suc (length (db_audit db))"
    "db_outbox db' = db_outbox db @ [postingEvent policy pid n (map lg_line rows)]"
proof -
  let ?db0 = "claimPosting e n hash a db"
  have fresh: "\<forall>p \<in> set (db_postings db). p_id p \<noteq> pid"
    and ap: "applyPosting e deps policy n hash a d pid ?db0 = Inr (db', r)"
    using assms by (auto simp: applied_posting_def)
  from ap obtain db1 states k states' planned db2 inserted db3 db4 db6 where
    stt: "d_status d \<in> set (dp_fromStatuses policy)"
    and lk: "lockMovementKeys e n policy (ac_allowed a) ?db0 = Inr (db1, states)"
    and pl: "planMovements e (pi_movements n) states = Inr (k, states', planned)"
    and ins: "insertLedgerLines e pid planned db1 = Inr (db2, inserted)"
    and up: "foldE updateBalance (sort_by (\<lambda>x y. env_collate e (ks_key x) (ks_key y)) (map snd states')) db2 = Inr db3"
    and ad: "advanceDocument d (dp_nextStatus policy) pid db3 = Inr db4"
    and ob: "writeOutbox (postingEvent policy pid n planned)
       (writeAudit \<lparr>a_actorUserId = Some (ac_id a), a_locationId = Some (pi_locationId n),
          a_action = ''stock.posting.completed'', a_entityType = ''stock_posting'',
          a_entityId = pid\<rparr> db4) = Inr db6"
    and r: "r = postingResult pid n hash planned"
    and cp: "completePosting pid r db6 = Inr db'" by (rule applyPosting_Inr)
  from lk obtain whs lots where db1: "db1 = createMissingBalances e (pi_movements n) ?db0"
    and sts: "mapE (lockBalance db1 whs lots (pi_movements n)) (js_sorted_set (map keyOf (pi_movements n))) =
      Inr states" by (rule lockMovementKeys_Inr)
  have se: "same_except_balances ?db0 db1"
    using balance_step_create unfolding db1 balance_step_def by blast
  note fr1 = same_except_balances_frame [OF se]
  from ins obtain rows where rows: "map lg_line rows = planned" "list_all (\<lambda>x. lg_postingId x = pid) rows"
    and db2: "db2 = db1\<lparr>db_ledger := db_ledger db1 @ rows, db_ids := db_ids db1 + length planned\<rparr>"
    by (rule insertLedgerLines_Inr)
  have db3: "\<exists>bs. db3 = db2\<lparr>db_balances := bs\<rparr>"
    using up by (rule foldE_invariant [where P = "\<lambda>x. \<exists>bs. x = db2\<lparr>db_balances := bs\<rparr>"])
      (auto simp: updateBalance_def Let_def split: if_splits intro: exI [of _ "db_balances db2"])
  then obtain bs where db3: "db3 = db2\<lparr>db_balances := bs\<rparr>" by blast
  note ad' = advanceDocument_Inr [OF ad, folded document_hit_def advanced_def]
  note ob' = writeOutbox_Inr [OF ob, unfolded writeAudit_def]
  note cp' = completePosting_Inr [OF cp]
  have docs: "db_documents db3 = db_documents db" by (simp add: db3 db2 fr1 claimPosting_def)
  have posts: "db_postings db6 = db_postings db @ [(completed_row e n hash a pid r)\<lparr>p_status := PROCESSING, p_result := None\<rparr>]"
    by (simp add: ob' ad' db3 db2 fr1 claimPosting_def completed_row_def pid_def)
  have nohit: "update_where (\<lambda>p. p_id p = pid \<and> p_status p = PROCESSING) f (db_postings db) = db_postings db" for f
    by (rule update_where_none) (use fresh in auto)
  have 1: "db_postings db' = db_postings db @ [completed_row e n hash a pid r]"
    unfolding cp' using posts nohit by (simp add: update_where_def completed_row_def)
  have 2: "db_documents db' = update_where (document_hit d) (advanced (dp_nextStatus policy) pid) (db_documents db)"
    by (simp add: cp' ob' ad' docs)
  have 3: "\<exists>x \<in> set (db_documents db). document_hit d x" using ad'(2) by (simp add: docs)
  have 4: "db_ledger db' = db_ledger db @ rows"
    by (simp add: cp' ob' ad' db3 db2 fr1 claimPosting_def)
  note lines = planMovements_lines [OF pl [unfolded planMovements_def]]
  have 5: "list_all2 (line_for e) (pi_movements n) (map lg_line rows)" using lines by (simp add: rows)
  have 6: "length (db_audit db') = Suc (length (db_audit db))"
    by (simp add: cp' ob' ad' db3 db2 fr1 claimPosting_def)
  have 7: "db_outbox db' = db_outbox db @ [postingEvent policy pid n (map lg_line rows)]"
    by (simp add: cp' ob' ad' db3 db2 fr1 claimPosting_def rows)
  show thesis by (rule that [OF 1 2 3 4 rows(2) 5 _ stt 6 7]) (simp add: rows r)
qed

lemma applied_locked:
  assumes "applied_posting e deps policy n hash a d db db' r"
  obtains db1 states where
    "lockMovementKeys e n policy (ac_allowed a) (claimPosting e n hash a db) = Inr (db1, states)"
  using assms unfolding applied_posting_def by (auto elim!: applyPosting_Inr)

end
