(* ===== verification/StockExample.thy ===== *)
theory StockExample
  imports PostingLaws
begin

text \<open>
  A small world on which the properties of the stock modules are evaluated: one outlet kitchen and
  the headquarters, one item with one lot, an owner, and an order document to be deducted.
\<close>

fun json_leaves :: "json \<Rightarrow> string" where
  "json_leaves JNull = []"
| "json_leaves (JBool b) = []"
| "json_leaves (JNum n) = n"
| "json_leaves (JStr s) = s"
| "json_leaves (JArr vs) = concat (map json_leaves vs)"
| "json_leaves (JObj kvs) = concat (map (\<lambda>kv. json_leaves (snd kv)) kvs)"

definition ex_env :: env where
  "ex_env = \<lparr>env_uuid = (\<lambda>n. replicate n (CHR ''i'')), env_today = ''2026-01-02'',
     env_collate = (\<lambda>_ _. True), env_sha256 = json_leaves, env_stockPostingDisabled = None\<rparr>"

definition ex_policy :: document_policy where
  "ex_policy = \<lparr>dp_featureFlag = None, dp_routeClass = RC_ORDER_DEDUCTION, dp_allowedRoles = [OWNER],
     dp_fromStatuses = [''NEW''], dp_nextStatus = ''DONE''\<rparr>"

definition ex_deps :: posting_deps where
  "ex_deps = \<lparr>dep_fault = (\<lambda>_. None), dep_maxRetries = None, dep_policies = [(''orders'', ex_policy)]\<rparr>"

definition ex_balance :: balance where
  "ex_balance = \<lparr>b_id = ''B1'', b_warehouseId = ''W1'', b_lotId = ''T1'', b_onHand = 5000000,
     b_reserved = 1000000, b_version = 1\<rparr>"

definition ex_document :: document where
  "ex_document = \<lparr>d_id = ''D1'', d_module = ''orders'', d_documentNo = ''N1'', d_locationId = ''L1'',
     d_status = ''NEW'', d_version = 1, d_stockPostingId = None\<rparr>"

definition ex_line :: ledger_line where
  "ex_line = \<lparr>ll_lineNo = 1, ll_warehouseId = ''W1'', ll_itemId = ''I1'', ll_lotId = ''T1'',
     ll_movementType = IN, ll_quantity = ''5.000000'', ll_enteredQuantity = ''5.000000'',
     ll_enteredUom = ''kg'', ll_conversionFactor = ''1.00000000'', ll_unitCost = ''0.000000'',
     ll_reasonCode = None, ll_balanceBefore = ''0.000000'', ll_balanceAfter = ''5.000000'',
     ll_metadata = None, ll_lineHash = ''h''\<rparr>"

definition ex_db :: stock_db where
  "ex_db = \<lparr>
     db_warehouses = [
       \<lparr>w_id = ''W1'', w_locationId = ''L1'', w_type = TypeKitchen, w_purpose = Some KITCHEN, w_isActive = True\<rparr>,
       \<lparr>w_id = ''H1'', w_locationId = ''HQ'', w_type = TypeMain, w_purpose = Some HQ_MAIN, w_isActive = True\<rparr>],
     db_items = [\<lparr>i_id = ''I1'', i_code = ''RICE'', i_unit = ''kg'', i_itemType = RAW, i_isActive = True,
       i_shelfLifeDays = None\<rparr>],
     db_conversions = [],
     db_lots = [\<lparr>l_id = ''T1'', l_itemId = ''I1'', l_lotCode = ''LOT'', l_status = AVAILABLE, l_expiresAt = None,
        l_unitCost = 0\<rparr>],
     db_balances = [ex_balance],
     db_users = [\<lparr>u_id = ''U1'', u_name = ''Ann'', u_role = ''OWNER'', u_active = True\<rparr>],
     db_sessions = [], db_access = [],
     db_flags = [\<lparr>f_key = ''stock.lot_writes'', f_enabled = True, f_version = 1\<rparr>],
     db_openTopologyExceptions = 0,
     db_documents = [ex_document],
     db_postings = [],
     db_ledger = [\<lparr>lg_id = ''G1'', lg_postingId = ''P1'', lg_line = ex_line\<rparr>],
     db_audit = [], db_outbox = [], db_ids = 7\<rparr>"

definition ex_input :: posting_input where
  "ex_input = \<lparr>pi_idempotencyKey = ''k1'', pi_sourceModule = ''orders'', pi_sourceDocumentNo = ''N1'',
     pi_locationId = ''L1'', pi_actorUserId = ''U1'', pi_sessionId = None, pi_correlationId = ''c1'',
     pi_movements = [
       \<lparr>m_warehouseId = ''W1'', m_itemId = ''I1'', m_lotId = ''T1'', m_movementType = OUT,
        m_quantity = ''2'', m_enteredQuantity = None, m_enteredUom = ''kg'', m_conversionFactor = None,
        m_unitCost = None, m_reasonCode = None, m_sourcePolicy = None, m_metadata = None\<rparr>]\<rparr>"

definition ex_movement :: movement where
  "ex_movement =
       \<lparr>m_warehouseId = ''W1'', m_itemId = ''I1'', m_lotId = ''T1'', m_movementType = OUT,
        m_quantity = ''2.000000'', m_enteredQuantity = Some ''2.000000'', m_enteredUom = ''kg'',
        m_conversionFactor = Some ''1.00000000'',
        m_unitCost = Some ''0.000000'', m_reasonCode = None, m_sourcePolicy = None, m_metadata = None\<rparr>"

definition ex_normal :: posting_input where
  "ex_normal = ex_input\<lparr>pi_movements := [ex_movement]\<rparr>"

lemmas ex_defs = ex_env_def ex_policy_def ex_deps_def ex_balance_def ex_document_def ex_line_def ex_db_def
  ex_input_def ex_normal_def ex_movement_def

lemma ex_validate: "validateInput ex_input = Inr ()"
  by (simp add: validateInput_def validateMovement_def ex_input_def fixed_eval Let_def)

lemma ex_normal_numbers:
  "normalizeFixed ''2'' 6 = Inr ''2.000000''" "normalizeFixed ''1'' 8 = Inr ''1.00000000''"
  "normalizeFixed ''0'' 6 = Inr ''0.000000''"
  by (simp_all add: fixed_eval Let_def)

lemma ex_normal_eval:
  "normalizeMovement ex_env (hd (pi_movements ex_input)) = Inr (ex_movement)"
  by (simp add: normalizeMovement_def ex_input_def ex_movement_def ex_normal_numbers)

lemma ex_group:
  "foldE (groupMovement ex_env) (pi_movements ex_input) [] =
     Inr [(aggregationKey ex_env (ex_movement), ex_movement)]"
proof -
  have "pi_movements ex_input = [hd (pi_movements ex_input)]" by (simp add: ex_input_def)
  moreover have "foldE (groupMovement ex_env) [hd (pi_movements ex_input)] [] =
     Inr [(aggregationKey ex_env (ex_movement), ex_movement)]"
    by (simp add: groupMovement_def ex_normal_eval Let_def)
  ultimately show ?thesis by simp
qed

definition ex_hash :: string where
  "ex_hash = env_sha256 ex_env (request_json ex_env ex_normal)"

lemma ex_prepare: "preparePosting ex_env ex_deps ex_input = Inr (ex_policy, ex_hash, ex_normal)"
  unfolding preparePosting_Inr
proof (intro conjI)
  show "canonicalizePosting ex_env ex_input = Inr (ex_hash, ex_normal)"
    unfolding canonicalizePosting_def ex_group by (simp add: ex_hash_def ex_normal_def Let_def)
  show "validateInput ex_input = Inr ()" by (rule ex_validate)
qed (simp_all add: ex_validate postingDisabled_def ex_env_def to_lower_def lookup_policy_def ex_deps_def ex_input_def)

lemma ex_hash_value: "ex_hash = ''1ordersN1L1W1I1T1OUT2.0000002.000000kg1.000000000.000000''"
  by (simp add: ex_hash_def request_json_def json_object_def movement_json_def direction_name_def ex_defs
     STOCK_POSTING_HASH_VERSION_def List.map_filter_def nat_str_digit digit_chars)

definition ex_actor :: actor where
  "ex_actor = \<lparr>ac_id = ''U1'', ac_name = ''Ann'', ac_role = OWNER, ac_allowed = None\<rparr>"

definition ex_claimed :: stock_db where
  "ex_claimed = claimPosting ex_env ex_normal ex_hash ex_actor ex_db"

definition ex_state :: locked_key_state where
  "ex_state = \<lparr>ks_key = ''W1:I1:T1'', ks_lot = hd (db_lots ex_db), ks_balance = ex_balance,
     ks_warehouse = hd (db_warehouses ex_db), ks_initial = 5000000, ks_current = 5000000,
     ks_reserved = 1000000\<rparr>"

definition ex_pid :: string where
  "ex_pid = env_uuid ex_env 7"

definition ex_base :: ledger_line where
  "ex_base = lineBase 1 (ex_movement) 5000000 3000000"

definition ex_planned :: ledger_line where
  "ex_planned = ex_base\<lparr>ll_lineHash := hashPostingLine ex_env (line_json ex_base)\<rparr>"

lemma ex_guards:
  "authorizeActor ex_db ex_normal ex_policy = Inr ex_actor"
  "assertFeatureFlags ex_db (requiredFlags ex_policy) = Inr ()"
  "assertTopologyReady ex_db = Inr ()"
  "lockOperationalDocument ex_db ex_normal = Inr ex_document"
proof -
  have "normalizeRole (Some ''OWNER'') = Some (KnownRole OWNER)"
    using normalizeRole_role_name [of OWNER] by (simp add: role_name_def)
  moreover have "outletScopeForRole (Some (role_name OWNER)) = ScopeAll"
    by (simp add: outletScopeForRole_def HQ_ALL_SCOPE_ROLES_def)
  ultimately show "authorizeActor ex_db ex_normal ex_policy = Inr ex_actor"
    by (simp add: authorizeActor_def ex_defs ex_actor_def truthy_def)
  show "assertFeatureFlags ex_db (requiredFlags ex_policy) = Inr ()"
    by (simp add: assertFeatureFlags_def requiredFlags_def truthy_def js_sorted_set_def ex_defs)
qed (simp_all add: assertTopologyReady_def lockOperationalDocument_def ex_defs)

lemma ex_key: "keyOf (ex_movement) = ''W1:I1:T1''"
  by (simp add: keyOf_def join_colon_def ex_movement_def)

lemma ex_conversion: "multiplyFixedExact ''2.000000'' 6 ''1.00000000'' 8 6 = Inr ''2.000000''"
  "normalizeFixed ''1.00000000'' 8 = Inr ''1.00000000''" "normalizeFixed ''2.000000'' 6 = Inr ''2.000000''"
  by (simp_all add: fixed_eval Let_def)

lemma ex_movement_fields:
  "m_warehouseId ex_movement = ''W1''" "m_lotId ex_movement = ''T1''" "m_itemId ex_movement = ''I1''"
  "m_movementType ex_movement = OUT" "m_quantity ex_movement = ''2.000000''"
  by (simp_all add: ex_movement_def)

lemma ex_lock:
  "lockMovementKeys ex_env ex_normal ex_policy None ex_claimed = Inr (ex_claimed, [(''W1:I1:T1'', ex_state)])"
proof -
  let ex_movement = ex_movement
  have ms: "pi_movements ex_normal = [ex_movement]" by (simp add: ex_normal_def)
  have w: "lockWarehouses ex_claimed None [ex_movement] = Inr [(''W1'', hd (db_warehouses ex_db))]"
    by (simp add: lockWarehouses_def js_sorted_set_def ex_claimed_def claimPosting_def ex_db_def ex_movement_def)
  have r: "validateRoute ex_policy ex_normal (\<lambda>wid. the (map_of [(''W1'', hd (db_warehouses ex_db))] wid)) = Inr ()"
    by (simp add: validateRoute_def checkSingleOutlet_def validateRouteClass_def route_matches_def
        source_policy_of_def ex_normal_def ex_policy_def ex_movement_def ex_db_def singleOutletRouteClasses_def js_distinct_def Let_def)
  have i: "lockItems ex_claimed [ex_movement] = Inr [(''I1'', hd (db_items ex_db))]"
    by (simp add: lockItems_def js_sorted_set_def ex_claimed_def claimPosting_def ex_db_def ex_movement_def)
  have c: "lockConversions ex_claimed [(''I1'', hd (db_items ex_db))] [ex_movement] = Inr [(''I1:kg'', ''1.00000000'')]"
    by (simp add: lockConversions_def lockConversion_def conversionKey_def js_sorted_set_def ex_db_def ex_movement_def text_eval Let_def)
  have cc: "checkConversion [(''I1:kg'', ''1.00000000'')] ex_movement = Inr ()"
    by (simp add: checkConversion_def conversionKey_def ex_movement_def entered_of_def ex_conversion text_eval)
  have l: "lockLots ex_claimed [ex_movement] = Inr [(''T1'', hd (db_lots ex_db))]"
    by (simp add: lockLots_def js_sorted_set_def ex_claimed_def claimPosting_def ex_db_def ex_movement_def)
  have cl: "checkLot (env_today ex_env) [(''T1'', hd (db_lots ex_db))] ex_movement = Inr ()"
    by (simp add: checkLot_def isOutEligible_def source_policy_of_def ex_db_def ex_movement_def truthy_def)
  have n: "createMissingBalances ex_env [ex_movement] ex_claimed = ex_claimed"
    by (simp add: createMissingBalances_def js_sorted_set_def group_of_def ex_movement_def Let_def)
  have b: "mapE (lockBalance ex_claimed [(''W1'', hd (db_warehouses ex_db))] [(''T1'', hd (db_lots ex_db))] [ex_movement])
      (js_sorted_set (map keyOf [ex_movement])) = Inr [(''W1:I1:T1'', ex_state)]"
    by (simp add: js_sorted_set_def ex_key lockBalance_def group_of_def ex_claimed_def claimPosting_def ex_state_def ex_movement_fields
        ex_db_def ex_balance_def Let_def)
  show ?thesis
    unfolding lockMovementKeys_def ms Let_def by (simp add: w r [simplified] i c cc l cl n b [simplified])
qed


definition ex_after :: stock_db where
  "ex_after = ex_db\<lparr>
     db_balances := [ex_balance\<lparr>b_onHand := 3000000, b_version := 2\<rparr>],
     db_documents := [ex_document\<lparr>d_status := ''DONE'', d_version := 2, d_stockPostingId := Some ex_pid\<rparr>],
     db_postings := [completed_row ex_env ex_normal ex_hash ex_actor ex_pid
                       (postingResult ex_pid ex_normal ex_hash [ex_planned])],
     db_ledger := [\<lparr>lg_id = ''G1'', lg_postingId = ''P1'', lg_line = ex_line\<rparr>,
                   \<lparr>lg_id = env_uuid ex_env 8, lg_postingId = ex_pid, lg_line = ex_planned\<rparr>],
     db_audit := [\<lparr>a_actorUserId = Some ''U1'', a_locationId = Some ''L1'',
                   a_action = ''stock.posting.completed'', a_entityType = ''stock_posting'',
                   a_entityId = ex_pid\<rparr>],
     db_outbox := [postingEvent ex_policy ex_pid ex_normal [ex_planned]],
     db_ids := 9\<rparr>"

lemma ex_parse: "parseFixed ''2.000000'' 6 = Inr 2000000" "parseFixed ''1.00000000'' 8 = Inr 100000000"
  "parseFixed ''0.000000'' 6 = Inr 0"
  by (simp_all add: fixed_eval Let_def)

lemma ex_plan:
  "planMovements ex_env (pi_movements ex_normal) [(''W1:I1:T1'', ex_state)] =
     Inr (1, [(''W1:I1:T1'', ex_state\<lparr>ks_current := 3000000\<rparr>)], [ex_planned])"
  by (simp add: planMovements_def planMovement_def ex_normal_def ex_key ex_movement_fields ex_parse ex_state_def
      ex_planned_def ex_base_def Let_def)

lemma ex_planned_fields:
  "ll_lineNo ex_planned = 1" "ll_quantity ex_planned = ''2.000000''"
  "ll_enteredQuantity ex_planned = ''2.000000''" "ll_conversionFactor ex_planned = ''1.00000000''"
  "ll_unitCost ex_planned = ''0.000000''" "ll_balanceBefore ex_planned = formatFixed 5000000 6"
  "ll_balanceAfter ex_planned = formatFixed 3000000 6"
  by (simp_all add: ex_planned_def ex_base_def lineBase_def ex_movement_def entered_of_def)

lemma ex_insert:
  "insertLedgerLines ex_env ex_pid [ex_planned] ex_claimed =
     Inr (ex_claimed\<lparr>db_ledger := db_ledger ex_db @
            [\<lparr>lg_id = env_uuid ex_env 8, lg_postingId = ex_pid, lg_line = ex_planned\<rparr>], db_ids := 9\<rparr>,
          [(1, ll_lineHash ex_planned)])"
  by (simp add: insertLedgerLines_def insertLedgerLine_def db_numeric_def ex_planned_fields ex_parse
      ex_claimed_def claimPosting_def ex_db_def ex_pid_def ex_env_def replicate_num)

lemma ex_faults: "fault ex_deps stage = Inr ()"
  by (simp add: fault_def ex_deps_def)

lemma ex_lock_actor:
  "lockMovementKeys ex_env ex_normal ex_policy (ac_allowed ex_actor) ex_claimed =
     Inr (ex_claimed, [(''W1:I1:T1'', ex_state)])"
  using ex_lock by (simp add: ex_actor_def)

lemma ex_checks:
  "d_status ex_document \<in> set (dp_fromStatuses ex_policy)"
  "checkLedger [ex_planned] [(1, ll_lineHash ex_planned)] = Inr ()"
  "checkLedger [ex_planned] [(Suc 0, ll_lineHash ex_planned)] = Inr ()"
  by (simp_all add: ex_document_def ex_policy_def checkLedger_def ex_planned_fields Let_def)

lemma ex_update:
  "updateBalance (ex_state\<lparr>ks_current := 3000000\<rparr>) (ex_claimed\<lparr>db_ledger := l, db_ids := i\<rparr>) =
     Inr (ex_claimed\<lparr>db_ledger := l, db_ids := i,
            db_balances := [ex_balance\<lparr>b_onHand := 3000000, b_version := 2\<rparr>]\<rparr>)"
  by (simp add: updateBalance_def ex_state_def ex_claimed_def claimPosting_def ex_db_def ex_balance_def
      update_where_def Let_def)

lemma ex_fresh: "db_postings ex_db = []" "env_uuid ex_env (db_ids ex_db) = ex_pid"
  by (simp_all add: ex_db_def ex_pid_def)

lemma ex_post: "post ex_env ex_deps (\<lambda>_. None) ex_input ex_db =
    (ex_after, Inr (postingResult ex_pid ex_normal ex_hash [ex_planned]))"
proof -
  have "applyPosting ex_env ex_deps ex_policy ex_normal ex_hash ex_actor ex_document ex_pid ex_claimed =
      Inr (ex_after, postingResult ex_pid ex_normal ex_hash [ex_planned])"
    unfolding applyPosting_def
    by (simp add: ex_lock_actor ex_plan ex_insert ex_faults ex_checks ex_update)
       (simp add: ex_after_def ex_claimed_def claimPosting_def ex_db_def ex_document_def ex_policy_def
         ex_actor_def advanceDocument_def writeAudit_def writeOutbox_def completePosting_def completed_row_def
         update_where_def postingEvent_def ex_pid_def ex_normal_def ex_input_def Let_def)
  then have "postingTransaction ex_env ex_deps ex_policy ex_normal ex_hash ex_db =
      Inr (ex_after, postingResult ex_pid ex_normal ex_hash [ex_planned])"
    by (simp add: postingTransaction_def ex_guards Let_def ex_claimed_def ex_fresh)
  then have "executePosting ex_env ex_deps None ex_input ex_db =
      (ex_after, Inr (postingResult ex_pid ex_normal ex_hash [ex_planned]))"
    by (simp add: executePosting_def ex_prepare run_tx_def)
  then show ?thesis by (rule post_no_abort_ok) simp
qed

end
