(* ===== verification/BaseProps.thy ===== *)
theory BaseProps
  imports Units SessionCache StockExample
begin

text \<open>
  The properties of the components the stock modules stand on: fixed-point text, units, roles and
  outlet scope, the session cache, warehouse resolution and the canonical form of a posting.
\<close>

section \<open>Decimals\<close>

text \<open>Printing a fixed-point value and reading the text back gives the value, and normalization
  of any accepted text is the printed form of its value and a fixed point of itself.\<close>

theorem fixed_text_roundtrip:
  assumes "normalizeFixed x scale = Inr t"
  shows "\<exists>v. parseFixed x scale = Inr v \<and> t = formatFixed v scale \<and> parseFixed t scale = Inr v \<and>
     normalizeFixed t scale = Inr t"
  using assms parseFixed_scale by (auto simp: normalizeFixed_Inr_iff)

theorem fixed_text_roundtrip_witness:
  "\<exists>v. parseFixed ''1'' 8 = Inr v \<and> ''1.00000000'' = formatFixed v 8 \<and> parseFixed ''1.00000000'' 8 = Inr v \<and>
     normalizeFixed ''1.00000000'' 8 = Inr ''1.00000000''"
  by (rule fixed_text_roundtrip) (rule ex_normal_numbers)

text \<open>A product of two fixed-point texts is exact or refused: when the output scale cannot hold
  it, \<open>multiplyFixedExact\<close> throws rather than rounds.\<close>

theorem product_exact:
  assumes "multiplyFixedExact l ls r rs os = Inr s"
  shows "\<exists>a b p. parseFixed l ls = Inr a \<and> parseFixed r rs = Inr b \<and> s = formatFixed p os \<and>
     a * b * 10 ^ os = p * 10 ^ (ls + rs)"
  using multiplyFixedExact_exact [OF assms] by metis

theorem product_exact_witness:
  "\<exists>a b p. parseFixed ''2.000000'' 6 = Inr a \<and> parseFixed ''1.00000000'' 8 = Inr b \<and>
     ''2.000000'' = formatFixed p 6 \<and> a * b * 10 ^ 6 = p * 10 ^ (6 + 8)"
  by (rule product_exact) (rule ex_conversion)

section \<open>Units\<close>

text \<open>C37: \<open>scaleQuantity\<close> rounds \<open>value * multiplier / divisor\<close> once, to the nearest value of its
  scale: its error is at most half a unit of the last place, and a tie is rounded away from zero.\<close>

theorem scaleQuantity_nearest:
  assumes "scaleQuantity x mul dv sc = Inr y"
  shows "\<exists>v m d q. parseDecimal x = Inr v \<and> parseDecimal mul = Inr m \<and> parseDecimal dv = Inr d \<and>
     y = formatFixed q sc \<and>
     (let num = dec_digits v * dec_digits m * 10 ^ (dec_scale d + sc);
          den = dec_digits d * 10 ^ (dec_scale v + dec_scale m)
      in 2 * \<bar>den * q - num\<bar> \<le> \<bar>den\<bar> \<and> (2 * \<bar>den * q - num\<bar> = \<bar>den\<bar> \<longrightarrow> \<bar>num\<bar> \<le> \<bar>den * q\<bar>))"
proof -
  from assms obtain v m d where p: "parseDecimal x = Inr v" "parseDecimal mul = Inr m" "parseDecimal dv = Inr d"
    and nz: "dec_digits d \<noteq> 0"
    and y: "y = formatFixed (divideRounded (dec_digits v * dec_digits m * 10 ^ (dec_scale d + sc))
              (dec_digits d * 10 ^ (dec_scale v + dec_scale m))) sc"
    by (auto simp: scaleQuantity_Inr_iff)
  have den: "dec_digits d * 10 ^ (dec_scale v + dec_scale m) \<noteq> 0" using nz by simp
  show ?thesis
    unfolding Let_def
    by (intro exI conjI impI) (rule p | rule y | rule divideRounded_nearest [OF den] | erule divideRounded_nearest(2) [OF den])+
qed

lemma ex_scale: "scaleQuantity ''1'' ''1'' ''1'' 6 = Inr ''1.000000''"
proof -
  have "formatFixed 1000000 6 = ''1.000000''" by (simp add: fixed_eval Let_def)
  moreover have "divideRounded 1000000 1 = 1000000" using divideRounded_exact [of 1 1000000] by simp
  ultimately show ?thesis by (simp add: scaleQuantity_Inr_iff)
qed

theorem scaleQuantity_nearest_witness:
  "\<exists>v m d q. parseDecimal ''1'' = Inr v \<and> parseDecimal ''1'' = Inr m \<and> parseDecimal ''1'' = Inr d \<and>
     ''1.000000'' = formatFixed q 6 \<and>
     (let num = dec_digits v * dec_digits m * 10 ^ (dec_scale d + 6);
          den = dec_digits d * 10 ^ (dec_scale v + dec_scale m)
      in 2 * \<bar>den * q - num\<bar> \<le> \<bar>den\<bar> \<and> (2 * \<bar>den * q - num\<bar> = \<bar>den\<bar> \<longrightarrow> \<bar>num\<bar> \<le> \<bar>den * q\<bar>))"
proof (rule scaleQuantity_nearest)
  show "scaleQuantity ''1'' ''1'' ''1'' 6 = Inr ''1.000000''" by (rule ex_scale)
qed

text \<open>A quantity typed in a unit of the catalogue converts into any stock unit of the same
  dimension, whatever the custom units; the entered amount is kept beside it.\<close>

theorem catalogue_units_convert:
  assumes "unitOfText u = Some f" "unitOfText (iu_stockUnit us) = Some t" "su_dimension f = su_dimension t"
    and "normalizeQuantity x = Inr entered" and "trim u \<noteq> []"
  shows "\<exists>r. toStockQuantity us x (Some u) = Inr r \<and> sq_enteredQuantity r = entered"
proof -
  have trimmed: "unitOfText (trim u) = unitOfText u"
    by (simp add: unitOfText_def standardUnitCode_def Let_def)
  obtain v where "parseDecimal x = Inr v" using assms(4) by (auto simp: normalizeQuantity_Inr_iff)
  then obtain q where q: "scaleQuantity x (su_base f) (su_base t) QUANTITY_SCALE = Inr q"
    using scaleQuantity_catalogue unitOfText_mem assms(1,2) by blast
  show ?thesis
    by (cases "sameUnit (trim u) (iu_stockUnit us)")
       (use assms q trimmed in \<open>simp_all add: toStockQuantity_def Let_def\<close>)
qed

theorem catalogue_units_convert_witness:
  "\<exists>r. toStockQuantity \<lparr>iu_ingredientName = ''Rice'', iu_stockUnit = ''kg'', iu_custom = []\<rparr>
     ''1'' (Some ''grams'') = Inr r \<and> sq_enteredQuantity r = ''1.000000''"
proof (rule catalogue_units_convert)
  let ?us = "\<lparr>iu_ingredientName = ''Rice'', iu_stockUnit = ''kg'', iu_custom = []\<rparr>"
  show "unitOfText ''grams'' = Some (unit_row ''g'' ''gram'' Mass ''1'')"
    by (simp add: unitOfText_def standardUnitCode_def standardUnit_def ALIASES_def STANDARD_UNITS_def unit_row_def
      text_eval Let_def)
  show "unitOfText (iu_stockUnit ?us) = Some (unit_row ''kg'' ''kilogram'' Mass ''1000'')"
    by (simp add: unitOfText_def standardUnitCode_def standardUnit_def ALIASES_def STANDARD_UNITS_def unit_row_def
      text_eval Let_def)
  show "normalizeQuantity ''1'' = Inr ''1.000000''" by (simp add: normalizeQuantity_def QUANTITY_SCALE_def ex_scale)
qed (simp_all add: unit_row_def text_eval)

text \<open>The lookup of a unit spelling reaches members that every JavaScript object inherits: the
  text \<open>constructor\<close> is a unit no row of the catalogue defines, and it is saved as the stock unit
  instead of being checked as a custom name.\<close>

theorem inherited_unit_code:
  "standardUnitCode ''Constructor'' = Some (Inherited ''constructor'') \<and>
   canonicalStockUnit ''constructor'' = Inr (Inherited ''constructor'') \<and>
   standardUnit (Inherited ''constructor'') = None"
  by (simp add: standardUnitCode_def canonicalStockUnit_def standardUnit_def ALIASES_def text_eval Let_def
    char_of_eq_iff take_bit_eq_mod)

section \<open>Roles and outlets\<close>

text \<open>A route lets a user through exactly when one of the roles it names has the same canonical
  form as the user's role; old and new names are interchangeable, and a removed or unknown role is
  refused by every route.\<close>

theorem requireRole_iff:
  "requireRole roles (Some u) = Inr () \<longleftrightarrow>
     (\<exists>v. normalizeRole (Some (au_role u)) = Some v \<and> (\<exists>r \<in> set roles. normalizeRole (Some r) = Some v))"
  by (force simp: requireRole_def Let_def List.map_filter_def image_iff split: option.splits if_splits)

text \<open>The location a request resolves to exists and is in the caller's scope: an assigned user
  never acts on an outlet outside the assigned ones, however the location was chosen (body, header,
  only outlet, deployment default).\<close>

theorem resolved_location_in_scope:
  assumes "resolveOutletContext user header = Inr ctx"
    and "resolveRequestLocationId zod locations (Some ctx) raw = Inr loc" and "[] \<notin> set locations"
  shows "loc \<in> set locations \<and> isOutletInScope (Some ctx) (Some loc)"
  using resolveRequestLocationId_sound [OF assms(2)] assms(3) by (auto simp: isOutletInScope_def)

theorem resolved_location_in_scope_witness:
  "''L1'' \<in> set [''L1''] \<and>
   isOutletInScope (Some \<lparr>oc_scope = ScopeAssigned, oc_outletIds = [''L1''], oc_selected = None\<rparr>) (Some ''L1'')"
proof (rule resolved_location_in_scope)
  show "resolveOutletContext (Some \<lparr>au_role = ''KITCHEN_CREW'', au_outletScope = ScopeAssigned, au_outletIds = [''L1'']\<rparr>)
      None = Inr \<lparr>oc_scope = ScopeAssigned, oc_outletIds = [''L1''], oc_selected = None\<rparr>"
    by (simp add: resolveOutletContext_def)
  show "resolveRequestLocationId (\<lambda>_. True) [''L1'']
      (Some \<lparr>oc_scope = ScopeAssigned, oc_outletIds = [''L1''], oc_selected = None\<rparr>) Absent = Inr ''L1''"
    by (simp add: resolveRequestLocationId_def parseLocationIdParam_def resolveExisting_def)
qed simp

section \<open>The session cache\<close>

text \<open>A session is answered from the cache for exactly the fifteen seconds after it was found
  valid, and after its user's sessions have been forgotten not at all.\<close>

theorem session_cache_window:
  assumes "cache_ok c" and "c' = rememberValidSession c sid uid ws now"
  shows "(fst (knownValidSessionWorkspace c' sid now') = Some ws \<longleftrightarrow> now' < now + 15000) \<and>
     \<not> isSessionKnownValid (ac_sessions (forgetUserSessions \<lparr>ac_sessions = c', ac_identities = ids\<rparr> uid)) sid now'"
proof
  show "fst (knownValidSessionWorkspace c' sid now') = Some ws \<longleftrightarrow> now' < now + 15000"
    by (simp add: assms(2) sessions.get_value sessions.put_same TTL_MS_def)
  have d: "distinct (map fst c')" using sessions.put_ok [OF assms(1)] by (simp add: cache_ok_def assms(2))
  have put: "map_of c' sid = Some \<lparr>en_userId = uid, en_value = ws, en_validUntil = now + TTL_MS\<rparr>"
    by (simp add: assms(2) sessions.put_same)
  let ?f = "forgetUserSessions \<lparr>ac_sessions = c', ac_identities = ids\<rparr> uid"
  have "map_of (ac_sessions ?f) sid = None"
  proof (rule ccontr)
    assume "map_of (ac_sessions ?f) sid \<noteq> None"
    then obtain en where "map_of (ac_sessions ?f) sid = Some en" by blast
    then have "(sid, en) \<in> set c'" "en_userId en \<noteq> uid"
      by (auto simp: forgetUserSessions_def dest: map_of_SomeD)
    then have "map_of c' sid = Some en" using d by (simp add: map_of_is_SomeI)
    with put \<open>en_userId en \<noteq> uid\<close> show False by simp
  qed
  then show "\<not> isSessionKnownValid (ac_sessions ?f) sid now'"
    by (simp add: isSessionKnownValid_def knownValidSessionWorkspace_def)
qed

theorem session_cache_window_witness:
  "fst (knownValidSessionWorkspace (rememberValidSession [] ''s'' ''u'' ''w'' 0) ''s'' 14999) = Some ''w''"
proof -
  have "cache_ok ([] :: string cache)" by (simp add: cache_ok_def)
  from iffD2 [OF conjunct1 [OF session_cache_window [OF this refl]]] show ?thesis by simp
qed

section \<open>Warehouses and canonical postings\<close>

text \<open>A warehouse resolved for a purpose is active and in the requested location; it carries that
  purpose unless the legacy fallback was allowed, and with two active candidates none is chosen.\<close>

theorem resolved_warehouse:
  assumes "resolveWarehouseForPurpose db p loc fallback = Inr w"
  shows "w \<in> set (db_warehouses db) \<and> w_isActive w \<and> (\<forall>l. truthy loc = Some l \<longrightarrow> w_locationId w = l) \<and>
     (w_purpose w = Some p \<or> (fallback \<and> p \<in> {OUTLET_STORAGE, KITCHEN} \<and>
        w_type w = (if p = KITCHEN then TypeKitchen else TypeMain))) \<and>
     (\<forall>w' \<in> set (db_warehouses db). w_purpose w = Some p \<and> w_purpose w' = Some p \<and> w_isActive w' \<and>
        (\<forall>l. truthy loc = Some l \<longrightarrow> w_locationId w' = l) \<longrightarrow> w' = w)"
proof -
  let ?rows = "filter (\<lambda>w. w_purpose w = Some p \<and> w_isActive w \<and>
      (case truthy loc of Some l \<Rightarrow> w_locationId w = l | None \<Rightarrow> True)) (db_warehouses db)"
  have mem: "x \<in> set ?rows \<longleftrightarrow> x \<in> set (db_warehouses db) \<and> w_purpose x = Some p \<and> w_isActive x \<and>
      (\<forall>l. truthy loc = Some l \<longrightarrow> w_locationId x = l)" for x
    by (auto split: option.splits)
  show ?thesis
  proof (cases "?rows = [w]")
    case True
    then have "set ?rows = {w}" by simp
    then show ?thesis using mem by blast
  next
    case False
    then have "?rows = []" using assms
      by (auto simp: resolveWarehouseForPurpose_def Let_def split: list.splits)
    then have none: "\<not> (x \<in> set (db_warehouses db) \<and> w_purpose x = Some p \<and> w_isActive x \<and>
      (\<forall>l. truthy loc = Some l \<longrightarrow> w_locationId x = l))" for x
      using mem [of x] by simp
    from \<open>?rows = []\<close> assms obtain l where l: "truthy loc = Some l" "fallback" "p \<in> {OUTLET_STORAGE, KITCHEN}"
      and f: "filter (\<lambda>w. w_locationId w = l \<and> w_type w = (if p = KITCHEN then TypeKitchen else TypeMain) \<and> w_isActive w)
          (db_warehouses db) = [w]"
      unfolding resolveWarehouseForPurpose_def Let_def
      by (auto simp: Let_def split: option.splits if_splits list.splits)
    then have w: "w \<in> set (db_warehouses db)" "w_locationId w = l" "w_isActive w"
      "w_type w = (if p = KITCHEN then TypeKitchen else TypeMain)"
      by (auto simp: filter_eq_Cons_iff)
    with l none show ?thesis by auto
  qed
qed

theorem resolved_warehouse_witness:
  "hd (db_warehouses ex_db) \<in> set (db_warehouses ex_db) \<and> w_isActive (hd (db_warehouses ex_db))"
proof -
  have "resolveWarehouseForPurpose ex_db KITCHEN (Some ''L1'') False = Inr (hd (db_warehouses ex_db))"
    by (simp add: resolveWarehouseForPurpose_def truthy_def ex_db_def)
  from resolved_warehouse [OF this] show ?thesis by simp
qed

text \<open>C36: Canonicalization keeps what a posting does: the normalized movements have, for every lot in
  every warehouse, the net of the movements sent, and each carries a positive quantity in normal form.\<close>

theorem canonical_keeps_net:
  assumes "validateInput inp = Inr ()" and "canonicalizePosting e inp = Inr (h, n)"
  shows "net_of wid lid (pi_movements n) = net_of wid lid (pi_movements inp) \<and>
     list_all normal_movement (pi_movements n)"
proof -
  have pos: "\<And>m. m \<in> set (pi_movements inp) \<Longrightarrow> 0 < qty_of m" using validateInput_pos [OF assms(1)] .
  show ?thesis using canonicalizePosting_net [OF assms(2) pos] by (simp add: list_all_iff)
qed

theorem canonical_keeps_net_witness:
  "net_of ''W1'' ''T1'' (pi_movements ex_normal) = net_of ''W1'' ''T1'' (pi_movements ex_input) \<and>
     list_all normal_movement (pi_movements ex_normal)"
proof (rule canonical_keeps_net [OF ex_validate])
  show "canonicalizePosting ex_env ex_input = Inr (ex_hash, ex_normal)"
    using ex_prepare by (simp add: preparePosting_Inr)
qed

end
