(* ===== verification/PostingProps.thy ===== *)
theory PostingProps
  imports StockExample "HOL-Library.Code_Target_Nat"
begin

text \<open>
  The properties of the stock posting service: conservation, the balance constraints, the refusal of overdrafts,
  idempotency, agreement with the ledger, authorization, lot eligibility, routes, documents and
  retries. Each is a few steps over the laws of \<open>PostingLaws\<close>.
\<close>

section \<open>The example world satisfies the invariant\<close>

lemma ex_stock_inv: "stock_inv ex_db"
  by (simp add: stock_inv_def balances_ok_def balance_ok_def no_colon_def ex_db_def ex_balance_def)

lemma ex_not_replayed: "\<not> pr_replayed (postingResult pid n h ls)"
  by (simp add: postingResult_def)

lemma ex_reconciled: "\<forall>w l. on_hand ex_db w l = ledger_net ex_db w l"
proof -
  have "parseFixed ''5.000000'' 6 = Inr 5000000" by (simp add: fixed_eval Let_def)
  then show ?thesis
    by (simp add: on_hand_def ledger_net_def line_effect_def line_qty_def ex_db_def ex_balance_def ex_line_def)
qed

lemma ex_net: "net_of ''W1'' ''T1'' (pi_movements ex_input) = - 2000000"
proof -
  have "parseFixed ''2'' 6 = Inr 2000000" by (simp add: fixed_eval Let_def)
  then show ?thesis by (simp add: net_of_def signed_qty_def qty_of_def ex_input_def)
qed

section \<open>Stock\<close>

text \<open>C1: An accepted posting that is not a replay changes the stock on hand of every lot in every
  warehouse by exactly the net of the movements the caller asked for (in millionths).\<close>

theorem post_conserves:
  assumes "post e deps aborts inp db = (db', Inr r)" and "\<not> pr_replayed r" and "stock_inv db"
  shows "on_hand db' wid lid = on_hand db wid lid + net_of wid lid (pi_movements inp)"
proof -
  from assms(1) obtain policy hash n a d where p: "preparePosting e deps inp = Inr (policy, hash, n)"
    and "(pr_replayed r \<and> db' = db \<and> replayPosting n hash db = Inr r) \<or>
      (\<not> pr_replayed r \<and> applied_posting e deps policy n hash a d db db' r)" by (rule post_ok)
  with assms(2) have "applied_posting e deps policy n hash a d db db' r" by blast
  from applied_stock(2) [OF this assms(3)] show ?thesis by (simp add: prepared_net [OF p])
qed

theorem post_conserves_witness:
  "on_hand ex_after ''W1'' ''T1'' = on_hand ex_db ''W1'' ''T1'' - 2000000"
  using post_conserves [OF ex_post ex_not_replayed ex_stock_inv, of "''W1''" "''T1''"] by (simp add: ex_net)

lemma accepted_cases:
  assumes "post e deps aborts inp db = (db', Inr r)"
  obtains "pr_replayed r" "db' = db"
  | policy hash n a d where "preparePosting e deps inp = Inr (policy, hash, n)"
      "applied_posting e deps policy n hash a d db db' r" "\<not> pr_replayed r"
  using assms by (rule post_ok) blast

text \<open>C2: Whatever its outcome, a posting keeps the constraints of the balance table (unique rows,
  \<open>0 \<le> reserved \<le> on hand\<close>) and never changes what is reserved.\<close>

theorem post_keeps_balances:
  assumes "post e deps aborts inp db = (db', res)" and "stock_inv db"
  shows "stock_inv db' \<and> reserved_of db' wid lid = reserved_of db wid lid"
proof (cases res)
  case (Inl err)
  with assms have "db' = db" by (auto elim!: post_cases dest: executePosting_error)
  with assms(2) show ?thesis by simp
next
  case (Inr r)
  with assms(1) have "post e deps aborts inp db = (db', Inr r)" by simp
  then consider "db' = db"
    | policy hash n a d where "applied_posting e deps policy n hash a d db db' r"
    by (rule accepted_cases) blast
  then show ?thesis
  proof cases
    case 1
    with assms(2) show ?thesis by simp
  next
    case 2
    show ?thesis by (rule conjI [OF applied_stock(1,3) [OF 2 assms(2)]])
  qed
qed

theorem post_keeps_balances_witness:
  "stock_inv ex_after \<and> reserved_of ex_after ''W1'' ''T1'' = reserved_of ex_db ''W1'' ''T1''"
  by (rule post_keeps_balances [OF ex_post ex_stock_inv])

lemma reserved_within:
  assumes "stock_inv db"
  shows "reserved_of db wid lid \<le> on_hand db wid lid"
proof -
  have "b_reserved b \<le> b_onHand b" if "b \<in> set (db_balances db)" for b
    using assms that by (simp add: stock_inv_def balances_ok_def balance_ok_def list_all_iff)
  then show ?thesis unfolding reserved_of_def on_hand_def by (intro sum_list_mono) auto
qed

text \<open>C5: Stock that is not there, or is reserved, cannot be taken. A posting with a fresh key whose
  movements together would leave some lot in some warehouse with less than what is reserved of it is
  refused, and the refusal leaves the database as it was, with nothing of the other movements.\<close>

theorem post_overdraw_refused:
  assumes "stock_inv db" and "\<forall>q \<in> set (db_postings db). p_idempotencyKey q \<noteq> pi_idempotencyKey inp"
    and "on_hand db wid lid + net_of wid lid (pi_movements inp) < reserved_of db wid lid"
  shows "\<exists>err. post e deps aborts inp db = (db, Inl err)"
proof -
  obtain db' res where po: "post e deps aborts inp db = (db', res)" by fastforce
  show ?thesis
  proof (cases res)
    case (Inl err)
    with po have "db' = db" by (auto elim!: post_cases dest: executePosting_error)
    with po Inl show ?thesis by blast
  next
    case (Inr r)
    with po have ok: "post e deps aborts inp db = (db', Inr r)" by simp
    from ok obtain policy hash n a d where p: "preparePosting e deps inp = Inr (policy, hash, n)"
      and ap: "applied_posting e deps policy n hash a d db db' r"
      using replay_needs_key [OF ok assms(2)] by (auto elim!: accepted_cases)
    note st = applied_stock [OF ap assms(1)]
    have "reserved_of db' wid lid \<le> on_hand db' wid lid" using st(1) by (rule reserved_within)
    with assms(3) show ?thesis unfolding st(2,3) by (simp add: prepared_net [OF p])
  qed
qed

definition ex_greedy :: posting_input where
  "ex_greedy = ex_input\<lparr>pi_movements := map (\<lambda>m. m\<lparr>m_quantity := ''4.5''\<rparr>) (pi_movements ex_input)\<rparr>"

theorem post_overdraw_refused_witness:
  "(\<exists>err. post ex_env ex_deps (\<lambda>_. None) ex_greedy ex_db = (ex_db, Inl err)) \<and>
   on_hand ex_db ''W1'' ''T1'' = 5000000 \<and> reserved_of ex_db ''W1'' ''T1'' = 1000000 \<and>
   net_of ''W1'' ''T1'' (pi_movements ex_greedy) = - 4500000"
proof -
  have "parseFixed ''4.5'' 6 = Inr 4500000" by (simp add: fixed_eval Let_def)
  then have net: "net_of ''W1'' ''T1'' (pi_movements ex_greedy) = - 4500000"
    by (simp add: net_of_def signed_qty_def qty_of_def ex_greedy_def ex_input_def)
  have stock: "on_hand ex_db ''W1'' ''T1'' = 5000000" "reserved_of ex_db ''W1'' ''T1'' = 1000000"
    by (simp_all add: on_hand_def reserved_of_def ex_db_def ex_balance_def)
  have "\<exists>err. post ex_env ex_deps (\<lambda>_. None) ex_greedy ex_db = (ex_db, Inl err)"
    by (rule post_overdraw_refused [OF ex_stock_inv, where wid = "''W1''" and lid = "''T1''"])
      (simp_all add: net stock ex_fresh)
  with net stock show ?thesis by blast
qed

lemma replayPosting_idem: "replayPosting n hash db = Inr r \<Longrightarrow> replayPosting n hash db = Inr (r\<lparr>pr_replayed := True\<rparr>)"
  by (auto simp: replayPosting_def storedReplay_def split: option.splits if_splits)

lemma find_append_fresh:
  "(\<And>x. x \<in> set xs \<Longrightarrow> \<not> p x) \<Longrightarrow> List.find p (xs @ [y]) = (if p y then Some y else None)"
  by (induction xs) auto

lemma applied_replay:
  assumes "applied_posting e deps policy n hash a d db db' r"
  shows "replayPosting n hash db' = Inr (r\<lparr>pr_replayed := True\<rparr>)"
proof -
  have fresh: "\<And>p. p \<in> set (db_postings db) \<Longrightarrow> p_idempotencyKey p \<noteq> pi_idempotencyKey n"
    using assms by (simp add: applied_posting_def)
  from assms obtain rows where "db_postings db' = db_postings db @ [completed_row e n hash a (env_uuid e (db_ids db)) r]"
    by (rule applied_rows)
  then show ?thesis
    unfolding replayPosting_def
    by (simp add: find_append_fresh [OF fresh] completed_row_def storedReplay_def)
qed

lemma applied_guards:
  assumes ap: "applied_posting e deps policy n hash a d db db' r" and inv: "stock_inv db"
    and "authorizeActor db n policy = Inr a" "assertFeatureFlags db (requiredFlags policy) = Inr ()"
    "assertTopologyReady db = Inr ()" "lockOperationalDocument db n = Inr d"
  shows "authorizeActor db' n policy = Inr a" "assertFeatureFlags db' (requiredFlags policy) = Inr ()"
    "assertTopologyReady db' = Inr ()" "\<exists>d'. lockOperationalDocument db' n = Inr d'"
proof -
  have fr: "db_users db' = db_users db" "db_sessions db' = db_sessions db" "db_access db' = db_access db"
    "db_flags db' = db_flags db" "db_warehouses db' = db_warehouses db"
    "db_openTopologyExceptions db' = db_openTopologyExceptions db"
    using applied_stock(5) [OF ap inv] by (simp_all add: stock_frame_def)
  show "authorizeActor db' n policy = Inr a" using assms(3) unfolding authorizeActor_def fr .
  show "assertFeatureFlags db' (requiredFlags policy) = Inr ()"
    using assms(4) unfolding assertFeatureFlags_def fr .
  show "assertTopologyReady db' = Inr ()" using assms(5) unfolding assertTopologyReady_def fr .
  from ap obtain rows where docs: "db_documents db' = update_where (document_hit d)
      (advanced (dp_nextStatus policy) (env_uuid e (db_ids db))) (db_documents db)" by (rule applied_rows)
  show "\<exists>d'. lockOperationalDocument db' n = Inr d'"
    using assms(6) unfolding lockOperationalDocument_def docs
    by (subst find_update_where) (auto simp: advanced_def split: option.splits if_splits)
qed

lemma replay_again:
  assumes "post e deps aborts inp db = (db', Inr r)" and "stock_inv db"
  shows "post e deps (\<lambda>_. None) inp db' = (db', Inr (r\<lparr>pr_replayed := True\<rparr>))"
proof -
  from assms(1) obtain policy hash n a d where p: "preparePosting e deps inp = Inr (policy, hash, n)"
    and g: "authorizeActor db n policy = Inr a" "assertFeatureFlags db (requiredFlags policy) = Inr ()"
    "assertTopologyReady db = Inr ()" "lockOperationalDocument db n = Inr d"
    and out: "(pr_replayed r \<and> db' = db \<and> replayPosting n hash db = Inr r) \<or>
      (\<not> pr_replayed r \<and> applied_posting e deps policy n hash a d db db' r)" by (rule post_ok)
  have rep: "replayPosting n hash db' = Inr (r\<lparr>pr_replayed := True\<rparr>)"
    using out applied_replay replayPosting_idem by blast
  have "\<exists>a' d'. authorizeActor db' n policy = Inr a' \<and>
    assertFeatureFlags db' (requiredFlags policy) = Inr () \<and> assertTopologyReady db' = Inr () \<and>
    lockOperationalDocument db' n = Inr d'"
  proof (cases "db' = db")
    case True
    with g show ?thesis by blast
  next
    case False
    with out have ap: "applied_posting e deps policy n hash a d db db' r" by blast
    show ?thesis using applied_guards [OF ap assms(2) g] by blast
  qed
  then obtain a' d' where g': "authorizeActor db' n policy = Inr a'"
    "assertFeatureFlags db' (requiredFlags policy) = Inr ()" "assertTopologyReady db' = Inr ()"
    "lockOperationalDocument db' n = Inr d'" by blast
  have "\<exists>p \<in> set (db_postings db'). p_idempotencyKey p = pi_idempotencyKey n"
    using rep by (auto simp: replayPosting_def split: option.splits dest!: find_Some_mem)
  then have "postingTransaction e deps policy n hash db' = Inr (db', r\<lparr>pr_replayed := True\<rparr>)"
    unfolding postingTransaction_def g' rep Let_def bindE_simps by auto
  then have "executePosting e deps None inp db' = (db', Inr (r\<lparr>pr_replayed := True\<rparr>))"
    by (simp add: executePosting_def p run_tx_def)
  then show ?thesis by (rule post_no_abort_ok) simp
qed

text \<open>C6: Repeating an accepted posting returns the stored result, marked as replayed, and writes
  nothing.\<close>

theorem post_replay:
  assumes "post e deps aborts inp db = (db', Inr r)" and "stock_inv db"
  shows "post e deps (\<lambda>_. None) inp db' = (db', Inr (r\<lparr>pr_replayed := True\<rparr>))"
  using assms by (rule replay_again)

theorem post_replay_witness:
  "post ex_env ex_deps (\<lambda>_. None) ex_input ex_after =
     (ex_after, Inr ((postingResult ex_pid ex_normal ex_hash [ex_planned])\<lparr>pr_replayed := True\<rparr>))"
  by (rule post_replay [OF ex_post ex_stock_inv])


lemma accepted_row:
  assumes "post e deps aborts inp db = (db', Inr r)" and "preparePosting e deps inp = Inr (policy, hash, n)"
  shows "\<exists>p. List.find (\<lambda>p. p_idempotencyKey p = pi_idempotencyKey inp) (db_postings db') = Some p \<and>
     p_requestHash p = hash"
proof -
  from assms(2) have key: "pi_idempotencyKey n = pi_idempotencyKey inp"
    using canonicalizePosting_same by (fastforce simp: preparePosting_Inr)
  from assms(1) obtain a d where
    "(pr_replayed r \<and> db' = db \<and> replayPosting n hash db = Inr r) \<or>
      (\<not> pr_replayed r \<and> applied_posting e deps policy n hash a d db db' r)"
    by (rule post_ok) (use assms(2) in auto)
  then have "\<exists>r'. replayPosting n hash db' = Inr r'" using applied_replay by blast
  then show ?thesis
    by (auto simp: replayPosting_def key split: option.splits if_splits)
qed

lemma same_guards:
  assumes "pi_actorUserId n' = pi_actorUserId n" "pi_sessionId n' = pi_sessionId n"
    "pi_locationId n' = pi_locationId n" "pi_sourceModule n' = pi_sourceModule n"
    "pi_sourceDocumentNo n' = pi_sourceDocumentNo n"
  shows "authorizeActor db n' policy = authorizeActor db n policy"
    "lockOperationalDocument db n' = lockOperationalDocument db n"
  unfolding authorizeActor_def lockOperationalDocument_def assms by (rule refl)+

text \<open>A key that an accepted posting has used is refused for a different movement plan of the
  same document by the same actor: the outcome is \<open>IDEMPOTENCY_KEY_REUSED\<close> and nothing is written.\<close>

theorem post_key_reuse:
  assumes first: "post e deps aborts inp db = (db', Inr r)" and inv: "stock_inv db"
    and second: "preparePosting e deps (inp\<lparr>pi_movements := ms\<rparr>) = Inr (policy, hash2, n2)"
    and differ: "preparePosting e deps inp = Inr (policy, hash1, n1)" "hash1 \<noteq> hash2"
  shows "post e deps (\<lambda>_. None) (inp\<lparr>pi_movements := ms\<rparr>) db' =
     (db', Inl (StockErr IDEMPOTENCY_KEY_REUSED 409))"
proof -
  let ?inp2 = "inp\<lparr>pi_movements := ms\<rparr>"
  obtain ms2 where n2: "n2 = inp\<lparr>pi_movements := ms2\<rparr>"
    using second canonicalizePosting_same by (fastforce simp: preparePosting_Inr)
  obtain ms1 where n1: "n1 = inp\<lparr>pi_movements := ms1\<rparr>"
    using differ(1) canonicalizePosting_same by (fastforce simp: preparePosting_Inr)
  from replay_again [OF first inv] have "executePosting e deps None inp db' = (db', Inr (r\<lparr>pr_replayed := True\<rparr>))"
    by (auto elim!: post_cases)
  then obtain p h n where "preparePosting e deps inp = Inr (p, h, n)"
    and t: "postingTransaction e deps p n h db' = Inr (db', r\<lparr>pr_replayed := True\<rparr>)" by (rule executePosting_ok)
  then have "p = policy" "n = n1" using differ(1) by auto
  with t obtain a d where g: "authorizeActor db' n1 policy = Inr a"
    "assertFeatureFlags db' (requiredFlags policy) = Inr ()" "assertTopologyReady db' = Inr ()"
    "lockOperationalDocument db' n1 = Inr d" by (auto elim: postingTransaction_Inr)
  have g2: "authorizeActor db' n2 policy = Inr a" "lockOperationalDocument db' n2 = Inr d"
    using g(1,4) same_guards(1) [of n2 n1 db' policy] same_guards(2) [of n2 n1 db'] by (simp_all add: n1 n2)
  from accepted_row [OF first differ(1)] obtain row where
    row: "List.find (\<lambda>p. p_idempotencyKey p = pi_idempotencyKey inp) (db_postings db') = Some row" "p_requestHash row = hash1"
    by blast
  then have ex: "\<exists>p \<in> set (db_postings db'). p_idempotencyKey p = pi_idempotencyKey n2"
    by (auto simp: n2 dest!: find_Some_mem)
  have rep: "replayPosting n2 hash2 db' = Inl (StockErr IDEMPOTENCY_KEY_REUSED 409)"
    using row differ(2) by (simp add: replayPosting_def n2)
  have "postingTransaction e deps policy n2 hash2 db' = Inl (StockErr IDEMPOTENCY_KEY_REUSED 409)"
    unfolding postingTransaction_def g2 g Let_def bindE_simps rep using ex by auto
  then have "executePosting e deps None ?inp2 db' = (db', Inl (StockErr IDEMPOTENCY_KEY_REUSED 409))"
    by (simp add: executePosting_def second run_tx_def)
  then show ?thesis
    unfolding post_def by (rule executePosting_not_retryable) (simp_all add: retryable_def findSqlState_def
      error_causes_def stock_code_name_def is_sql_state_def)
qed

definition ex_movements2 :: "movement list" where
  "ex_movements2 = [(hd (pi_movements ex_input))\<lparr>m_quantity := ''3''\<rparr>]"

definition ex_movement2 :: movement where
  "ex_movement2 = ex_movement\<lparr>m_quantity := ''3.000000'', m_enteredQuantity := Some ''3.000000''\<rparr>"

definition ex_normal2 :: posting_input where
  "ex_normal2 = ex_input\<lparr>pi_movements := [ex_movement2]\<rparr>"

definition ex_hash2 :: string where
  "ex_hash2 = env_sha256 ex_env (request_json ex_env ex_normal2)"

lemma ex_prepare2:
  "preparePosting ex_env ex_deps (ex_input\<lparr>pi_movements := ex_movements2\<rparr>) = Inr (ex_policy, ex_hash2, ex_normal2)"
  unfolding preparePosting_Inr
proof (intro conjI)
  have three: "normalizeFixed ''3'' 6 = Inr ''3.000000''" "parseFixed ''3'' 6 = Inr 3000000"
    by (simp_all add: fixed_eval Let_def)
  have "normalizeMovement ex_env (hd ex_movements2) = Inr ex_movement2"
    by (simp add: normalizeMovement_def ex_movements2_def ex_movement2_def ex_input_def ex_movement_def
        three ex_normal_numbers)
  then have "foldE (groupMovement ex_env) ex_movements2 [] = Inr [(aggregationKey ex_env ex_movement2, ex_movement2)]"
    by (simp add: ex_movements2_def groupMovement_def Let_def)
  then show "canonicalizePosting ex_env (ex_input\<lparr>pi_movements := ex_movements2\<rparr>) = Inr (ex_hash2, ex_normal2)"
    by (simp add: canonicalizePosting_def ex_hash2_def ex_normal2_def Let_def)
  show "validateInput (ex_input\<lparr>pi_movements := ex_movements2\<rparr>) = Inr ()"
    by (simp add: validateInput_def validateMovement_def ex_movements2_def ex_input_def three text_eval)
qed (simp_all add: postingDisabled_def ex_env_def to_lower_def lookup_policy_def ex_deps_def ex_input_def)

lemma ex_hash_differ: "ex_hash \<noteq> ex_hash2"
proof -
  have h: "ex_hash2 = ''1ordersN1L1W1I1T1OUT3.0000003.000000kg1.000000000.000000''"
    by (simp add: ex_hash2_def request_json_def json_object_def movement_json_def direction_name_def ex_defs
      ex_normal2_def ex_movement2_def STOCK_POSTING_HASH_VERSION_def List.map_filter_def nat_str_digit digit_chars)
  show ?thesis unfolding h ex_hash_value by simp
qed

theorem post_key_reuse_witness:
  "post ex_env ex_deps (\<lambda>_. None) (ex_input\<lparr>pi_movements := ex_movements2\<rparr>) ex_after =
     (ex_after, Inl (StockErr IDEMPOTENCY_KEY_REUSED 409))"
  by (rule post_key_reuse [OF ex_post ex_stock_inv ex_prepare2 ex_prepare ex_hash_differ])

text \<open>A database whose balances agree with its ledger still agrees after any posting, accepted or
  not: the sum of the ledger lines of a lot in a warehouse is its stock on hand.\<close>

theorem post_ledger_agrees:
  assumes "post e deps aborts inp db = (db', res)" and "stock_inv db"
    and "\<forall>w l. on_hand db w l = ledger_net db w l"
  shows "on_hand db' wid lid = ledger_net db' wid lid"
proof (cases res)
  case (Inl err)
  with assms have "db' = db" by (auto elim!: post_cases dest: executePosting_error)
  with assms(3) show ?thesis by simp
next
  case (Inr r)
  with assms(1) have "post e deps aborts inp db = (db', Inr r)" by simp
  then show ?thesis
  proof (rule accepted_cases)
    assume "db' = db"
    with assms(3) show ?thesis by simp
  next
    fix policy hash n a d
    assume ap: "applied_posting e deps policy n hash a d db db' r"
    show ?thesis using applied_stock(2,4) [OF ap assms(2)] assms(3) by simp
  qed
qed

theorem post_ledger_agrees_witness: "on_hand ex_after ''W1'' ''T1'' = ledger_net ex_after ''W1'' ''T1''"
  by (rule post_ledger_agrees [OF ex_post ex_stock_inv ex_reconciled])

definition line_of_movement :: "movement \<Rightarrow> ledger_line \<Rightarrow> bool" where
  "line_of_movement m l \<longleftrightarrow>
     ll_warehouseId l = m_warehouseId m \<and> ll_itemId l = m_itemId m \<and> ll_lotId l = m_lotId m \<and>
     ll_movementType l = m_movementType m \<and> ll_quantity l = m_quantity m \<and>
     (\<exists>before after. parseFixed (ll_balanceBefore l) 6 = Inr before \<and>
        parseFixed (ll_balanceAfter l) 6 = Inr after \<and> 0 \<le> after \<and>
        after - before = (if m_movementType m = IN then line_qty l else - line_qty l))"

lemma line_for_movement: "line_for e m l \<Longrightarrow> line_of_movement m l"
  by (auto simp: line_for_def line_of_movement_def lineBase_def line_qty_def)

text \<open>The ledger is append-only: an applied posting adds rows of its own, numbered from one, one
  for each normalized movement, each of which takes the balance of its lot from \<open>balanceBefore\<close> to
  \<open>balanceAfter\<close> by exactly its quantity; the result reports these lines.\<close>

theorem post_ledger_lines:
  assumes "post e deps aborts inp db = (db', Inr r)" and "\<not> pr_replayed r"
    and "canonicalizePosting e inp = Inr (hash, n)"
  shows "\<exists>rows. db_ledger db' = db_ledger db @ rows \<and>
     list_all (\<lambda>x. lg_postingId x = pr_postingId r) rows \<and>
     list_all2 line_of_movement (pi_movements n) (map lg_line rows) \<and>
     pr_lines r = map (\<lambda>x. line_result_of (lg_line x)) rows"
proof -
  from assms(1,2) obtain policy hash' n' a d where p: "preparePosting e deps inp = Inr (policy, hash', n')"
    and ap: "applied_posting e deps policy n' hash' a d db db' r" by (auto elim!: accepted_cases)
  from p assms(3) have n: "n' = n" "hash' = hash" by (simp_all add: preparePosting_Inr)
  from ap obtain rows where rows: "db_ledger db' = db_ledger db @ rows"
    "list_all (\<lambda>x. lg_postingId x = env_uuid e (db_ids db)) rows"
    "list_all2 (line_for e) (pi_movements n') (map lg_line rows)"
    "r = postingResult (env_uuid e (db_ids db)) n' hash' (map lg_line rows)" by (rule applied_rows)
  from rows(3) have "list_all2 line_of_movement (pi_movements n) (map lg_line rows)"
    unfolding n by (rule list_all2_mono) (rule line_for_movement)
  with rows show ?thesis by (intro exI [of _ rows]) (simp add: postingResult_def)
qed

theorem post_ledger_lines_witness:
  "\<exists>rows. db_ledger ex_after = db_ledger ex_db @ rows \<and>
     list_all (\<lambda>x. lg_postingId x = ex_pid) rows \<and>
     list_all2 line_of_movement [ex_movement] (map lg_line rows)"
proof -
  have "pr_postingId (postingResult ex_pid ex_normal ex_hash [ex_planned]) = ex_pid"
    "pi_movements ex_normal = [ex_movement]" by (simp_all add: postingResult_def ex_normal_def)
  with post_ledger_lines [OF ex_post ex_not_replayed] ex_prepare show ?thesis
    by (auto simp: preparePosting_Inr)
qed

section \<open>Routes, lots and actors\<close>

lemma list_all2_mem: "list_all2 R xs ys \<Longrightarrow> y \<in> set ys \<Longrightarrow> \<exists>x \<in> set xs. R x y"
  by (induction rule: list_all2_induct) auto

text \<open>Everything the guards established about a line of the result of an applied posting.\<close>

lemma applied_line:
  assumes ap: "applied_posting e deps policy n hash a d db db' r" and ln: "ln \<in> set (pr_lines r)"
  obtains m w l whs where "m \<in> set (pi_movements n)" "lr_warehouseId ln = m_warehouseId m"
    "lr_lotId ln = m_lotId m" "lr_itemId ln = m_itemId m" "lr_movementType ln = m_movementType m"
    "lr_quantity ln = m_quantity m"
    "validateRoute policy n (\<lambda>wid. the (map_of whs wid)) = Inr ()"
    "map_of whs (m_warehouseId m) = Some w"
    "w \<in> set (db_warehouses db)" "w_id w = m_warehouseId m" "w_isActive w" "w_purpose w \<noteq> None"
    "\<And>ls. ac_allowed a = Some ls \<Longrightarrow> w_locationId w \<in> set ls"
    "l \<in> set (db_lots db)" "l_id l = m_lotId m" "l_itemId l = m_itemId m"
    "m_movementType m = OUT \<longrightarrow> isOutEligible l (source_policy_of m) (env_today e)"
proof -
  from ap obtain rows :: "ledger_row list"
    where rows: "list_all2 (line_for e) (pi_movements n) (map lg_line rows)"
    and r: "r = postingResult (env_uuid e (db_ids db)) n hash (map lg_line rows)" by (rule applied_rows)
  from ln r obtain l0 where l0: "l0 \<in> set (map lg_line rows)" "ln = line_result_of l0"
    by (auto simp: postingResult_def)
  then obtain m where m: "m \<in> set (pi_movements n)" "line_for e m l0"
    using list_all2_mem [OF rows] by blast
  from ap obtain db1 states where lk: "lockMovementKeys e n policy (ac_allowed a) (claimPosting e n hash a db) = Inr (db1, states)"
    by (rule applied_locked)
  from lk obtain whs lots where whs: "lockWarehouses (claimPosting e n hash a db) (ac_allowed a) (pi_movements n) = Inr whs"
    and route: "validateRoute policy n (\<lambda>wid. the (map_of whs wid)) = Inr ()"
    and lots: "lockLots (claimPosting e n hash a db) (pi_movements n) = Inr lots"
    and chk: "\<forall>m \<in> set (pi_movements n). checkLot (env_today e) lots m = Inr ()"
    by (rule lockMovementKeys_Inr)
  from lockWarehouses_Inr [OF whs m(1)] obtain w where w: "map_of whs (m_warehouseId m) = Some w"
    "w \<in> set (db_warehouses (claimPosting e n hash a db))" "w_id w = m_warehouseId m" "w_isActive w" "w_purpose w \<noteq> None"
    "\<And>ls. ac_allowed a = Some ls \<Longrightarrow> w_locationId w \<in> set ls" by blast
  from lockLots_Inr [OF lots m(1)] obtain l where l: "map_of lots (m_lotId m) = Some l"
    "l \<in> set (db_lots (claimPosting e n hash a db))" "l_id l = m_lotId m" by blast
  have "checkLot (env_today e) lots m = Inr ()" using chk m(1) by blast
  with l(1) have el: "l_itemId l = m_itemId m"
    "m_movementType m = OUT \<longrightarrow> isOutEligible l (source_policy_of m) (env_today e)"
    by (auto simp: checkLot_def split: if_splits)
  have f: "lr_warehouseId ln = m_warehouseId m" "lr_lotId ln = m_lotId m" "lr_itemId ln = m_itemId m"
    "lr_movementType ln = m_movementType m" "lr_quantity ln = m_quantity m"
    using m(2) l0(2) by (auto simp: line_for_def lineBase_def line_result_of_def)
  have "w \<in> set (db_warehouses db)" "l \<in> set (db_lots db)"
    using w(2) l(2) by (simp_all add: claimPosting_def)
  with m f w l el route show thesis by (intro that) assumption+
qed

text \<open>The nodes a movement of each route class may touch, and the source policy the class demands.\<close>

definition route_node :: "route_class \<Rightarrow> direction \<Rightarrow> purpose \<Rightarrow> bool" where
  "route_node rc dir p = (case rc of
      RC_RECEIVE \<Rightarrow> dir = IN \<and> p = HQ_MAIN
    | RC_ORDER_DEDUCTION \<Rightarrow> dir = OUT \<and> p \<in> {KITCHEN, OUTLET_STORAGE}
    | RC_OUTLET_RETURN_DISPATCH \<Rightarrow> dir = OUT \<and> p \<in> {KITCHEN, OUTLET_STORAGE}
    | RC_RETURN_DISPOSITION \<Rightarrow> p = QUARANTINE
    | RC_QA_RELEASE \<Rightarrow> (dir = OUT \<and> p = QUARANTINE) \<or> (dir = IN \<and> p = HQ_MAIN)
    | RC_INTERNAL_TRANSFER \<Rightarrow> (dir = OUT \<and> p = OUTLET_STORAGE) \<or> (dir = IN \<and> p = KITCHEN)
    | RC_HQ_TRANSFER \<Rightarrow> (dir = OUT \<and> p \<in> {HQ_MAIN, PRODUCTION}) \<or>
                         (dir = IN \<and> p \<in> {OUTLET_STORAGE, PRODUCTION, HQ_MAIN})
    | RC_PRODUCTION \<Rightarrow> p \<in> {HQ_MAIN, PRODUCTION}
    | RC_OPENING_BALANCE \<Rightarrow> dir = IN
    | RC_ADJUSTMENT \<Rightarrow> True)"

definition route_source :: "route_class \<Rightarrow> source_policy option" where
  "route_source rc = (case rc of RC_ORDER_DEDUCTION \<Rightarrow> Some ALLOCATABLE
    | RC_OUTLET_RETURN_DISPATCH \<Rightarrow> Some CUSTODY_MOVE | RC_RETURN_DISPOSITION \<Rightarrow> Some DISPOSITION
    | RC_QA_RELEASE \<Rightarrow> Some QUARANTINE_RELEASE | _ \<Rightarrow> None)"

lemma route_matches_iff:
  "route_matches wh m ds ps \<longleftrightarrow>
     m_movementType m \<in> set ds \<and> (\<exists>p \<in> set ps. w_purpose (wh (m_warehouseId m)) = Some p)"
  by (auto simp: route_matches_def split: option.splits)

lemma validateRoute_node:
  assumes "validateRoute policy n wh = Inr ()" and "m \<in> set (pi_movements n)"
    and "w_purpose (wh (m_warehouseId m)) = Some p"
  shows "route_node (dp_routeClass policy) (m_movementType m) p"
  using assms
  by (cases "dp_routeClass policy"; cases "m_movementType m")
     (fastforce simp: validateRoute_def validateRouteClass_def route_node_def route_matches_iff res_iff
        list_all_iff Let_def)+

lemma js_distinct_one: "length (js_distinct xs) \<le> 1 \<Longrightarrow> x \<in> set xs \<Longrightarrow> y \<in> set xs \<Longrightarrow> x = y"
  by (metis card_le_Suc0_iff_eq distinct_card distinct_js_distinct List.finite_set One_nat_def set_js_distinct)

lemma validateRoute_single:
  assumes "validateRoute policy n wh = Inr ()" and "dp_routeClass policy \<in> set singleOutletRouteClasses"
    and "m \<in> set (pi_movements n)" "m' \<in> set (pi_movements n)"
  shows "w_locationId (wh (m_warehouseId m)) = w_locationId (wh (m_warehouseId m'))"
proof -
  have "checkSingleOutlet policy n wh = Inr ()" using assms(1) by (simp add: validateRoute_def res_iff)
  with assms(2) have "length (js_distinct (map (\<lambda>m. w_locationId (wh (m_warehouseId m))) (pi_movements n))) \<le> 1"
    by (auto simp: checkSingleOutlet_def Let_def split: if_splits)
  then show ?thesis by (rule js_distinct_one) (use assms(3,4) in auto)
qed

lemma dispositionStep_policy:
  "foldE dispositionStep ms net = Inr net' \<Longrightarrow> m \<in> set ms \<Longrightarrow> m_movementType m = OUT \<Longrightarrow>
   m_sourcePolicy m = Some DISPOSITION"
  by (induction ms arbitrary: net) (auto simp: res_iff dispositionStep_def split: if_splits)

lemma validateRoute_source:
  assumes "validateRoute policy n wh = Inr ()" and "m \<in> set (pi_movements n)" "m_movementType m = OUT"
    and "route_source (dp_routeClass policy) = Some s"
  shows "source_policy_of m = s"
  using assms dispositionStep_policy
  by (cases "dp_routeClass policy")
     (fastforce simp: validateRoute_def validateRouteClass_def route_source_def source_policy_of_def res_iff
        list_all_iff Let_def)+


text \<open>C30: Every line of an applied posting touches an active warehouse whose purpose its route class
  allows for the line's direction, and a single-outlet class touches warehouses of one location.\<close>

theorem post_route:
  assumes "post e deps aborts inp db = (db', Inr r)" and "\<not> pr_replayed r"
    and "lookup_policy (dep_policies deps) (pi_sourceModule inp) = Some policy"
  shows "\<exists>loc. \<forall>ln \<in> set (pr_lines r). \<exists>w \<in> set (db_warehouses db). \<exists>p.
     w_id w = lr_warehouseId ln \<and> w_isActive w \<and> w_purpose w = Some p \<and>
     route_node (dp_routeClass policy) (lr_movementType ln) p \<and>
     (dp_routeClass policy \<in> set singleOutletRouteClasses \<longrightarrow> w_locationId w = loc)"
proof -
  from assms obtain hash n a d where ap: "applied_posting e deps policy n hash a d db db' r"
    by (auto elim!: accepted_cases simp: preparePosting_Inr)
  from ap obtain db1 states where "lockMovementKeys e n policy (ac_allowed a) (claimPosting e n hash a db) = Inr (db1, states)"
    by (rule applied_locked)
  then obtain whs where whs: "lockWarehouses (claimPosting e n hash a db) (ac_allowed a) (pi_movements n) = Inr whs"
    and rt: "validateRoute policy n (\<lambda>wid. the (map_of whs wid)) = Inr ()"
    by (rule lockMovementKeys_Inr)
  show ?thesis
  proof (intro exI ballI)
    fix ln assume "ln \<in> set (pr_lines r)"
    with ap obtain m where m: "m \<in> set (pi_movements n)" "lr_warehouseId ln = m_warehouseId m"
      "lr_movementType ln = m_movementType m" by (rule applied_line)
    from whs m(1) obtain w where w: "map_of whs (m_warehouseId m) = Some w"
      "w \<in> set (db_warehouses (claimPosting e n hash a db))" "w_id w = m_warehouseId m" "w_isActive w"
      "w_purpose w \<noteq> None" by (rule lockWarehouses_Inr)
    then have wdb: "w \<in> set (db_warehouses db)" by (simp add: claimPosting_def)
    from w obtain p where p: "w_purpose w = Some p" by blast
    have node: "route_node (dp_routeClass policy) (m_movementType m) p"
      by (rule validateRoute_node [OF rt m(1)]) (simp add: w(1) p)
    have "w_locationId w = w_locationId (the (map_of whs (m_warehouseId (hd (pi_movements n)))))"
      if "dp_routeClass policy \<in> set singleOutletRouteClasses"
    proof -
      have "hd (pi_movements n) \<in> set (pi_movements n)" using m(1) by (cases "pi_movements n") auto
      from validateRoute_single [OF rt that m(1) this] show ?thesis by (simp only: w(1) option.sel)
    qed
    with w(3,4) p node m(2,3) show "\<exists>w \<in> set (db_warehouses db). \<exists>p.
       w_id w = lr_warehouseId ln \<and> w_isActive w \<and> w_purpose w = Some p \<and>
       route_node (dp_routeClass policy) (lr_movementType ln) p \<and>
       (dp_routeClass policy \<in> set singleOutletRouteClasses \<longrightarrow>
        w_locationId w = w_locationId (the (map_of whs (m_warehouseId (hd (pi_movements n))))))"
      by (intro bexI [OF _ wdb] exI [of _ p] conjI) simp_all
  qed
qed

lemma ex_lookup: "lookup_policy (dep_policies ex_deps) (pi_sourceModule ex_input) = Some ex_policy"
  using ex_prepare by (simp add: preparePosting_Inr)

theorem post_route_witness:
  "\<exists>loc. \<forall>ln \<in> set (pr_lines (postingResult ex_pid ex_normal ex_hash [ex_planned])).
     \<exists>w \<in> set (db_warehouses ex_db). \<exists>p. w_id w = lr_warehouseId ln \<and> w_isActive w \<and> w_purpose w = Some p \<and>
     route_node RC_ORDER_DEDUCTION (lr_movementType ln) p \<and> w_locationId w = loc"
  using post_route [OF ex_post ex_not_replayed ex_lookup]
  by (simp add: ex_policy_def singleOutletRouteClasses_def)

text \<open>C31: Every line of an applied posting names a lot of its own item; a line that takes stock out
  takes it from a lot that is eligible under the source policy the route class demands. So an order
  deduction never uses a quarantined or expired lot, and quarantined stock leaves only by a
  disposition, a QA release, or under a policy the caller had to name.\<close>

theorem post_lots_eligible:
  assumes "post e deps aborts inp db = (db', Inr r)" and "\<not> pr_replayed r"
    and "lookup_policy (dep_policies deps) (pi_sourceModule inp) = Some policy"
    and "ln \<in> set (pr_lines r)"
  shows "\<exists>l \<in> set (db_lots db). l_id l = lr_lotId ln \<and> l_itemId l = lr_itemId ln \<and>
     (lr_movementType ln = OUT \<longrightarrow>
       (\<exists>s. isOutEligible l s (env_today e) \<and>
            (route_source (dp_routeClass policy) \<noteq> None \<longrightarrow> route_source (dp_routeClass policy) = Some s)))"
proof -
  from assms(1-3) obtain hash n a d where ap: "applied_posting e deps policy n hash a d db db' r"
    by (auto elim!: accepted_cases simp: preparePosting_Inr)
  from ap assms(4) obtain m l whs where m: "m \<in> set (pi_movements n)" "lr_lotId ln = m_lotId m"
    "lr_itemId ln = m_itemId m" "lr_movementType ln = m_movementType m"
    and rt: "validateRoute policy n (\<lambda>wid. the (map_of whs wid)) = Inr ()"
    and l: "l \<in> set (db_lots db)" "l_id l = m_lotId m" "l_itemId l = m_itemId m"
    "m_movementType m = OUT \<longrightarrow> isOutEligible l (source_policy_of m) (env_today e)"
    by (rule applied_line)
  from l m show ?thesis using validateRoute_source [OF rt m(1)]
    by (intro bexI [of _ l] conjI impI exI [of _ "source_policy_of m"]) auto
qed

theorem post_lots_eligible_witness:
  "\<exists>l \<in> set (db_lots ex_db). l_id l = ''T1'' \<and> l_itemId l = ''I1'' \<and>
     (\<exists>s. isOutEligible l s ''2026-01-02'' \<and> s = ALLOCATABLE)"
proof -
  have "line_result_of ex_planned \<in> set (pr_lines (postingResult ex_pid ex_normal ex_hash [ex_planned]))"
    by (simp add: postingResult_def)
  from post_lots_eligible [OF ex_post ex_not_replayed ex_lookup this] show ?thesis
    by (auto simp: line_result_of_def ex_planned_def ex_base_def lineBase_def ex_movement_def route_source_def
      ex_policy_def ex_env_def)
qed

lemma authorizeActor_Inr:
  assumes "authorizeActor db inp policy = Inr a"
  obtains u role where "u \<in> set (db_users db)" "u_id u = pi_actorUserId inp" "u_active u"
    "normalizeRole (Some (u_role u)) = Some (KnownRole role)" "role \<in> set (dp_allowedRoles policy)"
    "outletScopeForRole (Some (u_role u)) \<noteq> ScopeAll \<longrightarrow>
       ac_allowed a = Some (map ua_locationId (filter (\<lambda>x. ua_userId x = u_id u) (db_access db))) \<and>
       pi_locationId inp \<in> set (map ua_locationId (filter (\<lambda>x. ua_userId x = u_id u) (db_access db)))"
proof -
  have scope: "outletScopeForRole (Some s) = outletScopeForRole (Some (role_name role))"
    if "normalizeRole (Some s) = Some (KnownRole role)" for s role
    using that by (simp add: outletScopeForRole_def)
  from assms obtain u role where u: "List.find (\<lambda>u. u_id u = pi_actorUserId inp) (db_users db) = Some u"
    "normalizeRole (Some (u_role u)) = Some (KnownRole role)" "u_active u" "role \<in> set (dp_allowedRoles policy)"
    "outletScopeForRole (Some (role_name role)) \<noteq> ScopeAll \<longrightarrow>
       ac_allowed a = Some (map ua_locationId (filter (\<lambda>x. ua_userId x = u_id u) (db_access db))) \<and>
       pi_locationId inp \<in> set (map ua_locationId (filter (\<lambda>x. ua_userId x = u_id u) (db_access db)))"
    by (auto simp: authorizeActor_def res_iff Let_def split: option.splits role_value.splits if_splits)
  show thesis
    by (rule that [of u role]) (use u find_Some_mem [OF u(1)] scope [OF u(2)] in auto)
qed

text \<open>C32: An applied posting was made by an active user whose role its document policy allows. Unless the
  role is one of the four that see the whole company, the user is assigned to the outlet of the request
  and to the outlet of every warehouse the posting touched.\<close>

theorem post_authorized:
  assumes "post e deps aborts inp db = (db', Inr r)" and "\<not> pr_replayed r"
    and "lookup_policy (dep_policies deps) (pi_sourceModule inp) = Some policy"
  shows "\<exists>u \<in> set (db_users db). \<exists>role. u_id u = pi_actorUserId inp \<and> u_active u \<and>
     normalizeRole (Some (u_role u)) = Some (KnownRole role) \<and> role \<in> set (dp_allowedRoles policy) \<and>
     (role \<in> {OWNER, HR, ACCOUNTING, WAREHOUSE_MAIN} \<or>
       (\<exists>locs. locs = map ua_locationId (filter (\<lambda>x. ua_userId x = u_id u) (db_access db)) \<and>
          pi_locationId inp \<in> set locs \<and>
          (\<forall>ln \<in> set (pr_lines r). \<exists>w \<in> set (db_warehouses db).
             w_id w = lr_warehouseId ln \<and> w_locationId w \<in> set locs)))"
proof -
  from assms(1) obtain policy' hash n a d where p: "preparePosting e deps inp = Inr (policy', hash, n)"
    and au: "authorizeActor db n policy' = Inr a"
    and "(pr_replayed r \<and> db' = db \<and> replayPosting n hash db = Inr r) \<or>
      (\<not> pr_replayed r \<and> applied_posting e deps policy' n hash a d db db' r)" by (rule post_ok)
  with assms(2) have ap: "applied_posting e deps policy' n hash a d db db' r" by blast
  from p assms(3) have pol: "policy' = policy" by (simp add: preparePosting_Inr)
  from p obtain ms where n: "n = inp\<lparr>pi_movements := ms\<rparr>"
    using canonicalizePosting_same by (fastforce simp: preparePosting_Inr)
  from au obtain u role where u: "u \<in> set (db_users db)" "u_id u = pi_actorUserId n" "u_active u"
    "normalizeRole (Some (u_role u)) = Some (KnownRole role)" "role \<in> set (dp_allowedRoles policy')"
    and sc: "outletScopeForRole (Some (u_role u)) \<noteq> ScopeAll \<longrightarrow>
       ac_allowed a = Some (map ua_locationId (filter (\<lambda>x. ua_userId x = u_id u) (db_access db))) \<and>
       pi_locationId n \<in> set (map ua_locationId (filter (\<lambda>x. ua_userId x = u_id u) (db_access db)))"
    by (rule authorizeActor_Inr)
  have "\<exists>w \<in> set (db_warehouses db). w_id w = lr_warehouseId ln \<and>
      (\<forall>ls. ac_allowed a = Some ls \<longrightarrow> w_locationId w \<in> set ls)"
    if "ln \<in> set (pr_lines r)" for ln
    using applied_line [OF ap that] by metis
  moreover have "outletScopeForRole (Some (u_role u)) \<noteq> ScopeAll" if "role \<notin> {OWNER, HR, ACCOUNTING, WAREHOUSE_MAIN}"
    using that u(4) by (auto simp: outletScopeForRole_def HQ_ALL_SCOPE_ROLES_def)
  ultimately show ?thesis using u sc unfolding n pol by (intro bexI [of _ u] exI [of _ role]) auto
qed

text \<open>A kitchen hand who is assigned to the outlet \<open>L1\<close> deducts an order there.\<close>

definition ex_crew_deps :: posting_deps where
  "ex_crew_deps = ex_deps\<lparr>dep_policies := [(''orders'', ex_policy\<lparr>dp_allowedRoles := [KITCHEN_CREW]\<rparr>)]\<rparr>"

definition ex_crew_input :: posting_input where
  "ex_crew_input = ex_input\<lparr>pi_movements := map (\<lambda>m. m\<lparr>m_quantity := ''0.000002''\<rparr>) (pi_movements ex_input)\<rparr>"

definition ex_crew_env :: env where
  "ex_crew_env = ex_env\<lparr>env_sha256 := (\<lambda>_. [])\<rparr>"

definition ex_crew_db :: stock_db where
  "ex_crew_db = ex_db\<lparr>db_users := [\<lparr>u_id = ''U1'', u_name = ''Kim'', u_role = ''KITCHEN_STAFF'', u_active = True\<rparr>],
     db_access := [\<lparr>ua_userId = ''U1'', ua_locationId = ''L1''\<rparr>]\<rparr>"

lemma ex_crew_post:
  "case post ex_crew_env ex_crew_deps (\<lambda>_. None) ex_crew_input ex_crew_db of
     (_, Inr r) \<Rightarrow> \<not> pr_replayed r \<and> map lr_warehouseId (pr_lines r) = [''W1''] | _ \<Rightarrow> False"
  by code_simp

theorem post_authorized_witness:
  "\<exists>r. \<not> pr_replayed r \<and> map lr_warehouseId (pr_lines r) = [''W1''] \<and>
     snd (post ex_crew_env ex_crew_deps (\<lambda>_. None) ex_crew_input ex_crew_db) = Inr r \<and>
     (\<exists>w \<in> set (db_warehouses ex_crew_db). w_id w = ''W1'' \<and> w_locationId w \<in> ua_locationId ` set (db_access ex_crew_db))"
proof -
  obtain db' res where po: "post ex_crew_env ex_crew_deps (\<lambda>_. None) ex_crew_input ex_crew_db = (db', res)" by fastforce
  with ex_crew_post obtain r where r: "res = Inr r" "\<not> pr_replayed r" "map lr_warehouseId (pr_lines r) = [''W1'']"
    by (cases res) auto
  then obtain ln where ln: "ln \<in> set (pr_lines r)" "lr_warehouseId ln = ''W1''" by auto
  have pol: "lookup_policy (dep_policies ex_crew_deps) (pi_sourceModule ex_crew_input) = Some (ex_policy\<lparr>dp_allowedRoles := [KITCHEN_CREW]\<rparr>)"
    by (simp add: ex_crew_deps_def lookup_policy_def ex_crew_input_def ex_input_def)
  from post_authorized [OF po [unfolded r(1)] r(2) pol] ln
  have "\<exists>w \<in> set (db_warehouses ex_crew_db). w_id w = ''W1'' \<and> w_locationId w \<in> ua_locationId ` set (db_access ex_crew_db)"
    by (fastforce simp: ex_policy_def)
  with po r show ?thesis by (intro exI [of _ r]) simp
qed

section \<open>Documents\<close>

definition documents_ok :: "document list \<Rightarrow> bool" where
  "documents_ok ds \<longleftrightarrow> distinct (map d_id ds) \<and> distinct (map (\<lambda>d. (d_module d, d_documentNo d)) ds)"

lemma documents_ok_find:
  assumes "documents_ok ds" and "d \<in> set ds"
  shows "List.find (\<lambda>x. d_module x = d_module d \<and> d_documentNo x = d_documentNo d) ds = Some d"
proof -
  have "List.find (\<lambda>x. (d_module x, d_documentNo x) = (d_module d, d_documentNo d)) ds = Some d"
    by (rule find_distinct_key) (use assms in \<open>simp_all add: documents_ok_def\<close>)
  then show ?thesis by simp
qed

lemma documents_ok_update:
  assumes "documents_ok ds" and "\<And>r. d_id (f r) = d_id r" "\<And>r. d_module (f r) = d_module r"
    "\<And>r. d_documentNo (f r) = d_documentNo r"
  shows "documents_ok (update_where p f ds)"
  using assms by (simp add: documents_ok_def map_update_where)

lemma applied_document:
  assumes ap: "applied_posting e deps policy n hash a d db db' r" and ok: "documents_ok (db_documents db)"
    and lk: "lockOperationalDocument db n = Inr d"
  shows "d_stockPostingId d = None" "d_status d \<in> set (dp_fromStatuses policy)"
    "documents_ok (db_documents db')"
    "db_documents db' = update_where (\<lambda>x. x = d) (advanced (dp_nextStatus policy) (pr_postingId r)) (db_documents db)"
proof -
  from lk have d: "d \<in> set (db_documents db)"
    by (auto simp: lockOperationalDocument_def split: option.splits if_splits dest: find_Some_mem)
  from ap obtain rows :: "ledger_row list" where
    docs: "db_documents db' = update_where (document_hit d)
      (advanced (dp_nextStatus policy) (env_uuid e (db_ids db))) (db_documents db)"
    and ex: "\<exists>x \<in> set (db_documents db). document_hit d x"
    and r: "r = postingResult (env_uuid e (db_ids db)) n hash (map lg_line rows)"
    and st: "d_status d \<in> set (dp_fromStatuses policy)" by (rule applied_rows)
  have same: "document_hit d x \<longleftrightarrow> x = d" if "x \<in> set (db_documents db)" for x
  proof -
    from ex obtain y where y: "y \<in> set (db_documents db)" "document_hit d y" by blast
    have inj: "inj_on d_id (set (db_documents db))"
      using ok by (simp add: documents_ok_def distinct_map)
    from y have "y = d" by (intro inj_onD [OF inj _ y(1) d]) (simp add: document_hit_def)
    with y(2) have "document_hit d d" by simp
    moreover have "document_hit d x \<Longrightarrow> x = d"
      by (intro inj_onD [OF inj _ that d]) (simp add: document_hit_def)
    ultimately show ?thesis by blast
  qed
  with d have "document_hit d d" by blast
  then show "d_stockPostingId d = None" by (simp add: document_hit_def)
  show "d_status d \<in> set (dp_fromStatuses policy)" by (rule st)
  show "documents_ok (db_documents db')"
    unfolding docs by (rule documents_ok_update [OF ok]) (simp_all add: advanced_def)
  have pid: "pr_postingId r = env_uuid e (db_ids db)" by (simp add: r postingResult_def)
  show "db_documents db' = update_where (\<lambda>x. x = d) (advanced (dp_nextStatus policy) (pr_postingId r)) (db_documents db)"
    unfolding docs pid update_where_def by (rule map_cong) (simp_all add: same)
qed

text \<open>An applied posting moves its document, which no posting had claimed, from one of the
  statuses its policy names to the next status, counts its version up and pins the posting to it; no
  other document changes.\<close>

theorem post_document:
  assumes "post e deps aborts inp db = (db', Inr r)" and "\<not> pr_replayed r"
    and "lookup_policy (dep_policies deps) (pi_sourceModule inp) = Some policy"
    and "documents_ok (db_documents db)"
  shows "\<exists>d \<in> set (db_documents db). d_module d = pi_sourceModule inp \<and>
     d_documentNo d = pi_sourceDocumentNo inp \<and> d_locationId d = pi_locationId inp \<and>
     d_stockPostingId d = None \<and> d_status d \<in> set (dp_fromStatuses policy) \<and>
     db_documents db' = update_where (\<lambda>x. x = d)
       (\<lambda>x. x\<lparr>d_status := dp_nextStatus policy, d_version := d_version x + 1,
              d_stockPostingId := Some (pr_postingId r)\<rparr>) (db_documents db)"
proof -
  from assms(1) obtain policy' hash n a d where p: "preparePosting e deps inp = Inr (policy', hash, n)"
    and lk: "lockOperationalDocument db n = Inr d"
    and "(pr_replayed r \<and> db' = db \<and> replayPosting n hash db = Inr r) \<or>
      (\<not> pr_replayed r \<and> applied_posting e deps policy' n hash a d db db' r)" by (rule post_ok)
  with assms(2) have ap: "applied_posting e deps policy' n hash a d db db' r" by blast
  from p assms(3) have pol: "policy' = policy" by (simp add: preparePosting_Inr)
  from p obtain ms where n: "n = inp\<lparr>pi_movements := ms\<rparr>"
    using canonicalizePosting_same by (fastforce simp: preparePosting_Inr)
  have d: "d \<in> set (db_documents db)" "d_module d = pi_sourceModule inp"
    "d_documentNo d = pi_sourceDocumentNo inp" "d_locationId d = pi_locationId inp"
    using lk by (auto simp: lockOperationalDocument_def n split: option.splits if_splits dest: find_Some_mem)
  note doc = applied_document [OF ap assms(4) lk]
  show ?thesis
    by (rule bexI [OF _ d(1)]) (use d doc in \<open>simp add: pol advanced_def [abs_def]\<close>)
qed

lemma ex_documents_ok: "documents_ok (db_documents ex_db)"
  by (simp add: documents_ok_def ex_db_def)

theorem post_document_witness:
  "\<exists>d \<in> set (db_documents ex_db). d_documentNo d = ''N1'' \<and> d_status d \<in> {''NEW''}"
  using post_document [OF ex_post ex_not_replayed ex_lookup ex_documents_ok]
  by (fastforce simp: ex_input_def ex_policy_def)

text \<open>C33: A document is posted at most once: once a posting is pinned to it, every later posting
  for it, whatever its key and movements, is a replay or fails.\<close>

theorem post_document_once:
  assumes "documents_ok (db_documents db)" and "d \<in> set (db_documents db)" and "d_stockPostingId d \<noteq> None"
    and "pi_sourceModule inp = d_module d" "pi_sourceDocumentNo inp = d_documentNo d"
    and "post e deps aborts inp db = (db', Inr r)"
  shows "pr_replayed r \<and> db' = db"
proof (rule ccontr)
  assume neg: "\<not> (pr_replayed r \<and> db' = db)"
  from assms(6) obtain policy hash n a d0 where p: "preparePosting e deps inp = Inr (policy, hash, n)"
    and lk: "lockOperationalDocument db n = Inr d0"
    and out: "(pr_replayed r \<and> db' = db \<and> replayPosting n hash db = Inr r) \<or>
      (\<not> pr_replayed r \<and> applied_posting e deps policy n hash a d0 db db' r)" by (rule post_ok)
  with neg have ap: "applied_posting e deps policy n hash a d0 db db' r" by blast
  from p obtain ms where n: "n = inp\<lparr>pi_movements := ms\<rparr>"
    using canonicalizePosting_same by (fastforce simp: preparePosting_Inr)
  have "d0 = d"
    using lk documents_ok_find [OF assms(1,2)] assms(4,5)
    by (auto simp: lockOperationalDocument_def n split: option.splits if_splits)
  with applied_document(1) [OF ap assms(1) lk] assms(3) show False by simp
qed

definition ex_document_after :: document where
  "ex_document_after = ex_document\<lparr>d_status := ''DONE'', d_version := 2, d_stockPostingId := Some ex_pid\<rparr>"

theorem post_document_once_witness:
  "pr_replayed ((postingResult ex_pid ex_normal ex_hash [ex_planned])\<lparr>pr_replayed := True\<rparr>) \<and> ex_after = ex_after"
proof (rule post_document_once)
  show "documents_ok (db_documents ex_after)" by (simp add: documents_ok_def ex_after_def)
  show "ex_document_after \<in> set (db_documents ex_after)" by (simp add: ex_after_def ex_document_after_def)
  show "d_stockPostingId ex_document_after \<noteq> None" by (simp add: ex_document_after_def)
  show "pi_sourceModule ex_input = d_module ex_document_after" "pi_sourceDocumentNo ex_input = d_documentNo ex_document_after"
    by (simp_all add: ex_document_after_def ex_document_def ex_input_def)
  show "post ex_env ex_deps (\<lambda>_. None) ex_input ex_after =
      (ex_after, Inr ((postingResult ex_pid ex_normal ex_hash [ex_planned])\<lparr>pr_replayed := True\<rparr>))"
    by (rule replay_again [OF ex_post ex_stock_inv])
qed

section \<open>Return dispositions and retries\<close>

definition held :: "movement \<Rightarrow> bool" where
  "held m \<longleftrightarrow> m_movementType m = IN \<and> m_sourcePolicy m = Some QUARANTINE_HOLD"

definition net_item_lot :: "string \<Rightarrow> string \<Rightarrow> movement list \<Rightarrow> int" where
  "net_item_lot iid lid ms =
     sum_list (map (\<lambda>m. if m_itemId m = iid \<and> m_lotId m = lid \<and> \<not> held m then signed_qty m else 0) ms)"

definition key_sum :: "string \<Rightarrow> movement list \<Rightarrow> int" where
  "key_sum key ms =
     sum_list (map (\<lambda>m. if m_itemId m @ '':'' @ m_lotId m = key \<and> \<not> held m then signed_qty m else 0) ms)"

lemma dispositionStep_Inr:
  assumes "dispositionStep m net = Inr net1"
  shows "(held m \<and> net1 = net) \<or>
    (\<not> held m \<and> net1 = AList.update (m_itemId m @ '':'' @ m_lotId m)
       ((case map_of net (m_itemId m @ '':'' @ m_lotId m) of Some v \<Rightarrow> v | None \<Rightarrow> 0) + signed_qty m) net)"
proof (cases "m_movementType m")
  case IN
  then show ?thesis using assms
    by (cases "m_sourcePolicy m = Some QUARANTINE_HOLD")
       (simp_all add: dispositionStep_def held_def signed_qty_def qty_of_def res_iff Let_def, fastforce)
next
  case OUT
  then have "m_sourcePolicy m = Some DISPOSITION" using assms by (simp add: dispositionStep_def split: if_splits)
  with OUT show ?thesis using assms
    by (simp add: dispositionStep_def held_def signed_qty_def qty_of_def res_iff Let_def, fastforce)
qed

lemma disposition_fold:
  assumes "foldE dispositionStep ms net = Inr net'"
  shows "(case map_of net' k of Some v \<Rightarrow> v | None \<Rightarrow> 0) = (case map_of net k of Some v \<Rightarrow> v | None \<Rightarrow> 0) + key_sum k ms"
  using assms
proof (induction ms arbitrary: net)
  case Nil
  then show ?case by (simp add: key_sum_def)
next
  case (Cons m ms)
  from Cons.prems obtain net1 where 1: "dispositionStep m net = Inr net1"
    and 2: "foldE dispositionStep ms net1 = Inr net'" by (auto simp: res_iff)
  from dispositionStep_Inr [OF 1]
  have step: "(case map_of net1 k of Some v \<Rightarrow> v | None \<Rightarrow> 0) = (case map_of net k of Some v \<Rightarrow> v | None \<Rightarrow> 0) +
      (if m_itemId m @ '':'' @ m_lotId m = k \<and> \<not> held m then signed_qty m else 0)"
    by (auto simp: update_conv')
  show ?case using Cons.IH [OF 2] step by (simp add: key_sum_def)
qed

lemma disposition_key_zero:
  assumes "foldE dispositionStep ms [] = Inr net" and "list_all (\<lambda>kv. snd kv = 0) net"
  shows "key_sum k ms = 0"
proof -
  have "key_sum k ms = (case map_of net k of Some v \<Rightarrow> v | None \<Rightarrow> 0)"
    using disposition_fold [OF assms(1), of k] by simp
  also have "\<dots> = 0" using assms(2) by (fastforce simp: list_all_iff split: option.splits dest: map_of_SomeD)
  finally show ?thesis .
qed

lemma net_item_lot_key:
  assumes "\<And>m. m \<in> set ms \<Longrightarrow> no_colon (m_itemId m)" "no_colon iid"
  shows "net_item_lot iid lid ms = key_sum (iid @ '':'' @ lid) ms"
proof -
  have "(m_itemId m = iid \<and> m_lotId m = lid) \<longleftrightarrow> m_itemId m @ '':'' @ m_lotId m = iid @ '':'' @ lid"
    if "m \<in> set ms" for m
    using append_colon_inj [OF assms(1) [OF that] assms(2)] by auto
  then show ?thesis
    unfolding net_item_lot_def key_sum_def by (intro arg_cong [where f = sum_list] map_cong) auto
qed

text \<open>A return disposition nets to zero: leaving aside the receipts held for QA, what the accepted
  movements of that class put into quarantine for a lot of an item is what they take out.\<close>

theorem disposition_nets_zero:
  assumes "validateRoute policy n wh = Inr ()" and "dp_routeClass policy = RC_RETURN_DISPOSITION"
    and "list_all (\<lambda>m. no_colon (m_itemId m)) (pi_movements n)" and "no_colon iid"
  shows "net_item_lot iid lid (pi_movements n) = 0"
proof -
  from assms(1,2) obtain net where
    "foldE dispositionStep (pi_movements n) [] = Inr net" "list_all (\<lambda>kv. snd kv = 0) net"
    by (auto simp: validateRoute_def validateRouteClass_def res_iff Let_def)
  then have "key_sum (iid @ '':'' @ lid) (pi_movements n) = 0" by (rule disposition_key_zero)
  then show ?thesis using net_item_lot_key [of "pi_movements n" iid lid] assms(3,4) by (simp add: list_all_iff)
qed

definition ex_quarantine :: "string \<Rightarrow> warehouse" where
  "ex_quarantine = (\<lambda>_. \<lparr>w_id = ''Q1'', w_locationId = ''HQ'', w_type = TypeMain, w_purpose = Some QUARANTINE,
     w_isActive = True\<rparr>)"

definition ex_disposition :: posting_input where
  "ex_disposition = ex_input\<lparr>pi_movements :=
     [ex_movement\<lparr>m_movementType := IN, m_sourcePolicy := Some QUARANTINE_HOLD\<rparr>,
      ex_movement\<lparr>m_movementType := IN\<rparr>, ex_movement\<lparr>m_sourcePolicy := Some DISPOSITION\<rparr>]\<rparr>"

theorem disposition_nets_zero_witness: "net_item_lot ''I1'' ''T1'' (pi_movements ex_disposition) = 0"
proof (rule disposition_nets_zero)
  show "validateRoute (ex_policy\<lparr>dp_routeClass := RC_RETURN_DISPOSITION\<rparr>) ex_disposition ex_quarantine = Inr ()"
    by (simp add: validateRoute_def checkSingleOutlet_def validateRouteClass_def route_matches_def dispositionStep_def
      singleOutletRouteClasses_def ex_disposition_def ex_quarantine_def ex_movement_def ex_parse Let_def)
qed (simp_all add: ex_disposition_def ex_movement_def no_colon_def)

lemma executePosting_abort:
  "executePosting e deps (Some s) inp db = (db, Inl (DbAborted s)) \<or>
   executePosting e deps (Some s) inp db = executePosting e deps None inp db"
  by (auto simp: executePosting_prepare split: sum.splits)

lemma retryable_abort: "s \<in> {''40001'', ''40P01''} \<Longrightarrow> retryable (DbAborted s)"
  by (auto simp: retryable_def findSqlState_def error_causes_def is_sql_state_def text_eval)

lemma postAttempt_final:
  "executePosting e deps (aborts j) inp db = (db', res) \<Longrightarrow> (\<And>err. res = Inl err \<Longrightarrow> \<not> retryable err) \<Longrightarrow>
   postAttempt e deps aborts j inp db = (db', res)"
  by (subst postAttempt.simps) (simp split: sum.splits)

lemma postAttempt_retries:
  assumes "j \<le> k" and "k \<le> maxRetries deps"
    and "\<And>i. j \<le> i \<Longrightarrow> i < k \<Longrightarrow> \<exists>s \<in> {''40001'', ''40P01''}. aborts i = Some s" and "aborts k = None"
    and "executePosting e deps None inp db = (db', res)" and "\<And>err. res = Inl err \<Longrightarrow> \<not> retryable err"
  shows "postAttempt e deps aborts j inp db = (db', res)"
  using assms(1,3)
proof (induction "k - j" arbitrary: j)
  case 0
  with assms(4-6) show ?case by (intro postAttempt_final) auto
next
  case (Suc x)
  then have "j < k" by simp
  with Suc.prems(2) [of j] obtain s where s: "aborts j = Some s" "s \<in> {''40001'', ''40P01''}" by blast
  from executePosting_abort [of e deps s inp db] show ?case
  proof
    assume ab: "executePosting e deps (Some s) inp db = (db, Inl (DbAborted s))"
    have "x = k - Suc j" "Suc j \<le> k" using Suc.hyps(2) \<open>j < k\<close> by simp_all
    then have "postAttempt e deps aborts (Suc j) inp db = (db', res)"
      by (rule Suc.hyps(1)) (rule Suc.prems(2), simp_all)
    then show ?thesis using ab s retryable_abort [OF s(2)] \<open>j < k\<close> assms(2)
      by (subst postAttempt.simps) simp
  next
    assume "executePosting e deps (Some s) inp db = executePosting e deps None inp db"
    with assms(5,6) s show ?thesis by (intro postAttempt_final) auto
  qed
qed

text \<open>C34: Serialization failures and deadlocks of the first attempts, no more of them than the retries
  the service allows, do not show: the outcome is that of an undisturbed posting.\<close>

theorem post_retries:
  assumes "k \<le> maxRetries deps" and "\<And>i. i < k \<Longrightarrow> \<exists>s \<in> {''40001'', ''40P01''}. aborts i = Some s"
    and "aborts k = None" and "executePosting e deps None inp db = (db', res)"
    and "\<And>err. res = Inl err \<Longrightarrow> \<not> retryable err"
  shows "post e deps aborts inp db = (db', res)"
  unfolding post_def by (rule postAttempt_retries [of 0 k]) (use assms in auto)

theorem post_retries_witness:
  "post ex_env ex_deps (\<lambda>i. if i < 3 then Some ''40P01'' else None) ex_input ex_db =
     (ex_after, Inr (postingResult ex_pid ex_normal ex_hash [ex_planned]))"
proof (rule post_retries [of 3])
  show "3 \<le> maxRetries ex_deps" by (simp add: maxRetries_def ex_deps_def)
  show "executePosting ex_env ex_deps None ex_input ex_db =
      (ex_after, Inr (postingResult ex_pid ex_normal ex_hash [ex_planned]))"
    using ex_post by (auto elim!: post_cases)
qed simp_all

end
