(* ===== verification/Reconciliation.thy ===== *)
theory Reconciliation
  imports StockExample
begin

text \<open>
  Reconciliation of the lot balances with the compatibility aggregate,
  \<open>src/modules/stock/reconciliation-service.ts\<close>. The database is extended with the legacy table
  \<open>inventory_stock\<close> and the table of runs. A drift switches the \<open>stock.lot_writes\<close> flag off.
\<close>

record legacy_row =
  ls_warehouseId :: string
  ls_itemId :: string
  ls_quantity :: int

datatype recon_status = PASSED | DRIFT_DETECTED

record recon_drift =
  rd_warehouseId :: string
  rd_itemId :: string
  rd_legacy :: string
  rd_lot :: string
  rd_drift :: string

record recon_run =
  rr_id :: string
  rr_status :: recon_status
  rr_scope :: "string option"
  rr_legacyTotal :: int
  rr_lotTotal :: int
  rr_driftQuantity :: int
  rr_details :: "recon_drift list"
  rr_startedBy :: string

record recon_db = stock_db +
  db_legacy :: "legacy_row list"
  db_runs :: "recon_run list"

record recon_input =
  ri_actorUserId :: string
  ri_correlationId :: string
  ri_warehouseId :: "string option"

record recon_result =
  rc_runId :: string
  rc_status :: recon_status
  rc_drift :: "recon_drift list"
  rc_postingDisabled :: bool

definition balanceKey :: "string \<Rightarrow> string \<Rightarrow> string" where
  "balanceKey w i = w @ '':'' @ i"

definition in_scope :: "string option \<Rightarrow> string \<Rightarrow> bool" where
  "in_scope scope w = (case truthy scope of Some s \<Rightarrow> w = s | None \<Rightarrow> True)"

definition recon_actor :: "'z stock_db_scheme \<Rightarrow> string \<Rightarrow> stock_error + user_row" where
  "recon_actor db uid =
     (case List.find (\<lambda>u. u_id u = uid) (db_users db) of
        None \<Rightarrow> Inl (StockErr UNAUTHORIZED 403)
      | Some u \<Rightarrow>
          if u_active u \<and> normalizeRole (Some (u_role u)) \<in> {Some (KnownRole OWNER), Some (KnownRole WAREHOUSE_MAIN)}
          then Inr u else Inl (StockErr UNAUTHORIZED 403))"

text \<open>
  The two queries: the legacy rows, and the balances joined with their lots, summed up by warehouse
  and item. Each ends up in a map whose keys are strings.
\<close>

definition legacyMap :: "'z recon_db_scheme \<Rightarrow> string option \<Rightarrow> (string \<times> int) list" where
  "legacyMap db scope =
     fold (\<lambda>r m. AList.update (balanceKey (ls_warehouseId r) (ls_itemId r)) (ls_quantity r) m)
       (filter (\<lambda>r. in_scope scope (ls_warehouseId r)) (db_legacy db)) []"

definition item_of_lot :: "'z stock_db_scheme \<Rightarrow> string \<Rightarrow> string option" where
  "item_of_lot db lid = map_option l_itemId (List.find (\<lambda>l. l_id l = lid) (db_lots db))"

definition lotGroups :: "'z stock_db_scheme \<Rightarrow> string option \<Rightarrow> ((string \<times> string) \<times> int) list" where
  "lotGroups db scope =
     fold (\<lambda>b m.
         case item_of_lot db (b_lotId b) of
           None \<Rightarrow> m
         | Some i \<Rightarrow>
             let k = (b_warehouseId b, i);
                 old = (case map_of m k of Some v \<Rightarrow> v | None \<Rightarrow> 0)
             in AList.update k (old + b_onHand b) m)
       (filter (\<lambda>b. in_scope scope (b_warehouseId b)) (db_balances db)) []"

definition lotMap :: "'z stock_db_scheme \<Rightarrow> string option \<Rightarrow> (string \<times> int) list" where
  "lotMap db scope =
     fold (\<lambda>((w, i), q) m. AList.update (balanceKey w i) q m) (lotGroups db scope) []"

definition quantity_at :: "(string \<times> int) list \<Rightarrow> string \<Rightarrow> int" where
  "quantity_at m k = (case map_of m k of Some v \<Rightarrow> v | None \<Rightarrow> 0)"

definition driftRows :: "(string \<times> int) list \<Rightarrow> (string \<times> int) list \<Rightarrow> recon_drift list" where
  "driftRows legacy lots =
     List.map_filter (\<lambda>key.
         let legacyQuantity = quantity_at legacy key; lotQuantity = quantity_at lots key;
             difference = lotQuantity - legacyQuantity;
             wid = takeWhile (\<lambda>c. c \<noteq> CHR '':'') key
         in if difference \<noteq> 0
            then Some \<lparr>rd_warehouseId = wid, rd_itemId = drop (Suc (length wid)) key,
                       rd_legacy = formatFixed legacyQuantity 6, rd_lot = formatFixed lotQuantity 6,
                       rd_drift = formatFixed difference 6\<rparr>
            else None)
       (js_sorted_set (map fst legacy @ map fst lots))"

definition map_total :: "(string \<times> int) list \<Rightarrow> int" where
  "map_total m = sum_list (map snd m)"

text \<open>A \<open>numeric(24,6)\<close> column of the run.\<close>

definition total_column :: "int \<Rightarrow> stock_error + int" where
  "total_column v = (if \<bar>v\<bar> < 10 ^ 24 then Inr v else Inl DbNumericOverflow)"

definition status_name :: "recon_status \<Rightarrow> string" where
  "status_name s = (case s of PASSED \<Rightarrow> ''passed'' | DRIFT_DETECTED \<Rightarrow> ''drift_detected'')"

definition status_column :: "recon_status \<Rightarrow> string" where
  "status_column s = (case s of PASSED \<Rightarrow> ''PASSED'' | DRIFT_DETECTED \<Rightarrow> ''DRIFT_DETECTED'')"

definition disablePosting :: "'z stock_db_scheme \<Rightarrow> 'z stock_db_scheme" where
  "disablePosting db = db\<lparr>db_flags :=
     update_where (\<lambda>f. f_key f = ''stock.lot_writes'')
       (\<lambda>f. f\<lparr>f_enabled := False, f_version := f_version f + 1\<rparr>) (db_flags db)\<rparr>"

definition reconTransaction ::
  "env \<Rightarrow> recon_input \<Rightarrow> 'z recon_db_scheme \<Rightarrow> stock_error + 'z recon_db_scheme \<times> recon_result" where
  "reconTransaction e inp db =
     bindE (recon_actor db (ri_actorUserId inp)) (\<lambda>actor.
     case List.find (\<lambda>f. f_key f = ''stock.lot_writes'') (db_flags db) of
       None \<Rightarrow> Inl (StockErr FEATURE_DISABLED 503)
     | Some flag \<Rightarrow>
         (let legacy = legacyMap db (ri_warehouseId inp);
              lots = lotMap db (ri_warehouseId inp);
              drift = driftRows legacy lots;
              status = (if drift = [] then PASSED else DRIFT_DETECTED);
              runId = env_uuid e (db_ids db)
          in bindE (total_column (map_total legacy)) (\<lambda>legacyTotal.
             bindE (total_column (map_total lots)) (\<lambda>lotTotal.
             bindE (total_column (lotTotal - legacyTotal)) (\<lambda>driftTotal.
             let db1 = db\<lparr>db_runs := db_runs db @
                   [\<lparr>rr_id = runId, rr_status = status, rr_scope = ri_warehouseId inp,
                     rr_legacyTotal = legacyTotal, rr_lotTotal = lotTotal, rr_driftQuantity = driftTotal,
                     rr_details = drift, rr_startedBy = u_id actor\<rparr>],
                   db_ids := Suc (db_ids db)\<rparr>;
                 db2 = (if drift \<noteq> [] then disablePosting db1 else db1);
                 db3 = writeAudit \<lparr>a_actorUserId = Some (u_id actor), a_locationId = None,
                         a_action = ''stock.reconciliation.'' @ status_name status,
                         a_entityType = ''inventory_reconciliation_run'', a_entityId = runId\<rparr> db2
             in bindE (writeOutbox \<lparr>ob_eventType = ''stock.reconciliation.'' @ status_name status,
                         ob_aggregateId = runId, ob_correlationId = ri_correlationId inp,
                         ob_payload = json_object
                           [(''runId'', Some (JStr runId)), (''status'', Some (JStr (status_column status))),
                            (''driftCount'', Some (JNum (nat_str (length drift))))]\<rparr> db3) (\<lambda>db4.
                Inr (db4, \<lparr>rc_runId = runId, rc_status = status, rc_drift = drift,
                           rc_postingDisabled = (drift \<noteq> [] \<or> \<not> f_enabled flag)\<rparr>)))))))"

definition runInventoryReconciliation ::
  "env \<Rightarrow> recon_input \<Rightarrow> 'z recon_db_scheme \<Rightarrow> 'z recon_db_scheme \<times> (stock_error + recon_result)" where
  "runInventoryReconciliation e inp db = run_tx (reconTransaction e inp) db"

section \<open>What a run decides\<close>

text \<open>The stock of an item in a warehouse according to the legacy table and to the lot balances.\<close>

definition legacy_total :: "'z recon_db_scheme \<Rightarrow> string \<Rightarrow> string \<Rightarrow> int" where
  "legacy_total db w i =
     sum_list (map (\<lambda>r. if ls_warehouseId r = w \<and> ls_itemId r = i then ls_quantity r else 0) (db_legacy db))"

definition lot_total :: "'z stock_db_scheme \<Rightarrow> string \<Rightarrow> string \<Rightarrow> int" where
  "lot_total db w i =
     sum_list (map (\<lambda>b. if b_warehouseId b = w \<and> item_of_lot db (b_lotId b) = Some i then b_onHand b else 0)
       (db_balances db))"

text \<open>The unique index of the legacy table, and ids without colons.\<close>

definition recon_inv :: "'z recon_db_scheme \<Rightarrow> bool" where
  "recon_inv db \<longleftrightarrow> distinct (map (\<lambda>r. (ls_warehouseId r, ls_itemId r)) (db_legacy db)) \<and>
     list_all (\<lambda>r. no_colon (ls_warehouseId r)) (db_legacy db) \<and>
     list_all (\<lambda>b. no_colon (b_warehouseId b)) (db_balances db)"

lemma balanceKey_inj: "no_colon w \<Longrightarrow> no_colon w' \<Longrightarrow> balanceKey w i = balanceKey w' i' \<longleftrightarrow> w = w' \<and> i = i'"
  using append_colon_inj [of w w' i i'] by (auto simp: balanceKey_def)


lemma quantity_at_update [simp]:
  "quantity_at (AList.update k v m) k' = (if k' = k then v else quantity_at m k')"
  by (simp add: quantity_at_def update_conv')

lemma quantity_at_Nil [simp]: "quantity_at [] k = 0"
  by (simp add: quantity_at_def)

lemma fold_update_at:
  "distinct (map key xs) \<Longrightarrow>
   quantity_at (fold (\<lambda>x m. AList.update (key x) (q x) m) xs []) k =
     sum_list (map (\<lambda>x. if key x = k then q x else 0) xs)"
proof (induction xs rule: rev_induct)
  case Nil
  then show ?case by simp
next
  case (snoc x xs)
  show ?case
  proof (cases "key x = k")
    case True
    have "sum_list (map (\<lambda>x. if key x = k then q x else 0) xs) = 0"
      by (rule sum_list_zero) (use snoc.prems True in \<open>auto simp: image_iff\<close>)
    with True show ?thesis by simp
  qed (use snoc in simp)
qed

lemma keys_fold_update:
  "fst ` set (fold (\<lambda>x m. AList.update (key x) (q x) m) xs m0) = key ` set xs \<union> fst ` set m0"
proof (induction xs arbitrary: m0)
  case (Cons x xs)
  have "fst ` set (AList.update (key x) (q x) m0) = insert (key x) (fst ` set m0)"
    by (simp add: dom_update)
  with Cons show ?case by auto
qed simp

lemma sum_list_filter: "sum_list (map f (filter P xs)) = sum_list (map (\<lambda>x. if P x then f x else 0) xs)"
  for f :: "'a \<Rightarrow> int"
  by (induction xs) auto

lemma sum_list_cong: "(\<And>x. x \<in> set xs \<Longrightarrow> f x = g x) \<Longrightarrow> sum_list (map f xs) = sum_list (map g xs)"
  by (metis map_cong)

lemma distinct_map_finer:
  "distinct (map f xs) \<Longrightarrow> (\<And>x y. x \<in> set xs \<Longrightarrow> y \<in> set xs \<Longrightarrow> g x = g y \<Longrightarrow> f x = f y) \<Longrightarrow>
   distinct (map g xs)"
  by (induction xs) (auto simp: image_iff)

lemma legacyMap_at:
  assumes "recon_inv db" and "no_colon w"
  shows "quantity_at (legacyMap db scope) (balanceKey w i) = (if in_scope scope w then legacy_total db w i else 0)"
proof -
  let ?rows = "filter (\<lambda>r. in_scope scope (ls_warehouseId r)) (db_legacy db)"
  let ?key = "\<lambda>r. balanceKey (ls_warehouseId r) (ls_itemId r)"
  have nc: "no_colon (ls_warehouseId r)" if "r \<in> set (db_legacy db)" for r
    using assms(1) that by (simp add: recon_inv_def list_all_iff)
  have "distinct (map (\<lambda>r. (ls_warehouseId r, ls_itemId r)) ?rows)"
    using assms(1) by (simp add: recon_inv_def distinct_map_filter)
  then have "distinct (map ?key ?rows)"
    by (rule distinct_map_finer) (use nc in \<open>auto simp: balanceKey_inj\<close>)
  then have "quantity_at (legacyMap db scope) (balanceKey w i) =
      sum_list (map (\<lambda>r. if ?key r = balanceKey w i then ls_quantity r else 0) ?rows)"
    unfolding legacyMap_def by (intro fold_update_at) simp
  also have "\<dots> = sum_list (map (\<lambda>r. if in_scope scope w \<and> ls_warehouseId r = w \<and> ls_itemId r = i then ls_quantity r else 0)
      (db_legacy db))"
    unfolding sum_list_filter by (rule sum_list_cong) (use nc assms(2) in \<open>auto simp: balanceKey_inj\<close>)
  also have "\<dots> = (if in_scope scope w then legacy_total db w i else 0)"
    by (simp add: legacy_total_def sum_list_zero)
  finally show ?thesis .
qed

definition add_balance ::
  "'z stock_db_scheme \<Rightarrow> balance \<Rightarrow> ((string \<times> string) \<times> int) list \<Rightarrow> ((string \<times> string) \<times> int) list" where
  "add_balance db b m = (case item_of_lot db (b_lotId b) of
      None \<Rightarrow> m
    | Some i \<Rightarrow> AList.update (b_warehouseId b, i)
                  ((case map_of m (b_warehouseId b, i) of Some v \<Rightarrow> v | None \<Rightarrow> 0) + b_onHand b) m)"

lemma lotGroups_alt: "lotGroups db scope =
    fold (add_balance db) (filter (\<lambda>b. in_scope scope (b_warehouseId b)) (db_balances db)) []"
  unfolding lotGroups_def by (rule arg_cong [where f = "\<lambda>g. fold g _ _"]) (auto simp: add_balance_def Let_def fun_eq_iff split: option.splits)

lemma fold_add_balance:
  "distinct (map fst (fold (add_balance db) bs [])) \<and>
   (case map_of (fold (add_balance db) bs []) (w, i) of Some v \<Rightarrow> v | None \<Rightarrow> 0) =
     sum_list (map (\<lambda>b. if b_warehouseId b = w \<and> item_of_lot db (b_lotId b) = Some i then b_onHand b else 0) bs) \<and>
   (\<forall>k \<in> fst ` set (fold (add_balance db) bs []). \<exists>b \<in> set bs. fst k = b_warehouseId b)"
proof (induction bs rule: rev_induct)
  case Nil
  then show ?case by simp
next
  case (snoc b bs)
  show ?case
  proof (cases "item_of_lot db (b_lotId b)")
    case None
    with snoc show ?thesis by (auto simp: add_balance_def)
  next
    case (Some j)
    with snoc show ?thesis
      by (auto simp: add_balance_def update_conv' distinct_update dom_update)
  qed
qed


lemma sum_assoc:
  "distinct (map fst m) \<Longrightarrow>
   sum_list (map (\<lambda>kv. if fst kv = k then snd kv else 0) m) = (case map_of m k of Some v \<Rightarrow> v | None \<Rightarrow> 0)"
  for m :: "('a \<times> int) list"
proof (induction m)
  case (Cons kv m)
  show ?case
  proof (cases "fst kv = k")
    case True
    have "sum_list (map (\<lambda>kv. if fst kv = k then snd kv else 0) m) = 0"
      by (rule sum_list_zero) (use Cons.prems True in \<open>auto simp: image_iff\<close>)
    with True show ?thesis by simp
  qed (use Cons in simp)
qed simp

lemma lotMap_at:
  assumes "recon_inv db" and "no_colon w"
  shows "quantity_at (lotMap db scope) (balanceKey w i) = (if in_scope scope w then lot_total db w i else 0)"
proof -
  let ?bs = "filter (\<lambda>b. in_scope scope (b_warehouseId b)) (db_balances db)"
  let ?g = "fold (add_balance db) ?bs []"
  let ?key = "\<lambda>x. balanceKey (fst (fst x)) (snd (fst x))"
  note g = fold_add_balance [of db ?bs w i]
  have nc: "no_colon (fst (fst x))" if "x \<in> set ?g" for x
    using g that assms(1) by (fastforce simp: recon_inv_def list_all_iff)
  have d: "distinct (map ?key ?g)"
    by (rule distinct_map_finer [where f = fst]) (use g nc in \<open>auto simp: balanceKey_inj prod_eq_iff\<close>)
  have "quantity_at (lotMap db scope) (balanceKey w i) =
      quantity_at (fold (\<lambda>x m. AList.update (?key x) (snd x) m) ?g []) (balanceKey w i)"
    unfolding lotMap_def lotGroups_alt by (simp add: case_prod_beta')
  also have "\<dots> = sum_list (map (\<lambda>x. if ?key x = balanceKey w i then snd x else 0) ?g)"
    by (rule fold_update_at [OF d])
  also have "\<dots> = sum_list (map (\<lambda>x. if fst x = (w, i) then snd x else 0) ?g)"
    by (rule sum_list_cong) (use nc assms(2) in \<open>auto simp: balanceKey_inj prod_eq_iff\<close>)
  also have "\<dots> = sum_list (map (\<lambda>b. if b_warehouseId b = w \<and> item_of_lot db (b_lotId b) = Some i
      then b_onHand b else 0) ?bs)"
    using g by (simp add: sum_assoc)
  also have "\<dots> = (if in_scope scope w then lot_total db w i else 0)"
    unfolding sum_list_filter lot_total_def
    by (cases "in_scope scope w") (auto intro!: sum_list_cong sum_list_zero)
  finally show ?thesis .
qed

lemma quantity_at_absent: "k \<notin> fst ` set m \<Longrightarrow> quantity_at m k = 0"
  by (simp add: quantity_at_def map_of_eq_None_iff [THEN iffD2])

lemma driftRows_Nil: "driftRows legacy lots = [] \<longleftrightarrow> (\<forall>k. quantity_at legacy k = quantity_at lots k)"
proof -
  have "driftRows legacy lots = [] \<longleftrightarrow>
      (\<forall>k \<in> set (map fst legacy @ map fst lots). quantity_at lots k - quantity_at legacy k = 0)"
    unfolding driftRows_def List.map_filter_def map_is_Nil_conv filter_empty_conv set_js_sorted_set Let_def by simp
  also have "\<dots> \<longleftrightarrow> (\<forall>k \<in> fst ` set legacy \<union> fst ` set lots. quantity_at legacy k = quantity_at lots k)"
    by (simp add: ball_Un) (metis eq_commute)
  also have "\<dots> \<longleftrightarrow> (\<forall>k. quantity_at legacy k = quantity_at lots k)"
    using quantity_at_absent by (metis UnCI)
  finally show ?thesis .
qed

lemma legacyMap_keys:
  "k \<in> fst ` set (legacyMap db scope) \<Longrightarrow> \<exists>r \<in> set (db_legacy db). k = balanceKey (ls_warehouseId r) (ls_itemId r)"
  by (auto simp: legacyMap_def keys_fold_update)

lemma lotMap_keys:
  "k \<in> fst ` set (lotMap db scope) \<Longrightarrow> \<exists>b \<in> set (db_balances db). \<exists>i. k = balanceKey (b_warehouseId b) i"
proof -
  assume k: "k \<in> fst ` set (lotMap db scope)"
  have "lotMap db scope = fold (\<lambda>x m. AList.update (balanceKey (fst (fst x)) (snd (fst x))) (snd x) m) (lotGroups db scope) []"
    by (simp add: lotMap_def case_prod_beta')
  with k obtain x where x: "x \<in> set (lotGroups db scope)" "k = balanceKey (fst (fst x)) (snd (fst x))"
    by (auto simp: keys_fold_update)
  with fold_add_balance [of db "filter (\<lambda>b. in_scope scope (b_warehouseId b)) (db_balances db)"]
  show ?thesis by (fastforce simp: lotGroups_alt)
qed

lemma no_drift_iff:
  assumes "recon_inv db"
  shows "driftRows (legacyMap db scope) (lotMap db scope) = [] \<longleftrightarrow>
     (\<forall>w i. in_scope scope w \<longrightarrow> no_colon w \<longrightarrow> legacy_total db w i = lot_total db w i)"
    (is "_ \<longleftrightarrow> ?agree")
proof
  assume "driftRows (legacyMap db scope) (lotMap db scope) = []"
  then show ?agree using legacyMap_at [OF assms] lotMap_at [OF assms] by (metis driftRows_Nil)
next
  assume ag: ?agree
  have "quantity_at (legacyMap db scope) k = quantity_at (lotMap db scope) k" for k
  proof (cases "\<exists>w i. no_colon w \<and> k = balanceKey w i")
    case True
    then show ?thesis using ag legacyMap_at [OF assms] lotMap_at [OF assms] by auto
  next
    case False
    have "k \<notin> fst ` set (legacyMap db scope)"
    proof
      assume "k \<in> fst ` set (legacyMap db scope)"
      from legacyMap_keys [OF this] obtain r where "r \<in> set (db_legacy db)"
        "k = balanceKey (ls_warehouseId r) (ls_itemId r)" by blast
      moreover from this(1) assms have "no_colon (ls_warehouseId r)" by (simp add: recon_inv_def list_all_iff)
      ultimately show False using False by blast
    qed
    moreover have "k \<notin> fst ` set (lotMap db scope)"
    proof
      assume "k \<in> fst ` set (lotMap db scope)"
      from lotMap_keys [OF this] obtain b i where "b \<in> set (db_balances db)"
        "k = balanceKey (b_warehouseId b) i" by blast
      moreover from this(1) assms have "no_colon (b_warehouseId b)" by (simp add: recon_inv_def list_all_iff)
      ultimately show False using False by blast
    qed
    ultimately show ?thesis by (simp add: quantity_at_def map_of_eq_None_iff [THEN iffD2])
  qed
  then show "driftRows (legacyMap db scope) (lotMap db scope) = []" by (simp add: driftRows_Nil)
qed


lemma reconTransaction_Inr:
  assumes "reconTransaction e inp db = Inr (db', r)"
  obtains flag run drift where "List.find (\<lambda>f. f_key f = ''stock.lot_writes'') (db_flags db) = Some flag"
    "drift = driftRows (legacyMap db (ri_warehouseId inp)) (lotMap db (ri_warehouseId inp))"
    "rc_drift r = drift" "rc_status r = (if drift = [] then PASSED else DRIFT_DETECTED)"
    "db_flags db' = (if drift = [] then db_flags db else db_flags (disablePosting db))"
    "db_runs db' = db_runs db @ [run]" "rr_status run = rc_status r" "rr_id run = rc_runId r"
    "db_balances db' = db_balances db" "db_ledger db' = db_ledger db" "db_lots db' = db_lots db"
    "db_legacy db' = db_legacy db" "db_documents db' = db_documents db" "db_postings db' = db_postings db"
proof -
  from assms obtain actor flag where a: "recon_actor db (ri_actorUserId inp) = Inr actor"
    and f: "List.find (\<lambda>f. f_key f = ''stock.lot_writes'') (db_flags db) = Some flag"
    by (auto simp: reconTransaction_def res_iff split: option.splits)
  show thesis
    using assms f
    by (cases "driftRows (legacyMap db (ri_warehouseId inp)) (lotMap db (ri_warehouseId inp)) = []")
       (auto simp: reconTransaction_def a res_iff Let_def disablePosting_def writeAudit_def dest!: writeOutbox_Inr intro!: that)
qed

section \<open>Example runs\<close>

definition ex_recon_db :: "int \<Rightarrow> recon_db" where
  "ex_recon_db q = stock_db.extend ex_db
     \<lparr>db_legacy = [\<lparr>ls_warehouseId = ''W1'', ls_itemId = ''I1'', ls_quantity = q\<rparr>], db_runs = []\<rparr>"

definition ex_recon_input :: recon_input where
  "ex_recon_input = \<lparr>ri_actorUserId = ''U1'', ri_correlationId = ''c9'', ri_warehouseId = None\<rparr>"

lemma ex_recon_maps:
  "legacyMap (ex_recon_db q) None = [(''W1:I1'', q)]" "lotMap (ex_recon_db q) None = [(''W1:I1'', 5000000)]"
  by (simp_all add: legacyMap_def lotMap_def lotGroups_def item_of_lot_def balanceKey_def in_scope_def truthy_def
      ex_recon_db_def ex_db_def ex_balance_def stock_db.extend_def)

lemma ex_recon_drift:
  "driftRows [(''W1:I1'', 5000000)] [(''W1:I1'', 5000000)] = []"
  "driftRows [(''W1:I1'', 4000000)] [(''W1:I1'', 5000000)] \<noteq> []"
  by (simp_all add: driftRows_Nil quantity_at_def)

lemma ex_recon_runs:
  assumes "q = 4000000 \<or> q = 5000000"
  shows "\<exists>db' r. runInventoryReconciliation ex_env ex_recon_input (ex_recon_db q) = (db', Inr r) \<and>
     (rc_status r = PASSED \<longleftrightarrow> q = 5000000)"
proof -
  have role: "normalizeRole (Some ''OWNER'') = Some (KnownRole OWNER)"
    using normalizeRole_role_name [of OWNER] by (simp add: role_name_def)
  have a: "recon_actor (ex_recon_db q) ''U1'' = Inr (hd (db_users ex_db))"
    by (simp add: recon_actor_def ex_recon_db_def ex_db_def stock_db.extend_def role)
  have fl: "List.find (\<lambda>f. f_key f = ''stock.lot_writes'') (db_flags (ex_recon_db q)) = Some (hd (db_flags ex_db))"
    and ob: "db_outbox (ex_recon_db q) = []"
    by (simp_all add: ex_recon_db_def ex_db_def stock_db.extend_def)
  have t: "total_column q = Inr q" "total_column (5000000 - q) = Inr (5000000 - q)"
    "total_column 5000000 = Inr 5000000" using assms by (auto simp: total_column_def)
  have i: "ri_actorUserId ex_recon_input = ''U1''" "ri_warehouseId ex_recon_input = None"
    by (simp_all add: ex_recon_input_def)
  define drift where "drift = driftRows [(''W1:I1'', q)] [(''W1:I1'', 5000000)]"
  have d: "drift = [] \<longleftrightarrow> q = 5000000" using assms ex_recon_drift unfolding drift_def by auto
  have "\<exists>db' r. reconTransaction ex_env ex_recon_input (ex_recon_db q) = Inr (db', r) \<and>
      (rc_status r = PASSED \<longleftrightarrow> drift = [])"
    by (cases "drift = []")
       (simp_all add: reconTransaction_def i a fl ob ex_recon_maps drift_def [symmetric] map_total_def t
          writeOutbox_def writeAudit_def disablePosting_def Let_def)
  with d show ?thesis by (auto simp: runInventoryReconciliation_def run_tx_ok)
qed

section \<open>Properties\<close>

text \<open>C35: A reconciliation run passes exactly when, for every warehouse in its scope and every item,
  the lot balances add up to the quantity of the compatibility table.\<close>

theorem reconciliation_passes_iff:
  assumes "runInventoryReconciliation e inp db = (db', Inr r)" and "recon_inv db"
  shows "rc_status r = PASSED \<longleftrightarrow>
     (\<forall>w i. in_scope (ri_warehouseId inp) w \<longrightarrow> no_colon w \<longrightarrow> legacy_total db w i = lot_total db w i)"
proof -
  from assms(1) have "reconTransaction e inp db = Inr (db', r)" by (simp add: runInventoryReconciliation_def run_tx_ok)
  then have "rc_status r = PASSED \<longleftrightarrow> driftRows (legacyMap db (ri_warehouseId inp)) (lotMap db (ri_warehouseId inp)) = []"
    by (auto elim!: reconTransaction_Inr split: if_splits)
  with no_drift_iff [OF assms(2)] show ?thesis by simp
qed

lemma ex_recon_inv: "recon_inv (ex_recon_db q)"
  by (simp add: recon_inv_def ex_recon_db_def ex_db_def ex_balance_def stock_db.extend_def no_colon_def)

theorem reconciliation_passes_iff_witness:
  "(\<exists>db' r. runInventoryReconciliation ex_env ex_recon_input (ex_recon_db 5000000) = (db', Inr r) \<and>
     rc_status r = PASSED) \<and> legacy_total (ex_recon_db 5000000) ''W1'' ''I1'' = lot_total (ex_recon_db 5000000) ''W1'' ''I1''"
proof -
  from ex_recon_runs [of 5000000] obtain db' r where
    run: "runInventoryReconciliation ex_env ex_recon_input (ex_recon_db 5000000) = (db', Inr r)"
    and ok: "rc_status r = PASSED" by auto
  from reconciliation_passes_iff [OF run ex_recon_inv] ok
  have "legacy_total (ex_recon_db 5000000) ''W1'' ''I1'' = lot_total (ex_recon_db 5000000) ''W1'' ''I1''"
    by (simp add: in_scope_def ex_recon_input_def truthy_def no_colon_def)
  with run ok show ?thesis by blast
qed

lemma disabled_flag_blocks:
  assumes "List.find (\<lambda>f. f_key f = ''stock.lot_writes'') (db_flags db) = Some f" and "\<not> f_enabled f"
  shows "\<exists>err. post e deps aborts inp db = (db, Inl err)"
proof -
  obtain db' res where out: "post e deps aborts inp db = (db', res)" by fastforce
  show ?thesis
  proof (cases res)
    case (Inl err)
    with out show ?thesis by (auto elim!: post_cases dest: executePosting_error)
  next
    case (Inr r)
    with out have "post e deps aborts inp db = (db', Inr r)" by simp
    then obtain policy where "assertFeatureFlags db (requiredFlags policy) = Inr ()" by (rule post_ok)
    moreover have "''stock.lot_writes'' \<in> set (js_sorted_set (requiredFlags policy))"
      by (simp add: requiredFlags_def)
    ultimately have False using assms unfolding assertFeatureFlags_def foldE_unit_iff by fastforce
    then show ?thesis ..
  qed
qed

text \<open>A run that detects a drift stops all posting: until the flag is switched on again, every
  posting on the resulting database fails and writes nothing.\<close>

theorem reconciliation_drift_stops_posting:
  assumes "runInventoryReconciliation e inp db = (db', Inr r)" and "rc_status r = DRIFT_DETECTED"
  shows "\<exists>err. post e deps aborts pinp db' = (db', Inl err)"
proof -
  from assms(1) have "reconTransaction e inp db = Inr (db', r)" by (simp add: runInventoryReconciliation_def run_tx_ok)
  with assms(2) obtain flag where f: "List.find (\<lambda>f. f_key f = ''stock.lot_writes'') (db_flags db) = Some flag"
    and fl: "db_flags db' = db_flags (disablePosting db)"
    by (auto elim!: reconTransaction_Inr split: if_splits)
  have "List.find (\<lambda>f. f_key f = ''stock.lot_writes'') (db_flags db') =
      Some (flag\<lparr>f_enabled := False, f_version := f_version flag + 1\<rparr>)"
    unfolding fl disablePosting_def using f find_Some_mem [OF f]
    by (simp add: find_update_where)
  then show ?thesis by (rule disabled_flag_blocks) simp
qed

theorem reconciliation_drift_stops_posting_witness:
  "\<exists>db' err. fst (runInventoryReconciliation ex_env ex_recon_input (ex_recon_db 4000000)) = db' \<and>
     post ex_env ex_deps (\<lambda>_. None) ex_input db' = (db', Inl err)"
proof -
  from ex_recon_runs [of 4000000] obtain db' r where
    run: "runInventoryReconciliation ex_env ex_recon_input (ex_recon_db 4000000) = (db', Inr r)"
    and ok: "rc_status r \<noteq> PASSED" by auto
  then have "rc_status r = DRIFT_DETECTED" by (cases "rc_status r") simp_all
  with reconciliation_drift_stops_posting [OF run] run show ?thesis by auto
qed

text \<open>A reconciliation run only reports: it changes no balance, no lot, no ledger line, no posting
  and no document, whatever it finds; a rejected run changes nothing at all.\<close>

theorem reconciliation_reads_only:
  assumes "runInventoryReconciliation e inp db = (db', res)"
  shows "db_balances db' = db_balances db \<and> db_lots db' = db_lots db \<and> db_ledger db' = db_ledger db \<and>
     db_postings db' = db_postings db \<and> db_documents db' = db_documents db \<and> db_legacy db' = db_legacy db"
proof (cases res)
  case (Inl err)
  with assms show ?thesis unfolding runInventoryReconciliation_def by (auto dest: run_tx_error)
next
  case (Inr r)
  with assms have "reconTransaction e inp db = Inr (db', r)" by (simp add: runInventoryReconciliation_def run_tx_ok)
  then show ?thesis by (rule reconTransaction_Inr) simp
qed


theorem reconciliation_reads_only_witness:
  "db_balances (fst (runInventoryReconciliation ex_env ex_recon_input (ex_recon_db 4000000))) =
   db_balances (ex_recon_db 4000000)"
  using reconciliation_reads_only [of ex_env ex_recon_input "ex_recon_db 4000000"] by (metis prod.collapse)

end
