(* ===== verification/StockDocs.thy ===== *)
theory StockDocs
  imports PostingLaws
begin

text \<open>
  What the document modules over the posting service share. Transfers, stock returns and QA releases
  each carry a copy of the same helpers (\<open>authorizeActor\<close>, \<open>ensureOperationalDocument\<close>, the lookup of
  a unit conversion, the compensation after a refused posting); a copy is an instance of a definition
  here at the module's own errors. The locale \<open>stock_poster\<close> is the contract all of them need of the
  posting service, interpreted on \<open>post\<close>.
\<close>

section \<open>Guards\<close>

definition authorizeWith ::
  "'e \<Rightarrow> 'e \<Rightarrow> 'z stock_db_scheme \<Rightarrow> string \<Rightarrow> string option \<Rightarrow> role list \<Rightarrow> 'e + actor" where
  "authorizeWith denied noSession db actorUserId sessionId allowedRoles =
     (case List.find (\<lambda>u. u_id u = actorUserId) (db_users db) of
        None \<Rightarrow> Inl denied
      | Some u \<Rightarrow>
          (case normalizeRole (Some (u_role u)) of
             Some (KnownRole role) \<Rightarrow>
               if \<not> u_active u \<or> role \<notin> set allowedRoles then Inl denied
               else
                 bindE (case truthy sessionId of
                          None \<Rightarrow> Inr ()
                        | Some sid \<Rightarrow>
                            ensure (\<exists>s \<in> set (db_sessions db).
                                      s_id s = sid \<and> s_userId s = u_id u \<and> \<not> s_loggedOut s) noSession) (\<lambda>_.
                 Inr \<lparr>ac_id = u_id u, ac_name = u_name u, ac_role = role,
                      ac_allowed = (if outletScopeForRole (Some (role_name role)) \<noteq> ScopeAll
                                    then Some (map ua_locationId
                                           (filter (\<lambda>a. ua_userId a = u_id u) (db_access db)))
                                    else None)\<rparr>)
           | _ \<Rightarrow> Inl denied))"

definition in_scope :: "string list option \<Rightarrow> string \<Rightarrow> bool" where
  "in_scope allowed l = (case allowed of None \<Rightarrow> True | Some ls \<Rightarrow> l \<in> set ls)"

definition featureWith :: "'e \<Rightarrow> string \<Rightarrow> 'z stock_db_scheme \<Rightarrow> 'e + unit" where
  "featureWith disabled key db =
     (case List.find (\<lambda>f. f_key f = key) (db_flags db) of
        Some f \<Rightarrow> ensure (f_enabled f) disabled
      | None \<Rightarrow> Inl disabled)"

section \<open>Conversions\<close>

text \<open>
  The factor of a conversion key, item and unit joined with a colon. A missing item makes the code
  read a property of \<open>undefined\<close>.
\<close>

definition conversionWith ::
  "'e \<Rightarrow> (stock_error \<Rightarrow> 'e) \<Rightarrow> 'z stock_db_scheme \<Rightarrow> (string \<times> item) list \<Rightarrow> string \<Rightarrow> 'e + string \<times> string" where
  "conversionWith mismatch passed db items key =
     (let itemId = takeWhile (\<lambda>c. c \<noteq> CHR '':'') key;
          enteredUom = drop (Suc (length itemId)) key
      in case map_of items itemId of
           None \<Rightarrow> Inl (passed JsTypeError)
         | Some i \<Rightarrow>
             if to_lower (trim (i_unit i)) = enteredUom then Inr (key, ''1.00000000'')
             else (case List.find (\<lambda>c. c_itemId c = itemId \<and> to_lower (c_fromUom c) = enteredUom \<and>
                                       c_isActive c) (db_conversions db) of
                     None \<Rightarrow> Inl mismatch
                   | Some c \<Rightarrow>
                       bindE (mapErr (\<lambda>d. passed (DecimalErr d)) (normalizeFixed (formatFixed (c_toBaseFactor c) 8) 8))
                         (\<lambda>f. Inr (key, f))))"

section \<open>Documents\<close>

definition ensureDocumentWith ::
  "'e \<Rightarrow> env \<Rightarrow> string \<Rightarrow> string \<Rightarrow> string \<Rightarrow> string \<Rightarrow> 'z stock_db_scheme \<Rightarrow> 'e + 'z stock_db_scheme \<times> string" where
  "ensureDocumentWith conflict e modul documentNo locationId status db =
     (let new = env_uuid e (db_ids db);
          same = (\<lambda>d. d_module d = modul \<and> d_documentNo d = documentNo)
      in if \<exists>d \<in> set (db_documents db). same d \<or> d_id d = new
         then (case List.find same (db_documents db) of
                 Some d \<Rightarrow> Inr (db\<lparr>db_ids := Suc (db_ids db)\<rparr>, d_id d)
               | None \<Rightarrow> Inl conflict)
         else Inr (db\<lparr>db_documents := db_documents db @
                 [\<lparr>d_id = new, d_module = modul, d_documentNo = documentNo, d_locationId = locationId,
                   d_status = status, d_version = 1, d_stockPostingId = None\<rparr>],
                 db_ids := Suc (db_ids db)\<rparr>, new))"

text \<open>The compensation after a failed posting: the document goes if no posting touched it.\<close>

definition compensateDocument :: "string \<Rightarrow> string \<Rightarrow> 'z stock_db_scheme \<Rightarrow> 'z stock_db_scheme" where
  "compensateDocument did status db =
     db\<lparr>db_documents := filter (\<lambda>d. \<not> (d_id d = did \<and> d_status d = status \<and> d_stockPostingId d = None))
                          (db_documents db)\<rparr>"

section \<open>Lots made by documents\<close>

text \<open>Insert or fetch of a lot under its unique (item, code).\<close>

definition ensureLotWith ::
  "'e \<Rightarrow> env \<Rightarrow> lot_status \<Rightarrow> string \<Rightarrow> string \<Rightarrow> int \<Rightarrow> string option \<Rightarrow> 'z stock_db_scheme \<Rightarrow> 'e + 'z stock_db_scheme \<times> string" where
  "ensureLotWith conflict e status itemId lotCode unitCost expiresAt db =
     (let new = env_uuid e (db_ids db);
          same = (\<lambda>l. l_itemId l = itemId \<and> l_lotCode l = lotCode)
      in if \<exists>l \<in> set (db_lots db). same l \<or> l_id l = new
         then (case List.find same (db_lots db) of
                 Some l \<Rightarrow> Inr (db\<lparr>db_ids := Suc (db_ids db)\<rparr>, l_id l)
               | None \<Rightarrow> Inl conflict)
         else Inr (db\<lparr>db_lots := db_lots db @
                 [\<lparr>l_id = new, l_itemId = itemId, l_lotCode = lotCode, l_status = status,
                   l_expiresAt = expiresAt, l_unitCost = unitCost\<rparr>],
                 db_ids := Suc (db_ids db)\<rparr>, new))"

text \<open>The table of lots and the lots made of them.\<close>

record genealogy_row =
  gn_parentLotId :: string
  gn_childLotId :: string
  gn_quantity :: int
  gn_documentNo :: string

text \<open>One lot under its code, found or made.\<close>

lemma ensureLotWith_Inr:
  assumes "ensureLotWith err e st itemId code cost exp db = Inr (db', lid)"
  obtains lots n where "db' = db\<lparr>db_lots := lots, db_ids := n\<rparr>" "set (db_lots db) \<subseteq> set lots"
    "\<exists>t \<in> set lots. l_id t = lid \<and> l_itemId t = itemId \<and> l_lotCode t = code"
    "\<And>t. t \<in> set lots \<Longrightarrow> t \<notin> set (db_lots db) \<Longrightarrow> l_status t = st \<and> l_expiresAt t = exp"
proof -
  let ?same = "\<lambda>l. l_itemId l = itemId \<and> l_lotCode l = code"
  let ?new = "\<lparr>l_id = env_uuid e (db_ids db), l_itemId = itemId, l_lotCode = code, l_status = st, l_expiresAt = exp,
      l_unitCost = cost\<rparr>"
  show thesis
  proof (cases "\<exists>l \<in> set (db_lots db). ?same l \<or> l_id l = env_uuid e (db_ids db)")
    case True
    with assms obtain l where l: "List.find ?same (db_lots db) = Some l" "lid = l_id l"
      "db' = db\<lparr>db_ids := Suc (db_ids db)\<rparr>"
      by (auto simp: ensureLotWith_def Let_def split: option.splits)
    have "db' = db\<lparr>db_lots := db_lots db, db_ids := Suc (db_ids db)\<rparr>" using l(3) by simp
    then show thesis using find_Some_mem [OF l(1)] l(2) by (intro that [where lots = "db_lots db"]) auto
  next
    case False
    then have "ensureLotWith err e st itemId code cost exp db =
        Inr (db\<lparr>db_lots := db_lots db @ [?new], db_ids := Suc (db_ids db)\<rparr>, env_uuid e (db_ids db))"
      unfolding ensureLotWith_def Let_def by (rule if_not_P)
    then have "(db\<lparr>db_lots := db_lots db @ [?new], db_ids := Suc (db_ids db)\<rparr>, env_uuid e (db_ids db)) = (db', lid)"
      using assms by (metis sum.inject(2))
    then have "db' = db\<lparr>db_lots := db_lots db @ [?new], db_ids := Suc (db_ids db)\<rparr>" "lid = l_id ?new"
      by auto
    then show thesis by (intro that [where lots = "db_lots db @ [?new]"]) auto
  qed
qed

text \<open>
  SQL \<open>ILIKE\<close> (both sides lower-cased first): \<open>%\<close> any text, \<open>_\<close> any character, a backslash takes the
  next one literally.
\<close>

fun sql_like :: "string \<Rightarrow> string \<Rightarrow> bool" where
  "sql_like [] s = (s = [])"
| "sql_like (CHR ''%'' # p) [] = sql_like p []"
| "sql_like (CHR ''%'' # p) (c # s) = (sql_like p (c # s) \<or> sql_like (CHR ''%'' # p) s)"
| "sql_like (CHR 0x5C # q # p) s = (case s of [] \<Rightarrow> False | c # s' \<Rightarrow> c = q \<and> sql_like p s')"
| "sql_like (q # p) [] = False"
| "sql_like (q # p) (c # s) = ((q = CHR ''_'' \<or> q = c) \<and> sql_like p s)"

lemma ensureDocumentWith_tables:
  assumes "ensureDocumentWith err e m n l s db = Inr (db', did)"
  obtains docs k where "db' = db\<lparr>db_documents := docs, db_ids := k\<rparr>" "set (db_documents db) \<subseteq> set docs"
proof -
  from assms have "(\<exists>k. db' = db\<lparr>db_ids := k\<rparr>) \<or>
      (\<exists>d k. db' = db\<lparr>db_documents := db_documents db @ [d], db_ids := k\<rparr>)"
    by (auto simp: ensureDocumentWith_def Let_def split: if_splits option.splits)
  moreover have "db\<lparr>db_ids := k\<rparr> = db\<lparr>db_documents := db_documents db, db_ids := k\<rparr>" for k by simp
  ultimately show thesis using that by (metis set_append sup_ge1 order_refl)
qed

section \<open>The posting service as its clients see it\<close>

type_synonym 'z poster = "posting_input \<Rightarrow> 'z \<Rightarrow> 'z \<times> (stock_error + posting_result)"

text \<open>
  A rejected posting changes nothing; an accepted one keeps the tables it does not own and the balance
  constraints, changes the stock by the net of its movements or, replayed, not at all, and touches no
  document but its own.
\<close>

locale stock_poster =
  fixes poster :: "'z stock_db_scheme poster"
  assumes rejected: "poster inp db = (db', Inl err) \<Longrightarrow> db' = db"
    and frame: "stock_inv db \<Longrightarrow> poster inp db = (db', Inr r) \<Longrightarrow> stock_frame db db' \<and> stock_inv db'"
    and effect: "stock_inv db \<Longrightarrow> poster inp db = (db', Inr r) \<Longrightarrow>
      on_hand db' wid lid = on_hand db wid lid + (if pr_replayed r then 0 else net_of wid lid (pi_movements inp))"
    and documents: "poster inp db = (db', Inr r) \<Longrightarrow> d \<in> set (db_documents db) \<Longrightarrow>
      d_module d \<noteq> pi_sourceModule inp \<or> d_documentNo d \<noteq> pi_sourceDocumentNo inp \<Longrightarrow>
      distinct (map d_id (db_documents db)) \<Longrightarrow> d \<in> set (db_documents db')"
begin

lemma any_result:
  assumes "stock_inv db" and "poster inp db = (db', res)"
  shows "stock_frame db db' \<and> stock_inv db'"
proof (cases res)
  case (Inl err)
  then have "db' = db" using assms(2) by (intro rejected) simp
  with assms(1) show ?thesis by (simp add: stock_frame_def)
next
  case (Inr r)
  with frame [OF assms(1)] assms(2) show ?thesis by simp
qed

end

lemma stock_frame_refl [simp]: "stock_frame db db"
  by (simp add: stock_frame_def)

lemma post_frame:
  assumes "stock_inv db" and "post e deps aborts inp db = (db', Inr r)"
  shows "stock_frame db db' \<and> stock_inv db'"
    and "on_hand db' wid lid = on_hand db wid lid + (if pr_replayed r then 0 else net_of wid lid (pi_movements inp))"
proof -
  from assms(2) obtain policy hash n a d where prep: "preparePosting e deps inp = Inr (policy, hash, n)"
    and out: "(pr_replayed r \<and> db' = db \<and> replayPosting n hash db = Inr r) \<or>
      (\<not> pr_replayed r \<and> applied_posting e deps policy n hash a d db db' r)" by (rule post_ok)
  show "stock_frame db db' \<and> stock_inv db'" using out applied_stock(1,5) assms(1) by auto
  show "on_hand db' wid lid = on_hand db wid lid + (if pr_replayed r then 0 else net_of wid lid (pi_movements inp))"
    using out applied_stock(2) [OF _ assms(1)] prepared_net [OF prep] by auto
qed

lemma post_rejected: "post e deps aborts inp db = (db', Inl err) \<Longrightarrow> db' = db"
  by (elim post_cases) (rule executePosting_error)

lemma prepared_document:
  assumes "preparePosting e deps inp = Inr (policy, hash, n)"
  shows "pi_sourceModule n = pi_sourceModule inp" "pi_sourceDocumentNo n = pi_sourceDocumentNo inp"
    "pi_idempotencyKey n = pi_idempotencyKey inp"
  using assms by (auto simp: preparePosting_Inr dest!: canonicalizePosting_same)

lemma post_documents:
  assumes "post e deps aborts inp db = (db', Inr r)" and d: "d \<in> set (db_documents db)"
    and other: "d_module d \<noteq> pi_sourceModule inp \<or> d_documentNo d \<noteq> pi_sourceDocumentNo inp"
    and ids: "distinct (map d_id (db_documents db))"
  shows "d \<in> set (db_documents db')"
proof -
  from assms(1) obtain policy hash n a d0 where prep: "preparePosting e deps inp = Inr (policy, hash, n)"
    and lock: "lockOperationalDocument db n = Inr d0"
    and out: "(pr_replayed r \<and> db' = db \<and> replayPosting n hash db = Inr r) \<or>
      (\<not> pr_replayed r \<and> applied_posting e deps policy n hash a d0 db db' r)" by (rule post_ok)
  from lock have d0: "d0 \<in> set (db_documents db)" "d_module d0 = pi_sourceModule inp"
    "d_documentNo d0 = pi_sourceDocumentNo inp"
    using prepared_document [OF prep] by (auto simp: lockOperationalDocument_def split: option.splits if_splits dest!: find_Some_mem)
  with other have "d \<noteq> d0" by auto
  with ids d d0(1) have "d_id d \<noteq> d_id d0" by (metis distinct_map inj_onD)
  with out d show ?thesis
    by (auto elim!: applied_rows simp: update_where_def document_hit_def image_iff)
qed

interpretation posting: stock_poster "post e deps aborts" for e deps aborts
  by unfold_locales (auto dest: post_rejected post_frame intro: post_documents)

lemma stock_inv_cong:
  "db_balances db' = db_balances db \<Longrightarrow> db_warehouses db' = db_warehouses db \<Longrightarrow> db_items db' = db_items db \<Longrightarrow>
   stock_inv db' = stock_inv db"
  by (simp add: stock_inv_def)

section \<open>One row changes\<close>

text \<open>A conditional update that hits one row, in a table with unique keys.\<close>

lemma update_one_row:
  assumes dist: "distinct (map k xs)" and x: "x \<in> set xs" "hit x" and only: "\<forall>y. hit y \<longrightarrow> k y = k x"
    and key: "k (f x) = k x"
  shows "set (update_where hit f xs) = insert (f x) (set xs - {x})"
    and "map k (update_where hit f xs) = map k xs"
    and "\<And>y. y \<in> set xs \<Longrightarrow> y \<noteq> x \<Longrightarrow> k y \<noteq> k x"
proof -
  show neq: "k y \<noteq> k x" if "y \<in> set xs" "y \<noteq> x" for y
    using that x(1) dist by (metis distinct_map inj_onD)
  have "hit y \<longleftrightarrow> y = x" if "y \<in> set xs" for y using that only x(2) neq by blast
  then have upd: "update_where hit f xs = map (\<lambda>y. if y = x then f x else y) xs"
    by (simp add: update_where_def)
  show "set (update_where hit f xs) = insert (f x) (set xs - {x})" unfolding upd using x(1) by auto
  show "map k (update_where hit f xs) = map k xs" unfolding upd by (auto simp: key)
qed

lemma row_by_key: "distinct (map k xs) \<Longrightarrow> x \<in> set xs \<Longrightarrow> y \<in> set xs \<Longrightarrow> k x = k y \<Longrightarrow> x = y"
  by (metis distinct_map inj_onD)

lemma run_tx_relation:
  assumes "run_tx body db = (db', res)" and "\<And>db1 a. body db = Inr (db1, a) \<Longrightarrow> R db db1" and "R db db"
  shows "R db db'"
  using assms by (cases res) (auto simp: run_tx_ok dest: run_tx_error)

section \<open>Rows stamped in a loop\<close>

lemma all2_update_where:
  "(\<And>x. x \<in> set xs \<Longrightarrow> p x \<Longrightarrow> R x (f x)) \<Longrightarrow> (\<And>x. x \<in> set xs \<Longrightarrow> \<not> p x \<Longrightarrow> R x x) \<Longrightarrow>
   list_all2 R xs (update_where p f xs)"
  by (simp add: update_where_def list_all2_conv_all_nth)

lemma all2_refl: "(\<And>x. R x x) \<Longrightarrow> list_all2 R xs xs"
  by (simp add: list_all2_conv_all_nth)

lemma all2_mem: "list_all2 R xs ys \<Longrightarrow> y \<in> set ys \<Longrightarrow> \<exists>x \<in> set xs. R x y"
  by (induction rule: list_all2_induct) auto

lemma all2_comp:
  assumes "list_all2 R xs ys" "list_all2 S ys zs" "\<And>x y z. R x y \<Longrightarrow> S y z \<Longrightarrow> T x z"
  shows "list_all2 T xs zs"
  using assms by (auto simp: list_all2_conv_all_nth)

text \<open>
  The loops that stamp the rows of one table with the ids of their ledger rows: what the whole loop
  does, given what one turn does. \<open>rows\<close> and \<open>put\<close> read and write the table.
\<close>

locale row_stamping =
  fixes stamp :: "'k \<Rightarrow> 'db \<Rightarrow> 'e + 'db"
    and rows :: "'db \<Rightarrow> 'r list" and put :: "'r list \<Rightarrow> 'db \<Rightarrow> 'db"
    and key :: "'r \<Rightarrow> string" and key_of :: "'k \<Rightarrow> string"
    and stamped_as :: "'k set \<Rightarrow> 'r \<Rightarrow> 'r \<Rightarrow> bool"
    and stamped :: "'r \<Rightarrow> bool"
  assumes turn: "stamp k db = Inr db' \<Longrightarrow>
      \<exists>ls. db' = put ls db \<and> list_all2 (stamped_as {k}) (rows db) ls \<and> (\<forall>l \<in> set ls. key l = key_of k \<longrightarrow> stamped l)"
    and table: "rows (put ls db) = ls" "put ls (put ls' db) = put ls db" "put (rows db) db = db"
    and same: "stamped_as P l l"
    and trans: "stamped_as P x y \<Longrightarrow> stamped_as Q y z \<Longrightarrow> stamped_as (P \<union> Q) x z"
    and stays: "stamped_as P x y \<Longrightarrow> key y = key x \<and> (stamped x \<longrightarrow> stamped y)"
begin

lemma loop:
  assumes "foldE stamp ks db = Inr db'"
  shows "\<exists>ls. db' = put ls db \<and> list_all2 (stamped_as (set ks)) (rows db) ls \<and>
     (\<forall>l \<in> set ls. key l \<in> key_of ` set ks \<longrightarrow> stamped l)"
  using assms
proof (induction ks arbitrary: db)
  case Nil
  then show ?case by (intro exI [of _ "rows db"]) (auto intro!: all2_refl same simp: table)
next
  case (Cons k ks)
  then obtain db1 where one: "stamp k db = Inr db1" and rest: "foldE stamp ks db1 = Inr db'"
    by (auto simp: res_iff)
  from turn [OF one] obtain ls1 where db1: "db1 = put ls1 db"
    and R1: "list_all2 (stamped_as {k}) (rows db) ls1"
    and s1: "\<forall>l \<in> set ls1. key l = key_of k \<longrightarrow> stamped l" by blast
  from Cons.IH [OF rest] obtain ls where db': "db' = put ls db1"
    and R2: "list_all2 (stamped_as (set ks)) ls1 ls"
    and s2: "\<forall>l \<in> set ls. key l \<in> key_of ` set ks \<longrightarrow> stamped l"
    unfolding db1 table by blast
  have "list_all2 (stamped_as ({k} \<union> set ks)) (rows db) ls"
    by (rule all2_comp [OF R1 R2]) (rule trans)
  moreover have "stamped l" if l: "l \<in> set ls" "key l = key_of k" for l
  proof -
    from R2 l(1) obtain l1 where "l1 \<in> set ls1" "stamped_as (set ks) l1 l"
      by (auto dest: all2_mem)
    with s1 l(2) stays show ?thesis by metis
  qed
  ultimately show ?case using s2 by (intro exI [of _ ls]) (auto simp: db' db1 table)
qed

end

end
