(* ===== verification/Transfers.thy ===== *)
theory Transfers
  imports StockDocs
begin

text \<open>
  HQ transfer orders: \<open>src/modules/transfers/policies.ts\<close>, \<open>types.ts\<close>, \<open>errors.ts\<close> and
  \<open>service.ts\<close> over the tables of \<open>src/db/transfer-orders-schema.ts\<close>. Each exported function of the
  service is one definition. A dispatch and a receipt are three transactions (prepare, post,
  finalize) with other requests in between; the parameters \<open>gap1\<close>, \<open>gap2\<close> and \<open>gap3\<close> are what those
  requests do to the database. The stock posting service is the argument \<open>poster\<close>, as in the code.
\<close>

section \<open>Data\<close>

datatype transfer_status = DRAFT | SUBMITTED | APPROVED | DISPATCHED | RECEIVED | CANCELLED

datatype transfer_code =
    T_FEATURE_DISABLED | T_UNAUTHORIZED | T_NOT_FOUND | T_VALIDATION | T_INVALID_TRANSITION
  | T_ROUTE_NOT_ALLOWED | T_UOM_MISMATCH | T_LOT_NOT_ELIGIBLE | T_INSUFFICIENT_STOCK
  | T_DUPLICATE_LINE | T_SEGREGATION_OF_DUTIES | T_CONCURRENT_MODIFICATION

text \<open>Besides its own errors the service passes on those of the posting service and the database.\<close>

datatype transfer_error = TransferErr transfer_code nat | Passed stock_error

record torder =
  o_id :: string
  o_documentNo :: string
  o_status :: transfer_status
  o_version :: nat
  o_sourceWarehouseId :: string
  o_destinationWarehouseId :: string
  o_sourceLocationId :: string
  o_destinationLocationId :: string
  o_dispatchDocumentId :: "string option"
  o_receiptDocumentId :: "string option"
  o_remarks :: "string option"
  o_requestedBy :: "string option"
  o_approvedBy :: "string option"
  o_dispatchedBy :: "string option"
  o_receivedBy :: "string option"
  o_cancelledBy :: "string option"
  o_cancelReason :: "string option"
  o_createdBy :: "string option"
  o_createdAt :: nat

record tline =
  tl_id :: string
  tl_orderId :: string
  tl_lineNo :: nat
  tl_itemId :: string
  tl_lotId :: "string option"
  tl_enteredUom :: string
  tl_enteredQuantity :: int
  tl_conversionFactor :: int
  tl_baseQuantity :: int
  tl_dispatchedQuantity :: "int option"
  tl_receivedQuantity :: "int option"
  tl_status :: transfer_status
  tl_dispatchPostingLineId :: "string option"
  tl_receiptPostingLineId :: "string option"
  tl_remarks :: "string option"

record transfer_db = stock_db +
  tr_orders :: "torder list"
  tr_lines :: "tline list"

record transfer_line_input =
  ti_itemId :: string
  ti_lotId :: "string option"
  ti_enteredQuantity :: string
  ti_enteredUom :: string
  ti_remarks :: "string option"

record create_transfer_input =
  ct_actorUserId :: string
  ct_sessionId :: "string option"
  ct_sourceWarehouseId :: string
  ct_destinationWarehouseId :: string
  ct_remarks :: "string option"
  ct_lines :: "transfer_line_input list"

text \<open>What submit, approve, dispatch, cancel, receive and update have in common.\<close>

record transfer_action =
  ta_actorUserId :: string
  ta_sessionId :: "string option"
  ta_orderId :: string
  ta_expectedVersion :: nat

text \<open>\<open>"remarks" in input\<close>: absent is \<open>None\<close>, an explicit null \<open>Some None\<close>.\<close>

record update_transfer_input = transfer_action +
  ut_remarks :: "string option option"
  ut_lines :: "transfer_line_input list option"

record receipt_line_input =
  ri_lineId :: string
  ri_receivedQuantity :: "string option"

record resolved_line =
  rl_lineNo :: nat
  rl_itemId :: string
  rl_lotId :: "string option"
  rl_enteredUom :: string
  rl_enteredQuantity :: string
  rl_conversionFactor :: string
  rl_baseQuantity :: string
  rl_remarks :: "string option"

section \<open>Policies\<close>

definition TRANSFER_FEATURE_KEY :: string where
  "TRANSFER_FEATURE_KEY = ''stock.transfers''"

definition TRANSFER_ORDER_DISPATCH_MODULE :: string where
  "TRANSFER_ORDER_DISPATCH_MODULE = ''TRANSFER_ORDER_DISPATCH''"

definition TRANSFER_ORDER_RECEIPT_MODULE :: string where
  "TRANSFER_ORDER_RECEIPT_MODULE = ''TRANSFER_ORDER_RECEIPT''"

definition TRANSFER_MAX_LINES :: nat where
  "TRANSFER_MAX_LINES = 200"

definition TRANSFER_ROLES :: "role list" where
  "TRANSFER_ROLES = [OWNER, WAREHOUSE_MAIN, OUTLET_MANAGER, WAREHOUSE_OUTLET]"

definition TRANSFER_APPROVE_ROLES :: "role list" where
  "TRANSFER_APPROVE_ROLES = [OWNER, WAREHOUSE_MAIN, OUTLET_MANAGER]"

text \<open>A missing purpose gives a key with an empty half, which is in no pair.\<close>

definition TRANSFER_ALLOWED_ROUTE_PAIRS :: "(purpose option \<times> purpose option) list" where
  "TRANSFER_ALLOWED_ROUTE_PAIRS =
     [(Some HQ_MAIN, Some OUTLET_STORAGE), (Some HQ_MAIN, Some PRODUCTION),
      (Some PRODUCTION, Some HQ_MAIN), (Some PRODUCTION, Some OUTLET_STORAGE)]"

definition TRANSFER_ORDER_DISPATCH_POLICY :: document_policy where
  "TRANSFER_ORDER_DISPATCH_POLICY =
     \<lparr>dp_featureFlag = Some TRANSFER_FEATURE_KEY, dp_routeClass = RC_HQ_TRANSFER,
      dp_allowedRoles = TRANSFER_ROLES, dp_fromStatuses = [''APPROVED''], dp_nextStatus = ''DISPATCHED''\<rparr>"

definition TRANSFER_ORDER_RECEIPT_POLICY :: document_policy where
  "TRANSFER_ORDER_RECEIPT_POLICY =
     \<lparr>dp_featureFlag = Some TRANSFER_FEATURE_KEY, dp_routeClass = RC_HQ_TRANSFER,
      dp_allowedRoles = TRANSFER_ROLES, dp_fromStatuses = [''DISPATCHED''], dp_nextStatus = ''RECEIVED''\<rparr>"

section \<open>Shared helpers\<close>

definition t_unauthorized :: "transfer_error" where
  "t_unauthorized = TransferErr T_UNAUTHORIZED 403"

definition authorizeTransfer ::
  "'z stock_db_scheme \<Rightarrow> string \<Rightarrow> string option \<Rightarrow> role list \<Rightarrow> transfer_error + actor" where
  "authorizeTransfer = authorizeWith t_unauthorized (TransferErr T_UNAUTHORIZED 401)"

definition assertLocationInScope :: "string list option \<Rightarrow> string \<Rightarrow> transfer_error + unit" where
  "assertLocationInScope allowed l = ensure (in_scope allowed l) t_unauthorized"

definition assertTransferFeature :: "'z stock_db_scheme \<Rightarrow> transfer_error + unit" where
  "assertTransferFeature = featureWith (TransferErr T_FEATURE_DISABLED 503) TRANSFER_FEATURE_KEY"

definition resolveHeaderRoute ::
  "'z stock_db_scheme \<Rightarrow> string \<Rightarrow> string \<Rightarrow> transfer_error + warehouse \<times> warehouse" where
  "resolveHeaderRoute db src dst =
     (if src = dst then Inl (TransferErr T_VALIDATION 400)
      else
        let find = (\<lambda>i. List.find (\<lambda>w. w_id w = i) (db_warehouses db)) in
        case find src of
          None \<Rightarrow> Inl (TransferErr T_VALIDATION 400)
        | Some s \<Rightarrow>
            if \<not> w_isActive s then Inl (TransferErr T_VALIDATION 400)
            else (case find dst of
                    None \<Rightarrow> Inl (TransferErr T_VALIDATION 400)
                  | Some d \<Rightarrow>
                      if \<not> w_isActive d then Inl (TransferErr T_VALIDATION 400)
                      else if (w_purpose s, w_purpose d) \<notin> set TRANSFER_ALLOWED_ROUTE_PAIRS
                      then Inl (TransferErr T_ROUTE_NOT_ALLOWED 409)
                      else Inr (s, d)))"

section \<open>Lines\<close>

text \<open>One turn of the first loop: unit given, pinned lot not repeated, quantity positive.\<close>

definition checkTransferLine :: "transfer_line_input \<Rightarrow> string list \<Rightarrow> transfer_error + string list" where
  "checkTransferLine l seen =
     bindE (ensure (trim (ti_enteredUom l) \<noteq> []) (TransferErr T_VALIDATION 400)) (\<lambda>_.
     bindE (case truthy (ti_lotId l) of
              None \<Rightarrow> Inr seen
            | Some lot \<Rightarrow> if lot \<in> set seen then Inl (TransferErr T_DUPLICATE_LINE 400)
                          else Inr (lot # seen)) (\<lambda>seen'.
     bindE (mapErr (\<lambda>_. TransferErr T_VALIDATION 400) (parseFixed (ti_enteredQuantity l) 6)) (\<lambda>q.
     bindE (ensure (0 < q) (TransferErr T_VALIDATION 400)) (\<lambda>_.
       Inr seen'))))"

definition resolveItem :: "'z stock_db_scheme \<Rightarrow> string \<Rightarrow> transfer_error + string \<times> item" where
  "resolveItem db iid =
     (case List.find (\<lambda>i. i_id i = iid) (db_items db) of
        None \<Rightarrow> Inl (TransferErr T_VALIDATION 409)
      | Some i \<Rightarrow> if i_isActive i then Inr (iid, i) else Inl (TransferErr T_VALIDATION 409))"

definition lineConversionKey :: "transfer_line_input \<Rightarrow> string" where
  "lineConversionKey l = ti_itemId l @ '':'' @ to_lower (trim (ti_enteredUom l))"

definition resolveConversion ::
  "'z stock_db_scheme \<Rightarrow> (string \<times> item) list \<Rightarrow> string \<Rightarrow> transfer_error + string \<times> string" where
  "resolveConversion = conversionWith (TransferErr T_UOM_MISMATCH 409) Passed"

definition checkPinnedLot :: "'z stock_db_scheme \<Rightarrow> transfer_line_input \<Rightarrow> transfer_error + unit" where
  "checkPinnedLot db l =
     (case truthy (ti_lotId l) of
        None \<Rightarrow> Inr ()
      | Some lid \<Rightarrow>
          (case List.find (\<lambda>t. l_id t = lid) (db_lots db) of
             None \<Rightarrow> Inl (TransferErr T_VALIDATION 404)
           | Some t \<Rightarrow>
               if l_itemId t \<noteq> ti_itemId l then Inl (TransferErr T_VALIDATION 409)
               else if l_status t \<in> {DISPOSED, EXHAUSTED} then Inl (TransferErr T_LOT_NOT_ELIGIBLE 409)
               else Inr ()))"

definition resolveLine ::
  "'z stock_db_scheme \<Rightarrow> (string \<times> string) list \<Rightarrow> nat \<times> transfer_line_input \<Rightarrow>
   transfer_error + resolved_line" where
  "resolveLine db factors nl =
     (let (n, l) = nl in
      bindE (checkPinnedLot db l) (\<lambda>_.
      case map_of factors (lineConversionKey l) of
        None \<Rightarrow> Inl (Passed JsTypeError)
      | Some f \<Rightarrow>
          bindE (mapErr (\<lambda>_. TransferErr T_UOM_MISMATCH 409)
                   (multiplyFixedExact (ti_enteredQuantity l) 6 f 8 6)) (\<lambda>base.
          bindE (mapErr (\<lambda>d. Passed (DecimalErr d)) (normalizeFixed (ti_enteredQuantity l) 6)) (\<lambda>entered.
            Inr \<lparr>rl_lineNo = n, rl_itemId = ti_itemId l, rl_lotId = ti_lotId l,
                 rl_enteredUom = ti_enteredUom l, rl_enteredQuantity = entered,
                 rl_conversionFactor = f, rl_baseQuantity = base, rl_remarks = ti_remarks l\<rparr>))))"

definition resolveAndValidateLines ::
  "'z stock_db_scheme \<Rightarrow> transfer_line_input list \<Rightarrow> transfer_error + resolved_line list" where
  "resolveAndValidateLines db ls =
     bindE (ensure (1 \<le> length ls \<and> length ls \<le> TRANSFER_MAX_LINES) (TransferErr T_VALIDATION 400)) (\<lambda>_.
     bindE (foldE checkTransferLine ls []) (\<lambda>_.
     bindE (mapE (resolveItem db) (js_distinct (map ti_itemId ls))) (\<lambda>items.
     bindE (mapE (resolveConversion db items) (js_distinct (map lineConversionKey ls))) (\<lambda>factors.
       mapE (resolveLine db factors) (zip [1..<Suc (length ls)] ls)))))"

text \<open>The insert of one line row: column types, check constraints, unique line number.\<close>

definition insertTransferLine ::
  "env \<Rightarrow> string \<Rightarrow> resolved_line \<Rightarrow> 'z transfer_db_scheme \<Rightarrow> transfer_error + 'z transfer_db_scheme" where
  "insertTransferLine e oid r db =
     bindE (mapErr Passed (db_numeric 6 (rl_enteredQuantity r))) (\<lambda>entered.
     bindE (mapErr Passed (db_numeric 8 (rl_conversionFactor r))) (\<lambda>factor.
     bindE (mapErr Passed (db_numeric 6 (rl_baseQuantity r))) (\<lambda>base.
     bindE (ensure (0 < rl_lineNo r \<and> 0 < entered \<and> 0 < factor \<and> 0 < base) (Passed DbCheckViolation)) (\<lambda>_.
     bindE (ensure (\<forall>x \<in> set (tr_lines db). tl_id x \<noteq> env_uuid e (db_ids db) \<and>
                      (tl_orderId x = oid \<longrightarrow> tl_lineNo x \<noteq> rl_lineNo r)) (Passed DbUniqueViolation)) (\<lambda>_.
       Inr (db\<lparr>tr_lines := tr_lines db @
              [\<lparr>tl_id = env_uuid e (db_ids db), tl_orderId = oid, tl_lineNo = rl_lineNo r,
                tl_itemId = rl_itemId r, tl_lotId = rl_lotId r, tl_enteredUom = rl_enteredUom r,
                tl_enteredQuantity = entered, tl_conversionFactor = factor, tl_baseQuantity = base,
                tl_dispatchedQuantity = None, tl_receivedQuantity = None, tl_status = DRAFT,
                tl_dispatchPostingLineId = None, tl_receiptPostingLineId = None,
                tl_remarks = rl_remarks r\<rparr>],
              db_ids := Suc (db_ids db)\<rparr>))))))"

definition insertTransferLines ::
  "env \<Rightarrow> string \<Rightarrow> resolved_line list \<Rightarrow> 'z transfer_db_scheme \<Rightarrow> transfer_error + 'z transfer_db_scheme" where
  "insertTransferLines e oid rs db = foldE (insertTransferLine e oid) rs db"

text \<open>The delete of an order's lines; the trigger refuses a line that has posted.\<close>

definition deleteTransferLines ::
  "string \<Rightarrow> 'z transfer_db_scheme \<Rightarrow> transfer_error + 'z transfer_db_scheme" where
  "deleteTransferLines oid db =
     (if \<exists>x \<in> set (tr_lines db). tl_orderId x = oid \<and>
           (tl_dispatchPostingLineId x \<noteq> None \<or> tl_receiptPostingLineId x \<noteq> None)
      then Inl (Passed (DbAborted ''P0001''))
      else Inr (db\<lparr>tr_lines := filter (\<lambda>x. tl_orderId x \<noteq> oid) (tr_lines db)\<rparr>))"

section \<open>Rows\<close>

definition ensureOperationalDocument ::
  "env \<Rightarrow> string \<Rightarrow> string \<Rightarrow> string \<Rightarrow> string \<Rightarrow> 'z stock_db_scheme \<Rightarrow>
   transfer_error + 'z stock_db_scheme \<times> string" where
  "ensureOperationalDocument = ensureDocumentWith (TransferErr T_CONCURRENT_MODIFICATION 409)"

definition lockOrder :: "'z transfer_db_scheme \<Rightarrow> string \<Rightarrow> transfer_error + torder" where
  "lockOrder db oid =
     (case List.find (\<lambda>o'. o_id o' = oid) (tr_orders db) of
        Some o' \<Rightarrow> Inr o' | None \<Rightarrow> Inl (TransferErr T_NOT_FOUND 404))"

definition fetchLines :: "'z transfer_db_scheme \<Rightarrow> string \<Rightarrow> tline list" where
  "fetchLines db oid =
     sort_by (\<lambda>x y. tl_lineNo x \<le> tl_lineNo y) (filter (\<lambda>x. tl_orderId x = oid) (tr_lines db))"

text \<open>The conditional \<open>UPDATE transfer_order \<dots> RETURNING\<close>, guarded by id, status and version.\<close>

definition updateOrder ::
  "string \<Rightarrow> transfer_status \<Rightarrow> nat \<Rightarrow> (torder \<Rightarrow> torder) \<Rightarrow> 'z transfer_db_scheme \<Rightarrow>
   ('z transfer_db_scheme \<times> torder) option" where
  "updateOrder oid status version f db =
     (let hit = (\<lambda>o'. o_id o' = oid \<and> o_status o' = status \<and> o_version o' = version)
      in map_option (\<lambda>o'. (db\<lparr>tr_orders := update_where hit f (tr_orders db)\<rparr>, f o'))
           (List.find hit (tr_orders db)))"

definition changedConcurrently :: "transfer_error" where
  "changedConcurrently = TransferErr T_CONCURRENT_MODIFICATION 409"

definition orderAudit :: "actor \<Rightarrow> string \<Rightarrow> string \<Rightarrow> string \<Rightarrow> audit_row" where
  "orderAudit a locationId action oid =
     \<lparr>a_actorUserId = Some (ac_id a), a_locationId = Some locationId, a_action = action,
      a_entityType = ''transfer_order'', a_entityId = oid\<rparr>"

text \<open>
  First-expiry-first-out choice of one lot that covers the need. \<open>expiresAt ASC NULLS LAST\<close>, then
  the lot code; the collation of the database is a parameter, as that of \<open>localeCompare\<close>.
\<close>

definition expiry_le :: "string option \<Rightarrow> string option \<Rightarrow> bool" where
  "expiry_le a b = (case (a, b) of (_, None) \<Rightarrow> True | (None, Some _) \<Rightarrow> False | (Some x, Some y) \<Rightarrow> x \<le> y)"

definition fefo_le :: "env \<Rightarrow> lot \<times> balance \<Rightarrow> lot \<times> balance \<Rightarrow> bool" where
  "fefo_le e x y =
     (if l_expiresAt (fst x) = l_expiresAt (fst y)
      then env_collate e (l_lotCode (fst x)) (l_lotCode (fst y))
      else expiry_le (l_expiresAt (fst x)) (l_expiresAt (fst y)))"

definition fefoCandidates ::
  "env \<Rightarrow> 'z stock_db_scheme \<Rightarrow> string \<Rightarrow> string \<Rightarrow> (lot \<times> balance) list" where
  "fefoCandidates e db itemId warehouseId =
     [(l, b). b \<leftarrow> db_balances db, b_warehouseId b = warehouseId,
              l \<leftarrow> db_lots db, l_id l = b_lotId b \<and> l_itemId l = itemId \<and> l_status l = AVAILABLE \<and>
                (case l_expiresAt l of None \<Rightarrow> True | Some d \<Rightarrow> env_today e \<le> d)]"

definition selectFefoLot ::
  "env \<Rightarrow> 'z stock_db_scheme \<Rightarrow> string \<Rightarrow> string \<Rightarrow> int \<Rightarrow> transfer_error + string" where
  "selectFefoLot e db itemId warehouseId needed =
     (case List.find (\<lambda>(l, b). needed \<le> b_onHand b - b_reserved b)
             (sort_by (fefo_le e) (fefoCandidates e db itemId warehouseId)) of
        Some (l, b) \<Rightarrow> Inr (l_id l)
      | None \<Rightarrow> Inl (TransferErr T_INSUFFICIENT_STOCK 409))"

end
