(* ===== verification/TransferService.thy ===== *)
theory TransferService
  imports Transfers
begin

text \<open>
  The operations of \<open>src/modules/transfers/service.ts\<close>: draft, update, submit, approve, cancel,
  dispatch, receive, get and list, in the order of the file. Each transaction locks the order row
  (\<open>FOR UPDATE\<close>), so it is a function on the database; \<open>run_tx\<close> rolls a failed one back.
\<close>

type_synonym order_view = "torder \<times> tline list"

type_synonym 'z tr_result = "'z transfer_db_scheme \<times> (transfer_error + order_view)"

section \<open>Draft\<close>

definition draftOrder ::
  "env \<Rightarrow> nat \<Rightarrow> create_transfer_input \<Rightarrow> actor \<Rightarrow> warehouse \<Rightarrow> warehouse \<Rightarrow> 'z stock_db_scheme \<Rightarrow> torder" where
  "draftOrder e now inp a s d db =
     \<lparr>o_id = env_uuid e (Suc (db_ids db)), o_documentNo = ''TO-'' @ env_uuid e (db_ids db),
      o_status = DRAFT, o_version = 1, o_sourceWarehouseId = w_id s, o_destinationWarehouseId = w_id d,
      o_sourceLocationId = w_locationId s, o_destinationLocationId = w_locationId d,
      o_dispatchDocumentId = None, o_receiptDocumentId = None, o_remarks = ct_remarks inp,
      o_requestedBy = None, o_approvedBy = None, o_dispatchedBy = None, o_receivedBy = None,
      o_cancelledBy = None, o_cancelReason = None, o_createdBy = Some (ac_id a), o_createdAt = now\<rparr>"

definition insertOrder :: "torder \<Rightarrow> 'z transfer_db_scheme \<Rightarrow> transfer_error + 'z transfer_db_scheme" where
  "insertOrder o' db =
     (if o_sourceWarehouseId o' = o_destinationWarehouseId o' then Inl (Passed DbCheckViolation)
      else if \<exists>x \<in> set (tr_orders db). o_id x = o_id o' \<or> o_documentNo x = o_documentNo o'
      then Inl (Passed DbUniqueViolation)
      else Inr (db\<lparr>tr_orders := tr_orders db @ [o'], db_ids := Suc (Suc (db_ids db))\<rparr>))"

definition createTransferOrderDraft ::
  "env \<Rightarrow> nat \<Rightarrow> create_transfer_input \<Rightarrow> 'z transfer_db_scheme \<Rightarrow> 'z tr_result" where
  "createTransferOrderDraft e now inp = run_tx (\<lambda>db.
     bindE (authorizeTransfer db (ct_actorUserId inp) (ct_sessionId inp) TRANSFER_ROLES) (\<lambda>a.
     bindE (resolveHeaderRoute db (ct_sourceWarehouseId inp) (ct_destinationWarehouseId inp)) (\<lambda>(s, d).
     bindE (assertLocationInScope (ac_allowed a) (w_locationId s)) (\<lambda>_.
     bindE (resolveAndValidateLines db (ct_lines inp)) (\<lambda>resolved.
     let o' = draftOrder e now inp a s d db in
     bindE (insertOrder o' db) (\<lambda>db1.
     bindE (insertTransferLines e (o_id o') resolved db1) (\<lambda>db2.
       Inr (writeAudit (orderAudit a (w_locationId s) ''transfer_order.created'' (o_id o')) db2,
            (o', fetchLines db2 (o_id o'))))))))))"

section \<open>Update, submit, approve, cancel\<close>

text \<open>The guards shared by the transitions: actor, row lock, source scope.\<close>

definition openOrder ::
  "transfer_action \<Rightarrow> role list \<Rightarrow> 'z transfer_db_scheme \<Rightarrow> transfer_error + actor \<times> torder" where
  "openOrder inp roles db =
     bindE (authorizeTransfer db (ta_actorUserId inp) (ta_sessionId inp) roles) (\<lambda>a.
     bindE (lockOrder db (ta_orderId inp)) (\<lambda>o'.
     bindE (assertLocationInScope (ac_allowed a) (o_sourceLocationId o')) (\<lambda>_. Inr (a, o'))))"

definition expectStatus ::
  "transfer_status list \<Rightarrow> transfer_action \<Rightarrow> torder \<Rightarrow> transfer_error + unit" where
  "expectStatus ss inp o' =
     bindE (ensure (o_status o' \<in> set ss) (TransferErr T_INVALID_TRANSITION 409)) (\<lambda>_.
       ensure (o_version o' = ta_expectedVersion inp) changedConcurrently)"

definition replaceLines ::
  "env \<Rightarrow> string \<Rightarrow> transfer_line_input list option \<Rightarrow> 'z transfer_db_scheme \<Rightarrow>
   transfer_error + 'z transfer_db_scheme" where
  "replaceLines e oid ls db =
     (case ls of
        None \<Rightarrow> Inr db
      | Some ls \<Rightarrow>
          bindE (resolveAndValidateLines db ls) (\<lambda>resolved.
          bindE (deleteTransferLines oid db) (\<lambda>db1.
            insertTransferLines e oid resolved db1)))"

definition updateTransferOrderDraft ::
  "env \<Rightarrow> update_transfer_input \<Rightarrow> 'z transfer_db_scheme \<Rightarrow> 'z tr_result" where
  "updateTransferOrderDraft e inp = run_tx (\<lambda>db.
     bindE (openOrder (transfer_action.truncate inp) TRANSFER_ROLES db) (\<lambda>(a, o').
     bindE (expectStatus [DRAFT] (transfer_action.truncate inp) o') (\<lambda>_.
     bindE (replaceLines e (o_id o') (ut_lines inp) db) (\<lambda>db1.
     case updateOrder (o_id o') DRAFT (ta_expectedVersion inp)
            (\<lambda>x. (case ut_remarks inp of None \<Rightarrow> x | Some r \<Rightarrow> x\<lparr>o_remarks := r\<rparr>)
                   \<lparr>o_version := o_version o' + 1\<rparr>) db1 of
       None \<Rightarrow> Inl changedConcurrently
     | Some (db2, u) \<Rightarrow> Inr (db2, (u, fetchLines db2 (o_id o')))))))"

definition submitTransferOrder ::
  "transfer_action \<Rightarrow> 'z transfer_db_scheme \<Rightarrow> 'z tr_result" where
  "submitTransferOrder inp = run_tx (\<lambda>db.
     bindE (openOrder inp TRANSFER_ROLES db) (\<lambda>(a, o').
     bindE (expectStatus [DRAFT] inp o') (\<lambda>_.
     let lines = fetchLines db (o_id o') in
     bindE (ensure (lines \<noteq> []) (TransferErr T_VALIDATION 400)) (\<lambda>_.
     bindE (resolveHeaderRoute db (o_sourceWarehouseId o') (o_destinationWarehouseId o')) (\<lambda>_.
     case updateOrder (o_id o') DRAFT (ta_expectedVersion inp)
            (\<lambda>x. x\<lparr>o_status := SUBMITTED, o_requestedBy := Some (ac_id a),
                   o_version := o_version o' + 1\<rparr>) db of
       None \<Rightarrow> Inl changedConcurrently
     | Some (db1, u) \<Rightarrow>
         Inr (writeAudit (orderAudit a (o_sourceLocationId o') ''transfer_order.submitted'' (o_id o')) db1,
              (u, lines)))))))"

definition approveTransferOrder ::
  "transfer_action \<Rightarrow> 'z transfer_db_scheme \<Rightarrow> 'z tr_result" where
  "approveTransferOrder inp = run_tx (\<lambda>db.
     bindE (openOrder inp TRANSFER_APPROVE_ROLES db) (\<lambda>(a, o').
     bindE (expectStatus [SUBMITTED] inp o') (\<lambda>_.
     bindE (ensure (o_requestedBy o' \<noteq> Some (ac_id a)) (TransferErr T_SEGREGATION_OF_DUTIES 409)) (\<lambda>_.
     case updateOrder (o_id o') SUBMITTED (ta_expectedVersion inp)
            (\<lambda>x. x\<lparr>o_status := APPROVED, o_approvedBy := Some (ac_id a),
                   o_version := o_version o' + 1\<rparr>) db of
       None \<Rightarrow> Inl changedConcurrently
     | Some (db1, u) \<Rightarrow>
         Inr (writeAudit (orderAudit a (o_sourceLocationId o') ''transfer_order.approved'' (o_id o')) db1,
              (u, fetchLines db1 (o_id o')))))))"

definition cancelTransferOrder ::
  "transfer_action \<Rightarrow> string \<Rightarrow> 'z transfer_db_scheme \<Rightarrow> 'z tr_result" where
  "cancelTransferOrder inp reason = run_tx (\<lambda>db.
     bindE (openOrder inp TRANSFER_ROLES db) (\<lambda>(a, o').
     bindE (expectStatus [DRAFT, SUBMITTED, APPROVED] inp o') (\<lambda>_.
     bindE (ensure (trim reason \<noteq> []) (TransferErr T_VALIDATION 400)) (\<lambda>_.
     case updateOrder (o_id o') (o_status o') (ta_expectedVersion inp)
            (\<lambda>x. x\<lparr>o_status := CANCELLED, o_cancelledBy := Some (ac_id a),
                   o_cancelReason := Some reason, o_version := o_version o' + 1\<rparr>) db of
       None \<Rightarrow> Inl changedConcurrently
     | Some (db1, u) \<Rightarrow>
         Inr (writeAudit (orderAudit a (o_sourceLocationId o') ''transfer_order.cancelled'' (o_id o')) db1,
              (u, fetchLines db1 (o_id o')))))))"

section \<open>Dispatch\<close>

text \<open>What the prepare transaction hands over; \<open>'l\<close> is what it resolved for each line.\<close>

record 'l prepared =
  pp_actor :: actor
  pp_order :: torder
  pp_lines :: "(tline \<times> 'l) list"
  pp_docId :: string

definition line_metadata :: "tline \<Rightarrow> json" where
  "line_metadata l = JObj [(''transferOrderLineId'', JStr (tl_id l)), (''lineNo'', JNum (nat_str (tl_lineNo l)))]"

text \<open>The line id a ledger row carries in its metadata; an empty one is falsy.\<close>

definition metadata_line :: "json option \<Rightarrow> string option" where
  "metadata_line m =
     (case m of
        Some (JObj kvs) \<Rightarrow> (case map_of kvs ''transferOrderLineId'' of Some (JStr s) \<Rightarrow> truthy (Some s) | _ \<Rightarrow> None)
      | _ \<Rightarrow> None)"

text \<open>\<open>Map.set\<close> in row order, so the last row of a line id counts.\<close>

definition postingLineIds :: "string \<Rightarrow> 'z stock_db_scheme \<Rightarrow> (string \<times> string) list" where
  "postingLineIds postingId db =
     fold (\<lambda>r acc. case metadata_line (ll_metadata (lg_line r)) of
                     Some k \<Rightarrow> AList.update k (lg_id r) acc | None \<Rightarrow> acc)
       (filter (\<lambda>r. lg_postingId r = postingId) (db_ledger db)) []"

definition pickLot ::
  "env \<Rightarrow> torder \<Rightarrow> 'z stock_db_scheme \<Rightarrow> tline \<Rightarrow> transfer_error + tline \<times> string" where
  "pickLot e o' db l =
     (case truthy (tl_lotId l) of
        Some lot \<Rightarrow> Inr (l, lot)
      | None \<Rightarrow>
          bindE (selectFefoLot e db (tl_itemId l) (o_sourceWarehouseId o') (tl_baseQuantity l))
            (\<lambda>lot. Inr (l, lot)))"

text \<open>Once the order has the target status a retry with the old version is a replay.\<close>

definition expectPhase ::
  "transfer_status \<Rightarrow> transfer_status \<Rightarrow> transfer_action \<Rightarrow> torder \<Rightarrow> transfer_error + unit" where
  "expectPhase from to inp o' =
     bindE (ensure (o_status o' = from \<or> o_status o' = to) (TransferErr T_INVALID_TRANSITION 409)) (\<lambda>_.
       ensure (\<not> (o_status o' = from \<and> o_version o' \<noteq> ta_expectedVersion inp)) changedConcurrently)"

definition prepareDispatch ::
  "env \<Rightarrow> transfer_action \<Rightarrow> 'z transfer_db_scheme \<Rightarrow>
   transfer_error + 'z transfer_db_scheme \<times> string prepared" where
  "prepareDispatch e inp db =
     bindE (assertTransferFeature db) (\<lambda>_.
     bindE (openOrder inp TRANSFER_ROLES db) (\<lambda>(a, o').
     bindE (expectPhase APPROVED DISPATCHED inp o') (\<lambda>_.
     bindE (mapE (pickLot e o' db) (fetchLines db (o_id o'))) (\<lambda>resolved.
     bindE (ensureOperationalDocument e TRANSFER_ORDER_DISPATCH_MODULE (o_documentNo o')
              (o_sourceLocationId o') ''APPROVED'' db) (\<lambda>(db1, doc).
       Inr (db1, \<lparr>pp_actor = a, pp_order = o', pp_lines = resolved, pp_docId = doc\<rparr>))))))"

definition dispatchMovement :: "torder \<Rightarrow> tline \<times> string \<Rightarrow> movement" where
  "dispatchMovement o' ll =
     (let (l, lot) = ll in
      \<lparr>m_warehouseId = o_sourceWarehouseId o', m_itemId = tl_itemId l, m_lotId = lot,
       m_movementType = OUT, m_quantity = formatFixed (tl_baseQuantity l) 6,
       m_enteredQuantity = Some (formatFixed (tl_enteredQuantity l) 6),
       m_enteredUom = tl_enteredUom l,
       m_conversionFactor = Some (formatFixed (tl_conversionFactor l) 8), m_unitCost = None,
       m_reasonCode = None, m_sourcePolicy = None, m_metadata = Some (line_metadata l)\<rparr>)"

definition dispatchPosting :: "transfer_action \<Rightarrow> string prepared \<Rightarrow> posting_input" where
  "dispatchPosting inp p =
     \<lparr>pi_idempotencyKey = o_documentNo (pp_order p) @ '':DISPATCH'',
      pi_sourceModule = TRANSFER_ORDER_DISPATCH_MODULE,
      pi_sourceDocumentNo = o_documentNo (pp_order p),
      pi_locationId = o_sourceLocationId (pp_order p), pi_actorUserId = ac_id (pp_actor p),
      pi_sessionId = ta_sessionId inp,
      pi_correlationId = o_documentNo (pp_order p) @ '':DISPATCH'',
      pi_movements = map (dispatchMovement (pp_order p)) (pp_lines p)\<rparr>"

text \<open>
  One conditional update of a line row. The trigger refuses to touch a row whose receipt has posted;
  the new posting line id must be new in its column.
\<close>

definition dispatchLine ::
  "(string \<times> string) list \<Rightarrow> tline \<times> string \<Rightarrow> 'z transfer_db_scheme \<Rightarrow>
   transfer_error + 'z transfer_db_scheme" where
  "dispatchLine ids ll db =
     (let (l, lot) = ll;
          hit = (\<lambda>x. tl_id x = tl_id l \<and> tl_dispatchPostingLineId x = None)
      in case truthy (map_of ids (tl_id l)) of
           None \<Rightarrow> Inl changedConcurrently
         | Some pl \<Rightarrow>
             if \<forall>x \<in> set (tr_lines db). \<not> hit x then Inr db
             else if \<exists>x \<in> set (tr_lines db). hit x \<and> tl_receiptPostingLineId x \<noteq> None
             then Inl (Passed (DbAborted ''P0001''))
             else if \<exists>x \<in> set (tr_lines db). \<not> hit x \<and> tl_dispatchPostingLineId x = Some pl
             then Inl (Passed DbUniqueViolation)
             else Inr (db\<lparr>tr_lines := update_where hit
                    (\<lambda>x. x\<lparr>tl_lotId := Some lot, tl_dispatchedQuantity := Some (tl_baseQuantity l),
                           tl_dispatchPostingLineId := Some pl, tl_status := DISPATCHED\<rparr>)
                    (tr_lines db)\<rparr>))"

text \<open>
  The end of both finalizing transactions: the order row advances, unless another order holds the
  document (\<open>taken\<close>), or it had advanced before.
\<close>

definition advanceOrder ::
  "transfer_action \<Rightarrow> torder \<Rightarrow> transfer_status \<Rightarrow> transfer_status \<Rightarrow> (torder \<Rightarrow> bool) \<Rightarrow>
   (torder \<Rightarrow> torder) \<Rightarrow> audit_row \<Rightarrow> 'z transfer_db_scheme \<Rightarrow>
   transfer_error + 'z transfer_db_scheme \<times> order_view" where
  "advanceOrder inp o' from to taken f audit db =
     (case updateOrder (o_id o') from (ta_expectedVersion inp) f db of
        Some (db1, u) \<Rightarrow>
          if \<exists>x \<in> set (tr_orders db). o_id x \<noteq> o_id o' \<and> taken x then Inl (Passed DbUniqueViolation)
          else Inr (writeAudit audit db1, (u, fetchLines db1 (o_id o')))
      | None \<Rightarrow>
          (case List.find (\<lambda>x. o_id x = o_id o') (tr_orders db) of
             Some x \<Rightarrow> if o_status x = to then Inr (db, (x, fetchLines db (o_id o')))
                       else Inl changedConcurrently
           | None \<Rightarrow> Inl changedConcurrently))"

definition finalizeDispatch ::
  "transfer_action \<Rightarrow> string prepared \<Rightarrow> posting_result \<Rightarrow> 'z transfer_db_scheme \<Rightarrow>
   transfer_error + 'z transfer_db_scheme \<times> order_view" where
  "finalizeDispatch inp p r db =
     (let o' = pp_order p; a = pp_actor p in
      bindE (foldE (dispatchLine (postingLineIds (pr_postingId r) db)) (pp_lines p) db) (\<lambda>db1.
        advanceOrder inp o' APPROVED DISPATCHED
          (\<lambda>x. o_dispatchDocumentId x = Some (pp_docId p))
          (\<lambda>x. x\<lparr>o_status := DISPATCHED, o_dispatchDocumentId := Some (pp_docId p),
                 o_dispatchedBy := Some (ac_id a), o_version := o_version o' + 1\<rparr>)
          (orderAudit a (o_sourceLocationId o') ''transfer_order.dispatched'' (o_id o')) db1))"

definition dispatchTransferOrder ::
  "env \<Rightarrow> 'z transfer_db_scheme poster \<Rightarrow>
   ('z transfer_db_scheme \<Rightarrow> 'z transfer_db_scheme) \<Rightarrow> ('z transfer_db_scheme \<Rightarrow> 'z transfer_db_scheme) \<Rightarrow>
   transfer_action \<Rightarrow> 'z transfer_db_scheme \<Rightarrow> 'z tr_result" where
  "dispatchTransferOrder e poster gap1 gap2 inp db =
     (case run_tx (prepareDispatch e inp) db of
        (db1, Inl err) \<Rightarrow> (db1, Inl err)
      | (db1, Inr p) \<Rightarrow>
          (case poster (dispatchPosting inp p) (gap1 db1) of
             (db2, Inl err) \<Rightarrow> (compensateDocument (pp_docId p) ''APPROVED'' (gap2 db2), Inl (Passed err))
           | (db2, Inr r) \<Rightarrow> run_tx (finalizeDispatch inp p r) (gap2 db2)))"

section \<open>Receive\<close>

definition receiptOverrides ::
  "receipt_line_input list \<Rightarrow> tline list \<Rightarrow> transfer_error + (string \<times> receipt_line_input) list" where
  "receiptOverrides ris lines =
     bindE (foldE (\<lambda>ri acc. if map_of acc (ri_lineId ri) \<noteq> None
                             then Inl (TransferErr T_DUPLICATE_LINE 400)
                             else Inr (AList.update (ri_lineId ri) ri acc)) ris []) (\<lambda>acc.
     bindE (ensure (\<forall>k \<in> set (map fst acc). k \<in> set (map tl_id lines)) (TransferErr T_VALIDATION 400)) (\<lambda>_.
       Inr acc))"

definition undispatched :: "tline \<Rightarrow> bool" where
  "undispatched l =
     (truthy (tl_dispatchPostingLineId l) = None \<or> truthy (tl_lotId l) = None \<or>
      tl_dispatchedQuantity l = None)"

text \<open>The quantity received for a line in millionths, with the unit it is posted in.\<close>

definition receiveLine ::
  "'z stock_db_scheme \<Rightarrow> (string \<times> receipt_line_input) list \<Rightarrow> tline \<Rightarrow>
   transfer_error + tline \<times> (int \<times> string)" where
  "receiveLine db overrides l =
     (let dispatched = (case tl_dispatchedQuantity l of Some q \<Rightarrow> q | None \<Rightarrow> 0);
          override = (case map_of overrides (tl_id l) of Some ri \<Rightarrow> ri_receivedQuantity ri | None \<Rightarrow> None);
          unit' = (case List.find (\<lambda>i. i_id i = tl_itemId l) (db_items db) of
                    Some i \<Rightarrow> i_unit i | None \<Rightarrow> tl_enteredUom l)
      in bindE (case override of
                  None \<Rightarrow> Inr dispatched
                | Some t \<Rightarrow> mapErr (\<lambda>_. TransferErr T_VALIDATION 400) (parseFixed t 6)) (\<lambda>q.
         bindE (ensure (0 < q) (TransferErr T_VALIDATION 400)) (\<lambda>_.
         bindE (ensure (q \<le> dispatched) (TransferErr T_VALIDATION 400)) (\<lambda>_.
           Inr (l, (q, unit'))))))"

definition prepareReceive ::
  "env \<Rightarrow> transfer_action \<Rightarrow> receipt_line_input list \<Rightarrow> 'z transfer_db_scheme \<Rightarrow>
   transfer_error + 'z transfer_db_scheme \<times> (int \<times> string) prepared" where
  "prepareReceive e inp ris db =
     bindE (assertTransferFeature db) (\<lambda>_.
     bindE (authorizeTransfer db (ta_actorUserId inp) (ta_sessionId inp) TRANSFER_ROLES) (\<lambda>a.
     bindE (lockOrder db (ta_orderId inp)) (\<lambda>o'.
     bindE (assertLocationInScope (ac_allowed a) (o_destinationLocationId o')) (\<lambda>_.
     bindE (expectPhase DISPATCHED RECEIVED inp o') (\<lambda>_.
     let lines = fetchLines db (o_id o') in
     bindE (receiptOverrides ris lines) (\<lambda>overrides.
     bindE (ensure (\<not> list_ex undispatched lines) (TransferErr T_INVALID_TRANSITION 409)) (\<lambda>_.
     bindE (mapE (receiveLine db overrides) lines) (\<lambda>resolved.
     bindE (ensureOperationalDocument e TRANSFER_ORDER_RECEIPT_MODULE (o_documentNo o')
              (o_destinationLocationId o') ''DISPATCHED'' db) (\<lambda>(db1, doc).
       Inr (db1, \<lparr>pp_actor = a, pp_order = o', pp_lines = resolved, pp_docId = doc\<rparr>))))))))))"

definition receiveMovement :: "torder \<Rightarrow> tline \<times> (int \<times> string) \<Rightarrow> movement" where
  "receiveMovement o' lq =
     (let (l, q, unit') = lq in
      \<lparr>m_warehouseId = o_destinationWarehouseId o', m_itemId = tl_itemId l,
       m_lotId = (case tl_lotId l of Some lot \<Rightarrow> lot | None \<Rightarrow> []), m_movementType = IN,
       m_quantity = formatFixed q 6, m_enteredQuantity = Some (formatFixed q 6),
       m_enteredUom = unit', m_conversionFactor = Some ''1.00000000'', m_unitCost = None,
       m_reasonCode = None, m_sourcePolicy = None, m_metadata = Some (line_metadata l)\<rparr>)"

definition receivePosting :: "transfer_action \<Rightarrow> (int \<times> string) prepared \<Rightarrow> posting_input" where
  "receivePosting inp p =
     \<lparr>pi_idempotencyKey = o_documentNo (pp_order p) @ '':RECEIVE'',
      pi_sourceModule = TRANSFER_ORDER_RECEIPT_MODULE,
      pi_sourceDocumentNo = o_documentNo (pp_order p),
      pi_locationId = o_destinationLocationId (pp_order p), pi_actorUserId = ac_id (pp_actor p),
      pi_sessionId = ta_sessionId inp,
      pi_correlationId = o_documentNo (pp_order p) @ '':RECEIVE'',
      pi_movements = map (receiveMovement (pp_order p)) (pp_lines p)\<rparr>"

text \<open>
  The conditional update of a line with its check constraint (received at most what was
  dispatched) and the unique posting line id.
\<close>

definition receiptLine ::
  "(string \<times> string) list \<Rightarrow> tline \<times> (int \<times> string) \<Rightarrow> 'z transfer_db_scheme \<Rightarrow>
   transfer_error + 'z transfer_db_scheme" where
  "receiptLine ids lq db =
     (let (l, q, _) = lq;
          hit = (\<lambda>x. tl_id x = tl_id l \<and> tl_receiptPostingLineId x = None)
      in case truthy (map_of ids (tl_id l)) of
           None \<Rightarrow> Inl changedConcurrently
         | Some pl \<Rightarrow>
             if \<forall>x \<in> set (tr_lines db). \<not> hit x then Inr db
             else if \<exists>x \<in> set (tr_lines db). hit x \<and>
                  \<not> (0 \<le> q \<and> (case tl_dispatchedQuantity x of Some d \<Rightarrow> q \<le> d | None \<Rightarrow> False))
             then Inl (Passed DbCheckViolation)
             else if \<exists>x \<in> set (tr_lines db). \<not> hit x \<and> tl_receiptPostingLineId x = Some pl
             then Inl (Passed DbUniqueViolation)
             else Inr (db\<lparr>tr_lines := update_where hit
                    (\<lambda>x. x\<lparr>tl_receivedQuantity := Some q, tl_receiptPostingLineId := Some pl,
                           tl_status := RECEIVED\<rparr>)
                    (tr_lines db)\<rparr>))"

definition finalizeReceive ::
  "transfer_action \<Rightarrow> (int \<times> string) prepared \<Rightarrow> posting_result \<Rightarrow> 'z transfer_db_scheme \<Rightarrow>
   transfer_error + 'z transfer_db_scheme \<times> order_view" where
  "finalizeReceive inp p r db =
     (let o' = pp_order p; a = pp_actor p in
      bindE (foldE (receiptLine (postingLineIds (pr_postingId r) db)) (pp_lines p) db) (\<lambda>db1.
        advanceOrder inp o' DISPATCHED RECEIVED
          (\<lambda>x. o_receiptDocumentId x = Some (pp_docId p))
          (\<lambda>x. x\<lparr>o_status := RECEIVED, o_receiptDocumentId := Some (pp_docId p),
                 o_receivedBy := Some (ac_id a), o_version := o_version o' + 1\<rparr>)
          (orderAudit a (o_destinationLocationId o') ''transfer_order.received'' (o_id o')) db1))"

definition receiveTransferOrder ::
  "env \<Rightarrow> 'z transfer_db_scheme poster \<Rightarrow>
   ('z transfer_db_scheme \<Rightarrow> 'z transfer_db_scheme) \<Rightarrow> ('z transfer_db_scheme \<Rightarrow> 'z transfer_db_scheme) \<Rightarrow>
   transfer_action \<Rightarrow> receipt_line_input list \<Rightarrow> 'z transfer_db_scheme \<Rightarrow> 'z tr_result" where
  "receiveTransferOrder e poster gap1 gap2 inp ris db =
     (case run_tx (prepareReceive e inp ris) db of
        (db1, Inl err) \<Rightarrow> (db1, Inl err)
      | (db1, Inr p) \<Rightarrow>
          (case poster (receivePosting inp p) (gap1 db1) of
             (db2, Inl err) \<Rightarrow> (compensateDocument (pp_docId p) ''DISPATCHED'' (gap2 db2), Inl (Passed err))
           | (db2, Inr r) \<Rightarrow> run_tx (finalizeReceive inp p r) (gap2 db2)))"

section \<open>The service\<close>

text \<open>\<open>createTransferOrderService\<close>: dispatch and receive over a posting service with the two policies.\<close>

definition transfer_deps :: posting_deps where
  "transfer_deps = \<lparr>dep_fault = (\<lambda>_. None), dep_maxRetries = None,
     dep_policies = [(TRANSFER_ORDER_DISPATCH_MODULE, TRANSFER_ORDER_DISPATCH_POLICY),
                     (TRANSFER_ORDER_RECEIPT_MODULE, TRANSFER_ORDER_RECEIPT_POLICY)]\<rparr>"

definition serviceDispatch ::
  "env \<Rightarrow> (nat \<Rightarrow> string option) \<Rightarrow>
   ('z transfer_db_scheme \<Rightarrow> 'z transfer_db_scheme) \<Rightarrow> ('z transfer_db_scheme \<Rightarrow> 'z transfer_db_scheme) \<Rightarrow>
   transfer_action \<Rightarrow> 'z transfer_db_scheme \<Rightarrow> 'z tr_result" where
  "serviceDispatch e aborts = dispatchTransferOrder e (post e transfer_deps aborts)"

definition serviceReceive ::
  "env \<Rightarrow> (nat \<Rightarrow> string option) \<Rightarrow>
   ('z transfer_db_scheme \<Rightarrow> 'z transfer_db_scheme) \<Rightarrow> ('z transfer_db_scheme \<Rightarrow> 'z transfer_db_scheme) \<Rightarrow>
   transfer_action \<Rightarrow> receipt_line_input list \<Rightarrow> 'z transfer_db_scheme \<Rightarrow> 'z tr_result" where
  "serviceReceive e aborts = receiveTransferOrder e (post e transfer_deps aborts)"

section \<open>Reads\<close>

definition getTransferOrder ::
  "string \<Rightarrow> string option \<Rightarrow> string \<Rightarrow> 'z transfer_db_scheme \<Rightarrow> transfer_error + order_view" where
  "getTransferOrder actorUserId sessionId oid db =
     bindE (authorizeTransfer db actorUserId sessionId TRANSFER_ROLES) (\<lambda>a.
     bindE (lockOrder db oid) (\<lambda>o'.
     bindE (ensure (in_scope (ac_allowed a) (o_sourceLocationId o') \<or>
                    in_scope (ac_allowed a) (o_destinationLocationId o')) t_unauthorized) (\<lambda>_.
       Inr (o', fetchLines db (o_id o')))))"

record list_transfer_input =
  lt_actorUserId :: string
  lt_sessionId :: "string option"
  lt_sourceLocationId :: "string option"
  lt_destinationLocationId :: "string option"
  lt_status :: "transfer_status option"
  lt_search :: "string option"
  lt_limit :: "nat option"
  lt_offset :: "nat option"

definition listMatches :: "list_transfer_input \<Rightarrow> actor \<Rightarrow> torder \<Rightarrow> bool" where
  "listMatches inp a o' =
     ((case ac_allowed a of
         None \<Rightarrow> True
       | Some ls \<Rightarrow> o_sourceLocationId o' \<in> set ls \<or> o_destinationLocationId o' \<in> set ls) \<and>
      (case truthy (lt_sourceLocationId inp) of None \<Rightarrow> True | Some l \<Rightarrow> o_sourceLocationId o' = l) \<and>
      (case truthy (lt_destinationLocationId inp) of None \<Rightarrow> True | Some l \<Rightarrow> o_destinationLocationId o' = l) \<and>
      (case lt_status inp of None \<Rightarrow> True | Some s \<Rightarrow> o_status o' = s) \<and>
      (case truthy (map_option trim (lt_search inp)) of
         None \<Rightarrow> True
       | Some t \<Rightarrow> sql_like (to_lower (''%'' @ t @ ''%'')) (to_lower (o_documentNo o'))))"

text \<open>Newest first; the order of rows with the same time is left to the database.\<close>

definition listTransferOrders ::
  "list_transfer_input \<Rightarrow> 'z transfer_db_scheme \<Rightarrow> transfer_error + torder list" where
  "listTransferOrders inp db =
     bindE (authorizeTransfer db (lt_actorUserId inp) (lt_sessionId inp) TRANSFER_ROLES) (\<lambda>a.
       let rows = drop (case lt_offset inp of Some n \<Rightarrow> n | None \<Rightarrow> 0)
                    (sort_by (\<lambda>x y. o_createdAt y \<le> o_createdAt x)
                       (filter (listMatches inp a) (tr_orders db)))
       in Inr (case lt_limit inp of Some n \<Rightarrow> take n rows | None \<Rightarrow> rows))"

end
