(* ===== verification/TransferLaws.thy ===== *)
theory TransferLaws
  imports TransferService
begin

text \<open>
  Lemmas on transfer orders: the invariant of the two tables, what each transaction does to them, and
  the contract of the posting service at the database of the transfers (locale
  \<open>transfer_poster\<close>).
\<close>

section \<open>The posting service as transfers see it\<close>

locale transfer_poster = stock_poster poster for poster :: "'z transfer_db_scheme poster"

interpretation posting_transfers: transfer_poster "post e deps aborts" for e deps aborts
  by unfold_locales

lemma frame_tables:
  fixes db db' :: "'z transfer_db_scheme"
  assumes "stock_frame db db'"
  shows "tr_orders db' = tr_orders db" and "tr_lines db' = tr_lines db"
  using assms by (cases db; cases db'; simp add: stock_frame_def)+

section \<open>The tables\<close>

definition lines_in :: "tline list \<Rightarrow> string \<Rightarrow> tline set" where
  "lines_in ls oid = {l \<in> set ls. tl_orderId l = oid}"

text \<open>
  A line: its base quantity is its entered quantity times the factor, it was dispatched for exactly
  that quantity from a known lot or not at all, and received only after that for at most as much.
\<close>

definition line_ok :: "tline \<Rightarrow> bool" where
  "line_ok l \<longleftrightarrow>
     0 < tl_baseQuantity l \<and> tl_enteredQuantity l * tl_conversionFactor l = tl_baseQuantity l * 10 ^ 8 \<and>
     (if tl_dispatchPostingLineId l = None
      then tl_dispatchedQuantity l = None \<and> tl_receiptPostingLineId l = None
      else tl_dispatchedQuantity l = Some (tl_baseQuantity l) \<and> tl_lotId l \<noteq> None) \<and>
     (case tl_receiptPostingLineId l of
        None \<Rightarrow> tl_receivedQuantity l = None
      | Some _ \<Rightarrow> \<exists>q. tl_receivedQuantity l = Some q \<and> 0 < q \<and> q \<le> tl_baseQuantity l)"

definition order_ok :: "tline set \<Rightarrow> torder \<Rightarrow> bool" where
  "order_ok L o' \<longleftrightarrow>
     (o_status o' \<in> {SUBMITTED, APPROVED, DISPATCHED, RECEIVED} \<longrightarrow> o_requestedBy o' \<noteq> None) \<and>
     (o_status o' \<in> {APPROVED, DISPATCHED, RECEIVED} \<longrightarrow>
        o_approvedBy o' \<noteq> None \<and> o_approvedBy o' \<noteq> o_requestedBy o') \<and>
     (\<forall>l \<in> L. (tl_dispatchPostingLineId l \<noteq> None) = (o_status o' \<in> {DISPATCHED, RECEIVED}) \<and>
              (tl_receiptPostingLineId l \<noteq> None) = (o_status o' = RECEIVED))"

definition tables_ok :: "torder list \<Rightarrow> tline list \<Rightarrow> bool" where
  "tables_ok os ls \<longleftrightarrow> distinct (map o_id os) \<and> distinct (map tl_id ls) \<and> list_all line_ok ls \<and>
     (\<forall>l \<in> set ls. tl_orderId l \<in> o_id ` set os) \<and>
     (\<forall>o' \<in> set os. order_ok (lines_in ls (o_id o')) o')"

text \<open>The moves of one order: the status machine, with the version counting them.\<close>

definition lifecycle :: "(transfer_status \<times> transfer_status) set" where
  "lifecycle = {(DRAFT, DRAFT), (DRAFT, SUBMITTED), (SUBMITTED, APPROVED), (APPROVED, DISPATCHED),
     (DISPATCHED, RECEIVED), (DRAFT, CANCELLED), (SUBMITTED, CANCELLED), (APPROVED, CANCELLED)}"

definition order_moves :: "torder \<Rightarrow> torder \<Rightarrow> bool" where
  "order_moves x y \<longleftrightarrow> o_id y = o_id x \<and> o_documentNo y = o_documentNo x \<and>
     o_sourceWarehouseId y = o_sourceWarehouseId x \<and> o_destinationWarehouseId y = o_destinationWarehouseId x \<and>
     o_sourceLocationId y = o_sourceLocationId x \<and> o_destinationLocationId y = o_destinationLocationId x \<and>
     (y = x \<or> (o_status x, o_status y) \<in> lifecycle \<and> o_version y = Suc (o_version x))"

definition line_key :: "tline \<Rightarrow> string \<times> string \<times> int" where
  "line_key l = (tl_id l, tl_itemId l, tl_baseQuantity l)"

text \<open>One step of the tables: every order stays and moves at most once, only a draft's lines change.\<close>

definition tables_step :: "torder list \<Rightarrow> tline list \<Rightarrow> torder list \<Rightarrow> tline list \<Rightarrow> bool" where
  "tables_step os ls os' ls' \<longleftrightarrow>
     (\<forall>x \<in> set os. \<exists>y \<in> set os'. order_moves x y \<and>
        (o_status x \<noteq> DRAFT \<longrightarrow> line_key ` lines_in ls' (o_id x) = line_key ` lines_in ls (o_id x)))"

lemma tables_step_refl: "tables_step os ls os ls"
  unfolding tables_step_def order_moves_def by blast

text \<open>A change of one order row and of that order's lines.\<close>

lemma tables_change:
  assumes ok: "tables_ok os ls" and x: "x \<in> set os" "hit x" and only: "\<And>y. hit y \<Longrightarrow> o_id y = o_id x"
    and move: "order_moves x (f x)"
    and ls': "distinct (map tl_id ls')" "\<And>l. l \<in> set ls' \<Longrightarrow> tl_orderId l = o_id x \<Longrightarrow> line_ok l"
    and others: "\<And>i. i \<noteq> o_id x \<Longrightarrow> lines_in ls' i = lines_in ls i"
    and new: "order_ok (lines_in ls' (o_id x)) (f x)"
    and keys: "o_status x \<noteq> DRAFT \<Longrightarrow> line_key ` lines_in ls' (o_id x) = line_key ` lines_in ls (o_id x)"
  shows "tables_ok (update_where hit f os) ls'" and "tables_step os ls (update_where hit f os) ls'"
proof -
  have dist: "distinct (map o_id os)" using ok by (simp add: tables_ok_def)
  have one: "hit y \<longleftrightarrow> y = x" if "y \<in> set os" for y
    using that only x dist by (metis (no_types, lifting) distinct_map inj_onD)
  have upd: "update_where hit f os = map (\<lambda>y. if y = x then f x else y) os"
    using one by (simp add: update_where_def)
  have idf: "o_id (f x) = o_id x" using move by (simp add: order_moves_def)
  have ids: "map o_id (update_where hit f os) = map o_id os" unfolding upd by (auto simp: idf)
  have img: "o_id ` set (update_where hit f os) = o_id ` set os"
    using ids by (metis list.set_map)
  have sets: "set (update_where hit f os) = insert (f x) (set os - {x})"
    unfolding upd using x(1) by auto
  have l_old: "l \<in> set ls" if "l \<in> set ls'" "tl_orderId l \<noteq> o_id x" for l
    using others [OF that(2)] that(1) by (auto simp: lines_in_def)
  have neq: "o_id y \<noteq> o_id x" if "y \<in> set os" "y \<noteq> x" for y
    using that x(1) dist by (metis distinct_map inj_onD)
  show "tables_ok (update_where hit f os) ls'"
    unfolding tables_ok_def ids img
  proof (intro conjI ballI)
    show "distinct (map o_id os)" by (rule dist)
    show "distinct (map tl_id ls')" by (rule ls'(1))
    show "list_all line_ok ls'" using ls'(2) l_old ok by (fastforce simp: list_all_iff tables_ok_def)
    show "tl_orderId l \<in> o_id ` set os" if "l \<in> set ls'" for l
      using that l_old ok x(1) by (cases "tl_orderId l = o_id x") (auto simp: tables_ok_def)
    show "order_ok (lines_in ls' (o_id y)) y" if "y \<in> set (update_where hit f os)" for y
      using that new neq others ok idf unfolding sets by (auto simp: tables_ok_def)
  qed
  show "tables_step os ls (update_where hit f os) ls'"
    unfolding tables_step_def
  proof (intro ballI)
    fix y assume y: "y \<in> set os"
    show "\<exists>z \<in> set (update_where hit f os). order_moves y z \<and>
        (o_status y \<noteq> DRAFT \<longrightarrow> line_key ` lines_in ls' (o_id y) = line_key ` lines_in ls (o_id y))"
    proof (cases "y = x")
      case True
      then show ?thesis using move keys sets by auto
    next
      case False
      have "order_moves y y" by (simp add: order_moves_def)
      with False y neq [OF y False] others show ?thesis unfolding sets by auto
    qed
  qed
qed

lemma tables_change_row:
  assumes ok: "tables_ok os ls" and x: "x \<in> set os" "hit x" and only: "\<And>y. hit y \<Longrightarrow> o_id y = o_id x"
    and move: "order_moves x (f x)" and new: "order_ok (lines_in ls (o_id x)) (f x)"
  shows "tables_ok (update_where hit f os) ls" and "tables_step os ls (update_where hit f os) ls"
proof -
  have d: "distinct (map tl_id ls)" and k: "\<And>l. l \<in> set ls \<Longrightarrow> line_ok l"
    using ok by (simp_all add: tables_ok_def list_all_iff)
  note ch = tables_change [where os = os and ls = ls and x = x and hit = hit and f = f and ls' = ls,
      OF ok x only move d k refl new refl]
  show "tables_ok (update_where hit f os) ls" by (rule ch(1))
  show "tables_step os ls (update_where hit f os) ls" by (rule ch(2))
qed

section \<open>What each operation does to the tables\<close>

lemma openOrder_Inr:
  assumes "openOrder inp roles db = Inr (a, o')"
  obtains "authorizeTransfer db (ta_actorUserId inp) (ta_sessionId inp) roles = Inr a"
    "o' \<in> set (tr_orders db)" "o_id o' = ta_orderId inp" "in_scope (ac_allowed a) (o_sourceLocationId o')"
  using assms that
  by (auto simp: openOrder_def lockOrder_def assertLocationInScope_def res_iff split: option.splits
      dest!: find_Some_mem)

lemma expectStatus_Inr [res_iff]:
  "expectStatus ss inp o' = Inr () \<longleftrightarrow> o_status o' \<in> set ss \<and> o_version o' = ta_expectedVersion inp"
  by (auto simp: expectStatus_def res_iff)

lemma updateOrder_Some:
  assumes "updateOrder oid st v f db = Some (db', u)"
  obtains x where "x \<in> set (tr_orders db)" "o_id x = oid" "o_status x = st" "o_version x = v" "u = f x"
    "db' = db\<lparr>tr_orders := update_where (\<lambda>y. o_id y = oid \<and> o_status y = st \<and> o_version y = v) f (tr_orders db)\<rparr>"
  using assms that by (auto simp: updateOrder_def Let_def dest!: find_Some_mem)

lemma writeAudit_tables [simp]:
  "tr_orders (writeAudit a db) = tr_orders db" "tr_lines (writeAudit a db) = tr_lines db"
  "stock_inv (writeAudit a db) = stock_inv db" "db_ledger (writeAudit a db) = db_ledger db"
  by (simp_all add: writeAudit_def stock_inv_def)

lemma stock_inv_tables [simp]:
  fixes db :: "'z transfer_db_scheme"
  shows "stock_inv (db\<lparr>tr_orders := os\<rparr>) = stock_inv db" "stock_inv (db\<lparr>tr_lines := ls\<rparr>) = stock_inv db"
    "stock_inv (db\<lparr>db_ids := n\<rparr>) = stock_inv db"
  by (simp_all add: stock_inv_def)

definition resolved_ok :: "resolved_line \<Rightarrow> bool" where
  "resolved_ok r \<longleftrightarrow> (\<forall>q f b. parseFixed (rl_enteredQuantity r) 6 = Inr q \<longrightarrow>
     parseFixed (rl_conversionFactor r) 8 = Inr f \<longrightarrow> parseFixed (rl_baseQuantity r) 6 = Inr b \<longrightarrow> q * f = b * 10 ^ 8)"

lemma resolveLine_ok:
  assumes "resolveLine db factors nl = Inr r" shows "resolved_ok r"
proof -
  obtain n l where nl: "nl = (n, l)" by fastforce
  from assms obtain f base q where f: "multiplyFixedExact (ti_enteredQuantity l) 6 f 8 6 = Inr base"
    and q: "parseFixed (ti_enteredQuantity l) 6 = Inr q"
    and r: "rl_enteredQuantity r = formatFixed q 6" "rl_conversionFactor r = f" "rl_baseQuantity r = base"
    by (auto simp: resolveLine_def nl res_iff split: option.splits)
  from multiplyFixedExact_exact [OF f] obtain a b p where
    "parseFixed (ti_enteredQuantity l) 6 = Inr a" "parseFixed f 8 = Inr b" "base = formatFixed p 6"
    "a * b * 10 ^ 6 = p * 10 ^ (6 + 8)" .
  then show ?thesis using q r by (simp add: resolved_ok_def)
qed

lemma resolveAndValidateLines_ok:
  "resolveAndValidateLines db ls = Inr rs \<Longrightarrow> list_all resolved_ok rs"
  by (auto simp: resolveAndValidateLines_def res_iff list_all_iff dest!: mapE_mem intro: resolveLine_ok)

definition fresh_line :: "string \<Rightarrow> tline \<Rightarrow> bool" where
  "fresh_line oid l \<longleftrightarrow> tl_orderId l = oid \<and> line_ok l \<and> tl_dispatchPostingLineId l = None \<and>
     tl_receiptPostingLineId l = None"

lemma db_numeric_Inr: "db_numeric k s = Inr v \<Longrightarrow> parseFixed s k = Inr v"
  by (auto simp: db_numeric_def res_iff split: if_splits)

lemma insertTransferLine_Inr:
  assumes "insertTransferLine e oid r db = Inr db'" and "resolved_ok r"
  obtains l where "db' = db\<lparr>tr_lines := tr_lines db @ [l], db_ids := Suc (db_ids db)\<rparr>" "fresh_line oid l"
    "tl_id l \<notin> tl_id ` set (tr_lines db)"
proof -
  from assms(1) obtain q f b where num: "db_numeric 6 (rl_enteredQuantity r) = Inr q"
      "db_numeric 8 (rl_conversionFactor r) = Inr f" "db_numeric 6 (rl_baseQuantity r) = Inr b" "0 < b"
    and new: "\<forall>x \<in> set (tr_lines db). tl_id x \<noteq> env_uuid e (db_ids db)"
    and db': "db' = db\<lparr>tr_lines := tr_lines db @
              [\<lparr>tl_id = env_uuid e (db_ids db), tl_orderId = oid, tl_lineNo = rl_lineNo r,
                tl_itemId = rl_itemId r, tl_lotId = rl_lotId r, tl_enteredUom = rl_enteredUom r,
                tl_enteredQuantity = q, tl_conversionFactor = f, tl_baseQuantity = b,
                tl_dispatchedQuantity = None, tl_receivedQuantity = None, tl_status = DRAFT,
                tl_dispatchPostingLineId = None, tl_receiptPostingLineId = None,
                tl_remarks = rl_remarks r\<rparr>], db_ids := Suc (db_ids db)\<rparr>"
    unfolding insertTransferLine_def by (auto simp: res_iff)
  have "q * f = b * 10 ^ 8" using num(1-3) [THEN db_numeric_Inr] assms(2) by (simp add: resolved_ok_def)
  moreover have "env_uuid e (db_ids db) \<notin> tl_id ` set (tr_lines db)" using new by auto
  ultimately show thesis using that [OF db'] num(4) by (simp add: fresh_line_def line_ok_def)
qed

lemma insertTransferLines_Inr:
  fixes db :: "'z transfer_db_scheme"
  assumes "insertTransferLines e oid rs db = Inr db'" and "list_all resolved_ok rs"
    and "distinct (map tl_id (tr_lines db))"
  obtains new n where "db' = db\<lparr>tr_lines := tr_lines db @ new, db_ids := n\<rparr>" "list_all (fresh_line oid) new"
    "distinct (map tl_id (tr_lines db @ new))"
  using assms unfolding insertTransferLines_def
proof (induction rs arbitrary: db thesis)
  case Nil
  have "db' = db" using Nil.prems(2) by simp
  then show ?case using Nil.prems(4) by (intro Nil.prems(1) [of "db_ids db" "[]"]) simp_all
next
  case (Cons r rs)
  from Cons.prems(2) obtain db1 where step: "insertTransferLine e oid r db = Inr db1"
    and rest: "foldE (insertTransferLine e oid) rs db1 = Inr db'" by (auto simp: res_iff)
  from Cons.prems(3) have "resolved_ok r" "list_all resolved_ok rs" by simp_all
  from insertTransferLine_Inr [OF step this(1)] obtain l where
    db1: "db1 = db\<lparr>tr_lines := tr_lines db @ [l], db_ids := Suc (db_ids db)\<rparr>" and l: "fresh_line oid l"
    "tl_id l \<notin> tl_id ` set (tr_lines db)" .
  have "distinct (map tl_id (tr_lines db1))" using Cons.prems(4) l by (simp add: db1)
  from Cons.IH [OF _ rest \<open>list_all resolved_ok rs\<close> this] obtain new n where
    "db' = db1\<lparr>tr_lines := tr_lines db1 @ new, db_ids := n\<rparr>" "list_all (fresh_line oid) new"
    "distinct (map tl_id (tr_lines db1 @ new))" .
  then show ?case using l by (intro Cons.prems(1) [of n "l # new"]) (simp_all add: db1)
qed

lemma insertTransferLines_stock: "insertTransferLines e oid rs db = Inr db' \<Longrightarrow> stock_inv db' = stock_inv db"
  unfolding insertTransferLines_def
  by (erule foldE_invariant [where P = "\<lambda>x. stock_inv x = stock_inv db"])
    (auto simp: insertTransferLine_def res_iff stock_inv_def)

definition safe_step :: "'z transfer_db_scheme \<Rightarrow> 'z transfer_db_scheme \<Rightarrow> bool" where
  "safe_step db db' \<longleftrightarrow>
     (tables_ok (tr_orders db) (tr_lines db) \<longrightarrow>
        tables_ok (tr_orders db') (tr_lines db') \<and>
        tables_step (tr_orders db) (tr_lines db) (tr_orders db') (tr_lines db')) \<and>
     (stock_inv db \<longrightarrow> stock_inv db')"

lemma safe_step_same:
  "tr_orders db' = tr_orders db \<Longrightarrow> tr_lines db' = tr_lines db \<Longrightarrow> (stock_inv db \<Longrightarrow> stock_inv db') \<Longrightarrow> safe_step db db'"
  by (simp add: safe_step_def tables_step_refl)

lemma safe_step_refl [simp]: "safe_step db db"
  by (rule safe_step_same) simp_all

lemma run_tx_step:
  assumes "run_tx body db = (db', res)" and "\<And>db1 a. body db = Inr (db1, a) \<Longrightarrow> safe_step db db1"
  shows "safe_step db db'"
  using assms by (cases res) (auto simp: run_tx_ok dest: run_tx_error)

text \<open>A new draft.\<close>

lemma tables_create:
  assumes ok: "tables_ok os ls" and o': "o_id o' \<notin> o_id ` set os" "o_status o' = DRAFT"
    and new: "list_all (fresh_line (o_id o')) new" "distinct (map tl_id (ls @ new))"
  shows "tables_ok (os @ [o']) (ls @ new)" and "tables_step os ls (os @ [o']) (ls @ new)"
proof -
  have old: "lines_in (ls @ new) (o_id x) = lines_in ls (o_id x)" if "x \<in> set os" for x
    using that new(1) o'(1) by (auto simp: lines_in_def list_all_iff fresh_line_def)
  have "tl_orderId l \<noteq> o_id o'" if "l \<in> set ls" for l
    using ok o'(1) that unfolding tables_ok_def by metis
  then have mine: "lines_in (ls @ new) (o_id o') \<subseteq> set new" by (auto simp: lines_in_def)
  then have "order_ok (lines_in (ls @ new) (o_id o')) o'"
    using new(1) o'(2) by (fastforce simp: order_ok_def list_all_iff fresh_line_def)
  then show "tables_ok (os @ [o']) (ls @ new)"
    using ok new o' old by (auto simp: tables_ok_def list_all_iff fresh_line_def)
  have "order_moves x x" for x by (simp add: order_moves_def)
  with old show "tables_step os ls (os @ [o']) (ls @ new)" by (fastforce simp: tables_step_def)
qed

lemma create_step:
  fixes db :: "'z transfer_db_scheme"
  assumes "createTransferOrderDraft e now inp db = (db', res)"
  shows "safe_step db db'"
  using assms unfolding createTransferOrderDraft_def
proof (rule run_tx_step, goal_cases)
  case (1 db1 v)
  then obtain a s d rs dbo dbl where rs: "resolveAndValidateLines db (ct_lines inp) = Inr rs"
    and ins: "insertOrder (draftOrder e now inp a s d db) db = Inr dbo"
    and lines: "insertTransferLines e (o_id (draftOrder e now inp a s d db)) rs dbo = Inr dbl"
    and db1: "tr_orders db1 = tr_orders dbl" "tr_lines db1 = tr_lines dbl" "stock_inv db1 = stock_inv dbl"
    by (auto simp: res_iff Let_def)
  let ?o = "draftOrder e now inp a s d db"
  from ins have fresh: "o_id ?o \<notin> o_id ` set (tr_orders db)"
    and dbo: "dbo = db\<lparr>tr_orders := tr_orders db @ [?o], db_ids := Suc (Suc (db_ids db))\<rparr>"
    by (auto simp: insertOrder_def split: if_splits)
  have st: "o_status ?o = DRAFT" by (simp add: draftOrder_def)
  show ?case
    unfolding safe_step_def db1
  proof (intro conjI impI)
    assume ok: "tables_ok (tr_orders db) (tr_lines db)"
    have "distinct (map tl_id (tr_lines dbo))" using ok by (simp add: dbo tables_ok_def)
    from insertTransferLines_Inr [OF lines resolveAndValidateLines_ok [OF rs] this] obtain new n where
      dbl: "dbl = dbo\<lparr>tr_lines := tr_lines dbo @ new, db_ids := n\<rparr>" and new: "list_all (fresh_line (o_id ?o)) new"
      "distinct (map tl_id (tr_lines dbo @ new))" .
    have "distinct (map tl_id (tr_lines db @ new))" using new(2) by (simp add: dbo)
    note cr = tables_create [OF ok fresh st new(1) this]
    show "tables_ok (tr_orders dbl) (tr_lines dbl)" using cr(1) by (simp add: dbl dbo)
    show "tables_step (tr_orders db) (tr_lines db) (tr_orders dbl) (tr_lines dbl)" using cr(2) by (simp add: dbl dbo)
  next
    assume "stock_inv db"
    have "stock_inv dbl = stock_inv dbo" using lines by (rule insertTransferLines_stock)
    with \<open>stock_inv db\<close> show "stock_inv dbl" by (simp add: dbo)
  qed
qed

lemma same_row: "tables_ok os ls \<Longrightarrow> x \<in> set os \<Longrightarrow> y \<in> set os \<Longrightarrow> o_id x = o_id y \<Longrightarrow> x = y"
  unfolding tables_ok_def by (metis distinct_map inj_onD)

lemma order_ok_of: "tables_ok os ls \<Longrightarrow> x \<in> set os \<Longrightarrow> order_ok (lines_in ls (o_id x)) x"
  by (simp add: tables_ok_def)

lemma row_update_step:
  assumes upd: "updateOrder (o_id o') st v f db = Some (db1, u)" and mem: "o' \<in> set (tr_orders db)"
    and move: "o_status o' = st \<Longrightarrow> o_version o' = v \<Longrightarrow> order_moves o' (f o')"
    and new: "o_status o' = st \<Longrightarrow> order_ok (lines_in (tr_lines db) (o_id o')) o' \<Longrightarrow>
      order_ok (lines_in (tr_lines db) (o_id o')) (f o')"
  shows "safe_step db (writeAudit aud db1)"
proof -
  from upd obtain x where x: "x \<in> set (tr_orders db)" "o_id x = o_id o'" "o_status x = st" "o_version x = v"
    and db1: "db1 = db\<lparr>tr_orders := update_where (\<lambda>y. o_id y = o_id o' \<and> o_status y = st \<and> o_version y = v) f
        (tr_orders db)\<rparr>" by (rule updateOrder_Some)
  show ?thesis unfolding safe_step_def writeAudit_tables
  proof (intro conjI impI)
    assume ok: "tables_ok (tr_orders db) (tr_lines db)"
    have eq: "x = o'" by (rule same_row [OF ok x(1) mem x(2)])
    have st: "o_status o' = st" "o_version o' = v" using x(3,4) eq by simp_all
    note ch = tables_change_row [where x = o' and f = f and
        hit = "\<lambda>y. o_id y = o_id o' \<and> o_status y = st \<and> o_version y = v",
        OF ok mem _ _ move [OF st] new [OF st(1) order_ok_of [OF ok mem]]]
    show "tables_ok (tr_orders db1) (tr_lines db1)" using ch(1) st unfolding db1 by simp
    show "tables_step (tr_orders db) (tr_lines db) (tr_orders db1) (tr_lines db1)"
      using ch(2) st unfolding db1 by simp
  qed (simp add: db1)
qed

lemma submit_step: "submitTransferOrder inp db = (db', res) \<Longrightarrow> safe_step db db'"
  unfolding submitTransferOrder_def
proof (rule run_tx_step, assumption, goal_cases)
  case (1 db1 v)
  then obtain a o' dbu u aud where op: "openOrder inp TRANSFER_ROLES db = Inr (a, o')"
    and upd: "updateOrder (o_id o') DRAFT (ta_expectedVersion inp)
       (\<lambda>x. x\<lparr>o_status := SUBMITTED, o_requestedBy := Some (ac_id a), o_version := o_version o' + 1\<rparr>) db = Some (dbu, u)"
    and db1: "db1 = writeAudit aud dbu"
    by (auto simp: res_iff Let_def split: option.splits)
  from op have mem: "o' \<in> set (tr_orders db)" by (rule openOrder_Inr)
  show ?case unfolding db1
    by (rule row_update_step [OF upd mem]) (auto simp: order_moves_def lifecycle_def order_ok_def)
qed

lemma approve_step: "approveTransferOrder inp db = (db', res) \<Longrightarrow> safe_step db db'"
  unfolding approveTransferOrder_def
proof (rule run_tx_step, assumption, goal_cases)
  case (1 db1 v)
  then obtain a o' dbu u aud where op: "openOrder inp TRANSFER_APPROVE_ROLES db = Inr (a, o')"
    and sod: "o_requestedBy o' \<noteq> Some (ac_id a)"
    and upd: "updateOrder (o_id o') SUBMITTED (ta_expectedVersion inp)
       (\<lambda>x. x\<lparr>o_status := APPROVED, o_approvedBy := Some (ac_id a), o_version := o_version o' + 1\<rparr>) db = Some (dbu, u)"
    and db1: "db1 = writeAudit aud dbu"
    by (auto simp: res_iff split: option.splits)
  from op have mem: "o' \<in> set (tr_orders db)" by (rule openOrder_Inr)
  show ?case unfolding db1
    by (rule row_update_step [OF upd mem]) (use sod in \<open>auto simp: order_moves_def lifecycle_def order_ok_def\<close>)
qed

lemma cancel_step: "cancelTransferOrder inp reason db = (db', res) \<Longrightarrow> safe_step db db'"
  unfolding cancelTransferOrder_def
proof (rule run_tx_step, assumption, goal_cases)
  case (1 db1 v)
  then obtain a o' dbu u aud where op: "openOrder inp TRANSFER_ROLES db = Inr (a, o')"
    and st: "o_status o' \<in> {DRAFT, SUBMITTED, APPROVED}"
    and upd: "updateOrder (o_id o') (o_status o') (ta_expectedVersion inp)
       (\<lambda>x. x\<lparr>o_status := CANCELLED, o_cancelledBy := Some (ac_id a), o_cancelReason := Some reason,
          o_version := o_version o' + 1\<rparr>) db = Some (dbu, u)"
    and db1: "db1 = writeAudit aud dbu"
    by (auto simp: res_iff split: option.splits)
  from op have mem: "o' \<in> set (tr_orders db)" by (rule openOrder_Inr)
  show ?case unfolding db1
    by (rule row_update_step [OF upd mem]) (use st in \<open>auto simp: order_moves_def lifecycle_def order_ok_def\<close>)
qed

lemma deleteTransferLines_Inr:
  "deleteTransferLines oid db = Inr db' \<longleftrightarrow>
     (\<forall>x \<in> set (tr_lines db). tl_orderId x = oid \<longrightarrow>
        tl_dispatchPostingLineId x = None \<and> tl_receiptPostingLineId x = None) \<and>
     db' = db\<lparr>tr_lines := filter (\<lambda>x. tl_orderId x \<noteq> oid) (tr_lines db)\<rparr>"
  by (auto simp: deleteTransferLines_def)

lemma replaceLines_stock: "replaceLines e oid lsi db = Inr db1 \<Longrightarrow> stock_inv db1 = stock_inv db"
  by (auto simp: replaceLines_def res_iff deleteTransferLines_Inr dest!: insertTransferLines_stock
      split: option.splits)

lemma replaceLines_Inr:
  fixes db :: "'z transfer_db_scheme"
  assumes "replaceLines e oid lsi db = Inr db1" and "distinct (map tl_id (tr_lines db))"
  shows "tr_orders db1 = tr_orders db \<and>
    (tr_lines db1 = tr_lines db \<or> (\<exists>new. tr_lines db1 = filter (\<lambda>x. tl_orderId x \<noteq> oid) (tr_lines db) @ new \<and>
       list_all (fresh_line oid) new \<and> distinct (map tl_id (tr_lines db1))))"
proof (cases lsi)
  case None
  with assms(1) show ?thesis by (simp add: replaceLines_def)
next
  case (Some ls)
  with assms(1) obtain rs dbd where rs: "resolveAndValidateLines db ls = Inr rs"
    and dbd: "dbd = db\<lparr>tr_lines := filter (\<lambda>x. tl_orderId x \<noteq> oid) (tr_lines db)\<rparr>"
    and ins: "insertTransferLines e oid rs dbd = Inr db1"
    by (auto simp: replaceLines_def res_iff deleteTransferLines_Inr)
  have "distinct (map tl_id (tr_lines dbd))" using assms(2) by (simp add: dbd distinct_map_filter)
  from insertTransferLines_Inr [OF ins resolveAndValidateLines_ok [OF rs] this] obtain new n where
    "db1 = dbd\<lparr>tr_lines := tr_lines dbd @ new, db_ids := n\<rparr>" "list_all (fresh_line oid) new"
    "distinct (map tl_id (tr_lines dbd @ new))" .
  then show ?thesis by (simp add: dbd)
qed

lemma tables_redraft:
  assumes ok: "tables_ok os ls" and x: "x \<in> set os" "hit x" "o_status x = DRAFT"
    and only: "\<And>y. hit y \<Longrightarrow> o_id y = o_id x" and move: "order_moves x (f x)" "o_status (f x) = DRAFT"
    and ls': "ls' = ls \<or> (\<exists>new. ls' = filter (\<lambda>l. tl_orderId l \<noteq> o_id x) ls @ new \<and>
       list_all (fresh_line (o_id x)) new \<and> distinct (map tl_id ls'))"
  shows "tables_ok (update_where hit f os) ls'" and "tables_step os ls (update_where hit f os) ls'"
proof -
  have fresh: "tl_dispatchPostingLineId l = None \<and> tl_receiptPostingLineId l = None \<and> line_ok l"
    if "l \<in> lines_in ls' (o_id x)" for l
    using that ls' order_ok_of [OF ok x(1)] ok x(3)
    by (auto simp: lines_in_def list_all_iff fresh_line_def order_ok_def tables_ok_def)
  then have new: "order_ok (lines_in ls' (o_id x)) (f x)" using move(2) by (auto simp: order_ok_def)
  have dist: "distinct (map tl_id ls')" using ls' ok by (auto simp: tables_ok_def)
  have others: "lines_in ls' i = lines_in ls i" if "i \<noteq> o_id x" for i
    using ls' that by (auto simp: lines_in_def list_all_iff fresh_line_def)
  have lok: "line_ok l" if "l \<in> set ls'" "tl_orderId l = o_id x" for l
    using fresh that by (simp add: lines_in_def)
  have keys: "o_status x \<noteq> DRAFT \<Longrightarrow> line_key ` lines_in ls' (o_id x) = line_key ` lines_in ls (o_id x)"
    using x(3) by simp
  note ch = tables_change [where os = os and ls = ls and x = x and hit = hit and f = f and ls' = ls',
      OF ok x(1,2) only move(1) dist lok others new keys]
  show "tables_ok (update_where hit f os) ls'" by (rule ch(1))
  show "tables_step os ls (update_where hit f os) ls'" by (rule ch(2))
qed

lemma update_step: "updateTransferOrderDraft e inp db = (db', res) \<Longrightarrow> safe_step db db'"
  unfolding updateTransferOrderDraft_def
proof (rule run_tx_step, assumption, goal_cases)
  case (1 db1 v)
  let ?f = "\<lambda>o' x. (case ut_remarks inp of None \<Rightarrow> x | Some r \<Rightarrow> x\<lparr>o_remarks := r\<rparr>)\<lparr>o_version := o_version o' + 1\<rparr>"
  from 1 obtain a o' dbl u where op: "openOrder (transfer_action.truncate inp) TRANSFER_ROLES db = Inr (a, o')"
    and rl: "replaceLines e (o_id o') (ut_lines inp) db = Inr dbl"
    and upd: "updateOrder (o_id o') DRAFT (ta_expectedVersion inp) (?f o') dbl = Some (db1, u)"
    by (auto simp: res_iff split: option.splits)
  from op have mem: "o' \<in> set (tr_orders db)" by (rule openOrder_Inr)
  let ?hit = "\<lambda>y. o_id y = o_id o' \<and> o_status y = DRAFT \<and> o_version y = ta_expectedVersion inp"
  from upd obtain x where x: "x \<in> set (tr_orders dbl)" "o_id x = o_id o'" "o_status x = DRAFT"
    "o_version x = ta_expectedVersion inp" and db1: "db1 = dbl\<lparr>tr_orders := update_where ?hit (?f o') (tr_orders dbl)\<rparr>"
    by (rule updateOrder_Some)
  show ?case
    unfolding safe_step_def
  proof (intro conjI impI)
    assume ok: "tables_ok (tr_orders db) (tr_lines db)"
    have "distinct (map tl_id (tr_lines db))" using ok by (simp add: tables_ok_def)
    note rl' = conjunct1 [OF replaceLines_Inr [OF rl this]] conjunct2 [OF replaceLines_Inr [OF rl this]]
    have "x = o'" using same_row [OF ok _ mem x(2)] x(1) rl'(1) by simp
    with x have st: "o_status o' = DRAFT" "o_version o' = ta_expectedVersion inp" by simp_all
    have mv: "order_moves o' (?f o' o')" "o_status (?f o' o') = DRAFT"
      using st by (auto simp: order_moves_def lifecycle_def split: option.splits)
    note rd = tables_redraft [where hit = ?hit and x = o' and f = "?f o'",
        OF ok mem _ st(1) _ mv rl'(2)]
    show "tables_ok (tr_orders db1) (tr_lines db1)" using rd(1) st rl'(1) by (simp add: db1)
    show "tables_step (tr_orders db) (tr_lines db) (tr_orders db1) (tr_lines db1)"
      using rd(2) st rl'(1) by (simp add: db1)
  next
    assume "stock_inv db"
    with replaceLines_stock [OF rl] show "stock_inv db1" by (simp add: db1)
  qed
qed

section \<open>Dispatch and receipt\<close>

text \<open>The conditional updates of the line rows: a row not yet stamped is stamped, a stamped one stays.\<close>

definition dispatched_as :: "(tline \<times> string) set \<Rightarrow> tline \<Rightarrow> tline \<Rightarrow> bool" where
  "dispatched_as P l l' \<longleftrightarrow> l' = l \<or>
     (tl_dispatchPostingLineId l = None \<and> tl_receiptPostingLineId l = None \<and>
      (\<exists>k lot pl. (k, lot) \<in> P \<and> tl_id k = tl_id l \<and>
        l' = l\<lparr>tl_lotId := Some lot, tl_dispatchedQuantity := Some (tl_baseQuantity k),
               tl_dispatchPostingLineId := Some pl, tl_status := DISPATCHED\<rparr>))"

definition received_as :: "(tline \<times> (int \<times> string)) set \<Rightarrow> tline \<Rightarrow> tline \<Rightarrow> bool" where
  "received_as P l l' \<longleftrightarrow> l' = l \<or>
     (tl_receiptPostingLineId l = None \<and>
      (\<exists>k q u pl d. (k, (q, u)) \<in> P \<and> tl_id k = tl_id l \<and> tl_dispatchedQuantity l = Some d \<and> q \<le> d \<and>
        l' = l\<lparr>tl_receivedQuantity := Some q, tl_receiptPostingLineId := Some pl, tl_status := RECEIVED\<rparr>))"

lemma dispatchLine_turn:
  assumes "dispatchLine ids kl db = Inr db'"
  shows "\<exists>ls. db' = db\<lparr>tr_lines := ls\<rparr> \<and> list_all2 (dispatched_as {kl}) (tr_lines db) ls \<and>
     (\<forall>l \<in> set ls. tl_id l = tl_id (fst kl) \<longrightarrow> tl_dispatchPostingLineId l \<noteq> None)"
proof -
  obtain k lot where kl: "kl = (k, lot)" by fastforce
  let ?hit = "\<lambda>x. tl_id x = tl_id k \<and> tl_dispatchPostingLineId x = None"
  from assms obtain pl where pl: "truthy (map_of ids (tl_id k)) = Some pl"
    by (cases "truthy (map_of ids (tl_id k))") (simp_all add: dispatchLine_def kl)
  let ?ls = "update_where ?hit (\<lambda>x. x\<lparr>tl_lotId := Some lot, tl_dispatchedQuantity := Some (tl_baseQuantity k),
      tl_dispatchPostingLineId := Some pl, tl_status := DISPATCHED\<rparr>) (tr_lines db)"
  show ?thesis
  proof (cases "\<forall>x \<in> set (tr_lines db). \<not> ?hit x")
    case True
    then have "db' = db" using assms pl by (simp add: dispatchLine_def kl)
    then have "db' = db\<lparr>tr_lines := tr_lines db\<rparr>" by simp
    moreover have "list_all2 (dispatched_as {kl}) (tr_lines db) (tr_lines db)"
      by (rule all2_refl) (simp add: dispatched_as_def)
    ultimately show ?thesis using True unfolding kl by fastforce
  next
    case False
    then have db': "db' = db\<lparr>tr_lines := ?ls\<rparr>"
      and r: "\<not> (\<exists>x \<in> set (tr_lines db). ?hit x \<and> tl_receiptPostingLineId x \<noteq> None)"
      using assms pl by (auto simp add: dispatchLine_def kl split: if_splits)
    have "list_all2 (dispatched_as {kl}) (tr_lines db) ?ls"
      by (rule all2_update_where) (use r in \<open>auto simp: dispatched_as_def kl\<close>)
    moreover have "\<forall>l \<in> set ?ls. tl_id l = tl_id k \<longrightarrow> tl_dispatchPostingLineId l \<noteq> None"
      by (auto simp: update_where_def)
    ultimately show ?thesis using db' unfolding kl by auto
  qed
qed

lemma receiptLine_turn:
  assumes "receiptLine ids kl db = Inr db'"
  shows "\<exists>ls. db' = db\<lparr>tr_lines := ls\<rparr> \<and> list_all2 (received_as {kl}) (tr_lines db) ls \<and>
     (\<forall>l \<in> set ls. tl_id l = tl_id (fst kl) \<longrightarrow> tl_receiptPostingLineId l \<noteq> None)"
proof -
  obtain k q u where kl: "kl = (k, (q, u))" by (metis surj_pair)
  let ?hit = "\<lambda>x. tl_id x = tl_id k \<and> tl_receiptPostingLineId x = None"
  from assms obtain pl where pl: "truthy (map_of ids (tl_id k)) = Some pl"
    by (cases "truthy (map_of ids (tl_id k))") (simp_all add: receiptLine_def kl)
  let ?ls = "update_where ?hit (\<lambda>x. x\<lparr>tl_receivedQuantity := Some q, tl_receiptPostingLineId := Some pl,
      tl_status := RECEIVED\<rparr>) (tr_lines db)"
  show ?thesis
  proof (cases "\<forall>x \<in> set (tr_lines db). \<not> ?hit x")
    case True
    then have "db' = db" using assms pl by (simp add: receiptLine_def kl)
    then have "db' = db\<lparr>tr_lines := tr_lines db\<rparr>" by simp
    moreover have "list_all2 (received_as {kl}) (tr_lines db) (tr_lines db)"
      by (rule all2_refl) (simp add: received_as_def)
    ultimately show ?thesis using True unfolding kl by fastforce
  next
    case False
    let ?bad = "\<exists>x \<in> set (tr_lines db). ?hit x \<and>
        \<not> (0 \<le> q \<and> (case tl_dispatchedQuantity x of Some d \<Rightarrow> q \<le> d | None \<Rightarrow> False))"
    let ?dup = "\<exists>x \<in> set (tr_lines db). \<not> ?hit x \<and> tl_receiptPostingLineId x = Some pl"
    have "receiptLine ids kl db = (if ?bad then Inl (Passed DbCheckViolation)
        else if ?dup then Inl (Passed DbUniqueViolation) else Inr (db\<lparr>tr_lines := ?ls\<rparr>))"
      using pl unfolding receiptLine_def kl Let_def prod.case by (simp only: option.case if_not_P [OF False])
    with assms have "(if ?bad then Inl (Passed DbCheckViolation)
        else if ?dup then Inl (Passed DbUniqueViolation) else Inr (db\<lparr>tr_lines := ?ls\<rparr>)) = Inr db'" by simp
    then have db': "db' = db\<lparr>tr_lines := ?ls\<rparr>" and r: "\<not> ?bad"
      by (metis (no_types, lifting) Inl_Inr_False sum.inject(2))+
    have "list_all2 (received_as {kl}) (tr_lines db) ?ls"
    proof (rule all2_update_where)
      fix x assume x: "x \<in> set (tr_lines db)" "?hit x"
      with r have "case tl_dispatchedQuantity x of Some d \<Rightarrow> q \<le> d | None \<Rightarrow> False" by blast
      then obtain d where "tl_dispatchedQuantity x = Some d" "q \<le> d" by (auto split: option.splits)
      with x(2) show "received_as {kl} x (x\<lparr>tl_receivedQuantity := Some q, tl_receiptPostingLineId := Some pl,
          tl_status := RECEIVED\<rparr>)" unfolding received_as_def kl by auto
    qed (simp add: received_as_def)
    moreover have "\<forall>l \<in> set ?ls. tl_id l = tl_id k \<longrightarrow> tl_receiptPostingLineId l \<noteq> None"
      by (auto simp: update_where_def)
    ultimately show ?thesis using db' unfolding kl by auto
  qed
qed

interpretation dispatching: row_stamping "dispatchLine ids" tr_lines "\<lambda>ls db. db\<lparr>tr_lines := ls\<rparr>" tl_id "tl_id \<circ> fst"
  dispatched_as "\<lambda>l. tl_dispatchPostingLineId l \<noteq> None" for ids
proof unfold_locales
  show "dispatched_as P x y \<Longrightarrow> dispatched_as Q y z \<Longrightarrow> dispatched_as (P \<union> Q) x z" for P Q x y z
    unfolding dispatched_as_def by auto
qed (use dispatchLine_turn in \<open>auto simp: dispatched_as_def\<close>)

interpretation receiving: row_stamping "receiptLine ids" tr_lines "\<lambda>ls db. db\<lparr>tr_lines := ls\<rparr>" tl_id "tl_id \<circ> fst"
  received_as "\<lambda>l. tl_receiptPostingLineId l \<noteq> None" for ids
proof unfold_locales
  show "received_as P x y \<Longrightarrow> received_as Q y z \<Longrightarrow> received_as (P \<union> Q) x z" for P Q x y z
    unfolding received_as_def by auto
qed (use receiptLine_turn in \<open>auto simp: received_as_def\<close>)

end
