(* ===== verification/TransferSteps.thy ===== *)
theory TransferSteps
  imports TransferLaws
begin

text \<open>
  Transfer orders under concurrent requests. A dispatch and a receipt are three transactions; a
  request between two of them is a flight, and the steps of different requests interleave freely.
  The invariant: the two tables are consistent (\<open>tables_ok\<close>) and every flight still agrees with them.
\<close>

datatype flight =
    DispatchPrepared transfer_action "string prepared"
  | DispatchPosted transfer_action "string prepared" posting_result
  | DispatchFailed transfer_action "string prepared"
  | ReceivePrepared transfer_action "(int \<times> string) prepared"
  | ReceivePosted transfer_action "(int \<times> string) prepared" posting_result
  | ReceiveFailed transfer_action "(int \<times> string) prepared"

text \<open>The prepared order is past approval in the table, its lines are the table's lines.\<close>

definition dispatch_flight_ok ::
  "transfer_action \<Rightarrow> string prepared \<Rightarrow> torder list \<Rightarrow> tline list \<Rightarrow> bool" where
  "dispatch_flight_ok inp p os ls \<longleftrightarrow>
     (\<exists>x \<in> set os. o_id x = o_id (pp_order p) \<and> o_status x \<notin> {DRAFT, SUBMITTED} \<and>
        (o_status x = APPROVED \<longrightarrow> o_version (pp_order p) = ta_expectedVersion inp) \<and>
        line_key ` lines_in ls (o_id x) = line_key ` fst ` set (pp_lines p))"

definition receive_flight_ok ::
  "transfer_action \<Rightarrow> (int \<times> string) prepared \<Rightarrow> torder list \<Rightarrow> tline list \<Rightarrow> bool" where
  "receive_flight_ok inp p os ls \<longleftrightarrow>
     (\<exists>x \<in> set os. o_id x = o_id (pp_order p) \<and> o_status x \<in> {DISPATCHED, RECEIVED} \<and>
        (o_status x = DISPATCHED \<longrightarrow> o_version (pp_order p) = ta_expectedVersion inp) \<and>
        line_key ` lines_in ls (o_id x) = line_key ` fst ` set (pp_lines p)) \<and>
     (\<forall>(l, q, u) \<in> set (pp_lines p). 0 < q)"

fun flight_ok :: "torder list \<Rightarrow> tline list \<Rightarrow> flight \<Rightarrow> bool" where
  "flight_ok os ls (DispatchPrepared inp p) = dispatch_flight_ok inp p os ls"
| "flight_ok os ls (DispatchPosted inp p r) = dispatch_flight_ok inp p os ls"
| "flight_ok os ls (ReceivePrepared inp p) = receive_flight_ok inp p os ls"
| "flight_ok os ls (ReceivePosted inp p r) = receive_flight_ok inp p os ls"
| "flight_ok os ls _ = True"

lemma lifecycle_past:
  "order_moves x y \<Longrightarrow> o_status x \<notin> {DRAFT, SUBMITTED} \<Longrightarrow> o_status y \<notin> {DRAFT, SUBMITTED}"
  "order_moves x y \<Longrightarrow> o_status x \<in> {DISPATCHED, RECEIVED} \<Longrightarrow> o_status y \<in> {DISPATCHED, RECEIVED}"
  "order_moves x y \<Longrightarrow> o_status x \<notin> {DRAFT, SUBMITTED} \<Longrightarrow> o_status y = APPROVED \<Longrightarrow> x = y"
  "order_moves x y \<Longrightarrow> o_status x \<in> {DISPATCHED, RECEIVED} \<Longrightarrow> o_status y = DISPATCHED \<Longrightarrow> x = y"
  by (auto simp: order_moves_def lifecycle_def)

text \<open>A flight stays in agreement with the tables whatever step another request takes.\<close>

lemma dispatch_flight_stable:
  assumes "tables_step os ls os' ls'" and "dispatch_flight_ok inp p os ls"
  shows "dispatch_flight_ok inp p os' ls'"
proof -
  from assms(2) obtain x where x: "x \<in> set os" "o_id x = o_id (pp_order p)" "o_status x \<notin> {DRAFT, SUBMITTED}"
    "o_status x = APPROVED \<longrightarrow> o_version (pp_order p) = ta_expectedVersion inp"
    "line_key ` lines_in ls (o_id x) = line_key ` fst ` set (pp_lines p)" unfolding dispatch_flight_ok_def by blast
  from assms(1) x(1,3) obtain y where y: "y \<in> set os'" "order_moves x y"
    "line_key ` lines_in ls' (o_id x) = line_key ` lines_in ls (o_id x)" unfolding tables_step_def by blast
  have "o_id y = o_id x" using y(2) by (simp add: order_moves_def)
  then show ?thesis
    using x y lifecycle_past(1,3) [OF y(2)] unfolding dispatch_flight_ok_def by metis
qed

lemma receive_flight_stable:
  assumes "tables_step os ls os' ls'" and "receive_flight_ok inp p os ls"
  shows "receive_flight_ok inp p os' ls'"
proof -
  from assms(2) obtain x where x: "x \<in> set os" "o_id x = o_id (pp_order p)" "o_status x \<in> {DISPATCHED, RECEIVED}"
    "o_status x = DISPATCHED \<longrightarrow> o_version (pp_order p) = ta_expectedVersion inp"
    "line_key ` lines_in ls (o_id x) = line_key ` fst ` set (pp_lines p)"
    and q: "\<forall>(l, q, u) \<in> set (pp_lines p). 0 < q" unfolding receive_flight_ok_def by blast
  from x(3) have "o_status x \<noteq> DRAFT" by auto
  with assms(1) x(1) obtain y where y: "y \<in> set os'" "order_moves x y"
    "line_key ` lines_in ls' (o_id x) = line_key ` lines_in ls (o_id x)" unfolding tables_step_def by blast
  have "o_id y = o_id x" using y(2) by (simp add: order_moves_def)
  then show ?thesis
    using x y q lifecycle_past(2,4) [OF y(2)] unfolding receive_flight_ok_def by metis
qed

lemma flight_stable: "tables_step os ls os' ls' \<Longrightarrow> flight_ok os ls f \<Longrightarrow> flight_ok os' ls' f"
  by (cases f) (auto intro: dispatch_flight_stable receive_flight_stable)

section \<open>Preparing\<close>

lemma ensureOperationalDocument_tables:
  assumes "ensureOperationalDocument e m n l s db = Inr (db', did)"
  obtains docs k where "db' = db\<lparr>db_documents := docs, db_ids := k\<rparr>"
proof -
  from assms have "(\<exists>k. db' = db\<lparr>db_ids := k\<rparr>) \<or> (\<exists>docs k. db' = db\<lparr>db_documents := docs, db_ids := k\<rparr>)"
    by (auto simp: ensureOperationalDocument_def ensureDocumentWith_def Let_def split: if_splits option.splits)
  moreover have "db\<lparr>db_ids := k\<rparr> = db\<lparr>db_documents := db_documents db, db_ids := k\<rparr>" for k by simp
  ultimately show thesis using that by metis
qed

lemma ensureOperationalDocument_safe:
  fixes db :: "'z transfer_db_scheme"
  assumes "ensureOperationalDocument e m n l s db = Inr (db', did)"
  shows "tr_orders db' = tr_orders db" "tr_lines db' = tr_lines db" "stock_inv db' = stock_inv db"
  using assms by (auto elim!: ensureOperationalDocument_tables simp: stock_inv_def)

lemma set_fetchLines [simp]: "set (fetchLines db oid) = lines_in (tr_lines db) oid"
  by (simp add: fetchLines_def lines_in_def)

lemma expectPhase_Inr [res_iff]:
  "expectPhase from to inp o' = Inr () \<longleftrightarrow>
     (o_status o' = from \<or> o_status o' = to) \<and> (o_status o' = from \<longrightarrow> o_version o' = ta_expectedVersion inp)"
  by (auto simp: expectPhase_def res_iff)

lemma mapE_fst:
  assumes "mapE f xs = Inr ys" and "\<And>x y. f x = Inr y \<Longrightarrow> fst y = x"
  shows "fst ` set ys = set xs"
proof (intro equalityI subsetI)
  fix x assume "x \<in> fst ` set ys"
  then obtain y where "y \<in> set ys" "x = fst y" by blast
  with mapE_mem [OF assms(1)] assms(2) show "x \<in> set xs" by blast
next
  fix x assume "x \<in> set xs"
  from mapE_mem_source [OF assms(1) this] obtain y where "y \<in> set ys" "f x = Inr y" by blast
  with assms(2) [of x y] show "x \<in> fst ` set ys" by (metis imageI)
qed

lemma pickLot_fst: "pickLot e o' db l = Inr y \<Longrightarrow> fst y = l"
  by (auto simp: pickLot_def res_iff split: option.splits)

lemma receiveLine_Inr: "receiveLine db ov l = Inr (l', q, u) \<Longrightarrow> l' = l \<and> 0 < q"
  by (auto simp: receiveLine_def res_iff Let_def)

lemma prepareDispatch_Inr:
  fixes db :: "'z transfer_db_scheme"
  assumes "prepareDispatch e inp db = Inr (db', p)"
  obtains "pp_order p \<in> set (tr_orders db)" "o_id (pp_order p) = ta_orderId inp"
    "mapE (pickLot e (pp_order p) db) (fetchLines db (o_id (pp_order p))) = Inr (pp_lines p)"
    "o_status (pp_order p) \<in> {APPROVED, DISPATCHED}"
    "o_status (pp_order p) = APPROVED \<longrightarrow> o_version (pp_order p) = ta_expectedVersion inp"
    "ensureOperationalDocument e TRANSFER_ORDER_DISPATCH_MODULE (o_documentNo (pp_order p))
       (o_sourceLocationId (pp_order p)) ''APPROVED'' db = Inr (db', pp_docId p)"
  using assms that unfolding prepareDispatch_def
  by (auto simp: res_iff elim!: openOrder_Inr)

lemma prepareDispatch_flight:
  fixes db :: "'z transfer_db_scheme"
  assumes "prepareDispatch e inp db = Inr (db', p)"
  shows "dispatch_flight_ok inp p (tr_orders db') (tr_lines db')" and "safe_step db db'"
proof -
  from assms have mem: "pp_order p \<in> set (tr_orders db)"
    and lines: "mapE (pickLot e (pp_order p) db) (fetchLines db (o_id (pp_order p))) = Inr (pp_lines p)"
    and st: "o_status (pp_order p) \<in> {APPROVED, DISPATCHED}"
      "o_status (pp_order p) = APPROVED \<longrightarrow> o_version (pp_order p) = ta_expectedVersion inp"
    and doc: "ensureOperationalDocument e TRANSFER_ORDER_DISPATCH_MODULE (o_documentNo (pp_order p))
       (o_sourceLocationId (pp_order p)) ''APPROVED'' db = Inr (db', pp_docId p)"
    by (auto elim: prepareDispatch_Inr)
  note same = ensureOperationalDocument_safe [OF doc]
  have "fst ` set (pp_lines p) = lines_in (tr_lines db) (o_id (pp_order p))"
    using mapE_fst [OF lines pickLot_fst] by simp
  then show "dispatch_flight_ok inp p (tr_orders db') (tr_lines db')"
    unfolding dispatch_flight_ok_def same(1,2) using mem st by auto
  show "safe_step db db'" using same by (intro safe_step_same) simp_all
qed

lemma prepareReceive_Inr:
  fixes db :: "'z transfer_db_scheme"
  assumes "prepareReceive e inp ris db = Inr (db', p)"
  obtains ov where "pp_order p \<in> set (tr_orders db)" "o_id (pp_order p) = ta_orderId inp"
    "mapE (receiveLine db ov) (fetchLines db (o_id (pp_order p))) = Inr (pp_lines p)"
    "o_status (pp_order p) \<in> {DISPATCHED, RECEIVED}"
    "o_status (pp_order p) = DISPATCHED \<longrightarrow> o_version (pp_order p) = ta_expectedVersion inp"
    "ensureOperationalDocument e TRANSFER_ORDER_RECEIPT_MODULE (o_documentNo (pp_order p))
       (o_destinationLocationId (pp_order p)) ''DISPATCHED'' db = Inr (db', pp_docId p)"
  using assms that unfolding prepareReceive_def
  by (auto simp: res_iff Let_def lockOrder_def split: option.splits dest!: find_Some_mem)

lemma prepareReceive_flight:
  fixes db :: "'z transfer_db_scheme"
  assumes "prepareReceive e inp ris db = Inr (db', p)"
  shows "receive_flight_ok inp p (tr_orders db') (tr_lines db')" and "safe_step db db'"
proof -
  from assms obtain ov where mem: "pp_order p \<in> set (tr_orders db)"
    and lines: "mapE (receiveLine db ov) (fetchLines db (o_id (pp_order p))) = Inr (pp_lines p)"
    and st: "o_status (pp_order p) \<in> {DISPATCHED, RECEIVED}"
      "o_status (pp_order p) = DISPATCHED \<longrightarrow> o_version (pp_order p) = ta_expectedVersion inp"
    and doc: "ensureOperationalDocument e TRANSFER_ORDER_RECEIPT_MODULE (o_documentNo (pp_order p))
       (o_destinationLocationId (pp_order p)) ''DISPATCHED'' db = Inr (db', pp_docId p)"
    by (auto elim: prepareReceive_Inr)
  note same = ensureOperationalDocument_safe [OF doc]
  have f: "fst y = x" if "receiveLine db ov x = Inr y" for x y
    using that by (cases y) (auto dest: receiveLine_Inr)
  have "fst ` set (pp_lines p) = lines_in (tr_lines db) (o_id (pp_order p))"
    using mapE_fst [OF lines f] by simp
  moreover have "\<forall>(l, q, u) \<in> set (pp_lines p). 0 < q"
    using mapE_mem [OF lines] receiveLine_Inr by fastforce
  ultimately show "receive_flight_ok inp p (tr_orders db') (tr_lines db')"
    unfolding receive_flight_ok_def same(1,2) using mem st by auto
  show "safe_step db db'" using same by (intro safe_step_same) simp_all
qed

section \<open>Finalizing\<close>

text \<open>Stamping lines of one order leaves the lines of the other orders alone.\<close>

definition stamps :: "(tline \<Rightarrow> tline \<Rightarrow> bool) \<Rightarrow> tline set \<Rightarrow> bool" where
  "stamps R K \<longleftrightarrow> (\<forall>l0 l. R l0 l \<longrightarrow> tl_orderId l = tl_orderId l0 \<and> line_key l = line_key l0 \<and>
     (l = l0 \<or> (\<exists>k \<in> K. tl_id k = tl_id l0)))"

lemma stampsD: "stamps R K \<Longrightarrow> R l0 l \<Longrightarrow> tl_orderId l = tl_orderId l0 \<and> line_key l = line_key l0 \<and>
     (l = l0 \<or> (\<exists>k \<in> K. tl_id k = tl_id l0))"
  by (simp add: stamps_def)

lemma stamped_foreign:
  assumes ok: "tables_ok os ls0"
    and R: "stamps R K"
    and keys: "line_key ` lines_in ls0 i = line_key ` K"
    and l0: "R l0 l" "l0 \<in> set ls0" "tl_orderId l0 \<noteq> i"
  shows "l = l0"
proof (rule ccontr)
  assume "l \<noteq> l0"
  with stampsD [OF R l0(1)] obtain k where k: "k \<in> K" "tl_id k = tl_id l0" by auto
  then have "line_key k \<in> line_key ` lines_in ls0 i" using keys by blast
  then obtain m where "m \<in> set ls0" "tl_orderId m = i" "tl_id m = tl_id k"
    by (auto simp: lines_in_def line_key_def)
  with k(2) l0(2,3) ok show False
    unfolding tables_ok_def by (metis distinct_map inj_onD)
qed

lemma stamped_none:
  assumes ok: "tables_ok os ls0" and all: "list_all2 R ls0 ls"
    and R: "stamps R K"
    and keys: "line_key ` lines_in ls0 i = line_key ` K"
    and own: "\<And>l0 l. l0 \<in> lines_in ls0 i \<Longrightarrow> R l0 l \<Longrightarrow> l = l0"
  shows "ls = ls0"
proof (rule nth_equalityI)
  show "length ls = length ls0" using all by (simp add: list_all2_lengthD)
  fix n assume n: "n < length ls"
  then have "R (ls0 ! n) (ls ! n)" "ls0 ! n \<in> set ls0" using all by (auto simp: list_all2_conv_all_nth)
  with own [of "ls0 ! n"] stamped_foreign [OF ok R keys] show "ls ! n = ls0 ! n"
    by (auto simp: lines_in_def)
qed

lemma stamped_tables:
  assumes ok: "tables_ok os ls0" and all: "list_all2 R ls0 ls"
    and R: "stamps R K"
    and keys: "line_key ` lines_in ls0 i = line_key ` K"
  shows "distinct (map tl_id ls)"
    and "\<And>j. j \<noteq> i \<Longrightarrow> lines_in ls j = lines_in ls0 j"
    and "\<And>j. line_key ` lines_in ls j = line_key ` lines_in ls0 j"
    and "\<And>l j. l \<in> lines_in ls j \<Longrightarrow> \<exists>l0 \<in> lines_in ls0 j. R l0 l"
proof -
  have rows: "\<exists>l0 \<in> set ls0. R l0 l" if "l \<in> set ls" for l using all that by (rule all2_mem)
  have cols: "\<exists>l \<in> set ls. R l0 l" if "l0 \<in> set ls0" for l0
    using all that by (induction rule: list_all2_induct) auto
  have ids: "map tl_id ls = map tl_id ls0"
    using all by (induction rule: list_all2_induct) (use stampsD [OF R] in \<open>auto simp: line_key_def\<close>)
  show "distinct (map tl_id ls)" using ok ids by (simp add: tables_ok_def)
  show source: "\<exists>l0 \<in> lines_in ls0 j. R l0 l" if "l \<in> lines_in ls j" for l j
  proof -
    from that rows [of l] obtain l0 where "l0 \<in> set ls0" "R l0 l" by (auto simp: lines_in_def)
    moreover have "tl_orderId l0 = j" using that stampsD [OF R \<open>R l0 l\<close>] by (simp add: lines_in_def)
    ultimately show ?thesis by (auto simp: lines_in_def)
  qed
  show "line_key ` lines_in ls j = line_key ` lines_in ls0 j" for j
  proof (intro equalityI subsetI)
    fix z assume "z \<in> line_key ` lines_in ls j"
    then obtain l where l: "l \<in> lines_in ls j" "z = line_key l" by blast
    from source [OF l(1)] obtain l0 where "l0 \<in> lines_in ls0 j" "R l0 l" by blast
    then show "z \<in> line_key ` lines_in ls0 j" using stampsD [OF R] l(2) by fastforce
  next
    fix z assume "z \<in> line_key ` lines_in ls0 j"
    then obtain l0 where l0: "l0 \<in> set ls0" "tl_orderId l0 = j" "z = line_key l0" by (auto simp: lines_in_def)
    from cols [OF l0(1)] obtain l where "l \<in> set ls" "R l0 l" by blast
    then have "l \<in> lines_in ls j" "line_key l = z" using stampsD [OF R, of l0 l] l0 by (auto simp: lines_in_def)
    then show "z \<in> line_key ` lines_in ls j" by blast
  qed
  note foreign = stamped_foreign [OF ok R keys]
  show "lines_in ls j = lines_in ls0 j" if "j \<noteq> i" for j
  proof (intro equalityI subsetI)
    fix l assume l: "l \<in> lines_in ls j"
    from source [OF l] obtain l0 where l0: "l0 \<in> lines_in ls0 j" "R l0 l" by blast
    have "l = l0" by (rule foreign [OF l0(2)]) (use l0(1) that in \<open>auto simp: lines_in_def\<close>)
    with l0(1) show "l \<in> lines_in ls0 j" by simp
  next
    fix l0 assume l0: "l0 \<in> lines_in ls0 j"
    then obtain l where l: "l \<in> set ls" "R l0 l" using cols [of l0] by (auto simp: lines_in_def)
    have "l = l0" by (rule foreign [OF l(2)]) (use l0 that in \<open>auto simp: lines_in_def\<close>)
    with l(1) l0 show "l0 \<in> lines_in ls j" by (simp add: lines_in_def)
  qed
qed

lemma same_line:
  assumes "tables_ok os ls" and "l \<in> set ls" and "line_key ` lines_in ls i = line_key ` K" and "k \<in> K"
    and "tl_id k = tl_id l"
  shows "line_key k = line_key l"
proof -
  from assms(3,4) have "line_key k \<in> line_key ` lines_in ls i" by blast
  then obtain m where m: "m \<in> set ls" "line_key m = line_key k" by (auto simp: lines_in_def)
  then have "tl_id m = tl_id l" using assms(5) by (simp add: line_key_def)
  with m assms(1,2) show ?thesis unfolding tables_ok_def by (metis distinct_map inj_onD)
qed

lemma dispatched_as_key: "stamps (dispatched_as P) (fst ` P)"
  unfolding stamps_def by (force simp: dispatched_as_def line_key_def)

lemma received_as_key: "stamps (received_as P) (fst ` P)"
  unfolding stamps_def by (force simp: received_as_def line_key_def)

lemma dispatched_line_ok:
  assumes ok: "tables_ok os ls0" and l0: "l0 \<in> set ls0" and keys: "line_key ` lines_in ls0 i = line_key ` fst ` P"
    and R: "dispatched_as P l0 l"
  shows "line_ok l"
proof -
  have ok0: "line_ok l0" using ok l0 by (simp add: tables_ok_def list_all_iff)
  show ?thesis
  proof (cases "l = l0")
    case False
    with R obtain k lot pl where k: "(k, lot) \<in> P" "tl_id k = tl_id l0" and none: "tl_dispatchPostingLineId l0 = None"
      "tl_receiptPostingLineId l0 = None"
      and l: "l = l0\<lparr>tl_lotId := Some lot, tl_dispatchedQuantity := Some (tl_baseQuantity k),
               tl_dispatchPostingLineId := Some pl, tl_status := DISPATCHED\<rparr>"
      unfolding dispatched_as_def by blast
    have "k \<in> fst ` P" using k(1) by force
    from same_line [OF ok l0 keys this k(2)] have "tl_baseQuantity k = tl_baseQuantity l0" by (simp add: line_key_def)
    with ok0 none l show ?thesis by (simp add: line_ok_def)
  qed (use ok0 in simp)
qed

lemma received_line_ok:
  assumes ok: "line_ok l0" and R: "received_as P l0 l" and pos: "\<forall>(l, q, u) \<in> P. 0 < q"
  shows "line_ok l"
proof (cases "l = l0")
  case False
  with R obtain k q u pl d where k: "(k, (q, u)) \<in> P" and d: "tl_dispatchedQuantity l0 = Some d" "q \<le> d"
    and l: "l = l0\<lparr>tl_receivedQuantity := Some q, tl_receiptPostingLineId := Some pl, tl_status := RECEIVED\<rparr>"
    unfolding received_as_def by blast
  have "0 < q" using pos k by auto
  with ok d l show ?thesis by (auto simp: line_ok_def split: if_splits)
qed (use ok in simp)

lemma advanceOrder_Inr:
  assumes "advanceOrder inp o' from to taken f audit db = Inr (db', v)"
  obtains (moved) x db1 u where "updateOrder (o_id o') from (ta_expectedVersion inp) f db = Some (db1, u)"
      "x \<in> set (tr_orders db)" "o_id x = o_id o'" "o_status x = from" "o_version x = ta_expectedVersion inp"
      "db1 = db\<lparr>tr_orders := update_where (\<lambda>y. o_id y = o_id o' \<and> o_status y = from \<and>
         o_version y = ta_expectedVersion inp) f (tr_orders db)\<rparr>" "db' = writeAudit audit db1"
      "v = (u, fetchLines db1 (o_id o'))" "u = f x"
    | (before) x where "x \<in> set (tr_orders db)" "o_id x = o_id o'" "o_status x = to" "db' = db"
      "v = (x, fetchLines db (o_id o'))"
proof (cases "updateOrder (o_id o') from (ta_expectedVersion inp) f db")
  case None
  with assms show thesis
    by (auto simp: advanceOrder_def split: option.splits if_splits dest!: find_Some_mem intro: before)
next
  case (Some du)
  obtain db1 u where du: "du = (db1, u)" by fastforce
  from updateOrder_Some [OF Some [unfolded du]] obtain x where
    x: "x \<in> set (tr_orders db)" "o_id x = o_id o'" "o_status x = from" "o_version x = ta_expectedVersion inp" "u = f x"
    "db1 = db\<lparr>tr_orders := update_where (\<lambda>y. o_id y = o_id o' \<and> o_status y = from \<and>
       o_version y = ta_expectedVersion inp) f (tr_orders db)\<rparr>" .
  have "db' = writeAudit audit db1" "v = (u, fetchLines db1 (o_id o'))"
    using assms by (auto simp: advanceOrder_def Some du split: if_splits)
  with x Some du show thesis by (intro moved) simp_all
qed

lemma finalizeDispatch_Inr:
  fixes db :: "'z transfer_db_scheme"
  assumes "finalizeDispatch inp p r db = Inr (db', v)"
  obtains ls where "list_all2 (dispatched_as (set (pp_lines p))) (tr_lines db) ls"
    "\<forall>l \<in> set ls. tl_id l \<in> tl_id ` fst ` set (pp_lines p) \<longrightarrow> tl_dispatchPostingLineId l \<noteq> None"
    "advanceOrder inp (pp_order p) APPROVED DISPATCHED (\<lambda>x. o_dispatchDocumentId x = Some (pp_docId p))
       (\<lambda>x. x\<lparr>o_status := DISPATCHED, o_dispatchDocumentId := Some (pp_docId p),
              o_dispatchedBy := Some (ac_id (pp_actor p)), o_version := o_version (pp_order p) + 1\<rparr>)
       (orderAudit (pp_actor p) (o_sourceLocationId (pp_order p)) ''transfer_order.dispatched'' (o_id (pp_order p)))
       (db\<lparr>tr_lines := ls\<rparr>) = Inr (db', v)"
proof -
  from assms obtain db1 where loop: "foldE (dispatchLine (postingLineIds (pr_postingId r) db)) (pp_lines p) db = Inr db1"
    and adv: "advanceOrder inp (pp_order p) APPROVED DISPATCHED (\<lambda>x. o_dispatchDocumentId x = Some (pp_docId p))
       (\<lambda>x. x\<lparr>o_status := DISPATCHED, o_dispatchDocumentId := Some (pp_docId p),
              o_dispatchedBy := Some (ac_id (pp_actor p)), o_version := o_version (pp_order p) + 1\<rparr>)
       (orderAudit (pp_actor p) (o_sourceLocationId (pp_order p)) ''transfer_order.dispatched'' (o_id (pp_order p)))
       db1 = Inr (db', v)"
    by (auto simp: finalizeDispatch_def Let_def res_iff)
  from dispatching.loop [OF loop] obtain ls where "db1 = db\<lparr>tr_lines := ls\<rparr>"
    "list_all2 (dispatched_as (set (pp_lines p))) (tr_lines db) ls"
    "\<forall>l \<in> set ls. tl_id l \<in> (tl_id \<circ> fst) ` set (pp_lines p) \<longrightarrow> tl_dispatchPostingLineId l \<noteq> None" by blast
  with adv that show thesis by (simp add: image_comp)
qed

lemma finalizeDispatch_safe:
  fixes db :: "'z transfer_db_scheme"
  assumes fin: "finalizeDispatch inp p r db = Inr (db', v)"
    and flight: "tables_ok (tr_orders db) (tr_lines db) \<Longrightarrow> dispatch_flight_ok inp p (tr_orders db) (tr_lines db)"
  shows "safe_step db db'"
proof -
  from fin obtain ls where all: "list_all2 (dispatched_as (set (pp_lines p))) (tr_lines db) ls"
    and stamped: "\<forall>l \<in> set ls. tl_id l \<in> tl_id ` fst ` set (pp_lines p) \<longrightarrow> tl_dispatchPostingLineId l \<noteq> None"
    and adv: "advanceOrder inp (pp_order p) APPROVED DISPATCHED (\<lambda>x. o_dispatchDocumentId x = Some (pp_docId p))
       (\<lambda>x. x\<lparr>o_status := DISPATCHED, o_dispatchDocumentId := Some (pp_docId p),
              o_dispatchedBy := Some (ac_id (pp_actor p)), o_version := o_version (pp_order p) + 1\<rparr>)
       (orderAudit (pp_actor p) (o_sourceLocationId (pp_order p)) ''transfer_order.dispatched'' (o_id (pp_order p)))
       (db\<lparr>tr_lines := ls\<rparr>) = Inr (db', v)" by (rule finalizeDispatch_Inr)
  let ?K = "fst ` set (pp_lines p)"
  let ?i = "o_id (pp_order p)"
  have tables: "tables_ok (tr_orders db') (tr_lines db') \<and>
      tables_step (tr_orders db) (tr_lines db) (tr_orders db') (tr_lines db')"
    if ok: "tables_ok (tr_orders db) (tr_lines db)"
  proof -
    from flight [OF ok] obtain x where x: "x \<in> set (tr_orders db)" "o_id x = ?i"
      "o_status x = APPROVED \<longrightarrow> o_version (pp_order p) = ta_expectedVersion inp"
      "line_key ` lines_in (tr_lines db) (o_id x) = line_key ` ?K" unfolding dispatch_flight_ok_def by blast
    note st = stamped_tables [OF ok all dispatched_as_key x(4)]
    have sent: "tl_dispatchPostingLineId l \<noteq> None" if "l \<in> lines_in ls (o_id x)" for l
    proof -
      have "line_key l \<in> line_key ` ?K" using that st(3) [of "o_id x"] x(4) by blast
      then have "tl_id l \<in> tl_id ` ?K" by (auto simp: line_key_def)
      with stamped that show ?thesis by (auto simp: lines_in_def)
    qed
    have source: "\<exists>l0 \<in> set (tr_lines db). dispatched_as (set (pp_lines p)) l0 l" if "l \<in> set ls" for l
      using all that by (rule all2_mem)
    have lok: "line_ok l" if "l \<in> set ls" for l
      using source [OF that] dispatched_line_ok [OF ok _ x(4)] by blast
    from adv show ?thesis
    proof (cases rule: advanceOrder_Inr)
      case (moved y db1 u)
      have "y = x" using same_row [OF ok _ x(1)] moved(2,3) x(2) by simp
      with moved have y: "o_status x = APPROVED" "o_version x = ta_expectedVersion inp" by simp_all
      have rec: "tl_receiptPostingLineId l = None" if "l \<in> lines_in ls (o_id x)" for l
      proof -
        from st(4) [OF that] obtain l0 where "l0 \<in> lines_in (tr_lines db) (o_id x)"
          "dispatched_as (set (pp_lines p)) l0 l" by blast
        with order_ok_of [OF ok x(1)] y(1) show ?thesis by (auto simp: order_ok_def dispatched_as_def)
      qed
      let ?f = "\<lambda>x. x\<lparr>o_status := DISPATCHED, o_dispatchDocumentId := Some (pp_docId p),
              o_dispatchedBy := Some (ac_id (pp_actor p)), o_version := o_version (pp_order p) + 1\<rparr>"
      let ?hit = "\<lambda>y. o_id y = ?i \<and> o_status y = APPROVED \<and> o_version y = ta_expectedVersion inp"
      have mv: "order_moves x (?f x)" using y x(3) by (simp add: order_moves_def lifecycle_def)
      have new: "order_ok (lines_in ls (o_id x)) (?f x)"
        using order_ok_of [OF ok x(1)] y(1) sent rec by (auto simp: order_ok_def)
      have hit: "?hit x" using x(2) y by simp
      have only: "?hit z \<Longrightarrow> o_id z = o_id x" for z using x(2) by simp
      have lok': "l \<in> set ls \<Longrightarrow> tl_orderId l = o_id x \<Longrightarrow> line_ok l" for l by (rule lok)
      have keys: "o_status x \<noteq> DRAFT \<Longrightarrow> line_key ` lines_in ls (o_id x) = line_key ` lines_in (tr_lines db) (o_id x)"
        by (rule st(3))
      note ch = tables_change [where os = "tr_orders db" and ls = "tr_lines db" and ls' = ls and x = x and
          hit = ?hit and f = ?f, OF ok x(1) hit only mv st(1) lok' st(2) new keys]
      have e: "tr_orders db' = update_where ?hit ?f (tr_orders db)" "tr_lines db' = ls"
        unfolding moved(7) writeAudit_tables moved(6) by simp_all
      show ?thesis unfolding e using ch by (rule conjI)
    next
      case (before y)
      have "y = x" using same_row [OF ok _ x(1)] before(1,2) x(2) by simp
      with before(3) have y: "o_status x = DISPATCHED" by simp
      have "l = l0" if "l0 \<in> lines_in (tr_lines db) (o_id x)" "dispatched_as (set (pp_lines p)) l0 l" for l0 l
        using that order_ok_of [OF ok x(1)] y by (auto simp: order_ok_def dispatched_as_def)
      from stamped_none [OF ok all dispatched_as_key x(4) this] have same: "ls = tr_lines db" by blast
      have e: "tr_orders db' = tr_orders db" "tr_lines db' = tr_lines db" unfolding before(4) same by simp_all
      show ?thesis unfolding e using ok tables_step_refl by (rule conjI)
    qed
  qed
  have inv: "stock_inv db' = stock_inv db"
    using adv by (cases rule: advanceOrder_Inr) simp_all
  show ?thesis unfolding safe_step_def using tables inv by simp
qed

lemma finalizeReceive_Inr:
  fixes db :: "'z transfer_db_scheme"
  assumes "finalizeReceive inp p r db = Inr (db', v)"
  obtains ls where "list_all2 (received_as (set (pp_lines p))) (tr_lines db) ls"
    "\<forall>l \<in> set ls. tl_id l \<in> tl_id ` fst ` set (pp_lines p) \<longrightarrow> tl_receiptPostingLineId l \<noteq> None"
    "advanceOrder inp (pp_order p) DISPATCHED RECEIVED (\<lambda>x. o_receiptDocumentId x = Some (pp_docId p))
       (\<lambda>x. x\<lparr>o_status := RECEIVED, o_receiptDocumentId := Some (pp_docId p),
              o_receivedBy := Some (ac_id (pp_actor p)), o_version := o_version (pp_order p) + 1\<rparr>)
       (orderAudit (pp_actor p) (o_destinationLocationId (pp_order p)) ''transfer_order.received'' (o_id (pp_order p)))
       (db\<lparr>tr_lines := ls\<rparr>) = Inr (db', v)"
proof -
  from assms obtain db1 where loop: "foldE (receiptLine (postingLineIds (pr_postingId r) db)) (pp_lines p) db = Inr db1"
    and adv: "advanceOrder inp (pp_order p) DISPATCHED RECEIVED (\<lambda>x. o_receiptDocumentId x = Some (pp_docId p))
       (\<lambda>x. x\<lparr>o_status := RECEIVED, o_receiptDocumentId := Some (pp_docId p),
              o_receivedBy := Some (ac_id (pp_actor p)), o_version := o_version (pp_order p) + 1\<rparr>)
       (orderAudit (pp_actor p) (o_destinationLocationId (pp_order p)) ''transfer_order.received'' (o_id (pp_order p)))
       db1 = Inr (db', v)"
    by (auto simp: finalizeReceive_def Let_def res_iff)
  from receiving.loop [OF loop] obtain ls where "db1 = db\<lparr>tr_lines := ls\<rparr>"
    "list_all2 (received_as (set (pp_lines p))) (tr_lines db) ls"
    "\<forall>l \<in> set ls. tl_id l \<in> (tl_id \<circ> fst) ` set (pp_lines p) \<longrightarrow> tl_receiptPostingLineId l \<noteq> None" by blast
  with adv that show thesis by (simp add: image_comp)
qed

lemma finalizeReceive_safe:
  fixes db :: "'z transfer_db_scheme"
  assumes fin: "finalizeReceive inp p r db = Inr (db', v)"
    and flight: "tables_ok (tr_orders db) (tr_lines db) \<Longrightarrow> receive_flight_ok inp p (tr_orders db) (tr_lines db)"
  shows "safe_step db db'"
proof -
  from fin obtain ls where all: "list_all2 (received_as (set (pp_lines p))) (tr_lines db) ls"
    and stamped: "\<forall>l \<in> set ls. tl_id l \<in> tl_id ` fst ` set (pp_lines p) \<longrightarrow> tl_receiptPostingLineId l \<noteq> None"
    and adv: "advanceOrder inp (pp_order p) DISPATCHED RECEIVED (\<lambda>x. o_receiptDocumentId x = Some (pp_docId p))
       (\<lambda>x. x\<lparr>o_status := RECEIVED, o_receiptDocumentId := Some (pp_docId p),
              o_receivedBy := Some (ac_id (pp_actor p)), o_version := o_version (pp_order p) + 1\<rparr>)
       (orderAudit (pp_actor p) (o_destinationLocationId (pp_order p)) ''transfer_order.received'' (o_id (pp_order p)))
       (db\<lparr>tr_lines := ls\<rparr>) = Inr (db', v)" by (rule finalizeReceive_Inr)
  let ?K = "fst ` set (pp_lines p)"
  let ?i = "o_id (pp_order p)"
  have tables: "tables_ok (tr_orders db') (tr_lines db') \<and>
      tables_step (tr_orders db) (tr_lines db) (tr_orders db') (tr_lines db')"
    if ok: "tables_ok (tr_orders db) (tr_lines db)"
  proof -
    from flight [OF ok] obtain x where x: "x \<in> set (tr_orders db)" "o_id x = ?i"
      "o_status x = DISPATCHED \<longrightarrow> o_version (pp_order p) = ta_expectedVersion inp"
      "line_key ` lines_in (tr_lines db) (o_id x) = line_key ` ?K"
      and pos: "\<forall>(l, q, u) \<in> set (pp_lines p). 0 < q" unfolding receive_flight_ok_def by blast
    note st = stamped_tables [OF ok all received_as_key x(4)]
    have got: "tl_receiptPostingLineId l \<noteq> None" if "l \<in> lines_in ls (o_id x)" for l
    proof -
      have "line_key l \<in> line_key ` ?K" using that st(3) [of "o_id x"] x(4) by blast
      then have "tl_id l \<in> tl_id ` ?K" by (auto simp: line_key_def)
      with stamped that show ?thesis by (auto simp: lines_in_def)
    qed
    have lok: "line_ok l" if "l \<in> set ls" for l
    proof -
      from all that have "\<exists>l0 \<in> set (tr_lines db). received_as (set (pp_lines p)) l0 l" by (rule all2_mem)
      then obtain l0 where "l0 \<in> set (tr_lines db)" and r: "received_as (set (pp_lines p)) l0 l" by blast
      then have "line_ok l0" using ok by (simp add: tables_ok_def list_all_iff)
      from received_line_ok [OF this r pos] show ?thesis .
    qed
    from adv show ?thesis
    proof (cases rule: advanceOrder_Inr)
      case (moved y db1 u)
      have "y = x" using same_row [OF ok _ x(1)] moved(2,3) x(2) by simp
      with moved have y: "o_status x = DISPATCHED" "o_version x = ta_expectedVersion inp" by simp_all
      have sent: "tl_dispatchPostingLineId l \<noteq> None" if "l \<in> lines_in ls (o_id x)" for l
      proof -
        from st(4) [OF that] obtain l0 where "l0 \<in> lines_in (tr_lines db) (o_id x)"
          "received_as (set (pp_lines p)) l0 l" by blast
        with order_ok_of [OF ok x(1)] y(1) show ?thesis by (auto simp: order_ok_def received_as_def)
      qed
      let ?f = "\<lambda>x. x\<lparr>o_status := RECEIVED, o_receiptDocumentId := Some (pp_docId p),
              o_receivedBy := Some (ac_id (pp_actor p)), o_version := o_version (pp_order p) + 1\<rparr>"
      let ?hit = "\<lambda>y. o_id y = ?i \<and> o_status y = DISPATCHED \<and> o_version y = ta_expectedVersion inp"
      have mv: "order_moves x (?f x)" using y x(3) by (simp add: order_moves_def lifecycle_def)
      have new: "order_ok (lines_in ls (o_id x)) (?f x)"
        using order_ok_of [OF ok x(1)] y(1) sent got by (auto simp: order_ok_def)
      have hit: "?hit x" using x(2) y by simp
      have only: "?hit z \<Longrightarrow> o_id z = o_id x" for z using x(2) by simp
      have lok': "l \<in> set ls \<Longrightarrow> tl_orderId l = o_id x \<Longrightarrow> line_ok l" for l by (rule lok)
      have keys: "o_status x \<noteq> DRAFT \<Longrightarrow> line_key ` lines_in ls (o_id x) = line_key ` lines_in (tr_lines db) (o_id x)"
        by (rule st(3))
      note ch = tables_change [where os = "tr_orders db" and ls = "tr_lines db" and ls' = ls and x = x and
          hit = ?hit and f = ?f, OF ok x(1) hit only mv st(1) lok' st(2) new keys]
      have e: "tr_orders db' = update_where ?hit ?f (tr_orders db)" "tr_lines db' = ls"
        unfolding moved(7) writeAudit_tables moved(6) by simp_all
      show ?thesis unfolding e using ch by (rule conjI)
    next
      case (before y)
      have "y = x" using same_row [OF ok _ x(1)] before(1,2) x(2) by simp
      with before(3) have y: "o_status x = RECEIVED" by simp
      have "l = l0" if "l0 \<in> lines_in (tr_lines db) (o_id x)" "received_as (set (pp_lines p)) l0 l" for l0 l
        using that order_ok_of [OF ok x(1)] y by (auto simp: order_ok_def received_as_def)
      from stamped_none [OF ok all received_as_key x(4) this] have same: "ls = tr_lines db" by blast
      have e: "tr_orders db' = tr_orders db" "tr_lines db' = tr_lines db" unfolding before(4) same by simp_all
      show ?thesis unfolding e using ok tables_step_refl by (rule conjI)
    qed
  qed
  have inv: "stock_inv db' = stock_inv db"
    using adv by (cases rule: advanceOrder_Inr) simp_all
  show ?thesis unfolding safe_step_def using tables inv by simp
qed

section \<open>Interleaved requests\<close>

text \<open>
  The state is the database with the flights. A step is one transaction of one request, the end of a
  process that had a flight (\<open>lost\<close>), or a transaction of another module, which does not write the
  two tables and keeps the constraints of the balance table (\<open>foreign\<close>).
\<close>

inductive transfer_step ::
  "env \<Rightarrow> 'z transfer_db_scheme poster \<Rightarrow> 'z transfer_db_scheme \<times> flight list \<Rightarrow>
   'z transfer_db_scheme \<times> flight list \<Rightarrow> bool"
  for e :: env and poster :: "'z transfer_db_scheme poster" where
  created: "createTransferOrderDraft e now cinp db = (db', res) \<Longrightarrow> transfer_step e poster (db, fs) (db', fs)"
| updated: "updateTransferOrderDraft e uinp db = (db', res) \<Longrightarrow> transfer_step e poster (db, fs) (db', fs)"
| submitted: "submitTransferOrder inp db = (db', res) \<Longrightarrow> transfer_step e poster (db, fs) (db', fs)"
| approved: "approveTransferOrder inp db = (db', res) \<Longrightarrow> transfer_step e poster (db, fs) (db', fs)"
| cancelled: "cancelTransferOrder inp reason db = (db', res) \<Longrightarrow> transfer_step e poster (db, fs) (db', fs)"
| dispatch_prepared: "prepareDispatch e inp db = Inr (db', p) \<Longrightarrow>
    transfer_step e poster (db, fs) (db', DispatchPrepared inp p # fs)"
| dispatch_posted: "poster (dispatchPosting inp p) db = (db', Inr r) \<Longrightarrow>
    transfer_step e poster (db, fs @ DispatchPrepared inp p # fs') (db', fs @ DispatchPosted inp p r # fs')"
| dispatch_refused: "poster (dispatchPosting inp p) db = (db', Inl err) \<Longrightarrow>
    transfer_step e poster (db, fs @ DispatchPrepared inp p # fs') (db', fs @ DispatchFailed inp p # fs')"
| dispatch_compensated:
    "transfer_step e poster (db, fs @ DispatchFailed inp p # fs')
       (compensateDocument (pp_docId p) ''APPROVED'' db, fs @ fs')"
| dispatch_finalized: "run_tx (finalizeDispatch inp p r) db = (db', res) \<Longrightarrow>
    transfer_step e poster (db, fs @ DispatchPosted inp p r # fs') (db', fs @ fs')"
| receive_prepared: "prepareReceive e inp ris db = Inr (db', q) \<Longrightarrow>
    transfer_step e poster (db, fs) (db', ReceivePrepared inp q # fs)"
| receive_posted: "poster (receivePosting inp q) db = (db', Inr r) \<Longrightarrow>
    transfer_step e poster (db, fs @ ReceivePrepared inp q # fs') (db', fs @ ReceivePosted inp q r # fs')"
| receive_refused: "poster (receivePosting inp q) db = (db', Inl err) \<Longrightarrow>
    transfer_step e poster (db, fs @ ReceivePrepared inp q # fs') (db', fs @ ReceiveFailed inp q # fs')"
| receive_compensated:
    "transfer_step e poster (db, fs @ ReceiveFailed inp q # fs')
       (compensateDocument (pp_docId q) ''DISPATCHED'' db, fs @ fs')"
| receive_finalized: "run_tx (finalizeReceive inp q r) db = (db', res) \<Longrightarrow>
    transfer_step e poster (db, fs @ ReceivePosted inp q r # fs') (db', fs @ fs')"
| lost: "transfer_step e poster (db, fs @ f # fs') (db, fs @ fs')"
| foreign: "tr_orders db' = tr_orders db \<Longrightarrow> tr_lines db' = tr_lines db \<Longrightarrow> stock_inv db' \<Longrightarrow>
    transfer_step e poster (db, fs) (db', fs)"

inductive transfer_reachable ::
  "env \<Rightarrow> 'z transfer_db_scheme poster \<Rightarrow> 'z transfer_db_scheme \<times> flight list \<Rightarrow> bool"
  for e :: env and poster :: "'z transfer_db_scheme poster" where
  start: "tr_orders db = [] \<Longrightarrow> tr_lines db = [] \<Longrightarrow> stock_inv db \<Longrightarrow> transfer_reachable e poster (db, [])"
| onward: "transfer_reachable e poster w \<Longrightarrow> transfer_step e poster w w' \<Longrightarrow> transfer_reachable e poster w'"

definition world_ok :: "'z transfer_db_scheme \<times> flight list \<Rightarrow> bool" where
  "world_ok w \<longleftrightarrow> stock_inv (fst w) \<and> tables_ok (tr_orders (fst w)) (tr_lines (fst w)) \<and>
     list_all (flight_ok (tr_orders (fst w)) (tr_lines (fst w))) (snd w)"

lemma safe_step_world:
  assumes "world_ok (db, fs)" and "safe_step db db'" and "set fs' \<subseteq> set fs \<union> F"
    and "\<And>f. f \<in> F \<Longrightarrow> flight_ok (tr_orders db') (tr_lines db') f"
  shows "world_ok (db', fs') \<and> tables_step (tr_orders db) (tr_lines db) (tr_orders db') (tr_lines db')"
  using assms flight_stable by (fastforce simp: world_ok_def safe_step_def list_all_iff)

lemma safe_step_keeps:
  assumes "world_ok (db, fs)" and "safe_step db db'"
  shows "world_ok (db', fs) \<and> tables_step (tr_orders db) (tr_lines db) (tr_orders db') (tr_lines db')"
  using safe_step_world [where F = "{}" and fs' = fs, OF assms] by simp

lemma compensate_safe:
  fixes db :: "'z transfer_db_scheme"
  shows "safe_step db (compensateDocument did status db)"
  by (rule safe_step_same) (simp_all add: compensateDocument_def stock_inv_def)

context transfer_poster
begin

lemma poster_safe:
  assumes "stock_inv db" and "poster inp db = (db', res)"
  shows "safe_step db db'"
proof (cases res)
  case (Inl err)
  then have "db' = db" using assms(2) by (intro rejected) simp
  then show ?thesis by simp
next
  case (Inr r)
  with frame [OF assms(1)] assms(2) have "stock_frame db db'" "stock_inv db'" by auto
  then show ?thesis by (intro safe_step_same) (simp_all add: frame_tables)
qed

lemma step_world:
  assumes "transfer_step e poster w w'" and "world_ok w"
  shows "world_ok w' \<and> tables_step (tr_orders (fst w)) (tr_lines (fst w)) (tr_orders (fst w')) (tr_lines (fst w'))"
  using assms
proof (induction rule: transfer_step.induct)
  case (created now cinp db db' res fs)
  show ?case using safe_step_keeps [OF created.prems create_step [OF created.hyps]] by simp
next
  case (updated uinp db db' res fs)
  show ?case using safe_step_keeps [OF updated.prems update_step [OF updated.hyps]] by simp
next
  case (submitted inp db db' res fs)
  show ?case using safe_step_keeps [OF submitted.prems submit_step [OF submitted.hyps]] by simp
next
  case (approved inp db db' res fs)
  show ?case using safe_step_keeps [OF approved.prems approve_step [OF approved.hyps]] by simp
next
  case (cancelled inp reason db db' res fs)
  show ?case using safe_step_keeps [OF cancelled.prems cancel_step [OF cancelled.hyps]] by simp
next
  case (dispatch_prepared inp db db' p fs)
  note pf = prepareDispatch_flight [OF dispatch_prepared.hyps]
  from safe_step_world [where F = "{DispatchPrepared inp p}" and fs' = "DispatchPrepared inp p # fs", OF dispatch_prepared.prems pf(2)] pf(1)
  show ?case by auto
next
  case (dispatch_posted inp p db db' r fs fs')
  from dispatch_posted have safe: "safe_step db db'" using poster_safe by (auto simp: world_ok_def)
  from dispatch_posted.prems safe have "dispatch_flight_ok inp p (tr_orders db') (tr_lines db')"
    using dispatch_flight_stable by (fastforce simp: world_ok_def safe_step_def)
  with safe_step_world [where F = "{DispatchPosted inp p r}" and fs' = "fs @ DispatchPosted inp p r # fs'", OF dispatch_posted.prems safe]
  show ?case by auto
next
  case (dispatch_refused inp p db db' err fs fs')
  from dispatch_refused have safe: "safe_step db db'" using poster_safe by (auto simp: world_ok_def)
  from safe_step_world [where F = "{DispatchFailed inp p}" and fs' = "fs @ DispatchFailed inp p # fs'", OF dispatch_refused.prems safe] show ?case by auto
next
  case (dispatch_compensated db fs inp p fs')
  from safe_step_world [where F = "{}" and fs' = "fs @ fs'", OF this compensate_safe] show ?case by auto
next
  case (dispatch_finalized inp p r db db' res fs fs')
  have "safe_step db db'"
    using dispatch_finalized.hyps
    by (rule run_tx_step) (use dispatch_finalized.prems in \<open>auto simp: world_ok_def intro: finalizeDispatch_safe\<close>)
  from safe_step_world [where F = "{}" and fs' = "fs @ fs'", OF dispatch_finalized.prems this] show ?case by auto
next
  case (receive_prepared inp ris db db' q fs)
  note pf = prepareReceive_flight [OF receive_prepared.hyps]
  from safe_step_world [where F = "{ReceivePrepared inp q}" and fs' = "ReceivePrepared inp q # fs", OF receive_prepared.prems pf(2)] pf(1)
  show ?case by auto
next
  case (receive_posted inp q db db' r fs fs')
  from receive_posted have safe: "safe_step db db'" using poster_safe by (auto simp: world_ok_def)
  from receive_posted.prems safe have "receive_flight_ok inp q (tr_orders db') (tr_lines db')"
    using receive_flight_stable by (fastforce simp: world_ok_def safe_step_def)
  with safe_step_world [where F = "{ReceivePosted inp q r}" and fs' = "fs @ ReceivePosted inp q r # fs'", OF receive_posted.prems safe]
  show ?case by auto
next
  case (receive_refused inp q db db' err fs fs')
  from receive_refused have safe: "safe_step db db'" using poster_safe by (auto simp: world_ok_def)
  from safe_step_world [where F = "{ReceiveFailed inp q}" and fs' = "fs @ ReceiveFailed inp q # fs'", OF receive_refused.prems safe] show ?case by auto
next
  case (receive_compensated db fs inp q fs')
  from safe_step_world [where F = "{}" and fs' = "fs @ fs'", OF this compensate_safe] show ?case by auto
next
  case (receive_finalized inp q r db db' res fs fs')
  have "safe_step db db'"
    using receive_finalized.hyps
    by (rule run_tx_step) (use receive_finalized.prems in \<open>auto simp: world_ok_def intro: finalizeReceive_safe\<close>)
  from safe_step_world [where F = "{}" and fs' = "fs @ fs'", OF receive_finalized.prems this] show ?case by auto
next
  case (lost db fs f fs')
  from safe_step_world [where F = "{}" and fs' = "fs @ fs'", OF this safe_step_refl] show ?case by auto
next
  case (foreign db' db fs)
  then have "safe_step db db'" by (intro safe_step_same)
  from safe_step_world [where F = "{}" and fs' = "fs", OF foreign.prems this] show ?case by auto
qed

lemma reachable_world: "transfer_reachable e poster w \<Longrightarrow> world_ok w"
proof (induction rule: transfer_reachable.induct)
  case (start db)
  then show ?case by (simp add: world_ok_def tables_ok_def)
next
  case (onward w w')
  then show ?case using step_world by blast
qed

end

end
