(* ===== verification/TransferExample.thy ===== *)
theory TransferExample
  imports StockExample TransferSteps
begin

text \<open>
  A transfer order on which the properties are evaluated: two owners, the headquarters with three
  kilograms of one lot and an outlet store; the order moves two kilograms.
\<close>

definition tx_source :: warehouse where
  "tx_source = \<lparr>w_id = ''H1'', w_locationId = ''HQ'', w_type = TypeMain, w_purpose = Some HQ_MAIN, w_isActive = True\<rparr>"

definition tx_dest :: warehouse where
  "tx_dest = \<lparr>w_id = ''W2'', w_locationId = ''L2'', w_type = TypeMain, w_purpose = Some OUTLET_STORAGE, w_isActive = True\<rparr>"

definition tx_item :: item where
  "tx_item = \<lparr>i_id = ''I1'', i_code = ''RICE'', i_unit = ''kg'', i_itemType = RAW, i_isActive = True,
       i_shelfLifeDays = None\<rparr>"

definition tx_lot :: lot where
  "tx_lot = \<lparr>l_id = ''T1'', l_itemId = ''I1'', l_lotCode = ''LOT'', l_status = AVAILABLE, l_expiresAt = None,
        l_unitCost = 0\<rparr>"

definition tx_balance :: balance where
  "tx_balance = \<lparr>b_id = ''B1'', b_warehouseId = ''H1'', b_lotId = ''T1'', b_onHand = 3000000,
     b_reserved = 1000000, b_version = 1\<rparr>"

definition tx_with ::
  "audit_row list \<Rightarrow> nat \<Rightarrow> document list \<Rightarrow> torder list \<Rightarrow> tline list \<Rightarrow> transfer_db" where
  "tx_with audit ids docs os ls = \<lparr>
     db_warehouses = [tx_source, tx_dest], db_items = [tx_item], db_conversions = [], db_lots = [tx_lot],
     db_balances = [tx_balance],
     db_users = [\<lparr>u_id = ''U1'', u_name = ''Ann'', u_role = ''OWNER'', u_active = True\<rparr>,
                 \<lparr>u_id = ''U2'', u_name = ''Ben'', u_role = ''OWNER'', u_active = True\<rparr>],
     db_sessions = [], db_access = [],
     db_flags = [\<lparr>f_key = ''stock.lot_writes'', f_enabled = True, f_version = 1\<rparr>,
                 \<lparr>f_key = ''stock.transfers'', f_enabled = True, f_version = 1\<rparr>],
     db_openTopologyExceptions = 0, db_documents = docs, db_postings = [], db_ledger = [],
     db_audit = audit, db_outbox = [], db_ids = ids, tr_orders = os, tr_lines = ls\<rparr>"

definition tx_start :: transfer_db where
  "tx_start = tx_with [] 7 [] [] []"

definition tx_create :: create_transfer_input where
  "tx_create = \<lparr>ct_actorUserId = ''U1'', ct_sessionId = None, ct_sourceWarehouseId = ''H1'',
     ct_destinationWarehouseId = ''W2'', ct_remarks = None,
     ct_lines = [\<lparr>ti_itemId = ''I1'', ti_lotId = None, ti_enteredQuantity = ''2'', ti_enteredUom = ''kg'',
                  ti_remarks = None\<rparr>]\<rparr>"

definition tx_order :: torder where
  "tx_order = \<lparr>o_id = ''iiiiiiii'', o_documentNo = ''TO-iiiiiii'', o_status = DRAFT, o_version = 1,
     o_sourceWarehouseId = ''H1'', o_destinationWarehouseId = ''W2'', o_sourceLocationId = ''HQ'',
     o_destinationLocationId = ''L2'', o_dispatchDocumentId = None, o_receiptDocumentId = None,
     o_remarks = None, o_requestedBy = None, o_approvedBy = None, o_dispatchedBy = None,
     o_receivedBy = None, o_cancelledBy = None, o_cancelReason = None, o_createdBy = Some ''U1'',
     o_createdAt = 0\<rparr>"

definition tx_line :: tline where
  "tx_line = \<lparr>tl_id = ''iiiiiiiii'', tl_orderId = ''iiiiiiii'', tl_lineNo = 1, tl_itemId = ''I1'',
     tl_lotId = None, tl_enteredUom = ''kg'', tl_enteredQuantity = 2000000,
     tl_conversionFactor = 100000000, tl_baseQuantity = 2000000, tl_dispatchedQuantity = None,
     tl_receivedQuantity = None, tl_status = DRAFT, tl_dispatchPostingLineId = None,
     tl_receiptPostingLineId = None, tl_remarks = None\<rparr>"

definition tx_ann :: actor where
  "tx_ann = \<lparr>ac_id = ''U1'', ac_name = ''Ann'', ac_role = OWNER, ac_allowed = None\<rparr>"

definition tx_ben :: actor where
  "tx_ben = \<lparr>ac_id = ''U2'', ac_name = ''Ben'', ac_role = OWNER, ac_allowed = None\<rparr>"

definition tx_audit :: "actor \<Rightarrow> string \<Rightarrow> audit_row" where
  "tx_audit a action = orderAudit a ''HQ'' action ''iiiiiiii''"

definition tx_drafted :: transfer_db where
  "tx_drafted = tx_with [tx_audit tx_ann ''transfer_order.created''] 10 [] [tx_order] [tx_line]"

definition tx_act :: "string \<Rightarrow> nat \<Rightarrow> transfer_action" where
  "tx_act actor v = \<lparr>ta_actorUserId = actor, ta_sessionId = None, ta_orderId = ''iiiiiiii'', ta_expectedVersion = v\<rparr>"

definition tx_order2 :: torder where
  "tx_order2 = tx_order\<lparr>o_status := SUBMITTED, o_requestedBy := Some ''U1'', o_version := 2\<rparr>"

definition tx_submitted :: transfer_db where
  "tx_submitted = tx_with [tx_audit tx_ann ''transfer_order.created'', tx_audit tx_ann ''transfer_order.submitted'']
     10 [] [tx_order2] [tx_line]"

definition tx_order3 :: torder where
  "tx_order3 = tx_order2\<lparr>o_status := APPROVED, o_approvedBy := Some ''U2'', o_version := 3\<rparr>"

definition tx_approved_audit :: "audit_row list" where
  "tx_approved_audit = [tx_audit tx_ann ''transfer_order.created'', tx_audit tx_ann ''transfer_order.submitted'',
     tx_audit tx_ben ''transfer_order.approved'']"

definition tx_approved :: transfer_db where
  "tx_approved = tx_with tx_approved_audit 10 [] [tx_order3] [tx_line]"

lemmas tx_defs = tx_source_def tx_dest_def tx_item_def tx_lot_def tx_balance_def tx_with_def tx_create_def
  tx_order_def tx_line_def tx_ann_def tx_ben_def tx_act_def

lemma owner_role: "normalizeRole (Some ''OWNER'') = Some (KnownRole OWNER)"
  "outletScopeForRole (Some (role_name OWNER)) = ScopeAll"
  using normalizeRole_role_name [of OWNER]
  by (simp_all add: role_name_def outletScopeForRole_def HQ_ALL_SCOPE_ROLES_def)

lemma tx_authorized:
  "authorizeTransfer (tx_with au n docs os ls) ''U1'' None TRANSFER_ROLES = Inr tx_ann"
  "authorizeTransfer (tx_with au n docs os ls) ''U2'' None TRANSFER_APPROVE_ROLES = Inr tx_ben"
  by (simp_all add: authorizeTransfer_def authorizeWith_def tx_defs owner_role truthy_def TRANSFER_ROLES_def TRANSFER_APPROVE_ROLES_def)

definition tx_resolved :: resolved_line where
  "tx_resolved = \<lparr>rl_lineNo = 1, rl_itemId = ''I1'', rl_lotId = None, rl_enteredUom = ''kg'',
     rl_enteredQuantity = ''2.000000'', rl_conversionFactor = ''1.00000000'',
     rl_baseQuantity = ''2.000000'', rl_remarks = None\<rparr>"

lemma tx_numbers:
  "parseFixed ''2'' 6 = Inr 2000000" "multiplyFixedExact ''2'' 6 ''1.00000000'' 8 6 = Inr ''2.000000''"
  "trim ''kg'' = ''kg''" "to_lower ''kg'' = ''kg''"
  by (simp_all add: fixed_eval Let_def)

lemma tx_route: "resolveHeaderRoute (tx_with au n docs os ls) ''H1'' ''W2'' = Inr (tx_source, tx_dest)"
  by (simp add: resolveHeaderRoute_def tx_defs TRANSFER_ALLOWED_ROUTE_PAIRS_def)

lemma tx_lines: "resolveAndValidateLines tx_start (ct_lines tx_create) = Inr [tx_resolved]"
proof -
  let ?l = "\<lparr>ti_itemId = ''I1'', ti_lotId = None, ti_enteredQuantity = ''2'', ti_enteredUom = ''kg'', ti_remarks = None\<rparr>"
  have key: "lineConversionKey ?l = ''I1:kg''" by (simp add: lineConversionKey_def tx_numbers)
  have c: "checkTransferLine ?l [] = Inr []" by (simp add: checkTransferLine_def tx_numbers truthy_def)
  have i: "resolveItem tx_start ''I1'' = Inr (''I1'', tx_item)" by (simp add: resolveItem_def tx_start_def tx_with_def tx_item_def)
  have v: "resolveConversion tx_start [(''I1'', tx_item)] ''I1:kg'' = Inr (''I1:kg'', ''1.00000000'')"
    by (simp add: resolveConversion_def conversionWith_def tx_item_def tx_numbers)
  have r: "resolveLine tx_start [(''I1:kg'', ''1.00000000'')] (1, ?l) = Inr tx_resolved"
    by (simp add: resolveLine_def key checkPinnedLot_def truthy_def tx_numbers ex_normal_numbers tx_resolved_def)
  have "ct_lines tx_create = [?l]" by (simp add: tx_create_def)
  then show ?thesis
    using c i v r key by (simp add: resolveAndValidateLines_def TRANSFER_MAX_LINES_def js_distinct_def)
qed

lemma tx_draft: "draftOrder ex_env 0 tx_create tx_ann tx_source tx_dest tx_start = tx_order"
  by (simp add: draftOrder_def tx_start_def tx_defs ex_env_def replicate_num)

lemma tx_with_simps:
  "tr_orders (tx_with au n docs os ls) = os" "tr_lines (tx_with au n docs os ls) = ls"
  "db_ids (tx_with au n docs os ls) = n" "db_documents (tx_with au n docs os ls) = docs"
  "db_audit (tx_with au n docs os ls) = au" "db_flags (tx_with au n docs os ls) = db_flags tx_start"
  "(tx_with au n docs os ls)\<lparr>tr_orders := os'\<rparr> = tx_with au n docs os' ls"
  "(tx_with au n docs os ls)\<lparr>tr_lines := ls'\<rparr> = tx_with au n docs os ls'"
  "(tx_with au n docs os ls)\<lparr>db_ids := n'\<rparr> = tx_with au n' docs os ls"
  "(tx_with au n docs os ls)\<lparr>db_documents := docs'\<rparr> = tx_with au n docs' os ls"
  "writeAudit a (tx_with au n docs os ls) = tx_with (au @ [a]) n docs os ls"
  by (simp_all add: tx_with_def tx_start_def writeAudit_def)

lemma tx_fields:
  "ct_actorUserId tx_create = ''U1''" "ct_sessionId tx_create = None" "ct_sourceWarehouseId tx_create = ''H1''"
  "ct_destinationWarehouseId tx_create = ''W2''" "o_id tx_order = ''iiiiiiii''" "w_locationId tx_source = ''HQ''"
  "tl_orderId tx_line = ''iiiiiiii''" "o_documentNo tx_order = ''TO-iiiiiii''"
  "o_sourceWarehouseId tx_order = ''H1''" "o_destinationWarehouseId tx_order = ''W2''"
  "o_sourceLocationId tx_order = ''HQ''" "o_status tx_order = DRAFT" "o_version tx_order = 1"
  "o_requestedBy tx_order = None" "ac_allowed tx_ann = None" "ac_allowed tx_ben = None"
  "ac_id tx_ann = ''U1''" "ac_id tx_ben = ''U2''"
  by (simp_all add: tx_defs)

lemma tx_insert: "insertOrder tx_order tx_start = Inr (tx_with [] 9 [] [tx_order] [])"
  by (simp add: insertOrder_def tx_fields tx_start_def tx_with_simps)

lemma tx_insert_line:
  "insertTransferLines ex_env ''iiiiiiii'' [tx_resolved] (tx_with [] 9 [] [tx_order] []) =
     Inr (tx_with [] 10 [] [tx_order] [tx_line])"
  by (simp add: insertTransferLines_def insertTransferLine_def tx_resolved_def db_numeric_def ex_parse
      tx_with_simps tx_line_def ex_env_def replicate_num)

lemma tx_fetch: "fetchLines (tx_with au n docs os [l]) i = (if tl_orderId l = i then [l] else [])"
  by (simp add: fetchLines_def tx_with_simps)

lemma tx_created: "createTransferOrderDraft ex_env 0 tx_create tx_start = (tx_drafted, Inr (tx_order, [tx_line]))"
proof -
  have a: "authorizeTransfer tx_start ''U1'' None TRANSFER_ROLES = Inr tx_ann"
    and r: "resolveHeaderRoute tx_start ''H1'' ''W2'' = Inr (tx_source, tx_dest)"
    unfolding tx_start_def by (rule tx_authorized tx_route)+
  have s: "assertLocationInScope (ac_allowed tx_ann) (w_locationId tx_source) = Inr ()"
    by (simp add: assertLocationInScope_def in_scope_def tx_fields)
  show ?thesis unfolding createTransferOrderDraft_def run_tx_def tx_fields(1-4) a r
    by (simp add: s tx_draft tx_insert tx_lines tx_fields tx_insert_line tx_with_simps tx_fetch tx_drafted_def tx_audit_def
        assertLocationInScope_def in_scope_def)
qed

lemma tx_submit: "submitTransferOrder (tx_act ''U1'' 1) tx_drafted = (tx_submitted, Inr (tx_order2, [tx_line]))"
  by (simp add: submitTransferOrder_def run_tx_def openOrder_def tx_drafted_def tx_submitted_def tx_authorized
      tx_act_def lockOrder_def tx_with_simps tx_fields assertLocationInScope_def in_scope_def expectStatus_def
      tx_fetch tx_route updateOrder_def update_where_def tx_order2_def tx_audit_def
      Let_def numeral_2_eq_2)

lemma tx_approve: "approveTransferOrder (tx_act ''U2'' 2) tx_submitted = (tx_approved, Inr (tx_order3, [tx_line]))"
  by (simp add: approveTransferOrder_def run_tx_def openOrder_def tx_submitted_def tx_approved_def tx_authorized
      tx_act_def lockOrder_def tx_with_simps tx_fields assertLocationInScope_def in_scope_def expectStatus_def
      tx_fetch updateOrder_def update_where_def tx_order2_def tx_order3_def tx_audit_def
      tx_approved_audit_def numeral_2_eq_2 numeral_3_eq_3)

lemma tx_stock_inv: "stock_inv (tx_with au n docs os ls)"
  by (simp add: stock_inv_def balances_ok_def balance_ok_def no_colon_def tx_defs)

lemma tx_reachable:
  "transfer_reachable ex_env poster (tx_start, [])" "transfer_reachable ex_env poster (tx_drafted, [])"
  "transfer_reachable ex_env poster (tx_submitted, [])" "transfer_reachable ex_env poster (tx_approved, [])"
proof -
  show s: "transfer_reachable ex_env poster (tx_start, [])"
    unfolding tx_start_def by (rule transfer_reachable.start) (simp_all add: tx_with_simps tx_stock_inv)
  show d: "transfer_reachable ex_env poster (tx_drafted, [])"
    using s transfer_step.created [OF tx_created] by (rule transfer_reachable.onward)
  show u: "transfer_reachable ex_env poster (tx_submitted, [])"
    using d transfer_step.submitted [OF tx_submit] by (rule transfer_reachable.onward)
  show "transfer_reachable ex_env poster (tx_approved, [])"
    using u transfer_step.approved [OF tx_approve] by (rule transfer_reachable.onward)
qed

end
