(* ===== verification/DispatchExample.thy ===== *)
theory DispatchExample
  imports TransferExample
begin

text \<open>The dispatch of the example order, transaction by transaction: prepare, post, finalize.\<close>

definition tx_inp :: transfer_action where
  "tx_inp = tx_act ''U1'' 3"

definition tx_document :: document where
  "tx_document = \<lparr>d_id = ''iiiiiiiiii'', d_module = TRANSFER_ORDER_DISPATCH_MODULE,
     d_documentNo = ''TO-iiiiiii'', d_locationId = ''HQ'', d_status = ''APPROVED'', d_version = 1,
     d_stockPostingId = None\<rparr>"

definition tx_prep :: "string prepared" where
  "tx_prep = \<lparr>pp_actor = tx_ann, pp_order = tx_order3, pp_lines = [(tx_line, ''T1'')],
     pp_docId = ''iiiiiiiiii''\<rparr>"

definition tx_prepared :: transfer_db where
  "tx_prepared = tx_with tx_approved_audit 11 [tx_document] [tx_order3] [tx_line]"

definition tx_deps :: posting_deps where
  "tx_deps = transfer_deps"

lemma tx_order3_fields:
  "o_id tx_order3 = ''iiiiiiii''" "o_documentNo tx_order3 = ''TO-iiiiiii''" "o_status tx_order3 = APPROVED"
  "o_version tx_order3 = 3" "o_sourceWarehouseId tx_order3 = ''H1''" "o_sourceLocationId tx_order3 = ''HQ''"
  by (simp_all add: tx_order3_def tx_order2_def tx_fields)

lemma tx_line_fields:
  "tl_lotId tx_line = None" "tl_itemId tx_line = ''I1''" "tl_baseQuantity tx_line = 2000000"
  "tl_enteredQuantity tx_line = 2000000" "tl_conversionFactor tx_line = 100000000" "tl_enteredUom tx_line = ''kg''"
  "tl_id tx_line = ''iiiiiiiii''" "tl_lineNo tx_line = 1" "tl_dispatchPostingLineId tx_line = None"
  "tl_receiptPostingLineId tx_line = None"
  by (simp_all add: tx_line_def)

lemma tx_fefo: "selectFefoLot ex_env (tx_with au n docs os ls) ''I1'' ''H1'' 2000000 = Inr ''T1''"
  by (simp add: selectFefoLot_def fefoCandidates_def tx_with_def tx_balance_def tx_lot_def)

lemma tx_pick: "pickLot ex_env tx_order3 (tx_with au n docs os ls) tx_line = Inr (tx_line, ''T1'')"
  by (simp add: pickLot_def tx_line_fields truthy_def tx_order3_fields tx_fefo)

lemma tx_ensure:
  "ensureOperationalDocument ex_env TRANSFER_ORDER_DISPATCH_MODULE ''TO-iiiiiii'' ''HQ'' ''APPROVED'' tx_approved =
     Inr (tx_prepared, ''iiiiiiiiii'')"
  by (simp add: ensureOperationalDocument_def ensureDocumentWith_def tx_approved_def tx_with_simps tx_prepared_def tx_document_def
      ex_env_def replicate_num Let_def)

lemma tx_open: "openOrder (tx_act ''U1'' v) TRANSFER_ROLES (tx_with au n docs [tx_order3] ls) = Inr (tx_ann, tx_order3)"
  by (simp add: openOrder_def tx_authorized tx_act_def lockOrder_def tx_with_simps tx_order3_fields
      assertLocationInScope_def in_scope_def tx_fields)

lemma tx_prepare: "prepareDispatch ex_env tx_inp tx_approved = Inr (tx_prepared, tx_prep)"
proof -
  have f: "assertTransferFeature tx_approved = Inr ()"
    by (simp add: assertTransferFeature_def featureWith_def TRANSFER_FEATURE_KEY_def tx_approved_def tx_with_def)
  have o: "openOrder tx_inp TRANSFER_ROLES tx_approved = Inr (tx_ann, tx_order3)"
    by (simp add: tx_inp_def tx_approved_def tx_open)
  have e: "expectPhase APPROVED DISPATCHED tx_inp tx_order3 = Inr ()"
    by (simp add: expectPhase_def tx_order3_fields tx_inp_def tx_act_def)
  have l: "mapE (pickLot ex_env tx_order3 tx_approved) (fetchLines tx_approved (o_id tx_order3)) = Inr [(tx_line, ''T1'')]"
    by (simp add: tx_approved_def tx_fetch tx_fields tx_order3_fields tx_pick)
  show ?thesis
    unfolding prepareDispatch_def f o bindE_simps prod.case e l
    by (simp add: tx_order3_fields tx_ensure tx_prep_def)
qed

definition tx_movement :: movement where
  "tx_movement = \<lparr>m_warehouseId = ''H1'', m_itemId = ''I1'', m_lotId = ''T1'', m_movementType = OUT,
     m_quantity = ''2.000000'', m_enteredQuantity = Some ''2.000000'', m_enteredUom = ''kg'',
     m_conversionFactor = Some ''1.00000000'', m_unitCost = None, m_reasonCode = None,
     m_sourcePolicy = None, m_metadata = Some (line_metadata tx_line)\<rparr>"

definition tx_posting :: posting_input where
  "tx_posting = \<lparr>pi_idempotencyKey = ''TO-iiiiiii:DISPATCH'', pi_sourceModule = TRANSFER_ORDER_DISPATCH_MODULE,
     pi_sourceDocumentNo = ''TO-iiiiiii'', pi_locationId = ''HQ'', pi_actorUserId = ''U1'', pi_sessionId = None,
     pi_correlationId = ''TO-iiiiiii:DISPATCH'', pi_movements = [tx_movement]\<rparr>"

lemma tx_formats: "formatFixed 2000000 6 = ''2.000000''" "formatFixed 100000000 8 = ''1.00000000''"
  by (simp_all add: fixed_eval Let_def)

lemma tx_dispatch_posting: "dispatchPosting tx_inp tx_prep = tx_posting"
  by (simp add: dispatchPosting_def tx_prep_def tx_posting_def tx_order3_fields tx_fields tx_inp_def tx_act_def
      dispatchMovement_def tx_movement_def tx_line_fields tx_formats)

definition tx_normal_movement :: movement where
  "tx_normal_movement = tx_movement\<lparr>m_unitCost := Some ''0.000000''\<rparr>"

definition tx_normal :: posting_input where
  "tx_normal = tx_posting\<lparr>pi_movements := [tx_normal_movement]\<rparr>"

definition tx_hash :: string where
  "tx_hash = env_sha256 ex_env (request_json ex_env tx_normal)"

lemma tx_normalize: "normalizeMovement ex_env tx_movement = Inr tx_normal_movement"
  by (simp add: normalizeMovement_def tx_movement_def tx_normal_movement_def ex_normal_numbers ex_conversion
      line_metadata_def ex_env_def)

lemma tx_trims: "trim ''TO-iiiiiii:DISPATCH'' = ''TO-iiiiiii:DISPATCH''" "trim ''TO-iiiiiii'' = ''TO-iiiiiii''"
  "trim ''TRANSFER_ORDER_DISPATCH'' = ''TRANSFER_ORDER_DISPATCH''"
  by (simp_all add: text_eval)

lemma tx_validate: "validateInput tx_posting = Inr ()"
  by (simp add: validateInput_def validateMovement_def tx_posting_def tx_movement_def tx_trims tx_numbers ex_parse
      TRANSFER_ORDER_DISPATCH_MODULE_def)

lemma tx_prepare_posting: "preparePosting ex_env tx_deps tx_posting = Inr (TRANSFER_ORDER_DISPATCH_POLICY, tx_hash, tx_normal)"
  unfolding preparePosting_Inr
proof (intro conjI)
  have ms: "pi_movements tx_posting = [tx_movement]" by (simp add: tx_posting_def)
  have "foldE (groupMovement ex_env) (pi_movements tx_posting) [] =
      Inr [(aggregationKey ex_env tx_normal_movement, tx_normal_movement)]"
    unfolding ms by (simp add: groupMovement_def tx_normalize Let_def)
  then show "canonicalizePosting ex_env tx_posting = Inr (tx_hash, tx_normal)"
    unfolding canonicalizePosting_def by (simp add: tx_hash_def tx_normal_def Let_def)
  show "validateInput tx_posting = Inr ()" by (rule tx_validate)
qed (simp_all add: postingDisabled_def ex_env_def to_lower_def lookup_policy_def tx_deps_def transfer_deps_def tx_posting_def)

section \<open>The posting\<close>

lemma tx_guards:
  "authorizeActor tx_prepared tx_normal TRANSFER_ORDER_DISPATCH_POLICY = Inr tx_ann"
  "assertFeatureFlags tx_prepared (requiredFlags TRANSFER_ORDER_DISPATCH_POLICY) = Inr ()"
  "assertTopologyReady tx_prepared = Inr ()"
  "lockOperationalDocument tx_prepared tx_normal = Inr tx_document"
proof -
  show "authorizeActor tx_prepared tx_normal TRANSFER_ORDER_DISPATCH_POLICY = Inr tx_ann"
    by (simp add: authorizeActor_def tx_prepared_def tx_with_def tx_normal_def tx_posting_def tx_ann_def
        TRANSFER_ORDER_DISPATCH_POLICY_def TRANSFER_ROLES_def owner_role truthy_def)
  show "assertFeatureFlags tx_prepared (requiredFlags TRANSFER_ORDER_DISPATCH_POLICY) = Inr ()"
    by (simp add: assertFeatureFlags_def requiredFlags_def truthy_def js_sorted_set_def tx_prepared_def tx_with_def
        TRANSFER_ORDER_DISPATCH_POLICY_def TRANSFER_FEATURE_KEY_def)
  show "lockOperationalDocument tx_prepared tx_normal = Inr tx_document"
    by (simp add: lockOperationalDocument_def tx_prepared_def tx_with_def tx_document_def tx_normal_def tx_posting_def)
qed (simp add: assertTopologyReady_def tx_prepared_def tx_with_def tx_source_def tx_dest_def)

definition tx_pid :: string where
  "tx_pid = ''iiiiiiiiiii''"

definition tx_claimed :: transfer_db where
  "tx_claimed = claimPosting ex_env tx_normal tx_hash tx_ann tx_prepared"

definition tx_state :: locked_key_state where
  "tx_state = \<lparr>ks_key = ''H1:I1:T1'', ks_lot = tx_lot, ks_balance = tx_balance, ks_warehouse = tx_source,
     ks_initial = 3000000, ks_current = 3000000, ks_reserved = 1000000\<rparr>"

lemma tx_nm_fields:
  "m_warehouseId tx_normal_movement = ''H1''" "m_lotId tx_normal_movement = ''T1''"
  "m_itemId tx_normal_movement = ''I1''" "m_movementType tx_normal_movement = OUT"
  "m_quantity tx_normal_movement = ''2.000000''" "m_sourcePolicy tx_normal_movement = None"
  "m_enteredUom tx_normal_movement = ''kg''" "m_conversionFactor tx_normal_movement = Some ''1.00000000''"
  "m_enteredQuantity tx_normal_movement = Some ''2.000000''" "m_unitCost tx_normal_movement = Some ''0.000000''"
  "m_metadata tx_normal_movement = Some (line_metadata tx_line)"
  by (simp_all add: tx_normal_movement_def tx_movement_def)

lemma tx_key: "keyOf tx_normal_movement = ''H1:I1:T1''" "conversionKey tx_normal_movement = ''I1:kg''"
  by (simp_all add: keyOf_def join_colon_def conversionKey_def tx_nm_fields tx_numbers)

lemma tx_claimed_fields:
  "db_warehouses tx_claimed = [tx_source, tx_dest]" "db_items tx_claimed = [tx_item]" "db_lots tx_claimed = [tx_lot]"
  "db_balances tx_claimed = [tx_balance]" "db_ledger tx_claimed = []" "db_ids tx_claimed = 12"
  by (simp_all add: tx_claimed_def claimPosting_def tx_prepared_def tx_with_def)

lemma tx_lock:
  "lockMovementKeys ex_env tx_normal TRANSFER_ORDER_DISPATCH_POLICY None tx_claimed =
     Inr (tx_claimed, [(''H1:I1:T1'', tx_state)])"
proof -
  let ?m = tx_normal_movement
  have ms: "pi_movements tx_normal = [?m]" by (simp add: tx_normal_def)
  have w: "lockWarehouses tx_claimed None [?m] = Inr [(''H1'', tx_source)]"
    by (simp add: lockWarehouses_def js_sorted_set_def tx_claimed_fields tx_nm_fields tx_source_def)
  have r: "validateRoute TRANSFER_ORDER_DISPATCH_POLICY tx_normal (\<lambda>wid. the (map_of [(''H1'', tx_source)] wid)) = Inr ()"
    by (simp add: validateRoute_def checkSingleOutlet_def validateRouteClass_def route_matches_def ms tx_nm_fields
        TRANSFER_ORDER_DISPATCH_POLICY_def tx_source_def singleOutletRouteClasses_def js_distinct_def Let_def)
  have i: "lockItems tx_claimed [?m] = Inr [(''I1'', tx_item)]"
    by (simp add: lockItems_def js_sorted_set_def tx_claimed_fields tx_nm_fields tx_item_def)
  have c: "lockConversions tx_claimed [(''I1'', tx_item)] [?m] = Inr [(''I1:kg'', ''1.00000000'')]"
    by (simp add: lockConversions_def lockConversion_def tx_key js_sorted_set_def tx_item_def tx_numbers Let_def)
  have cc: "checkConversion [(''I1:kg'', ''1.00000000'')] ?m = Inr ()"
    by (simp add: checkConversion_def tx_key tx_nm_fields entered_of_def ex_conversion)
  have l: "lockLots tx_claimed [?m] = Inr [(''T1'', tx_lot)]"
    by (simp add: lockLots_def js_sorted_set_def tx_claimed_fields tx_nm_fields tx_lot_def)
  have cl: "checkLot (env_today ex_env) [(''T1'', tx_lot)] ?m = Inr ()"
    by (simp add: checkLot_def isOutEligible_def source_policy_of_def tx_nm_fields tx_lot_def truthy_def)
  have n: "createMissingBalances ex_env [?m] tx_claimed = tx_claimed"
    by (simp add: createMissingBalances_def js_sorted_set_def group_of_def tx_nm_fields Let_def)
  have b: "mapE (lockBalance tx_claimed [(''H1'', tx_source)] [(''T1'', tx_lot)] [?m])
      (js_sorted_set (map keyOf [?m])) = Inr [(''H1:I1:T1'', tx_state)]"
    by (simp add: js_sorted_set_def tx_key lockBalance_def group_of_def tx_claimed_fields tx_state_def tx_nm_fields
        tx_balance_def Let_def)
  show ?thesis
    unfolding lockMovementKeys_def ms Let_def by (simp add: w r [simplified] i c cc l cl n b [simplified])
qed

definition tx_base :: ledger_line where
  "tx_base = lineBase 1 tx_normal_movement 3000000 1000000"

definition tx_planned :: ledger_line where
  "tx_planned = tx_base\<lparr>ll_lineHash := hashPostingLine ex_env (line_json tx_base)\<rparr>"

lemma tx_plan:
  "planMovements ex_env (pi_movements tx_normal) [(''H1:I1:T1'', tx_state)] =
     Inr (1, [(''H1:I1:T1'', tx_state\<lparr>ks_current := 1000000\<rparr>)], [tx_planned])"
  by (simp add: planMovements_def planMovement_def tx_normal_def tx_key tx_nm_fields ex_parse tx_state_def
      tx_planned_def tx_base_def Let_def)

lemma tx_planned_fields:
  "ll_lineNo tx_planned = 1" "ll_quantity tx_planned = ''2.000000''"
  "ll_enteredQuantity tx_planned = ''2.000000''" "ll_conversionFactor tx_planned = ''1.00000000''"
  "ll_unitCost tx_planned = ''0.000000''" "ll_balanceBefore tx_planned = formatFixed 3000000 6"
  "ll_balanceAfter tx_planned = formatFixed 1000000 6" "ll_metadata tx_planned = Some (line_metadata tx_line)"
  by (simp_all add: tx_planned_def tx_base_def lineBase_def tx_nm_fields entered_of_def)

definition tx_row :: ledger_row where
  "tx_row = \<lparr>lg_id = ''iiiiiiiiiiii'', lg_postingId = tx_pid, lg_line = tx_planned\<rparr>"

lemma tx_insert_ledger:
  "insertLedgerLines ex_env tx_pid [tx_planned] tx_claimed =
     Inr (tx_claimed\<lparr>db_ledger := [tx_row], db_ids := 13\<rparr>, [(1, ll_lineHash tx_planned)])"
  by (simp add: insertLedgerLines_def insertLedgerLine_def db_numeric_def tx_planned_fields ex_parse
      tx_claimed_fields ex_env_def replicate_num tx_row_def)

lemma tx_checks:
  "d_status tx_document \<in> set (dp_fromStatuses TRANSFER_ORDER_DISPATCH_POLICY)"
  "checkLedger [tx_planned] [(Suc 0, ll_lineHash tx_planned)] = Inr ()"
  "fault tx_deps stage = Inr ()" "ac_allowed tx_ann = None"
  by (simp_all add: tx_document_def TRANSFER_ORDER_DISPATCH_POLICY_def checkLedger_def tx_planned_fields Let_def
      fault_def tx_deps_def transfer_deps_def tx_ann_def)

definition tx_balance2 :: balance where
  "tx_balance2 = tx_balance\<lparr>b_onHand := 1000000, b_version := 2\<rparr>"

lemma tx_update:
  "updateBalance (tx_state\<lparr>ks_current := 1000000\<rparr>) (tx_claimed\<lparr>db_ledger := l, db_ids := i\<rparr>) =
     Inr (tx_claimed\<lparr>db_ledger := l, db_ids := i, db_balances := [tx_balance2]\<rparr>)"
  by (simp add: updateBalance_def tx_state_def tx_claimed_fields tx_balance_def tx_balance2_def update_where_def Let_def)

definition tx_result :: posting_result where
  "tx_result = postingResult tx_pid tx_normal tx_hash [tx_planned]"

definition tx_posted_document :: document where
  "tx_posted_document = tx_document\<lparr>d_status := ''DISPATCHED'', d_version := 2, d_stockPostingId := Some tx_pid\<rparr>"

definition tx_post_audit :: audit_row where
  "tx_post_audit = \<lparr>a_actorUserId = Some ''U1'', a_locationId = Some ''HQ'',
     a_action = ''stock.posting.completed'', a_entityType = ''stock_posting'', a_entityId = tx_pid\<rparr>"

definition tx_posted :: transfer_db where
  "tx_posted = tx_prepared\<lparr>db_balances := [tx_balance2], db_documents := [tx_posted_document],
     db_postings := [completed_row ex_env tx_normal tx_hash tx_ann tx_pid tx_result], db_ledger := [tx_row],
     db_audit := tx_approved_audit @ [tx_post_audit],
     db_outbox := [postingEvent TRANSFER_ORDER_DISPATCH_POLICY tx_pid tx_normal [tx_planned]], db_ids := 13\<rparr>"

lemma tx_fresh: "db_postings tx_prepared = []" "env_uuid ex_env (db_ids tx_prepared) = tx_pid"
  by (simp_all add: tx_prepared_def tx_with_def tx_pid_def ex_env_def replicate_num)

lemma tx_post: "post ex_env tx_deps (\<lambda>_. None) (dispatchPosting tx_inp tx_prep) tx_prepared = (tx_posted, Inr tx_result)"
proof -
  have nx: "dp_nextStatus TRANSFER_ORDER_DISPATCH_POLICY = ''DISPATCHED''"
    by (simp add: TRANSFER_ORDER_DISPATCH_POLICY_def)
  have "applyPosting ex_env tx_deps TRANSFER_ORDER_DISPATCH_POLICY tx_normal tx_hash tx_ann tx_document tx_pid tx_claimed =
      Inr (tx_posted, tx_result)"
    unfolding applyPosting_def
    by (simp add: tx_lock tx_plan tx_insert_ledger tx_checks tx_update)
       (simp add: tx_posted_def tx_claimed_def claimPosting_def tx_prepared_def tx_with_def tx_document_def nx
         tx_ann_def advanceDocument_def writeAudit_def writeOutbox_def completePosting_def completed_row_def
         update_where_def postingEvent_def tx_pid_def tx_normal_def tx_posting_def Let_def tx_posted_document_def
         tx_post_audit_def tx_result_def ex_env_def replicate_num)
  then have "postingTransaction ex_env tx_deps TRANSFER_ORDER_DISPATCH_POLICY tx_normal tx_hash tx_prepared =
      Inr (tx_posted, tx_result)"
    by (simp add: postingTransaction_def tx_guards Let_def tx_claimed_def tx_fresh)
  then have "executePosting ex_env tx_deps None tx_posting tx_prepared = (tx_posted, Inr tx_result)"
    by (simp add: executePosting_def tx_prepare_posting run_tx_def)
  then show ?thesis unfolding tx_dispatch_posting by (rule post_no_abort_ok) simp
qed

section \<open>After the posting\<close>

definition tx_line2 :: tline where
  "tx_line2 = tx_line\<lparr>tl_lotId := Some ''T1'', tl_dispatchedQuantity := Some 2000000,
     tl_dispatchPostingLineId := Some ''iiiiiiiiiiii'', tl_status := DISPATCHED\<rparr>"

definition tx_order4 :: torder where
  "tx_order4 = tx_order3\<lparr>o_status := DISPATCHED, o_dispatchDocumentId := Some ''iiiiiiiiii'',
     o_dispatchedBy := Some ''U1'', o_version := 4\<rparr>"

definition tx_dispatched :: transfer_db where
  "tx_dispatched = writeAudit (tx_audit tx_ann ''transfer_order.dispatched'')
     (tx_posted\<lparr>tr_lines := [tx_line2], tr_orders := [tx_order4]\<rparr>)"

lemma tx_posted_fields:
  "tr_orders tx_posted = [tx_order3]" "tr_lines tx_posted = [tx_line]" "db_ledger tx_posted = [tx_row]"
  "tr_orders (tx_posted\<lparr>tr_lines := ls\<rparr>) = [tx_order3]"
  by (simp_all add: tx_posted_def tx_prepared_def tx_with_def)

lemma tx_line_ids: "postingLineIds tx_pid tx_posted = [(''iiiiiiiii'', ''iiiiiiiiiiii'')]"
  by (simp add: postingLineIds_def tx_posted_fields tx_row_def tx_planned_fields metadata_line_def line_metadata_def
      truthy_def tx_line_fields)

lemma tx_finalize: "finalizeDispatch tx_inp tx_prep tx_result tx_posted = Inr (tx_dispatched, (tx_order4, [tx_line2]))"
proof -
  have pid: "pr_postingId tx_result = tx_pid" by (simp add: tx_result_def postingResult_def)
  have pp: "pp_lines tx_prep = [(tx_line, ''T1'')]" "pp_order tx_prep = tx_order3" "pp_actor tx_prep = tx_ann"
    "pp_docId tx_prep = ''iiiiiiiiii''" by (simp_all add: tx_prep_def)
  have line: "foldE (dispatchLine [(''iiiiiiiii'', ''iiiiiiiiiiii'')]) (pp_lines tx_prep) tx_posted =
      Inr (tx_posted\<lparr>tr_lines := [tx_line2]\<rparr>)"
    by (simp add: pp dispatchLine_def tx_line_fields truthy_def tx_posted_fields update_where_def tx_line2_def)
  have fields: "o_dispatchDocumentId tx_order3 = None" "ta_expectedVersion tx_inp = 3" "tl_orderId tx_line2 = ''iiiiiiii''"
    by (simp_all add: tx_order3_def tx_order2_def tx_order_def tx_inp_def tx_act_def tx_line2_def tx_fields)
  have order: "tx_order3\<lparr>o_status := DISPATCHED, o_dispatchDocumentId := Some ''iiiiiiiiii'',
      o_dispatchedBy := Some ''U1'', o_version := 4\<rparr> = tx_order4" by (simp add: tx_order4_def)
  show ?thesis
    unfolding finalizeDispatch_def Let_def pid tx_line_ids line bindE_simps advanceOrder_def updateOrder_def
    by (simp add: tx_posted_fields tx_order3_fields pp fields tx_fields order update_where_def)
       (simp add: tx_dispatched_def tx_audit_def fetchLines_def fields)
qed

lemma tx_dispatch:
  "dispatchTransferOrder ex_env (post ex_env tx_deps (\<lambda>_. None)) id id tx_inp tx_approved =
     (tx_dispatched, Inr (tx_order4, [tx_line2]))"
  by (simp add: dispatchTransferOrder_def run_tx_def tx_prepare tx_post tx_finalize)

end
