(* ===== verification/TransferProps.thy ===== *)
theory TransferProps
  imports DispatchExample
begin

text \<open>The properties of transfer orders.\<close>

section \<open>Interleaved requests\<close>

text \<open>C13: Maker and checker. However requests interleave, failures and lost processes included, an
  order that is approved, dispatched or received was submitted by one user and approved by another.\<close>

theorem transfer_maker_checker:
  assumes "transfer_reachable e (post e' deps aborts) (db, fs)" and "o' \<in> set (tr_orders db)"
    and "o_status o' \<in> {APPROVED, DISPATCHED, RECEIVED}"
  shows "\<exists>maker checker. o_requestedBy o' = Some maker \<and> o_approvedBy o' = Some checker \<and> maker \<noteq> checker"
proof -
  from posting_transfers.reachable_world [OF assms(1)] have "order_ok (lines_in (tr_lines db) (o_id o')) o'"
    using assms(2) by (simp add: world_ok_def tables_ok_def)
  with assms(3) show ?thesis by (auto simp: order_ok_def)
qed

theorem transfer_maker_checker_witness:
  "\<exists>maker checker. o_requestedBy tx_order3 = Some maker \<and> o_approvedBy tx_order3 = Some checker \<and> maker \<noteq> checker"
  by (rule transfer_maker_checker [OF tx_reachable(4) [of "post ex_env tx_deps (\<lambda>_. None)"]])
    (simp_all add: tx_approved_def tx_with_simps tx_order3_fields)

text \<open>C15: The quantities of a transfer line. In every reachable state the base quantity of a line is
  exactly its entered quantity times the conversion factor; the line belongs to an order, it is
  dispatched exactly when that order is dispatched or received, then for its base quantity and from a
  known lot, and received exactly when the order is received, for a positive quantity that is at most
  the dispatched one.\<close>

theorem transfer_line_quantities:
  assumes "transfer_reachable e (post e' deps aborts) (db, fs)" and "l \<in> set (tr_lines db)"
  shows "tl_enteredQuantity l * tl_conversionFactor l = tl_baseQuantity l * 10 ^ 8 \<and> 0 < tl_baseQuantity l \<and>
    (\<exists>o' \<in> set (tr_orders db). o_id o' = tl_orderId l \<and>
       (if o_status o' \<in> {DISPATCHED, RECEIVED}
        then tl_dispatchedQuantity l = Some (tl_baseQuantity l) \<and> tl_lotId l \<noteq> None
        else tl_dispatchedQuantity l = None) \<and>
       (if o_status o' = RECEIVED
        then \<exists>q. tl_receivedQuantity l = Some q \<and> 0 < q \<and> q \<le> tl_baseQuantity l
        else tl_receivedQuantity l = None))"
proof -
  from posting_transfers.reachable_world [OF assms(1)] have ok: "tables_ok (tr_orders db) (tr_lines db)"
    by (simp add: world_ok_def)
  then have line: "line_ok l" using assms(2) by (simp add: tables_ok_def list_all_iff)
  from ok assms(2) obtain o' where o': "o' \<in> set (tr_orders db)" "o_id o' = tl_orderId l"
    unfolding tables_ok_def by (metis imageE)
  then have "l \<in> lines_in (tr_lines db) (o_id o')" using assms(2) by (simp add: lines_in_def)
  with order_ok_of [OF ok o'(1)] have st: "(tl_dispatchPostingLineId l \<noteq> None) = (o_status o' \<in> {DISPATCHED, RECEIVED})"
    "(tl_receiptPostingLineId l \<noteq> None) = (o_status o' = RECEIVED)" by (auto simp: order_ok_def)
  from line show ?thesis
    using st by (intro conjI bexI [OF _ o'(1)] o'(2)) (auto simp: line_ok_def split: if_splits option.splits)
qed

theorem transfer_line_quantities_witness:
  "tl_enteredQuantity tx_line * tl_conversionFactor tx_line = tl_baseQuantity tx_line * 10 ^ 8"
  using transfer_line_quantities [OF tx_reachable(4) [of "post ex_env tx_deps (\<lambda>_. None)"], of tx_line]
  by (simp add: tx_approved_def tx_with_simps)

text \<open>The life of a transfer order. Whatever request takes a step in a reachable state, every
  order stays, keeps its number, warehouses and locations, and is either untouched or moves along one
  edge of the status machine with its version counted up by one.\<close>

theorem transfer_lifecycle:
  assumes "transfer_reachable e (post e' deps aborts) w" and "transfer_step e (post e' deps aborts) w w'"
    and "x \<in> set (tr_orders (fst w))"
  shows "\<exists>y \<in> set (tr_orders (fst w')). o_id y = o_id x \<and> o_documentNo y = o_documentNo x \<and>
    o_sourceWarehouseId y = o_sourceWarehouseId x \<and> o_destinationWarehouseId y = o_destinationWarehouseId x \<and>
    (y = x \<or> o_version y = Suc (o_version x) \<and>
       (o_status x, o_status y) \<in> {(DRAFT, DRAFT), (DRAFT, SUBMITTED), (SUBMITTED, APPROVED),
         (APPROVED, DISPATCHED), (DISPATCHED, RECEIVED), (DRAFT, CANCELLED), (SUBMITTED, CANCELLED),
         (APPROVED, CANCELLED)})"
proof -
  from posting_transfers.step_world [OF assms(2) posting_transfers.reachable_world [OF assms(1)]] assms(3)
  obtain y where "y \<in> set (tr_orders (fst w'))" "order_moves x y" unfolding tables_step_def by blast
  then show ?thesis by (intro bexI [of _ y]) (auto simp: order_moves_def lifecycle_def)
qed

theorem transfer_lifecycle_witness:
  "\<exists>y \<in> set (tr_orders tx_approved). o_id y = o_id tx_order2 \<and> o_version y = Suc (o_version tx_order2)"
proof -
  have "tx_order2 \<in> set (tr_orders (fst (tx_submitted, [])))" by (simp add: tx_submitted_def tx_with_simps)
  from transfer_lifecycle [OF tx_reachable(3) [of "post ex_env tx_deps (\<lambda>_. None)"] transfer_step.approved [OF tx_approve] this]
  show ?thesis by (auto simp: tx_approved_def tx_with_simps tx_order3_def tx_order2_def)
qed

section \<open>First expiry, first out\<close>

definition total_collation :: "env \<Rightarrow> bool" where
  "total_collation e \<longleftrightarrow> (\<forall>a b. env_collate e a b \<or> env_collate e b a) \<and>
     (\<forall>a b c. env_collate e a b \<longrightarrow> env_collate e b c \<longrightarrow> env_collate e a c)"

lemma expiry_le_total: "expiry_le a b \<or> expiry_le b a"
  by (cases a; cases b) (auto simp: expiry_le_def)

lemma expiry_le_antisym: "expiry_le a b \<Longrightarrow> expiry_le b a \<Longrightarrow> a = b"
  by (cases a; cases b) (auto simp: expiry_le_def)

lemma expiry_le_trans: "expiry_le a b \<Longrightarrow> expiry_le b c \<Longrightarrow> expiry_le a c"
  by (cases a; cases b; cases c) (auto simp: expiry_le_def)

lemma fefo_le_total: "total_collation e \<Longrightarrow> fefo_le e x y \<or> fefo_le e y x"
  using expiry_le_total by (simp add: fefo_le_def total_collation_def)

lemma fefo_le_trans:
  assumes t: "total_collation e" and xy: "fefo_le e x y" and yz: "fefo_le e y z"
  shows "fefo_le e x z"
proof (cases "l_expiresAt (fst x) = l_expiresAt (fst y) \<and> l_expiresAt (fst y) = l_expiresAt (fst z)")
  case True
  with t xy yz show ?thesis unfolding fefo_le_def total_collation_def by metis
next
  case False
  have "expiry_le (l_expiresAt (fst a)) (l_expiresAt (fst b))" if "fefo_le e a b" for a b
    using that by (cases "l_expiresAt (fst a) = l_expiresAt (fst b)")
      (auto simp: fefo_le_def expiry_le_def split: option.splits)
  from this [OF xy] this [OF yz] False
  have "expiry_le (l_expiresAt (fst x)) (l_expiresAt (fst z))" "l_expiresAt (fst x) \<noteq> l_expiresAt (fst z)"
    using expiry_le_antisym expiry_le_trans by metis+
  then show ?thesis by (simp add: fefo_le_def)
qed

lemma find_sorted_wrt:
  assumes "sorted_wrt le xs" and "List.find p xs = Some x" and "y \<in> set xs" and "p y" and "\<And>a. le a a"
  shows "le x y"
  using assms by (induction xs) (auto split: if_splits)

text \<open>C38: First expiry, first out. The lot chosen for a dispatch line is an available, unexpired lot of
  the item in the source warehouse whose free stock covers the whole need, and no other such lot comes
  before it by expiry date (a lot without one last) and lot code; the choice fails exactly when no
  single lot covers the need. The collation is assumed to be a total preorder.\<close>

theorem fefo_earliest:
  assumes "total_collation e"
  shows "case selectFefoLot e db itemId wid need of
      Inr lot \<Rightarrow> (\<exists>l b. (l, b) \<in> set (fefoCandidates e db itemId wid) \<and> l_id l = lot \<and>
        need \<le> b_onHand b - b_reserved b \<and> l_itemId l = itemId \<and> l_status l = AVAILABLE \<and> b_warehouseId b = wid \<and>
        (\<forall>(l', b') \<in> set (fefoCandidates e db itemId wid). need \<le> b_onHand b' - b_reserved b' \<longrightarrow>
           fefo_le e (l, b) (l', b')))
    | Inl err \<Rightarrow> err = TransferErr T_INSUFFICIENT_STOCK 409 \<and>
        (\<forall>(l, b) \<in> set (fefoCandidates e db itemId wid). b_onHand b - b_reserved b < need)"
proof (cases "List.find (\<lambda>(l, b). need \<le> b_onHand b - b_reserved b)
             (sort_by (fefo_le e) (fefoCandidates e db itemId wid))")
  case None
  then have "\<forall>(l, b) \<in> set (fefoCandidates e db itemId wid). b_onHand b - b_reserved b < need"
    by (auto dest!: find_None_all [OF None, simplified])
  with None show ?thesis by (simp add: selectFefoLot_def)
next
  case (Some lb)
  obtain l b where lb: "lb = (l, b)" by fastforce
  have sorted: "sorted_wrt (fefo_le e) (sort_by (fefo_le e) (fefoCandidates e db itemId wid))"
    by (rule sorted_wrt_sort_by) (use assms fefo_le_total fefo_le_trans in blast)+
  have refl: "fefo_le e a a" for a using fefo_le_total [OF assms, of a a] by simp
  from find_Some_mem [OF Some] have mem: "(l, b) \<in> set (fefoCandidates e db itemId wid)" "need \<le> b_onHand b - b_reserved b"
    by (auto simp: lb)
  have "fefo_le e (l, b) (l', b')"
    if "(l', b') \<in> set (fefoCandidates e db itemId wid)" "need \<le> b_onHand b' - b_reserved b'" for l' b'
    by (rule find_sorted_wrt [OF sorted Some [unfolded lb]]) (use that refl in auto)
  moreover have "l_itemId l = itemId" "l_status l = AVAILABLE" "b_warehouseId b = wid"
    using mem(1) by (auto simp: fefoCandidates_def)
  ultimately show ?thesis using mem Some by (auto simp: selectFefoLot_def lb)
qed

theorem fefo_earliest_witness:
  "(tx_lot, tx_balance) \<in> set (fefoCandidates ex_env tx_approved ''I1'' ''H1'') \<and> l_id tx_lot = ''T1''"
proof -
  have c: "total_collation ex_env" by (simp add: total_collation_def ex_env_def)
  have "selectFefoLot ex_env tx_approved ''I1'' ''H1'' 2000000 = Inr ''T1''"
    unfolding tx_approved_def by (rule tx_fefo)
  with fefo_earliest [OF c, of tx_approved "''I1''" "''H1''" 2000000] show ?thesis
    by (auto simp: tx_approved_def tx_with_def fefoCandidates_def tx_lot_def tx_balance_def)
qed

section \<open>Dispatch\<close>

text \<open>What the picked lots take out of a lot in a warehouse.\<close>

definition picked :: "string prepared \<Rightarrow> string \<Rightarrow> string \<Rightarrow> int" where
  "picked p wid lid = (if wid = o_sourceWarehouseId (pp_order p)
     then sum_list (map (\<lambda>(l, lot). if lot = lid then tl_baseQuantity l else 0) (pp_lines p)) else 0)"

lemma net_dispatch: "net_of wid lid (pi_movements (dispatchPosting inp p)) = - picked p wid lid"
proof -
  have "net_of wid lid (map (dispatchMovement x) ls) = - (if wid = o_sourceWarehouseId x
     then sum_list (map (\<lambda>(l, lot). if lot = lid then tl_baseQuantity l else 0) ls) else 0)" for x ls
    by (induction ls) (auto simp: net_of_def dispatchMovement_def signed_qty_def qty_of_def split: if_splits)
  then show ?thesis by (simp add: dispatchPosting_def picked_def)
qed

lemma ensureOperationalDocument_frame:
  assumes "ensureOperationalDocument e m n l s db = Inr (db', did)"
  shows "on_hand db' = on_hand db" "stock_inv db' = stock_inv db" "db_postings db' = db_postings db"
  using assms by (auto elim!: ensureOperationalDocument_tables simp: stock_inv_def on_hand_def fun_eq_iff)

lemma prepareDispatch_frame:
  fixes db :: "'z transfer_db_scheme"
  assumes "prepareDispatch e inp db = Inr (db1, p)"
  shows "on_hand db1 = on_hand db" "stock_inv db1 = stock_inv db" "db_postings db1 = db_postings db"
    "tr_orders db1 = tr_orders db" "tr_lines db1 = tr_lines db" "pp_order p \<in> set (tr_orders db)"
    "o_id (pp_order p) = ta_orderId inp"
proof -
  from assms have mem: "pp_order p \<in> set (tr_orders db)" "o_id (pp_order p) = ta_orderId inp"
    and doc: "ensureOperationalDocument e TRANSFER_ORDER_DISPATCH_MODULE (o_documentNo (pp_order p))
       (o_sourceLocationId (pp_order p)) ''APPROVED'' db = Inr (db1, pp_docId p)"
    by (auto elim: prepareDispatch_Inr)
  from mem ensureOperationalDocument_frame [OF doc] ensureOperationalDocument_safe [OF doc]
  show "on_hand db1 = on_hand db" "stock_inv db1 = stock_inv db" "db_postings db1 = db_postings db"
    "tr_orders db1 = tr_orders db" "tr_lines db1 = tr_lines db" "pp_order p \<in> set (tr_orders db)"
    "o_id (pp_order p) = ta_orderId inp" by simp_all
qed

text \<open>An order is finalized without touching the stock.\<close>

lemma writeAudit_on_hand [simp]: "on_hand (writeAudit a db) = on_hand db"
  by (simp add: writeAudit_def on_hand_def fun_eq_iff)

lemma on_hand_tables [simp]:
  fixes db :: "'z transfer_db_scheme"
  shows "on_hand (db\<lparr>tr_orders := os\<rparr>) = on_hand db" "on_hand (db\<lparr>tr_lines := ls\<rparr>) = on_hand db"
  by (simp_all add: on_hand_def fun_eq_iff)

lemma finalizeDispatch_stock:
  fixes db :: "'z transfer_db_scheme"
  assumes "finalizeDispatch inp p r db = Inr (db', v)"
  shows "on_hand db' = on_hand db"
proof -
  from assms obtain ls where "advanceOrder inp (pp_order p) APPROVED DISPATCHED (\<lambda>x. o_dispatchDocumentId x = Some (pp_docId p))
       (\<lambda>x. x\<lparr>o_status := DISPATCHED, o_dispatchDocumentId := Some (pp_docId p),
              o_dispatchedBy := Some (ac_id (pp_actor p)), o_version := o_version (pp_order p) + 1\<rparr>)
       (orderAudit (pp_actor p) (o_sourceLocationId (pp_order p)) ''transfer_order.dispatched'' (o_id (pp_order p)))
       (db\<lparr>tr_lines := ls\<rparr>) = Inr (db', v)" by (rule finalizeDispatch_Inr)
  then show ?thesis by (cases rule: advanceOrder_Inr) simp_all
qed

lemma pick_unique:
  assumes "mapE (pickLot e o' db) ls = Inr ps" and "(l, lot) \<in> set ps" and "(l, lot') \<in> set ps"
  shows "lot = lot'"
proof -
  from mapE_mem [OF assms(1,2)] mapE_mem [OF assms(1,3)]
  have "pickLot e o' db l = Inr (l, lot)" "pickLot e o' db l = Inr (l, lot')" using pickLot_fst by fastforce+
  then show ?thesis by simp
qed

text \<open>Every picked line is in the table afterwards with its lot and its whole quantity.\<close>

lemma finalized_lines:
  fixes db :: "'z transfer_db_scheme"
  assumes ok: "tables_ok (tr_orders db) (tr_lines db)" and x: "x \<in> set (tr_orders db)" "o_status x = APPROVED"
    and pick: "mapE (pickLot e x db0) (fetchLines db (o_id x)) = Inr ps"
    and all: "list_all2 (dispatched_as (set ps)) (tr_lines db) ls"
    and stamped: "\<forall>l \<in> set ls. tl_id l \<in> tl_id ` fst ` set ps \<longrightarrow> tl_dispatchPostingLineId l \<noteq> None"
    and l: "(l, lot) \<in> set ps"
  shows "\<exists>l' \<in> lines_in ls (o_id x). tl_id l' = tl_id l \<and> tl_lotId l' = Some lot \<and>
    tl_dispatchedQuantity l' = Some (tl_baseQuantity l)"
proof -
  have fsts: "fst ` set ps = lines_in (tr_lines db) (o_id x)" using mapE_fst [OF pick pickLot_fst] by simp
  have mem: "l \<in> lines_in (tr_lines db) (o_id x)" using l fsts by force
  then have none: "tl_dispatchPostingLineId l = None" using order_ok_of [OF ok x(1)] x(2) by (auto simp: order_ok_def)
  from all mem have "\<exists>l' \<in> set ls. dispatched_as (set ps) l l'"
    by (induction rule: list_all2_induct) (auto simp: lines_in_def)
  then obtain l' where l': "l' \<in> set ls" "dispatched_as (set ps) l l'" by blast
  have "tl_id l' = tl_id l" using l'(2) by (auto simp: dispatched_as_def)
  moreover have "tl_id l \<in> tl_id ` fst ` set ps" using l by force
  ultimately have "tl_dispatchPostingLineId l' \<noteq> None" using stamped l'(1) by simp
  with none l'(2) obtain k lot' pl where k: "(k, lot') \<in> set ps" "tl_id k = tl_id l"
    and eq: "l' = l\<lparr>tl_lotId := Some lot', tl_dispatchedQuantity := Some (tl_baseQuantity k),
               tl_dispatchPostingLineId := Some pl, tl_status := DISPATCHED\<rparr>"
    unfolding dispatched_as_def by auto
  have "k \<in> lines_in (tr_lines db) (o_id x)" using k(1) fsts by force
  with k(2) mem ok have "k = l" unfolding tables_ok_def lines_in_def by (metis (no_types, lifting) distinct_map inj_onD mem_Collect_eq)
  with pick_unique [OF pick l] k(1) eq have "l' = l\<lparr>tl_lotId := Some lot, tl_dispatchedQuantity := Some (tl_baseQuantity l),
               tl_dispatchPostingLineId := Some pl, tl_status := DISPATCHED\<rparr>" by simp
  with l'(1) mem show ?thesis by (intro bexI [of _ l']) (auto simp: lines_in_def)
qed

text \<open>C14: A dispatch moves exactly the order's quantities. A dispatch of an approved order that runs
  without interference and has not posted before takes out of every lot of the source warehouse exactly
  the base quantities of the lines the lot was picked for and touches no other stock; the order is then
  dispatched, one version later, and every line records its lot and its whole base quantity.\<close>

theorem dispatch_moves_stock:
  assumes prep: "prepareDispatch e inp db = Inr (db1, p)" and st: "o_status (pp_order p) = APPROVED"
    and run: "dispatchTransferOrder e (post e' deps aborts) id id inp db = (db', Inr (o', ls'))"
    and inv: "stock_inv db" "tables_ok (tr_orders db) (tr_lines db)"
    and key: "\<forall>q \<in> set (db_postings db). p_idempotencyKey q \<noteq> o_documentNo (pp_order p) @ '':DISPATCH''"
  shows "(\<forall>wid lid. on_hand db' wid lid = on_hand db wid lid - picked p wid lid) \<and>
    o_id o' = ta_orderId inp \<and> o_status o' = DISPATCHED \<and> o_version o' = Suc (o_version (pp_order p)) \<and>
    (\<forall>(l, lot) \<in> set (pp_lines p). \<exists>l' \<in> set ls'. tl_id l' = tl_id l \<and> tl_lotId l' = Some lot \<and>
       tl_dispatchedQuantity l' = Some (tl_baseQuantity l))"
proof -
  note pf = prepareDispatch_frame [OF prep]
  from run obtain db2 r where po: "post e' deps aborts (dispatchPosting inp p) db1 = (db2, Inr r)"
    and fin: "finalizeDispatch inp p r db2 = Inr (db', (o', ls'))"
    by (auto simp: dispatchTransferOrder_def run_tx_def prep split: prod.splits sum.splits)
  have inv1: "stock_inv db1" using inv(1) pf(2) by simp
  have new: "\<not> pr_replayed r"
    by (rule replay_needs_key [OF po]) (use key pf(3) in \<open>simp add: dispatchPosting_def\<close>)
  have stock: "on_hand db' wid lid = on_hand db wid lid - picked p wid lid" for wid lid
    using post_frame(2) [OF inv1 po] new net_dispatch finalizeDispatch_stock [OF fin] pf(1) by simp
  note fr = frame_tables [OF conjunct1 [OF post_frame(1) [OF inv1 po]]]
  have tabs: "tr_orders db2 = tr_orders db" "tr_lines db2 = tr_lines db" using fr pf(4,5) by simp_all
  from fin obtain ls where all: "list_all2 (dispatched_as (set (pp_lines p))) (tr_lines db2) ls"
    and stamped: "\<forall>l \<in> set ls. tl_id l \<in> tl_id ` fst ` set (pp_lines p) \<longrightarrow> tl_dispatchPostingLineId l \<noteq> None"
    and adv: "advanceOrder inp (pp_order p) APPROVED DISPATCHED (\<lambda>x. o_dispatchDocumentId x = Some (pp_docId p))
       (\<lambda>x. x\<lparr>o_status := DISPATCHED, o_dispatchDocumentId := Some (pp_docId p),
              o_dispatchedBy := Some (ac_id (pp_actor p)), o_version := o_version (pp_order p) + 1\<rparr>)
       (orderAudit (pp_actor p) (o_sourceLocationId (pp_order p)) ''transfer_order.dispatched'' (o_id (pp_order p)))
       (db2\<lparr>tr_lines := ls\<rparr>) = Inr (db', (o', ls'))" by (rule finalizeDispatch_Inr)
  from prep have pick: "mapE (pickLot e (pp_order p) db) (fetchLines db (o_id (pp_order p))) = Inr (pp_lines p)"
    by (rule prepareDispatch_Inr)
  have lines: "\<exists>l' \<in> lines_in ls (o_id (pp_order p)). tl_id l' = tl_id l \<and> tl_lotId l' = Some lot \<and>
      tl_dispatchedQuantity l' = Some (tl_baseQuantity l)" if "(l, lot) \<in> set (pp_lines p)" for l lot
    by (rule finalized_lines [OF inv(2) pf(6) st pick all [unfolded tabs] stamped that])
  from adv show ?thesis
  proof (cases rule: advanceOrder_Inr)
    case (moved x db3 u)
    have ls': "set ls' = lines_in ls (o_id (pp_order p))" and o': "o' = u" using moved(6,8) by simp_all
    have "x = pp_order p" by (rule same_row [OF inv(2) _ pf(6) moved(3)]) (use moved(2) tabs in simp)
    with moved(9) have "o_id o' = ta_orderId inp" "o_status o' = DISPATCHED" "o_version o' = Suc (o_version (pp_order p))"
      unfolding o' using pf(7) by simp_all
    then show ?thesis using stock lines unfolding ls' by (intro conjI) auto
  next
    case (before x)
    have "x = pp_order p" by (rule same_row [OF inv(2) _ pf(6) before(2)]) (use before(1) tabs in simp)
    with before(3) st show ?thesis by simp
  qed
qed

theorem dispatch_moves_stock_witness:
  "on_hand tx_dispatched ''H1'' ''T1'' = on_hand tx_approved ''H1'' ''T1'' - 2000000 \<and>
   o_status tx_order4 = DISPATCHED"
proof -
  have key: "\<forall>q \<in> set (db_postings tx_approved). p_idempotencyKey q \<noteq> o_documentNo (pp_order tx_prep) @ '':DISPATCH''"
    by (simp add: tx_approved_def tx_with_def)
  have st: "o_status (pp_order tx_prep) = APPROVED" by (simp add: tx_prep_def tx_order3_fields)
  have inv: "stock_inv tx_approved" "tables_ok (tr_orders tx_approved) (tr_lines tx_approved)"
    using posting_transfers.reachable_world [OF tx_reachable(4) [of "post ex_env tx_deps (\<lambda>_. None)"]] by (simp_all add: world_ok_def)
  from dispatch_moves_stock [OF tx_prepare st tx_dispatch inv key]
  show ?thesis by (simp add: picked_def tx_prep_def tx_order3_fields tx_line_fields)
qed

text \<open>A refused dispatch leaves nothing behind. When the posting service refuses the posting of a
  dispatch whose document did not exist before, the dispatch fails with that error and the database is
  as before, but for the counter of identifiers: no document, no stock, no order or line changed.\<close>

theorem refused_dispatch_undone:
  assumes prep: "prepareDispatch e inp db = Inr (db1, p)"
    and refused: "post e' deps aborts (dispatchPosting inp p) db1 = (db2, Inl err)"
    and fresh: "\<forall>d \<in> set (db_documents db). \<not> (d_module d = TRANSFER_ORDER_DISPATCH_MODULE \<and>
      d_documentNo d = o_documentNo (pp_order p)) \<and> d_id d \<noteq> env_uuid e (db_ids db)"
  shows "dispatchTransferOrder e (post e' deps aborts) id id inp db =
    (db\<lparr>db_ids := Suc (db_ids db)\<rparr>, Inl (Passed err))"
proof -
  from prep have doc: "ensureOperationalDocument e TRANSFER_ORDER_DISPATCH_MODULE (o_documentNo (pp_order p))
       (o_sourceLocationId (pp_order p)) ''APPROVED'' db = Inr (db1, pp_docId p)" by (rule prepareDispatch_Inr)
  have none: "\<not> (\<exists>d \<in> set (db_documents db). d_module d = TRANSFER_ORDER_DISPATCH_MODULE \<and>
      d_documentNo d = o_documentNo (pp_order p) \<or> d_id d = env_uuid e (db_ids db))" using fresh by blast
  have "(db\<lparr>db_documents := db_documents db @
      [\<lparr>d_id = env_uuid e (db_ids db), d_module = TRANSFER_ORDER_DISPATCH_MODULE,
        d_documentNo = o_documentNo (pp_order p), d_locationId = o_sourceLocationId (pp_order p),
        d_status = ''APPROVED'', d_version = 1, d_stockPostingId = None\<rparr>], db_ids := Suc (db_ids db)\<rparr>,
      env_uuid e (db_ids db)) = (db1, pp_docId p)"
    using doc none unfolding ensureOperationalDocument_def ensureDocumentWith_def Let_def
    by (simp only: if_not_P sum.inject) (auto split: option.splits if_splits dest!: find_Some_mem)
  then have db1: "db1 = db\<lparr>db_documents := db_documents db @
      [\<lparr>d_id = env_uuid e (db_ids db), d_module = TRANSFER_ORDER_DISPATCH_MODULE,
        d_documentNo = o_documentNo (pp_order p), d_locationId = o_sourceLocationId (pp_order p),
        d_status = ''APPROVED'', d_version = 1, d_stockPostingId = None\<rparr>], db_ids := Suc (db_ids db)\<rparr>"
    and did: "pp_docId p = env_uuid e (db_ids db)" by (rule Pair_inject, simp)+
  have keep: "filter (\<lambda>d. \<not> (d_id d = env_uuid e (db_ids db) \<and> d_status d = ''APPROVED'' \<and> d_stockPostingId d = None))
      (db_documents db) = db_documents db" using fresh by (intro filter_True) blast
  have "compensateDocument (pp_docId p) ''APPROVED'' db1 = db\<lparr>db_ids := Suc (db_ids db)\<rparr>"
    unfolding compensateDocument_def did db1 by (simp add: keep [simplified])
  moreover have "db2 = db1" using refused by (rule post_rejected)
  ultimately show ?thesis by (simp add: dispatchTransferOrder_def run_tx_def prep refused)
qed

definition tx_off_env :: env where
  "tx_off_env = ex_env\<lparr>env_stockPostingDisabled := Some ''1''\<rparr>"

theorem refused_dispatch_undone_witness:
  "dispatchTransferOrder ex_env (post tx_off_env tx_deps (\<lambda>_. None)) id id tx_inp tx_approved =
     (tx_approved\<lparr>db_ids := Suc (db_ids tx_approved)\<rparr>, Inl (Passed (StockErr FEATURE_DISABLED 503)))"
proof (rule refused_dispatch_undone [OF tx_prepare])
  have "preparePosting tx_off_env tx_deps tx_posting = Inl (StockErr FEATURE_DISABLED 503)"
    by (simp add: preparePosting_def tx_validate postingDisabled_def tx_off_env_def to_lower_def lower_char_def code_of_def)
  then have "executePosting tx_off_env tx_deps None tx_posting tx_prepared = (tx_prepared, Inl (StockErr FEATURE_DISABLED 503))"
    by (simp add: executePosting_def)
  moreover have "\<not> retryable (StockErr FEATURE_DISABLED 503)"
    by (simp add: retryable_def error_causes_def findSqlState_def stock_code_name_def is_sql_state_def)
  ultimately show "post tx_off_env tx_deps (\<lambda>_. None) (dispatchPosting tx_inp tx_prep) tx_prepared =
      (tx_prepared, Inl (StockErr FEATURE_DISABLED 503))"
    unfolding post_def tx_dispatch_posting by (rule executePosting_not_retryable) simp
qed (simp add: tx_approved_def tx_with_simps)

section \<open>What concurrency breaks\<close>

lemma openOrder_cong:
  fixes db db' :: "'z transfer_db_scheme"
  assumes "stock_frame db db'"
  shows "openOrder inp roles db' = openOrder inp roles db" "assertTransferFeature db' = assertTransferFeature db"
    "fetchLines db' i = fetchLines db i"
proof -
  have "db_users db' = db_users db" "db_sessions db' = db_sessions db" "db_access db' = db_access db"
    "db_flags db' = db_flags db" using assms by (simp_all add: stock_frame_def)
  note eqs = this frame_tables [OF assms]
  show "openOrder inp roles db' = openOrder inp roles db" "assertTransferFeature db' = assertTransferFeature db"
    "fetchLines db' i = fetchLines db i"
    unfolding openOrder_def authorizeTransfer_def authorizeWith_def lockOrder_def assertTransferFeature_def featureWith_def
      fetchLines_def eqs
    by (rule refl)+
qed

text \<open>What the posting of a fresh dispatch has done by itself.\<close>

lemma posted_dispatch:
  fixes db :: "'z transfer_db_scheme"
  assumes prep: "prepareDispatch e inp db = Inr (db1, p)"
    and po: "post e' deps aborts (dispatchPosting inp p) db1 = (db2, Inr r)"
    and inv: "stock_inv db"
    and key: "\<forall>q \<in> set (db_postings db). p_idempotencyKey q \<noteq> o_documentNo (pp_order p) @ '':DISPATCH''"
  shows "on_hand db2 wid lid = on_hand db wid lid - picked p wid lid" "stock_frame db1 db2"
    "tr_orders db2 = tr_orders db" "tr_lines db2 = tr_lines db"
proof -
  note pf = prepareDispatch_frame [OF prep]
  have inv1: "stock_inv db1" using inv pf(2) by simp
  have "\<forall>q \<in> set (db_postings db1). p_idempotencyKey q \<noteq> pi_idempotencyKey (dispatchPosting inp p)"
    using key pf(3) by (simp add: dispatchPosting_def)
  from replay_needs_key [OF po this] post_frame(2) [OF inv1 po, of wid lid]
  show "on_hand db2 wid lid = on_hand db wid lid - picked p wid lid" by (simp add: net_dispatch pf(1))
  show fr: "stock_frame db1 db2" using post_frame(1) [OF inv1 po] by simp
  show "tr_orders db2 = tr_orders db" "tr_lines db2 = tr_lines db" using frame_tables [OF fr] pf(4,5) by simp_all
qed

lemma cancel_row:
  fixes db :: "'z transfer_db_scheme"
  assumes "cancelTransferOrder inp reason db = (db', Inr (c, cls))"
  shows "c \<in> set (tr_orders db')" "o_id c = ta_orderId inp" "o_status c = CANCELLED" "on_hand db' = on_hand db"
proof -
  from assms obtain a o' dbu aud where op: "openOrder inp TRANSFER_ROLES db = Inr (a, o')"
    and upd: "updateOrder (o_id o') (o_status o') (ta_expectedVersion inp)
       (\<lambda>x. x\<lparr>o_status := CANCELLED, o_cancelledBy := Some (ac_id a), o_cancelReason := Some reason,
          o_version := o_version o' + 1\<rparr>) db = Some (dbu, c)"
    and db': "db' = writeAudit aud dbu"
    by (auto simp: cancelTransferOrder_def run_tx_def res_iff split: option.splits sum.splits)
  from op have oid: "o_id o' = ta_orderId inp" by (rule openOrder_Inr)
  from updateOrder_Some [OF upd] obtain x where x: "x \<in> set (tr_orders db)" "o_id x = o_id o'"
    "o_status x = o_status o'" "o_version x = ta_expectedVersion inp"
    and c: "c = x\<lparr>o_status := CANCELLED, o_cancelledBy := Some (ac_id a), o_cancelReason := Some reason,
          o_version := o_version o' + 1\<rparr>"
    and dbu: "dbu = db\<lparr>tr_orders := update_where (\<lambda>y. o_id y = o_id o' \<and> o_status y = o_status o' \<and>
       o_version y = ta_expectedVersion inp) (\<lambda>x. x\<lparr>o_status := CANCELLED, o_cancelledBy := Some (ac_id a),
          o_cancelReason := Some reason, o_version := o_version o' + 1\<rparr>) (tr_orders db)\<rparr>" .
  show "c \<in> set (tr_orders db')" using x by (simp add: db' dbu c update_where_def image_iff) blast
  show "o_id c = ta_orderId inp" "o_status c = CANCELLED" using x(2) oid by (simp_all add: c)
  show "on_hand db' = on_hand db" by (simp add: db' dbu)
qed

text \<open>Preparing a dispatch changes nothing a request looks at when it opens an order.\<close>

lemma prepareDispatch_opens:
  fixes db :: "'z transfer_db_scheme"
  assumes "prepareDispatch e inp db = Inr (db1, p)"
  shows "openOrder inp' roles db1 = openOrder inp' roles db"
proof -
  from assms obtain ds n where "db1 = db\<lparr>db_documents := ds, db_ids := n\<rparr>"
    by (auto elim!: prepareDispatch_Inr ensureOperationalDocument_tables)
  then have eqs: "db_users db1 = db_users db" "db_sessions db1 = db_sessions db" "db_access db1 = db_access db"
    "tr_orders db1 = tr_orders db" by simp_all
  show ?thesis unfolding openOrder_def authorizeTransfer_def authorizeWith_def lockOrder_def eqs by (rule refl)
qed

text \<open>A cancellation by someone who may open the order, at its version, with a reason, succeeds.\<close>

lemma cancel_succeeds:
  fixes db :: "'z transfer_db_scheme"
  assumes "openOrder inp TRANSFER_ROLES db = Inr (a, o')" and "o_status o' \<in> {DRAFT, SUBMITTED, APPROVED}"
    and "o_version o' = ta_expectedVersion inp" and "trim reason \<noteq> []"
  shows "\<exists>db' c cls. cancelTransferOrder inp reason db = (db', Inr (c, cls))"
proof -
  have mem: "o' \<in> set (tr_orders db)" using assms(1) by (auto elim: openOrder_Inr)
  have "List.find (\<lambda>x. o_id x = o_id o' \<and> o_status x = o_status o' \<and> o_version x = ta_expectedVersion inp) (tr_orders db) \<noteq> None"
    using mem assms(3) by (auto simp: find_None_iff)
  then obtain y where "List.find (\<lambda>x. o_id x = o_id o' \<and> o_status x = o_status o' \<and> o_version x = ta_expectedVersion inp) (tr_orders db) = Some y"
    by blast
  with assms show ?thesis
    by (auto simp: cancelTransferOrder_def run_tx_def expectStatus_def updateOrder_def Let_def)
qed

text \<open>C39: A cancellation can overtake a dispatch. Whoever may open an approved order can cancel it after the
  dispatch of the order was posted and before its last transaction, at the version the dispatch itself
  expects: the cancellation succeeds, the dispatch then fails, the order ends cancelled, and the goods
  have left the source warehouse: nothing takes the posting back.\<close>

theorem cancel_overtakes_dispatch:
  assumes prep: "prepareDispatch e inp db = Inr (db1, p)" and st: "o_status (pp_order p) = APPROVED"
    and po: "post e' deps aborts (dispatchPosting inp p) db1 = (db2, Inr r)"
    and open': "openOrder cinp TRANSFER_ROLES db = Inr (a, o')" and same: "ta_orderId cinp = ta_orderId inp"
    and ver: "ta_expectedVersion cinp = ta_expectedVersion inp" and reason: "trim reason \<noteq> []"
    and inv: "stock_inv db" "tables_ok (tr_orders db) (tr_lines db)"
    and key: "\<forall>q \<in> set (db_postings db). p_idempotencyKey q \<noteq> o_documentNo (pp_order p) @ '':DISPATCH''"
  shows "\<exists>db3 c cls err. cancelTransferOrder cinp reason db2 = (db3, Inr (c, cls)) \<and>
    dispatchTransferOrder e (post e' deps aborts) id (\<lambda>x. fst (cancelTransferOrder cinp reason x)) inp db = (db3, Inl err) \<and>
    c \<in> set (tr_orders db3) \<and> o_id c = ta_orderId inp \<and> o_status c = CANCELLED \<and>
    (\<forall>wid lid. on_hand db3 wid lid = on_hand db wid lid - picked p wid lid)"
proof -
  note pd = posted_dispatch [OF prep po inv(1) key]
  have op: "openOrder cinp TRANSFER_ROLES db2 = Inr (a, o')"
    using open' openOrder_cong(1) [OF pd(2)] prepareDispatch_opens [OF prep] by simp
  have "o' = pp_order p"
  proof (rule same_row [OF inv(2)])
    show "o' \<in> set (tr_orders db)" "pp_order p \<in> set (tr_orders db)" "o_id o' = o_id (pp_order p)"
      using open' prepareDispatch_frame(6,7) [OF prep] same by (auto elim: openOrder_Inr)
  qed
  then have "o_status o' \<in> {DRAFT, SUBMITTED, APPROVED}" "o_version o' = ta_expectedVersion cinp"
    using st ver prep by (auto elim: prepareDispatch_Inr)
  from cancel_succeeds [OF op this reason] obtain db3 c cls where
    cancel: "cancelTransferOrder cinp reason db2 = (db3, Inr (c, cls))" by blast
  note row = cancel_row [OF cancel]
  have "tables_ok (tr_orders db2) (tr_lines db2)" using inv(2) pd(3,4) by simp
  then have tabs: "tables_ok (tr_orders db3) (tr_lines db3)"
    using cancel_step [OF cancel] by (auto simp: safe_step_def)
  have lost: "x = c" if "x \<in> set (tr_orders db3)" "o_id x = o_id (pp_order p)" for x
    by (rule same_row [OF tabs that(1) row(1)]) (simp add: that(2) row(2) same prepareDispatch_frame(7) [OF prep])
  have "\<exists>err. finalizeDispatch inp p r db3 = Inl err"
  proof (cases "finalizeDispatch inp p r db3")
    case (Inr dv)
    obtain db' v where dv: "dv = (db', v)" by (cases dv)
    from finalizeDispatch_Inr [OF Inr [unfolded dv]] obtain ls where
      "advanceOrder inp (pp_order p) APPROVED DISPATCHED (\<lambda>x. o_dispatchDocumentId x = Some (pp_docId p))
       (\<lambda>x. x\<lparr>o_status := DISPATCHED, o_dispatchDocumentId := Some (pp_docId p),
              o_dispatchedBy := Some (ac_id (pp_actor p)), o_version := o_version (pp_order p) + 1\<rparr>)
       (orderAudit (pp_actor p) (o_sourceLocationId (pp_order p)) ''transfer_order.dispatched'' (o_id (pp_order p)))
       (db3\<lparr>tr_lines := ls\<rparr>) = Inr (db', v)" .
    then have False
    proof (cases rule: advanceOrder_Inr)
      case (moved x db1 u)
      then show False using lost [of x] row(3) by simp
    next
      case (before x)
      then show False using lost [of x] row(3) by simp
    qed
    then show ?thesis ..
  qed simp
  then obtain err where "dispatchTransferOrder e (post e' deps aborts) id (\<lambda>x. fst (cancelTransferOrder cinp reason x)) inp db =
      (db3, Inl err)" by (auto simp: dispatchTransferOrder_def run_tx_def prep po cancel)
  with cancel row pd(1) same show ?thesis by (intro exI [of _ db3] exI [of _ c] exI [of _ cls] exI [of _ err]) simp
qed

theorem cancel_overtakes_dispatch_witness:
  "\<exists>db' c err. dispatchTransferOrder ex_env (post ex_env tx_deps (\<lambda>_. None)) id
       (\<lambda>x. fst (cancelTransferOrder (tx_act ''U1'' 3) ''no'' x)) tx_inp tx_approved = (db', Inl err) \<and>
     c \<in> set (tr_orders db') \<and> o_status c = CANCELLED \<and> on_hand db' ''H1'' ''T1'' = on_hand tx_approved ''H1'' ''T1'' - 2000000"
proof -
  have key: "\<forall>q \<in> set (db_postings tx_approved). p_idempotencyKey q \<noteq> o_documentNo (pp_order tx_prep) @ '':DISPATCH''"
    by (simp add: tx_approved_def tx_with_def)
  have inv: "stock_inv tx_approved" "tables_ok (tr_orders tx_approved) (tr_lines tx_approved)"
    using posting_transfers.reachable_world [OF tx_reachable(4) [of "post ex_env tx_deps (\<lambda>_. None)"]] by (simp_all add: world_ok_def)
  have auth: "authorizeTransfer tx_approved ''U1'' None TRANSFER_ROLES = Inr tx_ann"
    by (simp add: authorizeTransfer_def authorizeWith_def tx_approved_def tx_with_def owner_role truthy_def TRANSFER_ROLES_def tx_ann_def)
  have orders: "tr_orders tx_approved = [tx_order3]" by (simp add: tx_approved_def tx_with_def)
  have op: "openOrder (tx_act ''U1'' 3) TRANSFER_ROLES tx_approved = Inr (tx_ann, tx_order3)"
    by (simp add: openOrder_def auth tx_act_def lockOrder_def orders tx_order3_fields
        assertLocationInScope_def in_scope_def tx_fields)
  have st: "o_status (pp_order tx_prep) = APPROVED" by (simp add: tx_prep_def tx_order3_fields)
  have act: "ta_orderId (tx_act ''U1'' 3) = ta_orderId tx_inp" "ta_expectedVersion (tx_act ''U1'' 3) = ta_expectedVersion tx_inp"
    "trim ''no'' \<noteq> []" by (simp_all add: tx_act_def tx_inp_def text_eval)
  from cancel_overtakes_dispatch [OF tx_prepare st tx_post op act inv key] obtain db' c err where
    "dispatchTransferOrder ex_env (post ex_env tx_deps (\<lambda>_. None)) id
       (\<lambda>x. fst (cancelTransferOrder (tx_act ''U1'' 3) ''no'' x)) tx_inp tx_approved = (db', Inl err)"
    "c \<in> set (tr_orders db')" "o_status c = CANCELLED"
    "\<forall>wid lid. on_hand db' wid lid = on_hand tx_approved wid lid - picked tx_prep wid lid" by blast
  moreover have "picked tx_prep ''H1'' ''T1'' = 2000000"
    by (auto simp: picked_def tx_prep_def tx_order3_fields tx_line_fields tx_inp_def)
  ultimately show ?thesis by (intro exI [of _ db'] exI [of _ c] exI [of _ err]) simp
qed

lemma mapE_Inl:
  assumes "x \<in> set xs" and "f x = Inl err" and "\<And>y err'. f y = Inl err' \<Longrightarrow> err' = err"
  shows "mapE f xs = Inl err"
  using assms(1)
proof (induction xs)
  case (Cons y ys)
  show ?case
  proof (cases "f y")
    case (Inl err')
    with assms(3) [OF Inl] show ?thesis by simp
  next
    case (Inr z)
    with Cons.prems assms(2) have "x \<in> set ys" by auto
    then have "mapE f ys = Inl err" by (rule Cons.IH)
    with Inr show ?thesis by simp
  qed
qed simp

lemma pickLot_Inl: "pickLot e o' db l = Inl err \<Longrightarrow> err = TransferErr T_INSUFFICIENT_STOCK 409"
  by (auto simp: pickLot_def selectFefoLot_def bindE_Inl_iff split: option.splits)

text \<open>A dispatch whose last transaction was lost need not replay. When the posting of a dispatch
  went through but the process stopped before finalizing it, and a line with no fixed lot asks for more
  than any one lot has left, every retry of the same request stops at the choice of lots with
  \<open>INSUFFICIENT_STOCK\<close> and never reaches the posting it should replay: the goods are gone and the order
  stays approved.\<close>

theorem dispatch_retry_cannot_replay:
  assumes prep: "prepareDispatch e inp db = Inr (db1, p)"
    and po: "post e' deps aborts (dispatchPosting inp p) db1 = (db2, Inr r)"
    and inv: "stock_inv db" and st: "o_status (pp_order p) = APPROVED"
    and key: "\<forall>q \<in> set (db_postings db). p_idempotencyKey q \<noteq> o_documentNo (pp_order p) @ '':DISPATCH''"
    and line: "l \<in> lines_in (tr_lines db) (ta_orderId inp)" "truthy (tl_lotId l) = None"
    and short: "\<forall>(lot, b) \<in> set (fefoCandidates e db2 (tl_itemId l) (o_sourceWarehouseId (pp_order p))).
      b_onHand b - b_reserved b < tl_baseQuantity l"
  shows "dispatchTransferOrder e poster gap1 gap2 inp db2 = (db2, Inl (TransferErr T_INSUFFICIENT_STOCK 409)) \<and>
    pp_order p \<in> set (tr_orders db2) \<and> on_hand db2 wid lid = on_hand db wid lid - picked p wid lid"
proof -
  note pf = prepareDispatch_frame [OF prep] and pd = posted_dispatch [OF prep po inv key]
  have fr: "stock_frame db db1"
    by (rule prepareDispatch_Inr [OF prep]) (auto elim!: ensureOperationalDocument_tables simp: stock_frame_def)
  have fr2: "stock_frame db db2" using fr pd(2) by (rule stock_frame_trans)
  from prep obtain a where op: "assertTransferFeature db = Inr ()" "openOrder inp TRANSFER_ROLES db = Inr (a, pp_order p)"
    "expectPhase APPROVED DISPATCHED inp (pp_order p) = Inr ()"
    by (auto simp: prepareDispatch_def res_iff)
  have "mapE (pickLot e (pp_order p) db2) (fetchLines db2 (o_id (pp_order p))) = Inl (TransferErr T_INSUFFICIENT_STOCK 409)"
  proof (rule mapE_Inl)
    show "l \<in> set (fetchLines db2 (o_id (pp_order p)))" using line(1) pf(7) pd(4) by simp
    have "List.find (\<lambda>(l, b). tl_baseQuantity l' \<le> b_onHand b - b_reserved b)
       (sort_by (fefo_le e) (fefoCandidates e db2 (tl_itemId l) (o_sourceWarehouseId (pp_order p)))) = None"
      if "l' = l" for l' using short that by (auto simp: find_None_iff)
    then show "pickLot e (pp_order p) db2 l = Inl (TransferErr T_INSUFFICIENT_STOCK 409)"
      using line(2) by (simp add: pickLot_def selectFefoLot_def)
  qed (rule pickLot_Inl)
  then have "prepareDispatch e inp db2 = Inl (TransferErr T_INSUFFICIENT_STOCK 409)"
    by (simp add: prepareDispatch_def openOrder_cong(1,2) [OF fr2] op)
  with pf(6) pd(1,3) show ?thesis by (simp add: dispatchTransferOrder_def run_tx_def)
qed

theorem dispatch_retry_cannot_replay_witness:
  "dispatchTransferOrder ex_env (post ex_env tx_deps (\<lambda>_. None)) id id tx_inp tx_posted =
     (tx_posted, Inl (TransferErr T_INSUFFICIENT_STOCK 409))"
proof -
  have key: "\<forall>q \<in> set (db_postings tx_approved). p_idempotencyKey q \<noteq> o_documentNo (pp_order tx_prep) @ '':DISPATCH''"
    by (simp add: tx_approved_def tx_with_def)
  have inv: "stock_inv tx_approved"
    using posting_transfers.reachable_world [OF tx_reachable(4) [of "post ex_env tx_deps (\<lambda>_. None)"]] by (simp add: world_ok_def)
  have st: "o_status (pp_order tx_prep) = APPROVED" by (simp add: tx_prep_def tx_order3_fields)
  have line: "tx_line \<in> lines_in (tr_lines tx_approved) (ta_orderId tx_inp)" "truthy (tl_lotId tx_line) = None"
    by (simp_all add: lines_in_def tx_approved_def tx_with_simps tx_inp_def tx_act_def tx_line_def truthy_def tx_fields)
  have short: "\<forall>(lot, b) \<in> set (fefoCandidates ex_env tx_posted (tl_itemId tx_line) (o_sourceWarehouseId (pp_order tx_prep))).
      b_onHand b - b_reserved b < tl_baseQuantity tx_line"
    by (simp add: fefoCandidates_def tx_posted_def tx_prepared_def tx_with_def tx_balance2_def tx_balance_def tx_lot_def
        tx_line_fields)
  show ?thesis by (rule conjunct1 [OF dispatch_retry_cannot_replay [OF tx_prepare tx_post inv st key line short]])
qed

end
