(* ===== verification/Lease.thy ===== *)
theory Lease
  imports StockTypes
begin

text \<open>
  The contract of a work queue whose rows are claimed under a lease, as the print queue
  (\<open>printing/service-v2.ts\<close>) and the queue of outbound commands (\<open>outbound/worker.ts\<close>) rely on it.
  A claim is one conditional \<open>UPDATE\<close>: it takes the row when it is ready at that moment and stamps an
  owner and the instant the lease ends. A resolution is conditional on the owner.
  Times are milliseconds.
\<close>

locale lease_queue =
  fixes valid :: "'s \<Rightarrow> bool"
    and row :: "'s \<Rightarrow> string \<Rightarrow> 'r option"
    and ready :: "nat \<Rightarrow> 'r \<Rightarrow> bool"
    and owner :: "'r \<Rightarrow> string option"
    and claim :: "nat \<Rightarrow> nat \<Rightarrow> string \<Rightarrow> string \<Rightarrow> 's \<Rightarrow> 's \<times> 'r option"
  assumes claim_ready: "valid s \<Longrightarrow> row s i = Some r \<Longrightarrow> ready now r \<Longrightarrow>
      \<exists>s' r'. claim now until who i s = (s', Some r') \<and> row s' i = Some r' \<and> owner r' = Some who \<and>
        (\<forall>t. ready t r' \<longleftrightarrow> until \<le> t)"
    and claim_busy: "valid s \<Longrightarrow> (\<And>r. row s i = Some r \<Longrightarrow> \<not> ready now r) \<Longrightarrow> claim now until who i s = (s, None)"
    and claim_frame: "valid s \<Longrightarrow> j \<noteq> i \<Longrightarrow> row (fst (claim now until who i s)) j = row s j"
    and claim_valid: "valid s \<Longrightarrow> valid (fst (claim now until who i s))"
begin

definition claims :: "(nat \<times> nat \<times> string \<times> string) list \<Rightarrow> 's \<Rightarrow> 's" where
  "claims cs s = fold (\<lambda>(now, until, who, i) s. fst (claim now until who i s)) cs s"

lemma claim_SomeD:
  assumes "valid s" and "claim now until who i s = (s', Some r')"
  obtains r where "row s i = Some r" "ready now r" "row s' i = Some r'" "owner r' = Some who"
    "\<forall>t. ready t r' \<longleftrightarrow> until \<le> t"
proof (cases "\<exists>r. row s i = Some r \<and> ready now r")
  case True
  then obtain r where r: "row s i = Some r" "ready now r" by blast
  from claim_ready [OF assms(1) r, of until who] assms(2) that r show thesis by auto
next
  case False
  then have "claim now until who i s = (s, None)" by (intro claim_busy [OF assms(1)]) blast
  with assms show thesis by simp
qed

text \<open>While a lease lasts nobody else gets the row, however many claims are made.\<close>

lemma held_row:
  assumes "valid s" and "row s i = Some r" and "\<And>t. t < until \<Longrightarrow> \<not> ready t r"
    and "\<forall>(now, _, _, _) \<in> set cs. now < until"
  shows "valid (claims cs s) \<and> row (claims cs s) i = Some r"
  using assms(1,2,4)
proof (induction cs arbitrary: s)
  case (Cons c cs)
  obtain now u who j where c: "c = (now, u, who, j)" by (cases c)
  have now: "now < until" using Cons.prems(3) c by simp
  have "row (fst (claim now u who j s)) i = Some r"
  proof (cases "j = i")
    case True
    have "claim now u who j s = (s, None)"
      by (rule claim_busy [OF Cons.prems(1)]) (use Cons.prems(2) assms(3) [OF now] True in auto)
    then show ?thesis using Cons.prems(2) by simp
  qed (simp add: claim_frame Cons.prems)
  from Cons.IH [OF claim_valid [OF Cons.prems(1)] this] Cons.prems(3) show ?case by (simp add: claims_def c)
qed (simp add: claims_def)

lemma claimed_row:
  assumes "valid s" and "claim now until who i s = (s', Some r)" and "\<forall>(now', _, _, _) \<in> set cs. now' < until"
  shows "valid (claims cs s')" "row (claims cs s') i = Some r" "owner r = Some who" "ready t r \<longleftrightarrow> until \<le> t"
proof -
  have r: "row s' i = Some r" "owner r = Some who" "\<forall>t. ready t r \<longleftrightarrow> until \<le> t"
    using assms(1,2) by (blast elim: claim_SomeD)+
  have "valid s'" using claim_valid [OF assms(1), of now until who i] assms(2) by simp
  from held_row [OF this r(1) _ assms(3)] r(3) show "valid (claims cs s')" "row (claims cs s') i = Some r" by auto
  from r show "owner r = Some who" "ready t r \<longleftrightarrow> until \<le> t" by simp_all
qed

lemma exclusive:
  assumes "valid s" and "claim now until who i s = (s', Some r)"
    and "\<forall>(now', _, _, _) \<in> set cs. now' < until" and "now' < until"
  shows "claim now' until' who' i (claims cs s') = (claims cs s', None)"
  by (rule claim_busy) (use claimed_row [OF assms(1-3)] assms(4) in auto)

text \<open>Once it has run out the next claim gets the row.\<close>

lemma reclaimed:
  assumes "valid s" and "claim now until who i s = (s', Some r)"
    and "\<forall>(now', _, _, _) \<in> set cs. now' < until" and "until \<le> now'"
  shows "\<exists>s'' r'. claim now' until' who' i (claims cs s') = (s'', Some r') \<and> owner r' = Some who'"
proof -
  note row = claimed_row [OF assms(1-3)]
  have "ready now' r" using row(4) assms(4) by simp
  from claim_ready [OF row(1,2) this, of until' who'] show ?thesis by blast
qed

end

text \<open>With the resolution of a claimed row: it changes the row only for the owner of its lease.\<close>

locale leased_work = lease_queue valid row ready owner claim
  for valid :: "'s \<Rightarrow> bool" and row :: "'s \<Rightarrow> string \<Rightarrow> 'r option" and ready owner claim +
  fixes resolve :: "string \<Rightarrow> string \<Rightarrow> 'o \<Rightarrow> 's \<Rightarrow> 's"
  assumes resolve_foreign: "valid s \<Longrightarrow> (\<And>r. row s i = Some r \<Longrightarrow> owner r \<noteq> Some who) \<Longrightarrow> resolve who i out s = s"
begin

text \<open>A worker that comes back after its lease was taken over changes nothing.\<close>

lemma late_resolution:
  assumes "valid s" and "claim now until who i s = (s', Some r)" and "late \<noteq> who"
  shows "resolve late i out s' = s'"
proof (rule resolve_foreign)
  note row = claimed_row [OF assms(1,2), of "[]"]
  show "valid s'" using row(1) by (simp add: claims_def)
  show "owner r' \<noteq> Some late" if "row s' i = Some r'" for r' using row(2,3) that assms(3) by (simp add: claims_def)
qed

end

end
