(* ===== verification/Printing.thy ===== *)
theory Printing
  imports Lease
begin

text \<open>
  The print queue: \<open>src/modules/printing/service.ts\<close> (the agents' pull loop, acknowledgements,
  reprints), \<open>service-v2.ts\<close> (the lease protocol), \<open>agent-auth.ts\<close> and the handlers of \<open>routes.ts\<close>
  that guard them. Every statement outside a transaction is atomic by itself; a function called with a
  time reads its clock once. Payloads are JSON values; error messages are left out.
\<close>

datatype print_status = PJ_PENDING | PJ_PRINTED | PJ_FAILED

datatype capability = ESC_POS_KOT | WINDOWS_DOCUMENT

datatype transport = PHYSICAL | VIRTUAL

datatype attempt_result = PA_PRINTED | PA_FAILED | PA_LEASE_EXPIRED

datatype printer_status = ONLINE | OFFLINE | ERROR

datatype print_error = PrintNotFoundError | PrintValidationError | PrintUniqueViolation

record print_job =
  pj_id :: string
  pj_orderId :: string
  pj_stationId :: string
  pj_printerId :: "string option"
  pj_payload :: json
  pj_status :: print_status
  pj_error :: "string option"
  pj_retries :: nat
  pj_capability :: capability
  pj_documentType :: "string option"
  pj_contentHash :: "string option"
  pj_leaseToken :: "string option"
  pj_leaseUntil :: "nat option"
  pj_reprintOfId :: "string option"
  pj_createdAt :: nat
  pj_printedAt :: "nat option"

record print_attempt =
  pa_jobId :: string
  pa_attemptNo :: nat
  pa_agentId :: "string option"
  pa_leaseToken :: string
  pa_result :: attempt_result
  pa_error :: "string option"
  pa_contentHash :: "string option"
  pa_claimedAt :: nat

record station =
  st_id :: string
  st_locationId :: string
  st_name :: string
  st_defaultPrinterId :: "string option"

record printer =
  pn_id :: string
  pn_connection :: string
  pn_address :: string
  pn_status :: printer_status
  pn_transport :: transport
  pn_lastSeen :: "nat option"

record print_agent =
  ag_id :: string
  ag_locationId :: string
  ag_tokenHash :: "string option"
  ag_name :: "string option"
  ag_lastSeen :: "nat option"

record print_db = stock_db +
  pr_jobs :: "print_job list"
  pr_attempts :: "print_attempt list"
  pr_stations :: "station list"
  pr_printers :: "printer list"
  pr_agents :: "print_agent list"
  pr_locations :: "string list"

definition findJob :: "'z print_db_scheme \<Rightarrow> string \<Rightarrow> print_job option" where
  "findJob db i = List.find (\<lambda>j. pj_id j = i) (pr_jobs db)"

section \<open>Agents\<close>

definition hashAgentToken :: "(string \<Rightarrow> string) \<Rightarrow> string \<Rightarrow> string" where
  "hashAgentToken sha256 rawToken = sha256 rawToken"

text \<open>
  \<open>registerAgent\<close>: \<open>rawToken\<close> is what \<open>randomBytes(32).toString("hex")\<close> gave. Registering a known name
  at its location replaces its token; two unique indexes guard the table.
\<close>

definition registerAgent ::
  "env \<Rightarrow> (string \<Rightarrow> string) \<Rightarrow> nat \<Rightarrow> string \<Rightarrow> string \<Rightarrow> string \<Rightarrow> 'z print_db_scheme \<Rightarrow>
   'z print_db_scheme \<times> (print_error + string \<times> string)" where
  "registerAgent e sha256 now rawToken agentName locationId db =
     (if locationId \<notin> set (pr_locations db) then (db, Inl PrintNotFoundError)
      else
        let tokenHash = hashAgentToken sha256 rawToken;
            taken = (\<lambda>i. \<exists>a \<in> set (pr_agents db). ag_id a \<noteq> i \<and> ag_tokenHash a = Some tokenHash)
        in case List.find (\<lambda>a. ag_name a = Some agentName \<and> ag_locationId a = locationId) (pr_agents db) of
             Some existing \<Rightarrow>
               if taken (ag_id existing) then (db, Inl PrintUniqueViolation)
               else (db\<lparr>pr_agents := update_where (\<lambda>a. ag_id a = ag_id existing)
                        (\<lambda>a. a\<lparr>ag_tokenHash := Some tokenHash, ag_lastSeen := Some now\<rparr>) (pr_agents db)\<rparr>,
                     Inr (ag_id existing, rawToken))
           | None \<Rightarrow>
               let i = env_uuid e (db_ids db) in
               if taken i \<or> i \<in> ag_id ` set (pr_agents db) then (db, Inl PrintUniqueViolation)
               else (db\<lparr>pr_agents := pr_agents db @
                        [\<lparr>ag_id = i, ag_locationId = locationId, ag_tokenHash = Some tokenHash,
                          ag_name = Some agentName, ag_lastSeen = Some now\<rparr>],
                        db_ids := Suc (db_ids db)\<rparr>,
                     Inr (i, rawToken)))"

text \<open>
  A header as Express gives it: absent, one value, or an array of values. \<open>requireBootstrapToken\<close>
  answers whether the request passes, \<open>requireAgentToken\<close> who the agent is (\<open>None\<close> is a 401).
\<close>

datatype header = NoHeader | OneValue string | ManyValues "string list"

definition singleHeaderValue :: "header \<Rightarrow> string option" where
  "singleHeaderValue h = (case h of OneValue v \<Rightarrow> truthy (Some v) | _ \<Rightarrow> None)"

definition requireBootstrapToken :: "string \<Rightarrow> header \<Rightarrow> bool" where
  "requireBootstrapToken agentToken h = (singleHeaderValue h = Some agentToken)"

definition requireAgentToken ::
  "(string \<Rightarrow> string) \<Rightarrow> header \<Rightarrow> 'z print_db_scheme \<Rightarrow> (string \<times> string) option" where
  "requireAgentToken sha256 h db =
     (case singleHeaderValue h of
        None \<Rightarrow> None
      | Some v \<Rightarrow>
          map_option (\<lambda>a. (ag_id a, ag_locationId a))
            (List.find (\<lambda>a. ag_tokenHash a = Some (hashAgentToken sha256 v)) (pr_agents db)))"

section \<open>Whose job, whose printer\<close>

definition stationLocation :: "'z print_db_scheme \<Rightarrow> string \<Rightarrow> string option" where
  "stationLocation db sid =
     map_option st_locationId (List.find (\<lambda>s. st_id s = sid) (pr_stations db))"

definition resolvePrintJobLocationId :: "'z print_db_scheme \<Rightarrow> string \<Rightarrow> print_error + string" where
  "resolvePrintJobLocationId db jobId =
     (case findJob db jobId of
        None \<Rightarrow> Inl PrintNotFoundError
      | Some j \<Rightarrow>
          (case stationLocation db (pj_stationId j) of
             None \<Rightarrow> Inl PrintNotFoundError | Some l \<Rightarrow> Inr l))"

definition resolvePrinterLocationId :: "'z print_db_scheme \<Rightarrow> string \<Rightarrow> string option" where
  "resolvePrinterLocationId db printerId =
     map_option st_locationId
       (List.find (\<lambda>s. st_defaultPrinterId s = Some printerId) (pr_stations db))"

section \<open>The pull loop\<close>

text \<open>Unleased: the lease is absent or has run out.\<close>

definition unleased :: "nat \<Rightarrow> print_job \<Rightarrow> bool" where
  "unleased now j = (case pj_leaseUntil j of None \<Rightarrow> True | Some u \<Rightarrow> u \<le> now)"

definition oldest_first :: "print_job list \<Rightarrow> print_job list" where
  "oldest_first = sort_by (\<lambda>x y. pj_createdAt x \<le> pj_createdAt y)"

definition listPendingJobs ::
  "nat \<Rightarrow> string \<Rightarrow> 'z print_db_scheme \<Rightarrow> (string \<times> (string \<times> string \<times> string) option \<times> json) list" where
  "listPendingJobs now locationId db =
     map (\<lambda>j. (pj_id j,
            (case truthy (pj_printerId j) of
               None \<Rightarrow> None
             | Some p \<Rightarrow> map_option (\<lambda>r. (pn_id r, pn_connection r, pn_address r))
                          (List.find (\<lambda>r. pn_id r = p) (pr_printers db))),
            pj_payload j))
       (oldest_first (filter (\<lambda>j. pj_status j = PJ_PENDING \<and>
          stationLocation db (pj_stationId j) = Some locationId \<and> unleased now j) (pr_jobs db)))"

text \<open>An acknowledgement of the pull loop: it sets the status whatever it was.\<close>

definition ackJob ::
  "nat \<Rightarrow> string \<Rightarrow> bool \<Rightarrow> string option \<Rightarrow> 'z print_db_scheme \<Rightarrow> 'z print_db_scheme \<times> (print_error + print_job)" where
  "ackJob now jobId printed err db =
     (case findJob db jobId of
        None \<Rightarrow> (db, Inl PrintNotFoundError)
      | Some j \<Rightarrow>
          let f = (\<lambda>j. if printed then j\<lparr>pj_status := PJ_PRINTED, pj_printedAt := Some now\<rparr>
                       else j\<lparr>pj_status := PJ_FAILED, pj_error := err\<rparr>)
          in (db\<lparr>pr_jobs := update_where (\<lambda>r. pj_id r = jobId) f (pr_jobs db)\<rparr>, Inr (f j)))"

record printer_update =
  pu_printerId :: string
  pu_status :: printer_status
  pu_lastSeen :: nat

definition updatePrinterStatuses ::
  "printer_update list \<Rightarrow> 'z print_db_scheme \<Rightarrow> 'z print_db_scheme \<times> nat" where
  "updatePrinterStatuses us db =
     fold (\<lambda>u (db, n).
        (db\<lparr>pr_printers := update_where (\<lambda>p. pn_id p = pu_printerId u)
              (\<lambda>p. p\<lparr>pn_status := pu_status u, pn_lastSeen := Some (pu_lastSeen u)\<rparr>) (pr_printers db)\<rparr>,
         if \<exists>p \<in> set (pr_printers db). pn_id p = pu_printerId u then n + 1 else n)) us (db, 0)"

definition print_status_of :: "string \<Rightarrow> print_status option" where
  "print_status_of s =
     (if s = ''PENDING'' then Some PJ_PENDING else if s = ''PRINTED'' then Some PJ_PRINTED
      else if s = ''FAILED'' then Some PJ_FAILED else None)"

definition listPrintJobs ::
  "string option \<Rightarrow> string list option \<Rightarrow> 'z print_db_scheme \<Rightarrow> print_error + print_job list" where
  "listPrintJobs status locationIds db =
     bindE (case truthy status of
              None \<Rightarrow> Inr None
            | Some s \<Rightarrow> (case print_status_of s of None \<Rightarrow> Inl PrintValidationError | Some st \<Rightarrow> Inr (Some st)))
       (\<lambda>st. Inr (oldest_first (filter (\<lambda>j.
          (case st of None \<Rightarrow> True | Some x \<Rightarrow> pj_status j = x) \<and>
          (case stationLocation db (pj_stationId j) of
             None \<Rightarrow> False
           | Some l \<Rightarrow> (case locationIds of None \<Rightarrow> True | Some ls \<Rightarrow> l \<in> set ls))) (pr_jobs db))))"

section \<open>Reprints\<close>

definition REPRINT_DUPLICATE_LOOKBACK_MS :: nat where "REPRINT_DUPLICATE_LOOKBACK_MS = 30000"

definition latest :: "print_job list \<Rightarrow> print_job option" where
  "latest js = (case sort_by (\<lambda>x y. pj_createdAt y \<le> pj_createdAt x) js of [] \<Rightarrow> None | j # _ \<Rightarrow> Some j)"

text \<open>The clone is inserted with the defaults of the table, so a document job becomes a kitchen ticket.\<close>

definition clone_of :: "string \<Rightarrow> nat \<Rightarrow> print_job \<Rightarrow> print_job" where
  "clone_of i now original =
     \<lparr>pj_id = i, pj_orderId = pj_orderId original, pj_stationId = pj_stationId original,
      pj_printerId = pj_printerId original, pj_payload = pj_payload original, pj_status = PJ_PENDING,
      pj_error = None, pj_retries = 0, pj_capability = ESC_POS_KOT, pj_documentType = None,
      pj_contentHash = None, pj_leaseToken = None, pj_leaseUntil = None,
      pj_reprintOfId = Some (pj_id original), pj_createdAt = now, pj_printedAt = None\<rparr>"

definition cloneJob ::
  "env \<Rightarrow> nat \<Rightarrow> print_job \<Rightarrow> 'z print_db_scheme \<Rightarrow> print_error + 'z print_db_scheme \<times> print_job" where
  "cloneJob e now original db =
     (let i = env_uuid e (db_ids db); job = clone_of i now original
      in if i \<in> pj_id ` set (pr_jobs db) then Inl PrintUniqueViolation
         else Inr (db\<lparr>pr_jobs := pr_jobs db @ [job], db_ids := Suc (db_ids db)\<rparr>, job))"

definition reprintJob ::
  "env \<Rightarrow> nat \<Rightarrow> string \<Rightarrow> 'z print_db_scheme \<Rightarrow> 'z print_db_scheme \<times> (print_error + print_job)" where
  "reprintJob e now originalJobId = run_tx (\<lambda>db.
     (case findJob db originalJobId of
        None \<Rightarrow> Inl PrintNotFoundError
      | Some original \<Rightarrow>
          (case latest (filter (\<lambda>j. pj_reprintOfId j = Some originalJobId \<and> pj_status j = PJ_PENDING)
                          (pr_jobs db)) of
             Some d \<Rightarrow> if now \<le> pj_createdAt d + REPRINT_DUPLICATE_LOOKBACK_MS then Inr (db, d)
                       else cloneJob e now original db
           | None \<Rightarrow> cloneJob e now original db)))"

end
