(* ===== verification/PrintSpool.thy ===== *)
theory PrintSpool
  imports Printing
begin

text \<open>
  The lease protocol of \<open>src/modules/printing/service-v2.ts\<close> and the request handlers of
  \<open>routes.ts\<close>. A claimed job is a pending one with a lease that has not run out; a lapsed lease is
  recorded as an attempt by the next claim that sees it.
\<close>

definition PRINTING_SPOOLING_FLAG :: string where "PRINTING_SPOOLING_FLAG = ''printing.spooling''"

definition DEFAULT_LEASE_SECONDS :: int where "DEFAULT_LEASE_SECONDS = 60"

definition MAX_PRINT_ATTEMPTS :: nat where "MAX_PRINT_ATTEMPTS = 3"

definition isSpoolingEnabled :: "'z print_db_scheme \<Rightarrow> bool" where
  "isSpoolingEnabled db =
     (case List.find (\<lambda>f. f_key f = PRINTING_SPOOLING_FLAG) (db_flags db) of
        None \<Rightarrow> False | Some f \<Rightarrow> f_enabled f)"

definition clamp :: "int \<Rightarrow> int \<Rightarrow> int \<Rightarrow> nat" where
  "clamp lo hi x = nat (min (max x lo) hi)"

definition leaseExpiry :: "nat \<Rightarrow> nat \<Rightarrow> nat" where
  "leaseExpiry now seconds = now + seconds * 1000"

section \<open>Claims\<close>

definition claimable :: "nat \<Rightarrow> string list \<Rightarrow> print_job \<Rightarrow> bool" where
  "claimable now scope j =
     (pj_id j \<in> set scope \<and> pj_status j = PJ_PENDING \<and> pj_retries j < MAX_PRINT_ATTEMPTS \<and> unleased now j)"

definition jobIdsForLocation :: "'z print_db_scheme \<Rightarrow> string \<Rightarrow> string list" where
  "jobIdsForLocation db l =
     map pj_id (filter (\<lambda>j. stationLocation db (pj_stationId j) = Some l) (pr_jobs db))"

text \<open>\<open>job\<close> is the row as it was read; another agent may have changed it since.\<close>

definition recordExpiredLease :: "nat \<Rightarrow> print_job \<Rightarrow> 'z print_db_scheme \<Rightarrow> 'z print_db_scheme" where
  "recordExpiredLease now job db =
     (case (truthy (pj_leaseToken job), pj_leaseUntil job) of
        (Some token, Some until) \<Rightarrow>
          if now < until then db
          else
            let attemptNo = pj_retries job + 1;
                att = \<lparr>pa_jobId = pj_id job, pa_attemptNo = attemptNo, pa_agentId = None,
                        pa_leaseToken = token, pa_result = PA_LEASE_EXPIRED,
                        pa_error = Some ''Lease expired without an acknowledgement.'',
                        pa_contentHash = pj_contentHash job, pa_claimedAt = until\<rparr>
            in db\<lparr>pr_attempts :=
                   (if \<exists>a \<in> set (pr_attempts db). pa_jobId a = pj_id job \<and> pa_attemptNo a = attemptNo
                    then pr_attempts db else pr_attempts db @ [att]),
                 pr_jobs := update_where (\<lambda>r. pj_id r = pj_id job \<and> pj_leaseToken r = Some token)
                   (\<lambda>r. r\<lparr>pj_retries := attemptNo, pj_leaseToken := None, pj_leaseUntil := None\<rparr>)
                   (pr_jobs db)\<rparr>
      | _ \<Rightarrow> db)"

text \<open>The conditional \<open>UPDATE\<close> of one candidate.\<close>

definition claimRow ::
  "nat \<Rightarrow> nat \<Rightarrow> string \<Rightarrow> string \<Rightarrow> 'z print_db_scheme \<Rightarrow> 'z print_db_scheme \<times> print_job option" where
  "claimRow now until token i db =
     (let hit = (\<lambda>r. pj_id r = i \<and> pj_status r = PJ_PENDING \<and> unleased now r);
          f = (\<lambda>r. r\<lparr>pj_leaseToken := Some token, pj_leaseUntil := Some until\<rparr>)
      in case List.find hit (pr_jobs db) of
           None \<Rightarrow> (db, None)
         | Some r \<Rightarrow> (db\<lparr>pr_jobs := update_where hit f (pr_jobs db)\<rparr>, Some (f r)))"

record claimed_job =
  cj_id :: string
  cj_orderId :: string
  cj_stationId :: string
  cj_printerId :: "string option"
  cj_capability :: capability
  cj_documentType :: "string option"
  cj_payload :: json
  cj_contentHash :: "string option"
  cj_leaseToken :: string
  cj_leaseUntil :: nat
  cj_attemptNo :: nat

definition claimed_of :: "string \<Rightarrow> nat \<Rightarrow> print_job \<Rightarrow> claimed_job" where
  "claimed_of token until r =
     \<lparr>cj_id = pj_id r, cj_orderId = pj_orderId r, cj_stationId = pj_stationId r,
      cj_printerId = pj_printerId r, cj_capability = pj_capability r,
      cj_documentType = pj_documentType r, cj_payload = pj_payload r,
      cj_contentHash = pj_contentHash r, cj_leaseToken = token, cj_leaseUntil = until,
      cj_attemptNo = pj_retries r + 1\<rparr>"

text \<open>One turn of the claiming loop: every candidate gets a fresh token.\<close>

definition claimNext ::
  "env \<Rightarrow> nat \<Rightarrow> nat \<Rightarrow> string \<Rightarrow> 'z print_db_scheme \<times> claimed_job list \<Rightarrow> 'z print_db_scheme \<times> claimed_job list" where
  "claimNext e now until i = (\<lambda>(db, cs).
     let token = env_uuid e (db_ids db);
         db1 = db\<lparr>db_ids := Suc (db_ids db)\<rparr>
     in case claimRow now until token i db1 of
          (db2, None) \<Rightarrow> (db2, cs)
        | (db2, Some r) \<Rightarrow> (db2, cs @ [claimed_of token until r]))"

definition lapsedJobs :: "nat \<Rightarrow> string list \<Rightarrow> 'z print_db_scheme \<Rightarrow> print_job list" where
  "lapsedJobs now scope db =
     filter (\<lambda>j. pj_id j \<in> set scope \<and> pj_status j = PJ_PENDING \<and> pj_leaseToken j \<noteq> None \<and>
               (case pj_leaseUntil j of None \<Rightarrow> False | Some u \<Rightarrow> u \<le> now)) (pr_jobs db)"

definition claimCandidates ::
  "nat \<Rightarrow> string list \<Rightarrow> capability option \<Rightarrow> nat \<Rightarrow> 'z print_db_scheme \<Rightarrow> string list" where
  "claimCandidates now scope cap limit db =
     map pj_id (take limit (oldest_first (filter (\<lambda>j. claimable now scope j \<and>
       (case cap of None \<Rightarrow> True | Some c \<Rightarrow> pj_capability j = c)) (pr_jobs db))))"

definition claimJobs ::
  "env \<Rightarrow> nat \<Rightarrow> string \<Rightarrow> capability option \<Rightarrow> int option \<Rightarrow> int option \<Rightarrow> 'z print_db_scheme \<Rightarrow>
   'z print_db_scheme \<times> claimed_job list" where
  "claimJobs e now locationId cap limit leaseSeconds db =
     (let lim = clamp 1 20 (case limit of None \<Rightarrow> 5 | Some l \<Rightarrow> l);
          seconds = clamp 10 300 (case leaseSeconds of None \<Rightarrow> DEFAULT_LEASE_SECONDS | Some s \<Rightarrow> s);
          scope = jobIdsForLocation db locationId
      in if scope = [] then (db, [])
         else
           let db1 = fold (recordExpiredLease now) (lapsedJobs now scope db) db
           in fold (claimNext e now (leaseExpiry now seconds)) (claimCandidates now scope cap lim db1) (db1, []))"

definition renewLease ::
  "nat \<Rightarrow> string \<Rightarrow> string \<Rightarrow> int \<Rightarrow> 'z print_db_scheme \<Rightarrow> 'z print_db_scheme \<times> (print_error + nat)" where
  "renewLease now jobId token leaseSeconds db =
     (let until = leaseExpiry now (clamp 10 300 leaseSeconds);
          hit = (\<lambda>r. pj_id r = jobId \<and> pj_status r = PJ_PENDING \<and> pj_leaseToken r = Some token \<and>
                     (case pj_leaseUntil r of None \<Rightarrow> False | Some u \<Rightarrow> now < u))
      in if \<exists>r \<in> set (pr_jobs db). hit r
         then (db\<lparr>pr_jobs := update_where hit (\<lambda>r. r\<lparr>pj_leaseUntil := Some until\<rparr>) (pr_jobs db)\<rparr>, Inr until)
         else (db, Inl PrintValidationError))"

section \<open>Acknowledgements\<close>

datatype ack_result = ACK_PRINTED | ACK_FAILED

definition attempt_of :: "ack_result \<Rightarrow> attempt_result" where
  "attempt_of r = (case r of ACK_PRINTED \<Rightarrow> PA_PRINTED | ACK_FAILED \<Rightarrow> PA_FAILED)"

record ack_input =
  av_jobId :: string
  av_leaseToken :: string
  av_result :: ack_result
  av_error :: "string option"
  av_contentHash :: "string option"
  av_agentId :: "string option"

text \<open>The row an acknowledgement leaves.\<close>

definition acknowledged :: "nat \<Rightarrow> ack_input \<Rightarrow> nat \<Rightarrow> print_job \<Rightarrow> print_job" where
  "acknowledged now inp attemptNo j =
     j\<lparr>pj_status := (case av_result inp of
                        ACK_PRINTED \<Rightarrow> PJ_PRINTED
                      | ACK_FAILED \<Rightarrow> if attemptNo \<ge> MAX_PRINT_ATTEMPTS then PJ_FAILED else PJ_PENDING),
       pj_error := (case av_result inp of ACK_FAILED \<Rightarrow> av_error inp | ACK_PRINTED \<Rightarrow> None),
       pj_retries := attemptNo,
       pj_printedAt := (case av_result inp of ACK_PRINTED \<Rightarrow> Some now | ACK_FAILED \<Rightarrow> None),
       pj_leaseToken := None, pj_leaseUntil := None\<rparr>"

definition attempt_row :: "ack_input \<Rightarrow> print_job \<Rightarrow> print_attempt" where
  "attempt_row inp j =
     \<lparr>pa_jobId = pj_id j, pa_attemptNo = pj_retries j + 1, pa_agentId = av_agentId inp,
      pa_leaseToken = av_leaseToken inp, pa_result = attempt_of (av_result inp), pa_error = av_error inp,
      pa_contentHash = (case av_contentHash inp of None \<Rightarrow> pj_contentHash j | Some h \<Rightarrow> Some h),
      pa_claimedAt = (case pj_leaseUntil j of Some u \<Rightarrow> u | None \<Rightarrow> 0)\<rparr>"

text \<open>What an acknowledgement of a pending job must fulfil.\<close>

definition ackRefused :: "nat \<Rightarrow> ack_input \<Rightarrow> print_job \<Rightarrow> bool" where
  "ackRefused now inp j =
     (pj_leaseToken j \<noteq> Some (av_leaseToken inp) \<or> unleased now j \<or>
      (\<exists>h h'. truthy (pj_contentHash j) = Some h \<and> truthy (av_contentHash inp) = Some h' \<and> h' \<noteq> h) \<or>
      av_result inp = ACK_FAILED \<and> truthy (av_error inp) = None)"

definition ackJobV2 ::
  "nat \<Rightarrow> ack_input \<Rightarrow> 'z print_db_scheme \<Rightarrow> 'z print_db_scheme \<times> (print_error + print_job)" where
  "ackJobV2 now inp = run_tx (\<lambda>db.
     (case findJob db (av_jobId inp) of
        None \<Rightarrow> Inl PrintNotFoundError
      | Some j \<Rightarrow>
          if pj_status j \<noteq> PJ_PENDING
          then (case List.find (\<lambda>a. pa_jobId a = pj_id j \<and> pa_leaseToken a = av_leaseToken inp) (pr_attempts db) of
                  Some prior \<Rightarrow> if pa_result prior = attempt_of (av_result inp) then Inr (db, j)
                                else Inl PrintValidationError
                | None \<Rightarrow> Inl PrintValidationError)
          else
            if ackRefused now inp j then Inl PrintValidationError
            else if \<exists>a \<in> set (pr_attempts db). pa_jobId a = pj_id j \<and> pa_attemptNo a = pj_retries j + 1
            then Inl PrintUniqueViolation
            else Inr (db\<lparr>pr_attempts := pr_attempts db @ [attempt_row inp j],
                        pr_jobs := update_where (\<lambda>r. pj_id r = pj_id j)
                          (\<lambda>_. acknowledged now inp (pj_retries j + 1) j) (pr_jobs db)\<rparr>,
                      acknowledged now inp (pj_retries j + 1) j)))"

section \<open>The virtual spool\<close>

definition releaseLease :: "string \<Rightarrow> string \<Rightarrow> 'z print_db_scheme \<Rightarrow> 'z print_db_scheme" where
  "releaseLease i token db =
     db\<lparr>pr_jobs := update_where (\<lambda>r. pj_id r = i \<and> pj_leaseToken r = Some token)
         (\<lambda>r. r\<lparr>pj_leaseToken := None, pj_leaseUntil := None\<rparr>) (pr_jobs db)\<rparr>"

text \<open>One claimed job; an error ends the loop and keeps what was done before.\<close>

definition spoolOne ::
  "nat \<Rightarrow> string list \<Rightarrow> claimed_job \<Rightarrow> 'z print_db_scheme \<times> (print_error + nat) \<Rightarrow>
   'z print_db_scheme \<times> (print_error + nat)" where
  "spoolOne now virtualIds c = (\<lambda>(db, res).
     case res of
       Inl err \<Rightarrow> (db, Inl err)
     | Inr printed \<Rightarrow>
         (case truthy (cj_printerId c) of
            None \<Rightarrow> (releaseLease (cj_id c) (cj_leaseToken c) db, Inr printed)
          | Some p \<Rightarrow>
              if p \<notin> set virtualIds then (releaseLease (cj_id c) (cj_leaseToken c) db, Inr printed)
              else (case ackJobV2 now \<lparr>av_jobId = cj_id c, av_leaseToken = cj_leaseToken c,
                           av_result = ACK_PRINTED, av_error = None, av_contentHash = cj_contentHash c,
                           av_agentId = None\<rparr> db of
                      (db1, Inl err) \<Rightarrow> (db1, Inl err)
                    | (db1, Inr _) \<Rightarrow> (db1, Inr (printed + 1)))))"

definition processVirtualSpool ::
  "env \<Rightarrow> nat \<Rightarrow> string \<Rightarrow> 'z print_db_scheme \<Rightarrow> 'z print_db_scheme \<times> (print_error + nat)" where
  "processVirtualSpool e now locationId db =
     (let virtualIds = map pn_id (filter (\<lambda>p. pn_transport p = VIRTUAL) (pr_printers db))
      in if virtualIds = [] then (db, Inr 0)
         else (case claimJobs e now locationId None (Some 20) None db of
                 (db1, claimed) \<Rightarrow> fold (spoolOne now virtualIds) claimed (db1, Inr 0)))"

section \<open>Request handlers\<close>

text \<open>\<open>Inl\<close> is the HTTP status of an error response.\<close>

definition http_status :: "print_error \<Rightarrow> nat" where
  "http_status err = (case err of
      PrintNotFoundError \<Rightarrow> 404 | PrintValidationError \<Rightarrow> 400 | PrintUniqueViolation \<Rightarrow> 500)"

definition respond :: "'s \<times> (print_error + 'a) \<Rightarrow> 's \<times> (nat + 'a)" where
  "respond r = (fst r, mapErr http_status (snd r))"

text \<open>The guard of the agents' requests on one job: its station must be at the agent's location.\<close>

definition ownJob :: "string \<Rightarrow> string \<Rightarrow> 'z print_db_scheme \<Rightarrow> nat + unit" where
  "ownJob agentLocation jobId db =
     bindE (mapErr http_status (resolvePrintJobLocationId db jobId)) (\<lambda>l. ensure (l = agentLocation) 403)"

definition guarded ::
  "nat + unit \<Rightarrow> ('s \<Rightarrow> 's \<times> (print_error + 'a)) \<Rightarrow> 's \<Rightarrow> 's \<times> (nat + 'a)" where
  "guarded g act db = (case g of Inl code \<Rightarrow> (db, Inl code) | Inr _ \<Rightarrow> respond (act db))"

definition ackRoute ::
  "string \<Rightarrow> nat \<Rightarrow> string \<Rightarrow> bool \<Rightarrow> string option \<Rightarrow> 'z print_db_scheme \<Rightarrow> 'z print_db_scheme \<times> (nat + print_job)" where
  "ackRoute agentLocation now jobId printed err db =
     guarded (ownJob agentLocation jobId db) (ackJob now jobId printed err) db"

definition printerStatusRoute ::
  "string \<Rightarrow> printer_update list \<Rightarrow> 'z print_db_scheme \<Rightarrow> 'z print_db_scheme \<times> (nat + nat)" where
  "printerStatusRoute agentLocation us db =
     (if \<exists>u \<in> set us. resolvePrinterLocationId db (pu_printerId u) \<noteq> Some agentLocation then (db, Inl 403)
      else (case updatePrinterStatuses us db of (db1, n) \<Rightarrow> (db1, Inr n)))"

definition spooling :: "'z print_db_scheme \<Rightarrow> nat + unit" where
  "spooling db = ensure (isSpoolingEnabled db) 503"

definition claimRoute ::
  "env \<Rightarrow> string \<Rightarrow> nat \<Rightarrow> capability option \<Rightarrow> int option \<Rightarrow> int option \<Rightarrow> 'z print_db_scheme \<Rightarrow>
   'z print_db_scheme \<times> (nat + claimed_job list)" where
  "claimRoute e agentLocation now cap limit leaseSeconds db =
     guarded (spooling db)
       (\<lambda>db. case claimJobs e now agentLocation cap limit leaseSeconds db of (db1, cs) \<Rightarrow> (db1, Inr cs)) db"

definition renewRoute ::
  "string \<Rightarrow> nat \<Rightarrow> string \<Rightarrow> string \<Rightarrow> int option \<Rightarrow> 'z print_db_scheme \<Rightarrow> 'z print_db_scheme \<times> (nat + nat)" where
  "renewRoute agentLocation now jobId token leaseSeconds db =
     guarded (bindE (spooling db) (\<lambda>_. ownJob agentLocation jobId db))
       (renewLease now jobId token (case leaseSeconds of None \<Rightarrow> DEFAULT_LEASE_SECONDS | Some s \<Rightarrow> s)) db"

definition ackV2Route ::
  "string \<Rightarrow> nat \<Rightarrow> ack_input \<Rightarrow> 'z print_db_scheme \<Rightarrow> 'z print_db_scheme \<times> (nat + print_job)" where
  "ackV2Route agentLocation now inp db =
     guarded (bindE (spooling db) (\<lambda>_. ownJob agentLocation (av_jobId inp) db)) (ackJobV2 now inp) db"

definition reprintRoute ::
  "env \<Rightarrow> outlet_context option \<Rightarrow> nat \<Rightarrow> string \<Rightarrow> 'z print_db_scheme \<Rightarrow> 'z print_db_scheme \<times> (nat + print_job)" where
  "reprintRoute e ctx now jobId db =
     guarded (bindE (mapErr http_status (resolvePrintJobLocationId db jobId)) (\<lambda>l.
                ensure (isOutletInScope ctx (Some l)) 403)) (reprintJob e now jobId) db"

definition virtualSpoolRoute ::
  "env \<Rightarrow> nat \<Rightarrow> string \<Rightarrow> 'z print_db_scheme \<Rightarrow> 'z print_db_scheme \<times> (nat + nat)" where
  "virtualSpoolRoute e now locationId db = guarded (spooling db) (processVirtualSpool e now locationId) db"

text \<open>The requests an agent can make that write, and the router's answer for an agent at a location.\<close>

datatype agent_request =
    PullAck string bool "string option"
  | PrinterStatus "printer_update list"
  | Claim "capability option" "int option" "int option"
  | RenewLease string string "int option"
  | AckV2 ack_input

definition serveAgent ::
  "env \<Rightarrow> string \<Rightarrow> nat \<Rightarrow> agent_request \<Rightarrow> 'z print_db_scheme \<Rightarrow> 'z print_db_scheme" where
  "serveAgent e agentLocation now req db =
     (case req of
        PullAck jobId printed err \<Rightarrow> fst (ackRoute agentLocation now jobId printed err db)
      | PrinterStatus us \<Rightarrow> fst (printerStatusRoute agentLocation us db)
      | Claim cap limit seconds \<Rightarrow> fst (claimRoute e agentLocation now cap limit seconds db)
      | RenewLease jobId token seconds \<Rightarrow> fst (renewRoute agentLocation now jobId token seconds db)
      | AckV2 inp \<Rightarrow> fst (ackV2Route agentLocation now inp db))"

definition serveAgents ::
  "env \<Rightarrow> (string \<times> nat \<times> agent_request) list \<Rightarrow> 'z print_db_scheme \<Rightarrow> 'z print_db_scheme" where
  "serveAgents e reqs db = fold (\<lambda>(l, now, req) db. serveAgent e l now req db) reqs db"

end
