(* ===== verification/PrintLaws.thy ===== *)
theory PrintLaws
  imports PrintSpool
begin

text \<open>
  The print queue as a leased work queue: its claims and acknowledgements obey the contract of
  theory \<open>Lease\<close>. Then what each statement of the protocol keeps.
\<close>

lemma find_update_other:
  assumes "\<And>r. p r \<Longrightarrow> k r = i" and "\<And>r. k (f r) = k r" and "j \<noteq> i"
  shows "List.find (\<lambda>r. k r = j) (update_where p f rows) = List.find (\<lambda>r. k r = j) rows"
  by (induction rows) (use assms in \<open>auto simp: update_where_def\<close>)

lemma find_hit:
  assumes "List.find (\<lambda>r. k r = i) rows = Some r" and "distinct (map k rows)" and "q r"
  shows "List.find (\<lambda>r. k r = i \<and> q r) rows = Some r"
  using assms by (induction rows) (auto split: if_splits dest!: find_Some_mem)

definition job_ready :: "nat \<Rightarrow> print_job \<Rightarrow> bool" where
  "job_ready now j = (pj_status j = PJ_PENDING \<and> unleased now j)"

text \<open>The ids of the table are its primary key, so a lookup finds the row with the id.\<close>

definition jobs_keyed :: "'z print_db_scheme \<Rightarrow> bool" where
  "jobs_keyed db \<longleftrightarrow> distinct (map pj_id (pr_jobs db))"

lemma findJob_mem: "findJob db i = Some j \<Longrightarrow> j \<in> set (pr_jobs db) \<and> pj_id j = i"
  by (auto simp: findJob_def dest: find_Some_mem)

lemma findJob_iff: "jobs_keyed db \<Longrightarrow> findJob db i = Some j \<longleftrightarrow> j \<in> set (pr_jobs db) \<and> pj_id j = i"
  by (auto simp: findJob_def jobs_keyed_def find_distinct_key dest: find_Some_mem)

lemma findJob_cong: "pr_jobs db' = pr_jobs db \<Longrightarrow> findJob db' i = findJob db i"
  by (simp add: findJob_def)

lemma findJob_update_other:
  assumes "\<And>r. p r \<Longrightarrow> pj_id r = i" and "\<And>r. pj_id (f r) = pj_id r" and "j \<noteq> i"
    and "pr_jobs db' = update_where p f (pr_jobs db)"
  shows "findJob db' j = findJob db j"
  unfolding findJob_def assms(4) by (rule find_update_other [where i = i]) (use assms in auto)

lemma findJob_update:
  assumes "\<And>r. pj_id (f r) = pj_id r" and "pr_jobs db' = update_where p f (pr_jobs db)"
  shows "findJob db' i = map_option (\<lambda>r. if p r then f r else r) (findJob db i)"
  unfolding findJob_def assms(2) by (rule find_update_where) (simp add: assms(1))

lemma jobs_keyed_update:
  assumes "\<And>r. pj_id (f r) = pj_id r" and "pr_jobs db' = update_where p f (pr_jobs db)"
  shows "jobs_keyed db' = jobs_keyed db"
  by (simp add: jobs_keyed_def assms map_update_where)

text \<open>A claim takes exactly one row.\<close>

lemma claimRow_hit:
  assumes "findJob db i = Some j" and "job_ready now j" and "jobs_keyed db"
  shows "\<exists>db'. claimRow now until token i db = (db', Some (j\<lparr>pj_leaseToken := Some token, pj_leaseUntil := Some until\<rparr>)) \<and>
    findJob db' i = Some (j\<lparr>pj_leaseToken := Some token, pj_leaseUntil := Some until\<rparr>) \<and> jobs_keyed db' \<and>
    (\<forall>k. k \<noteq> i \<longrightarrow> findJob db' k = findJob db k)"
proof -
  let ?hit = "\<lambda>r. pj_id r = i \<and> pj_status r = PJ_PENDING \<and> unleased now r"
  let ?f = "\<lambda>r. r\<lparr>pj_leaseToken := Some token, pj_leaseUntil := Some until\<rparr>"
  let ?db' = "db\<lparr>pr_jobs := update_where ?hit ?f (pr_jobs db)\<rparr>"
  have "List.find ?hit (pr_jobs db) = Some j"
    by (rule find_hit) (use assms in \<open>auto simp: findJob_def job_ready_def jobs_keyed_def\<close>)
  then have "claimRow now until token i db = (?db', Some (?f j))" by (simp add: claimRow_def)
  moreover have "findJob ?db' i = map_option (\<lambda>r. if ?hit r then ?f r else r) (findJob db i)"
    by (rule findJob_update) simp_all
  moreover have "jobs_keyed ?db'" using assms(3) by (subst jobs_keyed_update [of ?f]) simp_all
  moreover have "findJob ?db' k = findJob db k" if "k \<noteq> i" for k
    by (rule findJob_update_other [where p = ?hit and f = ?f]) (use that in simp_all)
  ultimately show ?thesis using assms(1,2) findJob_mem [OF assms(1)] by (auto simp: job_ready_def)
qed

lemma claimRow_miss:
  assumes "\<And>j. findJob db i = Some j \<Longrightarrow> \<not> job_ready now j" and "jobs_keyed db"
  shows "claimRow now until token i db = (db, None)"
proof -
  have "List.find (\<lambda>r. pj_id r = i \<and> pj_status r = PJ_PENDING \<and> unleased now r) (pr_jobs db) = None"
    using assms(1) findJob_iff [OF assms(2)] by (auto simp: find_None_iff job_ready_def)
  then show ?thesis by (simp add: claimRow_def)
qed

type_synonym ack_outcome = "nat \<times> ack_result \<times> string option \<times> string option \<times> string option"

definition ackAs :: "string \<Rightarrow> string \<Rightarrow> ack_outcome \<Rightarrow> 'z print_db_scheme \<Rightarrow> 'z print_db_scheme" where
  "ackAs token jobId out db =
     (case out of (now, res, err, hash, agent) \<Rightarrow>
        fst (ackJobV2 now \<lparr>av_jobId = jobId, av_leaseToken = token, av_result = res, av_error = err,
          av_contentHash = hash, av_agentId = agent\<rparr> db))"

lemma ackJobV2_foreign:
  assumes "\<And>j. findJob db (av_jobId inp) = Some j \<Longrightarrow> pj_leaseToken j \<noteq> Some (av_leaseToken inp)"
  shows "fst (ackJobV2 now inp db) = db"
  using assms by (auto simp: ackJobV2_def run_tx_def ackRefused_def split: option.splits)

interpretation print_queue: leased_work jobs_keyed findJob job_ready pj_leaseToken claimRow ackAs
proof
  fix s :: "'z print_db_scheme" and i r now until who
  assume "jobs_keyed s" "findJob s i = Some r" "job_ready now r"
  from claimRow_hit [OF this(2,3,1), of until who] this(3)
  show "\<exists>s' r'. claimRow now until who i s = (s', Some r') \<and> findJob s' i = Some r' \<and> pj_leaseToken r' = Some who \<and>
      (\<forall>t. job_ready t r' = (until \<le> t))" by (auto simp: job_ready_def unleased_def)
next
  fix s :: "'z print_db_scheme" and i now until who
  assume "jobs_keyed s" "\<And>r. findJob s i = Some r \<Longrightarrow> \<not> job_ready now r"
  then show "claimRow now until who i s = (s, None)" by (intro claimRow_miss)
next
  fix s :: "'z print_db_scheme" and i j now until who
  assume k: "jobs_keyed s"
  have "findJob (fst (claimRow now until who i s)) j = findJob s j" if "j \<noteq> i"
    using claimRow_hit [OF _ _ k, of i] claimRow_miss [OF _ k, of i] that
    by (cases "\<exists>r. findJob s i = Some r \<and> job_ready now r") (metis fst_conv)+
  then show "j \<noteq> i \<Longrightarrow> findJob (fst (claimRow now until who i s)) j = findJob s j" .
  show "jobs_keyed (fst (claimRow now until who i s))"
    using claimRow_hit [OF _ _ k, of i] claimRow_miss [OF _ k, of i] k
    by (cases "\<exists>r. findJob s i = Some r \<and> job_ready now r") (metis fst_conv)+
next
  fix s :: "'z print_db_scheme" and i who and out :: ack_outcome
  assume foreign: "\<And>r. findJob s i = Some r \<Longrightarrow> pj_leaseToken r \<noteq> Some who"
  obtain now res err hash agent where out: "out = (now, res, err, hash, agent)" by (cases out)
  show "ackAs who i out s = s"
    unfolding out ackAs_def prod.case by (rule ackJobV2_foreign) (simp add: foreign)
qed

section \<open>The history of a job\<close>

text \<open>
  What every statement of the protocol keeps: ids are unique, every attempt belongs to a job and has
  its own number; a printed job has exactly one printed attempt and a failed one a failed attempt that
  was at least its third; a resolved job holds no lease.
\<close>

definition attempts_of :: "'z print_db_scheme \<Rightarrow> string \<Rightarrow> attempt_result \<Rightarrow> print_attempt list" where
  "attempts_of db i res = filter (\<lambda>a. pa_jobId a = i \<and> pa_result a = res) (pr_attempts db)"

definition job_history :: "'z print_db_scheme \<Rightarrow> print_job \<Rightarrow> bool" where
  "job_history db j \<longleftrightarrow>
     length (attempts_of db (pj_id j) PA_PRINTED) = (if pj_status j = PJ_PRINTED then 1 else 0) \<and>
     (pj_status j \<noteq> PJ_PENDING \<longrightarrow> pj_leaseToken j = None) \<and>
     (pj_status j = PJ_FAILED \<longrightarrow>
        (\<exists>a \<in> set (attempts_of db (pj_id j) PA_FAILED). MAX_PRINT_ATTEMPTS \<le> pa_attemptNo a))"

definition spool_ok :: "'z print_db_scheme \<Rightarrow> bool" where
  "spool_ok db \<longleftrightarrow> jobs_keyed db \<and>
     distinct (map (\<lambda>a. (pa_jobId a, pa_attemptNo a)) (pr_attempts db)) \<and>
     pa_jobId ` set (pr_attempts db) \<subseteq> pj_id ` set (pr_jobs db) \<and>
     (\<forall>j \<in> set (pr_jobs db). job_history db j)"

text \<open>Resolved jobs stay as they are and attempts are only added.\<close>

definition history_kept :: "'z print_db_scheme \<Rightarrow> 'z print_db_scheme \<Rightarrow> bool" where
  "history_kept db db' \<longleftrightarrow>
     (\<exists>extra. pr_attempts db' = pr_attempts db @ extra) \<and>
     (\<forall>j \<in> set (pr_jobs db). if pj_status j = PJ_PENDING then pj_id j \<in> pj_id ` set (pr_jobs db')
        else j \<in> set (pr_jobs db'))"

text \<open>One statement or transaction of the protocol. The job an agent folds is whatever it has read.\<close>

inductive spool_step :: "env \<Rightarrow> 'z print_db_scheme \<Rightarrow> 'z print_db_scheme \<Rightarrow> bool" for e where
  enqueued: "pj_id j \<notin> pj_id ` set (pr_jobs db) \<Longrightarrow> pj_status j = PJ_PENDING \<Longrightarrow>
     spool_step e db (db\<lparr>pr_jobs := pr_jobs db @ [j]\<rparr>)"
| folded: "pj_id job \<in> pj_id ` set (pr_jobs db) \<Longrightarrow> spool_step e db (recordExpiredLease now job db)"
| claimed: "spool_step e db (fst (claimRow now until token i db))"
| renewed: "spool_step e db (fst (renewLease now i token seconds db))"
| acked: "spool_step e db (fst (ackJobV2 now inp db))"
| released: "spool_step e db (releaseLease i token db)"
| reprinted: "spool_step e db (fst (reprintJob e now i db))"

inductive spool_reachable :: "env \<Rightarrow> 'z print_db_scheme \<Rightarrow> bool" for e where
  start: "jobs_keyed db \<Longrightarrow> pr_attempts db = [] \<Longrightarrow> \<forall>j \<in> set (pr_jobs db). pj_status j = PJ_PENDING \<Longrightarrow>
     spool_reachable e db"
| step: "spool_reachable e db \<Longrightarrow> spool_step e db db' \<Longrightarrow> spool_reachable e db'"

text \<open>A statement that changes only leases and retry counts.\<close>

lemma lease_change:
  fixes db db' :: "'z print_db_scheme"
  assumes ok: "spool_ok db"
    and f: "\<And>r. pj_id (f r) = pj_id r \<and> pj_status (f r) = pj_status r"
    and jobs: "pr_jobs db' = update_where p f (pr_jobs db)"
    and resolved: "\<And>r. r \<in> set (pr_jobs db) \<Longrightarrow> p r \<Longrightarrow> pj_status r = PJ_PENDING"
    and extra: "pr_attempts db' = pr_attempts db @ extra"
    and new: "\<forall>a \<in> set extra. pa_result a = PA_LEASE_EXPIRED \<and> pa_jobId a \<in> pj_id ` set (pr_jobs db)"
    and nos: "distinct (map (\<lambda>a. (pa_jobId a, pa_attemptNo a)) (pr_attempts db'))"
  shows "spool_ok db' \<and> history_kept db db'"
proof
  have ids: "map pj_id (pr_jobs db') = map pj_id (pr_jobs db)"
    unfolding jobs by (rule map_update_where) (simp add: f)
  then have idset: "pj_id ` set (pr_jobs db') = pj_id ` set (pr_jobs db)" by (metis list.set_map)
  have same: "attempts_of db' i res = attempts_of db i res" if "res \<noteq> PA_LEASE_EXPIRED" for i res
    using new that by (auto simp: attempts_of_def extra filter_empty_conv)
  have hist: "job_history db' r = job_history db r" for r by (simp add: job_history_def same)
  have kept: "job_history db' (if p r then f r else r)" if "r \<in> set (pr_jobs db)" for r
    using that resolved [OF that] ok f [of r] unfolding hist by (auto simp: spool_ok_def job_history_def)
  have "jobs_keyed db'" using ok by (simp add: spool_ok_def jobs_keyed_def ids)
  moreover have "pa_jobId ` set (pr_attempts db') \<subseteq> pj_id ` set (pr_jobs db')"
    using ok new unfolding idset extra by (auto simp: spool_ok_def)
  moreover have "\<forall>j \<in> set (pr_jobs db'). job_history db' j"
    unfolding jobs update_where_def set_map by (intro ballI, elim imageE) (simp only: kept)
  ultimately show "spool_ok db'" using nos by (simp add: spool_ok_def)
  show "history_kept db db'"
    unfolding history_kept_def idset using resolved by (auto simp: extra jobs update_where_def)
qed


lemma history_kept_refl: "history_kept db db"
  by (auto simp: history_kept_def)

lemma fold_step:
  assumes ok: "spool_ok db" and known: "pj_id job \<in> pj_id ` set (pr_jobs db)"
  shows "spool_ok (recordExpiredLease now job db) \<and> history_kept db (recordExpiredLease now job db)"
proof (cases "\<exists>token until. truthy (pj_leaseToken job) = Some token \<and> pj_leaseUntil job = Some until \<and> until \<le> now")
  case False
  then have "recordExpiredLease now job db = db"
    by (auto simp: recordExpiredLease_def split: option.splits)
  with ok show ?thesis by (simp add: history_kept_refl)
next
  case True
  then obtain token until where job: "truthy (pj_leaseToken job) = Some token" "pj_leaseUntil job = Some until" "until \<le> now"
    by blast
  let ?no = "pj_retries job + 1"
  let ?att = "\<lparr>pa_jobId = pj_id job, pa_attemptNo = ?no, pa_agentId = None, pa_leaseToken = token,
     pa_result = PA_LEASE_EXPIRED, pa_error = Some ''Lease expired without an acknowledgement.'',
     pa_contentHash = pj_contentHash job, pa_claimedAt = until\<rparr>"
  let ?taken = "\<exists>a \<in> set (pr_attempts db). pa_jobId a = pj_id job \<and> pa_attemptNo a = ?no"
  let ?db' = "recordExpiredLease now job db"
  have att: "pr_attempts ?db' = pr_attempts db @ (if ?taken then [] else [?att])"
    and jobs: "pr_jobs ?db' = update_where (\<lambda>r. pj_id r = pj_id job \<and> pj_leaseToken r = Some token)
      (\<lambda>r. r\<lparr>pj_retries := ?no, pj_leaseToken := None, pj_leaseUntil := None\<rparr>) (pr_jobs db)"
    using job by (simp_all add: recordExpiredLease_def Let_def)
  show ?thesis
  proof (rule lease_change [OF ok _ jobs _ att])
    show "pj_status r = PJ_PENDING" if "r \<in> set (pr_jobs db)" "pj_id r = pj_id job \<and> pj_leaseToken r = Some token" for r
      using ok that by (fastforce simp: spool_ok_def job_history_def)
    show "distinct (map (\<lambda>a. (pa_jobId a, pa_attemptNo a)) (pr_attempts ?db'))"
      using ok unfolding att by (auto simp: spool_ok_def)
  qed (use known in auto)
qed

lemma update_step_spool:
  fixes db :: "'z print_db_scheme"
  assumes ok: "spool_ok db" and f: "\<And>r. pj_id (f r) = pj_id r \<and> pj_status (f r) = pj_status r"
    and p: "\<And>r. r \<in> set (pr_jobs db) \<Longrightarrow> p r \<Longrightarrow> pj_status r = PJ_PENDING"
  shows "spool_ok (db\<lparr>pr_jobs := update_where p f (pr_jobs db)\<rparr>) \<and>
    history_kept db (db\<lparr>pr_jobs := update_where p f (pr_jobs db)\<rparr>)"
  by (rule lease_change [where extra = "[]" and p = p and f = f, OF ok f _ p])
    (use ok in \<open>simp_all add: spool_ok_def\<close>)

lemma claim_step:
  assumes "spool_ok db"
  shows "spool_ok (fst (claimRow now until token i db)) \<and> history_kept db (fst (claimRow now until token i db))"
  using update_step_spool [OF assms, of "\<lambda>r. r\<lparr>pj_leaseToken := Some token, pj_leaseUntil := Some until\<rparr>"
      "\<lambda>r. pj_id r = i \<and> pj_status r = PJ_PENDING \<and> unleased now r"] assms
  by (auto simp: claimRow_def Let_def history_kept_refl split: option.splits)

lemma renew_step:
  assumes "spool_ok db"
  shows "spool_ok (fst (renewLease now i token seconds db)) \<and> history_kept db (fst (renewLease now i token seconds db))"
  using update_step_spool [OF assms, of "\<lambda>r. r\<lparr>pj_leaseUntil := Some (leaseExpiry now (clamp 10 300 seconds))\<rparr>"
      "\<lambda>r. pj_id r = i \<and> pj_status r = PJ_PENDING \<and> pj_leaseToken r = Some token \<and>
         (case pj_leaseUntil r of None \<Rightarrow> False | Some u \<Rightarrow> now < u)"] assms
  by (auto simp: renewLease_def Let_def history_kept_refl)

lemma release_step:
  assumes "spool_ok db"
  shows "spool_ok (releaseLease i token db) \<and> history_kept db (releaseLease i token db)"
proof -
  have "pj_status r = PJ_PENDING" if "r \<in> set (pr_jobs db)" "pj_id r = i \<and> pj_leaseToken r = Some token" for r
    using assms that by (fastforce simp: spool_ok_def job_history_def)
  from update_step_spool [OF assms _ this, of "\<lambda>r. r\<lparr>pj_leaseToken := None, pj_leaseUntil := None\<rparr>"]
  show ?thesis by (simp add: releaseLease_def)
qed

text \<open>A new pending job has no history.\<close>

lemma enqueue_step:
  fixes db db' :: "'z print_db_scheme"
  assumes ok: "spool_ok db" and new: "pj_id j \<notin> pj_id ` set (pr_jobs db)" and st: "pj_status j = PJ_PENDING"
    and jobs: "pr_jobs db' = pr_jobs db @ [j]" and att: "pr_attempts db' = pr_attempts db"
  shows "spool_ok db' \<and> history_kept db db'"
proof
  have same: "attempts_of db' i res = attempts_of db i res" for i res by (simp add: attempts_of_def att)
  have "attempts_of db (pj_id j) res = []" for res
  proof -
    have "pa_jobId a \<noteq> pj_id j" if "a \<in> set (pr_attempts db)" for a
      using ok new that unfolding spool_ok_def by (metis imageI subsetD)
    then show ?thesis by (simp add: attempts_of_def filter_empty_conv)
  qed
  then have "job_history db' j" by (simp add: job_history_def same st)
  moreover have "job_history db' k = job_history db k" for k by (simp add: job_history_def same)
  moreover have "jobs_keyed db'" using ok new by (simp add: spool_ok_def jobs_keyed_def jobs)
  moreover have "pa_jobId ` set (pr_attempts db') \<subseteq> pj_id ` set (pr_jobs db')"
    using ok by (auto simp: spool_ok_def jobs att)
  ultimately show "spool_ok db'" using ok unfolding spool_ok_def by (simp add: jobs att)
  show "history_kept db db'" by (auto simp: history_kept_def jobs att)
qed

lemma reprint_cases:
  fixes db :: "'z print_db_scheme"
  obtains "fst (reprintJob e now i db) = db"
  | db' original where "findJob db i = Some original" "cloneJob e now original db = Inr (db', clone_of (env_uuid e (db_ids db)) now original)"
    "reprintJob e now i db = (db', Inr (clone_of (env_uuid e (db_ids db)) now original))"
proof (cases "findJob db i")
  case None
  then show thesis by (intro that(1)) (simp add: reprintJob_def run_tx_def)
next
  case (Some original)
  have "fst (reprintJob e now i db) = db \<or> reprintJob e now i db = run_tx (cloneJob e now original) db"
    by (simp add: reprintJob_def run_tx_def Some split: option.splits)
  then consider "fst (reprintJob e now i db) = db"
    | "reprintJob e now i db = run_tx (cloneJob e now original) db" by blast
  then show thesis
  proof cases
    case 1
    then show thesis by (rule that(1))
  next
    case 2
    show thesis
    proof (cases "env_uuid e (db_ids db) \<in> pj_id ` set (pr_jobs db)")
      case True
      then have "cloneJob e now original db = Inl PrintUniqueViolation" by (simp add: cloneJob_def Let_def)
      with 2 show thesis by (intro that(1)) (simp add: run_tx_def)
    next
      case False
      then have "cloneJob e now original db = Inr (db\<lparr>pr_jobs := pr_jobs db @ [clone_of (env_uuid e (db_ids db)) now original],
          db_ids := Suc (db_ids db)\<rparr>, clone_of (env_uuid e (db_ids db)) now original)" by (simp add: cloneJob_def Let_def)
      with 2 show thesis by (intro that(2) [OF Some]) (simp_all add: run_tx_def)
    qed
  qed
qed

lemma cloneJob_Inr:
  assumes "cloneJob e now original db = Inr (db', j)"
  shows "pj_id j \<notin> pj_id ` set (pr_jobs db)" "pj_status j = PJ_PENDING"
    "pr_jobs db' = pr_jobs db @ [j]" "pr_attempts db' = pr_attempts db"
  using assms by (auto simp: cloneJob_def Let_def clone_of_def split: if_splits)

lemma reprint_step:
  fixes db :: "'z print_db_scheme"
  assumes "spool_ok db"
  shows "spool_ok (fst (reprintJob e now i db)) \<and> history_kept db (fst (reprintJob e now i db))"
proof (cases rule: reprint_cases [of e now i db])
  case 1
  with assms show ?thesis by (simp add: history_kept_refl)
next
  case (2 db' original)
  from enqueue_step [OF assms cloneJob_Inr [OF 2(2)]] 2(3) show ?thesis by simp
qed


text \<open>The three ways an acknowledgement can go.\<close>

lemma ack_cases:
  fixes db :: "'z print_db_scheme"
  obtains (refused) err where "ackJobV2 now inp db = (db, Inl err)"
  | (replayed) j where "findJob db (av_jobId inp) = Some j" "pj_status j \<noteq> PJ_PENDING" "ackJobV2 now inp db = (db, Inr j)"
  | (resolved) j where "findJob db (av_jobId inp) = Some j" "pj_status j = PJ_PENDING" "\<not> ackRefused now inp j"
      "\<forall>a \<in> set (pr_attempts db). \<not> (pa_jobId a = pj_id j \<and> pa_attemptNo a = pj_retries j + 1)"
      "ackJobV2 now inp db = (db\<lparr>pr_attempts := pr_attempts db @ [attempt_row inp j],
         pr_jobs := update_where (\<lambda>r. pj_id r = pj_id j) (\<lambda>_. acknowledged now inp (pj_retries j + 1) j) (pr_jobs db)\<rparr>,
         Inr (acknowledged now inp (pj_retries j + 1) j))"
proof (cases "findJob db (av_jobId inp)")
  case None
  then show thesis by (intro refused) (simp add: ackJobV2_def run_tx_def)
next
  case (Some j)
  show thesis
  proof (cases "pj_status j = PJ_PENDING")
    case False
    have "ackJobV2 now inp db = (db, Inl PrintValidationError) \<or> ackJobV2 now inp db = (db, Inr j)"
      using False by (simp add: ackJobV2_def run_tx_def Some split: option.splits)
    with False Some show thesis using refused replayed by blast
  next
    case True
    show thesis
    proof (cases "ackRefused now inp j \<or> (\<exists>a \<in> set (pr_attempts db). pa_jobId a = pj_id j \<and> pa_attemptNo a = pj_retries j + 1)")
      case True
      then have "\<exists>err. ackJobV2 now inp db = (db, Inl err)"
        using \<open>pj_status j = PJ_PENDING\<close> by (auto simp: ackJobV2_def run_tx_def Some)
      then show thesis using refused by blast
    next
      case False
      then show thesis using \<open>pj_status j = PJ_PENDING\<close> Some
        by (intro resolved [OF Some]) (simp_all add: ackJobV2_def run_tx_def del: fun_upd_apply)
    qed
  qed
qed

lemma acknowledged_fields:
  "pj_id (acknowledged now inp n j) = pj_id j" "pj_retries (acknowledged now inp n j) = n"
  "pj_leaseToken (acknowledged now inp n j) = None" "pj_leaseUntil (acknowledged now inp n j) = None"
  "pj_stationId (acknowledged now inp n j) = pj_stationId j"
  "pj_status (acknowledged now inp n j) =
     (case av_result inp of ACK_PRINTED \<Rightarrow> PJ_PRINTED
      | ACK_FAILED \<Rightarrow> if n \<ge> MAX_PRINT_ATTEMPTS then PJ_FAILED else PJ_PENDING)"
  by (simp_all add: acknowledged_def)

lemma ack_step:
  fixes db :: "'z print_db_scheme"
  assumes ok: "spool_ok db"
  shows "spool_ok (fst (ackJobV2 now inp db)) \<and> history_kept db (fst (ackJobV2 now inp db))"
proof (cases rule: ack_cases [of now inp db])
  case (resolved j)
  let ?n = "pj_retries j + 1"
  let ?j' = "acknowledged now inp ?n j"
  let ?db' = "fst (ackJobV2 now inp db)"
  have keyed: "jobs_keyed db" using ok by (simp add: spool_ok_def)
  from findJob_mem [OF resolved(1)] have j: "j \<in> set (pr_jobs db)" by simp
  have jobs: "pr_jobs ?db' = update_where (\<lambda>r. pj_id r = pj_id j) (\<lambda>_. ?j') (pr_jobs db)"
    and att: "pr_attempts ?db' = pr_attempts db @ [attempt_row inp j]" using resolved(5) by simp_all
  have only: "r = j" if "r \<in> set (pr_jobs db)" "pj_id r = pj_id j" for r
    using that j keyed unfolding jobs_keyed_def by (metis distinct_map inj_onD)
  have ids: "map pj_id (pr_jobs ?db') = map pj_id (pr_jobs db)"
    unfolding jobs by (auto simp: update_where_def acknowledged_fields)
  have rows: "set (pr_jobs ?db') = insert ?j' (set (pr_jobs db) - {j})"
    unfolding jobs using j only by (auto simp: update_where_def image_iff)
  have row: "pa_jobId (attempt_row inp j) = pj_id j" "pa_attemptNo (attempt_row inp j) = ?n"
    "pa_result (attempt_row inp j) = attempt_of (av_result inp)" by (simp_all add: attempt_row_def)
  have atts: "attempts_of ?db' i res = attempts_of db i res @
      (if i = pj_id j \<and> res = attempt_of (av_result inp) then [attempt_row inp j] else [])" for i res
    by (auto simp: attempts_of_def att row)
  have hist: "job_history db r" if "r \<in> set (pr_jobs db)" for r using ok that by (simp add: spool_ok_def)
  have "job_history ?db' ?j'"
    using hist [OF j] resolved(2)
    by (cases "av_result inp") (auto simp: job_history_def atts acknowledged_fields attempt_of_def row)
  moreover have "job_history ?db' r" if "r \<in> set (pr_jobs db) - {j}" for r
    using hist [of r] that only [of r] by (auto simp: job_history_def atts)
  ultimately have "\<forall>r \<in> set (pr_jobs ?db'). job_history ?db' r" by (simp add: rows)
  moreover have "pa_jobId ` set (pr_attempts ?db') \<subseteq> pj_id ` set (pr_jobs ?db')"
    using ok j ids by (metis (no_types, lifting) att row(1) list.set_map set_append spool_ok_def image_Un
        le_sup_iff list.set(1,2) image_insert image_empty insert_subset empty_subsetI image_eqI)
  moreover have "distinct (map (\<lambda>a. (pa_jobId a, pa_attemptNo a)) (pr_attempts ?db'))"
    using ok resolved(4) by (auto simp: spool_ok_def att row)
  ultimately have "spool_ok ?db'" using keyed by (simp add: spool_ok_def jobs_keyed_def ids)
  moreover have "history_kept db ?db'"
    using resolved(2) by (auto simp: history_kept_def att rows acknowledged_fields image_iff)
  ultimately show ?thesis ..
qed (use ok in \<open>simp_all add: history_kept_refl\<close>)

lemma spool_step_safe:
  assumes "spool_step e db db'" and "spool_ok db"
  shows "spool_ok db' \<and> history_kept db db'"
  using assms
proof (cases rule: spool_step.cases)
  case (enqueued j)
  then show ?thesis by (intro enqueue_step [OF assms(2), of j]) simp_all
qed (use assms(2) in \<open>simp_all add: fold_step claim_step renew_step ack_step release_step reprint_step\<close>)

lemma spool_reachable_ok: "spool_reachable e db \<Longrightarrow> spool_ok db"
proof (induction rule: spool_reachable.induct)
  case (start db)
  then show ?case by (auto simp: spool_ok_def job_history_def attempts_of_def)
next
  case (step db db')
  then show ?case using spool_step_safe by blast
qed

end
