(* ===== verification/PrintRequests.thy ===== *)
theory PrintRequests
  imports PrintLaws
begin

text \<open>
  What whole requests of the print agents leave alone: a job that a request does not reach keeps its
  row. The lemmas follow \<open>claimJobs\<close> through its loops.
\<close>

definition job_key :: "print_job \<Rightarrow> string \<times> string" where
  "job_key j = (pj_id j, pj_stationId j)"

definition spares :: "(print_job \<Rightarrow> bool) \<Rightarrow> 'z print_db_scheme \<Rightarrow> 'z print_db_scheme \<Rightarrow> bool" where
  "spares P db db' \<longleftrightarrow> pr_stations db' = pr_stations db \<and> db_flags db' = db_flags db \<and>
     map job_key (pr_jobs db') = map job_key (pr_jobs db) \<and>
     (\<forall>j \<in> set (pr_jobs db). P j \<longrightarrow> j \<in> set (pr_jobs db'))"

lemma spares_refl [simp]: "spares P db db"
  by (simp add: spares_def)

lemma spares_trans: "spares P a b \<Longrightarrow> spares P b c \<Longrightarrow> spares P a c"
  by (simp add: spares_def)

lemma spares_weaken: "spares P a b \<Longrightarrow> (\<And>j. j \<in> set (pr_jobs a) \<Longrightarrow> Q j \<Longrightarrow> P j) \<Longrightarrow> spares Q a b"
  by (simp add: spares_def)

lemma ids_of_keys: "map pj_id js = map fst (map job_key js)"
  by (simp add: job_key_def)

lemma spares_keyed: "spares P db db' \<Longrightarrow> jobs_keyed db' = jobs_keyed db"
  unfolding jobs_keyed_def ids_of_keys by (simp only: spares_def)

lemma spares_mem: "spares P db db' \<Longrightarrow> j \<in> set (pr_jobs db) \<Longrightarrow> P j \<Longrightarrow> j \<in> set (pr_jobs db')"
  by (simp add: spares_def)

lemma spares_location: "spares P db db' \<Longrightarrow> stationLocation db' = stationLocation db"
  by (simp add: spares_def stationLocation_def fun_eq_iff)

lemma scope_of_keys: "jobIdsForLocation db l =
    map fst (filter (\<lambda>(i, s). stationLocation db s = Some l) (map job_key (pr_jobs db)))"
  by (simp add: jobIdsForLocation_def filter_map o_def job_key_def)

lemma spares_scope: "spares P db db' \<Longrightarrow> jobIdsForLocation db' l = jobIdsForLocation db l"
  unfolding scope_of_keys by (simp add: spares_location) (simp add: spares_def)

lemma spares_fold:
  assumes "\<And>x db. x \<in> set xs \<Longrightarrow> spares P db (f x db)"
  shows "spares P db (fold f xs db)"
  using assms
proof (induction xs arbitrary: db)
  case (Cons x xs)
  have "spares P (f x db) (fold f xs (f x db))" using Cons by simp
  with Cons.prems [of x db] show ?case using spares_trans by auto
qed simp

lemma update_where_keeps: "j \<in> set rows \<Longrightarrow> \<not> p j \<Longrightarrow> j \<in> set (update_where p f rows)"
  by (force simp: update_where_def)

lemma spares_update:
  fixes db :: "'z print_db_scheme"
  assumes p: "\<And>r. p r \<Longrightarrow> \<not> P r" and f: "\<And>r. pj_id (f r) = pj_id r \<and> pj_stationId (f r) = pj_stationId r"
  shows "spares P db (db\<lparr>pr_jobs := update_where p f (pr_jobs db)\<rparr>)"
    "spares P db (db\<lparr>pr_attempts := as, pr_jobs := update_where p f (pr_jobs db)\<rparr>)"
proof -
  have "map job_key (update_where p f rows) = map job_key rows" for rows
    by (rule map_update_where) (simp add: f job_key_def)
  moreover have "\<not> p j" if "P j" for j using p that by blast
  ultimately show "spares P db (db\<lparr>pr_jobs := update_where p f (pr_jobs db)\<rparr>)"
    "spares P db (db\<lparr>pr_attempts := as, pr_jobs := update_where p f (pr_jobs db)\<rparr>)"
    by (simp_all add: spares_def update_where_keeps)
qed

lemma spares_fold_lease:
  "spares (\<lambda>j. pj_id j \<noteq> pj_id job \<or> pj_leaseToken j = None) db (recordExpiredLease now job db)"
  by (auto simp: recordExpiredLease_def Let_def intro!: spares_update split: option.splits)

lemma spares_claimRow: "spares (\<lambda>j. pj_id j \<noteq> i) db (fst (claimRow now until token i db))"
  by (auto simp: claimRow_def Let_def intro!: spares_update split: option.splits)

lemma spares_renew: "spares (\<lambda>j. pj_id j \<noteq> i \<or> pj_leaseToken j = None) db (fst (renewLease now i token s db))"
  by (auto simp: renewLease_def Let_def intro!: spares_update)

lemma keyed_same: "jobs_keyed db \<Longrightarrow> j \<in> set (pr_jobs db) \<Longrightarrow> k \<in> set (pr_jobs db) \<Longrightarrow> pj_id j = pj_id k \<Longrightarrow> j = k"
  unfolding jobs_keyed_def by (metis distinct_map inj_onD)

text \<open>An acknowledgement leaves the jobs with another id alone, and a pending job without a lease.\<close>

definition ack_spares :: "string \<Rightarrow> print_job \<Rightarrow> bool" where
  "ack_spares i j \<longleftrightarrow> pj_id j \<noteq> i \<or> (pj_status j = PJ_PENDING \<and> pj_leaseToken j = None)"

lemma spares_ack:
  fixes db :: "'z print_db_scheme"
  assumes keyed: "jobs_keyed db"
  shows "spares (ack_spares (av_jobId inp)) db (fst (ackJobV2 now inp db))"
proof (cases rule: ack_cases [of now inp db])
  case (resolved j)
  have j: "j \<in> set (pr_jobs db)" "pj_id j = av_jobId inp" using findJob_mem [OF resolved(1)] by simp_all
  let ?p = "\<lambda>r. pj_id r = pj_id j"
  let ?f = "\<lambda>_. acknowledged now inp (pj_retries j + 1) j"
  have only: "r = j" if "r \<in> set (pr_jobs db)" "?p r" for r by (rule keyed_same [OF keyed that(1) j(1) that(2)])
  have "map job_key (update_where ?p ?f (pr_jobs db)) = map job_key (pr_jobs db)"
    using only by (auto simp: update_where_def job_key_def acknowledged_fields)
  moreover have "\<not> ?p r" if "r \<in> set (pr_jobs db)" "ack_spares (av_jobId inp) r" for r
    using only [OF that(1)] that resolved(3) j(2) by (auto simp: ackRefused_def ack_spares_def)
  ultimately show ?thesis by (simp add: resolved(5) spares_def update_where_keeps)
qed simp_all

lemma spares_ids [simp]: "spares P (db\<lparr>db_ids := n\<rparr>) db' = spares P db db'"
  by (simp add: spares_def)

lemma claimNext_cases:
  "claimNext e now until i (db, cs) =
     (let r = claimRow now until (env_uuid e (db_ids db)) i (db\<lparr>db_ids := Suc (db_ids db)\<rparr>)
      in (fst r, cs @ (case snd r of None \<Rightarrow> [] | Some j \<Rightarrow> [claimed_of (env_uuid e (db_ids db)) until j])))"
  by (simp add: claimNext_def Let_def split: prod.splits option.splits)

lemma claimRow_id: "snd (claimRow now until token i db) = Some j \<Longrightarrow> pj_id j = i"
  by (auto simp: claimRow_def Let_def split: option.splits dest: find_Some_mem)

lemma claimLoop:
  "spares (\<lambda>j. pj_id j \<notin> set is) db (fst (fold (claimNext e now until) is (db, cs))) \<and>
   cj_id ` set (snd (fold (claimNext e now until) is (db, cs))) \<subseteq> set is \<union> cj_id ` set cs"
proof (induction "is" arbitrary: db cs)
  case (Cons i "is")
  obtain db1 cs1 where c: "claimNext e now until i (db, cs) = (db1, cs1)" by fastforce
  have db1: "spares (\<lambda>j. pj_id j \<noteq> i) db db1"
    using spares_claimRow [of i "db\<lparr>db_ids := Suc (db_ids db)\<rparr>" now until "env_uuid e (db_ids db)"] c
    by (simp add: claimNext_cases Let_def)
  have cs1: "cj_id ` set cs1 \<subseteq> insert i (cj_id ` set cs)"
    using c claimRow_id by (auto simp: claimNext_cases Let_def claimed_of_def split: option.splits)
  have "spares (\<lambda>j. pj_id j \<notin> set (i # is)) db db1" using db1 by (rule spares_weaken) simp
  moreover have "spares (\<lambda>j. pj_id j \<notin> set (i # is)) db1 (fst (fold (claimNext e now until) is (db1, cs1)))"
    using Cons.IH [of db1 cs1] by (intro spares_weaken [OF conjunct1 [OF Cons.IH [of db1 cs1]]]) simp
  ultimately have "spares (\<lambda>j. pj_id j \<notin> set (i # is)) db (fst (fold (claimNext e now until) is (db1, cs1)))"
    by (rule spares_trans)
  moreover have "cj_id ` set (snd (fold (claimNext e now until) is (db1, cs1))) \<subseteq> set (i # is) \<union> cj_id ` set cs"
    using conjunct2 [OF Cons.IH [of db1 cs1]] cs1 by (elim order_trans) auto
  ultimately show ?case by (simp add: c)
qed simp

text \<open>\<open>claimJobs\<close> in two parts: the lapsed leases are folded, then the candidates are claimed.\<close>

lemma claimJobs_parts:
  obtains "claimJobs e now l cap limit seconds db = (db, [])" "jobIdsForLocation db l = []"
  | db1 where "db1 = fold (recordExpiredLease now) (lapsedJobs now (jobIdsForLocation db l) db) db"
    "claimJobs e now l cap limit seconds db =
       fold (claimNext e now (leaseExpiry now (clamp 10 300 (case seconds of None \<Rightarrow> DEFAULT_LEASE_SECONDS | Some s \<Rightarrow> s))))
         (claimCandidates now (jobIdsForLocation db l) cap (clamp 1 20 (case limit of None \<Rightarrow> 5 | Some n \<Rightarrow> n)) db1) (db1, [])"
  by (cases "jobIdsForLocation db l = []") (auto simp: claimJobs_def Let_def)

lemma lapsed_fold_spares:
  "spares (\<lambda>j. pj_id j \<notin> set scope \<or> pj_leaseToken j = None) db (fold (recordExpiredLease now) (lapsedJobs now scope db) db)"
proof (rule spares_fold)
  fix k and db' :: "'a print_db_scheme" assume "k \<in> set (lapsedJobs now scope db)"
  then have "pj_id k \<in> set scope" by (simp add: lapsedJobs_def)
  then show "spares (\<lambda>j. pj_id j \<notin> set scope \<or> pj_leaseToken j = None) db' (recordExpiredLease now k db')"
    by (intro spares_weaken [OF spares_fold_lease]) auto
qed

lemma candidates_claimable:
  assumes "i \<in> set (claimCandidates now scope cap lim db)"
  obtains j where "j \<in> set (pr_jobs db)" "pj_id j = i" "claimable now scope j"
  using assms by (auto simp: claimCandidates_def oldest_first_def dest!: in_set_takeD)

lemma scope_member: "jobs_keyed db \<Longrightarrow> j \<in> set (pr_jobs db) \<Longrightarrow>
    pj_id j \<in> set (jobIdsForLocation db l) \<longleftrightarrow> stationLocation db (pj_stationId j) = Some l"
  by (auto simp: jobIdsForLocation_def dest: keyed_same)

text \<open>A claim stays at the agent's location.\<close>

lemma claimJobs_location:
  fixes db :: "'z print_db_scheme"
  assumes keyed: "jobs_keyed db"
  shows "spares (\<lambda>j. stationLocation db (pj_stationId j) \<noteq> Some l) db (fst (claimJobs e now l cap limit seconds db))"
proof (cases rule: claimJobs_parts [of e now l cap limit seconds db])
  case (2 db1)
  let ?scope = "jobIdsForLocation db l"
  let ?P = "\<lambda>j. pj_id j \<notin> set ?scope"
  have "spares ?P db db1" unfolding 2(1) by (rule spares_weaken [OF lapsed_fold_spares]) simp
  moreover have "spares ?P db1 (fst (claimJobs e now l cap limit seconds db))"
    unfolding 2(2) by (rule spares_weaken [OF conjunct1 [OF claimLoop]])
      (auto elim!: candidates_claimable simp: claimable_def)
  ultimately have "spares ?P db (fst (claimJobs e now l cap limit seconds db))" by (rule spares_trans)
  then show ?thesis by (rule spares_weaken) (simp add: scope_member [OF keyed])
qed simp

text \<open>A pending job without a lease whose attempts are used up is never claimed.\<close>

definition stranded :: "print_job \<Rightarrow> bool" where
  "stranded j \<longleftrightarrow> pj_status j = PJ_PENDING \<and> pj_leaseToken j = None \<and> MAX_PRINT_ATTEMPTS \<le> pj_retries j"

lemma claimJobs_stranded:
  fixes db :: "'z print_db_scheme"
  assumes keyed: "jobs_keyed db" and j: "j \<in> set (pr_jobs db)" "stranded j"
  shows "j \<in> set (pr_jobs (fst (claimJobs e now l cap limit seconds db)))"
    "pj_id j \<notin> cj_id ` set (snd (claimJobs e now l cap limit seconds db))"
proof -
  have "j \<in> set (pr_jobs (fst (claimJobs e now l cap limit seconds db))) \<and>
    pj_id j \<notin> cj_id ` set (snd (claimJobs e now l cap limit seconds db))"
  proof (cases rule: claimJobs_parts [of e now l cap limit seconds db])
    case 1
    with j show ?thesis by simp
  next
    case (2 db1)
    have sp: "spares (\<lambda>j. pj_id j \<notin> set (jobIdsForLocation db l) \<or> pj_leaseToken j = None) db db1"
      unfolding 2(1) by (rule lapsed_fold_spares)
    have j1: "j \<in> set (pr_jobs db1)" using spares_mem [OF sp j(1)] j(2) by (simp add: stranded_def)
    have keyed1: "jobs_keyed db1" using spares_keyed [OF sp] keyed by simp
    have no: "pj_id j \<notin> set (claimCandidates now (jobIdsForLocation db l) cap lim db1)" for lim
    proof
      assume "pj_id j \<in> set (claimCandidates now (jobIdsForLocation db l) cap lim db1)"
      then obtain k where k: "k \<in> set (pr_jobs db1)" "pj_id k = pj_id j" "claimable now (jobIdsForLocation db l) k"
        by (rule candidates_claimable)
      have "k = j" by (rule keyed_same [OF keyed1 k(1) j1 k(2)])
      with k(3) j(2) show False by (simp add: claimable_def stranded_def)
    qed
    note loop = claimLoop [of "claimCandidates now (jobIdsForLocation db l) cap
      (clamp 1 20 (case limit of None \<Rightarrow> 5 | Some n \<Rightarrow> n)) db1" db1 e now
      "leaseExpiry now (clamp 10 300 (case seconds of None \<Rightarrow> DEFAULT_LEASE_SECONDS | Some s \<Rightarrow> s))" "[]"]
    show ?thesis unfolding 2(2) using loop spares_mem [OF conjunct1 [OF loop] j1] no by auto
  qed
  then show "j \<in> set (pr_jobs (fst (claimJobs e now l cap limit seconds db)))"
    "pj_id j \<notin> cj_id ` set (snd (claimJobs e now l cap limit seconds db))" by simp_all
qed


section \<open>The oldest job comes first\<close>

text \<open>What folding the lapsed leases makes of a row.\<close>

definition folded_row :: "nat \<Rightarrow> print_job \<Rightarrow> print_job \<Rightarrow> bool" where
  "folded_row now r r' \<longleftrightarrow> r' = r \<or> pj_leaseToken r \<noteq> None \<and> unleased now r \<and>
     r' = r\<lparr>pj_retries := pj_retries r + 1, pj_leaseToken := None, pj_leaseUntil := None\<rparr>"

lemma folded_rows_step:
  fixes db :: "'z print_db_scheme"
  assumes keyed: "distinct (map pj_id rows)" and all: "list_all2 (folded_row now) rows (pr_jobs db)" and k: "k \<in> set rows"
  shows "list_all2 (folded_row now) rows (pr_jobs (recordExpiredLease now k db))"
proof -
  have "folded_row now r (if pj_id r' = pj_id k \<and> pj_leaseToken r' = Some token
      then r'\<lparr>pj_retries := pj_retries k + 1, pj_leaseToken := None, pj_leaseUntil := None\<rparr> else r')"
    if "folded_row now r r'" "r \<in> set rows" and "unleased now k" for r r' token
  proof (cases "pj_id r' = pj_id k \<and> pj_leaseToken r' = Some token")
    case True
    then have "r' = r" using that(1) by (auto simp: folded_row_def)
    moreover from this True have "r = k" using keyed that(2) k by (metis distinct_map inj_onD)
    ultimately show ?thesis using True that(3) by (auto simp: folded_row_def)
  next
    case False
    then show ?thesis unfolding if_not_P [OF False] by (rule_tac that(1))
  qed
  note step = this
  have upd: "list_all2 (folded_row now) rows (update_where (\<lambda>r. pj_id r = pj_id k \<and> pj_leaseToken r = Some token)
      (\<lambda>r. r\<lparr>pj_retries := pj_retries k + 1, pj_leaseToken := None, pj_leaseUntil := None\<rparr>) (pr_jobs db))" if "unleased now k" for token
    unfolding update_where_def list_all2_map2 by (rule list.rel_mono_strong [OF all]) (rule step [OF _ _ that])
  show ?thesis using all upd by (auto simp: recordExpiredLease_def unleased_def Let_def split: option.splits)
qed

lemma folded_rows:
  fixes db :: "'z print_db_scheme"
  assumes "distinct (map pj_id rows)" and "list_all2 (folded_row now) rows (pr_jobs db)" and "set ks \<subseteq> set rows"
  shows "list_all2 (folded_row now) rows (pr_jobs (fold (recordExpiredLease now) ks db))"
  using assms by (induction ks arbitrary: db) (simp_all add: folded_rows_step)

lemma sort_by_least:
  assumes "x \<in> set xs" and "\<And>y. y \<in> set xs \<Longrightarrow> y \<noteq> x \<Longrightarrow> le x y \<and> \<not> le y x" and "le x x"
  shows "\<exists>ys. sort_by le xs = x # ys"
  using assms(1,2)
proof (induction xs)
  case (Cons a as)
  show ?case
  proof (cases "x \<in> set as")
    case True
    then obtain ys where "sort_by le as = x # ys" using Cons by auto
    with Cons.prems(2) [of a] assms(3) show ?thesis by (cases "a = x") auto
  next
    case False
    then have "a = x" using Cons.prems(1) by simp
    moreover have "le x y" if "y \<in> set (sort_by le as)" for y
      using that False Cons.prems(2) [of y] by auto
    ultimately show ?thesis by (cases "sort_by le as") auto
  qed
qed simp

lemma claimLoop_mono: "set cs \<subseteq> set (snd (fold (claimNext e now until) is (db, cs)))"
proof (induction "is" arbitrary: db cs)
  case (Cons i "is")
  obtain db1 cs1 where c: "claimNext e now until i (db, cs) = (db1, cs1)" by fastforce
  then have "set cs \<subseteq> set cs1" by (auto simp: claimNext_cases Let_def)
  also have "set cs1 \<subseteq> set (snd (fold (claimNext e now until) is (db1, cs1)))" by (rule Cons.IH)
  finally show ?case by (simp add: c)
qed simp

lemma claimLoop_first:
  fixes db :: "'z print_db_scheme"
  assumes "jobs_keyed db" and "j \<in> set (pr_jobs db)" and "job_ready now j"
  shows "\<exists>c \<in> set (snd (fold (claimNext e now until) (pj_id j # is) (db, []))).
    cj_id c = pj_id j \<and> cj_leaseUntil c = until \<and> cj_attemptNo c = pj_retries j + 1"
proof -
  let ?token = "env_uuid e (db_ids db)"
  let ?db = "db\<lparr>db_ids := Suc (db_ids db)\<rparr>"
  have "findJob ?db (pj_id j) = Some j" and "jobs_keyed ?db"
    using assms(1,2) findJob_iff [OF assms(1)] by (simp_all add: findJob_def jobs_keyed_def)
  from claimRow_hit [OF this(1) assms(3) this(2), of until ?token]
  obtain db1 where "claimRow now until ?token (pj_id j) ?db =
      (db1, Some (j\<lparr>pj_leaseToken := Some ?token, pj_leaseUntil := Some until\<rparr>))" by blast
  then have "claimNext e now until (pj_id j) (db, []) =
      (db1, [claimed_of ?token until (j\<lparr>pj_leaseToken := Some ?token, pj_leaseUntil := Some until\<rparr>)])"
    by (simp add: claimNext_cases Let_def)
  with claimLoop_mono [of "[claimed_of ?token until (j\<lparr>pj_leaseToken := Some ?token, pj_leaseUntil := Some until\<rparr>)]" e now until "is" db1]
  show ?thesis by (intro bexI [of _ "claimed_of ?token until (j\<lparr>pj_leaseToken := Some ?token, pj_leaseUntil := Some until\<rparr>)"])
    (simp_all add: claimed_of_def)
qed

lemma claimJobs_oldest:
  fixes db :: "'z print_db_scheme"
  assumes keyed: "jobs_keyed db" and j: "j \<in> set (pr_jobs db)" "stationLocation db (pj_stationId j) = Some l"
    and ready: "job_ready now j" and cap: "cap = None \<or> cap = Some (pj_capability j)"
    and left: "pj_retries j + (if pj_leaseToken j = None then 0 else 1) < MAX_PRINT_ATTEMPTS"
    and oldest: "\<And>k. k \<in> set (pr_jobs db) \<Longrightarrow> k \<noteq> j \<Longrightarrow> stationLocation db (pj_stationId k) = Some l \<Longrightarrow> job_ready now k \<Longrightarrow>
      pj_retries k < MAX_PRINT_ATTEMPTS \<Longrightarrow> cap = None \<or> cap = Some (pj_capability k) \<Longrightarrow> pj_createdAt j < pj_createdAt k"
  shows "\<exists>c \<in> set (snd (claimJobs e now l cap limit seconds db)). cj_id c = pj_id j \<and>
    cj_leaseUntil c = leaseExpiry now (clamp 10 300 (case seconds of None \<Rightarrow> DEFAULT_LEASE_SECONDS | Some s \<Rightarrow> s)) \<and>
    cj_attemptNo c \<le> MAX_PRINT_ATTEMPTS"
proof (cases rule: claimJobs_parts [of e now l cap limit seconds db])
  case 1
  with scope_member [OF keyed j(1), of l] j(2) show ?thesis by simp
next
  case (2 db1)
  let ?scope = "jobIdsForLocation db l"
  have "spares (\<lambda>j. pj_id j \<notin> set ?scope \<or> pj_leaseToken j = None) db db1" unfolding 2(1) by (rule lapsed_fold_spares)
  then have keyed1: "jobs_keyed db1" using keyed by (simp add: spares_keyed)
  have rows: "list_all2 (folded_row now) (pr_jobs db) (pr_jobs db1)"
    unfolding 2(1) by (rule folded_rows) (use keyed in \<open>auto simp: jobs_keyed_def folded_row_def lapsedJobs_def intro: list_all2_refl\<close>)
  then obtain j1 where j1: "j1 \<in> set (pr_jobs db1)" "folded_row now j j1"
    using j(1) by (metis list_all2_conv_all_nth in_set_conv_nth)
  have fields: "pj_id j1 = pj_id j" "pj_createdAt j1 = pj_createdAt j" "pj_status j1 = pj_status j"
    "pj_capability j1 = pj_capability j" "pj_retries j1 < MAX_PRINT_ATTEMPTS" "job_ready now j1"
    using j1(2) left ready by (auto simp: folded_row_def job_ready_def unleased_def)
  have older: "pj_createdAt j1 < pj_createdAt k" if k: "k \<in> set (pr_jobs db1)" "k \<noteq> j1" "claimable now ?scope k"
      "case cap of None \<Rightarrow> True | Some c \<Rightarrow> pj_capability k = c" for k
  proof -
    obtain k0 where k0: "k0 \<in> set (pr_jobs db)" "folded_row now k0 k"
      using rows k(1) by (metis list_all2_conv_all_nth in_set_conv_nth)
    have "k0 \<noteq> j" using keyed_same [OF keyed1 k(1) j1(1)] k(2) k0(2) fields(1) by (auto simp: folded_row_def)
    moreover have "pj_id k0 \<in> set ?scope" "job_ready now k0" "pj_retries k0 < MAX_PRINT_ATTEMPTS"
        "cap = None \<or> cap = Some (pj_capability k0)"
      using k(3,4) k0(2) by (auto simp: folded_row_def claimable_def job_ready_def split: option.splits)
    ultimately have "pj_createdAt j < pj_createdAt k0" using oldest k0(1) scope_member [OF keyed k0(1)] by blast
    with k0(2) fields(2) show ?thesis by (auto simp: folded_row_def)
  qed
  have inscope: "pj_id j \<in> set ?scope" using scope_member [OF keyed j(1)] j(2) by simp
  have pick: "claimable now ?scope j1 \<and> (case cap of None \<Rightarrow> True | Some c \<Rightarrow> pj_capability j1 = c)"
    using fields cap inscope by (auto simp: claimable_def job_ready_def)
  have "\<exists>ys. oldest_first (filter (\<lambda>j. claimable now ?scope j \<and>
       (case cap of None \<Rightarrow> True | Some c \<Rightarrow> pj_capability j = c)) (pr_jobs db1)) = j1 # ys"
    unfolding oldest_first_def by (rule sort_by_least) (use j1(1) pick older in \<open>fastforce+\<close>)
  then obtain ys where ys: "oldest_first (filter (\<lambda>j. claimable now ?scope j \<and>
       (case cap of None \<Rightarrow> True | Some c \<Rightarrow> pj_capability j = c)) (pr_jobs db1)) = j1 # ys" ..
  obtain n where n: "clamp 1 20 (case limit of None \<Rightarrow> 5 | Some n \<Rightarrow> n) = Suc n"
    by (cases "clamp 1 20 (case limit of None \<Rightarrow> 5 | Some n \<Rightarrow> n)") (auto simp: clamp_def)
  have "claimCandidates now ?scope cap (Suc n) db1 = pj_id j1 # map pj_id (take n ys)"
    by (simp add: claimCandidates_def ys)
  with claimLoop_first [OF keyed1 j1(1) fields(6), of e _ "map pj_id (take n ys)"] fields(1,5)
  show ?thesis unfolding 2(2) n by fastforce
qed

text \<open>The claim that sees a lease with no attempt left run out.\<close>

lemma fold_hits:
  fixes db :: "'z print_db_scheme"
  assumes "distinct (map pj_id ks)" and "j \<in> set ks" and "\<And>k. k \<in> set ks \<Longrightarrow> pj_id k = pj_id j \<Longrightarrow> k = j"
    and "j \<in> set (pr_jobs db)" and "truthy (pj_leaseToken j) = Some token" "pj_leaseUntil j = Some until" "until \<le> now"
  shows "j\<lparr>pj_retries := pj_retries j + 1, pj_leaseToken := None, pj_leaseUntil := None\<rparr>
    \<in> set (pr_jobs (fold (recordExpiredLease now) ks db))"
  using assms(1-4)
proof (induction ks arbitrary: db)
  case (Cons k ks)
  let ?j = "j\<lparr>pj_retries := pj_retries j + 1, pj_leaseToken := None, pj_leaseUntil := None\<rparr>"
  show ?case
  proof (cases "k = j")
    case True
    have tok: "pj_leaseToken j = Some token" using assms(5) by (auto simp: truthy_def split: option.splits if_splits)
    have "?j \<in> set (pr_jobs (recordExpiredLease now j db))"
      using assms(5-7) Cons.prems(4) tok
      by (simp add: recordExpiredLease_def Let_def update_where_def image_iff) blast
    moreover have "spares (\<lambda>j. pj_leaseToken j = None) (recordExpiredLease now j db)
        (fold (recordExpiredLease now) ks (recordExpiredLease now j db))"
      by (rule spares_fold) (rule spares_weaken [OF spares_fold_lease], simp)
    ultimately show ?thesis using True spares_mem by fastforce
  next
    case False
    then have "pj_id k \<noteq> pj_id j" using Cons.prems(3) by auto
    then have "j \<in> set (pr_jobs (recordExpiredLease now k db))"
      using spares_mem [OF spares_fold_lease Cons.prems(4)] by simp
    with Cons False show ?thesis by simp
  qed
qed simp

lemma claimJobs_last_lease:
  fixes db :: "'z print_db_scheme"
  assumes keyed: "jobs_keyed db" and j: "j \<in> set (pr_jobs db)" "stationLocation db (pj_stationId j) = Some l"
    and lapsed: "pj_status j = PJ_PENDING" "pj_retries j = 2" "truthy (pj_leaseToken j) = Some token"
      "pj_leaseUntil j = Some until" "until \<le> now"
  shows "j\<lparr>pj_retries := 3, pj_leaseToken := None, pj_leaseUntil := None\<rparr>
      \<in> set (pr_jobs (fst (claimJobs e now l cap limit seconds db))) \<and>
    pj_id j \<notin> cj_id ` set (snd (claimJobs e now l cap limit seconds db))"
proof (cases rule: claimJobs_parts [of e now l cap limit seconds db])
  case 1
  with scope_member [OF keyed j(1), of l] j(2) show ?thesis by simp
next
  case (2 db1)
  let ?scope = "jobIdsForLocation db l"
  let ?j = "j\<lparr>pj_retries := 3, pj_leaseToken := None, pj_leaseUntil := None\<rparr>"
  have scope: "pj_id j \<in> set ?scope" using scope_member [OF keyed j(1)] j(2) by simp
  have tok: "pj_leaseToken j = Some token" using lapsed(3) by (auto simp: truthy_def split: option.splits if_splits)
  have jl: "j \<in> set (lapsedJobs now ?scope db)" using scope lapsed j(1) tok by (simp add: lapsedJobs_def)
  have dist: "distinct (map pj_id (lapsedJobs now ?scope db))"
    using keyed unfolding jobs_keyed_def lapsedJobs_def by (rule distinct_map_filter)
  have only: "k = j" if "k \<in> set (lapsedJobs now ?scope db)" "pj_id k = pj_id j" for k
    using that keyed_same [OF keyed _ j(1)] by (auto simp: lapsedJobs_def)
  have j1: "?j \<in> set (pr_jobs db1)"
    using fold_hits [OF dist jl only j(1) lapsed(3-5)] lapsed(2) by (simp add: 2(1) numeral_3_eq_3)
  have keyed1: "jobs_keyed db1" unfolding 2(1) spares_keyed [OF lapsed_fold_spares] by (rule keyed)
  have no: "pj_id j \<notin> set (claimCandidates now ?scope cap lim db1)" for lim
  proof
    assume "pj_id j \<in> set (claimCandidates now ?scope cap lim db1)"
    then obtain k where k: "k \<in> set (pr_jobs db1)" "pj_id k = pj_id j" "claimable now ?scope k"
      by (rule candidates_claimable)
    have "k = ?j" by (rule keyed_same [OF keyed1 k(1) j1]) (simp add: k(2))
    with k(3) show False by (simp add: claimable_def MAX_PRINT_ATTEMPTS_def)
  qed
  note loop = claimLoop [of "claimCandidates now ?scope cap (clamp 1 20 (case limit of None \<Rightarrow> 5 | Some n \<Rightarrow> n)) db1" db1
    e now "leaseExpiry now (clamp 10 300 (case seconds of None \<Rightarrow> DEFAULT_LEASE_SECONDS | Some s \<Rightarrow> s))" "[]"]
  show ?thesis unfolding 2(2) using loop spares_mem [OF conjunct1 [OF loop] j1] no by auto
qed

section \<open>Requests\<close>

lemma guarded_cases:
  obtains "fst (guarded g act db) = db" | "g = Inr ()" "fst (guarded g act db) = fst (act db)"
  by (cases g) (auto simp: guarded_def respond_def)

lemma ownJob_Inr:
  assumes "ownJob l i db = Inr ()"
  obtains j where "findJob db i = Some j" "stationLocation db (pj_stationId j) = Some l"
  using assms by (auto simp: ownJob_def resolvePrintJobLocationId_def res_iff split: option.splits)

lemma spares_own:
  assumes "ownJob l i db = Inr ()" and "jobs_keyed db" and "spares (\<lambda>j. pj_id j \<noteq> i) db db'"
  shows "spares (\<lambda>j. stationLocation db (pj_stationId j) \<noteq> Some l) db db'"
proof -
  from assms(1) obtain k where k: "findJob db i = Some k" "stationLocation db (pj_stationId k) = Some l"
    by (rule ownJob_Inr)
  from findJob_mem [OF k(1)] have mem: "k \<in> set (pr_jobs db)" "pj_id k = i" by simp_all
  show ?thesis
  proof (rule spares_weaken [OF assms(3)])
    fix j assume "j \<in> set (pr_jobs db)" "stationLocation db (pj_stationId j) \<noteq> Some l"
    then show "pj_id j \<noteq> i" using keyed_same [OF assms(2) _ mem(1)] mem(2) k(2) by metis
  qed
qed

lemma updatePrinterStatuses_frame:
  fixes db :: "'z print_db_scheme"
  shows "pr_jobs (fst (updatePrinterStatuses us db)) = pr_jobs db"
    "pr_stations (fst (updatePrinterStatuses us db)) = pr_stations db"
    "db_flags (fst (updatePrinterStatuses us db)) = db_flags db"
proof -
  let ?f = "\<lambda>u (db :: 'z print_db_scheme, n).
        (db\<lparr>pr_printers := update_where (\<lambda>p. pn_id p = pu_printerId u)
              (\<lambda>p. p\<lparr>pn_status := pu_status u, pn_lastSeen := Some (pu_lastSeen u)\<rparr>) (pr_printers db)\<rparr>,
         if \<exists>p \<in> set (pr_printers db). pn_id p = pu_printerId u then n + 1 else n)"
  have "pr_jobs (fst (fold ?f us (db, n))) = pr_jobs db \<and> pr_stations (fst (fold ?f us (db, n))) = pr_stations db \<and>
      db_flags (fst (fold ?f us (db, n))) = db_flags db" for n :: nat
    by (induction us arbitrary: db n) simp_all
  then show "pr_jobs (fst (updatePrinterStatuses us db)) = pr_jobs db"
    "pr_stations (fst (updatePrinterStatuses us db)) = pr_stations db"
    "db_flags (fst (updatePrinterStatuses us db)) = db_flags db" by (simp_all add: updatePrinterStatuses_def)
qed

lemma spares_ackJob: "spares (\<lambda>j. pj_id j \<noteq> i) db (fst (ackJob now i printed err db))"
  by (auto simp: ackJob_def Let_def intro!: spares_update split: option.splits)

lemma printers_spare: "spares P db (fst (printerStatusRoute l us db))"
  using updatePrinterStatuses_frame [of us db] by (auto simp: printerStatusRoute_def spares_def split: prod.splits)

lemma claimRoute_fst:
  "fst (claimRoute e l now cap limit seconds db) = db \<or>
   fst (claimRoute e l now cap limit seconds db) = fst (claimJobs e now l cap limit seconds db)"
  by (cases "spooling db") (simp_all add: claimRoute_def guarded_def respond_def split: prod.splits)

text \<open>Whatever an agent asks for, jobs of other locations stay as they are.\<close>

lemma serve_location:
  fixes db :: "'z print_db_scheme"
  assumes keyed: "jobs_keyed db"
  shows "spares (\<lambda>j. stationLocation db (pj_stationId j) \<noteq> Some l) db (serveAgent e l now req db)"
proof (cases req)
  case (PullAck i printed err)
  have "spares (\<lambda>j. stationLocation db (pj_stationId j) \<noteq> Some l) db (fst (ackRoute l now i printed err db))"
    unfolding ackRoute_def
    by (rule guarded_cases [of "ownJob l i db" "ackJob now i printed err" db])
      (simp_all add: spares_own [OF _ keyed spares_ackJob])
  with PullAck show ?thesis by (simp add: serveAgent_def)
next
  case (PrinterStatus us)
  then show ?thesis by (simp add: serveAgent_def printers_spare)
next
  case (Claim cap limit seconds)
  then show ?thesis
    using claimRoute_fst [of e l now cap limit seconds db] claimJobs_location [OF keyed]
    by (auto simp: serveAgent_def)
next
  case (RenewLease i token seconds)
  let ?s = "case seconds of None \<Rightarrow> DEFAULT_LEASE_SECONDS | Some s \<Rightarrow> s"
  have "spares (\<lambda>j. pj_id j \<noteq> i) db (fst (renewLease now i token ?s db))"
    by (rule spares_weaken [OF spares_renew]) simp
  note own = spares_own [OF _ keyed this]
  have "spares (\<lambda>j. stationLocation db (pj_stationId j) \<noteq> Some l) db (fst (renewRoute l now i token seconds db))"
    unfolding renewRoute_def
    by (rule guarded_cases [of "bindE (spooling db) (\<lambda>_. ownJob l i db)" "renewLease now i token ?s" db])
      (auto simp: res_iff intro: own)
  with RenewLease show ?thesis by (simp add: serveAgent_def)
next
  case (AckV2 inp)
  have "spares (\<lambda>j. pj_id j \<noteq> av_jobId inp) db (fst (ackJobV2 now inp db))"
    by (rule spares_weaken [OF spares_ack [OF keyed]]) (simp add: ack_spares_def)
  note own = spares_own [OF _ keyed this]
  have "spares (\<lambda>j. stationLocation db (pj_stationId j) \<noteq> Some l) db (fst (ackV2Route l now inp db))"
    unfolding ackV2Route_def
    by (rule guarded_cases [of "bindE (spooling db) (\<lambda>_. ownJob l (av_jobId inp) db)" "ackJobV2 now inp" db])
      (auto simp: res_iff intro: own)
  with AckV2 show ?thesis by (simp add: serveAgent_def)
qed

text \<open>Only an acknowledgement of the pull loop can still move a stranded job.\<close>

lemma serve_stranded:
  fixes db :: "'z print_db_scheme"
  assumes keyed: "jobs_keyed db" and j: "j \<in> set (pr_jobs db)" "stranded j"
    and req: "\<forall>printed err. req \<noteq> PullAck (pj_id j) printed err"
  shows "j \<in> set (pr_jobs (serveAgent e l now req db))"
proof (cases req)
  case (PullAck i printed err)
  with req have "pj_id j \<noteq> i" by auto
  with spares_mem [OF spares_ackJob j(1)] j(1) show ?thesis
    unfolding PullAck serveAgent_def agent_request.case ackRoute_def
    by (rule_tac guarded_cases [of "ownJob l i db" "ackJob now i printed err" db]) simp_all
next
  case (PrinterStatus us)
  then show ?thesis using spares_mem [OF printers_spare j(1)] by (simp add: serveAgent_def)
next
  case (Claim cap limit seconds)
  then show ?thesis
    using claimRoute_fst [of e l now cap limit seconds db] claimJobs_stranded(1) [OF keyed j] j(1)
    by (auto simp: serveAgent_def)
next
  case (RenewLease i token seconds)
  let ?s = "case seconds of None \<Rightarrow> DEFAULT_LEASE_SECONDS | Some s \<Rightarrow> s"
  have "j \<in> set (pr_jobs (fst (renewLease now i token ?s db)))"
    using spares_mem [OF spares_renew j(1)] j(2) by (simp add: stranded_def)
  with j(1) show ?thesis unfolding RenewLease serveAgent_def agent_request.case renewRoute_def
    by (rule_tac guarded_cases [of "bindE (spooling db) (\<lambda>_. ownJob l i db)" "renewLease now i token ?s" db]) simp_all
next
  case (AckV2 inp)
  have "j \<in> set (pr_jobs (fst (ackJobV2 now inp db)))"
    using spares_mem [OF spares_ack [OF keyed] j(1)] j(2) by (simp add: stranded_def ack_spares_def)
  with j(1) show ?thesis unfolding AckV2 serveAgent_def agent_request.case ackV2Route_def
    by (rule_tac guarded_cases [of "bindE (spooling db) (\<lambda>_. ownJob l (av_jobId inp) db)" "ackJobV2 now inp" db]) simp_all
qed

lemma serveAgents_stranded:
  fixes db :: "'z print_db_scheme"
  assumes "jobs_keyed db" and "j \<in> set (pr_jobs db)" and "stranded j"
    and "\<forall>(l, now, req) \<in> set reqs. \<forall>printed err. req \<noteq> PullAck (pj_id j) printed err"
  shows "jobs_keyed (serveAgents e reqs db) \<and> j \<in> set (pr_jobs (serveAgents e reqs db)) \<and>
    stationLocation (serveAgents e reqs db) = stationLocation db"
  using assms
proof (induction reqs arbitrary: db)
  case (Cons r reqs)
  obtain l now req where r: "r = (l, now, req)" by (cases r)
  have "jobs_keyed (serveAgent e l now req db)"
    using spares_keyed [OF serve_location [OF Cons.prems(1)]] Cons.prems(1) by simp
  moreover have "j \<in> set (pr_jobs (serveAgent e l now req db))"
    by (rule serve_stranded [OF Cons.prems(1-3)]) (use Cons.prems(4) r in auto)
  moreover have "stationLocation (serveAgent e l now req db) = stationLocation db"
    by (rule spares_location [OF serve_location [OF Cons.prems(1)]])
  ultimately show ?case using Cons.IH [of "serveAgent e l now req db"] Cons.prems(3,4) by (simp add: serveAgents_def r)
qed (simp add: serveAgents_def)


text \<open>Printers change only by a heartbeat of their location.\<close>

lemma printers_frame:
  fixes db :: "'z print_db_scheme"
  shows "pr_printers (recordExpiredLease now job db) = pr_printers db"
    "pr_printers (fst (claimRow now until token i db)) = pr_printers db"
    "pr_printers (fst (renewLease now i token s db)) = pr_printers db"
    "pr_printers (fst (ackJob now i printed err db)) = pr_printers db"
    "pr_printers (fst (ackJobV2 now inp db)) = pr_printers db"
  by (simp_all add: recordExpiredLease_def claimRow_def renewLease_def ackJob_def Let_def split: option.splits)
    (cases rule: ack_cases [of now inp db], simp_all)

lemma claimJobs_printers: "pr_printers (fst (claimJobs e now l cap limit seconds db)) = pr_printers db"
proof -
  have fold: "pr_printers (fold (recordExpiredLease now) ks db) = pr_printers db" for ks and db :: "'a print_db_scheme"
    by (induction ks arbitrary: db) (simp_all add: printers_frame)
  have step: "pr_printers (fst (claimNext e now until i (db, cs))) = pr_printers db" for until i cs and db :: "'a print_db_scheme"
    by (simp add: claimNext_cases Let_def printers_frame)
  have "pr_printers (fst (fold (claimNext e now until) is (db, cs))) = pr_printers db" for until "is" cs and db :: "'a print_db_scheme"
  proof (induction "is" arbitrary: db cs)
    case (Cons i "is")
    obtain db1 cs1 where c: "claimNext e now until i (db, cs) = (db1, cs1)" by fastforce
    with step [of until i db cs] Cons.IH [of db1 cs1] show ?case by simp
  qed simp
  with fold show ?thesis by (cases rule: claimJobs_parts [of e now l cap limit seconds db]) simp_all
qed

lemma updatePrinterStatuses_keeps:
  fixes db :: "'z print_db_scheme"
  assumes "p \<in> set (pr_printers db)" and "\<forall>u \<in> set us. pu_printerId u \<noteq> pn_id p"
  shows "p \<in> set (pr_printers (fst (updatePrinterStatuses us db)))"
proof -
  let ?f = "\<lambda>u (db :: 'z print_db_scheme, n).
        (db\<lparr>pr_printers := update_where (\<lambda>p. pn_id p = pu_printerId u)
              (\<lambda>p. p\<lparr>pn_status := pu_status u, pn_lastSeen := Some (pu_lastSeen u)\<rparr>) (pr_printers db)\<rparr>,
         if \<exists>p \<in> set (pr_printers db). pn_id p = pu_printerId u then n + 1 else n)"
  have "p \<in> set (pr_printers (fst (fold ?f us (db, n))))" for n :: nat
    using assms
  proof (induction us arbitrary: db n)
    case (Cons u us)
    have "p \<in> set (update_where (\<lambda>p. pn_id p = pu_printerId u)
        (\<lambda>p. p\<lparr>pn_status := pu_status u, pn_lastSeen := Some (pu_lastSeen u)\<rparr>) (pr_printers db))"
      by (rule update_where_keeps) (use Cons.prems in auto)
    then show ?case using Cons by simp
  qed simp
  then show ?thesis by (simp add: updatePrinterStatuses_def)
qed

lemma serve_printers:
  fixes db :: "'z print_db_scheme"
  shows "\<forall>p \<in> set (pr_printers db). resolvePrinterLocationId db (pn_id p) \<noteq> Some l \<longrightarrow>
    p \<in> set (pr_printers (serveAgent e l now req db))"
proof (cases req)
  case (PrinterStatus us)
  show ?thesis
  proof (intro ballI impI)
    fix p assume p: "p \<in> set (pr_printers db)" "resolvePrinterLocationId db (pn_id p) \<noteq> Some l"
    show "p \<in> set (pr_printers (serveAgent e l now req db))"
    proof (cases "\<exists>u \<in> set us. resolvePrinterLocationId db (pu_printerId u) \<noteq> Some l")
      case True
      with p show ?thesis by (simp add: PrinterStatus serveAgent_def printerStatusRoute_def)
    next
      case False
      then have "\<forall>u \<in> set us. pu_printerId u \<noteq> pn_id p" using p(2) by metis
      from updatePrinterStatuses_keeps [OF p(1) this] False show ?thesis
        by (cases "updatePrinterStatuses us db") (simp add: PrinterStatus serveAgent_def printerStatusRoute_def)
    qed
  qed
next
  case (PullAck i printed err)
  then show ?thesis
    by (simp add: serveAgent_def ackRoute_def guarded_def respond_def printers_frame split: sum.splits)
next
  case (Claim cap limit seconds)
  then show ?thesis using claimRoute_fst [of e l now cap limit seconds db]
    by (auto simp: serveAgent_def claimJobs_printers)
next
  case (RenewLease i token seconds)
  then show ?thesis
    by (simp add: serveAgent_def renewRoute_def guarded_def respond_def printers_frame split: sum.splits)
next
  case (AckV2 inp)
  then show ?thesis
    by (simp add: serveAgent_def ackV2Route_def guarded_def respond_def printers_frame split: sum.splits)
qed

end
