(* ===== verification/PrintProps.thy ===== *)
theory PrintProps
  imports PrintRequests StockExample
begin

text \<open>The properties of the print queue, with a queue of one ticket as the running example.\<close>

section \<open>Example\<close>

definition pt_job :: print_job where
  "pt_job = \<lparr>pj_id = ''J1'', pj_orderId = ''O1'', pj_stationId = ''S1'', pj_printerId = None, pj_payload = JNull,
     pj_status = PJ_PENDING, pj_error = None, pj_retries = 0, pj_capability = ESC_POS_KOT, pj_documentType = None,
     pj_contentHash = None, pj_leaseToken = None, pj_leaseUntil = None, pj_reprintOfId = None, pj_createdAt = 1,
     pj_printedAt = None\<rparr>"

definition pt_with :: "print_job list \<Rightarrow> print_attempt list \<Rightarrow> print_db" where
  "pt_with jobs atts = \<lparr>db_warehouses = [], db_items = [], db_conversions = [], db_lots = [], db_balances = [],
     db_users = [], db_sessions = [], db_access = [],
     db_flags = [\<lparr>f_key = PRINTING_SPOOLING_FLAG, f_enabled = True, f_version = 1\<rparr>],
     db_openTopologyExceptions = 0, db_documents = [], db_postings = [], db_ledger = [], db_audit = [],
     db_outbox = [], db_ids = 0, pr_jobs = jobs, pr_attempts = atts,
     pr_stations = [\<lparr>st_id = ''S1'', st_locationId = ''L1'', st_name = ''Grill'', st_defaultPrinterId = None\<rparr>,
       \<lparr>st_id = ''S2'', st_locationId = ''L2'', st_name = ''Bar'', st_defaultPrinterId = None\<rparr>],
     pr_printers = [], pr_agents = [], pr_locations = [''L1'', ''L2'']\<rparr>"

lemma pt_simps [simp]:
  "pr_jobs (pt_with jobs atts) = jobs" "pr_attempts (pt_with jobs atts) = atts"
  "pr_stations (pt_with jobs atts) = [\<lparr>st_id = ''S1'', st_locationId = ''L1'', st_name = ''Grill'', st_defaultPrinterId = None\<rparr>,
     \<lparr>st_id = ''S2'', st_locationId = ''L2'', st_name = ''Bar'', st_defaultPrinterId = None\<rparr>]"
  "pt_with jobs atts\<lparr>pr_jobs := jobs'\<rparr> = pt_with jobs' atts"
  "pt_with jobs atts\<lparr>pr_attempts := atts', pr_jobs := jobs'\<rparr> = pt_with jobs' atts'"
  by (simp_all add: pt_with_def)

lemma pt_job_fields [simp]:
  "pj_id pt_job = ''J1''" "pj_stationId pt_job = ''S1''" "pj_status pt_job = PJ_PENDING" "pj_retries pt_job = 0"
  "pj_leaseToken pt_job = None" "pj_leaseUntil pt_job = None" "pj_createdAt pt_job = 1" "pj_contentHash pt_job = None"
  "pj_capability pt_job = ESC_POS_KOT"
  by (simp_all add: pt_job_def)

definition pt_ack :: "string \<Rightarrow> ack_result \<Rightarrow> ack_input" where
  "pt_ack token res = \<lparr>av_jobId = ''J1'', av_leaseToken = token, av_result = res, av_error = Some ''jam'',
     av_contentHash = None, av_agentId = None\<rparr>"

lemma pt_ack_fields [simp]:
  "av_jobId (pt_ack t r) = ''J1''" "av_leaseToken (pt_ack t r) = t" "av_result (pt_ack t r) = r"
  by (simp_all add: pt_ack_def)

definition pt_leased :: "string \<Rightarrow> nat \<Rightarrow> nat \<Rightarrow> print_job" where
  "pt_leased token until n = pt_job\<lparr>pj_leaseToken := Some token, pj_leaseUntil := Some until, pj_retries := n\<rparr>"

lemma pt_leased_fields [simp]:
  "pj_id (pt_leased t u n) = ''J1''" "pj_stationId (pt_leased t u n) = ''S1''" "pj_status (pt_leased t u n) = PJ_PENDING"
  "pj_retries (pt_leased t u n) = n" "pj_leaseToken (pt_leased t u n) = Some t" "pj_leaseUntil (pt_leased t u n) = Some u"
  "pj_contentHash (pt_leased t u n) = None" "pj_createdAt (pt_leased t u n) = 1"
  by (simp_all add: pt_leased_def)

lemma pt_claim: "claimRow now until token ''J1'' (pt_with [pt_job] atts) =
    (pt_with [pt_leased token until 0] atts, Some (pt_leased token until 0))"
  by (simp add: claimRow_def unleased_def update_where_def pt_leased_def pt_job_def)

lemma pt_acked:
  assumes "now < until" and "\<forall>a \<in> set atts. pa_attemptNo a \<noteq> n + 1"
  shows "ackJobV2 now (pt_ack token res) (pt_with [pt_leased token until n] atts) =
    (pt_with [acknowledged now (pt_ack token res) (n + 1) (pt_leased token until n)]
       (atts @ [attempt_row (pt_ack token res) (pt_leased token until n)]),
     Inr (acknowledged now (pt_ack token res) (n + 1) (pt_leased token until n)))"
  using assms by (auto simp: ackJobV2_def run_tx_def findJob_def pt_ack_def ackRefused_def unleased_def truthy_def update_where_def)

section \<open>Printed once\<close>

text \<open>C27: The history of a print job. However the statements of the lease protocol interleave, with
  agents folding leases from outdated reads, a job has exactly one attempt that printed if it is
  printed and none otherwise, a failed job has a failed attempt that was at least its third, and
  a resolved job is not changed by any later step.\<close>

theorem print_history:
  assumes "spool_reachable e db" and "spool_step e db db'" and "j \<in> set (pr_jobs db)"
  shows "length (attempts_of db (pj_id j) PA_PRINTED) = (if pj_status j = PJ_PRINTED then 1 else 0) \<and>
    (pj_status j = PJ_FAILED \<longrightarrow> (\<exists>a \<in> set (attempts_of db (pj_id j) PA_FAILED). MAX_PRINT_ATTEMPTS \<le> pa_attemptNo a)) \<and>
    (pj_status j \<noteq> PJ_PENDING \<longrightarrow> j \<in> set (pr_jobs db')) \<and>
    (\<exists>extra. pr_attempts db' = pr_attempts db @ extra)"
proof -
  have ok: "spool_ok db" using assms(1) by (rule spool_reachable_ok)
  then have "job_history db j" using assms(3) by (simp add: spool_ok_def)
  moreover have "history_kept db db'" using spool_step_safe [OF assms(2) ok] by simp
  ultimately show ?thesis using assms(3) by (auto simp: job_history_def history_kept_def)
qed

theorem print_history_witness:
  "length (attempts_of (pt_with [acknowledged 6 (pt_ack ''t'' ACK_PRINTED) 1 (pt_leased ''t'' 60000 0)]
     [attempt_row (pt_ack ''t'' ACK_PRINTED) (pt_leased ''t'' 60000 0)]) ''J1'' PA_PRINTED) = 1"
proof -
  have "spool_reachable ex_env (pt_with [pt_job] [])" by (rule spool_reachable.start) (simp_all add: jobs_keyed_def)
  then have "spool_reachable ex_env (fst (claimRow 5 60000 ''t'' ''J1'' (pt_with [pt_job] [])))"
    by (rule spool_reachable.step) (rule spool_step.claimed)
  then have "spool_reachable ex_env (pt_with [pt_leased ''t'' 60000 0] [])" by (simp add: pt_claim)
  then have "spool_reachable ex_env (fst (ackJobV2 6 (pt_ack ''t'' ACK_PRINTED) (pt_with [pt_leased ''t'' 60000 0] [])))"
    by (rule spool_reachable.step) (rule spool_step.acked)
  then have r: "spool_reachable ex_env (pt_with [acknowledged 6 (pt_ack ''t'' ACK_PRINTED) 1 (pt_leased ''t'' 60000 0)]
     [attempt_row (pt_ack ''t'' ACK_PRINTED) (pt_leased ''t'' 60000 0)])" by (simp add: pt_acked)
  show ?thesis
    using print_history [OF r spool_step.released [of ex_env _ "''J1''" "''t''"],
        of "acknowledged 6 (pt_ack ''t'' ACK_PRINTED) 1 (pt_leased ''t'' 60000 0)"]
    by (simp add: acknowledged_fields pt_ack_def)
qed

section \<open>Leases\<close>

text \<open>A lease is exclusive and temporary. While the lease of a claimed job lasts, no claim by
  anyone gets the job, whatever claims happen in between, and an acknowledgement with another token
  changes nothing; from the instant it ends the next claim gets the job.\<close>

theorem print_lease_exclusive:
  assumes "jobs_keyed db" and "claimRow now until token i db = (db1, Some j)"
    and "\<forall>(t, _, _, _) \<in> set claims. t < until"
    and "db2 = fold (\<lambda>(t, u, tok, k) s. fst (claimRow t u tok k s)) claims db1"
  shows "(if t < until then claimRow t u token' i db2 = (db2, None)
          else \<exists>db3 j'. claimRow t u token' i db2 = (db3, Some j') \<and> pj_leaseToken j' = Some token') \<and>
    (late \<noteq> token \<longrightarrow> ackAs late i outcome db1 = db1)"
  using print_queue.exclusive [OF assms(1-3)] print_queue.reclaimed [OF assms(1-3)]
    print_queue.late_resolution [OF assms(1,2)]
  unfolding assms(4) print_queue.claims_def by (simp add: not_less)

theorem print_lease_exclusive_witness:
  "claimRow 7 90000 ''u'' ''J1'' (pt_with [pt_leased ''t'' 60000 0] []) = (pt_with [pt_leased ''t'' 60000 0] [], None)"
proof -
  have "jobs_keyed (pt_with [pt_job] [])" by (simp add: jobs_keyed_def)
  from print_lease_exclusive [OF this pt_claim [where now = 5 and until = 60000 and token = "''t''" and atts = "[]"],
      where claims = "[(6, 70000, ''w'', ''J1'')]" and t = 7 and u = 90000 and token' = "''u''"] show ?thesis
    by (simp add: claimRow_def unleased_def)
qed


text \<open>C28: No ticket waits forever behind others. A claim at a location hands out the oldest job of the
  queue there: a pending job, free or with a lease that has run out, of the wanted capability and with an
  attempt left gets a lease of the wanted length, as one of its at most three attempts, as soon as it is
  older than the other pending, free jobs of that location and capability that have attempts left.
  Resolved jobs, leased jobs and the jobs of other locations do not count, however old they are.\<close>

theorem oldest_job_claimed:
  assumes "jobs_keyed db" and "j \<in> set (pr_jobs db)" and "stationLocation db (pj_stationId j) = Some l"
    and "pj_status j = PJ_PENDING \<and> unleased now j" and "cap = None \<or> cap = Some (pj_capability j)"
    and "pj_retries j + (if pj_leaseToken j = None then 0 else 1) < MAX_PRINT_ATTEMPTS"
    and "\<forall>k \<in> set (pr_jobs db). k \<noteq> j \<and> stationLocation db (pj_stationId k) = Some l \<and> pj_status k = PJ_PENDING \<and>
      unleased now k \<and> pj_retries k < MAX_PRINT_ATTEMPTS \<and> (cap = None \<or> cap = Some (pj_capability k)) \<longrightarrow>
      pj_createdAt j < pj_createdAt k"
  shows "\<exists>c \<in> set (snd (claimJobs e now l cap limit seconds db)). cj_id c = pj_id j \<and>
    cj_leaseUntil c = leaseExpiry now (clamp 10 300 (case seconds of None \<Rightarrow> DEFAULT_LEASE_SECONDS | Some s \<Rightarrow> s)) \<and>
    cj_attemptNo c \<le> MAX_PRINT_ATTEMPTS"
  by (rule claimJobs_oldest) (use assms in \<open>simp_all add: job_ready_def\<close>)

text \<open>Older than the free job \<open>J1\<close>: a printed job, a job of another outlet, a job that is leased to someone.\<close>

definition pt_queue :: "print_job list" where
  "pt_queue = [pt_job\<lparr>pj_id := ''J0'', pj_status := PJ_PRINTED, pj_createdAt := 0\<rparr>,
     pt_job\<lparr>pj_id := ''J2'', pj_stationId := ''S2'', pj_createdAt := 0\<rparr>,
     pt_job\<lparr>pj_id := ''J3'', pj_leaseToken := Some ''w'', pj_leaseUntil := Some 99000, pj_createdAt := 0\<rparr>,
     pt_leased ''t'' 60000 1, pt_job\<lparr>pj_id := ''J4'', pj_createdAt := 2\<rparr>]"

theorem oldest_job_claimed_witness:
  "\<exists>c \<in> set (snd (claimJobs ex_env 70000 ''L1'' None None None (pt_with pt_queue []))).
     cj_id c = ''J1'' \<and> cj_leaseUntil c = 130000"
proof -
  have "\<exists>c \<in> set (snd (claimJobs ex_env 70000 ''L1'' None None None (pt_with pt_queue []))).
      cj_id c = pj_id (pt_leased ''t'' 60000 1) \<and>
      cj_leaseUntil c = leaseExpiry 70000 (clamp 10 300 (case None of None \<Rightarrow> DEFAULT_LEASE_SECONDS | Some s \<Rightarrow> s)) \<and>
      cj_attemptNo c \<le> MAX_PRINT_ATTEMPTS"
    by (rule oldest_job_claimed)
      (simp_all add: pt_queue_def jobs_keyed_def stationLocation_def unleased_def MAX_PRINT_ATTEMPTS_def)
  then show ?thesis by (auto simp: leaseExpiry_def clamp_def DEFAULT_LEASE_SECONDS_def)
qed

text \<open>C40: Lapsed leases strand a job. When the third lease of a job runs out without an
  acknowledgement, the next claim at its location uses up its last attempt but does not fail it: the
  job stays pending, and no later claim at any location hands it out, whatever agents request in
  between. Only the older pull loop still sees it: \<open>listPendingJobs\<close> lists it at its location at any
  time, and its acknowledgement is the one request of an agent that can still change the job.\<close>

theorem lapsed_leases_strand_job:
  assumes keyed: "jobs_keyed db" and j: "j \<in> set (pr_jobs db)" "stationLocation db (pj_stationId j) = Some l"
    and lapsed: "pj_status j = PJ_PENDING" "pj_retries j = 2" "truthy (pj_leaseToken j) = Some token"
      "pj_leaseUntil j = Some until" "until \<le> now"
    and reqs: "\<forall>(l', now', req) \<in> set reqs. \<forall>printed err. req \<noteq> PullAck (pj_id j) printed err"
    and db2: "db2 = serveAgents e reqs (fst (claimJobs e now l cap limit seconds db))"
  shows "j\<lparr>pj_retries := 3, pj_leaseToken := None, pj_leaseUntil := None\<rparr> \<in> set (pr_jobs db2) \<and>
    pj_id j \<notin> cj_id ` set (snd (claimJobs e now l cap limit seconds db)) \<and>
    pj_id j \<notin> cj_id ` set (snd (claimJobs e now2 l2 cap2 limit2 seconds2 db2)) \<and>
    (\<exists>printer. (pj_id j, printer, pj_payload j) \<in> set (listPendingJobs now2 l db2))"
proof -
  let ?j = "j\<lparr>pj_retries := 3, pj_leaseToken := None, pj_leaseUntil := None\<rparr>"
  let ?db1 = "fst (claimJobs e now l cap limit seconds db)"
  have str: "stranded ?j" using lapsed(1) by (simp add: stranded_def MAX_PRINT_ATTEMPTS_def)
  have first: "?j \<in> set (pr_jobs ?db1) \<and> pj_id j \<notin> cj_id ` set (snd (claimJobs e now l cap limit seconds db))"
    using claimJobs_last_lease [OF keyed j lapsed] .
  have keyed1: "jobs_keyed ?db1" using spares_keyed [OF claimJobs_location [OF keyed]] keyed by simp
  have all: "jobs_keyed db2 \<and> ?j \<in> set (pr_jobs db2) \<and> stationLocation db2 = stationLocation ?db1"
    unfolding db2 by (rule serveAgents_stranded [OF keyed1 conjunct1 [OF first] str]) (use reqs in simp)
  have "stationLocation ?db1 = stationLocation db" by (rule spares_location [OF claimJobs_location [OF keyed]])
  then have "stationLocation db2 (pj_stationId ?j) = Some l" using all j(2) by simp
  then have "?j \<in> set (oldest_first (filter (\<lambda>j. pj_status j = PJ_PENDING \<and>
      stationLocation db2 (pj_stationId j) = Some l \<and> unleased now2 j) (pr_jobs db2)))"
    using all lapsed(1) by (simp add: oldest_first_def unleased_def)
  then have "\<exists>printer. (pj_id ?j, printer, pj_payload ?j) \<in> set (listPendingJobs now2 l db2)"
    unfolding listPendingJobs_def set_map by blast
  with claimJobs_stranded(2) [of db2 ?j] str first all show ?thesis by simp
qed

theorem lapsed_leases_strand_job_witness:
  "pt_job\<lparr>pj_retries := 3\<rparr> \<in> set (pr_jobs (fst (claimJobs ex_env 70000 ''L1'' None None None (pt_with [pt_leased ''t'' 60000 2] [])))) \<and>
   ''J1'' \<in> fst ` set (listPendingJobs 70001 ''L1'' (fst (claimJobs ex_env 70000 ''L1'' None None None (pt_with [pt_leased ''t'' 60000 2] []))))"
proof -
  let ?db = "pt_with [pt_leased ''t'' 60000 2] []"
  have "(pt_leased ''t'' 60000 2)\<lparr>pj_retries := 3, pj_leaseToken := None, pj_leaseUntil := None\<rparr>
      \<in> set (pr_jobs (serveAgents ex_env [] (fst (claimJobs ex_env 70000 ''L1'' None None None ?db)))) \<and>
      pj_id (pt_leased ''t'' 60000 2) \<notin> cj_id ` set (snd (claimJobs ex_env 70000 ''L1'' None None None ?db)) \<and>
      pj_id (pt_leased ''t'' 60000 2) \<notin> cj_id ` set (snd (claimJobs ex_env 70001 ''L2'' None None None
        (serveAgents ex_env [] (fst (claimJobs ex_env 70000 ''L1'' None None None ?db))))) \<and>
      (\<exists>printer. (pj_id (pt_leased ''t'' 60000 2), printer, pj_payload (pt_leased ''t'' 60000 2)) \<in>
        set (listPendingJobs 70001 ''L1'' (serveAgents ex_env [] (fst (claimJobs ex_env 70000 ''L1'' None None None ?db)))))"
    by (rule lapsed_leases_strand_job [of ?db _ "''L1''" "''t''" 60000])
      (simp_all add: jobs_keyed_def stationLocation_def truthy_def)
  moreover have "(pt_leased ''t'' 60000 2)\<lparr>pj_retries := 3, pj_leaseToken := None, pj_leaseUntil := None\<rparr> =
      pt_job\<lparr>pj_retries := 3\<rparr>" by (simp add: pt_leased_def pt_job_def)
  ultimately show ?thesis by (force simp: serveAgents_def)
qed

section \<open>Acknowledgements\<close>

lemma find_to_key:
  "k y = i \<Longrightarrow> List.find (\<lambda>r. k r = i) (update_where (\<lambda>r. k r = i) (\<lambda>_. y) rows) =
     map_option (\<lambda>r. if k r = i then y else r) (List.find (\<lambda>r. k r = i) rows)"
  by (induction rows) (auto simp: update_where_def)

text \<open>Repeating an acknowledgement. An accepted acknowledgement with a fresh token, repeated at any
  later time, changes nothing; it returns the job when the first one resolved it, but is refused when
  the first one was a failure that left the job pending for another attempt.\<close>

theorem ack_repeated:
  assumes "jobs_keyed db" and "ackJobV2 now inp db = (db1, Inr j)" and "now \<le> now'"
    and "\<forall>a \<in> set (pr_attempts db). \<not> (pa_jobId a = av_jobId inp \<and> pa_leaseToken a = av_leaseToken inp)"
  shows "ackJobV2 now' inp db1 = (db1, if pj_status j = PJ_PENDING then Inl PrintValidationError else Inr j)"
proof (cases rule: ack_cases [of now inp db])
  case (replayed k)
  have "List.find (\<lambda>a. pa_jobId a = pj_id k \<and> pa_leaseToken a = av_leaseToken inp) (pr_attempts db) = None"
    using assms(4) findJob_mem [OF replayed(1)] by (auto simp: find_None_iff)
  then have "ackJobV2 now inp db = (db, Inl PrintValidationError)"
    using replayed(1,2) by (simp add: ackJobV2_def run_tx_def)
  with assms(2) show ?thesis by simp
next
  case (resolved k)
  let ?k = "acknowledged now inp (pj_retries k + 1) k"
  have k: "k \<in> set (pr_jobs db)" "pj_id k = av_jobId inp" using findJob_mem [OF resolved(1)] by simp_all
  have "(db\<lparr>pr_attempts := pr_attempts db @ [attempt_row inp k],
      pr_jobs := update_where (\<lambda>r. pj_id r = pj_id k) (\<lambda>_. ?k) (pr_jobs db)\<rparr>, Inr ?k :: print_error + print_job) = (db1, Inr j)"
    using assms(2) unfolding resolved(5) .
  then have db1: "db1 = db\<lparr>pr_attempts := pr_attempts db @ [attempt_row inp k],
      pr_jobs := update_where (\<lambda>r. pj_id r = pj_id k) (\<lambda>_. ?k) (pr_jobs db)\<rparr>" and j: "j = ?k"
    by (rule Pair_inject, simp)+
  have found: "findJob db1 (av_jobId inp) = Some ?k"
    using resolved(1) k(2) unfolding findJob_def db1 by (simp add: find_to_key acknowledged_fields)
  have prior: "List.find (\<lambda>a. pa_jobId a = pj_id ?k \<and> pa_leaseToken a = av_leaseToken inp) (pr_attempts db1) =
      Some (attempt_row inp k)"
    using assms(4) k(2) by (simp add: db1 find_append acknowledged_fields find_None_iff [THEN iffD2] attempt_row_def)
  show ?thesis
  proof (cases "pj_status j = PJ_PENDING")
    case True
    then have "ackRefused now' inp ?k" by (simp add: ackRefused_def acknowledged_fields)
    with True show ?thesis by (simp add: ackJobV2_def run_tx_def found j)
  next
    case False
    with prior show ?thesis by (simp add: ackJobV2_def run_tx_def found j attempt_row_def)
  qed
qed (use assms(2) in simp)


theorem ack_repeated_witness:
  "ackJobV2 9 (pt_ack ''t'' ACK_FAILED) (fst (ackJobV2 6 (pt_ack ''t'' ACK_FAILED) (pt_with [pt_leased ''t'' 60000 0] []))) =
     (fst (ackJobV2 6 (pt_ack ''t'' ACK_FAILED) (pt_with [pt_leased ''t'' 60000 0] [])), Inl PrintValidationError)"
proof -
  have "jobs_keyed (pt_with [pt_leased ''t'' 60000 0] [])" by (simp add: jobs_keyed_def)
  from ack_repeated [OF this pt_acked [where now = 6 and until = 60000 and atts = "[]" and n = 0 and token = "''t''" and res = ACK_FAILED], of 9]
  show ?thesis by (simp add: pt_acked acknowledged_fields MAX_PRINT_ATTEMPTS_def)
qed

text \<open>A race that refuses the acknowledgement of a printed ticket. An agent claims a job whose lease
  has just run out; another agent, which had read the job before that claim, then records the lapsed
  lease. From then on, as long as nobody else touches the job, the first agent's acknowledgement of
  its live lease fails on the unique index of the attempts: the ticket is printed, but its job stays
  pending.\<close>

theorem fold_after_claim_refuses_ack:
  assumes "jobs_keyed db" and "findJob db i = Some j"
    and "pj_status j = PJ_PENDING" and "truthy (pj_leaseToken j) = Some old" and "pj_leaseUntil j = Some lapsed"
    and "lapsed \<le> now" and "claimRow now until token i db = (db1, Some j1)" and "token \<noteq> old"
    and "av_jobId inp = i" and "av_leaseToken inp = token" and "now' < until"
    and "av_result inp = ACK_PRINTED" and "pj_contentHash j = None"
  shows "ackJobV2 now' inp (recordExpiredLease now j db1) = (recordExpiredLease now j db1, Inl PrintUniqueViolation) \<and>
    findJob (recordExpiredLease now j db1) i = Some (j\<lparr>pj_leaseToken := Some token, pj_leaseUntil := Some until\<rparr>)"
proof -
  let ?j = "j\<lparr>pj_leaseToken := Some token, pj_leaseUntil := Some until\<rparr>"
  let ?db = "recordExpiredLease now j db1"
  have id: "pj_id j = i" using findJob_mem [OF assms(2)] by simp
  have "job_ready now j" using assms(3,5,6) by (simp add: job_ready_def unleased_def)
  from claimRow_hit [OF assms(2) this assms(1), of until token] assms(7)
  have row: "findJob db1 i = Some ?j" by auto
  have "pr_jobs ?db = update_where (\<lambda>r. pj_id r = i \<and> pj_leaseToken r = Some old)
      (\<lambda>r. r\<lparr>pj_retries := pj_retries j + 1, pj_leaseToken := None, pj_leaseUntil := None\<rparr>) (pr_jobs db1)"
    using assms(4-6) id by (simp add: recordExpiredLease_def Let_def)
  from findJob_update [OF _ this, of i] row assms(8) have found: "findJob ?db i = Some ?j" by simp
  have att: "\<exists>a \<in> set (pr_attempts ?db). pa_jobId a = i \<and> pa_attemptNo a = pj_retries j + 1"
    using assms(4-6) id by (auto simp: recordExpiredLease_def Let_def)
  have "\<not> ackRefused now' inp ?j"
    using assms(10-13) by (simp add: ackRefused_def unleased_def truthy_def)
  with found att assms(3,9) id show ?thesis by (simp add: ackJobV2_def run_tx_def)
qed

theorem fold_after_claim_refuses_ack_witness:
  "\<exists>db :: print_db. snd (ackJobV2 70001 (pt_ack ''u'' ACK_PRINTED) db) = Inl PrintUniqueViolation \<and>
     findJob db ''J1'' = Some (pt_leased ''u'' 130000 1)"
proof -
  let ?db = "pt_with [pt_leased ''t'' 60000 1] []"
  have claim: "claimRow 70000 130000 ''u'' ''J1'' ?db = (pt_with [pt_leased ''u'' 130000 1] [], Some (pt_leased ''u'' 130000 1))"
    by (simp add: claimRow_def unleased_def update_where_def pt_leased_def pt_job_def)
  have keyed: "jobs_keyed ?db" and found: "findJob ?db ''J1'' = Some (pt_leased ''t'' 60000 1)"
    by (simp_all add: jobs_keyed_def findJob_def)
  have "(pt_leased ''t'' 60000 1)\<lparr>pj_leaseToken := Some ''u'', pj_leaseUntil := Some 130000\<rparr> = pt_leased ''u'' 130000 1"
    by (simp add: pt_leased_def pt_job_def)
  with fold_after_claim_refuses_ack [OF keyed found _ _ _ _ claim, of "''t''" 60000 "pt_ack ''u'' ACK_PRINTED" 70001]
  show ?thesis by (auto simp: truthy_def intro!: exI [of _ "recordExpiredLease 70000 (pt_leased ''t'' 60000 1) (pt_with [pt_leased ''u'' 130000 1] [])"])
qed

section \<open>Outlets\<close>

text \<open>An agent stays in its outlet. Whatever an authenticated agent requests, a job whose station is
  at another location keeps its row, no printer that is not the default of a station at the agent's
  location first changes, and no station moves.\<close>

theorem agent_confined:
  assumes "jobs_keyed db" and "requireAgentToken sha256 h db = Some (agent, l)"
  shows "(\<forall>j \<in> set (pr_jobs db). stationLocation db (pj_stationId j) \<noteq> Some l \<longrightarrow>
      j \<in> set (pr_jobs (serveAgent e l now req db))) \<and>
    (\<forall>p \<in> set (pr_printers db). resolvePrinterLocationId db (pn_id p) \<noteq> Some l \<longrightarrow>
      p \<in> set (pr_printers (serveAgent e l now req db))) \<and>
    pr_stations (serveAgent e l now req db) = pr_stations db"
  using serve_location [OF assms(1), of l e now req] serve_printers [of db l e now req]
  by (auto simp: spares_def)

theorem agent_confined_witness:
  "pt_job \<in> set (pr_jobs (serveAgent ex_env ''L2'' 5 (PullAck ''J1'' True None)
     (pt_with [pt_job] []\<lparr>pr_agents := [\<lparr>ag_id = ''A1'', ag_locationId = ''L2'', ag_tokenHash = Some ''h'',
        ag_name = None, ag_lastSeen = None\<rparr>]\<rparr>)))"
proof -
  let ?db = "pt_with [pt_job] []\<lparr>pr_agents := [\<lparr>ag_id = ''A1'', ag_locationId = ''L2'', ag_tokenHash = Some ''h'',
        ag_name = None, ag_lastSeen = None\<rparr>]\<rparr>"
  have jobs: "pr_jobs ?db = [pt_job]" and st: "stationLocation ?db ''S1'' = Some ''L1''"
    by (simp_all add: pt_with_def stationLocation_def)
  then have keyed: "jobs_keyed ?db" by (simp add: jobs_keyed_def)
  have "requireAgentToken (\<lambda>s. s) (OneValue ''h'') ?db = Some (''A1'', ''L2'')"
    by (simp add: requireAgentToken_def singleHeaderValue_def truthy_def hashAgentToken_def)
  from agent_confined [OF keyed this] jobs st show ?thesis by simp
qed

end
