(* ===== verification/Outbound.thy ===== *)
theory Outbound
  imports Printing
begin

text \<open>
  The queue of commands to the delivery aggregators: \<open>src/modules/outbound/service.ts\<close> (enqueueing,
  control modes, disputes), \<open>policies.ts\<close>, \<open>types.ts\<close>, \<open>worker.ts\<close> (claim, send, resolve) and the
  tables of \<open>db/outbound-schema.ts\<close>. The adapter that talks to an aggregator is a parameter; what
  \<open>Date.parse\<close> accepts is the parameter \<open>date_ok\<close>. Error messages and details are left out.
\<close>

datatype command_type =
    ACCEPT_ORDER | REJECT_ORDER | MARK_READY | UPDATE_READY_TIME | PAUSE_STORE | RESUME_STORE
  | SET_ITEM_AVAILABILITY | NOTIFY_MENU_UPDATED | CONTEST_CANCELLATION

datatype command_status = OC_PENDING | OC_CLAIMED | OC_SENT | OC_FAILED | OC_DEAD

datatype control_mode = DEVICE | SHADOW | API

datatype order_status = OS_NEW | OS_PREPARING | OS_READY | OS_COMPLETED | OS_CANCELLED

datatype dispute_reason = SUSPECTED_FRAUD | ALREADY_PREPARED | RIDER_NO_SHOW | OTHER_DISPUTE

datatype dispute_status = OPEN | CONTESTED | RESOLVED_MERCHANT_FAVOR | RESOLVED_AGGREGATOR_FAVOR | DISPUTE_EXPIRED

datatype outbound_code = O_NOT_FOUND | O_VALIDATION | O_CONTROL_MODE | O_OUT_OF_ORDER | O_FEATURE_DISABLED | O_CONFLICT

datatype outbound_error = OutboundError outbound_code nat | OutboundUniqueViolation

datatype aggregator = FOODPANDA | GRABFOOD | OTHER

datatype mapping_status = RESOLVED | MAPPING_REQUIRED | MAPPING_DISABLED

record listing =
  aa_id :: string
  aa_brandId :: string
  aa_locationId :: "string option"
  aa_aggregator :: aggregator
  aa_channelId :: "string option"
  aa_externalMerchantId :: string
  aa_isActive :: bool
  aa_mappingStatus :: mapping_status
  aa_commissionRate :: "int option"
  aa_controlMode :: control_mode
  aa_apiMerchantId :: "string option"
  aa_acceptSlaSeconds :: "nat option"

record sales_order =
  so_id :: string
  so_brandId :: string
  so_locationId :: "string option"
  so_accountId :: string
  so_aggregator :: aggregator
  so_externalRef :: string
  so_orderCode :: "string option"
  so_customerName :: "string option"
  so_status :: order_status
  so_cancelReason :: "string option"
  so_total :: int
  so_placedAt :: nat
  so_prepAt :: "nat option"
  so_readyAt :: "nat option"
  so_completedAt :: "nat option"
  so_commissionRate :: "int option"
  so_marketingRate :: "int option"
  so_acceptDeadlineAt :: "nat option"

record command =
  cm_id :: string
  cm_accountId :: string
  cm_orderId :: "string option"
  cm_type :: command_type
  cm_payload :: json
  cm_key :: string
  cm_status :: command_status
  cm_attempts :: nat
  cm_nextAttemptAt :: "nat option"
  cm_leaseOwner :: "string option"
  cm_leaseUntil :: "nat option"
  cm_lastError :: "string option"
  cm_providerRef :: "string option"
  cm_createdBy :: "string option"
  cm_createdAt :: nat

record dispute =
  di_id :: string
  di_orderId :: string
  di_raisedBy :: "string option"
  di_reason :: dispute_reason
  di_status :: dispute_status
  di_commandId :: "string option"
  di_evidenceNote :: "string option"
  di_resolvedAt :: "nat option"
  di_resolutionNote :: "string option"
  di_createdAt :: nat

record option_group =
  og_id :: string
  og_brandId :: string

record outbound_db = print_db +
  ob_listings :: "listing list"
  ob_orders :: "sales_order list"
  ob_groups :: "option_group list"
  ob_commands :: "command list"
  ob_disputes :: "dispute list"

section \<open>Policies\<close>

definition OUTBOUND_COMMANDS_FLAG :: string where
  "OUTBOUND_COMMANDS_FLAG = ''integration.outbound_commands''"

definition MAX_SEND_ATTEMPTS :: nat where "MAX_SEND_ATTEMPTS = 3"

definition OUTBOUND_LEASE_SECONDS :: int where "OUTBOUND_LEASE_SECONDS = 60"

definition outboundBackoffMs :: "nat \<Rightarrow> nat" where
  "outboundBackoffMs attempts = (min attempts MAX_SEND_ATTEMPTS)\<^sup>2 * 1000"

definition ORDER_SCOPED_COMMAND_TYPES :: "command_type list" where
  "ORDER_SCOPED_COMMAND_TYPES = [ACCEPT_ORDER, REJECT_ORDER, MARK_READY, UPDATE_READY_TIME, CONTEST_CANCELLATION]"

definition LISTING_SCOPED_COMMAND_TYPES :: "command_type list" where
  "LISTING_SCOPED_COMMAND_TYPES = [PAUSE_STORE, RESUME_STORE, SET_ITEM_AVAILABILITY, NOTIFY_MENU_UPDATED]"

definition KITCHEN_CREW_ALLOWED_COMMAND_TYPES :: "command_type list" where
  "KITCHEN_CREW_ALLOWED_COMMAND_TYPES = [ACCEPT_ORDER, REJECT_ORDER, MARK_READY]"

definition SHADOW_MODE_ALLOWED_COMMAND_TYPES :: "command_type list" where
  "SHADOW_MODE_ALLOWED_COMMAND_TYPES = [NOTIFY_MENU_UPDATED]"

definition BLOCKED_AFTER_REJECT :: "command_type list" where
  "BLOCKED_AFTER_REJECT = [ACCEPT_ORDER, MARK_READY]"

definition REJECT_REASON_CODES :: "string list" where
  "REJECT_REASON_CODES = [''OUT_OF_STOCK'', ''KITCHEN_CLOSED'', ''TOO_BUSY'', ''CUSTOMER_REQUEST'',
     ''INCORRECT_ORDER'', ''OTHER'']"

section \<open>Guards\<close>

definition isOutboundEnabled :: "'z stock_db_scheme \<Rightarrow> bool" where
  "isOutboundEnabled db =
     (case List.find (\<lambda>f. f_key f = OUTBOUND_COMMANDS_FLAG) (db_flags db) of
        None \<Rightarrow> False | Some f \<Rightarrow> f_enabled f)"

definition assertControlModeAllows :: "listing \<Rightarrow> command_type \<Rightarrow> outbound_error + unit" where
  "assertControlModeAllows l t =
     ensure (aa_controlMode l = API \<or> (aa_controlMode l = SHADOW \<and> t \<in> set SHADOW_MODE_ALLOWED_COMMAND_TYPES))
       (OutboundError O_CONTROL_MODE 409)"

definition command_type_name :: "command_type \<Rightarrow> string" where
  "command_type_name t = (case t of
      ACCEPT_ORDER \<Rightarrow> ''ACCEPT_ORDER'' | REJECT_ORDER \<Rightarrow> ''REJECT_ORDER'' | MARK_READY \<Rightarrow> ''MARK_READY''
    | UPDATE_READY_TIME \<Rightarrow> ''UPDATE_READY_TIME'' | PAUSE_STORE \<Rightarrow> ''PAUSE_STORE''
    | RESUME_STORE \<Rightarrow> ''RESUME_STORE'' | SET_ITEM_AVAILABILITY \<Rightarrow> ''SET_ITEM_AVAILABILITY''
    | NOTIFY_MENU_UPDATED \<Rightarrow> ''NOTIFY_MENU_UPDATED'' | CONTEST_CANCELLATION \<Rightarrow> ''CONTEST_CANCELLATION'')"

definition buildStoredKey :: "string \<Rightarrow> string option \<Rightarrow> command_type \<Rightarrow> string \<Rightarrow> string" where
  "buildStoredKey account order t key =
     account @ '':'' @ (case order of None \<Rightarrow> ''L'' | Some i \<Rightarrow> i) @ '':'' @ command_type_name t @ '':'' @ key"

text \<open>An object's own field; any other payload counts as the empty object.\<close>

definition payload_field :: "json \<Rightarrow> string \<Rightarrow> json option" where
  "payload_field p k = (case p of JObj kvs \<Rightarrow> map_of kvs k | _ \<Rightarrow> None)"

definition o_invalid :: outbound_error where "o_invalid = OutboundError O_VALIDATION 400"

definition assertValidRejectReasonPayload :: "json \<Rightarrow> outbound_error + unit" where
  "assertValidRejectReasonPayload p =
     (case payload_field p ''reason_code'' of
        Some (JStr code) \<Rightarrow>
          if code \<notin> set REJECT_REASON_CODES then Inl o_invalid
          else if code = ''OTHER''
          then (case payload_field p ''note'' of
                  Some (JStr note) \<Rightarrow> ensure (trim note \<noteq> []) o_invalid
                | _ \<Rightarrow> Inl o_invalid)
          else Inr ()
      | _ \<Rightarrow> Inl o_invalid)"

definition assertValidItemAvailabilityPayload ::
  "(string \<Rightarrow> bool) \<Rightarrow> 'z outbound_db_scheme \<Rightarrow> listing \<Rightarrow> json \<Rightarrow> outbound_error + unit" where
  "assertValidItemAvailabilityPayload date_ok db l p =
     bindE (case payload_field p ''scope'' of
              None \<Rightarrow> Inr False
            | Some (JStr s) \<Rightarrow> if s = ''ITEM'' then Inr False else if s = ''OPTION_GROUP'' then Inr True else Inl o_invalid
            | Some _ \<Rightarrow> Inl o_invalid) (\<lambda>group.
     bindE (if group
            then (case payload_field p ''option_group_id'' of
                    Some (JStr i) \<Rightarrow>
                      if \<not> is_uuid i then Inl o_invalid
                      else (case List.find (\<lambda>g. og_id g = i) (ob_groups db) of
                              None \<Rightarrow> Inl (OutboundError O_NOT_FOUND 404)
                            | Some g \<Rightarrow> ensure (og_brandId g = aa_brandId l) (OutboundError O_NOT_FOUND 404))
                  | _ \<Rightarrow> Inl o_invalid)
            else ensure (payload_field p ''option_group_id'' = None) o_invalid) (\<lambda>_.
     case payload_field p ''unavailable_until'' of
       None \<Rightarrow> Inr ()
     | Some JNull \<Rightarrow> Inr ()
     | Some (JStr d) \<Rightarrow> ensure (date_ok d) o_invalid
     | Some _ \<Rightarrow> Inl o_invalid))"

section \<open>Enqueueing\<close>

record enqueue_input =
  eq_accountId :: string
  eq_orderId :: "string option"
  eq_type :: command_type
  eq_payload :: json
  eq_key :: string
  eq_actorUserId :: "string option"

definition findListing :: "'z outbound_db_scheme \<Rightarrow> string \<Rightarrow> listing option" where
  "findListing db i = List.find (\<lambda>l. aa_id l = i) (ob_listings db)"

definition findOrder :: "'z outbound_db_scheme \<Rightarrow> string \<Rightarrow> sales_order option" where
  "findOrder db i = List.find (\<lambda>x. so_id x = i) (ob_orders db)"

definition findCommandKey :: "'z outbound_db_scheme \<Rightarrow> string \<Rightarrow> command option" where
  "findCommandKey db k = List.find (\<lambda>c. cm_key c = k) (ob_commands db)"

definition checkPayload ::
  "(string \<Rightarrow> bool) \<Rightarrow> 'z outbound_db_scheme \<Rightarrow> listing \<Rightarrow> enqueue_input \<Rightarrow> outbound_error + unit" where
  "checkPayload date_ok db l inp =
     (if eq_type inp = REJECT_ORDER then assertValidRejectReasonPayload (eq_payload inp)
      else if eq_type inp = SET_ITEM_AVAILABILITY
      then assertValidItemAvailabilityPayload date_ok db l (eq_payload inp)
      else Inr ())"

definition checkScope :: "'z outbound_db_scheme \<Rightarrow> enqueue_input \<Rightarrow> outbound_error + unit" where
  "checkScope db inp =
     (if eq_type inp \<in> set ORDER_SCOPED_COMMAND_TYPES
      then (case truthy (eq_orderId inp) of
              None \<Rightarrow> Inl o_invalid
            | Some i \<Rightarrow>
                (case findOrder db i of
                   None \<Rightarrow> Inl (OutboundError O_NOT_FOUND 404)
                 | Some x \<Rightarrow> ensure (so_accountId x = eq_accountId inp) o_invalid))
      else ensure (\<not> (eq_type inp \<in> set LISTING_SCOPED_COMMAND_TYPES \<and> truthy (eq_orderId inp) \<noteq> None)) o_invalid)"

definition checkOutOfOrder :: "'z outbound_db_scheme \<Rightarrow> enqueue_input \<Rightarrow> outbound_error + unit" where
  "checkOutOfOrder db inp =
     ensure (\<not> (truthy (eq_orderId inp) \<noteq> None \<and> eq_type inp \<in> set BLOCKED_AFTER_REJECT \<and>
               (\<exists>c \<in> set (ob_commands db). cm_accountId c = eq_accountId inp \<and>
                  cm_orderId c = eq_orderId inp \<and> cm_type c = REJECT_ORDER)))
       (OutboundError O_OUT_OF_ORDER 409)"

definition enqueueGuards ::
  "(string \<Rightarrow> bool) \<Rightarrow> 'z outbound_db_scheme \<Rightarrow> enqueue_input \<Rightarrow> outbound_error + listing" where
  "enqueueGuards date_ok db inp =
     bindE (ensure (isOutboundEnabled db) (OutboundError O_FEATURE_DISABLED 503)) (\<lambda>_.
     bindE (case findListing db (eq_accountId inp) of
              None \<Rightarrow> Inl (OutboundError O_NOT_FOUND 404) | Some l \<Rightarrow> Inr l) (\<lambda>l.
     bindE (assertControlModeAllows l (eq_type inp)) (\<lambda>_.
     bindE (checkPayload date_ok db l inp) (\<lambda>_.
     bindE (checkScope db inp) (\<lambda>_.
     bindE (checkOutOfOrder db inp) (\<lambda>_. Inr l))))))"

definition new_command :: "string \<Rightarrow> nat \<Rightarrow> enqueue_input \<Rightarrow> command" where
  "new_command i now inp =
     \<lparr>cm_id = i, cm_accountId = eq_accountId inp, cm_orderId = eq_orderId inp, cm_type = eq_type inp,
      cm_payload = (if eq_payload inp = JNull then JObj [] else eq_payload inp),
      cm_key = buildStoredKey (eq_accountId inp) (eq_orderId inp) (eq_type inp) (eq_key inp),
      cm_status = OC_PENDING, cm_attempts = 0, cm_nextAttemptAt = None, cm_leaseOwner = None,
      cm_leaseUntil = None, cm_lastError = None, cm_providerRef = None,
      cm_createdBy = eq_actorUserId inp, cm_createdAt = now\<rparr>"

definition audit :: "string option \<Rightarrow> string option \<Rightarrow> string \<Rightarrow> string \<Rightarrow> string \<Rightarrow> 'z stock_db_scheme \<Rightarrow> 'z stock_db_scheme" where
  "audit actor loc action entity i db =
     db\<lparr>db_audit := db_audit db @ [\<lparr>a_actorUserId = actor, a_locationId = loc, a_action = action,
         a_entityType = entity, a_entityId = i\<rparr>]\<rparr>"

text \<open>The transaction: the row of the key, or a new one.\<close>

definition insertCommand ::
  "env \<Rightarrow> nat \<Rightarrow> listing \<Rightarrow> enqueue_input \<Rightarrow> 'z outbound_db_scheme \<Rightarrow>
   outbound_error + 'z outbound_db_scheme \<times> command" where
  "insertCommand e now l inp db =
     (let c = new_command (env_uuid e (db_ids db)) now inp
      in case findCommandKey db (cm_key c) of
           Some existing \<Rightarrow> Inr (db, existing)
         | None \<Rightarrow>
             if cm_id c \<in> cm_id ` set (ob_commands db) then Inl OutboundUniqueViolation
             else Inr (audit (eq_actorUserId inp) (aa_locationId l) ''aggregator_command.enqueued''
                         ''aggregator_command'' (cm_id c)
                         (db\<lparr>ob_commands := ob_commands db @ [c], db_ids := Suc (db_ids db)\<rparr>), c))"

text \<open>
  \<open>enqueueCommand\<close>. The guards read before the transaction: \<open>gap\<close> is what other requests do in
  between. After a unique violation the row of the key is looked up once more.
\<close>

definition enqueueCommand ::
  "env \<Rightarrow> (string \<Rightarrow> bool) \<Rightarrow> nat \<Rightarrow> ('z outbound_db_scheme \<Rightarrow> 'z outbound_db_scheme) \<Rightarrow> enqueue_input \<Rightarrow>
   'z outbound_db_scheme \<Rightarrow> 'z outbound_db_scheme \<times> (outbound_error + command)" where
  "enqueueCommand e date_ok now gap inp db =
     (case enqueueGuards date_ok db inp of
        Inl err \<Rightarrow> (db, Inl err)
      | Inr l \<Rightarrow>
          (case run_tx (insertCommand e now l inp) (gap db) of
             (db1, Inl err) \<Rightarrow>
               (if err = OutboundUniqueViolation
                then (case findCommandKey db1 (cm_key (new_command [] now inp)) of
                        Some c \<Rightarrow> (db1, Inr c) | None \<Rightarrow> (db1, Inl err))
                else (db1, Inl err))
           | (db1, Inr c) \<Rightarrow> (db1, Inr c)))"

text \<open>The hook of the order life cycle; \<open>ready\<close> tells the stage.\<close>

definition enqueueLifecycleCommand ::
  "env \<Rightarrow> (string \<Rightarrow> bool) \<Rightarrow> nat \<Rightarrow> ('z outbound_db_scheme \<Rightarrow> 'z outbound_db_scheme) \<Rightarrow>
   string \<Rightarrow> string option \<Rightarrow> bool \<Rightarrow> string option \<Rightarrow>
   'z outbound_db_scheme \<Rightarrow> 'z outbound_db_scheme \<times> (outbound_error + command option)" where
  "enqueueLifecycleCommand e date_ok now gap orderId accountId ready actor db =
     (case truthy accountId of
        None \<Rightarrow> (db, Inr None)
      | Some a \<Rightarrow>
          if \<not> isOutboundEnabled db then (db, Inr None)
          else (case findListing db a of
                  None \<Rightarrow> (db, Inr None)
                | Some l \<Rightarrow>
                    if aa_controlMode l \<noteq> API then (db, Inr None)
                    else (case enqueueCommand e date_ok now gap
                               \<lparr>eq_accountId = a, eq_orderId = Some orderId,
                                eq_type = (if ready then MARK_READY else ACCEPT_ORDER), eq_payload = JObj [],
                                eq_key = ''AUTO'', eq_actorUserId = actor\<rparr> db of
                            (db1, Inl err) \<Rightarrow> (db1, Inl err)
                          | (db1, Inr c) \<Rightarrow> (db1, Inr (Some c)))))"

definition updateControlMode ::
  "string \<Rightarrow> control_mode \<Rightarrow> string \<Rightarrow> 'z outbound_db_scheme \<Rightarrow> 'z outbound_db_scheme \<times> (outbound_error + listing)" where
  "updateControlMode accountId mode actor = run_tx (\<lambda>db.
     (case findListing db accountId of
        None \<Rightarrow> Inl (OutboundError O_NOT_FOUND 404)
      | Some l \<Rightarrow>
          if aa_controlMode l = mode then Inr (db, l)
          else Inr (audit (Some actor) (aa_locationId l) ''aggregator_account.control_mode_changed''
                      ''aggregator_account'' accountId
                      (db\<lparr>ob_listings := update_where (\<lambda>x. aa_id x = accountId)
                            (\<lambda>x. x\<lparr>aa_controlMode := mode\<rparr>) (ob_listings db)\<rparr>),
                    l\<lparr>aa_controlMode := mode\<rparr>)))"

end
