(* ===== verification/OutboundWorker.thy ===== *)
theory OutboundWorker
  imports Outbound
begin

text \<open>
  The worker of the outbound queue (\<open>worker.ts\<close>), the dispute workflow and the reads of
  \<open>service.ts\<close>. A call of the worker reads its clock once. The adapter maps a request to the result it
  returns, or to \<open>Inl\<close> of the message it throws.
\<close>

section \<open>Claim\<close>

definition command_ready :: "nat \<Rightarrow> command \<Rightarrow> bool" where
  "command_ready now c =
     (cm_status c = OC_PENDING \<and> (case cm_nextAttemptAt c of None \<Rightarrow> True | Some t \<Rightarrow> t \<le> now) \<or>
      cm_status c = OC_CLAIMED \<and> (case cm_leaseUntil c of None \<Rightarrow> False | Some t \<Rightarrow> t \<le> now))"

definition claimed_command :: "nat \<Rightarrow> string \<Rightarrow> command \<Rightarrow> command" where
  "claimed_command until leaseOwner c =
     c\<lparr>cm_status := OC_CLAIMED, cm_leaseOwner := Some leaseOwner, cm_leaseUntil := Some until\<rparr>"

definition claimOne ::
  "nat \<Rightarrow> nat \<Rightarrow> string \<Rightarrow> string \<Rightarrow> 'z outbound_db_scheme \<Rightarrow> 'z outbound_db_scheme \<times> command option" where
  "claimOne now until leaseOwner i db =
     (let hit = (\<lambda>c. cm_id c = i \<and> command_ready now c)
      in case List.find hit (ob_commands db) of
           None \<Rightarrow> (db, None)
         | Some c \<Rightarrow> (db\<lparr>ob_commands := update_where hit (claimed_command until leaseOwner) (ob_commands db)\<rparr>,
                      Some (claimed_command until leaseOwner c)))"

section \<open>Send\<close>

record command_request =
  cr_commandId :: string
  cr_type :: command_type
  cr_apiMerchantId :: "string option"
  cr_externalRef :: "string option"
  cr_payload :: json
  cr_attempt :: nat

datatype failure_kind = RETRYABLE | TERMINAL

datatype send_result = SendOk "string option" | SendFailed failure_kind string

datatype outcome = SENT | RETRIED | DEAD

definition commandRequest :: "'z outbound_db_scheme \<Rightarrow> command \<Rightarrow> command_request" where
  "commandRequest db c =
     \<lparr>cr_commandId = cm_id c, cr_type = cm_type c,
      cr_apiMerchantId = (case findListing db (cm_accountId c) of None \<Rightarrow> None | Some l \<Rightarrow> aa_apiMerchantId l),
      cr_externalRef = (case truthy (cm_orderId c) of
                          None \<Rightarrow> None
                        | Some i \<Rightarrow> map_option so_externalRef (findOrder db i)),
      cr_payload = cm_payload c, cr_attempt = cm_attempts c + 1\<rparr>"

type_synonym adapter = "command_request \<Rightarrow> string + send_result"

definition callAdapter :: "adapter \<Rightarrow> command_request \<Rightarrow> send_result" where
  "callAdapter adapter req = (case adapter req of Inr r \<Rightarrow> r | Inl msg \<Rightarrow> SendFailed RETRYABLE msg)"

text \<open>The conditional update after the send, and what \<open>sendOne\<close> returns whether or not it hit a row.\<close>

definition resolved_command :: "nat \<Rightarrow> command \<Rightarrow> send_result \<Rightarrow> command \<Rightarrow> command" where
  "resolved_command now c res r =
     (let attemptNo = cm_attempts c + 1
      in case res of
           SendOk ref \<Rightarrow>
             r\<lparr>cm_status := OC_SENT, cm_attempts := attemptNo, cm_providerRef := ref, cm_lastError := None,
               cm_nextAttemptAt := None, cm_leaseOwner := None, cm_leaseUntil := None\<rparr>
         | SendFailed kind msg \<Rightarrow>
             (let exhausted = (kind = TERMINAL \<or> attemptNo \<ge> MAX_SEND_ATTEMPTS)
              in r\<lparr>cm_status := (if exhausted then OC_DEAD else OC_PENDING), cm_attempts := attemptNo,
                   cm_lastError := Some msg,
                   cm_nextAttemptAt := (if exhausted then None else Some (now + outboundBackoffMs attemptNo)),
                   cm_leaseOwner := None, cm_leaseUntil := None\<rparr>))"

definition outcome_of :: "command \<Rightarrow> send_result \<Rightarrow> outcome" where
  "outcome_of c res =
     (case res of
        SendOk _ \<Rightarrow> SENT
      | SendFailed kind _ \<Rightarrow> if kind = TERMINAL \<or> cm_attempts c + 1 \<ge> MAX_SEND_ATTEMPTS then DEAD else RETRIED)"

definition resolveCommand ::
  "nat \<Rightarrow> string \<Rightarrow> command \<Rightarrow> send_result \<Rightarrow> 'z outbound_db_scheme \<Rightarrow> 'z outbound_db_scheme" where
  "resolveCommand now leaseOwner c res db =
     db\<lparr>ob_commands := update_where (\<lambda>r. cm_id r = cm_id c \<and> cm_leaseOwner r = Some leaseOwner)
         (resolved_command now c res) (ob_commands db)\<rparr>"

definition sendOne ::
  "adapter \<Rightarrow> nat \<Rightarrow> string \<Rightarrow> command \<Rightarrow> 'z outbound_db_scheme \<Rightarrow>
   'z outbound_db_scheme \<times> outcome" where
  "sendOne adapter now leaseOwner c db =
     (let res = callAdapter adapter (commandRequest db c)
      in (resolveCommand now leaseOwner c res db, outcome_of c res))"

record process_result =
  pc_claimed :: nat
  pc_sent :: nat
  pc_retried :: nat
  pc_dead :: nat

definition processOne ::
  "adapter \<Rightarrow> nat \<Rightarrow> nat \<Rightarrow> string \<Rightarrow> string \<Rightarrow>
   'z outbound_db_scheme \<times> process_result \<Rightarrow> 'z outbound_db_scheme \<times> process_result" where
  "processOne adapter now until leaseOwner i = (\<lambda>(db, n).
     case claimOne now until leaseOwner i db of
       (db1, None) \<Rightarrow> (db1, n)
     | (db1, Some c) \<Rightarrow>
         (case sendOne adapter now leaseOwner c db1 of
            (db2, SENT) \<Rightarrow> (db2, n\<lparr>pc_claimed := pc_claimed n + 1, pc_sent := pc_sent n + 1\<rparr>)
          | (db2, DEAD) \<Rightarrow> (db2, n\<lparr>pc_claimed := pc_claimed n + 1, pc_dead := pc_dead n + 1\<rparr>)
          | (db2, RETRIED) \<Rightarrow> (db2, n\<lparr>pc_claimed := pc_claimed n + 1, pc_retried := pc_retried n + 1\<rparr>)))"

definition clampTo :: "int \<Rightarrow> int \<Rightarrow> int \<Rightarrow> nat" where
  "clampTo lo hi x = nat (min (max x lo) hi)"

definition processCandidates :: "nat \<Rightarrow> nat \<Rightarrow> 'z outbound_db_scheme \<Rightarrow> string list" where
  "processCandidates now limit db =
     map cm_id (take limit (sort_by (\<lambda>x y. cm_createdAt x \<le> cm_createdAt y)
       (filter (command_ready now) (ob_commands db))))"

definition processCommands ::
  "adapter \<Rightarrow> nat \<Rightarrow> string \<Rightarrow> int option \<Rightarrow> int option \<Rightarrow>
   'z outbound_db_scheme \<Rightarrow> 'z outbound_db_scheme \<times> process_result" where
  "processCommands adapter now leaseOwner limit leaseSeconds db =
     (let lim = clampTo 1 50 (case limit of None \<Rightarrow> 10 | Some l \<Rightarrow> l);
          seconds = clampTo 5 300 (case leaseSeconds of None \<Rightarrow> OUTBOUND_LEASE_SECONDS | Some s \<Rightarrow> s)
      in fold (processOne adapter now (now + seconds * 1000) leaseOwner) (processCandidates now lim db)
           (db, \<lparr>pc_claimed = 0, pc_sent = 0, pc_retried = 0, pc_dead = 0\<rparr>))"

section \<open>Disputes\<close>

record dispute_input =
  dp_accountId :: string
  dp_orderId :: string
  dp_reason :: dispute_reason
  dp_evidenceNote :: "string option"
  dp_key :: string
  dp_actorUserId :: "string option"

definition dispute_reason_name :: "dispute_reason \<Rightarrow> string" where
  "dispute_reason_name r = (case r of
      SUSPECTED_FRAUD \<Rightarrow> ''SUSPECTED_FRAUD'' | ALREADY_PREPARED \<Rightarrow> ''ALREADY_PREPARED''
    | RIDER_NO_SHOW \<Rightarrow> ''RIDER_NO_SHOW'' | OTHER_DISPUTE \<Rightarrow> ''OTHER'')"

definition contest_input :: "dispute_input \<Rightarrow> enqueue_input" where
  "contest_input inp =
     \<lparr>eq_accountId = dp_accountId inp, eq_orderId = Some (dp_orderId inp), eq_type = CONTEST_CANCELLATION,
      eq_payload = JObj ((''dispute_reason'', JStr (dispute_reason_name (dp_reason inp))) #
        (case truthy (dp_evidenceNote inp) of None \<Rightarrow> [] | Some n \<Rightarrow> [(''evidence_note'', JStr n)])),
      eq_key = dp_key inp, eq_actorUserId = dp_actorUserId inp\<rparr>"

definition new_dispute :: "string \<Rightarrow> nat \<Rightarrow> dispute_input \<Rightarrow> string \<Rightarrow> dispute" where
  "new_dispute i now inp commandId =
     \<lparr>di_id = i, di_orderId = dp_orderId inp, di_raisedBy = dp_actorUserId inp, di_reason = dp_reason inp,
      di_status = OPEN, di_commandId = Some commandId, di_evidenceNote = dp_evidenceNote inp,
      di_resolvedAt = None, di_resolutionNote = None, di_createdAt = now\<rparr>"

definition insertDispute ::
  "env \<Rightarrow> nat \<Rightarrow> sales_order \<Rightarrow> dispute_input \<Rightarrow> string \<Rightarrow> 'z outbound_db_scheme \<Rightarrow>
   outbound_error + 'z outbound_db_scheme \<times> dispute" where
  "insertDispute e now x inp commandId db =
     (case List.find (\<lambda>d. di_commandId d = Some commandId) (ob_disputes db) of
        Some already \<Rightarrow> Inr (db, already)
      | None \<Rightarrow>
          let d = new_dispute (env_uuid e (db_ids db)) now inp commandId
          in if \<exists>y \<in> set (ob_disputes db). di_id y = di_id d \<or> di_orderId y = di_orderId d
             then Inl OutboundUniqueViolation
             else Inr (audit (dp_actorUserId inp) (so_locationId x) ''order_dispute.raised'' ''order_dispute'' (di_id d)
                         (db\<lparr>ob_disputes := ob_disputes db @ [d], db_ids := Suc (db_ids db)\<rparr>), d))"

definition contestableOrder :: "'z outbound_db_scheme \<Rightarrow> dispute_input \<Rightarrow> outbound_error + sales_order" where
  "contestableOrder db inp =
     bindE (case findOrder db (dp_orderId inp) of None \<Rightarrow> Inl (OutboundError O_NOT_FOUND 404) | Some x \<Rightarrow> Inr x) (\<lambda>x.
     bindE (ensure (so_accountId x = dp_accountId inp) o_invalid) (\<lambda>_.
     bindE (ensure (so_status x = OS_CANCELLED) o_invalid) (\<lambda>_. Inr x)))"

definition createDispute ::
  "env \<Rightarrow> (string \<Rightarrow> bool) \<Rightarrow> nat \<Rightarrow> ('z outbound_db_scheme \<Rightarrow> 'z outbound_db_scheme) \<Rightarrow>
   ('z outbound_db_scheme \<Rightarrow> 'z outbound_db_scheme) \<Rightarrow> dispute_input \<Rightarrow>
   'z outbound_db_scheme \<Rightarrow> 'z outbound_db_scheme \<times> (outbound_error + dispute)" where
  "createDispute e date_ok now gap1 gap2 inp db =
     (case contestableOrder db inp of
        Inl err \<Rightarrow> (db, Inl err)
      | Inr x \<Rightarrow>
          (case List.find (\<lambda>d. di_orderId d = dp_orderId inp) (ob_disputes db) of
             Some existing \<Rightarrow> (db, Inr existing)
           | None \<Rightarrow>
               (case enqueueCommand e date_ok now gap1 (contest_input inp) db of
                  (db1, Inl err) \<Rightarrow> (db1, Inl err)
                | (db1, Inr c) \<Rightarrow>
                    (case run_tx (insertDispute e now x inp (cm_id c)) (gap2 db1) of
                       (db2, Inr d) \<Rightarrow> (db2, Inr d)
                     | (db2, Inl err) \<Rightarrow>
                         (if err = OutboundUniqueViolation
                          then (case List.find (\<lambda>d. di_orderId d = dp_orderId inp) (ob_disputes db2) of
                                  Some d \<Rightarrow> (db2, Inr d) | None \<Rightarrow> (db2, Inl err))
                          else (db2, Inl err))))))"

definition resolveDispute ::
  "nat \<Rightarrow> string \<Rightarrow> dispute_status \<Rightarrow> string option \<Rightarrow> string option \<Rightarrow>
   'z outbound_db_scheme \<Rightarrow> 'z outbound_db_scheme \<times> (outbound_error + dispute)" where
  "resolveDispute now disputeId status note actor = run_tx (\<lambda>db.
     (case List.find (\<lambda>d. di_id d = disputeId) (ob_disputes db) of
        None \<Rightarrow> Inl (OutboundError O_NOT_FOUND 404)
      | Some d \<Rightarrow>
          let f = (\<lambda>y. y\<lparr>di_status := status,
                     di_resolutionNote := (case note of None \<Rightarrow> di_resolutionNote d | Some t \<Rightarrow> Some t),
                     di_resolvedAt := (if status \<noteq> CONTESTED then Some now else di_resolvedAt d)\<rparr>)
          in Inr (audit actor None ''order_dispute.resolved'' ''order_dispute'' disputeId
                    (db\<lparr>ob_disputes := update_where (\<lambda>y. di_id y = disputeId) f (ob_disputes db)\<rparr>), f d)))"

section \<open>Reads\<close>

definition page :: "nat \<Rightarrow> nat \<Rightarrow> 'a list \<Rightarrow> 'a list \<times> nat" where
  "page limit offset rows = (take limit (drop offset rows), length rows)"

definition listCommands ::
  "string option \<Rightarrow> command_status option \<Rightarrow> string list option \<Rightarrow> nat \<Rightarrow> nat \<Rightarrow> 'z outbound_db_scheme \<Rightarrow>
   command list \<times> nat" where
  "listCommands accountId status allowed limit offset db =
     page limit offset (sort_by (\<lambda>x y. cm_createdAt y \<le> cm_createdAt x) (filter (\<lambda>c.
       (case truthy accountId of None \<Rightarrow> True | Some a \<Rightarrow> cm_accountId c = a) \<and>
       (case status of None \<Rightarrow> True | Some s \<Rightarrow> cm_status c = s) \<and>
       (case allowed of None \<Rightarrow> True
        | Some ls \<Rightarrow> (\<exists>l \<in> set (ob_listings db). aa_id l = cm_accountId c \<and>
                       (case aa_locationId l of None \<Rightarrow> False | Some loc \<Rightarrow> loc \<in> set ls)))) (ob_commands db)))"

definition listDisputes ::
  "string option \<Rightarrow> dispute_status option \<Rightarrow> string list option \<Rightarrow> nat \<Rightarrow> nat \<Rightarrow> 'z outbound_db_scheme \<Rightarrow>
   dispute list \<times> nat" where
  "listDisputes accountId status allowed limit offset db =
     page limit offset (sort_by (\<lambda>x y. di_createdAt y \<le> di_createdAt x) (filter (\<lambda>d.
       (case findOrder db (di_orderId d) of
          None \<Rightarrow> False
        | Some x \<Rightarrow>
            (case truthy accountId of None \<Rightarrow> True | Some a \<Rightarrow> so_accountId x = a) \<and>
            (case status of None \<Rightarrow> True | Some s \<Rightarrow> di_status d = s) \<and>
            (case allowed of None \<Rightarrow> True
             | Some ls \<Rightarrow> (case so_locationId x of None \<Rightarrow> False | Some loc \<Rightarrow> loc \<in> set ls)))) (ob_disputes db)))"

end
