(* ===== verification/OutboundLaws.thy ===== *)
theory OutboundLaws
  imports OutboundWorker PostingFacts
begin

text \<open>
  The outbound queue under the contract of theory \<open>Lease\<close>, and what every request keeps of its table.
\<close>

definition findCommand :: "'z outbound_db_scheme \<Rightarrow> string \<Rightarrow> command option" where
  "findCommand db i = List.find (\<lambda>c. cm_id c = i) (ob_commands db)"

definition commands_keyed :: "'z outbound_db_scheme \<Rightarrow> bool" where
  "commands_keyed db \<longleftrightarrow> distinct (map cm_id (ob_commands db))"

lemma findCommand_mem: "findCommand db i = Some c \<Longrightarrow> c \<in> set (ob_commands db) \<and> cm_id c = i"
  by (auto simp: findCommand_def dest: find_Some_mem)

lemma findCommand_iff:
  "commands_keyed db \<Longrightarrow> findCommand db i = Some c \<longleftrightarrow> c \<in> set (ob_commands db) \<and> cm_id c = i"
  by (auto simp: findCommand_def commands_keyed_def find_distinct_key dest: find_Some_mem)

lemma commands_same: "commands_keyed db \<Longrightarrow> c \<in> set (ob_commands db) \<Longrightarrow> d \<in> set (ob_commands db) \<Longrightarrow>
    cm_id c = cm_id d \<Longrightarrow> c = d"
  unfolding commands_keyed_def by (metis distinct_map inj_onD)

lemma findCommand_update:
  assumes "\<And>r. cm_id (f r) = cm_id r" and "ob_commands db' = update_where p f (ob_commands db)"
  shows "findCommand db' i = map_option (\<lambda>r. if p r then f r else r) (findCommand db i)"
    and "commands_keyed db' = commands_keyed db"
proof -
  show "findCommand db' i = map_option (\<lambda>r. if p r then f r else r) (findCommand db i)"
    unfolding findCommand_def assms(2) by (rule find_update_where) (simp add: assms(1))
  show "commands_keyed db' = commands_keyed db" by (simp add: commands_keyed_def assms map_update_where)
qed

lemma claimed_command_fields [simp]:
  "cm_id (claimed_command u w c) = cm_id c" "cm_status (claimed_command u w c) = OC_CLAIMED"
  "cm_leaseOwner (claimed_command u w c) = Some w" "cm_leaseUntil (claimed_command u w c) = Some u"
  "cm_attempts (claimed_command u w c) = cm_attempts c" "cm_key (claimed_command u w c) = cm_key c"
  "cm_accountId (claimed_command u w c) = cm_accountId c" "cm_orderId (claimed_command u w c) = cm_orderId c"
  "cm_type (claimed_command u w c) = cm_type c" "cm_payload (claimed_command u w c) = cm_payload c"
  by (simp_all add: claimed_command_def)

lemma claimOne_cases:
  fixes db :: "'z outbound_db_scheme"
  obtains (busy) "claimOne now until w i db = (db, None)"
      "\<forall>c \<in> set (ob_commands db). \<not> (cm_id c = i \<and> command_ready now c)"
  | (taken) c where "c \<in> set (ob_commands db)" "cm_id c = i" "command_ready now c"
      "claimOne now until w i db = (db\<lparr>ob_commands := update_where (\<lambda>c. cm_id c = i \<and> command_ready now c)
         (claimed_command until w) (ob_commands db)\<rparr>, Some (claimed_command until w c))"
proof (cases "List.find (\<lambda>c. cm_id c = i \<and> command_ready now c) (ob_commands db)")
  case None
  then show thesis by (intro busy) (simp_all add: claimOne_def, simp add: find_None_iff)
next
  case (Some c)
  with find_Some_mem [OF Some] show thesis
    by (intro taken [of c]) (auto simp: claimOne_def Let_def)
qed

type_synonym send_outcome = "nat \<times> command \<times> send_result"

definition resolveAs :: "string \<Rightarrow> string \<Rightarrow> send_outcome \<Rightarrow> 'z outbound_db_scheme \<Rightarrow> 'z outbound_db_scheme" where
  "resolveAs w i out db = (case out of (now, c, res) \<Rightarrow> resolveCommand now w (c\<lparr>cm_id := i\<rparr>) res db)"

interpretation outbound_queue: leased_work commands_keyed findCommand command_ready cm_leaseOwner claimOne resolveAs
proof
  fix s :: "'z outbound_db_scheme" and i r now until who
  assume k: "commands_keyed s" and r: "findCommand s i = Some r" "command_ready now r"
  show "\<exists>s' r'. claimOne now until who i s = (s', Some r') \<and> findCommand s' i = Some r' \<and> cm_leaseOwner r' = Some who \<and>
      (\<forall>t. command_ready t r' = (until \<le> t))"
  proof (cases rule: claimOne_cases [of now until who i s])
    case busy
    with r findCommand_mem show ?thesis by blast
  next
    case (taken c)
    have "c = r" using taken(1,2) r(1) findCommand_iff [OF k] findCommand_mem commands_same [OF k] by metis
    with taken(4) r k show ?thesis
      by (auto simp: findCommand_update(1) [where p = "\<lambda>c. cm_id c = i \<and> command_ready now c" and f = "claimed_command until who"]
          command_ready_def dest: findCommand_mem)
  qed
next
  fix s :: "'z outbound_db_scheme" and i now until who
  assume k: "commands_keyed s" and "\<And>r. findCommand s i = Some r \<Longrightarrow> \<not> command_ready now r"
  then show "claimOne now until who i s = (s, None)"
    by (cases rule: claimOne_cases [of now until who i s]) (use findCommand_iff [OF k] in auto)
next
  fix s :: "'z outbound_db_scheme" and i j now until who
  assume k: "commands_keyed s"
  show "commands_keyed (fst (claimOne now until who i s))"
    by (cases rule: claimOne_cases [of now until who i s])
      (use k in \<open>simp_all add: findCommand_update(2) [where p = "\<lambda>c. cm_id c = i \<and> command_ready now c"
          and f = "claimed_command until who"]\<close>)
  show "findCommand (fst (claimOne now until who i s)) j = findCommand s j" if "j \<noteq> i"
  proof (cases rule: claimOne_cases [of now until who i s])
    case (taken c)
    have "findCommand (fst (claimOne now until who i s)) j =
        map_option (\<lambda>r. if cm_id r = i \<and> command_ready now r then claimed_command until who r else r) (findCommand s j)"
      by (rule findCommand_update(1)) (simp_all add: taken(4))
    with that show ?thesis by (cases "findCommand s j") (auto dest: findCommand_mem)
  qed simp
next
  fix s :: "'z outbound_db_scheme" and i who and out :: send_outcome
  assume k: "commands_keyed s" and foreign: "\<And>r. findCommand s i = Some r \<Longrightarrow> cm_leaseOwner r \<noteq> Some who"
  obtain now c res where out: "out = (now, c, res)" by (cases out)
  have "update_where (\<lambda>r. cm_id r = i \<and> cm_leaseOwner r = Some who) f (ob_commands s) = ob_commands s" for f
    by (rule update_where_none) (use foreign findCommand_iff [OF k] in blast)
  then show "resolveAs who i out s = s" by (simp add: resolveAs_def out resolveCommand_def)
qed


section \<open>The table of commands\<close>

definition command_ok :: "command \<Rightarrow> bool" where
  "command_ok c \<longleftrightarrow> cm_attempts c \<le> MAX_SEND_ATTEMPTS \<and>
     (cm_status c \<in> {OC_PENDING, OC_CLAIMED} \<longrightarrow> cm_attempts c < MAX_SEND_ATTEMPTS) \<and>
     (cm_status c \<notin> {OC_PENDING, OC_CLAIMED} \<longrightarrow> cm_status c \<in> {OC_SENT, OC_DEAD} \<and> cm_leaseOwner c = None) \<and>
     (\<exists>k. cm_key c = buildStoredKey (cm_accountId c) (cm_orderId c) (cm_type c) k)"

definition identity :: "command \<Rightarrow> string \<times> string \<times> string option \<times> command_type \<times> json \<times> string" where
  "identity c = (cm_id c, cm_accountId c, cm_orderId c, cm_type c, cm_payload c, cm_key c)"

definition queue_ok :: "'z outbound_db_scheme \<Rightarrow> bool" where
  "queue_ok db \<longleftrightarrow> commands_keyed db \<and> distinct (map cm_key (ob_commands db)) \<and> list_all command_ok (ob_commands db)"

text \<open>Every command stays with its identity, a sent or dead one as it is.\<close>

definition commands_kept :: "'z outbound_db_scheme \<Rightarrow> 'z outbound_db_scheme \<Rightarrow> bool" where
  "commands_kept db db' \<longleftrightarrow> (\<forall>c \<in> set (ob_commands db). \<exists>c' \<in> set (ob_commands db').
     identity c' = identity c \<and> (cm_status c \<in> {OC_SENT, OC_DEAD} \<longrightarrow> c' = c))"

lemma commands_kept_same: "ob_commands db' = ob_commands db \<Longrightarrow> commands_kept db db'"
  by (auto simp: commands_kept_def)

lemma queue_same: "ob_commands db' = ob_commands db \<Longrightarrow> queue_ok db' = queue_ok db"
  by (simp add: queue_ok_def commands_keyed_def)

lemma update_queue:
  fixes db :: "'z outbound_db_scheme"
  assumes ok: "queue_ok db" and jobs: "ob_commands db' = update_where p f (ob_commands db)"
    and f: "\<And>c. c \<in> set (ob_commands db) \<Longrightarrow> p c \<Longrightarrow> command_ok c \<Longrightarrow>
      command_ok (f c) \<and> identity (f c) = identity c \<and> cm_status c \<notin> {OC_SENT, OC_DEAD}"
  shows "queue_ok db' \<and> commands_kept db db'"
proof -
  have all: "command_ok c" if "c \<in> set (ob_commands db)" for c using ok that by (simp add: queue_ok_def list_all_iff)
  have same: "map identity (ob_commands db') = map identity (ob_commands db)"
    unfolding jobs update_where_def using f all by simp
  have ids: "map cm_id (ob_commands db') = map cm_id (ob_commands db)" "map cm_key (ob_commands db') = map cm_key (ob_commands db)"
    using arg_cong [OF same, of "map fst"] arg_cong [OF same, of "map (\<lambda>i. snd (snd (snd (snd (snd i)))))"]
    by (simp_all add: identity_def comp_def)
  have "list_all command_ok (ob_commands db')" unfolding jobs update_where_def using f all by (auto simp: list_all_iff)
  moreover have "commands_kept db db'" unfolding commands_kept_def jobs
  proof
    fix c assume c: "c \<in> set (ob_commands db)"
    then have "(if p c then f c else c) \<in> set (update_where p f (ob_commands db))" by (auto simp: update_where_def)
    then show "\<exists>c' \<in> set (update_where p f (ob_commands db)). identity c' = identity c \<and>
        (cm_status c \<in> {OC_SENT, OC_DEAD} \<longrightarrow> c' = c)"
      using f [OF c _ all [OF c]] by (intro bexI [of _ "if p c then f c else c"]) auto
  qed
  ultimately show ?thesis using ok ids by (simp add: queue_ok_def commands_keyed_def)
qed

lemma claim_queue:
  assumes ok: "queue_ok db" and claim: "claimOne now until w i db = (db', Some c)"
  shows "queue_ok db' \<and> commands_kept db db'" "cm_attempts c < MAX_SEND_ATTEMPTS"
proof -
  from claim show "queue_ok db' \<and> commands_kept db db'"
  proof (cases rule: claimOne_cases [of now until w i db])
    case (taken d)
    then have "db' = db\<lparr>ob_commands := update_where (\<lambda>c. cm_id c = i \<and> command_ready now c) (claimed_command until w) (ob_commands db)\<rparr>"
      using claim by simp
    then show ?thesis
      by (intro update_queue [OF ok, where p = "\<lambda>c. cm_id c = i \<and> command_ready now c" and f = "claimed_command until w"])
        (auto simp: command_ok_def identity_def command_ready_def)
  qed simp
  from claim show "cm_attempts c < MAX_SEND_ATTEMPTS"
  proof (cases rule: claimOne_cases [of now until w i db])
    case (taken d)
    then have "command_ok d" "cm_status d \<in> {OC_PENDING, OC_CLAIMED}" "c = claimed_command until w d"
      using ok claim by (auto simp: queue_ok_def list_all_iff command_ready_def)
    then show ?thesis by (auto simp: command_ok_def)
  qed simp
qed

lemma resolved_command_ok:
  assumes "cm_attempts c < MAX_SEND_ATTEMPTS" and "command_ok r"
  shows "command_ok (resolved_command now c res r)" "identity (resolved_command now c res r) = identity r"
  using assms by (auto simp: resolved_command_def command_ok_def identity_def Let_def split: send_result.splits)

lemma held_command_open: "command_ok r \<Longrightarrow> cm_leaseOwner r = Some w \<Longrightarrow> cm_status r \<notin> {OC_SENT, OC_DEAD}"
  by (auto simp: command_ok_def)

lemma resolve_queue:
  fixes db :: "'z outbound_db_scheme"
  assumes ok: "queue_ok db" and c: "cm_attempts c < MAX_SEND_ATTEMPTS"
  shows "queue_ok (resolveCommand now w c res db) \<and> commands_kept db (resolveCommand now w c res db)"
proof (rule update_queue [OF ok])
  show "ob_commands (resolveCommand now w c res db) =
      update_where (\<lambda>r. cm_id r = cm_id c \<and> cm_leaseOwner r = Some w) (resolved_command now c res) (ob_commands db)"
    by (simp add: resolveCommand_def)
qed (use resolved_command_ok [OF c] held_command_open in blast)

lemma insert_queue:
  fixes db :: "'z outbound_db_scheme"
  assumes ok: "queue_ok db" and ins: "insertCommand e now l inp db = Inr (db', c)"
  shows "queue_ok db' \<and> commands_kept db db'"
proof (cases "findCommandKey db (cm_key (new_command (env_uuid e (db_ids db)) now inp))")
  case (Some x)
  then have "db' = db" using ins by (simp add: insertCommand_def Let_def)
  with ok show ?thesis by (simp add: commands_kept_same)
next
  case None
  let ?c = "new_command (env_uuid e (db_ids db)) now inp"
  have rows: "ob_commands db' = ob_commands db @ [?c]" and new: "cm_id ?c \<notin> cm_id ` set (ob_commands db)"
    using ins None by (auto simp: insertCommand_def Let_def audit_def split: if_splits)
  have "cm_key ?c \<notin> cm_key ` set (ob_commands db)" using None by (auto simp: findCommandKey_def find_None_iff)
  moreover have "command_ok ?c" by (auto simp: command_ok_def new_command_def MAX_SEND_ATTEMPTS_def)
  ultimately have "queue_ok db'" using ok new by (auto simp: queue_ok_def commands_keyed_def rows)
  moreover have "commands_kept db db'" by (auto simp: commands_kept_def rows)
  ultimately show ?thesis ..
qed

text \<open>
  All requests as steps. A worker holds a claimed command in flight until it resolves it; it may also
  stop, or resolve it after its lease ran out. The guards of an enqueue may have read an earlier
  database.
\<close>

inductive outbound_step ::
  "env \<Rightarrow> (string \<Rightarrow> bool) \<Rightarrow> 'z outbound_db_scheme \<times> (string \<times> command) list \<Rightarrow>
   'z outbound_db_scheme \<times> (string \<times> command) list \<Rightarrow> bool" for e date_ok where
  enqueued: "enqueueGuards date_ok (seen :: 'z outbound_db_scheme) inp = Inr l \<Longrightarrow> insertCommand e now l inp db = Inr (db', c) \<Longrightarrow>
     outbound_step e date_ok (db, fs) (db', fs)"
| claimed: "claimOne now until w i db = (db', Some c) \<Longrightarrow> outbound_step e date_ok (db, fs) (db', (w, c) # fs)"
| resolved: "(w, c) \<in> set fs \<Longrightarrow> outbound_step e date_ok (db, fs) (resolveCommand now w c res db, fs)"
| mode: "updateControlMode a m actor db = (db', r) \<Longrightarrow> outbound_step e date_ok (db, fs) (db', fs)"
| disputed: "insertDispute e now x din i db = Inr (db', d) \<Longrightarrow> outbound_step e date_ok (db, fs) (db', fs)"
| dispute_resolved: "resolveDispute now i st remark actor db = (db', r') \<Longrightarrow> outbound_step e date_ok (db, fs) (db', fs)"

inductive outbound_reachable ::
  "env \<Rightarrow> (string \<Rightarrow> bool) \<Rightarrow> 'z outbound_db_scheme \<times> (string \<times> command) list \<Rightarrow> bool" for e date_ok where
  start: "ob_commands db = [] \<Longrightarrow> outbound_reachable e date_ok (db, [])"
| step: "outbound_reachable e date_ok w \<Longrightarrow> outbound_step e date_ok w w' \<Longrightarrow> outbound_reachable e date_ok w'"

definition outbound_ok :: "'z outbound_db_scheme \<times> (string \<times> command) list \<Rightarrow> bool" where
  "outbound_ok w \<longleftrightarrow> queue_ok (fst w) \<and> (\<forall>(o', c) \<in> set (snd w). cm_attempts c < MAX_SEND_ATTEMPTS)"

lemma other_tables:
  fixes db db' :: "'z outbound_db_scheme"
  shows "updateControlMode a m actor db = (db', r) \<Longrightarrow> ob_commands db' = ob_commands db"
    and "insertDispute e now x din i db = Inr (db', d) \<Longrightarrow> ob_commands db' = ob_commands db"
    and "resolveDispute now j st remark by' db = (db', r') \<Longrightarrow> ob_commands db' = ob_commands db"
proof -
  show "ob_commands db' = ob_commands db" if "updateControlMode a m actor db = (db', r)"
  proof (cases "findListing db a")
    case (Some l)
    with that show ?thesis by (cases "aa_controlMode l = m") (auto simp: updateControlMode_def run_tx_def audit_def)
  qed (use that in \<open>simp add: updateControlMode_def run_tx_def\<close>)
  show "ob_commands db' = ob_commands db" if "insertDispute e now x din i db = Inr (db', d)"
    using that by (auto simp: insertDispute_def audit_def Let_def split: option.splits if_splits)
  show "ob_commands db' = ob_commands db" if "resolveDispute now j st remark by' db = (db', r')"
  proof (cases "List.find (\<lambda>d. di_id d = j) (ob_disputes db)")
    case (Some d)
    with that show ?thesis by (simp add: resolveDispute_def run_tx_def audit_def Let_def) auto
  qed (use that in \<open>simp add: resolveDispute_def run_tx_def\<close>)
qed

lemma outbound_ok_same:
  "ob_commands db' = ob_commands db \<Longrightarrow> outbound_ok (db, fs) \<Longrightarrow> outbound_ok (db', fs) \<and> commands_kept db db'"
  using queue_same [of db' db] commands_kept_same [of db' db] by (simp add: outbound_ok_def)

lemma outbound_step_ok:
  assumes "outbound_step e date_ok w w'" and "outbound_ok w"
  shows "outbound_ok w' \<and> commands_kept (fst w) (fst w')"
  using assms
proof (cases rule: outbound_step.cases)
  case (enqueued seen inp l now db db' c fs)
  have ok: "queue_ok db" using assms(2) enqueued(1) by (simp add: outbound_ok_def)
  show ?thesis using insert_queue [OF ok enqueued(4)] assms(2) unfolding enqueued(1,2) outbound_ok_def by simp
next
  case (claimed now until w0 i db db' c fs)
  have ok: "queue_ok db" using assms(2) claimed(1) by (simp add: outbound_ok_def)
  show ?thesis using claim_queue [OF ok claimed(3)] assms(2) unfolding claimed(1,2) outbound_ok_def by simp
next
  case (resolved w0 c fs db now res)
  have ok: "queue_ok db" and c: "cm_attempts c < MAX_SEND_ATTEMPTS" using assms(2) resolved(1,3) by (auto simp: outbound_ok_def)
  show ?thesis using resolve_queue [OF ok c, of now w0 res] assms(2) unfolding resolved(1,2) outbound_ok_def by simp
next
  case (mode a m actor db db' r fs)
  show ?thesis using outbound_ok_same [OF other_tables(1) [OF mode(3)]] assms(2) unfolding mode(1,2) by simp
next
  case (disputed now x din i db db' d fs)
  show ?thesis using outbound_ok_same [OF other_tables(2) [OF disputed(3)]] assms(2) unfolding disputed(1,2) by simp
next
  case (dispute_resolved now i st remark actor db db' r' fs)
  show ?thesis using outbound_ok_same [OF other_tables(3) [OF dispute_resolved(3)]] assms(2) unfolding dispute_resolved(1,2) by simp
qed

lemma outbound_reachable_ok: "outbound_reachable e date_ok w \<Longrightarrow> outbound_ok w"
proof (induction rule: outbound_reachable.induct)
  case (start db)
  then show ?case by (simp add: outbound_ok_def queue_ok_def commands_keyed_def)
next
  case (step w w')
  then show ?case using outbound_step_ok by blast
qed

lemma commands_kept_trans:
  assumes "commands_kept a b" and "commands_kept b c"
  shows "commands_kept a c"
  unfolding commands_kept_def
proof
  fix x assume "x \<in> set (ob_commands a)"
  then obtain y where y: "y \<in> set (ob_commands b)" "identity y = identity x" "cm_status x \<in> {OC_SENT, OC_DEAD} \<longrightarrow> y = x"
    using assms(1) by (auto simp: commands_kept_def)
  then obtain z where "z \<in> set (ob_commands c)" "identity z = identity y" "cm_status y \<in> {OC_SENT, OC_DEAD} \<longrightarrow> z = y"
    using assms(2) by (auto simp: commands_kept_def)
  with y show "\<exists>z \<in> set (ob_commands c). identity z = identity x \<and> (cm_status x \<in> {OC_SENT, OC_DEAD} \<longrightarrow> z = x)" by auto
qed

lemma outbound_steps_kept:
  assumes "(outbound_step e date_ok)\<^sup>*\<^sup>* w w'" and "outbound_reachable e date_ok w"
  shows "outbound_reachable e date_ok w' \<and> commands_kept (fst w) (fst w')"
  using assms
proof (induction rule: rtranclp_induct)
  case base
  then show ?case by (simp add: commands_kept_same)
next
  case (step y z)
  then show ?case using outbound_step_ok [OF step(2)] outbound_reachable_ok commands_kept_trans
      outbound_reachable.step by blast
qed


section \<open>Enqueueing\<close>

definition key_of :: "enqueue_input \<Rightarrow> string" where
  "key_of inp = buildStoredKey (eq_accountId inp) (eq_orderId inp) (eq_type inp) (eq_key inp)"

lemma new_command_fields [simp]:
  "cm_id (new_command i now inp) = i" "cm_key (new_command i now inp) = key_of inp"
  "cm_type (new_command i now inp) = eq_type inp" "cm_orderId (new_command i now inp) = eq_orderId inp"
  "cm_accountId (new_command i now inp) = eq_accountId inp" "cm_status (new_command i now inp) = OC_PENDING"
  by (simp_all add: new_command_def key_of_def)

lemma audit_commands [simp]: "ob_commands (audit a l t k i db) = ob_commands db"
  by (simp add: audit_def)

lemma findCommandKey_mem: "findCommandKey db k = Some c \<Longrightarrow> c \<in> set (ob_commands db) \<and> cm_key c = k"
  by (auto simp: findCommandKey_def dest: find_Some_mem)

lemma findCommandKey_iff:
  "queue_ok db \<Longrightarrow> findCommandKey db k = Some c \<longleftrightarrow> c \<in> set (ob_commands db) \<and> cm_key c = k"
  by (auto simp: findCommandKey_def queue_ok_def find_distinct_key dest: find_Some_mem)

lemma insertCommand_cases:
  fixes db :: "'z outbound_db_scheme"
  obtains (replay) c where "findCommandKey db (key_of inp) = Some c" "insertCommand e now l inp db = Inr (db, c)"
  | (clash) "insertCommand e now l inp db = Inl OutboundUniqueViolation" "findCommandKey db (key_of inp) = None"
  | (new) db' where "findCommandKey db (key_of inp) = None"
      "insertCommand e now l inp db = Inr (db', new_command (env_uuid e (db_ids db)) now inp)"
      "ob_commands db' = ob_commands db @ [new_command (env_uuid e (db_ids db)) now inp]"
      "env_uuid e (db_ids db) \<notin> cm_id ` set (ob_commands db)"
proof (cases "findCommandKey db (key_of inp)")
  case None
  then show thesis
    by (cases "env_uuid e (db_ids db) \<in> cm_id ` set (ob_commands db)")
      (auto intro: clash new simp: insertCommand_def Let_def)
qed (auto intro: replay simp: insertCommand_def Let_def)

lemma enqueueCommand_cases:
  fixes db :: "'z outbound_db_scheme"
  obtains (refused) err where "enqueueCommand e date_ok now gap inp db = (db, Inl err)" "enqueueGuards date_ok db inp = Inl err"
  | (failed) l where "enqueueGuards date_ok db inp = Inr l"
      "enqueueCommand e date_ok now gap inp db = (gap db, Inl OutboundUniqueViolation)"
      "findCommandKey (gap db) (key_of inp) = None"
  | (replay) l c where "enqueueGuards date_ok db inp = Inr l" "findCommandKey (gap db) (key_of inp) = Some c"
      "enqueueCommand e date_ok now gap inp db = (gap db, Inr c)"
  | (new) l c db' where "enqueueGuards date_ok db inp = Inr l" "c = new_command (env_uuid e (db_ids (gap db))) now inp"
      "enqueueCommand e date_ok now gap inp db = (db', Inr c)" "findCommandKey (gap db) (key_of inp) = None"
      "ob_commands db' = ob_commands (gap db) @ [c]" "cm_id c \<notin> cm_id ` set (ob_commands (gap db))"
proof (cases "enqueueGuards date_ok db inp")
  case (Inl err)
  then show thesis by (intro refused) (simp_all add: enqueueCommand_def)
next
  case (Inr l)
  show thesis
  proof (cases rule: insertCommand_cases [of "gap db" inp e now l])
    case (replay c)
    with Inr that(3) show thesis by (simp add: enqueueCommand_def run_tx_def)
  next
    case clash
    with Inr that(2) show thesis by (simp add: enqueueCommand_def run_tx_def)
  next
    case (new db')
    with Inr that(4) show thesis by (simp add: enqueueCommand_def run_tx_def)
  qed
qed

lemma enqueue_inserted:
  "enqueueGuards date_ok db inp = Inr l \<Longrightarrow> insertCommand e now l inp (gap db) = Inr (db1, c) \<Longrightarrow>
   enqueueCommand e date_ok now gap inp db = (db1, Inr c)"
  by (simp add: enqueueCommand_def run_tx_def)

lemma enqueued_row:
  assumes "enqueueCommand e date_ok now gap inp db = (db1, Inr c)"
  shows "c \<in> set (ob_commands db1) \<and> cm_key c = key_of inp"
  by (cases rule: enqueueCommand_cases [of e date_ok now gap inp db]) (use assms findCommandKey_mem in auto)

lemma enqueue_keeps_row:
  assumes "enqueueCommand e date_ok now id inp db = (db1, r)" and "commands_keyed db" and "findCommand db i = Some a"
  shows "commands_keyed db1 \<and> findCommand db1 i = Some a"
proof (cases rule: enqueueCommand_cases [of e date_ok now id inp db])
  case (new l c db')
  then have db1: "ob_commands db1 = ob_commands db @ [c]" "cm_id c \<notin> cm_id ` set (ob_commands db)" using assms(1) by simp_all
  then have "commands_keyed db1" using assms(2) by (simp add: commands_keyed_def)
  with findCommand_iff [OF this] findCommand_mem [OF assms(3)] db1(1) show ?thesis by auto
qed (use assms in auto)


section \<open>One call of the worker\<close>

definition tally_ok :: "nat \<Rightarrow> process_result \<Rightarrow> bool" where
  "tally_ok k n \<longleftrightarrow> pc_claimed n = pc_sent n + pc_retried n + pc_dead n \<and> pc_claimed n \<le> k"

lemma processOne_tally:
  assumes "processOne adapter now until w i (db, n) = (db', n')" and "tally_ok k n"
  shows "tally_ok (Suc k) n'"
proof (cases rule: claimOne_cases [of now until w i db])
  case busy
  with assms show ?thesis by (simp add: processOne_def tally_ok_def)
next
  case (taken c)
  let ?c = "claimed_command until w c"
  obtain db1 where db1: "claimOne now until w i db = (db1, Some ?c)" using taken(4) by blast
  show ?thesis using assms db1
    by (cases "outcome_of ?c (callAdapter adapter (commandRequest db1 ?c))") (auto simp: processOne_def sendOne_def tally_ok_def Let_def)
qed

lemma processOne_queue:
  assumes "processOne adapter now until w i (db, n) = (db', n')" and "queue_ok db"
  shows "queue_ok db' \<and> commands_kept db db'"
proof (cases "claimOne now until w i db")
  case (Pair db1 r)
  show ?thesis
  proof (cases r)
    case None
    with Pair have "db1 = db" by (cases rule: claimOne_cases [of now until w i db]) auto
    with assms Pair None show ?thesis by (simp add: processOne_def commands_kept_same)
  next
    case (Some c)
    let ?db = "resolveCommand now w c (callAdapter adapter (commandRequest db1 c)) db1"
    have "db' = ?db"
      using assms(1) Pair Some
      by (cases "outcome_of c (callAdapter adapter (commandRequest db1 c))") (simp_all add: processOne_def sendOne_def Let_def)
    moreover have "queue_ok db1" "commands_kept db db1" "cm_attempts c < MAX_SEND_ATTEMPTS"
      using claim_queue [OF assms(2)] Pair Some by blast+
    ultimately show ?thesis using resolve_queue commands_kept_trans by blast
  qed
qed

lemma processOnes:
  assumes "fold (processOne adapter now until w) is (db, n) = (db', n')" and "queue_ok db" and "tally_ok k n"
  shows "queue_ok db' \<and> commands_kept db db' \<and> tally_ok (k + length is) n'"
  using assms
proof (induction "is" arbitrary: db n k)
  case (Cons i is')
  obtain db1 n1 where one: "processOne adapter now until w i (db, n) = (db1, n1)" by fastforce
  from Cons.IH [of db1 n1 "Suc k"] Cons.prems one processOne_queue [OF one] processOne_tally [OF one]
  have "queue_ok db' \<and> commands_kept db1 db' \<and> tally_ok (Suc k + length is') n'" by simp
  with processOne_queue [OF one Cons.prems(2)] commands_kept_trans show ?case by auto
qed (simp add: commands_kept_same)

end
