(* ===== verification/OutboundProps.thy ===== *)
theory OutboundProps
  imports OutboundLaws StockExample
begin

text \<open>The properties of the outbound queue, with one listing, one order and its commands as the example.\<close>

section \<open>Example\<close>

definition oc_listing :: listing where
  "oc_listing = \<lparr>aa_id = ''A'', aa_brandId = ''B'', aa_locationId = Some ''L'', aa_aggregator = GRABFOOD, aa_channelId = None,
     aa_externalMerchantId = ''M'', aa_isActive = True, aa_mappingStatus = RESOLVED, aa_commissionRate = None,
     aa_controlMode = API, aa_apiMerchantId = None, aa_acceptSlaSeconds = None\<rparr>"

definition oc_order :: sales_order where
  "oc_order = \<lparr>so_id = ''O'', so_brandId = ''B'', so_locationId = Some ''L'', so_accountId = ''A'', so_aggregator = GRABFOOD,
     so_externalRef = ''G1'', so_orderCode = None, so_customerName = None, so_status = OS_NEW, so_cancelReason = None,
     so_total = 0, so_placedAt = 1, so_prepAt = None, so_readyAt = None, so_completedAt = None, so_commissionRate = None,
     so_marketingRate = None, so_acceptDeadlineAt = None\<rparr>"

definition oc_with :: "command list \<Rightarrow> nat \<Rightarrow> outbound_db" where
  "oc_with cs ids = \<lparr>db_warehouses = [], db_items = [], db_conversions = [], db_lots = [], db_balances = [],
     db_users = [], db_sessions = [], db_access = [],
     db_flags = [\<lparr>f_key = OUTBOUND_COMMANDS_FLAG, f_enabled = True, f_version = 1\<rparr>],
     db_openTopologyExceptions = 0, db_documents = [], db_postings = [], db_ledger = [], db_audit = [],
     db_outbox = [], db_ids = ids, pr_jobs = [], pr_attempts = [], pr_stations = [], pr_printers = [],
     pr_agents = [], pr_locations = [],
     ob_listings = [oc_listing], ob_orders = [oc_order],
     ob_groups = [], ob_commands = cs, ob_disputes = []\<rparr>"

definition oc_input :: "command_type \<Rightarrow> json \<Rightarrow> enqueue_input" where
  "oc_input t p = \<lparr>eq_accountId = ''A'', eq_orderId = Some ''O'', eq_type = t, eq_payload = p, eq_key = ''K'',
     eq_actorUserId = None\<rparr>"

definition oc_busy :: json where
  "oc_busy = JObj [(''reason_code'', JStr ''TOO_BUSY'')]"

lemma oc_fields [simp]:
  "ob_commands (oc_with cs ids) = cs" "ob_listings (oc_with cs ids) = [oc_listing]"
  "ob_orders (oc_with cs ids) = [oc_order]" "db_ids (oc_with cs ids) = ids"
  "db_flags (oc_with cs ids) = [\<lparr>f_key = OUTBOUND_COMMANDS_FLAG, f_enabled = True, f_version = 1\<rparr>]"
  "oc_with cs ids\<lparr>ob_commands := cs'\<rparr> = oc_with cs' ids"
  by (simp_all add: oc_with_def)

lemma oc_input_fields [simp]:
  "eq_accountId (oc_input t p) = ''A''" "eq_orderId (oc_input t p) = Some ''O''" "eq_type (oc_input t p) = t"
  "eq_payload (oc_input t p) = p" "eq_key (oc_input t p) = ''K''"
  by (simp_all add: oc_input_def)

lemma oc_guards:
  assumes "t \<in> {ACCEPT_ORDER, MARK_READY} \<and> (\<forall>c \<in> set cs. cm_type c \<noteq> REJECT_ORDER) \<or> t = REJECT_ORDER \<and> p = oc_busy"
  shows "enqueueGuards ok (oc_with cs ids) (oc_input t p) = Inr oc_listing"
  using assms
  by (auto simp: enqueueGuards_def isOutboundEnabled_def findListing_def findOrder_def assertControlModeAllows_def
      checkPayload_def checkScope_def checkOutOfOrder_def ORDER_SCOPED_COMMAND_TYPES_def BLOCKED_AFTER_REJECT_def
      truthy_def oc_listing_def oc_order_def oc_busy_def assertValidRejectReasonPayload_def payload_field_def REJECT_REASON_CODES_def)

lemma oc_key: "key_of (oc_input t p) = ''A:O:'' @ command_type_name t @ '':K''"
  by (simp add: key_of_def buildStoredKey_def)

lemma oc_inserted:
  assumes "\<forall>c \<in> set cs. cm_id c \<noteq> env_uuid ex_env ids \<and> cm_key c \<noteq> key_of inp"
  shows "\<exists>db1. insertCommand ex_env now l inp (oc_with cs ids) = Inr (db1, new_command (env_uuid ex_env ids) now inp) \<and>
    ob_commands db1 = cs @ [new_command (env_uuid ex_env ids) now inp]"
proof -
  have "findCommandKey (oc_with cs ids) (key_of inp) = None" using assms by (auto simp: findCommandKey_def find_None_iff)
  with assms show ?thesis by (auto simp: insertCommand_def Let_def)
qed

definition oc_accept :: command where
  "oc_accept = new_command (env_uuid ex_env 0) 1 (oc_input ACCEPT_ORDER JNull)"

definition oc_reject :: "nat \<Rightarrow> command" where
  "oc_reject i = new_command (env_uuid ex_env i) 1 (oc_input REJECT_ORDER oc_busy)"

lemma oc_reachable:
  assumes "enqueueGuards (\<lambda>_. True) (oc_with [] 0) inp = Inr oc_listing"
  shows "\<exists>db1 :: outbound_db. outbound_reachable ex_env (\<lambda>_. True) (db1, []) \<and>
    ob_commands db1 = [new_command (env_uuid ex_env 0) 1 inp]"
proof -
  have "outbound_reachable ex_env (\<lambda>_. True) (oc_with [] 0, [])" by (rule outbound_reachable.start) simp
  moreover obtain db1 where db1: "insertCommand ex_env 1 oc_listing inp (oc_with [] 0) = Inr (db1, new_command (env_uuid ex_env 0) 1 inp)"
    "ob_commands db1 = [new_command (env_uuid ex_env 0) 1 inp]" using oc_inserted [of "[]" 0 inp 1 oc_listing] by auto
  moreover have "outbound_step ex_env (\<lambda>_. True) (oc_with [] 0, []) (db1, [])"
    by (rule outbound_step.enqueued [OF assms db1(1)])
  ultimately show ?thesis using outbound_reachable.step by blast
qed

section \<open>The history of a command\<close>

text \<open>The history of a command. In every state that requests and workers reach together, however
  their statements interleave and whatever workers that lost their lease still do, no two commands
  have the same idempotency key, no command counts more than three attempts, and one step changes
  neither what a command is (its id, listing, order, type, payload and key) nor anything about a
  command that was sent or is dead.\<close>

theorem commands_final:
  assumes "outbound_reachable e date_ok (db, flying)" and "outbound_step e date_ok (db, flying) (db', flying')"
    and "c \<in> set (ob_commands db)"
  shows "distinct (map cm_key (ob_commands db')) \<and> cm_attempts c \<le> MAX_SEND_ATTEMPTS \<and>
    (\<exists>c' \<in> set (ob_commands db'). identity c' = identity c \<and> (cm_status c \<in> {OC_SENT, OC_DEAD} \<longrightarrow> c' = c))"
proof -
  have ok: "outbound_ok (db, flying)" using assms(1) by (rule outbound_reachable_ok)
  from outbound_step_ok [OF assms(2) this] have "queue_ok db'" "commands_kept db db'" by (simp_all add: outbound_ok_def)
  with ok assms(3) show ?thesis
    by (auto simp: outbound_ok_def queue_ok_def command_ok_def list_all_iff commands_kept_def)
qed

theorem commands_final_witness:
  "\<exists>db :: outbound_db. ob_commands db = [oc_accept] \<and> cm_attempts oc_accept \<le> MAX_SEND_ATTEMPTS"
proof -
  obtain db1 :: outbound_db where db1: "outbound_reachable ex_env (\<lambda>_. True) (db1, [])" "ob_commands db1 = [oc_accept]"
    using oc_reachable [OF oc_guards] by (auto simp: oc_accept_def)
  obtain db2 r where "updateControlMode [] API [] db1 = (db2, r)" by fastforce
  from commands_final [OF db1(1) outbound_step.mode [OF this], of oc_accept] db1(2) show ?thesis by auto
qed

section \<open>Rejected orders\<close>

text \<open>C29: A rejection is the last word at the door. Once a rejection of an order was enqueued, then after
  any further requests and worker steps, whatever became of the rejection itself, enqueueing an
  acceptance or a ready notice for that order fails and changes nothing; unless an earlier guard
  refuses it, with the error that it is out of order.\<close>

theorem reject_blocks_enqueue:
  assumes "outbound_reachable e date_ok (db, flying)" and "(outbound_step e date_ok)\<^sup>*\<^sup>* (db, flying) (db', flying')"
    and "r \<in> set (ob_commands db)" and "cm_type r = REJECT_ORDER"
    and "cm_accountId r = eq_accountId inp" and "cm_orderId r = Some i" and "eq_orderId inp = Some i" and "i \<noteq> []"
    and "eq_type inp = ACCEPT_ORDER \<or> eq_type inp = MARK_READY"
  shows "\<exists>err. enqueueCommand e date_ok now gap inp db' = (db', Inl err) \<and>
    (isOutboundEnabled db' \<and> (\<exists>l. findListing db' (eq_accountId inp) = Some l \<and> aa_controlMode l = API) \<and>
     (\<exists>x. findOrder db' i = Some x \<and> so_accountId x = eq_accountId inp) \<longrightarrow>
     err = OutboundError O_OUT_OF_ORDER 409)"
proof -
  from outbound_steps_kept [OF assms(2,1)] assms(3) obtain r' where r': "r' \<in> set (ob_commands db')" "identity r' = identity r"
    by (auto simp: commands_kept_def)
  then have "checkOutOfOrder db' inp = Inl (OutboundError O_OUT_OF_ORDER 409)"
    using assms(4-9) by (auto simp: checkOutOfOrder_def ensure_def truthy_def BLOCKED_AFTER_REJECT_def identity_def)
  note late = this
  have "enqueueGuards date_ok db' inp \<noteq> Inr l" for l by (simp add: enqueueGuards_def late res_iff)
  then obtain err where "enqueueGuards date_ok db' inp = Inl err" by (cases "enqueueGuards date_ok db' inp") auto
  moreover have "enqueueGuards date_ok db' inp = Inl (OutboundError O_OUT_OF_ORDER 409)"
    if "isOutboundEnabled db'" "findListing db' (eq_accountId inp) = Some l" "aa_controlMode l = API"
      "findOrder db' i = Some x" "so_accountId x = eq_accountId inp" for l x
    using assms(7-9) late that
    by (auto simp: enqueueGuards_def assertControlModeAllows_def checkPayload_def checkScope_def
        ORDER_SCOPED_COMMAND_TYPES_def truthy_def)
  ultimately show ?thesis by (auto simp: enqueueCommand_def)
qed

theorem reject_blocks_enqueue_witness:
  "\<exists>db :: outbound_db. ob_commands db = [oc_reject 0] \<and>
     (\<exists>err. enqueueCommand ex_env (\<lambda>_. True) 9 id (oc_input ACCEPT_ORDER JNull) db = (db, Inl err))"
proof -
  obtain db1 :: outbound_db where db1: "outbound_reachable ex_env (\<lambda>_. True) (db1, [])" "ob_commands db1 = [oc_reject 0]"
    using oc_reachable [OF oc_guards] by (auto simp: oc_reject_def)
  have "\<exists>err. enqueueCommand ex_env (\<lambda>_. True) 9 id (oc_input ACCEPT_ORDER JNull) db1 = (db1, Inl err)"
    using reject_blocks_enqueue [OF db1(1) rtranclp.rtrancl_refl, of "oc_reject 0" "oc_input ACCEPT_ORDER JNull" "''O''" 9 id] db1(2)
    by (auto simp: oc_reject_def)
  with db1(2) show ?thesis by blast
qed

text \<open>A rejection does not stop what is already queued. If an acceptance of the order is waiting in
  the queue when its rejection is enqueued, a worker that then processes the acceptance still hands
  it to the adapter, and when the aggregator takes it the acceptance is marked as sent, although the
  rejection of the same order is in the table.\<close>

theorem queued_accept_survives_reject:
  assumes "commands_keyed db" and "findCommand db i = Some a" and "cm_type a = ACCEPT_ORDER" and "command_ready now a"
    and "enqueueCommand e date_ok now id rej db = (db1, Inr r)" and "eq_type rej = REJECT_ORDER"
    and "\<And>req. cr_commandId req = i \<Longrightarrow> cr_type req = ACCEPT_ORDER \<Longrightarrow> adapter req = Inr (SendOk ref)"
    and "processOne adapter now until w i (db1, n) = (db2, n')"
  shows "n' = n\<lparr>pc_claimed := pc_claimed n + 1, pc_sent := pc_sent n + 1\<rparr> \<and> r \<in> set (ob_commands db1) \<and>
    (\<exists>a'. findCommand db2 i = Some a' \<and> cm_type a' = ACCEPT_ORDER \<and> cm_orderId a' = cm_orderId a \<and> cm_status a' = OC_SENT)"
proof -
  have keyed: "commands_keyed db1" "findCommand db1 i = Some a" using enqueue_keeps_row [OF assms(5,1,2)] by auto
  then have a: "a \<in> set (ob_commands db1)" "cm_id a = i" by (auto dest: findCommand_mem)
  show ?thesis
  proof (cases rule: claimOne_cases [of now until w i db1])
    case busy
    with a assms(4) show ?thesis by blast
  next
    case (taken c)
    then have c: "c = a" using commands_same [OF keyed(1) taken(1) a(1)] a(2) by simp
    let ?db = "fst (claimOne now until w i db1)" and ?c = "claimed_command until w a"
    have row: "findCommand ?db i = Some ?c"
      by (simp add: taken(4) findCommand_update(1) [where p = "\<lambda>c. cm_id c = i \<and> command_ready now c" and f = "claimed_command until w"]
          keyed(2) a(2) assms(4))
    have res: "callAdapter adapter (commandRequest ?db ?c) = SendOk ref"
      by (simp add: callAdapter_def commandRequest_def assms(3,7) a(2))
    have step: "(db2, n') = (resolveCommand now w ?c (SendOk ref) ?db, n\<lparr>pc_claimed := pc_claimed n + 1, pc_sent := pc_sent n + 1\<rparr>)"
      using assms(8) res taken(4) c by (simp add: processOne_def sendOne_def outcome_of_def)
    have "findCommand (resolveCommand now w ?c (SendOk ref) ?db) i = Some (resolved_command now ?c (SendOk ref) ?c)"
      using row by (simp add: findCommand_update(1) [where p = "\<lambda>r. cm_id r = cm_id ?c \<and> cm_leaseOwner r = Some w"
            and f = "resolved_command now ?c (SendOk ref)"] resolveCommand_def resolved_command_def Let_def a(2))
    with step enqueued_row [OF assms(5)] show ?thesis by (simp add: resolved_command_def Let_def assms(3))
  qed
qed

theorem queued_accept_survives_reject_witness:
  "\<exists>db1 db2 :: outbound_db. snd (enqueueCommand ex_env (\<lambda>_. True) 2 id (oc_input REJECT_ORDER oc_busy) (oc_with [oc_accept] 1)) = Inr (new_command (env_uuid ex_env 1) 2 (oc_input REJECT_ORDER oc_busy)) \<and>
     (\<exists>a'. findCommand db2 [] = Some a' \<and> cm_type a' = ACCEPT_ORDER \<and> cm_status a' = OC_SENT)"
proof -
  let ?inp = "oc_input REJECT_ORDER oc_busy" and ?r = "new_command (env_uuid ex_env 1) 2 (oc_input REJECT_ORDER oc_busy)"
  have ids: "cm_id oc_accept = []" "env_uuid ex_env 1 = ''i''" by (simp_all add: oc_accept_def ex_env_def)
  obtain db1 where ins: "insertCommand ex_env 2 oc_listing ?inp (oc_with [oc_accept] 1) = Inr (db1, ?r)"
    using oc_inserted [of "[oc_accept]" 1 ?inp 2 oc_listing] ids by (auto simp: oc_accept_def oc_key command_type_name_def)
  have enq: "enqueueCommand ex_env (\<lambda>_. True) 2 id ?inp (oc_with [oc_accept] 1) = (db1, Inr ?r)"
    by (rule enqueue_inserted [OF oc_guards]) (simp, unfold id_apply, rule ins)
  obtain db2 n' where p: "processOne (\<lambda>_. Inr (SendOk None)) 2 9 ''w'' [] (db1, \<lparr>pc_claimed = 0, pc_sent = 0, pc_retried = 0, pc_dead = 0\<rparr>) = (db2, n')"
    by fastforce
  have "findCommand (oc_with [oc_accept] 1) [] = Some oc_accept" by (simp add: findCommand_def ids)
  moreover have "commands_keyed (oc_with [oc_accept] 1)" by (simp add: commands_keyed_def)
  moreover have "cm_type oc_accept = ACCEPT_ORDER" "command_ready 2 oc_accept"
    by (simp_all add: oc_accept_def command_ready_def new_command_def)
  ultimately have "\<exists>a'. findCommand db2 [] = Some a' \<and> cm_type a' = ACCEPT_ORDER \<and> cm_orderId a' = cm_orderId oc_accept \<and>
      cm_status a' = OC_SENT"
    using queued_accept_survives_reject [OF _ _ _ _ enq _ _ p, of oc_accept None] by simp
  with enq show ?thesis by (metis snd_conv)
qed

section \<open>Replays\<close>

text \<open>Enqueueing is idempotent. After a command was enqueued, an enqueue of the same listing, order,
  type and key that passes the guards, at any later time and whatever requests and worker steps ran
  in between or between its guards and its transaction, writes nothing and returns the row of the
  first, with the payload of the first whatever its own payload is.\<close>

theorem enqueue_idempotent:
  assumes "enqueueCommand e date_ok now gap inp db = (db1, Inr c)" and "outbound_reachable e date_ok (db1, flying)"
    and "(outbound_step e date_ok)\<^sup>*\<^sup>* (db1, flying) (gap' db2, flying')"
    and "eq_accountId inp' = eq_accountId inp" "eq_orderId inp' = eq_orderId inp" "eq_type inp' = eq_type inp"
      "eq_key inp' = eq_key inp"
    and "enqueueGuards date_ok db2 inp' = Inr l"
  shows "\<exists>c'. enqueueCommand e date_ok now' gap' inp' db2 = (gap' db2, Inr c') \<and> identity c' = identity c"
proof -
  from enqueued_row [OF assms(1)] have c: "c \<in> set (ob_commands db1)" "cm_key c = key_of inp" by auto
  from outbound_steps_kept [OF assms(3,2)] outbound_reachable_ok [of e date_ok "(gap' db2, flying')"]
  have ok: "queue_ok (gap' db2)" "commands_kept db1 (gap' db2)" by (simp_all add: outbound_ok_def)
  from ok(2) c obtain c' where c': "c' \<in> set (ob_commands (gap' db2))" "identity c' = identity c"
    by (auto simp: commands_kept_def)
  then have "findCommandKey (gap' db2) (key_of inp') = Some c'"
    using c(2) assms(4-7) by (simp add: findCommandKey_iff [OF ok(1)] identity_def key_of_def)
  with assms(8) c'(2) show ?thesis by (simp add: enqueueCommand_def run_tx_def insertCommand_def key_of_def Let_def)
qed

theorem enqueue_idempotent_witness:
  "\<exists>db1 :: outbound_db. \<exists>c. enqueueCommand ex_env (\<lambda>_. True) 1 id (oc_input ACCEPT_ORDER JNull) (oc_with [] 0) = (db1, Inr c) \<and>
     (\<exists>c'. enqueueCommand ex_env (\<lambda>_. True) 7 (\<lambda>_. db1) (oc_input ACCEPT_ORDER (JStr ''x'')) (oc_with [] 0) = (db1, Inr c') \<and>
       cm_payload c' = JObj [])"
proof -
  let ?inp = "oc_input ACCEPT_ORDER JNull" and ?c = "new_command (env_uuid ex_env 0) 1 (oc_input ACCEPT_ORDER JNull)"
  obtain db1 where ins: "insertCommand ex_env 1 oc_listing ?inp (oc_with [] 0) = Inr (db1, ?c)"
    using oc_inserted [of "[]" 0 ?inp 1 oc_listing] by auto
  have g: "enqueueGuards (\<lambda>_. True) (oc_with [] 0) (oc_input ACCEPT_ORDER p) = Inr oc_listing" for p by (simp add: oc_guards)
  have enq: "enqueueCommand ex_env (\<lambda>_. True) 1 id ?inp (oc_with [] 0) = (db1, Inr ?c)"
    by (rule enqueue_inserted [OF g], unfold id_apply, rule ins)
  have "outbound_reachable ex_env (\<lambda>_. True) (oc_with [] 0, [])" by (rule outbound_reachable.start) simp
  then have r: "outbound_reachable ex_env (\<lambda>_. True) (db1, [])"
    by (rule outbound_reachable.step) (rule outbound_step.enqueued [OF g [of JNull] ins])
  from enqueue_idempotent [where inp' = "oc_input ACCEPT_ORDER (JStr ''x'')" and now' = 7 and gap' = "\<lambda>_. db1" and
      ?db2.0 = "oc_with [] 0", OF enq r rtranclp.rtrancl_refl _ _ _ _ g]
  obtain c' where "enqueueCommand ex_env (\<lambda>_. True) 7 (\<lambda>_. db1) (oc_input ACCEPT_ORDER (JStr ''x'')) (oc_with [] 0) = (db1, Inr c')"
    "identity c' = identity ?c" by auto
  moreover from this have "cm_payload c' = JObj []" by (simp add: identity_def new_command_def)
  ultimately show ?thesis using enq by blast
qed

section \<open>Workers\<close>

text \<open>A worker's lease is exclusive and temporary. While the lease of a claimed command lasts, no
  claim by anyone gets the command, whatever claims happen in between, and the resolution of another
  worker changes nothing; from the instant it ends the next claim gets the command.\<close>

theorem command_lease_exclusive:
  assumes "commands_keyed db" and "claimOne now until w i db = (db1, Some c)"
    and "\<forall>(t, _, _, _) \<in> set claims. t < until"
    and "db2 = fold (\<lambda>(t, u, o', k) s. fst (claimOne t u o' k s)) claims db1"
  shows "(if t < until then claimOne t u w' i db2 = (db2, None)
          else \<exists>db3 c'. claimOne t u w' i db2 = (db3, Some c') \<and> cm_leaseOwner c' = Some w') \<and>
    (late \<noteq> w \<longrightarrow> resolveAs late i outcome db1 = db1)"
  using outbound_queue.exclusive [OF assms(1-3)] outbound_queue.reclaimed [OF assms(1-3)]
    outbound_queue.late_resolution [OF assms(1,2)]
  unfolding assms(4) outbound_queue.claims_def by (simp add: not_less)

theorem command_lease_exclusive_witness:
  "claimOne 7 90 ''v'' [] (oc_with [claimed_command 60 ''w'' oc_accept] 1) = (oc_with [claimed_command 60 ''w'' oc_accept] 1, None)"
proof -
  have fields: "cm_id oc_accept = []" "cm_status oc_accept = OC_PENDING" "cm_nextAttemptAt oc_accept = None"
    by (simp_all add: oc_accept_def new_command_def ex_env_def)
  have keyed: "commands_keyed (oc_with [oc_accept] 1)" by (simp add: commands_keyed_def)
  have claim: "claimOne 5 60 ''w'' [] (oc_with [oc_accept] 1) =
      (oc_with [claimed_command 60 ''w'' oc_accept] 1, Some (claimed_command 60 ''w'' oc_accept))"
    by (simp add: claimOne_def command_ready_def fields Let_def update_where_def)
  from command_lease_exclusive [OF keyed claim, where claims = "[]" and t = 7 and u = 90 and w' = "''v''"]
  show ?thesis by simp
qed

text \<open>A call of the worker, whatever the adapter answers, keeps the table well formed and the
  commands in it, claims at most the wanted number of commands and never more than fifty, and counts
  each of them once, as sent, queued again or dead.\<close>

theorem worker_tally:
  assumes "queue_ok db" and "processCommands adapter now w limit seconds db = (db', n)"
  shows "queue_ok db' \<and> commands_kept db db' \<and> pc_claimed n = pc_sent n + pc_retried n + pc_dead n \<and>
    pc_claimed n \<le> 50 \<and> (\<forall>l. limit = Some l \<longrightarrow> 1 \<le> l \<longrightarrow> int (pc_claimed n) \<le> l)"
proof -
  let ?lim = "clampTo 1 50 (case limit of None \<Rightarrow> 10 | Some l \<Rightarrow> l)"
  have "tally_ok 0 \<lparr>pc_claimed = 0, pc_sent = 0, pc_retried = 0, pc_dead = 0\<rparr>" by (simp add: tally_ok_def)
  from processOnes [OF assms(2) [unfolded processCommands_def Let_def] assms(1) this]
  have "queue_ok db' \<and> commands_kept db db' \<and> tally_ok (length (processCandidates now ?lim db)) n" by simp
  moreover have "length (processCandidates now ?lim db) \<le> ?lim" by (simp add: processCandidates_def)
  moreover have "?lim \<le> 50" by (simp add: clampTo_def)
  moreover have "int ?lim \<le> l" if "limit = Some l" "1 \<le> l" for l using that by (simp add: clampTo_def)
  ultimately show ?thesis by (auto simp: tally_ok_def)
qed

theorem worker_tally_witness:
  "\<exists>db' n. processCommands (\<lambda>_. Inl ''down'') 5 ''w'' (Some 3) None (oc_with [oc_accept] 1) = (db', n) \<and> pc_claimed n \<le> 3"
proof -
  obtain db' n where p: "processCommands (\<lambda>_. Inl ''down'') 5 ''w'' (Some 3) None (oc_with [oc_accept] 1) = (db', n)"
    by fastforce
  have "queue_ok (oc_with [oc_accept] 1)"
    by (auto simp: queue_ok_def commands_keyed_def command_ok_def oc_accept_def new_command_def MAX_SEND_ATTEMPTS_def)
  from worker_tally [OF this p] p show ?thesis by auto
qed

end
