(* ===== verification/JsNumber.thy ===== *)
theory JsNumber
  imports Prelude "HOL-Library.Log_Nat"
begin

text \<open>
  JavaScript numbers: IEEE doubles as rationals. \<open>fl\<close> rounds to the nearest double, ties to even, below
  the overflow threshold (all numbers of the program are far below it); \<open>shortest\<close> is the value of the
  text \<open>String(x)\<close> prints, the decimal with the fewest digits that reads back as \<open>x\<close>. The driver reads
  a \<open>numeric\<close> column as text and the code applies \<open>Number\<close> to it; it writes \<open>String(x)\<close>, which the
  database rounds to the scale of the column, half away from zero.
\<close>

section \<open>Rounding to a double\<close>

definition round_even :: "rat \<Rightarrow> int" where
  "round_even y =
     (let f = \<lfloor>y\<rfloor>; d = y - of_int f
      in if d < 1 / 2 then f else if 1 / 2 < d then f + 1 else if even f then f else f + 1)"

text \<open>The binary exponent of a positive number.\<close>

definition exponent :: "rat \<Rightarrow> int" where
  "exponent x =
     (case quotient_of x of (p, q) \<Rightarrow>
        let k = bitlen p - bitlen q in if 2 powi k \<le> x then k else k - 1)"

definition fl :: "rat \<Rightarrow> rat" where
  "fl x =
     (if x = 0 then 0
      else let u = 2 powi (max (exponent \<bar>x\<bar>) (-1022) - 52)
           in sgn x * (of_int (round_even (\<bar>x\<bar> / u)) * u))"

text \<open>The value of \<open>String(x)\<close>: the largest power of ten of which a multiple reads back as \<open>x\<close>.\<close>

definition reads_back :: "rat \<Rightarrow> int \<Rightarrow> rat option" where
  "reads_back x j =
     (let y = x / 10 powi j; f = \<lfloor>y\<rfloor>;
          ok = (\<lambda>s. fl (of_int s * 10 powi j) = x)
      in if ok f \<and> ok (f + 1) then Some (of_int (round_even y) * 10 powi j)
         else if ok f then Some (of_int f * 10 powi j)
         else if ok (f + 1) then Some (of_int (f + 1) * 10 powi j)
         else None)"

definition shortest :: "rat \<Rightarrow> rat" where
  "shortest x =
     (if x = 0 then 0
      else let j = (exponent \<bar>x\<bar> + 1) * 30103 div 100000 + 1
           in case List.find (\<lambda>d. d \<noteq> None) (map (\<lambda>i. reads_back x (j - int i)) [0..<20]) of
                Some (Some d) \<Rightarrow> d | _ \<Rightarrow> x)"

text \<open>A \<open>numeric\<close> with \<open>k\<close> decimals.\<close>

definition round_away :: "rat \<Rightarrow> int" where
  "round_away y = (if 0 \<le> y then \<lfloor>y + 1 / 2\<rfloor> else - \<lfloor>- y + 1 / 2\<rfloor>)"

definition to_scale :: "nat \<Rightarrow> rat \<Rightarrow> int" where
  "to_scale k x = round_away (x * 10 ^ k)"

definition of_scale :: "nat \<Rightarrow> int \<Rightarrow> rat" where
  "of_scale k m = fl (of_int m / 10 ^ k)"

text \<open>\<open>x.toFixed(k)\<close> of a number that is not negative: the larger of two equally near values.\<close>

definition to_fixed :: "nat \<Rightarrow> rat \<Rightarrow> int" where
  "to_fixed k x = \<lfloor>x * 10 ^ k + 1 / 2\<rfloor>"


section \<open>Bounds\<close>

lemma round_even_bound: "\<bar>of_int (round_even y) - y\<bar> \<le> 1 / 2"
proof -
  have "of_int \<lfloor>y\<rfloor> \<le> y" "y < of_int \<lfloor>y\<rfloor> + 1" by (rule of_int_floor_le, linarith)
  then show ?thesis by (auto simp: round_even_def Let_def)
qed

lemma exponent_bounds:
  assumes "0 < x"
  shows "2 powi exponent x \<le> x" "x < 2 powi (exponent x + 1)"
proof -
  obtain p q where pq: "quotient_of x = (p, q)" by fastforce
  then have q: "0 < q" and x: "x = of_int p / of_int q" by (auto dest: quotient_of_denom_pos quotient_of_div)
  with assms have p: "0 < p" by (simp add: zero_less_divide_iff)
  define k where "k = bitlen p - bitlen q"
  have len: "2 powi (bitlen a - 1) \<le> (of_int a :: rat)" "(of_int a :: rat) < 2 powi bitlen a" if "0 < a" for a
  proof -
    have "1 \<le> bitlen a" using bitlen_eq_zero_iff [of a] bitlen_nonneg [of a] that by linarith
    then have "(2::rat) powi (bitlen a - 1) = of_int (2 ^ nat (bitlen a - 1))" "(2::rat) powi bitlen a = of_int (2 ^ nat (bitlen a))"
      by (simp_all add: power_int_def)
    moreover have "2 ^ nat (bitlen a - 1) \<le> a" "a < 2 ^ nat (bitlen a)" using bitlen_bounds [OF that] by simp_all
    ultimately show "2 powi (bitlen a - 1) \<le> (of_int a :: rat)" "(of_int a :: rat) < 2 powi bitlen a"
      by (simp_all only: of_int_le_iff of_int_less_iff)
  qed
  have split: "2 powi (bitlen p - 1) = 2 powi (k - 1) * (2::rat) powi bitlen q" "2 powi bitlen p = 2 powi (k + 1) * (2::rat) powi (bitlen q - 1)"
    by (simp_all add: k_def flip: power_int_add)
  have q': "(0::rat) < of_int q" using q by simp
  have low: "2 powi (k - 1) \<le> x"
  proof -
    have "2 powi (k - 1) * of_int q \<le> 2 powi (k - 1) * (2::rat) powi bitlen q" using len(2) [OF q] by (intro mult_left_mono) simp_all
    also have "\<dots> \<le> of_int p" using len(1) [OF p] split(1) by simp
    finally show ?thesis using q' by (simp add: x pos_le_divide_eq)
  qed
  have high: "x < 2 powi (k + 1)"
  proof -
    have "of_int p < 2 powi (k + 1) * (2::rat) powi (bitlen q - 1)" using len(2) [OF p] split(2) by simp
    also have "\<dots> \<le> 2 powi (k + 1) * of_int q" using len(1) [OF q] by (intro mult_left_mono) simp_all
    finally show ?thesis using q' by (simp add: x pos_divide_less_eq)
  qed
  have e: "exponent x = (if 2 powi k \<le> x then k else k - 1)" by (simp add: exponent_def pq k_def)
  show "2 powi exponent x \<le> x" "x < 2 powi (exponent x + 1)" using low high by (simp_all add: e)
qed

definition tiny :: rat where "tiny = 2 powi (-1022)"

lemma fl_zero [simp]: "fl 0 = 0"
  by (simp add: fl_def)

lemma fl_error: "\<bar>fl x - x\<bar> \<le> max \<bar>x\<bar> tiny / 2 ^ 53"
proof (cases "x = 0")
  case False
  define u :: rat where "u = 2 powi (max (exponent \<bar>x\<bar>) (-1022) - 52)"
  have u: "0 < u" by (simp add: u_def)
  have "of_int (round_even (\<bar>x\<bar> / u)) * u - \<bar>x\<bar> = (of_int (round_even (\<bar>x\<bar> / u)) - \<bar>x\<bar> / u) * u"
    using u by (simp add: left_diff_distrib)
  then have "\<bar>of_int (round_even (\<bar>x\<bar> / u)) * u - \<bar>x\<bar>\<bar> = \<bar>of_int (round_even (\<bar>x\<bar> / u)) - \<bar>x\<bar> / u\<bar> * u"
    using u by (simp add: abs_mult)
  moreover have "\<bar>of_int (round_even (\<bar>x\<bar> / u)) - \<bar>x\<bar> / u\<bar> * u \<le> 1 / 2 * u"
    using round_even_bound u by (intro mult_right_mono) simp_all
  moreover have "1 / 2 * u \<le> max \<bar>x\<bar> tiny / 2 ^ 53"
    using exponent_bounds(1) [of "\<bar>x\<bar>"] False by (auto simp: u_def max_def tiny_def power_int_diff)
  ultimately have "\<bar>of_int (round_even (\<bar>x\<bar> / u)) * u - \<bar>x\<bar>\<bar> \<le> max \<bar>x\<bar> tiny / 2 ^ 53" by linarith
  moreover have "fl x = sgn x * (of_int (round_even (\<bar>x\<bar> / u)) * u)" using False by (simp add: fl_def u_def Let_def)
  moreover have "\<bar>sgn x * v - x\<bar> = \<bar>v - \<bar>x\<bar>\<bar>" for v using False by (cases "0 < x") (simp_all add: abs_if)
  ultimately show ?thesis by simp
qed (simp add: tiny_def)

lemma tiny_pos: "0 < tiny"
  by (simp add: tiny_def)

lemma tiny_small: "tiny \<le> 1 / 100000000"
proof -
  have "tiny \<le> 2 powi (- 27)" unfolding tiny_def by (rule power_int_increasing) simp_all
  also have "\<dots> \<le> 1 / 100000000" by (simp add: power_int_minus_divide)
  finally show ?thesis .
qed

lemma reads_back_Some: "reads_back x j = Some d \<Longrightarrow> fl d = x"
  by (auto simp: reads_back_def Let_def round_even_def split: if_splits)

lemma shortest_reads_back: "shortest x = x \<or> fl (shortest x) = x"
proof (cases "List.find (\<lambda>d. d \<noteq> None) (map (\<lambda>i. reads_back x ((exponent \<bar>x\<bar> + 1) * 30103 div 100000 + 1 - int i)) [0..<20])")
  case (Some r)
  from find_Some_mem [OF Some] obtain d where "r = Some d" "fl d = x" by (auto dest: reads_back_Some)
  with Some show ?thesis by (simp add: shortest_def Let_def)
qed (simp add: shortest_def Let_def)

lemma shortest_error:
  assumes "tiny \<le> \<bar>x\<bar>"
  shows "\<bar>shortest x - x\<bar> \<le> \<bar>x\<bar> / 2 ^ 52"
proof -
  consider "shortest x = x" | "fl (shortest x) = x" using shortest_reads_back by blast
  then show ?thesis
  proof cases
    case 2
    define d where "d = shortest x"
    have e: "\<bar>x - d\<bar> \<le> max \<bar>d\<bar> tiny / 2 ^ 53" using fl_error [of d] 2 by (simp add: d_def)
    have "max \<bar>d\<bar> tiny \<le> 2 * \<bar>x\<bar>"
    proof (cases "\<bar>d\<bar> \<le> tiny")
      case False
      then have "\<bar>d\<bar> \<le> \<bar>x\<bar> + \<bar>d\<bar> / 2 ^ 53" using e by (simp add: max_def abs_if split: if_splits)
      then show ?thesis using False assms by (simp add: max_def)
    qed (use assms tiny_pos in \<open>simp add: max_def\<close>)
    then have "max \<bar>d\<bar> tiny / 2 ^ 53 \<le> 2 * \<bar>x\<bar> / 2 ^ 53" by (intro divide_right_mono) simp_all
    with e have "\<bar>x - d\<bar> \<le> 2 * \<bar>x\<bar> / 2 ^ 53" by linarith
    then show ?thesis unfolding d_def [symmetric] by (simp add: abs_minus_commute)
  qed simp
qed

lemma round_away_near:
  assumes "\<bar>y - of_int n\<bar> < 1 / 2"
  shows "round_away y = n"
proof -
  have "\<lfloor>y + 1 / 2\<rfloor> = n" by (rule floor_unique) (use assms in \<open>simp_all add: abs_if split: if_splits\<close>)
  moreover have "\<lfloor>- y + 1 / 2\<rfloor> = - n" by (rule floor_unique) (use assms in \<open>simp_all add: abs_if split: if_splits\<close>)
  ultimately show ?thesis by (simp add: round_away_def)
qed

section \<open>Sums\<close>

text \<open>
  The sums of the program, \<open>(acc ?? 0) + x\<close> over numbers that stand for quantities with six decimals.
  \<open>near x k\<close>: the number \<open>x\<close> stands for \<open>k\<close> millionths, with at most two roundings of its own.
\<close>

definition sum_numbers :: "rat list \<Rightarrow> rat" where
  "sum_numbers xs = foldl (\<lambda>acc x. fl (acc + x)) 0 xs"

definition near :: "rat \<Rightarrow> int \<Rightarrow> bool" where
  "near x k \<longleftrightarrow> 1 \<le> k \<and> \<bar>x - of_int k / 10 ^ 6\<bar> \<le> 3 / 2 ^ 53 * (of_int k / 10 ^ 6)"

lemma fl_error_above: "tiny \<le> \<bar>x\<bar> \<Longrightarrow> \<bar>fl x - x\<bar> \<le> \<bar>x\<bar> / 2 ^ 53"
  using fl_error [of x] by (simp add: max_def)

lemma near_quantity:
  assumes "0 < p"
  shows "near (of_scale 6 p) p"
proof -
  define A :: rat where "A = of_int p / 10 ^ 6"
  have "1 / 1000000 \<le> A" using assms by (simp add: A_def divide_right_mono)
  then have A: "tiny \<le> A" "0 < A" using tiny_small by linarith+
  then have "\<bar>of_scale 6 p - A\<bar> \<le> A / 2 ^ 53" using fl_error_above [of A] by (simp add: of_scale_def A_def)
  with A(2) assms show ?thesis unfolding near_def A_def [symmetric] by simp
qed

lemma near_product:
  assumes "0 < p" and "0 < q"
  shows "near (fl (of_scale 6 p * of_nat q)) (p * int q)"
proof -
  define A :: rat where "A = of_int p / 10 ^ 6"
  define a where "a = of_scale 6 p"
  define M :: rat where "M = of_int (p * int q) / 10 ^ 6"
  have M: "M = A * of_nat q" by (simp add: M_def A_def)
  have q: "(1::rat) \<le> of_nat q" using assms(2) by simp
  have "1 / 1000000 \<le> A" using assms(1) by (simp add: A_def divide_right_mono)
  then have A: "tiny \<le> A" "0 < A" "1 / 1000000 \<le> A" using tiny_small by linarith+
  have aA: "\<bar>a - A\<bar> \<le> A / 2 ^ 53" using fl_error_above [of A] A by (simp add: a_def of_scale_def A_def)
  have "\<bar>a * of_nat q - M\<bar> = \<bar>a - A\<bar> * of_nat q" by (simp add: M flip: left_diff_distrib) (simp add: abs_mult)
  also have "\<dots> \<le> A / 2 ^ 53 * of_nat q" using aA q by (intro mult_right_mono) simp_all
  finally have aM: "\<bar>a * of_nat q - M\<bar> \<le> M / 2 ^ 53" by (simp add: M)
  have "A \<le> M" using mult_left_mono [OF q, of A] A(2) by (simp add: M)
  then have "tiny \<le> a * of_nat q" "\<bar>a * of_nat q\<bar> \<le> 2 * M" using aM A tiny_small by (simp_all add: abs_if split: if_splits)
  then have "\<bar>fl (a * of_nat q) - a * of_nat q\<bar> \<le> 2 * M / 2 ^ 53"
    using fl_error_above [of "a * of_nat q"] by (simp add: abs_if split: if_splits)
  then have "\<bar>fl (a * of_nat q) - M\<bar> \<le> 3 / 2 ^ 53 * M" using aM by (simp add: abs_if split: if_splits)
  moreover have "1 \<le> p * int q" using assms by (metis mult_pos_pos of_nat_0_less_iff int_one_le_iff_zero_less)
  ultimately show ?thesis unfolding near_def M_def a_def by blast
qed

text \<open>Each addition adds at most one more rounding of the sum.\<close>

lemma sum_error:
  assumes "list_all2 near xs ks" and "length xs + 2 \<le> 2 ^ 51"
  shows "\<bar>sum_numbers xs - of_int (sum_list ks) / 10 ^ 6\<bar> \<le> (of_nat (length xs) + 2) / 2 ^ 52 * (of_int (sum_list ks) / 10 ^ 6) \<and>
    0 \<le> sum_list ks"
  using assms
proof (induction xs arbitrary: ks rule: rev_induct)
  case (snoc m xs)
  from snoc.prems(1) obtain ks' k where ks: "ks = ks' @ [k]" "list_all2 near xs ks'" "near m k"
    by (auto simp: list_all2_append1 list_all2_Cons1)
  define S M s where "S = (of_int (sum_list ks') / 10 ^ 6 :: rat)" and "M = (of_int k / 10 ^ 6 :: rat)" and "s = sum_numbers xs"
  define b :: rat where "b = (of_nat (length xs) + 2) / 2 ^ 52"
  have S: "\<bar>s - S\<bar> \<le> b * S" "0 \<le> S" using snoc.IH [OF ks(2)] snoc.prems(2) by (simp_all add: s_def S_def b_def)
  have m: "\<bar>m - M\<bar> \<le> 3 / 2 ^ 53 * M" and M: "1 / 1000000 \<le> M"
    using ks(3) by (simp_all add: near_def M_def divide_right_mono)
  have b: "3 / 2 ^ 53 \<le> b" "b \<le> 1 / 2" using snoc.prems by (simp_all add: b_def)
  have "3 / 2 ^ 53 * M \<le> b * M" using b(1) M by (intro mult_right_mono) simp_all
  with m have mb: "\<bar>m - M\<bar> \<le> b * M" by (rule order_trans)
  have "\<bar>s + m - (S + M)\<bar> \<le> \<bar>s - S\<bar> + \<bar>m - M\<bar>" by linarith
  also have "\<dots> \<le> b * S + b * M" using S(1) mb by (rule add_mono)
  finally have near: "\<bar>s + m - (S + M)\<bar> \<le> b * (S + M)" by (simp add: distrib_left)
  have "b * (S + M) \<le> 1 / 2 * (S + M)" using b(2) S(2) M by (intro mult_right_mono) simp_all
  with near have "\<bar>s + m - (S + M)\<bar> \<le> 1 / 2 * (S + M)" by (rule order_trans)
  then have "tiny \<le> s + m" "\<bar>s + m\<bar> \<le> 2 * (S + M)" using S(2) M tiny_small by (simp_all add: abs_if split: if_splits)
  then have "\<bar>fl (s + m) - (s + m)\<bar> \<le> 2 * (S + M) / 2 ^ 53"
    using fl_error_above [of "s + m"] by (simp add: abs_if split: if_splits)
  moreover have "(of_nat (length (xs @ [m])) + 2) / 2 ^ 52 * (S + M) = b * (S + M) + 2 * (S + M) / 2 ^ 53"
    by (simp add: b_def field_simps)
  ultimately have "\<bar>fl (s + m) - (S + M)\<bar> \<le> (of_nat (length (xs @ [m])) + 2) / 2 ^ 52 * (S + M)" using near by linarith
  moreover have "sum_numbers (xs @ [m]) = fl (s + m)" by (simp add: sum_numbers_def s_def)
  moreover have "of_int (sum_list ks) / 10 ^ 6 = S + M" by (simp add: ks S_def M_def add_divide_distrib)
  moreover have "0 \<le> sum_list ks" using snoc.IH [OF ks(2)] snoc.prems(2) ks(1,3) by (simp add: near_def)
  ultimately show ?case by (simp only: simp_thms)
qed (simp add: sum_numbers_def)

text \<open>The total the program writes is exact as long as it has at most about 15 digits.\<close>

lemma written_total:
  assumes "list_all2 near xs ks" and "xs \<noteq> []" and "(int (length xs) + 4) * sum_list ks < 2 ^ 51"
  shows "\<bar>shortest (sum_numbers xs) * 10 ^ 6 - of_int (sum_list ks)\<bar> < 1 / 2"
proof -
  define T where "T = sum_list ks"
  define S :: rat where "S = of_int T / 10 ^ 6"
  define s where "s = sum_numbers xs"
  define b :: rat where "b = (of_nat (length xs) + 2) / 2 ^ 52"
  have "1 \<le> T"
  proof (cases ks)
    case (Cons k ks')
    have "list_all (\<lambda>k. 1 \<le> k) ks" using assms(1) by (auto simp: list_all2_conv_all_nth list_all_length near_def)
    then have "1 \<le> k" "0 \<le> sum_list ks'" by (auto simp: Cons list_all_iff intro!: sum_list_nonneg)
    then show ?thesis by (simp add: T_def Cons)
  qed (use assms in simp)
  have "int (length xs) + 4 \<le> (int (length xs) + 4) * T" using \<open>1 \<le> T\<close> mult_left_mono [of 1 T "int (length xs) + 4"] by simp
  also have "\<dots> < 2 ^ 51" using assms(3) unfolding T_def .
  finally have len: "length xs + 2 \<le> 2 ^ 51" by simp
  have sS: "\<bar>s - S\<bar> \<le> b * S" using sum_error [OF assms(1) len] by (simp add: s_def S_def T_def b_def)
  have "of_nat (length xs + 2) \<le> (of_nat (2 ^ 51) :: rat)" using len unfolding of_nat_le_iff .
  then have "b \<le> 1 / 2" by (simp add: b_def)
  have S1: "1 / 1000000 \<le> S" using \<open>1 \<le> T\<close> by (simp add: S_def)
  then have "b * S \<le> 1 / 2 * S" using \<open>b \<le> 1 / 2\<close> by (intro mult_right_mono) simp_all
  with sS have "\<bar>s - S\<bar> \<le> 1 / 2 * S" by (rule order_trans)
  then have s1: "tiny \<le> \<bar>s\<bar>" and s2: "\<bar>s\<bar> \<le> 2 * S" using S1 tiny_small by linarith+
  have "\<bar>shortest s - s\<bar> \<le> 2 * S / 2 ^ 52" by (rule order_trans [OF shortest_error [OF s1] divide_right_mono [OF s2]]) simp
  with sS have "\<bar>shortest s - S\<bar> \<le> b * S + 2 * S / 2 ^ 52" by linarith
  also have "\<dots> = of_int ((int (length xs) + 4) * T) / 2 ^ 52 / 10 ^ 6" by (simp add: b_def S_def field_simps)
  finally have "\<bar>shortest s - S\<bar> * 10 ^ 6 \<le> of_int ((int (length xs) + 4) * T) / 2 ^ 52" by simp
  also have "of_int ((int (length xs) + 4) * T) / 2 ^ 52 < (of_int (2 ^ 51) :: rat) / 2 ^ 52"
    using assms(3) unfolding T_def by (intro divide_strict_right_mono) (simp_all only: of_int_less_iff zero_less_power zero_less_numeral)
  also have "(of_int (2 ^ 51) :: rat) / 2 ^ 52 = 1 / 2" by simp
  finally have "\<bar>shortest s - S\<bar> * 10 ^ 6 < 1 / 2" .
  moreover have "\<bar>shortest s * 10 ^ 6 - of_int T\<bar> = \<bar>shortest s - S\<bar> * 10 ^ 6"
    using abs_mult [of "shortest s - S" "10 ^ 6"] by (simp add: S_def left_diff_distrib)
  ultimately show ?thesis unfolding s_def T_def by simp
qed

text \<open>What the database makes of it: the new balance, and the quantity recorded beside it.\<close>

definition column_add :: "int \<Rightarrow> rat \<Rightarrow> int" where
  "column_add c x = to_scale 6 (of_int c / 10 ^ 6 + x)"

lemma written_exact:
  assumes "list_all2 near xs ks" and "xs \<noteq> []" and "(int (length xs) + 4) * sum_list ks < 2 ^ 51"
  shows "to_scale 6 (shortest (sum_numbers xs)) = sum_list ks"
    and "column_add c (shortest (sum_numbers xs)) = c + sum_list ks"
    and "column_add c (- shortest (sum_numbers xs)) = c - sum_list ks"
proof -
  note near = written_total [OF assms]
  show "to_scale 6 (shortest (sum_numbers xs)) = sum_list ks"
    using round_away_near [OF near] by (simp add: to_scale_def)
  have "(of_int c / 10 ^ 6 + shortest (sum_numbers xs)) * 10 ^ 6 - of_int (c + sum_list ks) =
      shortest (sum_numbers xs) * 10 ^ 6 - of_int (sum_list ks)" by (simp add: field_simps)
  with near show "column_add c (shortest (sum_numbers xs)) = c + sum_list ks"
    unfolding column_add_def to_scale_def by (intro round_away_near) simp
  have "(of_int c / 10 ^ 6 + - shortest (sum_numbers xs)) * 10 ^ 6 - of_int (c - sum_list ks) =
      - (shortest (sum_numbers xs) * 10 ^ 6 - of_int (sum_list ks))" by (simp add: field_simps)
  with near show "column_add c (- shortest (sum_numbers xs)) = c - sum_list ks"
    unfolding column_add_def to_scale_def by (intro round_away_near) (simp only: abs_minus_cancel)
qed

text \<open>Comparing a total with what is available decides as the exact numbers do.\<close>

lemma of_scale_small:
  assumes "\<bar>m\<bar> < 2 ^ 48"
  shows "\<bar>of_scale 6 m - of_int m / 1000000\<bar> \<le> 1 / 32000000"
proof -
  define A :: rat where "A = of_int m / 1000000"
  have "of_int \<bar>m\<bar> < (of_int (2 ^ 48) :: rat)" using assms by (simp only: of_int_less_iff)
  then have "\<bar>A\<bar> \<le> 281474976710656 / 1000000" by (simp add: A_def)
  then have "max \<bar>A\<bar> tiny / 2 ^ 53 \<le> 1 / 32000000" using tiny_small by (simp add: max_def)
  moreover have "\<bar>of_scale 6 m - A\<bar> \<le> max \<bar>A\<bar> tiny / 2 ^ 53" using fl_error [of A] by (simp add: of_scale_def A_def)
  ultimately show ?thesis unfolding A_def by linarith
qed

lemma compare_exact:
  assumes "list_all2 near xs ks" and "(int (length xs) + 4) * sum_list ks < 2 ^ 51"
    and "\<bar>a\<bar> < 2 ^ 48" and "\<bar>b\<bar> < 2 ^ 48" and "length xs + 2 \<le> 2 ^ 51"
    and le: "sum_numbers xs \<le> fl (of_scale 6 a - of_scale 6 b)"
  shows "sum_list ks \<le> a - b"
proof (rule ccontr)
  define K n where "K = sum_list ks" and "n = length xs"
  define x y where "x = sum_numbers xs" and "y = of_scale 6 a - of_scale 6 b"
  assume "\<not> sum_list ks \<le> a - b"
  then have "a - b + 1 \<le> K" by (simp add: K_def)
  then have "of_int (a - b + 1) \<le> (of_int K :: rat)" by (simp only: of_int_le_iff)
  then have gap: "of_int a - of_int b + 1 \<le> (of_int K :: rat)" by simp
  have e: "\<bar>x - of_int K / 1000000\<bar> \<le> (of_nat n + 2) / 2 ^ 52 * (of_int K / 1000000)" "0 \<le> K"
    using sum_error [OF assms(1,5)] by (simp_all add: x_def K_def n_def)
  have "(int n + 2) * K \<le> (int n + 4) * K" using e(2) by (intro mult_right_mono) simp_all
  then have "of_int ((int n + 2) * K) \<le> (of_int (2 ^ 51) :: rat)" using assms(2) by (simp only: of_int_le_iff) (simp add: n_def K_def)
  then have "(of_nat n + 2) * of_int K \<le> (2251799813685248 :: rat)" by simp
  then have "(of_nat n + 2) / 2 ^ 52 * (of_int K / 1000000) \<le> (1 / 2000000 :: rat)" by (simp add: field_simps)
  then have x: "of_int K / 1000000 - 1 / 2000000 \<le> x" using e(1) by linarith
  have ab: "of_int \<bar>a\<bar> < (of_int (2 ^ 48) :: rat)" "of_int \<bar>b\<bar> < (of_int (2 ^ 48) :: rat)" using assms(3,4) by (simp_all only: of_int_less_iff)
  have y: "\<bar>y - (of_int a - of_int b) / 1000000\<bar> \<le> 1 / 16000000"
    using of_scale_small [OF assms(3)] of_scale_small [OF assms(4)] unfolding y_def diff_divide_distrib by linarith
  then have "\<bar>y\<bar> \<le> 562949953421312 / 1000000 + 1" using ab by (simp add: abs_if diff_divide_distrib split: if_splits)
  then have "max \<bar>y\<bar> tiny / 2 ^ 53 \<le> 1 / 8000000" using tiny_small by (simp add: max_def)
  then have "fl y \<le> y + 1 / 8000000" using fl_error [of y] by linarith
  with y have "fl y \<le> (of_int a - of_int b) / 1000000 + 3 / 16000000" by linarith
  with gap x le show False by (simp add: x_def y_def diff_divide_distrib)
qed
end
