(* ===== verification/Orders.thy ===== *)
theory Orders
  imports Outbound JsNumber "HOL-Library.AList"
begin

text \<open>
  The data of the order flow (\<open>src/modules/orders/service.ts\<close>, \<open>inventory/ledger.ts\<close>,
  \<open>commercial-terms/service.ts\<close>, tables of \<open>db/schema.ts\<close>): orders and their items, recipes, kitchen
  stock, reservations, consumption logs and the ledger. A \<open>numeric(20,6)\<close> column is its number of
  millionths; the code computes with JavaScript numbers (theory \<open>JsNumber\<close>). Ids of rows that nobody
  looks up by id are left out.
\<close>

datatype availability = MI_AVAILABLE | MI_PAUSED | MI_SOLD_OUT

record brand =
  br_id :: string
  br_locationId :: string
  br_name :: string

record brand_outlet =
  bo_brandId :: string
  bo_locationId :: string
  bo_isActive :: bool

record sales_channel =
  sc_id :: string
  sc_code :: "string option"

record menu_item =
  mi_id :: string
  mi_name :: string
  mi_price :: int
  mi_stationId :: "string option"
  mi_availability :: availability

record menu_deployment =
  md_menuItemId :: string
  md_locationId :: string
  md_stationId :: string
  md_availability :: availability
  md_isActive :: bool

record recipe_line =
  rl_menuItemId :: string
  rl_ingredientId :: string
  rl_portionQty :: int
  rl_unit :: string
  rl_enteredQuantity :: "int option"
  rl_enteredUnit :: "string option"

record ingredient =
  in_id :: string
  in_name :: string
  in_unit :: string
  in_unitCost :: int
  in_lowStockThreshold :: int

datatype rate_type = RATE_BASE | RATE_MARKETING

record commercial_term =
  ct_accountId :: string
  ct_rateType :: rate_type
  ct_percent :: int
  ct_effectiveFrom :: string
  ct_effectiveTo :: "string option"

record stock_row =
  is_warehouseId :: string
  is_ingredientId :: string
  is_quantity :: int

type_synonym snapshot_line = "string \<times> int \<times> string"

record order_item =
  oi_orderId :: string
  oi_menuItemId :: string
  oi_qty :: nat
  oi_stationId :: string
  oi_notes :: "string option"
  oi_componentSnapshot :: "snapshot_line list option"
  oi_unitPrice :: int
  oi_unitCost :: int

record reservation =
  sr_orderId :: string
  sr_ingredientId :: string
  sr_warehouseId :: string
  sr_quantity :: int

record consumption_log =
  cl_ingredientId :: string
  cl_quantity :: int
  cl_loggedBy :: "string option"
  cl_orderId :: "string option"
  cl_warehouseId :: "string option"

datatype entry_module = LM_RECEIVE | LM_ITO | LM_ORDER_DEDUCTION | LM_ADJUSTMENT | LM_RESTOCK

record ledger_entry =
  le_sourceModule :: entry_module
  le_documentNo :: string
  le_lineNo :: "string option"
  le_ingredientId :: string
  le_warehouseId :: string
  le_movementType :: direction
  le_quantity :: int
  le_encoderUserId :: "string option"

record orders_db = outbound_db +
  od_brands :: "brand list"
  od_outlets :: "brand_outlet list"
  od_channels :: "sales_channel list"
  od_menu :: "menu_item list"
  od_deployments :: "menu_deployment list"
  od_recipes :: "recipe_line list"
  od_ingredients :: "ingredient list"
  od_terms :: "commercial_term list"
  od_stock :: "stock_row list"
  od_items :: "order_item list"
  od_reservations :: "reservation list"
  od_logs :: "consumption_log list"
  od_entries :: "ledger_entry list"

record used_by =
  ub_menuItemId :: string
  ub_name :: string
  ub_qty :: nat
  ub_perServing :: rat
  ub_entered :: "(rat \<times> string) option"

record shortfall =
  sf_ingredientId :: string
  sf_name :: string
  sf_unit :: string
  sf_required :: rat
  sf_available :: rat
  sf_usedBy :: "used_by list"

datatype order_error =
    OrderNotFound | OrderValidation | OrderConflict | OrderAmbiguousListing | OrderMappingRequired
  | OrderForbidden | OrderInsufficientStock "shortfall list"
  | OrderUniqueViolation | OrderCheckViolation | OrderNumericOverflow | OrderInternal

definition findBrand :: "'z orders_db_scheme \<Rightarrow> string \<Rightarrow> brand option" where
  "findBrand db i = List.find (\<lambda>b. br_id b = i) (od_brands db)"

definition kitchenOf :: "'z orders_db_scheme \<Rightarrow> string \<Rightarrow> string option" where
  "kitchenOf db l =
     map_option w_id (List.find (\<lambda>w. w_type w = TypeKitchen \<and> w_locationId w = l) (db_warehouses db))"

text \<open>\<open>numeric(20,6)\<close> overflows from \<open>10^14\<close> on.\<close>

definition column6 :: "int \<Rightarrow> order_error + int" where
  "column6 m = (if \<bar>m\<bar> < 10 ^ 20 then Inr m else Inl OrderNumericOverflow)"

section \<open>Numbers per ingredient\<close>

text \<open>\<open>m.set(k, (m.get(k) ?? 0) + x)\<close> on a \<open>Map\<close>, which keeps the order of first insertion.\<close>

definition map_add :: "'k \<Rightarrow> rat \<Rightarrow> ('k \<times> rat) list \<Rightarrow> ('k \<times> rat) list" where
  "map_add k x m = AList.update k (fl ((case map_of m k of None \<Rightarrow> 0 | Some v \<Rightarrow> v) + x)) m"

definition accumulate :: "('k \<times> rat) list \<Rightarrow> ('k \<times> rat) list" where
  "accumulate kxs = foldl (\<lambda>m (k, x). map_add k x m) [] kxs"

definition portion :: "int \<Rightarrow> nat \<Rightarrow> rat" where
  "portion portionQty qty = fl (of_scale 6 portionQty * of_nat qty)"

section \<open>The ledger of compatibility stock\<close>

text \<open>\<open>postLedger\<close>: a check constraint fails the transaction, a known key is skipped.\<close>

definition postLedger :: "ledger_entry \<Rightarrow> 'z orders_db_scheme \<Rightarrow> order_error + 'z orders_db_scheme" where
  "postLedger x db =
     bindE (column6 (le_quantity x)) (\<lambda>_.
     bindE (ensure (0 < le_quantity x) OrderCheckViolation) (\<lambda>_.
     Inr (if \<exists>y \<in> set (od_entries db). le_sourceModule y = le_sourceModule x \<and> le_documentNo y = le_documentNo x \<and>
               le_lineNo y = le_lineNo x \<and> le_lineNo x \<noteq> None
          then db else db\<lparr>od_entries := od_entries db @ [x]\<rparr>)))"

text \<open>One atomic update of a kitchen balance by the number \<open>x\<close>, written as text.\<close>

definition changeStock :: "string \<Rightarrow> string \<Rightarrow> rat \<Rightarrow> 'z orders_db_scheme \<Rightarrow> order_error + 'z orders_db_scheme" where
  "changeStock wh ing x db =
     (let hit = (\<lambda>r. is_warehouseId r = wh \<and> is_ingredientId r = ing);
          f = (\<lambda>r. r\<lparr>is_quantity := column_add (is_quantity r) x\<rparr>)
      in if \<forall>r \<in> set (od_stock db). hit r \<longrightarrow> \<bar>is_quantity (f r)\<bar> < 10 ^ 20
         then Inr (db\<lparr>od_stock := update_where hit f (od_stock db)\<rparr>)
         else Inl OrderNumericOverflow)"

section \<open>Dates\<close>

text \<open>\<open>Date.toISOString\<close> of an instant in milliseconds after 1970.\<close>

definition civil_date :: "nat \<Rightarrow> nat \<times> nat \<times> nat" where
  "civil_date days =
     (let z = days + 719468; era = z div 146097; doe = z mod 146097;
          yoe = (doe - doe div 1460 + doe div 36524 - doe div 146096) div 365;
          doy = doe - (365 * yoe + yoe div 4 - yoe div 100);
          mp = (5 * doy + 2) div 153;
          m = (if mp < 10 then mp + 3 else mp - 9)
      in (yoe + era * 400 + (if m \<le> 2 then 1 else 0), m, doy - (153 * mp + 2) div 5 + 1))"

definition toDateOnly :: "nat \<Rightarrow> string" where
  "toDateOnly ms =
     (case civil_date (ms div 86400000) of (y, m, d) \<Rightarrow>
        pad_start 4 (nat_str y) @ ''-'' @ pad_start 2 (nat_str m) @ ''-'' @ pad_start 2 (nat_str d))"

definition toISOString :: "nat \<Rightarrow> string" where
  "toISOString ms =
     (let t = ms mod 86400000; two = (\<lambda>n. pad_start 2 (nat_str n))
      in toDateOnly ms @ ''T'' @ two (t div 3600000) @ '':'' @ two (t div 60000 mod 60) @ '':'' @
         two (t div 1000 mod 60) @ ''.'' @ pad_start 3 (nat_str (t mod 1000)) @ ''Z'')"

section \<open>Commercial terms\<close>

definition pickApplicable :: "commercial_term list \<Rightarrow> rate_type \<Rightarrow> string \<Rightarrow> int option" where
  "pickApplicable rows rt dateStr =
     (case sort_by (\<lambda>a b. \<not> ct_effectiveFrom a < ct_effectiveFrom b)
             (filter (\<lambda>r. ct_rateType r = rt \<and> ct_effectiveFrom r \<le> dateStr \<and>
                (case ct_effectiveTo r of None \<Rightarrow> True | Some t \<Rightarrow> dateStr \<le> t)) rows) of
        [] \<Rightarrow> None | r # _ \<Rightarrow> Some (ct_percent r))"

definition resolveCommercialTermSnapshots ::
  "'z orders_db_scheme \<Rightarrow> string \<Rightarrow> nat \<Rightarrow> int option \<Rightarrow> int option \<times> int option" where
  "resolveCommercialTermSnapshots db accountId atDate legacyRate =
     (case filter (\<lambda>t. ct_accountId t = accountId) (od_terms db) of
        [] \<Rightarrow> (legacyRate, None)
      | rows \<Rightarrow> (pickApplicable rows RATE_BASE (toDateOnly atDate), pickApplicable rows RATE_MARKETING (toDateOnly atDate)))"

section \<open>Stages\<close>

definition nextStage :: "order_status \<Rightarrow> order_error + order_status" where
  "nextStage s =
     (case s of OS_NEW \<Rightarrow> Inr OS_PREPARING | OS_PREPARING \<Rightarrow> Inr OS_READY | OS_READY \<Rightarrow> Inr OS_COMPLETED
      | _ \<Rightarrow> Inl OrderValidation)"

section \<open>Order codes\<close>

definition ORDER_CODE_ALPHABET :: string where
  "ORDER_CODE_ALPHABET = ''23456789ABCDEFGHJKLMNPQRSTUVWXYZ''"

definition AGGREGATOR_CODE :: "aggregator \<Rightarrow> string" where
  "AGGREGATOR_CODE a = (case a of FOODPANDA \<Rightarrow> ''FP'' | GRABFOOD \<Rightarrow> ''GF'' | OTHER \<Rightarrow> ''WI'')"

definition upper_char :: "char \<Rightarrow> string" where
  "upper_char c =
     (let n = code_of c
      in if 97 \<le> n \<and> n \<le> 122 \<or> 224 \<le> n \<and> n \<le> 254 \<and> n \<noteq> 247 then [char_of (n - 32)]
         else if n = 223 then ''SS'' else [c])"

definition is_alnum :: "char \<Rightarrow> bool" where
  "is_alnum c = (is_digit c \<or> 65 \<le> code_of c \<and> code_of c \<le> 90)"

definition generateOrderCode :: "string \<Rightarrow> aggregator \<Rightarrow> nat list \<Rightarrow> string" where
  "generateOrderCode brandName a bytes =
     take 3 (filter is_alnum (concat (map upper_char brandName)) @ ''XXX'') @ ''-'' @ AGGREGATOR_CODE a @ ''-'' @
     map (\<lambda>b. ORDER_CODE_ALPHABET ! (b mod length ORDER_CODE_ALPHABET)) bytes"

end
