(* ===== verification/OrderIngest.thy ===== *)
theory OrderIngest
  imports Orders
begin

text \<open>
  Taking an order, \<open>ingestOrder\<close> of \<open>src/modules/orders/service.ts\<close>. Its reads before the transaction see
  one state of the database; \<open>gap\<close> is what other requests do before the transaction of an attempt.
  \<open>rnd\<close> gives the five random bytes of each attempt, \<open>now\<close> is the clock. Times are instants already
  parsed from the request; a query without an order returns its rows in the order of the table.
\<close>

record ingest_item =
  ii_menuItemId :: string
  ii_qty :: nat
  ii_notes :: "string option"

record ingest_input =
  ig_brandId :: string
  ig_accountId :: "string option"
  ig_aggregator :: aggregator
  ig_externalRef :: string
  ig_customerName :: "string option"
  ig_placedAt :: "nat option"
  ig_allowOversell :: bool
  ig_items :: "ingest_item list"

record ingest_options =
  io_allowedLocationIds :: "string list option"
  io_workingLocationId :: "string option"

record ingest_result =
  ir_orderId :: string
  ir_locationId :: "string option"
  ir_status :: order_status
  ir_orderCode :: "string option"
  ir_acceptDeadlineAt :: "string option"
  ir_printJobs :: "(string \<times> string \<times> string option) list"
  ir_duplicate :: bool
  ir_stockRisk :: "shortfall list option"

section \<open>The listing and its outlet\<close>

definition activeOutlets :: "'z orders_db_scheme \<Rightarrow> string \<Rightarrow> string list" where
  "activeOutlets db brandId =
     map bo_locationId (filter (\<lambda>b. bo_brandId b = brandId \<and> bo_isActive b) (od_outlets db))"

definition resolveWalkInLocation ::
  "'z orders_db_scheme \<Rightarrow> brand \<Rightarrow> string option \<Rightarrow> order_error + string" where
  "resolveWalkInLocation db b working =
     (let deployed = activeOutlets db (br_id b);
          outlets = (if deployed \<noteq> [] then deployed
                     else case truthy (Some (br_locationId b)) of None \<Rightarrow> [] | Some l \<Rightarrow> [l])
      in case truthy working of
           Some w \<Rightarrow> if w \<in> set outlets then Inr w
                     else (case outlets of [l] \<Rightarrow> Inr l | _ \<Rightarrow> Inl OrderMappingRequired)
         | None \<Rightarrow> (case outlets of [l] \<Rightarrow> Inr l | _ \<Rightarrow> Inl OrderMappingRequired))"

definition walkInChannel :: "'z orders_db_scheme \<Rightarrow> string \<Rightarrow> bool" where
  "walkInChannel db c = (\<exists>r \<in> set (od_channels db). sc_id r = c \<and> sc_code r = Some ''WALK_IN'')"

definition walkInMerchantId :: "string \<Rightarrow> string \<Rightarrow> string" where
  "walkInMerchantId brandId locationId = ''WALKIN-'' @ brandId @ ''-'' @ locationId"

text \<open>The row of the insert, with the defaults of the table and the channel its trigger fills in.\<close>

definition walkInListing :: "'z orders_db_scheme \<Rightarrow> string \<Rightarrow> string \<Rightarrow> string \<Rightarrow> listing" where
  "walkInListing db i brandId locationId =
     \<lparr>aa_id = i, aa_brandId = brandId, aa_locationId = Some locationId, aa_aggregator = OTHER,
      aa_channelId = map_option sc_id (List.find (\<lambda>r. sc_code r = Some ''WALK_IN'') (od_channels db)),
      aa_externalMerchantId = walkInMerchantId brandId locationId, aa_isActive = True,
      aa_mappingStatus = RESOLVED, aa_commissionRate = None, aa_controlMode = DEVICE,
      aa_apiMerchantId = None, aa_acceptSlaSeconds = None\<rparr>"

definition findWalkIn :: "'z orders_db_scheme \<Rightarrow> string \<Rightarrow> listing option" where
  "findWalkIn db merchant =
     List.find (\<lambda>l. aa_aggregator l = OTHER \<and> aa_externalMerchantId l = merchant \<and> aa_isActive l) (ob_listings db)"

text \<open>The insert does nothing when it meets a row with its id or, being active, its merchant id.\<close>

definition ensureWalkInListing ::
  "env \<Rightarrow> string \<Rightarrow> string \<Rightarrow> 'z orders_db_scheme \<Rightarrow> 'z orders_db_scheme \<times> (order_error + listing)" where
  "ensureWalkInListing e brandId locationId db =
     (let l = walkInListing db (env_uuid e (db_ids db)) brandId locationId;
          db1 = (if findWalkIn db (aa_externalMerchantId l) \<noteq> None \<or> findListing db (aa_id l) \<noteq> None then db
                 else db\<lparr>ob_listings := ob_listings db @ [l], db_ids := Suc (db_ids db)\<rparr>)
      in (db1, case findWalkIn db1 (aa_externalMerchantId l) of
                 None \<Rightarrow> Inl OrderMappingRequired | Some x \<Rightarrow> Inr x))"

definition activeListings :: "'z orders_db_scheme \<Rightarrow> ingest_input \<Rightarrow> listing list" where
  "activeListings db inp =
     filter (\<lambda>l. (case truthy (ig_accountId inp) of None \<Rightarrow> True | Some a \<Rightarrow> aa_id l = a) \<and>
        aa_brandId l = ig_brandId inp \<and> aa_aggregator l = ig_aggregator inp \<and> aa_isActive l) (ob_listings db)"

definition candidateListings ::
  "env \<Rightarrow> ingest_input \<Rightarrow> ingest_options \<Rightarrow> brand \<Rightarrow> 'z orders_db_scheme \<Rightarrow>
   'z orders_db_scheme \<times> (order_error + listing list)" where
  "candidateListings e inp opts b db =
     (if ig_aggregator inp = OTHER \<and> truthy (ig_accountId inp) = None
      then (case resolveWalkInLocation db b (io_workingLocationId opts) of
              Inl err \<Rightarrow> (db, Inl err)
            | Inr loc \<Rightarrow>
                (case filter (\<lambda>c. aa_locationId c = Some loc \<and>
                         (case aa_channelId c of None \<Rightarrow> True | Some ch \<Rightarrow> walkInChannel db ch)) (activeListings db inp) of
                   [] \<Rightarrow> (case ensureWalkInListing e (br_id b) loc db of
                            (db1, Inl err) \<Rightarrow> (db1, Inl err) | (db1, Inr l) \<Rightarrow> (db1, Inr [l]))
                 | ls \<Rightarrow> (db, Inr ls)))
      else (db, Inr (activeListings db inp)))"

definition chooseListing :: "ingest_input \<Rightarrow> listing list \<Rightarrow> order_error + listing" where
  "chooseListing inp ls =
     (case ls of
        [] \<Rightarrow> Inl OrderNotFound
      | l # _ \<Rightarrow>
          if truthy (ig_accountId inp) \<noteq> None then Inr l
          else (case filter (\<lambda>c. aa_mappingStatus c = RESOLVED \<and> truthy (aa_locationId c) \<noteq> None) ls of
                  [r] \<Rightarrow> Inr r
                | rs \<Rightarrow> if 1 < length rs \<or> 1 < length ls then Inl OrderAmbiguousListing else Inr l))"

definition listingLocation :: "'z orders_db_scheme \<Rightarrow> brand \<Rightarrow> listing \<Rightarrow> order_error + string" where
  "listingLocation db b l =
     bindE (case (if aa_mappingStatus l = RESOLVED then truthy (aa_locationId l) else None) of
              Some loc \<Rightarrow> Inr loc
            | None \<Rightarrow> (case activeOutlets db (br_id b) of
                        [] \<Rightarrow> Inr (br_locationId b) | [loc] \<Rightarrow> Inr loc | _ \<Rightarrow> Inl OrderMappingRequired))
       (\<lambda>loc. bindE (ensure (loc \<noteq> []) OrderMappingRequired) (\<lambda>_. Inr loc))"

definition resolveListing ::
  "env \<Rightarrow> ingest_input \<Rightarrow> ingest_options \<Rightarrow> brand \<Rightarrow> 'z orders_db_scheme \<Rightarrow>
   'z orders_db_scheme \<times> (order_error + listing \<times> string)" where
  "resolveListing e inp opts b db =
     (case candidateListings e inp opts b db of
        (db1, Inl err) \<Rightarrow> (db1, Inl err)
      | (db1, Inr ls) \<Rightarrow>
          (db1, bindE (chooseListing inp ls) (\<lambda>l.
                bindE (listingLocation db1 b l) (\<lambda>loc.
                bindE (ensure (case io_allowedLocationIds opts of None \<Rightarrow> True | Some ls \<Rightarrow> loc \<in> set ls) OrderForbidden) (\<lambda>_.
                Inr (l, loc))))))"

section \<open>Items and stations\<close>

record resolved_item =
  ri_menuItemId :: string
  ri_stationId :: string
  ri_stationName :: string
  ri_printerId :: "string option"
  ri_qty :: nat
  ri_notes :: "string option"
  ri_price :: int
  ri_name :: string

definition findStation :: "'z orders_db_scheme \<Rightarrow> string \<Rightarrow> station option" where
  "findStation db i = List.find (\<lambda>s. st_id s = i) (pr_stations db)"

definition findDeployment :: "'z orders_db_scheme \<Rightarrow> string \<Rightarrow> string \<Rightarrow> menu_deployment option" where
  "findDeployment db loc m =
     List.find (\<lambda>d. md_menuItemId d = m \<and> md_locationId d = loc \<and> md_isActive d \<and>
        findStation db (md_stationId d) \<noteq> None) (od_deployments db)"

definition resolveItem :: "'z orders_db_scheme \<Rightarrow> string \<Rightarrow> ingest_item \<Rightarrow> order_error + resolved_item" where
  "resolveItem db loc item =
     (case List.find (\<lambda>m. mi_id m = ii_menuItemId item) (od_menu db) of
        None \<Rightarrow> Inl OrderNotFound
      | Some m \<Rightarrow>
          let legacy = Option.bind (mi_stationId m) (findStation db);
              deployment = findDeployment db loc (mi_id m);
              deployed = Option.bind deployment (\<lambda>d. findStation db (md_stationId d));
              stationId = (case deployment of Some d \<Rightarrow> Some (md_stationId d) | None \<Rightarrow> mi_stationId m);
              stationName = (case deployed of Some s \<Rightarrow> Some (st_name s) | None \<Rightarrow> map_option st_name legacy);
              printerId = (case Option.bind deployed st_defaultPrinterId of
                             Some p \<Rightarrow> Some p | None \<Rightarrow> Option.bind legacy st_defaultPrinterId);
              avail = (case deployment of Some d \<Rightarrow> md_availability d | None \<Rightarrow> mi_availability m)
          in bindE (ensure (deployment \<noteq> None \<or> map_option st_locationId legacy = Some loc) OrderValidation) (\<lambda>_.
             bindE (ensure (avail = MI_AVAILABLE) OrderValidation) (\<lambda>_.
             case truthy stationId of
               None \<Rightarrow> Inl OrderValidation
             | Some s \<Rightarrow>
                 Inr \<lparr>ri_menuItemId = mi_id m, ri_stationId = s,
                      ri_stationName = (case stationName of Some n \<Rightarrow> n | None \<Rightarrow> s),
                      ri_printerId = printerId, ri_qty = ii_qty item, ri_notes = ii_notes item,
                      ri_price = mi_price m, ri_name = mi_name m\<rparr>)))"

text \<open>Hundredths of the currency: \<open>reduce\<close> over JavaScript numbers, then \<open>toFixed(2)\<close>.\<close>

definition orderTotal :: "resolved_item list \<Rightarrow> int" where
  "orderTotal items =
     to_fixed 2 (foldl (\<lambda>s i. fl (s + fl (of_scale 2 (ri_price i) * of_nat (ri_qty i)))) 0 items)"

type_synonym station_group = "string \<times> string option \<times> resolved_item list"

definition stationGroups :: "resolved_item list \<Rightarrow> (string \<times> station_group) list" where
  "stationGroups items =
     foldl (\<lambda>m i. AList.update (ri_stationId i)
              (case map_of m (ri_stationId i) of
                 None \<Rightarrow> (ri_stationName i, ri_printerId i, [i])
               | Some (n, p, is) \<Rightarrow> (n, p, is @ [i])) m) [] items"

section \<open>Recipes\<close>

definition findIngredient :: "'z orders_db_scheme \<Rightarrow> string \<Rightarrow> ingredient option" where
  "findIngredient db i = List.find (\<lambda>x. in_id x = i) (od_ingredients db)"

definition recipeOf :: "'z orders_db_scheme \<Rightarrow> string \<Rightarrow> recipe_line list" where
  "recipeOf db m =
     filter (\<lambda>r. rl_menuItemId r = m \<and> findIngredient db (rl_ingredientId r) \<noteq> None) (od_recipes db)"

definition componentSnapshot :: "'z orders_db_scheme \<Rightarrow> string \<Rightarrow> snapshot_line list" where
  "componentSnapshot db m = map (\<lambda>r. (rl_ingredientId r, rl_portionQty r, rl_unit r)) (recipeOf db m)"

text \<open>The cost of one serving in units of \<open>10^-8\<close>: four decimals are kept.\<close>

definition unitCost :: "'z orders_db_scheme \<Rightarrow> string \<Rightarrow> int" where
  "unitCost db m =
     10000 * to_fixed 4 (foldl (\<lambda>s r. fl (s + fl (of_scale 6 (rl_portionQty r) *
        (case findIngredient db (rl_ingredientId r) of None \<Rightarrow> 0 | Some g \<Rightarrow> of_scale 8 (in_unitCost g))))) 0 (recipeOf db m))"

definition recipeUses :: "'z orders_db_scheme \<Rightarrow> resolved_item list \<Rightarrow> (resolved_item \<times> recipe_line) list" where
  "recipeUses db items = concat (map (\<lambda>i. map (\<lambda>r. (i, r)) (recipeOf db (ri_menuItemId i))) items)"

definition requiredByIngredient :: "'z orders_db_scheme \<Rightarrow> resolved_item list \<Rightarrow> (string \<times> rat) list" where
  "requiredByIngredient db items =
     accumulate (map (\<lambda>(i, r). (rl_ingredientId r, portion (rl_portionQty r) (ri_qty i))) (recipeUses db items))"

definition usageOf :: "'z orders_db_scheme \<Rightarrow> resolved_item list \<Rightarrow> string \<Rightarrow> used_by list" where
  "usageOf db items g =
     map snd (foldl (\<lambda>m (i, r).
        if rl_ingredientId r \<noteq> g then m
        else AList.update (ri_menuItemId i)
               (case map_of m (ri_menuItemId i) of
                  Some u \<Rightarrow> u\<lparr>ub_qty := ub_qty u + ri_qty i\<rparr>
                | None \<Rightarrow> \<lparr>ub_menuItemId = ri_menuItemId i, ub_name = ri_name i, ub_qty = ri_qty i,
                    ub_perServing = of_scale 6 (rl_portionQty r),
                    ub_entered = (case (rl_enteredQuantity r, truthy (rl_enteredUnit r)) of
                       (Some q, Some u) \<Rightarrow> Some (of_scale 6 q, u) | _ \<Rightarrow> None)\<rparr>) m) [] (recipeUses db items))"

section \<open>Availability\<close>

definition onHand :: "'z orders_db_scheme \<Rightarrow> string \<Rightarrow> string \<Rightarrow> int" where
  "onHand db wh g =
     (case List.find (\<lambda>r. is_warehouseId r = wh \<and> is_ingredientId r = g) (od_stock db) of
        None \<Rightarrow> 0 | Some r \<Rightarrow> is_quantity r)"

definition reserved :: "'z orders_db_scheme \<Rightarrow> string \<Rightarrow> string \<Rightarrow> int" where
  "reserved db wh g =
     sum_list (map sr_quantity (filter (\<lambda>r. sr_warehouseId r = wh \<and> sr_ingredientId r = g) (od_reservations db)))"

definition availableQty :: "'z orders_db_scheme \<Rightarrow> string \<Rightarrow> string \<Rightarrow> rat" where
  "availableQty db wh g = fl (of_scale 6 (onHand db wh g) - of_scale 6 (reserved db wh g))"

definition shortfallsAt :: "'z orders_db_scheme \<Rightarrow> string \<Rightarrow> resolved_item list \<Rightarrow> shortfall list" where
  "shortfallsAt db wh items =
     map (\<lambda>(g, required). \<lparr>sf_ingredientId = g,
            sf_name = (case findIngredient db g of Some x \<Rightarrow> in_name x | None \<Rightarrow> []),
            sf_unit = (case findIngredient db g of Some x \<Rightarrow> in_unit x | None \<Rightarrow> []),
            sf_required = required, sf_available = availableQty db wh g, sf_usedBy = usageOf db items g\<rparr>)
       (filter (\<lambda>(g, required). availableQty db wh g < required) (requiredByIngredient db items))"

section \<open>The plan\<close>

definition DEFAULT_ACCEPT_SLA_SECONDS :: nat where "DEFAULT_ACCEPT_SLA_SECONDS = 300"

definition acceptDeadline :: "listing \<Rightarrow> nat \<Rightarrow> nat option" where
  "acceptDeadline l placedAt =
     (if aa_controlMode l = API
      then Some (placedAt + (case aa_acceptSlaSeconds l of Some s \<Rightarrow> s | None \<Rightarrow> DEFAULT_ACCEPT_SLA_SECONDS) * 1000)
      else None)"

record ingest_plan =
  pl_accountId :: string
  pl_location :: string
  pl_items :: "resolved_item list"
  pl_snapshots :: "string \<Rightarrow> snapshot_line list"
  pl_costs :: "string \<Rightarrow> int"
  pl_placedAt :: nat
  pl_deadline :: "nat option"
  pl_rates :: "int option \<times> int option"
  pl_required :: "(string \<times> rat) list"
  pl_warehouseId :: "string option"
  pl_shortfalls :: "shortfall list"

definition planIngest ::
  "nat \<Rightarrow> 'z orders_db_scheme \<Rightarrow> ingest_input \<Rightarrow> listing \<Rightarrow> string \<Rightarrow> order_error + ingest_plan" where
  "planIngest now db inp l loc =
     bindE (ensure (ig_items inp \<noteq> []) OrderValidation) (\<lambda>_.
     bindE (mapE (resolveItem db loc) (ig_items inp)) (\<lambda>items.
       let placedAt = (case ig_placedAt inp of Some t \<Rightarrow> t | None \<Rightarrow> now);
           required = requiredByIngredient db items;
           wh = (if required = [] then None else kitchenOf db loc);
           short = (case wh of None \<Rightarrow> [] | Some w \<Rightarrow> shortfallsAt db w items)
       in bindE (ensure (short = [] \<or> ig_aggregator inp \<noteq> OTHER \<or> ig_allowOversell inp) (OrderInsufficientStock short)) (\<lambda>_.
          Inr \<lparr>pl_accountId = aa_id l, pl_location = loc, pl_items = items,
               pl_snapshots = componentSnapshot db, pl_costs = unitCost db,
               pl_placedAt = placedAt, pl_deadline = acceptDeadline l placedAt,
               pl_rates = resolveCommercialTermSnapshots db (aa_id l) placedAt (aa_commissionRate l),
               pl_required = required, pl_warehouseId = wh, pl_shortfalls = short\<rparr>)))"

section \<open>The transaction\<close>

definition aggregator_name :: "aggregator \<Rightarrow> string" where
  "aggregator_name a = (case a of FOODPANDA \<Rightarrow> ''FOODPANDA'' | GRABFOOD \<Rightarrow> ''GRABFOOD'' | OTHER \<Rightarrow> ''OTHER'')"

definition opt_json :: "string option \<Rightarrow> json" where
  "opt_json x = (case x of None \<Rightarrow> JNull | Some s \<Rightarrow> JStr s)"

definition kotPayload :: "brand \<Rightarrow> ingest_input \<Rightarrow> nat \<Rightarrow> station_group \<Rightarrow> json" where
  "kotPayload b inp placedAt g =
     JObj [(''type'', JStr ''KOT''), (''brand'', JStr (br_name b)),
       (''aggregator'', JStr (aggregator_name (ig_aggregator inp))), (''order_ref'', JStr (ig_externalRef inp)),
       (''station'', JStr (fst g)), (''placed_at'', JStr (toISOString placedAt)),
       (''customer'', opt_json (ig_customerName inp)),
       (''items'', JArr (map (\<lambda>i. JObj [(''qty'', JNum (nat_str (ri_qty i))), (''name'', JStr (ri_name i)),
           (''notes'', opt_json (ri_notes i))]) (snd (snd g)))),
       (''footer'', JStr ''CloudKitchen ONE'')]"

definition newOrder :: "ingest_input \<Rightarrow> ingest_plan \<Rightarrow> string \<Rightarrow> string \<Rightarrow> sales_order" where
  "newOrder inp p i code =
     \<lparr>so_id = i, so_brandId = ig_brandId inp, so_locationId = Some (pl_location p),
      so_accountId = pl_accountId p, so_aggregator = ig_aggregator inp, so_externalRef = ig_externalRef inp,
      so_orderCode = Some code, so_customerName = ig_customerName inp, so_status = OS_NEW,
      so_cancelReason = None, so_total = orderTotal (pl_items p), so_placedAt = pl_placedAt p,
      so_prepAt = None, so_readyAt = None, so_completedAt = None,
      so_commissionRate = fst (pl_rates p), so_marketingRate = snd (pl_rates p),
      so_acceptDeadlineAt = pl_deadline p\<rparr>"

definition rate_ok :: "int option \<Rightarrow> bool" where
  "rate_ok r = (case r of None \<Rightarrow> True | Some x \<Rightarrow> 0 \<le> x \<and> x \<le> 10000)"

definition insertOrderRow :: "sales_order \<Rightarrow> 'z orders_db_scheme \<Rightarrow> order_error + 'z orders_db_scheme" where
  "insertOrderRow x db =
     bindE (ensure (so_total x < 10 ^ 14) OrderNumericOverflow) (\<lambda>_.
     bindE (ensure (0 \<le> so_total x \<and> rate_ok (so_commissionRate x) \<and> rate_ok (so_marketingRate x)) OrderCheckViolation) (\<lambda>_.
     bindE (ensure (\<forall>y \<in> set (ob_orders db). so_id y \<noteq> so_id x \<and> so_orderCode y \<noteq> so_orderCode x \<and>
               \<not> (so_accountId y = so_accountId x \<and> so_externalRef y = so_externalRef x)) OrderUniqueViolation) (\<lambda>_.
     Inr (db\<lparr>ob_orders := ob_orders db @ [x], db_ids := Suc (db_ids db)\<rparr>))))"

definition newItem :: "string \<Rightarrow> ingest_plan \<Rightarrow> resolved_item \<Rightarrow> order_item" where
  "newItem orderId p i =
     \<lparr>oi_orderId = orderId, oi_menuItemId = ri_menuItemId i, oi_qty = ri_qty i, oi_stationId = ri_stationId i,
      oi_notes = ri_notes i, oi_componentSnapshot = Some (pl_snapshots p (ri_menuItemId i)),
      oi_unitPrice = ri_price i, oi_unitCost = pl_costs p (ri_menuItemId i)\<rparr>"

definition insertItems :: "string \<Rightarrow> ingest_plan \<Rightarrow> 'z orders_db_scheme \<Rightarrow> order_error + 'z orders_db_scheme" where
  "insertItems orderId p db =
     (let rows = map (newItem orderId p) (pl_items p)
      in bindE (ensure (\<forall>r \<in> set rows. oi_qty r < 2 ^ 31 \<and> oi_unitCost r < 10 ^ 20) OrderNumericOverflow) (\<lambda>_.
         bindE (ensure (\<forall>r \<in> set rows. 0 < oi_qty r) OrderCheckViolation) (\<lambda>_.
         Inr (db\<lparr>od_items := od_items db @ rows\<rparr>))))"

definition newJob :: "string \<Rightarrow> nat \<Rightarrow> string \<Rightarrow> string \<Rightarrow> station_group \<Rightarrow> json \<Rightarrow> print_job" where
  "newJob i now orderId stationId g payload =
     \<lparr>pj_id = i, pj_orderId = orderId, pj_stationId = stationId, pj_printerId = fst (snd g),
      pj_payload = payload, pj_status = PJ_PENDING, pj_error = None, pj_retries = 0,
      pj_capability = ESC_POS_KOT, pj_documentType = None, pj_contentHash = None, pj_leaseToken = None,
      pj_leaseUntil = None, pj_reprintOfId = None, pj_createdAt = now, pj_printedAt = None\<rparr>"

definition insertJob ::
  "env \<Rightarrow> nat \<Rightarrow> brand \<Rightarrow> ingest_input \<Rightarrow> ingest_plan \<Rightarrow> string \<Rightarrow> string \<times> station_group \<Rightarrow>
   'z orders_db_scheme \<times> (string \<times> string \<times> string option) list \<Rightarrow>
   order_error + 'z orders_db_scheme \<times> (string \<times> string \<times> string option) list" where
  "insertJob e now b inp p orderId sg s =
     (case s of (db, jobs) \<Rightarrow>
        let i = env_uuid e (db_ids db)
        in bindE (ensure (i \<notin> pj_id ` set (pr_jobs db)) OrderUniqueViolation) (\<lambda>_.
           Inr (db\<lparr>pr_jobs := pr_jobs db @ [newJob i now orderId (fst sg) (snd sg)
                     (kotPayload b inp (pl_placedAt p) (snd sg))],
                   db_ids := Suc (db_ids db)\<rparr>,
                jobs @ [(i, fst (snd sg), fst (snd (snd sg)))])))"

definition newReservations :: "string \<Rightarrow> ingest_plan \<Rightarrow> reservation list" where
  "newReservations orderId p =
     (case pl_warehouseId p of
        None \<Rightarrow> []
      | Some w \<Rightarrow> map (\<lambda>(g, x). \<lparr>sr_orderId = orderId, sr_ingredientId = g, sr_warehouseId = w,
                       sr_quantity = to_scale 6 (shortest x)\<rparr>) (pl_required p))"

definition insertReservations :: "reservation list \<Rightarrow> 'z orders_db_scheme \<Rightarrow> order_error + 'z orders_db_scheme" where
  "insertReservations rs db =
     bindE (mapE (\<lambda>r. column6 (sr_quantity r)) rs) (\<lambda>_.
     Inr (db\<lparr>od_reservations := od_reservations db @ rs\<rparr>))"

definition insertOrder ::
  "env \<Rightarrow> nat \<Rightarrow> brand \<Rightarrow> ingest_input \<Rightarrow> ingest_plan \<Rightarrow> string \<Rightarrow> 'z orders_db_scheme \<Rightarrow>
   order_error + 'z orders_db_scheme \<times> sales_order \<times> (string \<times> string \<times> string option) list" where
  "insertOrder e now b inp p code db =
     (let x = newOrder inp p (env_uuid e (db_ids db)) code
      in bindE (insertOrderRow x db) (\<lambda>db1.
         bindE (insertItems (so_id x) p db1) (\<lambda>db2.
         bindE (foldE (insertJob e now b inp p (so_id x)) (stationGroups (pl_items p)) (db2, [])) (\<lambda>(db3, jobs).
         bindE (insertReservations (newReservations (so_id x) p) db3) (\<lambda>db4.
         Inr (db4, x, jobs))))))"

section \<open>Duplicates and retries\<close>

definition existingOrder :: "'z orders_db_scheme \<Rightarrow> string \<Rightarrow> string \<Rightarrow> sales_order option" where
  "existingOrder db accountId ref =
     List.find (\<lambda>x. so_accountId x = accountId \<and> so_externalRef x = ref) (ob_orders db)"

definition buildDuplicateResponse :: "'z orders_db_scheme \<Rightarrow> sales_order \<Rightarrow> ingest_result" where
  "buildDuplicateResponse db x =
     \<lparr>ir_orderId = so_id x, ir_locationId = so_locationId x, ir_status = so_status x,
      ir_orderCode = so_orderCode x, ir_acceptDeadlineAt = map_option toISOString (so_acceptDeadlineAt x),
      ir_printJobs = map (\<lambda>j. (pj_id j,
          (case findStation db (pj_stationId j) of Some s \<Rightarrow> st_name s | None \<Rightarrow> pj_stationId j),
          pj_printerId j)) (filter (\<lambda>j. pj_orderId j = so_id x) (pr_jobs db)),
      ir_duplicate = True, ir_stockRisk = None\<rparr>"

definition ingestResult :: "ingest_plan \<Rightarrow> sales_order \<Rightarrow> (string \<times> string \<times> string option) list \<Rightarrow> ingest_result" where
  "ingestResult p x jobs =
     \<lparr>ir_orderId = so_id x, ir_locationId = Some (pl_location p), ir_status = so_status x,
      ir_orderCode = so_orderCode x, ir_acceptDeadlineAt = map_option toISOString (pl_deadline p),
      ir_printJobs = jobs, ir_duplicate = False,
      ir_stockRisk = (if pl_shortfalls p = [] then None else Some (pl_shortfalls p))\<rparr>"

text \<open>The loop over the attempts: one random text each.\<close>

fun insertAttempts ::
  "env \<Rightarrow> nat \<Rightarrow> (nat \<Rightarrow> 'z orders_db_scheme \<Rightarrow> 'z orders_db_scheme) \<Rightarrow> brand \<Rightarrow> ingest_input \<Rightarrow> ingest_plan \<Rightarrow>
   nat list list \<Rightarrow> 'z orders_db_scheme \<Rightarrow> 'z orders_db_scheme \<times> (order_error + ingest_result)" where
  "insertAttempts e now gap b inp p [] db = (db, Inl OrderUniqueViolation)"
| "insertAttempts e now gap b inp p (bytes # rest) db =
     (case run_tx (insertOrder e now b inp p (generateOrderCode (br_name b) (ig_aggregator inp) bytes))
             (gap (length rest) db) of
        (db1, Inr (x, jobs)) \<Rightarrow> (db1, Inr (ingestResult p x jobs))
      | (db1, Inl err) \<Rightarrow>
          if err = OrderUniqueViolation
          then (case existingOrder db1 (pl_accountId p) (ig_externalRef inp) of
                  Some x \<Rightarrow> (db1, Inr (buildDuplicateResponse db1 x))
                | None \<Rightarrow> insertAttempts e now gap b inp p rest db1)
          else (db1, Inl err))"

definition ingestOrder ::
  "env \<Rightarrow> nat \<Rightarrow> (nat \<Rightarrow> nat list) \<Rightarrow> (nat \<Rightarrow> 'z orders_db_scheme \<Rightarrow> 'z orders_db_scheme) \<Rightarrow>
   ingest_input \<Rightarrow> ingest_options \<Rightarrow> 'z orders_db_scheme \<Rightarrow> 'z orders_db_scheme \<times> (order_error + ingest_result)" where
  "ingestOrder e now rnd gap inp opts db =
     (case findBrand db (ig_brandId inp) of
        None \<Rightarrow> (db, Inl OrderNotFound)
      | Some b \<Rightarrow>
          (case resolveListing e inp opts b db of
             (db1, Inl err) \<Rightarrow> (db1, Inl err)
           | (db1, Inr (l, loc)) \<Rightarrow>
               (case existingOrder db1 (aa_id l) (ig_externalRef inp) of
                  Some x \<Rightarrow> (db1, Inr (buildDuplicateResponse db1 x))
                | None \<Rightarrow>
                    (case planIngest now db1 inp l loc of
                       Inl err \<Rightarrow> (db1, Inl err)
                     | Inr p \<Rightarrow> insertAttempts e now gap b inp p [rnd 0, rnd 1] db1))))"

end
