(* ===== verification/OrderStages.thy ===== *)
theory OrderStages
  imports OrderIngest
begin

text \<open>
  The stages of an order, \<open>advanceOrder\<close>, \<open>cancelOrder\<close> and the reads of
  \<open>src/modules/orders/service.ts\<close>. Both writers read the order first and open a transaction then:
  \<open>gap\<close> is what other requests do in between. A transaction is atomic and rolls back on a throw.
\<close>

record stock_event =
  se_ingredientId :: string
  se_name :: string
  se_quantity :: rat

record low_stock_event =
  lo_ingredientId :: string
  lo_name :: string
  lo_quantity :: rat
  lo_threshold :: rat

record advance_result =
  ar_order :: sales_order
  ar_lowStock :: "low_stock_event list"
  ar_stockUpdates :: "stock_event list"

section \<open>The deduction engine\<close>

definition isLegacyRecipeSnapshotEnabled :: "'z stock_db_scheme \<Rightarrow> bool" where
  "isLegacyRecipeSnapshotEnabled db =
     (case List.find (\<lambda>f. f_key f = ''orders.legacy_recipe_snapshot'') (db_flags db) of
        None \<Rightarrow> False | Some f \<Rightarrow> f_enabled f)"

definition itemsOf :: "'z orders_db_scheme \<Rightarrow> string \<Rightarrow> order_item list" where
  "itemsOf db orderId = filter (\<lambda>i. oi_orderId i = orderId) (od_items db)"

definition liveLines :: "'z orders_db_scheme \<Rightarrow> order_item \<Rightarrow> (string \<times> int) list" where
  "liveLines db i =
     map (\<lambda>r. (rl_ingredientId r, rl_portionQty r)) (filter (\<lambda>r. rl_menuItemId r = oi_menuItemId i) (od_recipes db))"

definition deductionLines :: "'z orders_db_scheme \<Rightarrow> order_item \<Rightarrow> (string \<times> int) list" where
  "deductionLines db i =
     (case (isLegacyRecipeSnapshotEnabled db, oi_componentSnapshot i) of
        (True, Some ls) \<Rightarrow> map (\<lambda>(g, q, _). (g, q)) ls
      | _ \<Rightarrow> liveLines db i)"

text \<open>Every use of an ingredient by the order: the portion in millionths and the number of servings.\<close>

definition orderUses :: "'z orders_db_scheme \<Rightarrow> string \<Rightarrow> (string \<times> int \<times> nat) list" where
  "orderUses db orderId =
     concat (map (\<lambda>i. map (\<lambda>(g, q). (g, q, oi_qty i)) (deductionLines db i)) (itemsOf db orderId))"

definition deductByIngredient :: "'z orders_db_scheme \<Rightarrow> string \<Rightarrow> (string \<times> rat) list" where
  "deductByIngredient db orderId =
     accumulate (map (\<lambda>(g, q, n). (g, portion q n)) (orderUses db orderId))"

definition orderKitchen :: "'z orders_db_scheme \<Rightarrow> sales_order \<Rightarrow> order_error + string" where
  "orderKitchen db x =
     bindE (case truthy (so_locationId x) of
              Some l \<Rightarrow> Inr l
            | None \<Rightarrow> (case findBrand db (so_brandId x) of None \<Rightarrow> Inl OrderInternal | Some b \<Rightarrow> Inr (br_locationId b)))
       (\<lambda>l. case kitchenOf db l of None \<Rightarrow> Inl OrderInternal | Some w \<Rightarrow> Inr w)"

definition hasStock :: "'z orders_db_scheme \<Rightarrow> string \<Rightarrow> string \<Rightarrow> bool" where
  "hasStock db wh g = (\<exists>r \<in> set (od_stock db). is_warehouseId r = wh \<and> is_ingredientId r = g)"

definition addMissingStock :: "string \<Rightarrow> string list \<Rightarrow> 'z orders_db_scheme \<Rightarrow> 'z orders_db_scheme" where
  "addMissingStock wh gs db =
     db\<lparr>od_stock := od_stock db @ map (\<lambda>g. \<lparr>is_warehouseId = wh, is_ingredientId = g, is_quantity = 0\<rparr>)
          (filter (\<lambda>g. \<not> hasStock db wh g) gs)\<rparr>"

definition deductOne ::
  "string \<Rightarrow> string option \<Rightarrow> string \<Rightarrow> string \<times> rat \<Rightarrow> 'z orders_db_scheme \<Rightarrow> order_error + 'z orders_db_scheme" where
  "deductOne orderId user wh gx db =
     (case gx of (g, x) \<Rightarrow>
        bindE (changeStock wh g (- shortest x) db) (\<lambda>db1.
        postLedger \<lparr>le_sourceModule = LM_ORDER_DEDUCTION, le_documentNo = orderId, le_lineNo = Some g,
           le_ingredientId = g, le_warehouseId = wh, le_movementType = OUT,
           le_quantity = to_scale 6 (shortest x), le_encoderUserId = user\<rparr> db1))"

definition logOf :: "string \<Rightarrow> string option \<Rightarrow> string \<Rightarrow> string \<times> rat \<Rightarrow> consumption_log" where
  "logOf orderId user wh gx =
     \<lparr>cl_ingredientId = fst gx, cl_quantity = to_scale 6 (shortest (snd gx)), cl_loggedBy = user,
      cl_orderId = Some orderId, cl_warehouseId = Some wh\<rparr>"

definition insertLogs :: "consumption_log list \<Rightarrow> 'z orders_db_scheme \<Rightarrow> order_error + 'z orders_db_scheme" where
  "insertLogs ls db =
     bindE (mapE (\<lambda>l. column6 (cl_quantity l)) ls) (\<lambda>_.
     bindE (ensure (\<forall>l \<in> set ls. 0 < cl_quantity l) OrderCheckViolation) (\<lambda>_.
     Inr (db\<lparr>od_logs := od_logs db @ ls\<rparr>)))"

definition ingredientName :: "'z orders_db_scheme \<Rightarrow> string \<Rightarrow> string" where
  "ingredientName db g = (case findIngredient db g of Some x \<Rightarrow> in_name x | None \<Rightarrow> g)"

definition stockRows :: "'z orders_db_scheme \<Rightarrow> string \<Rightarrow> string list \<Rightarrow> stock_row list" where
  "stockRows db wh gs = filter (\<lambda>r. is_warehouseId r = wh \<and> is_ingredientId r \<in> set gs) (od_stock db)"

definition stockEvent :: "'z orders_db_scheme \<Rightarrow> stock_row \<Rightarrow> stock_event" where
  "stockEvent db r =
     \<lparr>se_ingredientId = is_ingredientId r, se_name = ingredientName db (is_ingredientId r),
      se_quantity = of_scale 6 (is_quantity r)\<rparr>"

definition lowStockEvents :: "'z orders_db_scheme \<Rightarrow> stock_row list \<Rightarrow> low_stock_event list" where
  "lowStockEvents db rows =
     concat (map (\<lambda>r. let q = of_scale 6 (is_quantity r);
                         t = (case findIngredient db (is_ingredientId r) of
                                Some x \<Rightarrow> of_scale 6 (in_lowStockThreshold x) | None \<Rightarrow> 0)
                     in if q \<le> t \<or> q < 0
                        then [\<lparr>lo_ingredientId = is_ingredientId r, lo_name = ingredientName db (is_ingredientId r),
                               lo_quantity = q, lo_threshold = t\<rparr>] else []) rows)"

definition deduct ::
  "string \<Rightarrow> string option \<Rightarrow> string \<Rightarrow> 'z orders_db_scheme \<Rightarrow> order_error + 'z orders_db_scheme" where
  "deduct orderId user wh db =
     (let d = deductByIngredient db orderId
      in if d = [] then Inr db
         else bindE (foldE (deductOne orderId user wh) d (addMissingStock wh (map fst d) db)) (\<lambda>db1.
              insertLogs (map (logOf orderId user wh) d) db1))"

definition deleteReservations :: "string \<Rightarrow> 'z orders_db_scheme \<Rightarrow> 'z orders_db_scheme" where
  "deleteReservations orderId db =
     db\<lparr>od_reservations := filter (\<lambda>r. sr_orderId r \<noteq> orderId) (od_reservations db)\<rparr>"

definition startPreparing ::
  "string option \<Rightarrow> sales_order \<Rightarrow> 'z orders_db_scheme \<Rightarrow>
   order_error + 'z orders_db_scheme \<times> low_stock_event list \<times> stock_event list" where
  "startPreparing user x db =
     bindE (orderKitchen db x) (\<lambda>wh.
     bindE (deduct (so_id x) user wh db) (\<lambda>db1.
     let rows = stockRows db1 wh (map fst (deductByIngredient db (so_id x)))
     in Inr (deleteReservations (so_id x) db1, lowStockEvents db rows, map (stockEvent db) rows)))"

section \<open>advanceOrder\<close>

definition stamp :: "order_status \<Rightarrow> nat \<Rightarrow> sales_order \<Rightarrow> sales_order" where
  "stamp s now x =
     (let y = x\<lparr>so_status := s\<rparr>
      in if s = OS_PREPARING then y\<lparr>so_prepAt := Some now\<rparr>
         else if s = OS_READY then y\<lparr>so_readyAt := Some now\<rparr>
         else if s = OS_COMPLETED then y\<lparr>so_completedAt := Some now\<rparr> else y)"

definition updateStatus ::
  "string \<Rightarrow> order_status \<Rightarrow> (sales_order \<Rightarrow> sales_order) \<Rightarrow> 'z orders_db_scheme \<Rightarrow>
   order_error + 'z orders_db_scheme \<times> sales_order" where
  "updateStatus orderId expected f db =
     (case List.find (\<lambda>x. so_id x = orderId \<and> so_status x = expected) (ob_orders db) of
        None \<Rightarrow> Inl OrderConflict
      | Some x \<Rightarrow> Inr (db\<lparr>ob_orders := update_where (\<lambda>x. so_id x = orderId \<and> so_status x = expected) f (ob_orders db)\<rparr>, f x))"

definition advanceTx ::
  "nat \<Rightarrow> string \<Rightarrow> order_status \<Rightarrow> order_status \<Rightarrow> string option \<Rightarrow> 'z orders_db_scheme \<Rightarrow>
   order_error + 'z orders_db_scheme \<times> advance_result" where
  "advanceTx now orderId expected next user db =
     bindE (updateStatus orderId expected (stamp next now) db) (\<lambda>(db1, x).
     if next = OS_PREPARING
     then bindE (startPreparing user x db1) (\<lambda>(db2, low, ups).
          Inr (db2, \<lparr>ar_order = x, ar_lowStock = low, ar_stockUpdates = ups\<rparr>))
     else Inr (db1, \<lparr>ar_order = x, ar_lowStock = [], ar_stockUpdates = []\<rparr>))"

text \<open>The order as read, then the transition.\<close>

definition readAdvance :: "'z orders_db_scheme \<Rightarrow> string \<Rightarrow> order_error + order_status \<times> order_status" where
  "readAdvance db orderId =
     (case findOrder db orderId of
        None \<Rightarrow> Inl OrderNotFound
      | Some x \<Rightarrow> bindE (ensure (so_status x \<noteq> OS_CANCELLED) OrderValidation) (\<lambda>_.
                   bindE (nextStage (so_status x)) (\<lambda>next. Inr (so_status x, next))))"

text \<open>
  After the commit the hook queues a command to the aggregator; whatever it throws is logged.
  \<open>gap2\<close> is what other requests do before the hook, \<open>gap3\<close> what they do inside it.
\<close>

definition advanceOrder ::
  "env \<Rightarrow> (string \<Rightarrow> bool) \<Rightarrow> nat \<Rightarrow> ('z orders_db_scheme \<Rightarrow> 'z orders_db_scheme) \<Rightarrow>
   ('z orders_db_scheme \<Rightarrow> 'z orders_db_scheme) \<Rightarrow> ('z orders_db_scheme \<Rightarrow> 'z orders_db_scheme) \<Rightarrow>
   string \<Rightarrow> string option \<Rightarrow> 'z orders_db_scheme \<Rightarrow> 'z orders_db_scheme \<times> (order_error + advance_result)" where
  "advanceOrder e date_ok now gap gap2 gap3 orderId user db =
     (case readAdvance db orderId of
        Inl err \<Rightarrow> (db, Inl err)
      | Inr (expected, next) \<Rightarrow>
          (case run_tx (advanceTx now orderId expected next user) (gap db) of
             (db1, Inl err) \<Rightarrow> (db1, Inl err)
           | (db1, Inr r) \<Rightarrow>
               ((if next = OS_PREPARING \<or> next = OS_READY
                 then fst (enqueueLifecycleCommand e date_ok now gap3 (so_id (ar_order r))
                             (Some (so_accountId (ar_order r))) (next = OS_READY) user (gap2 db1))
                 else db1), Inr r)))"

section \<open>cancelOrder\<close>

text \<open>What the logs of the order say was taken, per warehouse and ingredient.\<close>

definition logsOf :: "'z orders_db_scheme \<Rightarrow> string \<Rightarrow> consumption_log list" where
  "logsOf db orderId = filter (\<lambda>l. cl_orderId l = Some orderId) (od_logs db)"

definition logTarget :: "'z orders_db_scheme \<Rightarrow> sales_order \<Rightarrow> consumption_log \<Rightarrow> order_error + (string \<times> string) \<times> rat" where
  "logTarget db x l =
     bindE (case cl_warehouseId l of Some w \<Rightarrow> Inr w | None \<Rightarrow> orderKitchen db x)
       (\<lambda>w. Inr ((w, cl_ingredientId l), of_scale 6 (cl_quantity l)))"

definition restockOne ::
  "string \<Rightarrow> (string \<times> string) \<times> rat \<Rightarrow> 'z orders_db_scheme \<Rightarrow> order_error + 'z orders_db_scheme" where
  "restockOne orderId kx db =
     (case kx of ((wh, g), x) \<Rightarrow>
        bindE (changeStock wh g (shortest x) db) (\<lambda>db1.
        postLedger \<lparr>le_sourceModule = LM_RESTOCK, le_documentNo = orderId, le_lineNo = Some g,
           le_ingredientId = g, le_warehouseId = wh, le_movementType = IN,
           le_quantity = to_scale 6 (shortest x), le_encoderUserId = None\<rparr> db1))"

definition deleteLogs :: "string \<Rightarrow> 'z orders_db_scheme \<Rightarrow> 'z orders_db_scheme" where
  "deleteLogs orderId db = db\<lparr>od_logs := filter (\<lambda>l. cl_orderId l \<noteq> Some orderId) (od_logs db)\<rparr>"

text \<open>One event per ingredient: the last warehouse read wins.\<close>

definition restockEvents :: "'z orders_db_scheme \<Rightarrow> (string \<times> string) list \<Rightarrow> stock_event list" where
  "restockEvents db keys =
     map snd (foldl (\<lambda>m r. AList.update (is_ingredientId r) (stockEvent db r) m) []
       (concat (map (\<lambda>wh. stockRows db wh (map snd (filter (\<lambda>k. fst k = wh) keys))) (js_distinct (map fst keys)))))"

definition restock ::
  "sales_order \<Rightarrow> 'z orders_db_scheme \<Rightarrow> order_error + 'z orders_db_scheme \<times> stock_event list" where
  "restock x db =
     (let ls = logsOf db (so_id x)
      in if ls = [] then Inr (db, [])
         else bindE (mapE (logTarget db x) ls) (\<lambda>kxs.
              let m = accumulate kxs
              in bindE (foldE (restockOne (so_id x)) m db) (\<lambda>db1.
                 Inr (deleteLogs (so_id x) db1, restockEvents db1 (map fst m)))))"

definition cancelStamp :: "string \<Rightarrow> sales_order \<Rightarrow> sales_order" where
  "cancelStamp reason x = x\<lparr>so_status := OS_CANCELLED, so_cancelReason := Some reason\<rparr>"

definition cancelTx ::
  "sales_order \<Rightarrow> string \<Rightarrow> 'z orders_db_scheme \<Rightarrow> order_error + 'z orders_db_scheme \<times> stock_event list" where
  "cancelTx x reason db =
     bindE (updateStatus (so_id x) (so_status x) (cancelStamp reason) db) (\<lambda>(db1, _).
     restock x (deleteReservations (so_id x) db1))"

definition cancelOrder ::
  "('z orders_db_scheme \<Rightarrow> 'z orders_db_scheme) \<Rightarrow> string \<Rightarrow> string option \<Rightarrow>
   'z orders_db_scheme \<Rightarrow> 'z orders_db_scheme \<times> (order_error + stock_event list)" where
  "cancelOrder gap orderId reason db =
     (let r = (case reason of Some s \<Rightarrow> trim s | None \<Rightarrow> [])
      in if r = [] \<or> 500 < length r then (db, Inl OrderValidation)
         else (case findOrder db orderId of
                 None \<Rightarrow> (db, Inl OrderNotFound)
               | Some x \<Rightarrow>
                   if so_status x = OS_CANCELLED \<or> so_status x = OS_COMPLETED then (db, Inl OrderValidation)
                   else run_tx (cancelTx x r) (gap db)))"

section \<open>Reads\<close>

record list_filters =
  lf_brandId :: "string option"
  lf_aggregator :: "aggregator option"
  lf_stationId :: "string option"
  lf_status :: "order_status list option"
  lf_from :: "nat option"
  lf_to :: "nat option"
  lf_locationIds :: "string list option"
  lf_board :: bool
  lf_limit :: "int option"

definition ORDER_LIST_MAX :: int where "ORDER_LIST_MAX = 1000"

definition OPEN_ORDER_STATUSES :: "order_status list" where
  "OPEN_ORDER_STATUSES = [OS_NEW, OS_PREPARING, OS_READY]"

definition inScope :: "'z orders_db_scheme \<Rightarrow> string list \<Rightarrow> sales_order \<Rightarrow> bool" where
  "inScope db ids x =
     (case so_locationId x of
        Some l \<Rightarrow> l \<in> set ids
      | None \<Rightarrow> \<exists>b \<in> set (od_brands db). br_locationId b \<in> set ids \<and> br_id b = so_brandId x)"

text \<open>\<open>dayStart\<close> is the start of the current business day.\<close>

definition listCondition :: "nat \<Rightarrow> 'z orders_db_scheme \<Rightarrow> list_filters \<Rightarrow> sales_order \<Rightarrow> bool" where
  "listCondition dayStart db f x \<longleftrightarrow>
     (case lf_locationIds f of None \<Rightarrow> True | Some ids \<Rightarrow> inScope db ids x) \<and>
     (case truthy (lf_brandId f) of None \<Rightarrow> True | Some b \<Rightarrow> so_brandId x = b) \<and>
     (case lf_aggregator f of None \<Rightarrow> True | Some a \<Rightarrow> so_aggregator x = a) \<and>
     (case lf_status f of None \<Rightarrow> True | Some ss \<Rightarrow> ss = [] \<or> so_status x \<in> set ss) \<and>
     (case lf_from f of None \<Rightarrow> True | Some t \<Rightarrow> t \<le> so_placedAt x) \<and>
     (case lf_to f of None \<Rightarrow> True | Some t \<Rightarrow> so_placedAt x \<le> t) \<and>
     (lf_board f \<longrightarrow> dayStart \<le> so_placedAt x \<or> so_status x \<in> set OPEN_ORDER_STATUSES) \<and>
     (case truthy (lf_stationId f) of None \<Rightarrow> True
      | Some s \<Rightarrow> \<exists>i \<in> set (od_items db). oi_orderId i = so_id x \<and> oi_stationId i = s)"

definition newest_first :: "sales_order list \<Rightarrow> sales_order list" where
  "newest_first = sort_by (\<lambda>x y. so_placedAt y < so_placedAt x \<or> so_placedAt y = so_placedAt x \<and> so_id y \<le> so_id x)"

definition listOrders :: "nat \<Rightarrow> 'z orders_db_scheme \<Rightarrow> list_filters \<Rightarrow> sales_order list" where
  "listOrders dayStart db f =
     (if lf_locationIds f = Some [] then []
      else take (nat (min (max 1 (case lf_limit f of None \<Rightarrow> ORDER_LIST_MAX | Some n \<Rightarrow> n)) ORDER_LIST_MAX))
             (newest_first (filter (listCondition dayStart db f) (ob_orders db))))"

type_synonym order_detail = "sales_order \<times> order_item list \<times> print_job list"

definition group_by :: "('a \<Rightarrow> string) \<Rightarrow> 'a list \<Rightarrow> (string \<times> 'a list) list" where
  "group_by k xs =
     foldl (\<lambda>m x. AList.update (k x) (case map_of m (k x) of None \<Rightarrow> [x] | Some ys \<Rightarrow> ys @ [x]) m) [] xs"

definition listOrdersWithDetail :: "nat \<Rightarrow> 'z orders_db_scheme \<Rightarrow> list_filters \<Rightarrow> order_detail list" where
  "listOrdersWithDetail dayStart db f =
     (let rows = listOrders dayStart db f; ids = map so_id rows;
          items = group_by oi_orderId (filter (\<lambda>i. oi_orderId i \<in> set ids) (od_items db));
          jobs = group_by pj_orderId (filter (\<lambda>j. pj_orderId j \<in> set ids) (pr_jobs db))
      in map (\<lambda>x. (x, (case map_of items (so_id x) of None \<Rightarrow> [] | Some is \<Rightarrow> is),
                      (case map_of jobs (so_id x) of None \<Rightarrow> [] | Some js \<Rightarrow> js))) rows)"

definition getOrderDetail :: "'z orders_db_scheme \<Rightarrow> string \<Rightarrow> order_detail option" where
  "getOrderDetail db orderId =
     map_option (\<lambda>x. (x, itemsOf db orderId, filter (\<lambda>j. pj_orderId j = orderId) (pr_jobs db))) (findOrder db orderId)"

end
