(* ===== verification/OrderLaws.thy ===== *)
theory OrderLaws
  imports OrderStages
begin

text \<open>
  Laws of the kitchen: what a \<open>Map\<close> of totals holds, how the balances move, and the invariant of the
  transactions that take, advance and cancel orders. \<open>used\<close> is the exact use of an ingredient in
  millionths; \<open>uses_ok\<close> bounds it so that the floating-point totals are written exactly.
\<close>

section \<open>Totals per key\<close>

definition values_of :: "'k \<Rightarrow> ('k \<times> 'v) list \<Rightarrow> 'v list" where
  "values_of k kxs = map snd (filter (\<lambda>p. fst p = k) kxs)"

lemma values_of_simps [simp]:
  "values_of k [] = []"
  "values_of k ((j, x) # kxs) = (if j = k then x # values_of k kxs else values_of k kxs)"
  "values_of k (kxs @ kys) = values_of k kxs @ values_of k kys"
  by (simp_all add: values_of_def)

lemma values_of_empty_iff: "values_of k kxs = [] \<longleftrightarrow> k \<notin> fst ` set kxs"
  by (auto simp: values_of_def filter_empty_conv image_iff)

lemma accumulate_snoc: "accumulate (kxs @ [(k, x)]) = map_add k x (accumulate kxs)"
  by (simp add: accumulate_def)

lemma sum_numbers_snoc: "sum_numbers (xs @ [x]) = fl (sum_numbers xs + x)"
  by (simp add: sum_numbers_def)

lemma map_of_accumulate:
  "map_of (accumulate kxs) k = (if values_of k kxs = [] then None else Some (sum_numbers (values_of k kxs)))"
proof (induction kxs rule: rev_induct)
  case Nil
  then show ?case by (simp add: accumulate_def)
next
  case (snoc p kxs)
  obtain j x where p: "p = (j, x)" by fastforce
  show ?case using snoc.IH
    by (auto simp: p accumulate_snoc map_add_def update_conv sum_numbers_snoc) (simp_all add: sum_numbers_def)
qed

lemma distinct_accumulate [simp]: "distinct (map fst (accumulate kxs))"
proof (induction kxs rule: rev_induct)
  case Nil
  then show ?case by (simp add: accumulate_def)
next
  case (snoc p kxs)
  then show ?case by (cases p) (simp add: accumulate_snoc map_add_def distinct_update)
qed

lemma keys_accumulate: "fst ` set (accumulate kxs) = fst ` set kxs"
proof -
  have "k \<in> fst ` set (accumulate kxs) \<longleftrightarrow> k \<in> fst ` set kxs" for k
    using map_of_accumulate [of kxs k] map_of_eq_None_iff [of "accumulate kxs" k]
    by (cases "k \<in> fst ` set kxs") (simp_all add: values_of_empty_iff)
  then show ?thesis by blast
qed

lemma accumulate_mem:
  assumes "(k, x) \<in> set (accumulate kxs)"
  shows "x = sum_numbers (values_of k kxs)" and "values_of k kxs \<noteq> []"
proof -
  have "map_of (accumulate kxs) k = Some x" using assms by simp
  then show "x = sum_numbers (values_of k kxs)" "values_of k kxs \<noteq> []"
    by (simp_all add: map_of_accumulate split: if_splits)
qed

section \<open>Exact use\<close>

definition used :: "(string \<times> int \<times> nat) list \<Rightarrow> string \<Rightarrow> int" where
  "used us g = sum_list (map (\<lambda>(q, n). q * int n) (values_of g us))"

definition uses_ok :: "(string \<times> int \<times> nat) list \<Rightarrow> bool" where
  "uses_ok us \<longleftrightarrow> (\<forall>(g, q, n) \<in> set us. 0 < q \<and> 0 < n \<and>
     (int (length (values_of g us)) + 4) * used us g < 2 ^ 51)"

lemma near_uses:
  assumes "\<forall>(g, q, n) \<in> set us. 0 < q \<and> 0 < n"
  shows "list_all2 near (values_of g (map (\<lambda>(g, q, n). (g, portion q n)) us)) (map (\<lambda>(q, n). q * int n) (values_of g us))"
  using assms by (induction us) (auto simp: portion_def intro: near_product)

lemma values_of_length: "length (values_of g (map (\<lambda>(g, q, n). (g, portion q n)) us)) = length (values_of g us)"
  by (induction us) auto

text \<open>Writing the total of an ingredient is exact.\<close>

lemma total_exact:
  assumes "uses_ok us" and "(g, x) \<in> set (accumulate (map (\<lambda>(g, q, n). (g, portion q n)) us))"
  shows "to_scale 6 (shortest x) = used us g"
    and "column_add c (- shortest x) = c - used us g"
    and "0 < used us g" and "5 * used us g < 2 ^ 51"
proof -
  define xs where "xs = values_of g (map (\<lambda>(g, q, n). (g, portion q n)) us)"
  define ks where "ks = map (\<lambda>(q, n). q * int n) (values_of g us)"
  have x: "x = sum_numbers xs" "xs \<noteq> []" using accumulate_mem [OF assms(2)] by (simp_all add: xs_def)
  have len: "length xs = length (values_of g us)" by (simp add: xs_def values_of_length)
  have pos: "\<forall>(g, q, n) \<in> set us. 0 < q \<and> 0 < n" using assms(1) unfolding uses_ok_def by fast
  have near: "list_all2 near xs ks" unfolding xs_def ks_def by (rule near_uses [OF pos])
  have "values_of g us \<noteq> []" using x(2) len by auto
  then obtain q n where "(g, q, n) \<in> set us" by (force simp: values_of_empty_iff)
  then have "(int (length (values_of g us)) + 4) * used us g < 2 ^ 51" using assms(1) unfolding uses_ok_def by fast
  then have b: "(int (length xs) + 4) * sum_list ks < 2 ^ 51" by (simp add: len used_def ks_def)
  have u: "sum_list ks = used us g" by (simp add: used_def ks_def)
  show "to_scale 6 (shortest x) = used us g" "column_add c (- shortest x) = c - used us g"
    using written_exact [OF near x(2) b] x(1) u by simp_all
  have "list_all (\<lambda>k. 1 \<le> k) ks" using near by (auto simp: list_all2_conv_all_nth list_all_length near_def)
  moreover have "ks \<noteq> []" using near x(2) by auto
  ultimately show p: "0 < used us g"
    unfolding u [symmetric] by (cases ks) (auto simp: list_all_iff intro!: add_pos_nonneg sum_list_nonneg)
  have "5 * used us g \<le> (int (length xs) + 4) * used us g"
    using p x(2) by (intro mult_right_mono) (cases xs; simp)+
  with b u show "5 * used us g < 2 ^ 51" by simp
qed

lemma used_absent: "g \<notin> fst ` set us \<Longrightarrow> used us g = 0"
  by (simp add: used_def flip: values_of_empty_iff)

section \<open>Balances\<close>

definition stock_sum :: "'z orders_db_scheme \<Rightarrow> string \<Rightarrow> string \<Rightarrow> int" where
  "stock_sum db w g = sum_list (map is_quantity (filter (\<lambda>r. is_warehouseId r = w \<and> is_ingredientId r = g) (od_stock db)))"

definition stock_keyed :: "'z orders_db_scheme \<Rightarrow> bool" where
  "stock_keyed db \<longleftrightarrow> distinct (map (\<lambda>r. (is_warehouseId r, is_ingredientId r)) (od_stock db))"

text \<open>The ledger: what its entries say moved in, less what moved out.\<close>

definition entry_net :: "ledger_entry \<Rightarrow> int" where
  "entry_net x = (if le_movementType x = IN then le_quantity x else - le_quantity x)"

definition entries_net :: "'z orders_db_scheme \<Rightarrow> string \<Rightarrow> string \<Rightarrow> int" where
  "entries_net db w g =
     sum_list (map entry_net (filter (\<lambda>x. le_warehouseId x = w \<and> le_ingredientId x = g) (od_entries db)))"

definition entry_key :: "ledger_entry \<Rightarrow> entry_module \<times> string \<times> string option" where
  "entry_key x = (le_sourceModule x, le_documentNo x, le_lineNo x)"

lemma hasStock_keys: "hasStock db w g \<longleftrightarrow> (w, g) \<in> set (map (\<lambda>r. (is_warehouseId r, is_ingredientId r)) (od_stock db))"
  by (auto simp: hasStock_def)

lemma rows_with_key:
  assumes "distinct (map key rows)" and "r \<in> set rows"
  shows "filter (\<lambda>s. key s = key r) rows = [r]"
  using assms
  by (induction rows) (auto simp: filter_empty_conv, metis image_eqI)

lemma changeStock_ok:
  assumes "changeStock wh g x db = Inr db'" and "stock_keyed db" and "hasStock db wh g"
  shows "stock_sum db' w h = (if w = wh \<and> h = g then column_add (stock_sum db wh g) x else stock_sum db w h)"
    and "stock_keyed db'" and "hasStock db' w h = hasStock db w h"
    and "\<exists>s. db' = db\<lparr>od_stock := s\<rparr>"
proof -
  define hit where "hit = (\<lambda>r :: stock_row. is_warehouseId r = wh \<and> is_ingredientId r = g)"
  define f where "f = (\<lambda>r :: stock_row. r\<lparr>is_quantity := column_add (is_quantity r) x\<rparr>)"
  have db': "db' = db\<lparr>od_stock := update_where hit f (od_stock db)\<rparr>"
    using assms(1) by (simp add: changeStock_def Let_def hit_def f_def split: if_splits)
  have key: "map (\<lambda>r. (is_warehouseId r, is_ingredientId r)) (update_where hit f rows) =
      map (\<lambda>r. (is_warehouseId r, is_ingredientId r)) rows" for rows
    by (simp add: update_where_def f_def)
  show "stock_keyed db'" using assms(2) by (simp add: stock_keyed_def db' key)
  show "hasStock db' w h = hasStock db w h" unfolding hasStock_keys by (simp add: db' key del: set_map)
  show "\<exists>s. db' = db\<lparr>od_stock := s\<rparr>" using db' by blast
  show "stock_sum db' w h = (if w = wh \<and> h = g then column_add (stock_sum db wh g) x else stock_sum db w h)"
  proof (cases "w = wh \<and> h = g")
    case False
    have "filter (\<lambda>r. is_warehouseId r = w \<and> is_ingredientId r = h) (update_where hit f rows) =
        filter (\<lambda>r. is_warehouseId r = w \<and> is_ingredientId r = h) rows" for rows
      using False by (induction rows) (auto simp: update_where_def hit_def f_def)
    then have "stock_sum db' w h = stock_sum db w h" by (simp add: stock_sum_def db')
    with False show ?thesis by (simp only: if_False)
  next
    case True
    obtain r where r: "r \<in> set (od_stock db)" "hit r" using assms(3) by (auto simp: hasStock_def hit_def)
    have one: "filter hit (od_stock db) = [r]"
      using rows_with_key [OF assms(2) [unfolded stock_keyed_def] r(1)] r(2) by (simp add: hit_def)
    have "filter hit (update_where hit f rows) = map f (filter hit rows)" for rows
      by (induction rows) (auto simp: update_where_def hit_def f_def)
    then show ?thesis using True one by (simp add: stock_sum_def db' f_def flip: hit_def)
  qed
qed

lemma postLedger_ok:
  assumes "postLedger x db = Inr db'"
  shows "0 < le_quantity x" and "\<exists>es. db' = db\<lparr>od_entries := es\<rparr>"
    and "entry_key x \<notin> entry_key ` set (od_entries db) \<Longrightarrow> db' = db\<lparr>od_entries := od_entries db @ [x]\<rparr>"
    and "set (od_entries db') \<subseteq> insert x (set (od_entries db))"
proof -
  from assms show "0 < le_quantity x" by (auto simp: postLedger_def res_iff)
  have d: "db' = (if \<exists>y \<in> set (od_entries db). le_sourceModule y = le_sourceModule x \<and> le_documentNo y = le_documentNo x \<and>
               le_lineNo y = le_lineNo x \<and> le_lineNo x \<noteq> None
          then db else db\<lparr>od_entries := od_entries db @ [x]\<rparr>)" (is "_ = (if ?c then _ else _)")
    using assms by (auto simp: postLedger_def res_iff)
  have "db = db\<lparr>od_entries := od_entries db\<rparr>" by simp
  with d show "\<exists>es. db' = db\<lparr>od_entries := es\<rparr>" by metis
  show "set (od_entries db') \<subseteq> insert x (set (od_entries db))" unfolding d by (cases ?c) auto
  assume "entry_key x \<notin> entry_key ` set (od_entries db)"
  then have "\<not> ?c" by (auto simp: entry_key_def image_iff)
  with d show "db' = db\<lparr>od_entries := od_entries db @ [x]\<rparr>" by simp
qed

lemma addMissingStock_ok:
  assumes "stock_keyed db" and "distinct gs"
  shows "stock_keyed (addMissingStock wh gs db)"
    and "stock_sum (addMissingStock wh gs db) w h = stock_sum db w h"
    and "g \<in> set gs \<Longrightarrow> hasStock (addMissingStock wh gs db) wh g"
    and "hasStock db w h \<Longrightarrow> hasStock (addMissingStock wh gs db) w h"
proof -
  define new where "new = filter (\<lambda>g. \<not> hasStock db wh g) gs"
  have s: "od_stock (addMissingStock wh gs db) = od_stock db @
      map (\<lambda>g. \<lparr>is_warehouseId = wh, is_ingredientId = g, is_quantity = 0\<rparr>) new"
    by (simp add: addMissingStock_def new_def)
  have "distinct (map (Pair wh) new)" using assms(2) by (simp add: new_def distinct_map inj_on_def)
  moreover have "(wh, g) \<notin> (\<lambda>r. (is_warehouseId r, is_ingredientId r)) ` set (od_stock db)" if "g \<in> set new" for g
    using that by (auto simp: new_def hasStock_def)
  ultimately show "stock_keyed (addMissingStock wh gs db)"
    using assms(1) by (auto simp: stock_keyed_def s comp_def)
  have "sum_list (map is_quantity (filter P (map (\<lambda>g. \<lparr>is_warehouseId = wh, is_ingredientId = g, is_quantity = 0\<rparr>) new))) = 0" for P
    by (induction new) auto
  then show "stock_sum (addMissingStock wh gs db) w h = stock_sum db w h" by (simp add: stock_sum_def s)
  show "g \<in> set gs \<Longrightarrow> hasStock (addMissingStock wh gs db) wh g"
    by (cases "hasStock db wh g") (auto simp: s new_def hasStock_def [of "addMissingStock wh gs db"] bex_Un image_iff, auto simp: hasStock_def)
  show "hasStock db w h \<Longrightarrow> hasStock (addMissingStock wh gs db) w h" by (auto simp: hasStock_def s)
qed

section \<open>The deduction\<close>

text \<open>What a batch of changes may touch.\<close>

definition stock_frame6 :: "'z orders_db_scheme \<Rightarrow> 'z orders_db_scheme \<Rightarrow> bool" where
  "stock_frame6 db db' \<longleftrightarrow> (\<exists>s es. db' = db\<lparr>od_stock := s, od_entries := es\<rparr>)"

lemma stock_frame6_refl [simp]: "stock_frame6 db db"
proof -
  have "db = db\<lparr>od_stock := od_stock db, od_entries := od_entries db\<rparr>" by simp
  then show ?thesis unfolding stock_frame6_def by blast
qed

lemma stock_frame6_trans: "stock_frame6 db db1 \<Longrightarrow> stock_frame6 db1 db2 \<Longrightarrow> stock_frame6 db db2"
  by (force simp: stock_frame6_def)

lemma stock_frame6_fields:
  assumes "stock_frame6 db db'"
  shows "ob_orders db' = ob_orders db" and "od_logs db' = od_logs db" and "od_reservations db' = od_reservations db"
    and "od_items db' = od_items db" and "od_recipes db' = od_recipes db" and "od_menu db' = od_menu db"
    and "db_flags db' = db_flags db" and "db_warehouses db' = db_warehouses db" and "od_brands db' = od_brands db"
  using assms by (auto simp: stock_frame6_def)

text \<open>
  A loop that changes one balance per turn and books one entry: the keys are distinct, the rows exist
  and the entries are new.
\<close>

definition booked :: "('a \<Rightarrow> ledger_entry) \<Rightarrow> 'a list \<Rightarrow> string \<Rightarrow> string \<Rightarrow> int" where
  "booked en as w h = sum_list (map (\<lambda>a. if le_warehouseId (en a) = w \<and> le_ingredientId (en a) = h then entry_net (en a) else 0) as)"

definition books_each ::
  "('a \<Rightarrow> 'z orders_db_scheme \<Rightarrow> order_error + 'z orders_db_scheme) \<Rightarrow> ('a \<Rightarrow> ledger_entry) \<Rightarrow> ('a \<Rightarrow> rat) \<Rightarrow> 'a list \<Rightarrow> bool" where
  "books_each f en x as \<longleftrightarrow> (\<forall>a \<in> set as. (\<forall>t t'. f a t = Inr t' \<longrightarrow>
       (\<exists>t1. changeStock (le_warehouseId (en a)) (le_ingredientId (en a)) (x a) t = Inr t1 \<and> postLedger (en a) t1 = Inr t')) \<and>
     (\<forall>c. column_add c (x a) = c + entry_net (en a)))"

definition bookable :: "('a \<Rightarrow> ledger_entry) \<Rightarrow> 'a list \<Rightarrow> 'z orders_db_scheme \<Rightarrow> bool" where
  "bookable en as db \<longleftrightarrow> stock_keyed db \<and> distinct (map (entry_key \<circ> en) as) \<and>
     (\<forall>a \<in> set as. hasStock db (le_warehouseId (en a)) (le_ingredientId (en a)) \<and>
        entry_key (en a) \<notin> entry_key ` set (od_entries db))"

lemma booking_turn:
  assumes books: "books_each f en x (a # as)" and ready: "bookable en (a # as) db" and run: "f a db = Inr t"
  shows "stock_sum t w h = stock_sum db w h + booked en [a] w h" and "od_entries t = od_entries db @ [en a]"
    and "\<And>w h. hasStock t w h = hasStock db w h" and "stock_frame6 db t" and "bookable en as t"
proof -
  from books run obtain db1 where c: "changeStock (le_warehouseId (en a)) (le_ingredientId (en a)) (x a) db = Inr db1"
    and l: "postLedger (en a) db1 = Inr t" unfolding books_each_def by (meson list.set_intros(1))
  have h: "hasStock db (le_warehouseId (en a)) (le_ingredientId (en a))" "stock_keyed db" using ready by (simp_all add: bookable_def)
  note ok = changeStock_ok [OF c h(2,1)]
  from ok(4) obtain s where s: "db1 = db\<lparr>od_stock := s\<rparr>" by blast
  have "entry_key (en a) \<notin> entry_key ` set (od_entries db1)" using ready by (simp add: bookable_def s)
  from postLedger_ok(3) [OF l this] have tdb: "t = db\<lparr>od_stock := s, od_entries := od_entries db @ [en a]\<rparr>" by (simp add: s)
  have sums: "stock_sum t w h = stock_sum db1 w h" for w h by (simp add: tdb s stock_sum_def)
  have e: "column_add c (x a) = c + entry_net (en a)" for c using books by (simp add: books_each_def)
  show "stock_sum t w h = stock_sum db w h + booked en [a] w h" using ok(1) [of w h] by (auto simp: sums booked_def e)
  show "od_entries t = od_entries db @ [en a]" by (simp add: tdb)
  show has: "hasStock t w h = hasStock db w h" for w h using ok(3) [of w h] by (simp add: tdb s hasStock_def)
  show "stock_frame6 db t" unfolding stock_frame6_def tdb by blast
  have "stock_keyed t" using ok(2) by (simp add: tdb s stock_keyed_def)
  moreover have "entry_key (en b) \<notin> entry_key ` set (od_entries t)" if "b \<in> set as" for b
    using ready that by (auto simp: tdb image_iff bookable_def)
  ultimately show "bookable en as t" using ready has by (simp add: bookable_def)
qed

lemma booking_loop:
  assumes "foldE f as db = Inr db'" and "books_each f en x as" and "bookable en as db"
  shows "(\<forall>w h. stock_sum db' w h = stock_sum db w h + booked en as w h) \<and> od_entries db' = od_entries db @ map en as \<and>
    stock_keyed db' \<and> (\<forall>w h. hasStock db' w h = hasStock db w h) \<and> stock_frame6 db db'"
  using assms
proof (induction as arbitrary: db)
  case Nil
  then show ?case by (simp add: booked_def bookable_def)
next
  case (Cons a as)
  from Cons.prems(1) obtain t where t: "f a db = Inr t" "foldE f as t = Inr db'" by (auto simp: res_iff)
  note T = booking_turn [OF Cons.prems(2,3) t(1)]
  have "books_each f en x as" using Cons.prems(2) by (simp add: books_each_def)
  from Cons.IH [OF t(2) this T(5)] show ?case
    using T(1-3) stock_frame6_trans [OF T(4)] by (simp add: booked_def)
qed

lemma entries_booked:
  assumes "od_entries db' = od_entries db @ map en as"
  shows "entries_net db' w h = entries_net db w h + booked en as w h"
proof -
  have "sum_list (map entry_net (filter (\<lambda>x. le_warehouseId x = w \<and> le_ingredientId x = h) (map en as))) = booked en as w h"
    by (induction as) (auto simp: booked_def)
  then show ?thesis by (simp add: entries_net_def assms)
qed

lemma sum_single_key:
  fixes F :: "'k \<times> 'v \<Rightarrow> int"
  assumes "distinct (map fst kxs)"
  shows "sum_list (map (\<lambda>p. if fst p = k then F p else 0) kxs) = (case map_of kxs k of None \<Rightarrow> 0 | Some x \<Rightarrow> F (k, x))"
  using assms
proof (induction kxs)
  case (Cons p kxs)
  show ?case
  proof (cases "fst p = k")
    case True
    with Cons.prems have "map_of kxs k = None" by (auto simp: map_of_eq_None_iff)
    with Cons True show ?thesis by (cases p) auto
  qed (use Cons in \<open>cases p; auto\<close>)
qed simp

definition deductEntry :: "string \<Rightarrow> string option \<Rightarrow> string \<Rightarrow> string \<times> rat \<Rightarrow> ledger_entry" where
  "deductEntry orderId user wh gx =
     \<lparr>le_sourceModule = LM_ORDER_DEDUCTION, le_documentNo = orderId, le_lineNo = Some (fst gx),
      le_ingredientId = fst gx, le_warehouseId = wh, le_movementType = OUT,
      le_quantity = to_scale 6 (shortest (snd gx)), le_encoderUserId = user\<rparr>"

lemma deductEntry_fields [simp]:
  "le_warehouseId (deductEntry o' u wh gx) = wh" "le_ingredientId (deductEntry o' u wh gx) = fst gx"
  "entry_key (deductEntry o' u wh gx) = (LM_ORDER_DEDUCTION, o', Some (fst gx))"
  "entry_net (deductEntry o' u wh gx) = - to_scale 6 (shortest (snd gx))"
  by (simp_all add: deductEntry_def entry_key_def entry_net_def)

lemma insertLogs_ok:
  assumes "insertLogs ls db = Inr db'"
  shows "db' = db\<lparr>od_logs := od_logs db @ ls\<rparr>" and "\<forall>l \<in> set ls. 0 < cl_quantity l"
  using assms by (auto simp: insertLogs_def res_iff)

lemma deduct_map:
  assumes "uses_ok us" and "d = accumulate (map (\<lambda>(g, q, n). (g, portion q n)) us)"
  shows "(case map_of d h of None \<Rightarrow> 0 | Some x \<Rightarrow> - to_scale 6 (shortest x)) = - used us h"
proof (cases "map_of d h")
  case None
  then have "h \<notin> fst ` set d" by (simp add: map_of_eq_None_iff)
  then have "used us h = 0" unfolding assms(2) keys_accumulate by (intro used_absent) (auto simp: image_iff split_beta)
  with None show ?thesis by simp
next
  case (Some x)
  then have "(h, x) \<in> set d" by (rule map_of_SomeD)
  with Some show ?thesis using total_exact(1) [OF assms(1)] by (simp add: assms(2))
qed

lemma deduct_ok:
  assumes run: "deduct orderId user wh db = Inr db'" and keyed: "stock_keyed db"
    and uses: "uses_ok (orderUses db orderId)"
    and fresh: "\<forall>x \<in> set (od_entries db). \<not> (le_sourceModule x = LM_ORDER_DEDUCTION \<and> le_documentNo x = orderId)"
  shows "stock_sum db' w h = stock_sum db w h - (if w = wh then used (orderUses db orderId) h else 0)"
    and "entries_net db' w h = entries_net db w h - (if w = wh then used (orderUses db orderId) h else 0)"
    and "stock_keyed db'" and "hasStock db w h \<Longrightarrow> hasStock db' w h"
    and "od_logs db' = od_logs db @ map (logOf orderId user wh) (deductByIngredient db orderId)"
    and "od_entries db' = od_entries db @ map (deductEntry orderId user wh) (deductByIngredient db orderId)"
    and "g \<in> fst ` set (deductByIngredient db orderId) \<Longrightarrow> hasStock db' wh g"
    and "\<exists>s es ls. db' = db\<lparr>od_stock := s, od_entries := es, od_logs := ls\<rparr>"
proof -
  define us where "us = orderUses db orderId"
  define d where "d = deductByIngredient db orderId"
  have d: "d = accumulate (map (\<lambda>(g, q, n). (g, portion q n)) us)" by (simp add: d_def us_def deductByIngredient_def)
  note exact = total_exact [OF uses [folded us_def]]
  define db0 where "db0 = addMissingStock wh (map fst d) db"
  have dist: "distinct (map fst d)" by (simp add: d)
  note missing = addMissingStock_ok [OF keyed dist, where wh = wh, folded db0_def]
  have db0: "\<exists>s. db0 = db\<lparr>od_stock := s\<rparr>" by (auto simp: db0_def addMissingStock_def)
  then obtain s0 where s0: "db0 = db\<lparr>od_stock := s0\<rparr>" by blast
  have "\<exists>db1. foldE (deductOne orderId user wh) d db0 = Inr db1 \<and> insertLogs (map (logOf orderId user wh) d) db1 = Inr db'"
  proof (cases "d = []")
    case True
    with run have "db' = db" by (simp add: deduct_def flip: d_def)
    then show ?thesis by (simp add: True db0_def addMissingStock_def insertLogs_def)
  next
    case False
    with run show ?thesis by (auto simp: deduct_def Let_def db0_def res_iff simp flip: d_def)
  qed
  then obtain db1 where loop: "foldE (deductOne orderId user wh) d db0 = Inr db1"
    and logs: "insertLogs (map (logOf orderId user wh) d) db1 = Inr db'" by blast
  have nodup: "distinct (map (entry_key \<circ> deductEntry orderId user wh) d)"
  proof -
    have "map (entry_key \<circ> deductEntry orderId user wh) d = map (\<lambda>g. (LM_ORDER_DEDUCTION, orderId, Some g)) (map fst d)" by simp
    with dist show ?thesis by (simp only: distinct_map) (auto simp: inj_on_def)
  qed
  have new: "entry_key (deductEntry orderId user wh a) \<notin> entry_key ` set (od_entries db0)" for a
    using fresh by (force simp: s0 entry_key_def image_iff deductEntry_def)
  have "books_each (deductOne orderId user wh) (deductEntry orderId user wh) (\<lambda>a. - shortest (snd a)) d"
    using exact(1,2) by (auto simp: books_each_def deductOne_def deductEntry_def entry_net_def res_iff d)
  moreover have "bookable (deductEntry orderId user wh) d db0" using missing(1,3) nodup new by (simp add: bookable_def)
  ultimately have L: "stock_sum db1 w h = stock_sum db0 w h + booked (deductEntry orderId user wh) d w h"
    "od_entries db1 = od_entries db0 @ map (deductEntry orderId user wh) d" "stock_keyed db1"
    "hasStock db1 w h = hasStock db0 w h" "stock_frame6 db0 db1" for w h
    using booking_loop [OF loop] by blast+
  have bk: "booked (deductEntry orderId user wh) d w h = - (if w = wh then used us h else 0)" for w h
  proof (cases "w = wh")
    case True
    have "booked (deductEntry orderId user wh) d w h = sum_list (map (\<lambda>a. if fst a = h then - to_scale 6 (shortest (snd a)) else 0) d)"
      by (simp add: booked_def True cong: if_cong)
    also have "\<dots> = - used us h"
      using sum_single_key [OF dist, of h "\<lambda>a. - to_scale 6 (shortest (snd a))"] deduct_map [OF uses [folded us_def] d, of h] by (simp cong: option.case_cong)
    finally show ?thesis using True by simp
  qed (simp add: booked_def)
  note out = insertLogs_ok(1) [OF logs]
  have same: "stock_sum db' w h = stock_sum db1 w h" "hasStock db' w h = hasStock db1 w h" for w h
    by (simp_all add: out stock_sum_def hasStock_def)
  show "stock_sum db' w h = stock_sum db w h - (if w = wh then used (orderUses db orderId) h else 0)"
    by (simp add: same L(1) missing(2) bk us_def)
  show entries: "od_entries db' = od_entries db @ map (deductEntry orderId user wh) (deductByIngredient db orderId)"
    by (simp add: out L(2) s0 flip: d_def)
  show "entries_net db' w h = entries_net db w h - (if w = wh then used (orderUses db orderId) h else 0)"
    using entries_booked [OF entries] bk by (simp add: us_def flip: d_def)
  show "stock_keyed db'" using L(3) by (simp add: out stock_keyed_def)
  show "hasStock db w h \<Longrightarrow> hasStock db' w h" by (simp add: same L(4) missing(4))
  show "g \<in> fst ` set (deductByIngredient db orderId) \<Longrightarrow> hasStock db' wh g"
    unfolding d_def [symmetric] by (simp add: same L(4) missing(3))
  show "od_logs db' = od_logs db @ map (logOf orderId user wh) (deductByIngredient db orderId)"
    using stock_frame6_fields(2) [OF L(5)] by (simp add: out s0 flip: d_def)
  show "\<exists>s es ls. db' = db\<lparr>od_stock := s, od_entries := es, od_logs := ls\<rparr>"
    using L(5) by (auto simp: out s0 stock_frame6_def)
qed

end
