(* ===== verification/OrderSteps.thy ===== *)
theory OrderSteps
  imports OrderLaws
begin

text \<open>
  The transactions that take, advance and cancel orders as steps, and their invariant: what a
  consumption log, a reservation and a ledger entry say about the status of their order.
\<close>

section \<open>The restock\<close>

definition taken_by :: "consumption_log list \<Rightarrow> string \<Rightarrow> string \<Rightarrow> int" where
  "taken_by ls w h =
     sum_list (map cl_quantity (filter (\<lambda>l. cl_warehouseId l = Some w \<and> cl_ingredientId l = h) ls))"

definition log_ok :: "'z orders_db_scheme \<Rightarrow> consumption_log \<Rightarrow> bool" where
  "log_ok db l \<longleftrightarrow> (case cl_warehouseId l of None \<Rightarrow> False | Some w \<Rightarrow> hasStock db w (cl_ingredientId l)) \<and>
     0 < cl_quantity l \<and> 5 * cl_quantity l < 2 ^ 51"

definition restockEntry :: "string \<Rightarrow> (string \<times> string) \<times> rat \<Rightarrow> ledger_entry" where
  "restockEntry orderId kx =
     \<lparr>le_sourceModule = LM_RESTOCK, le_documentNo = orderId, le_lineNo = Some (snd (fst kx)),
      le_ingredientId = snd (fst kx), le_warehouseId = fst (fst kx), le_movementType = IN,
      le_quantity = to_scale 6 (shortest (snd kx)), le_encoderUserId = None\<rparr>"

lemma restockEntry_fields [simp]:
  "le_warehouseId (restockEntry o' kx) = fst (fst kx)" "le_ingredientId (restockEntry o' kx) = snd (fst kx)"
  "entry_key (restockEntry o' kx) = (LM_RESTOCK, o', Some (snd (fst kx)))"
  "entry_net (restockEntry o' kx) = to_scale 6 (shortest (snd kx))"
  by (simp_all add: restockEntry_def entry_key_def entry_net_def)

lemma one_value_exact:
  assumes "0 < q" and "5 * q < 2 ^ 51"
  shows "to_scale 6 (shortest (sum_numbers [of_scale 6 q])) = q"
    and "column_add c (shortest (sum_numbers [of_scale 6 q])) = c + q"
proof -
  have "list_all2 near [of_scale 6 q] [q]" using near_quantity [of q] assms(1) by simp
  from written_exact [OF this] assms(2) show "to_scale 6 (shortest (sum_numbers [of_scale 6 q])) = q"
    "column_add c (shortest (sum_numbers [of_scale 6 q])) = c + q" by simp_all
qed

lemma values_of_distinct:
  assumes "distinct (map fst kxs)" and "(k, x) \<in> set kxs"
  shows "values_of k kxs = [x]"
  using rows_with_key [OF assms] by (simp add: values_of_def)

lemma restock_ok:
  assumes run: "restock x db = Inr (db', evs)" and keyed: "stock_keyed db"
    and logs: "\<forall>l \<in> set (logsOf db (so_id x)). log_ok db l" and dist: "distinct (map cl_ingredientId (logsOf db (so_id x)))"
    and fresh: "\<forall>y \<in> set (od_entries db). \<not> (le_sourceModule y = LM_RESTOCK \<and> le_documentNo y = so_id x)"
  shows "stock_sum db' w h = stock_sum db w h + taken_by (logsOf db (so_id x)) w h"
    and "entries_net db' w h = entries_net db w h + taken_by (logsOf db (so_id x)) w h"
    and "stock_keyed db'" and "hasStock db' w h = hasStock db w h"
    and "od_logs db' = filter (\<lambda>l. cl_orderId l \<noteq> Some (so_id x)) (od_logs db)"
    and "\<exists>m. od_entries db' = od_entries db @ map (restockEntry (so_id x)) m"
    and "\<exists>s es ls. db' = db\<lparr>od_stock := s, od_entries := es, od_logs := ls\<rparr>"
proof -
  define ls where "ls = logsOf db (so_id x)"
  define en where "en = restockEntry (so_id x)"
  define kq where "kq = (\<lambda>l :: consumption_log. ((the (cl_warehouseId l), cl_ingredientId l), cl_quantity l))"
  define kxs where "kxs = map (\<lambda>l. (fst (kq l), of_scale 6 (snd (kq l)))) ls"
  define m where "m = accumulate kxs"
  have wh: "cl_warehouseId l = Some (the (cl_warehouseId l))" "hasStock db (the (cl_warehouseId l)) (cl_ingredientId l)"
    "0 < cl_quantity l" "5 * cl_quantity l < 2 ^ 51" if "l \<in> set ls" for l
    using logs that by (auto simp: log_ok_def ls_def split: option.splits)
  have targets: "mapE (logTarget db x) ls = Inr kxs"
  proof -
    have "logTarget db x l = Inr (fst (kq l), of_scale 6 (snd (kq l)))" if "l \<in> set ls" for l
      using wh(1) [OF that] by (cases "cl_warehouseId l") (auto simp: logTarget_def kq_def)
    then show ?thesis unfolding kxs_def by (induction ls) auto
  qed
  have keys: "distinct (map (fst \<circ> kq) ls)"
  proof -
    have "map snd (map (fst \<circ> kq) ls) = map cl_ingredientId ls" by (simp add: kq_def)
    with dist show ?thesis unfolding ls_def by (metis distinct_map)
  qed
  have dk: "distinct (map fst kxs)" using keys by (simp add: kxs_def comp_def)
  have elem: "\<exists>l \<in> set ls. k = fst (kq l) \<and> r = sum_numbers [of_scale 6 (cl_quantity l)]" if "(k, r) \<in> set m" for k r
  proof -
    note a = accumulate_mem [OF that [unfolded m_def]]
    then obtain v where "(k, v) \<in> set kxs" by (force simp: values_of_empty_iff)
    then show ?thesis using a(1) values_of_distinct [OF dk] by (auto simp: kxs_def kq_def)
  qed
  have "\<exists>db1. foldE (restockOne (so_id x)) m db = Inr db1 \<and> db' = deleteLogs (so_id x) db1"
  proof (cases "ls = []")
    case True
    then have "\<forall>l \<in> set (od_logs db). cl_orderId l \<noteq> Some (so_id x)" by (auto simp: ls_def logsOf_def filter_empty_conv)
    then have "deleteLogs (so_id x) db = db" by (simp add: deleteLogs_def filter_id_conv)
    with True run show ?thesis by (simp add: restock_def m_def kxs_def accumulate_def flip: ls_def)
  next
    case False
    with run targets show ?thesis by (auto simp: restock_def Let_def res_iff m_def simp flip: ls_def)
  qed
  then obtain db1 where loop: "foldE (restockOne (so_id x)) m db = Inr db1" and out: "db' = deleteLogs (so_id x) db1" by blast
  have q: "to_scale 6 (shortest r) = cl_quantity l" "column_add c (shortest r) = c + cl_quantity l"
    if "l \<in> set ls" "r = sum_numbers [of_scale 6 (cl_quantity l)]" for l r c
    using one_value_exact [OF wh(3,4) [OF that(1)]] that(2) by simp_all
  have "books_each (restockOne (so_id x)) en (\<lambda>a. shortest (snd a)) m"
    using elem q by (fastforce simp: books_each_def restockOne_def en_def restockEntry_def entry_net_def res_iff)
  moreover have "bookable en m db"
  proof -
    have "distinct (map (entry_key \<circ> en) m)"
    proof -
      have "inj_on (\<lambda>a. entry_key (en a)) (set m)"
      proof (rule inj_onI)
        fix a b assume ab: "a \<in> set m" "b \<in> set m" "entry_key (en a) = entry_key (en b)"
        obtain k r k' r' where p: "a = (k, r)" "b = (k', r')" by (cases a, cases b) blast
        from ab p elem obtain l l' where l: "l \<in> set ls" "k = fst (kq l)" "l' \<in> set ls" "k' = fst (kq l')" by meson
        with ab(3) p have "cl_ingredientId l = cl_ingredientId l'" by (simp add: en_def kq_def)
        with l dist have "l = l'" unfolding ls_def [symmetric] by (metis distinct_map inj_on_def)
        with l p ab(1,2) show "a = b" using distinct_accumulate [of kxs] unfolding m_def by (metis eq_key_imp_eq_value)
      qed
      then show ?thesis using distinct_accumulate [of kxs] by (simp add: distinct_map m_def comp_def)
    qed
    moreover have "entry_key (en a) \<notin> entry_key ` set (od_entries db)" for a
      using fresh by (force simp: en_def entry_key_def restockEntry_def)
    ultimately show ?thesis using keyed elem wh(2) by (fastforce simp: bookable_def en_def kq_def)
  qed
  ultimately have L: "stock_sum db1 w h = stock_sum db w h + booked en m w h"
    "od_entries db1 = od_entries db @ map en m" "stock_keyed db1"
    "hasStock db1 w h = hasStock db w h" "stock_frame6 db db1" for w h
    using booking_loop [OF loop] by blast+
  have bk: "booked en m w h = taken_by ls w h" for w h
  proof -
    have "booked en m w h = sum_list (map (\<lambda>a. if fst a = (w, h) then to_scale 6 (shortest (snd a)) else 0) m)"
      unfolding booked_def by (rule arg_cong [where f = sum_list], rule map_cong) (auto simp: en_def)
    also have "\<dots> = (case map_of m (w, h) of None \<Rightarrow> 0 | Some r \<Rightarrow> to_scale 6 (shortest r))"
      using sum_single_key [of m "(w, h)" "\<lambda>a. to_scale 6 (shortest (snd a))"] by (simp add: m_def cong: option.case_cong)
    also have "\<dots> = (case map_of (map kq ls) (w, h) of None \<Rightarrow> 0 | Some k \<Rightarrow> k)"
    proof (cases "map_of (map kq ls) (w, h)")
      case None
      then have "(w, h) \<notin> fst ` set kxs" by (auto simp: map_of_eq_None_iff kxs_def image_iff)
      then have "map_of m (w, h) = None" by (simp add: m_def map_of_accumulate values_of_empty_iff)
      with None show ?thesis by simp
    next
      case (Some k)
      then obtain l where l: "l \<in> set ls" "kq l = ((w, h), k)" by (auto dest!: map_of_SomeD)
      then have "((w, h), of_scale 6 k) \<in> set kxs" by (force simp: kxs_def)
      from values_of_distinct [OF dk this] have "map_of m (w, h) = Some (sum_numbers [of_scale 6 k])"
        by (simp add: m_def map_of_accumulate)
      moreover have "k = cl_quantity l" using l(2) by (simp add: kq_def)
      ultimately show ?thesis using Some q(1) [OF l(1) refl] by simp
    qed
    also have "\<dots> = sum_list (map (\<lambda>a. if fst a = (w, h) then snd a else 0) (map kq ls))"
      using sum_single_key [of "map kq ls" "(w, h)" snd] keys by (simp add: comp_def cong: option.case_cong)
    also have "\<dots> = taken_by ls w h"
    proof -
      have "sum_list (map (\<lambda>a. if fst a = (w, h) then snd a else 0) (map kq rs)) = taken_by rs w h" if "set rs \<subseteq> set ls" for rs
        using that
      proof (induction rs)
        case (Cons r rs)
        then have "cl_warehouseId r = Some (the (cl_warehouseId r))" using wh(1) [of r] by simp
        then have "(the (cl_warehouseId r) = w) = (cl_warehouseId r = Some w)" by (metis option.sel)
        with Cons show ?case by (simp add: taken_by_def kq_def)
      qed (simp add: taken_by_def)
      then show ?thesis by blast
    qed
    finally show ?thesis .
  qed
  have same: "stock_sum db' w h = stock_sum db1 w h" "hasStock db' w h = hasStock db1 w h" for w h
    by (simp_all add: out deleteLogs_def stock_sum_def hasStock_def)
  have entries: "od_entries db' = od_entries db @ map en m" by (simp add: out deleteLogs_def L(2))
  show "stock_sum db' w h = stock_sum db w h + taken_by (logsOf db (so_id x)) w h" by (simp add: same L(1) bk flip: ls_def)
  show "entries_net db' w h = entries_net db w h + taken_by (logsOf db (so_id x)) w h"
    by (simp add: entries_booked [OF entries] bk flip: ls_def)
  show "stock_keyed db'" using L(3) by (simp add: out deleteLogs_def stock_keyed_def)
  show "hasStock db' w h = hasStock db w h" by (simp add: same L(4))
  show "od_logs db' = filter (\<lambda>l. cl_orderId l \<noteq> Some (so_id x)) (od_logs db)"
    using stock_frame6_fields(2) [OF L(5)] by (simp add: out deleteLogs_def)
  show "\<exists>m. od_entries db' = od_entries db @ map (restockEntry (so_id x)) m" using entries by (auto simp: en_def)
  show "\<exists>s es ls. db' = db\<lparr>od_stock := s, od_entries := es, od_logs := ls\<rparr>"
    using L(5) by (auto simp: out deleteLogs_def stock_frame6_def)
qed

section \<open>The invariant\<close>

definition statusOf :: "'z orders_db_scheme \<Rightarrow> string \<Rightarrow> order_status option" where
  "statusOf db i = map_option so_status (findOrder db i)"

definition orders_keyed :: "'z orders_db_scheme \<Rightarrow> bool" where
  "orders_keyed db \<longleftrightarrow> distinct (map so_id (ob_orders db)) \<and>
     distinct (map (\<lambda>x. (so_accountId x, so_externalRef x)) (ob_orders db))"

definition logs_ok :: "'z orders_db_scheme \<Rightarrow> bool" where
  "logs_ok db \<longleftrightarrow> (\<forall>l \<in> set (od_logs db). case cl_orderId l of None \<Rightarrow> True | Some i \<Rightarrow>
     log_ok db l \<and> statusOf db i \<in> {Some OS_PREPARING, Some OS_READY, Some OS_COMPLETED}) \<and>
     distinct (map (\<lambda>l. (cl_orderId l, cl_ingredientId l)) (filter (\<lambda>l. cl_orderId l \<noteq> None) (od_logs db)))"

definition entries_ok :: "'z orders_db_scheme \<Rightarrow> bool" where
  "entries_ok db \<longleftrightarrow> (\<forall>x \<in> set (od_entries db).
     (le_sourceModule x = LM_ORDER_DEDUCTION \<longrightarrow> statusOf db (le_documentNo x) \<notin> {None, Some OS_NEW}) \<and>
     (le_sourceModule x = LM_RESTOCK \<longrightarrow> statusOf db (le_documentNo x) = Some OS_CANCELLED))"

definition kitchen_ok :: "'z orders_db_scheme \<Rightarrow> bool" where
  "kitchen_ok db \<longleftrightarrow> stock_keyed db \<and> orders_keyed db \<and> logs_ok db \<and> entries_ok db \<and>
     (\<forall>r \<in> set (od_reservations db). statusOf db (sr_orderId r) = Some OS_NEW)"

text \<open>What orders hold of an ingredient: the logs that name an order.\<close>

definition taken :: "'z orders_db_scheme \<Rightarrow> string \<Rightarrow> string \<Rightarrow> int" where
  "taken db w h = taken_by (filter (\<lambda>l. cl_orderId l \<noteq> None) (od_logs db)) w h"

inductive kitchen_step :: "env \<Rightarrow> 'z orders_db_scheme \<Rightarrow> 'z orders_db_scheme \<Rightarrow> bool" for e where
  ingested: "insertOrder e now b inp p code db = Inr (db', r) \<Longrightarrow> kitchen_step e db db'"
| advanced: "nextStage expected = Inr next \<Longrightarrow> advanceTx now i expected next user db = Inr (db', r) \<Longrightarrow>
     uses_ok (orderUses db i) \<Longrightarrow> kitchen_step e db db'"
| cancelled: "so_status x \<notin> {OS_CANCELLED, OS_COMPLETED} \<Longrightarrow> cancelTx x reason db = Inr (db', evs) \<Longrightarrow>
     kitchen_step e db db'"
| edited: "kitchen_step e db (db\<lparr>od_recipes := rs, od_menu := ms, db_flags := fs\<rparr>)"

inductive_cases kitchen_stepE: "kitchen_step e db db'"

lemma findOrder_update:
  assumes "distinct (map so_id os)"
  shows "List.find (\<lambda>x. so_id x = i \<and> so_status x = s) os =
    (case List.find (\<lambda>x. so_id x = i) os of None \<Rightarrow> None | Some x \<Rightarrow> if so_status x = s then Some x else None)"
  using assms
proof (induction os)
  case (Cons y os)
  show ?case
  proof (cases "so_id y = i")
    case True
    with Cons.prems have "i \<notin> so_id ` set os" by simp
    then have "so_id x \<noteq> i" if "x \<in> set os" for x using that by (metis image_eqI)
    then have "List.find (\<lambda>x. so_id x = i \<and> so_status x = s) os = None" unfolding find_None_iff by blast
    with True show ?thesis by simp
  qed (use Cons in simp)
qed simp

lemma updateStatus_ok:
  assumes run: "updateStatus i ex f db = Inr (db', y)" and keyed: "orders_keyed db"
    and id: "\<And>x. so_id (f x) = so_id x \<and> so_accountId (f x) = so_accountId x \<and> so_externalRef (f x) = so_externalRef x"
  shows "statusOf db i = Some ex" and "orders_keyed db'" and "so_id y = i"
    and "statusOf db' j = (if j = i then Some (so_status y) else statusOf db j)"
    and "\<exists>os. db' = db\<lparr>ob_orders := os\<rparr>" and "\<exists>x. findOrder db i = Some x \<and> y = f x"
    and "findOrder db' i = Some y"
proof -
  have d: "distinct (map so_id (ob_orders db))" using keyed by (simp add: orders_keyed_def)
  from run obtain x where x: "List.find (\<lambda>x. so_id x = i \<and> so_status x = ex) (ob_orders db) = Some x" "y = f x"
    and db': "db' = db\<lparr>ob_orders := update_where (\<lambda>x. so_id x = i \<and> so_status x = ex) f (ob_orders db)\<rparr>"
    by (auto simp: updateStatus_def split: option.splits)
  have f: "findOrder db i = Some x" "so_status x = ex" "so_id x = i"
    using x(1) find_Some_mem [OF x(1)] by (auto simp: findOrder_update [OF d] findOrder_def split: option.splits if_splits)
  then show "statusOf db i = Some ex" by (simp add: statusOf_def)
  have key: "map k (update_where p f os) = map k os" if "\<And>x. k (f x) = k x" for k :: "sales_order \<Rightarrow> 'k" and p os
    using that by (simp add: update_where_def)
  show "orders_keyed db'" using keyed id by (simp add: orders_keyed_def db' key)
  show "so_id y = i" using f(3) x(2) id by simp
  have find: "findOrder db' j = map_option (\<lambda>x. if so_id x = i \<and> so_status x = ex then f x else x) (findOrder db j)" for j
    unfolding findOrder_def db' by (simp add: find_update_where id)
  show "statusOf db' j = (if j = i then Some (so_status y) else statusOf db j)"
  proof (cases "findOrder db j")
    case (Some z)
    then have "so_id z = j" by (auto simp: findOrder_def dest: find_Some_mem)
    then show ?thesis using f x(2) Some unfolding statusOf_def find by (cases "j = i") simp_all
  next
    case None
    then have "j \<noteq> i" using f(1) by auto
    with None show ?thesis unfolding statusOf_def find by simp
  qed
  show "\<exists>os. db' = db\<lparr>ob_orders := os\<rparr>" using db' by blast
  show "\<exists>x. findOrder db i = Some x \<and> y = f x" using f(1) x(2) by blast
  show "findOrder db' i = Some y" using f x(2) by (simp add: find)
qed

lemma kitchen_ok_transfer:
  assumes "kitchen_ok db" and "stock_keyed db'" and "orders_keyed db'"
    and status: "\<And>j. j \<noteq> i \<Longrightarrow> statusOf db' j = statusOf db j"
    and stock: "\<And>w h. hasStock db w h \<Longrightarrow> hasStock db' w h"
    and logs: "\<And>l. l \<in> set (od_logs db') \<Longrightarrow> l \<in> set (od_logs db) \<and> cl_orderId l \<noteq> Some i \<or>
        (cl_orderId l = Some i \<and> log_ok db' l \<and> statusOf db' i \<in> {Some OS_PREPARING, Some OS_READY, Some OS_COMPLETED})"
    and dist: "distinct (map (\<lambda>l. (cl_orderId l, cl_ingredientId l)) (filter (\<lambda>l. cl_orderId l \<noteq> None) (od_logs db')))"
    and entries: "\<And>x. x \<in> set (od_entries db') \<Longrightarrow> x \<in> set (od_entries db) \<and> le_documentNo x \<noteq> i \<or>
        (le_documentNo x = i \<and> (le_sourceModule x = LM_ORDER_DEDUCTION \<longrightarrow> statusOf db' i \<notin> {None, Some OS_NEW}) \<and>
          (le_sourceModule x = LM_RESTOCK \<longrightarrow> statusOf db' i = Some OS_CANCELLED))"
    and resv: "\<And>r. r \<in> set (od_reservations db') \<Longrightarrow> r \<in> set (od_reservations db) \<and> sr_orderId r \<noteq> i \<or>
        (sr_orderId r = i \<and> statusOf db' i = Some OS_NEW)"
  shows "kitchen_ok db'"
proof -
  have "logs_ok db'"
    unfolding logs_ok_def
  proof (intro conjI ballI dist)
    fix l assume l: "l \<in> set (od_logs db')"
    show "case cl_orderId l of None \<Rightarrow> True
      | Some j \<Rightarrow> log_ok db' l \<and> statusOf db' j \<in> {Some OS_PREPARING, Some OS_READY, Some OS_COMPLETED}"
    proof (cases "cl_orderId l = Some i")
      case True
      with logs [OF l] show ?thesis by auto
    next
      case False
      with logs [OF l] assms(1) have "case cl_orderId l of None \<Rightarrow> True
        | Some j \<Rightarrow> log_ok db l \<and> statusOf db j \<in> {Some OS_PREPARING, Some OS_READY, Some OS_COMPLETED}"
        unfolding kitchen_ok_def logs_ok_def by fast
      with False stock status show ?thesis
        by (auto simp: log_ok_def split: option.splits)
    qed
  qed
  moreover have "entries_ok db'"
    unfolding entries_ok_def
  proof (intro ballI)
    fix x assume x: "x \<in> set (od_entries db')"
    show "(le_sourceModule x = LM_ORDER_DEDUCTION \<longrightarrow> statusOf db' (le_documentNo x) \<notin> {None, Some OS_NEW}) \<and>
      (le_sourceModule x = LM_RESTOCK \<longrightarrow> statusOf db' (le_documentNo x) = Some OS_CANCELLED)"
    proof (cases "le_documentNo x = i")
      case False
      with entries [OF x] assms(1) status [OF False] show ?thesis by (auto simp: kitchen_ok_def entries_ok_def)
    qed (use entries [OF x] in blast)
  qed
  moreover have "statusOf db' (sr_orderId r) = Some OS_NEW" if "r \<in> set (od_reservations db')" for r
    using resv [OF that] assms(1) status [of "sr_orderId r"] by (auto simp: kitchen_ok_def)
  ultimately show ?thesis using assms(2,3) by (simp add: kitchen_ok_def)
qed

section \<open>Every step\<close>

lemma orderUses_cong:
  assumes "od_items db' = od_items db" and "od_recipes db' = od_recipes db" and "db_flags db' = db_flags db"
  shows "orderUses db' i = orderUses db i"
proof -
  have l: "liveLines db' = liveLines db" by (rule ext) (simp add: liveLines_def assms)
  have "deductionLines db' = deductionLines db"
    by (rule ext) (simp only: deductionLines_def isLegacyRecipeSnapshotEnabled_def l assms)
  then show ?thesis by (simp only: orderUses_def itemsOf_def assms)
qed

lemma orderUses_frame [simp]: "orderUses (db\<lparr>ob_orders := os\<rparr>) i = orderUses db i"
  by (rule orderUses_cong) simp_all

lemma deductByIngredient_frame [simp]: "deductByIngredient (db\<lparr>ob_orders := os\<rparr>) i = deductByIngredient db i"
  by (simp add: deductByIngredient_def)

lemma taken_by_append [simp]: "taken_by (ls @ ms) w h = taken_by ls w h + taken_by ms w h"
  by (simp add: taken_by_def)

lemma deduct_taken:
  assumes "uses_ok (orderUses db i)"
  shows "taken_by (map (logOf i user wh) (deductByIngredient db i)) w h = (if w = wh then used (orderUses db i) h else 0)"
proof (cases "w = wh")
  case True
  define d where "d = deductByIngredient db i"
  have d: "d = accumulate (map (\<lambda>(g, q, n). (g, portion q n)) (orderUses db i))" by (simp add: d_def deductByIngredient_def)
  have "taken_by (map (logOf i user wh) d) w h = sum_list (map (\<lambda>a. if fst a = h then to_scale 6 (shortest (snd a)) else 0) d)"
    by (induction d) (auto simp: taken_by_def logOf_def True)
  also have "\<dots> = (case map_of d h of None \<Rightarrow> 0 | Some x \<Rightarrow> to_scale 6 (shortest x))"
    using sum_single_key [of d h "\<lambda>a. to_scale 6 (shortest (snd a))"] by (simp add: d cong: option.case_cong)
  also have "\<dots> = used (orderUses db i) h" using deduct_map [OF assms d, of h] by (auto split: option.splits)
  finally show ?thesis by (simp add: True d_def)
next
  case False
  then show ?thesis by (induction "deductByIngredient db i") (auto simp: taken_by_def logOf_def filter_empty_conv)
qed

lemma stamp_fields [simp]:
  "so_id (stamp s now x) = so_id x" "so_accountId (stamp s now x) = so_accountId x"
  "so_externalRef (stamp s now x) = so_externalRef x" "so_status (stamp s now x) = s"
  "so_locationId (stamp s now x) = so_locationId x" "so_brandId (stamp s now x) = so_brandId x"
  by (simp_all add: stamp_def Let_def)

lemma nextStage_cases:
  assumes "nextStage s = Inr t"
  obtains "s = OS_NEW" "t = OS_PREPARING" | "s = OS_PREPARING" "t = OS_READY" | "s = OS_READY" "t = OS_COMPLETED"
  using assms by (cases s) (auto simp: nextStage_def)

definition conserves :: "'z orders_db_scheme \<Rightarrow> 'z orders_db_scheme \<Rightarrow> bool" where
  "conserves db db' \<longleftrightarrow> (\<forall>w h. stock_sum db' w h + taken db' w h = stock_sum db w h + taken db w h \<and>
     stock_sum db' w h - entries_net db' w h = stock_sum db w h - entries_net db w h)"

lemma started_effect:
  assumes ok: "kitchen_ok db" and run: "updateStatus i OS_NEW (stamp OS_PREPARING now) db = Inr (db1, x)"
    and start: "startPreparing user x db1 = Inr (db', low, ups)" and uses: "uses_ok (orderUses db i)"
  shows "kitchen_ok db'" and "conserves db db'"
    and "\<exists>wh. orderKitchen db1 x = Inr wh \<and> (\<forall>w h. stock_sum db' w h = stock_sum db w h - (if w = wh then used (orderUses db i) h else 0)) \<and>
      od_logs db' = od_logs db @ map (logOf i user wh) (deductByIngredient db i)"
proof -
  have keyed: "stock_keyed db" "orders_keyed db" using ok by (simp_all add: kitchen_ok_def)
  note U = updateStatus_ok [OF run keyed(2), simplified]
  from U(5) obtain os where os: "db1 = db\<lparr>ob_orders := os\<rparr>" by blast
  from start obtain wh db2 where wh: "orderKitchen db1 x = Inr wh" and ded: "deduct i user wh db1 = Inr db2"
    and db': "db' = deleteReservations i db2"
    by (auto simp: startPreparing_def Let_def res_iff U(3))
  have fresh: "\<forall>x \<in> set (od_entries db1). \<not> (le_sourceModule x = LM_ORDER_DEDUCTION \<and> le_documentNo x = i)"
    using ok U(1) by (auto simp: os kitchen_ok_def entries_ok_def)
  have keyed1: "stock_keyed db1" using keyed(1) by (simp add: os stock_keyed_def)
  note D = deduct_ok [OF ded keyed1 _ fresh, simplified os orderUses_frame deductByIngredient_frame, OF uses, folded os]
  from D(8) obtain s es ls where db2: "db2 = db\<lparr>ob_orders := os, od_stock := s, od_entries := es, od_logs := ls\<rparr>" by (auto simp: os)
  define d where "d = deductByIngredient db i"
  have status: "statusOf db' j = statusOf db1 j" for j by (simp add: db' deleteReservations_def db2 os statusOf_def findOrder_def)
  have has: "hasStock db' w h = hasStock db2 w h" for w h by (simp add: db' deleteReservations_def hasStock_def)
  have sums: "stock_sum db' w h = stock_sum db2 w h" "entries_net db' w h = entries_net db2 w h" for w h
    by (simp_all add: db' deleteReservations_def stock_sum_def entries_net_def)
  have tables: "od_logs db' = od_logs db @ map (logOf i user wh) d" "od_entries db' = od_entries db @ map (deductEntry i user wh) d"
    using D(5,6) by (simp_all add: db' deleteReservations_def os d_def)
  have before: "stock_sum db1 w h = stock_sum db w h" "entries_net db1 w h = entries_net db w h" "hasStock db1 w h = hasStock db w h" for w h
    by (simp_all add: os stock_sum_def entries_net_def hasStock_def)
  have old: "cl_orderId l \<noteq> Some i" if "l \<in> set (od_logs db)" for l
    using ok that U(1) by (auto simp: kitchen_ok_def logs_ok_def split: option.splits)
  have st: "statusOf db' i = Some OS_PREPARING" using U(2,4) run by (auto simp: status updateStatus_def stamp_def split: option.splits)
  have exact: "to_scale 6 (shortest y) = used (orderUses db i) g \<and> 0 < used (orderUses db i) g \<and> 5 * used (orderUses db i) g < 2 ^ 51 \<and> hasStock db' wh g"
    if "(g, y) \<in> set d" for g y
    using total_exact [OF uses] that D(7) [of g] by (force simp: d_def deductByIngredient_def has)
  show "kitchen_ok db'"
  proof (rule kitchen_ok_transfer [where i = i, OF ok])
    show "stock_keyed db'" using D(3) by (simp add: db' deleteReservations_def stock_keyed_def)
    show "orders_keyed db'" using U(2) by (simp add: db' deleteReservations_def db2 os orders_keyed_def)
    show "\<And>j. j \<noteq> i \<Longrightarrow> statusOf db' j = statusOf db j" by (simp add: status U(4))
    show "\<And>w h. hasStock db w h \<Longrightarrow> hasStock db' w h" by (simp add: has D(4) before)
    show "l \<in> set (od_logs db) \<and> cl_orderId l \<noteq> Some i \<or>
        (cl_orderId l = Some i \<and> log_ok db' l \<and> statusOf db' i \<in> {Some OS_PREPARING, Some OS_READY, Some OS_COMPLETED})"
      if "l \<in> set (od_logs db')" for l
      using that old exact by (auto simp: tables st log_ok_def logOf_def)
    show "distinct (map (\<lambda>l. (cl_orderId l, cl_ingredientId l)) (filter (\<lambda>l. cl_orderId l \<noteq> None) (od_logs db')))"
    proof -
      have 1: "filter (\<lambda>l. cl_orderId l \<noteq> None) (map (logOf i user wh) d) = map (logOf i user wh) d" by (simp add: filter_id_conv logOf_def)
      have 2: "map (\<lambda>l. (cl_orderId l, cl_ingredientId l)) (map (logOf i user wh) d) = map (Pair (Some i)) (map fst d)" by (simp add: logOf_def)
      have 3: "distinct (map (Pair (Some i)) (map fst d))" by (simp only: distinct_map [of "Pair (Some i)"]) (simp add: d_def deductByIngredient_def inj_on_def)
      have 4: "distinct (map (\<lambda>l. (cl_orderId l, cl_ingredientId l)) (filter (\<lambda>l. cl_orderId l \<noteq> None) (od_logs db)))"
        using ok by (simp only: kitchen_ok_def logs_ok_def)
      show ?thesis unfolding tables filter_append map_append 1 2 distinct_append using 3 4 old by auto
    qed
    show "x \<in> set (od_entries db) \<and> le_documentNo x \<noteq> i \<or>
        (le_documentNo x = i \<and> (le_sourceModule x = LM_ORDER_DEDUCTION \<longrightarrow> statusOf db' i \<notin> {None, Some OS_NEW}) \<and>
          (le_sourceModule x = LM_RESTOCK \<longrightarrow> statusOf db' i = Some OS_CANCELLED))"
      if "x \<in> set (od_entries db')" for x
    proof (cases "x \<in> set (od_entries db)")
      case True
      with ok have "le_sourceModule x = LM_RESTOCK \<longrightarrow> statusOf db (le_documentNo x) = Some OS_CANCELLED"
        by (simp add: kitchen_ok_def entries_ok_def)
      with True U(1) st show ?thesis by (cases "le_documentNo x = i") auto
    next
      case False
      with that st show ?thesis by (auto simp: tables deductEntry_def)
    qed
    show "r \<in> set (od_reservations db) \<and> sr_orderId r \<noteq> i \<or> (sr_orderId r = i \<and> statusOf db' i = Some OS_NEW)"
      if "r \<in> set (od_reservations db')" for r
      using that by (simp add: db' deleteReservations_def db2)
  qed
  have "taken db' w h = taken db w h + (if w = wh then used (orderUses db i) h else 0)" for w h
  proof -
    have "filter (\<lambda>l. cl_orderId l \<noteq> None) (map (logOf i user wh) d) = map (logOf i user wh) d" by (simp add: filter_id_conv logOf_def)
    then show ?thesis using deduct_taken [OF uses, of user wh w h] by (simp add: taken_def tables d_def)
  qed
  then show "conserves db db'" by (simp add: conserves_def sums D(1,2) before)
  show "\<exists>wh. orderKitchen db1 x = Inr wh \<and> (\<forall>w h. stock_sum db' w h = stock_sum db w h - (if w = wh then used (orderUses db i) h else 0)) \<and>
      od_logs db' = od_logs db @ map (logOf i user wh) (deductByIngredient db i)"
    using wh by (intro exI [of _ wh]) (simp add: sums D(1) before tables d_def)
qed

text \<open>A change of the orders alone.\<close>

lemma same_stock:
  assumes "db' = db\<lparr>ob_orders := os\<rparr>"
  shows "stock_sum db' w h = stock_sum db w h" and "entries_net db' w h = entries_net db w h"
    and "hasStock db' w h = hasStock db w h" and "taken db' w h = taken db w h" and "stock_keyed db' = stock_keyed db"
    and "od_logs db' = od_logs db" and "od_entries db' = od_entries db" and "od_reservations db' = od_reservations db"
  by (simp_all add: assms stock_sum_def entries_net_def hasStock_def taken_def stock_keyed_def)

lemma moved_effect:
  assumes ok: "kitchen_ok db" and run: "updateStatus i ex (stamp t now) db = Inr (db', x)"
    and st: "ex \<in> {OS_PREPARING, OS_READY}" "t \<in> {OS_READY, OS_COMPLETED}"
  shows "kitchen_ok db'" and "conserves db db'"
proof -
  have keyed: "stock_keyed db" "orders_keyed db" using ok by (simp_all add: kitchen_ok_def)
  note U = updateStatus_ok [OF run keyed(2), simplified]
  from U(5) obtain os where os: "db' = db\<lparr>ob_orders := os\<rparr>" by blast
  note S = same_stock [OF os]
  have new: "statusOf db' i = Some t" using U(4,6) by auto
  show "conserves db db'" by (simp add: conserves_def S)
  show "kitchen_ok db'"
  proof (rule kitchen_ok_transfer [where i = i, OF ok])
    show "l \<in> set (od_logs db) \<and> cl_orderId l \<noteq> Some i \<or>
        (cl_orderId l = Some i \<and> log_ok db' l \<and> statusOf db' i \<in> {Some OS_PREPARING, Some OS_READY, Some OS_COMPLETED})"
      if l: "l \<in> set (od_logs db')" for l
    proof (cases "cl_orderId l = Some i")
      case True
      then have "log_ok db l" using ok l by (auto simp: S kitchen_ok_def logs_ok_def split: option.splits)
      then have "log_ok db' l" by (simp add: log_ok_def S(3) cong: option.case_cong)
      with True new st(2) show ?thesis by auto
    qed (use l in \<open>simp add: S\<close>)
    show "distinct (map (\<lambda>l. (cl_orderId l, cl_ingredientId l)) (filter (\<lambda>l. cl_orderId l \<noteq> None) (od_logs db')))"
      using ok by (simp only: S kitchen_ok_def logs_ok_def)
    show "x \<in> set (od_entries db) \<and> le_documentNo x \<noteq> i \<or>
        (le_documentNo x = i \<and> (le_sourceModule x = LM_ORDER_DEDUCTION \<longrightarrow> statusOf db' i \<notin> {None, Some OS_NEW}) \<and>
          (le_sourceModule x = LM_RESTOCK \<longrightarrow> statusOf db' i = Some OS_CANCELLED))"
      if x: "x \<in> set (od_entries db')" for x
    proof -
      from x ok have "le_sourceModule x = LM_RESTOCK \<longrightarrow> statusOf db (le_documentNo x) = Some OS_CANCELLED"
        by (simp add: S kitchen_ok_def entries_ok_def)
      with U(1) st new x show ?thesis by (cases "le_documentNo x = i") (auto simp: S)
    qed
    show "r \<in> set (od_reservations db) \<and> sr_orderId r \<noteq> i \<or> (sr_orderId r = i \<and> statusOf db' i = Some OS_NEW)"
      if r: "r \<in> set (od_reservations db')" for r
    proof -
      from r ok have "statusOf db (sr_orderId r) = Some OS_NEW" by (simp add: S kitchen_ok_def)
      with r U(1) st show ?thesis by (cases "sr_orderId r = i") (auto simp: S)
    qed
  qed (use keyed U(2,4) in \<open>simp_all add: S\<close>)
qed

lemma cancelled_effect:
  assumes ok: "kitchen_ok db" and run: "cancelTx x reason db = Inr (db', evs)"
    and st: "so_status x \<notin> {OS_CANCELLED, OS_COMPLETED}"
  shows "kitchen_ok db'" and "conserves db db'"
    and "stock_sum db' w h = stock_sum db w h + taken_by (logsOf db (so_id x)) w h"
    and "logsOf db' (so_id x) = []" and "statusOf db' (so_id x) = Some OS_CANCELLED"
    and "\<forall>r \<in> set (od_reservations db'). sr_orderId r \<noteq> so_id x"
proof -
  have keyed: "stock_keyed db" "orders_keyed db" using ok by (simp_all add: kitchen_ok_def)
  define i where "i = so_id x"
  from run obtain db1 y where upd: "updateStatus i (so_status x) (cancelStamp reason) db = Inr (db1, y)"
    and rest: "restock x (deleteReservations i db1) = Inr (db', evs)"
    by (auto simp: cancelTx_def i_def res_iff)
  note U = updateStatus_ok [OF upd keyed(2), simplified cancelStamp_def, simplified]
  from U(5) obtain os where os: "db1 = db\<lparr>ob_orders := os\<rparr>" by blast
  define db2 where "db2 = deleteReservations i db1"
  have st': "so_status y = OS_CANCELLED" using U(6) by auto
  have db2: "db2 = db\<lparr>ob_orders := os, od_reservations := filter (\<lambda>r. sr_orderId r \<noteq> i) (od_reservations db)\<rparr>"
    by (simp add: db2_def deleteReservations_def os)
  have before: "stock_sum db2 w h = stock_sum db w h" "entries_net db2 w h = entries_net db w h" "hasStock db2 w h = hasStock db w h"
    "logsOf db2 j = logsOf db j" for w h j
    by (simp_all add: db2 stock_sum_def entries_net_def hasStock_def logsOf_def)
  have logs: "\<forall>l \<in> set (logsOf db2 (so_id x)). log_ok db2 l"
  proof
    fix l assume "l \<in> set (logsOf db2 (so_id x))"
    then have "l \<in> set (logsOf db (so_id x))" by (simp only: before)
    then have "log_ok db l" using ok by (auto simp: logsOf_def kitchen_ok_def logs_ok_def split: option.splits)
    then show "log_ok db2 l" by (simp add: log_ok_def before cong: option.case_cong)
  qed
  have dist: "distinct (map cl_ingredientId (logsOf db2 (so_id x)))"
  proof -
    have "distinct (map (\<lambda>l. (cl_orderId l, cl_ingredientId l)) (filter (\<lambda>l. cl_orderId l = Some i) (filter (\<lambda>l. cl_orderId l \<noteq> None) (od_logs db))))"
      using ok by (simp only: kitchen_ok_def logs_ok_def distinct_map_filter)
    moreover have "filter (\<lambda>l. cl_orderId l = Some i) (filter (\<lambda>l. cl_orderId l \<noteq> None) (od_logs db)) = logsOf db i"
      unfolding logsOf_def filter_filter by (rule filter_cong) auto
    ultimately have "distinct (map (\<lambda>l. (cl_orderId l, cl_ingredientId l)) (logsOf db i))" by simp
    moreover have "map (\<lambda>l. (cl_orderId l, cl_ingredientId l)) (logsOf db i) = map (Pair (Some i)) (map cl_ingredientId (logsOf db i))"
      by (simp add: logsOf_def)
    ultimately show ?thesis unfolding before i_def [symmetric] by (metis distinct_map)
  qed
  have fresh: "\<forall>y \<in> set (od_entries db2). \<not> (le_sourceModule y = LM_RESTOCK \<and> le_documentNo y = so_id x)"
    using ok U(1) st by (auto simp: db2 kitchen_ok_def entries_ok_def i_def)
  have keyed2: "stock_keyed db2" using keyed(1) by (simp add: db2 stock_keyed_def)
  note R = restock_ok [OF rest [folded db2_def] keyed2 logs dist fresh, folded i_def]
  from R(6) obtain m where m: "od_entries db' = od_entries db @ map (restockEntry i) m" by (auto simp: db2)
  from R(7) have frame: "ob_orders db' = ob_orders db2" "od_reservations db' = od_reservations db2" by auto
  have status: "statusOf db' j = statusOf db1 j" for j by (simp add: statusOf_def findOrder_def frame db2 os)
  have new: "statusOf db' i = Some OS_CANCELLED" using U(4) st' by (simp add: status)
  then show "statusOf db' (so_id x) = Some OS_CANCELLED" by (simp add: i_def)
  show sum: "stock_sum db' w h = stock_sum db w h + taken_by (logsOf db (so_id x)) w h" for w h
    using R(1) by (simp add: before i_def)
  have logs': "od_logs db' = filter (\<lambda>l. cl_orderId l \<noteq> Some i) (od_logs db)" using R(5) by (simp add: db2)
  then show "logsOf db' (so_id x) = []" by (simp add: logsOf_def filter_empty_conv i_def)
  show "\<forall>r \<in> set (od_reservations db'). sr_orderId r \<noteq> so_id x" by (simp add: frame db2 i_def)
  show "kitchen_ok db'"
  proof (rule kitchen_ok_transfer [where i = i, OF ok])
    show "stock_keyed db'" by (rule R(3))
    show "orders_keyed db'" using U(2) by (simp add: orders_keyed_def frame db2 os)
    show "\<And>j. j \<noteq> i \<Longrightarrow> statusOf db' j = statusOf db j" by (simp add: status U(4))
    show "\<And>w h. hasStock db w h \<Longrightarrow> hasStock db' w h" by (simp add: R(4) before)
    show "distinct (map (\<lambda>l. (cl_orderId l, cl_ingredientId l)) (filter (\<lambda>l. cl_orderId l \<noteq> None) (od_logs db')))"
    proof -
      have "filter (\<lambda>l. cl_orderId l \<noteq> None) (od_logs db') = filter (\<lambda>l. cl_orderId l \<noteq> Some i) (filter (\<lambda>l. cl_orderId l \<noteq> None) (od_logs db))"
        unfolding logs' filter_filter by (rule filter_cong) auto
      moreover have "distinct (map (\<lambda>l. (cl_orderId l, cl_ingredientId l)) (filter (\<lambda>l. cl_orderId l \<noteq> None) (od_logs db)))"
        using ok by (simp only: kitchen_ok_def logs_ok_def)
      ultimately show ?thesis by (simp only: distinct_map_filter)
    qed
    show "x \<in> set (od_entries db) \<and> le_documentNo x \<noteq> i \<or>
        (le_documentNo x = i \<and> (le_sourceModule x = LM_ORDER_DEDUCTION \<longrightarrow> statusOf db' i \<notin> {None, Some OS_NEW}) \<and>
          (le_sourceModule x = LM_RESTOCK \<longrightarrow> statusOf db' i = Some OS_CANCELLED))"
      if x: "x \<in> set (od_entries db')" for x
      using x new by (cases "le_documentNo x = i") (auto simp: m restockEntry_def)
  qed (auto simp: logs' frame db2)
  have "taken db w h = taken db' w h + taken_by (logsOf db i) w h" for w h
  proof -
    have "taken_by (filter (\<lambda>l. cl_orderId l \<noteq> None) ls) w h =
        taken_by (filter (\<lambda>l. cl_orderId l \<noteq> None) (filter (\<lambda>l. cl_orderId l \<noteq> Some i) ls)) w h +
        taken_by (filter (\<lambda>l. cl_orderId l = Some i) ls) w h" for ls
    proof (induction ls)
      case (Cons l ls)
      then show ?case by (cases "cl_orderId l") (simp_all add: taken_by_def)
    qed (simp add: taken_by_def)
    then show ?thesis unfolding taken_def logs' logsOf_def .
  qed
  then show "conserves db db'" using R(2) by (simp add: conserves_def sum before i_def)
qed

lemma insertJob_frame:
  assumes "foldE (insertJob e now b inp p i) gs s = Inr s'"
  shows "\<exists>js n. fst s' = (fst s)\<lparr>pr_jobs := js, db_ids := n\<rparr>"
  using assms
proof (induction gs arbitrary: s)
  case Nil
  have "fst s = (fst s)\<lparr>pr_jobs := pr_jobs (fst s), db_ids := db_ids (fst s)\<rparr>" by simp
  with Nil show ?case by (metis foldE.simps(1) sum.inject(2))
next
  case (Cons g gs)
  then obtain t where t: "insertJob e now b inp p i g s = Inr t" "foldE (insertJob e now b inp p i) gs t = Inr s'"
    by (auto simp: res_iff)
  from t(1) have "\<exists>js n. fst t = (fst s)\<lparr>pr_jobs := js, db_ids := n\<rparr>"
  proof -
    have "fst t = (fst s)\<lparr>pr_jobs := pr_jobs (fst s) @ [newJob (env_uuid e (db_ids (fst s))) now i (fst g) (snd g)
        (kotPayload b inp (pl_placedAt p) (snd g))], db_ids := Suc (db_ids (fst s))\<rparr>"
      using t(1) by (cases s) (auto simp: insertJob_def Let_def res_iff)
    then show ?thesis by blast
  qed
  with Cons.IH [OF t(2)] show ?case by force
qed

lemma insertOrder_frame:
  assumes "insertOrder e now b inp p code db = Inr (db', x, jobs)"
  shows "\<exists>n js. db' = db\<lparr>ob_orders := ob_orders db @ [x], db_ids := n, pr_jobs := js,
      od_items := od_items db @ map (newItem (so_id x) p) (pl_items p),
      od_reservations := od_reservations db @ newReservations (so_id x) p\<rparr>"
    and "x = newOrder inp p (env_uuid e (db_ids db)) code"
    and "\<forall>y \<in> set (ob_orders db). so_id y \<noteq> so_id x \<and> \<not> (so_accountId y = so_accountId x \<and> so_externalRef y = so_externalRef x)"
proof -
  from assms obtain db1 db2 db3 where s: "insertOrderRow x db = Inr db1" "insertItems (so_id x) p db1 = Inr db2"
      "foldE (insertJob e now b inp p (so_id x)) (stationGroups (pl_items p)) (db2, []) = Inr (db3, jobs)"
      "insertReservations (newReservations (so_id x) p) db3 = Inr db'"
    and x: "x = newOrder inp p (env_uuid e (db_ids db)) code"
    by (auto simp: insertOrder_def Let_def res_iff)
  show "x = newOrder inp p (env_uuid e (db_ids db)) code" by (rule x)
  from s(1) have a: "db1 = db\<lparr>ob_orders := ob_orders db @ [x], db_ids := Suc (db_ids db)\<rparr>"
    "\<forall>y \<in> set (ob_orders db). so_id y \<noteq> so_id x \<and> \<not> (so_accountId y = so_accountId x \<and> so_externalRef y = so_externalRef x)"
    by (auto simp: insertOrderRow_def res_iff)
  from a(2) show "\<forall>y \<in> set (ob_orders db). so_id y \<noteq> so_id x \<and> \<not> (so_accountId y = so_accountId x \<and> so_externalRef y = so_externalRef x)" .
  from s(2) have "db2 = db1\<lparr>od_items := od_items db1 @ map (newItem (so_id x) p) (pl_items p)\<rparr>"
    by (auto simp: insertItems_def Let_def res_iff)
  moreover from insertJob_frame [OF s(3)] obtain js n where "db3 = db2\<lparr>pr_jobs := js, db_ids := n\<rparr>" by auto
  moreover from s(4) have "db' = db3\<lparr>od_reservations := od_reservations db3 @ newReservations (so_id x) p\<rparr>"
    by (auto simp: insertReservations_def res_iff)
  ultimately have "db' = db\<lparr>ob_orders := ob_orders db @ [x], db_ids := n, pr_jobs := js,
      od_items := od_items db @ map (newItem (so_id x) p) (pl_items p),
      od_reservations := od_reservations db @ newReservations (so_id x) p\<rparr>" by (simp add: a(1))
  then show "\<exists>n js. db' = db\<lparr>ob_orders := ob_orders db @ [x], db_ids := n, pr_jobs := js,
      od_items := od_items db @ map (newItem (so_id x) p) (pl_items p),
      od_reservations := od_reservations db @ newReservations (so_id x) p\<rparr>" by blast
qed

lemma newReservations_order: "r \<in> set (newReservations i p) \<Longrightarrow> sr_orderId r = i"
  by (auto simp: newReservations_def split: option.splits)

lemma ingested_effect:
  assumes ok: "kitchen_ok db" and run: "insertOrder e now b inp p code db = Inr (db', x, jobs)"
  shows "kitchen_ok db'" and "conserves db db'"
proof -
  note I = insertOrder_frame [OF run]
  from I(1) obtain n js where db': "db' = db\<lparr>ob_orders := ob_orders db @ [x], db_ids := n, pr_jobs := js,
      od_items := od_items db @ map (newItem (so_id x) p) (pl_items p),
      od_reservations := od_reservations db @ newReservations (so_id x) p\<rparr>" by blast
  define i where "i = so_id x"
  have absent: "statusOf db i = None" using I(3) by (auto simp: statusOf_def findOrder_def find_None_iff i_def)
  have status: "statusOf db' j = (if j = i then Some OS_NEW else statusOf db j)" for j
    using absent I(2) by (auto simp: statusOf_def findOrder_def db' find_append i_def newOrder_def split: option.splits)
  have tables: "od_logs db' = od_logs db" "od_entries db' = od_entries db" "hasStock db' w h = hasStock db w h" for w h
    by (simp_all add: db' hasStock_def)
  have resv: "od_reservations db' = od_reservations db @ newReservations i p" by (simp add: db' i_def)
  have old: "cl_orderId l \<noteq> Some i" if "l \<in> set (od_logs db)" for l
    using ok that absent by (auto simp: kitchen_ok_def logs_ok_def split: option.splits)
  have olde: "le_documentNo y \<noteq> i \<or> le_sourceModule y \<notin> {LM_ORDER_DEDUCTION, LM_RESTOCK}" if "y \<in> set (od_entries db)" for y
    using ok that absent by (auto simp: kitchen_ok_def entries_ok_def)
  have oldr: "sr_orderId r \<noteq> i" if "r \<in> set (od_reservations db)" for r
    using ok that absent by (auto simp: kitchen_ok_def)
  show "conserves db db'" by (simp add: conserves_def db' stock_sum_def taken_def entries_net_def)
  show "kitchen_ok db'"
  proof (rule kitchen_ok_transfer [where i = i, OF ok])
    show "stock_keyed db'" using ok by (simp add: db' stock_keyed_def kitchen_ok_def)
    show "orders_keyed db'" using ok I(3) by (force simp: db' orders_keyed_def kitchen_ok_def)
    show "distinct (map (\<lambda>l. (cl_orderId l, cl_ingredientId l)) (filter (\<lambda>l. cl_orderId l \<noteq> None) (od_logs db')))"
      using ok by (simp only: tables kitchen_ok_def logs_ok_def)
    show "r \<in> set (od_reservations db) \<and> sr_orderId r \<noteq> i \<or> (sr_orderId r = i \<and> statusOf db' i = Some OS_NEW)"
      if "r \<in> set (od_reservations db')" for r
      using that oldr status [of i] unfolding resv by (auto dest: newReservations_order)
  qed (use old olde in \<open>auto simp: tables status\<close>)
qed

text \<open>The invariant and both balances are kept by every sequence of steps.\<close>

lemma kitchen_step_keeps:
  assumes "kitchen_step e db db'" and "kitchen_ok db"
  shows "kitchen_ok db' \<and> conserves db db'"
  using assms(1)
proof cases
  case (ingested now b inp p code r)
  with ingested_effect [OF assms(2)] show ?thesis by (cases r) auto
next
  case (advanced expected next' now i user r)
  from advanced(2) obtain db1 x where u: "updateStatus i expected (stamp next' now) db = Inr (db1, x)"
    and rest: "if next' = OS_PREPARING then \<exists>low ups. startPreparing user x db1 = Inr (db', low, ups) else db' = db1"
    by (auto simp: advanceTx_def res_iff split: if_splits)
  from advanced(1) show ?thesis
  proof (cases rule: nextStage_cases)
    case 1
    with rest u started_effect(1,2) [OF assms(2) _ _ advanced(3)] show ?thesis by auto
  qed (use rest u moved_effect [OF assms(2)] in auto)
next
  case (cancelled x reason evs)
  then show ?thesis using cancelled_effect(1,2) [OF assms(2)] by blast
next
  case (edited rs ms fs)
  have "statusOf db' j = statusOf db j" "hasStock db' w h = hasStock db w h" for j w h
    by (simp_all add: edited statusOf_def findOrder_def hasStock_def)
  then show ?thesis using assms(2)
    by (simp add: edited kitchen_ok_def conserves_def stock_keyed_def orders_keyed_def logs_ok_def entries_ok_def log_ok_def
        stock_sum_def taken_def entries_net_def cong: option.case_cong)
qed

lemma kitchen_steps_keep:
  assumes "(kitchen_step e)\<^sup>*\<^sup>* db db'" and "kitchen_ok db"
  shows "kitchen_ok db' \<and> conserves db db'"
  using assms
proof (induction rule: rtranclp_induct)
  case base
  then show ?case by (simp add: conserves_def)
next
  case (step y z)
  then show ?case using kitchen_step_keeps [OF step.hyps(2)] by (simp add: conserves_def)
qed

end
