(* ===== verification/OrderExample.thy ===== *)
theory OrderExample
  imports OrderSteps StockExample
begin

text \<open>
  A small outlet as the example of the order properties: one brand, one dish that uses half a kilogram
  of one ingredient, one kilogram of it in the kitchen, and a walk-in listing.
\<close>

definition kx_listing :: listing where
  "kx_listing = \<lparr>aa_id = ''A'', aa_brandId = ''B'', aa_locationId = Some ''L'', aa_aggregator = OTHER, aa_channelId = None,
     aa_externalMerchantId = ''M'', aa_isActive = True, aa_mappingStatus = RESOLVED, aa_commissionRate = None,
     aa_controlMode = DEVICE, aa_apiMerchantId = None, aa_acceptSlaSeconds = None\<rparr>"

definition kx_db :: orders_db where
  "kx_db = \<lparr>db_warehouses = [\<lparr>w_id = ''K'', w_locationId = ''L'', w_type = TypeKitchen, w_purpose = None, w_isActive = True\<rparr>],
     db_items = [], db_conversions = [], db_lots = [], db_balances = [], db_users = [], db_sessions = [], db_access = [],
     db_flags = [\<lparr>f_key = ''orders.legacy_recipe_snapshot'', f_enabled = True, f_version = 1\<rparr>],
     db_openTopologyExceptions = 0, db_documents = [], db_postings = [], db_ledger = [], db_audit = [],
     db_outbox = [], db_ids = 1, pr_jobs = [], pr_attempts = [],
     pr_stations = [\<lparr>st_id = ''S'', st_locationId = ''L'', st_name = ''Grill'', st_defaultPrinterId = None\<rparr>],
     pr_printers = [], pr_agents = [], pr_locations = [],
     ob_listings = [kx_listing], ob_orders = [], ob_groups = [], ob_commands = [], ob_disputes = [],
     od_brands = [\<lparr>br_id = ''B'', br_locationId = ''L'', br_name = ''Bo''\<rparr>], od_outlets = [], od_channels = [],
     od_menu = [\<lparr>mi_id = ''D'', mi_name = ''Dish'', mi_price = 10000, mi_stationId = Some ''S'', mi_availability = MI_AVAILABLE\<rparr>],
     od_deployments = [],
     od_recipes = [\<lparr>rl_menuItemId = ''D'', rl_ingredientId = ''G'', rl_portionQty = 500000, rl_unit = ''kg'',
        rl_enteredQuantity = None, rl_enteredUnit = None\<rparr>],
     od_ingredients = [\<lparr>in_id = ''G'', in_name = ''Rice'', in_unit = ''kg'', in_unitCost = 0, in_lowStockThreshold = 0\<rparr>],
     od_terms = [], od_stock = [\<lparr>is_warehouseId = ''K'', is_ingredientId = ''G'', is_quantity = 1000000\<rparr>],
     od_items = [], od_reservations = [], od_logs = [], od_entries = []\<rparr>"

definition kx_input :: "string \<Rightarrow> ingest_input" where
  "kx_input ref = \<lparr>ig_brandId = ''B'', ig_accountId = None, ig_aggregator = OTHER, ig_externalRef = ref,
     ig_customerName = None, ig_placedAt = Some 0, ig_allowOversell = False,
     ig_items = [\<lparr>ii_menuItemId = ''D'', ii_qty = 2, ii_notes = None\<rparr>]\<rparr>"

definition kx_options :: ingest_options where
  "kx_options = \<lparr>io_allowedLocationIds = None, io_workingLocationId = Some ''L''\<rparr>"

definition kx_bytes :: "nat \<Rightarrow> nat \<Rightarrow> nat list" where
  "kx_bytes a n = [a, n, 0, 0, 0]"

definition kx_ingest :: "nat \<Rightarrow> string \<Rightarrow> (nat \<Rightarrow> orders_db \<Rightarrow> orders_db) \<Rightarrow> orders_db \<Rightarrow> orders_db \<times> (order_error + ingest_result)" where
  "kx_ingest a ref gap db = ingestOrder ex_env 5 (kx_bytes a) gap (kx_input ref) kx_options db"

definition kx_brand :: brand where
  "kx_brand = \<lparr>br_id = ''B'', br_locationId = ''L'', br_name = ''Bo''\<rparr>"

definition kx_item :: resolved_item where
  "kx_item = \<lparr>ri_menuItemId = ''D'', ri_stationId = ''S'', ri_stationName = ''Grill'', ri_printerId = None, ri_qty = 2,
     ri_notes = None, ri_price = 10000, ri_name = ''Dish''\<rparr>"

definition kx_plan :: ingest_plan where
  "kx_plan = \<lparr>pl_accountId = ''A'', pl_location = ''L'', pl_items = [kx_item], pl_snapshots = componentSnapshot kx_db,
     pl_costs = unitCost kx_db, pl_placedAt = 0, pl_deadline = None, pl_rates = (None, None), pl_required = [(''G'', 1)],
     pl_warehouseId = Some ''K'', pl_shortfalls = []\<rparr>"

lemma kx_numbers: "portion 500000 2 = 1" "of_scale 6 1000000 = 1" "of_scale 6 500000 = 1 / 2" "of_scale 8 0 = 0" "of_scale 6 0 = 0"
  "fl 1 = 1" "to_fixed 4 0 = 0"
  by code_simp+

lemma kx_written: "to_scale 6 (shortest 1) = 1000000"
  using one_value_exact(1) [of 1000000] by (simp add: sum_numbers_def kx_numbers)

lemma kx_total: "orderTotal [kx_item] = 20000"
  by code_simp

lemma kx_cost: "unitCost kx_db ''D'' = 0"
  by (simp add: unitCost_def recipeOf_def findIngredient_def kx_db_def kx_numbers)

lemma kx_snapshot: "componentSnapshot kx_db ''D'' = [(''G'', 500000, ''kg'')]"
  by (simp add: componentSnapshot_def recipeOf_def findIngredient_def kx_db_def)

lemma kx_resolved: "resolveListing ex_env (kx_input ref) kx_options kx_brand db = (db, Inr (kx_listing, ''L''))"
  if "ob_listings db = [kx_listing]" "od_outlets db = []"
  using that by (simp add: resolveListing_def candidateListings_def resolveWalkInLocation_def activeOutlets_def activeListings_def
      chooseListing_def listingLocation_def kx_input_def kx_options_def kx_brand_def kx_listing_def truthy_def)

lemma kx_items: "mapE (resolveItem kx_db ''L'') (ig_items (kx_input ref)) = Inr [kx_item]"
  by (simp add: resolveItem_def kx_input_def kx_db_def findStation_def findDeployment_def kx_item_def truthy_def Let_def)

lemma kx_required: "requiredByIngredient kx_db [kx_item] = [(''G'', 1)]"
  by (simp add: requiredByIngredient_def recipeUses_def recipeOf_def findIngredient_def kx_db_def kx_item_def accumulate_def
      map_add_def kx_numbers)

lemma kx_planned: "planIngest 5 kx_db (kx_input ref) kx_listing ''L'' = Inr kx_plan"
proof -
  have "kitchenOf kx_db ''L'' = Some ''K''" by (simp add: kitchenOf_def kx_db_def)
  moreover have "availableQty kx_db ''K'' ''G'' = 1" by (simp add: availableQty_def onHand_def reserved_def kx_db_def kx_numbers)
  then have "shortfallsAt kx_db ''K'' [kx_item] = []" by (simp add: shortfallsAt_def kx_required)
  moreover have "resolveCommercialTermSnapshots kx_db ''A'' 0 None = (None, None)" by (simp add: resolveCommercialTermSnapshots_def kx_db_def)
  moreover have "acceptDeadline kx_listing 0 = None" by (simp add: acceptDeadline_def kx_listing_def)
  moreover have "ig_items (kx_input ref) \<noteq> []" "ig_placedAt (kx_input ref) = Some 0" "aa_id kx_listing = ''A''" "aa_commissionRate kx_listing = None"
    by (simp_all add: kx_input_def kx_listing_def)
  ultimately show ?thesis by (simp add: planIngest_def kx_items kx_required kx_plan_def)
qed

lemma kx_codes: "generateOrderCode ''Bo'' OTHER (kx_bytes 1 0) = ''BOX-WI-32222''" "generateOrderCode ''Bo'' OTHER (kx_bytes 2 0) = ''BOX-WI-42222''"
  by code_simp+

definition kx_order :: "string \<Rightarrow> string \<Rightarrow> string \<Rightarrow> sales_order" where
  "kx_order i ref code = newOrder (kx_input ref) kx_plan i code"

definition kx_reservation :: "string \<Rightarrow> reservation" where
  "kx_reservation i = \<lparr>sr_orderId = i, sr_ingredientId = ''G'', sr_warehouseId = ''K'', sr_quantity = 1000000\<rparr>"

definition kx_job :: "string \<Rightarrow> string \<Rightarrow> string \<Rightarrow> print_job" where
  "kx_job j i ref = newJob j 5 i ''S'' (''Grill'', None, [kx_item]) (kotPayload kx_brand (kx_input ref) 0 (''Grill'', None, [kx_item]))"

definition kx_after :: "string \<Rightarrow> string \<Rightarrow> orders_db \<Rightarrow> orders_db" where
  "kx_after ref code db =
     (let i = env_uuid ex_env (db_ids db)
      in db\<lparr>ob_orders := ob_orders db @ [kx_order i ref code], db_ids := Suc (Suc (db_ids db)),
            od_items := od_items db @ [newItem i kx_plan kx_item],
            pr_jobs := pr_jobs db @ [kx_job (env_uuid ex_env (Suc (db_ids db))) i ref],
            od_reservations := od_reservations db @ [kx_reservation i]\<rparr>)"

text \<open>Inserting an order of the example into any state it does not collide with.\<close>

lemma kx_inserted:
  assumes "\<forall>y \<in> set (ob_orders db). so_id y \<noteq> env_uuid ex_env (db_ids db) \<and> so_orderCode y \<noteq> Some code \<and> so_externalRef y \<noteq> ref"
    and "env_uuid ex_env (Suc (db_ids db)) \<notin> pj_id ` set (pr_jobs db)"
  shows "insertOrder ex_env 5 kx_brand (kx_input ref) kx_plan code db =
    Inr (kx_after ref code db, kx_order (env_uuid ex_env (db_ids db)) ref code, [(env_uuid ex_env (Suc (db_ids db)), ''Grill'', None)])"
proof -
  define i where "i = env_uuid ex_env (db_ids db)"
  have p: "pl_items kx_plan = [kx_item]" "pl_costs kx_plan ''D'' = 0" by (simp_all add: kx_plan_def kx_cost)
  have x: "so_total (kx_order i ref code) = 20000" "so_id (kx_order i ref code) = i" "so_orderCode (kx_order i ref code) = Some code"
    "so_externalRef (kx_order i ref code) = ref" "so_commissionRate (kx_order i ref code) = None" "so_marketingRate (kx_order i ref code) = None"
    by (simp_all add: kx_order_def newOrder_def p kx_total) (simp_all add: kx_input_def kx_plan_def)
  have row: "insertOrderRow (kx_order i ref code) db = Inr (db\<lparr>ob_orders := ob_orders db @ [kx_order i ref code], db_ids := Suc (db_ids db)\<rparr>)"
    using assms(1) [folded i_def] by (simp add: insertOrderRow_def x rate_ok_def)
  have item: "oi_qty (newItem i kx_plan kx_item) = 2" "oi_unitCost (newItem i kx_plan kx_item) = 0"
    by (simp_all add: newItem_def kx_item_def p)
  have items: "insertItems i kx_plan d = Inr (d\<lparr>od_items := od_items d @ [newItem i kx_plan kx_item]\<rparr>)" for d :: "'a orders_db_scheme"
    by (simp add: insertItems_def p item)
  have groups: "stationGroups (pl_items kx_plan) = [(''S'', (''Grill'', None, [kx_item]))]" by (simp add: stationGroups_def p kx_item_def)
  have res: "newReservations i kx_plan = [kx_reservation i]" by (simp add: newReservations_def kx_plan_def kx_reservation_def kx_written)
  have job: "newJob j 5 i ''S'' (''Grill'', None, [kx_item]) (kotPayload kx_brand (kx_input ref) (pl_placedAt kx_plan) (''Grill'', None, [kx_item])) = kx_job j i ref" for j
    by (simp add: kx_job_def kx_plan_def)
  have "column6 (sr_quantity (kx_reservation i)) = Inr 1000000" by (simp add: column6_def kx_reservation_def)
  then show ?thesis
    using assms(2)
    by (simp add: insertOrder_def kx_order_def [symmetric] i_def [symmetric] Let_def row x items groups res insertJob_def
        insertReservations_def job kx_after_def)
qed

text \<open>Taking an order when only the transaction meets another state.\<close>

lemma kx_taken:
  assumes "\<forall>y \<in> set (ob_orders db). so_id y \<noteq> env_uuid ex_env (db_ids db) \<and> so_orderCode y \<noteq> Some code \<and> so_externalRef y \<noteq> ref"
    and "env_uuid ex_env (Suc (db_ids db)) \<notin> pj_id ` set (pr_jobs db)" and "gap 1 kx_db = db"
    and "code = generateOrderCode ''Bo'' OTHER (kx_bytes a 0)"
  shows "\<exists>r. kx_ingest a ref gap kx_db = (kx_after ref code db, Inr r) \<and> \<not> ir_duplicate r"
proof -
  have "findBrand kx_db (ig_brandId (kx_input ref)) = Some kx_brand" by (simp add: findBrand_def kx_db_def kx_input_def kx_brand_def)
  moreover have "resolveListing ex_env (kx_input ref) kx_options kx_brand kx_db = (kx_db, Inr (kx_listing, ''L''))"
    by (rule kx_resolved) (simp_all add: kx_db_def)
  moreover have "existingOrder kx_db (aa_id kx_listing) (ig_externalRef (kx_input ref)) = None" by (simp add: existingOrder_def kx_db_def)
  moreover have "br_name kx_brand = ''Bo''" "ig_aggregator (kx_input ref) = OTHER" by (simp_all add: kx_brand_def kx_input_def)
  ultimately show ?thesis
    using kx_inserted [OF assms(1,2)] assms(3,4)
    by (simp add: kx_ingest_def ingestOrder_def kx_planned run_tx_def ingestResult_def)
qed

lemma kx_db_fields:
  "ob_orders kx_db = []" "pr_jobs kx_db = []" "db_ids kx_db = 1" "od_reservations kx_db = []" "od_logs kx_db = []"
  "od_entries kx_db = []" "od_items kx_db = []" "od_outlets kx_db = []" "ob_listings kx_db = [kx_listing]"
  by (simp_all add: kx_db_def)

lemma kx_after_fields:
  "ob_orders (kx_after ref code db) = ob_orders db @ [kx_order (env_uuid ex_env (db_ids db)) ref code]"
  "db_ids (kx_after ref code db) = Suc (Suc (db_ids db))" "od_stock (kx_after ref code db) = od_stock db"
  "pr_jobs (kx_after ref code db) = pr_jobs db @ [kx_job (env_uuid ex_env (Suc (db_ids db))) (env_uuid ex_env (db_ids db)) ref]"
  "od_reservations (kx_after ref code db) = od_reservations db @ [kx_reservation (env_uuid ex_env (db_ids db))]"
  "od_items (kx_after ref code db) = od_items db @ [newItem (env_uuid ex_env (db_ids db)) kx_plan kx_item]"
  "od_logs (kx_after ref code db) = od_logs db" "od_entries (kx_after ref code db) = od_entries db"
  "ob_listings (kx_after ref code db) = ob_listings db" "od_outlets (kx_after ref code db) = od_outlets db"
  by (simp_all add: kx_after_def Let_def)

text \<open>The order of the example: taken, advanced, cancelled.\<close>

definition kx1 :: orders_db where "kx1 = kx_after ''R1'' ''BOX-WI-32222'' kx_db"

lemma kx_uuid: "env_uuid ex_env 1 = ''i''" "env_uuid ex_env (Suc 0) = ''i''" "env_uuid ex_env 2 = ''ii''"
  by (simp_all add: ex_env_def numeral_2_eq_2)

lemma kx1_fields:
  "ob_orders kx1 = [kx_order ''i'' ''R1'' ''BOX-WI-32222'']" "od_stock kx1 = [\<lparr>is_warehouseId = ''K'', is_ingredientId = ''G'', is_quantity = 1000000\<rparr>]"
  "od_items kx1 = [newItem ''i'' kx_plan kx_item]" "od_reservations kx1 = [kx_reservation ''i'']" "od_logs kx1 = []" "od_entries kx1 = []"
  "db_warehouses kx1 = db_warehouses kx_db" "db_flags kx1 = db_flags kx_db"
  by (simp_all add: kx1_def kx_after_fields kx_db_fields kx_uuid) (simp_all add: kx_after_def Let_def kx_db_def)

lemma kx_order_fields:
  "so_id (kx_order i ref code) = i" "so_status (kx_order i ref code) = OS_NEW" "so_locationId (kx_order i ref code) = Some ''L''"
  "so_accountId (kx_order i ref code) = ''A''"
  by (simp_all add: kx_order_def newOrder_def kx_plan_def)

lemma kx_ok: "kitchen_ok kx_db"
  by (simp add: kitchen_ok_def stock_keyed_def orders_keyed_def logs_ok_def entries_ok_def) (simp add: kx_db_def)

lemma kx_insert1: "insertOrder ex_env 5 kx_brand (kx_input ''R1'') kx_plan ''BOX-WI-32222'' kx_db =
    Inr (kx1, kx_order ''i'' ''R1'' ''BOX-WI-32222'', [(''ii'', ''Grill'', None)])"
  using kx_inserted [of kx_db "''BOX-WI-32222''" "''R1''"] by (simp add: kx_db_fields kx_uuid kx1_def flip: numeral_2_eq_2)

lemma kx1_ok: "kitchen_ok kx1"
  using ingested_effect(1) [OF kx_ok kx_insert1] .

text \<open>The order with other recipes and another menu in the tables.\<close>

definition kx1_with :: "recipe_line list \<Rightarrow> menu_item list \<Rightarrow> orders_db" where
  "kx1_with rs ms = kx1\<lparr>od_recipes := rs, od_menu := ms\<rparr>"

lemma kx1_with_same: "kx1_with (od_recipes kx1) (od_menu kx1) = kx1"
  by (simp add: kx1_with_def)

lemma kx1_with_uses: "orderUses (kx1_with rs ms) ''i'' = [(''G'', 500000, 2)]"
proof -
  have "isLegacyRecipeSnapshotEnabled (kx1_with rs ms)"
    by (simp add: isLegacyRecipeSnapshotEnabled_def kx1_with_def kx1_fields) (simp add: kx_db_def)
  then show ?thesis
    by (simp add: orderUses_def itemsOf_def deductionLines_def kx1_with_def kx1_fields newItem_def kx_item_def kx_plan_def kx_snapshot)
qed

lemma kx1_uses: "orderUses kx1 ''i'' = [(''G'', 500000, 2)]"
  using kx1_with_uses [of "od_recipes kx1" "od_menu kx1"] by (simp only: kx1_with_same)

lemma kx1_uses_ok: "uses_ok (orderUses kx1 ''i'')"
  by (simp add: kx1_uses uses_ok_def used_def)

lemma kx1_deduct: "deductByIngredient (kx1_with rs ms) ''i'' = [(''G'', 1)]"
  by (simp add: deductByIngredient_def kx1_with_uses accumulate_def map_add_def kx_numbers)

lemma kx_balance: "column_add c (- shortest 1) = c - 1000000" "column_add c (shortest 1) = c + 1000000"
proof -
  have near: "list_all2 near [of_scale 6 1000000] [1000000]" using near_quantity [of 1000000] by simp
  show "column_add c (- shortest 1) = c - 1000000" "column_add c (shortest 1) = c + 1000000"
    using written_exact(2,3) [OF near, of c] by (simp_all add: sum_numbers_def kx_numbers)
qed

definition kx2 :: orders_db where
  "kx2 = kx1\<lparr>ob_orders := [stamp OS_PREPARING 9 (kx_order ''i'' ''R1'' ''BOX-WI-32222'')],
     od_stock := [\<lparr>is_warehouseId = ''K'', is_ingredientId = ''G'', is_quantity = 0\<rparr>],
     od_entries := [deductEntry ''i'' None ''K'' (''G'', 1)], od_logs := [logOf ''i'' None ''K'' (''G'', 1)],
     od_reservations := []\<rparr>"

definition kx2_with :: "recipe_line list \<Rightarrow> menu_item list \<Rightarrow> orders_db" where
  "kx2_with rs ms = kx2\<lparr>od_recipes := rs, od_menu := ms\<rparr>"

lemma kx_advanced_with: "\<exists>r. advanceTx 9 ''i'' OS_NEW OS_PREPARING None (kx1_with rs ms) = Inr (kx2_with rs ms, r) \<and>
    so_status (ar_order r) = OS_PREPARING"
proof -
  define x where "x = stamp OS_PREPARING 9 (kx_order ''i'' ''R1'' ''BOX-WI-32222'')"
  define db1 where "db1 = (kx1_with rs ms)\<lparr>ob_orders := [x]\<rparr>"
  have u: "updateStatus ''i'' OS_NEW (stamp OS_PREPARING 9) (kx1_with rs ms) = Inr (db1, x)"
    by (simp add: updateStatus_def kx1_with_def kx1_fields kx_order_fields update_where_def db1_def x_def)
  have k: "orderKitchen db1 x = Inr ''K''"
    by (simp add: orderKitchen_def x_def kx_order_fields truthy_def kitchenOf_def db1_def kx1_with_def kx1_fields) (simp add: kx_db_def)
  have d: "deductByIngredient db1 ''i'' = [(''G'', 1)]" by (simp add: db1_def kx1_deduct)
  have m: "addMissingStock ''K'' [''G''] db1 = db1" by (simp add: addMissingStock_def hasStock_def db1_def kx1_with_def kx1_fields)
  have c: "changeStock ''K'' ''G'' (- shortest 1) db1 = Inr (db1\<lparr>od_stock := [\<lparr>is_warehouseId = ''K'', is_ingredientId = ''G'', is_quantity = 0\<rparr>]\<rparr>)"
    by (simp add: changeStock_def Let_def db1_def kx1_with_def kx1_fields update_where_def kx_balance)
  have e1: "od_entries db1 = []" "od_logs db1 = []" by (simp_all add: db1_def kx1_with_def kx1_fields)
  have "deductOne ''i'' None ''K'' (''G'', 1) db1 = Inr (db1\<lparr>od_stock := [\<lparr>is_warehouseId = ''K'', is_ingredientId = ''G'', is_quantity = 0\<rparr>],
      od_entries := [deductEntry ''i'' None ''K'' (''G'', 1)]\<rparr>)"
    by (simp add: deductOne_def c postLedger_def column6_def kx_written e1 deductEntry_def)
  then have "deduct ''i'' None ''K'' db1 = Inr (db1\<lparr>od_stock := [\<lparr>is_warehouseId = ''K'', is_ingredientId = ''G'', is_quantity = 0\<rparr>],
      od_entries := [deductEntry ''i'' None ''K'' (''G'', 1)], od_logs := [logOf ''i'' None ''K'' (''G'', 1)]\<rparr>)"
    by (simp add: deduct_def d m insertLogs_def column6_def logOf_def kx_written e1)
  moreover have "so_id x = ''i''" "so_status x = OS_PREPARING" by (simp_all add: x_def kx_order_fields)
  moreover have "deleteReservations ''i'' (db1\<lparr>od_stock := [\<lparr>is_warehouseId = ''K'', is_ingredientId = ''G'', is_quantity = 0\<rparr>],
      od_entries := [deductEntry ''i'' None ''K'' (''G'', 1)], od_logs := [logOf ''i'' None ''K'' (''G'', 1)]\<rparr>) = kx2_with rs ms"
    by (simp add: deleteReservations_def kx2_with_def kx2_def db1_def x_def kx1_with_def kx1_fields kx_reservation_def)
  ultimately show ?thesis by (simp add: advanceTx_def u startPreparing_def k Let_def)
qed

lemma kx_advance_with: "\<exists>r. advanceOrder ex_env (\<lambda>_. True) 9 (\<lambda>d. d) (\<lambda>d. d) (\<lambda>d. d) ''i'' None (kx1_with rs ms) = (kx2_with rs ms, Inr r) \<and> so_status (ar_order r) = OS_PREPARING"
proof -
  from kx_advanced_with obtain r where r: "advanceTx 9 ''i'' OS_NEW OS_PREPARING None (kx1_with rs ms) = Inr (kx2_with rs ms, r)" "so_status (ar_order r) = OS_PREPARING" by blast
  have "readAdvance (kx1_with rs ms) ''i'' = Inr (OS_NEW, OS_PREPARING)"
    by (simp add: readAdvance_def findOrder_def kx1_with_def kx1_fields kx_order_fields nextStage_def)
  moreover have "enqueueLifecycleCommand ex_env (\<lambda>_. True) 9 (\<lambda>d. d) i a ready actor (kx2_with rs ms) = (kx2_with rs ms, Inr None)" for i a ready actor
  proof -
    have "\<not> isOutboundEnabled (kx2_with rs ms)"
      by (simp add: isOutboundEnabled_def kx2_with_def kx2_def kx1_fields OUTBOUND_COMMANDS_FLAG_def) (simp add: kx_db_def)
    then show ?thesis by (simp add: enqueueLifecycleCommand_def split: option.splits)
  qed
  ultimately show ?thesis using r by (simp add: advanceOrder_def run_tx_def)
qed

lemma kx2_with_same: "kx2_with (od_recipes kx1) (od_menu kx1) = kx2"
  by (simp add: kx2_with_def kx2_def)

lemma kx_advanced: "\<exists>r. advanceTx 9 ''i'' OS_NEW OS_PREPARING None kx1 = Inr (kx2, r) \<and> so_status (ar_order r) = OS_PREPARING"
  using kx_advanced_with [of "od_recipes kx1" "od_menu kx1"] by (simp only: kx1_with_same kx2_with_same)

lemma kx_advance: "\<exists>r. advanceOrder ex_env (\<lambda>_. True) 9 (\<lambda>d. d) (\<lambda>d. d) (\<lambda>d. d) ''i'' None kx1 = (kx2, Inr r) \<and> so_status (ar_order r) = OS_PREPARING"
  using kx_advance_with [of "od_recipes kx1" "od_menu kx1"] by (simp only: kx1_with_same kx2_with_same)

lemma kx2_ok: "kitchen_ok kx2"
proof -
  from kx_advanced obtain r where r: "advanceTx 9 ''i'' OS_NEW OS_PREPARING None kx1 = Inr (kx2, r)" by blast
  have "kitchen_step ex_env kx1 kx2" by (rule kitchen_step.advanced [OF _ r kx1_uses_ok]) (simp add: nextStage_def)
  from kitchen_step_keeps [OF this kx1_ok] show ?thesis by blast
qed

lemma kx_cancel: "\<exists>d evs. cancelOrder (\<lambda>d. d) ''i'' (Some ''no'') kx2 = (d, Inr evs)"
proof -
  define x where "x = stamp OS_PREPARING 9 (kx_order ''i'' ''R1'' ''BOX-WI-32222'')"
  have x: "so_id x = ''i''" "so_status x = OS_PREPARING" by (simp_all add: x_def kx_order_fields)
  have f: "findOrder kx2 ''i'' = Some x" by (simp add: findOrder_def kx2_def x x_def [symmetric])
  define db1 where "db1 = deleteReservations ''i'' (kx2\<lparr>ob_orders := [cancelStamp ''no'' x]\<rparr>)"
  have u: "updateStatus ''i'' OS_PREPARING (cancelStamp ''no'') kx2 = Inr (kx2\<lparr>ob_orders := [cancelStamp ''no'' x]\<rparr>, cancelStamp ''no'' x)"
    by (simp add: updateStatus_def kx2_def x update_where_def x_def [symmetric])
  have "logsOf db1 ''i'' = [logOf ''i'' None ''K'' (''G'', 1)]" by (simp add: logsOf_def db1_def deleteReservations_def kx2_def logOf_def)
  moreover have "logTarget db1 x (logOf ''i'' None ''K'' (''G'', 1)) = Inr ((''K'', ''G''), 1)"
    by (simp add: logTarget_def logOf_def kx_written kx_numbers)
  moreover have "accumulate [((''K'', ''G''), 1)] = [((''K'', ''G''), 1)]" by (simp add: accumulate_def map_add_def kx_numbers)
  moreover have "\<exists>d. restockOne ''i'' ((''K'', ''G''), 1) db1 = Inr d"
    by (simp add: restockOne_def changeStock_def Let_def db1_def deleteReservations_def kx2_def kx_balance postLedger_def column6_def kx_written)
  ultimately have "\<exists>d evs. restock x db1 = Inr (d, evs)" by (auto simp: restock_def Let_def x)
  then show ?thesis by (auto simp: cancelOrder_def f x text_eval cancelTx_def u run_tx_def Let_def simp flip: db1_def)
qed

end
