(* ===== verification/OrderProps.thy ===== *)
theory OrderProps
  imports OrderExample
begin

text \<open>The properties of the order flow, on the outlet of the example.\<close>

section \<open>Stock\<close>

text \<open>C3: Whatever sequence of orders taken, advanced and cancelled runs, what the kitchen holds of an
  ingredient plus what orders took stays the same, and so does its difference from the ledger.\<close>

theorem kitchen_conserved:
  assumes "(kitchen_step e)\<^sup>*\<^sup>* db db'" and "kitchen_ok db"
  shows "kitchen_ok db' \<and> stock_sum db' w g + taken db' w g = stock_sum db w g + taken db w g \<and>
    stock_sum db' w g - entries_net db' w g = stock_sum db w g - entries_net db w g"
  using kitchen_steps_keep [OF assms] by (simp add: conserves_def)

theorem kitchen_conserved_witness:
  "\<exists>db :: orders_db. (kitchen_step ex_env)\<^sup>*\<^sup>* kx_db db \<and> stock_sum db ''K'' ''G'' = 0 \<and>
     stock_sum db ''K'' ''G'' + taken db ''K'' ''G'' = 1000000"
proof -
  from kx_advanced obtain r where r: "advanceTx 9 ''i'' OS_NEW OS_PREPARING None kx1 = Inr (kx2, r)" by blast
  have "kitchen_step ex_env kx_db kx1" by (rule kitchen_step.ingested [OF kx_insert1])
  moreover have "kitchen_step ex_env kx1 kx2" by (rule kitchen_step.advanced [OF _ r kx1_uses_ok]) (simp add: nextStage_def)
  ultimately have st: "(kitchen_step ex_env)\<^sup>*\<^sup>* kx_db kx2" by (meson converse_rtranclp_into_rtranclp rtranclp.rtrancl_refl)
  have "stock_sum kx_db ''K'' ''G'' + taken kx_db ''K'' ''G'' = 1000000"
    by (simp add: stock_sum_def taken_def taken_by_def) (simp add: kx_db_def)
  with kitchen_conserved [OF st kx_ok, of "''K''" "''G''"] have "stock_sum kx2 ''K'' ''G'' + taken kx2 ''K'' ''G'' = 1000000" by simp
  moreover have "stock_sum kx2 ''K'' ''G'' = 0" by (simp add: stock_sum_def kx2_def)
  ultimately show ?thesis using st by blast
qed

lemma hook_stock:
  "od_stock (fst (enqueueLifecycleCommand e date_ok now (\<lambda>d. d) i a ready actor db)) = od_stock db"
  "od_logs (fst (enqueueLifecycleCommand e date_ok now (\<lambda>d. d) i a ready actor db)) = od_logs db"
  "od_entries (fst (enqueueLifecycleCommand e date_ok now (\<lambda>d. d) i a ready actor db)) = od_entries db"
  "od_reservations (fst (enqueueLifecycleCommand e date_ok now (\<lambda>d. d) i a ready actor db)) = od_reservations db"
  "ob_orders (fst (enqueueLifecycleCommand e date_ok now (\<lambda>d. d) i a ready actor db)) = ob_orders db"
  for db :: "'z orders_db_scheme"
  by (auto simp: enqueueLifecycleCommand_def enqueueCommand_def insertCommand_def run_tx_def audit_def Let_def split: option.splits sum.splits prod.splits)

lemma same_tables:
  fixes db :: "'z orders_db_scheme"
  assumes "od_stock db' = od_stock db" and "od_logs db' = od_logs db" and "ob_orders db' = ob_orders db"
  shows "stock_sum db' w g = stock_sum db w g" and "logsOf db' i = logsOf db i" and "taken db' w g = taken db w g"
    and "statusOf db' i = statusOf db i"
  using assms by (simp_all add: stock_sum_def logsOf_def taken_def statusOf_def findOrder_def)

text \<open>What a successful call of \<open>advanceOrder\<close> is.\<close>

lemma advanceOrder_ok:
  assumes "advanceOrder e date_ok now gap (\<lambda>d. d) (\<lambda>d. d) i user db = (db', Inr r)"
  obtains expected nxt db1 where "nextStage expected = Inr nxt" "advanceTx now i expected nxt user (gap db) = Inr (db1, r)"
    "so_status (ar_order r) = nxt" "od_stock db' = od_stock db1" "od_logs db' = od_logs db1" "ob_orders db' = ob_orders db1"
    "od_reservations db' = od_reservations db1" "od_entries db' = od_entries db1"
proof -
  from assms obtain expected nxt where read: "readAdvance db i = Inr (expected, nxt)"
    by (auto simp: advanceOrder_def split: sum.splits)
  then have n: "nextStage expected = Inr nxt" by (auto simp: readAdvance_def res_iff split: option.splits)
  from assms read obtain db1 where tx: "advanceTx now i expected nxt user (gap db) = Inr (db1, r)"
    and db': "db' = (if nxt = OS_PREPARING \<or> nxt = OS_READY
      then fst (enqueueLifecycleCommand e date_ok now (\<lambda>d. d) (so_id (ar_order r)) (Some (so_accountId (ar_order r))) (nxt = OS_READY) user db1)
      else db1)"
    by (auto simp: advanceOrder_def run_tx_def split: sum.splits prod.splits if_splits)
  have "so_status (ar_order r) = nxt"
    using tx by (auto simp: advanceTx_def updateStatus_def res_iff split: option.splits if_splits)
  with n tx show ?thesis by (rule that) (simp_all add: db' hook_stock)
qed

lemma advanced_status:
  assumes "advanceOrder e date_ok now (\<lambda>d. d) (\<lambda>d. d) (\<lambda>d. d) i user db = (db', Inr r)" and "statusOf db i = Some s"
  shows "nextStage s = Inr (so_status (ar_order r))"
proof -
  from assms(2) obtain x where x: "findOrder db i = Some x" "so_status x = s" by (auto simp: statusOf_def)
  with assms(1) obtain nxt db1 where n: "nextStage s = Inr nxt" and tx: "advanceTx now i s nxt user db = Inr (db1, r)"
    by (auto simp: advanceOrder_def readAdvance_def run_tx_def res_iff bindE_def ensure_def split: sum.splits prod.splits if_splits)
  from tx have "so_status (ar_order r) = nxt" by (auto simp: advanceTx_def updateStatus_def res_iff split: option.splits if_splits)
  with n show ?thesis by simp
qed

lemma advanced_new:
  assumes "advanceOrder e date_ok now gap (\<lambda>d. d) (\<lambda>d. d) i user db = (db', Inr r)"
    and "so_status (ar_order r) = OS_PREPARING" and "kitchen_ok (gap db)" and "uses_ok (orderUses (gap db) i)"
  shows "\<exists>x wh. findOrder (gap db) i = Some x \<and> so_status x = OS_NEW \<and> orderKitchen (gap db) x = Inr wh \<and>
    (\<forall>w g. stock_sum db' w g = stock_sum (gap db) w g - (if w = wh then used (orderUses (gap db) i) g else 0)) \<and>
    od_logs db' = od_logs (gap db) @ map (logOf i user wh) (deductByIngredient (gap db) i) \<and> kitchen_ok db'"
proof -
  from advanceOrder_ok [OF assms(1)] obtain expected nxt db1 where a: "nextStage expected = Inr nxt"
    "advanceTx now i expected nxt user (gap db) = Inr (db1, r)" "so_status (ar_order r) = nxt"
    and same: "od_stock db' = od_stock db1" "od_logs db' = od_logs db1" "ob_orders db' = ob_orders db1"
      "od_reservations db' = od_reservations db1" "od_entries db' = od_entries db1" by metis
  have "nxt = OS_PREPARING" "expected = OS_NEW" using a(1,3) assms(2) by (auto elim: nextStage_cases)
  with a(2) obtain db2 y low ups where u: "updateStatus i OS_NEW (stamp OS_PREPARING now) (gap db) = Inr (db2, y)"
    and s: "startPreparing user y db2 = Inr (db1, low, ups)" by (auto simp: advanceTx_def res_iff)
  have "orders_keyed (gap db)" using assms(3) by (simp add: kitchen_ok_def)
  note U = updateStatus_ok [OF u this, simplified]
  from U(6) obtain x where x: "findOrder (gap db) i = Some x" "y = stamp OS_PREPARING now x" by blast
  have "so_status x = OS_NEW" using U(1) x(1) by (simp add: statusOf_def)
  moreover from U(5) obtain os where os: "db2 = (gap db)\<lparr>ob_orders := os\<rparr>" by blast
  have "orderKitchen db2 y = orderKitchen (gap db) x" by (simp add: os x(2) orderKitchen_def kitchenOf_def findBrand_def cong: option.case_cong)
  with started_effect(3) [OF assms(3) u s assms(4)] obtain wh where wh: "orderKitchen (gap db) x = Inr wh"
    and eff: "\<forall>w h. stock_sum db1 w h = stock_sum (gap db) w h - (if w = wh then used (orderUses (gap db) i) h else 0)"
      "od_logs db1 = od_logs (gap db) @ map (logOf i user wh) (deductByIngredient (gap db) i)" by auto
  have "kitchen_ok db'" using started_effect(1) [OF assms(3) u s assms(4)] same
    by (simp add: kitchen_ok_def stock_keyed_def orders_keyed_def logs_ok_def entries_ok_def log_ok_def hasStock_def
        statusOf_def findOrder_def cong: option.case_cong)
  moreover have "stock_sum db' w h = stock_sum db1 w h" for w h using same by (simp add: stock_sum_def)
  ultimately show ?thesis using x(1) wh eff same(2) by auto
qed

text \<open>C4: Advancing a new order takes exactly the portions of its items out of the kitchen of its outlet,
  in the state its transaction meets.\<close>

theorem advance_deducts:
  assumes "advanceOrder e date_ok now gap (\<lambda>d. d) (\<lambda>d. d) i user db = (db', Inr r)"
    and "so_status (ar_order r) = OS_PREPARING" and "kitchen_ok (gap db)" and "uses_ok (orderUses (gap db) i)"
  shows "\<exists>x wh. findOrder (gap db) i = Some x \<and> so_status x = OS_NEW \<and> orderKitchen (gap db) x = Inr wh \<and>
    stock_sum db' w g = stock_sum (gap db) w g - (if w = wh then used (orderUses (gap db) i) g else 0)"
  using advanced_new [OF assms] by blast

theorem advance_deducts_witness:
  "stock_sum kx1 ''K'' ''G'' = 1000000 \<and> stock_sum kx2 ''K'' ''G'' = 0 \<and> stock_sum kx2 ''K'' ''X'' = stock_sum kx1 ''K'' ''X''"
proof -
  from kx_advance obtain r where r: "advanceOrder ex_env (\<lambda>_. True) 9 (\<lambda>d. d) (\<lambda>d. d) (\<lambda>d. d) ''i'' None kx1 = (kx2, Inr r)"
    "so_status (ar_order r) = OS_PREPARING" by blast
  have k: "orderKitchen kx1 (kx_order ''i'' ''R1'' ''BOX-WI-32222'') = Inr ''K''"
    by (simp add: orderKitchen_def kx_order_fields truthy_def kitchenOf_def kx1_fields) (simp add: kx_db_def)
  have "stock_sum kx1 ''K'' ''G'' = 1000000" by (simp add: stock_sum_def kx1_fields)
  then show ?thesis
    using advance_deducts [OF r kx1_ok kx1_uses_ok, of "''K''" "''G''"] advance_deducts [OF r kx1_ok kx1_uses_ok, of "''K''" "''X''"]
    by (simp add: findOrder_def kx1_fields kx_order_fields k kx1_uses used_def)
qed

text \<open>A transition that read the order before another request moved it is refused and changes nothing:
  an order is deducted or restocked at most once.\<close>

theorem stale_transition_refused:
  assumes "orders_keyed (gap db)" and "statusOf (gap db) i \<noteq> statusOf db i" and "statusOf db i \<noteq> None"
  shows "(\<exists>err. advanceOrder e date_ok now gap gap2 gap3 i user db = (if err = OrderConflict then gap db else db, Inl err)) \<and>
    (\<exists>err. cancelOrder gap i reason db = (if err = OrderConflict then gap db else db, Inl err))"
proof (rule conjI)
  have miss: "updateStatus j s f (gap db) = Inl OrderConflict" if "j = i" "statusOf db i = Some s" for j s f
  proof -
    have d: "distinct (map so_id (ob_orders (gap db)))" using assms(1) by (simp add: orders_keyed_def)
    have "List.find (\<lambda>x. so_id x = i \<and> so_status x = s) (ob_orders (gap db)) = None"
      using assms(2) that(2) by (auto simp: findOrder_update [OF d] statusOf_def findOrder_def split: option.splits)
    then show ?thesis by (simp add: updateStatus_def that(1))
  qed
  from assms(3) obtain x where x: "findOrder db i = Some x" "statusOf db i = Some (so_status x)" by (auto simp: statusOf_def)
  then have i: "so_id x = i" by (auto simp: findOrder_def dest: find_Some_mem)
  show "\<exists>err. advanceOrder e date_ok now gap gap2 gap3 i user db = (if err = OrderConflict then gap db else db, Inl err)"
  proof (cases "readAdvance db i")
    case (Inl err)
    then have "err = OrderValidation" using x(1) by (auto simp: readAdvance_def nextStage_def res_iff split: order_status.splits)
    with Inl show ?thesis by (intro exI [of _ err]) (simp add: advanceOrder_def)
  next
    case (Inr p)
    then obtain nxt where "p = (so_status x, nxt)" by (auto simp: readAdvance_def x(1) res_iff)
    with Inr miss [OF refl x(2)] show ?thesis by (intro exI [of _ OrderConflict]) (simp add: advanceOrder_def advanceTx_def run_tx_def)
  qed
  show "\<exists>err. cancelOrder gap i reason db = (if err = OrderConflict then gap db else db, Inl err)"
    using miss [OF i x(2)] x(1)
    by (cases "so_status x = OS_CANCELLED \<or> so_status x = OS_COMPLETED"; cases "(case reason of Some s \<Rightarrow> trim s | None \<Rightarrow> []) = [] \<or>
        500 < length (case reason of Some s \<Rightarrow> trim s | None \<Rightarrow> [])")
      (auto simp: cancelOrder_def cancelTx_def run_tx_def Let_def intro: exI [of _ OrderConflict] exI [of _ OrderValidation])
qed

theorem stale_transition_refused_witness:
  "\<exists>err. advanceOrder ex_env (\<lambda>_. True) 9 (\<lambda>_. kx2) (\<lambda>d. d) (\<lambda>d. d) ''i'' None kx1 = (if err = OrderConflict then kx2 else kx1, Inl err)"
proof -
  have "orders_keyed kx2" using kx2_ok by (simp add: kitchen_ok_def)
  moreover have "statusOf kx2 ''i'' \<noteq> statusOf kx1 ''i''" "statusOf kx1 ''i'' \<noteq> None"
    by (simp_all add: statusOf_def findOrder_def kx2_def kx1_fields kx_order_fields)
  ultimately show ?thesis using stale_transition_refused [of "\<lambda>_. kx2" kx1 "''i''"] by blast
qed

text \<open>C7: A cancellation gives back exactly what the logs of the order say was taken, and leaves neither
  logs nor reservations of it.\<close>

theorem cancel_restores:
  assumes "cancelOrder gap i reason db = (db', Inr evs)" and "kitchen_ok (gap db)"
  shows "stock_sum db' w g = stock_sum (gap db) w g + taken_by (logsOf (gap db) i) w g \<and> logsOf db' i = [] \<and>
    statusOf db' i = Some OS_CANCELLED \<and> (\<forall>r \<in> set (od_reservations db'). sr_orderId r \<noteq> i)"
proof -
  from assms(1) obtain x s where x: "findOrder db i = Some x" "so_status x \<notin> {OS_CANCELLED, OS_COMPLETED}"
    and c: "cancelTx x s (gap db) = Inr (db', evs)"
    by (auto simp: cancelOrder_def Let_def run_tx_ok split: option.splits if_splits)
  have "so_id x = i" using x(1) by (auto simp: findOrder_def dest: find_Some_mem)
  with cancelled_effect(3-6) [OF assms(2) c x(2)] show ?thesis by simp
qed

theorem cancel_restores_witness: "\<exists>d :: orders_db. stock_sum d ''K'' ''G'' = 1000000 \<and> statusOf d ''i'' = Some OS_CANCELLED \<and> logsOf d ''i'' = []"
proof -
  from kx_cancel obtain d evs where "cancelOrder (\<lambda>d. d) ''i'' (Some ''no'') kx2 = (d, Inr evs)" by blast
  from cancel_restores [OF this kx2_ok, of "''K''" "''G''"]
  moreover have "stock_sum kx2 ''K'' ''G'' = 0" by (simp add: stock_sum_def kx2_def)
  moreover have "taken_by (logsOf kx2 ''i'') ''K'' ''G'' = 1000000" by (simp add: taken_by_def logsOf_def kx2_def logOf_def kx_written)
  ultimately have "stock_sum d ''K'' ''G'' = 1000000 \<and> statusOf d ''i'' = Some OS_CANCELLED \<and> logsOf d ''i'' = []" by simp
  then show ?thesis by blast
qed

text \<open>C8: Advancing a new order and cancelling it afterwards restores every balance of the kitchen.\<close>

theorem advance_cancel_roundtrip:
  assumes "kitchen_ok db" and "statusOf db i = Some OS_NEW" and "uses_ok (orderUses db i)"
    and "advanceOrder e date_ok now (\<lambda>d. d) (\<lambda>d. d) (\<lambda>d. d) i user db = (db1, Inr r)"
    and "cancelOrder (\<lambda>d. d) i reason db1 = (db2, Inr evs)"
  shows "stock_sum db2 w g = stock_sum db w g \<and> taken db2 w g = taken db w g"
proof -
  have "so_status (ar_order r) = OS_PREPARING"
    using advanced_status [OF assms(4,2)] by (simp add: nextStage_def)
  with advanced_new [OF assms(4) _ assms(1,3)] obtain wh where adv: "stock_sum db1 w g = stock_sum db w g - (if w = wh then used (orderUses db i) g else 0)"
    "od_logs db1 = od_logs db @ map (logOf i user wh) (deductByIngredient db i)" and ok: "kitchen_ok db1" by blast
  have "logsOf db i = []" using assms(1,2)
    by (auto simp: logsOf_def filter_empty_conv kitchen_ok_def logs_ok_def split: option.splits)
  then have "logsOf db1 i = map (logOf i user wh) (deductByIngredient db i)" by (simp add: logsOf_def adv(2) logOf_def filter_id_conv)
  then have l: "taken_by (logsOf db1 i) w g = (if w = wh then used (orderUses db i) g else 0)" using deduct_taken [OF assms(3)] by simp
  from assms(5) obtain x s where x: "findOrder db1 i = Some x" "so_status x \<notin> {OS_CANCELLED, OS_COMPLETED}"
    and c: "cancelTx x s db1 = Inr (db2, evs)"
    by (auto simp: cancelOrder_def Let_def run_tx_ok split: option.splits if_splits)
  have "so_id x = i" using x(1) by (auto simp: findOrder_def dest: find_Some_mem)
  with cancelled_effect(2,3) [OF ok c x(2)] l adv have "stock_sum db2 w g = stock_sum db w g" "conserves db1 db2" by simp_all
  moreover have "taken db1 w g = taken db w g + taken_by (map (logOf i user wh) (deductByIngredient db i)) w g"
    by (simp add: taken_def adv(2) logOf_def filter_id_conv)
  moreover have "stock_sum db2 w g + taken db2 w g = stock_sum db1 w g + taken db1 w g"
    using \<open>conserves db1 db2\<close> unfolding conserves_def by blast
  ultimately show ?thesis using adv(1) deduct_taken [OF assms(3), of user wh w g] by linarith
qed

theorem advance_cancel_roundtrip_witness: "\<exists>d :: orders_db. stock_sum d ''K'' ''G'' = 1000000 \<and> taken d ''K'' ''G'' = 0"
proof -
  from kx_advance obtain r where r: "advanceOrder ex_env (\<lambda>_. True) 9 (\<lambda>d. d) (\<lambda>d. d) (\<lambda>d. d) ''i'' None kx1 = (kx2, Inr r)" by blast
  from kx_cancel obtain d evs where c: "cancelOrder (\<lambda>d. d) ''i'' (Some ''no'') kx2 = (d, Inr evs)" by blast
  have "statusOf kx1 ''i'' = Some OS_NEW" by (simp add: statusOf_def findOrder_def kx1_fields kx_order_fields)
  from advance_cancel_roundtrip [OF kx1_ok this kx1_uses_ok r c, of "''K''" "''G''"]
  moreover have "stock_sum kx1 ''K'' ''G'' = 1000000" "taken kx1 ''K'' ''G'' = 0"
    by (simp_all add: stock_sum_def taken_def taken_by_def kx1_fields)
  ultimately have "stock_sum d ''K'' ''G'' = 1000000 \<and> taken d ''K'' ''G'' = 0" by simp
  then show ?thesis by blast
qed

section \<open>Taking orders\<close>

definition planUses :: "'z orders_db_scheme \<Rightarrow> resolved_item list \<Rightarrow> (string \<times> int \<times> nat) list" where
  "planUses db items = map (\<lambda>(i, r). (rl_ingredientId r, rl_portionQty r, ri_qty i)) (recipeUses db items)"

lemma required_uses: "requiredByIngredient db items = accumulate (map (\<lambda>(g, q, n). (g, portion q n)) (planUses db items))"
  by (simp add: requiredByIngredient_def planUses_def case_prod_unfold comp_def)

lemma reserved_new:
  assumes "od_reservations db' = od_reservations db @ newReservations i p" and "pl_warehouseId p = Some w"
    and "pl_required p = accumulate (map (\<lambda>(g, q, n). (g, portion q n)) us)" and "uses_ok us"
  shows "reserved db' w g = reserved db w g + used us g"
proof -
  define d where "d = pl_required p"
  have "reserved db' w g = reserved db w g + sum_list (map (\<lambda>a. if fst a = g then to_scale 6 (shortest (snd a)) else 0) d)"
    unfolding reserved_def assms(1) newReservations_def assms(2) d_def [symmetric] by (simp, induction d) auto
  also have "sum_list (map (\<lambda>a. if fst a = g then to_scale 6 (shortest (snd a)) else 0) d) =
      (case map_of d g of None \<Rightarrow> 0 | Some x \<Rightarrow> to_scale 6 (shortest x))"
    using sum_single_key [of d g "\<lambda>a. to_scale 6 (shortest (snd a))"] by (simp add: d_def assms(3) cong: option.case_cong)
  also have "\<dots> = used us g" using deduct_map [OF assms(4) assms(3) [folded d_def], of g] by (auto split: option.splits)
  finally show ?thesis .
qed

lemma deduction_as_planned:
  assumes "planIngest now db0 inp l loc = Inr p" and "insertOrder e now b inp p code db = Inr (db1, x, jobs)"
    and "\<forall>i \<in> set (od_items db). oi_orderId i \<noteq> so_id x" and "isLegacyRecipeSnapshotEnabled db1"
  shows "orderUses (db1\<lparr>od_recipes := rs, od_menu := ms\<rparr>) (so_id x) = planUses db0 (pl_items p)"
    and "deductByIngredient (db1\<lparr>od_recipes := rs, od_menu := ms\<rparr>) (so_id x) = pl_required p"
proof -
  from assms(1) have p: "pl_required p = requiredByIngredient db0 (pl_items p)" "pl_snapshots p = componentSnapshot db0"
    by (auto simp: planIngest_def Let_def res_iff)
  from insertOrder_frame(1) [OF assms(2)] obtain n js where db1: "db1 = db\<lparr>ob_orders := ob_orders db @ [x], db_ids := n, pr_jobs := js,
      od_items := od_items db @ map (newItem (so_id x) p) (pl_items p),
      od_reservations := od_reservations db @ newReservations (so_id x) p\<rparr>" by blast
  define d where "d = db1\<lparr>od_recipes := rs, od_menu := ms\<rparr>"
  have flag: "isLegacyRecipeSnapshotEnabled d" using assms(4) by (simp add: d_def isLegacyRecipeSnapshotEnabled_def)
  have "itemsOf d (so_id x) = map (newItem (so_id x) p) (pl_items p)"
    using assms(3) by (simp add: itemsOf_def d_def db1 filter_empty_conv filter_id_conv newItem_def)
  moreover have "map (\<lambda>(g, q). (g, q, oi_qty (newItem (so_id x) p i))) (deductionLines d (newItem (so_id x) p i)) =
      map (\<lambda>r. (rl_ingredientId r, rl_portionQty r, ri_qty i)) (recipeOf db0 (ri_menuItemId i))" for i
    using flag by (simp add: deductionLines_def newItem_def p(2) componentSnapshot_def)
  ultimately have "orderUses d (so_id x) = planUses db0 (pl_items p)"
    by (simp add: orderUses_def planUses_def recipeUses_def map_concat comp_def)
  then show "orderUses (db1\<lparr>od_recipes := rs, od_menu := ms\<rparr>) (so_id x) = planUses db0 (pl_items p)"
    "deductByIngredient (db1\<lparr>od_recipes := rs, od_menu := ms\<rparr>) (so_id x) = pl_required p"
    by (simp_all add: deductByIngredient_def p(1) required_uses flip: d_def)
qed

text \<open>C9: What an order reserves when it is taken is what advancing it deducts, whatever happens to the
  recipes and the menu in between, once the snapshot flag is on: the reservation rows the order has
  after it was taken and the consumption logs it has after it was advanced name the same ingredients,
  in the same order, with the same quantities.\<close>

theorem reservation_matches_deduction:
  assumes "planIngest now db0 inp l loc = Inr p" and "insertOrder e now b inp p code db = Inr (db1, x, jobs)"
    and "\<forall>i \<in> set (od_items db). oi_orderId i \<noteq> so_id x" and "\<forall>r \<in> set (od_reservations db). sr_orderId r \<noteq> so_id x"
    and "isLegacyRecipeSnapshotEnabled db1" and "pl_warehouseId p \<noteq> None" and "kitchen_ok db" and "uses_ok (planUses db0 (pl_items p))"
    and "advanceOrder e' date_ok now' (\<lambda>d. d) (\<lambda>d. d) (\<lambda>d. d) (so_id x) user (db1\<lparr>od_recipes := rs, od_menu := ms\<rparr>) = (db2, Inr r)"
  shows "map (\<lambda>r. (sr_ingredientId r, sr_quantity r)) (filter (\<lambda>r. sr_orderId r = so_id x) (od_reservations db1)) =
    map (\<lambda>l. (cl_ingredientId l, cl_quantity l)) (logsOf db2 (so_id x))"
proof -
  define d where "d = db1\<lparr>od_recipes := rs, od_menu := ms\<rparr>"
  note same = deduction_as_planned [OF assms(1,2,3,5), where rs = rs and ms = ms, folded d_def]
  from insertOrder_frame(1) [OF assms(2)] obtain n js where db1: "db1 = db\<lparr>ob_orders := ob_orders db @ [x], db_ids := n, pr_jobs := js,
      od_items := od_items db @ map (newItem (so_id x) p) (pl_items p),
      od_reservations := od_reservations db @ newReservations (so_id x) p\<rparr>" by blast
  have ok1: "kitchen_ok db1" by (rule ingested_effect(1) [OF assms(7,2)])
  then have ok: "kitchen_ok d"
    by (simp add: d_def kitchen_ok_def stock_keyed_def orders_keyed_def logs_ok_def entries_ok_def log_ok_def hasStock_def
        statusOf_def findOrder_def cong: option.case_cong)
  have "statusOf db (so_id x) = None" using insertOrder_frame(3) [OF assms(2)] by (auto simp: statusOf_def findOrder_def find_None_iff)
  then have st: "statusOf d (so_id x) = Some OS_NEW" using insertOrder_frame(2) [OF assms(2)]
    by (auto simp: d_def db1 statusOf_def findOrder_def find_append newOrder_def split: option.splits)
  have adv: "advanceOrder e' date_ok now' (\<lambda>d. d) (\<lambda>d. d) (\<lambda>d. d) (so_id x) user d = (db2, Inr r)"
    using assms(9) by (simp add: d_def)
  have "so_status (ar_order r) = OS_PREPARING" using advanced_status [OF adv st] by (simp add: nextStage_def)
  from advanced_new [OF adv this ok] assms(8) obtain wh where
    logs: "od_logs db2 = od_logs d @ map (logOf (so_id x) user wh) (deductByIngredient d (so_id x))" by (auto simp: same(1))
  have "logsOf d (so_id x) = []" using ok st
    by (auto simp: logsOf_def filter_empty_conv kitchen_ok_def logs_ok_def split: option.splits)
  then have "logsOf db2 (so_id x) = map (logOf (so_id x) user wh) (pl_required p)"
    by (simp add: logsOf_def logs same(2) logOf_def filter_id_conv)
  moreover obtain w where w: "pl_warehouseId p = Some w" using assms(6) by blast
  have "filter (\<lambda>r. sr_orderId r = so_id x) (od_reservations db1) = newReservations (so_id x) p"
    using assms(4) by (auto simp: db1 newReservations_def w filter_empty_conv filter_id_conv)
  ultimately show ?thesis by (simp add: newReservations_def w logOf_def case_prod_unfold comp_def)
qed

theorem reservation_matches_deduction_witness:
  "map (\<lambda>r. (sr_ingredientId r, sr_quantity r)) (filter (\<lambda>r. sr_orderId r = ''i'') (od_reservations kx1)) =
     map (\<lambda>l. (cl_ingredientId l, cl_quantity l)) (logsOf (kx2_with [] []) ''i'') \<and>
   logsOf (kx2_with [] []) ''i'' \<noteq> []"
proof -
  have flag: "isLegacyRecipeSnapshotEnabled kx1" by (simp add: isLegacyRecipeSnapshotEnabled_def kx1_fields) (simp add: kx_db_def)
  from kx_advance_with [of "[]" "[]"] obtain r where
    adv: "advanceOrder ex_env (\<lambda>_. True) 9 (\<lambda>d. d) (\<lambda>d. d) (\<lambda>d. d) ''i'' None (kx1_with [] []) = (kx2_with [] [], Inr r)" by blast
  have i: "so_id (kx_order ''i'' ''R1'' ''BOX-WI-32222'') = ''i''" by (simp add: kx_order_fields)
  have u: "uses_ok (planUses kx_db (pl_items kx_plan))"
    by (simp add: planUses_def kx_plan_def recipeUses_def recipeOf_def findIngredient_def kx_db_def kx_item_def uses_ok_def used_def)
  have "map (\<lambda>r. (sr_ingredientId r, sr_quantity r)) (filter (\<lambda>r. sr_orderId r = ''i'') (od_reservations kx1)) =
     map (\<lambda>l. (cl_ingredientId l, cl_quantity l)) (logsOf (kx2_with [] []) ''i'')"
    by (rule reservation_matches_deduction [OF kx_planned kx_insert1 _ _ flag _ kx_ok u, unfolded i, OF _ _ _ adv [unfolded kx1_with_def]])
      (simp_all add: kx_db_fields, simp_all add: kx_plan_def)
  moreover have "logsOf (kx2_with [] []) ''i'' \<noteq> []" by (simp add: kx2_with_def kx2_def logsOf_def logOf_def)
  ultimately show ?thesis by blast
qed

text \<open>An ingredient of which the order needs more than is free is a shortfall.\<close>

lemma shortfall_found:
  assumes ok: "uses_ok us" and req: "requiredByIngredient db items = accumulate (map (\<lambda>(g, q, n). (g, portion q n)) us)"
    and g: "g \<in> fst ` set us" and bounds: "\<bar>onHand db w g\<bar> < 2 ^ 48" "\<bar>reserved db w g\<bar> < 2 ^ 48"
    and less: "onHand db w g < reserved db w g + used us g"
  shows "shortfallsAt db w items \<noteq> []"
proof
  assume none: "shortfallsAt db w items = []"
  from g obtain q n where mem: "(g, q, n) \<in> set us" by auto
  then have "g \<in> fst ` set (accumulate (map (\<lambda>(g, q, n). (g, portion q n)) us))" unfolding keys_accumulate by force
  then obtain t where t: "(g, t) \<in> set (requiredByIngredient db items)" by (auto simp: req)
  with none have le: "t \<le> availableQty db w g" by (force simp: shortfallsAt_def filter_empty_conv)
  define xs ks where "xs = values_of g (map (\<lambda>(g, q, n). (g, portion q n)) us)" and "ks = map (\<lambda>(q, n). q * int n) (values_of g us)"
  have pos: "\<forall>(g, q, n) \<in> set us. 0 < q \<and> 0 < n" using ok unfolding uses_ok_def by fast
  have near: "list_all2 near xs ks" unfolding xs_def ks_def by (rule near_uses [OF pos])
  have len: "length xs = length (values_of g us)" by (simp add: xs_def values_of_length)
  have bound: "(int (length xs) + 4) * sum_list ks < 2 ^ 51"
    using ok mem unfolding uses_ok_def len ks_def used_def [symmetric] by fast
  have tx: "t = sum_numbers xs" using accumulate_mem(1) t by (simp add: req xs_def)
  have "0 < used us g" using total_exact(3) [OF ok] t by (simp add: req)
  then have "1 \<le> sum_list ks" by (simp add: ks_def used_def)
  then have "(int (length xs) + 4) * 1 \<le> (int (length xs) + 4) * sum_list ks" by (intro mult_left_mono) simp_all
  then have "(int (length xs) + 4) * 1 < 2 ^ 51" using bound by (rule order.strict_trans1)
  then have "length xs + 2 \<le> 2 ^ 51" by simp
  then have "sum_list ks \<le> onHand db w g - reserved db w g"
    using compare_exact [OF near bound bounds] le by (simp add: tx availableQty_def)
  with less show False by (simp add: ks_def used_def)
qed

text \<open>C10: A walk-in taken without permission to oversell never reserves more than the kitchen holds, when
  nothing happens between its check and its transaction.\<close>

theorem walk_in_covered:
  assumes "planIngest now db inp l loc = Inr p" and "insertOrder e now b inp p code db = Inr (db', x, jobs)"
    and "ig_aggregator inp = OTHER" and "\<not> ig_allowOversell inp" and "pl_warehouseId p = Some w"
    and "uses_ok (planUses db (pl_items p))" and "g \<in> fst ` set (planUses db (pl_items p))"
    and "\<bar>onHand db w g\<bar> < 2 ^ 48" and "\<bar>reserved db w g\<bar> < 2 ^ 48"
  shows "reserved db' w g \<le> onHand db' w g"
proof -
  define us where "us = planUses db (pl_items p)"
  from assms(1) have p: "pl_required p = requiredByIngredient db (pl_items p)"
    "pl_warehouseId p = Some w \<Longrightarrow> shortfallsAt db w (pl_items p) = [] \<or> ig_aggregator inp \<noteq> OTHER \<or> ig_allowOversell inp"
    by (auto simp: planIngest_def Let_def res_iff)
  then have none: "shortfallsAt db w (pl_items p) = []" using assms(3-5) by blast
  have "used us g \<le> onHand db w g - reserved db w g"
    using shortfall_found [OF assms(6) _ assms(7-9)] none by (fastforce simp: required_uses us_def)
  moreover from insertOrder_frame(1) [OF assms(2)] obtain n js where db': "db' = db\<lparr>ob_orders := ob_orders db @ [x], db_ids := n, pr_jobs := js,
      od_items := od_items db @ map (newItem (so_id x) p) (pl_items p),
      od_reservations := od_reservations db @ newReservations (so_id x) p\<rparr>" by blast
  have "od_reservations db' = od_reservations db @ newReservations (so_id x) p" by (simp add: db')
  from reserved_new [OF this assms(5) _ assms(6)] have "reserved db' w g = reserved db w g + used us g"
    by (simp add: p(1) required_uses us_def)
  moreover have "onHand db' w g = onHand db w g" by (simp add: db' onHand_def)
  ultimately show ?thesis by simp
qed

theorem walk_in_covered_witness: "reserved kx1 ''K'' ''G'' \<le> onHand kx1 ''K'' ''G'' \<and> reserved kx1 ''K'' ''G'' = 1000000"
proof -
  have u: "planUses kx_db (pl_items kx_plan) = [(''G'', 500000, 2)]"
    by (simp add: planUses_def kx_plan_def recipeUses_def recipeOf_def findIngredient_def kx_db_def kx_item_def)
  have "reserved kx1 ''K'' ''G'' = 1000000" by (simp add: reserved_def kx1_fields kx_reservation_def)
  moreover have "reserved kx1 ''K'' ''G'' \<le> onHand kx1 ''K'' ''G''"
  proof (rule walk_in_covered [OF kx_planned kx_insert1])
    show "\<bar>onHand kx_db ''K'' ''G''\<bar> < 2 ^ 48" by (simp add: onHand_def kx_db_def)
    show "\<bar>reserved kx_db ''K'' ''G''\<bar> < 2 ^ 48" by (simp add: reserved_def kx_db_fields)
  qed (simp_all add: u uses_ok_def used_def kx_input_def kx_plan_def [THEN arg_cong [where f = pl_warehouseId]])
  ultimately show ?thesis by simp
qed

text \<open>Another order leaves what the plan of an order reads of the catalogue as it was.\<close>

lemma plan_reads:
  fixes db :: "'z orders_db_scheme"
  assumes "db1 = db\<lparr>ob_orders := os, db_ids := n, pr_jobs := js, od_items := its, od_reservations := rss\<rparr>"
  shows "resolveItem db1 = resolveItem db" and "requiredByIngredient db1 = requiredByIngredient db"
    and "kitchenOf db1 = kitchenOf db" and "onHand db1 = onHand db"
proof -
  have fs: "findStation db1 = findStation db" and fd: "findDeployment db1 = findDeployment db" and fi: "findIngredient db1 = findIngredient db"
    by (intro ext, simp add: assms findStation_def findDeployment_def findIngredient_def)+
  have menu: "od_menu db1 = od_menu db" "od_recipes db1 = od_recipes db" by (simp_all add: assms)
  then have rec: "recipeOf db1 = recipeOf db" by (intro ext) (simp add: recipeOf_def fi)
  show "resolveItem db1 = resolveItem db" by (intro ext) (simp only: resolveItem_def fs fd menu)
  show "requiredByIngredient db1 = requiredByIngredient db"
    by (intro ext) (simp add: requiredByIngredient_def recipeUses_def rec fi)
  show "kitchenOf db1 = kitchenOf db" "onHand db1 = onHand db" by (simp_all add: fun_eq_iff assms kitchenOf_def onHand_def)
qed

text \<open>Inserting an order reads no reservations.\<close>

lemma insertJobs_reservations:
  "foldE (insertJob e now b inp p i) sgs (db\<lparr>od_reservations := rs\<rparr>, js) =
     (case foldE (insertJob e now b inp p i) sgs (db, js) of Inl err \<Rightarrow> Inl err
      | Inr (db', js') \<Rightarrow> Inr (db'\<lparr>od_reservations := rs\<rparr>, js'))"
proof (induction sgs arbitrary: db js)
  case (Cons sg sgs)
  have "insertJob e now b inp p i sg (db\<lparr>od_reservations := rs\<rparr>, js) =
     (case insertJob e now b inp p i sg (db, js) of Inl err \<Rightarrow> Inl err
      | Inr (db', js') \<Rightarrow> Inr (db'\<lparr>od_reservations := rs\<rparr>, js'))"
    by (simp add: insertJob_def ensure_def Let_def)
  with Cons.IH show ?case by (auto split: sum.splits prod.splits)
qed simp

lemma insertOrder_reservations:
  assumes "insertOrder e now b inp p code (db\<lparr>od_reservations := rs\<rparr>) = Inr (db1, x, jobs)"
  obtains db2 where "insertOrder e now b inp p code db = Inr (db2, x, jobs)"
proof -
  have row: "insertOrderRow y (db\<lparr>od_reservations := rs\<rparr>) =
     (case insertOrderRow y db of Inl err \<Rightarrow> Inl err | Inr d \<Rightarrow> Inr (d\<lparr>od_reservations := rs\<rparr>))" for y
    by (simp add: insertOrderRow_def ensure_def)
  have items: "insertItems i p (d\<lparr>od_reservations := rs\<rparr>) =
     (case insertItems i p d of Inl err \<Rightarrow> Inl err | Inr d' \<Rightarrow> Inr (d'\<lparr>od_reservations := rs\<rparr>))"
    for i and d :: "'a orders_db_scheme"
    by (simp add: insertItems_def ensure_def Let_def)
  show thesis using assms that
    by (auto simp: insertOrder_def Let_def res_iff row items insertJobs_reservations insertReservations_def split: sum.splits)
qed

text \<open>C11: The check of the stock runs before the transaction that reserves it. Take two orders for the same
  kitchen, both planned on the same state, the second a walk-in without permission to oversell, and
  an ingredient of which the kitchen has too little for both. Once the first is inserted, the second goes
  in as if the first had reserved nothing; the kitchen has then reserved what both need, which is more
  than it holds. Had the second been planned after the first was inserted, it would have been refused for
  want of stock.\<close>

theorem walk_in_race:
  assumes "planIngest now1 db inp1 l1 loc1 = Inr p1" and "planIngest now2 db inp2 l2 loc2 = Inr p2"
    and "insertOrder e now1 b1 inp1 p1 code1 db = Inr (db1, x1, jobs1)"
    and "insertOrder e now2 b2 inp2 p2 code2 (db1\<lparr>od_reservations := od_reservations db\<rparr>) = Inr (db3, x2, jobs2)"
    and "ig_aggregator inp2 = OTHER" and "\<not> ig_allowOversell inp2"
    and "pl_warehouseId p1 = Some w" and "pl_warehouseId p2 = Some w"
    and "uses_ok (planUses db (pl_items p1))" and "uses_ok (planUses db (pl_items p2))" and "g \<in> fst ` set (planUses db (pl_items p2))"
    and "onHand db w g < reserved db w g + used (planUses db (pl_items p1)) g + used (planUses db (pl_items p2)) g"
    and "\<bar>onHand db w g\<bar> < 2 ^ 48" and "\<bar>reserved db1 w g\<bar> < 2 ^ 48"
  shows "(\<exists>db2. insertOrder e now2 b2 inp2 p2 code2 db1 = Inr (db2, x2, jobs2) \<and>
      reserved db2 w g = reserved db w g + used (planUses db (pl_items p1)) g + used (planUses db (pl_items p2)) g \<and>
      onHand db2 w g < reserved db2 w g) \<and>
    (\<exists>short. planIngest now2 db1 inp2 l2 loc2 = Inl (OrderInsufficientStock short))"
proof -
  from assms(4) obtain db2 where second: "insertOrder e now2 b2 inp2 p2 code2 db1 = Inr (db2, x2, jobs2)"
    by (rule insertOrder_reservations)
  from assms(1) have r1: "pl_required p1 = requiredByIngredient db (pl_items p1)" by (auto simp: planIngest_def Let_def res_iff)
  from assms(2) have items: "ig_items inp2 \<noteq> []" "mapE (resolveItem db loc2) (ig_items inp2) = Inr (pl_items p2)"
    and r2: "pl_required p2 = requiredByIngredient db (pl_items p2)"
    and wh: "pl_warehouseId p2 = (if pl_required p2 = [] then None else kitchenOf db loc2)"
    by (auto simp: planIngest_def Let_def res_iff)
  from insertOrder_frame(1) [OF assms(3)] obtain n js where db1: "db1 = db\<lparr>ob_orders := ob_orders db @ [x1], db_ids := n, pr_jobs := js,
      od_items := od_items db @ map (newItem (so_id x1) p1) (pl_items p1),
      od_reservations := od_reservations db @ newReservations (so_id x1) p1\<rparr>" by blast
  from insertOrder_frame(1) [OF second] obtain n' js' where db2: "db2 = db1\<lparr>ob_orders := ob_orders db1 @ [x2], db_ids := n', pr_jobs := js',
      od_items := od_items db1 @ map (newItem (so_id x2) p2) (pl_items p2),
      od_reservations := od_reservations db1 @ newReservations (so_id x2) p2\<rparr>" by blast
  note same = plan_reads [OF db1]
  have "od_reservations db1 = od_reservations db @ newReservations (so_id x1) p1" by (simp add: db1)
  from reserved_new [OF this assms(7) _ assms(9)] have one: "reserved db1 w g = reserved db w g + used (planUses db (pl_items p1)) g"
    by (simp add: r1 required_uses)
  have "od_reservations db2 = od_reservations db1 @ newReservations (so_id x2) p2" by (simp add: db2)
  from reserved_new [OF this assms(8) _ assms(10)] have two: "reserved db2 w g = reserved db1 w g + used (planUses db (pl_items p2)) g"
    by (simp add: r2 required_uses)
  have hand: "onHand db2 w g = onHand db w g" using same(4) plan_reads(4) [OF db2] by simp
  have "shortfallsAt db1 w (pl_items p2) \<noteq> []"
  proof (rule shortfall_found [OF assms(10) _ assms(11)])
    show "requiredByIngredient db1 (pl_items p2) = accumulate (map (\<lambda>(g, q, n). (g, portion q n)) (planUses db (pl_items p2)))"
      by (simp add: same(2) required_uses)
  qed (use assms(12-14) one same(4) in simp_all)
  moreover have "pl_required p2 \<noteq> []" "kitchenOf db loc2 = Some w" using wh assms(8) by (auto split: if_splits)
  ultimately have "planIngest now2 db1 inp2 l2 loc2 = Inl (OrderInsufficientStock (shortfallsAt db1 w (pl_items p2)))"
    using items assms(5,6) by (simp add: planIngest_def same(1-3) Let_def flip: r2)
  moreover have "reserved db2 w g = reserved db w g + used (planUses db (pl_items p1)) g + used (planUses db (pl_items p2)) g"
    using one two by simp
  moreover from this have "onHand db2 w g < reserved db2 w g" using hand assms(12) by simp
  ultimately show ?thesis using second by blast
qed

theorem walk_in_race_witness:
  "\<exists>db2 x jobs. insertOrder ex_env 5 kx_brand (kx_input ''R2'') kx_plan ''BOX-WI-42222'' kx1 = Inr (db2, x, jobs) \<and>
     onHand db2 ''K'' ''G'' = 1000000 \<and> reserved db2 ''K'' ''G'' = 2000000 \<and>
     (\<exists>short. planIngest 5 kx1 (kx_input ''R2'') kx_listing ''L'' = Inl (OrderInsufficientStock short))"
proof -
  have u: "planUses kx_db (pl_items kx_plan) = [(''G'', 500000, 2)]"
    by (simp add: planUses_def kx_plan_def recipeUses_def recipeOf_def findIngredient_def kx_db_def kx_item_def)
  have "\<exists>db3 x jobs. insertOrder ex_env 5 kx_brand (kx_input ''R2'') kx_plan ''BOX-WI-42222''
      (kx1\<lparr>od_reservations := od_reservations kx_db\<rparr>) = Inr (db3, x, jobs)"
    using kx_inserted [of "kx1\<lparr>od_reservations := od_reservations kx_db\<rparr>" "''BOX-WI-42222''" "''R2''"]
    by (simp add: kx1_def kx_db_fields kx_after_fields kx_order_def newOrder_def kx_job_def newJob_def kx_input_def ex_env_def)
  then obtain db3 x jobs where ins: "insertOrder ex_env 5 kx_brand (kx_input ''R2'') kx_plan ''BOX-WI-42222''
      (kx1\<lparr>od_reservations := od_reservations kx_db\<rparr>) = Inr (db3, x, jobs)" by blast
  have hand: "onHand kx_db ''K'' ''G'' = 1000000" by (simp add: onHand_def kx_db_def)
  have res: "reserved kx_db ''K'' ''G'' = 0" "reserved kx1 ''K'' ''G'' = 1000000"
    by (simp_all add: reserved_def kx_db_fields kx1_fields kx_reservation_def)
  have race: "(\<exists>db2. insertOrder ex_env 5 kx_brand (kx_input ''R2'') kx_plan ''BOX-WI-42222'' kx1 = Inr (db2, x, jobs) \<and>
      reserved db2 ''K'' ''G'' = 0 + 1000000 + 1000000 \<and> onHand db2 ''K'' ''G'' < reserved db2 ''K'' ''G'') \<and>
     (\<exists>short. planIngest 5 kx1 (kx_input ''R2'') kx_listing ''L'' = Inl (OrderInsufficientStock short))"
    using walk_in_race [OF kx_planned kx_planned kx_insert1 ins, where w = "''K''" and g = "''G''"]
    by (simp add: u uses_ok_def used_def hand res kx_input_def kx_plan_def [THEN arg_cong [where f = pl_warehouseId]])
  then obtain db2 where two: "insertOrder ex_env 5 kx_brand (kx_input ''R2'') kx_plan ''BOX-WI-42222'' kx1 = Inr (db2, x, jobs)"
    "reserved db2 ''K'' ''G'' = 2000000" by auto
  have "onHand db2 ''K'' ''G'' = 1000000"
    using insertOrder_frame(1) [OF two(1)] plan_reads(4) by (auto simp: onHand_def kx1_fields)
  with race two show ?thesis by blast
qed

section \<open>Replays\<close>

definition same_catalogue :: "'z orders_db_scheme \<Rightarrow> 'z orders_db_scheme \<Rightarrow> bool" where
  "same_catalogue db db' \<longleftrightarrow> ob_listings db' = ob_listings db \<and> od_outlets db' = od_outlets db \<and>
     od_channels db' = od_channels db \<and> od_brands db' = od_brands db"

lemma catalogue_reads:
  assumes "same_catalogue db db'"
  shows "activeOutlets db' = activeOutlets db" and "walkInChannel db' = walkInChannel db" and "findWalkIn db' = findWalkIn db"
    and "activeListings db' = activeListings db" and "resolveWalkInLocation db' = resolveWalkInLocation db"
    and "listingLocation db' = listingLocation db" and "findBrand db' = findBrand db"
proof -
  note t = assms [unfolded same_catalogue_def]
  show o': "activeOutlets db' = activeOutlets db" using t by (intro ext) (simp add: activeOutlets_def)
  show "walkInChannel db' = walkInChannel db" using t by (intro ext) (simp add: walkInChannel_def)
  show "findWalkIn db' = findWalkIn db" using t by (intro ext) (simp add: findWalkIn_def)
  show "activeListings db' = activeListings db" using t by (intro ext) (simp add: activeListings_def)
  show "findBrand db' = findBrand db" using t by (intro ext) (simp add: findBrand_def)
  show "resolveWalkInLocation db' = resolveWalkInLocation db" by (intro ext) (simp only: resolveWalkInLocation_def o')
  show "listingLocation db' = listingLocation db" by (intro ext) (simp only: listingLocation_def o')
qed

text \<open>The walk-in listing, once made, is found again.\<close>

lemma ensure_again:
  assumes "ensureWalkInListing e bid loc db = (db1, Inr l)" and "same_catalogue db1 db2"
  shows "(db1 = db \<and> ensureWalkInListing e bid loc db2 = (db2, Inr l)) \<or>
    (ob_listings db1 = ob_listings db @ [l] \<and> od_outlets db1 = od_outlets db \<and> od_channels db1 = od_channels db \<and> od_brands db1 = od_brands db \<and>
     l = walkInListing db (env_uuid e (db_ids db)) bid loc)"
proof (cases "findWalkIn db (walkInMerchantId bid loc) \<noteq> None \<or> findListing db (env_uuid e (db_ids db)) \<noteq> None")
  case True
  then have d: "db1 = db" "findWalkIn db (walkInMerchantId bid loc) = Some l"
    using assms(1) by (auto simp: ensureWalkInListing_def Let_def walkInListing_def split: option.splits)
  then have "findWalkIn db2 (walkInMerchantId bid loc) = Some l" using catalogue_reads(3) [OF assms(2)] by simp
  with d(1) show ?thesis by (simp add: ensureWalkInListing_def Let_def walkInListing_def)
next
  case False
  define n where "n = walkInListing db (env_uuid e (db_ids db)) bid loc"
  have nf: "aa_externalMerchantId n = walkInMerchantId bid loc" "aa_aggregator n = OTHER" "aa_isActive n" "aa_id n = env_uuid e (db_ids db)"
    by (simp_all add: n_def walkInListing_def)
  have d: "db1 = db\<lparr>ob_listings := ob_listings db @ [n], db_ids := Suc (db_ids db)\<rparr>" and f: "findWalkIn db1 (walkInMerchantId bid loc) = Some l"
    using assms(1) False by (auto simp: ensureWalkInListing_def Let_def nf simp flip: n_def split: option.splits)
  have "findWalkIn db1 (walkInMerchantId bid loc) = Some n"
    using False by (simp add: findWalkIn_def d find_append nf)
  with f d show ?thesis by (simp add: n_def)
qed

lemma candidates_again:
  assumes run: "candidateListings e inp opts b db = (db1, Inr ls)" and same: "same_catalogue db1 db2"
    and "br_id b = ig_brandId inp"
  shows "candidateListings e inp opts b db2 = (db2, Inr ls)"
proof (cases "ig_aggregator inp = OTHER \<and> truthy (ig_accountId inp) = None")
  case False
  with run catalogue_reads(4) [OF same] show ?thesis by (auto simp: candidateListings_def)
next
  case True
  define here where "here = (\<lambda>loc d. filter (\<lambda>c. aa_locationId c = Some loc \<and>
      (case aa_channelId c of None \<Rightarrow> True | Some ch \<Rightarrow> walkInChannel d ch)) (activeListings (d :: 'a orders_db_scheme) inp))"
  from run True obtain loc where loc: "resolveWalkInLocation db b (io_workingLocationId opts) = Inr loc"
    by (auto simp: candidateListings_def split: sum.splits)
  have cand: "candidateListings e inp opts b d = (case here loc d of [] \<Rightarrow> (case ensureWalkInListing e (br_id b) loc d of
        (d1, Inl err) \<Rightarrow> (d1, Inl err) | (d1, Inr l) \<Rightarrow> (d1, Inr [l])) | ls \<Rightarrow> (d, Inr ls))"
    if "resolveWalkInLocation d b (io_workingLocationId opts) = Inr loc" for d
    using True that by (simp add: candidateListings_def here_def)
  have again: "here loc db2 = here loc db1" unfolding here_def catalogue_reads(2,4) [OF same] ..
  show ?thesis
  proof (cases "here loc db")
    case (Cons c cs)
    with run cand [OF loc] have "db1 = db" "ls = here loc db" by simp_all
    then show ?thesis using cand [of db2] catalogue_reads(5) [OF same] loc again Cons by simp
  next
    case Nil
    with run cand [OF loc] obtain l where l: "ensureWalkInListing e (br_id b) loc db = (db1, Inr l)" "ls = [l]"
      by (auto split: sum.splits prod.splits)
    from ensure_again [OF l(1) same] show ?thesis
    proof
      assume a: "db1 = db \<and> ensureWalkInListing e (br_id b) loc db2 = (db2, Inr l)"
      then show ?thesis using cand [of db2] catalogue_reads(5) [OF same] loc again Nil l(2) by simp
    next
      assume a: "ob_listings db1 = ob_listings db @ [l] \<and> od_outlets db1 = od_outlets db \<and> od_channels db1 = od_channels db \<and>
        od_brands db1 = od_brands db \<and> l = walkInListing db (env_uuid e (db_ids db)) (br_id b) loc"
      then have w: "walkInChannel db1 = walkInChannel db" "resolveWalkInLocation db1 = resolveWalkInLocation db"
        "activeListings db1 inp = activeListings db inp @ filter (\<lambda>l. (case truthy (ig_accountId inp) of None \<Rightarrow> True | Some a \<Rightarrow> aa_id l = a) \<and>
          aa_brandId l = ig_brandId inp \<and> aa_aggregator l = ig_aggregator inp \<and> aa_isActive l) [l]"
        by (auto simp: walkInChannel_def activeListings_def resolveWalkInLocation_def activeOutlets_def fun_eq_iff)
      have "case aa_channelId l of None \<Rightarrow> True | Some ch \<Rightarrow> walkInChannel db ch"
        using a by (auto simp: walkInListing_def walkInChannel_def split: option.splits dest!: find_Some_mem)
      moreover have "aa_locationId l = Some loc" "aa_brandId l = ig_brandId inp" "aa_aggregator l = ig_aggregator inp" "aa_isActive l"
        using a True assms(3) by (simp_all add: walkInListing_def)
      moreover have "here loc db1 = here loc db @ filter (\<lambda>c. aa_locationId c = Some loc \<and>
          (case aa_channelId c of None \<Rightarrow> True | Some ch \<Rightarrow> walkInChannel db ch)) (filter (\<lambda>l. (case truthy (ig_accountId inp) of None \<Rightarrow> True | Some a \<Rightarrow> aa_id l = a) \<and>
          aa_brandId l = ig_brandId inp \<and> aa_aggregator l = ig_aggregator inp \<and> aa_isActive l) [l])"
        unfolding here_def w(1,3) filter_append ..
      ultimately have "here loc db1 = [l]" using Nil True by simp
      then show ?thesis using cand [of db2] catalogue_reads(5) [OF same] loc w(2) again l(2) by simp
    qed
  qed
qed

lemma resolve_again:
  assumes "resolveListing e inp opts b db = (db1, Inr (l, loc))" and "same_catalogue db1 db2" and "br_id b = ig_brandId inp"
  shows "resolveListing e inp opts b db2 = (db2, Inr (l, loc))"
proof -
  from assms(1) obtain ls where c: "candidateListings e inp opts b db = (db1, Inr ls)"
    and r: "bindE (chooseListing inp ls) (\<lambda>l. bindE (listingLocation db1 b l) (\<lambda>loc.
        bindE (ensure (case io_allowedLocationIds opts of None \<Rightarrow> True | Some ls \<Rightarrow> loc \<in> set ls) OrderForbidden) (\<lambda>_. Inr (l, loc)))) = Inr (l, loc)"
    by (auto simp: resolveListing_def split: sum.splits prod.splits)
  show ?thesis using r by (simp add: resolveListing_def candidates_again [OF c assms(2,3)] catalogue_reads(6) [OF assms(2)])
qed

lemma attempts_ok:
  assumes "insertAttempts e now (\<lambda>_ d. d) b inp p codes db = (db1, Inr r)"
  shows "same_catalogue db db1 \<and> (\<exists>x. existingOrder db1 (pl_accountId p) (ig_externalRef inp) = Some x \<and> so_id x = ir_orderId r)"
  using assms
proof (induction codes)
  case (Cons c codes)
  define code where "code = generateOrderCode (br_name b) (ig_aggregator inp) c"
  show ?case
  proof (cases "insertOrder e now b inp p code db")
    case (Inl err)
    then have t: "run_tx (insertOrder e now b inp p code) db = (db, Inl err)" by (simp add: run_tx_def)
    show ?thesis
    proof (cases "existingOrder db (pl_accountId p) (ig_externalRef inp)")
      case None
      with Cons t show ?thesis by (simp add: code_def split: if_splits)
    next
      case (Some x)
      with Cons.prems t show ?thesis by (auto simp: code_def same_catalogue_def buildDuplicateResponse_def split: if_splits)
    qed
  next
    case (Inr v)
    then obtain d x jobs where ins: "insertOrder e now b inp p code db = Inr (d, x, jobs)" by (cases v) auto
    with Cons.prems have r: "db1 = d" "r = ingestResult p x jobs" by (auto simp: run_tx_def code_def)
    note F = insertOrder_frame [OF ins]
    from F(1) obtain n js where d: "d = db\<lparr>ob_orders := ob_orders db @ [x], db_ids := n, pr_jobs := js,
      od_items := od_items db @ map (newItem (so_id x) p) (pl_items p),
      od_reservations := od_reservations db @ newReservations (so_id x) p\<rparr>" by blast
    have x: "so_accountId x = pl_accountId p" "so_externalRef x = ig_externalRef inp" using F(2) by (simp_all add: newOrder_def)
    have "existingOrder db (pl_accountId p) (ig_externalRef inp) = None"
      using F(3) x by (auto simp: existingOrder_def find_None_iff)
    then have "existingOrder d (pl_accountId p) (ig_externalRef inp) = Some x" by (simp add: existingOrder_def d find_append x)
    then show ?thesis by (simp add: r ingestResult_def same_catalogue_def d)
  qed
qed simp

lemma resolve_brands:
  assumes "resolveListing e inp opts b db = (db1, r)"
  shows "od_brands db1 = od_brands db"
  using assms by (auto simp: resolveListing_def candidateListings_def ensureWalkInListing_def Let_def split: sum.splits prod.splits if_splits option.splits list.splits)

text \<open>C12: Repeating a request that took an order, at any later time and whatever runs in between its own steps,
  answers with the same order and writes nothing.\<close>

theorem ingest_replay:
  assumes "ingestOrder e now rnd (\<lambda>_ d. d) inp opts db = (db1, Inr r)"
  shows "\<exists>r'. ingestOrder e now' rnd' gap' inp opts db1 = (db1, Inr r') \<and> ir_duplicate r' \<and> ir_orderId r' = ir_orderId r"
proof -
  from assms obtain b dbr l loc where b: "findBrand db (ig_brandId inp) = Some b"
    and res: "resolveListing e inp opts b db = (dbr, Inr (l, loc))"
    and rest: "(case existingOrder dbr (aa_id l) (ig_externalRef inp) of
        Some x \<Rightarrow> (dbr, Inr (buildDuplicateResponse dbr x))
      | None \<Rightarrow> (case planIngest now dbr inp l loc of Inl err \<Rightarrow> (dbr, Inl err)
          | Inr p \<Rightarrow> insertAttempts e now (\<lambda>_ d. d) b inp p [rnd 0, rnd 1] dbr)) = (db1, Inr r)"
    by (auto simp: ingestOrder_def split: option.splits sum.splits prod.splits)
  have found: "same_catalogue dbr db1 \<and> (\<exists>x. existingOrder db1 (aa_id l) (ig_externalRef inp) = Some x \<and> so_id x = ir_orderId r)"
  proof (cases "existingOrder dbr (aa_id l) (ig_externalRef inp)")
    case None
    with rest obtain p where p: "planIngest now dbr inp l loc = Inr p"
      and att: "insertAttempts e now (\<lambda>_ d. d) b inp p [rnd 0, rnd 1] dbr = (db1, Inr r)" by (auto split: sum.splits)
    have "pl_accountId p = aa_id l" using p by (auto simp: planIngest_def Let_def res_iff)
    with attempts_ok [OF att] show ?thesis by simp
  next
    case (Some x)
    with rest show ?thesis by (auto simp: same_catalogue_def buildDuplicateResponse_def)
  qed
  then obtain x where x: "existingOrder db1 (aa_id l) (ig_externalRef inp) = Some x" "so_id x = ir_orderId r" by blast
  have id: "br_id b = ig_brandId inp" using b by (auto simp: findBrand_def dest: find_Some_mem)
  have "findBrand db1 (ig_brandId inp) = Some b"
    using b found resolve_brands [OF res] by (simp add: findBrand_def same_catalogue_def)
  moreover have "resolveListing e inp opts b db1 = (db1, Inr (l, loc))" by (rule resolve_again [OF res]) (use found id in simp_all)
  ultimately show ?thesis using x by (simp add: ingestOrder_def buildDuplicateResponse_def)
qed

theorem ingest_replay_witness: "\<exists>(d :: orders_db) r'. kx_ingest 7 ''R1'' (\<lambda>_ _. kx_db) d = (d, Inr r') \<and> ir_duplicate r'"
proof -
  have "\<exists>r. kx_ingest 1 ''R1'' (\<lambda>_ d. d) kx_db = (kx1, Inr r) \<and> \<not> ir_duplicate r"
    unfolding kx1_def
  proof (rule kx_taken)
    show "''BOX-WI-32222'' = generateOrderCode ''Bo'' OTHER (kx_bytes 1 0)" by (rule kx_codes(1) [symmetric])
  qed (simp_all add: kx_db_fields)
  then obtain r where "ingestOrder ex_env 5 (kx_bytes 1) (\<lambda>_ d. d) (kx_input ''R1'') kx_options kx_db = (kx1, Inr r)"
    by (auto simp: kx_ingest_def)
  from ingest_replay [OF this, of 5 "kx_bytes 7" "\<lambda>_ _. kx_db"] show ?thesis unfolding kx_ingest_def by blast
qed

section \<open>Reads\<close>

lemma values_of_image: "values_of k (map (\<lambda>x. (f x, x)) xs) = filter (\<lambda>x. f x = k) xs"
  by (induction xs) auto

lemma map_of_group_by:
  "map_of (group_by f xs) k = (if filter (\<lambda>x. f x = k) xs = [] then None else Some (filter (\<lambda>x. f x = k) xs))"
proof (induction xs rule: rev_induct)
  case Nil
  then show ?case by (simp add: group_by_def)
next
  case (snoc x xs)
  then show ?case by (auto simp: group_by_def update_conv)
qed

lemma filter_among: "y \<in> S \<Longrightarrow> filter (\<lambda>i. k i = y) (filter (\<lambda>i. k i \<in> S) rows) = filter (\<lambda>i. k i = y) rows"
  unfolding filter_filter by (intro filter_cong) auto

definition kx_all :: list_filters where
  "kx_all = \<lparr>lf_brandId = None, lf_aggregator = None, lf_stationId = None, lf_status = None, lf_from = None, lf_to = None,
     lf_locationIds = None, lf_board = False, lf_limit = None\<rparr>"

text \<open>The bulk read of orders with their items and tickets returns exactly what reading every listed order
  one by one returns.\<close>

theorem bulk_detail_agrees:
  assumes "distinct (map so_id (ob_orders db))"
  shows "map Some (listOrdersWithDetail dayStart db f) = map (\<lambda>x. getOrderDetail db (so_id x)) (listOrders dayStart db f)"
proof -
  have mem: "x \<in> set (ob_orders db)" if "x \<in> set (listOrders dayStart db f)" for x
    using that by (auto simp: listOrders_def newest_first_def split: if_splits dest: in_set_takeD)
  have one: "Some (x, (case map_of (group_by oi_orderId (filter (\<lambda>i. oi_orderId i \<in> so_id ` set (listOrders dayStart db f)) (od_items db))) (so_id x) of
          None \<Rightarrow> [] | Some is \<Rightarrow> is),
        (case map_of (group_by pj_orderId (filter (\<lambda>j. pj_orderId j \<in> so_id ` set (listOrders dayStart db f)) (pr_jobs db))) (so_id x) of
          None \<Rightarrow> [] | Some js \<Rightarrow> js)) = getOrderDetail db (so_id x)"
    if x: "x \<in> set (listOrders dayStart db f)" for x
  proof -
    have "findOrder db (so_id x) = Some x" unfolding findOrder_def by (rule find_distinct_key [OF assms mem [OF x]])
    moreover have "so_id x \<in> so_id ` set (listOrders dayStart db f)" using x by simp
    ultimately show ?thesis by (simp add: getOrderDetail_def itemsOf_def map_of_group_by filter_among del: filter_filter)
  qed
  then show ?thesis by (simp add: listOrdersWithDetail_def Let_def)
qed

theorem bulk_detail_agrees_witness:
  "map Some (listOrdersWithDetail 0 kx1 kx_all) = map (\<lambda>x. getOrderDetail kx1 (so_id x)) (listOrders 0 kx1 kx_all) \<and>
   getOrderDetail kx1 ''i'' \<noteq> None"
proof -
  have "distinct (map so_id (ob_orders kx1))" by (simp add: kx1_fields)
  from bulk_detail_agrees [OF this, of 0 kx_all] show ?thesis by (simp add: getOrderDetail_def findOrder_def kx1_fields kx_order_fields)
qed

end
