(* ===== verification/Returns.thy ===== *)
theory Returns
  imports StockDocs
begin

text \<open>
  Stock return batches: \<open>src/modules/stock-returns/policies.ts\<close>, \<open>types.ts\<close>, \<open>errors.ts\<close> and the
  helpers of \<open>service.ts\<close>, over the tables of \<open>src/db/returns-schema.ts\<close>; the record \<open>return_db\<close> also
  holds the tables of the QA releases (\<open>src/db/transfer-orders-schema.ts\<close>) and the genealogy of lots.
\<close>

section \<open>Data\<close>

datatype return_status =
  SR_DRAFT | SR_SUBMITTED | SR_APPROVED | SR_DISPATCHED | SR_RECEIVED_DISPOSED | SR_CANCELLED

datatype return_reason = RR_SPOILED | RR_EXPIRED | RR_DAMAGED | RR_RECALLED | RR_OTHER

datatype return_code =
    R_FEATURE_DISABLED | R_UNAUTHORIZED | R_NOT_FOUND | R_VALIDATION | R_INVALID_TRANSITION
  | R_UOM_MISMATCH | R_LOT_NOT_ELIGIBLE | R_FORBIDDEN_ROUTE | R_DUPLICATE_LINE | R_TOPOLOGY_NOT_READY
  | R_SEGREGATION_OF_DUTIES | R_CONCURRENT_MODIFICATION

text \<open>Besides its own errors the service passes on those of the posting service and the database.\<close>

datatype return_error = ReturnErr return_code nat | ReturnPassed stock_error

record batch =
  rb_id :: string
  rb_documentNo :: string
  rb_sourceLocationId :: string
  rb_destinationLocationId :: string
  rb_destinationWarehouseId :: string
  rb_status :: return_status
  rb_remarks :: "string option"
  rb_version :: nat
  rb_dispatchDocumentId :: "string option"
  rb_receiptDocumentId :: "string option"
  rb_createdBy :: "string option"
  rb_submittedBy :: "string option"
  rb_approvedBy :: "string option"
  rb_dispatchedBy :: "string option"
  rb_receivedBy :: "string option"
  rb_cancelledBy :: "string option"
  rb_cancelReason :: "string option"
  rb_createdAt :: nat

record bline =
  bl_id :: string
  bl_batchId :: string
  bl_lineNo :: nat
  bl_itemId :: string
  bl_lotId :: string
  bl_sourceWarehouseId :: string
  bl_quantity :: int
  bl_enteredQuantity :: int
  bl_enteredUom :: string
  bl_conversionFactor :: int
  bl_reasonCode :: return_reason
  bl_remarks :: "string option"
  bl_evidenceRef :: "string option"

record receipt_row =
  rc_id :: string
  rc_batchLineId :: string
  rc_quarantineLotId :: string
  rc_receivedQuantity :: int
  rc_reasonCode :: return_reason
  rc_remarks :: "string option"
  rc_inPostingLineId :: "string option"
  rc_outPostingLineId :: "string option"

datatype release_status = QR_DRAFT | QR_SUBMITTED | QR_APPROVED | QR_RELEASED | QR_CANCELLED

record qa_release =
  qr_id :: string
  qr_documentNo :: string
  qr_status :: release_status
  qr_version :: nat
  qr_sourceWarehouseId :: string
  qr_destinationWarehouseId :: string
  qr_releaseDocumentId :: "string option"
  qr_remarks :: "string option"
  qr_requestedBy :: "string option"
  qr_approvedBy :: "string option"
  qr_releasedBy :: "string option"
  qr_cancelledBy :: "string option"
  qr_cancelReason :: "string option"
  qr_createdBy :: "string option"
  qr_createdAt :: nat

record qa_line =
  ql_id :: string
  ql_releaseId :: string
  ql_lineNo :: nat
  ql_itemId :: string
  ql_quarantineLotId :: string
  ql_receiptLineId :: string
  ql_releaseQuantity :: int
  ql_enteredUom :: string
  ql_conversionFactor :: int
  ql_postingLineId :: "string option"
  ql_remarks :: "string option"

record return_db = stock_db +
  rt_batches :: "batch list"
  rt_lines :: "bline list"
  rt_receipts :: "receipt_row list"
  rt_genealogy :: "genealogy_row list"
  rt_releases :: "qa_release list"
  rt_releaseLines :: "qa_line list"

record return_line_input =
  rli_itemId :: string
  rli_lotId :: string
  rli_sourceWarehouseId :: string
  rli_enteredQuantity :: string
  rli_enteredUom :: string
  rli_reasonCode :: string
  rli_remarks :: "string option"
  rli_evidenceRef :: "string option"

record create_return_input =
  cr_actorUserId :: string
  cr_sessionId :: "string option"
  cr_sourceLocationId :: string
  cr_destinationLocationId :: "string option"
  cr_destinationWarehouseId :: "string option"
  cr_remarks :: "string option"
  cr_lines :: "return_line_input list"

text \<open>What submit, approve, dispatch, cancel, receive and update have in common.\<close>

record return_action =
  ra_actorUserId :: string
  ra_sessionId :: "string option"
  ra_batchId :: string
  ra_expectedVersion :: nat

text \<open>\<open>"remarks" in input\<close>: absent is \<open>None\<close>, an explicit null \<open>Some None\<close>.\<close>

record update_return_input = return_action +
  ur_remarks :: "string option option"
  ur_lines :: "return_line_input list option"

record receipt_input =
  rp_batchLineId :: string
  rp_reasonCode :: string
  rp_remarks :: "string option"

record resolved_return_line =
  rrl_lineNo :: nat
  rrl_itemId :: string
  rrl_lotId :: string
  rrl_sourceWarehouseId :: string
  rrl_quantity :: string
  rrl_enteredQuantity :: string
  rrl_enteredUom :: string
  rrl_conversionFactor :: string
  rrl_reasonCode :: return_reason
  rrl_remarks :: "string option"
  rrl_evidenceRef :: "string option"

section \<open>Policies\<close>

definition STOCK_RETURN_FEATURE_KEY :: string where
  "STOCK_RETURN_FEATURE_KEY = ''stock.returns''"

definition STOCK_RETURN_DISPATCH_MODULE :: string where
  "STOCK_RETURN_DISPATCH_MODULE = ''STOCK_RETURN_DISPATCH''"

definition STOCK_RETURN_RECEIPT_MODULE :: string where
  "STOCK_RETURN_RECEIPT_MODULE = ''STOCK_RETURN_RECEIPT''"

definition STOCK_RETURN_MAX_LINES :: nat where
  "STOCK_RETURN_MAX_LINES = 250"

definition STOCK_RETURN_ROLES :: "role list" where
  "STOCK_RETURN_ROLES = [OWNER, WAREHOUSE_MAIN, OUTLET_MANAGER, WAREHOUSE_OUTLET]"

definition STOCK_RETURN_APPROVE_ROLES :: "role list" where
  "STOCK_RETURN_APPROVE_ROLES = [OWNER, WAREHOUSE_MAIN, OUTLET_MANAGER]"

definition STOCK_RETURN_RECEIVE_ROLES :: "role list" where
  "STOCK_RETURN_RECEIVE_ROLES = [OWNER, WAREHOUSE_MAIN]"

definition STOCK_RETURN_SOURCE_WAREHOUSE_PURPOSES :: "purpose list" where
  "STOCK_RETURN_SOURCE_WAREHOUSE_PURPOSES = [OUTLET_STORAGE, KITCHEN]"

definition STOCK_RETURN_DISPATCH_POLICY :: document_policy where
  "STOCK_RETURN_DISPATCH_POLICY =
     \<lparr>dp_featureFlag = Some STOCK_RETURN_FEATURE_KEY, dp_routeClass = RC_OUTLET_RETURN_DISPATCH,
      dp_allowedRoles = STOCK_RETURN_ROLES, dp_fromStatuses = [''APPROVED''], dp_nextStatus = ''DISPATCHED''\<rparr>"

definition STOCK_RETURN_RECEIPT_POLICY :: document_policy where
  "STOCK_RETURN_RECEIPT_POLICY =
     \<lparr>dp_featureFlag = Some STOCK_RETURN_FEATURE_KEY, dp_routeClass = RC_RETURN_DISPOSITION,
      dp_allowedRoles = STOCK_RETURN_RECEIVE_ROLES, dp_fromStatuses = [''DISPATCHED''],
      dp_nextStatus = ''RECEIVED_DISPOSED''\<rparr>"

text \<open>The reasons a QA release may put back into stock (\<open>src/modules/qa-releases/policies.ts\<close>).\<close>

definition QA_RELEASE_RELEASABLE_REASONS :: "return_reason set" where
  "QA_RELEASE_RELEASABLE_REASONS = {RR_OTHER}"

definition return_reasons :: "(string \<times> return_reason) list" where
  "return_reasons =
     [(''SPOILED'', RR_SPOILED), (''EXPIRED'', RR_EXPIRED), (''DAMAGED'', RR_DAMAGED),
      (''RECALLED'', RR_RECALLED), (''OTHER'', RR_OTHER)]"

definition reason_name :: "return_reason \<Rightarrow> string" where
  "reason_name r = (case r of
     RR_SPOILED \<Rightarrow> ''SPOILED'' | RR_EXPIRED \<Rightarrow> ''EXPIRED'' | RR_DAMAGED \<Rightarrow> ''DAMAGED''
   | RR_RECALLED \<Rightarrow> ''RECALLED'' | RR_OTHER \<Rightarrow> ''OTHER'')"

lemma map_of_reason_name [simp]: "map_of return_reasons (reason_name r) = Some r"
  by (cases r) (simp_all add: return_reasons_def reason_name_def)

section \<open>Shared helpers\<close>

definition authorizeReturn ::
  "'z stock_db_scheme \<Rightarrow> string \<Rightarrow> string option \<Rightarrow> role list \<Rightarrow> return_error + actor" where
  "authorizeReturn = authorizeWith (ReturnErr R_UNAUTHORIZED 403) (ReturnErr R_UNAUTHORIZED 401)"

definition returnInScope :: "string list option \<Rightarrow> string \<Rightarrow> return_error + unit" where
  "returnInScope allowed l = ensure (in_scope allowed l) (ReturnErr R_UNAUTHORIZED 403)"

definition assertReturnFeature :: "'z stock_db_scheme \<Rightarrow> return_error + unit" where
  "assertReturnFeature = featureWith (ReturnErr R_FEATURE_DISABLED 503) STOCK_RETURN_FEATURE_KEY"

text \<open>The location of the headquarters, its main warehouse and its quarantine warehouse.\<close>

definition hqTopologyWith :: "'e \<Rightarrow> 'z stock_db_scheme \<Rightarrow> 'e + string \<times> string \<times> string" where
  "hqTopologyWith notReady db =
     (case filter (\<lambda>w. w_purpose w = Some HQ_MAIN \<and> w_isActive w) (db_warehouses db) of
        [hq] \<Rightarrow>
          if db_openTopologyExceptions db \<noteq> 0 then Inl notReady
          else (case filter (\<lambda>w. w_locationId w = w_locationId hq \<and> w_purpose w = Some QUARANTINE \<and> w_isActive w)
                       (db_warehouses db) of
                  [q] \<Rightarrow> Inr (w_locationId hq, w_id hq, w_id q)
                | _ \<Rightarrow> Inl notReady)
      | _ \<Rightarrow> Inl notReady)"

definition resolveHqDestination :: "'z stock_db_scheme \<Rightarrow> return_error + string \<times> string \<times> string" where
  "resolveHqDestination = hqTopologyWith (ReturnErr R_TOPOLOGY_NOT_READY 503)"

section \<open>Lines\<close>

definition returnLineKey :: "return_line_input \<Rightarrow> string" where
  "returnLineKey l = rli_itemId l @ '':'' @ rli_lotId l @ '':'' @ rli_sourceWarehouseId l"

definition checkReturnLine :: "return_line_input \<Rightarrow> return_error + unit" where
  "checkReturnLine l =
     bindE (ensure (trim (rli_enteredUom l) \<noteq> []) (ReturnErr R_VALIDATION 400)) (\<lambda>_.
     bindE (ensure (map_of return_reasons (rli_reasonCode l) \<noteq> None) (ReturnErr R_VALIDATION 400)) (\<lambda>_.
     bindE (mapErr (\<lambda>_. ReturnErr R_VALIDATION 400) (parseFixed (rli_enteredQuantity l) 6)) (\<lambda>q.
       ensure (0 < q) (ReturnErr R_VALIDATION 400))))"

definition checkReturnWarehouse :: "'z stock_db_scheme \<Rightarrow> string \<Rightarrow> string \<Rightarrow> return_error + unit" where
  "checkReturnWarehouse db sourceLocationId wid =
     (case List.find (\<lambda>w. w_id w = wid) (db_warehouses db) of
        None \<Rightarrow> Inl (ReturnErr R_FORBIDDEN_ROUTE 409)
      | Some w \<Rightarrow>
          bindE (ensure (w_isActive w) (ReturnErr R_FORBIDDEN_ROUTE 409)) (\<lambda>_.
          bindE (ensure (w_locationId w = sourceLocationId) (ReturnErr R_VALIDATION 400)) (\<lambda>_.
            ensure (case w_purpose w of None \<Rightarrow> False | Some p \<Rightarrow> p \<in> set STOCK_RETURN_SOURCE_WAREHOUSE_PURPOSES)
              (ReturnErr R_FORBIDDEN_ROUTE 409))))"

definition resolveReturnItem :: "'z stock_db_scheme \<Rightarrow> string \<Rightarrow> return_error + string \<times> item" where
  "resolveReturnItem db iid =
     (case List.find (\<lambda>i. i_id i = iid) (db_items db) of
        None \<Rightarrow> Inl (ReturnErr R_VALIDATION 409)
      | Some i \<Rightarrow> if i_isActive i then Inr (iid, i) else Inl (ReturnErr R_VALIDATION 409))"

definition returnConversionKey :: "return_line_input \<Rightarrow> string" where
  "returnConversionKey l = rli_itemId l @ '':'' @ to_lower (trim (rli_enteredUom l))"

definition returnConversion ::
  "'z stock_db_scheme \<Rightarrow> (string \<times> item) list \<Rightarrow> string \<Rightarrow> return_error + string \<times> string" where
  "returnConversion = conversionWith (ReturnErr R_UOM_MISMATCH 409) ReturnPassed"

definition checkReturnLot :: "'z stock_db_scheme \<Rightarrow> return_line_input \<Rightarrow> return_error + unit" where
  "checkReturnLot db l =
     (case List.find (\<lambda>t. l_id t = rli_lotId l) (db_lots db) of
        None \<Rightarrow> Inl (ReturnErr R_VALIDATION 404)
      | Some t \<Rightarrow>
          if l_itemId t \<noteq> rli_itemId l then Inl (ReturnErr R_VALIDATION 409)
          else if l_status t \<in> {DISPOSED, EXHAUSTED} then Inl (ReturnErr R_LOT_NOT_ELIGIBLE 409)
          else Inr ())"

definition resolveReturnLine ::
  "'z stock_db_scheme \<Rightarrow> (string \<times> string) list \<Rightarrow> nat \<times> return_line_input \<Rightarrow>
   return_error + resolved_return_line" where
  "resolveReturnLine db factors nl =
     (let (n, l) = nl in
      bindE (checkReturnLot db l) (\<lambda>_.
      case map_of factors (returnConversionKey l) of
        None \<Rightarrow> Inl (ReturnPassed JsTypeError)
      | Some f \<Rightarrow>
          bindE (mapErr (\<lambda>_. ReturnErr R_UOM_MISMATCH 409)
                   (multiplyFixedExact (rli_enteredQuantity l) 6 f 8 6)) (\<lambda>q.
          bindE (mapErr (\<lambda>d. ReturnPassed (DecimalErr d)) (normalizeFixed (rli_enteredQuantity l) 6)) (\<lambda>entered.
          case map_of return_reasons (rli_reasonCode l) of
            None \<Rightarrow> Inl (ReturnErr R_VALIDATION 400)
          | Some reason \<Rightarrow>
              Inr \<lparr>rrl_lineNo = n, rrl_itemId = rli_itemId l, rrl_lotId = rli_lotId l,
                   rrl_sourceWarehouseId = rli_sourceWarehouseId l, rrl_quantity = q,
                   rrl_enteredQuantity = entered, rrl_enteredUom = rli_enteredUom l,
                   rrl_conversionFactor = f, rrl_reasonCode = reason,
                   rrl_remarks = rli_remarks l, rrl_evidenceRef = rli_evidenceRef l\<rparr>))))"

definition resolveReturnLines ::
  "'z stock_db_scheme \<Rightarrow> string \<Rightarrow> return_line_input list \<Rightarrow> return_error + resolved_return_line list" where
  "resolveReturnLines db sourceLocationId ls =
     bindE (ensure (1 \<le> length ls \<and> length ls \<le> STOCK_RETURN_MAX_LINES) (ReturnErr R_VALIDATION 400)) (\<lambda>_.
     bindE (ensure (distinct (map returnLineKey ls)) (ReturnErr R_DUPLICATE_LINE 400)) (\<lambda>_.
     bindE (mapE checkReturnLine ls) (\<lambda>_.
     bindE (mapE (checkReturnWarehouse db sourceLocationId) (js_distinct (map rli_sourceWarehouseId ls))) (\<lambda>_.
     bindE (mapE (resolveReturnItem db) (js_distinct (map rli_itemId ls))) (\<lambda>items.
     bindE (mapE (returnConversion db items) (js_distinct (map returnConversionKey ls))) (\<lambda>factors.
       mapE (resolveReturnLine db factors) (zip [1..<Suc (length ls)] ls)))))))"

text \<open>The insert of one line row: column types, check constraints, unique line number.\<close>

definition insertReturnLine ::
  "env \<Rightarrow> string \<Rightarrow> resolved_return_line \<Rightarrow> 'z return_db_scheme \<Rightarrow> return_error + 'z return_db_scheme" where
  "insertReturnLine e bid r db =
     bindE (mapErr ReturnPassed (db_numeric 6 (rrl_quantity r))) (\<lambda>q.
     bindE (mapErr ReturnPassed (db_numeric 6 (rrl_enteredQuantity r))) (\<lambda>entered.
     bindE (mapErr ReturnPassed (db_numeric 8 (rrl_conversionFactor r))) (\<lambda>factor.
     bindE (ensure (0 < rrl_lineNo r \<and> 0 < q \<and> 0 < entered \<and> 0 < factor) (ReturnPassed DbCheckViolation)) (\<lambda>_.
     bindE (ensure (\<forall>x \<in> set (rt_lines db). bl_id x \<noteq> env_uuid e (db_ids db) \<and>
                      (bl_batchId x = bid \<longrightarrow> bl_lineNo x \<noteq> rrl_lineNo r)) (ReturnPassed DbUniqueViolation)) (\<lambda>_.
       Inr (db\<lparr>rt_lines := rt_lines db @
              [\<lparr>bl_id = env_uuid e (db_ids db), bl_batchId = bid, bl_lineNo = rrl_lineNo r,
                bl_itemId = rrl_itemId r, bl_lotId = rrl_lotId r,
                bl_sourceWarehouseId = rrl_sourceWarehouseId r, bl_quantity = q,
                bl_enteredQuantity = entered, bl_enteredUom = rrl_enteredUom r,
                bl_conversionFactor = factor, bl_reasonCode = rrl_reasonCode r,
                bl_remarks = rrl_remarks r, bl_evidenceRef = rrl_evidenceRef r\<rparr>],
              db_ids := Suc (db_ids db)\<rparr>))))))"

definition insertReturnLines ::
  "env \<Rightarrow> string \<Rightarrow> resolved_return_line list \<Rightarrow> 'z return_db_scheme \<Rightarrow> return_error + 'z return_db_scheme" where
  "insertReturnLines e bid rs db = foldE (insertReturnLine e bid) rs db"

section \<open>Rows\<close>

definition ensureReturnDocument ::
  "env \<Rightarrow> string \<Rightarrow> string \<Rightarrow> string \<Rightarrow> string \<Rightarrow> 'z stock_db_scheme \<Rightarrow>
   return_error + 'z stock_db_scheme \<times> string" where
  "ensureReturnDocument = ensureDocumentWith (ReturnErr R_CONCURRENT_MODIFICATION 409)"

definition lockBatch :: "'z return_db_scheme \<Rightarrow> string \<Rightarrow> return_error + batch" where
  "lockBatch db bid =
     (case List.find (\<lambda>b. rb_id b = bid) (rt_batches db) of
        Some b \<Rightarrow> Inr b | None \<Rightarrow> Inl (ReturnErr R_NOT_FOUND 404))"

definition batchLines :: "bline list \<Rightarrow> string \<Rightarrow> bline list" where
  "batchLines ls bid =
     sort_by (\<lambda>x y. bl_lineNo x \<le> bl_lineNo y) (filter (\<lambda>x. bl_batchId x = bid) ls)"

text \<open>The conditional \<open>UPDATE stock_return_batch \<dots> RETURNING\<close>, guarded by id, status and version.\<close>

definition updateBatch ::
  "string \<Rightarrow> return_status \<Rightarrow> nat \<Rightarrow> (batch \<Rightarrow> batch) \<Rightarrow> 'z return_db_scheme \<Rightarrow>
   return_error + 'z return_db_scheme \<times> batch" where
  "updateBatch bid status version f db =
     (let hit = (\<lambda>b. rb_id b = bid \<and> rb_status b = status \<and> rb_version b = version)
      in case List.find hit (rt_batches db) of
           None \<Rightarrow> Inl (ReturnErr R_CONCURRENT_MODIFICATION 409)
         | Some b \<Rightarrow> Inr (db\<lparr>rt_batches := update_where hit f (rt_batches db)\<rparr>, f b))"

definition batchAudit :: "actor \<Rightarrow> string \<Rightarrow> string \<Rightarrow> string \<Rightarrow> audit_row" where
  "batchAudit a locationId action bid =
     \<lparr>a_actorUserId = Some (ac_id a), a_locationId = Some locationId, a_action = action,
      a_entityType = ''stock_return_batch'', a_entityId = bid\<rparr>"

text \<open>The lot carries no expiry date: the insert does not name the column and it has no default.\<close>

definition ensureQuarantineLot ::
  "env \<Rightarrow> string \<Rightarrow> string \<Rightarrow> int \<Rightarrow> 'z stock_db_scheme \<Rightarrow> return_error + 'z stock_db_scheme \<times> string" where
  "ensureQuarantineLot e itemId lotCode unitCost =
     ensureLotWith (ReturnErr R_CONCURRENT_MODIFICATION 409) e QUARANTINED itemId lotCode unitCost None"

definition ensureLotGenealogyWith ::
  "'e \<Rightarrow> string \<Rightarrow> string \<Rightarrow> int \<Rightarrow> string \<Rightarrow> 'z return_db_scheme \<Rightarrow> 'e + 'z return_db_scheme" where
  "ensureLotGenealogyWith violated parent child quantity documentNo db =
     (if \<not> (0 < quantity \<and> parent \<noteq> child) then Inl violated
      else if \<exists>g \<in> set (rt_genealogy db). gn_parentLotId g = parent \<and> gn_childLotId g = child \<and>
                gn_documentNo g = documentNo
      then Inr db
      else Inr (db\<lparr>rt_genealogy := rt_genealogy db @
             [\<lparr>gn_parentLotId = parent, gn_childLotId = child, gn_quantity = quantity,
               gn_documentNo = documentNo\<rparr>]\<rparr>))"

text \<open>
  Insert or ignore of a receipt row: any unique index (row id, batch line, either posting line) makes
  it be ignored, then a row of the batch line must exist.
\<close>

definition ensureReceiptLine ::
  "env \<Rightarrow> receipt_row \<Rightarrow> 'z return_db_scheme \<Rightarrow> return_error + 'z return_db_scheme" where
  "ensureReceiptLine e r db =
     (let row = r\<lparr>rc_id := env_uuid e (db_ids db)\<rparr>;
          clash = (\<lambda>x. rc_id x = rc_id row \<or> rc_batchLineId x = rc_batchLineId row \<or>
                    (rc_inPostingLineId row \<noteq> None \<and> rc_inPostingLineId x = rc_inPostingLineId row) \<or>
                    (rc_outPostingLineId row \<noteq> None \<and> rc_outPostingLineId x = rc_outPostingLineId row))
      in if rc_receivedQuantity row < 0 \<or>
            (rc_inPostingLineId row \<noteq> None \<and> rc_inPostingLineId row = rc_outPostingLineId row)
         then Inl (ReturnPassed DbCheckViolation)
         else if \<not> (\<exists>x \<in> set (rt_receipts db). clash x)
         then Inr (db\<lparr>rt_receipts := rt_receipts db @ [row], db_ids := Suc (db_ids db)\<rparr>)
         else if \<exists>x \<in> set (rt_receipts db). rc_batchLineId x = rc_batchLineId row
         then Inr (db\<lparr>db_ids := Suc (db_ids db)\<rparr>)
         else Inl (ReturnErr R_CONCURRENT_MODIFICATION 409))"

text \<open>The receipt inputs by batch line: one for each line, each with a known reason.\<close>

definition validateReceiptLines ::
  "bline list \<Rightarrow> receipt_input list \<Rightarrow> return_error + (string \<times> return_reason \<times> string option) list" where
  "validateReceiptLines lines rps =
     bindE (ensure (length rps = length lines) (ReturnErr R_VALIDATION 400)) (\<lambda>_.
     bindE (foldE (\<lambda>rp acc.
              if map_of acc (rp_batchLineId rp) \<noteq> None then Inl (ReturnErr R_DUPLICATE_LINE 400)
              else (case map_of return_reasons (rp_reasonCode rp) of
                      None \<Rightarrow> Inl (ReturnErr R_VALIDATION 400)
                    | Some reason \<Rightarrow> Inr (AList.update (rp_batchLineId rp) (reason, rp_remarks rp) acc))) rps []) (\<lambda>acc.
     bindE (ensure (\<forall>l \<in> set lines. map_of acc (bl_id l) \<noteq> None) (ReturnErr R_VALIDATION 400)) (\<lambda>_.
       Inr acc)))"

end
