(* ===== verification/ReturnService.thy ===== *)
theory ReturnService
  imports Returns
begin

text \<open>
  The operations of \<open>src/modules/stock-returns/service.ts\<close>: draft, update, submit, approve, cancel,
  dispatch, receive and dispose, get, list and count, in the order of the file. Each transaction locks
  the batch row, so it is a function on the database; \<open>run_tx\<close> rolls a failed one back. A dispatch and
  a receipt are three transactions (prepare, post, finalize); \<open>gap1\<close> and \<open>gap2\<close> are what other
  requests do in between.
\<close>

type_synonym batch_view = "batch \<times> bline list"

type_synonym 'z rt_result = "'z return_db_scheme \<times> (return_error + batch_view)"

definition changedReturn :: return_error where
  "changedReturn = ReturnErr R_CONCURRENT_MODIFICATION 409"

section \<open>Draft\<close>

definition draftBatch ::
  "env \<Rightarrow> nat \<Rightarrow> create_return_input \<Rightarrow> actor \<Rightarrow> string \<Rightarrow> string \<Rightarrow> 'z stock_db_scheme \<Rightarrow> batch" where
  "draftBatch e now inp a destLocation destWarehouse db =
     \<lparr>rb_id = env_uuid e (Suc (db_ids db)), rb_documentNo = ''SRB-'' @ env_uuid e (db_ids db),
      rb_sourceLocationId = cr_sourceLocationId inp, rb_destinationLocationId = destLocation,
      rb_destinationWarehouseId = destWarehouse, rb_status = SR_DRAFT, rb_remarks = cr_remarks inp,
      rb_version = 1, rb_dispatchDocumentId = None, rb_receiptDocumentId = None,
      rb_createdBy = Some (ac_id a), rb_submittedBy = None, rb_approvedBy = None, rb_dispatchedBy = None,
      rb_receivedBy = None, rb_cancelledBy = None, rb_cancelReason = None, rb_createdAt = now\<rparr>"

definition insertBatch :: "batch \<Rightarrow> 'z return_db_scheme \<Rightarrow> return_error + 'z return_db_scheme" where
  "insertBatch b db =
     (if rb_sourceLocationId b = rb_destinationLocationId b then Inl (ReturnPassed DbCheckViolation)
      else if \<exists>x \<in> set (rt_batches db). rb_id x = rb_id b \<or> rb_documentNo x = rb_documentNo b
      then Inl (ReturnPassed DbUniqueViolation)
      else Inr (db\<lparr>rt_batches := rt_batches db @ [b], db_ids := Suc (Suc (db_ids db))\<rparr>))"

definition createStockReturnDraft ::
  "env \<Rightarrow> nat \<Rightarrow> create_return_input \<Rightarrow> 'z return_db_scheme \<Rightarrow> 'z rt_result" where
  "createStockReturnDraft e now inp = run_tx (\<lambda>db.
     bindE (assertReturnFeature db) (\<lambda>_.
     bindE (authorizeReturn db (cr_actorUserId inp) (cr_sessionId inp) STOCK_RETURN_ROLES) (\<lambda>a.
     bindE (returnInScope (ac_allowed a) (cr_sourceLocationId inp)) (\<lambda>_.
     bindE (resolveHqDestination db) (\<lambda>(destLocation, destWarehouse, _).
     bindE (ensure (cr_sourceLocationId inp \<noteq> destLocation) (ReturnErr R_VALIDATION 400)) (\<lambda>_.
     bindE (ensure (case cr_destinationLocationId inp of None \<Rightarrow> True | Some l \<Rightarrow> l = destLocation)
              (ReturnErr R_FORBIDDEN_ROUTE 409)) (\<lambda>_.
     bindE (ensure (case cr_destinationWarehouseId inp of None \<Rightarrow> True | Some w \<Rightarrow> w = destWarehouse)
              (ReturnErr R_FORBIDDEN_ROUTE 409)) (\<lambda>_.
     bindE (resolveReturnLines db (cr_sourceLocationId inp) (cr_lines inp)) (\<lambda>resolved.
     let b = draftBatch e now inp a destLocation destWarehouse db in
     bindE (insertBatch b db) (\<lambda>db1.
     bindE (insertReturnLines e (rb_id b) resolved db1) (\<lambda>db2.
       Inr (writeAudit (batchAudit a (cr_sourceLocationId inp) ''stock_return.created'' (rb_id b)) db2,
            (b, batchLines (rt_lines db2) (rb_id b))))))))))))))"

section \<open>Update, submit, approve, cancel\<close>

text \<open>The guards shared by the transitions: flag, actor, row lock, source scope.\<close>

definition openBatch ::
  "return_action \<Rightarrow> role list \<Rightarrow> 'z return_db_scheme \<Rightarrow> return_error + actor \<times> batch" where
  "openBatch inp roles db =
     bindE (assertReturnFeature db) (\<lambda>_.
     bindE (authorizeReturn db (ra_actorUserId inp) (ra_sessionId inp) roles) (\<lambda>a.
     bindE (lockBatch db (ra_batchId inp)) (\<lambda>b.
     bindE (returnInScope (ac_allowed a) (rb_sourceLocationId b)) (\<lambda>_. Inr (a, b)))))"

definition expectBatch :: "return_status list \<Rightarrow> return_action \<Rightarrow> batch \<Rightarrow> return_error + unit" where
  "expectBatch ss inp b =
     bindE (ensure (rb_status b \<in> set ss) (ReturnErr R_INVALID_TRANSITION 409)) (\<lambda>_.
       ensure (rb_version b = ra_expectedVersion inp) changedReturn)"

definition replaceReturnLines ::
  "env \<Rightarrow> batch \<Rightarrow> return_line_input list option \<Rightarrow> 'z return_db_scheme \<Rightarrow> return_error + 'z return_db_scheme" where
  "replaceReturnLines e b ls db =
     (case ls of
        None \<Rightarrow> Inr db
      | Some ls \<Rightarrow>
          bindE (resolveReturnLines db (rb_sourceLocationId b) ls) (\<lambda>resolved.
            insertReturnLines e (rb_id b) resolved
              (db\<lparr>rt_lines := filter (\<lambda>x. bl_batchId x \<noteq> rb_id b) (rt_lines db)\<rparr>)))"

definition updateStockReturnDraft ::
  "env \<Rightarrow> update_return_input \<Rightarrow> 'z return_db_scheme \<Rightarrow> 'z rt_result" where
  "updateStockReturnDraft e inp = run_tx (\<lambda>db.
     bindE (openBatch (return_action.truncate inp) STOCK_RETURN_ROLES db) (\<lambda>(a, b).
     bindE (expectBatch [SR_DRAFT] (return_action.truncate inp) b) (\<lambda>_.
     bindE (replaceReturnLines e b (ur_lines inp) db) (\<lambda>db1.
     bindE (updateBatch (rb_id b) SR_DRAFT (ra_expectedVersion inp)
            (\<lambda>x. (case ur_remarks inp of None \<Rightarrow> x | Some r \<Rightarrow> x\<lparr>rb_remarks := r\<rparr>)
                   \<lparr>rb_version := rb_version b + 1\<rparr>) db1) (\<lambda>(db2, u).
       Inr (db2, (u, batchLines (rt_lines db2) (rb_id b))))))))"

text \<open>The stored line as the input of the second validation.\<close>

definition storedReturnLine :: "bline \<Rightarrow> return_line_input" where
  "storedReturnLine l =
     \<lparr>rli_itemId = bl_itemId l, rli_lotId = bl_lotId l, rli_sourceWarehouseId = bl_sourceWarehouseId l,
      rli_enteredQuantity = formatFixed (bl_enteredQuantity l) 6, rli_enteredUom = bl_enteredUom l,
      rli_reasonCode = reason_name (bl_reasonCode l), rli_remarks = bl_remarks l,
      rli_evidenceRef = bl_evidenceRef l\<rparr>"

definition submitStockReturnBatch ::
  "env \<Rightarrow> return_action \<Rightarrow> 'z return_db_scheme \<Rightarrow> 'z rt_result" where
  "submitStockReturnBatch e inp = run_tx (\<lambda>db.
     bindE (openBatch inp STOCK_RETURN_ROLES db) (\<lambda>(a, b).
     bindE (expectBatch [SR_DRAFT] inp b) (\<lambda>_.
     let lines = batchLines (rt_lines db) (rb_id b) in
     bindE (ensure (lines \<noteq> []) (ReturnErr R_VALIDATION 400)) (\<lambda>_.
     bindE (resolveReturnLines db (rb_sourceLocationId b) (map storedReturnLine lines)) (\<lambda>_.
     bindE (resolveHqDestination db) (\<lambda>(hqLocation, hqWarehouse, _).
     bindE (ensure (hqLocation = rb_destinationLocationId b \<and> hqWarehouse = rb_destinationWarehouseId b)
              (ReturnErr R_TOPOLOGY_NOT_READY 503)) (\<lambda>_.
     bindE (ensureReturnDocument e STOCK_RETURN_DISPATCH_MODULE (rb_documentNo b) (rb_sourceLocationId b)
              ''APPROVED'' db) (\<lambda>(db1, dispatchDoc).
     bindE (ensureReturnDocument e STOCK_RETURN_RECEIPT_MODULE (rb_documentNo b) (rb_destinationLocationId b)
              ''DISPATCHED'' db1) (\<lambda>(db2, receiptDoc).
     bindE (updateBatch (rb_id b) SR_DRAFT (ra_expectedVersion inp)
            (\<lambda>x. x\<lparr>rb_status := SR_SUBMITTED, rb_submittedBy := Some (ac_id a),
                   rb_dispatchDocumentId := Some dispatchDoc, rb_receiptDocumentId := Some receiptDoc,
                   rb_version := rb_version b + 1\<rparr>) db2) (\<lambda>(db3, u).
     bindE (ensure (\<forall>x \<in> set (rt_batches db). rb_id x \<noteq> rb_id b \<longrightarrow>
                rb_dispatchDocumentId x \<noteq> Some dispatchDoc \<and> rb_receiptDocumentId x \<noteq> Some receiptDoc)
              (ReturnPassed DbUniqueViolation)) (\<lambda>_.
       Inr (writeAudit (batchAudit a (rb_sourceLocationId b) ''stock_return.submitted'' (rb_id b)) db3,
            (u, lines)))))))))))))"

definition approveStockReturnBatch :: "return_action \<Rightarrow> 'z return_db_scheme \<Rightarrow> 'z rt_result" where
  "approveStockReturnBatch inp = run_tx (\<lambda>db.
     bindE (openBatch inp STOCK_RETURN_APPROVE_ROLES db) (\<lambda>(a, b).
     bindE (expectBatch [SR_SUBMITTED] inp b) (\<lambda>_.
     bindE (ensure (rb_submittedBy b \<noteq> Some (ac_id a)) (ReturnErr R_SEGREGATION_OF_DUTIES 409)) (\<lambda>_.
     bindE (updateBatch (rb_id b) SR_SUBMITTED (ra_expectedVersion inp)
            (\<lambda>x. x\<lparr>rb_status := SR_APPROVED, rb_approvedBy := Some (ac_id a),
                   rb_version := rb_version b + 1\<rparr>) db) (\<lambda>(db1, u).
       Inr (writeAudit (batchAudit a (rb_sourceLocationId b) ''stock_return.approved'' (rb_id b)) db1,
            (u, batchLines (rt_lines db1) (rb_id b))))))))"

definition cancelStockReturnBatch :: "return_action \<Rightarrow> string \<Rightarrow> 'z return_db_scheme \<Rightarrow> 'z rt_result" where
  "cancelStockReturnBatch inp reason = run_tx (\<lambda>db.
     bindE (openBatch inp STOCK_RETURN_ROLES db) (\<lambda>(a, b).
     bindE (expectBatch [SR_DRAFT, SR_SUBMITTED] inp b) (\<lambda>_.
     bindE (ensure (trim reason \<noteq> []) (ReturnErr R_VALIDATION 400)) (\<lambda>_.
     bindE (updateBatch (rb_id b) (rb_status b) (ra_expectedVersion inp)
            (\<lambda>x. x\<lparr>rb_status := SR_CANCELLED, rb_cancelledBy := Some (ac_id a),
                   rb_cancelReason := Some reason, rb_version := rb_version b + 1\<rparr>) db) (\<lambda>(db1, u).
       Inr (writeAudit (batchAudit a (rb_sourceLocationId b) ''stock_return.cancelled'' (rb_id b)) db1,
            (u, batchLines (rt_lines db1) (rb_id b))))))))"

section \<open>Dispatch\<close>

text \<open>What the prepare transaction of a dispatch hands over.\<close>

record return_dispatch =
  rd_actor :: actor
  rd_batch :: batch
  rd_lines :: "bline list"
  rd_docId :: string

definition dispatchNo :: "batch \<Rightarrow> string" where
  "dispatchNo b = rb_documentNo b @ '':DISPATCH''"

text \<open>Once the batch has the target status a retry with the old version is a replay.\<close>

definition expectReturnPhase ::
  "return_status \<Rightarrow> return_status \<Rightarrow> return_action \<Rightarrow> batch \<Rightarrow> return_error + unit" where
  "expectReturnPhase from to inp b =
     bindE (ensure (rb_status b = from \<or> rb_status b = to) (ReturnErr R_INVALID_TRANSITION 409)) (\<lambda>_.
       ensure (\<not> (rb_status b = from \<and> rb_version b \<noteq> ra_expectedVersion inp)) changedReturn)"

definition prepareReturnDispatch ::
  "env \<Rightarrow> return_action \<Rightarrow> 'z return_db_scheme \<Rightarrow> return_error + 'z return_db_scheme \<times> return_dispatch" where
  "prepareReturnDispatch e inp db =
     bindE (openBatch inp STOCK_RETURN_ROLES db) (\<lambda>(a, b).
     bindE (expectReturnPhase SR_APPROVED SR_DISPATCHED inp b) (\<lambda>_.
     bindE (ensureReturnDocument e STOCK_RETURN_DISPATCH_MODULE (dispatchNo b) (rb_sourceLocationId b)
              ''APPROVED'' db) (\<lambda>(db1, doc).
       Inr (db1, \<lparr>rd_actor = a, rd_batch = b, rd_lines = batchLines (rt_lines db) (rb_id b), rd_docId = doc\<rparr>))))"

definition return_metadata :: "bline \<Rightarrow> (string \<times> json) list" where
  "return_metadata l = [(''stockReturnBatchLineId'', JStr (bl_id l)), (''lineNo'', JNum (nat_str (bl_lineNo l)))]"

definition returnOut :: "bline \<Rightarrow> movement" where
  "returnOut l =
     \<lparr>m_warehouseId = bl_sourceWarehouseId l, m_itemId = bl_itemId l, m_lotId = bl_lotId l,
      m_movementType = OUT, m_quantity = formatFixed (bl_quantity l) 6,
      m_enteredQuantity = Some (formatFixed (bl_enteredQuantity l) 6), m_enteredUom = bl_enteredUom l,
      m_conversionFactor = Some (formatFixed (bl_conversionFactor l) 8), m_unitCost = None,
      m_reasonCode = Some (reason_name (bl_reasonCode l)), m_sourcePolicy = Some CUSTODY_MOVE,
      m_metadata = Some (JObj (return_metadata l))\<rparr>"

definition returnDispatchPosting :: "return_action \<Rightarrow> return_dispatch \<Rightarrow> posting_input" where
  "returnDispatchPosting inp p =
     \<lparr>pi_idempotencyKey = dispatchNo (rd_batch p), pi_sourceModule = STOCK_RETURN_DISPATCH_MODULE,
      pi_sourceDocumentNo = dispatchNo (rd_batch p), pi_locationId = rb_sourceLocationId (rd_batch p),
      pi_actorUserId = ac_id (rd_actor p), pi_sessionId = ra_sessionId inp,
      pi_correlationId = dispatchNo (rd_batch p), pi_movements = map returnOut (rd_lines p)\<rparr>"

text \<open>
  The end of both finalizing transactions: the conditional update of the batch row, or the row as it
  is when it had advanced before.
\<close>

definition advanceBatch ::
  "return_action \<Rightarrow> batch \<Rightarrow> bline list \<Rightarrow> return_status \<Rightarrow> return_status \<Rightarrow> (batch \<Rightarrow> batch) \<Rightarrow> audit_row \<Rightarrow>
   'z return_db_scheme \<Rightarrow> return_error + 'z return_db_scheme \<times> batch_view" where
  "advanceBatch inp b lines from to f audit db =
     (case updateBatch (rb_id b) from (ra_expectedVersion inp) f db of
        Inr (db1, u) \<Rightarrow> Inr (writeAudit audit db1, (u, lines))
      | Inl _ \<Rightarrow>
          (case List.find (\<lambda>x. rb_id x = rb_id b) (rt_batches db) of
             Some x \<Rightarrow> if rb_status x = to then Inr (db, (x, lines)) else Inl changedReturn
           | None \<Rightarrow> Inl changedReturn))"

definition finalizeReturnDispatch ::
  "return_action \<Rightarrow> return_dispatch \<Rightarrow> 'z return_db_scheme \<Rightarrow>
   return_error + 'z return_db_scheme \<times> batch_view" where
  "finalizeReturnDispatch inp p =
     (let b = rd_batch p; a = rd_actor p in
      advanceBatch inp b (rd_lines p) SR_APPROVED SR_DISPATCHED
        (\<lambda>x. x\<lparr>rb_status := SR_DISPATCHED, rb_dispatchedBy := Some (ac_id a), rb_version := rb_version b + 1\<rparr>)
        (batchAudit a (rb_sourceLocationId b) ''stock_return.dispatched'' (rb_id b)))"

definition dispatchStockReturnBatch ::
  "env \<Rightarrow> 'z return_db_scheme poster \<Rightarrow>
   ('z return_db_scheme \<Rightarrow> 'z return_db_scheme) \<Rightarrow> ('z return_db_scheme \<Rightarrow> 'z return_db_scheme) \<Rightarrow>
   return_action \<Rightarrow> 'z return_db_scheme \<Rightarrow> 'z rt_result" where
  "dispatchStockReturnBatch e poster gap1 gap2 inp db =
     (case run_tx (prepareReturnDispatch e inp) db of
        (db1, Inl err) \<Rightarrow> (db1, Inl err)
      | (db1, Inr p) \<Rightarrow>
          (case poster (returnDispatchPosting inp p) (gap1 db1) of
             (db2, Inl err) \<Rightarrow> (compensateDocument (rd_docId p) ''APPROVED'' (gap2 db2), Inl (ReturnPassed err))
           | (db2, Inr r) \<Rightarrow> run_tx (finalizeReturnDispatch inp p) (gap2 db2)))"

section \<open>Receive and dispose\<close>

text \<open>A line with its quarantine lot and what the receipt says of it.\<close>

type_synonym received_line = "bline \<times> string \<times> return_reason \<times> string option"

record return_receipt =
  rr_actor :: actor
  rr_batch :: batch
  rr_lines :: "received_line list"
  rr_docId :: string
  rr_quarantineId :: string

definition receiptNo :: "batch \<Rightarrow> string" where
  "receiptNo b = rb_documentNo b @ '':RECEIPT''"

definition quarantineLotCode :: "batch \<Rightarrow> bline \<Rightarrow> string" where
  "quarantineLotCode b l = ''RETURN:'' @ rb_id b @ '':'' @ nat_str (bl_lineNo l)"

text \<open>One turn of the loop that makes the quarantine lots; a missing lot makes the code throw.\<close>

definition quarantineLine ::
  "env \<Rightarrow> batch \<Rightarrow> (string \<times> return_reason \<times> string option) list \<Rightarrow> bline \<Rightarrow>
   'z return_db_scheme \<times> received_line list \<Rightarrow> return_error + 'z return_db_scheme \<times> received_line list" where
  "quarantineLine e b rps l s =
     (case s of (db, done') \<Rightarrow>
        (case List.find (\<lambda>t. l_id t = bl_lotId l) (db_lots db) of
           None \<Rightarrow> Inl (ReturnPassed JsTypeError)
         | Some t \<Rightarrow>
             bindE (ensureQuarantineLot e (bl_itemId l) (quarantineLotCode b l) (l_unitCost t) db) (\<lambda>(db1, qLot).
             bindE (ensureLotGenealogyWith (ReturnPassed DbCheckViolation) (bl_lotId l) qLot (bl_quantity l)
                      (receiptNo b) db1) (\<lambda>db2.
             case map_of rps (bl_id l) of
               None \<Rightarrow> Inl (ReturnPassed JsTypeError)
             | Some r \<Rightarrow> Inr (db2, done' @ [(l, qLot, r)])))))"

definition prepareReturnReceipt ::
  "env \<Rightarrow> return_action \<Rightarrow> receipt_input list \<Rightarrow> 'z return_db_scheme \<Rightarrow>
   return_error + 'z return_db_scheme \<times> return_receipt" where
  "prepareReturnReceipt e inp rps db =
     bindE (assertReturnFeature db) (\<lambda>_.
     bindE (authorizeReturn db (ra_actorUserId inp) (ra_sessionId inp) STOCK_RETURN_RECEIVE_ROLES) (\<lambda>a.
     bindE (lockBatch db (ra_batchId inp)) (\<lambda>b.
     bindE (returnInScope (ac_allowed a) (rb_destinationLocationId b)) (\<lambda>_.
     bindE (expectReturnPhase SR_DISPATCHED SR_RECEIVED_DISPOSED inp b) (\<lambda>_.
     let lines = batchLines (rt_lines db) (rb_id b) in
     bindE (validateReceiptLines lines rps) (\<lambda>byLine.
     bindE (resolveHqDestination db) (\<lambda>(hqLocation, hqWarehouse, quarantine).
     bindE (ensure (hqLocation = rb_destinationLocationId b \<and> hqWarehouse = rb_destinationWarehouseId b)
              (ReturnErr R_TOPOLOGY_NOT_READY 503)) (\<lambda>_.
     bindE (ensureReturnDocument e STOCK_RETURN_RECEIPT_MODULE (receiptNo b) (rb_destinationLocationId b)
              ''DISPATCHED'' db) (\<lambda>(db1, doc).
     bindE (foldE (quarantineLine e b byLine) lines (db1, [])) (\<lambda>(db2, received).
       Inr (db2, \<lparr>rr_actor = a, rr_batch = b, rr_lines = received, rr_docId = doc,
                  rr_quarantineId = quarantine\<rparr>)))))))))))"

definition reusable :: "return_reason \<Rightarrow> bool" where
  "reusable r \<longleftrightarrow> r \<in> QA_RELEASE_RELEASABLE_REASONS"

text \<open>Into quarantine, and out again unless the reason is reusable.\<close>

definition receiptMovements :: "string \<Rightarrow> received_line \<Rightarrow> movement list" where
  "receiptMovements quarantine rl =
     (case rl of (l, qLot, reason, remarks) \<Rightarrow>
        let common = \<lparr>m_warehouseId = quarantine, m_itemId = bl_itemId l, m_lotId = qLot,
              m_movementType = IN, m_quantity = formatFixed (bl_quantity l) 6,
              m_enteredQuantity = Some (formatFixed (bl_enteredQuantity l) 6), m_enteredUom = bl_enteredUom l,
              m_conversionFactor = Some (formatFixed (bl_conversionFactor l) 8), m_unitCost = None,
              m_reasonCode = Some (reason_name (bl_reasonCode l)),
              m_sourcePolicy = (if reusable reason then Some QUARANTINE_HOLD else None),
              m_metadata = Some (JObj (return_metadata l))\<rparr>
        in if reusable reason then [common]
           else [common, common\<lparr>m_movementType := OUT, m_reasonCode := Some (reason_name reason),
                   m_sourcePolicy := Some DISPOSITION,
                   m_metadata := Some (JObj (return_metadata l @
                     [(''dispositionRemarks'', case remarks of None \<Rightarrow> JNull | Some s \<Rightarrow> JStr s)]))\<rparr>])"

definition returnReceiptPosting :: "return_action \<Rightarrow> return_receipt \<Rightarrow> posting_input" where
  "returnReceiptPosting inp p =
     \<lparr>pi_idempotencyKey = receiptNo (rr_batch p), pi_sourceModule = STOCK_RETURN_RECEIPT_MODULE,
      pi_sourceDocumentNo = receiptNo (rr_batch p), pi_locationId = rb_destinationLocationId (rr_batch p),
      pi_actorUserId = ac_id (rr_actor p), pi_sessionId = ra_sessionId inp,
      pi_correlationId = receiptNo (rr_batch p),
      pi_movements = concat (map (receiptMovements (rr_quarantineId p)) (rr_lines p))\<rparr>"

text \<open>The ledger rows of the posting by batch line and direction; the last row of a key counts.\<close>

definition metadata_field :: "string \<Rightarrow> json option \<Rightarrow> string option" where
  "metadata_field k m =
     (case m of
        Some (JObj kvs) \<Rightarrow> (case map_of kvs k of Some (JStr s) \<Rightarrow> truthy (Some s) | _ \<Rightarrow> None)
      | _ \<Rightarrow> None)"

definition ledgerIds :: "string \<Rightarrow> string \<Rightarrow> 'z stock_db_scheme \<Rightarrow> ((string \<times> direction) \<times> string) list" where
  "ledgerIds field postingId db =
     fold (\<lambda>r acc. case metadata_field field (ll_metadata (lg_line r)) of
                     Some k \<Rightarrow> AList.update (k, ll_movementType (lg_line r)) (lg_id r) acc | None \<Rightarrow> acc)
       (filter (\<lambda>r. lg_postingId r = postingId) (db_ledger db)) []"

definition writeReceipt ::
  "env \<Rightarrow> ((string \<times> direction) \<times> string) list \<Rightarrow> received_line \<Rightarrow> 'z return_db_scheme \<Rightarrow>
   return_error + 'z return_db_scheme" where
  "writeReceipt e ids rl db =
     (case rl of (l, qLot, reason, remarks) \<Rightarrow>
        let inId = truthy (map_of ids (bl_id l, IN)); outId = map_of ids (bl_id l, OUT)
        in bindE (ensure (inId \<noteq> None \<and> (reusable reason \<or> truthy outId \<noteq> None)) changedReturn) (\<lambda>_.
           ensureReceiptLine e \<lparr>rc_id = [], rc_batchLineId = bl_id l, rc_quarantineLotId = qLot,
             rc_receivedQuantity = bl_quantity l, rc_reasonCode = reason, rc_remarks = remarks,
             rc_inPostingLineId = inId, rc_outPostingLineId = outId\<rparr> db))"

definition finalizeReturnReceipt ::
  "env \<Rightarrow> return_action \<Rightarrow> return_receipt \<Rightarrow> posting_result \<Rightarrow> 'z return_db_scheme \<Rightarrow>
   return_error + 'z return_db_scheme \<times> batch_view" where
  "finalizeReturnReceipt e inp p r db =
     (let b = rr_batch p; a = rr_actor p in
      bindE (foldE (writeReceipt e (ledgerIds ''stockReturnBatchLineId'' (pr_postingId r) db)) (rr_lines p) db) (\<lambda>db1.
        advanceBatch inp b (map fst (rr_lines p)) SR_DISPATCHED SR_RECEIVED_DISPOSED
          (\<lambda>x. x\<lparr>rb_status := SR_RECEIVED_DISPOSED, rb_receivedBy := Some (ac_id a),
                 rb_version := rb_version b + 1\<rparr>)
          (batchAudit a (rb_destinationLocationId b) ''stock_return.received_disposed'' (rb_id b)) db1))"

definition receiveAndDisposeStockReturnBatch ::
  "env \<Rightarrow> 'z return_db_scheme poster \<Rightarrow>
   ('z return_db_scheme \<Rightarrow> 'z return_db_scheme) \<Rightarrow> ('z return_db_scheme \<Rightarrow> 'z return_db_scheme) \<Rightarrow>
   return_action \<Rightarrow> receipt_input list \<Rightarrow> 'z return_db_scheme \<Rightarrow> 'z rt_result" where
  "receiveAndDisposeStockReturnBatch e poster gap1 gap2 inp rps db =
     (case run_tx (prepareReturnReceipt e inp rps) db of
        (db1, Inl err) \<Rightarrow> (db1, Inl err)
      | (db1, Inr p) \<Rightarrow>
          (case poster (returnReceiptPosting inp p) (gap1 db1) of
             (db2, Inl err) \<Rightarrow> (compensateDocument (rr_docId p) ''DISPATCHED'' (gap2 db2), Inl (ReturnPassed err))
           | (db2, Inr r) \<Rightarrow> run_tx (finalizeReturnReceipt e inp p r) (gap2 db2)))"

section \<open>The service\<close>

text \<open>\<open>createStockReturnService\<close>: dispatch and receipt over a posting service with the two policies.\<close>

definition return_deps :: posting_deps where
  "return_deps = \<lparr>dep_fault = (\<lambda>_. None), dep_maxRetries = None,
     dep_policies = [(STOCK_RETURN_DISPATCH_MODULE, STOCK_RETURN_DISPATCH_POLICY),
                     (STOCK_RETURN_RECEIPT_MODULE, STOCK_RETURN_RECEIPT_POLICY)]\<rparr>"

section \<open>Reads\<close>

definition getStockReturnBatch ::
  "string \<Rightarrow> string option \<Rightarrow> string \<Rightarrow> 'z return_db_scheme \<Rightarrow> return_error + batch_view" where
  "getStockReturnBatch actorUserId sessionId bid db =
     bindE (authorizeReturn db actorUserId sessionId STOCK_RETURN_ROLES) (\<lambda>a.
     bindE (lockBatch db bid) (\<lambda>b.
     bindE (returnInScope (ac_allowed a) (rb_sourceLocationId b)) (\<lambda>_.
       Inr (b, batchLines (rt_lines db) (rb_id b)))))"

record list_return_input =
  lr_actorUserId :: string
  lr_sessionId :: "string option"
  lr_sourceLocationId :: "string option"
  lr_status :: "return_status option"
  lr_search :: "string option"
  lr_limit :: "nat option"
  lr_offset :: "nat option"

text \<open>The rows the actor may see and asked for.\<close>

definition resolveListConditions ::
  "list_return_input \<Rightarrow> 'z return_db_scheme \<Rightarrow> return_error + batch list" where
  "resolveListConditions inp db =
     bindE (authorizeReturn db (lr_actorUserId inp) (lr_sessionId inp) STOCK_RETURN_ROLES) (\<lambda>a.
     let asked = truthy (lr_sourceLocationId inp) in
     bindE (ensure (case asked of None \<Rightarrow> True | Some l \<Rightarrow> in_scope (ac_allowed a) l)
              (ReturnErr R_UNAUTHORIZED 403)) (\<lambda>_.
       Inr (filter (\<lambda>b.
          (case asked of Some l \<Rightarrow> rb_sourceLocationId b = l
                       | None \<Rightarrow> in_scope (ac_allowed a) (rb_sourceLocationId b)) \<and>
          (case lr_status inp of None \<Rightarrow> True | Some s \<Rightarrow> rb_status b = s) \<and>
          (case truthy (map_option trim (lr_search inp)) of
             None \<Rightarrow> True
           | Some t \<Rightarrow> sql_like (to_lower (''%'' @ t @ ''%'')) (to_lower (rb_documentNo b)))) (rt_batches db))))"

text \<open>Newest first; the order of rows with the same time is left to the database.\<close>

definition listStockReturnBatches ::
  "list_return_input \<Rightarrow> 'z return_db_scheme \<Rightarrow> return_error + batch list" where
  "listStockReturnBatches inp db =
     bindE (resolveListConditions inp db) (\<lambda>rows.
       let page = drop (case lr_offset inp of Some n \<Rightarrow> n | None \<Rightarrow> 0)
                    (sort_by (\<lambda>x y. rb_createdAt y \<le> rb_createdAt x) rows)
       in Inr (case lr_limit inp of Some n \<Rightarrow> take n page | None \<Rightarrow> page))"

definition countStockReturnBatches ::
  "list_return_input \<Rightarrow> 'z return_db_scheme \<Rightarrow> return_error + nat" where
  "countStockReturnBatches inp db = bindE (resolveListConditions inp db) (\<lambda>rows. Inr (length rows))"

end
