(* ===== verification/QaRelease.thy ===== *)
theory QaRelease
  imports ReturnService
begin

text \<open>
  QA releases: \<open>src/modules/qa-releases/\<close> (\<open>policies.ts\<close>, \<open>types.ts\<close>, \<open>errors.ts\<close>, \<open>service.ts\<close>). Every
  exported function of the service is one definition. A release of stock is three transactions
  (prepare, post, finalize); \<open>gap1\<close> and \<open>gap2\<close> are what other requests do in between.
\<close>

section \<open>Data and policies\<close>

datatype qa_code =
    Q_FEATURE_DISABLED | Q_UNAUTHORIZED | Q_NOT_FOUND | Q_VALIDATION | Q_INVALID_TRANSITION
  | Q_REASON_NOT_RELEASABLE | Q_UOM_MISMATCH | Q_LOT_NOT_ELIGIBLE | Q_INSUFFICIENT_QUARANTINE_BALANCE
  | Q_DUPLICATE_LINE | Q_SEGREGATION_OF_DUTIES | Q_TOPOLOGY_NOT_READY | Q_CONCURRENT_MODIFICATION

datatype qa_error = QaErr qa_code nat | QaPassed stock_error

record qa_line_input =
  qi_receiptLineId :: string
  qi_enteredQuantity :: string
  qi_enteredUom :: string
  qi_remarks :: "string option"

record create_qa_input =
  cq_actorUserId :: string
  cq_sessionId :: "string option"
  cq_remarks :: "string option"
  cq_lines :: "qa_line_input list"

record qa_action =
  qa_actorUserId :: string
  qa_sessionId :: "string option"
  qa_releaseId :: string
  qa_expectedVersion :: nat

record update_qa_input = qa_action +
  uq_remarks :: "string option option"
  uq_lines :: "qa_line_input list option"

record resolved_qa_line =
  rql_lineNo :: nat
  rql_itemId :: string
  rql_quarantineLotId :: string
  rql_receiptLineId :: string
  rql_releaseQuantity :: string
  rql_enteredUom :: string
  rql_conversionFactor :: string
  rql_remarks :: "string option"

definition QA_RELEASE_MODULE :: string where
  "QA_RELEASE_MODULE = ''QA_RELEASE''"

definition QA_RELEASE_FEATURE_KEY :: string where
  "QA_RELEASE_FEATURE_KEY = ''stock.returns''"

definition QA_RELEASE_MAX_LINES :: nat where
  "QA_RELEASE_MAX_LINES = 250"

definition QA_RELEASE_ROLES :: "role list" where
  "QA_RELEASE_ROLES = [OWNER, WAREHOUSE_MAIN]"

definition QA_RELEASE_APPROVE_ROLES :: "role list" where
  "QA_RELEASE_APPROVE_ROLES = [OWNER, WAREHOUSE_MAIN]"

definition QA_RELEASE_POSTING_POLICY :: document_policy where
  "QA_RELEASE_POSTING_POLICY =
     \<lparr>dp_featureFlag = Some QA_RELEASE_FEATURE_KEY, dp_routeClass = RC_QA_RELEASE,
      dp_allowedRoles = QA_RELEASE_ROLES, dp_fromStatuses = [''APPROVED''], dp_nextStatus = ''RELEASED''\<rparr>"

section \<open>Shared helpers\<close>

definition authorizeQa ::
  "'z stock_db_scheme \<Rightarrow> string \<Rightarrow> string option \<Rightarrow> role list \<Rightarrow> qa_error + actor" where
  "authorizeQa = authorizeWith (QaErr Q_UNAUTHORIZED 403) (QaErr Q_UNAUTHORIZED 401)"

definition qaInScope :: "string list option \<Rightarrow> string \<Rightarrow> qa_error + unit" where
  "qaInScope allowed l = ensure (in_scope allowed l) (QaErr Q_UNAUTHORIZED 403)"

definition assertQaFeature :: "'z stock_db_scheme \<Rightarrow> qa_error + unit" where
  "assertQaFeature = featureWith (QaErr Q_FEATURE_DISABLED 503) QA_RELEASE_FEATURE_KEY"

definition resolveHqTopology :: "'z stock_db_scheme \<Rightarrow> qa_error + string \<times> string \<times> string" where
  "resolveHqTopology = hqTopologyWith (QaErr Q_TOPOLOGY_NOT_READY 503)"

definition changedQa :: qa_error where
  "changedQa = QaErr Q_CONCURRENT_MODIFICATION 409"

section \<open>Lines\<close>

text \<open>One turn of the first loop: receipt line not repeated, unit given, quantity positive.\<close>

definition checkQaLine :: "qa_line_input \<Rightarrow> string list \<Rightarrow> qa_error + string list" where
  "checkQaLine l seen =
     bindE (ensure (qi_receiptLineId l \<notin> set seen) (QaErr Q_DUPLICATE_LINE 400)) (\<lambda>_.
     bindE (ensure (trim (qi_enteredUom l) \<noteq> []) (QaErr Q_VALIDATION 400)) (\<lambda>_.
     bindE (mapErr (\<lambda>_. QaErr Q_VALIDATION 400) (parseFixed (qi_enteredQuantity l) 6)) (\<lambda>q.
     bindE (ensure (0 < q) (QaErr Q_VALIDATION 400)) (\<lambda>_.
       Inr (qi_receiptLineId l # seen)))))"

definition lockReceipt :: "'z return_db_scheme \<Rightarrow> string \<Rightarrow> qa_error + string \<times> receipt_row" where
  "lockReceipt db i =
     (case List.find (\<lambda>r. rc_id r = i) (rt_receipts db) of
        Some r \<Rightarrow> Inr (i, r) | None \<Rightarrow> Inl (QaErr Q_VALIDATION 404))"

definition quarantineLotOf :: "'z stock_db_scheme \<Rightarrow> receipt_row \<Rightarrow> lot option" where
  "quarantineLotOf db r = List.find (\<lambda>t. l_id t = rc_quarantineLotId r) (db_lots db)"

text \<open>The conversion key of a line: the item of its quarantine lot, empty without one, and the unit.\<close>

definition qaConversionKey ::
  "'z stock_db_scheme \<Rightarrow> (string \<times> receipt_row) list \<Rightarrow> qa_line_input \<Rightarrow> string" where
  "qaConversionKey db receipts l =
     (case Option.bind (map_of receipts (qi_receiptLineId l)) (quarantineLotOf db) of
        None \<Rightarrow> [] | Some t \<Rightarrow> l_itemId t) @ '':'' @ to_lower (trim (qi_enteredUom l))"

text \<open>The configured factors; a key whose item is missing is skipped.\<close>

definition qaConversions ::
  "'z stock_db_scheme \<Rightarrow> string list \<Rightarrow> qa_error + (string \<times> string) list" where
  "qaConversions db keys =
     (let items = map (\<lambda>i. (i_id i, i)) (db_items db)
      in mapE (conversionWith (QaErr Q_UOM_MISMATCH 409) QaPassed db items)
           (filter (\<lambda>k. map_of items (takeWhile (\<lambda>c. c \<noteq> CHR '':'') k) \<noteq> None) keys))"

text \<open>What other releases that are not cancelled have booked against a receipt line.\<close>

definition releaseCancelled :: "qa_release list \<Rightarrow> string \<Rightarrow> bool" where
  "releaseCancelled rs i =
     (case List.find (\<lambda>r. qr_id r = i) rs of None \<Rightarrow> False | Some r \<Rightarrow> qr_status r = QR_CANCELLED)"

definition siblingSum :: "'z return_db_scheme \<Rightarrow> string option \<Rightarrow> string \<Rightarrow> int" where
  "siblingSum db exclude receiptLineId =
     sum_list (map ql_releaseQuantity (filter (\<lambda>l. ql_receiptLineId l = receiptLineId \<and>
        \<not> releaseCancelled (rt_releases db) (ql_releaseId l) \<and> exclude \<noteq> Some (ql_releaseId l))
        (rt_releaseLines db)))"

text \<open>One turn of the last loop. A factor that is missing is the text \<open>undefined\<close> to the parser.\<close>

definition resolveQaLine ::
  "'z return_db_scheme \<Rightarrow> (string \<times> receipt_row) list \<Rightarrow> (string \<times> string) list \<Rightarrow> string option \<Rightarrow>
   nat \<times> qa_line_input \<Rightarrow> qa_error + resolved_qa_line" where
  "resolveQaLine db receipts factors exclude nl =
     (let (n, l) = nl in
      case map_of receipts (qi_receiptLineId l) of
        None \<Rightarrow> Inl (QaPassed JsTypeError)
      | Some receipt \<Rightarrow>
          (case quarantineLotOf db receipt of
             None \<Rightarrow> Inl (QaErr Q_VALIDATION 404)
           | Some t \<Rightarrow>
               bindE (ensure (l_status t \<notin> {DISPOSED, EXHAUSTED}) (QaErr Q_LOT_NOT_ELIGIBLE 409)) (\<lambda>_.
               bindE (ensure (reusable (rc_reasonCode receipt)) (QaErr Q_REASON_NOT_RELEASABLE 409)) (\<lambda>_.
               let factor = (case map_of factors (qaConversionKey db receipts l) of
                               Some f \<Rightarrow> f | None \<Rightarrow> ''undefined'') in
               bindE (mapErr (\<lambda>_. QaErr Q_UOM_MISMATCH 409)
                        (multiplyFixedExact (qi_enteredQuantity l) 6 factor 8 6)) (\<lambda>base.
               bindE (mapErr (\<lambda>d. QaPassed (DecimalErr d)) (parseFixed base 6)) (\<lambda>requested.
               bindE (ensure (requested \<le> rc_receivedQuantity receipt - siblingSum db exclude (rc_id receipt))
                        (QaErr Q_INSUFFICIENT_QUARANTINE_BALANCE 409)) (\<lambda>_.
                 Inr \<lparr>rql_lineNo = n, rql_itemId = l_itemId t, rql_quarantineLotId = l_id t,
                      rql_receiptLineId = rc_id receipt, rql_releaseQuantity = base,
                      rql_enteredUom = qi_enteredUom l, rql_conversionFactor = factor,
                      rql_remarks = qi_remarks l\<rparr>)))))))"

definition resolveQaLines ::
  "'z return_db_scheme \<Rightarrow> qa_line_input list \<Rightarrow> string option \<Rightarrow> qa_error + resolved_qa_line list" where
  "resolveQaLines db ls exclude =
     bindE (ensure (1 \<le> length ls \<and> length ls \<le> QA_RELEASE_MAX_LINES) (QaErr Q_VALIDATION 400)) (\<lambda>_.
     bindE (foldE checkQaLine ls []) (\<lambda>_.
     bindE (mapE (lockReceipt db) (js_sorted_set (map qi_receiptLineId ls))) (\<lambda>receipts.
     bindE (qaConversions db (js_distinct (map (qaConversionKey db receipts) ls))) (\<lambda>factors.
       mapE (resolveQaLine db receipts factors exclude) (zip [1..<Suc (length ls)] ls)))))"

section \<open>Rows\<close>

definition ensureQaDocument ::
  "env \<Rightarrow> string \<Rightarrow> string \<Rightarrow> string \<Rightarrow> string \<Rightarrow> 'z stock_db_scheme \<Rightarrow>
   qa_error + 'z stock_db_scheme \<times> string" where
  "ensureQaDocument = ensureDocumentWith changedQa"

text \<open>The lot the released quantity lands in: available at once, without an expiry date.\<close>

definition ensureReleasedLot ::
  "env \<Rightarrow> string \<Rightarrow> string \<Rightarrow> int \<Rightarrow> 'z stock_db_scheme \<Rightarrow> qa_error + 'z stock_db_scheme \<times> string" where
  "ensureReleasedLot e itemId lotCode unitCost = ensureLotWith changedQa e AVAILABLE itemId lotCode unitCost None"

definition lockRelease :: "'z return_db_scheme \<Rightarrow> string \<Rightarrow> qa_error + qa_release" where
  "lockRelease db rid =
     (case List.find (\<lambda>r. qr_id r = rid) (rt_releases db) of
        Some r \<Rightarrow> Inr r | None \<Rightarrow> Inl (QaErr Q_NOT_FOUND 404))"

definition releaseLines :: "qa_line list \<Rightarrow> string \<Rightarrow> qa_line list" where
  "releaseLines ls rid =
     sort_by (\<lambda>x y. ql_lineNo x \<le> ql_lineNo y) (filter (\<lambda>x. ql_releaseId x = rid) ls)"

definition insertQaLine ::
  "env \<Rightarrow> string \<Rightarrow> resolved_qa_line \<Rightarrow> 'z return_db_scheme \<Rightarrow> qa_error + 'z return_db_scheme" where
  "insertQaLine e rid r db =
     bindE (mapErr QaPassed (db_numeric 6 (rql_releaseQuantity r))) (\<lambda>q.
     bindE (mapErr QaPassed (db_numeric 8 (rql_conversionFactor r))) (\<lambda>factor.
     bindE (ensure (0 < rql_lineNo r \<and> 0 < q \<and> 0 < factor) (QaPassed DbCheckViolation)) (\<lambda>_.
     bindE (ensure (\<forall>x \<in> set (rt_releaseLines db). ql_id x \<noteq> env_uuid e (db_ids db) \<and>
                      (ql_releaseId x = rid \<longrightarrow> ql_lineNo x \<noteq> rql_lineNo r)) (QaPassed DbUniqueViolation)) (\<lambda>_.
       Inr (db\<lparr>rt_releaseLines := rt_releaseLines db @
              [\<lparr>ql_id = env_uuid e (db_ids db), ql_releaseId = rid, ql_lineNo = rql_lineNo r,
                ql_itemId = rql_itemId r, ql_quarantineLotId = rql_quarantineLotId r,
                ql_receiptLineId = rql_receiptLineId r, ql_releaseQuantity = q,
                ql_enteredUom = rql_enteredUom r, ql_conversionFactor = factor,
                ql_postingLineId = None, ql_remarks = rql_remarks r\<rparr>],
              db_ids := Suc (db_ids db)\<rparr>)))))"

definition insertQaLines ::
  "env \<Rightarrow> string \<Rightarrow> resolved_qa_line list \<Rightarrow> 'z return_db_scheme \<Rightarrow> qa_error + 'z return_db_scheme" where
  "insertQaLines e rid rs db = foldE (insertQaLine e rid) rs db"

text \<open>The delete of a release's lines; the trigger refuses a line that has posted.\<close>

definition deleteQaLines :: "string \<Rightarrow> 'z return_db_scheme \<Rightarrow> qa_error + 'z return_db_scheme" where
  "deleteQaLines rid db =
     (if \<exists>x \<in> set (rt_releaseLines db). ql_releaseId x = rid \<and> ql_postingLineId x \<noteq> None
      then Inl (QaPassed (DbAborted ''P0001''))
      else Inr (db\<lparr>rt_releaseLines := filter (\<lambda>x. ql_releaseId x \<noteq> rid) (rt_releaseLines db)\<rparr>))"

text \<open>The trigger on the header: from a quarantine warehouse into a main warehouse of the headquarters.\<close>

definition qaRouteOk :: "'z stock_db_scheme \<Rightarrow> qa_release \<Rightarrow> bool" where
  "qaRouteOk db r =
     (let purpose = (\<lambda>i. Option.bind (List.find (\<lambda>w. w_id w = i) (db_warehouses db)) w_purpose)
      in purpose (qr_sourceWarehouseId r) = Some QUARANTINE \<and>
         purpose (qr_destinationWarehouseId r) = Some HQ_MAIN)"

definition insertRelease :: "qa_release \<Rightarrow> 'z return_db_scheme \<Rightarrow> qa_error + 'z return_db_scheme" where
  "insertRelease r db =
     (if \<not> qaRouteOk db r then Inl (QaPassed (DbAborted ''P0001''))
      else if qr_sourceWarehouseId r = qr_destinationWarehouseId r then Inl (QaPassed DbCheckViolation)
      else if \<exists>x \<in> set (rt_releases db). qr_id x = qr_id r \<or> qr_documentNo x = qr_documentNo r
      then Inl (QaPassed DbUniqueViolation)
      else Inr (db\<lparr>rt_releases := rt_releases db @ [r], db_ids := Suc (Suc (db_ids db))\<rparr>))"

text \<open>The conditional \<open>UPDATE qa_release \<dots> RETURNING\<close>; \<open>None\<close> when no row matches.\<close>

definition updateRelease ::
  "string \<Rightarrow> release_status \<Rightarrow> nat \<Rightarrow> (qa_release \<Rightarrow> qa_release) \<Rightarrow> 'z return_db_scheme \<Rightarrow>
   qa_error + ('z return_db_scheme \<times> qa_release) option" where
  "updateRelease rid status version f db =
     (let hit = (\<lambda>r. qr_id r = rid \<and> qr_status r = status \<and> qr_version r = version)
      in case List.find hit (rt_releases db) of
           None \<Rightarrow> Inr None
         | Some r \<Rightarrow>
             if \<not> qaRouteOk db (f r) then Inl (QaPassed (DbAborted ''P0001''))
             else Inr (Some (db\<lparr>rt_releases := update_where hit f (rt_releases db)\<rparr>, f r)))"

definition releaseAudit :: "actor \<Rightarrow> string \<Rightarrow> string \<Rightarrow> string \<Rightarrow> audit_row" where
  "releaseAudit a locationId action rid =
     \<lparr>a_actorUserId = Some (ac_id a), a_locationId = Some locationId, a_action = action,
      a_entityType = ''qa_release'', a_entityId = rid\<rparr>"

section \<open>Draft, update, submit, approve, cancel\<close>

type_synonym release_view = "qa_release \<times> qa_line list"

type_synonym 'z qa_result = "'z return_db_scheme \<times> (qa_error + release_view)"

definition draftRelease ::
  "env \<Rightarrow> nat \<Rightarrow> create_qa_input \<Rightarrow> actor \<Rightarrow> string \<Rightarrow> string \<Rightarrow> 'z stock_db_scheme \<Rightarrow> qa_release" where
  "draftRelease e now inp a quarantine hqMain db =
     \<lparr>qr_id = env_uuid e (Suc (db_ids db)), qr_documentNo = ''QAR-'' @ env_uuid e (db_ids db),
      qr_status = QR_DRAFT, qr_version = 1, qr_sourceWarehouseId = quarantine,
      qr_destinationWarehouseId = hqMain, qr_releaseDocumentId = None, qr_remarks = cq_remarks inp,
      qr_requestedBy = None, qr_approvedBy = None, qr_releasedBy = None, qr_cancelledBy = None,
      qr_cancelReason = None, qr_createdBy = Some (ac_id a), qr_createdAt = now\<rparr>"

definition createQaReleaseDraft ::
  "env \<Rightarrow> nat \<Rightarrow> create_qa_input \<Rightarrow> 'z return_db_scheme \<Rightarrow> 'z qa_result" where
  "createQaReleaseDraft e now inp = run_tx (\<lambda>db.
     bindE (authorizeQa db (cq_actorUserId inp) (cq_sessionId inp) QA_RELEASE_ROLES) (\<lambda>a.
     bindE (resolveHqTopology db) (\<lambda>(hqLocation, hqMain, quarantine).
     bindE (qaInScope (ac_allowed a) hqLocation) (\<lambda>_.
     bindE (resolveQaLines db (cq_lines inp) None) (\<lambda>resolved.
     let r = draftRelease e now inp a quarantine hqMain db in
     bindE (insertRelease r db) (\<lambda>db1.
     bindE (insertQaLines e (qr_id r) resolved db1) (\<lambda>db2.
       Inr (writeAudit (releaseAudit a hqLocation ''qa_release.created'' (qr_id r)) db2,
            (r, releaseLines (rt_releaseLines db2) (qr_id r))))))))))"

text \<open>The guards shared by the transitions: actor, row lock, topology, scope.\<close>

definition openRelease ::
  "qa_action \<Rightarrow> role list \<Rightarrow> 'z return_db_scheme \<Rightarrow> qa_error + actor \<times> qa_release \<times> string \<times> string \<times> string" where
  "openRelease inp roles db =
     bindE (authorizeQa db (qa_actorUserId inp) (qa_sessionId inp) roles) (\<lambda>a.
     bindE (lockRelease db (qa_releaseId inp)) (\<lambda>r.
     bindE (resolveHqTopology db) (\<lambda>(hqLocation, hqMain, quarantine).
     bindE (qaInScope (ac_allowed a) hqLocation) (\<lambda>_. Inr (a, r, hqLocation, hqMain, quarantine)))))"

definition expectRelease :: "release_status list \<Rightarrow> qa_action \<Rightarrow> qa_release \<Rightarrow> qa_error + unit" where
  "expectRelease ss inp r =
     bindE (ensure (qr_status r \<in> set ss) (QaErr Q_INVALID_TRANSITION 409)) (\<lambda>_.
       ensure (qr_version r = qa_expectedVersion inp) changedQa)"

definition replaceQaLines ::
  "env \<Rightarrow> qa_release \<Rightarrow> qa_line_input list option \<Rightarrow> 'z return_db_scheme \<Rightarrow> qa_error + 'z return_db_scheme" where
  "replaceQaLines e r ls db =
     (case ls of
        None \<Rightarrow> Inr db
      | Some ls \<Rightarrow>
          bindE (resolveQaLines db ls (Some (qr_id r))) (\<lambda>resolved.
          bindE (deleteQaLines (qr_id r) db) (\<lambda>db1.
            insertQaLines e (qr_id r) resolved db1)))"

text \<open>The update of a transition, which must hit the row it locked.\<close>

definition moveRelease ::
  "qa_action \<Rightarrow> qa_release \<Rightarrow> (qa_release \<Rightarrow> qa_release) \<Rightarrow> 'z return_db_scheme \<Rightarrow>
   qa_error + 'z return_db_scheme \<times> qa_release" where
  "moveRelease inp r f db =
     bindE (updateRelease (qr_id r) (qr_status r) (qa_expectedVersion inp) f db) (\<lambda>u.
     case u of None \<Rightarrow> Inl changedQa | Some du \<Rightarrow> Inr du)"

definition updateQaReleaseDraft ::
  "env \<Rightarrow> update_qa_input \<Rightarrow> 'z return_db_scheme \<Rightarrow> 'z qa_result" where
  "updateQaReleaseDraft e inp = run_tx (\<lambda>db.
     bindE (openRelease (qa_action.truncate inp) QA_RELEASE_ROLES db) (\<lambda>(a, r, _).
     bindE (expectRelease [QR_DRAFT] (qa_action.truncate inp) r) (\<lambda>_.
     bindE (replaceQaLines e r (uq_lines inp) db) (\<lambda>db1.
     bindE (moveRelease (qa_action.truncate inp) r
            (\<lambda>x. (case uq_remarks inp of None \<Rightarrow> x | Some m \<Rightarrow> x\<lparr>qr_remarks := m\<rparr>)
                   \<lparr>qr_version := qr_version r + 1\<rparr>) db1) (\<lambda>(db2, u).
       Inr (db2, (u, releaseLines (rt_releaseLines db2) (qr_id r))))))))"

text \<open>
  The stored line as the input of the second validation: the code passes the base quantity as the
  entered quantity, with the unit that was entered.
\<close>

definition storedQaLine :: "qa_line \<Rightarrow> qa_line_input" where
  "storedQaLine l =
     \<lparr>qi_receiptLineId = ql_receiptLineId l, qi_enteredQuantity = formatFixed (ql_releaseQuantity l) 6,
      qi_enteredUom = ql_enteredUom l, qi_remarks = ql_remarks l\<rparr>"

definition submitQaRelease :: "qa_action \<Rightarrow> 'z return_db_scheme \<Rightarrow> 'z qa_result" where
  "submitQaRelease inp = run_tx (\<lambda>db.
     bindE (openRelease inp QA_RELEASE_ROLES db) (\<lambda>(a, r, hqLocation, _).
     bindE (expectRelease [QR_DRAFT] inp r) (\<lambda>_.
     let lines = releaseLines (rt_releaseLines db) (qr_id r) in
     bindE (ensure (lines \<noteq> []) (QaErr Q_VALIDATION 400)) (\<lambda>_.
     bindE (resolveQaLines db (map storedQaLine lines) (Some (qr_id r))) (\<lambda>_.
     bindE (moveRelease inp r (\<lambda>x. x\<lparr>qr_status := QR_SUBMITTED, qr_requestedBy := Some (ac_id a),
                   qr_version := qr_version r + 1\<rparr>) db) (\<lambda>(db1, u).
       Inr (writeAudit (releaseAudit a hqLocation ''qa_release.submitted'' (qr_id r)) db1, (u, lines))))))))"

definition approveQaRelease :: "qa_action \<Rightarrow> 'z return_db_scheme \<Rightarrow> 'z qa_result" where
  "approveQaRelease inp = run_tx (\<lambda>db.
     bindE (openRelease inp QA_RELEASE_APPROVE_ROLES db) (\<lambda>(a, r, hqLocation, _).
     bindE (expectRelease [QR_SUBMITTED] inp r) (\<lambda>_.
     bindE (ensure (qr_requestedBy r \<noteq> Some (ac_id a)) (QaErr Q_SEGREGATION_OF_DUTIES 409)) (\<lambda>_.
     bindE (moveRelease inp r (\<lambda>x. x\<lparr>qr_status := QR_APPROVED, qr_approvedBy := Some (ac_id a),
                   qr_version := qr_version r + 1\<rparr>) db) (\<lambda>(db1, u).
       Inr (writeAudit (releaseAudit a hqLocation ''qa_release.approved'' (qr_id r)) db1,
            (u, releaseLines (rt_releaseLines db1) (qr_id r))))))))"

definition cancelQaRelease :: "qa_action \<Rightarrow> string \<Rightarrow> 'z return_db_scheme \<Rightarrow> 'z qa_result" where
  "cancelQaRelease inp reason = run_tx (\<lambda>db.
     bindE (openRelease inp QA_RELEASE_ROLES db) (\<lambda>(a, r, hqLocation, _).
     bindE (expectRelease [QR_DRAFT, QR_SUBMITTED, QR_APPROVED] inp r) (\<lambda>_.
     bindE (ensure (trim reason \<noteq> []) (QaErr Q_VALIDATION 400)) (\<lambda>_.
     bindE (moveRelease inp r (\<lambda>x. x\<lparr>qr_status := QR_CANCELLED, qr_cancelledBy := Some (ac_id a),
                   qr_cancelReason := Some reason, qr_version := qr_version r + 1\<rparr>) db) (\<lambda>(db1, u).
       Inr (writeAudit (releaseAudit a hqLocation ''qa_release.cancelled'' (qr_id r)) db1,
            (u, releaseLines (rt_releaseLines db1) (qr_id r))))))))"

section \<open>Release\<close>

text \<open>A line with the lot its quantity goes to and the base unit of its item.\<close>

type_synonym prepared_qa_line = "qa_line \<times> string \<times> string"

record prepared_release =
  pq_actor :: actor
  pq_release :: qa_release
  pq_lines :: "prepared_qa_line list"
  pq_docId :: string
  pq_hqLocation :: string

definition releaseKey :: "qa_release \<Rightarrow> string" where
  "releaseKey r = qr_documentNo r @ '':RELEASE''"

definition releasedLotCode :: "qa_release \<Rightarrow> qa_line \<Rightarrow> string" where
  "releasedLotCode r l = ''QA-RELEASE:'' @ qr_id r @ '':'' @ nat_str (ql_lineNo l)"

definition releasedLine ::
  "env \<Rightarrow> qa_release \<Rightarrow> qa_line \<Rightarrow> 'z return_db_scheme \<times> prepared_qa_line list \<Rightarrow>
   qa_error + 'z return_db_scheme \<times> prepared_qa_line list" where
  "releasedLine e r l s =
     (case s of (db, done') \<Rightarrow>
        (case List.find (\<lambda>t. l_id t = ql_quarantineLotId l) (db_lots db) of
           None \<Rightarrow> Inl (QaErr Q_VALIDATION 404)
         | Some t \<Rightarrow>
             bindE (ensure (l_status t \<notin> {DISPOSED, EXHAUSTED}) (QaErr Q_LOT_NOT_ELIGIBLE 409)) (\<lambda>_.
             bindE (ensureReleasedLot e (ql_itemId l) (releasedLotCode r l) (l_unitCost t) db) (\<lambda>(db1, lot).
             bindE (ensureLotGenealogyWith (QaPassed DbCheckViolation) (l_id t) lot (ql_releaseQuantity l)
                      (releaseKey r) db1) (\<lambda>db2.
               Inr (db2, done' @ [(l, lot,
                 (case List.find (\<lambda>i. i_id i = ql_itemId l) (db_items db) of
                    Some i \<Rightarrow> i_unit i | None \<Rightarrow> ql_enteredUom l))]))))))"

definition prepareQaRelease ::
  "env \<Rightarrow> qa_action \<Rightarrow> 'z return_db_scheme \<Rightarrow> qa_error + 'z return_db_scheme \<times> prepared_release" where
  "prepareQaRelease e inp db =
     bindE (assertQaFeature db) (\<lambda>_.
     bindE (openRelease inp QA_RELEASE_ROLES db) (\<lambda>(a, r, hqLocation, hqMain, quarantine).
     bindE (ensure (qr_sourceWarehouseId r = quarantine \<and> qr_destinationWarehouseId r = hqMain)
              (QaErr Q_TOPOLOGY_NOT_READY 503)) (\<lambda>_.
     bindE (ensure (qr_status r = QR_APPROVED \<or> qr_status r = QR_RELEASED) (QaErr Q_INVALID_TRANSITION 409)) (\<lambda>_.
     bindE (ensure (\<not> (qr_status r = QR_APPROVED \<and> qr_version r \<noteq> qa_expectedVersion inp)) changedQa) (\<lambda>_.
     let lines = releaseLines (rt_releaseLines db) (qr_id r) in
     bindE (ensure (lines \<noteq> []) (QaErr Q_VALIDATION 400)) (\<lambda>_.
     bindE (foldE (releasedLine e r) lines (db, [])) (\<lambda>(db1, prepared).
     bindE (ensureQaDocument e QA_RELEASE_MODULE (releaseKey r) hqLocation ''APPROVED'' db1) (\<lambda>(db2, doc).
       Inr (db2, \<lparr>pq_actor = a, pq_release = r, pq_lines = prepared, pq_docId = doc,
                  pq_hqLocation = hqLocation\<rparr>)))))))))"

definition qa_metadata :: "qa_line \<Rightarrow> json" where
  "qa_metadata l = JObj [(''qaReleaseLineId'', JStr (ql_id l)), (''lineNo'', JNum (nat_str (ql_lineNo l)))]"

text \<open>Out of quarantine and into the main warehouse, in the base unit.\<close>

definition releaseMovements :: "qa_release \<Rightarrow> prepared_qa_line \<Rightarrow> movement list" where
  "releaseMovements r pl =
     (case pl of (l, lot, unit') \<Rightarrow>
        let out = \<lparr>m_warehouseId = qr_sourceWarehouseId r, m_itemId = ql_itemId l,
              m_lotId = ql_quarantineLotId l, m_movementType = OUT,
              m_quantity = formatFixed (ql_releaseQuantity l) 6,
              m_enteredQuantity = Some (formatFixed (ql_releaseQuantity l) 6), m_enteredUom = unit',
              m_conversionFactor = Some ''1.00000000'', m_unitCost = None, m_reasonCode = None,
              m_sourcePolicy = Some QUARANTINE_RELEASE, m_metadata = Some (qa_metadata l)\<rparr>
        in [out, out\<lparr>m_warehouseId := qr_destinationWarehouseId r, m_lotId := lot, m_movementType := IN,
                     m_sourcePolicy := None\<rparr>])"

definition releasePosting :: "qa_action \<Rightarrow> prepared_release \<Rightarrow> posting_input" where
  "releasePosting inp p =
     \<lparr>pi_idempotencyKey = releaseKey (pq_release p), pi_sourceModule = QA_RELEASE_MODULE,
      pi_sourceDocumentNo = releaseKey (pq_release p), pi_locationId = pq_hqLocation p,
      pi_actorUserId = ac_id (pq_actor p), pi_sessionId = qa_sessionId inp,
      pi_correlationId = releaseKey (pq_release p),
      pi_movements = concat (map (releaseMovements (pq_release p)) (pq_lines p))\<rparr>"

text \<open>The conditional update of a line row, with the unique posting line id.\<close>

definition stampQaLine ::
  "((string \<times> direction) \<times> string) list \<Rightarrow> prepared_qa_line \<Rightarrow> 'z return_db_scheme \<Rightarrow>
   qa_error + 'z return_db_scheme" where
  "stampQaLine ids pl db =
     (let l = fst pl; hit = (\<lambda>x. ql_id x = ql_id l \<and> ql_postingLineId x = None)
      in case truthy (map_of ids (ql_id l, OUT)) of
           None \<Rightarrow> Inl changedQa
         | Some outId \<Rightarrow>
             if (\<exists>x \<in> set (rt_releaseLines db). hit x) \<and>
                (\<exists>x \<in> set (rt_releaseLines db). \<not> hit x \<and> ql_postingLineId x = Some outId)
             then Inl (QaPassed DbUniqueViolation)
             else Inr (db\<lparr>rt_releaseLines := update_where hit (\<lambda>x. x\<lparr>ql_postingLineId := Some outId\<rparr>)
                    (rt_releaseLines db)\<rparr>))"

definition finalizeQaRelease ::
  "qa_action \<Rightarrow> prepared_release \<Rightarrow> posting_result \<Rightarrow> 'z return_db_scheme \<Rightarrow>
   qa_error + 'z return_db_scheme \<times> release_view" where
  "finalizeQaRelease inp p res db =
     (let r = pq_release p; a = pq_actor p in
      bindE (foldE (stampQaLine (ledgerIds ''qaReleaseLineId'' (pr_postingId res) db)) (pq_lines p) db) (\<lambda>db1.
      bindE (updateRelease (qr_id r) QR_APPROVED (qa_expectedVersion inp)
               (\<lambda>x. x\<lparr>qr_status := QR_RELEASED, qr_releaseDocumentId := Some (pq_docId p),
                      qr_releasedBy := Some (ac_id a), qr_version := qr_version r + 1\<rparr>) db1) (\<lambda>u.
      case u of
        Some (db2, x) \<Rightarrow>
          if \<exists>y \<in> set (rt_releases db1). qr_id y \<noteq> qr_id r \<and> qr_releaseDocumentId y = Some (pq_docId p)
          then Inl (QaPassed DbUniqueViolation)
          else Inr (writeAudit (releaseAudit a (pq_hqLocation p) ''qa_release.released'' (qr_id r)) db2,
                    (x, releaseLines (rt_releaseLines db2) (qr_id r)))
      | None \<Rightarrow>
          (case List.find (\<lambda>y. qr_id y = qr_id r) (rt_releases db1) of
             Some y \<Rightarrow> if qr_status y = QR_RELEASED
                       then Inr (db1, (y, releaseLines (rt_releaseLines db1) (qr_id r)))
                       else Inl changedQa
           | None \<Rightarrow> Inl changedQa))))"

definition releaseQaRelease ::
  "env \<Rightarrow> 'z return_db_scheme poster \<Rightarrow>
   ('z return_db_scheme \<Rightarrow> 'z return_db_scheme) \<Rightarrow> ('z return_db_scheme \<Rightarrow> 'z return_db_scheme) \<Rightarrow>
   qa_action \<Rightarrow> 'z return_db_scheme \<Rightarrow> 'z qa_result" where
  "releaseQaRelease e poster gap1 gap2 inp db =
     (case run_tx (prepareQaRelease e inp) db of
        (db1, Inl err) \<Rightarrow> (db1, Inl err)
      | (db1, Inr p) \<Rightarrow>
          (case poster (releasePosting inp p) (gap1 db1) of
             (db2, Inl err) \<Rightarrow> (compensateDocument (pq_docId p) ''APPROVED'' (gap2 db2), Inl (QaPassed err))
           | (db2, Inr res) \<Rightarrow> run_tx (finalizeQaRelease inp p res) (gap2 db2)))"

text \<open>\<open>createQaReleaseService\<close>: the posting service with the one policy.\<close>

definition qa_deps :: posting_deps where
  "qa_deps = \<lparr>dep_fault = (\<lambda>_. None), dep_maxRetries = None,
     dep_policies = [(QA_RELEASE_MODULE, QA_RELEASE_POSTING_POLICY)]\<rparr>"

section \<open>Reads\<close>

definition getQaRelease ::
  "string \<Rightarrow> string option \<Rightarrow> string \<Rightarrow> 'z return_db_scheme \<Rightarrow> qa_error + release_view" where
  "getQaRelease actorUserId sessionId rid db =
     bindE (authorizeQa db actorUserId sessionId QA_RELEASE_ROLES) (\<lambda>a.
     bindE (lockRelease db rid) (\<lambda>r.
     bindE (resolveHqTopology db) (\<lambda>(hqLocation, _).
     bindE (qaInScope (ac_allowed a) hqLocation) (\<lambda>_.
       Inr (r, releaseLines (rt_releaseLines db) (qr_id r))))))"

record list_qa_input =
  lq_actorUserId :: string
  lq_sessionId :: "string option"
  lq_status :: "release_status option"
  lq_search :: "string option"
  lq_limit :: "nat option"
  lq_offset :: "nat option"

definition qaListConditions :: "list_qa_input \<Rightarrow> 'z return_db_scheme \<Rightarrow> qa_error + qa_release list" where
  "qaListConditions inp db =
     bindE (authorizeQa db (lq_actorUserId inp) (lq_sessionId inp) QA_RELEASE_ROLES) (\<lambda>a.
     bindE (resolveHqTopology db) (\<lambda>(hqLocation, _).
     bindE (qaInScope (ac_allowed a) hqLocation) (\<lambda>_.
       Inr (filter (\<lambda>r.
          (case lq_status inp of None \<Rightarrow> True | Some s \<Rightarrow> qr_status r = s) \<and>
          (case truthy (map_option trim (lq_search inp)) of
             None \<Rightarrow> True
           | Some t \<Rightarrow> sql_like (to_lower (''%'' @ t @ ''%'')) (to_lower (qr_documentNo r)))) (rt_releases db)))))"

definition listQaReleases :: "list_qa_input \<Rightarrow> 'z return_db_scheme \<Rightarrow> qa_error + qa_release list" where
  "listQaReleases inp db =
     bindE (qaListConditions inp db) (\<lambda>rows.
       let page = drop (case lq_offset inp of Some n \<Rightarrow> n | None \<Rightarrow> 0)
                    (sort_by (\<lambda>x y. qr_createdAt y \<le> qr_createdAt x) rows)
       in Inr (case lq_limit inp of Some n \<Rightarrow> take n page | None \<Rightarrow> page))"

definition countQaReleases :: "list_qa_input \<Rightarrow> 'z return_db_scheme \<Rightarrow> qa_error + nat" where
  "countQaReleases inp db = bindE (qaListConditions inp db) (\<lambda>rows. Inr (length rows))"

end
