(* ===== verification/ReturnLaws.thy ===== *)
theory ReturnLaws
  imports QaRelease
begin

text \<open>
  Lemmas on stock return batches: the invariant of the three tables (batches, lines, receipts) and
  what each transaction of the service does to them.
\<close>

section \<open>The tables\<close>

definition batch_lines :: "bline list \<Rightarrow> string \<Rightarrow> bline set" where
  "batch_lines ls bid = {l \<in> set ls. bl_batchId l = bid}"

lemma set_batchLines [simp]: "set (batchLines ls bid) = batch_lines ls bid"
  by (simp add: batchLines_def batch_lines_def)

definition bline_ok :: "bline \<Rightarrow> bool" where
  "bline_ok l \<longleftrightarrow> 0 < bl_quantity l \<and> bl_enteredQuantity l * bl_conversionFactor l = bl_quantity l * 10 ^ 8"

text \<open>
  A batch past its draft names its maker, past its approval a checker other than the maker; its lines
  have receipts, for their whole quantity, exactly once it is received.
\<close>

definition batch_ok :: "bline set \<Rightarrow> receipt_row set \<Rightarrow> batch \<Rightarrow> bool" where
  "batch_ok L R b \<longleftrightarrow>
     (rb_status b \<in> {SR_SUBMITTED, SR_APPROVED, SR_DISPATCHED, SR_RECEIVED_DISPOSED} \<longrightarrow> rb_submittedBy b \<noteq> None) \<and>
     (rb_status b \<in> {SR_APPROVED, SR_DISPATCHED, SR_RECEIVED_DISPOSED} \<longrightarrow>
        rb_approvedBy b \<noteq> None \<and> rb_approvedBy b \<noteq> rb_submittedBy b) \<and>
     (\<forall>l \<in> L. if rb_status b = SR_RECEIVED_DISPOSED
        then \<exists>r \<in> R. rc_batchLineId r = bl_id l \<and> rc_receivedQuantity r = bl_quantity l
        else bl_id l \<notin> rc_batchLineId ` R)"

definition returns_ok :: "batch list \<Rightarrow> bline list \<Rightarrow> receipt_row list \<Rightarrow> bool" where
  "returns_ok bs ls rcs \<longleftrightarrow>
     distinct (map rb_id bs) \<and> distinct (map bl_id ls) \<and>
     distinct (map rc_batchLineId rcs) \<and> distinct (map rc_id rcs) \<and>
     (\<forall>l \<in> set ls. bline_ok l \<and> bl_batchId l \<in> rb_id ` set bs) \<and>
     rc_batchLineId ` set rcs \<subseteq> bl_id ` set ls \<and>
     (\<forall>b \<in> set bs. batch_ok (batch_lines ls (rb_id b)) (set rcs) b)"

lemma returns_okD:
  assumes "returns_ok bs ls rcs"
  shows "distinct (map rb_id bs)" "distinct (map bl_id ls)" "distinct (map rc_batchLineId rcs)" "distinct (map rc_id rcs)"
    "\<And>l. l \<in> set ls \<Longrightarrow> bline_ok l" "\<And>l. l \<in> set ls \<Longrightarrow> bl_batchId l \<in> rb_id ` set bs"
    "rc_batchLineId ` set rcs \<subseteq> bl_id ` set ls"
    "\<And>b. b \<in> set bs \<Longrightarrow> batch_ok (batch_lines ls (rb_id b)) (set rcs) b"
  using assms by (auto simp: returns_ok_def)

text \<open>The moves of one batch; once approved it cannot be cancelled.\<close>

definition return_lifecycle :: "(return_status \<times> return_status) set" where
  "return_lifecycle = {(SR_DRAFT, SR_DRAFT), (SR_DRAFT, SR_SUBMITTED), (SR_SUBMITTED, SR_APPROVED),
     (SR_APPROVED, SR_DISPATCHED), (SR_DISPATCHED, SR_RECEIVED_DISPOSED), (SR_DRAFT, SR_CANCELLED),
     (SR_SUBMITTED, SR_CANCELLED)}"

definition batch_moves :: "batch \<Rightarrow> batch \<Rightarrow> bool" where
  "batch_moves x y \<longleftrightarrow> rb_id y = rb_id x \<and> rb_documentNo y = rb_documentNo x \<and>
     rb_sourceLocationId y = rb_sourceLocationId x \<and> rb_destinationLocationId y = rb_destinationLocationId x \<and>
     rb_destinationWarehouseId y = rb_destinationWarehouseId x \<and>
     (y = x \<or> (rb_status x, rb_status y) \<in> return_lifecycle \<and> rb_version y = Suc (rb_version x))"

lemma batch_moves_refl [simp]: "batch_moves x x"
  by (simp add: batch_moves_def)

definition returns_step ::
  "batch list \<Rightarrow> bline list \<Rightarrow> receipt_row list \<Rightarrow> batch list \<Rightarrow> bline list \<Rightarrow> receipt_row list \<Rightarrow> bool" where
  "returns_step bs ls rcs bs' ls' rcs' \<longleftrightarrow> set rcs \<subseteq> set rcs' \<and>
     (\<forall>x \<in> set bs. \<exists>y \<in> set bs'. batch_moves x y \<and>
        (rb_status x \<noteq> SR_DRAFT \<longrightarrow> batch_lines ls' (rb_id x) = batch_lines ls (rb_id x)))"

lemma returns_step_refl: "returns_step bs ls rcs bs ls rcs"
  unfolding returns_step_def using batch_moves_refl by blast

text \<open>A change of one batch row, of that batch's lines and of their receipts.\<close>

lemma returns_change:
  assumes ok: "returns_ok bs ls rcs" and x: "x \<in> set bs" "hit x" and only: "\<And>y. hit y \<Longrightarrow> rb_id y = rb_id x"
    and move: "batch_moves x (f x)"
    and ls': "distinct (map bl_id ls')" "\<And>l. l \<in> set ls' \<Longrightarrow> bl_batchId l = rb_id x \<Longrightarrow> bline_ok l"
    and others: "\<And>i. i \<noteq> rb_id x \<Longrightarrow> batch_lines ls' i = batch_lines ls i"
    and keep: "rb_status x \<noteq> SR_DRAFT \<Longrightarrow> batch_lines ls' (rb_id x) = batch_lines ls (rb_id x)"
    and rcs': "set rcs \<subseteq> set rcs'" "distinct (map rc_batchLineId rcs')" "distinct (map rc_id rcs')"
      "\<And>r. r \<in> set rcs' \<Longrightarrow> r \<notin> set rcs \<Longrightarrow> rc_batchLineId r \<in> bl_id ` batch_lines ls' (rb_id x)"
    and old: "rc_batchLineId ` set rcs \<subseteq> bl_id ` set ls'"
    and new: "batch_ok (batch_lines ls' (rb_id x)) (set rcs') (f x)"
  shows "returns_ok (update_where hit f bs) ls' rcs'" and "returns_step bs ls rcs (update_where hit f bs) ls' rcs'"
proof -
  have only': "\<forall>y. hit y \<longrightarrow> rb_id y = rb_id x" using only by blast
  have idf: "rb_id (f x) = rb_id x" using move by (simp add: batch_moves_def)
  note row = update_one_row [where k = rb_id and x = x and hit = hit and f = f, OF returns_okD(1) [OF ok] x only' idf]
  have img: "rb_id ` set (update_where hit f bs) = rb_id ` set bs" using row(2) by (metis list.set_map)
  have l_old: "l \<in> set ls" if "l \<in> set ls'" "bl_batchId l \<noteq> rb_id x" for l
    using others [OF that(2)] that(1) by (auto simp: batch_lines_def)
  have other: "batch_ok (batch_lines ls' (rb_id y)) (set rcs') y" if y: "y \<in> set bs" "y \<noteq> x" for y
  proof -
    have neq: "rb_id y \<noteq> rb_id x" by (rule row(3) [OF y])
    have fresh: "bl_id l \<notin> rc_batchLineId ` set rcs'"
      if l: "l \<in> batch_lines ls (rb_id y)" "bl_id l \<notin> rc_batchLineId ` set rcs" for l
    proof
      assume "bl_id l \<in> rc_batchLineId ` set rcs'"
      then obtain r where r: "r \<in> set rcs'" "rc_batchLineId r = bl_id l" by force
      with l(2) have "r \<notin> set rcs" by force
      with rcs'(4) [OF r(1)] r(2) obtain k where "k \<in> batch_lines ls' (rb_id x)" "bl_id k = bl_id l" by force
      moreover have "l \<in> set ls'" using l(1) others [OF neq] by (auto simp: batch_lines_def)
      ultimately have "k = l" using row_by_key [OF ls'(1)] by (auto simp: batch_lines_def)
      with \<open>k \<in> batch_lines ls' (rb_id x)\<close> l(1) neq show False by (simp add: batch_lines_def)
    qed
    have oky: "batch_ok (batch_lines ls (rb_id y)) (set rcs) y" by (rule returns_okD(8) [OF ok y(1)])
    have "if rb_status y = SR_RECEIVED_DISPOSED
        then \<exists>r \<in> set rcs'. rc_batchLineId r = bl_id l \<and> rc_receivedQuantity r = bl_quantity l
        else bl_id l \<notin> rc_batchLineId ` set rcs'" if l: "l \<in> batch_lines ls (rb_id y)" for l
    proof (cases "rb_status y = SR_RECEIVED_DISPOSED")
      case True
      with oky l obtain r where "r \<in> set rcs" "rc_batchLineId r = bl_id l \<and> rc_receivedQuantity r = bl_quantity l"
        by (auto simp: batch_ok_def)
      with True rcs'(1) show ?thesis by auto
    next
      case False
      with oky l have "bl_id l \<notin> rc_batchLineId ` set rcs" by (simp add: batch_ok_def)
      with fresh l False show ?thesis by simp
    qed
    with oky show ?thesis unfolding others [OF neq] batch_ok_def by blast
  qed
  show "returns_ok (update_where hit f bs) ls' rcs'"
    unfolding returns_ok_def row(2) img unfolding row(1)
  proof (intro conjI ballI)
    show "distinct (map rb_id bs)" by (rule returns_okD(1) [OF ok])
    show "bline_ok l" if "l \<in> set ls'" for l
      using ls'(2) [OF that] l_old [OF that] returns_okD(5) [OF ok] by blast
    show "bl_batchId l \<in> rb_id ` set bs" if "l \<in> set ls'" for l
      using l_old [OF that] returns_okD(6) [OF ok] x(1) by (cases "bl_batchId l = rb_id x") auto
    have "rc_batchLineId r \<in> bl_id ` set ls'" if "r \<in> set rcs'" for r
      using old rcs'(4) [OF that] by (cases "r \<in> set rcs") (auto simp: batch_lines_def)
    then show "rc_batchLineId ` set rcs' \<subseteq> bl_id ` set ls'" by blast
    show "batch_ok (batch_lines ls' (rb_id y)) (set rcs') y" if "y \<in> insert (f x) (set bs - {x})" for y
      using that new other idf by auto
  qed (use ls' rcs' in auto)
  have "\<exists>z \<in> insert (f x) (set bs - {x}). batch_moves y z \<and>
      (rb_status y \<noteq> SR_DRAFT \<longrightarrow> batch_lines ls' (rb_id y) = batch_lines ls (rb_id y))" if y: "y \<in> set bs" for y
  proof (cases "y = x")
    case True
    with move keep show ?thesis by blast
  next
    case False
    with y others [OF row(3) [OF y False]] show ?thesis by (intro bexI [of _ y]) auto
  qed
  then show "returns_step bs ls rcs (update_where hit f bs) ls' rcs'"
    unfolding returns_step_def row(1) using rcs'(1) by blast
qed

lemma returns_change_row:
  assumes ok: "returns_ok bs ls rcs" and x: "x \<in> set bs" "hit x" and only: "\<And>y. hit y \<Longrightarrow> rb_id y = rb_id x"
    and move: "batch_moves x (f x)" and new: "batch_ok (batch_lines ls (rb_id x)) (set rcs) (f x)"
  shows "returns_ok (update_where hit f bs) ls rcs" and "returns_step bs ls rcs (update_where hit f bs) ls rcs"
proof -
  have lok: "\<And>l. l \<in> set ls \<Longrightarrow> bl_batchId l = rb_id x \<Longrightarrow> bline_ok l" by (rule returns_okD(5) [OF ok])
  have no: "\<And>r. r \<in> set rcs \<Longrightarrow> r \<notin> set rcs \<Longrightarrow> rc_batchLineId r \<in> bl_id ` batch_lines ls (rb_id x)" by simp
  note ch = returns_change [where ls' = ls and rcs' = rcs and x = x and hit = hit and f = f, OF ok x only move
      returns_okD(2) [OF ok] lok refl refl order_refl returns_okD(3) [OF ok] returns_okD(4) [OF ok] no
      returns_okD(7) [OF ok] new]
  show "returns_ok (update_where hit f bs) ls rcs" by (rule ch(1))
  show "returns_step bs ls rcs (update_where hit f bs) ls rcs" by (rule ch(2))
qed

definition fresh_bline :: "string \<Rightarrow> bline \<Rightarrow> bool" where
  "fresh_bline bid l \<longleftrightarrow> bl_batchId l = bid \<and> bline_ok l"

text \<open>A draft with new lines: its old ones had no receipts.\<close>

lemma returns_redraft:
  assumes ok: "returns_ok bs ls rcs" and x: "x \<in> set bs" "hit x" "rb_status x = SR_DRAFT"
    and only: "\<And>y. hit y \<Longrightarrow> rb_id y = rb_id x" and move: "batch_moves x (f x)" "rb_status (f x) = SR_DRAFT"
    and ls': "ls' = ls \<or> (\<exists>new. ls' = filter (\<lambda>l. bl_batchId l \<noteq> rb_id x) ls @ new \<and>
       list_all (fresh_bline (rb_id x)) new \<and> distinct (map bl_id ls'))"
  shows "returns_ok (update_where hit f bs) ls' rcs" and "returns_step bs ls rcs (update_where hit f bs) ls' rcs"
proof -
  have none: "bl_id l \<notin> rc_batchLineId ` set rcs" if "l \<in> batch_lines ls (rb_id x)" for l
    using returns_okD(8) [OF ok x(1)] x(3) that by (simp add: batch_ok_def)
  have dist: "distinct (map bl_id ls')" using ls' returns_okD(2) [OF ok] by blast
  have mem: "l \<in> set ls' \<longleftrightarrow> l \<in> set ls" if "bl_batchId l \<noteq> rb_id x" for l
    using ls' by (elim disjE exE conjE) (use that in \<open>auto simp: list_all_iff fresh_bline_def\<close>)
  have own: "bline_ok l \<and> bl_id l \<notin> rc_batchLineId ` set rcs" if l: "l \<in> set ls'" "bl_batchId l = rb_id x" for l
    using ls'
  proof (elim disjE exE conjE)
    assume "ls' = ls"
    with l none [of l] returns_okD(5) [OF ok, of l] show ?thesis by (simp add: batch_lines_def)
  next
    fix new assume ls': "ls' = filter (\<lambda>l. bl_batchId l \<noteq> rb_id x) ls @ new" and fresh: "list_all (fresh_bline (rb_id x)) new"
      and dist: "distinct (map bl_id ls')"
    with l have new: "l \<in> set new" by auto
    have "bl_id l \<notin> rc_batchLineId ` set rcs"
    proof
      assume r: "bl_id l \<in> rc_batchLineId ` set rcs"
      then have "bl_id l \<in> bl_id ` set ls" using returns_okD(7) [OF ok] by (rule rev_subsetD)
      then obtain k where k: "k \<in> set ls" "bl_id k = bl_id l" by (metis imageE)
      with r none [of k] have "bl_batchId k \<noteq> rb_id x" by (auto simp: batch_lines_def)
      with k new dist show False unfolding ls' by (auto simp: image_iff)
    qed
    with new fresh show ?thesis by (simp add: list_all_iff fresh_bline_def)
  qed
  have lok: "\<And>l. l \<in> set ls' \<Longrightarrow> bl_batchId l = rb_id x \<Longrightarrow> bline_ok l" using own by blast
  have others: "batch_lines ls' i = batch_lines ls i" if "i \<noteq> rb_id x" for i
    using mem that by (auto simp: batch_lines_def)
  have old: "rc_batchLineId ` set rcs \<subseteq> bl_id ` set ls'"
  proof
    fix i assume i: "i \<in> rc_batchLineId ` set rcs"
    then have "i \<in> bl_id ` set ls" using returns_okD(7) [OF ok] by (rule rev_subsetD)
    then obtain l where l: "l \<in> set ls" "i = bl_id l" by (rule imageE)
    with i none have "bl_batchId l \<noteq> rb_id x" by (auto simp: batch_lines_def)
    with mem l show "i \<in> bl_id ` set ls'" by blast
  qed
  have new: "batch_ok (batch_lines ls' (rb_id x)) (set rcs) (f x)"
    using own move(2) by (simp add: batch_ok_def batch_lines_def)
  have keep: "rb_status x \<noteq> SR_DRAFT \<Longrightarrow> batch_lines ls' (rb_id x) = batch_lines ls (rb_id x)" using x(3) by simp
  have no: "\<And>r. r \<in> set rcs \<Longrightarrow> r \<notin> set rcs \<Longrightarrow> rc_batchLineId r \<in> bl_id ` batch_lines ls' (rb_id x)" by simp
  note ch = returns_change [where ls' = ls' and rcs' = rcs and x = x and hit = hit and f = f, OF ok x(1,2) only move(1)
      dist lok others keep order_refl returns_okD(3) [OF ok] returns_okD(4) [OF ok] no old new]
  show "returns_ok (update_where hit f bs) ls' rcs" by (rule ch(1))
  show "returns_step bs ls rcs (update_where hit f bs) ls' rcs" by (rule ch(2))
qed

lemma returns_create:
  assumes ok: "returns_ok bs ls rcs" and b: "rb_id b \<notin> rb_id ` set bs" "rb_status b = SR_DRAFT"
    and new: "list_all (fresh_bline (rb_id b)) new" "distinct (map bl_id (ls @ new))"
  shows "returns_ok (bs @ [b]) (ls @ new) rcs" and "returns_step bs ls rcs (bs @ [b]) (ls @ new) rcs"
proof -
  have old: "batch_lines (ls @ new) (rb_id x) = batch_lines ls (rb_id x)" if "x \<in> set bs" for x
    using that new(1) b(1) by (auto simp: batch_lines_def list_all_iff fresh_bline_def)
  have "bl_batchId l \<noteq> rb_id b" if "l \<in> set ls" for l
    using returns_okD(6) [OF ok that] b(1) by metis
  then have mine: "batch_lines (ls @ new) (rb_id b) \<subseteq> set new" by (auto simp: batch_lines_def)
  have "bl_id l \<notin> rc_batchLineId ` set rcs" if "l \<in> set new" for l
    using returns_okD(7) [OF ok] new(2) that by auto
  with mine b(2) have "batch_ok (batch_lines (ls @ new) (rb_id b)) (set rcs) b" by (auto simp: batch_ok_def)
  then show "returns_ok (bs @ [b]) (ls @ new) rcs"
    using returns_okD [OF ok] new b old unfolding returns_ok_def by (auto simp: list_all_iff fresh_bline_def)
  show "returns_step bs ls rcs (bs @ [b]) (ls @ new) rcs"
    using old batch_moves_refl unfolding returns_step_def by fastforce
qed

section \<open>What each operation does to the tables\<close>

text \<open>
  A transaction is safe when it keeps the invariant, moves the batches along their life and leaves the
  tables of the QA releases alone.
\<close>

definition return_safe :: "'z return_db_scheme \<Rightarrow> 'z return_db_scheme \<Rightarrow> bool" where
  "return_safe db db' \<longleftrightarrow>
     (returns_ok (rt_batches db) (rt_lines db) (rt_receipts db) \<longrightarrow>
        returns_ok (rt_batches db') (rt_lines db') (rt_receipts db') \<and>
        returns_step (rt_batches db) (rt_lines db) (rt_receipts db) (rt_batches db') (rt_lines db') (rt_receipts db')) \<and>
     rt_releases db' = rt_releases db \<and> rt_releaseLines db' = rt_releaseLines db \<and>
     (stock_inv db \<longrightarrow> stock_inv db')"

text \<open>The tables of the returns and releases, and what \<open>stock_inv\<close> reads, as they were.\<close>

definition rt_same :: "'z return_db_scheme \<Rightarrow> 'z return_db_scheme \<Rightarrow> bool" where
  "rt_same db db' \<longleftrightarrow> rt_batches db' = rt_batches db \<and> rt_lines db' = rt_lines db \<and> rt_receipts db' = rt_receipts db \<and>
     rt_releases db' = rt_releases db \<and> rt_releaseLines db' = rt_releaseLines db"

lemma return_safe_same: "rt_same db db' \<Longrightarrow> (stock_inv db \<Longrightarrow> stock_inv db') \<Longrightarrow> return_safe db db'"
  by (simp add: return_safe_def rt_same_def returns_step_refl)

lemma return_safe_refl [simp]: "return_safe db db"
  by (rule return_safe_same) (simp_all add: rt_same_def)

lemma writeAudit_returns [simp]:
  "rt_batches (writeAudit a db) = rt_batches db" "rt_lines (writeAudit a db) = rt_lines db"
  "rt_receipts (writeAudit a db) = rt_receipts db" "rt_releases (writeAudit a db) = rt_releases db"
  "rt_releaseLines (writeAudit a db) = rt_releaseLines db" "stock_inv (writeAudit a db) = stock_inv db"
  "on_hand (writeAudit a db) = on_hand db"
  by (simp_all add: writeAudit_def stock_inv_def on_hand_def fun_eq_iff)

lemma stock_inv_returns [simp]:
  fixes db :: "'z return_db_scheme"
  shows "stock_inv (db\<lparr>rt_batches := a\<rparr>) = stock_inv db" "stock_inv (db\<lparr>rt_lines := b\<rparr>) = stock_inv db"
    "stock_inv (db\<lparr>rt_receipts := c\<rparr>) = stock_inv db" "stock_inv (db\<lparr>rt_releases := d\<rparr>) = stock_inv db"
    "stock_inv (db\<lparr>rt_releaseLines := f\<rparr>) = stock_inv db" "stock_inv (db\<lparr>rt_genealogy := g\<rparr>) = stock_inv db"
    "stock_inv (db\<lparr>db_ids := n\<rparr>) = stock_inv db"
  by (simp_all add: stock_inv_def)

lemma on_hand_returns [simp]:
  fixes db :: "'z return_db_scheme"
  shows "on_hand (db\<lparr>rt_batches := a\<rparr>) = on_hand db" "on_hand (db\<lparr>rt_receipts := c\<rparr>) = on_hand db"
    "on_hand (db\<lparr>rt_releases := d\<rparr>) = on_hand db" "on_hand (db\<lparr>rt_releaseLines := f\<rparr>) = on_hand db"
    "on_hand (db\<lparr>db_ids := n\<rparr>) = on_hand db"
  by (simp_all add: on_hand_def fun_eq_iff)

lemma openBatch_Inr:
  assumes "openBatch inp roles db = Inr (a, b)"
  obtains "authorizeReturn db (ra_actorUserId inp) (ra_sessionId inp) roles = Inr a"
    "b \<in> set (rt_batches db)" "rb_id b = ra_batchId inp" "in_scope (ac_allowed a) (rb_sourceLocationId b)"
  using assms that
  by (auto simp: openBatch_def lockBatch_def returnInScope_def res_iff split: option.splits dest!: find_Some_mem)

lemma expectBatch_Inr [res_iff]:
  "expectBatch ss inp b = Inr () \<longleftrightarrow> rb_status b \<in> set ss \<and> rb_version b = ra_expectedVersion inp"
  by (auto simp: expectBatch_def res_iff)

lemma updateBatch_Inr:
  assumes "updateBatch bid st v f db = Inr (db', u)"
  obtains x where "x \<in> set (rt_batches db)" "rb_id x = bid" "rb_status x = st" "rb_version x = v" "u = f x"
    "db' = db\<lparr>rt_batches := update_where (\<lambda>b. rb_id b = bid \<and> rb_status b = st \<and> rb_version b = v) f (rt_batches db)\<rparr>"
  using assms that by (auto simp: updateBatch_def Let_def split: option.splits dest!: find_Some_mem)

text \<open>The update of one batch row, when no line and no receipt changes.\<close>

lemma batch_update_step:
  assumes upd: "updateBatch (rb_id b) st v f db = Inr (db1, u)" and mem: "b \<in> set (rt_batches db)"
    and move: "rb_status b = st \<Longrightarrow> rb_version b = v \<Longrightarrow> batch_moves b (f b)"
    and new: "\<And>L R. rb_status b = st \<Longrightarrow> batch_ok L R b \<Longrightarrow> batch_ok L R (f b)"
  shows "return_safe db (writeAudit aud db1)"
proof -
  let ?hit = "\<lambda>y. rb_id y = rb_id b \<and> rb_status y = st \<and> rb_version y = v"
  from upd obtain x where x: "x \<in> set (rt_batches db)" "rb_id x = rb_id b" "rb_status x = st" "rb_version x = v"
    and db1: "db1 = db\<lparr>rt_batches := update_where ?hit f (rt_batches db)\<rparr>" by (rule updateBatch_Inr)
  show ?thesis unfolding return_safe_def writeAudit_returns
  proof (intro conjI impI)
    assume ok: "returns_ok (rt_batches db) (rt_lines db) (rt_receipts db)"
    have "x = b" by (rule row_by_key [OF returns_okD(1) [OF ok] x(1) mem x(2)])
    with x have st: "rb_status b = st" "rb_version b = v" by simp_all
    have hit: "?hit b" using st by simp
    have only: "\<And>y. ?hit y \<Longrightarrow> rb_id y = rb_id b" by simp
    note ch = returns_change_row [where x = b and f = f and hit = ?hit,
        OF ok mem hit only move [OF st] new [OF st(1) returns_okD(8) [OF ok mem]]]
    show "returns_ok (rt_batches db1) (rt_lines db1) (rt_receipts db1)" using ch(1) unfolding db1 by simp
    show "returns_step (rt_batches db) (rt_lines db) (rt_receipts db) (rt_batches db1) (rt_lines db1) (rt_receipts db1)"
      using ch(2) unfolding db1 by simp
  qed (simp_all add: db1)
qed

lemma approve_return_safe: "approveStockReturnBatch inp db = (db', res) \<Longrightarrow> return_safe db db'"
  unfolding approveStockReturnBatch_def
proof (rule run_tx_relation, assumption, goal_cases)
  case (1 db1 v)
  then obtain a b dbu u aud where op: "openBatch inp STOCK_RETURN_APPROVE_ROLES db = Inr (a, b)"
    and sod: "rb_submittedBy b \<noteq> Some (ac_id a)"
    and upd: "updateBatch (rb_id b) SR_SUBMITTED (ra_expectedVersion inp)
       (\<lambda>x. x\<lparr>rb_status := SR_APPROVED, rb_approvedBy := Some (ac_id a), rb_version := rb_version b + 1\<rparr>) db = Inr (dbu, u)"
    and db1: "db1 = writeAudit aud dbu"
    by (auto simp: res_iff)
  from op have mem: "b \<in> set (rt_batches db)" by (rule openBatch_Inr)
  show ?case unfolding db1
    by (rule batch_update_step [OF upd mem]) (use sod in \<open>auto simp: batch_moves_def return_lifecycle_def batch_ok_def\<close>)
qed simp

lemma cancel_return_safe: "cancelStockReturnBatch inp reason db = (db', res) \<Longrightarrow> return_safe db db'"
  unfolding cancelStockReturnBatch_def
proof (rule run_tx_relation, assumption, goal_cases)
  case (1 db1 v)
  then obtain a b dbu u aud where op: "openBatch inp STOCK_RETURN_ROLES db = Inr (a, b)"
    and st: "rb_status b \<in> {SR_DRAFT, SR_SUBMITTED}"
    and upd: "updateBatch (rb_id b) (rb_status b) (ra_expectedVersion inp)
       (\<lambda>x. x\<lparr>rb_status := SR_CANCELLED, rb_cancelledBy := Some (ac_id a), rb_cancelReason := Some reason,
          rb_version := rb_version b + 1\<rparr>) db = Inr (dbu, u)"
    and db1: "db1 = writeAudit aud dbu"
    by (auto simp: res_iff)
  from op have mem: "b \<in> set (rt_batches db)" by (rule openBatch_Inr)
  show ?case unfolding db1
    by (rule batch_update_step [OF upd mem]) (use st in \<open>auto simp: batch_moves_def return_lifecycle_def batch_ok_def\<close>)
qed simp

lemma ensureReturnDocument_same:
  fixes db :: "'z return_db_scheme"
  assumes "ensureReturnDocument e m n l s db = Inr (db', did)"
  shows "rt_same db db'" "stock_inv db' = stock_inv db" "on_hand db' = on_hand db" "db_postings db' = db_postings db"
    "db_ledger db' = db_ledger db" "db_lots db' = db_lots db"
proof -
  from assms obtain docs k where "db' = db\<lparr>db_documents := docs, db_ids := k\<rparr>"
    unfolding ensureReturnDocument_def by (rule ensureDocumentWith_tables)
  then show "rt_same db db'" "stock_inv db' = stock_inv db" "on_hand db' = on_hand db" "db_postings db' = db_postings db"
    "db_ledger db' = db_ledger db" "db_lots db' = db_lots db"
    by (simp_all add: rt_same_def stock_inv_def on_hand_def fun_eq_iff)
qed

lemma return_safe_after_same:
  assumes "rt_same db db1" and "stock_inv db1 = stock_inv db" and "return_safe db1 db2"
  shows "return_safe db db2"
  using assms by (simp add: return_safe_def rt_same_def)

lemma rt_same_trans: "rt_same a b \<Longrightarrow> rt_same b c \<Longrightarrow> rt_same a c"
  by (simp add: rt_same_def)

lemma submit_return_safe: "submitStockReturnBatch e inp db = (db', res) \<Longrightarrow> return_safe db db'"
  unfolding submitStockReturnBatch_def
proof (rule run_tx_relation, assumption, goal_cases)
  case (1 db1 v)
  then obtain a b dba dbb dbu u aud did rid where op: "openBatch inp STOCK_RETURN_ROLES db = Inr (a, b)"
    and d1: "ensureReturnDocument e STOCK_RETURN_DISPATCH_MODULE (rb_documentNo b) (rb_sourceLocationId b)
       ''APPROVED'' db = Inr (dba, did)"
    and d2: "ensureReturnDocument e STOCK_RETURN_RECEIPT_MODULE (rb_documentNo b) (rb_destinationLocationId b)
       ''DISPATCHED'' dba = Inr (dbb, rid)"
    and upd: "updateBatch (rb_id b) SR_DRAFT (ra_expectedVersion inp)
       (\<lambda>x. x\<lparr>rb_status := SR_SUBMITTED, rb_submittedBy := Some (ac_id a), rb_dispatchDocumentId := Some did,
          rb_receiptDocumentId := Some rid, rb_version := rb_version b + 1\<rparr>) dbb = Inr (dbu, u)"
    and db1: "db1 = writeAudit aud dbu"
    by (auto simp: res_iff Let_def)
  note same = ensureReturnDocument_same [OF d1] ensureReturnDocument_same [OF d2]
  have all: "rt_same db dbb" "stock_inv dbb = stock_inv db" using same by (auto intro: rt_same_trans)
  from op have "b \<in> set (rt_batches db)" by (rule openBatch_Inr)
  then have mem: "b \<in> set (rt_batches dbb)" using all(1) by (simp add: rt_same_def)
  show ?case unfolding db1
    by (rule return_safe_after_same [OF all], rule batch_update_step [OF upd mem])
      (auto simp: batch_moves_def return_lifecycle_def batch_ok_def)
qed simp

section \<open>Lines of a draft\<close>

definition resolved_return_ok :: "resolved_return_line \<Rightarrow> bool" where
  "resolved_return_ok r \<longleftrightarrow> (\<forall>q f b. parseFixed (rrl_enteredQuantity r) 6 = Inr q \<longrightarrow>
     parseFixed (rrl_conversionFactor r) 8 = Inr f \<longrightarrow> parseFixed (rrl_quantity r) 6 = Inr b \<longrightarrow> q * f = b * 10 ^ 8)"

lemma resolveReturnLine_ok:
  assumes "resolveReturnLine db factors nl = Inr r" shows "resolved_return_ok r"
proof -
  obtain n l where nl: "nl = (n, l)" by fastforce
  from assms obtain f base q where f: "multiplyFixedExact (rli_enteredQuantity l) 6 f 8 6 = Inr base"
    and q: "parseFixed (rli_enteredQuantity l) 6 = Inr q"
    and r: "rrl_enteredQuantity r = formatFixed q 6" "rrl_conversionFactor r = f" "rrl_quantity r = base"
    by (auto simp: resolveReturnLine_def nl res_iff split: option.splits)
  from multiplyFixedExact_exact [OF f] obtain a b p where
    "parseFixed (rli_enteredQuantity l) 6 = Inr a" "parseFixed f 8 = Inr b" "base = formatFixed p 6"
    "a * b * 10 ^ 6 = p * 10 ^ (6 + 8)" .
  then show ?thesis using q r by (simp add: resolved_return_ok_def)
qed

lemma resolveReturnLines_ok:
  "resolveReturnLines db loc ls = Inr rs \<Longrightarrow> list_all resolved_return_ok rs"
  by (auto simp: resolveReturnLines_def res_iff list_all_iff dest!: mapE_mem intro: resolveReturnLine_ok)

lemma db_numeric_parse: "db_numeric k s = Inr v \<Longrightarrow> parseFixed s k = Inr v"
  by (auto simp: db_numeric_def res_iff split: if_splits)

lemma insertReturnLine_Inr:
  assumes "insertReturnLine e bid r db = Inr db'" and "resolved_return_ok r"
  obtains l where "db' = db\<lparr>rt_lines := rt_lines db @ [l], db_ids := Suc (db_ids db)\<rparr>" "fresh_bline bid l"
    "bl_id l \<notin> bl_id ` set (rt_lines db)"
proof -
  from assms(1) obtain q f b where num: "db_numeric 6 (rrl_enteredQuantity r) = Inr q"
      "db_numeric 8 (rrl_conversionFactor r) = Inr f" "db_numeric 6 (rrl_quantity r) = Inr b" "0 < b"
    and new: "\<forall>x \<in> set (rt_lines db). bl_id x \<noteq> env_uuid e (db_ids db)"
    and db': "db' = db\<lparr>rt_lines := rt_lines db @
              [\<lparr>bl_id = env_uuid e (db_ids db), bl_batchId = bid, bl_lineNo = rrl_lineNo r,
                bl_itemId = rrl_itemId r, bl_lotId = rrl_lotId r,
                bl_sourceWarehouseId = rrl_sourceWarehouseId r, bl_quantity = b,
                bl_enteredQuantity = q, bl_enteredUom = rrl_enteredUom r,
                bl_conversionFactor = f, bl_reasonCode = rrl_reasonCode r,
                bl_remarks = rrl_remarks r, bl_evidenceRef = rrl_evidenceRef r\<rparr>],
              db_ids := Suc (db_ids db)\<rparr>"
    unfolding insertReturnLine_def by (auto simp: res_iff)
  have "q * f = b * 10 ^ 8" using num(1-3) [THEN db_numeric_parse] assms(2) by (simp add: resolved_return_ok_def)
  moreover have "env_uuid e (db_ids db) \<notin> bl_id ` set (rt_lines db)" using new by auto
  ultimately show thesis using that [OF db'] num(4) by (simp add: fresh_bline_def bline_ok_def)
qed

lemma insertReturnLines_Inr:
  fixes db :: "'z return_db_scheme"
  assumes "insertReturnLines e bid rs db = Inr db'" and "list_all resolved_return_ok rs"
    and "distinct (map bl_id (rt_lines db))"
  obtains new n where "db' = db\<lparr>rt_lines := rt_lines db @ new, db_ids := n\<rparr>" "list_all (fresh_bline bid) new"
    "distinct (map bl_id (rt_lines db @ new))"
  using assms unfolding insertReturnLines_def
proof (induction rs arbitrary: db thesis)
  case Nil
  have "db' = db" using Nil.prems(2) by simp
  then show ?case using Nil.prems(4) by (intro Nil.prems(1) [of "db_ids db" "[]"]) simp_all
next
  case (Cons r rs)
  from Cons.prems(2) obtain db1 where step: "insertReturnLine e bid r db = Inr db1"
    and rest: "foldE (insertReturnLine e bid) rs db1 = Inr db'" by (auto simp: res_iff)
  from Cons.prems(3) have "resolved_return_ok r" "list_all resolved_return_ok rs" by simp_all
  from insertReturnLine_Inr [OF step this(1)] obtain l where
    db1: "db1 = db\<lparr>rt_lines := rt_lines db @ [l], db_ids := Suc (db_ids db)\<rparr>" and l: "fresh_bline bid l"
    "bl_id l \<notin> bl_id ` set (rt_lines db)" .
  have "distinct (map bl_id (rt_lines db1))" using Cons.prems(4) l by (simp add: db1)
  from Cons.IH [OF _ rest \<open>list_all resolved_return_ok rs\<close> this] obtain new n where
    "db' = db1\<lparr>rt_lines := rt_lines db1 @ new, db_ids := n\<rparr>" "list_all (fresh_bline bid) new"
    "distinct (map bl_id (rt_lines db1 @ new))" .
  then show ?case using l by (intro Cons.prems(1) [of n "l # new"]) (simp_all add: db1)
qed

text \<open>Inserting lines touches nothing but the line table and the identifiers.\<close>

lemma insertReturnLines_same:
  "insertReturnLines e bid rs db = Inr db' \<Longrightarrow>
   stock_inv db' = stock_inv db \<and> rt_batches db' = rt_batches db \<and> rt_receipts db' = rt_receipts db \<and>
   rt_releases db' = rt_releases db \<and> rt_releaseLines db' = rt_releaseLines db"
  unfolding insertReturnLines_def
  by (erule foldE_invariant [where P = "\<lambda>x. stock_inv x = stock_inv db \<and> rt_batches x = rt_batches db \<and>
      rt_receipts x = rt_receipts db \<and> rt_releases x = rt_releases db \<and> rt_releaseLines x = rt_releaseLines db"])
    (auto simp: insertReturnLine_def res_iff stock_inv_def)

lemma create_return_safe: "createStockReturnDraft e now inp db = (db', res) \<Longrightarrow> return_safe db db'"
  unfolding createStockReturnDraft_def
proof (rule run_tx_relation, assumption, goal_cases)
  case (1 db1 v)
  then obtain a dl dw rs dbo dbl aud where rs: "resolveReturnLines db (cr_sourceLocationId inp) (cr_lines inp) = Inr rs"
    and ins: "insertBatch (draftBatch e now inp a dl dw db) db = Inr dbo"
    and lines: "insertReturnLines e (rb_id (draftBatch e now inp a dl dw db)) rs dbo = Inr dbl"
    and db1: "db1 = writeAudit aud dbl"
    by (auto simp: res_iff Let_def)
  let ?b = "draftBatch e now inp a dl dw db"
  from ins have fresh: "rb_id ?b \<notin> rb_id ` set (rt_batches db)"
    and dbo: "dbo = db\<lparr>rt_batches := rt_batches db @ [?b], db_ids := Suc (Suc (db_ids db))\<rparr>"
    by (auto simp: insertBatch_def split: if_splits)
  have st: "rb_status ?b = SR_DRAFT" by (simp add: draftBatch_def)
  note same = insertReturnLines_same [OF lines]
  show ?case
    unfolding return_safe_def db1 writeAudit_returns
  proof (intro conjI impI)
    assume ok: "returns_ok (rt_batches db) (rt_lines db) (rt_receipts db)"
    have "distinct (map bl_id (rt_lines dbo))" using returns_okD(2) [OF ok] by (simp add: dbo)
    from insertReturnLines_Inr [OF lines resolveReturnLines_ok [OF rs] this] obtain new n where
      dbl: "dbl = dbo\<lparr>rt_lines := rt_lines dbo @ new, db_ids := n\<rparr>" and new: "list_all (fresh_bline (rb_id ?b)) new"
      "distinct (map bl_id (rt_lines dbo @ new))" .
    have "distinct (map bl_id (rt_lines db @ new))" using new(2) by (simp add: dbo)
    note cr = returns_create [OF ok fresh st new(1) this]
    show "returns_ok (rt_batches dbl) (rt_lines dbl) (rt_receipts dbl)" using cr(1) by (simp add: dbl dbo)
    show "returns_step (rt_batches db) (rt_lines db) (rt_receipts db) (rt_batches dbl) (rt_lines dbl) (rt_receipts dbl)"
      using cr(2) by (simp add: dbl dbo)
  qed (use same in \<open>simp_all add: dbo\<close>)
qed simp

lemma replaceReturnLines_Inr:
  fixes db :: "'z return_db_scheme"
  assumes "replaceReturnLines e b lsi db = Inr db1" and "distinct (map bl_id (rt_lines db))"
  shows "rt_lines db1 = rt_lines db \<or>
    (\<exists>new. rt_lines db1 = filter (\<lambda>x. bl_batchId x \<noteq> rb_id b) (rt_lines db) @ new \<and>
       list_all (fresh_bline (rb_id b)) new \<and> distinct (map bl_id (rt_lines db1)))"
proof (cases lsi)
  case None
  with assms(1) show ?thesis by (simp add: replaceReturnLines_def)
next
  case (Some ls)
  with assms(1) obtain rs dbd where rs: "resolveReturnLines db (rb_sourceLocationId b) ls = Inr rs"
    and dbd: "dbd = db\<lparr>rt_lines := filter (\<lambda>x. bl_batchId x \<noteq> rb_id b) (rt_lines db)\<rparr>"
    and ins: "insertReturnLines e (rb_id b) rs dbd = Inr db1"
    by (auto simp: replaceReturnLines_def res_iff)
  have "distinct (map bl_id (rt_lines dbd))" using assms(2) by (simp add: dbd distinct_map_filter)
  from insertReturnLines_Inr [OF ins resolveReturnLines_ok [OF rs] this] obtain new n where
    "db1 = dbd\<lparr>rt_lines := rt_lines dbd @ new, db_ids := n\<rparr>" "list_all (fresh_bline (rb_id b)) new"
    "distinct (map bl_id (rt_lines dbd @ new))" .
  then show ?thesis by (simp add: dbd)
qed

lemma replaceReturnLines_same:
  "replaceReturnLines e b lsi db = Inr db' \<Longrightarrow>
   stock_inv db' = stock_inv db \<and> rt_batches db' = rt_batches db \<and> rt_receipts db' = rt_receipts db \<and>
   rt_releases db' = rt_releases db \<and> rt_releaseLines db' = rt_releaseLines db"
  by (auto simp: replaceReturnLines_def res_iff dest!: insertReturnLines_same split: option.splits)

lemma update_return_safe: "updateStockReturnDraft e inp db = (db', res) \<Longrightarrow> return_safe db db'"
  unfolding updateStockReturnDraft_def
proof (rule run_tx_relation, assumption, goal_cases)
  case (1 db1 v)
  let ?f = "\<lambda>b x. (case ur_remarks inp of None \<Rightarrow> x | Some r \<Rightarrow> x\<lparr>rb_remarks := r\<rparr>)\<lparr>rb_version := rb_version b + 1\<rparr>"
  from 1 obtain a b dbl u where op: "openBatch (return_action.truncate inp) STOCK_RETURN_ROLES db = Inr (a, b)"
    and rl: "replaceReturnLines e b (ur_lines inp) db = Inr dbl"
    and upd: "updateBatch (rb_id b) SR_DRAFT (ra_expectedVersion inp) (?f b) dbl = Inr (db1, u)"
    by (auto simp: res_iff)
  from op have mem: "b \<in> set (rt_batches db)" by (rule openBatch_Inr)
  let ?hit = "\<lambda>y. rb_id y = rb_id b \<and> rb_status y = SR_DRAFT \<and> rb_version y = ra_expectedVersion inp"
  from upd obtain x where x: "x \<in> set (rt_batches dbl)" "rb_id x = rb_id b" "rb_status x = SR_DRAFT"
    "rb_version x = ra_expectedVersion inp"
    and db1: "db1 = dbl\<lparr>rt_batches := update_where ?hit (?f b) (rt_batches dbl)\<rparr>"
    by (rule updateBatch_Inr)
  note same = replaceReturnLines_same [OF rl]
  show ?case
    unfolding return_safe_def
  proof (intro conjI impI)
    assume ok: "returns_ok (rt_batches db) (rt_lines db) (rt_receipts db)"
    note rl' = replaceReturnLines_Inr [OF rl returns_okD(2) [OF ok]]
    have "x = b" using row_by_key [OF returns_okD(1) [OF ok] _ mem x(2)] x(1) same by simp
    with x have st: "rb_status b = SR_DRAFT" "rb_version b = ra_expectedVersion inp" by simp_all
    have mv: "batch_moves b (?f b b)" "rb_status (?f b b) = SR_DRAFT"
      using st by (auto simp: batch_moves_def return_lifecycle_def split: option.splits)
    have hit: "?hit b" using st by simp
    have only: "\<And>y. ?hit y \<Longrightarrow> rb_id y = rb_id b" by simp
    note rd = returns_redraft [where hit = ?hit and x = b and f = "?f b", OF ok mem hit st(1) only mv rl']
    show "returns_ok (rt_batches db1) (rt_lines db1) (rt_receipts db1)" using rd(1) same by (simp add: db1)
    show "returns_step (rt_batches db) (rt_lines db) (rt_receipts db) (rt_batches db1) (rt_lines db1) (rt_receipts db1)"
      using rd(2) same by (simp add: db1)
  qed (use same in \<open>simp_all add: db1\<close>)
qed simp

end
