(* ===== verification/ReturnPhases.thy ===== *)
theory ReturnPhases
  imports ReturnLaws
begin

text \<open>
  The transactions of a dispatch and of a receipt: what a prepared request knows of the tables
  (\<open>return_dispatch_ok\<close>, \<open>return_receipt_ok\<close>), that no step of the tables invalidates it, and what the
  finalizing transactions do.
\<close>

section \<open>Prepared requests\<close>

text \<open>The prepared batch is past approval in the table, its lines are the table's lines.\<close>

definition return_dispatch_ok :: "return_action \<Rightarrow> return_dispatch \<Rightarrow> batch list \<Rightarrow> bline list \<Rightarrow> bool" where
  "return_dispatch_ok inp p bs ls \<longleftrightarrow>
     (\<exists>x \<in> set bs. rb_id x = rb_id (rd_batch p) \<and>
        rb_status x \<in> {SR_APPROVED, SR_DISPATCHED, SR_RECEIVED_DISPOSED} \<and>
        (rb_status x = SR_APPROVED \<longrightarrow> x = rd_batch p \<and> rb_version x = ra_expectedVersion inp) \<and>
        batch_lines ls (rb_id x) = set (rd_lines p))"

definition return_receipt_ok :: "return_action \<Rightarrow> return_receipt \<Rightarrow> batch list \<Rightarrow> bline list \<Rightarrow> bool" where
  "return_receipt_ok inp p bs ls \<longleftrightarrow>
     (\<exists>x \<in> set bs. rb_id x = rb_id (rr_batch p) \<and> rb_status x \<in> {SR_DISPATCHED, SR_RECEIVED_DISPOSED} \<and>
        (rb_status x = SR_DISPATCHED \<longrightarrow> x = rr_batch p \<and> rb_version x = ra_expectedVersion inp) \<and>
        batch_lines ls (rb_id x) = fst ` set (rr_lines p))"

lemma return_lifecycle_past:
  "batch_moves x y \<Longrightarrow> rb_status x \<in> {SR_APPROVED, SR_DISPATCHED, SR_RECEIVED_DISPOSED} \<Longrightarrow>
     rb_status y \<in> {SR_APPROVED, SR_DISPATCHED, SR_RECEIVED_DISPOSED}"
  "batch_moves x y \<Longrightarrow> rb_status x \<in> {SR_DISPATCHED, SR_RECEIVED_DISPOSED} \<Longrightarrow>
     rb_status y \<in> {SR_DISPATCHED, SR_RECEIVED_DISPOSED}"
  "batch_moves x y \<Longrightarrow> rb_status x \<in> {SR_APPROVED, SR_DISPATCHED, SR_RECEIVED_DISPOSED} \<Longrightarrow>
     rb_status y = SR_APPROVED \<Longrightarrow> y = x"
  "batch_moves x y \<Longrightarrow> rb_status x \<in> {SR_DISPATCHED, SR_RECEIVED_DISPOSED} \<Longrightarrow>
     rb_status y = SR_DISPATCHED \<Longrightarrow> y = x"
  by (auto simp: batch_moves_def return_lifecycle_def)

lemma return_dispatch_stable:
  assumes "returns_step bs ls rcs bs' ls' rcs'" and "return_dispatch_ok inp p bs ls"
  shows "return_dispatch_ok inp p bs' ls'"
proof -
  from assms(2) obtain x where x: "x \<in> set bs" "rb_id x = rb_id (rd_batch p)"
    and st: "rb_status x \<in> {SR_APPROVED, SR_DISPATCHED, SR_RECEIVED_DISPOSED}"
    and same: "rb_status x = SR_APPROVED \<longrightarrow> x = rd_batch p \<and> rb_version x = ra_expectedVersion inp"
    and lines: "batch_lines ls (rb_id x) = set (rd_lines p)" unfolding return_dispatch_ok_def by blast
  from st have "rb_status x \<noteq> SR_DRAFT" by auto
  with assms(1) x(1) obtain y where y: "y \<in> set bs'" "batch_moves x y"
    "batch_lines ls' (rb_id x) = batch_lines ls (rb_id x)" unfolding returns_step_def by blast
  have "rb_id y = rb_id x" using y(2) by (simp add: batch_moves_def)
  then show ?thesis
    using x(2) same lines y return_lifecycle_past(1) [OF y(2) st] return_lifecycle_past(3) [OF y(2) st]
    unfolding return_dispatch_ok_def by metis
qed

lemma return_receipt_stable:
  assumes "returns_step bs ls rcs bs' ls' rcs'" and "return_receipt_ok inp p bs ls"
  shows "return_receipt_ok inp p bs' ls'"
proof -
  from assms(2) obtain x where x: "x \<in> set bs" "rb_id x = rb_id (rr_batch p)"
    and st: "rb_status x \<in> {SR_DISPATCHED, SR_RECEIVED_DISPOSED}"
    and same: "rb_status x = SR_DISPATCHED \<longrightarrow> x = rr_batch p \<and> rb_version x = ra_expectedVersion inp"
    and lines: "batch_lines ls (rb_id x) = fst ` set (rr_lines p)" unfolding return_receipt_ok_def by blast
  from st have "rb_status x \<noteq> SR_DRAFT" by auto
  with assms(1) x(1) obtain y where y: "y \<in> set bs'" "batch_moves x y"
    "batch_lines ls' (rb_id x) = batch_lines ls (rb_id x)" unfolding returns_step_def by blast
  have "rb_id y = rb_id x" using y(2) by (simp add: batch_moves_def)
  then show ?thesis
    using x(2) same lines y return_lifecycle_past(2) [OF y(2) st] return_lifecycle_past(4) [OF y(2) st]
    unfolding return_receipt_ok_def by metis
qed

section \<open>Preparing\<close>

lemma expectReturnPhase_Inr [res_iff]:
  "expectReturnPhase from to inp b = Inr () \<longleftrightarrow>
     (rb_status b = from \<or> rb_status b = to) \<and> (rb_status b = from \<longrightarrow> rb_version b = ra_expectedVersion inp)"
  by (auto simp: expectReturnPhase_def res_iff)

lemma prepareReturnDispatch_Inr:
  fixes db :: "'z return_db_scheme"
  assumes "prepareReturnDispatch e inp db = Inr (db', p)"
  obtains "rd_batch p \<in> set (rt_batches db)" "rb_id (rd_batch p) = ra_batchId inp"
    "rd_lines p = batchLines (rt_lines db) (rb_id (rd_batch p))"
    "rb_status (rd_batch p) \<in> {SR_APPROVED, SR_DISPATCHED}"
    "rb_status (rd_batch p) = SR_APPROVED \<longrightarrow> rb_version (rd_batch p) = ra_expectedVersion inp"
    "ensureReturnDocument e STOCK_RETURN_DISPATCH_MODULE (dispatchNo (rd_batch p))
       (rb_sourceLocationId (rd_batch p)) ''APPROVED'' db = Inr (db', rd_docId p)"
  using assms that unfolding prepareReturnDispatch_def by (auto simp: res_iff elim!: openBatch_Inr)

lemma prepareReturnDispatch_frame:
  fixes db :: "'z return_db_scheme"
  assumes "prepareReturnDispatch e inp db = Inr (db', p)"
  shows "rt_same db db'" "stock_inv db' = stock_inv db" "on_hand db' = on_hand db" "db_postings db' = db_postings db"
  using ensureReturnDocument_same prepareReturnDispatch_Inr [OF assms] by metis+

lemma prepareReturnDispatch_ok:
  fixes db :: "'z return_db_scheme"
  assumes "prepareReturnDispatch e inp db = Inr (db', p)"
  shows "return_dispatch_ok inp p (rt_batches db') (rt_lines db')" and "return_safe db db'"
proof -
  note fr = prepareReturnDispatch_frame [OF assms]
  from assms have "rd_batch p \<in> set (rt_batches db)" "rd_lines p = batchLines (rt_lines db) (rb_id (rd_batch p))"
    "rb_status (rd_batch p) \<in> {SR_APPROVED, SR_DISPATCHED}"
    "rb_status (rd_batch p) = SR_APPROVED \<longrightarrow> rb_version (rd_batch p) = ra_expectedVersion inp"
    by (auto elim: prepareReturnDispatch_Inr)
  with fr(1) show "return_dispatch_ok inp p (rt_batches db') (rt_lines db')"
    unfolding return_dispatch_ok_def rt_same_def by (intro bexI [of _ "rd_batch p"]) auto
  show "return_safe db db'" using fr by (intro return_safe_same) simp_all
qed

lemma ensureLotGenealogyWith_Inr:
  assumes "ensureLotGenealogyWith err p c q d db = Inr db'"
  obtains g where "db' = db\<lparr>rt_genealogy := g\<rparr>"
proof -
  from assms have "db' = db\<lparr>rt_genealogy := rt_genealogy db\<rparr> \<or> (\<exists>g. db' = db\<lparr>rt_genealogy := g\<rparr>)"
    unfolding ensureLotGenealogyWith_def by (auto split: if_splits)
  then show thesis using that by metis
qed

text \<open>The loop that makes the quarantine lots: every line gets the lot of its code.\<close>

definition lots_grow :: "'z return_db_scheme \<Rightarrow> 'z return_db_scheme \<Rightarrow> bool" where
  "lots_grow db db' \<longleftrightarrow> (\<exists>lots g n. db' = db\<lparr>db_lots := lots, rt_genealogy := g, db_ids := n\<rparr> \<and>
     set (db_lots db) \<subseteq> set lots)"

lemma lots_grow_refl [simp]: "lots_grow db db"
proof -
  have "db = db\<lparr>db_lots := db_lots db, rt_genealogy := rt_genealogy db, db_ids := db_ids db\<rparr>" by simp
  then show ?thesis unfolding lots_grow_def by blast
qed

lemma lots_grow_trans: "lots_grow a b \<Longrightarrow> lots_grow b c \<Longrightarrow> lots_grow a c"
  unfolding lots_grow_def by (elim exE conjE) (fastforce intro: exI)

lemma lots_grow_same:
  assumes "lots_grow db db'"
  shows "rt_same db db'" "stock_inv db' = stock_inv db" "on_hand db' = on_hand db" "db_postings db' = db_postings db"
    "set (db_lots db) \<subseteq> set (db_lots db')" "db_documents db' = db_documents db"
  using assms by (auto simp: lots_grow_def rt_same_def stock_inv_def on_hand_def fun_eq_iff)

lemma quarantineLine_Inr:
  assumes "quarantineLine e b rps l (db, d) = Inr (db', d')"
  obtains qLot r where "d' = d @ [(l, qLot, r)]" "lots_grow db db'" "map_of rps (bl_id l) = Some r"
    "\<exists>t \<in> set (db_lots db'). l_id t = qLot \<and> l_itemId t = bl_itemId l \<and> l_lotCode t = quarantineLotCode b l"
proof -
  from assms obtain db1 qLot r cost where
    lot: "ensureQuarantineLot e (bl_itemId l) (quarantineLotCode b l) cost db = Inr (db1, qLot)"
    and gen: "ensureLotGenealogyWith (ReturnPassed DbCheckViolation) (bl_lotId l) qLot (bl_quantity l)
                      (receiptNo b) db1 = Inr db'"
    and r: "map_of rps (bl_id l) = Some r" and d': "d' = d @ [(l, qLot, r)]"
    unfolding quarantineLine_def by (auto simp: res_iff split: option.splits)
  from lot obtain lots n where db1: "db1 = db\<lparr>db_lots := lots, db_ids := n\<rparr>" and sub: "set (db_lots db) \<subseteq> set lots"
    and t: "\<exists>t \<in> set lots. l_id t = qLot \<and> l_itemId t = bl_itemId l \<and> l_lotCode t = quarantineLotCode b l"
    unfolding ensureQuarantineLot_def by (rule ensureLotWith_Inr)
  from gen obtain g where db': "db' = db1\<lparr>rt_genealogy := g\<rparr>" by (rule ensureLotGenealogyWith_Inr)
  have "db' = db\<lparr>db_lots := lots, rt_genealogy := g, db_ids := n\<rparr>" by (simp add: db' db1)
  then have "lots_grow db db'" using sub unfolding lots_grow_def by blast
  moreover have "db_lots db' = lots" by (simp add: db' db1)
  ultimately show thesis using that d' r t by simp
qed

lemma quarantine_loop:
  assumes "foldE (quarantineLine e b rps) ls (db, d) = Inr (db', rec)"
  shows "\<exists>new. rec = d @ new \<and> map fst new = ls \<and> lots_grow db db' \<and>
    (\<forall>(l, qLot, r) \<in> set new. map_of rps (bl_id l) = Some r \<and>
       (\<exists>t \<in> set (db_lots db'). l_id t = qLot \<and> l_itemId t = bl_itemId l \<and> l_lotCode t = quarantineLotCode b l))"
  using assms
proof (induction ls arbitrary: db d)
  case Nil
  then show ?case by (intro exI [of _ "[]"]) simp
next
  case (Cons l ls)
  from Cons.prems obtain db1 d1 where one: "quarantineLine e b rps l (db, d) = Inr (db1, d1)"
    and rest: "foldE (quarantineLine e b rps) ls (db1, d1) = Inr (db', rec)" by (auto simp: res_iff)
  from one obtain qLot r where d1: "d1 = d @ [(l, qLot, r)]" and g1: "lots_grow db db1"
    and r: "map_of rps (bl_id l) = Some r"
    and t: "\<exists>t \<in> set (db_lots db1). l_id t = qLot \<and> l_itemId t = bl_itemId l \<and> l_lotCode t = quarantineLotCode b l"
    by (rule quarantineLine_Inr)
  from Cons.IH [OF rest] obtain new where new: "rec = d1 @ new" "map fst new = ls" "lots_grow db1 db'"
    "\<forall>(l, qLot, r) \<in> set new. map_of rps (bl_id l) = Some r \<and>
       (\<exists>t \<in> set (db_lots db'). l_id t = qLot \<and> l_itemId t = bl_itemId l \<and> l_lotCode t = quarantineLotCode b l)" by blast
  have "\<exists>t \<in> set (db_lots db'). l_id t = qLot \<and> l_itemId t = bl_itemId l \<and> l_lotCode t = quarantineLotCode b l"
    using t lots_grow_same(5) [OF new(3)] by blast
  then show ?case
    using new d1 r lots_grow_trans [OF g1 new(3)] by (intro exI [of _ "(l, qLot, r) # new"]) simp
qed

lemma prepareReturnReceipt_Inr:
  fixes db :: "'z return_db_scheme"
  assumes "prepareReturnReceipt e inp rps db = Inr (db', p)"
  obtains db1 byLine where "rr_batch p \<in> set (rt_batches db)" "rb_id (rr_batch p) = ra_batchId inp"
    "rb_status (rr_batch p) \<in> {SR_DISPATCHED, SR_RECEIVED_DISPOSED}"
    "rb_status (rr_batch p) = SR_DISPATCHED \<longrightarrow> rb_version (rr_batch p) = ra_expectedVersion inp"
    "validateReceiptLines (batchLines (rt_lines db) (rb_id (rr_batch p))) rps = Inr byLine"
    "ensureReturnDocument e STOCK_RETURN_RECEIPT_MODULE (receiptNo (rr_batch p))
       (rb_destinationLocationId (rr_batch p)) ''DISPATCHED'' db = Inr (db1, rr_docId p)"
    "foldE (quarantineLine e (rr_batch p) byLine) (batchLines (rt_lines db) (rb_id (rr_batch p))) (db1, []) =
       Inr (db', rr_lines p)"
  using assms that unfolding prepareReturnReceipt_def
  by (auto simp: res_iff Let_def lockBatch_def split: option.splits dest!: find_Some_mem)

lemma prepareReturnReceipt_frame:
  fixes db :: "'z return_db_scheme"
  assumes "prepareReturnReceipt e inp rps db = Inr (db', p)"
  shows "rt_same db db'" "stock_inv db' = stock_inv db" "on_hand db' = on_hand db" "db_postings db' = db_postings db"
    "map fst (rr_lines p) = batchLines (rt_lines db) (rb_id (rr_batch p))"
proof -
  from assms obtain db1 byLine where doc: "ensureReturnDocument e STOCK_RETURN_RECEIPT_MODULE (receiptNo (rr_batch p))
       (rb_destinationLocationId (rr_batch p)) ''DISPATCHED'' db = Inr (db1, rr_docId p)"
    and lots: "foldE (quarantineLine e (rr_batch p) byLine) (batchLines (rt_lines db) (rb_id (rr_batch p))) (db1, []) =
       Inr (db', rr_lines p)" by (rule prepareReturnReceipt_Inr)
  note d = ensureReturnDocument_same [OF doc]
  from quarantine_loop [OF lots] have g: "lots_grow db1 db'"
    and l: "map fst (rr_lines p) = batchLines (rt_lines db) (rb_id (rr_batch p))" by auto
  note s = lots_grow_same [OF g]
  show "rt_same db db'" using d(1) s(1) by (rule rt_same_trans)
  show "stock_inv db' = stock_inv db" "on_hand db' = on_hand db" "db_postings db' = db_postings db"
    "map fst (rr_lines p) = batchLines (rt_lines db) (rb_id (rr_batch p))" using d s l by simp_all
qed

lemma prepareReturnReceipt_ok:
  fixes db :: "'z return_db_scheme"
  assumes "prepareReturnReceipt e inp rps db = Inr (db', p)"
  shows "return_receipt_ok inp p (rt_batches db') (rt_lines db')" and "return_safe db db'"
proof -
  note fr = prepareReturnReceipt_frame [OF assms]
  have "fst ` set (rr_lines p) = batch_lines (rt_lines db) (rb_id (rr_batch p))"
    using arg_cong [OF fr(5), of set] by simp
  moreover from assms have "rr_batch p \<in> set (rt_batches db)"
    "rb_status (rr_batch p) \<in> {SR_DISPATCHED, SR_RECEIVED_DISPOSED}"
    "rb_status (rr_batch p) = SR_DISPATCHED \<longrightarrow> rb_version (rr_batch p) = ra_expectedVersion inp"
    by (auto elim: prepareReturnReceipt_Inr)
  ultimately show "return_receipt_ok inp p (rt_batches db') (rt_lines db')"
    using fr(1) unfolding return_receipt_ok_def rt_same_def by (intro bexI [of _ "rr_batch p"]) auto
  show "return_safe db db'" using fr by (intro return_safe_same) simp_all
qed

section \<open>Finalizing\<close>

lemma advanceBatch_Inr:
  assumes "advanceBatch inp b ls from to f aud db = Inr (db', v)"
  obtains (moved) db1 u where "updateBatch (rb_id b) from (ra_expectedVersion inp) f db = Inr (db1, u)"
      "db' = writeAudit aud db1" "v = (u, ls)"
    | (before) x err where "updateBatch (rb_id b) from (ra_expectedVersion inp) f db = Inl err"
      "x \<in> set (rt_batches db)" "rb_id x = rb_id b" "rb_status x = to" "db' = db" "v = (x, ls)"
proof (cases "updateBatch (rb_id b) from (ra_expectedVersion inp) f db")
  case (Inl err)
  with assms obtain x where "List.find (\<lambda>x. rb_id x = rb_id b) (rt_batches db) = Some x" "rb_status x = to"
    "db' = db" "v = (x, ls)"
    by (auto simp: advanceBatch_def split: option.splits if_splits)
  with Inl find_Some_mem [OF this(1)] show thesis by (intro before) auto
next
  case (Inr y)
  with assms show thesis by (cases y) (auto simp: advanceBatch_def intro: moved)
qed

text \<open>A posted dispatch lands: the update cannot miss while the batch is approved.\<close>

lemma finalizeReturnDispatch_safe:
  fixes db :: "'z return_db_scheme"
  assumes fin: "finalizeReturnDispatch inp p db = Inr (db', v)" and ok: "return_dispatch_ok inp p (rt_batches db) (rt_lines db)"
    and dist: "distinct (map rb_id (rt_batches db))"
  shows "return_safe db db'"
proof -
  let ?b = "rd_batch p"
  let ?f = "\<lambda>x. x\<lparr>rb_status := SR_DISPATCHED, rb_dispatchedBy := Some (ac_id (rd_actor p)), rb_version := rb_version ?b + 1\<rparr>"
  from fin have adv: "advanceBatch inp ?b (rd_lines p) SR_APPROVED SR_DISPATCHED ?f
      (batchAudit (rd_actor p) (rb_sourceLocationId ?b) ''stock_return.dispatched'' (rb_id ?b)) db = Inr (db', v)"
    by (simp add: finalizeReturnDispatch_def Let_def)
  from ok obtain x where x: "x \<in> set (rt_batches db)" "rb_id x = rb_id ?b"
    "rb_status x = SR_APPROVED \<longrightarrow> x = ?b" unfolding return_dispatch_ok_def by blast
  from adv show ?thesis
  proof (cases rule: advanceBatch_Inr)
    case (moved db1 u)
    from moved(1) obtain y where "y \<in> set (rt_batches db)" "rb_id y = rb_id ?b" "rb_status y = SR_APPROVED"
      by (rule updateBatch_Inr)
    with x row_by_key [OF dist, of x y] have mem: "?b \<in> set (rt_batches db)" by metis
    show ?thesis unfolding moved(2)
      by (rule batch_update_step [OF moved(1) mem]) (auto simp: batch_moves_def return_lifecycle_def batch_ok_def)
  next
    case (before x)
    then show ?thesis by simp
  qed
qed

lemma finalizeReturnDispatch_lands:
  fixes db :: "'z return_db_scheme"
  assumes "run_tx (finalizeReturnDispatch inp p) db = (db', res)" and "return_dispatch_ok inp p (rt_batches db) (rt_lines db)"
    and dist: "distinct (map rb_id (rt_batches db))"
  shows "\<exists>y \<in> set (rt_batches db'). rb_id y = rb_id (rd_batch p) \<and> rb_status y \<in> {SR_DISPATCHED, SR_RECEIVED_DISPOSED}"
proof -
  let ?b = "rd_batch p"
  let ?f = "\<lambda>x. x\<lparr>rb_status := SR_DISPATCHED, rb_dispatchedBy := Some (ac_id (rd_actor p)), rb_version := rb_version ?b + 1\<rparr>"
  let ?hit = "\<lambda>b. rb_id b = rb_id ?b \<and> rb_status b = SR_APPROVED \<and> rb_version b = ra_expectedVersion inp"
  from assms(2) obtain x where x: "x \<in> set (rt_batches db)" "rb_id x = rb_id ?b"
    "rb_status x \<in> {SR_APPROVED, SR_DISPATCHED, SR_RECEIVED_DISPOSED}"
    "rb_status x = SR_APPROVED \<longrightarrow> rb_version x = ra_expectedVersion inp" unfolding return_dispatch_ok_def by blast
  show ?thesis
  proof (cases "rb_status x = SR_APPROVED")
    case True
    with x have hit: "?hit x" by simp
    have "List.find ?hit (rt_batches db) \<noteq> None" using x(1) hit unfolding find_None_iff by blast
    then obtain y where "List.find ?hit (rt_batches db) = Some y" by blast
    then have upd: "updateBatch (rb_id ?b) SR_APPROVED (ra_expectedVersion inp) ?f db =
        Inr (db\<lparr>rt_batches := update_where ?hit ?f (rt_batches db)\<rparr>, ?f y)" by (simp add: updateBatch_def)
    have "rt_batches db' = update_where ?hit ?f (rt_batches db)"
      using assms(1) by (simp add: finalizeReturnDispatch_def Let_def advanceBatch_def upd [simplified] run_tx_def) auto
    moreover have "?f x \<in> set (update_where ?hit ?f (rt_batches db))" using x(1) hit by (force simp: update_where_def)
    ultimately show ?thesis using x(2) by (intro bexI [of _ "?f x"]) simp_all
  next
    case False
    have "updateBatch (rb_id ?b) SR_APPROVED (ra_expectedVersion inp) ?f db \<noteq> Inr z" for z
    proof
      assume "updateBatch (rb_id ?b) SR_APPROVED (ra_expectedVersion inp) ?f db = Inr z"
      then have "updateBatch (rb_id ?b) SR_APPROVED (ra_expectedVersion inp) ?f db = Inr (fst z, snd z)" by simp
      then obtain y where "y \<in> set (rt_batches db)" "rb_id y = rb_id ?b" "rb_status y = SR_APPROVED"
        by (rule updateBatch_Inr)
      with x row_by_key [OF dist, of x y] False show False by metis
    qed
    then obtain err where "updateBatch (rb_id ?b) SR_APPROVED (ra_expectedVersion inp) ?f db = Inl err"
      by (cases "updateBatch (rb_id ?b) SR_APPROVED (ra_expectedVersion inp) ?f db") blast+
    then have "db' = db"
      using assms(1) by (auto simp: finalizeReturnDispatch_def Let_def advanceBatch_def run_tx_def split: option.splits if_splits)
    with x False show ?thesis by blast
  qed
qed

text \<open>The loop that writes the receipts.\<close>

definition receipts_for :: "received_line set \<Rightarrow> receipt_row list \<Rightarrow> receipt_row list \<Rightarrow> bool" where
  "receipts_for P rcs rcs' \<longleftrightarrow> set rcs \<subseteq> set rcs' \<and>
     (distinct (map rc_batchLineId rcs) \<longrightarrow> distinct (map rc_batchLineId rcs')) \<and>
     (distinct (map rc_id rcs) \<longrightarrow> distinct (map rc_id rcs')) \<and>
     (\<forall>r \<in> set rcs'. r \<in> set rcs \<or> rc_batchLineId r \<notin> rc_batchLineId ` set rcs \<and>
        rc_id r \<notin> rc_id ` set rcs \<and>
        (\<exists>(l, qLot, reason, remarks) \<in> P. rc_batchLineId r = bl_id l \<and> rc_receivedQuantity r = bl_quantity l \<and>
           rc_quarantineLotId r = qLot \<and> rc_reasonCode r = reason))"

lemma receipts_for_new:
  assumes "receipts_for P rcs rcs'" and "r \<in> set rcs'" and "r \<notin> set rcs"
  obtains l qLot reason remarks where "(l, qLot, reason, remarks) \<in> P" "rc_batchLineId r = bl_id l"
    "rc_receivedQuantity r = bl_quantity l" "rc_quarantineLotId r = qLot" "rc_reasonCode r = reason"
    "rc_batchLineId r \<notin> rc_batchLineId ` set rcs" "rc_id r \<notin> rc_id ` set rcs"
  using assms unfolding receipts_for_def by blast

lemma receipts_for_trans:
  assumes "receipts_for P a b" and "receipts_for Q b c"
  shows "receipts_for (P \<union> Q) a c"
proof -
  have sub: "set a \<subseteq> set b" "set b \<subseteq> set c" using assms by (simp_all add: receipts_for_def)
  have "r \<in> set a \<or> rc_batchLineId r \<notin> rc_batchLineId ` set a \<and> rc_id r \<notin> rc_id ` set a \<and>
      (\<exists>(l, qLot, reason, remarks) \<in> P \<union> Q. rc_batchLineId r = bl_id l \<and> rc_receivedQuantity r = bl_quantity l \<and>
           rc_quarantineLotId r = qLot \<and> rc_reasonCode r = reason)" if r: "r \<in> set c" for r
  proof (cases "r \<in> set b")
    case True
    with assms(1) show ?thesis unfolding receipts_for_def by blast
  next
    case False
    with r assms(2) have "rc_batchLineId r \<notin> rc_batchLineId ` set b" "rc_id r \<notin> rc_id ` set b"
      "\<exists>(l, qLot, reason, remarks) \<in> Q. rc_batchLineId r = bl_id l \<and> rc_receivedQuantity r = bl_quantity l \<and>
           rc_quarantineLotId r = qLot \<and> rc_reasonCode r = reason" unfolding receipts_for_def by blast+
    with sub(1) show ?thesis by blast
  qed
  moreover have "set a \<subseteq> set c" using sub by blast
  ultimately show ?thesis using assms unfolding receipts_for_def by blast
qed

lemma insert_or_ignore:
  "(if chk then Inl e1 else if \<not> c then Inr a else if s then Inr b else Inl e2) = Inr x \<Longrightarrow>
   \<not> c \<and> a = x \<or> s \<and> b = x"
  by (simp split: if_splits)

lemma ensureReceiptLine_Inr:
  assumes "ensureReceiptLine e r db = Inr db'"
  obtains (fresh) "db' = db\<lparr>rt_receipts := rt_receipts db @ [r\<lparr>rc_id := env_uuid e (db_ids db)\<rparr>], db_ids := Suc (db_ids db)\<rparr>"
      "\<forall>x \<in> set (rt_receipts db). rc_id x \<noteq> env_uuid e (db_ids db) \<and> rc_batchLineId x \<noteq> rc_batchLineId r"
    | (there) "db' = db\<lparr>db_ids := Suc (db_ids db)\<rparr>" "rc_batchLineId r \<in> rc_batchLineId ` set (rt_receipts db)"
proof -
  let ?row = "r\<lparr>rc_id := env_uuid e (db_ids db)\<rparr>"
  let ?clash = "\<exists>x \<in> set (rt_receipts db). rc_id x = rc_id ?row \<or> rc_batchLineId x = rc_batchLineId ?row \<or>
      (rc_inPostingLineId ?row \<noteq> None \<and> rc_inPostingLineId x = rc_inPostingLineId ?row) \<or>
      (rc_outPostingLineId ?row \<noteq> None \<and> rc_outPostingLineId x = rc_outPostingLineId ?row)"
  let ?same = "\<exists>x \<in> set (rt_receipts db). rc_batchLineId x = rc_batchLineId ?row"
  let ?A = "db\<lparr>rt_receipts := rt_receipts db @ [?row], db_ids := Suc (db_ids db)\<rparr>"
  let ?B = "db\<lparr>db_ids := Suc (db_ids db)\<rparr>"
  obtain chk err1 err2 where "ensureReceiptLine e r db =
      (if chk then Inl err1 else if \<not> ?clash then Inr ?A else if ?same then Inr ?B else Inl err2)"
    by (rule that, unfold ensureReceiptLine_def Let_def, rule refl)
  from insert_or_ignore [OF trans [OF this [symmetric] assms]]
  consider "\<not> ?clash" "?A = db'" | "?same" "?B = db'" by (elim disjE conjE)
  then show thesis
  proof cases
    case 1
    from 1(1) have "\<forall>x \<in> set (rt_receipts db). rc_id x \<noteq> env_uuid e (db_ids db) \<and> rc_batchLineId x \<noteq> rc_batchLineId r"
      by auto
    with 1(2) show thesis by (intro fresh) simp_all
  next
    case 2
    from 2(1) obtain x where "x \<in> set (rt_receipts db)" "rc_batchLineId x = rc_batchLineId r" by auto
    then have "rc_batchLineId r \<in> rc_batchLineId ` set (rt_receipts db)" by (metis imageI)
    with 2(2) show thesis by (intro there) simp_all
  qed
qed

lemma writeReceipt_Inr:
  assumes "writeReceipt e ids rl db = Inr db'"
  shows "\<exists>rcs n. db' = db\<lparr>rt_receipts := rcs, db_ids := n\<rparr> \<and> receipts_for {rl} (rt_receipts db) rcs \<and>
    bl_id (fst rl) \<in> rc_batchLineId ` set rcs"
proof -
  obtain l qLot reason remarks where rl: "rl = (l, qLot, reason, remarks)" by (metis surj_pair)
  from assms obtain r where ins: "ensureReceiptLine e r db = Inr db'" and r: "rc_batchLineId r = bl_id l"
    "rc_quarantineLotId r = qLot" "rc_receivedQuantity r = bl_quantity l" "rc_reasonCode r = reason"
    by (auto simp: writeReceipt_def rl Let_def res_iff)
  from ins show ?thesis
  proof (cases rule: ensureReceiptLine_Inr)
    case fresh
    have "receipts_for {rl} (rt_receipts db) (rt_receipts db @ [r\<lparr>rc_id := env_uuid e (db_ids db)\<rparr>])"
      using fresh(2) r unfolding receipts_for_def rl by (auto simp: image_iff)
    with fresh(1) r(1) show ?thesis unfolding rl
      by (intro exI [of _ "rt_receipts db @ [r\<lparr>rc_id := env_uuid e (db_ids db)\<rparr>]"] exI [of _ "Suc (db_ids db)"]) simp
  next
    case there
    have "receipts_for {rl} (rt_receipts db) (rt_receipts db)" by (simp add: receipts_for_def)
    with there r(1) show ?thesis unfolding rl
      by (intro exI [of _ "rt_receipts db"] exI [of _ "Suc (db_ids db)"]) simp
  qed
qed

lemma writeReceipts_loop:
  assumes "foldE (writeReceipt e ids) rls db = Inr db'"
  shows "\<exists>rcs n. db' = db\<lparr>rt_receipts := rcs, db_ids := n\<rparr> \<and> receipts_for (set rls) (rt_receipts db) rcs \<and>
    (\<forall>rl \<in> set rls. bl_id (fst rl) \<in> rc_batchLineId ` set rcs)"
  using assms
proof (induction rls arbitrary: db)
  case Nil
  then have "db' = db\<lparr>rt_receipts := rt_receipts db, db_ids := db_ids db\<rparr>" by simp
  moreover have "receipts_for {} (rt_receipts db) (rt_receipts db)" by (simp add: receipts_for_def)
  ultimately show ?case by (intro exI [of _ "rt_receipts db"] exI [of _ "db_ids db"]) simp
next
  case (Cons rl rls)
  then obtain db1 where one: "writeReceipt e ids rl db = Inr db1" and rest: "foldE (writeReceipt e ids) rls db1 = Inr db'"
    by (auto simp: res_iff)
  from writeReceipt_Inr [OF one] obtain rcs1 n1 where db1: "db1 = db\<lparr>rt_receipts := rcs1, db_ids := n1\<rparr>"
    and r1: "receipts_for {rl} (rt_receipts db) rcs1" and s1: "bl_id (fst rl) \<in> rc_batchLineId ` set rcs1" by blast
  from Cons.IH [OF rest] obtain rcs n where db': "db' = db1\<lparr>rt_receipts := rcs, db_ids := n\<rparr>"
    and r2: "receipts_for (set rls) rcs1 rcs" and s2: "\<forall>rl \<in> set rls. bl_id (fst rl) \<in> rc_batchLineId ` set rcs"
    unfolding db1 by auto
  have eq: "db' = db\<lparr>rt_receipts := rcs, db_ids := n\<rparr>" by (simp add: db' db1)
  have "set rcs1 \<subseteq> set rcs" using r2 by (simp add: receipts_for_def)
  with s1 have "bl_id (fst rl) \<in> rc_batchLineId ` set rcs" by blast
  with s2 receipts_for_trans [OF r1 r2] eq show ?case by (intro exI [of _ rcs] exI [of _ n] conjI) auto
qed

lemma finalizeReturnReceipt_Inr:
  assumes "finalizeReturnReceipt e inp p r db = Inr (db', v)"
  obtains rcs n where "receipts_for (set (rr_lines p)) (rt_receipts db) rcs"
    "\<forall>rl \<in> set (rr_lines p). bl_id (fst rl) \<in> rc_batchLineId ` set rcs"
    "advanceBatch inp (rr_batch p) (map fst (rr_lines p)) SR_DISPATCHED SR_RECEIVED_DISPOSED
       (\<lambda>x. x\<lparr>rb_status := SR_RECEIVED_DISPOSED, rb_receivedBy := Some (ac_id (rr_actor p)),
              rb_version := rb_version (rr_batch p) + 1\<rparr>)
       (batchAudit (rr_actor p) (rb_destinationLocationId (rr_batch p)) ''stock_return.received_disposed'' (rb_id (rr_batch p)))
       (db\<lparr>rt_receipts := rcs, db_ids := n\<rparr>) = Inr (db', v)"
proof -
  from assms obtain db1 where loop: "foldE (writeReceipt e (ledgerIds ''stockReturnBatchLineId'' (pr_postingId r) db))
      (rr_lines p) db = Inr db1"
    and adv: "advanceBatch inp (rr_batch p) (map fst (rr_lines p)) SR_DISPATCHED SR_RECEIVED_DISPOSED
       (\<lambda>x. x\<lparr>rb_status := SR_RECEIVED_DISPOSED, rb_receivedBy := Some (ac_id (rr_actor p)),
              rb_version := rb_version (rr_batch p) + 1\<rparr>)
       (batchAudit (rr_actor p) (rb_destinationLocationId (rr_batch p)) ''stock_return.received_disposed'' (rb_id (rr_batch p)))
       db1 = Inr (db', v)"
    by (auto simp: finalizeReturnReceipt_def Let_def res_iff)
  from writeReceipts_loop [OF loop] adv that show thesis by auto
qed

text \<open>Receipts whose lines have receipts already add nothing.\<close>

lemma receipts_for_there:
  assumes "receipts_for P a b" and "\<And>rl. rl \<in> P \<Longrightarrow> bl_id (fst rl) \<in> rc_batchLineId ` set a"
  shows "set b = set a"
proof (rule ccontr)
  assume "set b \<noteq> set a"
  then obtain r where r: "r \<in> set b" "r \<notin> set a" using assms(1) unfolding receipts_for_def by blast
  from receipts_for_new [OF assms(1) r] obtain l qLot reason remarks where
    rl: "(l, qLot, reason, remarks) \<in> P" "rc_batchLineId r = bl_id l" and no: "rc_batchLineId r \<notin> rc_batchLineId ` set a" .
  from assms(2) [OF rl(1)] no rl(2) show False by simp
qed

lemma returns_ok_receipts_cong:
  assumes "returns_ok bs ls rcs" and "set rcs' = set rcs" and "distinct (map rc_batchLineId rcs')" "distinct (map rc_id rcs')"
  shows "returns_ok bs ls rcs'"
  using assms by (simp add: returns_ok_def)

lemma finalizeReturnReceipt_safe:
  fixes db :: "'z return_db_scheme"
  assumes fin: "finalizeReturnReceipt e inp p r db = Inr (db', v)"
    and ok: "return_receipt_ok inp p (rt_batches db) (rt_lines db)"
  shows "return_safe db db'"
proof -
  let ?b = "rr_batch p"
  let ?f = "\<lambda>x. x\<lparr>rb_status := SR_RECEIVED_DISPOSED, rb_receivedBy := Some (ac_id (rr_actor p)),
      rb_version := rb_version ?b + 1\<rparr>"
  let ?hit = "\<lambda>y. rb_id y = rb_id ?b \<and> rb_status y = SR_DISPATCHED \<and> rb_version y = ra_expectedVersion inp"
  from fin obtain rcs n where rcs: "receipts_for (set (rr_lines p)) (rt_receipts db) rcs"
    and got: "\<forall>rl \<in> set (rr_lines p). bl_id (fst rl) \<in> rc_batchLineId ` set rcs"
    and adv: "advanceBatch inp ?b (map fst (rr_lines p)) SR_DISPATCHED SR_RECEIVED_DISPOSED ?f
       (batchAudit (rr_actor p) (rb_destinationLocationId ?b) ''stock_return.received_disposed'' (rb_id ?b))
       (db\<lparr>rt_receipts := rcs, db_ids := n\<rparr>) = Inr (db', v)" by (rule finalizeReturnReceipt_Inr)
  from ok obtain x where x: "x \<in> set (rt_batches db)" "rb_id x = rb_id ?b"
    "rb_status x \<in> {SR_DISPATCHED, SR_RECEIVED_DISPOSED}"
    "rb_status x = SR_DISPATCHED \<longrightarrow> x = ?b \<and> rb_version x = ra_expectedVersion inp"
    "batch_lines (rt_lines db) (rb_id x) = fst ` set (rr_lines p)" unfolding return_receipt_ok_def by blast
  have frame: "rt_releases db' = rt_releases db \<and> rt_releaseLines db' = rt_releaseLines db \<and> stock_inv db' = stock_inv db"
    using adv by (cases rule: advanceBatch_Inr) (auto elim: updateBatch_Inr)
  have tables: "returns_ok (rt_batches db') (rt_lines db') (rt_receipts db') \<and>
      returns_step (rt_batches db) (rt_lines db) (rt_receipts db) (rt_batches db') (rt_lines db') (rt_receipts db')"
    if tab: "returns_ok (rt_batches db) (rt_lines db) (rt_receipts db)"
  proof -
    have dist: "distinct (map rc_batchLineId rcs)" "distinct (map rc_id rcs)" "set (rt_receipts db) \<subseteq> set rcs"
      using rcs returns_okD(3,4) [OF tab] by (simp_all add: receipts_for_def)
    from adv show ?thesis
    proof (cases rule: advanceBatch_Inr)
      case (moved db1 u)
      from moved(1) obtain y where y: "y \<in> set (rt_batches db)" "rb_id y = rb_id ?b" "rb_status y = SR_DISPATCHED"
        "rb_version y = ra_expectedVersion inp"
        and db1: "db1 = db\<lparr>rt_receipts := rcs, db_ids := n, rt_batches := update_where ?hit ?f (rt_batches db)\<rparr>"
        by (auto elim!: updateBatch_Inr)
      have "y = x" using row_by_key [OF returns_okD(1) [OF tab] y(1) x(1)] y(2) x(2) by simp
      with y(3) have st1: "rb_status x = SR_DISPATCHED" by simp
      from x(4) st1 have st2: "x = ?b \<and> rb_version x = ra_expectedVersion inp" by (rule mp)
      note st = st1 conjunct1 [OF st2] conjunct2 [OF st2]
      have "\<exists>r \<in> set rcs. rc_batchLineId r = bl_id l \<and> rc_receivedQuantity r = bl_quantity l"
        if l: "l \<in> batch_lines (rt_lines db) (rb_id x)" for l
      proof -
        from l x(5) obtain rl where rl: "rl \<in> set (rr_lines p)" "l = fst rl" by auto
        with got obtain r where r: "r \<in> set rcs" "rc_batchLineId r = bl_id l" by force
        have "bl_id l \<notin> rc_batchLineId ` set (rt_receipts db)"
          using returns_okD(8) [OF tab x(1)] l st(1) by (simp add: batch_ok_def)
        with r(2) have "r \<notin> set (rt_receipts db)" by force
        from receipts_for_new [OF rcs r(1) this] obtain l' qLot reason remarks where
          "(l', qLot, reason, remarks) \<in> set (rr_lines p)" "rc_batchLineId r = bl_id l'"
          "rc_receivedQuantity r = bl_quantity l'" .
        then obtain k where k: "k \<in> set (rr_lines p)" "rc_batchLineId r = bl_id (fst k)"
          "rc_receivedQuantity r = bl_quantity (fst k)" by (metis fst_conv)
        have "fst k \<in> set (rt_lines db)" "l \<in> set (rt_lines db)" using x(5) k(1) l by (auto simp: batch_lines_def)
        with row_by_key [OF returns_okD(2) [OF tab], of "fst k" l] k(2) r(2) have "fst k = l" by simp
        with r k(3) show ?thesis by blast
      qed
      then have new: "batch_ok (batch_lines (rt_lines db) (rb_id x)) (set rcs) (?f x)"
        using returns_okD(8) [OF tab x(1)] st(1) by (simp add: batch_ok_def)
      have fresh: "rc_batchLineId r \<in> bl_id ` batch_lines (rt_lines db) (rb_id x)"
        if "r \<in> set rcs" "r \<notin> set (rt_receipts db)" for r
      proof -
        from receipts_for_new [OF rcs that] obtain l qLot reason remarks where
          "(l, qLot, reason, remarks) \<in> set (rr_lines p)" "rc_batchLineId r = bl_id l" .
        then show ?thesis unfolding x(5) by (metis imageI fst_conv)
      qed
      have mv: "batch_moves x (?f x)" using st by (simp add: batch_moves_def return_lifecycle_def)
      have hit: "?hit x" using st x(2) by simp
      have only: "\<And>y. ?hit y \<Longrightarrow> rb_id y = rb_id x" using x(2) by simp
      have lok: "\<And>l. l \<in> set (rt_lines db) \<Longrightarrow> bl_batchId l = rb_id x \<Longrightarrow> bline_ok l" by (rule returns_okD(5) [OF tab])
      note ch = returns_change [where x = x and f = ?f and hit = ?hit and ls' = "rt_lines db" and rcs' = rcs,
          OF tab x(1) hit only mv returns_okD(2) [OF tab] lok refl refl dist(3,1,2) fresh returns_okD(7) [OF tab] new]
      have e: "rt_batches db' = update_where ?hit ?f (rt_batches db)" "rt_lines db' = rt_lines db" "rt_receipts db' = rcs"
        unfolding moved(2) writeAudit_returns db1 by simp_all
      show ?thesis unfolding e using ch by (rule conjI)
    next
      case (before y err)
      have "y = x" using row_by_key [OF returns_okD(1) [OF tab] _ x(1)] before(2,3) x(2) by simp
      with before(4) have st: "rb_status x = SR_RECEIVED_DISPOSED" by simp
      have "bl_id (fst rl) \<in> rc_batchLineId ` set (rt_receipts db)" if "rl \<in> set (rr_lines p)" for rl
      proof -
        have "fst rl \<in> batch_lines (rt_lines db) (rb_id x)" using that x(5) by simp
        with returns_okD(8) [OF tab x(1)] st obtain r where "r \<in> set (rt_receipts db)" "rc_batchLineId r = bl_id (fst rl)"
          unfolding batch_ok_def by auto
        then show ?thesis by (metis imageI)
      qed
      from receipts_for_there [OF rcs this] have same: "set rcs = set (rt_receipts db)" .
      have e: "rt_batches db' = rt_batches db" "rt_lines db' = rt_lines db" "rt_receipts db' = rcs"
        unfolding before(5) by simp_all
      have "returns_step (rt_batches db) (rt_lines db) (rt_receipts db) (rt_batches db) (rt_lines db) rcs"
        using same batch_moves_refl unfolding returns_step_def by blast
      with returns_ok_receipts_cong [OF tab same dist(1,2)] show ?thesis unfolding e by simp
    qed
  qed
  from tables frame show ?thesis unfolding return_safe_def by simp
qed

end
