(* ===== verification/QaLaws.thy ===== *)
theory QaLaws
  imports ReturnLaws
begin

text \<open>
  Lemmas on QA releases: the invariant of releases, their lines and the receipts they draw on, and what
  each transaction of the service does to them. What releases that are not cancelled book against a
  receipt never exceeds what was received.
\<close>

section \<open>The tables\<close>

definition release_lines :: "qa_line list \<Rightarrow> string \<Rightarrow> qa_line set" where
  "release_lines ls rid = {l \<in> set ls. ql_releaseId l = rid}"

lemma set_releaseLines [simp]: "set (releaseLines ls rid) = release_lines ls rid"
  by (simp add: releaseLines_def release_lines_def)

text \<open>What is booked against a receipt by releases that are not cancelled.\<close>

definition booked :: "qa_release list \<Rightarrow> qa_line list \<Rightarrow> string \<Rightarrow> int" where
  "booked rs ls i = sum_list (map ql_releaseQuantity
     (filter (\<lambda>l. ql_receiptLineId l = i \<and> \<not> releaseCancelled rs (ql_releaseId l)) ls))"

definition qline_ok :: "receipt_row list \<Rightarrow> qa_line \<Rightarrow> bool" where
  "qline_ok rcs l \<longleftrightarrow> 0 < ql_releaseQuantity l \<and>
     (\<exists>r \<in> set rcs. rc_id r = ql_receiptLineId l \<and> rc_quarantineLotId r = ql_quarantineLotId l \<and>
        reusable (rc_reasonCode r))"

definition release_ok :: "qa_line set \<Rightarrow> qa_release \<Rightarrow> bool" where
  "release_ok L q \<longleftrightarrow>
     (qr_status q \<in> {QR_SUBMITTED, QR_APPROVED, QR_RELEASED} \<longrightarrow> qr_requestedBy q \<noteq> None) \<and>
     (qr_status q \<in> {QR_APPROVED, QR_RELEASED} \<longrightarrow> qr_approvedBy q \<noteq> None \<and> qr_approvedBy q \<noteq> qr_requestedBy q) \<and>
     (\<forall>l \<in> L. (ql_postingLineId l \<noteq> None) = (qr_status q = QR_RELEASED))"

definition releases_ok :: "receipt_row list \<Rightarrow> qa_release list \<Rightarrow> qa_line list \<Rightarrow> bool" where
  "releases_ok rcs rs ls \<longleftrightarrow>
     distinct (map qr_id rs) \<and> distinct (map ql_id ls) \<and>
     (\<forall>l \<in> set ls. qline_ok rcs l \<and> ql_releaseId l \<in> qr_id ` set rs) \<and>
     (\<forall>r \<in> set rcs. booked rs ls (rc_id r) \<le> rc_receivedQuantity r) \<and>
     (\<forall>q \<in> set rs. release_ok (release_lines ls (qr_id q)) q)"

lemma releases_okD:
  assumes "releases_ok rcs rs ls"
  shows "distinct (map qr_id rs)" "distinct (map ql_id ls)"
    "\<And>l. l \<in> set ls \<Longrightarrow> qline_ok rcs l" "\<And>l. l \<in> set ls \<Longrightarrow> ql_releaseId l \<in> qr_id ` set rs"
    "\<And>r. r \<in> set rcs \<Longrightarrow> booked rs ls (rc_id r) \<le> rc_receivedQuantity r"
    "\<And>q. q \<in> set rs \<Longrightarrow> release_ok (release_lines ls (qr_id q)) q"
  using assms by (simp_all add: releases_ok_def)

definition release_lifecycle :: "(release_status \<times> release_status) set" where
  "release_lifecycle = {(QR_DRAFT, QR_DRAFT), (QR_DRAFT, QR_SUBMITTED), (QR_SUBMITTED, QR_APPROVED),
     (QR_APPROVED, QR_RELEASED), (QR_DRAFT, QR_CANCELLED), (QR_SUBMITTED, QR_CANCELLED), (QR_APPROVED, QR_CANCELLED)}"

definition release_moves :: "qa_release \<Rightarrow> qa_release \<Rightarrow> bool" where
  "release_moves x y \<longleftrightarrow> qr_id y = qr_id x \<and> qr_documentNo y = qr_documentNo x \<and>
     qr_sourceWarehouseId y = qr_sourceWarehouseId x \<and> qr_destinationWarehouseId y = qr_destinationWarehouseId x \<and>
     (y = x \<or> (qr_status x, qr_status y) \<in> release_lifecycle \<and> qr_version y = Suc (qr_version x))"

lemma release_moves_refl [simp]: "release_moves x x"
  by (simp add: release_moves_def)

definition qline_key :: "qa_line \<Rightarrow> string \<times> string \<times> string \<times> string \<times> int" where
  "qline_key l = (ql_id l, ql_itemId l, ql_quarantineLotId l, ql_receiptLineId l, ql_releaseQuantity l)"

definition releases_step :: "qa_release list \<Rightarrow> qa_line list \<Rightarrow> qa_release list \<Rightarrow> qa_line list \<Rightarrow> bool" where
  "releases_step rs ls rs' ls' \<longleftrightarrow>
     (\<forall>x \<in> set rs. \<exists>y \<in> set rs'. release_moves x y \<and>
        (qr_status x \<noteq> QR_DRAFT \<longrightarrow> qline_key ` release_lines ls' (qr_id x) = qline_key ` release_lines ls (qr_id x)))"

lemma releases_step_refl: "releases_step rs ls rs ls"
  unfolding releases_step_def using release_moves_refl by blast

section \<open>What is booked\<close>

lemma releaseCancelled_iff:
  "distinct (map qr_id rs) \<Longrightarrow> releaseCancelled rs i \<longleftrightarrow> (\<exists>q \<in> set rs. qr_id q = i \<and> qr_status q = QR_CANCELLED)"
proof (cases "List.find (\<lambda>r. qr_id r = i) rs")
  case None
  then have "\<forall>q \<in> set rs. qr_id q \<noteq> i" by (metis (mono_tags, lifting) find_None_iff)
  with None show ?thesis by (simp add: releaseCancelled_def)
next
  case (Some q)
  assume d: "distinct (map qr_id rs)"
  from find_Some_mem [OF Some] have q: "q \<in> set rs" "qr_id q = i" by auto
  have same: "q' = q" if "q' \<in> set rs" "qr_id q' = i" for q'
    by (rule row_by_key [OF d that(1) q(1)]) (use that q in simp)
  have "releaseCancelled rs i = (qr_status q = QR_CANCELLED)" using Some by (simp add: releaseCancelled_def)
  with same q show ?thesis by blast
qed

lemma booked_append: "booked rs (a @ b) i = booked rs a i + booked rs b i"
  by (simp add: booked_def)

lemma booked_mono:
  assumes "\<And>l. l \<in> set ls \<Longrightarrow> 0 < ql_releaseQuantity l"
    and "\<And>l. l \<in> set ls \<Longrightarrow> releaseCancelled rs (ql_releaseId l) \<Longrightarrow> releaseCancelled rs' (ql_releaseId l)"
  shows "booked rs' ls i \<le> booked rs ls i"
  using assms by (induction ls) (fastforce simp: booked_def)+

lemma booked_cong:
  assumes "\<And>l. l \<in> set ls \<Longrightarrow> releaseCancelled rs' (ql_releaseId l) = releaseCancelled rs (ql_releaseId l)"
  shows "booked rs' ls i = booked rs ls i"
  using assms unfolding booked_def by (metis (no_types, lifting) filter_cong)

lemma siblingSum_booked:
  "siblingSum db exclude i =
     booked (rt_releases db) (filter (\<lambda>l. exclude \<noteq> Some (ql_releaseId l)) (rt_releaseLines db)) i"
  by (simp add: siblingSum_def booked_def conj_ac)

text \<open>New lines with one receipt each book at most what one of them asks for.\<close>

lemma booked_distinct:
  assumes "distinct (map ql_receiptLineId new)" and "0 \<le> B"
    and "\<And>l. l \<in> set new \<Longrightarrow> ql_receiptLineId l = i \<Longrightarrow> ql_releaseQuantity l \<le> B"
  shows "booked rs new i \<le> B"
  using assms
proof (induction new)
  case Nil
  then show ?case by (simp add: booked_def)
next
  case (Cons l new)
  show ?case
  proof (cases "ql_receiptLineId l = i")
    case True
    with Cons.prems(1) have "filter (\<lambda>l. ql_receiptLineId l = i \<and> \<not> releaseCancelled rs (ql_releaseId l)) new = []"
      by (fastforce simp: filter_empty_conv image_iff)
    then have "booked rs (l # new) i = (if releaseCancelled rs (ql_releaseId l) then 0 else ql_releaseQuantity l)"
      using True by (simp add: booked_def)
    with Cons.prems(2) Cons.prems(3) [of l] True show ?thesis by simp
  next
    case False
    then have "booked rs (l # new) i = booked rs new i" by (simp add: booked_def)
    with Cons show ?thesis by simp
  qed
qed

section \<open>Changes of one release\<close>

lemma releases_change:
  assumes ok: "releases_ok rcs rs ls" and x: "x \<in> set rs" "hit x" and only: "\<And>y. hit y \<Longrightarrow> qr_id y = qr_id x"
    and move: "release_moves x (f x)"
    and ls': "distinct (map ql_id ls')" "\<And>l. l \<in> set ls' \<Longrightarrow> ql_releaseId l = qr_id x \<Longrightarrow> qline_ok rcs l"
    and others: "\<And>i. i \<noteq> qr_id x \<Longrightarrow> release_lines ls' i = release_lines ls i"
    and keep: "qr_status x \<noteq> QR_DRAFT \<Longrightarrow>
      qline_key ` release_lines ls' (qr_id x) = qline_key ` release_lines ls (qr_id x)"
    and quota: "\<And>r. r \<in> set rcs \<Longrightarrow> booked (update_where hit f rs) ls' (rc_id r) \<le> rc_receivedQuantity r"
    and new: "release_ok (release_lines ls' (qr_id x)) (f x)"
  shows "releases_ok rcs (update_where hit f rs) ls'" and "releases_step rs ls (update_where hit f rs) ls'"
proof -
  have only': "\<forall>y. hit y \<longrightarrow> qr_id y = qr_id x" using only by blast
  have idf: "qr_id (f x) = qr_id x" using move by (simp add: release_moves_def)
  note row = update_one_row [where k = qr_id and x = x and hit = hit and f = f, OF releases_okD(1) [OF ok] x only' idf]
  have img: "qr_id ` set (update_where hit f rs) = qr_id ` set rs" using row(2) by (metis list.set_map)
  have l_old: "l \<in> set ls" if "l \<in> set ls'" "ql_releaseId l \<noteq> qr_id x" for l
    using others [OF that(2)] that(1) by (auto simp: release_lines_def)
  show "releases_ok rcs (update_where hit f rs) ls'"
    unfolding releases_ok_def row(2) img unfolding row(1)
  proof (intro conjI ballI)
    show "distinct (map qr_id rs)" by (rule releases_okD(1) [OF ok])
    show "distinct (map ql_id ls')" by (rule ls'(1))
    show "qline_ok rcs l" if "l \<in> set ls'" for l
      using ls'(2) [OF that] l_old [OF that] releases_okD(3) [OF ok] by blast
    show "ql_releaseId l \<in> qr_id ` set rs" if "l \<in> set ls'" for l
      using l_old [OF that] releases_okD(4) [OF ok] x(1) by (cases "ql_releaseId l = qr_id x") auto
    show "booked (update_where hit f rs) ls' (rc_id r) \<le> rc_receivedQuantity r" if "r \<in> set rcs" for r
      using that by (rule quota)
    show "release_ok (release_lines ls' (qr_id y)) y" if "y \<in> insert (f x) (set rs - {x})" for y
    proof (cases "y = f x")
      case True
      with new idf show ?thesis by simp
    next
      case False
      with that have y: "y \<in> set rs" "y \<noteq> x" by auto
      from others [OF row(3) [OF y]] releases_okD(6) [OF ok y(1)] show ?thesis by simp
    qed
  qed
  have "\<exists>z \<in> insert (f x) (set rs - {x}). release_moves y z \<and>
      (qr_status y \<noteq> QR_DRAFT \<longrightarrow> qline_key ` release_lines ls' (qr_id y) = qline_key ` release_lines ls (qr_id y))"
    if y: "y \<in> set rs" for y
  proof (cases "y = x")
    case True
    with move keep show ?thesis by blast
  next
    case False
    with y others [OF row(3) [OF y False]] show ?thesis by (intro bexI [of _ y]) auto
  qed
  then show "releases_step rs ls (update_where hit f rs) ls'"
    unfolding releases_step_def row(1) by blast
qed

text \<open>A status change cancels or leaves what the release books.\<close>

lemma releaseCancelled_update:
  assumes d: "distinct (map qr_id rs)" and x: "x \<in> set rs" "hit x" and only: "\<And>y. hit y \<Longrightarrow> qr_id y = qr_id x"
    and idf: "qr_id (f x) = qr_id x"
  shows "releaseCancelled (update_where hit f rs) i =
    (if i = qr_id x then qr_status (f x) = QR_CANCELLED else releaseCancelled rs i)"
proof -
  have only': "\<forall>y. hit y \<longrightarrow> qr_id y = qr_id x" using only by blast
  note row = update_one_row [where k = qr_id and x = x and hit = hit and f = f, OF d x only' idf]
  have d': "distinct (map qr_id (update_where hit f rs))" using d row(2) by simp
  show ?thesis unfolding releaseCancelled_iff [OF d'] releaseCancelled_iff [OF d] row(1)
    using row(3) idf x(1) by auto
qed

lemma releases_change_row:
  assumes ok: "releases_ok rcs rs ls" and x: "x \<in> set rs" "hit x" "qr_status x \<noteq> QR_CANCELLED"
    and only: "\<And>y. hit y \<Longrightarrow> qr_id y = qr_id x"
    and move: "release_moves x (f x)" and new: "release_ok (release_lines ls (qr_id x)) (f x)"
  shows "releases_ok rcs (update_where hit f rs) ls" and "releases_step rs ls (update_where hit f rs) ls"
proof -
  have idf: "qr_id (f x) = qr_id x" using move by (simp add: release_moves_def)
  note canc = releaseCancelled_update [where x = x and hit = hit and f = f, OF releases_okD(1) [OF ok] x(1,2) only idf]
  have pos: "\<And>l. l \<in> set ls \<Longrightarrow> 0 < ql_releaseQuantity l" using releases_okD(3) [OF ok] by (simp add: qline_ok_def)
  have notc: "\<not> releaseCancelled rs (qr_id x)"
    using x(1,3) row_by_key [OF releases_okD(1) [OF ok]] unfolding releaseCancelled_iff [OF releases_okD(1) [OF ok]] by metis
  have quota: "booked (update_where hit f rs) ls (rc_id r) \<le> rc_receivedQuantity r" if "r \<in> set rcs" for r
  proof -
    have "booked (update_where hit f rs) ls (rc_id r) \<le> booked rs ls (rc_id r)"
      by (rule booked_mono [OF pos]) (use canc notc in auto)
    with releases_okD(5) [OF ok that] show ?thesis by simp
  qed
  have lok: "\<And>l. l \<in> set ls \<Longrightarrow> ql_releaseId l = qr_id x \<Longrightarrow> qline_ok rcs l" by (rule releases_okD(3) [OF ok])
  note ch = releases_change [where x = x and hit = hit and f = f and ls' = ls, OF ok x(1,2) only move
      releases_okD(2) [OF ok] lok refl refl quota new]
  show "releases_ok rcs (update_where hit f rs) ls" by (rule ch(1))
  show "releases_step rs ls (update_where hit f rs) ls" by (rule ch(2))
qed

text \<open>New lines of a draft, checked against what the other releases have booked.\<close>

definition fresh_qline :: "receipt_row list \<Rightarrow> qa_release list \<Rightarrow> qa_line list \<Rightarrow> string \<Rightarrow> qa_line \<Rightarrow> bool" where
  "fresh_qline rcs rs kept rid l \<longleftrightarrow> ql_releaseId l = rid \<and> qline_ok rcs l \<and> ql_postingLineId l = None \<and>
     (\<exists>r \<in> set rcs. rc_id r = ql_receiptLineId l \<and>
        ql_releaseQuantity l \<le> rc_receivedQuantity r - booked rs kept (rc_id r))"

lemma fresh_booked:
  assumes fresh: "list_all (fresh_qline rcs rs kept rid) new" and one: "distinct (map ql_receiptLineId new)"
    and ids: "distinct (map rc_id rcs)" and r: "r \<in> set rcs" and quota: "booked rs kept (rc_id r) \<le> rc_receivedQuantity r"
  shows "booked rs' new (rc_id r) \<le> rc_receivedQuantity r - booked rs kept (rc_id r)"
proof (rule booked_distinct [OF one])
  show "0 \<le> rc_receivedQuantity r - booked rs kept (rc_id r)" using quota by simp
  fix l assume l: "l \<in> set new" "ql_receiptLineId l = rc_id r"
  with fresh obtain r' where "r' \<in> set rcs" "rc_id r' = rc_id r"
    "ql_releaseQuantity l \<le> rc_receivedQuantity r' - booked rs kept (rc_id r')"
    by (auto simp: list_all_iff fresh_qline_def)
  with row_by_key [OF ids, of r' r] r show "ql_releaseQuantity l \<le> rc_receivedQuantity r - booked rs kept (rc_id r)" by simp
qed

lemma releases_redraft:
  assumes ok: "releases_ok rcs rs ls" and ids: "distinct (map rc_id rcs)"
    and x: "x \<in> set rs" "hit x" "qr_status x = QR_DRAFT"
    and only: "\<And>y. hit y \<Longrightarrow> qr_id y = qr_id x" and move: "release_moves x (f x)" "qr_status (f x) = QR_DRAFT"
    and ls': "ls' = ls \<or> (\<exists>new. ls' = filter (\<lambda>l. ql_releaseId l \<noteq> qr_id x) ls @ new \<and>
       list_all (fresh_qline rcs rs (filter (\<lambda>l. ql_releaseId l \<noteq> qr_id x) ls) (qr_id x)) new \<and>
       distinct (map ql_receiptLineId new) \<and> distinct (map ql_id ls'))"
  shows "releases_ok rcs (update_where hit f rs) ls'" and "releases_step rs ls (update_where hit f rs) ls'"
proof -
  have idf: "qr_id (f x) = qr_id x" using move by (simp add: release_moves_def)
  note canc = releaseCancelled_update [where x = x and hit = hit and f = f, OF releases_okD(1) [OF ok] x(1,2) only idf]
  let ?kept = "filter (\<lambda>l. ql_releaseId l \<noteq> qr_id x) ls"
  have notc: "\<not> releaseCancelled rs (qr_id x)"
    using x(1,3) row_by_key [OF releases_okD(1) [OF ok]] unfolding releaseCancelled_iff [OF releases_okD(1) [OF ok]]
    by (metis release_status.distinct(7))
  have same: "booked (update_where hit f rs) ks i = booked rs ks i" for ks i
    by (rule booked_cong) (use canc notc move(2) in auto)
  have pos: "\<And>l. l \<in> set ls \<Longrightarrow> 0 < ql_releaseQuantity l" using releases_okD(3) [OF ok] by (simp add: qline_ok_def)
  have part: "booked rs ?kept i \<le> booked rs ls i" for i
    using pos by (induction ls) (fastforce simp: booked_def)+
  have dist: "distinct (map ql_id ls')" using ls' releases_okD(2) [OF ok] by blast
  have mem: "l \<in> set ls' \<longleftrightarrow> l \<in> set ls" if "ql_releaseId l \<noteq> qr_id x" for l
    using ls' by (elim disjE exE conjE) (use that in \<open>auto simp: list_all_iff fresh_qline_def\<close>)
  have own: "qline_ok rcs l \<and> ql_postingLineId l = None" if l: "l \<in> set ls'" "ql_releaseId l = qr_id x" for l
    using ls'
  proof (elim disjE exE conjE)
    assume "ls' = ls"
    moreover have "release_ok (release_lines ls (qr_id x)) x" by (rule releases_okD(6) [OF ok x(1)])
    ultimately show ?thesis using l x(3) releases_okD(3) [OF ok, of l] by (auto simp: release_ok_def release_lines_def)
  next
    fix new assume "ls' = ?kept @ new" "list_all (fresh_qline rcs rs ?kept (qr_id x)) new"
    with l show ?thesis by (auto simp: list_all_iff fresh_qline_def)
  qed
  have quota: "booked (update_where hit f rs) ls' (rc_id r) \<le> rc_receivedQuantity r" if r: "r \<in> set rcs" for r
    using ls'
  proof (elim disjE exE conjE)
    assume "ls' = ls"
    with releases_okD(5) [OF ok r] same show ?thesis by simp
  next
    fix new assume eq: "ls' = ?kept @ new" and fresh: "list_all (fresh_qline rcs rs ?kept (qr_id x)) new"
      and one: "distinct (map ql_receiptLineId new)"
    have k: "booked rs ?kept (rc_id r) \<le> rc_receivedQuantity r" using part [of "rc_id r"] releases_okD(5) [OF ok r] by simp
    from fresh_booked [OF fresh one ids r k, of rs] show ?thesis unfolding eq same booked_append by simp
  qed
  have others: "release_lines ls' i = release_lines ls i" if "i \<noteq> qr_id x" for i
    using mem that by (auto simp: release_lines_def)
  have lok: "\<And>l. l \<in> set ls' \<Longrightarrow> ql_releaseId l = qr_id x \<Longrightarrow> qline_ok rcs l" using own by blast
  have keep: "qr_status x \<noteq> QR_DRAFT \<Longrightarrow>
      qline_key ` release_lines ls' (qr_id x) = qline_key ` release_lines ls (qr_id x)" using x(3) by simp
  have new: "release_ok (release_lines ls' (qr_id x)) (f x)"
    using own move(2) by (simp add: release_ok_def release_lines_def)
  note ch = releases_change [where x = x and hit = hit and f = f and ls' = ls', OF ok x(1,2) only move(1) dist lok
      others keep quota new]
  show "releases_ok rcs (update_where hit f rs) ls'" by (rule ch(1))
  show "releases_step rs ls (update_where hit f rs) ls'" by (rule ch(2))
qed

lemma releases_create:
  assumes ok: "releases_ok rcs rs ls" and ids: "distinct (map rc_id rcs)"
    and q: "qr_id q \<notin> qr_id ` set rs" "qr_status q = QR_DRAFT"
    and new: "list_all (fresh_qline rcs rs ls (qr_id q)) new" "distinct (map ql_receiptLineId new)" "distinct (map ql_id (ls @ new))"
  shows "releases_ok rcs (rs @ [q]) (ls @ new)" and "releases_step rs ls (rs @ [q]) (ls @ new)"
proof -
  have old: "release_lines (ls @ new) (qr_id y) = release_lines ls (qr_id y)" if "y \<in> set rs" for y
    using that new(1) q(1) by (auto simp: release_lines_def list_all_iff fresh_qline_def)
  have foreign: "ql_releaseId l \<noteq> qr_id q" if "l \<in> set ls" for l
    using releases_okD(4) [OF ok that] q(1) by metis
  have d': "distinct (map qr_id (rs @ [q]))" using releases_okD(1) [OF ok] q(1) by simp
  have canc: "releaseCancelled (rs @ [q]) i = releaseCancelled rs i" for i
    unfolding releaseCancelled_iff [OF d'] releaseCancelled_iff [OF releases_okD(1) [OF ok]] using q(2) by auto
  have same: "booked (rs @ [q]) ks i = booked rs ks i" for ks i by (rule booked_cong) (rule canc)
  have quota: "booked (rs @ [q]) (ls @ new) (rc_id r) \<le> rc_receivedQuantity r" if r: "r \<in> set rcs" for r
    using fresh_booked [OF new(1,2) ids r releases_okD(5) [OF ok r], of rs] unfolding same booked_append by simp
  have mine: "release_ok (release_lines (ls @ new) (qr_id q)) q"
    using foreign new(1) q(2) by (auto simp: release_ok_def release_lines_def list_all_iff fresh_qline_def)
  have lines: "qline_ok rcs l \<and> ql_releaseId l \<in> qr_id ` set (rs @ [q])" if "l \<in> set (ls @ new)" for l
    using that releases_okD(3,4) [OF ok, of l] new(1) by (auto simp: list_all_iff fresh_qline_def)
  show "releases_ok rcs (rs @ [q]) (ls @ new)"
    unfolding releases_ok_def using d' new(3) quota lines mine old releases_okD(6) [OF ok] by auto
  show "releases_step rs ls (rs @ [q]) (ls @ new)"
    using old release_moves_refl unfolding releases_step_def by fastforce
qed

section \<open>What each operation does to the tables\<close>

definition qa_safe :: "'z return_db_scheme \<Rightarrow> 'z return_db_scheme \<Rightarrow> bool" where
  "qa_safe db db' \<longleftrightarrow>
     (releases_ok (rt_receipts db) (rt_releases db) (rt_releaseLines db) \<longrightarrow> distinct (map rc_id (rt_receipts db)) \<longrightarrow>
        releases_ok (rt_receipts db') (rt_releases db') (rt_releaseLines db') \<and>
        releases_step (rt_releases db) (rt_releaseLines db) (rt_releases db') (rt_releaseLines db')) \<and>
     rt_batches db' = rt_batches db \<and> rt_lines db' = rt_lines db \<and> rt_receipts db' = rt_receipts db \<and>
     (stock_inv db \<longrightarrow> stock_inv db')"

lemma qa_safe_same: "rt_same db db' \<Longrightarrow> (stock_inv db \<Longrightarrow> stock_inv db') \<Longrightarrow> qa_safe db db'"
  by (simp add: qa_safe_def rt_same_def releases_step_refl)

lemma qa_safe_refl [simp]: "qa_safe db db"
  by (rule qa_safe_same) (simp_all add: rt_same_def)

lemma openRelease_Inr:
  assumes "openRelease inp roles db = Inr (a, r, hq)"
  obtains "authorizeQa db (qa_actorUserId inp) (qa_sessionId inp) roles = Inr a"
    "r \<in> set (rt_releases db)" "qr_id r = qa_releaseId inp" "resolveHqTopology db = Inr hq"
  using assms that by (auto simp: openRelease_def lockRelease_def res_iff split: option.splits dest!: find_Some_mem)

lemma expectRelease_Inr [res_iff]:
  "expectRelease ss inp r = Inr () \<longleftrightarrow> qr_status r \<in> set ss \<and> qr_version r = qa_expectedVersion inp"
  by (auto simp: expectRelease_def res_iff)

lemma updateRelease_Some:
  assumes "updateRelease rid st v f db = Inr (Some (db', u))"
  obtains x where "x \<in> set (rt_releases db)" "qr_id x = rid" "qr_status x = st" "qr_version x = v" "u = f x"
    "db' = db\<lparr>rt_releases := update_where (\<lambda>r. qr_id r = rid \<and> qr_status r = st \<and> qr_version r = v) f (rt_releases db)\<rparr>"
  using assms that by (auto simp: updateRelease_def Let_def split: option.splits if_splits dest!: find_Some_mem)

lemma moveRelease_Inr:
  assumes "moveRelease inp r f db = Inr (db', u)"
  shows "updateRelease (qr_id r) (qr_status r) (qa_expectedVersion inp) f db = Inr (Some (db', u))"
  using assms by (auto simp: moveRelease_def res_iff split: option.splits)

lemma release_update_step:
  assumes upd: "moveRelease inp r f db = Inr (db1, u)" and mem: "r \<in> set (rt_releases db)"
    and st: "qr_status r \<noteq> QR_CANCELLED"
    and move: "qr_version r = qa_expectedVersion inp \<Longrightarrow> release_moves r (f r)"
    and new: "\<And>L. release_ok L r \<Longrightarrow> release_ok L (f r)"
  shows "qa_safe db (writeAudit aud db1)"
proof -
  let ?hit = "\<lambda>y. qr_id y = qr_id r \<and> qr_status y = qr_status r \<and> qr_version y = qa_expectedVersion inp"
  from moveRelease_Inr [OF upd] obtain x where x: "x \<in> set (rt_releases db)" "qr_id x = qr_id r" "qr_status x = qr_status r"
    "qr_version x = qa_expectedVersion inp"
    and db1: "db1 = db\<lparr>rt_releases := update_where ?hit f (rt_releases db)\<rparr>" by (rule updateRelease_Some)
  show ?thesis unfolding qa_safe_def writeAudit_returns
  proof (intro conjI impI)
    assume ok: "releases_ok (rt_receipts db) (rt_releases db) (rt_releaseLines db)"
    have "x = r" by (rule row_by_key [OF releases_okD(1) [OF ok] x(1) mem x(2)])
    with x have ver: "qr_version r = qa_expectedVersion inp" by simp
    have hit: "?hit r" using ver by simp
    have only: "\<And>y. ?hit y \<Longrightarrow> qr_id y = qr_id r" by simp
    note ch = releases_change_row [where x = r and f = f and hit = ?hit,
        OF ok mem hit st only move [OF ver] new [OF releases_okD(6) [OF ok mem]]]
    show "releases_ok (rt_receipts db1) (rt_releases db1) (rt_releaseLines db1)" using ch(1) unfolding db1 by simp
    show "releases_step (rt_releases db) (rt_releaseLines db) (rt_releases db1) (rt_releaseLines db1)"
      using ch(2) unfolding db1 by simp
  qed (simp_all add: db1)
qed

lemma submit_qa_safe: "submitQaRelease inp db = (db', res) \<Longrightarrow> qa_safe db db'"
  unfolding submitQaRelease_def
proof (rule run_tx_relation, assumption, goal_cases)
  case (1 db1 v)
  then obtain a r hq dbu u aud where op: "openRelease inp QA_RELEASE_ROLES db = Inr (a, r, hq)"
    and st: "qr_status r = QR_DRAFT"
    and upd: "moveRelease inp r (\<lambda>x. x\<lparr>qr_status := QR_SUBMITTED, qr_requestedBy := Some (ac_id a),
                   qr_version := qr_version r + 1\<rparr>) db = Inr (dbu, u)"
    and db1: "db1 = writeAudit aud dbu"
    by (auto simp: res_iff Let_def)
  from op have mem: "r \<in> set (rt_releases db)" by (rule openRelease_Inr)
  show ?case unfolding db1
    by (rule release_update_step [OF upd mem])
      (use st in \<open>auto simp: release_moves_def release_lifecycle_def release_ok_def\<close>)
qed simp

lemma approve_qa_safe: "approveQaRelease inp db = (db', res) \<Longrightarrow> qa_safe db db'"
  unfolding approveQaRelease_def
proof (rule run_tx_relation, assumption, goal_cases)
  case (1 db1 v)
  then obtain a r hq dbu u aud where op: "openRelease inp QA_RELEASE_APPROVE_ROLES db = Inr (a, r, hq)"
    and st: "qr_status r = QR_SUBMITTED" and sod: "qr_requestedBy r \<noteq> Some (ac_id a)"
    and upd: "moveRelease inp r (\<lambda>x. x\<lparr>qr_status := QR_APPROVED, qr_approvedBy := Some (ac_id a),
                   qr_version := qr_version r + 1\<rparr>) db = Inr (dbu, u)"
    and db1: "db1 = writeAudit aud dbu"
    by (auto simp: res_iff)
  from op have mem: "r \<in> set (rt_releases db)" by (rule openRelease_Inr)
  show ?case unfolding db1
    by (rule release_update_step [OF upd mem])
      (use st sod in \<open>auto simp: release_moves_def release_lifecycle_def release_ok_def\<close>)
qed simp

lemma cancel_qa_safe: "cancelQaRelease inp reason db = (db', res) \<Longrightarrow> qa_safe db db'"
  unfolding cancelQaRelease_def
proof (rule run_tx_relation, assumption, goal_cases)
  case (1 db1 v)
  then obtain a r hq dbu u aud where op: "openRelease inp QA_RELEASE_ROLES db = Inr (a, r, hq)"
    and st: "qr_status r \<in> {QR_DRAFT, QR_SUBMITTED, QR_APPROVED}"
    and upd: "moveRelease inp r (\<lambda>x. x\<lparr>qr_status := QR_CANCELLED, qr_cancelledBy := Some (ac_id a),
                   qr_cancelReason := Some reason, qr_version := qr_version r + 1\<rparr>) db = Inr (dbu, u)"
    and db1: "db1 = writeAudit aud dbu"
    by (auto simp: res_iff)
  from op have mem: "r \<in> set (rt_releases db)" by (rule openRelease_Inr)
  show ?case unfolding db1
    by (rule release_update_step [OF upd mem])
      (use st in \<open>auto simp: release_moves_def release_lifecycle_def release_ok_def\<close>)
qed simp

section \<open>Lines of a draft\<close>

definition resolved_qa_ok :: "'z return_db_scheme \<Rightarrow> string option \<Rightarrow> resolved_qa_line \<Rightarrow> bool" where
  "resolved_qa_ok db exclude r \<longleftrightarrow>
     (\<exists>rc \<in> set (rt_receipts db). rc_id rc = rql_receiptLineId r \<and> rc_quarantineLotId rc = rql_quarantineLotId r \<and>
        reusable (rc_reasonCode rc) \<and>
        (\<forall>q. parseFixed (rql_releaseQuantity r) 6 = Inr q \<longrightarrow> q \<le> rc_receivedQuantity rc - siblingSum db exclude (rc_id rc)))"

lemma checkQaLines_distinct:
  "foldE checkQaLine ls seen = Inr acc \<Longrightarrow>
   distinct (map qi_receiptLineId ls) \<and> set (map qi_receiptLineId ls) \<inter> set seen = {}"
proof (induction ls arbitrary: seen)
  case (Cons l ls)
  then obtain seen' where "checkQaLine l seen = Inr seen'" and rest: "foldE checkQaLine ls seen' = Inr acc"
    by (auto simp: res_iff)
  then have "seen' = qi_receiptLineId l # seen" "qi_receiptLineId l \<notin> set seen" by (auto simp: checkQaLine_def res_iff)
  with Cons.IH [OF rest] show ?case by auto
qed simp

lemma lockReceipts_map_of:
  assumes "mapE (lockReceipt db) keys = Inr receipts" and "map_of receipts i = Some r"
  shows "r \<in> set (rt_receipts db) \<and> rc_id r = i"
proof -
  from map_of_SomeD [OF assms(2)] mapE_mem [OF assms(1)] obtain k where "lockReceipt db k = Inr (i, r)" by blast
  then show ?thesis by (auto simp: lockReceipt_def split: option.splits dest!: find_Some_mem)
qed

lemma resolveQaLine_ok:
  assumes "resolveQaLine db receipts factors exclude (n, l) = Inr r" and "mapE (lockReceipt db) keys = Inr receipts"
  shows "resolved_qa_ok db exclude r \<and> rql_receiptLineId r = qi_receiptLineId l"
proof -
  from assms(1) obtain rc t requested where rc: "map_of receipts (qi_receiptLineId l) = Some rc"
    and t: "quarantineLotOf db rc = Some t" and reason: "reusable (rc_reasonCode rc)"
    and req: "parseFixed (rql_releaseQuantity r) 6 = Inr requested"
      "requested \<le> rc_receivedQuantity rc - siblingSum db exclude (rc_id rc)"
    and r: "rql_receiptLineId r = rc_id rc" "rql_quarantineLotId r = l_id t"
    by (auto simp: resolveQaLine_def Let_def res_iff split: option.splits)
  have lot: "l_id t = rc_quarantineLotId rc" using t find_Some_mem by (fastforce simp: quarantineLotOf_def)
  have mem: "rc \<in> set (rt_receipts db)" "rc_id rc = qi_receiptLineId l"
    using lockReceipts_map_of [OF assms(2) rc] by auto
  from mem(1) have "resolved_qa_ok db exclude r"
    unfolding resolved_qa_ok_def by (rule bexI [rotated]) (use r lot reason req in auto)
  with r(1) mem(2) show ?thesis by simp
qed

lemma resolveQaLines_ok:
  assumes "resolveQaLines db ls exclude = Inr rs"
  shows "list_all (resolved_qa_ok db exclude) rs" and "distinct (map rql_receiptLineId rs)"
proof -
  from assms obtain acc receipts factors keys where one: "foldE checkQaLine ls [] = Inr acc"
    and rc: "mapE (lockReceipt db) keys = Inr receipts"
    and rs: "mapE (resolveQaLine db receipts factors exclude) (zip [1..<Suc (length ls)] ls) = Inr rs"
    by (auto simp: resolveQaLines_def res_iff)
  have each: "resolved_qa_ok db exclude (rs ! i) \<and> rql_receiptLineId (rs ! i) = qi_receiptLineId (ls ! i)"
    if "i < length ls" for i
  proof -
    have "zip [1..<Suc (length ls)] ls ! i = (Suc i, ls ! i)" using that by (simp del: upt_Suc)
    with mapE_nth [OF rs, of i] that have "resolveQaLine db receipts factors exclude (Suc i, ls ! i) = Inr (rs ! i)"
      by (simp del: upt_Suc)
    from resolveQaLine_ok [OF this rc] show ?thesis .
  qed
  have len: "length rs = length ls" using mapE_length [OF rs] by (simp del: upt_Suc)
  with each show "list_all (resolved_qa_ok db exclude) rs" by (simp add: list_all_length)
  have "map rql_receiptLineId rs = map qi_receiptLineId ls" using len each by (intro nth_equalityI) simp_all
  with checkQaLines_distinct [OF one] show "distinct (map rql_receiptLineId rs)" by simp
qed

definition inserted_as :: "string \<Rightarrow> resolved_qa_line \<Rightarrow> qa_line \<Rightarrow> bool" where
  "inserted_as rid r l \<longleftrightarrow> ql_releaseId l = rid \<and> ql_postingLineId l = None \<and> 0 < ql_releaseQuantity l \<and>
     ql_receiptLineId l = rql_receiptLineId r \<and> ql_quarantineLotId l = rql_quarantineLotId r \<and>
     parseFixed (rql_releaseQuantity r) 6 = Inr (ql_releaseQuantity l)"

lemma insertQaLine_Inr:
  assumes "insertQaLine e rid r db = Inr db'"
  obtains l where "db' = db\<lparr>rt_releaseLines := rt_releaseLines db @ [l], db_ids := Suc (db_ids db)\<rparr>" "inserted_as rid r l"
    "ql_id l \<notin> ql_id ` set (rt_releaseLines db)"
proof -
  from assms obtain q f where num: "db_numeric 6 (rql_releaseQuantity r) = Inr q" "0 < q"
    and new: "\<forall>x \<in> set (rt_releaseLines db). ql_id x \<noteq> env_uuid e (db_ids db)"
    and db': "db' = db\<lparr>rt_releaseLines := rt_releaseLines db @
              [\<lparr>ql_id = env_uuid e (db_ids db), ql_releaseId = rid, ql_lineNo = rql_lineNo r,
                ql_itemId = rql_itemId r, ql_quarantineLotId = rql_quarantineLotId r,
                ql_receiptLineId = rql_receiptLineId r, ql_releaseQuantity = q,
                ql_enteredUom = rql_enteredUom r, ql_conversionFactor = f,
                ql_postingLineId = None, ql_remarks = rql_remarks r\<rparr>],
              db_ids := Suc (db_ids db)\<rparr>"
    unfolding insertQaLine_def by (auto simp: res_iff)
  have "env_uuid e (db_ids db) \<notin> ql_id ` set (rt_releaseLines db)" using new by auto
  then show thesis using that [OF db'] num db_numeric_parse [OF num(1)] by (simp add: inserted_as_def)
qed

lemma insertQaLines_Inr:
  fixes db :: "'z return_db_scheme"
  assumes "insertQaLines e rid rs db = Inr db'" and "distinct (map ql_id (rt_releaseLines db))"
  obtains new n where "db' = db\<lparr>rt_releaseLines := rt_releaseLines db @ new, db_ids := n\<rparr>"
    "list_all2 (inserted_as rid) rs new" "distinct (map ql_id (rt_releaseLines db @ new))"
  using assms unfolding insertQaLines_def
proof (induction rs arbitrary: db thesis)
  case Nil
  have "db' = db" using Nil.prems(2) by simp
  then show ?case using Nil.prems(3) by (intro Nil.prems(1) [of "db_ids db" "[]"]) simp_all
next
  case (Cons r rs)
  from Cons.prems(2) obtain db1 where step: "insertQaLine e rid r db = Inr db1"
    and rest: "foldE (insertQaLine e rid) rs db1 = Inr db'" by (auto simp: res_iff)
  from insertQaLine_Inr [OF step] obtain l where
    db1: "db1 = db\<lparr>rt_releaseLines := rt_releaseLines db @ [l], db_ids := Suc (db_ids db)\<rparr>" and l: "inserted_as rid r l"
    "ql_id l \<notin> ql_id ` set (rt_releaseLines db)" .
  have "distinct (map ql_id (rt_releaseLines db1))" using Cons.prems(3) l by (simp add: db1)
  from Cons.IH [OF _ rest this] obtain new n where
    "db' = db1\<lparr>rt_releaseLines := rt_releaseLines db1 @ new, db_ids := n\<rparr>" "list_all2 (inserted_as rid) rs new"
    "distinct (map ql_id (rt_releaseLines db1 @ new))" .
  then show ?case using l by (intro Cons.prems(1) [of n "l # new"]) (simp_all add: db1)
qed

lemma inserted_fresh:
  assumes "list_all2 (inserted_as rid) rs new" and "list_all (resolved_qa_ok db exclude) rs"
    and kept: "kept = filter (\<lambda>l. exclude \<noteq> Some (ql_releaseId l)) (rt_releaseLines db)"
  shows "list_all (fresh_qline (rt_receipts db) (rt_releases db) kept rid) new"
    and "map ql_receiptLineId new = map rql_receiptLineId rs"
proof -
  have one: "fresh_qline (rt_receipts db) (rt_releases db) kept rid l"
    if ins: "inserted_as rid r l" and ok: "resolved_qa_ok db exclude r" for r l
  proof -
    from ok obtain rc where rc: "rc \<in> set (rt_receipts db)" "rc_id rc = rql_receiptLineId r"
      "rc_quarantineLotId rc = rql_quarantineLotId r" "reusable (rc_reasonCode rc)"
      and q: "\<forall>q. parseFixed (rql_releaseQuantity r) 6 = Inr q \<longrightarrow>
        q \<le> rc_receivedQuantity rc - siblingSum db exclude (rc_id rc)" unfolding resolved_qa_ok_def by blast
    with ins show ?thesis unfolding fresh_qline_def qline_ok_def inserted_as_def siblingSum_booked kept by metis
  qed
  show "list_all (fresh_qline (rt_receipts db) (rt_releases db) kept rid) new"
    using assms(1,2) by (induction rule: list_all2_induct) (auto intro: one)
  show "map ql_receiptLineId new = map rql_receiptLineId rs"
    using assms(1) by (induction rule: list_all2_induct) (auto simp: inserted_as_def)
qed

lemma insertQaLines_same:
  "insertQaLines e rid rs db = Inr db' \<Longrightarrow>
   stock_inv db' = stock_inv db \<and> rt_batches db' = rt_batches db \<and> rt_lines db' = rt_lines db \<and>
   rt_receipts db' = rt_receipts db \<and> rt_releases db' = rt_releases db"
  unfolding insertQaLines_def
  by (erule foldE_invariant [where P = "\<lambda>x. stock_inv x = stock_inv db \<and> rt_batches x = rt_batches db \<and>
      rt_lines x = rt_lines db \<and> rt_receipts x = rt_receipts db \<and> rt_releases x = rt_releases db"])
    (auto simp: insertQaLine_def res_iff stock_inv_def)

lemma create_qa_safe: "createQaReleaseDraft e now inp db = (db', res) \<Longrightarrow> qa_safe db db'"
  unfolding createQaReleaseDraft_def
proof (rule run_tx_relation, assumption, goal_cases)
  case (1 db1 v)
  then obtain a hqMain qua rs dbo dbl aud where rs: "resolveQaLines db (cq_lines inp) None = Inr rs"
    and ins: "insertRelease (draftRelease e now inp a qua hqMain db) db = Inr dbo"
    and lines: "insertQaLines e (qr_id (draftRelease e now inp a qua hqMain db)) rs dbo = Inr dbl"
    and db1: "db1 = writeAudit aud dbl"
    by (auto simp: res_iff Let_def)
  let ?q = "draftRelease e now inp a qua hqMain db"
  from ins have fresh: "qr_id ?q \<notin> qr_id ` set (rt_releases db)"
    and dbo: "dbo = db\<lparr>rt_releases := rt_releases db @ [?q], db_ids := Suc (Suc (db_ids db))\<rparr>"
    by (auto simp: insertRelease_def split: if_splits)
  have st: "qr_status ?q = QR_DRAFT" by (simp add: draftRelease_def)
  note same = insertQaLines_same [OF lines]
  show ?case
    unfolding qa_safe_def db1 writeAudit_returns
  proof (intro conjI impI)
    assume ok: "releases_ok (rt_receipts db) (rt_releases db) (rt_releaseLines db)"
      and ids: "distinct (map rc_id (rt_receipts db))"
    have "distinct (map ql_id (rt_releaseLines dbo))" using releases_okD(2) [OF ok] by (simp add: dbo)
    from insertQaLines_Inr [OF lines this] obtain new n where
      dbl: "dbl = dbo\<lparr>rt_releaseLines := rt_releaseLines dbo @ new, db_ids := n\<rparr>"
      and new: "list_all2 (inserted_as (qr_id ?q)) rs new" "distinct (map ql_id (rt_releaseLines dbo @ new))" .
    note rs' = resolveQaLines_ok [OF rs]
    note fr = inserted_fresh [OF new(1) rs'(1) refl]
    have f1: "list_all (fresh_qline (rt_receipts db) (rt_releases db) (rt_releaseLines db) (qr_id ?q)) new"
      using fr(1) by simp
    have f2: "distinct (map ql_receiptLineId new)" using fr(2) rs'(2) by simp
    have f3: "distinct (map ql_id (rt_releaseLines db @ new))" using new(2) by (simp add: dbo)
    note cr = releases_create [OF ok ids fresh st f1 f2 f3]
    show "releases_ok (rt_receipts dbl) (rt_releases dbl) (rt_releaseLines dbl)" using cr(1) by (simp add: dbl dbo)
    show "releases_step (rt_releases db) (rt_releaseLines db) (rt_releases dbl) (rt_releaseLines dbl)"
      using cr(2) by (simp add: dbl dbo)
  qed (use same in \<open>simp_all add: dbo\<close>)
qed simp

lemma replaceQaLines_Inr:
  fixes db :: "'z return_db_scheme"
  assumes "replaceQaLines e r lsi db = Inr db1" and "distinct (map ql_id (rt_releaseLines db))"
  shows "rt_releaseLines db1 = rt_releaseLines db \<or>
    (\<exists>new. rt_releaseLines db1 = filter (\<lambda>l. ql_releaseId l \<noteq> qr_id r) (rt_releaseLines db) @ new \<and>
       list_all (fresh_qline (rt_receipts db) (rt_releases db)
         (filter (\<lambda>l. ql_releaseId l \<noteq> qr_id r) (rt_releaseLines db)) (qr_id r)) new \<and>
       distinct (map ql_receiptLineId new) \<and> distinct (map ql_id (rt_releaseLines db1)))"
proof (cases lsi)
  case None
  with assms(1) show ?thesis by (simp add: replaceQaLines_def)
next
  case (Some ls)
  let ?kept = "filter (\<lambda>l. ql_releaseId l \<noteq> qr_id r) (rt_releaseLines db)"
  from Some assms(1) obtain rs dbd where rs: "resolveQaLines db ls (Some (qr_id r)) = Inr rs"
    and dbd: "dbd = db\<lparr>rt_releaseLines := ?kept\<rparr>"
    and ins: "insertQaLines e (qr_id r) rs dbd = Inr db1"
    by (auto simp: replaceQaLines_def deleteQaLines_def res_iff)
  have "distinct (map ql_id (rt_releaseLines dbd))" using assms(2) by (simp add: dbd distinct_map_filter)
  from insertQaLines_Inr [OF ins this] obtain new n where
    db1: "db1 = dbd\<lparr>rt_releaseLines := rt_releaseLines dbd @ new, db_ids := n\<rparr>"
    and new: "list_all2 (inserted_as (qr_id r)) rs new" "distinct (map ql_id (rt_releaseLines dbd @ new))" .
  note rs' = resolveQaLines_ok [OF rs]
  have kept: "?kept = filter (\<lambda>l. Some (qr_id r) \<noteq> Some (ql_releaseId l)) (rt_releaseLines db)"
    by (rule filter_cong) auto
  note fr = inserted_fresh [OF new(1) rs'(1) kept]
  have "distinct (map ql_receiptLineId new)" using fr(2) rs'(2) by simp
  with fr(1) new(2) show ?thesis by (simp add: db1 dbd)
qed

lemma replaceQaLines_same:
  "replaceQaLines e r lsi db = Inr db' \<Longrightarrow>
   stock_inv db' = stock_inv db \<and> rt_batches db' = rt_batches db \<and> rt_lines db' = rt_lines db \<and>
   rt_receipts db' = rt_receipts db \<and> rt_releases db' = rt_releases db"
  by (auto simp: replaceQaLines_def deleteQaLines_def res_iff dest!: insertQaLines_same split: option.splits)

lemma update_qa_safe: "updateQaReleaseDraft e inp db = (db', res) \<Longrightarrow> qa_safe db db'"
  unfolding updateQaReleaseDraft_def
proof (rule run_tx_relation, assumption, goal_cases)
  case (1 db1 v)
  let ?f = "\<lambda>r x. (case uq_remarks inp of None \<Rightarrow> x | Some m \<Rightarrow> x\<lparr>qr_remarks := m\<rparr>)\<lparr>qr_version := qr_version r + 1\<rparr>"
  from 1 obtain a r hq dbl u where op: "openRelease (qa_action.truncate inp) QA_RELEASE_ROLES db = Inr (a, r, hq)"
    and st: "qr_status r = QR_DRAFT" "qr_version r = qa_expectedVersion inp"
    and rl: "replaceQaLines e r (uq_lines inp) db = Inr dbl"
    and upd: "moveRelease (qa_action.truncate inp) r (?f r) dbl = Inr (db1, u)"
    by (auto simp: res_iff qa_action.defs)
  from op have mem: "r \<in> set (rt_releases db)" by (rule openRelease_Inr)
  let ?hit = "\<lambda>y. qr_id y = qr_id r \<and> qr_status y = qr_status r \<and> qr_version y = qa_expectedVersion (qa_action.truncate inp)"
  from moveRelease_Inr [OF upd] have db1: "db1 = dbl\<lparr>rt_releases := update_where ?hit (?f r) (rt_releases dbl)\<rparr>"
    by (rule updateRelease_Some)
  note same = replaceQaLines_same [OF rl]
  show ?case
    unfolding qa_safe_def
  proof (intro conjI impI)
    assume ok: "releases_ok (rt_receipts db) (rt_releases db) (rt_releaseLines db)"
      and ids: "distinct (map rc_id (rt_receipts db))"
    note rl' = replaceQaLines_Inr [OF rl releases_okD(2) [OF ok]]
    have mv: "release_moves r (?f r r)" "qr_status (?f r r) = QR_DRAFT"
      using st by (auto simp: release_moves_def release_lifecycle_def split: option.splits)
    have hit: "?hit r" using st by (simp add: qa_action.defs)
    have only: "\<And>y. ?hit y \<Longrightarrow> qr_id y = qr_id r" by simp
    note rd = releases_redraft [where hit = ?hit and x = r and f = "?f r", OF ok ids mem hit st(1) only mv rl']
    show "releases_ok (rt_receipts db1) (rt_releases db1) (rt_releaseLines db1)" using rd(1) same by (simp add: db1)
    show "releases_step (rt_releases db) (rt_releaseLines db) (rt_releases db1) (rt_releaseLines db1)"
      using rd(2) same by (simp add: db1)
  qed (use same in \<open>simp_all add: db1\<close>)
qed simp

end
