(* ===== verification/QaPhases.thy ===== *)
theory QaPhases
  imports ReturnPhases QaLaws
begin

text \<open>
  The transactions of a release: what a prepared request knows of the tables, that no step of the tables
  invalidates it, and what the finalizing transaction does.
\<close>

section \<open>Prepared requests\<close>

definition qa_flight_ok :: "qa_action \<Rightarrow> prepared_release \<Rightarrow> qa_release list \<Rightarrow> qa_line list \<Rightarrow> bool" where
  "qa_flight_ok inp p rs ls \<longleftrightarrow>
     (\<exists>x \<in> set rs. qr_id x = qr_id (pq_release p) \<and> qr_status x \<in> {QR_APPROVED, QR_RELEASED, QR_CANCELLED} \<and>
        (qr_status x = QR_APPROVED \<longrightarrow> x = pq_release p \<and> qr_version x = qa_expectedVersion inp) \<and>
        qline_key ` release_lines ls (qr_id x) = qline_key ` fst ` set (pq_lines p))"

lemma release_lifecycle_past:
  "release_moves x y \<Longrightarrow> qr_status x \<in> {QR_APPROVED, QR_RELEASED, QR_CANCELLED} \<Longrightarrow>
     qr_status y \<in> {QR_APPROVED, QR_RELEASED, QR_CANCELLED}"
  "release_moves x y \<Longrightarrow> qr_status x \<in> {QR_APPROVED, QR_RELEASED, QR_CANCELLED} \<Longrightarrow>
     qr_status y = QR_APPROVED \<Longrightarrow> y = x"
  by (auto simp: release_moves_def release_lifecycle_def)

lemma qa_flight_stable:
  assumes "releases_step rs ls rs' ls'" and "qa_flight_ok inp p rs ls"
  shows "qa_flight_ok inp p rs' ls'"
proof -
  from assms(2) obtain x where x: "x \<in> set rs" "qr_id x = qr_id (pq_release p)"
    and st: "qr_status x \<in> {QR_APPROVED, QR_RELEASED, QR_CANCELLED}"
    and same: "qr_status x = QR_APPROVED \<longrightarrow> x = pq_release p \<and> qr_version x = qa_expectedVersion inp"
    and lines: "qline_key ` release_lines ls (qr_id x) = qline_key ` fst ` set (pq_lines p)"
    unfolding qa_flight_ok_def by blast
  from st have "qr_status x \<noteq> QR_DRAFT" by auto
  with assms(1) x(1) obtain y where y: "y \<in> set rs'" "release_moves x y"
    "qline_key ` release_lines ls' (qr_id x) = qline_key ` release_lines ls (qr_id x)" unfolding releases_step_def by blast
  have "qr_id y = qr_id x" using y(2) by (simp add: release_moves_def)
  then show ?thesis
    using x(2) same lines y release_lifecycle_past(1) [OF y(2) st] release_lifecycle_past(2) [OF y(2) st]
    unfolding qa_flight_ok_def by metis
qed

section \<open>Preparing\<close>

lemma releasedLine_Inr:
  assumes "releasedLine e r l (db, d) = Inr (db', d')"
  obtains lot u where "d' = d @ [(l, lot, u)]" "lots_grow db db'"
    "\<exists>t \<in> set (db_lots db'). l_id t = lot \<and> l_itemId t = ql_itemId l \<and> l_lotCode t = releasedLotCode r l"
proof -
  from assms obtain t where t: "List.find (\<lambda>t. l_id t = ql_quarantineLotId l) (db_lots db) = Some t"
    by (auto simp: releasedLine_def split: option.splits)
  let ?u = "case List.find (\<lambda>i. i_id i = ql_itemId l) (db_items db) of Some i \<Rightarrow> i_unit i | None \<Rightarrow> ql_enteredUom l"
  from assms t obtain db1 lot where
    new: "ensureReleasedLot e (ql_itemId l) (releasedLotCode r l) (l_unitCost t) db = Inr (db1, lot)"
    and gen: "ensureLotGenealogyWith (QaPassed DbCheckViolation) (l_id t) lot (ql_releaseQuantity l)
                      (releaseKey r) db1 = Inr db'"
    and d': "d' = d @ [(l, lot, ?u)]"
    by (auto simp: releasedLine_def res_iff)
  from new obtain lots n where db1: "db1 = db\<lparr>db_lots := lots, db_ids := n\<rparr>" and sub: "set (db_lots db) \<subseteq> set lots"
    and t: "\<exists>t \<in> set lots. l_id t = lot \<and> l_itemId t = ql_itemId l \<and> l_lotCode t = releasedLotCode r l"
    unfolding ensureReleasedLot_def by (rule ensureLotWith_Inr)
  from gen obtain g where db': "db' = db1\<lparr>rt_genealogy := g\<rparr>" by (rule ensureLotGenealogyWith_Inr)
  have "db' = db\<lparr>db_lots := lots, rt_genealogy := g, db_ids := n\<rparr>" by (simp add: db' db1)
  then have "lots_grow db db'" using sub unfolding lots_grow_def by blast
  moreover have "db_lots db' = lots" by (simp add: db' db1)
  ultimately show thesis using that d' t by simp
qed

lemma released_loop:
  assumes "foldE (releasedLine e r) ls (db, d) = Inr (db', rec)"
  shows "\<exists>new. rec = d @ new \<and> map fst new = ls \<and> lots_grow db db' \<and>
    (\<forall>(l, lot, u) \<in> set new.
       \<exists>t \<in> set (db_lots db'). l_id t = lot \<and> l_itemId t = ql_itemId l \<and> l_lotCode t = releasedLotCode r l)"
  using assms
proof (induction ls arbitrary: db d)
  case Nil
  then show ?case by (intro exI [of _ "[]"]) simp
next
  case (Cons l ls)
  from Cons.prems obtain db1 d1 where one: "releasedLine e r l (db, d) = Inr (db1, d1)"
    and rest: "foldE (releasedLine e r) ls (db1, d1) = Inr (db', rec)" by (auto simp: res_iff)
  from one obtain lot u where d1: "d1 = d @ [(l, lot, u)]" and g1: "lots_grow db db1"
    and t: "\<exists>t \<in> set (db_lots db1). l_id t = lot \<and> l_itemId t = ql_itemId l \<and> l_lotCode t = releasedLotCode r l"
    by (rule releasedLine_Inr)
  from Cons.IH [OF rest] obtain new where new: "rec = d1 @ new" "map fst new = ls" "lots_grow db1 db'"
    "\<forall>(l, lot, u) \<in> set new.
       \<exists>t \<in> set (db_lots db'). l_id t = lot \<and> l_itemId t = ql_itemId l \<and> l_lotCode t = releasedLotCode r l" by blast
  have "\<exists>t \<in> set (db_lots db'). l_id t = lot \<and> l_itemId t = ql_itemId l \<and> l_lotCode t = releasedLotCode r l"
    using t lots_grow_same(5) [OF new(3)] by blast
  then show ?case
    using new d1 lots_grow_trans [OF g1 new(3)] by (intro exI [of _ "(l, lot, u) # new"]) simp
qed

lemma prepareQaRelease_Inr:
  fixes db :: "'z return_db_scheme"
  assumes "prepareQaRelease e inp db = Inr (db', p)"
  obtains db1 where "pq_release p \<in> set (rt_releases db)" "qr_id (pq_release p) = qa_releaseId inp"
    "qr_status (pq_release p) \<in> {QR_APPROVED, QR_RELEASED}"
    "qr_status (pq_release p) = QR_APPROVED \<longrightarrow> qr_version (pq_release p) = qa_expectedVersion inp"
    "foldE (releasedLine e (pq_release p)) (releaseLines (rt_releaseLines db) (qr_id (pq_release p))) (db, []) =
       Inr (db1, pq_lines p)"
    "ensureQaDocument e QA_RELEASE_MODULE (releaseKey (pq_release p)) (pq_hqLocation p) ''APPROVED'' db1 =
       Inr (db', pq_docId p)"
  using assms that unfolding prepareQaRelease_def by (auto simp: res_iff Let_def elim!: openRelease_Inr)

lemma ensureQaDocument_same:
  fixes db :: "'z return_db_scheme"
  assumes "ensureQaDocument e m n l s db = Inr (db', did)"
  shows "rt_same db db'" "stock_inv db' = stock_inv db" "on_hand db' = on_hand db" "db_postings db' = db_postings db"
proof -
  from assms obtain docs k where "db' = db\<lparr>db_documents := docs, db_ids := k\<rparr>"
    unfolding ensureQaDocument_def by (rule ensureDocumentWith_tables)
  then show "rt_same db db'" "stock_inv db' = stock_inv db" "on_hand db' = on_hand db" "db_postings db' = db_postings db"
    by (simp_all add: rt_same_def stock_inv_def on_hand_def fun_eq_iff)
qed

lemma prepareQaRelease_frame:
  fixes db :: "'z return_db_scheme"
  assumes "prepareQaRelease e inp db = Inr (db', p)"
  shows "rt_same db db'" "stock_inv db' = stock_inv db" "on_hand db' = on_hand db" "db_postings db' = db_postings db"
    "map fst (pq_lines p) = releaseLines (rt_releaseLines db) (qr_id (pq_release p))"
proof -
  from assms obtain db1 where
    lots: "foldE (releasedLine e (pq_release p)) (releaseLines (rt_releaseLines db) (qr_id (pq_release p))) (db, []) =
       Inr (db1, pq_lines p)"
    and doc: "ensureQaDocument e QA_RELEASE_MODULE (releaseKey (pq_release p)) (pq_hqLocation p) ''APPROVED'' db1 =
       Inr (db', pq_docId p)" by (rule prepareQaRelease_Inr)
  from released_loop [OF lots] have g: "lots_grow db db1"
    and l: "map fst (pq_lines p) = releaseLines (rt_releaseLines db) (qr_id (pq_release p))" by auto
  note s = lots_grow_same [OF g] and d = ensureQaDocument_same [OF doc]
  show "rt_same db db'" using s(1) d(1) by (rule rt_same_trans)
  show "stock_inv db' = stock_inv db" "on_hand db' = on_hand db" "db_postings db' = db_postings db"
    "map fst (pq_lines p) = releaseLines (rt_releaseLines db) (qr_id (pq_release p))" using d s l by simp_all
qed

lemma prepareQaRelease_ok:
  fixes db :: "'z return_db_scheme"
  assumes "prepareQaRelease e inp db = Inr (db', p)"
  shows "qa_flight_ok inp p (rt_releases db') (rt_releaseLines db')" and "qa_safe db db'"
proof -
  note fr = prepareQaRelease_frame [OF assms]
  have "fst ` set (pq_lines p) = release_lines (rt_releaseLines db) (qr_id (pq_release p))"
    using arg_cong [OF fr(5), of set] by simp
  moreover from assms have "pq_release p \<in> set (rt_releases db)"
    "qr_status (pq_release p) \<in> {QR_APPROVED, QR_RELEASED}"
    "qr_status (pq_release p) = QR_APPROVED \<longrightarrow> qr_version (pq_release p) = qa_expectedVersion inp"
    by (auto elim: prepareQaRelease_Inr)
  ultimately show "qa_flight_ok inp p (rt_releases db') (rt_releaseLines db')"
    using fr(1) unfolding qa_flight_ok_def rt_same_def by (intro bexI [of _ "pq_release p"]) auto
  show "qa_safe db db'" using fr by (intro qa_safe_same) simp_all
qed

section \<open>Finalizing\<close>

text \<open>A line row is stamped once with the id of its ledger row.\<close>

definition qa_stamped :: "prepared_qa_line set \<Rightarrow> qa_line \<Rightarrow> qa_line \<Rightarrow> bool" where
  "qa_stamped P l l' \<longleftrightarrow> l' = l \<or>
     ql_postingLineId l = None \<and> (\<exists>k \<in> P. ql_id (fst k) = ql_id l) \<and> (\<exists>pl. l' = l\<lparr>ql_postingLineId := Some pl\<rparr>)"

lemma stampQaLine_turn:
  assumes "stampQaLine ids pl db = Inr db'"
  shows "\<exists>ls. db' = db\<lparr>rt_releaseLines := ls\<rparr> \<and> list_all2 (qa_stamped {pl}) (rt_releaseLines db) ls \<and>
     (\<forall>l \<in> set ls. ql_id l = (ql_id \<circ> fst) pl \<longrightarrow> ql_postingLineId l \<noteq> None)"
proof -
  let ?hit = "\<lambda>x. ql_id x = ql_id (fst pl) \<and> ql_postingLineId x = None"
  from assms obtain outId where outId: "truthy (map_of ids (ql_id (fst pl), OUT)) = Some outId"
    by (cases "truthy (map_of ids (ql_id (fst pl), OUT))") (simp_all add: stampQaLine_def Let_def)
  let ?ls = "update_where ?hit (\<lambda>x. x\<lparr>ql_postingLineId := Some outId\<rparr>) (rt_releaseLines db)"
  from assms outId have db': "db' = db\<lparr>rt_releaseLines := ?ls\<rparr>"
    by (simp add: stampQaLine_def Let_def res_iff)
  have "list_all2 (qa_stamped {pl}) (rt_releaseLines db) ?ls"
    by (rule all2_update_where) (auto simp: qa_stamped_def)
  moreover have "\<forall>l \<in> set ?ls. ql_id l = (ql_id \<circ> fst) pl \<longrightarrow> ql_postingLineId l \<noteq> None"
    by (auto simp: update_where_def)
  ultimately show ?thesis using db' by blast
qed

interpretation qa_stamping: row_stamping "stampQaLine ids" rt_releaseLines "\<lambda>ls db. db\<lparr>rt_releaseLines := ls\<rparr>"
  ql_id "ql_id \<circ> fst" qa_stamped "\<lambda>l. ql_postingLineId l \<noteq> None" for ids
proof unfold_locales
  show "qa_stamped P x y \<Longrightarrow> qa_stamped Q y z \<Longrightarrow> qa_stamped (P \<union> Q) x z" for P Q x y z
    unfolding qa_stamped_def by auto
qed (use stampQaLine_turn in \<open>auto simp: qa_stamped_def\<close>)

lemma finalizeQaRelease_Inr:
  fixes db :: "'z return_db_scheme"
  assumes "finalizeQaRelease inp p res db = Inr (db', v)"
  obtains (moved) ls db1 u aud where "list_all2 (qa_stamped (set (pq_lines p))) (rt_releaseLines db) ls"
      "\<forall>l \<in> set ls. ql_id l \<in> (ql_id \<circ> fst) ` set (pq_lines p) \<longrightarrow> ql_postingLineId l \<noteq> None"
      "updateRelease (qr_id (pq_release p)) QR_APPROVED (qa_expectedVersion inp)
         (\<lambda>x. x\<lparr>qr_status := QR_RELEASED, qr_releaseDocumentId := Some (pq_docId p),
                qr_releasedBy := Some (ac_id (pq_actor p)), qr_version := qr_version (pq_release p) + 1\<rparr>)
         (db\<lparr>rt_releaseLines := ls\<rparr>) = Inr (Some (db1, u))"
      "db' = writeAudit aud db1"
    | (before) ls y where "list_all2 (qa_stamped (set (pq_lines p))) (rt_releaseLines db) ls"
      "y \<in> set (rt_releases db)" "qr_id y = qr_id (pq_release p)" "qr_status y = QR_RELEASED"
      "db' = db\<lparr>rt_releaseLines := ls\<rparr>"
proof -
  let ?f = "\<lambda>x. x\<lparr>qr_status := QR_RELEASED, qr_releaseDocumentId := Some (pq_docId p),
                qr_releasedBy := Some (ac_id (pq_actor p)), qr_version := qr_version (pq_release p) + 1\<rparr>"
  from assms obtain db1 u where loop: "foldE (stampQaLine (ledgerIds ''qaReleaseLineId'' (pr_postingId res) db)) (pq_lines p) db = Inr db1"
    and upd: "updateRelease (qr_id (pq_release p)) QR_APPROVED (qa_expectedVersion inp) ?f db1 = Inr u"
    and rest: "case u of
        Some (db2, x) \<Rightarrow> \<exists>aud. db' = writeAudit aud db2
      | None \<Rightarrow> \<exists>y. List.find (\<lambda>y. qr_id y = qr_id (pq_release p)) (rt_releases db1) = Some y \<and> qr_status y = QR_RELEASED \<and>
          db' = db1"
    by (fastforce simp: finalizeQaRelease_def Let_def res_iff split: option.splits if_splits prod.splits)
  from qa_stamping.loop [OF loop] obtain ls where db1: "db1 = db\<lparr>rt_releaseLines := ls\<rparr>"
    and all: "list_all2 (qa_stamped (set (pq_lines p))) (rt_releaseLines db) ls"
    and st: "\<forall>l \<in> set ls. ql_id l \<in> (ql_id \<circ> fst) ` set (pq_lines p) \<longrightarrow> ql_postingLineId l \<noteq> None" by blast
  show thesis
  proof (cases u)
    case None
    with rest obtain y where y: "List.find (\<lambda>y. qr_id y = qr_id (pq_release p)) (rt_releases db1) = Some y"
      "qr_status y = QR_RELEASED" "db' = db1" by auto
    from find_Some_mem [OF y(1)] have "y \<in> set (rt_releases db)" "qr_id y = qr_id (pq_release p)" by (simp_all add: db1)
    then show thesis using before [OF all] y db1 by blast
  next
    case (Some du)
    obtain db2 x where du: "du = (db2, x)" by (cases du)
    with Some rest obtain aud where "db' = writeAudit aud db2" by auto
    then show thesis using moved [OF all st] upd Some du db1 by blast
  qed
qed

text \<open>Stamping changes no key and no line of another release.\<close>

lemma stamped_releases:
  assumes all: "list_all2 (qa_stamped P) ls0 ls"
  shows "map ql_id ls = map ql_id ls0"
    and "\<And>rs i. booked rs ls i = booked rs ls0 i"
    and "\<And>j. qline_key ` release_lines ls j = qline_key ` release_lines ls0 j"
    and "\<And>rcs. (\<forall>l \<in> set ls0. qline_ok rcs l) \<Longrightarrow> (\<forall>l \<in> set ls. qline_ok rcs l)"
    and "\<And>l. l \<in> set ls \<Longrightarrow> \<exists>l0 \<in> set ls0. qa_stamped P l0 l"
proof -
  have same: "ql_id l = ql_id l0" "ql_releaseId l = ql_releaseId l0" "qline_key l = qline_key l0"
    "ql_receiptLineId l = ql_receiptLineId l0" "ql_releaseQuantity l = ql_releaseQuantity l0"
    "ql_quarantineLotId l = ql_quarantineLotId l0" if "qa_stamped P l0 l" for l0 l
    using that by (auto simp: qa_stamped_def qline_key_def)
  show "map ql_id ls = map ql_id ls0" using all by (induction rule: list_all2_induct) (auto simp: same)
  show "booked rs ls i = booked rs ls0 i" for rs i
    using all by (induction rule: list_all2_induct) (auto simp: booked_def same)
  show "qline_key ` release_lines ls j = qline_key ` release_lines ls0 j" for j
  proof -
    have rl: "release_lines [] j = {}" "release_lines (x # xs) j = (if ql_releaseId x = j then {x} else {}) \<union> release_lines xs j"
      for x xs by (auto simp: release_lines_def)
    show ?thesis using all by (induction rule: list_all2_induct) (auto simp: same rl)
  qed
  show "\<forall>l \<in> set ls. qline_ok rcs l" if "\<forall>l \<in> set ls0. qline_ok rcs l" for rcs
  proof
    fix l assume "l \<in> set ls"
    from all2_mem [OF all this] obtain l0 where l0: "l0 \<in> set ls0" "qa_stamped P l0 l" by blast
    with that have "qline_ok rcs l0" by blast
    then show "qline_ok rcs l" unfolding qline_ok_def same [OF l0(2)] .
  qed
  show "\<exists>l0 \<in> set ls0. qa_stamped P l0 l" if "l \<in> set ls" for l using all that by (rule all2_mem)
qed

lemma finalizeQaRelease_safe:
  fixes db :: "'z return_db_scheme"
  assumes fin: "finalizeQaRelease inp p res db = Inr (db', v)"
    and ok: "qa_flight_ok inp p (rt_releases db) (rt_releaseLines db)"
  shows "qa_safe db db'"
proof -
  let ?r = "pq_release p"
  let ?f = "\<lambda>x. x\<lparr>qr_status := QR_RELEASED, qr_releaseDocumentId := Some (pq_docId p),
                qr_releasedBy := Some (ac_id (pq_actor p)), qr_version := qr_version ?r + 1\<rparr>"
  let ?hit = "\<lambda>y. qr_id y = qr_id ?r \<and> qr_status y = QR_APPROVED \<and> qr_version y = qa_expectedVersion inp"
  from ok obtain x where x: "x \<in> set (rt_releases db)" "qr_id x = qr_id ?r"
    and appr: "qr_status x = QR_APPROVED \<longrightarrow> x = ?r \<and> qr_version x = qa_expectedVersion inp"
    and keys: "qline_key ` release_lines (rt_releaseLines db) (qr_id x) = qline_key ` fst ` set (pq_lines p)"
    unfolding qa_flight_ok_def by blast
  have only: "\<And>y. ?hit y \<Longrightarrow> qr_id y = qr_id x" using x(2) by simp
  text \<open>the prepared lines are lines of this release\<close>
  have own: "ql_releaseId l0 = qr_id x"
    if tab: "releases_ok (rt_receipts db) (rt_releases db) (rt_releaseLines db)"
      and "l0 \<in> set (rt_releaseLines db)" "k \<in> set (pq_lines p)" "ql_id (fst k) = ql_id l0" for l0 k
  proof -
    have "qline_key (fst k) \<in> qline_key ` release_lines (rt_releaseLines db) (qr_id x)" unfolding keys using that(3) by simp
    then obtain m where m: "m \<in> release_lines (rt_releaseLines db) (qr_id x)" "ql_id m = ql_id (fst k)"
      by (auto simp: qline_key_def)
    then have "m = l0" using row_by_key [OF releases_okD(2) [OF tab], of m l0] that(2,4) by (simp add: release_lines_def)
    with m(1) show ?thesis by (simp add: release_lines_def)
  qed
  have others: "release_lines ls i = release_lines (rt_releaseLines db) i"
    if tab: "releases_ok (rt_receipts db) (rt_releases db) (rt_releaseLines db)"
      and all: "list_all2 (qa_stamped (set (pq_lines p))) (rt_releaseLines db) ls" and i: "i \<noteq> qr_id x" for ls i
  proof -
    have one: "l = l0 \<or> ql_releaseId l0 = qr_id x \<and> ql_releaseId l = qr_id x"
      if "l0 \<in> set (rt_releaseLines db)" "qa_stamped (set (pq_lines p)) l0 l" for l0 l
      using that own [OF tab that(1)] by (auto simp: qa_stamped_def)
    have "list_all2 (\<lambda>l0 l. l = l0 \<or> ql_releaseId l0 = qr_id x \<and> ql_releaseId l = qr_id x) (rt_releaseLines db) ls"
      using all one by (auto simp: list_all2_conv_all_nth)
    moreover have rl: "release_lines [] i = {}"
      "release_lines (y # ys) i = (if ql_releaseId y = i then {y} else {}) \<union> release_lines ys i"
      for y ys by (auto simp: release_lines_def)
    ultimately show ?thesis using i by (induction rule: list_all2_induct) (auto simp: rl)
  qed
  from fin show ?thesis
  proof (cases rule: finalizeQaRelease_Inr)
    case (moved ls db1 u aud)
    note st = stamped_releases [OF moved(1)]
    from moved(3) obtain y where y: "y \<in> set (rt_releases db)" "qr_id y = qr_id ?r" "qr_status y = QR_APPROVED"
      and db1: "db1 = db\<lparr>rt_releaseLines := ls, rt_releases := update_where ?hit ?f (rt_releases db)\<rparr>"
      by (auto elim!: updateRelease_Some)
    show ?thesis unfolding qa_safe_def moved(4) writeAudit_returns
    proof (intro conjI impI)
      assume tab: "releases_ok (rt_receipts db) (rt_releases db) (rt_releaseLines db)"
      have "y = x" using row_by_key [OF releases_okD(1) [OF tab] y(1) x(1)] y(2) x(2) by simp
      with y(3) have st1: "qr_status x = QR_APPROVED" by simp
      from appr st1 have st2: "x = ?r \<and> qr_version x = qa_expectedVersion inp" by (rule mp)
      have hit: "?hit x" using st1 conjunct2 [OF st2] x(2) by simp
      have mv: "release_moves x (?f x)" using st1 st2 by (simp add: release_moves_def release_lifecycle_def)
      have dist: "distinct (map ql_id ls)" using releases_okD(2) [OF tab] st(1) by simp
      have lok: "\<And>l. l \<in> set ls \<Longrightarrow> ql_releaseId l = qr_id x \<Longrightarrow> qline_ok (rt_receipts db) l"
        using st(4) releases_okD(3) [OF tab] by blast
      have notc: "\<not> releaseCancelled (rt_releases db) (qr_id x)"
      proof
        assume "releaseCancelled (rt_releases db) (qr_id x)"
        then obtain z where z: "z \<in> set (rt_releases db)" "qr_id z = qr_id x" "qr_status z = QR_CANCELLED"
          unfolding releaseCancelled_iff [OF releases_okD(1) [OF tab]] by blast
        have "z = x" by (rule row_by_key [OF releases_okD(1) [OF tab] z(1) x(1) z(2)])
        with z(3) st1 show False by simp
      qed
      note canc = releaseCancelled_update [where x = x and hit = ?hit and f = ?f, OF releases_okD(1) [OF tab] x(1) hit only]
      have "booked (update_where ?hit ?f (rt_releases db)) ls i = booked (rt_releases db) (rt_releaseLines db) i" for i
        using st(2) [of "rt_releases db" i] by (subst booked_cong [where rs = "rt_releases db"]) (use canc notc in auto)
      then have quota: "\<And>r. r \<in> set (rt_receipts db) \<Longrightarrow>
          booked (update_where ?hit ?f (rt_releases db)) ls (rc_id r) \<le> rc_receivedQuantity r"
        using releases_okD(5) [OF tab] by simp
      have got: "ql_postingLineId l \<noteq> None" if l: "l \<in> release_lines ls (qr_id x)" for l
      proof -
        have "qline_key l \<in> qline_key ` fst ` set (pq_lines p)" using l st(3) [of "qr_id x"] keys by blast
        then obtain k where k: "k \<in> set (pq_lines p)" "qline_key l = qline_key (fst k)" by blast
        then have "ql_id l = (ql_id \<circ> fst) k" by (simp add: qline_key_def)
        with k(1) have "ql_id l \<in> (ql_id \<circ> fst) ` set (pq_lines p)" by blast
        moreover have "l \<in> set ls" using l by (simp add: release_lines_def)
        ultimately show ?thesis using moved(2) by blast
      qed
      have "qr_requestedBy x \<noteq> None \<and> qr_approvedBy x \<noteq> None \<and> qr_approvedBy x \<noteq> qr_requestedBy x"
        using releases_okD(6) [OF tab x(1)] st1 unfolding release_ok_def by blast
      then have new: "release_ok (release_lines ls (qr_id x)) (?f x)"
        using got unfolding release_ok_def by simp
      note ch = releases_change [where x = x and hit = ?hit and f = ?f and ls' = ls, OF tab x(1) hit only mv dist lok
          others [OF tab moved(1)] st(3) quota new]
      have e: "rt_releases db1 = update_where ?hit ?f (rt_releases db)" "rt_releaseLines db1 = ls"
        "rt_receipts db1 = rt_receipts db" unfolding db1 by simp_all
      show "releases_ok (rt_receipts db1) (rt_releases db1) (rt_releaseLines db1)" unfolding e by (rule ch(1))
      show "releases_step (rt_releases db) (rt_releaseLines db) (rt_releases db1) (rt_releaseLines db1)"
        unfolding e by (rule ch(2))
    qed (simp_all add: db1)
  next
    case (before ls y)
    show ?thesis unfolding qa_safe_def
    proof (intro conjI impI)
      assume tab: "releases_ok (rt_receipts db) (rt_releases db) (rt_releaseLines db)"
      have "y = x" using row_by_key [OF releases_okD(1) [OF tab] before(2) x(1)] before(3) x(2) by simp
      with before(4) have rel: "qr_status x = QR_RELEASED" by simp
      have same: "l = l0" if l0: "l0 \<in> set (rt_releaseLines db)" "qa_stamped (set (pq_lines p)) l0 l" for l0 l
      proof (rule ccontr)
        assume "l \<noteq> l0"
        with l0(2) obtain k where k: "ql_postingLineId l0 = None" "k \<in> set (pq_lines p)" "ql_id (fst k) = ql_id l0"
          by (auto simp: qa_stamped_def)
        with own [OF tab l0(1) k(2,3)] l0(1) releases_okD(6) [OF tab x(1)] rel show False
          by (auto simp: release_ok_def release_lines_def)
      qed
      have "ls = rt_releaseLines db"
      proof (rule nth_equalityI)
        show "length ls = length (rt_releaseLines db)" using before(1) by (simp add: list_all2_lengthD)
        fix i assume "i < length ls"
        with before(1) have "rt_releaseLines db ! i \<in> set (rt_releaseLines db)"
          "qa_stamped (set (pq_lines p)) (rt_releaseLines db ! i) (ls ! i)" by (auto simp: list_all2_conv_all_nth)
        then show "ls ! i = rt_releaseLines db ! i" by (rule same)
      qed
      with before(5) tab releases_step_refl
      show "releases_ok (rt_receipts db') (rt_releases db') (rt_releaseLines db')"
        "releases_step (rt_releases db) (rt_releaseLines db) (rt_releases db') (rt_releaseLines db')" by simp_all
    qed (simp_all add: before(5))
  qed
qed

end
