(* ===== verification/ReturnSteps.thy ===== *)
theory ReturnSteps
  imports QaPhases
begin

text \<open>
  Stock returns and QA releases under concurrent requests. A dispatch, a receipt and a release are three
  transactions; a request between two of them is a flight, and the steps of different requests
  interleave freely. The invariant: the tables are consistent and every flight still agrees with them.
\<close>

datatype return_flight =
    DispatchReady return_action return_dispatch
  | DispatchDone return_action return_dispatch
  | ReceiptReady return_action return_receipt
  | ReceiptDone return_action return_receipt posting_result
  | ReleaseReady qa_action prepared_release
  | ReleaseDone qa_action prepared_release posting_result
  | Refused string string

fun flight_agrees :: "'z return_db_scheme \<Rightarrow> return_flight \<Rightarrow> bool" where
  "flight_agrees db (DispatchReady inp p) = return_dispatch_ok inp p (rt_batches db) (rt_lines db)"
| "flight_agrees db (DispatchDone inp p) = return_dispatch_ok inp p (rt_batches db) (rt_lines db)"
| "flight_agrees db (ReceiptReady inp p) = return_receipt_ok inp p (rt_batches db) (rt_lines db)"
| "flight_agrees db (ReceiptDone inp p r) = return_receipt_ok inp p (rt_batches db) (rt_lines db)"
| "flight_agrees db (ReleaseReady inp p) = qa_flight_ok inp p (rt_releases db) (rt_releaseLines db)"
| "flight_agrees db (ReleaseDone inp p r) = qa_flight_ok inp p (rt_releases db) (rt_releaseLines db)"
| "flight_agrees db (Refused did status) = True"

definition rt_ok :: "'z return_db_scheme \<Rightarrow> bool" where
  "rt_ok db \<longleftrightarrow> stock_inv db \<and> returns_ok (rt_batches db) (rt_lines db) (rt_receipts db) \<and>
     releases_ok (rt_receipts db) (rt_releases db) (rt_releaseLines db)"

definition rt_moves :: "'z return_db_scheme \<Rightarrow> 'z return_db_scheme \<Rightarrow> bool" where
  "rt_moves db db' \<longleftrightarrow>
     returns_step (rt_batches db) (rt_lines db) (rt_receipts db) (rt_batches db') (rt_lines db') (rt_receipts db') \<and>
     releases_step (rt_releases db) (rt_releaseLines db) (rt_releases db') (rt_releaseLines db')"

section \<open>Returns and releases together\<close>

lemma receipts_positive:
  assumes ok: "returns_ok bs ls rcs" and r: "r \<in> set rcs"
  shows "0 < rc_receivedQuantity r"
proof -
  have "rc_batchLineId r \<in> bl_id ` set ls" using returns_okD(7) [OF ok] r by blast
  then obtain l where l: "l \<in> set ls" "bl_id l = rc_batchLineId r" by (metis imageE)
  from returns_okD(6) [OF ok l(1)] obtain b where b: "b \<in> set bs" "rb_id b = bl_batchId l" by (metis imageE)
  then have mem: "l \<in> batch_lines ls (rb_id b)" using l(1) by (simp add: batch_lines_def)
  have "bl_id l \<in> rc_batchLineId ` set rcs" using l(2) r by simp
  with returns_okD(8) [OF ok b(1)] mem obtain r' where r': "r' \<in> set rcs" "rc_batchLineId r' = bl_id l"
    "rc_receivedQuantity r' = bl_quantity l" unfolding batch_ok_def by metis
  have "r' = r" by (rule row_by_key [OF returns_okD(3) [OF ok] r'(1) r]) (simp add: r'(2) l(2))
  with r'(3) returns_okD(5) [OF ok l(1)] show ?thesis by (simp add: bline_ok_def)
qed

text \<open>New receipts have nothing booked against them.\<close>

lemma releases_ok_receipts:
  assumes ok: "releases_ok rcs rs ls" and sub: "set rcs \<subseteq> set rcs'" and ids: "distinct (map rc_id rcs')"
    and pos: "\<And>r. r \<in> set rcs' \<Longrightarrow> 0 < rc_receivedQuantity r"
  shows "releases_ok rcs' rs ls"
proof -
  have "booked rs ls (rc_id r) \<le> rc_receivedQuantity r" if r: "r \<in> set rcs'" for r
  proof (cases "r \<in> set rcs")
    case True
    then show ?thesis by (rule releases_okD(5) [OF ok])
  next
    case False
    have none: "ql_receiptLineId l \<noteq> rc_id r" if l: "l \<in> set ls" for l
    proof
      assume eq: "ql_receiptLineId l = rc_id r"
      from releases_okD(3) [OF ok l] obtain r' where r': "r' \<in> set rcs" "rc_id r' = ql_receiptLineId l"
        unfolding qline_ok_def by blast
      have "r' = r" by (rule row_by_key [OF ids _ r]) (use r' sub eq in auto)
      with r'(1) False show False by simp
    qed
    then have "filter (\<lambda>l. ql_receiptLineId l = rc_id r \<and> \<not> releaseCancelled rs (ql_releaseId l)) ls = []"
      by (simp add: filter_empty_conv)
    then have "booked rs ls (rc_id r) = 0" by (simp add: booked_def)
    with pos [OF r] show ?thesis by simp
  qed
  moreover have "qline_ok rcs' l" if "l \<in> set ls" for l
    using releases_okD(3) [OF ok that] sub unfolding qline_ok_def by blast
  ultimately show ?thesis using ok unfolding releases_ok_def by blast
qed

lemma return_safe_ok:
  assumes ok: "rt_ok db" and safe: "return_safe db db'"
  shows "rt_ok db'" and "rt_moves db db'"
proof -
  from ok safe have ret: "returns_ok (rt_batches db') (rt_lines db') (rt_receipts db')"
    and mv: "returns_step (rt_batches db) (rt_lines db) (rt_receipts db) (rt_batches db') (rt_lines db') (rt_receipts db')"
    and same: "rt_releases db' = rt_releases db" "rt_releaseLines db' = rt_releaseLines db" and inv: "stock_inv db'"
    unfolding rt_ok_def return_safe_def by blast+
  have "set (rt_receipts db) \<subseteq> set (rt_receipts db')" using mv by (simp add: returns_step_def)
  from releases_ok_receipts [OF _ this returns_okD(4) [OF ret] receipts_positive [OF ret]] ok
  have "releases_ok (rt_receipts db') (rt_releases db) (rt_releaseLines db)" by (simp add: rt_ok_def)
  then show "rt_ok db'" using ret inv same by (simp add: rt_ok_def)
  show "rt_moves db db'" using mv same by (simp add: rt_moves_def releases_step_refl)
qed

lemma qa_safe_ok:
  assumes ok: "rt_ok db" and safe: "qa_safe db db'"
  shows "rt_ok db'" and "rt_moves db db'"
proof -
  from ok have "releases_ok (rt_receipts db) (rt_releases db) (rt_releaseLines db)" "distinct (map rc_id (rt_receipts db))"
    by (auto simp: rt_ok_def dest: returns_okD(4))
  with safe have rel: "releases_ok (rt_receipts db') (rt_releases db') (rt_releaseLines db')"
    "releases_step (rt_releases db) (rt_releaseLines db) (rt_releases db') (rt_releaseLines db')"
    unfolding qa_safe_def by blast+
  have same: "rt_batches db' = rt_batches db" "rt_lines db' = rt_lines db" "rt_receipts db' = rt_receipts db"
    "stock_inv db \<longrightarrow> stock_inv db'" using safe by (simp_all add: qa_safe_def)
  show "rt_ok db'" using ok same rel(1) by (simp add: rt_ok_def)
  show "rt_moves db db'" using rel(2) same by (simp add: rt_moves_def returns_step_refl)
qed

lemma flight_agrees_stable: "rt_moves db db' \<Longrightarrow> flight_agrees db f \<Longrightarrow> flight_agrees db' f"
  by (cases f) (auto simp: rt_moves_def intro: return_dispatch_stable return_receipt_stable qa_flight_stable)

section \<open>Interleaved requests\<close>

text \<open>
  A step is one transaction of one request, the end of a process that had a flight (\<open>lost\<close>), or a
  transaction of another module, which does not write the tables of the returns and keeps the
  constraints of the balance table (\<open>foreign\<close>).
\<close>

inductive return_step ::
  "env \<Rightarrow> 'z return_db_scheme poster \<Rightarrow> 'z return_db_scheme \<times> return_flight list \<Rightarrow>
   'z return_db_scheme \<times> return_flight list \<Rightarrow> bool"
  for e :: env and poster :: "'z return_db_scheme poster" where
  drafted: "createStockReturnDraft e now cinp db = (db', res) \<Longrightarrow> return_step e poster (db, fs) (db', fs)"
| redrafted: "updateStockReturnDraft e uinp db = (db', res) \<Longrightarrow> return_step e poster (db, fs) (db', fs)"
| submitted: "submitStockReturnBatch e inp db = (db', res) \<Longrightarrow> return_step e poster (db, fs) (db', fs)"
| approved: "approveStockReturnBatch inp db = (db', res) \<Longrightarrow> return_step e poster (db, fs) (db', fs)"
| cancelled: "cancelStockReturnBatch inp reason db = (db', res) \<Longrightarrow> return_step e poster (db, fs) (db', fs)"
| dispatch_prepared: "prepareReturnDispatch e inp db = Inr (db', p) \<Longrightarrow>
    return_step e poster (db, fs) (db', DispatchReady inp p # fs)"
| dispatch_posted: "poster (returnDispatchPosting inp p) db = (db', Inr r) \<Longrightarrow>
    return_step e poster (db, fs @ DispatchReady inp p # fs') (db', fs @ DispatchDone inp p # fs')"
| dispatch_refused: "poster (returnDispatchPosting inp p) db = (db', Inl err) \<Longrightarrow>
    return_step e poster (db, fs @ DispatchReady inp p # fs') (db', fs @ Refused (rd_docId p) ''APPROVED'' # fs')"
| dispatch_finalized: "run_tx (finalizeReturnDispatch inp p) db = (db', res) \<Longrightarrow>
    return_step e poster (db, fs @ DispatchDone inp p # fs') (db', fs @ fs')"
| receipt_prepared: "prepareReturnReceipt e inp rps db = Inr (db', q) \<Longrightarrow>
    return_step e poster (db, fs) (db', ReceiptReady inp q # fs)"
| receipt_posted: "poster (returnReceiptPosting inp q) db = (db', Inr r) \<Longrightarrow>
    return_step e poster (db, fs @ ReceiptReady inp q # fs') (db', fs @ ReceiptDone inp q r # fs')"
| receipt_refused: "poster (returnReceiptPosting inp q) db = (db', Inl err) \<Longrightarrow>
    return_step e poster (db, fs @ ReceiptReady inp q # fs') (db', fs @ Refused (rr_docId q) ''DISPATCHED'' # fs')"
| receipt_finalized: "run_tx (finalizeReturnReceipt e inp q r) db = (db', res) \<Longrightarrow>
    return_step e poster (db, fs @ ReceiptDone inp q r # fs') (db', fs @ fs')"
| qa_drafted: "createQaReleaseDraft e now qcinp db = (db', qres) \<Longrightarrow> return_step e poster (db, fs) (db', fs)"
| qa_redrafted: "updateQaReleaseDraft e quinp db = (db', qres) \<Longrightarrow> return_step e poster (db, fs) (db', fs)"
| qa_submitted: "submitQaRelease qinp db = (db', qres) \<Longrightarrow> return_step e poster (db, fs) (db', fs)"
| qa_approved: "approveQaRelease qinp db = (db', qres) \<Longrightarrow> return_step e poster (db, fs) (db', fs)"
| qa_cancelled: "cancelQaRelease qinp reason db = (db', qres) \<Longrightarrow> return_step e poster (db, fs) (db', fs)"
| release_prepared: "prepareQaRelease e qinp db = Inr (db', u) \<Longrightarrow>
    return_step e poster (db, fs) (db', ReleaseReady qinp u # fs)"
| release_posted: "poster (releasePosting qinp u) db = (db', Inr r) \<Longrightarrow>
    return_step e poster (db, fs @ ReleaseReady qinp u # fs') (db', fs @ ReleaseDone qinp u r # fs')"
| release_refused: "poster (releasePosting qinp u) db = (db', Inl err) \<Longrightarrow>
    return_step e poster (db, fs @ ReleaseReady qinp u # fs') (db', fs @ Refused (pq_docId u) ''APPROVED'' # fs')"
| release_finalized: "run_tx (finalizeQaRelease qinp u r) db = (db', qres) \<Longrightarrow>
    return_step e poster (db, fs @ ReleaseDone qinp u r # fs') (db', fs @ fs')"
| compensated: "return_step e poster (db, fs @ Refused did status # fs') (compensateDocument did status db, fs @ fs')"
| lost: "return_step e poster (db, fs @ f # fs') (db, fs @ fs')"
| foreign: "rt_same db db' \<Longrightarrow> stock_inv db' \<Longrightarrow> return_step e poster (db, fs) (db', fs)"

inductive return_reachable ::
  "env \<Rightarrow> 'z return_db_scheme poster \<Rightarrow> 'z return_db_scheme \<times> return_flight list \<Rightarrow> bool"
  for e :: env and poster :: "'z return_db_scheme poster" where
  start: "rt_batches db = [] \<Longrightarrow> rt_lines db = [] \<Longrightarrow> rt_receipts db = [] \<Longrightarrow> rt_releases db = [] \<Longrightarrow>
    rt_releaseLines db = [] \<Longrightarrow> stock_inv db \<Longrightarrow> return_reachable e poster (db, [])"
| onward: "return_reachable e poster w \<Longrightarrow> return_step e poster w w' \<Longrightarrow> return_reachable e poster w'"

text \<open>A dispatch, a receipt or a release that runs without a gap is a run of steps.\<close>

lemma whole_dispatch:
  assumes "return_reachable e poster (db, fs)" and "dispatchStockReturnBatch e poster id id inp db = (db', res)"
  shows "return_reachable e poster (db', fs)"
proof (cases "prepareReturnDispatch e inp db")
  case (Inl err)
  with assms show ?thesis by (simp add: dispatchStockReturnBatch_def run_tx_def)
next
  case (Inr y)
  obtain db1 p where y: "y = (db1, p)" by fastforce
  have r1: "return_reachable e poster (db1, [] @ DispatchReady inp p # fs)"
    using return_reachable.onward [OF assms(1) return_step.dispatch_prepared] Inr y by simp
  obtain db2 r where po: "poster (returnDispatchPosting inp p) db1 = (db2, r)" by fastforce
  show ?thesis
  proof (cases r)
    case (Inl err)
    with return_reachable.onward [OF r1 return_step.dispatch_refused] po
    have r2: "return_reachable e poster (db2, [] @ Refused (rd_docId p) ''APPROVED'' # fs)" by blast
    from return_reachable.onward [OF r2 return_step.compensated] assms(2) show ?thesis
      by (simp add: dispatchStockReturnBatch_def run_tx_def \<open>prepareReturnDispatch e inp db = Inr y\<close> y po Inl split: prod.splits)
  next
    case (Inr v)
    with return_reachable.onward [OF r1 return_step.dispatch_posted] po
    have r2: "return_reachable e poster (db2, [] @ DispatchDone inp p # fs)" by blast
    have fin: "run_tx (finalizeReturnDispatch inp p) db2 = (db', res)" using assms(2)
      by (simp add: dispatchStockReturnBatch_def run_tx_def \<open>prepareReturnDispatch e inp db = Inr y\<close> y po Inr)
    from return_reachable.onward [OF r2 return_step.dispatch_finalized [OF fin]] show ?thesis by simp
  qed
qed

lemma whole_receipt:
  assumes "return_reachable e poster (db, fs)" and "receiveAndDisposeStockReturnBatch e poster id id inp rps db = (db', res)"
  shows "return_reachable e poster (db', fs)"
proof (cases "prepareReturnReceipt e inp rps db")
  case (Inl err)
  with assms show ?thesis by (simp add: receiveAndDisposeStockReturnBatch_def run_tx_def)
next
  case (Inr y)
  obtain db1 p where y: "y = (db1, p)" by fastforce
  have r1: "return_reachable e poster (db1, [] @ ReceiptReady inp p # fs)"
    using return_reachable.onward [OF assms(1) return_step.receipt_prepared] Inr y by simp
  obtain db2 r where po: "poster (returnReceiptPosting inp p) db1 = (db2, r)" by fastforce
  show ?thesis
  proof (cases r)
    case (Inl err)
    with return_reachable.onward [OF r1 return_step.receipt_refused] po
    have r2: "return_reachable e poster (db2, [] @ Refused (rr_docId p) ''DISPATCHED'' # fs)" by blast
    from return_reachable.onward [OF r2 return_step.compensated] assms(2) show ?thesis
      by (simp add: receiveAndDisposeStockReturnBatch_def run_tx_def \<open>prepareReturnReceipt e inp rps db = Inr y\<close> y po Inl split: prod.splits)
  next
    case (Inr v)
    with return_reachable.onward [OF r1 return_step.receipt_posted] po
    have r2: "return_reachable e poster (db2, [] @ ReceiptDone inp p v # fs)" by blast
    have fin: "run_tx (finalizeReturnReceipt e inp p v) db2 = (db', res)" using assms(2)
      by (simp add: receiveAndDisposeStockReturnBatch_def run_tx_def \<open>prepareReturnReceipt e inp rps db = Inr y\<close> y po Inr)
    from return_reachable.onward [OF r2 return_step.receipt_finalized [OF fin]] show ?thesis by simp
  qed
qed

lemma whole_release:
  assumes "return_reachable e poster (db, fs)" and "releaseQaRelease e poster id id inp db = (db', res)"
  shows "return_reachable e poster (db', fs)"
proof (cases "prepareQaRelease e inp db")
  case (Inl err)
  with assms show ?thesis by (simp add: releaseQaRelease_def run_tx_def)
next
  case (Inr y)
  obtain db1 p where y: "y = (db1, p)" by fastforce
  have r1: "return_reachable e poster (db1, [] @ ReleaseReady inp p # fs)"
    using return_reachable.onward [OF assms(1) return_step.release_prepared] Inr y by simp
  obtain db2 r where po: "poster (releasePosting inp p) db1 = (db2, r)" by fastforce
  show ?thesis
  proof (cases r)
    case (Inl err)
    with return_reachable.onward [OF r1 return_step.release_refused] po
    have r2: "return_reachable e poster (db2, [] @ Refused (pq_docId p) ''APPROVED'' # fs)" by blast
    from return_reachable.onward [OF r2 return_step.compensated] assms(2) show ?thesis
      by (simp add: releaseQaRelease_def run_tx_def \<open>prepareQaRelease e inp db = Inr y\<close> y po Inl split: prod.splits)
  next
    case (Inr v)
    with return_reachable.onward [OF r1 return_step.release_posted] po
    have r2: "return_reachable e poster (db2, [] @ ReleaseDone inp p v # fs)" by blast
    have fin: "run_tx (finalizeQaRelease inp p v) db2 = (db', res)" using assms(2)
      by (simp add: releaseQaRelease_def run_tx_def \<open>prepareQaRelease e inp db = Inr y\<close> y po Inr)
    from return_reachable.onward [OF r2 return_step.release_finalized [OF fin]] show ?thesis by simp
  qed
qed

definition return_world_ok :: "'z return_db_scheme \<times> return_flight list \<Rightarrow> bool" where
  "return_world_ok w \<longleftrightarrow> rt_ok (fst w) \<and> list_all (flight_agrees (fst w)) (snd w)"

lemma world_after:
  assumes "return_world_ok (db, fs)" and "rt_ok db'" and "rt_moves db db'" and "set fs' \<subseteq> set fs \<union> F"
    and "\<forall>f \<in> F. flight_agrees db' f"
  shows "return_world_ok (db', fs') \<and> rt_moves (fst (db, fs)) (fst (db', fs'))"
  using assms flight_agrees_stable [OF assms(3)] by (fastforce simp: return_world_ok_def list_all_iff)

lemma world_return:
  assumes "return_world_ok (db, fs)" and "return_safe db db'" and "set fs' \<subseteq> set fs \<union> F" and "\<forall>f \<in> F. flight_agrees db' f"
  shows "return_world_ok (db', fs') \<and> rt_moves (fst (db, fs)) (fst (db', fs'))"
proof -
  have ok: "rt_ok db" using assms(1) by (simp add: return_world_ok_def)
  show ?thesis by (rule world_after [OF assms(1) return_safe_ok [OF ok assms(2)] assms(3,4)])
qed

lemma world_qa:
  assumes "return_world_ok (db, fs)" and "qa_safe db db'" and "set fs' \<subseteq> set fs \<union> F" and "\<forall>f \<in> F. flight_agrees db' f"
  shows "return_world_ok (db', fs') \<and> rt_moves (fst (db, fs)) (fst (db', fs'))"
proof -
  have ok: "rt_ok db" using assms(1) by (simp add: return_world_ok_def)
  show ?thesis by (rule world_after [OF assms(1) qa_safe_ok [OF ok assms(2)] assms(3,4)])
qed

lemma return_frame_tables:
  fixes db db' :: "'z return_db_scheme"
  assumes "stock_frame db db'" shows "rt_same db db'"
  using assms by (cases db; cases db'; simp add: stock_frame_def rt_same_def)

lemma flight_agrees_same: "rt_same db db' \<Longrightarrow> flight_agrees db' f = flight_agrees db f"
  by (cases f) (simp_all add: rt_same_def)

locale return_poster = stock_poster poster for poster :: "'z return_db_scheme poster"
begin

lemma posted_same:
  assumes "return_world_ok (db, fs)" and "poster inp db = (db', res)"
  shows "rt_same db db'" and "return_safe db db'"
proof -
  have "stock_inv db" using assms(1) by (simp add: return_world_ok_def rt_ok_def)
  from any_result [OF this assms(2)] have "stock_frame db db'" "stock_inv db'" by simp_all
  then show "rt_same db db'" "return_safe db db'" by (auto intro: return_safe_same return_frame_tables)
qed

lemma posted_world:
  assumes w: "return_world_ok (db, fs @ f # fs')" and po: "poster inp db = (db', res)"
    and g: "flight_agrees db f \<Longrightarrow> flight_agrees db g"
  shows "return_world_ok (db', fs @ g # fs') \<and> rt_moves db db'"
proof -
  note po' = posted_same [OF w po]
  have "flight_agrees db' g" using w g po'(1) by (simp add: return_world_ok_def flight_agrees_same)
  with world_return [OF w po'(2), where fs' = "fs @ g # fs'" and F = "{g}"] show ?thesis by auto
qed

lemma finalized_world:
  assumes w: "return_world_ok (db, fs @ f # fs')" and tx: "run_tx body db = (db', res)"
    and safe: "\<And>db1 v. rt_ok db \<Longrightarrow> flight_agrees db f \<Longrightarrow> body db = Inr (db1, v) \<Longrightarrow> return_safe db db1 \<or> qa_safe db db1"
  shows "return_world_ok (db', fs @ fs') \<and> rt_moves db db'"
proof -
  have ok: "rt_ok db" "flight_agrees db f" using w by (simp_all add: return_world_ok_def)
  have sub: "set (fs @ fs') \<subseteq> set (fs @ f # fs') \<union> {}" by auto
  from tx have "return_safe db db' \<or> qa_safe db db'"
    by (cases res) (auto simp: run_tx_ok dest: run_tx_error safe [OF ok])
  then show ?thesis
    using world_return [OF w _ sub] world_qa [OF w _ sub] by auto
qed

lemma step_world:
  assumes "return_step e poster w w'" and "return_world_ok w"
  shows "return_world_ok w' \<and> rt_moves (fst w) (fst w')"
  using assms
proof (induction rule: return_step.induct)
  case (drafted now cinp db db' res fs)
  show ?case using world_return [OF drafted.prems create_return_safe [OF drafted.hyps], where F = "{}" and fs' = fs] by auto
next
  case (redrafted uinp db db' res fs)
  show ?case using world_return [OF redrafted.prems update_return_safe [OF redrafted.hyps], where F = "{}" and fs' = fs] by auto
next
  case (submitted inp db db' res fs)
  show ?case using world_return [OF submitted.prems submit_return_safe [OF submitted.hyps], where F = "{}" and fs' = fs] by auto
next
  case (approved inp db db' res fs)
  show ?case using world_return [OF approved.prems approve_return_safe [OF approved.hyps], where F = "{}" and fs' = fs] by auto
next
  case (cancelled inp reason db db' res fs)
  show ?case using world_return [OF cancelled.prems cancel_return_safe [OF cancelled.hyps], where F = "{}" and fs' = fs] by auto
next
  case (dispatch_prepared inp db db' p fs)
  note pf = prepareReturnDispatch_ok [OF dispatch_prepared.hyps]
  from world_return [OF dispatch_prepared.prems pf(2), where F = "{DispatchReady inp p}" and fs' = "DispatchReady inp p # fs"] pf(1)
  show ?case by auto
next
  case (dispatch_posted inp p db db' r fs fs')
  show ?case unfolding fst_conv by (rule posted_world [OF dispatch_posted.prems dispatch_posted.hyps]) simp
next
  case (dispatch_refused inp p db db' err fs fs')
  show ?case unfolding fst_conv by (rule posted_world [OF dispatch_refused.prems dispatch_refused.hyps]) simp
next
  case (dispatch_finalized inp p db db' res fs fs')
  show ?case unfolding fst_conv
    by (rule finalized_world [OF dispatch_finalized.prems dispatch_finalized.hyps])
      (auto simp: rt_ok_def dest: returns_okD(1) intro: finalizeReturnDispatch_safe)
next
  case (receipt_prepared inp rps db db' q fs)
  note pf = prepareReturnReceipt_ok [OF receipt_prepared.hyps]
  from world_return [OF receipt_prepared.prems pf(2), where F = "{ReceiptReady inp q}" and fs' = "ReceiptReady inp q # fs"] pf(1)
  show ?case by auto
next
  case (receipt_posted inp q db db' r fs fs')
  show ?case unfolding fst_conv by (rule posted_world [OF receipt_posted.prems receipt_posted.hyps]) simp
next
  case (receipt_refused inp q db db' err fs fs')
  show ?case unfolding fst_conv by (rule posted_world [OF receipt_refused.prems receipt_refused.hyps]) simp
next
  case (receipt_finalized inp q r db db' res fs fs')
  show ?case unfolding fst_conv
    by (rule finalized_world [OF receipt_finalized.prems receipt_finalized.hyps])
      (auto intro: finalizeReturnReceipt_safe)
next
  case (qa_drafted now qcinp db db' qres fs)
  show ?case using world_qa [OF qa_drafted.prems create_qa_safe [OF qa_drafted.hyps], where F = "{}" and fs' = fs] by auto
next
  case (qa_redrafted quinp db db' qres fs)
  show ?case using world_qa [OF qa_redrafted.prems update_qa_safe [OF qa_redrafted.hyps], where F = "{}" and fs' = fs] by auto
next
  case (qa_submitted qinp db db' qres fs)
  show ?case using world_qa [OF qa_submitted.prems submit_qa_safe [OF qa_submitted.hyps], where F = "{}" and fs' = fs] by auto
next
  case (qa_approved qinp db db' qres fs)
  show ?case using world_qa [OF qa_approved.prems approve_qa_safe [OF qa_approved.hyps], where F = "{}" and fs' = fs] by auto
next
  case (qa_cancelled qinp reason db db' qres fs)
  show ?case using world_qa [OF qa_cancelled.prems cancel_qa_safe [OF qa_cancelled.hyps], where F = "{}" and fs' = fs] by auto
next
  case (release_prepared qinp db db' u fs)
  note pf = prepareQaRelease_ok [OF release_prepared.hyps]
  from world_qa [OF release_prepared.prems pf(2), where F = "{ReleaseReady qinp u}" and fs' = "ReleaseReady qinp u # fs"] pf(1)
  show ?case by auto
next
  case (release_posted qinp u db db' r fs fs')
  show ?case unfolding fst_conv by (rule posted_world [OF release_posted.prems release_posted.hyps]) simp
next
  case (release_refused qinp u db db' err fs fs')
  show ?case unfolding fst_conv by (rule posted_world [OF release_refused.prems release_refused.hyps]) simp
next
  case (release_finalized qinp u r db db' qres fs fs')
  show ?case unfolding fst_conv
    by (rule finalized_world [OF release_finalized.prems release_finalized.hyps]) (auto intro: finalizeQaRelease_safe)
next
  case (compensated db fs did status fs')
  have "return_safe db (compensateDocument did status db)"
    by (rule return_safe_same) (simp_all add: compensateDocument_def rt_same_def stock_inv_def)
  from world_return [OF compensated this, where F = "{}" and fs' = "fs @ fs'"] show ?case by auto
next
  case (lost db fs f fs')
  from world_return [OF lost return_safe_refl, where F = "{}" and fs' = "fs @ fs'"] show ?case by auto
next
  case (foreign db db' fs)
  from world_return [OF foreign.prems return_safe_same [OF foreign.hyps], where F = "{}" and fs' = fs] show ?case by auto
qed

lemma reachable_world: "return_reachable e poster w \<Longrightarrow> return_world_ok w"
proof (induction rule: return_reachable.induct)
  case (start db)
  then show ?case by (simp add: return_world_ok_def rt_ok_def returns_ok_def releases_ok_def)
next
  case (onward w w')
  then show ?case using step_world by blast
qed

end

interpretation posting_returns: return_poster "post e deps aborts" for e deps aborts
  by unfold_locales

end
