(* ===== verification/ReturnEffects.thy ===== *)
theory ReturnEffects
  imports ReturnSteps
begin

text \<open>
  What a whole dispatch, receipt or release does to the stock: the net of its posting line by line, and
  that its preparing and finalizing transactions move nothing. Also the documents a request leaves alone
  and the lots it makes.
\<close>

section \<open>The net of the three postings\<close>

lemma net_of_simps [simp]:
  "net_of wid lid [] = 0"
  "net_of wid lid (m # ms) = (if m_warehouseId m = wid \<and> m_lotId m = lid then signed_qty m else 0) + net_of wid lid ms"
  "net_of wid lid (ms @ ms') = net_of wid lid ms + net_of wid lid ms'"
  by (simp_all add: net_of_def)

definition returned :: "bline list \<Rightarrow> string \<Rightarrow> string \<Rightarrow> int" where
  "returned ls wid lid =
     sum_list (map bl_quantity (filter (\<lambda>l. bl_sourceWarehouseId l = wid \<and> bl_lotId l = lid) ls))"

lemma net_returnDispatch: "net_of wid lid (pi_movements (returnDispatchPosting inp p)) = - returned (rd_lines p) wid lid"
proof -
  have "net_of wid lid (map returnOut ls) = - returned ls wid lid" for ls
    by (induction ls) (auto simp: returned_def returnOut_def signed_qty_def qty_of_def)
  then show ?thesis by (simp add: returnDispatchPosting_def)
qed

text \<open>What a receipt leaves in quarantine: the lines with a reusable reason.\<close>

definition held_back :: "received_line list \<Rightarrow> string \<Rightarrow> int" where
  "held_back rls lid =
     sum_list (map (bl_quantity \<circ> fst) (filter (\<lambda>(l, lot, reason, remarks). lot = lid \<and> reusable reason) rls))"

lemma net_returnReceipt:
  "net_of wid lid (pi_movements (returnReceiptPosting inp p)) =
     (if wid = rr_quarantineId p then held_back (rr_lines p) lid else 0)"
proof -
  have "net_of wid lid (concat (map (receiptMovements q) rls)) = (if wid = q then held_back rls lid else 0)" for q rls
    by (induction rls) (auto simp: held_back_def receiptMovements_def signed_qty_def qty_of_def Let_def)
  then show ?thesis by (simp add: returnReceiptPosting_def)
qed

definition released_from :: "prepared_qa_line list \<Rightarrow> string \<Rightarrow> int" where
  "released_from pls lid =
     sum_list (map (ql_releaseQuantity \<circ> fst) (filter (\<lambda>pl. ql_quarantineLotId (fst pl) = lid) pls))"

definition released_to :: "prepared_qa_line list \<Rightarrow> string \<Rightarrow> int" where
  "released_to pls lid = sum_list (map (ql_releaseQuantity \<circ> fst) (filter (\<lambda>pl. fst (snd pl) = lid) pls))"

lemma net_release:
  "net_of wid lid (pi_movements (releasePosting inp p)) =
     (if wid = qr_destinationWarehouseId (pq_release p) then released_to (pq_lines p) lid else 0)
     - (if wid = qr_sourceWarehouseId (pq_release p) then released_from (pq_lines p) lid else 0)"
proof -
  have "net_of wid lid (concat (map (releaseMovements r) pls)) =
     (if wid = qr_destinationWarehouseId r then released_to pls lid else 0)
     - (if wid = qr_sourceWarehouseId r then released_from pls lid else 0)" for r pls
    by (induction pls)
      (auto simp: released_to_def released_from_def releaseMovements_def signed_qty_def qty_of_def Let_def)
  then show ?thesis by (simp add: releasePosting_def)
qed

section \<open>Whole operations\<close>

text \<open>A finalizing transaction keeps the stock, the documents and the lots.\<close>

definition books_same :: "'z return_db_scheme \<Rightarrow> 'z return_db_scheme \<Rightarrow> bool" where
  "books_same db db' \<longleftrightarrow> db_balances db' = db_balances db \<and> db_documents db' = db_documents db \<and> db_lots db' = db_lots db"

lemma books_same_on_hand: "books_same db db' \<Longrightarrow> on_hand db' = on_hand db"
  by (simp add: books_same_def on_hand_def fun_eq_iff)

lemma writeAudit_books [simp]:
  "db_balances (writeAudit a db) = db_balances db" "db_documents (writeAudit a db) = db_documents db"
  "db_lots (writeAudit a db) = db_lots db"
  by (simp_all add: writeAudit_def)

lemma updateBatch_books: "updateBatch i s v f db = Inr (db1, u) \<Longrightarrow> books_same db db1"
  by (auto simp: updateBatch_def Let_def books_same_def split: option.splits)

lemma finalizeReturnDispatch_books:
  "run_tx (finalizeReturnDispatch inp p) db = (db', res) \<Longrightarrow> books_same db db'"
proof (erule run_tx_relation)
  fix db1 v
  assume "finalizeReturnDispatch inp p db = Inr (db1, v)"
  then show "books_same db db1" unfolding finalizeReturnDispatch_def Let_def
    by (cases rule: advanceBatch_Inr) (auto dest!: updateBatch_books simp: books_same_def)
qed (simp add: books_same_def)

lemma finalizeReturnReceipt_books:
  "run_tx (finalizeReturnReceipt e inp p r) db = (db', res) \<Longrightarrow> books_same db db'"
proof (erule run_tx_relation)
  fix db1 v
  assume "finalizeReturnReceipt e inp p r db = Inr (db1, v)"
  then obtain rcs n f aud where adv: "advanceBatch inp (rr_batch p) (map fst (rr_lines p)) SR_DISPATCHED SR_RECEIVED_DISPOSED
       f aud (db\<lparr>rt_receipts := rcs, db_ids := n\<rparr>) = Inr (db1, v)"
    by (auto elim!: finalizeReturnReceipt_Inr)
  then show "books_same db db1"
    by (cases rule: advanceBatch_Inr) (auto dest!: updateBatch_books simp: books_same_def)
qed (simp add: books_same_def)

lemma finalizeQaRelease_books:
  fixes db :: "'z return_db_scheme"
  shows "run_tx (finalizeQaRelease inp p r) db = (db', res) \<Longrightarrow> books_same db db'"
proof (erule run_tx_relation)
  fix db1 v
  assume "finalizeQaRelease inp p r db = Inr (db1, v)"
  then show "books_same db db1"
    by (cases rule: finalizeQaRelease_Inr) (auto simp: books_same_def elim!: updateRelease_Some)
qed (simp add: books_same_def)

text \<open>The three parts of an operation that succeeded without a gap.\<close>

lemma dispatch_parts:
  assumes "dispatchStockReturnBatch e poster id id inp db = (db', Inr v)"
  obtains db1 p db2 r where "prepareReturnDispatch e inp db = Inr (db1, p)"
    "poster (returnDispatchPosting inp p) db1 = (db2, Inr r)" "run_tx (finalizeReturnDispatch inp p) db2 = (db', Inr v)"
  using assms that by (auto simp: dispatchStockReturnBatch_def run_tx_ok split: prod.splits sum.splits)

lemma receipt_parts:
  assumes "receiveAndDisposeStockReturnBatch e poster id id inp rps db = (db', Inr v)"
  obtains db1 p db2 r where "prepareReturnReceipt e inp rps db = Inr (db1, p)"
    "poster (returnReceiptPosting inp p) db1 = (db2, Inr r)" "run_tx (finalizeReturnReceipt e inp p r) db2 = (db', Inr v)"
  using assms that by (auto simp: receiveAndDisposeStockReturnBatch_def run_tx_ok split: prod.splits sum.splits)

lemma release_parts:
  assumes "releaseQaRelease e poster id id inp db = (db', Inr v)"
  obtains db1 p db2 r where "prepareQaRelease e inp db = Inr (db1, p)"
    "poster (releasePosting inp p) db1 = (db2, Inr r)" "run_tx (finalizeQaRelease inp p r) db2 = (db', Inr v)"
  using assms that by (auto simp: releaseQaRelease_def run_tx_ok split: prod.splits sum.splits)

text \<open>A first posting between a preparation and an end that move nothing.\<close>

lemma posted_between:
  fixes db db1 db2 db' :: "'z return_db_scheme"
  assumes inv: "stock_inv db" and prep: "stock_inv db1 = stock_inv db" "on_hand db1 = on_hand db" "db_postings db1 = db_postings db"
    and po: "post e deps aborts inp db1 = (db2, Inr r)" and fin: "books_same db2 db'"
    and fresh: "\<forall>q \<in> set (db_postings db). p_idempotencyKey q \<noteq> pi_idempotencyKey inp"
  shows "on_hand db' wid lid = on_hand db wid lid + net_of wid lid (pi_movements inp)"
proof -
  have "\<not> pr_replayed r" by (rule replay_needs_key [OF po]) (simp add: prep fresh)
  with post_frame(2) [OF _ po, of wid lid] inv prep books_same_on_hand [OF fin] show ?thesis by simp
qed

section \<open>Warehouses\<close>

definition active_at :: "purpose \<Rightarrow> string \<Rightarrow> string \<Rightarrow> 'z stock_db_scheme \<Rightarrow> bool" where
  "active_at p loc wid db \<longleftrightarrow> (\<exists>w \<in> set (db_warehouses db). w_id w = wid \<and> w_locationId w = loc \<and>
     w_purpose w = Some p \<and> w_isActive w)"

lemma hqTopologyWith_Inr:
  assumes "hqTopologyWith err db = Inr (loc, hqMain, quarantine)"
  shows "active_at HQ_MAIN loc hqMain db" and "active_at QUARANTINE loc quarantine db"
proof -
  have one: "w \<in> set xs \<and> P w" if "filter P xs = [w]" for P :: "warehouse \<Rightarrow> bool" and xs w
    using arg_cong [OF that, of set] by auto
  from assms obtain hq q where h: "filter (\<lambda>w. w_purpose w = Some HQ_MAIN \<and> w_isActive w) (db_warehouses db) = [hq]"
    and q: "filter (\<lambda>w. w_locationId w = w_locationId hq \<and> w_purpose w = Some QUARANTINE \<and> w_isActive w) (db_warehouses db) = [q]"
    and eqs: "loc = w_locationId hq" "hqMain = w_id hq" "quarantine = w_id q"
    unfolding hqTopologyWith_def by (auto split: list.splits if_splits)
  show "active_at HQ_MAIN loc hqMain db" "active_at QUARANTINE loc quarantine db"
    using one [OF h] one [OF q] eqs by (auto simp: active_at_def)
qed

text \<open>A receipt holds its goods in the quarantine warehouse of the destination of the batch.\<close>

lemma prepareReturnReceipt_route:
  fixes db :: "'z return_db_scheme"
  assumes "prepareReturnReceipt e inp rps db = Inr (db', p)"
  shows "active_at QUARANTINE (rb_destinationLocationId (rr_batch p)) (rr_quarantineId p) db"
proof -
  from assms obtain hqMain where
    hq: "resolveHqDestination db = Inr (rb_destinationLocationId (rr_batch p), hqMain, rr_quarantineId p)"
    unfolding prepareReturnReceipt_def by (auto simp: res_iff Let_def)
  show ?thesis by (rule hqTopologyWith_Inr(2) [OF hq [unfolded resolveHqDestination_def]])
qed

text \<open>A release goes from the quarantine warehouse to the main warehouse of one headquarters.\<close>

lemma prepareQaRelease_route:
  fixes db :: "'z return_db_scheme"
  assumes "prepareQaRelease e inp db = Inr (db', p)"
  shows "active_at QUARANTINE (pq_hqLocation p) (qr_sourceWarehouseId (pq_release p)) db"
    and "active_at HQ_MAIN (pq_hqLocation p) (qr_destinationWarehouseId (pq_release p)) db"
proof -
  from assms obtain a where "openRelease inp QA_RELEASE_ROLES db = Inr (a, pq_release p, pq_hqLocation p,
      qr_destinationWarehouseId (pq_release p), qr_sourceWarehouseId (pq_release p))"
    unfolding prepareQaRelease_def by (auto simp: res_iff Let_def)
  then have "resolveHqTopology db = Inr (pq_hqLocation p,
      qr_destinationWarehouseId (pq_release p), qr_sourceWarehouseId (pq_release p))" by (rule openRelease_Inr)
  note hq = hqTopologyWith_Inr [OF this [unfolded resolveHqTopology_def]]
  show "active_at QUARANTINE (pq_hqLocation p) (qr_sourceWarehouseId (pq_release p)) db" by (rule hq(2))
  show "active_at HQ_MAIN (pq_hqLocation p) (qr_destinationWarehouseId (pq_release p)) db" by (rule hq(1))
qed

section \<open>Documents\<close>

lemma ensureDocumentWith_keeps:
  assumes "ensureDocumentWith err e m n l s db = Inr (db', did)" and "distinct (map d_id (db_documents db))"
  shows "distinct (map d_id (db_documents db'))" "set (db_documents db) \<subseteq> set (db_documents db')"
    "\<exists>d \<in> set (db_documents db'). d_id d = did \<and> d_module d = m \<and> d_documentNo d = n"
proof -
  from assms(1) have "(db_documents db' = db_documents db \<and> (\<exists>d. List.find (\<lambda>d. d_module d = m \<and> d_documentNo d = n)
      (db_documents db) = Some d \<and> d_id d = did)) \<or>
    (\<exists>d. db_documents db' = db_documents db @ [d] \<and> d_id d = did \<and> d_module d = m \<and> d_documentNo d = n \<and>
       (\<forall>x \<in> set (db_documents db). d_id x \<noteq> d_id d))"
    by (auto simp: ensureDocumentWith_def Let_def split: if_splits option.splits)
  then show "distinct (map d_id (db_documents db'))" "set (db_documents db) \<subseteq> set (db_documents db')"
    "\<exists>d \<in> set (db_documents db'). d_id d = did \<and> d_module d = m \<and> d_documentNo d = n"
    using assms(2) by (elim disjE conjE exE, fastforce dest!: find_Some_mem, fastforce)+
qed

text \<open>A compensation deletes at most the document it names.\<close>

lemma compensateDocument_keeps:
  "d \<in> set (db_documents db) \<Longrightarrow> d_id d \<noteq> did \<Longrightarrow> d \<in> set (db_documents (compensateDocument did s db))"
  by (simp add: compensateDocument_def)

text \<open>A posting and what follows it keep a document of another number, whether it succeeds or not.\<close>

lemma posting_keeps_document:
  fixes db1 db2 :: "'z return_db_scheme"
  assumes po: "post e deps aborts inp db1 = (db2, res)" and dist: "distinct (map d_id (db_documents db1))"
    and d: "d \<in> set (db_documents db1)" and d': "d' \<in> set (db_documents db1)"
    and no: "d_documentNo d \<noteq> pi_sourceDocumentNo inp" "d_documentNo d' = pi_sourceDocumentNo inp" "d_id d' = did"
  shows "case res of Inr r \<Rightarrow> d \<in> set (db_documents db2) | Inl err \<Rightarrow> d \<in> set (db_documents (compensateDocument did s db2))"
proof (cases res)
  case (Inl err)
  have "d_id d \<noteq> did" using row_by_key [OF dist d d'] no by auto
  moreover have "db2 = db1" using po Inl post_rejected by blast
  ultimately show ?thesis using Inl compensateDocument_keeps [OF d] by simp
next
  case (Inr r)
  then show ?thesis using post_documents [OF po [unfolded Inr] d _ dist] no(1) by simp
qed

section \<open>Lots\<close>

text \<open>The lots a loop of inserts adds have no expiry date.\<close>

definition undated :: "lot_status \<Rightarrow> lot list \<Rightarrow> lot list \<Rightarrow> bool" where
  "undated st lots lots' \<longleftrightarrow> (\<forall>t \<in> set lots'. t \<notin> set lots \<longrightarrow> l_status t = st \<and> l_expiresAt t = None)"

lemma undated_trans: "undated st a b \<Longrightarrow> undated st b c \<Longrightarrow> undated st a c"
  by (auto simp: undated_def)

lemma ensureLotWith_undated:
  assumes "ensureLotWith err e st itemId code cost None db = Inr (db', lid)"
  shows "undated st (db_lots db) (db_lots db')"
  using assms by (rule ensureLotWith_Inr) (simp add: undated_def)

lemma genealogy_lots: "ensureLotGenealogyWith err p c q d db = Inr db' \<Longrightarrow> db_lots db' = db_lots db"
  by (auto elim!: ensureLotGenealogyWith_Inr)

lemma releasedLine_undated:
  assumes "releasedLine e r l (db, d) = Inr (db', d')"
  shows "undated AVAILABLE (db_lots db) (db_lots db')"
  using assms unfolding releasedLine_def ensureReleasedLot_def
  by (auto simp: res_iff split: option.splits dest!: ensureLotWith_undated genealogy_lots)

lemma quarantineLine_undated:
  assumes "quarantineLine e b rps l (db, d) = Inr (db', d')"
  shows "undated QUARANTINED (db_lots db) (db_lots db')"
  using assms unfolding quarantineLine_def ensureQuarantineLot_def
  by (auto simp: res_iff split: option.splits if_splits dest!: ensureLotWith_undated genealogy_lots)

lemma released_undated:
  "foldE (releasedLine e r) ls (db, d) = Inr (db', d') \<Longrightarrow> undated AVAILABLE (db_lots db) (db_lots db')"
proof (induction ls arbitrary: db d)
  case (Cons l ls)
  then obtain db1 d1 where one: "releasedLine e r l (db, d) = Inr (db1, d1)"
    and rest: "foldE (releasedLine e r) ls (db1, d1) = Inr (db', d')" by (auto simp: res_iff)
  show ?case by (rule undated_trans [OF releasedLine_undated [OF one] Cons.IH [OF rest]])
qed (simp add: undated_def)

lemma quarantined_undated:
  "foldE (quarantineLine e b rps) ls (db, d) = Inr (db', d') \<Longrightarrow> undated QUARANTINED (db_lots db) (db_lots db')"
proof (induction ls arbitrary: db d)
  case (Cons l ls)
  then obtain db1 d1 where one: "quarantineLine e b rps l (db, d) = Inr (db1, d1)"
    and rest: "foldE (quarantineLine e b rps) ls (db1, d1) = Inr (db', d')" by (auto simp: res_iff)
  show ?case by (rule undated_trans [OF quarantineLine_undated [OF one] Cons.IH [OF rest]])
qed (simp add: undated_def)

lemma prepareReturnReceipt_undated:
  fixes db :: "'z return_db_scheme"
  assumes "prepareReturnReceipt e inp rps db = Inr (db', p)"
  shows "undated QUARANTINED (db_lots db) (db_lots db')"
proof -
  from assms obtain db1 byLine where doc: "ensureReturnDocument e STOCK_RETURN_RECEIPT_MODULE (receiptNo (rr_batch p))
       (rb_destinationLocationId (rr_batch p)) ''DISPATCHED'' db = Inr (db1, rr_docId p)"
    and loop: "foldE (quarantineLine e (rr_batch p) byLine) (batchLines (rt_lines db) (rb_id (rr_batch p))) (db1, []) =
       Inr (db', rr_lines p)" by (rule prepareReturnReceipt_Inr)
  from doc have "db_lots db1 = db_lots db" unfolding ensureReturnDocument_def by (auto elim!: ensureDocumentWith_tables)
  with quarantined_undated [OF loop] show ?thesis by simp
qed

lemma prepareQaRelease_undated:
  fixes db :: "'z return_db_scheme"
  assumes "prepareQaRelease e inp db = Inr (db', p)"
  shows "undated AVAILABLE (db_lots db) (db_lots db')"
proof -
  from assms obtain db1 where "undated AVAILABLE (db_lots db) (db_lots db1)"
    and "ensureQaDocument e QA_RELEASE_MODULE (releaseKey (pq_release p)) (pq_hqLocation p) ''APPROVED'' db1 = Inr (db', pq_docId p)"
    by (auto elim!: prepareQaRelease_Inr dest: released_undated)
  then show ?thesis unfolding ensureQaDocument_def by (auto elim!: ensureDocumentWith_tables)
qed

text \<open>Every line of a prepared release has the lot of its code.\<close>

lemma prepareQaRelease_lots:
  fixes db :: "'z return_db_scheme"
  assumes "prepareQaRelease e inp db = Inr (db', p)"
  shows "list_all2 (\<lambda>l lot. \<exists>t \<in> set (db_lots db'). l_id t = lot \<and> l_itemId t = ql_itemId l \<and>
         l_lotCode t = ''QA-RELEASE:'' @ qr_id (pq_release p) @ '':'' @ nat_str (ql_lineNo l) \<and>
         (t \<in> set (db_lots db) \<or> l_status t = AVAILABLE \<and> l_expiresAt t = None))
      (releaseLines (rt_releaseLines db) (qr_id (pq_release p))) (map (fst \<circ> snd) (pq_lines p))"
proof -
  from assms obtain db1 where
    loop: "foldE (releasedLine e (pq_release p)) (releaseLines (rt_releaseLines db) (qr_id (pq_release p))) (db, []) =
       Inr (db1, pq_lines p)"
    and doc: "ensureQaDocument e QA_RELEASE_MODULE (releaseKey (pq_release p)) (pq_hqLocation p) ''APPROVED'' db1 =
       Inr (db', pq_docId p)" by (rule prepareQaRelease_Inr)
  from doc have same: "db_lots db' = db_lots db1" unfolding ensureQaDocument_def by (auto elim!: ensureDocumentWith_tables)
  have "\<exists>t \<in> set (db_lots db'). l_id t = lot \<and> l_itemId t = ql_itemId l \<and>
         l_lotCode t = ''QA-RELEASE:'' @ qr_id (pq_release p) @ '':'' @ nat_str (ql_lineNo l) \<and>
         (t \<in> set (db_lots db) \<or> l_status t = AVAILABLE \<and> l_expiresAt t = None)"
    if "(l, lot, u) \<in> set (pq_lines p)" for l lot u
  proof -
    from released_loop [OF loop] that obtain t where
      "t \<in> set (db_lots db1)" "l_id t = lot" "l_itemId t = ql_itemId l" "l_lotCode t = releasedLotCode (pq_release p) l" by auto
    with released_undated [OF loop] show ?thesis unfolding same undated_def releasedLotCode_def by metis
  qed
  then show ?thesis
    unfolding prepareQaRelease_frame(5) [OF assms, symmetric] list_all2_map1 list_all2_map2
    by (auto simp: list_all2_same)
qed

end
