(* ===== verification/ReturnExample.thy ===== *)
theory ReturnExample
  imports StockExample ReturnEffects "HOL-Library.Code_Target_Nat"
begin

text \<open>
  A return on which the properties are evaluated: an outlet kitchen sends back two milligrams of
  saffron from a lot that expires (a millionth of a box, a box has two kilograms) and one milligram of a spoiled lot; the headquarters keep the first in quarantine
  and write the second off; a QA release then takes the two milligrams back into stock. The stages are
  the results of the operations; one evaluation of the whole run (\<open>rx_run\<close>) gives the facts about them.
  The service runs each module over a posting service of its own; \<open>rx_deps\<close> knows the policies of both.
\<close>

text \<open>Short ids and hashes and small numbers keep the evaluation small.\<close>

definition rx_env :: env where
  "rx_env = \<lparr>env_uuid = (\<lambda>n. [''abcdefghijklmnopqrstuvwxyzABCDEFGHIJ'' ! n]), env_today = ''2026-01-02'',
     env_collate = (\<lambda>_ _. True), env_sha256 = (\<lambda>j. take 8 (json_leaves j)), env_stockPostingDisabled = None\<rparr>"

definition rx_deps :: posting_deps where
  "rx_deps = return_deps\<lparr>dep_policies := dep_policies return_deps @ dep_policies qa_deps\<rparr>"

definition rx_post :: "return_db poster" where
  "rx_post = post rx_env rx_deps (\<lambda>_. None)"

definition rx_start :: return_db where
  "rx_start = \<lparr>
     db_warehouses = [
       \<lparr>w_id = ''W1'', w_locationId = ''L1'', w_type = TypeKitchen, w_purpose = Some KITCHEN, w_isActive = True\<rparr>,
       \<lparr>w_id = ''H1'', w_locationId = ''HQ'', w_type = TypeMain, w_purpose = Some HQ_MAIN, w_isActive = True\<rparr>,
       \<lparr>w_id = ''Q1'', w_locationId = ''HQ'', w_type = TypeMain, w_purpose = Some QUARANTINE, w_isActive = True\<rparr>],
     db_items = [\<lparr>i_id = ''I1'', i_code = ''SAFFRON'', i_unit = ''kg'', i_itemType = RAW, i_isActive = True,
       i_shelfLifeDays = None\<rparr>],
     db_conversions = [\<lparr>c_itemId = ''I1'', c_fromUom = ''box'', c_toBaseFactor = 200000000, c_isActive = True\<rparr>],
     db_lots = [
       \<lparr>l_id = ''T1'', l_itemId = ''I1'', l_lotCode = ''A'', l_status = AVAILABLE, l_expiresAt = Some ''2026-01-05'',
        l_unitCost = 0\<rparr>,
       \<lparr>l_id = ''T2'', l_itemId = ''I1'', l_lotCode = ''B'', l_status = AVAILABLE, l_expiresAt = None,
        l_unitCost = 0\<rparr>],
     db_balances = [
       \<lparr>b_id = ''B1'', b_warehouseId = ''W1'', b_lotId = ''T1'', b_onHand = 5, b_reserved = 0, b_version = 1\<rparr>,
       \<lparr>b_id = ''B2'', b_warehouseId = ''W1'', b_lotId = ''T2'', b_onHand = 3, b_reserved = 0, b_version = 1\<rparr>],
     db_users = [\<lparr>u_id = ''U1'', u_name = ''Ann'', u_role = ''OWNER'', u_active = True\<rparr>,
                 \<lparr>u_id = ''U2'', u_name = ''Ben'', u_role = ''OWNER'', u_active = True\<rparr>],
     db_sessions = [], db_access = [],
     db_flags = [\<lparr>f_key = ''stock.lot_writes'', f_enabled = True, f_version = 1\<rparr>,
                 \<lparr>f_key = ''stock.returns'', f_enabled = True, f_version = 1\<rparr>],
     db_openTopologyExceptions = 0, db_documents = [], db_postings = [], db_ledger = [],
     db_audit = [], db_outbox = [], db_ids = 0,
     rt_batches = [], rt_lines = [], rt_receipts = [], rt_genealogy = [], rt_releases = [], rt_releaseLines = []\<rparr>"

definition rx_create :: create_return_input where
  "rx_create = \<lparr>cr_actorUserId = ''U1'', cr_sessionId = None, cr_sourceLocationId = ''L1'',
     cr_destinationLocationId = None, cr_destinationWarehouseId = None, cr_remarks = None,
     cr_lines = [
       \<lparr>rli_itemId = ''I1'', rli_lotId = ''T1'', rli_sourceWarehouseId = ''W1'', rli_enteredQuantity = ''0.000002'',
        rli_enteredUom = ''kg'', rli_reasonCode = ''OTHER'', rli_remarks = None, rli_evidenceRef = None\<rparr>,
       \<lparr>rli_itemId = ''I1'', rli_lotId = ''T2'', rli_sourceWarehouseId = ''W1'', rli_enteredQuantity = ''0.000001'',
        rli_enteredUom = ''kg'', rli_reasonCode = ''SPOILED'', rli_remarks = None, rli_evidenceRef = None\<rparr>]\<rparr>"

definition rx_ids :: "nat \<Rightarrow> string" where
  "rx_ids n = env_uuid rx_env n"

definition rx_act :: "string \<Rightarrow> nat \<Rightarrow> return_action" where
  "rx_act u v = \<lparr>ra_actorUserId = u, ra_sessionId = None, ra_batchId = rx_ids 1, ra_expectedVersion = v\<rparr>"

definition rx_says :: "receipt_input list" where
  "rx_says = [\<lparr>rp_batchLineId = rx_ids 2, rp_reasonCode = ''OTHER'', rp_remarks = None\<rparr>,
              \<lparr>rp_batchLineId = rx_ids 3, rp_reasonCode = ''SPOILED'', rp_remarks = None\<rparr>]"

definition rx_ask :: "string \<Rightarrow> string \<Rightarrow> create_qa_input" where
  "rx_ask quantity uom = \<lparr>cq_actorUserId = ''U1'', cq_sessionId = None, cq_remarks = None,
     cq_lines = [\<lparr>qi_receiptLineId = rx_ids 19, qi_enteredQuantity = quantity, qi_enteredUom = uom, qi_remarks = None\<rparr>]\<rparr>"

definition rx_qa :: "string \<Rightarrow> nat \<Rightarrow> qa_action" where
  "rx_qa u v = \<lparr>qa_actorUserId = u, qa_sessionId = None, qa_releaseId = rx_ids 22, qa_expectedVersion = v\<rparr>"

section \<open>Stages\<close>

definition rx_drafted :: return_db where
  "rx_drafted = fst (createStockReturnDraft rx_env 0 rx_create rx_start)"

definition rx_submitted :: return_db where
  "rx_submitted = fst (submitStockReturnBatch rx_env (rx_act ''U1'' 1) rx_drafted)"

definition rx_approved :: return_db where
  "rx_approved = fst (approveStockReturnBatch (rx_act ''U2'' 2) rx_submitted)"

definition rx_dispatch :: "return_db \<Rightarrow> return_db \<times> (return_error + batch_view)" where
  "rx_dispatch = dispatchStockReturnBatch rx_env rx_post id id (rx_act ''U1'' 3)"

definition rx_dispatched :: return_db where
  "rx_dispatched = fst (rx_dispatch rx_approved)"

definition rx_receive :: "return_db \<Rightarrow> return_db \<times> (return_error + batch_view)" where
  "rx_receive = receiveAndDisposeStockReturnBatch rx_env rx_post id id (rx_act ''U1'' 4) rx_says"

definition rx_received :: return_db where
  "rx_received = fst (rx_receive rx_dispatched)"

text \<open>Two drafts of a release of the same two milligrams, one in boxes and one in kilograms.\<close>

definition rx_box :: return_db where
  "rx_box = fst (createQaReleaseDraft rx_env 0 (rx_ask ''0.000001'' ''box'') rx_received)"

definition rx_kilo :: return_db where
  "rx_kilo = fst (createQaReleaseDraft rx_env 0 (rx_ask ''0.000002'' ''kg'') rx_received)"

definition rx_asked :: return_db where
  "rx_asked = fst (submitQaRelease (rx_qa ''U1'' 1) rx_kilo)"

definition rx_passed :: return_db where
  "rx_passed = fst (approveQaRelease (rx_qa ''U2'' 2) rx_asked)"

definition rx_release :: "return_db \<Rightarrow> return_db \<times> (qa_error + release_view)" where
  "rx_release = releaseQaRelease rx_env rx_post id id (rx_qa ''U1'' 3)"

definition rx_released :: return_db where
  "rx_released = fst (rx_release rx_passed)"

section \<open>One evaluation\<close>

text \<open>What is looked at in each stage; the chain evaluates every stage once.\<close>

definition rx_see_approved :: "return_db \<Rightarrow> bool" where
  "rx_see_approved db \<longleftrightarrow>
     map rb_id (rt_batches db) = [rx_ids 1] \<and> db_postings db = [] \<and> distinct (map d_id (db_documents db)) \<and>
     list_ex (\<lambda>d. d_id d = rx_ids 4 \<and> d_status d = ''APPROVED'' \<and> d_stockPostingId d = None \<and>
       CHR '':'' \<notin> set (d_documentNo d)) (db_documents db) \<and>
     returned (batchLines (rt_lines db) (rx_ids 1)) ''W1'' ''T1'' = 2"

definition rx_see_dispatched :: "return_db \<Rightarrow> bool" where
  "rx_see_dispatched db \<longleftrightarrow> map rb_id (rt_batches db) = [rx_ids 1] \<and>
     list_all (\<lambda>b. list_all (\<lambda>q. p_idempotencyKey q \<noteq> receiptNo b) (db_postings db)) (rt_batches db)"

definition rx_see_received :: "return_db \<Rightarrow> bool" where
  "rx_see_received db \<longleftrightarrow>
     list_ex (\<lambda>b. rb_status b = SR_RECEIVED_DISPOSED \<and> rb_id b = rx_ids 1 \<and> rb_submittedBy b = Some ''U1'') (rt_batches db) \<and>
     list_ex (\<lambda>l. bl_id l = rx_ids 2 \<and> bl_batchId l = rx_ids 1) (rt_lines db)"

definition rx_see_box :: "return_db \<Rightarrow> bool" where
  "rx_see_box db \<longleftrightarrow>
     (case (lockRelease db (rx_ids 22), releaseLines (rt_releaseLines db) (rx_ids 22), lockReceipt db (rx_ids 19)) of
        (Inr q, [l], Inr (i, rc)) \<Rightarrow> qr_id q = rx_ids 22 \<and> ql_receiptLineId l = rx_ids 19 \<and> ql_releaseQuantity l = 2 \<and>
          rc_receivedQuantity rc = 2 \<and> siblingSum db (Some (rx_ids 22)) (rc_id rc) = 0 \<and>
          (case quarantineLotOf db rc of None \<Rightarrow> False
           | Some t \<Rightarrow>
               (let key = l_itemId t @ '':'' @ to_lower (trim (ql_enteredUom l)) in
                qaConversions db [key] = Inr [(key, ''2.00000000'')]))
      | _ \<Rightarrow> False)"

definition rx_see_passed :: "return_db \<Rightarrow> bool" where
  "rx_see_passed db \<longleftrightarrow> map qr_id (rt_releases db) = [rx_ids 22] \<and>
     list_all (\<lambda>r. list_all (\<lambda>q. p_idempotencyKey q \<noteq> releaseKey r) (db_postings db)) (rt_releases db) \<and>
     list_all (\<lambda>l. ql_releaseQuantity l = 2 \<and> ql_releaseId l = rx_ids 22 \<and> ql_receiptLineId l = rx_ids 19) (rt_releaseLines db)"

definition rx_after_received :: "return_db \<Rightarrow> bool" where
  "rx_after_received db \<longleftrightarrow> rx_see_received db \<and> rx_see_box (fst (createQaReleaseDraft rx_env 0 (rx_ask ''0.000001'' ''box'') db))"

definition rx_see_released :: "return_db \<Rightarrow> return_db \<times> (qa_error + release_view) \<Rightarrow> bool" where
  "rx_see_released db dr \<longleftrightarrow> is_ok (snd dr) \<and>
     list_ex (\<lambda>t. t \<notin> set (db_lots db) \<and> list_ex (\<lambda>b. b_lotId b = l_id t) (db_balances (fst dr))) (db_lots (fst dr))"

definition rx_end :: "return_db \<Rightarrow> bool" where
  "rx_end db \<longleftrightarrow> rx_see_passed db \<and> rx_see_released db (rx_release db)"

definition rx_quality :: "return_db \<Rightarrow> bool" where
  "rx_quality db \<longleftrightarrow> rx_end (fst (approveQaRelease (rx_qa ''U2'' 2) (fst (submitQaRelease (rx_qa ''U1'' 1)
     (fst (createQaReleaseDraft rx_env 0 (rx_ask ''0.000002'' ''kg'') db))))))"

definition rx_ok :: "(return_db \<Rightarrow> bool) \<Rightarrow> return_db \<times> (return_error + batch_view) \<Rightarrow> bool" where
  "rx_ok p dr \<longleftrightarrow> is_ok (snd dr) \<and> p (fst dr)"

definition rx_tail :: "return_db \<Rightarrow> bool" where
  "rx_tail db \<longleftrightarrow> rx_after_received db \<and> rx_quality db"

definition rx_middle :: "return_db \<Rightarrow> bool" where
  "rx_middle db \<longleftrightarrow> rx_see_dispatched db \<and> rx_ok rx_tail (rx_receive db)"

definition rx_first :: "return_db \<Rightarrow> bool" where
  "rx_first db \<longleftrightarrow> rx_see_approved db \<and> rx_ok rx_middle (rx_dispatch db)"

lemma rx_run:
  "rx_first (fst (approveStockReturnBatch (rx_act ''U2'' 2) (fst (submitStockReturnBatch rx_env (rx_act ''U1'' 1)
     (fst (createStockReturnDraft rx_env 0 rx_create rx_start))))))"
  by code_simp

lemma rx_facts:
  "rx_see_approved rx_approved" "is_ok (snd (rx_dispatch rx_approved))" "rx_see_dispatched rx_dispatched"
  "is_ok (snd (rx_receive rx_dispatched))" "rx_see_received rx_received" "rx_see_box rx_box"
  "rx_see_passed rx_passed" "is_ok (snd (rx_release rx_passed))" "rx_see_released rx_passed (rx_release rx_passed)"
proof -
  have f: "rx_first rx_approved" using rx_run by (simp only: rx_approved_def rx_submitted_def rx_drafted_def)
  then have m: "rx_middle rx_dispatched" by (simp only: rx_first_def rx_ok_def rx_dispatched_def)
  then have t: "rx_tail rx_received" by (simp only: rx_middle_def rx_ok_def rx_received_def)
  then have e: "rx_end rx_passed"
    by (simp only: rx_tail_def rx_quality_def rx_passed_def rx_asked_def rx_kilo_def)
  show "rx_see_approved rx_approved" "is_ok (snd (rx_dispatch rx_approved))"
    using f by (simp_all only: rx_first_def rx_ok_def)
  show "rx_see_dispatched rx_dispatched" "is_ok (snd (rx_receive rx_dispatched))"
    using m by (simp_all only: rx_middle_def rx_ok_def)
  show "rx_see_received rx_received" "rx_see_box rx_box"
    using t by (simp_all only: rx_tail_def rx_after_received_def rx_box_def)
  show "rx_see_passed rx_passed" "rx_see_released rx_passed (rx_release rx_passed)" using e by (simp_all only: rx_end_def)
  then show "is_ok (snd (rx_release rx_passed))" by (simp only: rx_see_released_def)
qed

section \<open>The stages are reachable\<close>

lemma rx_start_inv: "stock_inv rx_start"
  by (simp add: stock_inv_def balances_ok_def balance_ok_def no_colon_def rx_start_def)

lemma rx_reachable:
  "return_reachable rx_env rx_post (rx_approved, [])" "return_reachable rx_env rx_post (rx_dispatched, [])"
  "return_reachable rx_env rx_post (rx_received, [])" "return_reachable rx_env rx_post (rx_kilo, [])"
  "return_reachable rx_env rx_post (rx_asked, [])"
  "return_reachable rx_env rx_post (rx_passed, [])" "return_reachable rx_env rx_post (rx_released, [])"
proof -
  have s: "return_reachable rx_env rx_post (rx_start, [])"
    by (rule return_reachable.start [OF _ _ _ _ _ rx_start_inv]) (simp_all add: rx_start_def)
  have d: "return_reachable rx_env rx_post (rx_drafted, [])" unfolding rx_drafted_def
    by (rule return_reachable.onward [OF s return_step.drafted]) (rule prod.collapse [symmetric])
  have u: "return_reachable rx_env rx_post (rx_submitted, [])" unfolding rx_submitted_def
    by (rule return_reachable.onward [OF d return_step.submitted]) (rule prod.collapse [symmetric])
  show a: "return_reachable rx_env rx_post (rx_approved, [])" unfolding rx_approved_def
    by (rule return_reachable.onward [OF u return_step.approved]) (rule prod.collapse [symmetric])
  show x: "return_reachable rx_env rx_post (rx_dispatched, [])" unfolding rx_dispatched_def rx_dispatch_def
    by (rule whole_dispatch [OF a]) (rule prod.collapse [symmetric])
  show r: "return_reachable rx_env rx_post (rx_received, [])" unfolding rx_received_def rx_receive_def
    by (rule whole_receipt [OF x]) (rule prod.collapse [symmetric])
  show k: "return_reachable rx_env rx_post (rx_kilo, [])" unfolding rx_kilo_def
    by (rule return_reachable.onward [OF r return_step.qa_drafted]) (rule prod.collapse [symmetric])
  show q: "return_reachable rx_env rx_post (rx_asked, [])" unfolding rx_asked_def
    by (rule return_reachable.onward [OF k return_step.qa_submitted]) (rule prod.collapse [symmetric])
  show p: "return_reachable rx_env rx_post (rx_passed, [])" unfolding rx_passed_def
    by (rule return_reachable.onward [OF q return_step.qa_approved]) (rule prod.collapse [symmetric])
  show "return_reachable rx_env rx_post (rx_released, [])" unfolding rx_released_def rx_release_def
    by (rule whole_release [OF p]) (rule prod.collapse [symmetric])
qed

lemma rx_invs: "stock_inv rx_approved" "stock_inv rx_dispatched" "stock_inv rx_passed"
  using posting_returns.reachable_world rx_reachable unfolding rx_post_def return_world_ok_def rt_ok_def by fastforce+

end
