(* ===== verification/ReturnProps.thy ===== *)
theory ReturnProps
  imports ReturnExample Transfers
begin

text \<open>The properties of stock returns and QA releases.\<close>

section \<open>Interleaved requests\<close>

text \<open>C16: Return batches. In every reachable state of interleaved requests an approved, dispatched or
  received batch was submitted by one user and approved by another; the base quantity of each of its
  lines is exactly the entered quantity times the factor; and a line has exactly one receipt, for its
  whole quantity, when its batch is received, and none before.\<close>

theorem return_batches_sound:
  assumes "return_reachable e (post e' deps aborts) (db, fs)" and "b \<in> set (rt_batches db)"
  shows "(rb_status b \<in> {SR_APPROVED, SR_DISPATCHED, SR_RECEIVED_DISPOSED} \<longrightarrow>
      (\<exists>maker checker. rb_submittedBy b = Some maker \<and> rb_approvedBy b = Some checker \<and> maker \<noteq> checker)) \<and>
    (\<forall>l \<in> set (rt_lines db). bl_batchId l = rb_id b \<longrightarrow>
       0 < bl_quantity l \<and> bl_enteredQuantity l * bl_conversionFactor l = bl_quantity l * 10 ^ 8 \<and>
       (if rb_status b = SR_RECEIVED_DISPOSED
        then \<exists>!r. r \<in> set (rt_receipts db) \<and> rc_batchLineId r = bl_id l \<and> rc_receivedQuantity r = bl_quantity l
        else \<forall>r \<in> set (rt_receipts db). rc_batchLineId r \<noteq> bl_id l))"
proof -
  from posting_returns.reachable_world [OF assms(1)]
  have ok: "returns_ok (rt_batches db) (rt_lines db) (rt_receipts db)" by (simp add: return_world_ok_def rt_ok_def)
  note b = returns_okD(8) [OF ok assms(2)]
  have maker: "\<exists>maker checker. rb_submittedBy b = Some maker \<and> rb_approvedBy b = Some checker \<and> maker \<noteq> checker"
    if "rb_status b \<in> {SR_APPROVED, SR_DISPATCHED, SR_RECEIVED_DISPOSED}"
    using b that by (auto simp: batch_ok_def)
  have line: "0 < bl_quantity l \<and> bl_enteredQuantity l * bl_conversionFactor l = bl_quantity l * 10 ^ 8 \<and>
       (if rb_status b = SR_RECEIVED_DISPOSED
        then \<exists>!r. r \<in> set (rt_receipts db) \<and> rc_batchLineId r = bl_id l \<and> rc_receivedQuantity r = bl_quantity l
        else \<forall>r \<in> set (rt_receipts db). rc_batchLineId r \<noteq> bl_id l)"
    if l: "l \<in> set (rt_lines db)" "bl_batchId l = rb_id b" for l
  proof -
    have mem: "l \<in> batch_lines (rt_lines db) (rb_id b)" using l by (simp add: batch_lines_def)
    show ?thesis
    proof (cases "rb_status b = SR_RECEIVED_DISPOSED")
      case True
      then obtain r where r: "r \<in> set (rt_receipts db)" "rc_batchLineId r = bl_id l" "rc_receivedQuantity r = bl_quantity l"
        using b mem unfolding batch_ok_def by meson
      have "\<exists>!r. r \<in> set (rt_receipts db) \<and> rc_batchLineId r = bl_id l \<and> rc_receivedQuantity r = bl_quantity l"
        by (rule ex1I [of _ r]) (use r row_by_key [OF returns_okD(3) [OF ok]] in auto)
      with True returns_okD(5) [OF ok l(1)] show ?thesis by (simp add: bline_ok_def)
    next
      case False
      then have "bl_id l \<notin> rc_batchLineId ` set (rt_receipts db)" using b mem unfolding batch_ok_def by meson
      with False returns_okD(5) [OF ok l(1)] show ?thesis by (auto simp: bline_ok_def image_iff)
    qed
  qed
  from maker line show ?thesis by blast
qed

theorem return_batches_sound_witness:
  "\<exists>b \<in> set (rt_batches rx_received). rb_status b = SR_RECEIVED_DISPOSED \<and>
    (\<exists>maker checker. rb_submittedBy b = Some maker \<and> rb_approvedBy b = Some checker \<and> maker \<noteq> checker) \<and>
    (\<exists>r \<in> set (rt_receipts rx_received). rc_batchLineId r = rx_ids 2)"
proof -
  from rx_facts(5) obtain b l where b: "b \<in> set (rt_batches rx_received)" "rb_status b = SR_RECEIVED_DISPOSED" "rb_id b = rx_ids 1"
    and l: "l \<in> set (rt_lines rx_received)" "bl_id l = rx_ids 2" "bl_batchId l = rx_ids 1"
    by (auto simp: rx_see_received_def list_ex_iff)
  note t = return_batches_sound [OF rx_reachable(3) [unfolded rx_post_def] b(1)]
  have "\<exists>!r. r \<in> set (rt_receipts rx_received) \<and> rc_batchLineId r = bl_id l \<and> rc_receivedQuantity r = bl_quantity l"
    using bspec [OF conjunct2 [OF t] l(1)] b(2,3) l(3) by simp
  then obtain r where "r \<in> set (rt_receipts rx_received)" "rc_batchLineId r = rx_ids 2" unfolding l(2) by blast
  with conjunct1 [OF t] b show ?thesis by blast
qed

text \<open>C17: The moves of returns and releases. Whatever request takes a step in a reachable state, every
  batch and every release stays and is either untouched or moves along one edge of its status machine
  with its version counted up by one; receipts stay; the lines of a batch that has left its draft never
  change, and the lines of a release that has left its draft keep their ids, items, quarantine lots,
  receipts and quantities, with none added or removed. A batch that is approved cannot be cancelled any
  more; a release can.\<close>

theorem returns_move_forward:
  assumes "return_reachable e (post e' deps aborts) w" and "return_step e (post e' deps aborts) w w'"
  shows "set (rt_receipts (fst w)) \<subseteq> set (rt_receipts (fst w')) \<and>
    (\<forall>x \<in> set (rt_batches (fst w)). \<exists>y \<in> set (rt_batches (fst w')). rb_id y = rb_id x \<and>
      rb_documentNo y = rb_documentNo x \<and>
      (y = x \<or> rb_version y = Suc (rb_version x) \<and> (rb_status x, rb_status y) \<in>
         {(SR_DRAFT, SR_DRAFT), (SR_DRAFT, SR_SUBMITTED), (SR_SUBMITTED, SR_APPROVED), (SR_APPROVED, SR_DISPATCHED),
          (SR_DISPATCHED, SR_RECEIVED_DISPOSED), (SR_DRAFT, SR_CANCELLED), (SR_SUBMITTED, SR_CANCELLED)}) \<and>
      (rb_status x \<noteq> SR_DRAFT \<longrightarrow> {l \<in> set (rt_lines (fst w')). bl_batchId l = rb_id x} =
         {l \<in> set (rt_lines (fst w)). bl_batchId l = rb_id x})) \<and>
    (\<forall>x \<in> set (rt_releases (fst w)). \<exists>y \<in> set (rt_releases (fst w')). qr_id y = qr_id x \<and>
      qr_documentNo y = qr_documentNo x \<and>
      (y = x \<or> qr_version y = Suc (qr_version x) \<and> (qr_status x, qr_status y) \<in>
         {(QR_DRAFT, QR_DRAFT), (QR_DRAFT, QR_SUBMITTED), (QR_SUBMITTED, QR_APPROVED), (QR_APPROVED, QR_RELEASED),
          (QR_DRAFT, QR_CANCELLED), (QR_SUBMITTED, QR_CANCELLED), (QR_APPROVED, QR_CANCELLED)}) \<and>
      (qr_status x \<noteq> QR_DRAFT \<longrightarrow>
         (\<lambda>l. (ql_id l, ql_itemId l, ql_quarantineLotId l, ql_receiptLineId l, ql_releaseQuantity l)) `
           {l \<in> set (rt_releaseLines (fst w')). ql_releaseId l = qr_id x} =
         (\<lambda>l. (ql_id l, ql_itemId l, ql_quarantineLotId l, ql_receiptLineId l, ql_releaseQuantity l)) `
           {l \<in> set (rt_releaseLines (fst w)). ql_releaseId l = qr_id x}))"
proof (intro conjI)
  from posting_returns.step_world [OF assms(2) posting_returns.reachable_world [OF assms(1)]]
  have m: "returns_step (rt_batches (fst w)) (rt_lines (fst w)) (rt_receipts (fst w))
      (rt_batches (fst w')) (rt_lines (fst w')) (rt_receipts (fst w'))"
    "releases_step (rt_releases (fst w)) (rt_releaseLines (fst w)) (rt_releases (fst w')) (rt_releaseLines (fst w'))"
    by (simp_all add: rt_moves_def)
  show "set (rt_receipts (fst w)) \<subseteq> set (rt_receipts (fst w'))" using m(1) by (simp add: returns_step_def)
  show "\<forall>x \<in> set (rt_batches (fst w)). \<exists>y \<in> set (rt_batches (fst w')). rb_id y = rb_id x \<and>
      rb_documentNo y = rb_documentNo x \<and>
      (y = x \<or> rb_version y = Suc (rb_version x) \<and> (rb_status x, rb_status y) \<in>
         {(SR_DRAFT, SR_DRAFT), (SR_DRAFT, SR_SUBMITTED), (SR_SUBMITTED, SR_APPROVED), (SR_APPROVED, SR_DISPATCHED),
          (SR_DISPATCHED, SR_RECEIVED_DISPOSED), (SR_DRAFT, SR_CANCELLED), (SR_SUBMITTED, SR_CANCELLED)}) \<and>
      (rb_status x \<noteq> SR_DRAFT \<longrightarrow> {l \<in> set (rt_lines (fst w')). bl_batchId l = rb_id x} =
         {l \<in> set (rt_lines (fst w)). bl_batchId l = rb_id x})"
  proof
    fix x
    assume "x \<in> set (rt_batches (fst w))"
    then obtain y where y: "y \<in> set (rt_batches (fst w'))" "batch_moves x y"
      "rb_status x \<noteq> SR_DRAFT \<longrightarrow> batch_lines (rt_lines (fst w')) (rb_id x) = batch_lines (rt_lines (fst w)) (rb_id x)"
      using m(1) unfolding returns_step_def by blast
    from y(2,3) show "\<exists>y \<in> set (rt_batches (fst w')). rb_id y = rb_id x \<and>
      rb_documentNo y = rb_documentNo x \<and>
      (y = x \<or> rb_version y = Suc (rb_version x) \<and> (rb_status x, rb_status y) \<in>
         {(SR_DRAFT, SR_DRAFT), (SR_DRAFT, SR_SUBMITTED), (SR_SUBMITTED, SR_APPROVED), (SR_APPROVED, SR_DISPATCHED),
          (SR_DISPATCHED, SR_RECEIVED_DISPOSED), (SR_DRAFT, SR_CANCELLED), (SR_SUBMITTED, SR_CANCELLED)}) \<and>
      (rb_status x \<noteq> SR_DRAFT \<longrightarrow> {l \<in> set (rt_lines (fst w')). bl_batchId l = rb_id x} =
         {l \<in> set (rt_lines (fst w)). bl_batchId l = rb_id x})"
      unfolding batch_moves_def return_lifecycle_def batch_lines_def by (intro bexI [OF _ y(1)]) blast
  qed
  show "\<forall>x \<in> set (rt_releases (fst w)). \<exists>y \<in> set (rt_releases (fst w')). qr_id y = qr_id x \<and>
      qr_documentNo y = qr_documentNo x \<and>
      (y = x \<or> qr_version y = Suc (qr_version x) \<and> (qr_status x, qr_status y) \<in>
         {(QR_DRAFT, QR_DRAFT), (QR_DRAFT, QR_SUBMITTED), (QR_SUBMITTED, QR_APPROVED), (QR_APPROVED, QR_RELEASED),
          (QR_DRAFT, QR_CANCELLED), (QR_SUBMITTED, QR_CANCELLED), (QR_APPROVED, QR_CANCELLED)}) \<and>
      (qr_status x \<noteq> QR_DRAFT \<longrightarrow>
         (\<lambda>l. (ql_id l, ql_itemId l, ql_quarantineLotId l, ql_receiptLineId l, ql_releaseQuantity l)) `
           {l \<in> set (rt_releaseLines (fst w')). ql_releaseId l = qr_id x} =
         (\<lambda>l. (ql_id l, ql_itemId l, ql_quarantineLotId l, ql_receiptLineId l, ql_releaseQuantity l)) `
           {l \<in> set (rt_releaseLines (fst w)). ql_releaseId l = qr_id x})"
  proof
    fix x
    assume "x \<in> set (rt_releases (fst w))"
    then obtain y where y: "y \<in> set (rt_releases (fst w'))" "release_moves x y"
      "qr_status x \<noteq> QR_DRAFT \<longrightarrow> qline_key ` release_lines (rt_releaseLines (fst w')) (qr_id x) =
         qline_key ` release_lines (rt_releaseLines (fst w)) (qr_id x)"
      using m(2) unfolding releases_step_def by blast
    from y(2,3) show "\<exists>y \<in> set (rt_releases (fst w')). qr_id y = qr_id x \<and>
      qr_documentNo y = qr_documentNo x \<and>
      (y = x \<or> qr_version y = Suc (qr_version x) \<and> (qr_status x, qr_status y) \<in>
         {(QR_DRAFT, QR_DRAFT), (QR_DRAFT, QR_SUBMITTED), (QR_SUBMITTED, QR_APPROVED), (QR_APPROVED, QR_RELEASED),
          (QR_DRAFT, QR_CANCELLED), (QR_SUBMITTED, QR_CANCELLED), (QR_APPROVED, QR_CANCELLED)}) \<and>
      (qr_status x \<noteq> QR_DRAFT \<longrightarrow>
         (\<lambda>l. (ql_id l, ql_itemId l, ql_quarantineLotId l, ql_receiptLineId l, ql_releaseQuantity l)) `
           {l \<in> set (rt_releaseLines (fst w')). ql_releaseId l = qr_id x} =
         (\<lambda>l. (ql_id l, ql_itemId l, ql_quarantineLotId l, ql_receiptLineId l, ql_releaseQuantity l)) `
           {l \<in> set (rt_releaseLines (fst w)). ql_releaseId l = qr_id x})"
      unfolding release_moves_def release_lifecycle_def release_lines_def qline_key_def by (intro bexI [OF _ y(1)]) blast
  qed
qed

theorem returns_move_forward_witness:
  "\<exists>y \<in> set (rt_releases rx_passed). \<exists>x \<in> set (rt_releases rx_asked). qr_id y = qr_id x \<and>
     (y = x \<or> qr_version y = Suc (qr_version x))"
proof -
  have step: "return_step rx_env rx_post (rx_asked, []) (rx_passed, [])" unfolding rx_passed_def
    by (rule return_step.qa_approved) (rule prod.collapse [symmetric])
  from rx_facts(7) have one: "rt_releases rx_passed \<noteq> []" by (auto simp: rx_see_passed_def)
  have "rt_releases rx_asked \<noteq> []"
  proof
    assume "rt_releases rx_asked = []"
    then have "rt_releases rx_passed = []" unfolding rx_passed_def
      by (cases "approveQaRelease (rx_qa ''U2'' 2) rx_asked")
        (auto simp: approveQaRelease_def run_tx_def openRelease_def lockRelease_def res_iff split: sum.splits)
    with one show False by simp
  qed
  then obtain x where "x \<in> set (rt_releases rx_asked)" by (cases "rt_releases rx_asked") auto
  moreover note t = returns_move_forward [OF rx_reachable(5) [unfolded rx_post_def] step [unfolded rx_post_def]]
  ultimately show ?thesis using bspec [OF conjunct2 [OF conjunct2 [OF t]]] unfolding fst_conv by blast
qed

text \<open>A posted dispatch of a return lands. In a reachable state in which the goods of a batch have been
  posted out of the outlet, the last transaction of the request leaves the batch dispatched (or already
  received by a retry), whatever other requests did in between: a batch cannot be cancelled once it is
  approved, so no request can strand it.\<close>

theorem posted_return_lands:
  assumes "return_reachable e (post e' deps aborts) (db, fs)" and "DispatchDone inp p \<in> set fs"
    and "run_tx (finalizeReturnDispatch inp p) db = (db', res)"
  shows "\<exists>y \<in> set (rt_batches db'). rb_id y = rb_id (rd_batch p) \<and> rb_status y \<in> {SR_DISPATCHED, SR_RECEIVED_DISPOSED}"
proof (rule finalizeReturnDispatch_lands [OF assms(3)])
  note w = posting_returns.reachable_world [OF assms(1)]
  show "return_dispatch_ok inp p (rt_batches db) (rt_lines db)"
    using w assms(2) by (auto simp: return_world_ok_def list_all_iff dest!: bspec)
  have "returns_ok (rt_batches db) (rt_lines db) (rt_receipts db)" using w by (simp add: return_world_ok_def rt_ok_def)
  then show "distinct (map rb_id (rt_batches db))" by (rule returns_okD(1))
qed

theorem posted_return_lands_witness:
  "\<exists>y \<in> set (rt_batches rx_dispatched). rb_status y \<in> {SR_DISPATCHED, SR_RECEIVED_DISPOSED}"
proof -
  from rx_facts(2) obtain v where "rx_dispatch rx_approved = (rx_dispatched, Inr v)"
    unfolding rx_dispatched_def is_ok_iff by (metis prod.collapse)
  then obtain db1 p db2 r where prep: "prepareReturnDispatch rx_env (rx_act ''U1'' 3) rx_approved = Inr (db1, p)"
    and po: "rx_post (returnDispatchPosting (rx_act ''U1'' 3) p) db1 = (db2, Inr r)"
    and fin: "run_tx (finalizeReturnDispatch (rx_act ''U1'' 3) p) db2 = (rx_dispatched, Inr v)"
    unfolding rx_dispatch_def by (rule dispatch_parts)
  have "return_reachable rx_env rx_post (db1, [] @ DispatchReady (rx_act ''U1'' 3) p # [])"
    using return_reachable.onward [OF rx_reachable(1) return_step.dispatch_prepared [OF prep]] by simp
  from return_reachable.onward [OF this return_step.dispatch_posted [where poster = rx_post and fs = "[]" and fs' = "[]", OF po]]
  have "return_reachable rx_env (post rx_env rx_deps (\<lambda>_. None)) (db2, [DispatchDone (rx_act ''U1'' 3) p])"
    by (simp add: rx_post_def)
  from posted_return_lands [OF this _ fin] show ?thesis by auto
qed

section \<open>Stock\<close>






text \<open>C20: What a QA release may take. In every reachable state every line of a release draws on a receipt with
  a reusable reason and on the quarantine lot of that receipt, for a positive quantity, and the
  releases that are not cancelled together never draw more from a receipt than was received.\<close>

theorem qa_within_receipt:
  assumes "return_reachable e (post e' deps aborts) (db, fs)"
  shows "(\<forall>l \<in> set (rt_releaseLines db). 0 < ql_releaseQuantity l \<and> (\<exists>r \<in> set (rt_receipts db).
      rc_id r = ql_receiptLineId l \<and> rc_reasonCode r = RR_OTHER \<and> rc_quarantineLotId r = ql_quarantineLotId l)) \<and>
    (\<forall>r \<in> set (rt_receipts db). sum_list (map ql_releaseQuantity (filter (\<lambda>l. ql_receiptLineId l = rc_id r \<and>
        (\<forall>q \<in> set (rt_releases db). qr_id q = ql_releaseId l \<longrightarrow> qr_status q \<noteq> QR_CANCELLED)) (rt_releaseLines db)))
      \<le> rc_receivedQuantity r)"
proof -
  from posting_returns.reachable_world [OF assms]
  have ok: "releases_ok (rt_receipts db) (rt_releases db) (rt_releaseLines db)" by (simp add: return_world_ok_def rt_ok_def)
  have "0 < ql_releaseQuantity l \<and> (\<exists>r \<in> set (rt_receipts db).
      rc_id r = ql_receiptLineId l \<and> rc_reasonCode r = RR_OTHER \<and> rc_quarantineLotId r = ql_quarantineLotId l)"
    if "l \<in> set (rt_releaseLines db)" for l
    using releases_okD(3) [OF ok that] by (auto simp: qline_ok_def reusable_def QA_RELEASE_RELEASABLE_REASONS_def)
  moreover have eq: "(\<lambda>l. ql_receiptLineId l = i \<and> (\<forall>q \<in> set (rt_releases db). qr_id q = ql_releaseId l \<longrightarrow> qr_status q \<noteq> QR_CANCELLED)) =
      (\<lambda>l. ql_receiptLineId l = i \<and> \<not> releaseCancelled (rt_releases db) (ql_releaseId l))" for i
    unfolding releaseCancelled_iff [OF releases_okD(1) [OF ok]] by auto
  ultimately show ?thesis using releases_okD(5) [OF ok] unfolding booked_def eq by blast
qed

theorem qa_within_receipt_witness:
  "\<exists>l \<in> set (rt_releaseLines rx_passed). \<exists>r \<in> set (rt_receipts rx_passed). rc_id r = ql_receiptLineId l \<and> rc_reasonCode r = RR_OTHER"
proof -
  from rx_facts(8) obtain v where "releaseQaRelease rx_env rx_post id id (rx_qa ''U1'' 3) rx_passed = (rx_released, Inr v)"
    unfolding rx_released_def rx_release_def is_ok_iff by (metis prod.collapse)
  then obtain db1 p where "prepareQaRelease rx_env (rx_qa ''U1'' 3) rx_passed = Inr (db1, p)" by (rule release_parts)
  then have "releaseLines (rt_releaseLines rx_passed) (qr_id (pq_release p)) \<noteq> []"
    by (auto simp: prepareQaRelease_def Let_def res_iff)
  then obtain l where "l \<in> set (releaseLines (rt_releaseLines rx_passed) (qr_id (pq_release p)))" using last_in_set by blast
  then have "l \<in> set (rt_releaseLines rx_passed)" by (simp add: release_lines_def)
  with qa_within_receipt [OF rx_reachable(6) [unfolded rx_post_def]] show ?thesis by blast
qed



section \<open>What the code does not do\<close>

text \<open>A line that passes the validation has its quantity, times the factor of its unit, within the rest.\<close>

lemma resolveQaLine_factor:
  assumes "resolveQaLine db receipts factors exclude (n, l) = Inr r"
    and "map_of receipts (qi_receiptLineId l) = Some rc" and "map_of factors (qaConversionKey db receipts l) = Some f"
    and "parseFixed f 8 = Inr factor" and "parseFixed (qi_enteredQuantity l) 6 = Inr q"
  shows "q * factor \<le> (rc_receivedQuantity rc - siblingSum db exclude (rc_id rc)) * 10 ^ 8"
proof -
  from assms(1,2,3) obtain base requested where mul: "multiplyFixedExact (qi_enteredQuantity l) 6 f 8 6 = Inr base"
    and req: "parseFixed base 6 = Inr requested" "requested \<le> rc_receivedQuantity rc - siblingSum db exclude (rc_id rc)"
    unfolding resolveQaLine_def Let_def prod.case by (cases "quarantineLotOf db rc") (auto simp: res_iff)
  from mul obtain a b p where ab: "parseFixed (qi_enteredQuantity l) 6 = Inr a" "parseFixed f 8 = Inr b" "base = formatFixed p 6"
    "a * b * 10 ^ 6 = p * 10 ^ (6 + 8)" by (rule multiplyFixedExact_exact)
  have "a = q" "b = factor" "p = requested" using ab assms(4,5) req(1) by simp_all
  with ab(4) have "q * factor = requested * 10 ^ 8" by (simp add: mult.commute)
  with req(2) show ?thesis by simp
qed

text \<open>Submitting validates the stored lines of the release.\<close>

lemma submitted_lines:
  assumes "submitQaRelease inp db = (db', Inr v)" and "lockRelease db (qa_releaseId inp) = Inr q"
  obtains resolved where
    "resolveQaLines db (map storedQaLine (releaseLines (rt_releaseLines db) (qr_id q))) (Some (qr_id q)) = Inr resolved"
proof -
  from assms(1) obtain a r hq resolved where op: "openRelease inp QA_RELEASE_ROLES db = Inr (a, r, hq)"
    and res: "resolveQaLines db (map storedQaLine (releaseLines (rt_releaseLines db) (qr_id r))) (Some (qr_id r)) = Inr resolved"
    unfolding submitQaRelease_def run_tx_ok by (auto simp: res_iff Let_def)
  from op assms(2) have "r = q" by (auto simp: openRelease_def res_iff)
  with res that show thesis by blast
qed

lemma conversions_map_of:
  assumes "qaConversions db keys = Inr factors" and "key \<in> set keys" and "qaConversions db [key] = Inr [(key', f)]"
  shows "map_of factors key = Some f"
proof -
  let ?items = "map (\<lambda>i. (i_id i, i)) (db_items db)"
  let ?conv = "conversionWith (QaErr Q_UOM_MISMATCH 409) QaPassed db ?items"
  have fst: "?conv k = Inr (k', g) \<Longrightarrow> k' = k" for k k' g
    by (auto simp: conversionWith_def Let_def res_iff split: option.splits if_splits)
  from assms(3) have key: "map_of ?items (takeWhile (\<lambda>c. c \<noteq> CHR '':'') key) \<noteq> None" "?conv key = Inr (key', f)"
    by (auto simp: qaConversions_def Let_def res_iff split: if_splits)
  let ?ks = "filter (\<lambda>k. map_of ?items (takeWhile (\<lambda>c. c \<noteq> CHR '':'') k) \<noteq> None) keys"
  have all: "mapE ?conv ?ks = Inr factors" using assms(1) by (simp add: qaConversions_def Let_def)
  have "key \<in> set ?ks" using key(1) assms(2) by simp
  from mapE_mem_source [OF all this] key(2) have "(key, f) \<in> set factors" using fst by fastforce
  moreover have "g = f" if "(key, g) \<in> set factors" for g
    using mapE_mem [OF all that] fst key(2) by fastforce
  ultimately show ?thesis by (metis map_of_SomeD weak_map_of_SomeI)
qed

lemma scaled_line:
  assumes res: "resolveQaLines db (map storedQaLine ls) exclude = Inr resolved" and l: "l \<in> set ls"
    and rc: "lockReceipt db (ql_receiptLineId l) = Inr (i, rc)" and t: "quarantineLotOf db rc = Some t"
    and conv: "qaConversions db [l_itemId t @ '':'' @ to_lower (trim (ql_enteredUom l))] = Inr [(key, f)]"
    and factor: "parseFixed f 8 = Inr factor"
  shows "ql_releaseQuantity l * factor \<le> (rc_receivedQuantity rc - siblingSum db exclude (rc_id rc)) * 10 ^ 8"
proof -
  let ?ls = "map storedQaLine ls"
  from res obtain receipts factors where
    rcs: "mapE (lockReceipt db) (js_sorted_set (map qi_receiptLineId ?ls)) = Inr receipts"
    and fs: "qaConversions db (js_distinct (map (qaConversionKey db receipts) ?ls)) = Inr factors"
    and each: "mapE (resolveQaLine db receipts factors exclude) (zip [1..<Suc (length ?ls)] ?ls) = Inr resolved"
    unfolding resolveQaLines_def bindE_Inr_iff by blast
  have mem: "storedQaLine l \<in> set ?ls" using l by simp
  have same: "lockReceipt db k = Inr (k', r) \<Longrightarrow> k' = k" for k k' r by (auto simp: lockReceipt_def split: option.splits)
  have "ql_receiptLineId l \<in> set (js_sorted_set (map qi_receiptLineId ?ls))" using l by (force simp: storedQaLine_def)
  from mapE_mem_source [OF rcs this] rc same have "(ql_receiptLineId l, rc) \<in> set receipts" by fastforce
  moreover have "r = rc" if "(ql_receiptLineId l, r) \<in> set receipts" for r
    using mapE_mem [OF rcs that] same rc by fastforce
  ultimately have r: "map_of receipts (ql_receiptLineId l) = Some rc" by (metis map_of_SomeD weak_map_of_SomeI)
  have k: "qaConversionKey db receipts (storedQaLine l) = l_itemId t @ '':'' @ to_lower (trim (ql_enteredUom l))"
    by (simp add: qaConversionKey_def storedQaLine_def r t)
  have "qaConversionKey db receipts (storedQaLine l) \<in> set (js_distinct (map (qaConversionKey db receipts) ?ls))"
    using l by auto
  from conversions_map_of [OF fs this] conv k have f: "map_of factors (qaConversionKey db receipts (storedQaLine l)) = Some f" by simp
  from mem obtain n where n: "(n, storedQaLine l) \<in> set (zip [1..<Suc (length ?ls)] ?ls)"
    by (metis in_set_impl_in_set_zip2 length_upt diff_Suc_1)
  from mapE_mem_source [OF each n] obtain y where "resolveQaLine db receipts factors exclude (n, storedQaLine l) = Inr y" by blast
  from resolveQaLine_factor [OF this _ f factor] r show ?thesis by (simp add: storedQaLine_def)
qed

text \<open>C22: Submitting a QA release multiplies by the factor of the unit once more. The draft stores what it
  takes in the base unit; submitting validates these stored quantities again as if they were entered in
  the unit of the line. So a draft in a unit with a factor other than one is refused as soon as its base
  quantity times the factor exceeds what is left of the receipt, although the quantity itself does not.\<close>

theorem qa_submit_scales_twice:
  fixes db :: "'z return_db_scheme"
  assumes "lockRelease db (qa_releaseId inp) = Inr q" and "l \<in> set (releaseLines (rt_releaseLines db) (qr_id q))"
    and "lockReceipt db (ql_receiptLineId l) = Inr (i, rc)" and "quarantineLotOf db rc = Some t"
    and "qaConversions db [l_itemId t @ '':'' @ to_lower (trim (ql_enteredUom l))] = Inr [(key, f)]"
    and "parseFixed f 8 = Inr factor"
    and "(rc_receivedQuantity rc - siblingSum db (Some (qr_id q)) (rc_id rc)) * 10 ^ 8 < ql_releaseQuantity l * factor"
  shows "\<exists>err. submitQaRelease inp db = (db, Inl err)"
proof (rule ccontr)
  assume no: "\<not> ?thesis"
  obtain db' res where sub: "submitQaRelease inp db = (db', res)" by fastforce
  with no obtain v where "submitQaRelease inp db = (db', Inr v)"
    by (cases res) (auto simp: submitQaRelease_def dest: run_tx_error)
  then obtain resolved where res: "resolveQaLines db (map storedQaLine (releaseLines (rt_releaseLines db) (qr_id q))) (Some (qr_id q)) = Inr resolved"
    using assms(1) by (rule submitted_lines)
  from scaled_line [OF res assms(2,3,4,5,6)] assms(7) show False by simp
qed

theorem qa_submit_scales_twice_witness:
  "(\<exists>err. submitQaRelease (rx_qa ''U1'' 1) rx_box = (rx_box, Inl err)) \<and>
   (\<exists>l \<in> set (releaseLines (rt_releaseLines rx_box) (rx_ids 22)). \<exists>i rc. lockReceipt rx_box (ql_receiptLineId l) = Inr (i, rc) \<and>
      ql_releaseQuantity l \<le> rc_receivedQuantity rc - siblingSum rx_box (Some (rx_ids 22)) (rc_id rc))"
proof -
  from rx_facts(6) obtain q l i rc t where q: "lockRelease rx_box (rx_ids 22) = Inr q" "qr_id q = rx_ids 22"
    and l: "releaseLines (rt_releaseLines rx_box) (rx_ids 22) = [l]" "ql_receiptLineId l = rx_ids 19" "ql_releaseQuantity l = 2"
    and rc: "lockReceipt rx_box (rx_ids 19) = Inr (i, rc)" "rc_receivedQuantity rc = 2"
      "siblingSum rx_box (Some (rx_ids 22)) (rc_id rc) = 0"
    and t: "quarantineLotOf rx_box rc = Some t"
      "qaConversions rx_box [l_itemId t @ '':'' @ to_lower (trim (ql_enteredUom l))] =
         Inr [(l_itemId t @ '':'' @ to_lower (trim (ql_enteredUom l)), ''2.00000000'')]"
    by (auto simp: rx_see_box_def Let_def split: sum.splits list.splits option.splits prod.splits)
  have f: "parseFixed ''2.00000000'' 8 = Inr 200000000" by (simp add: fixed_eval Let_def)
  have id: "qa_releaseId (rx_qa ''U1'' 1) = rx_ids 22" by (simp add: rx_qa_def)
  have mem: "l \<in> set (releaseLines (rt_releaseLines rx_box) (qr_id q))" unfolding q(2) l(1) by simp
  have "\<exists>err. submitQaRelease (rx_qa ''U1'' 1) rx_box = (rx_box, Inl err)"
    by (rule qa_submit_scales_twice [OF _ mem _ t(1,2) f]) (simp_all only: id q rc l, simp)
  moreover have "ql_releaseQuantity l \<le> rc_receivedQuantity rc - siblingSum rx_box (Some (rx_ids 22)) (rc_id rc)"
    using l(3) rc(2,3) by simp
  ultimately show ?thesis using l(1,2) rc(1) by auto
qed

text \<open>C23: Released goods never expire. A lot a release has made carries no expiry date, whatever date the goods
  had, and is available: from then on it is a candidate for first-expiry-first-out on every date.\<close>

theorem released_lots_never_expire:
  fixes db db' :: "'z return_db_scheme"
  assumes "stock_inv db" and "releaseQaRelease e (post e deps aborts) id id inp db = (db', Inr v)"
    and "t \<in> set (db_lots db')" and "t \<notin> set (db_lots db)" and "b \<in> set (db_balances db')" and "b_lotId b = l_id t"
  shows "l_expiresAt t = None \<and> (\<forall>e'. (t, b) \<in> set (fefoCandidates e' db' (l_itemId t) (b_warehouseId b)))"
proof -
  from assms(2) obtain db1 p db2 res where prep: "prepareQaRelease e inp db = Inr (db1, p)"
    and po: "post e deps aborts (releasePosting inp p) db1 = (db2, Inr res)"
    and fin: "run_tx (finalizeQaRelease inp p res) db2 = (db', Inr v)" by (rule release_parts)
  have "db_lots db' = db_lots db1"
    using finalizeQaRelease_books [OF fin] post_frame(1) [OF _ po] assms(1) prepareQaRelease_frame(2) [OF prep]
    by (simp add: books_same_def stock_frame_def)
  with prepareQaRelease_undated [OF prep] assms(3,4) have "l_status t = AVAILABLE \<and> l_expiresAt t = None"
    by (simp add: undated_def)
  with assms(3,5,6) show ?thesis by (auto simp: fefoCandidates_def)
qed

theorem released_lots_never_expire_witness:
  "\<exists>t \<in> set (db_lots rx_released). \<exists>b \<in> set (db_balances rx_released). t \<notin> set (db_lots rx_passed) \<and>
     l_expiresAt t = None \<and> (t, b) \<in> set (fefoCandidates rx_env rx_released (l_itemId t) (b_warehouseId b))"
proof -
  from rx_facts(8) obtain v where v: "releaseQaRelease rx_env rx_post id id (rx_qa ''U1'' 3) rx_passed = (rx_released, Inr v)"
    unfolding rx_released_def rx_release_def is_ok_iff by (metis prod.collapse)
  from rx_facts(9) obtain t b where t: "t \<in> set (db_lots rx_released)" "t \<notin> set (db_lots rx_passed)"
    and b: "b \<in> set (db_balances rx_released)" "b_lotId b = l_id t"
    unfolding rx_see_released_def list_ex_iff rx_released_def by blast
  from released_lots_never_expire [OF rx_invs(3) v [unfolded rx_post_def] t b] t b show ?thesis by blast
qed

lemma dispatch_keeps_document:
  fixes db db' :: "'z return_db_scheme"
  assumes dist: "distinct (map d_id (db_documents db))" and d: "d \<in> set (db_documents db)" and no: "CHR '':'' \<notin> set (d_documentNo d)"
    and op: "dispatchStockReturnBatch e (post e deps aborts) id id inp db = (db', res)"
  shows "d \<in> set (db_documents db')"
proof (cases "prepareReturnDispatch e inp db")
  case (Inl err)
  with op d show ?thesis by (simp add: dispatchStockReturnBatch_def run_tx_def)
next
  case (Inr y)
  obtain db1 p where y: "y = (db1, p)" by fastforce
  from Inr have doc: "ensureReturnDocument e STOCK_RETURN_DISPATCH_MODULE (dispatchNo (rd_batch p))
       (rb_sourceLocationId (rd_batch p)) ''APPROVED'' db = Inr (db1, rd_docId p)"
    unfolding y by (rule prepareReturnDispatch_Inr)
  note k = ensureDocumentWith_keeps [OF doc [unfolded ensureReturnDocument_def] dist]
  then obtain d' where d': "d' \<in> set (db_documents db1)" "d_id d' = rd_docId p" "d_documentNo d' = dispatchNo (rd_batch p)" by blast
  have num: "d_documentNo d \<noteq> dispatchNo (rd_batch p)" using no by (auto simp: dispatchNo_def)
  obtain db2 r where po: "post e deps aborts (returnDispatchPosting inp p) db1 = (db2, r)" by fastforce
  have key: "pi_sourceDocumentNo (returnDispatchPosting inp p) = dispatchNo (rd_batch p)" by (simp add: returnDispatchPosting_def)
  note kept = posting_keeps_document [where s = "''APPROVED''", OF po k(1) subsetD [OF k(2) d] d'(1), unfolded key, OF num d'(3,2)]
  show ?thesis
  proof (cases r)
    case (Inl err)
    with kept op Inr y po show ?thesis by (simp add: dispatchStockReturnBatch_def run_tx_def split: prod.splits)
  next
    case (Inr v)
    have "run_tx (finalizeReturnDispatch inp p) db2 = (db', res)"
      using op \<open>prepareReturnDispatch e inp db = Inr y\<close> y po Inr by (simp add: dispatchStockReturnBatch_def run_tx_def)
    from finalizeReturnDispatch_books [OF this] kept Inr show ?thesis by (simp add: books_same_def)
  qed
qed

lemma receipt_keeps_document:
  fixes db db' :: "'z return_db_scheme"
  assumes dist: "distinct (map d_id (db_documents db))" and d: "d \<in> set (db_documents db)" and no: "CHR '':'' \<notin> set (d_documentNo d)"
    and op: "receiveAndDisposeStockReturnBatch e (post e deps aborts) id id inp rps db = (db', res)"
  shows "d \<in> set (db_documents db')"
proof (cases "prepareReturnReceipt e inp rps db")
  case (Inl err)
  with op d show ?thesis by (simp add: receiveAndDisposeStockReturnBatch_def run_tx_def)
next
  case (Inr y)
  obtain db1 p where y: "y = (db1, p)" by fastforce
  from Inr obtain db0 byLine where doc: "ensureReturnDocument e STOCK_RETURN_RECEIPT_MODULE (receiptNo (rr_batch p))
       (rb_destinationLocationId (rr_batch p)) ''DISPATCHED'' db = Inr (db0, rr_docId p)"
    and loop: "foldE (quarantineLine e (rr_batch p) byLine) (batchLines (rt_lines db) (rb_id (rr_batch p))) (db0, []) =
       Inr (db1, rr_lines p)"
    unfolding y by (rule prepareReturnReceipt_Inr)
  have same: "db_documents db1 = db_documents db0" using quarantine_loop [OF loop] lots_grow_same(6) by blast
  note k = ensureDocumentWith_keeps [OF doc [unfolded ensureReturnDocument_def] dist, folded same]
  then obtain d' where d': "d' \<in> set (db_documents db1)" "d_id d' = rr_docId p" "d_documentNo d' = receiptNo (rr_batch p)" by blast
  have num: "d_documentNo d \<noteq> receiptNo (rr_batch p)" using no by (auto simp: receiptNo_def)
  obtain db2 r where po: "post e deps aborts (returnReceiptPosting inp p) db1 = (db2, r)" by fastforce
  have key: "pi_sourceDocumentNo (returnReceiptPosting inp p) = receiptNo (rr_batch p)" by (simp add: returnReceiptPosting_def)
  note kept = posting_keeps_document [where s = "''DISPATCHED''", OF po k(1) subsetD [OF k(2) d] d'(1), unfolded key, OF num d'(3,2)]
  show ?thesis
  proof (cases r)
    case (Inl err)
    with kept op Inr y po show ?thesis by (simp add: receiveAndDisposeStockReturnBatch_def run_tx_def split: prod.splits)
  next
    case (Inr v)
    have "run_tx (finalizeReturnReceipt e inp p v) db2 = (db', res)"
      using op \<open>prepareReturnReceipt e inp rps db = Inr y\<close> y po Inr by (simp add: receiveAndDisposeStockReturnBatch_def run_tx_def)
    from finalizeReturnReceipt_books [OF this] kept Inr show ?thesis by (simp add: books_same_def)
  qed
qed

text \<open>The documents a batch links are never posted to. Submitting a batch creates two documents under its
  own number and links them; dispatch and receipt post to documents of their own, numbered with a colon
  and the name of the phase, so no dispatch or receipt touches a document whose number has no colon,
  whether it succeeds or not.\<close>

theorem linked_document_untouched:
  fixes db db' :: "'z return_db_scheme"
  assumes "distinct (map d_id (db_documents db))" and "d \<in> set (db_documents db)" and "CHR '':'' \<notin> set (d_documentNo d)"
    and "dispatchStockReturnBatch e (post e deps aborts) id id inp db = (db', res) \<or>
      receiveAndDisposeStockReturnBatch e (post e deps aborts) id id inp rps db = (db', res)"
  shows "d \<in> set (db_documents db')"
  using assms(4) dispatch_keeps_document [OF assms(1,2,3)] receipt_keeps_document [OF assms(1,2,3)] by blast

theorem linked_document_untouched_witness:
  "\<exists>d \<in> set (db_documents rx_dispatched). d_id d = rx_ids 4 \<and> d_status d = ''APPROVED'' \<and> d_stockPostingId d = None"
proof -
  from rx_facts(1) obtain d where d: "distinct (map d_id (db_documents rx_approved))" "d \<in> set (db_documents rx_approved)"
    "CHR '':'' \<notin> set (d_documentNo d)" "d_id d = rx_ids 4" "d_status d = ''APPROVED''" "d_stockPostingId d = None"
    by (auto simp: rx_see_approved_def list_ex_iff)
  have "dispatchStockReturnBatch rx_env rx_post id id (rx_act ''U1'' 3) rx_approved = (rx_dispatched, snd (rx_dispatch rx_approved))"
    unfolding rx_dispatched_def rx_dispatch_def by (rule prod.collapse [symmetric])
  from linked_document_untouched [OF d(1,2,3) disjI1, OF this [unfolded rx_post_def]] d show ?thesis by blast
qed

end
