(* ===== verification/Production.thy ===== *)
theory Production
  imports StockDocs
begin

text \<open>
  The data of production: \<open>src/db/production-schema.ts\<close> with \<open>src/modules/production/policies.ts\<close>,
  \<open>types.ts\<close> and \<open>errors.ts\<close>, and the calendar its dates need. Bills of materials (BOM) have versions,
  a version has component lines; a job order makes the output item of an active version. A job's
  planned component is an allocation row that later names the lot it drew.
\<close>

section \<open>Data\<close>

datatype consumption_mode = STOCKED_OUTPUT | MADE_TO_ORDER

datatype bom_status = BV_DRAFT | BV_ACTIVE | BV_RETIRED

datatype job_status =
  JO_DRAFT | JO_SUBMITTED | JO_APPROVED | JO_RELEASED | JO_IN_PROGRESS | JO_COMPLETED | JO_CANCELLED | JO_FAILED

datatype production_code =
    P_FEATURE_DISABLED | P_UNAUTHORIZED | P_NOT_FOUND | P_VALIDATION | P_INVALID_TRANSITION | P_UOM_MISMATCH
  | P_DUPLICATE_LINE | P_SELF_COMPONENT | P_CONCURRENT_MODIFICATION | P_TYPE_NOT_ALLOWED | P_WAREHOUSE_MISMATCH
  | P_SEGREGATION_OF_DUTIES | P_SCOPE_MISMATCH | P_INSUFFICIENT_STOCK

text \<open>
  Besides its own errors the module passes on those of the posting service and the database. The error
  \<open>CYCLE_DETECTED\<close> carries the path it reports. \<open>ProdDiverges\<close> stands for a loop that does not end.
\<close>

datatype production_error =
  ProdErr production_code nat | ProdCycle "string list" | ProdPassed stock_error | ProdDiverges

record bom_header =
  bh_id :: string
  bh_code :: string
  bh_name :: string
  bh_outputItemId :: string
  bh_productionMode :: consumption_mode
  bh_isActive :: bool
  bh_createdBy :: "string option"
  bh_createdAt :: nat

record bom_version =
  bv_id :: string
  bv_bomHeaderId :: string
  bv_versionNo :: nat
  bv_status :: bom_status
  bv_outputUom :: string
  bv_outputYieldQty :: int
  bv_effectiveFrom :: string
  bv_effectiveTo :: "string option"
  bv_remarks :: "string option"
  bv_createdBy :: "string option"
  bv_approvedBy :: "string option"

record bom_component =
  bc_id :: string
  bc_bomVersionId :: string
  bc_lineNo :: nat
  bc_componentItemId :: string
  bc_componentUom :: string
  bc_baseQuantity :: int
  bc_scrapAllowancePct :: int

record job_order =
  jo_id :: string
  jo_jobOrderNo :: string
  jo_bomHeaderId :: string
  jo_bomVersionId :: string
  jo_locationId :: string
  jo_productionWarehouseId :: string
  jo_status :: job_status
  jo_plannedOutputQty :: int
  jo_actualOutputQty :: "int option"
  jo_outputUom :: string
  jo_version :: nat
  jo_consumeDocumentId :: "string option"
  jo_outputDocumentId :: "string option"
  jo_remarks :: "string option"
  jo_createdBy :: "string option"
  jo_submittedBy :: "string option"
  jo_approvedBy :: "string option"
  jo_releasedBy :: "string option"
  jo_operatorId :: "string option"
  jo_completedBy :: "string option"
  jo_cancelledBy :: "string option"
  jo_cancelReason :: "string option"
  jo_failureReason :: "string option"
  jo_createdAt :: nat

record job_allocation =
  ja_id :: string
  ja_jobOrderId :: string
  ja_lineNo :: nat
  ja_bomComponentId :: "string option"
  ja_componentItemId :: string
  ja_sourceLotId :: "string option"
  ja_sourceWarehouseId :: string
  ja_plannedQuantity :: int
  ja_allocatedQuantity :: "int option"
  ja_enteredUom :: string
  ja_conversionFactor :: int
  ja_consumePostingLineId :: "string option"

record job_output =
  jp_id :: string
  jp_jobOrderId :: string
  jp_outputLotId :: string
  jp_quantity :: int
  jp_outputPostingLineId :: "string option"
  jp_evidenceRef :: "string option"

record employee_row =
  em_id :: string
  em_active :: bool
  em_locationId :: "string option"

record production_db = stock_db +
  pd_locations :: "string list"
  pd_headers :: "bom_header list"
  pd_versions :: "bom_version list"
  pd_components :: "bom_component list"
  pd_jobs :: "job_order list"
  pd_allocations :: "job_allocation list"
  pd_outputs :: "job_output list"
  pd_genealogy :: "genealogy_row list"
  pd_employees :: "employee_row list"

section \<open>Policies\<close>

definition STOCK_PRODUCTION_FEATURE_KEY :: string where
  "STOCK_PRODUCTION_FEATURE_KEY = ''stock.production''"

definition STOCK_PRODUCTION_ROLES :: "role list" where
  "STOCK_PRODUCTION_ROLES = [OWNER, WAREHOUSE_MAIN]"

definition PRODUCTION_CONSUME_MODULE :: string where
  "PRODUCTION_CONSUME_MODULE = ''PRODUCTION_CONSUME''"

definition PRODUCTION_OUTPUT_MODULE :: string where
  "PRODUCTION_OUTPUT_MODULE = ''PRODUCTION_OUTPUT''"

definition BOM_COMPONENT_MIN_LINES :: nat where
  "BOM_COMPONENT_MIN_LINES = 1"

definition BOM_COMPONENT_MAX_LINES :: nat where
  "BOM_COMPONENT_MAX_LINES = 250"

definition ALLOWED_BOM_ITEM_TYPES :: "item_type list" where
  "ALLOWED_BOM_ITEM_TYPES = [RAW, WIP, FINISHED_GOOD, CONSUMABLE]"

definition BOM_AUTO_RETIRE_ON_ACTIVATE :: bool where
  "BOM_AUTO_RETIRE_ON_ACTIVATE = True"

definition PRODUCTION_CONSUME_POLICY :: document_policy where
  "PRODUCTION_CONSUME_POLICY =
     \<lparr>dp_featureFlag = Some STOCK_PRODUCTION_FEATURE_KEY, dp_routeClass = RC_PRODUCTION,
      dp_allowedRoles = STOCK_PRODUCTION_ROLES, dp_fromStatuses = [''PENDING''], dp_nextStatus = ''CONSUMED''\<rparr>"

definition PRODUCTION_OUTPUT_POLICY :: document_policy where
  "PRODUCTION_OUTPUT_POLICY =
     \<lparr>dp_featureFlag = Some STOCK_PRODUCTION_FEATURE_KEY, dp_routeClass = RC_PRODUCTION,
      dp_allowedRoles = STOCK_PRODUCTION_ROLES, dp_fromStatuses = [''PENDING''], dp_nextStatus = ''COMPLETED''\<rparr>"

section \<open>Guards\<close>

definition authorizeProduction ::
  "'z stock_db_scheme \<Rightarrow> string \<Rightarrow> string option \<Rightarrow> production_error + actor" where
  "authorizeProduction db u s =
     authorizeWith (ProdErr P_UNAUTHORIZED 403) (ProdErr P_UNAUTHORIZED 401) db u s STOCK_PRODUCTION_ROLES"

definition assertProductionFeature :: "'z stock_db_scheme \<Rightarrow> production_error + unit" where
  "assertProductionFeature = featureWith (ProdErr P_FEATURE_DISABLED 503) STOCK_PRODUCTION_FEATURE_KEY"

text \<open>A quantity typed by the user must be positive; a text that is no decimal is refused alike.\<close>

definition positiveQty :: "string \<Rightarrow> production_error + int" where
  "positiveQty s =
     bindE (mapErr (\<lambda>_. ProdErr P_VALIDATION 400) (parseFixed s 6)) (\<lambda>v.
     bindE (ensure (0 < v) (ProdErr P_VALIDATION 400)) (\<lambda>_. Inr v))"

section \<open>Dates\<close>

definition leap_year :: "nat \<Rightarrow> bool" where
  "leap_year y \<longleftrightarrow> y mod 4 = 0 \<and> (y mod 100 \<noteq> 0 \<or> y mod 400 = 0)"

definition days_in_month :: "nat \<Rightarrow> nat \<Rightarrow> nat" where
  "days_in_month y m = (if m = 2 then (if leap_year y then 29 else 28) else if m \<in> {4, 6, 9, 11} then 30 else 31)"

text \<open>A text of the form \<open>YYYY-MM-DD\<close>.\<close>

definition date_shape :: "string \<Rightarrow> bool" where
  "date_shape s \<longleftrightarrow> length s = 10 \<and> s ! 4 = CHR ''-'' \<and> s ! 7 = CHR ''-'' \<and>
     list_all is_digit (take 4 s @ take 2 (drop 5 s) @ drop 8 s)"

definition date_parts :: "string \<Rightarrow> nat \<times> nat \<times> nat" where
  "date_parts s = (digits_val (take 4 s), digits_val (take 2 (drop 5 s)), digits_val (drop 8 s))"

definition real_date :: "string \<Rightarrow> bool" where
  "real_date s \<longleftrightarrow> date_shape s \<and>
     (case date_parts s of (y, m, d) \<Rightarrow> 1 \<le> y \<and> 1 \<le> m \<and> m \<le> 12 \<and> 1 \<le> d \<and> d \<le> days_in_month y m)"

definition date_text :: "nat \<times> nat \<times> nat \<Rightarrow> string" where
  "date_text p = (case p of (y, m, d) \<Rightarrow>
     pad_start 4 (nat_str y) @ ''-'' @ pad_start 2 (nat_str m) @ ''-'' @ pad_start 2 (nat_str d))"

definition next_day :: "nat \<times> nat \<times> nat \<Rightarrow> nat \<times> nat \<times> nat" where
  "next_day p = (case p of (y, m, d) \<Rightarrow>
     if d < days_in_month y m then (y, m, Suc d) else if m < 12 then (y, Suc m, 1) else (Suc y, 1, 1))"

definition prev_day :: "nat \<times> nat \<times> nat \<Rightarrow> nat \<times> nat \<times> nat" where
  "prev_day p = (case p of (y, m, d) \<Rightarrow>
     if 1 < d then (y, m, d - 1) else if 1 < m then (y, m - 1, days_in_month y (m - 1)) else (y - 1, 12, 31))"

text \<open>
  \<open>setUTCDate\<close> on the current day in Manila. The text is that of \<open>toISOString\<close> up to the year 9999; a
  shelf life is days, so the model stops there.
\<close>

definition addDaysToManilaDate :: "env \<Rightarrow> int \<Rightarrow> string" where
  "addDaysToManilaDate e days =
     (let today = date_parts (env_today e)
      in date_text (if 0 \<le> days then (next_day ^^ nat days) today else (prev_day ^^ nat (- days)) today))"

lemma next_prev_day:
  assumes "1 \<le> m" and "m \<le> 12" and "1 \<le> d" and "d \<le> days_in_month y m"
  shows "prev_day (next_day (y, m, d)) = (y, m, d)"
  using assms by (auto simp: next_day_def prev_day_def days_in_month_def)

end
