(* ===== verification/BomService.thy ===== *)
theory BomService
  imports Production
begin

text \<open>
  The bills of materials: \<open>src/modules/production/service.ts\<close>, one definition per function, in the order of
  the file. Every writing transaction locks the row of the feature flag first, so these transactions run
  one after the other and each is a function on the database.
\<close>

type_synonym 'z bom_tx = "'z production_db_scheme \<Rightarrow> production_error + 'z production_db_scheme"

record create_header_input =
  ch_actorUserId :: string
  ch_sessionId :: "string option"
  ch_code :: string
  ch_name :: string
  ch_outputItemId :: string
  ch_productionMode :: "consumption_mode option"

record create_version_input =
  cv_actorUserId :: string
  cv_sessionId :: "string option"
  cv_bomHeaderId :: string
  cv_outputUom :: string
  cv_outputYieldQty :: string
  cv_effectiveFrom :: string
  cv_effectiveTo :: "string option"
  cv_remarks :: "string option"

record component_input =
  ci_componentItemId :: string
  ci_enteredQuantity :: string
  ci_enteredUom :: string
  ci_scrapAllowancePct :: "string option"

text \<open>What activate, retire and the replacement of components have in common.\<close>

record bom_action =
  ba_actorUserId :: string
  ba_sessionId :: "string option"
  ba_bomVersionId :: string

record resolved_component =
  rco_lineNo :: nat
  rco_componentItemId :: string
  rco_componentUom :: string
  rco_baseQuantity :: string
  rco_scrapAllowancePct :: string

section \<open>Shared helpers\<close>

definition fetchAndValidateItem :: "'z stock_db_scheme \<Rightarrow> string \<Rightarrow> production_error + item" where
  "fetchAndValidateItem db itemId =
     (case List.find (\<lambda>i. i_id i = itemId) (db_items db) of
        None \<Rightarrow> Inl (ProdErr P_NOT_FOUND 404)
      | Some i \<Rightarrow>
          if \<not> i_isActive i then Inl (ProdErr P_VALIDATION 409)
          else if i_itemType i \<notin> set ALLOWED_BOM_ITEM_TYPES then Inl (ProdErr P_TYPE_NOT_ALLOWED 409)
          else Inr i)"

definition assertUomRecognized :: "'z stock_db_scheme \<Rightarrow> item \<Rightarrow> string \<Rightarrow> production_error + unit" where
  "assertUomRecognized db i uom =
     bindE (ensure (trim uom \<noteq> []) (ProdErr P_VALIDATION 400)) (\<lambda>_.
       ensure (to_lower (trim (i_unit i)) = to_lower (trim uom) \<or>
               (\<exists>c \<in> set (db_conversions db). c_itemId c = i_id i \<and>
                  to_lower (c_fromUom c) = to_lower (trim uom) \<and> c_isActive c))
         (ProdErr P_UOM_MISMATCH 409))"

text \<open>
  The regular expression, then \<open>new Date\<close>, which as Node reads it takes any day up to 31 of any month;
  the column the text goes to takes real dates only.
\<close>

definition parseDateOnly :: "string \<Rightarrow> production_error + string" where
  "parseDateOnly value =
     (let s = trim value in
      bindE (ensure (date_shape s) (ProdErr P_VALIDATION 400)) (\<lambda>_.
      bindE (ensure (case date_parts s of (y, m, d) \<Rightarrow> 1 \<le> m \<and> m \<le> 12 \<and> 1 \<le> d \<and> d \<le> 31)
               (ProdErr P_VALIDATION 400)) (\<lambda>_. Inr s)))"

definition checkComponentLine :: "string \<Rightarrow> component_input \<Rightarrow> string list \<Rightarrow> production_error + string list" where
  "checkComponentLine outputItemId l seen =
     bindE (ensure (ci_componentItemId l \<notin> set seen) (ProdErr P_DUPLICATE_LINE 400)) (\<lambda>_.
     bindE (ensure (ci_componentItemId l \<noteq> outputItemId) (ProdErr P_SELF_COMPONENT 409)) (\<lambda>_.
     bindE (ensure (trim (ci_enteredUom l) \<noteq> []) (ProdErr P_VALIDATION 400)) (\<lambda>_.
       Inr (ci_componentItemId l # seen))))"

definition componentKey :: "component_input \<Rightarrow> string" where
  "componentKey l = ci_componentItemId l @ '':'' @ to_lower (trim (ci_enteredUom l))"

definition bomConversion ::
  "'z stock_db_scheme \<Rightarrow> (string \<times> item) list \<Rightarrow> string \<Rightarrow> production_error + string \<times> string" where
  "bomConversion = conversionWith (ProdErr P_UOM_MISMATCH 409) ProdPassed"

definition resolveScrap :: "component_input \<Rightarrow> production_error + string" where
  "resolveScrap l =
     (let s = (case ci_scrapAllowancePct l of None \<Rightarrow> ''0'' | Some s \<Rightarrow> s) in
      bindE (mapErr (\<lambda>_. ProdErr P_VALIDATION 400) (parseFixed s 4)) (\<lambda>v.
      bindE (ensure (0 \<le> v \<and> v < 1000000) (ProdErr P_VALIDATION 400)) (\<lambda>_.
        mapErr (\<lambda>_. ProdErr P_VALIDATION 400) (normalizeFixed s 4))))"

definition resolveComponent ::
  "(string \<times> string) list \<Rightarrow> nat \<times> component_input \<Rightarrow> production_error + resolved_component" where
  "resolveComponent factors nl =
     (let (n, l) = nl in
      bindE (positiveQty (ci_enteredQuantity l)) (\<lambda>_.
      bindE (resolveScrap l) (\<lambda>scrap.
      let factor = (case map_of factors (componentKey l) of Some f \<Rightarrow> f | None \<Rightarrow> ''undefined'') in
      bindE (mapErr (\<lambda>_. ProdErr P_UOM_MISMATCH 409)
               (multiplyFixedExact (ci_enteredQuantity l) 6 factor 8 6)) (\<lambda>base.
        Inr \<lparr>rco_lineNo = n, rco_componentItemId = ci_componentItemId l, rco_componentUom = ci_enteredUom l,
             rco_baseQuantity = base, rco_scrapAllowancePct = scrap\<rparr>))))"

definition resolveComponentLines ::
  "'z stock_db_scheme \<Rightarrow> string \<Rightarrow> component_input list \<Rightarrow> production_error + resolved_component list" where
  "resolveComponentLines db outputItemId ls =
     bindE (ensure (BOM_COMPONENT_MIN_LINES \<le> length ls \<and> length ls \<le> BOM_COMPONENT_MAX_LINES)
              (ProdErr P_VALIDATION 400)) (\<lambda>_.
     bindE (foldE (checkComponentLine outputItemId) ls []) (\<lambda>_.
     bindE (mapE (\<lambda>k. bindE (fetchAndValidateItem db k) (\<lambda>i. Inr (k, i)))
              (js_distinct (map ci_componentItemId ls))) (\<lambda>items.
     bindE (mapE (bomConversion db items) (js_distinct (map componentKey ls))) (\<lambda>factors.
       mapE (resolveComponent factors) (zip [1..<Suc (length ls)] ls)))))"

section \<open>The cycle check\<close>

text \<open>The edges of the versions that count: output item to component item, in the order of the join.\<close>

definition live :: "bom_version \<Rightarrow> bool" where
  "live v \<longleftrightarrow> bv_status v \<in> {BV_ACTIVE, BV_DRAFT}"

definition bomRows :: "'z production_db_scheme \<Rightarrow> (string \<times> string \<times> string) list" where
  "bomRows db = [(bv_id v, bh_outputItemId h, bc_componentItemId c).
     v \<leftarrow> pd_versions db, live v, h \<leftarrow> pd_headers db, bh_id h = bv_bomHeaderId v,
     c \<leftarrow> pd_components db, bc_bomVersionId c = bv_id v]"

type_synonym adjacency = "(string \<times> string list) list"

definition neighbours :: "adjacency \<Rightarrow> string \<Rightarrow> string list" where
  "neighbours adj n = (case map_of adj n of None \<Rightarrow> [] | Some ns \<Rightarrow> ns)"

text \<open>A map of sets; a set keeps the order of insertion.\<close>

definition addEdge :: "string \<times> string \<Rightarrow> adjacency \<Rightarrow> adjacency" where
  "addEdge e adj = (let ns = neighbours adj (fst e) in
     AList.update (fst e) (if snd e \<in> set ns then ns else ns @ [snd e]) adj)"

definition bomGraph :: "'z production_db_scheme \<Rightarrow> string \<Rightarrow> string \<Rightarrow> string list \<Rightarrow> adjacency" where
  "bomGraph db outputItemId exclude proposed =
     fold addEdge (map snd (filter (\<lambda>r. fst r \<noteq> exclude) (bomRows db)) @ map (Pair outputItemId) proposed) []"

text \<open>
  The walk back along the parents that makes the reported path. The loop has no bound of its own; after
  as many turns as the map has entries it would repeat itself, so that is its fuel.
\<close>

fun trail :: "nat \<Rightarrow> (string \<times> string) list \<Rightarrow> string \<Rightarrow> string \<Rightarrow> string list \<Rightarrow> string list option" where
  "trail 0 parent out cur acc = None"
| "trail (Suc n) parent out cur acc =
     (case map_of parent cur of
        None \<Rightarrow> Some acc
      | Some p \<Rightarrow> if p = out then Some acc else trail n parent out p (p # acc))"

definition cycleError :: "(string \<times> string) list \<Rightarrow> string \<Rightarrow> string \<Rightarrow> production_error" where
  "cycleError parent out node =
     (case trail (Suc (length parent)) parent out node [node] of
        None \<Rightarrow> ProdDiverges
      | Some t \<Rightarrow> ProdCycle (out # t @ [out]))"

text \<open>One neighbour of the visited node.\<close>

definition visitNeighbour ::
  "string \<Rightarrow> string list \<Rightarrow> string \<Rightarrow> string \<Rightarrow> (string \<times> string) list \<times> string list \<Rightarrow>
   production_error + (string \<times> string) list \<times> string list" where
  "visitNeighbour out visited node nx s =
     (case s of (parent, queue) \<Rightarrow>
        if nx = out then Inl (cycleError parent out node)
        else if nx \<notin> set visited then Inr (AList.update nx node parent, queue @ [nx])
        else Inr (parent, queue))"

lemma neighbours_key: "neighbours adj node \<noteq> [] \<Longrightarrow> node \<in> set (map fst adj)"
  by (auto simp: neighbours_def split: option.splits dest: map_of_SomeD intro: rev_image_eqI)

text \<open>The breadth-first search; \<open>visited\<close> lists the visited nodes, the last one first.\<close>

function search ::
  "adjacency \<Rightarrow> string \<Rightarrow> (string \<times> string) list \<Rightarrow> string list \<Rightarrow> string list \<Rightarrow> production_error + unit" where
  "search adj out parent visited [] = Inr ()"
| "search adj out parent visited (node # queue) =
     (if node \<in> set visited then search adj out parent visited queue
      else (case foldE (visitNeighbour out (node # visited) node) (neighbours adj node) (parent, queue) of
              Inl err \<Rightarrow> Inl err
            | Inr (parent', queue') \<Rightarrow> search adj out parent' (node # visited) queue'))"
  by pat_completeness auto

text \<open>Every turn visits a new node that has neighbours or shortens the queue.\<close>

termination
proof (relation "measures [\<lambda>(adj, _, _, visited, _). card (set (map fst adj) - set visited), \<lambda>(_, _, _, _, queue). length queue]",
    goal_cases)
  case 1
  show ?case by simp
next
  case (2 adj out parent visited node queue)
  then show ?case by simp
next
  case (3 adj out parent visited node queue s parent' queue')
  show ?case
  proof (cases "neighbours adj node = []")
    case True
    with 3 have "queue' = queue" by auto
    moreover have "card (set (map fst adj) - set (node # visited)) \<le> card (set (map fst adj) - set visited)"
      by (rule card_mono) auto
    ultimately show ?thesis by auto
  next
    case False
    then have "node \<in> set (map fst adj)" by (rule neighbours_key)
    with 3 have "set (map fst adj) - set (node # visited) \<subset> set (map fst adj) - set visited" by auto
    then have "card (set (map fst adj) - set (node # visited)) < card (set (map fst adj) - set visited)"
      by (intro psubset_card_mono) auto
    then show ?thesis by simp
  qed
qed

definition assertNoCycle ::
  "'z production_db_scheme \<Rightarrow> string \<Rightarrow> string \<Rightarrow> string list \<Rightarrow> production_error + unit" where
  "assertNoCycle db outputItemId exclude proposed =
     (let adj = bomGraph db outputItemId exclude proposed;
          start = neighbours adj outputItemId
      in if outputItemId \<in> set start then Inl (ProdCycle [outputItemId, outputItemId])
         else search adj outputItemId (map (\<lambda>n. (n, outputItemId)) start) [outputItemId] start)"

section \<open>Operations\<close>

definition lockVersion :: "'z production_db_scheme \<Rightarrow> string \<Rightarrow> production_error + bom_version" where
  "lockVersion db vid =
     (case List.find (\<lambda>v. bv_id v = vid) (pd_versions db) of
        Some v \<Rightarrow> Inr v | None \<Rightarrow> Inl (ProdErr P_NOT_FOUND 404))"

definition lockHeader :: "'z production_db_scheme \<Rightarrow> string \<Rightarrow> production_error + bom_header" where
  "lockHeader db hid =
     (case List.find (\<lambda>h. bh_id h = hid) (pd_headers db) of
        Some h \<Rightarrow> Inr h | None \<Rightarrow> Inl (ProdErr P_NOT_FOUND 404))"

definition bomAudit :: "actor \<Rightarrow> string \<Rightarrow> string \<Rightarrow> string \<Rightarrow> audit_row" where
  "bomAudit a action entityType entityId =
     \<lparr>a_actorUserId = Some (ac_id a), a_locationId = None, a_action = action, a_entityType = entityType,
      a_entityId = entityId\<rparr>"

text \<open>\<open>onConflictDoNothing\<close> on the outbox.\<close>

definition offerOutbox :: "outbox_row \<Rightarrow> 'z stock_db_scheme \<Rightarrow> 'z stock_db_scheme" where
  "offerOutbox r db = (case writeOutbox r db of Inl _ \<Rightarrow> db | Inr db' \<Rightarrow> db')"

definition openBom :: "'z stock_db_scheme \<Rightarrow> string \<Rightarrow> string option \<Rightarrow> production_error + actor" where
  "openBom db u s = bindE (assertProductionFeature db) (\<lambda>_. authorizeProduction db u s)"

definition createBomHeader ::
  "env \<Rightarrow> nat \<Rightarrow> create_header_input \<Rightarrow> 'z production_db_scheme \<Rightarrow> 'z production_db_scheme \<times> (production_error + bom_header)" where
  "createBomHeader e now inp = run_tx (\<lambda>db.
     bindE (openBom db (ch_actorUserId inp) (ch_sessionId inp)) (\<lambda>a.
     let code = trim (ch_code inp); name = trim (ch_name inp) in
     bindE (ensure (code \<noteq> []) (ProdErr P_VALIDATION 400)) (\<lambda>_.
     bindE (ensure (name \<noteq> []) (ProdErr P_VALIDATION 400)) (\<lambda>_.
     bindE (fetchAndValidateItem db (ch_outputItemId inp)) (\<lambda>i.
     let h = \<lparr>bh_id = env_uuid e (db_ids db), bh_code = code, bh_name = name, bh_outputItemId = i_id i,
              bh_productionMode = (case ch_productionMode inp of None \<Rightarrow> MADE_TO_ORDER | Some m \<Rightarrow> m),
              bh_isActive = True, bh_createdBy = Some (ac_id a), bh_createdAt = now\<rparr> in
     bindE (ensure (\<forall>x \<in> set (pd_headers db). bh_code x \<noteq> code \<and> bh_id x \<noteq> bh_id h) (ProdErr P_VALIDATION 409)) (\<lambda>_.
       Inr (writeAudit (bomAudit a ''bom.header.created'' ''bom_header'' (bh_id h))
              (db\<lparr>pd_headers := pd_headers db @ [h], db_ids := Suc (db_ids db)\<rparr>), h)))))))"

definition optionalE :: "('a \<Rightarrow> 'e + 'b) \<Rightarrow> 'a option \<Rightarrow> 'e + 'b option" where
  "optionalE f x = (case x of None \<Rightarrow> Inr None | Some a \<Rightarrow> bindE (f a) (\<lambda>b. Inr (Some b)))"

definition nextVersionNo :: "bom_version list \<Rightarrow> string \<Rightarrow> nat" where
  "nextVersionNo vs hid = Suc (fold max (map bv_versionNo (filter (\<lambda>v. bv_bomHeaderId v = hid) vs)) 0)"

definition createDraftVersion ::
  "env \<Rightarrow> create_version_input \<Rightarrow> 'z production_db_scheme \<Rightarrow> 'z production_db_scheme \<times> (production_error + bom_version)" where
  "createDraftVersion e inp = run_tx (\<lambda>db.
     bindE (openBom db (cv_actorUserId inp) (cv_sessionId inp)) (\<lambda>a.
     bindE (lockHeader db (cv_bomHeaderId inp)) (\<lambda>h.
     bindE (fetchAndValidateItem db (bh_outputItemId h)) (\<lambda>i.
     bindE (assertUomRecognized db i (cv_outputUom inp)) (\<lambda>_.
     bindE (positiveQty (cv_outputYieldQty inp)) (\<lambda>yieldQty.
     bindE (parseDateOnly (cv_effectiveFrom inp)) (\<lambda>from.
     bindE (optionalE parseDateOnly (cv_effectiveTo inp)) (\<lambda>until.
     bindE (ensure (case until of None \<Rightarrow> True | Some t \<Rightarrow> from < t) (ProdErr P_VALIDATION 400)) (\<lambda>_.
     let v = \<lparr>bv_id = env_uuid e (db_ids db), bv_bomHeaderId = bh_id h,
              bv_versionNo = nextVersionNo (pd_versions db) (bh_id h), bv_status = BV_DRAFT,
              bv_outputUom = trim (cv_outputUom inp), bv_outputYieldQty = yieldQty, bv_effectiveFrom = from,
              bv_effectiveTo = until, bv_remarks = cv_remarks inp, bv_createdBy = Some (ac_id a),
              bv_approvedBy = None\<rparr> in
     bindE (mapErr ProdPassed (db_numeric 6 (formatFixed yieldQty 6))) (\<lambda>_.
     bindE (ensure (real_date from \<and> (case until of None \<Rightarrow> True | Some t \<Rightarrow> real_date t))
              (ProdPassed (DbAborted ''22008''))) (\<lambda>_.
     bindE (ensure (\<forall>x \<in> set (pd_versions db). bv_id x \<noteq> bv_id v \<and>
                (bv_bomHeaderId x = bh_id h \<longrightarrow> bv_versionNo x \<noteq> bv_versionNo v)) (ProdPassed DbUniqueViolation)) (\<lambda>_.
       Inr (writeAudit (bomAudit a ''bom.version.created'' ''bom_version'' (bv_id v))
              (db\<lparr>pd_versions := pd_versions db @ [v], db_ids := Suc (db_ids db)\<rparr>), v)))))))))))))"

definition versionComponents :: "bom_component list \<Rightarrow> string \<Rightarrow> bom_component list" where
  "versionComponents cs vid = sort_by (\<lambda>x y. bc_lineNo x \<le> bc_lineNo y) (filter (\<lambda>c. bc_bomVersionId c = vid) cs)"

definition insertComponent ::
  "env \<Rightarrow> string \<Rightarrow> resolved_component \<Rightarrow> 'z production_db_scheme \<Rightarrow> production_error + 'z production_db_scheme" where
  "insertComponent e vid r db =
     bindE (mapErr ProdPassed (db_numeric 6 (rco_baseQuantity r))) (\<lambda>q.
     bindE (mapErr ProdPassed (db_numeric 4 (rco_scrapAllowancePct r))) (\<lambda>scrap.
     bindE (ensure (0 < rco_lineNo r \<and> 0 < q \<and> 0 \<le> scrap \<and> scrap < 1000000) (ProdPassed DbCheckViolation)) (\<lambda>_.
     bindE (ensure (\<forall>x \<in> set (pd_components db). bc_id x \<noteq> env_uuid e (db_ids db) \<and>
              (bc_bomVersionId x = vid \<longrightarrow> bc_lineNo x \<noteq> rco_lineNo r \<and> bc_componentItemId x \<noteq> rco_componentItemId r))
              (ProdPassed DbUniqueViolation)) (\<lambda>_.
       Inr (db\<lparr>pd_components := pd_components db @
              [\<lparr>bc_id = env_uuid e (db_ids db), bc_bomVersionId = vid, bc_lineNo = rco_lineNo r,
                bc_componentItemId = rco_componentItemId r, bc_componentUom = rco_componentUom r,
                bc_baseQuantity = q, bc_scrapAllowancePct = scrap\<rparr>],
              db_ids := Suc (db_ids db)\<rparr>)))))"

definition replaceDraftComponents ::
  "env \<Rightarrow> bom_action \<Rightarrow> component_input list \<Rightarrow> 'z production_db_scheme \<Rightarrow>
   'z production_db_scheme \<times> (production_error + bom_component list)" where
  "replaceDraftComponents e inp ls = run_tx (\<lambda>db.
     bindE (openBom db (ba_actorUserId inp) (ba_sessionId inp)) (\<lambda>a.
     bindE (lockVersion db (ba_bomVersionId inp)) (\<lambda>v.
     bindE (ensure (bv_status v = BV_DRAFT) (ProdErr P_INVALID_TRANSITION 409)) (\<lambda>_.
     bindE (lockHeader db (bv_bomHeaderId v)) (\<lambda>h.
     bindE (resolveComponentLines db (bh_outputItemId h) ls) (\<lambda>rs.
     bindE (assertNoCycle db (bh_outputItemId h) (bv_id v) (map rco_componentItemId rs)) (\<lambda>_.
     bindE (foldE (insertComponent e (bv_id v)) rs
              (db\<lparr>pd_components := filter (\<lambda>c. bc_bomVersionId c \<noteq> bv_id v) (pd_components db)\<rparr>)) (\<lambda>db1.
       Inr (writeAudit (bomAudit a ''bom.version.components_replaced'' ''bom_version'' (bv_id v)) db1,
            versionComponents (pd_components db1) (bv_id v))))))))))"

text \<open>A conditional update of a version row, guarded by id and status.\<close>

definition updateVersion ::
  "string \<Rightarrow> bom_status \<Rightarrow> (bom_version \<Rightarrow> bom_version) \<Rightarrow> 'z production_db_scheme \<Rightarrow>
   production_error + 'z production_db_scheme \<times> bom_version" where
  "updateVersion vid st f db =
     (let hit = (\<lambda>v. bv_id v = vid \<and> bv_status v = st)
      in case List.find hit (pd_versions db) of
           None \<Rightarrow> Inl (ProdErr P_CONCURRENT_MODIFICATION 409)
         | Some v \<Rightarrow> Inr (db\<lparr>pd_versions := update_where hit f (pd_versions db)\<rparr>, f v))"

definition retireCurrent ::
  "actor \<Rightarrow> bom_header \<Rightarrow> 'z production_db_scheme \<Rightarrow> production_error + 'z production_db_scheme \<times> string option" where
  "retireCurrent a h db =
     (case List.find (\<lambda>v. bv_bomHeaderId v = bh_id h \<and> bv_status v = BV_ACTIVE) (pd_versions db) of
        None \<Rightarrow> Inr (db, None)
      | Some cur \<Rightarrow>
          bindE (ensure BOM_AUTO_RETIRE_ON_ACTIVATE (ProdErr P_INVALID_TRANSITION 409)) (\<lambda>_.
          bindE (updateVersion (bv_id cur) BV_ACTIVE (\<lambda>x. x\<lparr>bv_status := BV_RETIRED\<rparr>) db) (\<lambda>(db1, r).
            Inr (writeAudit (bomAudit a ''bom.version.retired'' ''bom_version'' (bv_id r)) db1, Some (bv_id cur)))))"

definition activatedEvent :: "bom_version \<Rightarrow> string option \<Rightarrow> outbox_row" where
  "activatedEvent v previous =
     \<lparr>ob_eventType = ''bom_version.activated'', ob_aggregateId = bv_id v, ob_correlationId = bv_id v,
      ob_payload = JObj [(''bomHeaderId'', JStr (bv_bomHeaderId v)), (''versionNo'', JNum (nat_str (bv_versionNo v))),
        (''previousActiveVersionId'', case previous of None \<Rightarrow> JNull | Some p \<Rightarrow> JStr p)]\<rparr>"

definition activateVersion ::
  "bom_action \<Rightarrow> 'z production_db_scheme \<Rightarrow> 'z production_db_scheme \<times> (production_error + bom_version)" where
  "activateVersion inp = run_tx (\<lambda>db.
     bindE (openBom db (ba_actorUserId inp) (ba_sessionId inp)) (\<lambda>a.
     bindE (lockVersion db (ba_bomVersionId inp)) (\<lambda>v.
     bindE (ensure (bv_status v = BV_DRAFT) (ProdErr P_INVALID_TRANSITION 409)) (\<lambda>_.
     bindE (lockHeader db (bv_bomHeaderId v)) (\<lambda>h.
     let cs = versionComponents (pd_components db) (bv_id v) in
     bindE (ensure (cs \<noteq> []) (ProdErr P_VALIDATION 400)) (\<lambda>_.
     bindE (fetchAndValidateItem db (bh_outputItemId h)) (\<lambda>_.
     bindE (mapE (\<lambda>c. fetchAndValidateItem db (bc_componentItemId c)) cs) (\<lambda>_.
     bindE (assertNoCycle db (bh_outputItemId h) (bv_id v) (map bc_componentItemId cs)) (\<lambda>_.
     bindE (retireCurrent a h db) (\<lambda>(db1, previous).
     bindE (updateVersion (bv_id v) BV_DRAFT
              (\<lambda>x. x\<lparr>bv_status := BV_ACTIVE, bv_approvedBy := Some (ac_id a)\<rparr>) db1) (\<lambda>(db2, u).
     bindE (ensure (\<forall>x \<in> set (pd_versions db1). bv_id x \<noteq> bv_id v \<longrightarrow>
              bv_bomHeaderId x = bv_bomHeaderId v \<longrightarrow> bv_status x \<noteq> BV_ACTIVE) (ProdPassed DbUniqueViolation)) (\<lambda>_.
       Inr (offerOutbox (activatedEvent u previous)
              (writeAudit (bomAudit a ''bom.version.activated'' ''bom_version'' (bv_id u)) db2), u)))))))))))))"

definition retiredEvent :: "bom_version \<Rightarrow> outbox_row" where
  "retiredEvent v =
     \<lparr>ob_eventType = ''bom_version.retired'', ob_aggregateId = bv_id v, ob_correlationId = bv_id v,
      ob_payload = JObj [(''bomHeaderId'', JStr (bv_bomHeaderId v)), (''versionNo'', JNum (nat_str (bv_versionNo v)))]\<rparr>"

definition retireVersion ::
  "bom_action \<Rightarrow> 'z production_db_scheme \<Rightarrow> 'z production_db_scheme \<times> (production_error + bom_version)" where
  "retireVersion inp = run_tx (\<lambda>db.
     bindE (openBom db (ba_actorUserId inp) (ba_sessionId inp)) (\<lambda>a.
     bindE (lockVersion db (ba_bomVersionId inp)) (\<lambda>v.
     bindE (ensure (bv_status v = BV_ACTIVE) (ProdErr P_INVALID_TRANSITION 409)) (\<lambda>_.
     bindE (updateVersion (bv_id v) BV_ACTIVE (\<lambda>x. x\<lparr>bv_status := BV_RETIRED\<rparr>) db) (\<lambda>(db1, u).
       Inr (offerOutbox (retiredEvent u)
              (writeAudit (bomAudit a ''bom.version.retired'' ''bom_version'' (bv_id u)) db1), u))))))"

section \<open>Reads\<close>

definition getBomHeader ::
  "string \<Rightarrow> string option \<Rightarrow> string \<Rightarrow> 'z production_db_scheme \<Rightarrow> production_error + bom_header \<times> bom_version list" where
  "getBomHeader u s hid db =
     bindE (authorizeProduction db u s) (\<lambda>_.
     bindE (lockHeader db hid) (\<lambda>h.
       Inr (h, sort_by (\<lambda>x y. bv_versionNo y \<le> bv_versionNo x)
                 (filter (\<lambda>v. bv_bomHeaderId v = bh_id h) (pd_versions db)))))"

definition getBomVersion ::
  "string \<Rightarrow> string option \<Rightarrow> string \<Rightarrow> 'z production_db_scheme \<Rightarrow> production_error + bom_version \<times> bom_component list" where
  "getBomVersion u s vid db =
     bindE (authorizeProduction db u s) (\<lambda>_.
     bindE (lockVersion db vid) (\<lambda>v. Inr (v, versionComponents (pd_components db) (bv_id v))))"

record list_headers_input =
  lh_actorUserId :: string
  lh_sessionId :: "string option"
  lh_search :: "string option"
  lh_outputItemId :: "string option"
  lh_isActive :: "bool option"
  lh_limit :: "nat option"
  lh_offset :: "nat option"

definition page :: "nat option \<Rightarrow> nat option \<Rightarrow> 'a list \<Rightarrow> 'a list" where
  "page limit offset rows =
     (let rest = drop (case offset of None \<Rightarrow> 0 | Some n \<Rightarrow> n) rows
      in case limit of None \<Rightarrow> rest | Some n \<Rightarrow> take n rest)"

definition contains_text :: "string \<Rightarrow> string \<Rightarrow> bool" where
  "contains_text t s = sql_like (to_lower (''%'' @ t @ ''%'')) (to_lower s)"

text \<open>Newest first, one page of them, and how many there are in all.\<close>

definition listBomHeaders ::
  "list_headers_input \<Rightarrow> 'z production_db_scheme \<Rightarrow> production_error + bom_header list \<times> nat" where
  "listBomHeaders inp db =
     bindE (authorizeProduction db (lh_actorUserId inp) (lh_sessionId inp)) (\<lambda>_.
       let rows = filter (\<lambda>h.
             (case truthy (lh_outputItemId inp) of None \<Rightarrow> True | Some i \<Rightarrow> bh_outputItemId h = i) \<and>
             (case lh_isActive inp of None \<Rightarrow> True | Some b \<Rightarrow> bh_isActive h = b) \<and>
             (case truthy (map_option trim (lh_search inp)) of
                None \<Rightarrow> True | Some t \<Rightarrow> contains_text t (bh_code h) \<or> contains_text t (bh_name h))) (pd_headers db)
       in Inr (page (lh_limit inp) (lh_offset inp) (sort_by (\<lambda>x y. bh_createdAt y \<le> bh_createdAt x) rows), length rows))"

end
