(* ===== verification/BomLaws.thy ===== *)
theory BomLaws
  imports BomService
begin

text \<open>
  The cycle check finds a cycle exactly when there is one, and the path it reports is one; the bills of
  materials that count stay acyclic under all operations, with one active version for each header and
  frozen components.
\<close>

section \<open>The graph\<close>

definition edges :: "adjacency \<Rightarrow> (string \<times> string) set" where
  "edges adj = {(a, b). b \<in> set (neighbours adj a)}"

lemma neighbours_addEdge:
  "set (neighbours (addEdge e adj) n) = (if n = fst e then {snd e} else {}) \<union> set (neighbours adj n)"
  by (auto simp: addEdge_def Let_def neighbours_def update_conv split: option.splits)

lemma edges_addEdge: "edges (addEdge e adj) = insert e (edges adj)"
  by (auto simp: edges_def neighbours_addEdge split: if_splits)

lemma edges_fold: "edges (fold addEdge es adj) = set es \<union> edges adj"
  by (induction es arbitrary: adj) (auto simp: edges_addEdge)

text \<open>The edges of the rows of all versions that count and are not left out.\<close>

definition row_edges :: "'z production_db_scheme \<Rightarrow> string set \<Rightarrow> (string \<times> string) set" where
  "row_edges db X = {(bh_outputItemId h, bc_componentItemId c) | v h c. v \<in> set (pd_versions db) \<and> live v \<and>
     bv_id v \<notin> X \<and> h \<in> set (pd_headers db) \<and> bh_id h = bv_bomHeaderId v \<and> c \<in> set (pd_components db) \<and>
     bc_bomVersionId c = bv_id v}"

lemma mem_bomRows:
  "(i, a, b) \<in> set (bomRows db) \<longleftrightarrow> (\<exists>v \<in> set (pd_versions db). live v \<and> bv_id v = i \<and>
     (\<exists>h \<in> set (pd_headers db). bh_id h = bv_bomHeaderId v \<and> bh_outputItemId h = a \<and>
       (\<exists>c \<in> set (pd_components db). bc_bomVersionId c = bv_id v \<and> bc_componentItemId c = b)))"
  by (auto simp: bomRows_def split: if_splits)

lemma mem_row_edges:
  "(a, b) \<in> row_edges db X \<longleftrightarrow> (\<exists>v \<in> set (pd_versions db). live v \<and> bv_id v \<notin> X \<and>
     (\<exists>h \<in> set (pd_headers db). bh_id h = bv_bomHeaderId v \<and> bh_outputItemId h = a \<and>
       (\<exists>c \<in> set (pd_components db). bc_bomVersionId c = bv_id v \<and> bc_componentItemId c = b)))"
  unfolding row_edges_def by blast

lemma set_bomRows: "set (map snd (filter (\<lambda>r. fst r \<noteq> x) (bomRows db))) = row_edges db {x}"
proof (rule set_eqI)
  fix e :: "string \<times> string"
  obtain a b where e: "e = (a, b)" by fastforce
  have "e \<in> set (map snd (filter (\<lambda>r. fst r \<noteq> x) (bomRows db))) \<longleftrightarrow> (\<exists>i. i \<noteq> x \<and> (i, a, b) \<in> set (bomRows db))"
    by (force simp: e)
  also have "\<dots> \<longleftrightarrow> e \<in> row_edges db {x}" unfolding e mem_bomRows mem_row_edges by auto
  finally show "e \<in> set (map snd (filter (\<lambda>r. fst r \<noteq> x) (bomRows db))) \<longleftrightarrow> e \<in> row_edges db {x}" .
qed

lemma edges_bomGraph: "edges (bomGraph db out x ps) = row_edges db {x} \<union> {out} \<times> set ps"
proof -
  have "edges [] = {}" by (auto simp: edges_def neighbours_def)
  then show ?thesis unfolding bomGraph_def edges_fold set_append set_bomRows by auto
qed

lemma distinct_keys_fold: "distinct (map fst adj) \<Longrightarrow> distinct (map fst (fold addEdge es adj))"
  by (induction es arbitrary: adj) (simp_all add: addEdge_def Let_def distinct_update)

lemma distinct_neighbours_fold:
  "(\<And>n. distinct (neighbours adj n)) \<Longrightarrow> distinct (neighbours (fold addEdge es adj) n)"
proof (induction es arbitrary: adj)
  case (Cons e es)
  have "distinct (neighbours (addEdge e adj) n)" for n
    using Cons.prems by (auto simp: addEdge_def Let_def neighbours_def update_conv split: option.splits)
  from Cons.IH [OF this] show ?case by simp
qed simp

section \<open>The search\<close>

lemma visit_loop:
  assumes "foldE (visitNeighbour out visited node) ns (parent, queue) = Inr (parent', queue')"
  shows "out \<notin> set ns" "set queue' = set queue \<union> (set ns - set visited)"
  using assms by (induction ns arbitrary: parent queue) (auto simp: visitNeighbour_def res_iff split: if_splits)

lemma search_closed:
  assumes "search adj out parent visited queue = Inr ()"
    and "\<forall>n \<in> set visited. set (neighbours adj n) \<subseteq> (set visited \<union> set queue) - {out}"
  shows "\<exists>S. set visited \<subseteq> S \<and> (\<forall>n \<in> S. set (neighbours adj n) \<subseteq> S - {out})"
  using assms
proof (induction adj out parent visited queue rule: search.induct)
  case (1 adj out parent visited)
  then show ?case by (intro exI [of _ "set visited"]) auto
next
  case (2 adj out parent visited node queue)
  show ?case
  proof (cases "node \<in> set visited")
    case True
    with 2(1) [OF True] 2(3,4) show ?thesis by (simp add: insert_absorb)
  next
    case False
    with 2(3) obtain parent' queue' where
      loop: "foldE (visitNeighbour out (node # visited) node) (neighbours adj node) (parent, queue) = Inr (parent', queue')"
      and rest: "search adj out parent' (node # visited) queue' = Inr ()"
      by (auto split: sum.splits)
    note v = visit_loop [OF loop]
    have "\<forall>n \<in> set (node # visited). set (neighbours adj n) \<subseteq> (set (node # visited) \<union> set queue') - {out}"
      using v 2(4) by auto
    from 2(2) [OF False loop refl rest this] show ?thesis by auto
  qed
qed

lemma no_way_back:
  assumes "out \<in> S" and "\<forall>n \<in> S. set (neighbours adj n) \<subseteq> S - {out}"
  shows "(out, out) \<notin> (edges adj)\<^sup>+"
proof
  have "b \<in> S \<and> b \<noteq> out" if "(out, b) \<in> (edges adj)\<^sup>+" for b
    using that by (induction rule: trancl_induct) (use assms in \<open>auto simp: edges_def\<close>)
  moreover assume "(out, out) \<in> (edges adj)\<^sup>+"
  ultimately show False by blast
qed

section \<open>The reported path\<close>

text \<open>Every node found has a parent; the parent of a visited node was visited before it.\<close>

definition search_tree :: "adjacency \<Rightarrow> string \<Rightarrow> (string \<times> string) list \<Rightarrow> string list \<Rightarrow> string list \<Rightarrow> bool" where
  "search_tree adj out parent visited queue \<longleftrightarrow>
     out \<in> set visited \<and> distinct visited \<and>
     (\<forall>n \<in> (set queue \<union> set visited) - {out}. map_of parent n \<noteq> None) \<and>
     (\<forall>n p. map_of parent n = Some p \<longrightarrow> (p, n) \<in> edges adj \<and> p \<in> set visited) \<and>
     (\<forall>newer n older p. visited = newer @ n # older \<longrightarrow> map_of parent n = Some p \<longrightarrow> p \<in> set older)"

lemma trail_path:
  assumes tree: "search_tree adj out parent visited queue"
    and "visited = newer @ cur # older" and "cur \<noteq> out" and "length older < n"
    and "successively (\<lambda>a b. (a, b) \<in> edges adj) (cur # rest)"
  shows "\<exists>t. trail n parent out cur (cur # rest) = Some (t @ cur # rest) \<and>
    successively (\<lambda>a b. (a, b) \<in> edges adj) (out # t @ cur # rest)"
  using assms(2-)
proof (induction n arbitrary: newer cur older rest)
  case (Suc n)
  have "cur \<in> set visited" using Suc.prems(1) by simp
  then have "map_of parent cur \<noteq> None" using tree Suc.prems(2) unfolding search_tree_def by blast
  then obtain p where p: "map_of parent cur = Some p" by blast
  then have e: "(p, cur) \<in> edges adj" using tree unfolding search_tree_def by blast
  have old: "p \<in> set older" using tree p Suc.prems(1) unfolding search_tree_def by blast
  show ?case
  proof (cases "p = out")
    case True
    with p e Suc.prems(4) show ?thesis by (intro exI [of _ "[]"]) simp
  next
    case False
    from old obtain o1 o2 where o: "older = o1 @ p # o2" by (auto dest: split_list)
    have "visited = (newer @ cur # o1) @ p # o2" "length o2 < n" using Suc.prems(1,3) by (simp_all add: o)
    moreover have "successively (\<lambda>a b. (a, b) \<in> edges adj) (p # cur # rest)" using e Suc.prems(4) by simp
    ultimately obtain t where "trail n parent out p (p # cur # rest) = Some (t @ p # cur # rest)"
      "successively (\<lambda>a b. (a, b) \<in> edges adj) (out # t @ p # cur # rest)"
      using Suc.IH [OF _ False] by blast
    with p False show ?thesis by (intro exI [of _ "t @ [p]"]) simp
  qed
qed simp

lemma trail_fuel:
  assumes "search_tree adj out parent (node # visited) queue" and "node \<noteq> out"
  shows "length visited \<le> length parent"
proof -
  have sub: "set (node # visited) - {out} \<subseteq> set (map fst parent)"
  proof
    fix n
    assume "n \<in> set (node # visited) - {out}"
    then have "map_of parent n \<noteq> None" using assms(1) unfolding search_tree_def by blast
    then show "n \<in> set (map fst parent)" by (simp add: map_of_eq_None_iff)
  qed
  have dist: "distinct (node # visited)" and mem: "out \<in> set (node # visited)"
    using assms(1) by (simp_all only: search_tree_def)
  have "card (set (node # visited) - {out}) = length visited"
    using distinct_card [OF dist] mem by (simp only: card_Diff_singleton List.finite_set length_Cons diff_Suc_1)
  moreover have "card (set (node # visited) - {out}) \<le> card (set (map fst parent))"
    by (rule card_mono [OF List.finite_set sub])
  moreover have "card (set (map fst parent)) \<le> length parent" using card_length [of "map fst parent"] by simp
  ultimately show ?thesis by simp
qed

definition is_cycle :: "(string \<times> string) set \<Rightarrow> string \<Rightarrow> production_error \<Rightarrow> bool" where
  "is_cycle R out err \<longleftrightarrow>
     (\<exists>t. err = ProdCycle (out # t @ [out]) \<and> successively (\<lambda>a b. (a, b) \<in> R) (out # t @ [out]))"

lemma cycleError_ok:
  assumes tree: "search_tree adj out parent (node # visited) queue" and "node \<noteq> out" and "(node, out) \<in> edges adj"
  shows "is_cycle (edges adj) out (cycleError parent out node)"
proof -
  have "length visited < Suc (length parent)" using trail_fuel [OF tree assms(2)] by simp
  from trail_path [OF tree, of "[]" node visited, OF _ assms(2) this, of "[]"]
  obtain t where t: "trail (Suc (length parent)) parent out node [node] = Some (t @ [node])"
    "successively (\<lambda>a b. (a, b) \<in> edges adj) (out # t @ [node])" by auto
  then have "successively (\<lambda>a b. (a, b) \<in> edges adj) ((out # t @ [node]) @ [out])"
    using assms(3) by (subst successively_append_iff) simp
  with t(1) show ?thesis unfolding is_cycle_def cycleError_def by (intro exI [of _ "t @ [node]"]) simp
qed

lemma tree_visit:
  assumes "search_tree adj out parent visited (node # queue)" and "node \<notin> set visited"
  shows "search_tree adj out parent (node # visited) queue"
  using assms unfolding search_tree_def by (auto simp: Cons_eq_append_conv)

lemma tree_neighbour:
  assumes tree: "search_tree adj out parent (node # visited) queue" and "nx \<notin> set (node # visited)"
    and "(node, nx) \<in> edges adj"
  shows "search_tree adj out (AList.update nx node parent) (node # visited) (queue @ [nx])"
proof -
  have at: "n \<noteq> nx" if "node # visited = newer @ n # older" for n newer older
  proof -
    have "n \<in> set (node # visited)" unfolding that by simp
    with assms(2) show ?thesis by blast
  qed
  show ?thesis
    using tree assms(2,3) at unfolding search_tree_def
    by (auto simp: update_conv split: if_splits)
qed

lemma visit_tree:
  assumes "search_tree adj out parent (node # visited) queue" and "node \<noteq> out" and "set ns \<subseteq> set (neighbours adj node)"
  shows "case foldE (visitNeighbour out (node # visited) node) ns (parent, queue) of
      Inl err \<Rightarrow> is_cycle (edges adj) out err
    | Inr (parent', queue') \<Rightarrow> search_tree adj out parent' (node # visited) queue'"
  using assms
proof (induction ns arbitrary: parent queue)
  case (Cons nx ns)
  have e: "(node, nx) \<in> edges adj" using Cons.prems(3) by (simp add: edges_def)
  show ?case
  proof (cases "nx = out")
    case True
    with cycleError_ok [OF Cons.prems(1,2)] e show ?thesis by (simp add: visitNeighbour_def)
  next
    case False
    have sub: "set ns \<subseteq> set (neighbours adj node)" using Cons.prems(3) by simp
    show ?thesis
    proof (cases "nx \<in> set (node # visited)")
      case True
      with False Cons.IH [OF Cons.prems(1,2) sub] show ?thesis by (simp add: visitNeighbour_def)
    next
      case new: False
      from False new Cons.IH [OF tree_neighbour [OF Cons.prems(1) new e] Cons.prems(2) sub] show ?thesis
        by (simp add: visitNeighbour_def)
    qed
  qed
qed simp

lemma search_error:
  assumes "search_tree adj out parent visited queue" and "search adj out parent visited queue = Inl err"
  shows "is_cycle (edges adj) out err"
  using assms
proof (induction adj out parent visited queue rule: search.induct)
  case (2 adj out parent visited node queue)
  show ?case
  proof (cases "node \<in> set visited")
    case True
    have "search_tree adj out parent visited queue" using 2(3) by (auto simp: search_tree_def)
    with 2(1) [OF True] 2(4) True show ?thesis by simp
  next
    case False
    note tree = tree_visit [OF 2(3) False]
    have "node \<noteq> out" using 2(3) False by (auto simp: search_tree_def)
    note v = visit_tree [OF tree this subset_refl]
    show ?thesis
    proof (cases "foldE (visitNeighbour out (node # visited) node) (neighbours adj node) (parent, queue)")
      case (Inl err')
      with v 2(4) False show ?thesis by simp
    next
      case (Inr s)
      obtain parent' queue' where s: "s = (parent', queue')" by fastforce
      from 2(2) [OF False Inr s [symmetric]] v 2(4) False Inr s show ?thesis by simp
    qed
  qed
qed simp

lemma assertNoCycle_spec:
  "case assertNoCycle db out x ps of
     Inr _ \<Rightarrow> (out, out) \<notin> (row_edges db {x} \<union> {out} \<times> set ps)\<^sup>+
   | Inl err \<Rightarrow> is_cycle (row_edges db {x} \<union> {out} \<times> set ps) out err"
proof -
  let ?adj = "bomGraph db out x ps"
  let ?start = "neighbours ?adj out"
  let ?parent = "map (\<lambda>n. (n, out)) ?start"
  have e: "edges ?adj = row_edges db {x} \<union> {out} \<times> set ps" by (rule edges_bomGraph)
  show ?thesis
  proof (cases "out \<in> set ?start")
    case True
    then have "(out, out) \<in> edges ?adj" by (simp add: edges_def)
    then have "is_cycle (edges ?adj) out (ProdCycle [out, out])" unfolding is_cycle_def by (intro exI [of _ "[]"]) simp
    with True e show ?thesis by (simp add: assertNoCycle_def Let_def)
  next
    case False
    have m: "map_of (map (\<lambda>n. (n, out)) ns) n = (if n \<in> set ns then Some out else None)" for n and ns :: "string list"
      by (induction ns) auto
    have tree: "search_tree ?adj out ?parent [out] ?start"
      using False unfolding search_tree_def m by (auto simp: edges_def Cons_eq_append_conv split: if_splits)
    have res: "assertNoCycle db out x ps = search ?adj out ?parent [out] ?start"
      using False by (simp add: assertNoCycle_def Let_def)
    show ?thesis
    proof (cases "search ?adj out ?parent [out] ?start")
      case (Inl err)
      with search_error [OF tree] e res show ?thesis by simp
    next
      case (Inr u)
      then have "\<exists>S. set [out] \<subseteq> S \<and> (\<forall>n \<in> S. set (neighbours ?adj n) \<subseteq> S - {out})"
        using False by (intro search_closed) auto
      then obtain S where "out \<in> S" "\<forall>n \<in> S. set (neighbours ?adj n) \<subseteq> S - {out}" by auto
      from no_way_back [OF this] e res Inr show ?thesis by simp
    qed
  qed
qed

section \<open>Adding the components of one item\<close>

lemma trancl_via:
  assumes "(x, y) \<in> (R \<union> {a} \<times> C)\<^sup>+"
  shows "(x, y) \<in> R\<^sup>+ \<or> ((x, a) \<in> (R \<union> {a} \<times> C)\<^sup>* \<and> (a, y) \<in> (R \<union> {a} \<times> C)\<^sup>+)"
  using assms
proof (induction rule: trancl_induct)
  case (base y)
  then show ?case by auto
next
  case (step y z)
  from step(2) consider "(y, z) \<in> R" | "y = a" "z \<in> C" by auto
  then show ?case
  proof cases
    case 1
    then have "(y, z) \<in> R \<union> {a} \<times> C" by simp
    with step(3) 1 show ?thesis by (meson trancl.trancl_into_trancl)
  next
    case 2
    then have "(a, z) \<in> (R \<union> {a} \<times> C)\<^sup>+" by auto
    with 2 step(1) show ?thesis by (auto dest: trancl_into_rtrancl)
  qed
qed

lemma acyclic_add:
  assumes "acyclic R" and "(a, a) \<notin> (R \<union> {a} \<times> C)\<^sup>+"
  shows "acyclic (R \<union> {a} \<times> C)"
proof (rule acyclicI, rule allI, rule notI)
  fix x
  assume "(x, x) \<in> (R \<union> {a} \<times> C)\<^sup>+"
  with trancl_via [OF this] assms(1) have "(x, a) \<in> (R \<union> {a} \<times> C)\<^sup>*" "(a, x) \<in> (R \<union> {a} \<times> C)\<^sup>+"
    by (auto simp: acyclic_def)
  then show False using assms(2) by (meson trancl_rtrancl_trancl)
qed

section \<open>The invariant\<close>

text \<open>
  Unique keys, known headers and versions, one active version for each header, positive quantities, no
  cycle.
\<close>

definition bom_ok :: "'z production_db_scheme \<Rightarrow> bool" where
  "bom_ok db \<longleftrightarrow> distinct (map bh_id (pd_headers db)) \<and> distinct (map bv_id (pd_versions db)) \<and>
     distinct (map bc_id (pd_components db)) \<and>
     bv_bomHeaderId ` set (pd_versions db) \<subseteq> bh_id ` set (pd_headers db) \<and>
     bc_bomVersionId ` set (pd_components db) \<subseteq> bv_id ` set (pd_versions db) \<and>
     (\<forall>v \<in> set (pd_versions db). \<forall>w \<in> set (pd_versions db). bv_status v = BV_ACTIVE \<longrightarrow> bv_status w = BV_ACTIVE \<longrightarrow>
        bv_bomHeaderId v = bv_bomHeaderId w \<longrightarrow> v = w) \<and>
     (\<forall>v \<in> set (pd_versions db). bv_status v \<noteq> BV_DRAFT \<longrightarrow> bv_id v \<in> bc_bomVersionId ` set (pd_components db)) \<and>
     (\<forall>c \<in> set (pd_components db). 0 < bc_baseQuantity c) \<and>
     (\<forall>v \<in> set (pd_versions db). 0 < bv_outputYieldQty v) \<and>
     acyclic (row_edges db {})"

definition bom_lifecycle :: "(bom_status \<times> bom_status) set" where
  "bom_lifecycle = {(BV_DRAFT, BV_ACTIVE), (BV_ACTIVE, BV_RETIRED)}"

text \<open>Headers and versions stay; a version that is no draft keeps its components.\<close>

definition bom_moves :: "'z production_db_scheme \<Rightarrow> 'z production_db_scheme \<Rightarrow> bool" where
  "bom_moves db db' \<longleftrightarrow> set (pd_headers db) \<subseteq> set (pd_headers db') \<and>
     (\<forall>v \<in> set (pd_versions db). \<exists>w \<in> set (pd_versions db'). bv_id w = bv_id v \<and>
        bv_bomHeaderId w = bv_bomHeaderId v \<and> bv_versionNo w = bv_versionNo v \<and>
        bv_outputYieldQty w = bv_outputYieldQty v \<and> bv_outputUom w = bv_outputUom v \<and>
        (bv_status w = bv_status v \<or> (bv_status v, bv_status w) \<in> bom_lifecycle) \<and>
        (bv_status v \<noteq> BV_DRAFT \<longrightarrow> {c \<in> set (pd_components db'). bc_bomVersionId c = bv_id v} =
           {c \<in> set (pd_components db). bc_bomVersionId c = bv_id v}))"

text \<open>The tables of the bills of materials as they were.\<close>

definition bom_same :: "'z production_db_scheme \<Rightarrow> 'z production_db_scheme \<Rightarrow> bool" where
  "bom_same db db' \<longleftrightarrow> pd_headers db' = pd_headers db \<and> pd_versions db' = pd_versions db \<and>
     pd_components db' = pd_components db"

definition bom_safe :: "'z production_db_scheme \<Rightarrow> 'z production_db_scheme \<Rightarrow> bool" where
  "bom_safe db db' \<longleftrightarrow> (bom_ok db \<longrightarrow> bom_ok db' \<and> bom_moves db db')"

lemma bom_moves_refl [simp]: "bom_moves db db"
  by (auto simp: bom_moves_def)

lemma bom_same_cong:
  assumes "bom_same db db'"
  shows "bom_ok db' = bom_ok db" "bom_moves x db' = bom_moves x db" "bom_moves db' x = bom_moves db x"
  using assms by (simp_all add: bom_same_def bom_ok_def bom_moves_def row_edges_def)

lemma bom_safe_same: "bom_same db db' \<Longrightarrow> bom_safe db db'"
  by (simp add: bom_safe_def bom_same_cong)

lemma bom_safe_refl [simp]: "bom_safe db db"
  by (simp add: bom_safe_def)

lemma bom_safe_then_same: "bom_safe db db1 \<Longrightarrow> bom_same db1 db2 \<Longrightarrow> bom_safe db db2"
  by (simp add: bom_safe_def bom_same_cong)

lemma bom_books [simp]:
  fixes db :: "'z production_db_scheme"
  shows "bom_same db (writeAudit a db)" "bom_same db (offerOutbox r db)"
    "bom_same db (offerOutbox r (writeAudit a db))"
  by (auto simp: bom_same_def writeAudit_def offerOutbox_def writeOutbox_def)

lemma bom_okD:
  assumes "bom_ok db"
  shows "distinct (map bh_id (pd_headers db))" "distinct (map bv_id (pd_versions db))"
    "distinct (map bc_id (pd_components db))" "acyclic (row_edges db {})"
    "\<And>c. c \<in> set (pd_components db) \<Longrightarrow> bc_bomVersionId c \<in> bv_id ` set (pd_versions db)"
    "\<And>c. c \<in> set (pd_components db) \<Longrightarrow> 0 < bc_baseQuantity c"
    "\<And>v. v \<in> set (pd_versions db) \<Longrightarrow> bv_bomHeaderId v \<in> bh_id ` set (pd_headers db)"
    "\<And>v. v \<in> set (pd_versions db) \<Longrightarrow> 0 < bv_outputYieldQty v"
  using assms unfolding bom_ok_def by (auto simp: image_subset_iff)

section \<open>The operations\<close>

lemma lockVersion_Inr [res_iff]:
  "lockVersion db vid = Inr v \<longleftrightarrow> List.find (\<lambda>v. bv_id v = vid) (pd_versions db) = Some v"
  by (auto simp: lockVersion_def split: option.splits)

lemma lockHeader_Inr [res_iff]:
  "lockHeader db hid = Inr h \<longleftrightarrow> List.find (\<lambda>h. bh_id h = hid) (pd_headers db) = Some h"
  by (auto simp: lockHeader_def split: option.splits)

lemma bom_books_tables [simp]:
  fixes db :: "'z production_db_scheme"
  shows "pd_headers (writeAudit a db) = pd_headers db" "pd_versions (writeAudit a db) = pd_versions db"
    "pd_components (writeAudit a db) = pd_components db" "pd_headers (offerOutbox r db) = pd_headers db"
    "pd_versions (offerOutbox r db) = pd_versions db" "pd_components (offerOutbox r db) = pd_components db"
  by (auto simp: writeAudit_def offerOutbox_def writeOutbox_def)

lemma bom_add_header:
  assumes "pd_headers db' = pd_headers db @ [h]" "pd_versions db' = pd_versions db" "pd_components db' = pd_components db"
    and "\<forall>x \<in> set (pd_headers db). bh_id x \<noteq> bh_id h"
  shows "bom_safe db db'"
  unfolding bom_safe_def
proof (intro impI conjI)
  assume ok: "bom_ok db"
  have "row_edges db' {} = row_edges db {}"
  proof (rule set_eqI)
    fix e :: "string \<times> string"
    obtain a b where e: "e = (a, b)" by fastforce
    have "bh_id h \<noteq> bv_bomHeaderId v" if "v \<in> set (pd_versions db)" for v
      using bom_okD(7) [OF ok that] assms(4) by auto
    then show "e \<in> row_edges db' {} \<longleftrightarrow> e \<in> row_edges db {}" unfolding e mem_row_edges assms by auto
  qed
  with ok assms show "bom_ok db'" by (auto simp: bom_ok_def)
  show "bom_moves db db'" using assms by (auto simp: bom_moves_def)
qed

lemma createBomHeader_safe: "createBomHeader e now inp db = (db', res) \<Longrightarrow> bom_safe db db'"
  unfolding createBomHeader_def
proof (rule run_tx_relation, assumption, goal_cases)
  case (1 db1 u)
  from 1(2) obtain h where "pd_headers db1 = pd_headers db @ [h]" "pd_versions db1 = pd_versions db"
    "pd_components db1 = pd_components db" "\<forall>x \<in> set (pd_headers db). bh_id x \<noteq> bh_id h"
    by (auto simp: res_iff Let_def)
  then show ?case by (rule bom_add_header)
qed simp

lemma bom_add_version:
  assumes "pd_headers db' = pd_headers db" "pd_versions db' = pd_versions db @ [v]" "pd_components db' = pd_components db"
    and "\<forall>x \<in> set (pd_versions db). bv_id x \<noteq> bv_id v" and "bv_status v = BV_DRAFT" and "0 < bv_outputYieldQty v"
    and "\<exists>h \<in> set (pd_headers db). bh_id h = bv_bomHeaderId v"
  shows "bom_safe db db'"
  unfolding bom_safe_def
proof (intro impI conjI)
  assume ok: "bom_ok db"
  have "row_edges db' {} = row_edges db {}"
  proof (rule set_eqI)
    fix e :: "string \<times> string"
    obtain a b where e: "e = (a, b)" by fastforce
    have "bc_bomVersionId c \<noteq> bv_id v" if "c \<in> set (pd_components db)" for c
      using bom_okD(5) [OF ok that] assms(4) by auto
    then show "e \<in> row_edges db' {} \<longleftrightarrow> e \<in> row_edges db {}" unfolding e mem_row_edges assms by auto
  qed
  moreover have "bv_bomHeaderId v \<in> bh_id ` set (pd_headers db)" using assms(7) by (metis image_eqI)
  ultimately show "bom_ok db'" using ok assms(1-6) by (auto simp: bom_ok_def)
  show "bom_moves db db'" using assms by (auto simp: bom_moves_def)
qed

lemma createDraftVersion_safe: "createDraftVersion e inp db = (db', res) \<Longrightarrow> bom_safe db db'"
  unfolding createDraftVersion_def
proof (rule run_tx_relation, assumption, goal_cases)
  case (1 db1 u)
  from 1(2) obtain v h where "pd_headers db1 = pd_headers db" "pd_versions db1 = pd_versions db @ [v]"
    "pd_components db1 = pd_components db" "\<forall>x \<in> set (pd_versions db). bv_id x \<noteq> bv_id v" "bv_status v = BV_DRAFT"
    "0 < bv_outputYieldQty v" "h \<in> set (pd_headers db)" "bh_id h = bv_bomHeaderId v"
    by (auto simp: res_iff Let_def positiveQty_def dest!: find_Some_mem)
  then show ?case by (intro bom_add_version) auto
qed simp

text \<open>The inserted component rows.\<close>

lemma insertComponents_Inr:
  fixes db :: "'z production_db_scheme"
  assumes "foldE (insertComponent e vid) rs db = Inr db'" and "distinct (map bc_id (pd_components db))"
  shows "\<exists>new. pd_components db' = pd_components db @ new \<and> pd_headers db' = pd_headers db \<and>
    pd_versions db' = pd_versions db \<and> map bc_componentItemId new = map rco_componentItemId rs \<and>
    (\<forall>c \<in> set new. bc_bomVersionId c = vid \<and> 0 < bc_baseQuantity c) \<and> distinct (map bc_id (pd_components db @ new))"
  using assms
proof (induction rs arbitrary: db)
  case Nil
  then show ?case by (intro exI [of _ "[]"]) simp
next
  case (Cons r rs)
  from Cons.prems(1) obtain db1 where one: "insertComponent e vid r db = Inr db1"
    and rest: "foldE (insertComponent e vid) rs db1 = Inr db'" by (auto simp: res_iff)
  from one obtain c where c: "pd_components db1 = pd_components db @ [c]" "pd_headers db1 = pd_headers db"
    "pd_versions db1 = pd_versions db" "bc_componentItemId c = rco_componentItemId r" "bc_bomVersionId c = vid"
    "0 < bc_baseQuantity c" "\<forall>x \<in> set (pd_components db). bc_id x \<noteq> bc_id c"
    by (auto simp: insertComponent_def res_iff)
  have "distinct (map bc_id (pd_components db1))" using c Cons.prems(2) by auto
  from Cons.IH [OF rest this] obtain new where "pd_components db' = pd_components db1 @ new"
    "pd_headers db' = pd_headers db1" "pd_versions db' = pd_versions db1" "map bc_componentItemId new = map rco_componentItemId rs"
    "\<forall>c \<in> set new. bc_bomVersionId c = vid \<and> 0 < bc_baseQuantity c" "distinct (map bc_id (pd_components db1 @ new))"
    by blast
  with c show ?case by (intro exI [of _ "c # new"]) simp
qed

text \<open>The components of a draft replaced by lines that pass the cycle check.\<close>

lemma bom_replace:
  assumes ok: "bom_ok db" and v: "v \<in> set (pd_versions db)" "bv_status v = BV_DRAFT"
    and h: "h \<in> set (pd_headers db)" "bh_id h = bv_bomHeaderId v"
    and free: "(bh_outputItemId h, bh_outputItemId h) \<notin> (row_edges db {bv_id v} \<union> {bh_outputItemId h} \<times> C)\<^sup>+"
    and tabs: "pd_headers db' = pd_headers db" "pd_versions db' = pd_versions db"
      "pd_components db' = filter (\<lambda>c. bc_bomVersionId c \<noteq> bv_id v) (pd_components db) @ new"
    and new: "\<forall>c \<in> set new. bc_bomVersionId c = bv_id v \<and> 0 < bc_baseQuantity c \<and> bc_componentItemId c \<in> C"
    and dist: "distinct (map bc_id (pd_components db'))"
  shows "bom_ok db' \<and> bom_moves db db'"
proof -
  let ?out = "bh_outputItemId h"
  have vid: "w = v" if "w \<in> set (pd_versions db)" "bv_id w = bv_id v" for w
    using row_by_key [OF bom_okD(2) [OF ok] that(1) v(1) that(2)] .
  have hid: "g = h" if "g \<in> set (pd_headers db)" "bh_id g = bv_bomHeaderId v" for g
    using row_by_key [OF bom_okD(1) [OF ok] that(1) h(1)] that(2) h(2) by simp
  have sub: "row_edges db' {} \<subseteq> row_edges db {bv_id v} \<union> {?out} \<times> C"
  proof
    fix e :: "string \<times> string"
    assume "e \<in> row_edges db' {}"
    moreover obtain a b where e: "e = (a, b)" by fastforce
    ultimately obtain w g c where w: "w \<in> set (pd_versions db)" "live w"
      and g: "g \<in> set (pd_headers db)" "bh_id g = bv_bomHeaderId w" "bh_outputItemId g = a"
      and c: "c \<in> set (pd_components db')" "bc_bomVersionId c = bv_id w" "bc_componentItemId c = b"
      unfolding e mem_row_edges tabs(1,2) by blast
    show "e \<in> row_edges db {bv_id v} \<union> {?out} \<times> C"
    proof (cases "bv_id w = bv_id v")
      case True
      then have "w = v" using vid w(1) by blast
      then have "g = h" using hid g by blast
      moreover have "c \<in> set new" using c True unfolding tabs(3) by auto
      ultimately show ?thesis using new g(3) c(3) by (auto simp: e)
    next
      case False
      with c new have "c \<in> set (pd_components db)" unfolding tabs(3) by auto
      with w g c False have "e \<in> row_edges db {bv_id v}" unfolding e mem_row_edges by blast
      then show ?thesis by simp
    qed
  qed
  have "row_edges db {bv_id v} \<subseteq> row_edges db {}" by (rule subrelI) (auto simp: mem_row_edges)
  then have "acyclic (row_edges db {bv_id v})" using bom_okD(4) [OF ok] by (rule acyclic_subset [rotated])
  from acyclic_subset [OF acyclic_add [OF this free] sub] have acy: "acyclic (row_edges db' {})" .
  have other: "bv_id w \<in> bc_bomVersionId ` set (pd_components db')"
    if "w \<in> set (pd_versions db)" "bv_status w \<noteq> BV_DRAFT" for w
  proof -
    from ok that obtain c where c: "c \<in> set (pd_components db)" "bc_bomVersionId c = bv_id w"
      unfolding bom_ok_def by fastforce
    moreover have "bv_id w \<noteq> bv_id v" using vid that v(2) by blast
    ultimately show ?thesis unfolding tabs(3) by (auto intro!: rev_image_eqI [of c])
  qed
  show ?thesis
  proof (rule conjI)
    show "bom_ok db'" unfolding bom_ok_def tabs(1,2)
    proof (intro conjI dist acy)
      show "\<forall>w \<in> set (pd_versions db). bv_status w \<noteq> BV_DRAFT \<longrightarrow> bv_id w \<in> bc_bomVersionId ` set (pd_components db')"
        using other by blast
      show "bc_bomVersionId ` set (pd_components db') \<subseteq> bv_id ` set (pd_versions db)"
        using bom_okD(5) [OF ok] new v(1) unfolding tabs(3) by auto
      show "\<forall>c \<in> set (pd_components db'). 0 < bc_baseQuantity c"
        using bom_okD(6) [OF ok] new unfolding tabs(3) by auto
    qed (use ok in \<open>simp_all add: bom_ok_def\<close>)
    have "{c \<in> set (pd_components db'). bc_bomVersionId c = bv_id w} = {c \<in> set (pd_components db). bc_bomVersionId c = bv_id w}"
      if "w \<in> set (pd_versions db)" "bv_status w \<noteq> BV_DRAFT" for w
    proof -
      have "bv_id w \<noteq> bv_id v" using vid that v(2) by blast
      with new show ?thesis unfolding tabs(3) by auto
    qed
    then show "bom_moves db db'" unfolding bom_moves_def tabs(1,2) by blast
  qed
qed

lemma replaceDraftComponents_safe: "replaceDraftComponents e inp ls db = (db', res) \<Longrightarrow> bom_safe db db'"
  unfolding replaceDraftComponents_def
proof (rule run_tx_relation, assumption, goal_cases)
  case (1 db1 u)
  from 1(2) obtain v h rs db2 where v: "v \<in> set (pd_versions db)" "bv_status v = BV_DRAFT"
    and h: "h \<in> set (pd_headers db)" "bh_id h = bv_bomHeaderId v"
    and free: "assertNoCycle db (bh_outputItemId h) (bv_id v) (map rco_componentItemId rs) = Inr ()"
    and ins: "foldE (insertComponent e (bv_id v)) rs
       (db\<lparr>pd_components := filter (\<lambda>c. bc_bomVersionId c \<noteq> bv_id v) (pd_components db)\<rparr>) = Inr db2"
    and db1: "bom_same db2 db1"
    by (auto simp: res_iff bom_same_def dest!: find_Some_mem)
  show ?case unfolding bom_safe_def
  proof (rule impI)
    assume ok: "bom_ok db"
    have "distinct (map bc_id (filter (\<lambda>c. bc_bomVersionId c \<noteq> bv_id v) (pd_components db)))"
      using bom_okD(3) [OF ok] by (rule distinct_map_filter)
    with insertComponents_Inr [OF ins] obtain new where
      tabs: "pd_headers db2 = pd_headers db" "pd_versions db2 = pd_versions db"
        "pd_components db2 = filter (\<lambda>c. bc_bomVersionId c \<noteq> bv_id v) (pd_components db) @ new"
      and new: "map bc_componentItemId new = map rco_componentItemId rs"
        "\<forall>c \<in> set new. bc_bomVersionId c = bv_id v \<and> 0 < bc_baseQuantity c" "distinct (map bc_id (pd_components db2))"
      by auto
    have "set (map bc_componentItemId new) = set (map rco_componentItemId rs)" using new(1) by simp
    then have "\<forall>c \<in> set new. bc_bomVersionId c = bv_id v \<and> 0 < bc_baseQuantity c \<and>
        bc_componentItemId c \<in> set (map rco_componentItemId rs)" using new(2) by force
    moreover have "(bh_outputItemId h, bh_outputItemId h) \<notin>
        (row_edges db {bv_id v} \<union> {bh_outputItemId h} \<times> set (map rco_componentItemId rs))\<^sup>+"
      using assertNoCycle_spec [where db = db and out = "bh_outputItemId h" and x = "bv_id v" and
          ps = "map rco_componentItemId rs"] free by simp
    ultimately have "bom_ok db2 \<and> bom_moves db db2" using bom_replace [OF ok v h _ tabs _ new(3)] by blast
    then show "bom_ok db1 \<and> bom_moves db db1" using db1 by (simp add: bom_same_cong)
  qed
qed simp

section \<open>Activation and retirement\<close>

text \<open>One version changes its status along the life cycle.\<close>

lemma updateVersion_Inr:
  assumes "updateVersion vid st f db = Inr (db', u)"
  obtains v where "v \<in> set (pd_versions db)" "bv_id v = vid" "bv_status v = st" "u = f v"
    "db' = db\<lparr>pd_versions := update_where (\<lambda>v. bv_id v = vid \<and> bv_status v = st) f (pd_versions db)\<rparr>"
  using assms that by (auto simp: updateVersion_def Let_def split: option.splits dest!: find_Some_mem)

definition bom_status_only :: "(bom_version \<Rightarrow> bom_version) \<Rightarrow> bool" where
  "bom_status_only f \<longleftrightarrow> (\<forall>v. bv_id (f v) = bv_id v \<and> bv_bomHeaderId (f v) = bv_bomHeaderId v \<and>
     bv_versionNo (f v) = bv_versionNo v \<and> bv_outputYieldQty (f v) = bv_outputYieldQty v \<and>
     bv_outputUom (f v) = bv_outputUom v)"

lemma bom_advance:
  assumes ok: "bom_ok db" and f: "bom_status_only f" and v: "v \<in> set (pd_versions db)" "bv_status v = st"
    and move: "(st, bv_status (f v)) \<in> bom_lifecycle"
    and filled: "bv_id v \<in> bc_bomVersionId ` set (pd_components db)"
    and one: "bv_status (f v) = BV_ACTIVE \<Longrightarrow> \<forall>w \<in> set (pd_versions db). bv_bomHeaderId w = bv_bomHeaderId v \<longrightarrow> bv_status w \<noteq> BV_ACTIVE"
    and db': "db' = db\<lparr>pd_versions := update_where (\<lambda>w. bv_id w = bv_id v \<and> bv_status w = st) f (pd_versions db)\<rparr>"
  shows "bom_ok db' \<and> bom_moves db db'"
proof -
  have dist: "distinct (map bv_id (pd_versions db))" by (rule bom_okD(2) [OF ok])
  have key: "bv_id (f v) = bv_id v" using f by (simp add: bom_status_only_def)
  note u = update_one_row [where hit = "\<lambda>w. bv_id w = bv_id v \<and> bv_status w = st" and k = bv_id and f = f,
    OF dist v(1) _ _ key]
  have set': "set (pd_versions db') = insert (f v) (set (pd_versions db) - {v})"
    and ids: "map bv_id (pd_versions db') = map bv_id (pd_versions db)" using u(1,2) v(2) by (simp_all add: db')
  have same: "pd_headers db' = pd_headers db" "pd_components db' = pd_components db" by (simp_all add: db')
  have lv: "live v" using v(2) move by (auto simp: live_def bom_lifecycle_def)
  have "row_edges db' {} \<subseteq> row_edges db {}"
  proof
    fix e :: "string \<times> string"
    assume "e \<in> row_edges db' {}"
    moreover obtain a b where e: "e = (a, b)" by fastforce
    ultimately obtain w where w: "w \<in> set (pd_versions db')" "live w"
      and rest: "\<exists>h \<in> set (pd_headers db). bh_id h = bv_bomHeaderId w \<and> bh_outputItemId h = a \<and>
         (\<exists>c \<in> set (pd_components db). bc_bomVersionId c = bv_id w \<and> bc_componentItemId c = b)"
      unfolding e mem_row_edges same by blast
    show "e \<in> row_edges db {}"
    proof (cases "w = f v")
      case True
      with rest f have "\<exists>h \<in> set (pd_headers db). bh_id h = bv_bomHeaderId v \<and> bh_outputItemId h = a \<and>
         (\<exists>c \<in> set (pd_components db). bc_bomVersionId c = bv_id v \<and> bc_componentItemId c = b)"
        by (simp add: bom_status_only_def)
      with v(1) lv show ?thesis unfolding e mem_row_edges by blast
    next
      case False
      with w rest show ?thesis unfolding e mem_row_edges set' by blast
    qed
  qed
  from acyclic_subset [OF bom_okD(4) [OF ok] this] have acy: "acyclic (row_edges db' {})" .
  have fv: "bv_id (f v) = bv_id v" "bv_bomHeaderId (f v) = bv_bomHeaderId v" using f by (simp_all add: bom_status_only_def)
  have single: "x = y" if "x \<in> set (pd_versions db')" "y \<in> set (pd_versions db')" "bv_status x = BV_ACTIVE"
    "bv_status y = BV_ACTIVE" "bv_bomHeaderId x = bv_bomHeaderId y" for x y
  proof -
    have old: "x = y" if "x \<in> set (pd_versions db)" "y \<in> set (pd_versions db)" "bv_status x = BV_ACTIVE"
      "bv_status y = BV_ACTIVE" "bv_bomHeaderId x = bv_bomHeaderId y" for x y
      using ok that unfolding bom_ok_def by blast
    show ?thesis
    proof (cases "bv_status (f v) = BV_ACTIVE")
      case True
      from one [OF this] that fv show ?thesis unfolding set' by (auto intro!: old)
    next
      case False
      with that have "x \<in> set (pd_versions db)" "y \<in> set (pd_versions db)" unfolding set' by auto
      with old that show ?thesis by blast
    qed
  qed
  show ?thesis
  proof (rule conjI)
    show "bom_ok db'" unfolding bom_ok_def same
    proof (intro conjI acy ballI impI)
      show "distinct (map bv_id (pd_versions db'))" unfolding ids by (rule dist)
      show "bv_bomHeaderId ` set (pd_versions db') \<subseteq> bh_id ` set (pd_headers db)"
        using bom_okD(7) [OF ok] v(1) fv unfolding set' by auto
      have "bv_id ` set (pd_versions db') = bv_id ` set (pd_versions db)"
        using ids by (metis set_map)
      then show "bc_bomVersionId ` set (pd_components db) \<subseteq> bv_id ` set (pd_versions db')"
        using bom_okD(5) [OF ok] by auto
      show "x = y" if "x \<in> set (pd_versions db')" "y \<in> set (pd_versions db')" "bv_status x = BV_ACTIVE"
        "bv_status y = BV_ACTIVE" "bv_bomHeaderId x = bv_bomHeaderId y" for x y using single that by blast
      show "bv_id w \<in> bc_bomVersionId ` set (pd_components db)"
        if "w \<in> set (pd_versions db')" "bv_status w \<noteq> BV_DRAFT" for w
        using that ok filled fv unfolding set' bom_ok_def by auto
      show "0 < bc_baseQuantity c" if "c \<in> set (pd_components db)" for c by (rule bom_okD(6) [OF ok that])
      show "0 < bv_outputYieldQty w" if "w \<in> set (pd_versions db')" for w
        using that bom_okD(8) [OF ok] v(1) f unfolding set' by (auto simp: bom_status_only_def)
    qed (use bom_okD(1,3) [OF ok] in simp_all)
    show "bom_moves db db'" unfolding bom_moves_def same
    proof (intro conjI ballI subset_refl)
      fix w
      assume w: "w \<in> set (pd_versions db)"
      show "\<exists>x \<in> set (pd_versions db'). bv_id x = bv_id w \<and> bv_bomHeaderId x = bv_bomHeaderId w \<and>
          bv_versionNo x = bv_versionNo w \<and> bv_outputYieldQty x = bv_outputYieldQty w \<and> bv_outputUom x = bv_outputUom w \<and>
          (bv_status x = bv_status w \<or> (bv_status w, bv_status x) \<in> bom_lifecycle) \<and>
          (bv_status w \<noteq> BV_DRAFT \<longrightarrow> {c \<in> set (pd_components db). bc_bomVersionId c = bv_id w} =
             {c \<in> set (pd_components db). bc_bomVersionId c = bv_id w})"
        using f move v w set' by (cases "w = v") (auto simp: bom_status_only_def)
    qed
  qed
qed

lemma retired_only [simp]: "bom_status_only (\<lambda>x. x\<lparr>bv_status := BV_RETIRED\<rparr>)"
  "bom_status_only (\<lambda>x. x\<lparr>bv_status := BV_ACTIVE, bv_approvedBy := a\<rparr>)"
  by (simp_all add: bom_status_only_def)

lemma bom_retire:
  assumes ok: "bom_ok db" and up: "updateVersion vid BV_ACTIVE (\<lambda>x. x\<lparr>bv_status := BV_RETIRED\<rparr>) db = Inr (db', u)"
  shows "bom_ok db' \<and> bom_moves db db'"
proof -
  from up obtain v where v: "v \<in> set (pd_versions db)" "bv_id v = vid" "bv_status v = BV_ACTIVE"
    and db': "db' = db\<lparr>pd_versions := update_where (\<lambda>w. bv_id w = bv_id v \<and> bv_status w = BV_ACTIVE)
       (\<lambda>x. x\<lparr>bv_status := BV_RETIRED\<rparr>) (pd_versions db)\<rparr>" by (auto elim: updateVersion_Inr)
  have "bv_id v \<in> bc_bomVersionId ` set (pd_components db)" using ok v unfolding bom_ok_def by auto
  then show ?thesis by (intro bom_advance [OF ok retired_only(1) v(1,3) _ _ _ db']) (simp_all add: bom_lifecycle_def)
qed

lemma retireVersion_safe: "retireVersion inp db = (db', res) \<Longrightarrow> bom_safe db db'"
  unfolding retireVersion_def
proof (rule run_tx_relation, assumption, goal_cases)
  case (1 db1 u)
  then obtain vid db2 r where up: "updateVersion vid BV_ACTIVE (\<lambda>x. x\<lparr>bv_status := BV_RETIRED\<rparr>) db = Inr (db2, r)"
    and db1: "bom_same db2 db1" by (auto simp: res_iff)
  have "bom_safe db db2" using bom_retire [OF _ up] by (simp add: bom_safe_def)
  then show ?case using db1 by (rule bom_safe_then_same)
qed simp

lemma bom_moves_trans:
  assumes "bom_moves a b" and "bom_moves b c" and steps: "\<forall>v \<in> set (pd_versions a). \<forall>w \<in> set (pd_versions b).
     bv_id w = bv_id v \<longrightarrow> bv_status w = bv_status v \<or> (\<forall>x \<in> set (pd_versions c). bv_id x = bv_id v \<longrightarrow> bv_status x = bv_status w)"
  shows "bom_moves a c"
  unfolding bom_moves_def
proof (intro conjI ballI)
  show "set (pd_headers a) \<subseteq> set (pd_headers c)" using assms(1,2) unfolding bom_moves_def by blast
next
  fix v
  assume v: "v \<in> set (pd_versions a)"
  from assms(1) v obtain w where w: "w \<in> set (pd_versions b)" "bv_id w = bv_id v" "bv_bomHeaderId w = bv_bomHeaderId v"
    "bv_versionNo w = bv_versionNo v" "bv_outputYieldQty w = bv_outputYieldQty v" "bv_outputUom w = bv_outputUom v"
    and ws: "bv_status w = bv_status v \<or> (bv_status v, bv_status w) \<in> bom_lifecycle"
    and wc: "bv_status v \<noteq> BV_DRAFT \<longrightarrow> {c \<in> set (pd_components b). bc_bomVersionId c = bv_id v} =
       {c \<in> set (pd_components a). bc_bomVersionId c = bv_id v}" unfolding bom_moves_def by blast
  from assms(2) w(1) obtain x where x: "x \<in> set (pd_versions c)" "bv_id x = bv_id w" "bv_bomHeaderId x = bv_bomHeaderId w"
    "bv_versionNo x = bv_versionNo w" "bv_outputYieldQty x = bv_outputYieldQty w" "bv_outputUom x = bv_outputUom w"
    and xs: "bv_status x = bv_status w \<or> (bv_status w, bv_status x) \<in> bom_lifecycle"
    and xc: "bv_status w \<noteq> BV_DRAFT \<longrightarrow> {d \<in> set (pd_components c). bc_bomVersionId d = bv_id w} =
       {d \<in> set (pd_components b). bc_bomVersionId d = bv_id w}" unfolding bom_moves_def by blast
  have st: "bv_status x = bv_status v \<or> (bv_status v, bv_status x) \<in> bom_lifecycle"
    using steps v w(1,2) x(1,2) ws xs by (metis (no_types))
  moreover have "bv_status v \<noteq> BV_DRAFT \<Longrightarrow> bv_status w \<noteq> BV_DRAFT" using ws by (auto simp: bom_lifecycle_def)
  ultimately show "\<exists>x \<in> set (pd_versions c). bv_id x = bv_id v \<and> bv_bomHeaderId x = bv_bomHeaderId v \<and>
      bv_versionNo x = bv_versionNo v \<and> bv_outputYieldQty x = bv_outputYieldQty v \<and> bv_outputUom x = bv_outputUom v \<and>
      (bv_status x = bv_status v \<or> (bv_status v, bv_status x) \<in> bom_lifecycle) \<and>
      (bv_status v \<noteq> BV_DRAFT \<longrightarrow> {d \<in> set (pd_components c). bc_bomVersionId d = bv_id v} =
         {d \<in> set (pd_components a). bc_bomVersionId d = bv_id v})"
    using w x wc xc by (intro bexI [OF _ x(1)]) simp
qed

lemma retireCurrent_Inr:
  fixes db :: "'z production_db_scheme"
  assumes "retireCurrent a h db = Inr (db', cur)" and ok: "bom_ok db"
  shows "bom_ok db' \<and> bom_moves db db' \<and> pd_headers db' = pd_headers db \<and> pd_components db' = pd_components db \<and>
    (\<forall>v \<in> set (pd_versions db). bv_status v = BV_DRAFT \<longrightarrow> v \<in> set (pd_versions db')) \<and>
    (\<forall>v \<in> set (pd_versions db). \<forall>w \<in> set (pd_versions db'). bv_id w = bv_id v \<longrightarrow> bv_status v = BV_DRAFT \<longrightarrow> w = v)"
proof (cases "List.find (\<lambda>v. bv_bomHeaderId v = bh_id h \<and> bv_status v = BV_ACTIVE) (pd_versions db)")
  case None
  with assms(1) have "db' = db" by (simp add: retireCurrent_def)
  then show ?thesis using ok row_by_key [OF bom_okD(2) [OF ok]] by auto
next
  case (Some c)
  with assms(1) obtain db1 u where up: "updateVersion (bv_id c) BV_ACTIVE (\<lambda>x. x\<lparr>bv_status := BV_RETIRED\<rparr>) db = Inr (db1, u)"
    and same: "bom_same db1 db'" by (auto simp: retireCurrent_def res_iff)
  from up obtain v where v: "v \<in> set (pd_versions db)" "bv_id v = bv_id c" "bv_status v = BV_ACTIVE"
    and db1: "db1 = db\<lparr>pd_versions := update_where (\<lambda>w. bv_id w = bv_id c \<and> bv_status w = BV_ACTIVE)
       (\<lambda>x. x\<lparr>bv_status := BV_RETIRED\<rparr>) (pd_versions db)\<rparr>" by (rule updateVersion_Inr)
  have keep: "w \<in> set (pd_versions db1)" if "w \<in> set (pd_versions db)" "bv_status w = BV_DRAFT" for w
    using that by (force simp: db1 update_where_def)
  have only: "w = x" if "x \<in> set (pd_versions db)" "w \<in> set (pd_versions db1)" "bv_id w = bv_id x" "bv_status x = BV_DRAFT" for w x
  proof -
    from that(2) obtain y where y: "y \<in> set (pd_versions db)" "bv_id y = bv_id w"
      "w = (if bv_id y = bv_id c \<and> bv_status y = BV_ACTIVE then y\<lparr>bv_status := BV_RETIRED\<rparr> else y)"
      by (auto simp: db1 update_where_def)
    have "y = x" using row_by_key [OF bom_okD(2) [OF ok] y(1) that(1)] y(2) that(3) by simp
    with y(3) that(4) show ?thesis by simp
  qed
  show ?thesis using bom_retire [OF ok up] keep only same by (auto simp: bom_same_cong) (auto simp: bom_same_def db1)
qed

lemma activateVersion_safe: "activateVersion inp db = (db', res) \<Longrightarrow> bom_safe db db'"
  unfolding activateVersion_def
proof (rule run_tx_relation, assumption, goal_cases)
  case (1 db1 r)
  from 1(2) obtain a v h cur dbr f dbu u where v: "v \<in> set (pd_versions db)" "bv_status v = BV_DRAFT"
    and cs: "versionComponents (pd_components db) (bv_id v) \<noteq> []"
    and ret: "retireCurrent a h db = Inr (dbr, cur)"
    and up: "updateVersion (bv_id v) BV_DRAFT f dbr = Inr (dbu, u)"
    and f: "f = (\<lambda>x. x\<lparr>bv_status := BV_ACTIVE, bv_approvedBy := Some (ac_id a)\<rparr>)"
    and one: "\<forall>x \<in> set (pd_versions dbr). bv_id x \<noteq> bv_id v \<longrightarrow> bv_bomHeaderId x = bv_bomHeaderId v \<longrightarrow> bv_status x \<noteq> BV_ACTIVE"
    and db1: "bom_same dbu db1"
    by (auto simp: res_iff Let_def dest!: find_Some_mem)
  show ?case unfolding bom_safe_def
  proof (rule impI)
    assume ok: "bom_ok db"
    from retireCurrent_Inr [OF ret ok] v have okr: "bom_ok dbr" "bom_moves db dbr"
      and comps: "pd_components dbr = pd_components db" and vr: "v \<in> set (pd_versions dbr)"
      and only: "\<forall>w \<in> set (pd_versions dbr). bv_id w = bv_id v \<longrightarrow> w = v" by blast+
    from up obtain w where db': "dbu = dbr\<lparr>pd_versions := update_where (\<lambda>w. bv_id w = bv_id v \<and> bv_status w = BV_DRAFT) f (pd_versions dbr)\<rparr>"
      by (rule updateVersion_Inr)
    have "set (versionComponents (pd_components db) (bv_id v)) = {c \<in> set (pd_components db). bc_bomVersionId c = bv_id v}"
      by (auto simp: versionComponents_def)
    then have filled: "bv_id v \<in> bc_bomVersionId ` set (pd_components dbr)" using hd_in_set [OF cs] unfolding comps
      by (auto intro!: rev_image_eqI)
    have adv: "bom_ok dbu \<and> bom_moves dbr dbu"
      by (rule bom_advance [OF okr(1) _ vr v(2) _ filled _ db'])
        (use one only v(2) in \<open>auto simp: f bom_lifecycle_def\<close>)
    have "bom_moves db dbu"
    proof (rule bom_moves_trans [OF okr(2) adv [THEN conjunct2]], intro ballI impI)
      fix y w
      assume y: "y \<in> set (pd_versions db)" and w: "w \<in> set (pd_versions dbr)" and id: "bv_id w = bv_id y"
      show "bv_status w = bv_status y \<or> (\<forall>x \<in> set (pd_versions dbu). bv_id x = bv_id y \<longrightarrow> bv_status x = bv_status w)"
      proof (cases "bv_id y = bv_id v")
        case True
        then have "w = v" "y = v" using only w id row_by_key [OF bom_okD(2) [OF ok] y v(1)] by simp_all
        then show ?thesis by simp
      next
        case False
        have "bv_status x = bv_status w" if x: "x \<in> set (pd_versions dbu)" "bv_id x = bv_id y" for x
        proof -
          from x False have "x \<in> set (pd_versions dbr)" by (auto simp: db' update_where_def f)
          from row_by_key [OF bom_okD(2) [OF okr(1)] this w] x(2) id show ?thesis by simp
        qed
        then show ?thesis by blast
      qed
    qed
    with adv db1 show "bom_ok db1 \<and> bom_moves db db1" by (simp add: bom_same_cong)
  qed
qed simp

section \<open>Reachable states\<close>

text \<open>The operations as steps, and anything else that leaves these tables alone.\<close>

inductive bom_step :: "env \<Rightarrow> 'z production_db_scheme \<Rightarrow> 'z production_db_scheme \<Rightarrow> bool" for e where
  header: "createBomHeader e now hinp db = (db', hres) \<Longrightarrow> bom_step e db db'"
| version: "createDraftVersion e vinp db = (db', vres) \<Longrightarrow> bom_step e db db'"
| components: "replaceDraftComponents e inp ls db = (db', cres) \<Longrightarrow> bom_step e db db'"
| activated: "activateVersion inp db = (db', res) \<Longrightarrow> bom_step e db db'"
| retired: "retireVersion inp db = (db', res) \<Longrightarrow> bom_step e db db'"
| elsewhere: "bom_same db db' \<Longrightarrow> bom_step e db db'"

inductive bom_reachable :: "env \<Rightarrow> 'z production_db_scheme \<Rightarrow> bool" for e where
  start: "pd_headers db = [] \<Longrightarrow> pd_versions db = [] \<Longrightarrow> pd_components db = [] \<Longrightarrow> bom_reachable e db"
| onward: "bom_reachable e db \<Longrightarrow> bom_step e db db' \<Longrightarrow> bom_reachable e db'"

lemma bom_step_safe: "bom_step e db db' \<Longrightarrow> bom_safe db db'"
  by (induction rule: bom_step.induct)
    (auto dest: createBomHeader_safe createDraftVersion_safe replaceDraftComponents_safe activateVersion_safe
      retireVersion_safe bom_safe_same)

lemma bom_reachable_ok: "bom_reachable e db \<Longrightarrow> bom_ok db"
proof (induction rule: bom_reachable.induct)
  case (start db)
  then have "row_edges db {} = {}" by (auto simp: row_edges_def)
  with start show ?case by (simp add: bom_ok_def acyclic_def)
next
  case (onward db db')
  then show ?case using bom_step_safe by (auto simp: bom_safe_def)
qed

end
