(* ===== verification/BomProps.thy ===== *)
theory BomProps
  imports BomLaws StockExample "HOL-Library.Code_Target_Nat"
begin

text \<open>
  Properties of the bills of materials: the cycle check, the invariant of every reachable state, frozen
  recipes. The example is a dough of flour, and a bread that may use the dough but not the other way
  round.
\<close>

section \<open>An example\<close>

definition bx_env :: env where
  "bx_env = \<lparr>env_uuid = (\<lambda>n. [''abcdefghijklmnop'' ! n]), env_today = ''2026-01-02'',
     env_collate = (\<lambda>_ _. True), env_sha256 = (\<lambda>_. []), env_stockPostingDisabled = None\<rparr>"

definition bx_item :: "string \<Rightarrow> item" where
  "bx_item i = \<lparr>i_id = i, i_code = i, i_unit = ''kg'', i_itemType = WIP, i_isActive = True, i_shelfLifeDays = None\<rparr>"

definition bx_start :: production_db where
  "bx_start = \<lparr>
     db_warehouses = [], db_items = [bx_item ''F'', bx_item ''D'', bx_item ''B''], db_conversions = [], db_lots = [],
     db_balances = [], db_users = [\<lparr>u_id = ''U1'', u_name = ''Ann'', u_role = ''OWNER'', u_active = True\<rparr>],
     db_sessions = [], db_access = [], db_flags = [\<lparr>f_key = ''stock.production'', f_enabled = True, f_version = 1\<rparr>],
     db_openTopologyExceptions = 0, db_documents = [], db_postings = [], db_ledger = [],
     db_audit = [], db_outbox = [], db_ids = 0,
     pd_locations = [], pd_headers = [], pd_versions = [], pd_components = [], pd_jobs = [],
     pd_allocations = [], pd_outputs = [], pd_genealogy = [], pd_employees = []\<rparr>"

definition bx_header :: "string \<Rightarrow> create_header_input" where
  "bx_header i = \<lparr>ch_actorUserId = ''U1'', ch_sessionId = None, ch_code = i, ch_name = i, ch_outputItemId = i,
     ch_productionMode = None\<rparr>"

definition bx_version :: "string \<Rightarrow> create_version_input" where
  "bx_version h = \<lparr>cv_actorUserId = ''U1'', cv_sessionId = None, cv_bomHeaderId = h, cv_outputUom = ''kg'',
     cv_outputYieldQty = ''1'', cv_effectiveFrom = ''2026-01-02'', cv_effectiveTo = None, cv_remarks = None\<rparr>"

definition bx_act :: "string \<Rightarrow> bom_action" where
  "bx_act v = \<lparr>ba_actorUserId = ''U1'', ba_sessionId = None, ba_bomVersionId = v\<rparr>"

definition bx_line :: "string \<Rightarrow> component_input" where
  "bx_line i = \<lparr>ci_componentItemId = i, ci_enteredQuantity = ''0.000002'', ci_enteredUom = ''kg'', ci_scrapAllowancePct = None\<rparr>"

text \<open>Headers \<open>a\<close> (dough) and \<open>b\<close> (bread) with the drafts \<open>c\<close> and \<open>d\<close>; then the dough's lines, its activation.\<close>

definition bx_headers :: production_db where
  "bx_headers = fst (createBomHeader bx_env 0 (bx_header ''B'') (fst (createBomHeader bx_env 0 (bx_header ''D'') bx_start)))"

definition bx_drafts :: production_db where
  "bx_drafts = fst (createDraftVersion bx_env (bx_version ''b'') (fst (createDraftVersion bx_env (bx_version ''a'') bx_headers)))"

definition bx_lines :: production_db where
  "bx_lines = fst (replaceDraftComponents bx_env (bx_act ''d'') [bx_line ''D'']
     (fst (replaceDraftComponents bx_env (bx_act ''c'') [bx_line ''F''] bx_drafts)))"

definition bx_active :: production_db where
  "bx_active = fst (activateVersion (bx_act ''c'') bx_lines)"

definition bx_sees :: "production_db \<Rightarrow> bool" where
  "bx_sees db \<longleftrightarrow> map (\<lambda>v. (bv_id v, bv_status v)) (pd_versions db) = [(''c'', BV_ACTIVE), (''d'', BV_DRAFT)] \<and>
     bomRows db = [(''c'', ''D'', ''F''), (''d'', ''B'', ''D'')]"

definition bx_last :: "production_db \<Rightarrow> bool" where
  "bx_last db \<longleftrightarrow> bomRows db = [(''c'', ''D'', ''F''), (''d'', ''B'', ''D'')] \<and>
     snd (replaceDraftComponents bx_env (bx_act ''c'') [bx_line ''B''] db) = Inl (ProdCycle [''D'', ''B'', ''D'']) \<and>
     bx_sees (fst (activateVersion (bx_act ''c'') db))"

lemma bx_run: "bx_last bx_lines"
  unfolding bx_lines_def bx_drafts_def bx_headers_def by code_simp

lemma bx_bom_start: "bom_reachable bx_env bx_start"
  by (rule bom_reachable.start) (simp_all add: bx_start_def)

lemma bx_reaches:
  shows "bom_reachable bx_env bx_lines" and "bom_step bx_env bx_lines bx_active"
  unfolding bx_active_def bx_lines_def bx_drafts_def bx_headers_def
  by (intro bom_reachable.onward [OF _ bom_step.header [OF prod.collapse [symmetric]]]
      bom_reachable.onward [OF _ bom_step.version [OF prod.collapse [symmetric]]]
      bom_reachable.onward [OF _ bom_step.components [OF prod.collapse [symmetric]]] bx_bom_start
      bom_step.activated [OF prod.collapse [symmetric]])+

lemma bx_seen: "bx_sees bx_active"
  using bx_run unfolding bx_last_def bx_active_def by blast

lemma bx_active_reachable: "bom_reachable bx_env bx_active"
  by (rule bom_reachable.onward [OF bx_reaches])

section \<open>The cycle check\<close>

text \<open>C25: The breadth-first search decides whether the bills of materials stay free of cycles: it lets a
  recipe pass exactly when, with its lines in place of the old ones of its version, no chain of active and
  draft versions leads from the output item back to itself; otherwise the path it reports is such a chain.\<close>

theorem bom_cycle_check:
  fixes db :: "'z production_db_scheme"
  shows "case assertNoCycle db out x ps of
      Inr _ \<Rightarrow> (out, out) \<notin> (row_edges db {x} \<union> {out} \<times> set ps)\<^sup>+
    | Inl err \<Rightarrow> \<exists>t. err = ProdCycle (out # t @ [out]) \<and>
        successively (\<lambda>a b. (a, b) \<in> row_edges db {x} \<union> {out} \<times> set ps) (out # t @ [out])"
  using assertNoCycle_spec [where db = db and out = out and x = x and ps = ps] unfolding is_cycle_def .

section \<open>Reachable states\<close>

text \<open>C24: Whatever headers, drafts, lines, activations and retirements are requested, in any order, no item
  is ever, directly or through other recipes, a component of itself; a header has one active version
  at most; and every version that was activated has components, in positive quantities.\<close>

theorem boms_acyclic:
  fixes db :: "'z production_db_scheme"
  assumes "bom_reachable e db"
  shows "acyclic (row_edges db {}) \<and>
    (\<forall>v \<in> set (pd_versions db). \<forall>w \<in> set (pd_versions db).
       bv_status v = BV_ACTIVE \<and> bv_status w = BV_ACTIVE \<and> bv_bomHeaderId v = bv_bomHeaderId w \<longrightarrow> v = w) \<and>
    (\<forall>v \<in> set (pd_versions db). bv_status v \<noteq> BV_DRAFT \<longrightarrow>
       (\<exists>c \<in> set (pd_components db). bc_bomVersionId c = bv_id v \<and> 0 < bc_baseQuantity c))"
proof -
  note ok = bom_reachable_ok [OF assms]
  have "\<exists>c \<in> set (pd_components db). bc_bomVersionId c = bv_id v \<and> 0 < bc_baseQuantity c"
    if "v \<in> set (pd_versions db)" "bv_status v \<noteq> BV_DRAFT" for v
  proof -
    have "bv_id v \<in> bc_bomVersionId ` set (pd_components db)" using ok that unfolding bom_ok_def by blast
    then obtain c where "c \<in> set (pd_components db)" "bc_bomVersionId c = bv_id v" by auto
    with bom_okD(6) [OF ok] show ?thesis by blast
  qed
  then show ?thesis using ok unfolding bom_ok_def by blast
qed

theorem boms_acyclic_witness:
  "(''D'', ''F'') \<in> row_edges bx_active {} \<and> (''B'', ''D'') \<in> row_edges bx_active {} \<and> acyclic (row_edges bx_active {})"
proof -
  have rows: "set (bomRows bx_active) = {(''c'', ''D'', ''F''), (''d'', ''B'', ''D'')}"
    using bx_seen by (simp add: bx_sees_def)
  have edge: "(a, b) \<in> row_edges bx_active {}" if "(i, a, b) \<in> set (bomRows bx_active)" for i a b
    using that unfolding mem_bomRows mem_row_edges by blast
  show ?thesis using boms_acyclic [OF bx_active_reachable] edge rows by auto
qed

text \<open>The statuses only move on, and what is no draft keeps its lines.\<close>

lemma bom_run_keeps:
  fixes db :: "'z production_db_scheme"
  assumes "bom_reachable e db" and "(bom_step e)\<^sup>*\<^sup>* db db'"
  shows "bom_reachable e db' \<and> (\<forall>v \<in> set (pd_versions db). \<exists>w \<in> set (pd_versions db'). bv_id w = bv_id v \<and>
    bv_outputYieldQty w = bv_outputYieldQty v \<and> (bv_status v, bv_status w) \<in> bom_lifecycle\<^sup>* \<and>
    (bv_status v \<noteq> BV_DRAFT \<longrightarrow> {c \<in> set (pd_components db'). bc_bomVersionId c = bv_id v} =
       {c \<in> set (pd_components db). bc_bomVersionId c = bv_id v}))"
  using assms(2)
proof (induction rule: rtranclp_induct)
  case base
  show ?case using assms(1) by auto
next
  case (step y z)
  from step.IH have ok: "bom_ok y" by (auto dest: bom_reachable_ok)
  with bom_step_safe [OF step.hyps(2)] have moves: "bom_moves y z" by (simp add: bom_safe_def)
  show ?case
  proof (intro conjI ballI)
    show "bom_reachable e z" using step by (blast intro: bom_reachable.onward)
  next
    fix v
    assume "v \<in> set (pd_versions db)"
    with step.IH obtain w where w: "w \<in> set (pd_versions y)" "bv_id w = bv_id v" "bv_outputYieldQty w = bv_outputYieldQty v"
      and ws: "(bv_status v, bv_status w) \<in> bom_lifecycle\<^sup>*"
      and wc: "bv_status v \<noteq> BV_DRAFT \<longrightarrow> {c \<in> set (pd_components y). bc_bomVersionId c = bv_id v} =
        {c \<in> set (pd_components db). bc_bomVersionId c = bv_id v}" by blast
    from moves w(1) obtain x where x: "x \<in> set (pd_versions z)" "bv_id x = bv_id w" "bv_outputYieldQty x = bv_outputYieldQty w"
      and xs: "bv_status x = bv_status w \<or> (bv_status w, bv_status x) \<in> bom_lifecycle"
      and xc: "bv_status w \<noteq> BV_DRAFT \<longrightarrow> {c \<in> set (pd_components z). bc_bomVersionId c = bv_id w} =
        {c \<in> set (pd_components y). bc_bomVersionId c = bv_id w}" unfolding bom_moves_def by blast
    have "(bv_status v, bv_status x) \<in> bom_lifecycle\<^sup>*" using ws xs by auto
    moreover have "bv_status v \<noteq> BV_DRAFT \<Longrightarrow> bv_status w \<noteq> BV_DRAFT"
      using ws by (induction rule: rtrancl_induct) (auto simp: bom_lifecycle_def)
    ultimately show "\<exists>x \<in> set (pd_versions z). bv_id x = bv_id v \<and> bv_outputYieldQty x = bv_outputYieldQty v \<and>
        (bv_status v, bv_status x) \<in> bom_lifecycle\<^sup>* \<and>
        (bv_status v \<noteq> BV_DRAFT \<longrightarrow> {c \<in> set (pd_components z). bc_bomVersionId c = bv_id v} =
           {c \<in> set (pd_components db). bc_bomVersionId c = bv_id v})"
      using w x wc xc by (intro bexI [OF _ x(1)]) simp
  qed
qed

text \<open>C26: A recipe in use is never rewritten: over any run of requests no version disappears, its yield is
  what it was, its status only goes from draft to active to retired, and once it is no draft its components
  are the same rows for ever.\<close>

theorem recipes_frozen:
  fixes db :: "'z production_db_scheme"
  assumes "bom_reachable e db" and "(bom_step e)\<^sup>*\<^sup>* db db'" and "v \<in> set (pd_versions db)"
  shows "\<exists>w \<in> set (pd_versions db'). bv_id w = bv_id v \<and> bv_outputYieldQty w = bv_outputYieldQty v \<and>
    (bv_status v, bv_status w) \<in> {(BV_DRAFT, BV_ACTIVE), (BV_ACTIVE, BV_RETIRED)}\<^sup>* \<and>
    (bv_status v \<noteq> BV_DRAFT \<longrightarrow> {c \<in> set (pd_components db'). bc_bomVersionId c = bv_id v} =
       {c \<in> set (pd_components db). bc_bomVersionId c = bv_id v})"
  using bom_run_keeps [OF assms(1,2)] assms(3) unfolding bom_lifecycle_def by blast

text \<open>The dough is retired after its activation.\<close>

theorem recipes_frozen_witness:
  "\<exists>v \<in> set (pd_versions bx_active). bv_status v = BV_ACTIVE \<and>
    (\<exists>w \<in> set (pd_versions (fst (retireVersion (bx_act ''c'') bx_active))). bv_id w = bv_id v)"
proof -
  have "BV_ACTIVE \<in> bv_status ` set (pd_versions bx_active)"
    using bx_seen by (auto simp: bx_sees_def map_eq_Cons_conv)
  then obtain v where v: "v \<in> set (pd_versions bx_active)" "bv_status v = BV_ACTIVE" by auto
  have "(bom_step bx_env)\<^sup>*\<^sup>* bx_active (fst (retireVersion (bx_act ''c'') bx_active))"
    by (intro r_into_rtranclp bom_step.retired [OF prod.collapse [symmetric]])
  from recipes_frozen [OF bx_active_reachable this v(1)] v show ?thesis by blast
qed

end
