(* ===== verification/Spec2Isabelle.thy ===== *)
theory Spec2Isabelle
  imports BaseProps PostingProps Reconciliation TransferProps PrintProps OutboundProps OrderProps
    ReturnProps BomProps
begin

text \<open>
  The core of the ckitchen backend, a multi-outlet restaurant and commissary server, as it stands
  under \<open>src/src/modules\<close>. The server is an HTTP program over PostgreSQL. What is verified is what its
  stock depends on: exact quantities, who may touch which outlet, the one service through which all
  stock moves, the daily comparison of its books, and the transfer orders built on top of it.

  \<^bold>\<open>Parts and how they interact.\<close> A request passes the session cache and the role and outlet guards
  (\<open>auth\<close>). Stock modules turn typed quantities into fixed-point text (\<open>units\<close>, \<open>stock/decimal.ts\<close>)
  and hand a list of movements to \<open>createStockPostingService().post\<close>, which canonicalizes and hashes
  the request, then in one transaction claims the idempotency key, checks actor, flags, route and
  lots, plans the ledger lines, updates balances and advances the source document. The inventory
  reconciliation compares its balances with the compatibility table and switches posting off when
  they drift. The transfer orders are a client of the posting service: their dispatch and receipt run
  a preparing transaction, the posting, and a finalizing transaction, with gaps in between where other
  requests run. Two queues stand beside the stock: kitchen tickets, which print agents pull and
  acknowledge (\<open>printing\<close>), and commands to the delivery aggregators, which a worker hands to an
  adapter (\<open>outbound\<close>). Both claim rows under a lease with one conditional update. Orders
  (\<open>orders/service.ts\<close>) feed both queues: taking an order prices it, snapshots its recipes, prints its
  tickets and reserves its ingredients; advancing it takes them out of the kitchen's compatibility
  stock with doubles and writes the legacy ledger; cancelling gives them back.

  \<^bold>\<open>Theories.\<close>
  \<^item> Prelude: results as sums (\<open>bindE\<close>, \<open>mapE\<close>, \<open>foldE\<close>), sorting, generic lemmas; JsText: the
    string and number functions of JavaScript the code uses.
  \<^item> Decimal (\<open>stock/decimal.ts\<close>) and Units (\<open>units/catalog.ts\<close>, \<open>units/service.ts\<close>).
  \<^item> Access (\<open>auth/roles.ts\<close>, \<open>auth/middleware.ts\<close>, \<open>auth/outlet-scope.ts\<close>) and SessionCache
    (\<open>auth/session-cache.ts\<close>), whose two caches are instances of one locale.
  \<^item> StockTypes: the tables (one record \<open>stock_db\<close>, extensible by the tables of other modules), the
    errors, transactions (\<open>run_tx\<close>) and the parameters of the environment.
  \<^item> Canonical (\<open>stock/canonical.ts\<close>) and PostingService (\<open>stock/posting-service.ts\<close>,
    \<open>stock/errors.ts\<close>, \<open>stock/warehouse-resolver.ts\<close>): one definition per step, composed as the code
    composes them; PostingFacts, PostingLaws: what each step keeps and what an accepted posting has
    done (\<open>applied_posting\<close>); StockExample: a concrete posting; PostingProps and BaseProps: properties.
  \<^item> Reconciliation (\<open>stock/reconciliation-service.ts\<close>).
  \<^item> StockDocs: what the document services share: the guard of an actor, unit conversion, the
    operational documents, and the locales \<open>stock_poster\<close>, the contract they need of the posting
    service, interpreted on \<open>post\<close>, and \<open>row_stamping\<close> for the rows of finalizing transactions.
  \<^item> Transfers, TransferService (\<open>transfers/\<close>, \<open>db/transfer-orders-schema.ts\<close>): data, policies, lines,
    and every operation; TransferLaws: what one operation keeps; TransferSteps: all requests
    as steps of a relation, dispatches and receipts split into their three transactions, and the
    invariant \<open>world_ok\<close> of every reachable state; TransferExample, DispatchExample: one order from its
    draft to its dispatch; TransferProps: the properties.
  \<^item> Returns, ReturnService (\<open>stock-returns/\<close>, \<open>db/returns-schema.ts\<close>) and QaRelease (\<open>qa-releases/\<close>):
    data, policies, lines and every operation of the two services; ReturnLaws, ReturnPhases, QaLaws,
    QaPhases: what one operation and what each of the three transactions of a dispatch, a receipt and
    a release keeps; ReturnSteps: all requests as steps of a relation and the invariant of its
    reachable states, proved in the locale \<open>return_poster\<close> and interpreted on \<open>post\<close>; ReturnEffects: what
    a whole operation does to the balances; ReturnExample: one return from draft to release;
    ReturnProps: the properties.
  \<^item> Production (\<open>db/production-schema.ts\<close>, \<open>production/policies.ts\<close>, \<open>types.ts\<close>, \<open>errors.ts\<close>): data and
    guards; BomService (\<open>production/service.ts\<close>): the bills of materials with the search for cycles;
    BomLaws: the search is right, and what every operation keeps; BomProps: an example and the properties.
  \<^item> Lease: the locales \<open>lease_queue\<close> and \<open>leased_work\<close>, the contract of a queue with leases.
  \<^item> Printing (\<open>printing/service.ts\<close>, \<open>agent-auth.ts\<close>) and PrintSpool (\<open>service-v2.ts\<close>, the guards in
    \<open>routes.ts\<close>): jobs, attempts, agents, the lease protocol; PrintLaws: the contract holds for print
    jobs, and the statements of the protocol as steps of a relation; PrintRequests: what one request
    of an agent keeps; PrintProps: the properties.
  \<^item> Outbound (\<open>outbound/service.ts\<close>, \<open>policies.ts\<close>, \<open>types.ts\<close>) and OutboundWorker (\<open>worker.ts\<close>, the
    disputes): enqueueing, sending, disputes; OutboundLaws: the contract holds for commands, and
    requests and workers as steps of a relation; OutboundProps: the properties.

  \<^item> JsNumber: JavaScript's doubles as rationals (\<open>fl\<close> rounds to the nearest, \<open>shortest\<close> is what \<open>String\<close>
    prints, \<open>to_fixed\<close>), and when sums of scaled integers are exact.
  \<^item> Orders (\<open>db/schema.ts\<close>, \<open>inventory/ledger.ts\<close>, \<open>commercial-terms/service.ts\<close>, codes and stages of
    \<open>orders/service.ts\<close>), OrderIngest (\<open>ingestOrder\<close>) and OrderStages (\<open>advanceOrder\<close>, \<open>cancelOrder\<close> and
    the reads); OrderLaws: what each transaction keeps; OrderSteps: all requests as steps of a relation;
    OrderExample: concrete runs; OrderProps: the properties.

  \<^bold>\<open>What the lemmas show.\<close> Postings conserve stock exactly, keep the balance constraints, agree with
  the ledger, never take more than is there and free, happen once per key and once per document, and are made by users who may
  make them along allowed routes from eligible lots. Reconciliation passes exactly when the books
  agree. Transfer orders keep their line quantities, status machine and separation of duties under any
  interleaving, and a dispatch moves exactly its lines. Returns and releases keep separation of duties, their
  status machines and their submitted lines, a return is received once and in full, no receipt is released beyond what it
  received, and dispatch, receipt and release change exactly the balances they should. No recipe is ever
  a part of itself, the search for such cycles is right in both directions, and a recipe in use is never
  rewritten. Leases are exclusive; a print job is printed
  at most once in its history and resolved jobs never change; the oldest free job is handed out; agents
  stay within their location; commands are enqueued once per key, are sent or dead for good, and none
  that accepts an order is enqueued after its rejection. An order takes exactly the portions of its
  items although the code adds doubles; over any run kitchen stock plus what orders hold is constant
  and agrees with the ledger; a cancellation restores the balances; a stale transition is refused; a
  repeated request answers with the same order; with the snapshot flag on, what was reserved is what
  is deducted. Several properties state what the code does
  not prevent: a cancellation between the posting and the end of a dispatch, a lost dispatch that can
  no longer be retried, a print job that lapsed leases keep from every later claim, an acknowledgement refused because an
  older lease was folded late, a release in a larger unit whose submission scales its quantity twice,
  released lots without an expiry date, an acceptance sent after the rejection was enqueued, and two walk-ins
  planned on the same stock that both reserve it.

  \<^bold>\<open>Conventions.\<close> Ids are text without a colon (they are UUIDs), compared as text. A transaction is a
  function on the database: the code locks the rows it reads with \<open>FOR UPDATE\<close> and the conditional
  updates are modelled with their conditions. The cycle check reads other recipes without a lock, but
  every transaction that writes a recipe holds the row of the feature flag, so they run one by one. Timestamps (but the creation time an order is listed
  by), error messages and display names are left out. SHA-256, the collation of \<open>localeCompare\<close> and of
  the database, fresh UUIDs, the date and the configuration are the parameters in the record \<open>env\<close>;
  what a serialization failure does to a transaction is the argument \<open>aborts\<close>; what other requests do
  in the gaps of a dispatch, a receipt, an enqueue or a dispute are the arguments \<open>gap\<close>, \<open>gap1\<close> and
  \<open>gap2\<close>. The orders have a \<open>gap\<close> between
  reading and their transaction, \<open>gap2\<close> and \<open>gap3\<close> around the hook after it; \<open>rnd\<close> are the random bytes
  of an order code. A query without ORDER BY returns rows in the order of the table. The WALK_IN channel
  is looked up, not created, when a listing is inserted. Foreign keys are not modelled. A function of
  the queues that is called with a time reads its clock once. What the adapter
  answers and what \<open>Date.parse\<close> accepts are parameters. The retry loop is total:
  its measure is the number of retries left, so no fuel is needed.

  \<^bold>\<open>Not modelled.\<close> The HTTP routes (but the guards of the printing handlers), the CRUD modules, the
  aggregator clients and reports (input and output, or plain queries); the acknowledgement of the older
  pull loop is modelled but is not a step of the lease protocol, because it rewrites a resolved job;
  of returns and releases the helper \<open>assertBatchActorAuthorized\<close>, which nothing
  calls; job orders, customer orders, purchasing and discounts: their stock effects go through the same
  posting service and can rest on the contract \<open>stock_poster\<close>.
\<close>

end
